(* ===== verification/Js_Prelude.thy ===== *)
theory Js_Prelude
  imports Main "HOL-Library.Char_ord" "HOL-Library.List_Lexorder" "HOL-Library.Code_Target_Nat"
begin

text \<open>
  Shared vocabulary of the development.

  The TypeScript sources report every refusal by throwing an error object that carries a
  code. Here such a function returns a value of the sum type \<open>'e + 'a\<close>: \<open>Inl\<close> is the thrown
  code, \<open>Inr\<close> the returned value. \<open>res_bind\<close> sequences two such computations, \<open>require\<close> is a
  guard that throws, \<open>res_map\<close> is \<^verbatim>\<open>Array.prototype.map\<close> with a callback that may throw.
  The collection \<open>res_simps\<close> inverts successful computations, so that a property of an
  accepted input starts with \<open>auto simp: res_simps\<close>.

  The second part holds list and order lemmas used by several components: JavaScript
  compares strings by code units from the left, which is the lexicographic order of
  \<^verbatim>\<open>HOL-Library.List_Lexorder\<close> over \<^verbatim>\<open>HOL-Library.Char_ord\<close>.
\<close>

named_theorems res_simps \<open>inversion of successful computations\<close>

subsection \<open>Computations that may throw\<close>

fun res_bind :: "'e + 'a \<Rightarrow> ('a \<Rightarrow> 'e + 'b) \<Rightarrow> 'e + 'b" where
  "res_bind (Inl e) f = Inl e"
| "res_bind (Inr x) f = f x"

definition require :: "'e \<Rightarrow> bool \<Rightarrow> 'e + unit" where
  "require e b = (if b then Inr () else Inl e)"

fun res_map :: "('a \<Rightarrow> 'e + 'b) \<Rightarrow> 'a list \<Rightarrow> 'e + 'b list" where
  "res_map f [] = Inr []"
| "res_map f (x # xs) = res_bind (f x) (\<lambda>y. res_bind (res_map f xs) (\<lambda>ys. Inr (y # ys)))"

definition of_option :: "'e \<Rightarrow> 'a option \<Rightarrow> 'e + 'a" where
  "of_option e x = (case x of None \<Rightarrow> Inl e | Some y \<Rightarrow> Inr y)"

text \<open>\<^verbatim>\<open>try { m } catch { throw e }\<close>: every error of \<open>m\<close> becomes \<open>e\<close>.\<close>

definition rethrow :: "'e \<Rightarrow> 'f + 'a \<Rightarrow> 'e + 'a" where
  "rethrow e m = (case m of Inl _ \<Rightarrow> Inl e | Inr x \<Rightarrow> Inr x)"

text \<open>The same with the error renamed by a function, where one module calls another.\<close>

definition lift_error :: "('f \<Rightarrow> 'e) \<Rightarrow> 'f + 'a \<Rightarrow> 'e + 'a" where
  "lift_error g m = (case m of Inl e \<Rightarrow> Inl (g e) | Inr x \<Rightarrow> Inr x)"

lemma res_bind_eq_Inr [res_simps]:
  "(res_bind m f = Inr y) = (\<exists>x. m = Inr x \<and> f x = Inr y)"
  by (cases m) auto

lemma res_bind_eq_Inl:
  "(res_bind m f = Inl e) = (m = Inl e \<or> (\<exists>x. m = Inr x \<and> f x = Inl e))"
  by (cases m) auto

lemma require_eq_Inr [res_simps]: "(require e b = Inr u) = b"
  by (simp add: require_def)

lemma require_eq_Inl: "(require e b = Inl e') = (\<not> b \<and> e' = e)"
  by (auto simp: require_def)

lemma require_simps [simp]: "require e True = Inr ()" "require e False = Inl e"
  by (simp_all add: require_def)

lemma of_option_simps [simp]: "of_option e None = Inl e" "of_option e (Some x) = Inr x"
  by (simp_all add: of_option_def)

lemma of_option_eq_Inr [res_simps]: "(of_option e m = Inr y) = (m = Some y)"
  by (cases m) auto

lemma rethrow_simps [simp]: "rethrow e (Inl d) = Inl e" "rethrow e (Inr x) = Inr x"
  by (simp_all add: rethrow_def)

lemma rethrow_eq_Inr [res_simps]: "(rethrow e m = Inr y) = (m = Inr y)"
  by (cases m) auto

lemma rethrow_eq_InlD: "rethrow e m = Inl d \<Longrightarrow> d = e"
  by (cases m) auto

lemma lift_error_simps [simp]: "lift_error g (Inl d) = Inl (g d)" "lift_error g (Inr x) = Inr x"
  by (simp_all add: lift_error_def)

lemma lift_error_eq_Inr [res_simps]: "(lift_error g m = Inr y) = (m = Inr y)"
  by (cases m) auto

lemma res_map_eq_Inr:
  "(res_map f xs = Inr ys) = list_all2 (\<lambda>x y. f x = Inr y) xs ys"
proof (induction xs arbitrary: ys)
  case Nil
  then show ?case by auto
next
  case (Cons x xs)
  then show ?case by (cases ys) (auto simp: res_simps)
qed

lemma res_map_length: "res_map f xs = Inr ys \<Longrightarrow> length ys = length xs"
  by (auto simp: res_map_eq_Inr dest: list_all2_lengthD)

lemma res_map_all:
  assumes "res_map f xs = Inr ys" and "\<And>x y. f x = Inr y \<Longrightarrow> P y"
  shows "\<forall>y \<in> set ys. P y"
proof -
  from assms(1) have "list_all2 (\<lambda>x y. f x = Inr y) xs ys" by (simp add: res_map_eq_Inr)
  then show ?thesis
    by (induction rule: list_all2_induct) (auto intro: assms(2))
qed

lemma res_map_Inr_map:
  "(\<And>x. x \<in> set xs \<Longrightarrow> f (g x) = Inr (h x)) \<Longrightarrow> res_map f (map g xs) = Inr (map h xs)"
  by (induction xs) auto

subsection \<open>Fixed-width patterns\<close>

text \<open>
  A regular expression without repetition operators other than fixed counts matches a
  string exactly when the string has the pattern's length and each character is in its
  class.
\<close>

definition char_in :: "string \<Rightarrow> char \<Rightarrow> bool" where
  "char_in cs c = (c \<in> set cs)"

definition matches_classes :: "string list \<Rightarrow> string \<Rightarrow> bool" where
  "matches_classes ps s = list_all2 char_in ps s"

lemma matches_classes_simps [simp]:
  "matches_classes [] s = (s = [])"
  "matches_classes (p # ps) [] = False"
  "matches_classes (p # ps) (c # s) = (c \<in> set p \<and> matches_classes ps s)"
  by (auto simp: matches_classes_def char_in_def)

lemma matches_classes_length: "matches_classes ps s \<Longrightarrow> length s = length ps"
  by (auto simp: matches_classes_def dest: list_all2_lengthD)

text \<open>\<^verbatim>\<open>s.startsWith(p)\<close>\<close>

definition starts_with :: "string \<Rightarrow> string \<Rightarrow> bool" where
  "starts_with p s = (take (length p) s = p)"

lemma starts_with_append [simp]: "starts_with p (p @ s)"
  by (simp add: starts_with_def)

lemma starts_withD: "starts_with p s \<Longrightarrow> s = p @ drop (length p) s"
  unfolding starts_with_def by (metis append_take_drop_id)

subsection \<open>Lexicographic order of strings\<close>

lemma lex_append_less:
  fixes a b :: "'a::linorder list"
  shows "length a = length a' \<Longrightarrow> (a @ b < a' @ b') = (a < a' \<or> (a = a' \<and> b < b'))"
proof (induction a a' rule: list_induct2)
  case Nil
  then show ?case by simp
next
  case (Cons x xs y ys)
  then show ?case by auto
qed

lemma lex_same_prefix:
  fixes b :: "'a::linorder list"
  shows "(a @ b < a @ b') = (b < b')"
  by (simp add: lex_append_less)

lemma mixed_radix_less:
  fixes a a' r r' k :: int
  assumes "0 \<le> r" "r < k" "0 \<le> r'" "r' < k"
  shows "(a * k + r < a' * k + r') = (a < a' \<or> (a = a' \<and> r < r'))"
proof -
  have less: "x * k + u < y * k + v" if "x < y" "u < k" "0 \<le> v" for x y u v
  proof -
    have "x + 1 \<le> y" using that by simp
    then have "(x + 1) * k \<le> y * k"
      using assms by (intro mult_right_mono) auto
    then have "x * k + k \<le> y * k" by (simp add: distrib_right)
    then show ?thesis using that by linarith
  qed
  consider "a < a'" | "a = a'" | "a' < a" by linarith
  then show ?thesis
  proof cases
    case 1
    then show ?thesis using less [of a a' r r'] assms by simp
  next
    case 2
    then show ?thesis by simp
  next
    case 3
    then show ?thesis using less [of a' a r' r] assms by auto
  qed
qed

lemma mixed_radix_eq:
  fixes a a' r r' k :: int
  assumes "0 \<le> r" "r < k" "0 \<le> r'" "r' < k"
  shows "(a * k + r = a' * k + r') = (a = a' \<and> r = r')"
  using mixed_radix_less [OF assms, of a a'] mixed_radix_less [OF assms(3,4,1,2), of a' a]
  by (metis linorder_neqE less_irrefl)

lemma mixed_radix_less_nat:
  fixes a a' r r' k :: nat
  assumes "r < k" "r' < k"
  shows "(a * k + r < a' * k + r') = (a < a' \<or> (a = a' \<and> r < r'))"
  using mixed_radix_less [of "int r" "int k" "int r'" "int a" "int a'"] assms
  by (simp flip: of_nat_mult of_nat_add)

end
