(* ===== verification/Decimal_Text.thy ===== *)
theory Decimal_Text
  imports Js_Prelude
begin

text \<open>
  Unsigned decimal texts. Amounts, positions and versions cross the program's boundaries as
  decimal strings; the code tests them with regular expressions, compares them as strings
  and converts them with \<^verbatim>\<open>BigInt(text)\<close> and \<^verbatim>\<open>value.toString()\<close>. \<open>dec_val\<close> is the first
  conversion, \<open>nat_text\<close> the second, \<open>canonical_nat\<close> the pattern \<^verbatim>\<open>^(?:0|[1-9][0-9]*)$\<close> and
  \<open>positive_nat\<close> the pattern \<^verbatim>\<open>^[1-9][0-9]*$\<close>. The lemmas give the two round trips, the
  relation between length and magnitude, and that equal-length texts compare as numbers.
\<close>

definition is_digit :: "char \<Rightarrow> bool" where
  "is_digit c = (c \<in> set ''0123456789'')"

definition digit_val :: "char \<Rightarrow> nat" where
  "digit_val c = of_char c - 48"

definition digit_char :: "nat \<Rightarrow> char" where
  "digit_char d = ''0123456789'' ! d"

definition dec_val :: "string \<Rightarrow> nat" where
  "dec_val s = foldl (\<lambda>acc c. 10 * acc + digit_val c) 0 s"

fun nat_text :: "nat \<Rightarrow> string" where
  "nat_text n = (if n < 10 then [digit_char n] else nat_text (n div 10) @ [digit_char (n mod 10)])"

declare nat_text.simps [simp del]

fun pad_text :: "nat \<Rightarrow> nat \<Rightarrow> string" where
  "pad_text 0 n = []"
| "pad_text (Suc k) n = pad_text k (n div 10) @ [digit_char (n mod 10)]"

definition canonical_nat :: "string \<Rightarrow> bool" where
  "canonical_nat s = (s \<noteq> [] \<and> list_all is_digit s \<and> (hd s = CHR ''0'' \<longrightarrow> s = ''0''))"

definition positive_nat :: "string \<Rightarrow> bool" where
  "positive_nat s = (s \<noteq> [] \<and> list_all is_digit s \<and> hd s \<noteq> CHR ''0'')"

subsection \<open>Digits\<close>

lemma digit_cases:
  fixes d :: nat
  assumes "d < 10"
  shows "d = 0 \<or> d = 1 \<or> d = 2 \<or> d = 3 \<or> d = 4 \<or> d = 5 \<or> d = 6 \<or> d = 7 \<or> d = 8 \<or> d = 9"
  using assms by arith

lemma digit_char_digit [simp]: "d < 10 \<Longrightarrow> is_digit (digit_char d)"
  by (drule digit_cases) (auto simp: is_digit_def digit_char_def)

lemma digit_val_char [simp]: "d < 10 \<Longrightarrow> digit_val (digit_char d) = d"
  by (drule digit_cases) (auto simp: digit_val_def digit_char_def)

lemma digit_val_less: "is_digit c \<Longrightarrow> digit_val c < 10"
  by (auto simp: is_digit_def digit_val_def)

lemma digit_char_val: "is_digit c \<Longrightarrow> digit_char (digit_val c) = c"
  by (auto simp: is_digit_def digit_char_def digit_val_def)

lemma digit_char_zero: "digit_char 0 = CHR ''0''"
  by (simp add: digit_char_def)

lemma digit_char_eq_zero: "d < 10 \<Longrightarrow> (digit_char d = CHR ''0'') = (d = 0)"
  by (metis digit_char_zero digit_val_char zero_less_numeral)

lemma digit_val_eq_zero: "is_digit c \<Longrightarrow> (digit_val c = 0) = (c = CHR ''0'')"
  by (auto simp: is_digit_def digit_val_def)

lemma digit_less: "is_digit c \<Longrightarrow> is_digit d \<Longrightarrow> (c < d) = (digit_val c < digit_val d)"
  by (auto simp: is_digit_def digit_val_def less_char_def)

lemma digit_eq: "is_digit c \<Longrightarrow> is_digit d \<Longrightarrow> (c = d) = (digit_val c = digit_val d)"
  by (metis digit_char_val)

subsection \<open>Values\<close>

lemma dec_val_Nil [simp]: "dec_val [] = 0"
  by (simp add: dec_val_def)

lemma dec_val_snoc: "dec_val (s @ [c]) = 10 * dec_val s + digit_val c"
  by (simp add: dec_val_def)

lemma dec_val_append: "dec_val (a @ b) = dec_val a * 10 ^ length b + dec_val b"
proof (induction b rule: rev_induct)
  case Nil
  then show ?case by simp
next
  case (snoc c b)
  have "dec_val (a @ b @ [c]) = 10 * dec_val (a @ b) + digit_val c"
    by (metis append_assoc dec_val_snoc)
  then show ?case by (simp add: snoc dec_val_snoc algebra_simps)
qed

lemma dec_val_single [simp]: "dec_val [c] = digit_val c"
  by (simp add: dec_val_def)

lemma dec_val_Cons: "dec_val (c # s) = digit_val c * 10 ^ length s + dec_val s"
  using dec_val_append [of "[c]" s] by simp

lemma dec_val_less: "list_all is_digit s \<Longrightarrow> dec_val s < 10 ^ length s"
proof (induction s)
  case Nil
  then show ?case by simp
next
  case (Cons c s)
  then have "dec_val s < 10 ^ length s" and "digit_val c < 10"
    by (simp_all add: digit_val_less)
  then have "digit_val c * 10 ^ length s + dec_val s < (digit_val c + 1) * 10 ^ length s"
    by simp
  also have "\<dots> \<le> 10 * 10 ^ length s"
    using \<open>digit_val c < 10\<close> by (intro mult_right_mono) auto
  finally show ?case by (simp add: dec_val_Cons)
qed

lemma dec_less:
  "length a = length b \<Longrightarrow> list_all is_digit a \<Longrightarrow> list_all is_digit b \<Longrightarrow>
   (a < b) = (dec_val a < dec_val b)"
proof (induction a b rule: list_induct2)
  case Nil
  then show ?case by simp
next
  case (Cons c s d t)
  have "dec_val s < 10 ^ length t" "dec_val t < 10 ^ length t"
    using Cons dec_val_less [of s] dec_val_less [of t] by simp_all
  then show ?case
    using Cons by (simp add: dec_val_Cons mixed_radix_less_nat digit_less digit_eq)
qed

lemma dec_val_inject:
  "length a = length b \<Longrightarrow> list_all is_digit a \<Longrightarrow> list_all is_digit b \<Longrightarrow>
   dec_val a = dec_val b \<Longrightarrow> a = b"
  using dec_less [of a b] dec_less [of b a] by (metis less_irrefl linorder_neqE)

subsection \<open>Round trips\<close>

lemma nat_text_digits: "list_all is_digit (nat_text n)"
  by (induction n rule: nat_text.induct) (subst nat_text.simps, auto)

lemma nat_text_nonempty [simp]: "nat_text n \<noteq> []"
  by (subst nat_text.simps) simp

lemma dec_val_nat_text [simp]: "dec_val (nat_text n) = n"
proof (induction n rule: nat_text.induct)
  case (1 n)
  then show ?case by (subst nat_text.simps) (auto simp: dec_val_snoc)
qed

lemma nat_text_inject [simp]: "(nat_text m = nat_text n) = (m = n)"
  by (metis dec_val_nat_text)

lemma hd_nat_text: "0 < n \<Longrightarrow> hd (nat_text n) \<noteq> CHR ''0''"
proof (induction n rule: nat_text.induct)
  case (1 n)
  show ?case
  proof (cases "n < 10")
    case True
    with 1 show ?thesis by (simp add: nat_text.simps [of n] digit_char_eq_zero)
  next
    case False
    with 1 have "hd (nat_text (n div 10)) \<noteq> CHR ''0''" by simp
    with False show ?thesis by (simp add: nat_text.simps [of n])
  qed
qed

lemma nat_text_zero: "nat_text 0 = ''0''"
  by (simp add: nat_text.simps digit_char_zero)

lemma canonical_nat_text [simp]: "canonical_nat (nat_text n)"
  by (cases "n = 0") (auto simp: canonical_nat_def nat_text_zero nat_text_digits hd_nat_text is_digit_def)

lemma positive_nat_text [simp]: "0 < n \<Longrightarrow> positive_nat (nat_text n)"
  by (simp add: positive_nat_def nat_text_digits hd_nat_text)

lemma positive_nat_iff: "positive_nat s = (canonical_nat s \<and> s \<noteq> ''0'')"
  by (auto simp: positive_nat_def canonical_nat_def)

lemma positive_dec_val_ge: "positive_nat s \<Longrightarrow> 10 ^ (length s - 1) \<le> dec_val s"
proof (cases s)
  case Nil
  then show "positive_nat s \<Longrightarrow> ?thesis" by (simp add: positive_nat_def)
next
  case (Cons c t)
  assume "positive_nat s"
  then have "1 \<le> digit_val c"
    using Cons digit_val_eq_zero [of c] by (simp add: positive_nat_def)
  then have "1 * 10 ^ length t \<le> digit_val c * 10 ^ length t"
    by (intro mult_right_mono) auto
  then have "10 ^ length t \<le> digit_val c * 10 ^ length t + dec_val t" by linarith
  then show ?thesis by (simp add: Cons dec_val_Cons)
qed

lemma positive_dec_val: "positive_nat s \<Longrightarrow> 0 < dec_val s"
  using positive_dec_val_ge [of s] by (metis less_le_trans zero_less_numeral zero_less_power)

lemma nat_text_dec_val: "canonical_nat s \<Longrightarrow> nat_text (dec_val s) = s"
proof (induction s rule: rev_induct)
  case Nil
  then show ?case by (simp add: canonical_nat_def)
next
  case (snoc c s)
  show ?case
  proof (cases "s = []")
    case True
    with snoc show ?thesis
      by (simp add: nat_text.simps canonical_nat_def digit_val_less digit_char_val)
  next
    case False
    with snoc.prems have c: "is_digit c" and s: "positive_nat s"
      by (auto simp: canonical_nat_def positive_nat_def)
    then have "nat_text (dec_val s) = s"
      using snoc.IH by (simp add: positive_nat_iff)
    moreover have "0 < dec_val s" using s by (rule positive_dec_val)
    ultimately show ?thesis
      using c digit_val_less [OF c]
      by (subst nat_text.simps) (simp add: dec_val_snoc digit_char_val)
  qed
qed

lemma positive_dec_val_length:
  assumes "positive_nat s"
  shows "(length s \<le> k) = (dec_val s < 10 ^ k)"
proof
  assume "length s \<le> k"
  then have "10 ^ length s \<le> (10 ^ k :: nat)" by (intro power_increasing) auto
  moreover have "dec_val s < 10 ^ length s"
    using assms by (intro dec_val_less) (simp add: positive_nat_def)
  ultimately show "dec_val s < 10 ^ k" by linarith
next
  assume lt: "dec_val s < 10 ^ k"
  have "(10::nat) ^ (length s - 1) < 10 ^ k"
    using positive_dec_val_ge [OF assms] lt by linarith
  then have "length s - 1 < k" by (rule power_less_imp_less_exp [rotated]) simp
  then show "length s \<le> k" by simp
qed

text \<open>
  The bound test of the sources: a text is refused when it is longer than the limit's text
  or, at equal length, greater as a string. For canonical texts this is the comparison of
  the numbers.
\<close>

definition within_text_limit :: "string \<Rightarrow> string \<Rightarrow> bool" where
  "within_text_limit limit s = (\<not> (length s > length limit \<or> (length s = length limit \<and> s > limit)))"

lemma within_text_limit_iff:
  assumes s: "positive_nat s" and l: "positive_nat limit"
  shows "within_text_limit limit s = (dec_val s \<le> dec_val limit)"
proof -
  have ds: "list_all is_digit s" and dl: "list_all is_digit limit"
    using assms by (simp_all add: positive_nat_def)
  consider "length s < length limit" | "length s = length limit" | "length limit < length s"
    by linarith
  then show ?thesis
  proof cases
    case 1
    then have "length s \<le> length limit - 1" by linarith
    then have "dec_val s < 10 ^ (length limit - 1)"
      using positive_dec_val_length [OF s] by blast
    with 1 positive_dec_val_ge [OF l] show ?thesis
      by (simp add: within_text_limit_def)
  next
    case 2
    then show ?thesis
      using dec_less [of limit s] ds dl by (auto simp: within_text_limit_def)
  next
    case 3
    then have "\<not> dec_val s < 10 ^ length limit"
      using positive_dec_val_length [OF s, of "length limit"] by simp
    moreover have "dec_val limit < 10 ^ length limit" using dl by (rule dec_val_less)
    ultimately show ?thesis using 3 by (simp add: within_text_limit_def)
  qed
qed

subsection \<open>Fixed-width texts\<close>

lemma length_pad_text [simp]: "length (pad_text k n) = k"
  by (induction k n rule: pad_text.induct) auto

lemma pad_text_digits: "list_all is_digit (pad_text k n)"
  by (induction k n rule: pad_text.induct) auto

lemma dec_val_pad_text: "n < 10 ^ k \<Longrightarrow> dec_val (pad_text k n) = n"
proof (induction k n rule: pad_text.induct)
  case (1 n)
  then show ?case by simp
next
  case (2 k n)
  then have "n div 10 < 10 ^ k" by (simp add: less_mult_imp_div_less mult.commute)
  with 2 show ?case by (simp add: dec_val_snoc)
qed

lemma pad_text_less:
  "m < 10 ^ k \<Longrightarrow> n < 10 ^ k \<Longrightarrow> (pad_text k m < pad_text k n) = (m < n)"
  using dec_less [of "pad_text k m" "pad_text k n"]
  by (simp add: pad_text_digits dec_val_pad_text)

lemma pad_text_eq:
  "m < 10 ^ k \<Longrightarrow> n < 10 ^ k \<Longrightarrow> (pad_text k m = pad_text k n) = (m = n)"
  by (metis dec_val_pad_text)

end
