(* ===== verification/Js_Value.thy ===== *)
theory Js_Value
  imports Decimal_Text
begin

text \<open>
  JavaScript values as the validators see them. The sources never trust the shape of an
  argument: they read it through reflection (prototype, own property descriptors) and copy
  the own enumerable data properties. The model therefore keeps what reflection can see:
  the prototype of an object, its own properties in order with their descriptors, symbol
  keys, the length of an array, the time value of a date, and proxies. \<open>JRevoked\<close> is an
  object whose reflection throws (a revoked proxy), \<open>JProxy\<close> a proxy without traps. Proxies
  with traps of their own are not modelled.

  Strings are \<open>string\<close>s, so code units are below 256; every pattern of the sources accepts
  ASCII characters only. A number is an integer, a finite non-integer, an infinity or NaN.
\<close>

datatype jsproto = ProtoObject | ProtoNull | ProtoArray | ProtoDate | ProtoOther

datatype jskey = KeyStr string | KeySym nat

datatype jsnum = NumInt int | NumFrac | NumInf bool | NumNaN

datatype 'v jsdesc = DataProp bool 'v | AccessorProp bool

datatype jsval =
    JUndefined
  | JNull
  | JBool bool
  | JNumber jsnum
  | JBigInt int
  | JString string
  | JSymbol nat
  | JFunction
  | JDate jsproto "int option"
  | JArray jsproto nat "(jskey \<times> jsval jsdesc) list"
  | JObject jsproto "(jskey \<times> jsval jsdesc) list"
  | JProxy jsval
  | JRevoked

type_synonym js_record = "(string \<times> jsval) list"

abbreviation js_int :: "int \<Rightarrow> jsval" where
  "js_int n \<equiv> JNumber (NumInt n)"

subsection \<open>Reflection\<close>

text \<open>
  \<open>js_peel\<close> is the object whose properties reflection reports; \<open>None\<close> is a throw.
\<close>

fun js_peel :: "jsval \<Rightarrow> jsval option" where
  "js_peel JRevoked = None"
| "js_peel (JProxy v) = js_peel v"
| "js_peel v = Some v"

fun js_is_proxy :: "jsval \<Rightarrow> bool" where
  "js_is_proxy (JProxy v) = True"
| "js_is_proxy JRevoked = True"
| "js_is_proxy v = False"

text \<open>
  \<open>read_data keys props\<close> copies the named own properties; each must exist, be a data property
  and be enumerable.
\<close>

fun data_value :: "jsval jsdesc option \<Rightarrow> jsval option" where
  "data_value (Some (DataProp True v)) = Some v"
| "data_value _ = None"

fun read_data :: "string list \<Rightarrow> (jskey \<times> jsval jsdesc) list \<Rightarrow> js_record option" where
  "read_data [] props = Some []"
| "read_data (k # ks) props =
     (case data_value (map_of props (KeyStr k)) of
        None \<Rightarrow> None
      | Some v \<Rightarrow> (case read_data ks props of None \<Rightarrow> None | Some r \<Rightarrow> Some ((k, v) # r)))"

fun key_in :: "string list \<Rightarrow> jskey \<Rightarrow> bool" where
  "key_in ks (KeyStr k) = (k \<in> set ks)"
| "key_in ks (KeySym n) = False"

text \<open>
  The record copy shared by the validators: the value is a non-array object whose prototype
  is \<^verbatim>\<open>Object.prototype\<close> or null, it has exactly the expected own keys, and each is an
  enumerable data property.
\<close>

definition exact_data_record :: "string list \<Rightarrow> jsval \<Rightarrow> js_record option" where
  "exact_data_record keys v =
     (case js_peel v of
        Some (JObject proto props) \<Rightarrow>
          if proto \<noteq> ProtoObject \<and> proto \<noteq> ProtoNull then None
          else if length props \<noteq> length keys \<or> list_ex (\<lambda>(k, _). \<not> key_in keys k) props then None
          else read_data keys props
      | _ \<Rightarrow> None)"

text \<open>
  The variant with optional keys: every required key is present and every own key is
  required or optional; the copy holds the keys that are present.
\<close>

fun own_key_names :: "(jskey \<times> jsval jsdesc) list \<Rightarrow> string list option" where
  "own_key_names [] = Some []"
| "own_key_names ((KeyStr k, d) # ps) =
     (case own_key_names ps of None \<Rightarrow> None | Some ks \<Rightarrow> Some (k # ks))"
| "own_key_names ((KeySym n, d) # ps) = None"

definition optional_data_record :: "string list \<Rightarrow> string list \<Rightarrow> jsval \<Rightarrow> js_record option" where
  "optional_data_record required_keys optional_keys v =
     (case js_peel v of
        Some (JObject proto props) \<Rightarrow>
          if proto \<noteq> ProtoObject \<and> proto \<noteq> ProtoNull then None
          else if list_ex (\<lambda>k. map_of props (KeyStr k) = None) required_keys
               \<or> list_ex (\<lambda>(k, _). \<not> key_in (required_keys @ optional_keys) k) props then None
          else (case own_key_names props of None \<Rightarrow> None | Some ks \<Rightarrow> read_data ks props)
      | _ \<Rightarrow> None)"

text \<open>\<^verbatim>\<open>String(index)\<close> for an array index is \<open>nat_text\<close>.\<close>

definition index_keys :: "nat \<Rightarrow> string list" where
  "index_keys n = map nat_text [0..<n]"

text \<open>
  The array copy: a true array with the array prototype, a length within the bounds, no
  own key besides the indices and the length, every index an enumerable data property.
\<close>

definition exact_data_array :: "nat \<Rightarrow> nat \<Rightarrow> jsval \<Rightarrow> jsval list option" where
  "exact_data_array lo hi v =
     (case js_peel v of
        Some (JArray proto len props) \<Rightarrow>
          if proto \<noteq> ProtoArray then None
          else if len < lo \<or> hi < len then None
          else if length props \<noteq> len \<or> list_ex (\<lambda>(k, _). \<not> key_in (index_keys len) k) props then None
          else map_option (map snd) (read_data (index_keys len) props)
      | _ \<Rightarrow> None)"

text \<open>Reading a property of the copied record; a missing one is undefined.\<close>

definition js_get :: "js_record \<Rightarrow> string \<Rightarrow> jsval" where
  "js_get r k = (case map_of r k of None \<Rightarrow> JUndefined | Some v \<Rightarrow> v)"

subsection \<open>Values the program itself builds\<close>

text \<open>An object literal and an array literal: what reflection sees of a fresh value.\<close>

definition mk_object :: "js_record \<Rightarrow> jsval" where
  "mk_object r = JObject ProtoObject (map (\<lambda>(k, v). (KeyStr k, DataProp True v)) r)"

definition mk_array :: "jsval list \<Rightarrow> jsval" where
  "mk_array vs =
     JArray ProtoArray (length vs)
       (map (\<lambda>(i, v). (KeyStr (nat_text i), DataProp True v)) (zip [0..<length vs] vs))"

definition mk_date :: "int \<Rightarrow> jsval" where
  "mk_date t = JDate ProtoDate (Some t)"

subsection \<open>Enumerations\<close>

text \<open>
  A closed set of string literals is a datatype with its spelling; the membership tests
  of the sources (\<^verbatim>\<open>VALUES.includes(value)\<close> after a type test) are one lookup.
\<close>

definition parse_enum :: "('a \<Rightarrow> string) \<Rightarrow> 'a list \<Rightarrow> jsval \<Rightarrow> 'a option" where
  "parse_enum spell vals v = (case v of JString s \<Rightarrow> find (\<lambda>x. spell x = s) vals | _ \<Rightarrow> None)"

locale text_enum =
  fixes spell :: "'a \<Rightarrow> string" and vals :: "'a list"
  assumes listed: "x \<in> set vals"
    and spell_inj: "spell x = spell y \<Longrightarrow> x = y"
begin

lemma parse_spell: "parse_enum spell vals (JString (spell x)) = Some x"
proof -
  have "\<exists>z. find (\<lambda>z. spell z = spell x) vals = Some z"
    using listed [of x] by (metis (mono_tags, lifting) find_None_iff not_None_eq)
  then obtain z where z: "find (\<lambda>z. spell z = spell x) vals = Some z" ..
  then have "spell z = spell x" by (auto simp: find_Some_iff)
  then have "z = x" by (rule spell_inj)
  with z show ?thesis by (simp add: parse_enum_def)
qed

lemma parse_iff: "(parse_enum spell vals v = Some x) = (v = JString (spell x))"
proof
  assume "parse_enum spell vals v = Some x"
  then show "v = JString (spell x)"
    by (auto simp: parse_enum_def find_Some_iff split: jsval.splits)
next
  assume "v = JString (spell x)"
  then show "parse_enum spell vals v = Some x" by (simp add: parse_spell)
qed

end

subsection \<open>Identifiers\<close>

text \<open>The patterns of a lower-case version-4 UUID and of a SHA-256 digest in hexadecimal.\<close>

abbreviation hex_digits :: string where
  "hex_digits \<equiv> ''0123456789abcdef''"

definition uuid_v4 :: "string \<Rightarrow> bool" where
  "uuid_v4 = matches_classes
     (replicate 8 hex_digits @ [''-''] @ replicate 4 hex_digits @ [''-'', ''4''] @ replicate 3 hex_digits @
      [''-'', ''89ab''] @ replicate 3 hex_digits @ [''-''] @ replicate 12 hex_digits)"

definition sha256_hex :: "string \<Rightarrow> bool" where
  "sha256_hex = matches_classes (replicate 64 hex_digits)"

lemma uuid_v4_length: "uuid_v4 s \<Longrightarrow> length s = 36"
  by (auto simp: uuid_v4_def dest: matches_classes_length)

lemma sha256_hex_length: "sha256_hex s \<Longrightarrow> length s = 64"
  by (auto simp: sha256_hex_def dest: matches_classes_length)

subsection \<open>Lemmas on reflection\<close>

lemma read_data_keys: "read_data ks props = Some r \<Longrightarrow> map fst r = ks"
  by (induction ks arbitrary: r) (auto split: option.splits)

lemma read_data_values:
  "read_data ks props = Some r \<Longrightarrow> (k, v) \<in> set r \<Longrightarrow> map_of props (KeyStr k) = Some (DataProp True v)"
proof (induction ks arbitrary: r)
  case Nil
  then show ?case by simp
next
  case (Cons a ks)
  then show ?case
    by (auto split: option.splits elim!: data_value.elims)
qed

lemma read_data_map_of:
  "read_data ks props = Some r \<Longrightarrow> k \<in> set ks \<Longrightarrow> \<exists>v. map_of r k = Some v"
  by (metis map_of_eq_None_iff option.exhaust read_data_keys set_map)

lemma exact_data_record_keys: "exact_data_record keys v = Some r \<Longrightarrow> map fst r = keys"
  by (auto simp: exact_data_record_def read_data_keys split: option.splits jsval.splits if_splits)

lemma exact_data_record_rejects:
  "js_peel v = None \<Longrightarrow> exact_data_record keys v = None"
  by (simp add: exact_data_record_def)

lemma map_of_literal:
  "map_of (map (\<lambda>(k, v). (KeyStr k, DataProp True v)) r) (KeyStr k) = map_option (DataProp True) (map_of r k)"
  by (induction r) auto

lemma read_data_literal:
  "distinct (map fst r) \<Longrightarrow> set r' \<subseteq> set r \<Longrightarrow>
   read_data (map fst r') (map (\<lambda>(k, v). (KeyStr k, DataProp True v)) r) = Some r'"
proof (induction r')
  case Nil
  then show ?case by simp
next
  case (Cons p r')
  obtain k v where p: "p = (k, v)" by (cases p)
  from Cons.prems p have m: "map_of r k = Some v" by auto
  from Cons have ih: "read_data (map fst r') (map (\<lambda>(k, v). (KeyStr k, DataProp True v)) r) = Some r'"
    by simp
  show ?case by (simp add: p ih map_of_literal m)
qed

text \<open>A literal is copied field by field: reflection on a fresh object never refuses it.\<close>

lemma exact_data_record_literal:
  assumes "distinct (map fst r)" and "map fst r = keys"
  shows "exact_data_record keys (mk_object r) = Some r"
proof -
  have "\<not> list_ex (\<lambda>(k, _). \<not> key_in keys k) (map (\<lambda>(k, v). (KeyStr k, DataProp True v)) r)"
    using assms(2) by (force simp: list_ex_iff)
  moreover have "length r = length keys" using assms(2) by auto
  ultimately show ?thesis
    using read_data_literal [of r r] assms by (simp add: exact_data_record_def mk_object_def)
qed

lemma exact_data_record_literal_refused:
  assumes "length r \<noteq> length keys"
  shows "exact_data_record keys (mk_object r) = None"
  using assms by (simp add: exact_data_record_def mk_object_def)

subsection \<open>Array literals\<close>

lemma distinct_index_keys: "distinct (index_keys n)"
  by (simp add: index_keys_def distinct_map inj_on_def nat_text_inject)

lemma mk_array_alt:
  "mk_array vs = JArray ProtoArray (length vs)
     (map (\<lambda>(k, v). (KeyStr k, DataProp True v)) (zip (index_keys (length vs)) vs))"
proof -
  have "map (\<lambda>(i, v). (KeyStr (nat_text i), DataProp True v)) (zip [0..<length vs] vs)
      = map (\<lambda>(k, v). (KeyStr k, DataProp True v)) (zip (index_keys (length vs)) vs)"
    by (auto simp: index_keys_def zip_map1 case_prod_beta)
  then show ?thesis by (simp add: mk_array_def)
qed

lemma exact_data_array_literal:
  assumes "lo \<le> length vs" and "length vs \<le> hi"
  shows "exact_data_array lo hi (mk_array vs) = Some vs"
proof -
  let ?r = "zip (index_keys (length vs)) vs"
  have len: "length (index_keys (length vs)) = length vs"
    by (simp add: index_keys_def)
  have fst: "map fst ?r = index_keys (length vs)" using len by simp
  have "read_data (map fst ?r) (map (\<lambda>(k, v). (KeyStr k, DataProp True v)) ?r) = Some ?r"
    by (rule read_data_literal) (simp_all add: len distinct_index_keys)
  then have "read_data (index_keys (length vs)) (map (\<lambda>(k, v). (KeyStr k, DataProp True v)) ?r) = Some ?r"
    by (simp add: len)
  moreover have "\<not> list_ex (\<lambda>(k, _). \<not> key_in (index_keys (length vs)) k)
      (map (\<lambda>(k, v). (KeyStr k, DataProp True v)) ?r)"
    by (auto simp: list_ex_iff dest: set_zip_leftD)
  ultimately show ?thesis
    using assms len by (simp add: exact_data_array_def mk_array_alt)
qed

lemma length_index_keys [simp]: "length (index_keys n) = n"
  by (simp add: index_keys_def)

lemma exact_data_array_bounds:
  assumes "exact_data_array lo hi v = Some vs"
  shows "lo \<le> length vs \<and> length vs \<le> hi"
proof -
  from assms obtain len props r where
    "\<not> len < lo \<and> \<not> hi < len" and r: "read_data (index_keys len) props = Some r" and "vs = map snd r"
    by (force simp: exact_data_array_def split: option.splits jsval.splits if_splits)
  moreover from r have "length r = len"
    by (metis length_index_keys length_map read_data_keys)
  ultimately show ?thesis by simp
qed

subsection \<open>Validators\<close>

text \<open>
  The contract shared by the validators: whatever is accepted is valid, and a valid value
  in the program's own representation is accepted and comes back unchanged. A component
  that feeds one validator's result to another relies on exactly these two laws.
\<close>

locale validator =
  fixes parse :: "jsval \<Rightarrow> 'e + 'a" and embed :: "'a \<Rightarrow> jsval" and valid :: "'a \<Rightarrow> bool"
  assumes sound: "parse v = Inr x \<Longrightarrow> valid x"
    and complete: "valid x \<Longrightarrow> parse (embed x) = Inr x"
begin

lemma idempotent: "parse v = Inr x \<Longrightarrow> parse (embed x) = Inr x"
  by (rule complete) (rule sound)

lemma accepted_iff: "(\<exists>v. parse v = Inr x) = valid x"
  using sound complete by blast

lemma list_sound: "res_map parse vs = Inr xs \<Longrightarrow> list_all valid xs"
  using res_map_all [of parse vs xs valid] sound by (auto simp: list_all_iff)

lemma list_complete: "list_all valid xs \<Longrightarrow> res_map parse (map embed xs) = Inr xs"
  using res_map_Inr_map [of xs parse embed "\<lambda>x. x"] complete by (auto simp: list_all_iff)

lemma embed_inj: "valid x \<Longrightarrow> valid y \<Longrightarrow> embed x = embed y \<Longrightarrow> x = y"
  by (metis complete sum.inject(2))

end

subsection \<open>Bytes\<close>

text \<open>\<^verbatim>\<open>Buffer.from(value, 'utf8')\<close>: one byte below 128, two bytes from 128 to 255.\<close>

definition utf8_char :: "char \<Rightarrow> string" where
  "utf8_char c =
     (let n = (of_char c :: nat)
      in if n < 128 then [c] else [char_of (192 + n div 64), char_of (128 + n mod 64)])"

definition utf8 :: "string \<Rightarrow> string" where
  "utf8 s = concat (map utf8_char s)"

fun utf8_decode :: "string \<Rightarrow> string" where
  "utf8_decode [] = []"
| "utf8_decode (c # cs) =
     (if (of_char c :: nat) < 128 then c # utf8_decode cs
      else case cs of
        [] \<Rightarrow> []
      | d # ds \<Rightarrow> char_of ((of_char c - 192) * 64 + (of_char d - 128) :: nat) # utf8_decode ds)"

lemma utf8_Nil [simp]: "utf8 [] = []"
  by (simp add: utf8_def)

lemma utf8_Cons: "utf8 (c # s) = utf8_char c @ utf8 s"
  by (simp add: utf8_def)

lemma of_char_bound: "(of_char c :: nat) < 256"
  by simp

lemma utf8_decode_encode: "utf8_decode (utf8 s) = s"
proof (induction s)
  case Nil
  then show ?case by simp
next
  case (Cons c s)
  define n where "n = (of_char c :: nat)"
  have n: "n < 256" by (simp add: n_def)
  show ?case
  proof (cases "n < 128")
    case True
    with Cons show ?thesis by (simp add: utf8_Cons utf8_char_def n_def Let_def)
  next
    case False
    then have q: "n div 64 < 4" "n mod 64 < 64" using n by (auto simp: less_mult_imp_div_less)
    define hi where "hi = (char_of (192 + n div 64) :: char)"
    define lo where "lo = (char_of (128 + n mod 64) :: char)"
    have hi: "(of_char hi :: nat) = 192 + n div 64"
      unfolding hi_def by (subst of_char_of) (use q in simp)
    have lo: "(of_char lo :: nat) = 128 + n mod 64"
      unfolding lo_def by (subst of_char_of) (use q in simp)
    have "char_of (n div 64 * 64 + n mod 64) = c"
      unfolding div_mult_mod_eq n_def by (rule char_of_char)
    then have "char_of ((of_char hi - 192) * 64 + (of_char lo - 128) :: nat) = c"
      by (simp only: hi lo add_diff_cancel_left')
    moreover have "utf8_char c = [hi, lo]"
      using False by (simp only: utf8_char_def n_def [symmetric] Let_def hi_def lo_def if_False)
    moreover have "\<not> (of_char hi :: nat) < 128" by (simp only: hi)
    ultimately show ?thesis
      using Cons by (simp only: utf8_Cons append_Cons append_Nil utf8_decode.simps if_False list.case)
  qed
qed

lemma utf8_inject [simp]: "(utf8 a = utf8 b) = (a = b)"
  by (metis utf8_decode_encode)

end
