(* ===== verification/Iso_Time.thy ===== *)
theory Iso_Time
  imports Js_Value
begin

text \<open>
  The ECMAScript date functions the sources use: \<^verbatim>\<open>Date.prototype.toISOString\<close> and the
  inverse reading of such a text by \<^verbatim>\<open>new Date(text)\<close> and \<^verbatim>\<open>Date.parse(text)\<close>. A time value
  is a number of milliseconds since 1970, an \<open>int\<close> with absolute value at most
  8.64e15 (\<open>valid_time\<close>). The calendar functions follow ECMA-262, with the year found
  from an estimate that is at most one too small.

  \<open>to_iso\<close> writes four year digits for the years 0 to 9999 and a sign with six digits
  outside (\<open>plain_year\<close> is the first case). \<open>parse_iso\<close> reads exactly these two shapes. The
  engine's own parser also accepts other shapes; every caller in the sources compares the
  text with \<open>to_iso\<close> of the result, which only the two shapes can equal.

  Main facts: \<open>parse_to_iso\<close> (reading back a text gives the time) and \<open>to_iso_less\<close> (for
  plain years, the order of the texts is the order of the times).
\<close>

definition valid_time :: "int \<Rightarrow> bool" where
  "valid_time t = (\<bar>t\<bar> \<le> 8640000000000000)"

subsection \<open>The calendar\<close>

definition leap_year :: "int \<Rightarrow> bool" where
  "leap_year y = (y mod 4 = 0 \<and> (y mod 100 \<noteq> 0 \<or> y mod 400 = 0))"

definition day_from_year :: "int \<Rightarrow> int" where
  "day_from_year y = 365 * (y - 1970) + (y - 1969) div 4 - (y - 1901) div 100 + (y - 1601) div 400"

definition year_from_day :: "int \<Rightarrow> int" where
  "year_from_day d =
     (let y = 1601 + (400 * (d + 134774)) div 146097
      in if day_from_year (y + 1) \<le> d then y + 1 else y)"

text \<open>The first day of a month within its year (months count from 0).\<close>

definition month_start :: "bool \<Rightarrow> int \<Rightarrow> int" where
  "month_start leap m =
     (let l = (if leap then 1 else 0) in
      if m \<le> 0 then 0 else if m = 1 then 31 else if m = 2 then 59 + l else if m = 3 then 90 + l
      else if m = 4 then 120 + l else if m = 5 then 151 + l else if m = 6 then 181 + l
      else if m = 7 then 212 + l else if m = 8 then 243 + l else if m = 9 then 273 + l
      else if m = 10 then 304 + l else 334 + l)"

definition month_from_day :: "bool \<Rightarrow> int \<Rightarrow> int" where
  "month_from_day leap d =
     (let l = (if leap then 1 else 0) in
      if d < 31 then 0 else if d < 59 + l then 1 else if d < 90 + l then 2
      else if d < 120 + l then 3 else if d < 151 + l then 4 else if d < 181 + l then 5
      else if d < 212 + l then 6 else if d < 243 + l then 7 else if d < 273 + l then 8
      else if d < 304 + l then 9 else if d < 334 + l then 10 else 11)"

definition year_of :: "int \<Rightarrow> int" where
  "year_of t = year_from_day (t div 86400000)"

definition day_in_year :: "int \<Rightarrow> int" where
  "day_in_year t = t div 86400000 - day_from_year (year_of t)"

definition month_of :: "int \<Rightarrow> int" where
  "month_of t = month_from_day (leap_year (year_of t)) (day_in_year t)"

definition date_of :: "int \<Rightarrow> int" where
  "date_of t = day_in_year t - month_start (leap_year (year_of t)) (month_of t) + 1"

definition hour_of :: "int \<Rightarrow> int" where
  "hour_of t = (t div 3600000) mod 24"

definition minute_of :: "int \<Rightarrow> int" where
  "minute_of t = (t div 60000) mod 60"

definition second_of :: "int \<Rightarrow> int" where
  "second_of t = (t div 1000) mod 60"

definition milli_of :: "int \<Rightarrow> int" where
  "milli_of t = t mod 1000"

definition make_time :: "int \<Rightarrow> int \<Rightarrow> int \<Rightarrow> int \<Rightarrow> int \<Rightarrow> int \<Rightarrow> int \<Rightarrow> int" where
  "make_time y mo d h mi s ms =
     (day_from_year y + month_start (leap_year y) (mo - 1) + d - 1) * 86400000
       + h * 3600000 + mi * 60000 + s * 1000 + ms"

definition plain_year :: "int \<Rightarrow> bool" where
  "plain_year t = (0 \<le> year_of t \<and> year_of t \<le> 9999)"

subsection \<open>Texts\<close>

definition year_text :: "int \<Rightarrow> string" where
  "year_text y =
     (if 0 \<le> y \<and> y \<le> 9999 then pad_text 4 (nat y)
      else if y < 0 then CHR ''-'' # pad_text 6 (nat (- y))
      else CHR ''+'' # pad_text 6 (nat y))"

definition time_tail :: "int \<Rightarrow> string" where
  "time_tail t =
     ''-'' @ pad_text 2 (nat (month_of t + 1)) @ ''-'' @ pad_text 2 (nat (date_of t)) @ ''T'' @
     pad_text 2 (nat (hour_of t)) @ '':'' @ pad_text 2 (nat (minute_of t)) @ '':'' @
     pad_text 2 (nat (second_of t)) @ ''.'' @ pad_text 3 (nat (milli_of t)) @ ''Z''"

definition to_iso :: "int \<Rightarrow> string" where
  "to_iso t = year_text (year_of t) @ time_tail t"

definition slice_val :: "string \<Rightarrow> nat \<Rightarrow> nat \<Rightarrow> int" where
  "slice_val s i k = int (dec_val (take k (drop i s)))"

definition parse_tail :: "int \<Rightarrow> string \<Rightarrow> int" where
  "parse_tail y s =
     make_time y (slice_val s 1 2) (slice_val s 4 2) (slice_val s 7 2) (slice_val s 10 2)
       (slice_val s 13 2) (slice_val s 16 3)"

definition parse_iso :: "string \<Rightarrow> int option" where
  "parse_iso s =
     (if length s = 24 then Some (parse_tail (slice_val s 0 4) (drop 4 s))
      else if length s = 27 \<and> hd s = CHR ''+'' then Some (parse_tail (slice_val s 1 6) (drop 7 s))
      else if length s = 27 \<and> hd s = CHR ''-'' then Some (parse_tail (- slice_val s 1 6) (drop 7 s))
      else None)"

subsection \<open>Years\<close>

lemma succ_div:
  fixes z k :: int
  assumes "0 < k"
  shows "(z + 1) div k = z div k + (if (z + 1) mod k = 0 then 1 else 0)"
proof -
  have eq: "z = k * (z div k) + z mod k" and r: "0 \<le> z mod k" "z mod k < k"
    using assms by simp_all
  show ?thesis
  proof (cases "z mod k = k - 1")
    case True
    have "k * (z div k + 1) = k * (z div k) + k" by (simp add: distrib_left)
    with True eq have "z + 1 = k * (z div k + 1)" by linarith
    then have "(z + 1) div k = z div k + 1" and "(z + 1) mod k = 0"
      using assms nonzero_mult_div_cancel_left [of k "z div k + 1"] by (simp_all only: mod_mult_self1_is_0)
    then show ?thesis by simp
  next
    case False
    then have "z + 1 = k * (z div k) + (z mod k + 1)" and "z mod k + 1 < k" using eq r by auto
    then have "(z + 1) div k = z div k" and "(z + 1) mod k = z mod k + 1"
      using r int_div_pos_eq [of "z + 1" k "z div k" "z mod k + 1"]
        int_mod_pos_eq [of "z + 1" k "z div k" "z mod k + 1"] by simp_all
    then show ?thesis using r by simp
  qed
qed

lemma day_from_year_shift:
  "day_from_year y = 365 * (y - 1601) + (y - 1601) div 4 - (y - 1601) div 100 + (y - 1601) div 400 - 134774"
proof -
  have "(y - 1969) div 4 = (y - 1601) div 4 - 92"
    using div_mult_self1 [of 4 "y - 1601" "-92"] by simp
  moreover have "(y - 1901) div 100 = (y - 1601) div 100 - 3"
    using div_mult_self1 [of 100 "y - 1601" "-3"] by simp
  ultimately show ?thesis by (simp add: day_from_year_def)
qed

lemma sum_of_steps:
  fixes a :: int
  assumes "t' = 365 * (z + 1) + a' - b' + c' - 134774" "t = 365 * z + a - b + c - 134774"
    and "a' = a + i" "b' = b + j" "c' = c + k" "i - j + k = m"
  shows "t' = t + 365 + m"
  using assms by simp

lemma day_from_year_step: "day_from_year (y + 1) = day_from_year y + (if leap_year y then 366 else 365)"
proof -
  define z where "z = y - 1601"
  have m: "(z + 1) mod 4 = y mod 4" "(z + 1) mod 100 = y mod 100" "(z + 1) mod 400 = y mod 400"
    using mod_mult_self1 [of y "-400" 4] mod_mult_self1 [of y "-16" 100] mod_mult_self1 [of y "-4" 400]
    by (simp_all add: z_def)
  have dv: "y mod 100 = 0 \<Longrightarrow> y mod 4 = 0" "y mod 400 = 0 \<Longrightarrow> y mod 100 = 0"
    using mod_mod_cancel [of 4 100 y] mod_mod_cancel [of 100 400 y] by simp_all
  have "y + 1 - 1601 = z + 1" by (simp add: z_def)
  then have "day_from_year (y + 1) =
      365 * (z + 1) + (z + 1) div 4 - (z + 1) div 100 + (z + 1) div 400 - 134774"
    by (simp only: day_from_year_shift)
  moreover have "day_from_year y = 365 * z + z div 4 - z div 100 + z div 400 - 134774"
    by (simp only: day_from_year_shift z_def)
  moreover have "(z + 1) div 4 = z div 4 + (if y mod 4 = 0 then 1 else 0)"
    using succ_div [of 4 z] m(1) by (simp only:)
  moreover have "(z + 1) div 100 = z div 100 + (if y mod 100 = 0 then 1 else 0)"
    using succ_div [of 100 z] m(2) by (simp only:)
  moreover have "(z + 1) div 400 = z div 400 + (if y mod 400 = 0 then 1 else 0)"
    using succ_div [of 400 z] m(3) by (simp only:)
  moreover have "(if y mod 4 = 0 then 1 else 0) - (if y mod 100 = 0 then 1 else 0) +
      (if y mod 400 = 0 then 1 else 0) = (if leap_year y then 1 else (0::int))"
    using dv unfolding leap_year_def by (cases "y mod 4 = 0"; cases "y mod 100 = 0"; cases "y mod 400 = 0") simp_all
  ultimately have "day_from_year (y + 1) = day_from_year y + 365 + (if leap_year y then 1 else 0)"
    by (rule sum_of_steps)
  then show ?thesis by simp
qed

lemma day_from_year_mono: "x \<le> y \<Longrightarrow> day_from_year x + 365 * (y - x) \<le> day_from_year y"
proof (induction "nat (y - x)" arbitrary: y)
  case 0
  then show ?case by simp
next
  case (Suc n)
  then have "n = nat (y - 1 - x)" and "x \<le> y - 1" by linarith+
  then have "day_from_year x + 365 * ((y - 1) - x) \<le> day_from_year (y - 1)"
    by (rule Suc.hyps(1))
  moreover have "day_from_year (y - 1) + 365 \<le> day_from_year y"
    using day_from_year_step [of "y - 1"] by simp
  ultimately show ?case by simp
qed

lemma div_bounds:
  fixes k z :: int
  assumes "0 < k"
  shows "z div k * k \<le> z \<and> z - (k - 1) \<le> z div k * k"
  using assms div_mult_mod_eq [of z k] pos_mod_bound [of k z] pos_mod_sign [of k z] by linarith

lemma year_from_day_bounds:
  "day_from_year (year_from_day d) \<le> d \<and> d < day_from_year (year_from_day d + 1)"
proof -
  define e where "e = d + 134774"
  define z where "z = (400 * e) div 146097"
  have z: "146097 * z \<le> 400 * e" "400 * e < 146097 * (z + 1)"
    using div_bounds [of 146097 "400 * e"] by (auto simp: z_def algebra_simps)
  have lo: "day_from_year (1601 + z) \<le> d"
  proof -
    have "z div 4 * 4 \<le> z" "z div 100 * 100 \<ge> z - 99" "z div 400 * 400 \<le> z"
      using div_bounds [of 4 z] div_bounds [of 100 z] div_bounds [of 400 z] by linarith+
    then show ?thesis using z by (simp add: day_from_year_shift e_def)
  qed
  have hi: "d < day_from_year (1601 + z + 2)"
  proof -
    define w where "w = z + 2"
    have "w div 4 * 4 \<ge> w - 3" "w div 100 * 100 \<le> w" "w div 400 * 400 \<ge> w - 399"
      using div_bounds [of 4 w] div_bounds [of 100 w] div_bounds [of 400 w] by linarith+
    moreover have "1601 + z + 2 - 1601 = w" by (simp add: w_def)
    ultimately show ?thesis using z by (simp add: day_from_year_shift e_def w_def)
  qed
  have "1601 + (400 * (d + 134774)) div 146097 = 1601 + z" by (simp add: z_def e_def)
  then show ?thesis
    using lo hi by (auto simp: year_from_day_def Let_def add.assoc)
qed

lemma year_from_day_unique:
  assumes "day_from_year y \<le> d" and "d < day_from_year (y + 1)"
  shows "year_from_day d = y"
proof (rule ccontr)
  assume ne: "year_from_day d \<noteq> y"
  note b = year_from_day_bounds [of d]
  from ne consider "year_from_day d + 1 \<le> y" | "y + 1 \<le> year_from_day d" by linarith
  then show False
  proof cases
    case 1
    with day_from_year_mono [OF 1] b assms show ?thesis by (simp add: algebra_simps)
  next
    case 2
    with day_from_year_mono [OF 2] b assms show ?thesis by (simp add: algebra_simps)
  qed
qed

lemma day_less_iff:
  "(d < d') = (year_from_day d < year_from_day d' \<or>
     (year_from_day d = year_from_day d' \<and>
      d - day_from_year (year_from_day d) < d' - day_from_year (year_from_day d')))"
proof -
  note b = year_from_day_bounds [of d] and b' = year_from_day_bounds [of d']
  consider "year_from_day d + 1 \<le> year_from_day d'" | "year_from_day d = year_from_day d'"
    | "year_from_day d' + 1 \<le> year_from_day d" by linarith
  then show ?thesis
  proof cases
    case 1
    with day_from_year_mono [OF 1] b b' show ?thesis by auto
  next
    case 2
    then show ?thesis by auto
  next
    case 3
    with day_from_year_mono [OF 3] b b' show ?thesis by auto
  qed
qed

subsection \<open>Months and days\<close>

lemma month_from_day_range: "0 \<le> month_from_day leap d \<and> month_from_day leap d \<le> 11"
  by (simp add: month_from_day_def Let_def)

lemma month_from_day_bounds:
  "0 \<le> d \<Longrightarrow> d < (if leap then 366 else 365) \<Longrightarrow>
   0 \<le> d - month_start leap (month_from_day leap d) \<and> d - month_start leap (month_from_day leap d) \<le> 30"
  by (cases leap) (simp_all add: month_from_day_def month_start_def Let_def)

lemma month_from_day_mono: "d \<le> d' \<Longrightarrow> month_from_day leap d \<le> month_from_day leap d'"
  by (simp add: month_from_day_def Let_def)

lemma month_less_iff:
  "(d < d') = (month_from_day leap d < month_from_day leap d' \<or>
     (month_from_day leap d = month_from_day leap d' \<and>
      d - month_start leap (month_from_day leap d) < d' - month_start leap (month_from_day leap d')))"
proof -
  have "d < d' \<Longrightarrow> month_from_day leap d \<le> month_from_day leap d'"
    by (rule month_from_day_mono) simp
  moreover have "d' \<le> d \<Longrightarrow> month_from_day leap d' \<le> month_from_day leap d"
    by (rule month_from_day_mono)
  ultimately show ?thesis
    by (cases "d < d'"; cases "month_from_day leap d = month_from_day leap d'") simp_all
qed

lemma day_in_year_bounds:
  "0 \<le> day_in_year t \<and> day_in_year t < (if leap_year (year_of t) then 366 else 365)"
  using year_from_day_bounds [of "t div 86400000"] day_from_year_step [of "year_of t"]
  by (simp add: day_in_year_def year_of_def)

lemma date_of_range: "1 \<le> date_of t \<and> date_of t \<le> 31"
  using month_from_day_bounds [of "day_in_year t" "leap_year (year_of t)"] day_in_year_bounds [of t]
  by (simp add: date_of_def month_of_def)

lemma month_of_range: "0 \<le> month_of t \<and> month_of t \<le> 11"
  by (simp add: month_of_def month_from_day_range)

lemma clock_range:
  "0 \<le> hour_of t" "hour_of t < 24" "0 \<le> minute_of t" "minute_of t < 60"
  "0 \<le> second_of t" "second_of t < 60" "0 \<le> milli_of t" "milli_of t < 1000"
  by (simp_all add: hour_of_def minute_of_def second_of_def milli_of_def)

lemma clock_split:
  "t = t div 1000 * 1000 + milli_of t" "t div 1000 = t div 60000 * 60 + second_of t"
  "t div 60000 = t div 3600000 * 60 + minute_of t" "t div 3600000 = t div 86400000 * 24 + hour_of t"
proof -
  show "t = t div 1000 * 1000 + milli_of t" by (simp add: milli_of_def)
  have "t div 60000 = t div 1000 div 60" using zdiv_zmult2_eq [of 60 t 1000] by simp
  then show "t div 1000 = t div 60000 * 60 + second_of t" by (simp add: second_of_def)
  have "t div 3600000 = t div 60000 div 60" using zdiv_zmult2_eq [of 60 t 60000] by simp
  then show "t div 60000 = t div 3600000 * 60 + minute_of t" by (simp add: minute_of_def)
  have "t div 86400000 = t div 3600000 div 24" using zdiv_zmult2_eq [of 24 t 3600000] by simp
  then show "t div 3600000 = t div 86400000 * 24 + hour_of t" by (simp add: hour_of_def)
qed

text \<open>The order of two times is the lexicographic order of their calendar fields.\<close>

lemma time_less_iff:
  "(t < u) =
    (t div 86400000 < u div 86400000 \<or> (t div 86400000 = u div 86400000 \<and>
      (hour_of t < hour_of u \<or> (hour_of t = hour_of u \<and>
        (minute_of t < minute_of u \<or> (minute_of t = minute_of u \<and>
          (second_of t < second_of u \<or> (second_of t = second_of u \<and> milli_of t < milli_of u))))))))"
proof -
  have 1: "(t < u) = (t div 1000 < u div 1000 \<or> (t div 1000 = u div 1000 \<and> milli_of t < milli_of u))"
    using mixed_radix_less [of "milli_of t" 1000 "milli_of u" "t div 1000" "u div 1000"]
    by (simp only: clock_range flip: clock_split(1)) 
  have 2: "(t div 1000 < u div 1000) = (t div 60000 < u div 60000 \<or>
      (t div 60000 = u div 60000 \<and> second_of t < second_of u))"
    using mixed_radix_less [of "second_of t" 60 "second_of u" "t div 60000" "u div 60000"]
    by (simp only: clock_range flip: clock_split(2))
  have 3: "(t div 60000 < u div 60000) = (t div 3600000 < u div 3600000 \<or>
      (t div 3600000 = u div 3600000 \<and> minute_of t < minute_of u))"
    using mixed_radix_less [of "minute_of t" 60 "minute_of u" "t div 3600000" "u div 3600000"]
    by (simp only: clock_range flip: clock_split(3))
  have 4: "(t div 3600000 < u div 3600000) = (t div 86400000 < u div 86400000 \<or>
      (t div 86400000 = u div 86400000 \<and> hour_of t < hour_of u))"
    using mixed_radix_less [of "hour_of t" 24 "hour_of u" "t div 86400000" "u div 86400000"]
    by (simp only: clock_range flip: clock_split(4))
  have e: "(t div 1000 = u div 1000) = (t div 60000 = u div 60000 \<and> second_of t = second_of u)"
    "(t div 60000 = u div 60000) = (t div 3600000 = u div 3600000 \<and> minute_of t = minute_of u)"
    "(t div 3600000 = u div 3600000) = (t div 86400000 = u div 86400000 \<and> hour_of t = hour_of u)"
    using mixed_radix_eq [of "second_of t" 60 "second_of u" "t div 60000" "u div 60000"]
      mixed_radix_eq [of "minute_of t" 60 "minute_of u" "t div 3600000" "u div 3600000"]
      mixed_radix_eq [of "hour_of t" 24 "hour_of u" "t div 86400000" "u div 86400000"]
    by (simp_all only: clock_range flip: clock_split(2-4))
  show ?thesis unfolding 1 2 3 4 e by blast
qed

lemma day_less_fields:
  "(t div 86400000 < u div 86400000) =
    (year_of t < year_of u \<or> (year_of t = year_of u \<and>
      (month_of t < month_of u \<or> (month_of t = month_of u \<and> date_of t < date_of u))))"
proof -
  have 1: "(t div 86400000 < u div 86400000) =
      (year_of t < year_of u \<or> (year_of t = year_of u \<and> day_in_year t < day_in_year u))"
    using day_less_iff [of "t div 86400000" "u div 86400000"] by (simp only: year_of_def day_in_year_def)
  have 2: "year_of t = year_of u \<Longrightarrow> (day_in_year t < day_in_year u) =
      (month_of t < month_of u \<or> (month_of t = month_of u \<and> date_of t < date_of u))"
    using month_less_iff [of "day_in_year t" "day_in_year u" "leap_year (year_of u)"]
    by (simp only: month_of_def date_of_def add_less_cancel_right)
  show ?thesis using 1 2 by blast
qed

lemma day_eq_fields:
  "(t div 86400000 = u div 86400000) =
    (year_of t = year_of u \<and> month_of t = month_of u \<and> date_of t = date_of u)"
  using day_less_fields [of t u] day_less_fields [of u t] by (metis less_irrefl linorder_neqE)

subsection \<open>Texts order as times\<close>

lemma length_time_tail: "length (time_tail t) = 20"
  by (simp add: time_tail_def)

lemma field_text_less:
  "0 \<le> a \<Longrightarrow> a < 10 ^ k \<Longrightarrow> 0 \<le> b \<Longrightarrow> b < 10 ^ k \<Longrightarrow>
   (pad_text k (nat a) @ x < pad_text k (nat b) @ y) = (a < b \<or> (a = b \<and> x < y))"
proof -
  assume "0 \<le> a" "a < 10 ^ k" "0 \<le> b" "b < 10 ^ k"
  then have "nat a < 10 ^ k" "nat b < 10 ^ k"
    by (simp_all add: nat_less_iff)
  then show ?thesis
    using nat_less_eq_zless [OF \<open>0 \<le> a\<close>, of b] eq_nat_nat_iff [OF \<open>0 \<le> a\<close> \<open>0 \<le> b\<close>]
    by (simp only: lex_append_less length_pad_text pad_text_less pad_text_eq)
qed

lemma time_tail_less:
  "(time_tail t < time_tail u) =
    (month_of t < month_of u \<or> (month_of t = month_of u \<and>
      (date_of t < date_of u \<or> (date_of t = date_of u \<and>
        (hour_of t < hour_of u \<or> (hour_of t = hour_of u \<and>
          (minute_of t < minute_of u \<or> (minute_of t = minute_of u \<and>
            (second_of t < second_of u \<or> (second_of t = second_of u \<and> milli_of t < milli_of u))))))))))"
proof -
  note r = month_of_range [of t] month_of_range [of u] date_of_range [of t] date_of_range [of u]
    clock_range [of t] clock_range [of u]
  have "0 \<le> month_of t + 1" "month_of t + 1 < 10 ^ 2" "0 \<le> month_of u + 1" "month_of u + 1 < 10 ^ 2"
    "0 \<le> date_of t" "date_of t < 10 ^ 2" "0 \<le> date_of u" "date_of u < 10 ^ 2"
    "hour_of t < 10 ^ 2" "hour_of u < 10 ^ 2" "minute_of t < 10 ^ 2" "minute_of u < 10 ^ 2"
    "second_of t < 10 ^ 2" "second_of u < 10 ^ 2" "milli_of t < 10 ^ 3" "milli_of u < 10 ^ 3"
    using r by simp_all
  with r show ?thesis
    by (simp add: time_tail_def field_text_less add1_zle_eq)
qed

text \<open>
  For the years 0 to 9999 the texts compare as the times do. This is what the sources rely
  on when they compare timestamps as strings.
\<close>

theorem to_iso_less:
  assumes "plain_year t" and "plain_year u"
  shows "(to_iso t < to_iso u) = (t < u)"
proof -
  have "(to_iso t < to_iso u) = (year_of t < year_of u \<or> (year_of t = year_of u \<and> time_tail t < time_tail u))"
    using assms by (simp add: to_iso_def year_text_def plain_year_def field_text_less)
  then show ?thesis
    unfolding time_tail_less time_less_iff [of t u] day_less_fields day_eq_fields by blast
qed

subsection \<open>Reading back\<close>

lemma slice_of_field:
  "0 \<le> a \<Longrightarrow> a < 10 ^ k \<Longrightarrow> int (dec_val (pad_text k (nat a))) = a"
  by (subst dec_val_pad_text) (simp_all add: nat_less_iff)

lemma parse_time_tail:
  "parse_tail y (time_tail t) =
     make_time y (month_of t + 1) (date_of t) (hour_of t) (minute_of t) (second_of t) (milli_of t)"
proof -
  note r = month_of_range [of t] date_of_range [of t] clock_range [of t]
  have "int (dec_val (pad_text 2 (nat (month_of t + 1)))) = month_of t + 1"
    "int (dec_val (pad_text 2 (nat (date_of t)))) = date_of t"
    "int (dec_val (pad_text 2 (nat (hour_of t)))) = hour_of t"
    "int (dec_val (pad_text 2 (nat (minute_of t)))) = minute_of t"
    "int (dec_val (pad_text 2 (nat (second_of t)))) = second_of t"
    "int (dec_val (pad_text 3 (nat (milli_of t)))) = milli_of t"
    using r by (simp_all add: slice_of_field)
  then show ?thesis
    by (simp add: parse_tail_def slice_val_def time_tail_def)
qed

lemma make_time_fields:
  "make_time (year_of t) (month_of t + 1) (date_of t) (hour_of t) (minute_of t) (second_of t) (milli_of t) = t"
proof -
  have "day_from_year (year_of t) + month_start (leap_year (year_of t)) (month_of t) + date_of t - 1
      = t div 86400000"
    by (simp add: date_of_def day_in_year_def)
  then have "make_time (year_of t) (month_of t + 1) (date_of t) (hour_of t) (minute_of t) (second_of t) (milli_of t)
      = t div 86400000 * 86400000 + hour_of t * 3600000 + minute_of t * 60000 + second_of t * 1000 + milli_of t"
    by (simp add: make_time_def)
  also have "\<dots> = (((t div 86400000 * 24 + hour_of t) * 60 + minute_of t) * 60 + second_of t) * 1000 + milli_of t"
    by (simp add: algebra_simps)
  also have "\<dots> = t" by (simp only: flip: clock_split)
  finally show ?thesis .
qed

lemma year_of_range:
  assumes "valid_time t"
  shows "- 1000000 < year_of t \<and> year_of t < 1000000"
proof -
  define d where "d = t div 86400000"
  have "t div 86400000 \<le> 8640000000000000 div 86400000" "(- 8640000000000000) div 86400000 \<le> t div 86400000"
    using assms by (intro zdiv_mono1; simp add: valid_time_def)+
  then have d: "d \<le> 100000000" "- 100000000 \<le> d" by (simp_all add: d_def)
  note b = year_from_day_bounds [of d]
  have z: "day_from_year 1970 = 0" by (simp add: day_from_year_def)
  have "year_from_day d < 1000000"
  proof (rule ccontr)
    assume "\<not> ?thesis"
    then show False using day_from_year_mono [of 1970 "year_from_day d"] b d z by simp
  qed
  moreover have "- 1000000 < year_from_day d"
  proof (rule ccontr)
    assume "\<not> ?thesis"
    then show False using day_from_year_mono [of "year_from_day d + 1" 1970] b d z by simp
  qed
  ultimately show ?thesis by (simp add: year_of_def d_def)
qed

theorem parse_to_iso:
  assumes "valid_time t"
  shows "parse_iso (to_iso t) = Some t"
proof -
  note b = year_of_range [OF assms]
  have tail: "parse_tail (year_of t) (time_tail t) = t"
    by (simp add: parse_time_tail make_time_fields)
  consider (plain) "0 \<le> year_of t" "year_of t \<le> 9999" | (neg) "year_of t < 0" | (large) "9999 < year_of t"
    by linarith
  then show ?thesis
  proof cases
    case plain
    then have "int (dec_val (pad_text 4 (nat (year_of t)))) = year_of t"
      by (simp add: slice_of_field)
    with plain tail show ?thesis
      by (simp add: parse_iso_def to_iso_def year_text_def length_time_tail slice_val_def)
  next
    case neg
    then have "int (dec_val (pad_text 6 (nat (- year_of t)))) = - year_of t"
      using b by (simp add: slice_of_field)
    with neg tail show ?thesis
      by (simp add: parse_iso_def to_iso_def year_text_def length_time_tail slice_val_def)
  next
    case large
    then have "int (dec_val (pad_text 6 (nat (year_of t)))) = year_of t"
      using b by (simp add: slice_of_field)
    with large tail show ?thesis
      by (simp add: parse_iso_def to_iso_def year_text_def length_time_tail slice_val_def)
  qed
qed

lemma to_iso_inject: "valid_time t \<Longrightarrow> valid_time u \<Longrightarrow> (to_iso t = to_iso u) = (t = u)"
  by (metis option.inject parse_to_iso)

lemma length_to_iso_plain: "plain_year t \<Longrightarrow> length (to_iso t) = 24"
  by (simp add: to_iso_def year_text_def plain_year_def length_time_tail)

lemma length_to_iso_extended: "\<not> plain_year t \<Longrightarrow> length (to_iso t) = 27"
  by (auto simp: to_iso_def year_text_def plain_year_def length_time_tail)

text \<open>
  Reading a text as a date and comparing the date's own text with it: the test
  \<^verbatim>\<open>new Date(text).toISOString() === text\<close>, whose left side throws on an invalid time.
\<close>

definition read_timestamp :: "string \<Rightarrow> int option" where
  "read_timestamp s =
     (case parse_iso s of
        None \<Rightarrow> None
      | Some t \<Rightarrow> if valid_time t \<and> to_iso t = s then Some t else None)"

lemma read_timestamp_iff: "(read_timestamp s = Some t) = (valid_time t \<and> s = to_iso t)"
  by (auto simp: read_timestamp_def parse_to_iso split: option.splits if_splits)

lemma read_timestamp_to_iso: "valid_time t \<Longrightarrow> read_timestamp (to_iso t) = Some t"
  by (simp add: read_timestamp_iff)

end
