(* ===== verification/Ledger.thy ===== *)
theory Ledger
  imports Iso_Time "HOL-Library.AList"
begin

text \<open>
  The ledger's journal commands (\<^verbatim>\<open>apps/api/src/ledger/domain/ledger.ts\<close>): parsing of
  identifiers, amounts, event types, reasons and timestamps, the double-entry check of a
  journal's postings, and the normalisation of posting and reversal inputs and commands.
  Branded string types of the source are \<open>string\<close>s; string-literal unions are datatypes with
  their spelling; a thrown \<^verbatim>\<open>LedgerValidationError\<close> is \<open>Inl\<close> of its code.
\<close>

subsection \<open>Data\<close>

datatype LedgerValidationCode =
    INVALID_LEDGER_ID
  | INVALID_ATOMIC_AMOUNT
  | INVALID_ECONOMIC_EVENT_TYPE
  | INVALID_REASON
  | INVALID_LEDGER_TIMESTAMP
  | INVALID_LEDGER_POSTING
  | INVALID_LEDGER_JOURNAL
  | UNBALANCED_LEDGER_JOURNAL

datatype EconomicEventType = SETTLEMENT | ACTUAL_FEE | ADJUSTMENT | COMPENSATION

datatype PostLedgerReasonCode =
    CHAIN_FINALITY_CONFIRMED
  | PROVIDER_SETTLEMENT_VERIFIED
  | ACTUAL_FEE_CONFIRMED
  | ACCOUNTING_ADJUSTMENT_APPROVED
  | COMPENSATION_SETTLED

datatype ReversalLedgerReasonCode =
    RECOGNITION_INVALIDATED
  | CHAIN_REORGANIZATION_CONFIRMED
  | SOURCE_EVIDENCE_CORRECTED

datatype LedgerPostingSide = DEBIT | CREDIT

fun event_type_text :: "EconomicEventType \<Rightarrow> string" where
  "event_type_text SETTLEMENT = ''SETTLEMENT''"
| "event_type_text ACTUAL_FEE = ''ACTUAL_FEE''"
| "event_type_text ADJUSTMENT = ''ADJUSTMENT''"
| "event_type_text COMPENSATION = ''COMPENSATION''"

fun post_reason_text :: "PostLedgerReasonCode \<Rightarrow> string" where
  "post_reason_text CHAIN_FINALITY_CONFIRMED = ''CHAIN_FINALITY_CONFIRMED''"
| "post_reason_text PROVIDER_SETTLEMENT_VERIFIED = ''PROVIDER_SETTLEMENT_VERIFIED''"
| "post_reason_text ACTUAL_FEE_CONFIRMED = ''ACTUAL_FEE_CONFIRMED''"
| "post_reason_text ACCOUNTING_ADJUSTMENT_APPROVED = ''ACCOUNTING_ADJUSTMENT_APPROVED''"
| "post_reason_text COMPENSATION_SETTLED = ''COMPENSATION_SETTLED''"

fun reversal_reason_text :: "ReversalLedgerReasonCode \<Rightarrow> string" where
  "reversal_reason_text RECOGNITION_INVALIDATED = ''RECOGNITION_INVALIDATED''"
| "reversal_reason_text CHAIN_REORGANIZATION_CONFIRMED = ''CHAIN_REORGANIZATION_CONFIRMED''"
| "reversal_reason_text SOURCE_EVIDENCE_CORRECTED = ''SOURCE_EVIDENCE_CORRECTED''"

fun side_text :: "LedgerPostingSide \<Rightarrow> string" where
  "side_text DEBIT = ''DEBIT''"
| "side_text CREDIT = ''CREDIT''"

definition POSTABLE_ECONOMIC_EVENT_TYPES :: "EconomicEventType list" where
  "POSTABLE_ECONOMIC_EVENT_TYPES = [SETTLEMENT, ACTUAL_FEE, ADJUSTMENT, COMPENSATION]"

definition POST_LEDGER_REASON_CODES :: "PostLedgerReasonCode list" where
  "POST_LEDGER_REASON_CODES =
     [CHAIN_FINALITY_CONFIRMED, PROVIDER_SETTLEMENT_VERIFIED, ACTUAL_FEE_CONFIRMED,
      ACCOUNTING_ADJUSTMENT_APPROVED, COMPENSATION_SETTLED]"

definition REVERSAL_LEDGER_REASON_CODES :: "ReversalLedgerReasonCode list" where
  "REVERSAL_LEDGER_REASON_CODES =
     [RECOGNITION_INVALIDATED, CHAIN_REORGANIZATION_CONFIRMED, SOURCE_EVIDENCE_CORRECTED]"

definition MAX_LEDGER_POSTINGS :: nat where
  "MAX_LEDGER_POSTINGS = 64"

definition MAX_ATOMIC_AMOUNT :: string where
  "MAX_ATOMIC_AMOUNT =
     ''115792089237316195423570985008687907853269984665640564039457584007913129639935''"

record LedgerPosting =
  accountId :: string
  assetRevisionId :: string
  side :: LedgerPostingSide
  amountAtomic :: string

record ValidatedPostLedgerJournal =
  bookId :: string
  transactionId :: string
  legId :: string
  economicEventType :: EconomicEventType
  effectiveAt :: string
  observedAt :: string
  reason :: PostLedgerReasonCode
  postings :: "LedgerPosting list"

record ValidatedReverseLedgerJournal =
  originalJournalId :: string
  reversalReason :: ReversalLedgerReasonCode
  reversalEffectiveAt :: string
  reversalObservedAt :: string

record PostLedgerJournalCommand =
  postCorrelationId :: string
  postedJournal :: ValidatedPostLedgerJournal

record ReverseLedgerJournalCommand =
  reverseCorrelationId :: string
  reversedJournal :: ValidatedReverseLedgerJournal

subsection \<open>Parsing\<close>

type_synonym 'a ledger_result = "LedgerValidationCode + 'a"

definition ownDataRecord :: "jsval \<Rightarrow> string list \<Rightarrow> LedgerValidationCode \<Rightarrow> js_record ledger_result" where
  "ownDataRecord value expectedKeys code = of_option code (exact_data_record expectedKeys value)"

definition ownDataArray :: "jsval \<Rightarrow> jsval list ledger_result" where
  "ownDataArray value = of_option INVALID_LEDGER_JOURNAL (exact_data_array 2 MAX_LEDGER_POSTINGS value)"

fun parseUuid :: "jsval \<Rightarrow> string ledger_result" where
  "parseUuid (JString s) = (if uuid_v4 s then Inr s else Inl INVALID_LEDGER_ID)"
| "parseUuid _ = Inl INVALID_LEDGER_ID"

definition parseLedgerBookId :: "jsval \<Rightarrow> string ledger_result" where
  "parseLedgerBookId value = parseUuid value"

definition parseLedgerAssetRevisionId :: "jsval \<Rightarrow> string ledger_result" where
  "parseLedgerAssetRevisionId value = parseUuid value"

definition parseLedgerAccountId :: "jsval \<Rightarrow> string ledger_result" where
  "parseLedgerAccountId value = parseUuid value"

definition parseLedgerTransactionId :: "jsval \<Rightarrow> string ledger_result" where
  "parseLedgerTransactionId value = parseUuid value"

definition parseLedgerLegId :: "jsval \<Rightarrow> string ledger_result" where
  "parseLedgerLegId value = parseUuid value"

definition parseLedgerJournalId :: "jsval \<Rightarrow> string ledger_result" where
  "parseLedgerJournalId value = parseUuid value"

definition parseLedgerCorrelationId :: "jsval \<Rightarrow> string ledger_result" where
  "parseLedgerCorrelationId value = parseUuid value"

definition parseLedgerActorAccountId :: "jsval \<Rightarrow> string ledger_result" where
  "parseLedgerActorAccountId value = parseUuid value"

text \<open>\<open>ATOMIC_AMOUNT_PATTERN\<close> is a positive integer of at most 78 digits.\<close>

fun parseAtomicAmount :: "jsval \<Rightarrow> string ledger_result" where
  "parseAtomicAmount (JString s) =
     (if \<not> (positive_nat s \<and> length s \<le> 78) \<or>
         length s > length MAX_ATOMIC_AMOUNT \<or>
         (length s = length MAX_ATOMIC_AMOUNT \<and> s > MAX_ATOMIC_AMOUNT)
      then Inl INVALID_ATOMIC_AMOUNT else Inr s)"
| "parseAtomicAmount _ = Inl INVALID_ATOMIC_AMOUNT"

definition parseEconomicEventType :: "jsval \<Rightarrow> EconomicEventType ledger_result" where
  "parseEconomicEventType value =
     of_option INVALID_ECONOMIC_EVENT_TYPE (parse_enum event_type_text POSTABLE_ECONOMIC_EVENT_TYPES value)"

definition parsePostLedgerReason :: "jsval \<Rightarrow> PostLedgerReasonCode ledger_result" where
  "parsePostLedgerReason value =
     of_option INVALID_REASON (parse_enum post_reason_text POST_LEDGER_REASON_CODES value)"

definition parseReversalLedgerReason :: "jsval \<Rightarrow> ReversalLedgerReasonCode ledger_result" where
  "parseReversalLedgerReason value =
     of_option INVALID_REASON (parse_enum reversal_reason_text REVERSAL_LEDGER_REASON_CODES value)"

text \<open>
  A timestamp is a genuine \<^verbatim>\<open>Date\<close> object with the date prototype; reading the time of a
  proxy throws, and formatting an invalid time throws.
\<close>

fun parseLedgerTimestamp :: "jsval \<Rightarrow> string ledger_result" where
  "parseLedgerTimestamp (JDate ProtoDate (Some milliseconds)) =
     (if valid_time milliseconds then Inr (to_iso milliseconds) else Inl INVALID_LEDGER_TIMESTAMP)"
| "parseLedgerTimestamp _ = Inl INVALID_LEDGER_TIMESTAMP"

fun parseSide :: "jsval \<Rightarrow> LedgerPostingSide ledger_result" where
  "parseSide v =
     (if v = JString ''DEBIT'' then Inr DEBIT
      else if v = JString ''CREDIT'' then Inr CREDIT
      else Inl INVALID_LEDGER_POSTING)"

definition parsePosting :: "jsval \<Rightarrow> LedgerPosting ledger_result" where
  "parsePosting value =
     res_bind (ownDataRecord value [''accountId'', ''assetRevisionId'', ''side'', ''amountAtomic'']
                 INVALID_LEDGER_POSTING) (\<lambda>record.
     res_bind (parseSide (js_get record ''side'')) (\<lambda>sd.
     res_bind (parseLedgerAccountId (js_get record ''accountId'')) (\<lambda>account.
     res_bind (parseLedgerAssetRevisionId (js_get record ''assetRevisionId'')) (\<lambda>asset.
     res_bind (parseAtomicAmount (js_get record ''amountAtomic'')) (\<lambda>amount.
     Inr \<lparr>accountId = account, assetRevisionId = asset, side = sd, amountAtomic = amount\<rparr>)))))"

subsection \<open>Double entry\<close>

text \<open>
  The \<^verbatim>\<open>balances\<close> map of the source, in insertion order: per asset revision the debit and the
  credit total. The loop adds each posting's amount to its side.
\<close>

type_synonym balances = "(string \<times> nat \<times> nat) list"

fun addPosting :: "balances \<Rightarrow> LedgerPosting \<Rightarrow> balances" where
  "addPosting bs p =
     (let (d, c) = (case map_of bs (assetRevisionId p) of None \<Rightarrow> (0, 0) | Some b \<Rightarrow> b);
          n = dec_val (amountAtomic p)
      in AList.update (assetRevisionId p)
           (if side p = DEBIT then (d + n, c) else (d, c + n)) bs)"

definition postingBalances :: "LedgerPosting list \<Rightarrow> balances" where
  "postingBalances ps = foldl addPosting [] ps"

definition unbalanced :: "LedgerPosting list \<Rightarrow> bool" where
  "unbalanced ps =
     (length (remdups (map accountId ps)) < 2 \<or>
      list_ex (\<lambda>(_, d, c). d = 0 \<or> d \<noteq> c) (postingBalances ps))"

definition parseAndBalancePostings :: "jsval \<Rightarrow> LedgerPosting list ledger_result" where
  "parseAndBalancePostings value =
     res_bind (ownDataArray value) (\<lambda>values.
     res_bind (res_map parsePosting values) (\<lambda>ps.
     if unbalanced ps then Inl UNBALANCED_LEDGER_JOURNAL else Inr ps))"

subsection \<open>Journals\<close>

fun validReasonForEvent :: "EconomicEventType \<Rightarrow> PostLedgerReasonCode \<Rightarrow> bool" where
  "validReasonForEvent ev r =
     ((ev = SETTLEMENT \<and> (r = CHAIN_FINALITY_CONFIRMED \<or> r = PROVIDER_SETTLEMENT_VERIFIED)) \<or>
      (ev = ACTUAL_FEE \<and> r = ACTUAL_FEE_CONFIRMED) \<or>
      (ev = ADJUSTMENT \<and> r = ACCOUNTING_ADJUSTMENT_APPROVED) \<or>
      (ev = COMPENSATION \<and> r = COMPENSATION_SETTLED))"

abbreviation post_keys :: "string list" where
  "post_keys \<equiv> [''bookId'', ''transactionId'', ''legId'', ''economicEventType'', ''effectiveAt'',
     ''observedAt'', ''reason'', ''postings'']"

abbreviation reverse_keys :: "string list" where
  "reverse_keys \<equiv> [''originalJournalId'', ''reason'', ''effectiveAt'', ''observedAt'']"

definition normalizePostLedgerJournalInput :: "jsval \<Rightarrow> ValidatedPostLedgerJournal ledger_result" where
  "normalizePostLedgerJournalInput value =
     res_bind (ownDataRecord value post_keys INVALID_LEDGER_JOURNAL) (\<lambda>record.
     res_bind (parseLedgerTimestamp (js_get record ''effectiveAt'')) (\<lambda>eff.
     res_bind (parseLedgerTimestamp (js_get record ''observedAt'')) (\<lambda>obs.
     res_bind (require INVALID_LEDGER_TIMESTAMP (\<not> obs < eff)) (\<lambda>_.
     res_bind (parseEconomicEventType (js_get record ''economicEventType'')) (\<lambda>ev.
     res_bind (parsePostLedgerReason (js_get record ''reason'')) (\<lambda>r.
     res_bind (require INVALID_REASON (validReasonForEvent ev r)) (\<lambda>_.
     res_bind (parseLedgerBookId (js_get record ''bookId'')) (\<lambda>book.
     res_bind (parseLedgerTransactionId (js_get record ''transactionId'')) (\<lambda>tx.
     res_bind (parseLedgerLegId (js_get record ''legId'')) (\<lambda>leg.
     res_bind (parseAndBalancePostings (js_get record ''postings'')) (\<lambda>ps.
     Inr \<lparr>bookId = book, transactionId = tx, legId = leg, economicEventType = ev,
          effectiveAt = eff, observedAt = obs, reason = r, postings = ps\<rparr>)))))))))))"

definition normalizeReverseLedgerJournalInput :: "jsval \<Rightarrow> ValidatedReverseLedgerJournal ledger_result" where
  "normalizeReverseLedgerJournalInput value =
     res_bind (ownDataRecord value reverse_keys INVALID_LEDGER_JOURNAL) (\<lambda>record.
     res_bind (parseLedgerTimestamp (js_get record ''effectiveAt'')) (\<lambda>eff.
     res_bind (parseLedgerTimestamp (js_get record ''observedAt'')) (\<lambda>obs.
     res_bind (require INVALID_LEDGER_TIMESTAMP (\<not> obs < eff)) (\<lambda>_.
     res_bind (parseLedgerJournalId (js_get record ''originalJournalId'')) (\<lambda>orig.
     res_bind (parseReversalLedgerReason (js_get record ''reason'')) (\<lambda>r.
     Inr \<lparr>originalJournalId = orig, reversalReason = r, reversalEffectiveAt = eff,
          reversalObservedAt = obs\<rparr>))))))"

fun timestampInput :: "jsval \<Rightarrow> jsval ledger_result" where
  "timestampInput (JString s) =
     (case read_timestamp s of None \<Rightarrow> Inl INVALID_LEDGER_TIMESTAMP | Some t \<Rightarrow> Inr (mk_date t))"
| "timestampInput _ = Inl INVALID_LEDGER_TIMESTAMP"

definition normalizePostLedgerJournalCommand :: "jsval \<Rightarrow> PostLedgerJournalCommand ledger_result" where
  "normalizePostLedgerJournalCommand value =
     res_bind (ownDataRecord value (''correlationId'' # post_keys) INVALID_LEDGER_JOURNAL) (\<lambda>record.
     res_bind (timestampInput (js_get record ''effectiveAt'')) (\<lambda>eff.
     res_bind (timestampInput (js_get record ''observedAt'')) (\<lambda>obs.
     res_bind (normalizePostLedgerJournalInput (mk_object
       [(''bookId'', js_get record ''bookId''),
        (''transactionId'', js_get record ''transactionId''),
        (''legId'', js_get record ''legId''),
        (''economicEventType'', js_get record ''economicEventType''),
        (''effectiveAt'', eff),
        (''observedAt'', obs),
        (''reason'', js_get record ''reason''),
        (''postings'', js_get record ''postings'')])) (\<lambda>journal.
     res_bind (parseLedgerCorrelationId (js_get record ''correlationId'')) (\<lambda>corr.
     Inr \<lparr>postCorrelationId = corr, postedJournal = journal\<rparr>)))))"

definition normalizeReverseLedgerJournalCommand :: "jsval \<Rightarrow> ReverseLedgerJournalCommand ledger_result" where
  "normalizeReverseLedgerJournalCommand value =
     res_bind (ownDataRecord value (''correlationId'' # reverse_keys) INVALID_LEDGER_JOURNAL) (\<lambda>record.
     res_bind (timestampInput (js_get record ''effectiveAt'')) (\<lambda>eff.
     res_bind (timestampInput (js_get record ''observedAt'')) (\<lambda>obs.
     res_bind (normalizeReverseLedgerJournalInput (mk_object
       [(''originalJournalId'', js_get record ''originalJournalId''),
        (''reason'', js_get record ''reason''),
        (''effectiveAt'', eff),
        (''observedAt'', obs)])) (\<lambda>reversal.
     res_bind (parseLedgerCorrelationId (js_get record ''correlationId'')) (\<lambda>corr.
     Inr \<lparr>reverseCorrelationId = corr, reversedJournal = reversal\<rparr>)))))"

subsection \<open>Representation of validated values\<close>

text \<open>
  The objects the program builds from validated values: frozen literals whose fields are
  the validated ones. An input carries dates, a command their texts.
\<close>

definition posting_object :: "LedgerPosting \<Rightarrow> jsval" where
  "posting_object p = mk_object
     [(''accountId'', JString (accountId p)), (''assetRevisionId'', JString (assetRevisionId p)),
      (''side'', JString (side_text (side p))), (''amountAtomic'', JString (amountAtomic p))]"

definition postings_array :: "LedgerPosting list \<Rightarrow> jsval" where
  "postings_array ps = mk_array (map posting_object ps)"

definition timestamp_date :: "string \<Rightarrow> jsval" where
  "timestamp_date s = (case read_timestamp s of None \<Rightarrow> JUndefined | Some t \<Rightarrow> mk_date t)"

definition post_journal_fields :: "(string \<Rightarrow> jsval) \<Rightarrow> ValidatedPostLedgerJournal \<Rightarrow> js_record" where
  "post_journal_fields time j =
     [(''bookId'', JString (bookId j)), (''transactionId'', JString (transactionId j)),
      (''legId'', JString (legId j)),
      (''economicEventType'', JString (event_type_text (economicEventType j))),
      (''effectiveAt'', time (effectiveAt j)), (''observedAt'', time (observedAt j)),
      (''reason'', JString (post_reason_text (reason j))), (''postings'', postings_array (postings j))]"

definition reverse_journal_fields :: "(string \<Rightarrow> jsval) \<Rightarrow> ValidatedReverseLedgerJournal \<Rightarrow> js_record" where
  "reverse_journal_fields time r =
     [(''originalJournalId'', JString (originalJournalId r)),
      (''reason'', JString (reversal_reason_text (reversalReason r))),
      (''effectiveAt'', time (reversalEffectiveAt r)), (''observedAt'', time (reversalObservedAt r))]"

subsection \<open>Specification\<close>

definition valid_amount :: "string \<Rightarrow> bool" where
  "valid_amount s = (\<exists>n. 1 \<le> n \<and> n < 2 ^ 256 \<and> s = nat_text n)"

definition valid_posting :: "LedgerPosting \<Rightarrow> bool" where
  "valid_posting p = (uuid_v4 (accountId p) \<and> uuid_v4 (assetRevisionId p) \<and> valid_amount (amountAtomic p))"

definition side_total :: "LedgerPostingSide \<Rightarrow> string \<Rightarrow> LedgerPosting list \<Rightarrow> nat" where
  "side_total sd a ps =
     sum_list (map (\<lambda>p. dec_val (amountAtomic p)) (filter (\<lambda>p. side p = sd \<and> assetRevisionId p = a) ps))"

text \<open>Double entry: two accounts at least, and per asset equal positive debits and credits.\<close>

definition balanced :: "LedgerPosting list \<Rightarrow> bool" where
  "balanced ps =
     (2 \<le> card (accountId ` set ps) \<and>
      (\<forall>a \<in> assetRevisionId ` set ps. 0 < side_total DEBIT a ps \<and> side_total DEBIT a ps = side_total CREDIT a ps))"

definition valid_postings :: "LedgerPosting list \<Rightarrow> bool" where
  "valid_postings ps =
     (2 \<le> length ps \<and> length ps \<le> 64 \<and> list_all valid_posting ps \<and> balanced ps)"

definition valid_period :: "string \<Rightarrow> string \<Rightarrow> bool" where
  "valid_period eff obs =
     (\<exists>t u. valid_time t \<and> valid_time u \<and> eff = to_iso t \<and> obs = to_iso u \<and> \<not> obs < eff)"

definition valid_post_journal :: "ValidatedPostLedgerJournal \<Rightarrow> bool" where
  "valid_post_journal j =
     (uuid_v4 (bookId j) \<and> uuid_v4 (transactionId j) \<and> uuid_v4 (legId j) \<and>
      validReasonForEvent (economicEventType j) (reason j) \<and>
      valid_period (effectiveAt j) (observedAt j) \<and> valid_postings (postings j))"

definition valid_reverse_journal :: "ValidatedReverseLedgerJournal \<Rightarrow> bool" where
  "valid_reverse_journal r =
     (uuid_v4 (originalJournalId r) \<and> valid_period (reversalEffectiveAt r) (reversalObservedAt r))"

subsection \<open>Enumerations, identifiers, amounts\<close>

interpretation event_type: text_enum event_type_text POSTABLE_ECONOMIC_EVENT_TYPES
proof
  show "x \<in> set POSTABLE_ECONOMIC_EVENT_TYPES" for x
    by (cases x) (simp_all add: POSTABLE_ECONOMIC_EVENT_TYPES_def)
  show "event_type_text x = event_type_text y \<Longrightarrow> x = y" for x y
    by (cases x; cases y) simp_all
qed

interpretation post_reason: text_enum post_reason_text POST_LEDGER_REASON_CODES
proof
  show "x \<in> set POST_LEDGER_REASON_CODES" for x
    by (cases x) (simp_all add: POST_LEDGER_REASON_CODES_def)
  show "post_reason_text x = post_reason_text y \<Longrightarrow> x = y" for x y
    by (cases x; cases y) simp_all
qed

interpretation reversal_reason: text_enum reversal_reason_text REVERSAL_LEDGER_REASON_CODES
proof
  show "x \<in> set REVERSAL_LEDGER_REASON_CODES" for x
    by (cases x) (simp_all add: REVERSAL_LEDGER_REASON_CODES_def)
  show "reversal_reason_text x = reversal_reason_text y \<Longrightarrow> x = y" for x y
    by (cases x; cases y) simp_all
qed

lemma parseEconomicEventType_iff [res_simps]:
  "(parseEconomicEventType v = Inr x) = (v = JString (event_type_text x))"
  by (simp add: parseEconomicEventType_def res_simps event_type.parse_iff)

lemma parsePostLedgerReason_iff [res_simps]:
  "(parsePostLedgerReason v = Inr x) = (v = JString (post_reason_text x))"
  by (simp add: parsePostLedgerReason_def res_simps post_reason.parse_iff)

lemma parseReversalLedgerReason_iff [res_simps]:
  "(parseReversalLedgerReason v = Inr x) = (v = JString (reversal_reason_text x))"
  by (simp add: parseReversalLedgerReason_def res_simps reversal_reason.parse_iff)

lemma parseUuid_iff [res_simps]: "(parseUuid v = Inr s) = (v = JString s \<and> uuid_v4 s)"
  by (cases v) auto

lemmas parse_id_defs =
  parseLedgerBookId_def parseLedgerAssetRevisionId_def parseLedgerAccountId_def
  parseLedgerTransactionId_def parseLedgerLegId_def parseLedgerJournalId_def
  parseLedgerCorrelationId_def parseLedgerActorAccountId_def

lemma max_amount_digits: "positive_nat MAX_ATOMIC_AMOUNT"
  by (simp add: positive_nat_def MAX_ATOMIC_AMOUNT_def is_digit_def)

lemma max_amount_val: "dec_val MAX_ATOMIC_AMOUNT = 2 ^ 256 - 1"
  by (simp add: dec_val_def MAX_ATOMIC_AMOUNT_def digit_val_def)

lemma max_amount_length: "length MAX_ATOMIC_AMOUNT = 78"
  by (simp add: MAX_ATOMIC_AMOUNT_def)

lemma valid_amount_iff: "valid_amount s = (positive_nat s \<and> dec_val s \<le> 2 ^ 256 - 1)"
proof
  assume "valid_amount s"
  then obtain n where "1 \<le> n" "n < 2 ^ 256" "s = nat_text n" by (auto simp: valid_amount_def)
  then show "positive_nat s \<and> dec_val s \<le> 2 ^ 256 - 1" by simp
next
  assume s: "positive_nat s \<and> dec_val s \<le> 2 ^ 256 - 1"
  then have "nat_text (dec_val s) = s" by (intro nat_text_dec_val) (simp add: positive_nat_iff)
  moreover have "1 \<le> dec_val s" using s positive_dec_val [of s] by simp
  moreover have "dec_val s < 2 ^ 256" using s by simp
  ultimately show "valid_amount s" unfolding valid_amount_def by metis
qed

lemma parseAtomicAmount_iff [res_simps]:
  "(parseAtomicAmount v = Inr s) = (v = JString s \<and> valid_amount s)"
proof (cases v)
  case (JString x)
  have "positive_nat x \<Longrightarrow> within_text_limit MAX_ATOMIC_AMOUNT x = (dec_val x \<le> 2 ^ 256 - 1)"
    by (simp only: within_text_limit_iff max_amount_digits max_amount_val)
  then show ?thesis
    using JString by (auto simp: valid_amount_iff within_text_limit_def max_amount_length)
qed auto

subsection \<open>Timestamps\<close>

lemma parseLedgerTimestamp_iff [res_simps]:
  "(parseLedgerTimestamp v = Inr s) = (\<exists>t. v = mk_date t \<and> valid_time t \<and> s = to_iso t)"
  by (cases v rule: parseLedgerTimestamp.cases) (auto simp: mk_date_def)

lemma timestampInput_iff [res_simps]:
  "(timestampInput v = Inr d) = (\<exists>t. v = JString (to_iso t) \<and> valid_time t \<and> d = mk_date t)"
  by (cases v) (auto simp: read_timestamp_iff read_timestamp_to_iso to_iso_inject split: option.splits)

lemma timestamp_date_to_iso: "valid_time t \<Longrightarrow> timestamp_date (to_iso t) = mk_date t"
  by (simp add: timestamp_date_def read_timestamp_to_iso)

subsection \<open>Postings\<close>

lemma ownDataRecord_iff [res_simps]:
  "(ownDataRecord v keys code = Inr r) = (exact_data_record keys v = Some r)"
  by (simp add: ownDataRecord_def res_simps)

lemma parseSide_iff [res_simps]: "(parseSide v = Inr sd) = (v = JString (side_text sd))"
  by (cases sd) auto

declare parseSide.simps [simp del]

lemma js_get_Cons: "js_get ((k, v) # r) k' = (if k' = k then v else js_get r k')"
  by (simp add: js_get_def)

interpretation posting: validator parsePosting posting_object valid_posting
proof
  show "valid_posting x" if "parsePosting v = Inr x" for v x
    using that by (auto simp: parsePosting_def res_simps parse_id_defs valid_posting_def)
  show "parsePosting (posting_object x) = Inr x" if "valid_posting x" for x
  proof -
    have "exact_data_record [''accountId'', ''assetRevisionId'', ''side'', ''amountAtomic''] (posting_object x)
        = Some [(''accountId'', JString (accountId x)), (''assetRevisionId'', JString (assetRevisionId x)),
           (''side'', JString (side_text (side x))), (''amountAtomic'', JString (amountAtomic x))]"
      unfolding posting_object_def by (rule exact_data_record_literal) simp_all
    with that show ?thesis
      by (auto simp: parsePosting_def res_simps parse_id_defs valid_posting_def js_get_Cons)
  qed
qed

lemma side_total_snoc:
  "side_total sd a (ps @ [p]) =
     side_total sd a ps + (if side p = sd \<and> assetRevisionId p = a then dec_val (amountAtomic p) else 0)"
  by (simp add: side_total_def)

lemma side_total_absent: "a \<notin> assetRevisionId ` set ps \<Longrightarrow> side_total sd a ps = 0"
  by (induction ps) (auto simp: side_total_def)

lemma map_of_addPosting:
  "map_of (addPosting bs p) a =
     (if a = assetRevisionId p
      then (let (d, c) = (case map_of bs a of None \<Rightarrow> (0, 0) | Some b \<Rightarrow> b)
            in Some (if side p = DEBIT then (d + dec_val (amountAtomic p), c)
                     else (d, c + dec_val (amountAtomic p))))
      else map_of bs a)"
  by (auto simp: Let_def update_conv split: prod.splits option.splits)

declare addPosting.simps [simp del]

text \<open>The loop computes the two totals of every asset that occurs.\<close>

lemma map_of_postingBalances:
  "map_of (postingBalances ps) a =
     (if a \<in> assetRevisionId ` set ps then Some (side_total DEBIT a ps, side_total CREDIT a ps) else None)"
proof (induction ps rule: rev_induct)
  case Nil
  then show ?case by (simp add: postingBalances_def)
next
  case (snoc p ps)
  have step: "postingBalances (ps @ [p]) = addPosting (postingBalances ps) p"
    by (simp add: postingBalances_def)
  have "side p \<noteq> DEBIT \<Longrightarrow> side p = CREDIT" by (cases "side p") auto
  then show ?case
    unfolding step map_of_addPosting
    using snoc by (auto simp: side_total_snoc side_total_absent Let_def)
qed

lemma distinct_addPosting: "distinct (map fst bs) \<Longrightarrow> distinct (map fst (addPosting bs p))"
  by (auto simp: addPosting.simps Let_def distinct_update split: prod.splits)

lemma distinct_postingBalances: "distinct (map fst (postingBalances ps))"
proof (induction ps rule: rev_induct)
  case (snoc p ps)
  then show ?case by (simp add: postingBalances_def distinct_addPosting)
qed (simp add: postingBalances_def)

lemma postingBalances_entries:
  "((a, d, c) \<in> set (postingBalances ps)) =
     (a \<in> assetRevisionId ` set ps \<and> d = side_total DEBIT a ps \<and> c = side_total CREDIT a ps)"
proof -
  have "((a, d, c) \<in> set (postingBalances ps)) = (map_of (postingBalances ps) a = Some (d, c))"
    using distinct_postingBalances [of ps] by simp
  then show ?thesis by (auto simp: map_of_postingBalances)
qed

lemma list_ex_triple:
  "list_ex (\<lambda>(_, d, c). P d c) xs = (\<exists>a d c. (a, d, c) \<in> set xs \<and> P d c)"
  by (induction xs) auto

lemma unbalanced_iff: "unbalanced ps = (\<not> balanced ps)"
proof -
  have card: "length (remdups (map accountId ps)) = card (accountId ` set ps)"
    by (simp add: length_remdups_card_conv)
  have "list_ex (\<lambda>(_, d, c). d = 0 \<or> d \<noteq> c) (postingBalances ps) =
      (\<exists>a d c. (a, d, c) \<in> set (postingBalances ps) \<and> (d = 0 \<or> d \<noteq> c))"
    by (rule list_ex_triple)
  then show ?thesis
    unfolding unbalanced_def balanced_def card postingBalances_entries by auto
qed

interpretation postings: validator parseAndBalancePostings postings_array valid_postings
proof
  show "valid_postings x" if "parseAndBalancePostings v = Inr x" for v x
  proof -
    from that obtain vs where vs: "exact_data_array 2 64 v = Some vs" "res_map parsePosting vs = Inr x"
      and bal: "balanced x"
      by (auto simp: parseAndBalancePostings_def ownDataArray_def MAX_LEDGER_POSTINGS_def res_simps
          unbalanced_iff split: if_splits)
    with exact_data_array_bounds [OF vs(1)] res_map_length [OF vs(2)] posting.list_sound [OF vs(2)]
    show ?thesis by (simp add: valid_postings_def)
  qed
  show "parseAndBalancePostings (postings_array x) = Inr x" if "valid_postings x" for x
    using that
    by (simp add: parseAndBalancePostings_def ownDataArray_def MAX_LEDGER_POSTINGS_def postings_array_def
        exact_data_array_literal posting.list_complete valid_postings_def unbalanced_iff)
qed

subsection \<open>Journals\<close>

lemma valid_periodI: "valid_time t \<Longrightarrow> valid_time u \<Longrightarrow> \<not> to_iso u < to_iso t \<Longrightarrow> valid_period (to_iso t) (to_iso u)"
  by (auto simp: valid_period_def)

definition post_input_object :: "ValidatedPostLedgerJournal \<Rightarrow> jsval" where
  "post_input_object j = mk_object (post_journal_fields timestamp_date j)"

definition reverse_input_object :: "ValidatedReverseLedgerJournal \<Rightarrow> jsval" where
  "reverse_input_object r = mk_object (reverse_journal_fields timestamp_date r)"

lemma post_record:
  "exact_data_record post_keys (mk_object (post_journal_fields time j)) = Some (post_journal_fields time j)"
  by (rule exact_data_record_literal) (simp_all add: post_journal_fields_def)

lemma reverse_record:
  "exact_data_record reverse_keys (mk_object (reverse_journal_fields time r)) = Some (reverse_journal_fields time r)"
  by (rule exact_data_record_literal) (simp_all add: reverse_journal_fields_def)

lemma post_complete:
  assumes "valid_post_journal j"
  shows "normalizePostLedgerJournalInput (post_input_object j) = Inr j"
proof -
  from assms obtain t u where tu: "valid_time t" "valid_time u"
    and eff: "effectiveAt j = to_iso t" and obs: "observedAt j = to_iso u"
    and le: "\<not> observedAt j < effectiveAt j"
    by (auto simp: valid_post_journal_def valid_period_def)
  have "parseAndBalancePostings (postings_array (postings j)) = Inr (postings j)"
    using assms by (intro postings.complete) (simp add: valid_post_journal_def)
  then show ?thesis
    using assms tu eff obs le
    unfolding normalizePostLedgerJournalInput_def post_input_object_def
    by (simp only: ownDataRecord_iff [THEN iffD2, OF post_record] res_bind.simps)
      (simp add: post_journal_fields_def js_get_Cons res_simps timestamp_date_to_iso mk_date_def parse_id_defs
        valid_post_journal_def parseEconomicEventType_def event_type.parse_spell
        parsePostLedgerReason_def post_reason.parse_spell)
qed

lemma post_sound:
  "normalizePostLedgerJournalInput v = Inr j \<Longrightarrow> valid_post_journal j"
  by (auto simp: normalizePostLedgerJournalInput_def res_simps parse_id_defs valid_post_journal_def
      simp del: validReasonForEvent.simps intro: valid_periodI postings.sound)

interpretation post_input: validator normalizePostLedgerJournalInput post_input_object valid_post_journal
  by unfold_locales (simp_all add: post_complete post_sound)

lemma reverse_complete:
  assumes "valid_reverse_journal r"
  shows "normalizeReverseLedgerJournalInput (reverse_input_object r) = Inr r"
proof -
  from assms obtain t u where "valid_time t" "valid_time u"
    and "reversalEffectiveAt r = to_iso t" "reversalObservedAt r = to_iso u"
    and "\<not> reversalObservedAt r < reversalEffectiveAt r"
    by (auto simp: valid_reverse_journal_def valid_period_def)
  then show ?thesis
    using assms
    unfolding normalizeReverseLedgerJournalInput_def reverse_input_object_def
    by (simp only: ownDataRecord_iff [THEN iffD2, OF reverse_record] res_bind.simps)
      (simp add: reverse_journal_fields_def js_get_Cons res_simps timestamp_date_to_iso mk_date_def parse_id_defs
        valid_reverse_journal_def parseReversalLedgerReason_def reversal_reason.parse_spell)
qed

lemma reverse_sound:
  "normalizeReverseLedgerJournalInput v = Inr r \<Longrightarrow> valid_reverse_journal r"
  by (auto simp: normalizeReverseLedgerJournalInput_def res_simps parse_id_defs valid_reverse_journal_def
      intro: valid_periodI)

interpretation reverse_input: validator normalizeReverseLedgerJournalInput reverse_input_object valid_reverse_journal
  by unfold_locales (simp_all add: reverse_complete reverse_sound)

subsection \<open>Commands\<close>

text \<open>A command is the validated journal with its texts and a correlation identifier.\<close>

definition post_command_object :: "string \<Rightarrow> ValidatedPostLedgerJournal \<Rightarrow> jsval" where
  "post_command_object c j = mk_object ((''correlationId'', JString c) # post_journal_fields JString j)"

definition reverse_command_object :: "string \<Rightarrow> ValidatedReverseLedgerJournal \<Rightarrow> jsval" where
  "reverse_command_object c r = mk_object ((''correlationId'', JString c) # reverse_journal_fields JString r)"

lemma timestampInput_period:
  assumes "valid_period eff obs"
  shows "timestampInput (JString eff) = Inr (timestamp_date eff)"
    and "timestampInput (JString obs) = Inr (timestamp_date obs)"
  using assms by (auto simp: valid_period_def read_timestamp_to_iso timestamp_date_def)

lemma post_command_complete:
  assumes j: "valid_post_journal j" and c: "uuid_v4 c"
  shows "normalizePostLedgerJournalCommand (post_command_object c j) = Inr \<lparr>postCorrelationId = c, postedJournal = j\<rparr>"
proof -
  have rec: "ownDataRecord (post_command_object c j) (''correlationId'' # post_keys) INVALID_LEDGER_JOURNAL
      = Inr ((''correlationId'', JString c) # post_journal_fields JString j)"
    unfolding ownDataRecord_iff post_command_object_def
    by (rule exact_data_record_literal) (simp_all add: post_journal_fields_def)
  have time: "timestampInput (JString (effectiveAt j)) = Inr (timestamp_date (effectiveAt j))"
    "timestampInput (JString (observedAt j)) = Inr (timestamp_date (observedAt j))"
    using timestampInput_period j by (auto simp: valid_post_journal_def)
  have input: "normalizePostLedgerJournalInput (mk_object (post_journal_fields timestamp_date j)) = Inr j"
    using post_complete [OF j] by (simp add: post_input_object_def)
  show ?thesis
    unfolding normalizePostLedgerJournalCommand_def rec
    using time input c
    by (simp add: js_get_Cons post_journal_fields_def parse_id_defs)
qed

lemma reverse_command_complete:
  assumes r: "valid_reverse_journal r" and c: "uuid_v4 c"
  shows "normalizeReverseLedgerJournalCommand (reverse_command_object c r) =
    Inr \<lparr>reverseCorrelationId = c, reversedJournal = r\<rparr>"
proof -
  have rec: "ownDataRecord (reverse_command_object c r) (''correlationId'' # reverse_keys) INVALID_LEDGER_JOURNAL
      = Inr ((''correlationId'', JString c) # reverse_journal_fields JString r)"
    unfolding ownDataRecord_iff reverse_command_object_def
    by (rule exact_data_record_literal) (simp_all add: reverse_journal_fields_def)
  have time: "timestampInput (JString (reversalEffectiveAt r)) = Inr (timestamp_date (reversalEffectiveAt r))"
    "timestampInput (JString (reversalObservedAt r)) = Inr (timestamp_date (reversalObservedAt r))"
    using timestampInput_period r by (auto simp: valid_reverse_journal_def)
  have input: "normalizeReverseLedgerJournalInput (mk_object (reverse_journal_fields timestamp_date r)) = Inr r"
    using reverse_complete [OF r] by (simp add: reverse_input_object_def)
  show ?thesis
    unfolding normalizeReverseLedgerJournalCommand_def rec
    using time input c
    by (simp add: js_get_Cons reverse_journal_fields_def parse_id_defs)
qed

subsection \<open>Properties\<close>

text \<open>
  An example journal: one debit and one credit of 250 units of the same asset between two
  accounts, effective at the observation time.
\<close>

definition sample_posting :: "string \<Rightarrow> LedgerPostingSide \<Rightarrow> LedgerPosting" where
  "sample_posting account sd =
     \<lparr>accountId = account, assetRevisionId = ''10000000-0000-4000-8000-000000000009'', side = sd,
      amountAtomic = ''250''\<rparr>"

definition sample_journal :: ValidatedPostLedgerJournal where
  "sample_journal =
     \<lparr>bookId = ''10000000-0000-4000-8000-000000000001'',
      transactionId = ''10000000-0000-4000-8000-000000000002'',
      legId = ''10000000-0000-4000-8000-000000000003'',
      economicEventType = SETTLEMENT,
      effectiveAt = ''2026-08-25T00:00:00.000Z'', observedAt = ''2026-08-25T00:00:01.000Z'',
      reason = CHAIN_FINALITY_CONFIRMED,
      postings = [sample_posting ''10000000-0000-4000-8000-000000000004'' DEBIT,
                  sample_posting ''10000000-0000-4000-8000-000000000005'' CREDIT]\<rparr>"

lemma sample_journal_accepted:
  "normalizePostLedgerJournalInput (post_input_object sample_journal) = Inr sample_journal"
  by code_simp

text \<open>C1. Double entry. Every journal the ledger accepts for posting has between 2 and 64
  postings over at least two accounts, every amount is a canonical decimal between 1 and
  2^256 - 1, and for every asset revision that occurs the debits and the credits have the
  same positive total.
\<close>

theorem accepted_journal_double_entry:
  assumes "normalizePostLedgerJournalInput v = Inr j"
  shows "2 \<le> length (postings j) \<and> length (postings j) \<le> 64 \<and>
    2 \<le> card (accountId ` set (postings j)) \<and>
    (\<forall>p \<in> set (postings j). \<exists>n. 1 \<le> n \<and> n < 2 ^ 256 \<and> amountAtomic p = nat_text n) \<and>
    (\<forall>a \<in> assetRevisionId ` set (postings j).
       0 < side_total DEBIT a (postings j) \<and> side_total DEBIT a (postings j) = side_total CREDIT a (postings j))"
proof -
  have "valid_postings (postings j)"
    using post_input.sound [OF assms] by (simp add: valid_post_journal_def)
  then show ?thesis
    unfolding valid_postings_def balanced_def list_all_iff valid_posting_def valid_amount_def by blast
qed

theorem accepted_journal_double_entry_witness:
  "side_total DEBIT ''10000000-0000-4000-8000-000000000009'' (postings sample_journal) =
   side_total CREDIT ''10000000-0000-4000-8000-000000000009'' (postings sample_journal)"
  using accepted_journal_double_entry [OF sample_journal_accepted]
  by (simp add: sample_journal_def sample_posting_def)

text \<open>C25. The ledger accepts exactly the valid journals: a journal is the normal form of some
  input if and only if its identifiers are version-4 UUIDs, its reason fits its event type,
  its two timestamps are texts of valid times with the observation not before the effect in
  text order, and its postings form a balanced double entry.
\<close>

theorem accepted_journals_are_the_valid_ones:
  "(\<exists>v. normalizePostLedgerJournalInput v = Inr j) = valid_post_journal j"
  by (rule post_input.accepted_iff)

text \<open>Amounts. An amount is accepted exactly when it is a string that spells, without sign
  or leading zero, an integer from 1 to 2^256 - 1; the comparison of the source against the
  limit works on strings and never on numbers.
\<close>

theorem parseAtomicAmount_accepts_exactly:
  "(parseAtomicAmount v = Inr s) = (v = JString s \<and> (\<exists>n. 1 \<le> n \<and> n < 2 ^ 256 \<and> s = nat_text n))"
  by (simp add: parseAtomicAmount_iff valid_amount_def)

text \<open>Revalidation. A journal that was accepted as an input passes the command validator,
  which reads the timestamps back from their texts, unchanged: the second validation can
  neither refuse nor alter what the first one accepted.
\<close>

theorem post_command_revalidates:
  assumes "normalizePostLedgerJournalInput v = Inr j" and "uuid_v4 c"
  shows "normalizePostLedgerJournalCommand (post_command_object c j) = Inr \<lparr>postCorrelationId = c, postedJournal = j\<rparr>"
  using post_command_complete [OF post_input.sound [OF assms(1)] assms(2)] .

theorem post_command_revalidates_witness:
  "normalizePostLedgerJournalCommand (post_command_object ''10000000-0000-4000-8000-00000000000a'' sample_journal) =
     Inr \<lparr>postCorrelationId = ''10000000-0000-4000-8000-00000000000a'', postedJournal = sample_journal\<rparr>"
  by (rule post_command_revalidates [OF sample_journal_accepted]) code_simp

text \<open>Time order. When both times of an accepted journal lie in the years 0 to 9999, the
  observation is not before the effect, although the source compares texts.
\<close>

theorem accepted_journal_time_order:
  assumes "normalizePostLedgerJournalInput v = Inr j"
    and "effectiveAt j = to_iso t" "observedAt j = to_iso u"
    and "plain_year t" "plain_year u"
  shows "t \<le> u"
proof -
  have "\<not> observedAt j < effectiveAt j"
    using post_input.sound [OF assms(1)] by (auto simp: valid_post_journal_def valid_period_def)
  then show ?thesis using assms to_iso_less [of u t] by simp
qed

lemma sample_times:
  "effectiveAt sample_journal = to_iso 1787616000000" "observedAt sample_journal = to_iso 1787616001000"
  "plain_year 1787616000000" "plain_year 1787616001000"
  by code_simp+

theorem accepted_journal_time_order_witness: "(1787616000000::int) \<le> 1787616001000"
  by (rule accepted_journal_time_order [OF sample_journal_accepted sample_times])

definition far_journal :: ValidatedPostLedgerJournal where
  "far_journal = sample_journal\<lparr>effectiveAt := ''+010000-01-01T00:00:00.000Z''\<rparr>"

lemma far_time: "to_iso 253402300800000 = ''+010000-01-01T00:00:00.000Z''"
  by code_simp

lemma far_journal_accepted:
  "normalizePostLedgerJournalInput (post_input_object far_journal) = Inr far_journal"
proof (rule post_input.complete)
  have "valid_post_journal sample_journal" using post_input.sound [OF sample_journal_accepted] .
  moreover have "valid_period ''+010000-01-01T00:00:00.000Z'' (observedAt sample_journal)"
    unfolding valid_period_def
  proof (intro exI conjI)
    show "''+010000-01-01T00:00:00.000Z'' = to_iso 253402300800000" by (simp add: far_time)
    show "observedAt sample_journal = to_iso 1787616001000" by (rule sample_times)
    show "\<not> observedAt sample_journal < ''+010000-01-01T00:00:00.000Z''"
      by (simp add: sample_journal_def less_char_def)
  qed (simp_all add: valid_time_def)
  ultimately show "valid_post_journal far_journal"
    by (simp add: valid_post_journal_def far_journal_def)
qed

text \<open>C40. The limit of the text comparison. There is an accepted journal whose observation
  precedes its effect: the effect is in the year 10000, whose text starts with a plus sign
  and therefore sorts before every four-digit year.
\<close>

theorem accepted_journal_out_of_order:
  "\<exists>v j t u. normalizePostLedgerJournalInput v = Inr j \<and> valid_time t \<and> valid_time u \<and>
     effectiveAt j = to_iso t \<and> observedAt j = to_iso u \<and> u < t"
proof -
  have "effectiveAt far_journal = to_iso 253402300800000" "observedAt far_journal = to_iso 1787616001000"
    using sample_times(2) by (simp_all add: far_journal_def far_time)
  moreover have "valid_time 253402300800000" "valid_time 1787616001000" by (simp_all add: valid_time_def)
  moreover have "(1787616001000::int) < 253402300800000" by simp
  ultimately show ?thesis using far_journal_accepted by blast
qed

end
