(* ===== verification/Ledger_Lifecycle.thy ===== *)
theory Ledger_Lifecycle
  imports Ledger
begin

text \<open>
  The transaction lifecycle of the ledger
  (\<^verbatim>\<open>apps/api/src/ledger/domain/transaction-lifecycle.ts\<close>): the two rule tables, the tests
  whether a transition is allowed, and the normalisation of lifecycle and recovery
  transitions. The rule tables are read as step relations \<open>lifecycle_step\<close> and
  \<open>recovery_step\<close>; the properties are about every path through them.
\<close>

subsection \<open>Data\<close>

datatype LedgerLifecycleState =
  CREATED | QUOTED | USER_APPROVED | SUBMITTED | PENDING | SETTLED | FAILED | REVERSED

datatype LedgerRecoveryState = NOT_REQUIRED | REQUIRED | IN_PROGRESS | RESOLVED

datatype LedgerLifecycleReasonCode =
    INTENT_CREATED | QUOTE_CREATED | USER_APPROVAL_RECORDED | SUBMISSION_RECORDED | OUTCOME_PENDING
  | SETTLEMENT_RECORDED | PREFLIGHT_FAILED | USER_REJECTED | QUOTE_EXPIRED | PROVIDER_REJECTED
  | TERMINAL_FAILURE_CONFIRMED | FULL_REVERSAL_RECORDED

datatype LedgerRecoveryReasonCode = RECOVERY_REQUIRED | RECOVERY_STARTED | RECOVERY_RESOLVED

datatype LedgerLifecycleValidationCode =
    INVALID_LIFECYCLE_INPUT
  | INVALID_LIFECYCLE_STATE
  | INVALID_LIFECYCLE_REASON
  | INVALID_LIFECYCLE_TIMESTAMP
  | ILLEGAL_LIFECYCLE_TRANSITION

text \<open>The identifier parsers of the ledger throw errors of their own, which pass through.\<close>

datatype lifecycle_error = LifecycleError LedgerLifecycleValidationCode | LedgerError LedgerValidationCode

fun lifecycle_state_text :: "LedgerLifecycleState \<Rightarrow> string" where
  "lifecycle_state_text CREATED = ''CREATED''"
| "lifecycle_state_text QUOTED = ''QUOTED''"
| "lifecycle_state_text USER_APPROVED = ''USER_APPROVED''"
| "lifecycle_state_text SUBMITTED = ''SUBMITTED''"
| "lifecycle_state_text PENDING = ''PENDING''"
| "lifecycle_state_text SETTLED = ''SETTLED''"
| "lifecycle_state_text FAILED = ''FAILED''"
| "lifecycle_state_text REVERSED = ''REVERSED''"

fun recovery_state_text :: "LedgerRecoveryState \<Rightarrow> string" where
  "recovery_state_text NOT_REQUIRED = ''NOT_REQUIRED''"
| "recovery_state_text REQUIRED = ''REQUIRED''"
| "recovery_state_text IN_PROGRESS = ''IN_PROGRESS''"
| "recovery_state_text RESOLVED = ''RESOLVED''"

fun lifecycle_reason_text :: "LedgerLifecycleReasonCode \<Rightarrow> string" where
  "lifecycle_reason_text INTENT_CREATED = ''INTENT_CREATED''"
| "lifecycle_reason_text QUOTE_CREATED = ''QUOTE_CREATED''"
| "lifecycle_reason_text USER_APPROVAL_RECORDED = ''USER_APPROVAL_RECORDED''"
| "lifecycle_reason_text SUBMISSION_RECORDED = ''SUBMISSION_RECORDED''"
| "lifecycle_reason_text OUTCOME_PENDING = ''OUTCOME_PENDING''"
| "lifecycle_reason_text SETTLEMENT_RECORDED = ''SETTLEMENT_RECORDED''"
| "lifecycle_reason_text PREFLIGHT_FAILED = ''PREFLIGHT_FAILED''"
| "lifecycle_reason_text USER_REJECTED = ''USER_REJECTED''"
| "lifecycle_reason_text QUOTE_EXPIRED = ''QUOTE_EXPIRED''"
| "lifecycle_reason_text PROVIDER_REJECTED = ''PROVIDER_REJECTED''"
| "lifecycle_reason_text TERMINAL_FAILURE_CONFIRMED = ''TERMINAL_FAILURE_CONFIRMED''"
| "lifecycle_reason_text FULL_REVERSAL_RECORDED = ''FULL_REVERSAL_RECORDED''"

fun recovery_reason_text :: "LedgerRecoveryReasonCode \<Rightarrow> string" where
  "recovery_reason_text RECOVERY_REQUIRED = ''RECOVERY_REQUIRED''"
| "recovery_reason_text RECOVERY_STARTED = ''RECOVERY_STARTED''"
| "recovery_reason_text RECOVERY_RESOLVED = ''RECOVERY_RESOLVED''"

definition LEDGER_LIFECYCLE_STATES :: "LedgerLifecycleState list" where
  "LEDGER_LIFECYCLE_STATES =
     [CREATED, QUOTED, USER_APPROVED, SUBMITTED, PENDING, SETTLED, FAILED, REVERSED]"

definition LEDGER_RECOVERY_STATES :: "LedgerRecoveryState list" where
  "LEDGER_RECOVERY_STATES = [NOT_REQUIRED, REQUIRED, IN_PROGRESS, RESOLVED]"

definition LEDGER_LIFECYCLE_REASON_CODES :: "LedgerLifecycleReasonCode list" where
  "LEDGER_LIFECYCLE_REASON_CODES =
     [INTENT_CREATED, QUOTE_CREATED, USER_APPROVAL_RECORDED, SUBMISSION_RECORDED, OUTCOME_PENDING,
      SETTLEMENT_RECORDED, PREFLIGHT_FAILED, USER_REJECTED, QUOTE_EXPIRED, PROVIDER_REJECTED,
      TERMINAL_FAILURE_CONFIRMED, FULL_REVERSAL_RECORDED]"

definition LEDGER_RECOVERY_REASON_CODES :: "LedgerRecoveryReasonCode list" where
  "LEDGER_RECOVERY_REASON_CODES = [RECOVERY_REQUIRED, RECOVERY_STARTED, RECOVERY_RESOLVED]"

record LifecycleRule =
  rule_from :: "LedgerLifecycleState option"
  rule_to :: LedgerLifecycleState
  rule_reasons :: "LedgerLifecycleReasonCode list"

record RecoveryRule =
  recovery_from :: LedgerRecoveryState
  recovery_to :: LedgerRecoveryState
  recovery_reasons :: "LedgerRecoveryReasonCode list"

definition LIFECYCLE_RULES :: "LifecycleRule list" where
  "LIFECYCLE_RULES =
    [\<lparr>rule_from = None, rule_to = CREATED, rule_reasons = [INTENT_CREATED]\<rparr>,
     \<lparr>rule_from = Some CREATED, rule_to = QUOTED, rule_reasons = [QUOTE_CREATED]\<rparr>,
     \<lparr>rule_from = Some CREATED, rule_to = FAILED, rule_reasons = [PREFLIGHT_FAILED]\<rparr>,
     \<lparr>rule_from = Some QUOTED, rule_to = USER_APPROVED, rule_reasons = [USER_APPROVAL_RECORDED]\<rparr>,
     \<lparr>rule_from = Some QUOTED, rule_to = FAILED, rule_reasons = [PREFLIGHT_FAILED, USER_REJECTED, QUOTE_EXPIRED]\<rparr>,
     \<lparr>rule_from = Some USER_APPROVED, rule_to = SUBMITTED, rule_reasons = [SUBMISSION_RECORDED]\<rparr>,
     \<lparr>rule_from = Some USER_APPROVED, rule_to = FAILED, rule_reasons = [PREFLIGHT_FAILED, USER_REJECTED]\<rparr>,
     \<lparr>rule_from = Some SUBMITTED, rule_to = PENDING, rule_reasons = [OUTCOME_PENDING]\<rparr>,
     \<lparr>rule_from = Some SUBMITTED, rule_to = SETTLED, rule_reasons = [SETTLEMENT_RECORDED]\<rparr>,
     \<lparr>rule_from = Some SUBMITTED, rule_to = FAILED, rule_reasons = [PROVIDER_REJECTED]\<rparr>,
     \<lparr>rule_from = Some PENDING, rule_to = SETTLED, rule_reasons = [SETTLEMENT_RECORDED]\<rparr>,
     \<lparr>rule_from = Some PENDING, rule_to = FAILED, rule_reasons = [TERMINAL_FAILURE_CONFIRMED]\<rparr>,
     \<lparr>rule_from = Some SETTLED, rule_to = REVERSED, rule_reasons = [FULL_REVERSAL_RECORDED]\<rparr>]"

definition RECOVERY_RULES :: "RecoveryRule list" where
  "RECOVERY_RULES =
    [\<lparr>recovery_from = NOT_REQUIRED, recovery_to = REQUIRED, recovery_reasons = [RECOVERY_REQUIRED]\<rparr>,
     \<lparr>recovery_from = REQUIRED, recovery_to = IN_PROGRESS, recovery_reasons = [RECOVERY_STARTED]\<rparr>,
     \<lparr>recovery_from = REQUIRED, recovery_to = RESOLVED, recovery_reasons = [RECOVERY_RESOLVED]\<rparr>,
     \<lparr>recovery_from = IN_PROGRESS, recovery_to = RESOLVED, recovery_reasons = [RECOVERY_RESOLVED]\<rparr>]"

record ValidatedLedgerLifecycleTransition =
  lt_transactionId :: string
  lt_legId :: "string option"
  lt_expectedState :: "LedgerLifecycleState option"
  lt_nextState :: LedgerLifecycleState
  lt_reason :: LedgerLifecycleReasonCode
  lt_effectiveAt :: string

record LedgerLifecycleTransitionCommand =
  lc_actorAccountId :: string
  lc_correlationId :: string
  lc_transition :: ValidatedLedgerLifecycleTransition

record ValidatedLedgerRecoveryTransition =
  rt_transactionId :: string
  rt_legId :: "string option"
  rt_expectedRecoveryState :: LedgerRecoveryState
  rt_nextRecoveryState :: LedgerRecoveryState
  rt_reason :: LedgerRecoveryReasonCode
  rt_effectiveAt :: string

record LedgerRecoveryTransitionCommand =
  rc_actorAccountId :: string
  rc_correlationId :: string
  rc_transition :: ValidatedLedgerRecoveryTransition

subsection \<open>Operations\<close>

type_synonym 'a lifecycle_result = "lifecycle_error + 'a"

definition ownDataRecord :: "jsval \<Rightarrow> string list \<Rightarrow> js_record lifecycle_result" where
  "ownDataRecord value expectedKeys =
     of_option (LifecycleError INVALID_LIFECYCLE_INPUT) (exact_data_record expectedKeys value)"

definition parseLifecycleState :: "jsval \<Rightarrow> LedgerLifecycleState lifecycle_result" where
  "parseLifecycleState value =
     of_option (LifecycleError INVALID_LIFECYCLE_STATE)
       (parse_enum lifecycle_state_text LEDGER_LIFECYCLE_STATES value)"

definition parseNullableLifecycleState :: "jsval \<Rightarrow> LedgerLifecycleState option lifecycle_result" where
  "parseNullableLifecycleState value =
     (if value = JNull then Inr None else res_bind (parseLifecycleState value) (\<lambda>s. Inr (Some s)))"

definition parseRecoveryState :: "jsval \<Rightarrow> LedgerRecoveryState lifecycle_result" where
  "parseRecoveryState value =
     of_option (LifecycleError INVALID_LIFECYCLE_STATE)
       (parse_enum recovery_state_text LEDGER_RECOVERY_STATES value)"

definition parseLifecycleReason :: "jsval \<Rightarrow> LedgerLifecycleReasonCode lifecycle_result" where
  "parseLifecycleReason value =
     of_option (LifecycleError INVALID_LIFECYCLE_REASON)
       (parse_enum lifecycle_reason_text LEDGER_LIFECYCLE_REASON_CODES value)"

definition parseRecoveryReason :: "jsval \<Rightarrow> LedgerRecoveryReasonCode lifecycle_result" where
  "parseRecoveryReason value =
     of_option (LifecycleError INVALID_LIFECYCLE_REASON)
       (parse_enum recovery_reason_text LEDGER_RECOVERY_REASON_CODES value)"

fun parseLifecycleTimestamp :: "jsval \<Rightarrow> string lifecycle_result" where
  "parseLifecycleTimestamp (JDate ProtoDate (Some milliseconds)) =
     (if valid_time milliseconds then Inr (to_iso milliseconds)
      else Inl (LifecycleError INVALID_LIFECYCLE_TIMESTAMP))"
| "parseLifecycleTimestamp _ = Inl (LifecycleError INVALID_LIFECYCLE_TIMESTAMP)"

fun timestampInput :: "jsval \<Rightarrow> jsval lifecycle_result" where
  "timestampInput (JString s) =
     (case read_timestamp s of
        None \<Rightarrow> Inl (LifecycleError INVALID_LIFECYCLE_TIMESTAMP)
      | Some t \<Rightarrow> Inr (mk_date t))"
| "timestampInput _ = Inl (LifecycleError INVALID_LIFECYCLE_TIMESTAMP)"

definition parseLegId :: "jsval \<Rightarrow> string option lifecycle_result" where
  "parseLegId value =
     (if value = JNull then Inr None
      else res_bind (lift_error LedgerError (parseLedgerLegId value)) (\<lambda>s. Inr (Some s)))"

definition isAllowedLedgerLifecycleTransition ::
  "LedgerLifecycleState option \<Rightarrow> LedgerLifecycleState \<Rightarrow> LedgerLifecycleReasonCode \<Rightarrow> bool" where
  "isAllowedLedgerLifecycleTransition from to r =
     list_ex (\<lambda>rule. rule_from rule = from \<and> rule_to rule = to \<and> r \<in> set (rule_reasons rule)) LIFECYCLE_RULES"

definition isAllowedLedgerRecoveryTransition ::
  "LedgerRecoveryState \<Rightarrow> LedgerRecoveryState \<Rightarrow> LedgerRecoveryReasonCode \<Rightarrow> bool" where
  "isAllowedLedgerRecoveryTransition from to r =
     list_ex (\<lambda>rule. recovery_from rule = from \<and> recovery_to rule = to \<and> r \<in> set (recovery_reasons rule))
       RECOVERY_RULES"

abbreviation lifecycle_keys :: "string list" where
  "lifecycle_keys \<equiv> [''transactionId'', ''legId'', ''expectedState'', ''nextState'', ''reason'', ''effectiveAt'']"

abbreviation recovery_keys :: "string list" where
  "recovery_keys \<equiv> [''transactionId'', ''legId'', ''expectedRecoveryState'', ''nextRecoveryState'', ''reason'',
     ''effectiveAt'']"

definition normalizeLedgerLifecycleTransitionInput ::
  "jsval \<Rightarrow> ValidatedLedgerLifecycleTransition lifecycle_result" where
  "normalizeLedgerLifecycleTransitionInput value =
     res_bind (ownDataRecord value lifecycle_keys) (\<lambda>record.
     res_bind (parseNullableLifecycleState (js_get record ''expectedState'')) (\<lambda>expectedState.
     res_bind (parseLifecycleState (js_get record ''nextState'')) (\<lambda>nextState.
     res_bind (parseLifecycleReason (js_get record ''reason'')) (\<lambda>r.
     res_bind (require (LifecycleError ILLEGAL_LIFECYCLE_TRANSITION)
                 (isAllowedLedgerLifecycleTransition expectedState nextState r)) (\<lambda>_.
     res_bind (lift_error LedgerError (parseLedgerTransactionId (js_get record ''transactionId''))) (\<lambda>tx.
     res_bind (parseLegId (js_get record ''legId'')) (\<lambda>leg.
     res_bind (parseLifecycleTimestamp (js_get record ''effectiveAt'')) (\<lambda>eff.
     Inr \<lparr>lt_transactionId = tx, lt_legId = leg, lt_expectedState = expectedState,
          lt_nextState = nextState, lt_reason = r, lt_effectiveAt = eff\<rparr>))))))))"

definition normalizeLedgerLifecycleTransitionCommand ::
  "jsval \<Rightarrow> LedgerLifecycleTransitionCommand lifecycle_result" where
  "normalizeLedgerLifecycleTransitionCommand value =
     res_bind (ownDataRecord value (''actorAccountId'' # ''correlationId'' # lifecycle_keys)) (\<lambda>record.
     res_bind (timestampInput (js_get record ''effectiveAt'')) (\<lambda>eff.
     res_bind (normalizeLedgerLifecycleTransitionInput (mk_object
       [(''transactionId'', js_get record ''transactionId''),
        (''legId'', js_get record ''legId''),
        (''expectedState'', js_get record ''expectedState''),
        (''nextState'', js_get record ''nextState''),
        (''reason'', js_get record ''reason''),
        (''effectiveAt'', eff)])) (\<lambda>transition.
     res_bind (lift_error LedgerError (parseLedgerActorAccountId (js_get record ''actorAccountId''))) (\<lambda>actor.
     res_bind (lift_error LedgerError (parseLedgerCorrelationId (js_get record ''correlationId''))) (\<lambda>corr.
     Inr \<lparr>lc_actorAccountId = actor, lc_correlationId = corr, lc_transition = transition\<rparr>)))))"

definition normalizeLedgerRecoveryTransitionInput ::
  "jsval \<Rightarrow> ValidatedLedgerRecoveryTransition lifecycle_result" where
  "normalizeLedgerRecoveryTransitionInput value =
     res_bind (ownDataRecord value recovery_keys) (\<lambda>record.
     res_bind (parseRecoveryState (js_get record ''expectedRecoveryState'')) (\<lambda>expectedState.
     res_bind (parseRecoveryState (js_get record ''nextRecoveryState'')) (\<lambda>nextState.
     res_bind (parseRecoveryReason (js_get record ''reason'')) (\<lambda>r.
     res_bind (require (LifecycleError ILLEGAL_LIFECYCLE_TRANSITION)
                 (isAllowedLedgerRecoveryTransition expectedState nextState r)) (\<lambda>_.
     res_bind (lift_error LedgerError (parseLedgerTransactionId (js_get record ''transactionId''))) (\<lambda>tx.
     res_bind (parseLegId (js_get record ''legId'')) (\<lambda>leg.
     res_bind (parseLifecycleTimestamp (js_get record ''effectiveAt'')) (\<lambda>eff.
     Inr \<lparr>rt_transactionId = tx, rt_legId = leg, rt_expectedRecoveryState = expectedState,
          rt_nextRecoveryState = nextState, rt_reason = r, rt_effectiveAt = eff\<rparr>))))))))"

definition normalizeLedgerRecoveryTransitionCommand ::
  "jsval \<Rightarrow> LedgerRecoveryTransitionCommand lifecycle_result" where
  "normalizeLedgerRecoveryTransitionCommand value =
     res_bind (ownDataRecord value (''actorAccountId'' # ''correlationId'' # recovery_keys)) (\<lambda>record.
     res_bind (timestampInput (js_get record ''effectiveAt'')) (\<lambda>eff.
     res_bind (normalizeLedgerRecoveryTransitionInput (mk_object
       [(''transactionId'', js_get record ''transactionId''),
        (''legId'', js_get record ''legId''),
        (''expectedRecoveryState'', js_get record ''expectedRecoveryState''),
        (''nextRecoveryState'', js_get record ''nextRecoveryState''),
        (''reason'', js_get record ''reason''),
        (''effectiveAt'', eff)])) (\<lambda>transition.
     res_bind (lift_error LedgerError (parseLedgerActorAccountId (js_get record ''actorAccountId''))) (\<lambda>actor.
     res_bind (lift_error LedgerError (parseLedgerCorrelationId (js_get record ''correlationId''))) (\<lambda>corr.
     Inr \<lparr>rc_actorAccountId = actor, rc_correlationId = corr, rc_transition = transition\<rparr>)))))"

subsection \<open>Enumerations\<close>

interpretation lifecycle_state: text_enum lifecycle_state_text LEDGER_LIFECYCLE_STATES
proof
  show "x \<in> set LEDGER_LIFECYCLE_STATES" for x
    by (cases x) (simp_all add: LEDGER_LIFECYCLE_STATES_def)
  show "lifecycle_state_text x = lifecycle_state_text y \<Longrightarrow> x = y" for x y
    by (cases x; cases y) simp_all
qed

interpretation recovery_state: text_enum recovery_state_text LEDGER_RECOVERY_STATES
proof
  show "x \<in> set LEDGER_RECOVERY_STATES" for x
    by (cases x) (simp_all add: LEDGER_RECOVERY_STATES_def)
  show "recovery_state_text x = recovery_state_text y \<Longrightarrow> x = y" for x y
    by (cases x; cases y) simp_all
qed

interpretation lifecycle_reason: text_enum lifecycle_reason_text LEDGER_LIFECYCLE_REASON_CODES
proof
  show "x \<in> set LEDGER_LIFECYCLE_REASON_CODES" for x
    by (cases x) (simp_all add: LEDGER_LIFECYCLE_REASON_CODES_def)
  show "lifecycle_reason_text x = lifecycle_reason_text y \<Longrightarrow> x = y" for x y
    by (cases x; cases y) simp_all
qed

interpretation recovery_reason: text_enum recovery_reason_text LEDGER_RECOVERY_REASON_CODES
proof
  show "x \<in> set LEDGER_RECOVERY_REASON_CODES" for x
    by (cases x) (simp_all add: LEDGER_RECOVERY_REASON_CODES_def)
  show "recovery_reason_text x = recovery_reason_text y \<Longrightarrow> x = y" for x y
    by (cases x; cases y) simp_all
qed

lemma lifecycle_parse_iffs [res_simps]:
  "(parseLifecycleState v = Inr s) = (v = JString (lifecycle_state_text s))"
  "(parseRecoveryState v = Inr rs) = (v = JString (recovery_state_text rs))"
  "(parseLifecycleReason v = Inr r) = (v = JString (lifecycle_reason_text r))"
  "(parseRecoveryReason v = Inr rr) = (v = JString (recovery_reason_text rr))"
  by (simp_all add: parseLifecycleState_def parseRecoveryState_def parseLifecycleReason_def
      parseRecoveryReason_def res_simps lifecycle_state.parse_iff recovery_state.parse_iff
      lifecycle_reason.parse_iff recovery_reason.parse_iff)

lemma lifecycle_parse_spell:
  "parseLifecycleState (JString (lifecycle_state_text s)) = Inr s"
  "parseRecoveryState (JString (recovery_state_text rs)) = Inr rs"
  "parseLifecycleReason (JString (lifecycle_reason_text r)) = Inr r"
  "parseRecoveryReason (JString (recovery_reason_text rr)) = Inr rr"
  by (simp_all add: res_simps)

subsection \<open>The validators\<close>

definition nullable_text :: "string option \<Rightarrow> jsval" where
  "nullable_text x = (case x of None \<Rightarrow> JNull | Some s \<Rightarrow> JString s)"

definition lifecycle_fields :: "(string \<Rightarrow> jsval) \<Rightarrow> ValidatedLedgerLifecycleTransition \<Rightarrow> js_record" where
  "lifecycle_fields time t =
     [(''transactionId'', JString (lt_transactionId t)), (''legId'', nullable_text (lt_legId t)),
      (''expectedState'', nullable_text (map_option lifecycle_state_text (lt_expectedState t))),
      (''nextState'', JString (lifecycle_state_text (lt_nextState t))),
      (''reason'', JString (lifecycle_reason_text (lt_reason t))), (''effectiveAt'', time (lt_effectiveAt t))]"

definition recovery_fields :: "(string \<Rightarrow> jsval) \<Rightarrow> ValidatedLedgerRecoveryTransition \<Rightarrow> js_record" where
  "recovery_fields time t =
     [(''transactionId'', JString (rt_transactionId t)), (''legId'', nullable_text (rt_legId t)),
      (''expectedRecoveryState'', JString (recovery_state_text (rt_expectedRecoveryState t))),
      (''nextRecoveryState'', JString (recovery_state_text (rt_nextRecoveryState t))),
      (''reason'', JString (recovery_reason_text (rt_reason t))), (''effectiveAt'', time (rt_effectiveAt t))]"

definition lifecycle_input_object :: "ValidatedLedgerLifecycleTransition \<Rightarrow> jsval" where
  "lifecycle_input_object t = mk_object (lifecycle_fields timestamp_date t)"

definition recovery_input_object :: "ValidatedLedgerRecoveryTransition \<Rightarrow> jsval" where
  "recovery_input_object t = mk_object (recovery_fields timestamp_date t)"

definition lifecycle_command_object :: "string \<Rightarrow> string \<Rightarrow> ValidatedLedgerLifecycleTransition \<Rightarrow> jsval" where
  "lifecycle_command_object actor corr t = mk_object
     ((''actorAccountId'', JString actor) # (''correlationId'', JString corr) # lifecycle_fields JString t)"

definition recovery_command_object :: "string \<Rightarrow> string \<Rightarrow> ValidatedLedgerRecoveryTransition \<Rightarrow> jsval" where
  "recovery_command_object actor corr t = mk_object
     ((''actorAccountId'', JString actor) # (''correlationId'', JString corr) # recovery_fields JString t)"

definition valid_leg :: "string option \<Rightarrow> bool" where
  "valid_leg l = (case l of None \<Rightarrow> True | Some s \<Rightarrow> uuid_v4 s)"

definition valid_instant :: "string \<Rightarrow> bool" where
  "valid_instant s = (\<exists>t. valid_time t \<and> s = to_iso t)"

definition valid_lifecycle_transition :: "ValidatedLedgerLifecycleTransition \<Rightarrow> bool" where
  "valid_lifecycle_transition t =
     (isAllowedLedgerLifecycleTransition (lt_expectedState t) (lt_nextState t) (lt_reason t) \<and>
      uuid_v4 (lt_transactionId t) \<and> valid_leg (lt_legId t) \<and> valid_instant (lt_effectiveAt t))"

definition valid_recovery_transition :: "ValidatedLedgerRecoveryTransition \<Rightarrow> bool" where
  "valid_recovery_transition t =
     (isAllowedLedgerRecoveryTransition (rt_expectedRecoveryState t) (rt_nextRecoveryState t) (rt_reason t) \<and>
      uuid_v4 (rt_transactionId t) \<and> valid_leg (rt_legId t) \<and> valid_instant (rt_effectiveAt t))"

lemma lifecycle_record_iff [res_simps]:
  "(ownDataRecord v keys = Inr r) = (exact_data_record keys v = Some r)"
  by (simp add: ownDataRecord_def res_simps)

lemma parseLifecycleTimestamp_iff [res_simps]:
  "(parseLifecycleTimestamp v = Inr s) = (\<exists>t. v = mk_date t \<and> valid_time t \<and> s = to_iso t)"
  by (cases v rule: parseLifecycleTimestamp.cases) (auto simp: mk_date_def)

lemma parseLifecycleTimestamp_instant:
  "valid_instant s \<Longrightarrow> parseLifecycleTimestamp (timestamp_date s) = Inr s"
  by (auto simp: valid_instant_def timestamp_date_to_iso mk_date_def)

lemma timestampInput_instant:
  "valid_instant s \<Longrightarrow> timestampInput (JString s) = Inr (timestamp_date s)"
  by (auto simp: valid_instant_def timestamp_date_def read_timestamp_to_iso)

lemma parseLegId_sound: "parseLegId v = Inr l \<Longrightarrow> valid_leg l"
  by (auto simp: parseLegId_def valid_leg_def res_simps parse_id_defs split: if_splits)

lemma parseLegId_complete: "valid_leg l \<Longrightarrow> parseLegId (nullable_text l) = Inr l"
  by (auto simp: parseLegId_def valid_leg_def nullable_text_def parse_id_defs split: option.splits)

lemma parseNullable_complete:
  "parseNullableLifecycleState (nullable_text (map_option lifecycle_state_text x)) = Inr x"
  by (cases x) (simp_all add: parseNullableLifecycleState_def nullable_text_def lifecycle_parse_spell)

lemma lifecycle_sound:
  "normalizeLedgerLifecycleTransitionInput v = Inr t \<Longrightarrow> valid_lifecycle_transition t"
  by (auto simp: normalizeLedgerLifecycleTransitionInput_def res_simps parse_id_defs
      valid_lifecycle_transition_def valid_instant_def intro: parseLegId_sound)

lemma lifecycle_complete:
  assumes "valid_lifecycle_transition t"
  shows "normalizeLedgerLifecycleTransitionInput (lifecycle_input_object t) = Inr t"
proof -
  have rec: "ownDataRecord (lifecycle_input_object t) lifecycle_keys = Inr (lifecycle_fields timestamp_date t)"
    unfolding lifecycle_record_iff lifecycle_input_object_def
    by (rule exact_data_record_literal) (simp_all add: lifecycle_fields_def)
  show ?thesis
    unfolding normalizeLedgerLifecycleTransitionInput_def rec
    using assms by (simp add: lifecycle_fields_def js_get_Cons valid_lifecycle_transition_def
        parseNullable_complete lifecycle_parse_spell parseLegId_complete parseLifecycleTimestamp_instant
        parse_id_defs)
qed

interpretation lifecycle_input: validator normalizeLedgerLifecycleTransitionInput lifecycle_input_object
  valid_lifecycle_transition
  by unfold_locales (simp_all add: lifecycle_sound lifecycle_complete)

lemma recovery_sound:
  "normalizeLedgerRecoveryTransitionInput v = Inr t \<Longrightarrow> valid_recovery_transition t"
  by (auto simp: normalizeLedgerRecoveryTransitionInput_def res_simps parse_id_defs
      valid_recovery_transition_def valid_instant_def intro: parseLegId_sound)

lemma recovery_complete:
  assumes "valid_recovery_transition t"
  shows "normalizeLedgerRecoveryTransitionInput (recovery_input_object t) = Inr t"
proof -
  have rec: "ownDataRecord (recovery_input_object t) recovery_keys = Inr (recovery_fields timestamp_date t)"
    unfolding lifecycle_record_iff recovery_input_object_def
    by (rule exact_data_record_literal) (simp_all add: recovery_fields_def)
  show ?thesis
    unfolding normalizeLedgerRecoveryTransitionInput_def rec
    using assms by (simp add: recovery_fields_def js_get_Cons valid_recovery_transition_def
        lifecycle_parse_spell parseLegId_complete parseLifecycleTimestamp_instant parse_id_defs)
qed

interpretation recovery_input: validator normalizeLedgerRecoveryTransitionInput recovery_input_object
  valid_recovery_transition
  by unfold_locales (simp_all add: recovery_sound recovery_complete)

lemma lifecycle_command_complete:
  assumes t: "valid_lifecycle_transition t" and "uuid_v4 actor" "uuid_v4 corr"
  shows "normalizeLedgerLifecycleTransitionCommand (lifecycle_command_object actor corr t) =
    Inr \<lparr>lc_actorAccountId = actor, lc_correlationId = corr, lc_transition = t\<rparr>"
proof -
  have rec: "ownDataRecord (lifecycle_command_object actor corr t) (''actorAccountId'' # ''correlationId'' # lifecycle_keys)
      = Inr ((''actorAccountId'', JString actor) # (''correlationId'', JString corr) # lifecycle_fields JString t)"
    unfolding lifecycle_record_iff lifecycle_command_object_def
    by (rule exact_data_record_literal) (simp_all add: lifecycle_fields_def)
  have "timestampInput (JString (lt_effectiveAt t)) = Inr (timestamp_date (lt_effectiveAt t))"
    using t by (intro timestampInput_instant) (simp add: valid_lifecycle_transition_def)
  moreover have "normalizeLedgerLifecycleTransitionInput (mk_object (lifecycle_fields timestamp_date t)) = Inr t"
    using lifecycle_complete [OF t] by (simp add: lifecycle_input_object_def)
  ultimately show ?thesis
    unfolding normalizeLedgerLifecycleTransitionCommand_def rec
    using assms(2,3) by (simp add: js_get_Cons lifecycle_fields_def parse_id_defs)
qed

lemma recovery_command_complete:
  assumes t: "valid_recovery_transition t" and "uuid_v4 actor" "uuid_v4 corr"
  shows "normalizeLedgerRecoveryTransitionCommand (recovery_command_object actor corr t) =
    Inr \<lparr>rc_actorAccountId = actor, rc_correlationId = corr, rc_transition = t\<rparr>"
proof -
  have rec: "ownDataRecord (recovery_command_object actor corr t) (''actorAccountId'' # ''correlationId'' # recovery_keys)
      = Inr ((''actorAccountId'', JString actor) # (''correlationId'', JString corr) # recovery_fields JString t)"
    unfolding lifecycle_record_iff recovery_command_object_def
    by (rule exact_data_record_literal) (simp_all add: recovery_fields_def)
  have "timestampInput (JString (rt_effectiveAt t)) = Inr (timestamp_date (rt_effectiveAt t))"
    using t by (intro timestampInput_instant) (simp add: valid_recovery_transition_def)
  moreover have "normalizeLedgerRecoveryTransitionInput (mk_object (recovery_fields timestamp_date t)) = Inr t"
    using recovery_complete [OF t] by (simp add: recovery_input_object_def)
  ultimately show ?thesis
    unfolding normalizeLedgerRecoveryTransitionCommand_def rec
    using assms(2,3) by (simp add: js_get_Cons recovery_fields_def parse_id_defs)
qed

subsection \<open>Paths\<close>

text \<open>
  One step of a transaction's lifecycle is a transition the validator accepts. A path is the
  list of states a transaction has been in, each step expecting the state the last one left.
\<close>

inductive lifecycle_step :: "LedgerLifecycleState option \<Rightarrow> LedgerLifecycleState \<Rightarrow> bool" where
  accepted: "normalizeLedgerLifecycleTransitionInput v = Inr t \<Longrightarrow>
    lifecycle_step (lt_expectedState t) (lt_nextState t)"

inductive lifecycle_path :: "LedgerLifecycleState list \<Rightarrow> LedgerLifecycleState \<Rightarrow> bool" where
  first: "lifecycle_step None s \<Longrightarrow> lifecycle_path [s] s"
| later: "lifecycle_path h s \<Longrightarrow> lifecycle_step (Some s) t \<Longrightarrow> lifecycle_path (h @ [t]) t"

inductive recovery_step :: "LedgerRecoveryState \<Rightarrow> LedgerRecoveryState \<Rightarrow> bool" where
  accepted: "normalizeLedgerRecoveryTransitionInput v = Inr t \<Longrightarrow>
    recovery_step (rt_expectedRecoveryState t) (rt_nextRecoveryState t)"

inductive recovery_path :: "LedgerRecoveryState list \<Rightarrow> LedgerRecoveryState \<Rightarrow> bool" where
  none_needed: "recovery_path [NOT_REQUIRED] NOT_REQUIRED"
| moved: "recovery_path h s \<Longrightarrow> recovery_step s t \<Longrightarrow> recovery_path (h @ [t]) t"

lemma lifecycle_allowed:
  "isAllowedLedgerLifecycleTransition f t r \<Longrightarrow>
   (f, t) \<in> {(None, CREATED), (Some CREATED, QUOTED), (Some CREATED, FAILED), (Some QUOTED, USER_APPROVED),
     (Some QUOTED, FAILED), (Some USER_APPROVED, SUBMITTED), (Some USER_APPROVED, FAILED),
     (Some SUBMITTED, PENDING), (Some SUBMITTED, SETTLED), (Some SUBMITTED, FAILED),
     (Some PENDING, SETTLED), (Some PENDING, FAILED), (Some SETTLED, REVERSED)}"
  by (auto simp: isAllowedLedgerLifecycleTransition_def LIFECYCLE_RULES_def)

lemma recovery_allowed:
  "isAllowedLedgerRecoveryTransition f t r \<Longrightarrow>
   (f, t) \<in> {(NOT_REQUIRED, REQUIRED), (REQUIRED, IN_PROGRESS), (REQUIRED, RESOLVED), (IN_PROGRESS, RESOLVED)}"
  by (auto simp: isAllowedLedgerRecoveryTransition_def RECOVERY_RULES_def)

lemma lifecycle_step_iff: "lifecycle_step f t = (\<exists>r. isAllowedLedgerLifecycleTransition f t r)"
proof
  assume "lifecycle_step f t"
  then show "\<exists>r. isAllowedLedgerLifecycleTransition f t r"
    by cases (auto dest!: lifecycle_input.sound simp: valid_lifecycle_transition_def)
next
  assume "\<exists>r. isAllowedLedgerLifecycleTransition f t r"
  then obtain r where r: "isAllowedLedgerLifecycleTransition f t r" ..
  let ?t = "\<lparr>lt_transactionId = ''10000000-0000-4000-8000-000000000001'', lt_legId = None,
    lt_expectedState = f, lt_nextState = t, lt_reason = r, lt_effectiveAt = to_iso 0\<rparr>"
  have "uuid_v4 ''10000000-0000-4000-8000-000000000001''" by code_simp
  then have "valid_lifecycle_transition ?t"
    using r by (auto simp: valid_lifecycle_transition_def valid_leg_def valid_instant_def valid_time_def
        intro: exI [of _ 0])
  from lifecycle_step.accepted [OF lifecycle_input.complete [OF this]] show "lifecycle_step f t"
    by simp
qed

lemma recovery_step_iff: "recovery_step f t = (\<exists>r. isAllowedLedgerRecoveryTransition f t r)"
proof
  assume "recovery_step f t"
  then show "\<exists>r. isAllowedLedgerRecoveryTransition f t r"
    by cases (auto dest!: recovery_input.sound simp: valid_recovery_transition_def)
next
  assume "\<exists>r. isAllowedLedgerRecoveryTransition f t r"
  then obtain r where r: "isAllowedLedgerRecoveryTransition f t r" ..
  let ?t = "\<lparr>rt_transactionId = ''10000000-0000-4000-8000-000000000001'', rt_legId = None,
    rt_expectedRecoveryState = f, rt_nextRecoveryState = t, rt_reason = r, rt_effectiveAt = to_iso 0\<rparr>"
  have "uuid_v4 ''10000000-0000-4000-8000-000000000001''" by code_simp
  then have "valid_recovery_transition ?t"
    using r by (auto simp: valid_recovery_transition_def valid_leg_def valid_instant_def valid_time_def
        intro: exI [of _ 0])
  from recovery_step.accepted [OF recovery_input.complete [OF this]] show "recovery_step f t"
    by simp
qed

text \<open>Every path has one of these shapes.\<close>

fun lifecycle_shape :: "LedgerLifecycleState list \<Rightarrow> LedgerLifecycleState \<Rightarrow> bool" where
  "lifecycle_shape h CREATED = (h = [CREATED])"
| "lifecycle_shape h QUOTED = (h = [CREATED, QUOTED])"
| "lifecycle_shape h USER_APPROVED = (h = [CREATED, QUOTED, USER_APPROVED])"
| "lifecycle_shape h SUBMITTED = (h = [CREATED, QUOTED, USER_APPROVED, SUBMITTED])"
| "lifecycle_shape h PENDING = (h = [CREATED, QUOTED, USER_APPROVED, SUBMITTED, PENDING])"
| "lifecycle_shape h SETTLED = (h = [CREATED, QUOTED, USER_APPROVED, SUBMITTED, SETTLED] \<or>
     h = [CREATED, QUOTED, USER_APPROVED, SUBMITTED, PENDING, SETTLED])"
| "lifecycle_shape h FAILED =
     (h \<in> {[CREATED, FAILED], [CREATED, QUOTED, FAILED], [CREATED, QUOTED, USER_APPROVED, FAILED],
        [CREATED, QUOTED, USER_APPROVED, SUBMITTED, FAILED],
        [CREATED, QUOTED, USER_APPROVED, SUBMITTED, PENDING, FAILED]})"
| "lifecycle_shape h REVERSED = (h = [CREATED, QUOTED, USER_APPROVED, SUBMITTED, SETTLED, REVERSED] \<or>
     h = [CREATED, QUOTED, USER_APPROVED, SUBMITTED, PENDING, SETTLED, REVERSED])"

lemma lifecycle_path_shape: "lifecycle_path h s \<Longrightarrow> lifecycle_shape h s"
proof (induction rule: lifecycle_path.induct)
  case (first s)
  then show ?case by (auto simp: lifecycle_step_iff dest: lifecycle_allowed)
next
  case (later h s t)
  then obtain r where "isAllowedLedgerLifecycleTransition (Some s) t r"
    by (auto simp: lifecycle_step_iff)
  from lifecycle_allowed [OF this] show ?case
    using later.IH by auto
qed

lemma recovery_path_shape:
  "recovery_path h s \<Longrightarrow>
   (h, s) \<in> {([NOT_REQUIRED], NOT_REQUIRED), ([NOT_REQUIRED, REQUIRED], REQUIRED),
     ([NOT_REQUIRED, REQUIRED, IN_PROGRESS], IN_PROGRESS), ([NOT_REQUIRED, REQUIRED, RESOLVED], RESOLVED),
     ([NOT_REQUIRED, REQUIRED, IN_PROGRESS, RESOLVED], RESOLVED)}"
proof (induction rule: recovery_path.induct)
  case none_needed
  then show ?case by simp
next
  case (moved h s t)
  then obtain r where "isAllowedLedgerRecoveryTransition s t r"
    by (auto simp: recovery_step_iff)
  from recovery_allowed [OF this] show ?case
    using moved.IH by auto
qed

subsection \<open>Properties\<close>

text \<open>C2. No settlement without approval. A transaction whose accepted transitions lead to
  SETTLED or REVERSED has first been created, quoted, approved by the user and submitted,
  in this order; a reversal has a settlement before it.
\<close>

theorem settlement_needs_approval:
  assumes "lifecycle_path h s" and "s \<in> {SETTLED, REVERSED}"
  shows "take 4 h = [CREATED, QUOTED, USER_APPROVED, SUBMITTED] \<and>
    (s = REVERSED \<longrightarrow> h ! (length h - 2) = SETTLED)"
  using lifecycle_path_shape [OF assms(1)] assms(2) by auto

lemma sample_path: "lifecycle_path [CREATED, QUOTED, USER_APPROVED, SUBMITTED, SETTLED] SETTLED"
proof -
  have step: "lifecycle_step f t" if "isAllowedLedgerLifecycleTransition f t r" for f t r
    using that by (auto simp: lifecycle_step_iff)
  have 1: "lifecycle_path [CREATED] CREATED"
    by (rule lifecycle_path.first, rule step [of _ _ INTENT_CREATED]) code_simp
  have 2: "lifecycle_path ([CREATED] @ [QUOTED]) QUOTED"
    by (rule lifecycle_path.later [OF 1], rule step [of _ _ QUOTE_CREATED]) code_simp
  have 3: "lifecycle_path (([CREATED] @ [QUOTED]) @ [USER_APPROVED]) USER_APPROVED"
    by (rule lifecycle_path.later [OF 2], rule step [of _ _ USER_APPROVAL_RECORDED]) code_simp
  have 4: "lifecycle_path ((([CREATED] @ [QUOTED]) @ [USER_APPROVED]) @ [SUBMITTED]) SUBMITTED"
    by (rule lifecycle_path.later [OF 3], rule step [of _ _ SUBMISSION_RECORDED]) code_simp
  have "lifecycle_path (((([CREATED] @ [QUOTED]) @ [USER_APPROVED]) @ [SUBMITTED]) @ [SETTLED]) SETTLED"
    by (rule lifecycle_path.later [OF 4], rule step [of _ _ SETTLEMENT_RECORDED]) code_simp
  then show ?thesis by simp
qed

theorem settlement_needs_approval_witness:
  "take 4 [CREATED, QUOTED, USER_APPROVED, SUBMITTED, SETTLED] = [CREATED, QUOTED, USER_APPROVED, SUBMITTED]"
  using settlement_needs_approval [OF sample_path] by blast

text \<open>C36. Every lifecycle ends. A transaction never returns to a state it has left and passes
  through at most seven states; nothing follows FAILED or REVERSED.
\<close>

theorem lifecycle_is_bounded:
  "(lifecycle_path h s \<longrightarrow> distinct h \<and> length h \<le> 7) \<and>
   \<not> lifecycle_step (Some FAILED) t \<and> \<not> lifecycle_step (Some REVERSED) t"
proof (intro conjI impI notI)
  assume "lifecycle_path h s"
  note shape = lifecycle_path_shape [OF this]
  show "distinct h" using shape by (cases s) auto
  show "length h \<le> 7" using shape by (cases s) auto
qed (auto simp: lifecycle_step_iff dest: lifecycle_allowed)

theorem lifecycle_is_bounded_witness:
  "distinct [CREATED, QUOTED, USER_APPROVED, SUBMITTED, SETTLED] \<and> length [CREATED, QUOTED, USER_APPROVED, SUBMITTED, SETTLED] \<le> 7"
  using lifecycle_is_bounded [of "[CREATED, QUOTED, USER_APPROVED, SUBMITTED, SETTLED]" SETTLED] sample_path by blast

text \<open>Recovery only moves forward: from NOT_REQUIRED over REQUIRED, possibly IN_PROGRESS, to
  RESOLVED, where it stays; every recovery path is one of five.
\<close>

theorem recovery_moves_forward:
  assumes "recovery_path h s"
  shows "(h, s) \<in> {([NOT_REQUIRED], NOT_REQUIRED), ([NOT_REQUIRED, REQUIRED], REQUIRED),
     ([NOT_REQUIRED, REQUIRED, IN_PROGRESS], IN_PROGRESS), ([NOT_REQUIRED, REQUIRED, RESOLVED], RESOLVED),
     ([NOT_REQUIRED, REQUIRED, IN_PROGRESS, RESOLVED], RESOLVED)}"
  by (rule recovery_path_shape [OF assms])

theorem recovery_moves_forward_witness:
  "\<exists>h. recovery_path h RESOLVED \<and> h \<in> {[NOT_REQUIRED, REQUIRED, RESOLVED], [NOT_REQUIRED, REQUIRED, IN_PROGRESS, RESOLVED]}"
proof -
  have "isAllowedLedgerRecoveryTransition NOT_REQUIRED REQUIRED RECOVERY_REQUIRED"
    "isAllowedLedgerRecoveryTransition REQUIRED RESOLVED RECOVERY_RESOLVED" by code_simp+
  then have "recovery_step NOT_REQUIRED REQUIRED" "recovery_step REQUIRED RESOLVED"
    by (auto simp: recovery_step_iff)
  then have "\<exists>h. recovery_path h RESOLVED"
    using recovery_path.moved recovery_path.none_needed by blast
  then show ?thesis using recovery_moves_forward by fastforce
qed

text \<open>The reason determines the target: from one state, a reason code allows at most one
  next state, so replaying the recorded reasons replays the states.
\<close>

theorem lifecycle_reason_determines_state:
  assumes "isAllowedLedgerLifecycleTransition f t r" and "isAllowedLedgerLifecycleTransition f t' r"
  shows "t = t'"
  using assms lifecycle_allowed [OF assms(1)]
  by (auto simp: isAllowedLedgerLifecycleTransition_def LIFECYCLE_RULES_def)

theorem lifecycle_reason_determines_state_witness:
  "{t. isAllowedLedgerLifecycleTransition (Some QUOTED) t QUOTE_EXPIRED} = {FAILED}"
proof -
  have "isAllowedLedgerLifecycleTransition (Some QUOTED) FAILED QUOTE_EXPIRED" by code_simp
  then show ?thesis using lifecycle_reason_determines_state [of "Some QUOTED" _ QUOTE_EXPIRED] by blast
qed

end
