(* ===== verification/Ledger_Idempotency.thy ===== *)
theory Ledger_Idempotency
  imports Ledger
begin

text \<open>
  Idempotency contexts of ledger commands (\<^verbatim>\<open>apps/api/src/ledger/domain/idempotency.ts\<close>): the
  check of the raw key, the length-prefixed framing that is hashed, the context built for a
  posting and for a reversal, and the validation of a context.

  SHA-256 comes from the runtime and is the parameter \<open>sha256\<close>: a function from the hashed
  bytes to the hexadecimal text. What the program itself decides is which bytes are hashed.
  The main facts are that the framing is injective and that the bytes hashed for a request
  determine the whole request.
\<close>

subsection \<open>Data\<close>

datatype LedgerIdempotencyErrorCode =
  INVALID_IDEMPOTENCY_KEY | INVALID_IDEMPOTENCY_CONTEXT | IDEMPOTENCY_CONFLICT

text \<open>Parsing the actor throws an error of the ledger.\<close>

datatype idempotency_error =
  IdempotencyError LedgerIdempotencyErrorCode | ActorError LedgerValidationCode

datatype LedgerIdempotencyOperation = POST_JOURNAL | REVERSE_JOURNAL

fun operation_text :: "LedgerIdempotencyOperation \<Rightarrow> string" where
  "operation_text POST_JOURNAL = ''POST_JOURNAL''"
| "operation_text REVERSE_JOURNAL = ''REVERSE_JOURNAL''"

definition LEDGER_IDEMPOTENCY_OPERATIONS :: "LedgerIdempotencyOperation list" where
  "LEDGER_IDEMPOTENCY_OPERATIONS = [POST_JOURNAL, REVERSE_JOURNAL]"

definition LEDGER_IDEMPOTENCY_CONTRACT_VERSION :: nat where
  "LEDGER_IDEMPOTENCY_CONTRACT_VERSION = 1"

definition LEDGER_REQUEST_FINGERPRINT_VERSION :: nat where
  "LEDGER_REQUEST_FINGERPRINT_VERSION = 1"

definition MAX_LEDGER_IDEMPOTENCY_KEY_BYTES :: nat where
  "MAX_LEDGER_IDEMPOTENCY_KEY_BYTES = 128"

definition KEY_DIGEST_DOMAIN :: string where
  "KEY_DIGEST_DOMAIN = ''crypto-lending:ledger-idempotency-key:v1''"

definition REQUEST_FINGERPRINT_DOMAIN :: string where
  "REQUEST_FINGERPRINT_DOMAIN = ''crypto-lending:ledger-request-fingerprint:v1''"

record LedgerIdempotencyContext =
  ctx_actorAccountId :: string
  ctx_operation :: LedgerIdempotencyOperation
  ctx_contractVersion :: nat
  ctx_keyDigest :: string
  ctx_fingerprintVersion :: nat
  ctx_requestFingerprint :: string

subsection \<open>Operations\<close>

type_synonym 'a idempotency_result = "idempotency_error + 'a"

definition printable :: "char \<Rightarrow> bool" where
  "printable c = (let n = (of_char c :: nat) in 33 \<le> n \<and> n \<le> 126)"

fun parseRawIdempotencyKey :: "jsval \<Rightarrow> string idempotency_result" where
  "parseRawIdempotencyKey (JString s) =
     (let bytes = length (utf8 s)
      in if bytes < 1 \<or> bytes > MAX_LEDGER_IDEMPOTENCY_KEY_BYTES \<or> \<not> (s \<noteq> [] \<and> list_all printable s)
         then Inl (IdempotencyError INVALID_IDEMPOTENCY_KEY) else Inr s)"
| "parseRawIdempotencyKey _ = Inl (IdempotencyError INVALID_IDEMPOTENCY_KEY)"

definition updateField :: "string \<Rightarrow> string" where
  "updateField value = (let bytes = utf8 value in nat_text (length bytes) @ '':'' @ bytes)"

definition digest_bytes :: "string \<Rightarrow> string list \<Rightarrow> string" where
  "digest_bytes domain values = updateField domain @ concat (map updateField values)"

definition digest :: "(string \<Rightarrow> string) \<Rightarrow> string \<Rightarrow> string list \<Rightarrow> string" where
  "digest sha256 domain values = sha256 (digest_bytes domain values)"

definition digestLedgerIdempotencyKey :: "(string \<Rightarrow> string) \<Rightarrow> jsval \<Rightarrow> string idempotency_result" where
  "digestLedgerIdempotencyKey sha256 value =
     res_bind (parseRawIdempotencyKey value) (\<lambda>key. Inr (digest sha256 KEY_DIGEST_DOMAIN [key]))"

fun digest_text :: "jsval \<Rightarrow> string option" where
  "digest_text (JString s) = (if sha256_hex s then Some s else None)"
| "digest_text _ = None"

definition normalizeLedgerIdempotencyContext :: "jsval \<Rightarrow> LedgerIdempotencyContext idempotency_result" where
  "normalizeLedgerIdempotencyContext value =
     rethrow (IdempotencyError INVALID_IDEMPOTENCY_CONTEXT)
      (res_bind (of_option () (exact_data_record
         [''actorAccountId'', ''operation'', ''contractVersion'', ''keyDigest'', ''fingerprintVersion'',
          ''requestFingerprint''] value)) (\<lambda>record.
       res_bind (of_option () (parse_enum operation_text LEDGER_IDEMPOTENCY_OPERATIONS (js_get record ''operation''))) (\<lambda>op.
       res_bind (require () (js_get record ''contractVersion'' = js_int (int LEDGER_IDEMPOTENCY_CONTRACT_VERSION))) (\<lambda>_.
       res_bind (require () (js_get record ''fingerprintVersion'' = js_int (int LEDGER_REQUEST_FINGERPRINT_VERSION))) (\<lambda>_.
       res_bind (of_option () (digest_text (js_get record ''keyDigest''))) (\<lambda>keyDigest.
       res_bind (of_option () (digest_text (js_get record ''requestFingerprint''))) (\<lambda>requestFingerprint.
       res_bind (rethrow () (parseLedgerActorAccountId (js_get record ''actorAccountId''))) (\<lambda>actor.
       Inr \<lparr>ctx_actorAccountId = actor, ctx_operation = op,
            ctx_contractVersion = LEDGER_IDEMPOTENCY_CONTRACT_VERSION, ctx_keyDigest = keyDigest,
            ctx_fingerprintVersion = LEDGER_REQUEST_FINGERPRINT_VERSION,
            ctx_requestFingerprint = requestFingerprint\<rparr>))))))))"

definition fingerprintHeader :: "string \<Rightarrow> LedgerIdempotencyOperation \<Rightarrow> string list" where
  "fingerprintHeader actor op =
     [nat_text LEDGER_REQUEST_FINGERPRINT_VERSION, nat_text LEDGER_IDEMPOTENCY_CONTRACT_VERSION,
      operation_text op, actor]"

text \<open>\<^verbatim>\<open>fingerprintFields\<close> of a posting and the field list of a reversal.\<close>

definition post_fingerprint_fields :: "string \<Rightarrow> ValidatedPostLedgerJournal \<Rightarrow> string list" where
  "post_fingerprint_fields actor journal =
     fingerprintHeader actor POST_JOURNAL @
     [bookId journal, transactionId journal, legId journal, event_type_text (economicEventType journal),
      effectiveAt journal, observedAt journal, post_reason_text (reason journal),
      nat_text (length (postings journal))] @
     concat (map (\<lambda>p. [accountId p, assetRevisionId p, side_text (side p), amountAtomic p]) (postings journal))"

definition reverse_fingerprint_fields :: "string \<Rightarrow> ValidatedReverseLedgerJournal \<Rightarrow> string list" where
  "reverse_fingerprint_fields actor reversal =
     fingerprintHeader actor REVERSE_JOURNAL @
     [originalJournalId reversal, reversal_reason_text (reversalReason reversal),
      reversalEffectiveAt reversal, reversalObservedAt reversal]"

definition createPostLedgerIdempotencyContext ::
  "(string \<Rightarrow> string) \<Rightarrow> jsval \<Rightarrow> jsval \<Rightarrow> ValidatedPostLedgerJournal \<Rightarrow> LedgerIdempotencyContext idempotency_result" where
  "createPostLedgerIdempotencyContext sha256 rawKey actorAccount journal =
     res_bind (lift_error ActorError (parseLedgerActorAccountId actorAccount)) (\<lambda>actor.
     res_bind (digestLedgerIdempotencyKey sha256 rawKey) (\<lambda>keyDigest.
     Inr \<lparr>ctx_actorAccountId = actor, ctx_operation = POST_JOURNAL,
          ctx_contractVersion = LEDGER_IDEMPOTENCY_CONTRACT_VERSION, ctx_keyDigest = keyDigest,
          ctx_fingerprintVersion = LEDGER_REQUEST_FINGERPRINT_VERSION,
          ctx_requestFingerprint =
            digest sha256 REQUEST_FINGERPRINT_DOMAIN (post_fingerprint_fields actor journal)\<rparr>))"

definition createReverseLedgerIdempotencyContext ::
  "(string \<Rightarrow> string) \<Rightarrow> jsval \<Rightarrow> jsval \<Rightarrow> ValidatedReverseLedgerJournal \<Rightarrow> LedgerIdempotencyContext idempotency_result" where
  "createReverseLedgerIdempotencyContext sha256 rawKey actorAccount reversal =
     res_bind (lift_error ActorError (parseLedgerActorAccountId actorAccount)) (\<lambda>actor.
     res_bind (digestLedgerIdempotencyKey sha256 rawKey) (\<lambda>keyDigest.
     Inr \<lparr>ctx_actorAccountId = actor, ctx_operation = REVERSE_JOURNAL,
          ctx_contractVersion = LEDGER_IDEMPOTENCY_CONTRACT_VERSION, ctx_keyDigest = keyDigest,
          ctx_fingerprintVersion = LEDGER_REQUEST_FINGERPRINT_VERSION,
          ctx_requestFingerprint =
            digest sha256 REQUEST_FINGERPRINT_DOMAIN (reverse_fingerprint_fields actor reversal)\<rparr>))"

subsection \<open>The framing is injective\<close>

lemma digit_not_colon: "is_digit c \<Longrightarrow> c \<noteq> CHR '':''"
  by (auto simp: is_digit_def)

lemma takeWhile_length_prefix: "takeWhile (\<lambda>c. c \<noteq> CHR '':'') (nat_text n @ '':'' @ r) = nat_text n"
proof -
  have "\<forall>c \<in> set (nat_text n). c \<noteq> CHR '':''"
    using nat_text_digits [of n] digit_not_colon unfolding list_all_iff by blast
  then show ?thesis by (simp add: takeWhile_append2)
qed

lemma updateField_prefix:
  assumes "updateField a @ r = updateField b @ r'"
  shows "a = b \<and> r = r'"
proof -
  have eq: "nat_text (length (utf8 a)) @ '':'' @ utf8 a @ r = nat_text (length (utf8 b)) @ '':'' @ utf8 b @ r'"
    using assms by (simp add: updateField_def Let_def)
  then have "takeWhile (\<lambda>c. c \<noteq> CHR '':'') (nat_text (length (utf8 a)) @ '':'' @ utf8 a @ r) =
      takeWhile (\<lambda>c. c \<noteq> CHR '':'') (nat_text (length (utf8 b)) @ '':'' @ utf8 b @ r')"
    by simp
  then have "length (utf8 a) = length (utf8 b)"
    by (simp only: takeWhile_length_prefix nat_text_inject)
  with eq have "utf8 a @ r = utf8 b @ r'" by simp
  with \<open>length (utf8 a) = length (utf8 b)\<close> have "utf8 a = utf8 b" "r = r'" by simp_all
  then show ?thesis by simp
qed

lemma concat_updateField_inject: "(concat (map updateField xs) = concat (map updateField ys)) = (xs = ys)"
proof (induction xs arbitrary: ys)
  case Nil
  then show ?case by (cases ys) (auto simp: updateField_def Let_def)
next
  case (Cons x xs)
  show ?case
  proof (cases ys)
    case Nil
    then show ?thesis by (auto simp: updateField_def Let_def)
  next
    case (Cons y zs)
    then show ?thesis
      using Cons.IH updateField_prefix [of x "concat (map updateField xs)" y "concat (map updateField zs)"]
      by auto
  qed
qed

lemma digest_bytes_inject: "(digest_bytes d xs = digest_bytes d' ys) = (d = d' \<and> xs = ys)"
  using concat_updateField_inject [of "d # xs" "d' # ys"] by (simp add: digest_bytes_def)

subsection \<open>The hashed bytes determine the request\<close>

lemma postings_fields_inject:
  fixes ps qs :: "LedgerPosting list"
  shows "length ps = length qs \<Longrightarrow>
   concat (map (\<lambda>p. [accountId p, assetRevisionId p, side_text (side p), amountAtomic p]) ps) =
   concat (map (\<lambda>p. [accountId p, assetRevisionId p, side_text (side p), amountAtomic p]) qs) \<Longrightarrow> ps = qs"
proof (induction ps qs rule: list_induct2)
  case Nil
  then show ?case by simp
next
  case (Cons p ps q qs)
  have "side_text (side p) = side_text (side q) \<Longrightarrow> side p = side q"
    by (cases "side p"; cases "side q") simp_all
  with Cons show ?case by (cases p; cases q) simp
qed

lemma post_fields_inject:
  "(post_fingerprint_fields a j = post_fingerprint_fields a' j') = (a = a' \<and> j = j')"
proof
  assume eq: "post_fingerprint_fields a j = post_fingerprint_fields a' j'"
  then have "economicEventType j = economicEventType j'" "reason j = reason j'"
    by (auto simp: post_fingerprint_fields_def fingerprintHeader_def
        dest: event_type.spell_inj post_reason.spell_inj)
  moreover have "postings j = postings j'"
    using eq by (intro postings_fields_inject) (auto simp: post_fingerprint_fields_def fingerprintHeader_def)
  ultimately show "a = a' \<and> j = j'"
    using eq by (cases j; cases j') (simp add: post_fingerprint_fields_def fingerprintHeader_def)
qed simp

lemma reverse_fields_inject:
  "(reverse_fingerprint_fields a r = reverse_fingerprint_fields a' r') = (a = a' \<and> r = r')"
  by (cases r; cases r')
    (auto simp: reverse_fingerprint_fields_def fingerprintHeader_def dest: reversal_reason.spell_inj)

lemma post_reverse_fields: "post_fingerprint_fields a j \<noteq> reverse_fingerprint_fields a' r"
  by (simp add: post_fingerprint_fields_def reverse_fingerprint_fields_def fingerprintHeader_def)

lemma printable_utf8: "list_all printable s \<Longrightarrow> utf8 s = s"
  by (induction s) (auto simp: utf8_Cons utf8_char_def printable_def Let_def)

lemma parseRawIdempotencyKey_iff:
  "(parseRawIdempotencyKey v = Inr s) = (v = JString s \<and> 1 \<le> length s \<and> length s \<le> 128 \<and> list_all printable s)"
  by (cases v) (auto simp: Let_def MAX_LEDGER_IDEMPOTENCY_KEY_BYTES_def printable_utf8 Suc_le_eq)

subsection \<open>Properties\<close>

text \<open>Framing. The bytes hashed for a domain and a list of fields determine the domain and
  the fields: no two different field lists are framed alike, whatever characters they hold.
\<close>

theorem digest_framing_injective:
  "(digest_bytes d xs = digest_bytes d' ys) = (d = d' \<and> xs = ys)"
  by (rule digest_bytes_inject)

text \<open>C20. The request fingerprint identifies the request. When SHA-256 does not collide on the
  two inputs at hand, two posting contexts have the same fingerprint exactly when the same
  actor posts the same journal, and a posting never has the fingerprint of a reversal.
\<close>

theorem request_fingerprint_identifies_request:
  assumes "createPostLedgerIdempotencyContext sha256 k a j = Inr c"
    and "createPostLedgerIdempotencyContext sha256 k' a' j' = Inr c'"
    and "createReverseLedgerIdempotencyContext sha256 k'' a'' r = Inr c''"
    and "inj_on sha256
      {digest_bytes REQUEST_FINGERPRINT_DOMAIN (post_fingerprint_fields (ctx_actorAccountId c) j),
       digest_bytes REQUEST_FINGERPRINT_DOMAIN (post_fingerprint_fields (ctx_actorAccountId c') j'),
       digest_bytes REQUEST_FINGERPRINT_DOMAIN (reverse_fingerprint_fields (ctx_actorAccountId c'') r)}"
  shows "(ctx_requestFingerprint c = ctx_requestFingerprint c') = (ctx_actorAccountId c = ctx_actorAccountId c' \<and> j = j') \<and>
    ctx_requestFingerprint c \<noteq> ctx_requestFingerprint c''"
proof -
  have c: "ctx_requestFingerprint c = sha256 (digest_bytes REQUEST_FINGERPRINT_DOMAIN (post_fingerprint_fields (ctx_actorAccountId c) j))"
    "ctx_requestFingerprint c' = sha256 (digest_bytes REQUEST_FINGERPRINT_DOMAIN (post_fingerprint_fields (ctx_actorAccountId c') j'))"
    "ctx_requestFingerprint c'' = sha256 (digest_bytes REQUEST_FINGERPRINT_DOMAIN (reverse_fingerprint_fields (ctx_actorAccountId c'') r))"
    using assms(1-3)
    by (auto simp: createPostLedgerIdempotencyContext_def createReverseLedgerIdempotencyContext_def res_simps digest_def)
  show ?thesis
    unfolding c by (simp add: inj_on_eq_iff [OF assms(4)] digest_bytes_inject post_fields_inject post_reverse_fields)
qed

definition sample_reversal :: ValidatedReverseLedgerJournal where
  "sample_reversal =
     \<lparr>originalJournalId = ''10000000-0000-4000-8000-000000000007'', reversalReason = RECOGNITION_INVALIDATED,
      reversalEffectiveAt = ''2026-08-25T00:00:00.000Z'', reversalObservedAt = ''2026-08-25T00:00:01.000Z''\<rparr>"

text \<open>The witness instantiates the hash by the identity, which does not collide.\<close>

theorem request_fingerprint_identifies_request_witness:
  "\<exists>c c''. createPostLedgerIdempotencyContext (\<lambda>b. b) (JString ''key-1'')
        (JString ''10000000-0000-4000-8000-00000000000a'') sample_journal = Inr c \<and>
      createReverseLedgerIdempotencyContext (\<lambda>b. b) (JString ''key-1'')
        (JString ''10000000-0000-4000-8000-00000000000a'') sample_reversal = Inr c'' \<and>
      ctx_requestFingerprint c \<noteq> ctx_requestFingerprint c''"
proof -
  have "parseLedgerActorAccountId (JString ''10000000-0000-4000-8000-00000000000a'') =
      Inr ''10000000-0000-4000-8000-00000000000a''"
    "parseRawIdempotencyKey (JString ''key-1'') = Inr ''key-1''"
    by code_simp+
  then obtain c c'' where
    c: "createPostLedgerIdempotencyContext (\<lambda>b. b) (JString ''key-1'')
        (JString ''10000000-0000-4000-8000-00000000000a'') sample_journal = Inr c"
    "createReverseLedgerIdempotencyContext (\<lambda>b. b) (JString ''key-1'')
        (JString ''10000000-0000-4000-8000-00000000000a'') sample_reversal = Inr c''"
    by (simp add: createPostLedgerIdempotencyContext_def createReverseLedgerIdempotencyContext_def
        digestLedgerIdempotencyKey_def)
  with request_fingerprint_identifies_request [OF c(1) c(1) c(2)] show ?thesis by simp
qed

text \<open>Keys. A raw idempotency key is accepted exactly when it is a string of 1 to 128
  printable ASCII characters without spaces.
\<close>

theorem idempotency_key_accepts_exactly:
  "(\<exists>d. digestLedgerIdempotencyKey sha256 v = Inr d) =
     (\<exists>s. v = JString s \<and> 1 \<le> length s \<and> length s \<le> 128 \<and> (\<forall>c \<in> set s. 33 \<le> (of_char c :: nat) \<and> (of_char c :: nat) \<le> 126))"
  by (auto simp: digestLedgerIdempotencyKey_def res_simps parseRawIdempotencyKey_iff list_all_iff printable_def Let_def)

theorem idempotency_key_accepts_exactly_witness:
  "\<exists>d. digestLedgerIdempotencyKey (\<lambda>b. b) (JString ''a'') = Inr d"
  by (subst idempotency_key_accepts_exactly) simp

end
