(* ===== verification/Logging_Context.thy ===== *)
theory Logging_Context
  imports Js_Value
begin

text \<open>
  The correlation context carried through asynchronous work
  (\<^verbatim>\<open>apps/api/src/infrastructure/logging/logging-context.ts\<close>). A store is the map of the
  identifiers that are present; \<open>None\<close> as a store means that no context is active. \<open>run\<close> and
  \<open>runWith\<close> call their work in a new store, so the model gives them the work as a function of
  the store; \<open>bindActorId\<close> and \<open>clearActorId\<close> change the active store in place and return it.

  Shown: every store that can become active is well formed, and a nested context never
  replaces an identifier of the one it extends.
\<close>

subsection \<open>Data\<close>

datatype ContextKey =
  CorrelationId | RequestId | InitiatorActorId | JobId | IntentId | QuoteId | TransactionId | LedgerEventId

fun context_key_text :: "ContextKey \<Rightarrow> string" where
  "context_key_text CorrelationId = ''correlationId''"
| "context_key_text RequestId = ''requestId''"
| "context_key_text InitiatorActorId = ''initiatorActorId''"
| "context_key_text JobId = ''jobId''"
| "context_key_text IntentId = ''intentId''"
| "context_key_text QuoteId = ''quoteId''"
| "context_key_text TransactionId = ''transactionId''"
| "context_key_text LedgerEventId = ''ledgerEventId''"

definition CONTEXT_KEYS :: "ContextKey list" where
  "CONTEXT_KEYS =
     [CorrelationId, RequestId, InitiatorActorId, JobId, IntentId, QuoteId, TransactionId, LedgerEventId]"

type_synonym LogCorrelationContext = "ContextKey \<rightharpoonup> string"

text \<open>The errors thrown, one constructor per message.\<close>

datatype logging_error =
    NotPlainRecord
  | NotOwnData ContextKey
  | NotCanonical ContextKey
  | RequestIdDiffers
  | LegacyCarriesIdentifiers
  | CorrelationReplaced
  | IdentifierReplaced ContextKey
  | CorrelationRequired
  | NoActiveContext
  | LegacyCannotBind
  | ActorRebound

type_synonym 'a logging_result = "logging_error + 'a"

definition MAX_OPAQUE_REFERENCE_INPUT_LENGTH :: nat where
  "MAX_OPAQUE_REFERENCE_INPUT_LENGTH = 4096"

subsection \<open>Identifiers\<close>

definition prefixed_digest :: "string \<Rightarrow> string \<Rightarrow> bool" where
  "prefixed_digest p s = (starts_with p s \<and> sha256_hex (drop (length p) s))"

definition isCanonicalUuidV4 :: "string \<Rightarrow> bool" where
  "isCanonicalUuidV4 value = uuid_v4 value"

definition isSafeCorrelationId :: "string \<Rightarrow> bool" where
  "isSafeCorrelationId value = (isCanonicalUuidV4 value \<or> prefixed_digest ''legacy:'' value)"

definition isSafeLogReference :: "string \<Rightarrow> bool" where
  "isSafeLogReference value = (prefixed_digest ''job:'' value \<or> prefixed_digest ''message:'' value)"

text \<open>\<open>sha256\<close> stands for the runtime's hash: bytes to hexadecimal text.\<close>

fun createSafeLogReference :: "(string \<Rightarrow> string) \<Rightarrow> string \<Rightarrow> jsval \<Rightarrow> string option" where
  "createSafeLogReference sha256 ns (JString value) =
     (if length value < 1 \<or> length value > MAX_OPAQUE_REFERENCE_INPUT_LENGTH then None
      else Some (ns @ '':'' @ sha256 (utf8 (''crypto-lending:log-reference:'' @ ns @ '':'') @ utf8 value)))"
| "createSafeLogReference sha256 ns _ = None"

fun createSafeLegacyCorrelationId :: "(string \<Rightarrow> string) \<Rightarrow> string \<Rightarrow> jsval \<Rightarrow> string option" where
  "createSafeLegacyCorrelationId sha256 ns (JString value) =
     (if length value < 1 \<or> length value > MAX_OPAQUE_REFERENCE_INPUT_LENGTH then None
      else Some (''legacy:'' @ sha256 (utf8 (''crypto-lending:legacy-correlation:'' @ ns @ '':'') @ utf8 value)))"
| "createSafeLegacyCorrelationId sha256 ns _ = None"

fun canonical_value :: "ContextKey \<Rightarrow> string \<Rightarrow> bool" where
  "canonical_value CorrelationId value = isSafeCorrelationId value"
| "canonical_value JobId value = (isSafeLogReference value \<and> starts_with ''job:'' value)"
| "canonical_value _ value = isCanonicalUuidV4 value"

definition assertContextValue :: "string \<Rightarrow> ContextKey \<Rightarrow> unit logging_result" where
  "assertContextValue value name = require (NotCanonical name) (canonical_value name value)"

subsection \<open>Reading contexts\<close>

type_synonym js_descriptors = "(jskey \<times> jsval jsdesc) list"

definition contextDescriptors :: "jsval \<Rightarrow> js_descriptors logging_result" where
  "contextDescriptors value =
     (case js_peel value of
        Some (JObject proto props) \<Rightarrow>
          if proto \<noteq> ProtoObject \<and> proto \<noteq> ProtoNull then Inl NotPlainRecord else Inr props
      | _ \<Rightarrow> Inl NotPlainRecord)"

definition dataValue :: "js_descriptors \<Rightarrow> ContextKey \<Rightarrow> jsval logging_result" where
  "dataValue descriptors name =
     (case map_of descriptors (KeyStr (context_key_text name)) of
        None \<Rightarrow> Inr JUndefined
      | Some (DataProp _ v) \<Rightarrow> Inr v
      | Some (AccessorProp _) \<Rightarrow> Inl (NotOwnData name))"

fun text_value :: "ContextKey \<Rightarrow> jsval \<Rightarrow> string logging_result" where
  "text_value name (JString s) = Inr s"
| "text_value name _ = Inl (NotCanonical name)"

text \<open>The loop over the keys: an absent identifier is skipped, a present one is checked and copied.\<close>

fun copyValues :: "js_descriptors \<Rightarrow> ContextKey list \<Rightarrow> LogCorrelationContext \<Rightarrow> LogCorrelationContext logging_result" where
  "copyValues descriptors [] validated = Inr validated"
| "copyValues descriptors (name # names) validated =
     res_bind (dataValue descriptors name) (\<lambda>value.
     if value = JUndefined then copyValues descriptors names validated
     else res_bind (text_value name value) (\<lambda>s.
          res_bind (assertContextValue s name) (\<lambda>_.
          copyValues descriptors names (validated(name \<mapsto> s)))))"

fun correlation_text :: "jsval \<Rightarrow> string logging_result" where
  "correlation_text (JString s) = Inr s"
| "correlation_text _ = Inl (NotOwnData CorrelationId)"

definition validateContext :: "jsval \<Rightarrow> LogCorrelationContext logging_result" where
  "validateContext context =
     res_bind (contextDescriptors context) (\<lambda>descriptors.
     res_bind (dataValue descriptors CorrelationId) (\<lambda>value.
     res_bind (correlation_text value) (\<lambda>correlationId.
     res_bind (assertContextValue correlationId CorrelationId) (\<lambda>_.
     res_bind (copyValues descriptors (tl CONTEXT_KEYS) [CorrelationId \<mapsto> correlationId]) (\<lambda>validated.
     res_bind (require RequestIdDiffers
       (validated RequestId = None \<or> validated RequestId = Some correlationId)) (\<lambda>_.
     res_bind (require LegacyCarriesIdentifiers
       (\<not> (starts_with ''legacy:'' correlationId \<and>
           list_ex (\<lambda>name. name \<noteq> JobId \<and> validated name \<noteq> None) (tl CONTEXT_KEYS)))) (\<lambda>_.
     Inr validated)))))))"

definition validateExtension :: "jsval \<Rightarrow> LogCorrelationContext logging_result" where
  "validateExtension extension =
     res_bind (contextDescriptors extension) (\<lambda>descriptors. copyValues descriptors CONTEXT_KEYS Map.empty)"

definition copyContext :: "LogCorrelationContext \<Rightarrow> LogCorrelationContext logging_result" where
  "copyContext source =
     (let copy = foldl (\<lambda>m name. case source name of None \<Rightarrow> m | Some v \<Rightarrow> m(name \<mapsto> v)) Map.empty CONTEXT_KEYS
      in if copy CorrelationId = None \<or> copy CorrelationId = Some [] then Inl CorrelationRequired else Inr copy)"

text \<open>\<open>uuid\<close> stands for the value of \<^verbatim>\<open>randomUUID()\<close>.\<close>

definition createRootLogContext :: "string \<Rightarrow> LogCorrelationContext" where
  "createRootLogContext uuid = [CorrelationId \<mapsto> uuid, RequestId \<mapsto> uuid]"

text \<open>The null-prototype object that holds a store.\<close>

definition context_object :: "LogCorrelationContext \<Rightarrow> jsval" where
  "context_object m = JObject ProtoNull
     (concat (map (\<lambda>k. case m k of None \<Rightarrow> [] | Some s \<Rightarrow> [(KeyStr (context_key_text k), DataProp True (JString s))])
        CONTEXT_KEYS))"

subsection \<open>The logging context\<close>

definition runWithStore :: "jsval \<Rightarrow> LogCorrelationContext option \<Rightarrow> LogCorrelationContext logging_result" where
  "runWithStore extension current =
     res_bind (validateExtension extension) (\<lambda>ext.
     res_bind (case current of
         None \<Rightarrow> Inr ()
       | Some cur \<Rightarrow>
           if ext CorrelationId \<noteq> None \<and> ext CorrelationId \<noteq> cur CorrelationId then Inl CorrelationReplaced
           else (case find (\<lambda>name. ext name \<noteq> None \<and> cur name \<noteq> None \<and> ext name \<noteq> cur name) (tl CONTEXT_KEYS) of
                   None \<Rightarrow> Inr ()
                 | Some name \<Rightarrow> Inl (IdentifierReplaced name))) (\<lambda>_.
     let cur = (case current of None \<Rightarrow> Map.empty | Some m \<Rightarrow> m);
         correlationId = (case ext CorrelationId of Some c \<Rightarrow> Some c | None \<Rightarrow> cur CorrelationId)
     in case correlationId of
          None \<Rightarrow> Inl CorrelationRequired
        | Some c \<Rightarrow>
            if c = [] then Inl CorrelationRequired
            else validateContext (context_object ((cur ++ ext)(CorrelationId \<mapsto> c)))))"

definition run :: "jsval \<Rightarrow> (LogCorrelationContext \<Rightarrow> 'a) \<Rightarrow> 'a logging_result" where
  "run context work = res_bind (validateContext context) (\<lambda>store. Inr (work store))"

definition runWith :: "jsval \<Rightarrow> (LogCorrelationContext \<Rightarrow> 'a) \<Rightarrow> LogCorrelationContext option \<Rightarrow> 'a logging_result" where
  "runWith extension work current = res_bind (runWithStore extension current) (\<lambda>store. Inr (work store))"

definition current_context :: "LogCorrelationContext option \<Rightarrow> LogCorrelationContext option logging_result" where
  "current_context store =
     (case store of None \<Rightarrow> Inr None | Some m \<Rightarrow> res_bind (copyContext m) (\<lambda>c. Inr (Some c)))"

definition requireCurrent :: "LogCorrelationContext option \<Rightarrow> LogCorrelationContext logging_result" where
  "requireCurrent store =
     res_bind (current_context store) (\<lambda>c. of_option NoActiveContext c)"

definition capture :: "LogCorrelationContext option \<Rightarrow> (LogCorrelationContext option \<Rightarrow> 'a) \<Rightarrow>
    LogCorrelationContext option \<Rightarrow> 'a" where
  "capture captured work store = (case captured of None \<Rightarrow> work store | Some m \<Rightarrow> work (Some m))"

definition bindActorId :: "string \<Rightarrow> LogCorrelationContext option \<Rightarrow>
    (bool \<times> LogCorrelationContext option) logging_result" where
  "bindActorId actorId store =
     res_bind (assertContextValue actorId InitiatorActorId) (\<lambda>_.
     case store of
       None \<Rightarrow> Inr (False, None)
     | Some cur \<Rightarrow>
         if starts_with ''legacy:'' (case cur CorrelationId of None \<Rightarrow> [] | Some c \<Rightarrow> c) then Inl LegacyCannotBind
         else if cur InitiatorActorId \<noteq> None \<and> cur InitiatorActorId \<noteq> Some [] \<and> cur InitiatorActorId \<noteq> Some actorId
           then Inl ActorRebound
         else Inr (True, Some (cur(InitiatorActorId \<mapsto> actorId))))"

definition clearActorId :: "LogCorrelationContext option \<Rightarrow> LogCorrelationContext option" where
  "clearActorId store = (case store of None \<Rightarrow> None | Some cur \<Rightarrow> Some (cur(InitiatorActorId := None)))"

subsection \<open>Well-formed stores\<close>

text \<open>
  The invariant: a canonical correlation identifier is present, every identifier present is
  canonical, a request identifier equals the correlation identifier, and a legacy context
  carries at most a job identifier.
\<close>

definition wf_context :: "LogCorrelationContext \<Rightarrow> bool" where
  "wf_context m =
     ((\<exists>c. m CorrelationId = Some c) \<and>
      (\<forall>k s. m k = Some s \<longrightarrow> canonical_value k s) \<and>
      (\<forall>r. m RequestId = Some r \<longrightarrow> m CorrelationId = Some r) \<and>
      (\<forall>c k. m CorrelationId = Some c \<and> starts_with ''legacy:'' c \<and> m k \<noteq> None \<longrightarrow> k = CorrelationId \<or> k = JobId))"

text \<open>The stores that can become active.\<close>

inductive active_store :: "LogCorrelationContext \<Rightarrow> bool" where
  run: "validateContext v = Inr m \<Longrightarrow> active_store m"
| start: "runWithStore v None = Inr m \<Longrightarrow> active_store m"
| extend: "active_store m \<Longrightarrow> runWithStore v (Some m) = Inr m' \<Longrightarrow> active_store m'"
| bind: "active_store m \<Longrightarrow> bindActorId a (Some m) = Inr (b, Some m') \<Longrightarrow> active_store m'"
| clear: "active_store m \<Longrightarrow> clearActorId (Some m) = Some m' \<Longrightarrow> active_store m'"

lemma copyValues_canonical:
  assumes "copyValues d ks m = Inr m'" "\<forall>k s. m k = Some s \<longrightarrow> canonical_value k s"
  shows "\<forall>k s. m' k = Some s \<longrightarrow> canonical_value k s"
  using assms
proof (induction ks arbitrary: m)
  case (Cons a ks)
  from Cons.prems(1) obtain v where v: "dataValue d a = Inr v"
    and r: "(if v = JUndefined then copyValues d ks m
      else res_bind (text_value a v) (\<lambda>s. res_bind (assertContextValue s a) (\<lambda>_. copyValues d ks (m(a \<mapsto> s))))) = Inr m'"
    by (auto simp: res_bind_eq_Inr)
  show ?case
  proof (cases "v = JUndefined")
    case True
    then show ?thesis using r Cons.IH Cons.prems(2) by simp
  next
    case False
    with r obtain s where s: "canonical_value a s" "copyValues d ks (m(a \<mapsto> s)) = Inr m'"
      by (auto simp: res_simps assertContextValue_def)
    show ?thesis by (rule Cons.IH [OF s(2)]) (use s(1) Cons.prems(2) in simp)
  qed
qed simp

lemma copyValues_other:
  "copyValues d ks m = Inr m' \<Longrightarrow> k \<notin> set ks \<Longrightarrow> m' k = m k"
  by (induction d ks m rule: copyValues.induct) (auto simp: res_simps split: if_splits)

lemma CONTEXT_KEYS_all: "k \<in> set CONTEXT_KEYS"
  by (cases k) (simp_all add: CONTEXT_KEYS_def)

lemma correlation_not_in_rest: "CorrelationId \<notin> set (tl CONTEXT_KEYS)"
  by (simp add: CONTEXT_KEYS_def)

lemma rest_keys: "k = CorrelationId \<or> k \<in> set (tl CONTEXT_KEYS)"
  by (cases k) (simp_all add: CONTEXT_KEYS_def)

lemma validateContext_wf:
  assumes "validateContext v = Inr m"
  shows "wf_context m"
proof -
  obtain d c where c: "canonical_value CorrelationId c"
    and copy: "copyValues d (tl CONTEXT_KEYS) [CorrelationId \<mapsto> c] = Inr m"
    and req: "m RequestId = None \<or> m RequestId = Some c"
    and legacy: "\<not> (starts_with ''legacy:'' c \<and> list_ex (\<lambda>name. name \<noteq> JobId \<and> m name \<noteq> None) (tl CONTEXT_KEYS))"
    using assms unfolding validateContext_def res_simps assertContextValue_def Inr_inject by (elim exE conjE) simp
  have mc: "m CorrelationId = Some c"
    using copyValues_other [OF copy correlation_not_in_rest] by simp
  have "\<forall>k s. m k = Some s \<longrightarrow> canonical_value k s"
    by (rule copyValues_canonical [OF copy]) (use c in simp)
  moreover have "k = CorrelationId \<or> k = JobId" if "starts_with ''legacy:'' c" "m k \<noteq> None" for k
    using legacy that rest_keys [of k] by (auto simp: list_ex_iff)
  ultimately show ?thesis using mc req by (auto simp: wf_context_def)
qed

lemma context_key_text_inj [simp]: "(context_key_text k = context_key_text k') = (k = k')"
  by (cases k; cases k') simp_all

lemma map_of_context_object:
  assumes "distinct ks"
  shows "map_of (concat (map (\<lambda>k. case m k of None \<Rightarrow> []
      | Some s \<Rightarrow> [(KeyStr (context_key_text k), DataProp True (JString s))]) ks)) (KeyStr (context_key_text k)) =
    (if k \<in> set ks then map_option (\<lambda>s. DataProp True (JString s)) (m k) else None)"
  using assms by (induction ks) (auto split: option.splits)

lemma dataValue_context_object:
  assumes "contextDescriptors (context_object m) = Inr d"
  shows "dataValue d k = Inr (case m k of None \<Rightarrow> JUndefined | Some s \<Rightarrow> JString s)"
proof -
  have "distinct CONTEXT_KEYS" by (simp add: CONTEXT_KEYS_def)
  from map_of_context_object [OF this, of m k] show ?thesis
    using assms CONTEXT_KEYS_all [of k]
    by (auto simp: contextDescriptors_def context_object_def dataValue_def split: option.splits)
qed

lemma copyValues_context_object:
  assumes d: "contextDescriptors (context_object m) = Inr d" and "copyValues d ks n = Inr n'" "k \<in> set ks"
    and "n k = m k \<or> n k = None"
  shows "n' k = m k"
  using assms(2-)
proof (induction ks arbitrary: n)
  case (Cons a ks)
  note dv = dataValue_context_object [OF d, of a]
  show ?case
  proof (cases "m a")
    case None
    then have "copyValues d ks n = Inr n'" using Cons.prems dv by simp
    then show ?thesis
      using Cons.IH [of n] Cons.prems None copyValues_other [of d ks n n' k] by (cases "k \<in> set ks") auto
  next
    case (Some s)
    then have "copyValues d ks (n(a \<mapsto> s)) = Inr n'" using Cons.prems dv by (auto simp: res_simps)
    then show ?thesis
      using Cons.IH [of "n(a \<mapsto> s)"] Cons.prems(2,3) Some copyValues_other [of d ks "n(a \<mapsto> s)" n' k]
      by (cases "k \<in> set ks") (auto simp del: fun_upd_apply simp: fun_upd_other fun_upd_same fun_upd_def [of n a "Some s", THEN fun_cong, of k])
  qed
qed simp

lemma validateContext_object:
  assumes "validateContext (context_object m) = Inr m'"
  shows "m' = m"
proof
  fix k
  obtain d where d: "contextDescriptors (context_object m) = Inr d"
    using assms by (auto simp: validateContext_def res_simps)
  obtain v c where v: "dataValue d CorrelationId = Inr v" "correlation_text v = Inr c"
    and copy: "copyValues d (tl CONTEXT_KEYS) [CorrelationId \<mapsto> c] = Inr m'"
    using assms d by (auto simp: validateContext_def res_simps)
  have mc: "m CorrelationId = Some c"
    using v dataValue_context_object [OF d, of CorrelationId] by (auto split: option.splits)
  show "m' k = m k"
  proof (cases "k = CorrelationId")
    case True
    then show ?thesis using mc copyValues_other [OF copy correlation_not_in_rest] by simp
  next
    case False
    then show ?thesis
      using copyValues_context_object [OF d copy] rest_keys [of k] by (auto simp: fun_upd_def)
  qed
qed

lemma runWith_correlation:
  assumes "(case x of None \<Rightarrow> Inl e | Some c \<Rightarrow> if c = [] then Inl e else f c) = Inr m"
  obtains c where "x = Some c" "f c = Inr m"
  using assms that by (auto split: option.splits if_splits)

lemma runWithStore_result:
  assumes "runWithStore v cur = Inr m'"
  obtains ext where "validateExtension v = Inr ext"
    and "wf_context m'"
    and "\<forall>m k. cur = Some m \<longrightarrow> ext k = None \<or> m k = None \<or> ext k = m k"
    and "m' = (case cur of None \<Rightarrow> Map.empty | Some m \<Rightarrow> m) ++ ext"
proof -
  obtain ext c where ext: "validateExtension v = Inr ext"
    and chk: "(case cur of None \<Rightarrow> Inr ()
       | Some m \<Rightarrow>
           if ext CorrelationId \<noteq> None \<and> ext CorrelationId \<noteq> m CorrelationId then Inl CorrelationReplaced
           else (case find (\<lambda>name. ext name \<noteq> None \<and> m name \<noteq> None \<and> ext name \<noteq> m name) (tl CONTEXT_KEYS) of
                   None \<Rightarrow> Inr ()
                 | Some name \<Rightarrow> Inl (IdentifierReplaced name))) = Inr ()"
    and c: "(case ext CorrelationId of Some c \<Rightarrow> Some c
        | None \<Rightarrow> (case cur of None \<Rightarrow> Map.empty | Some m \<Rightarrow> m) CorrelationId) = Some c"
    and v: "validateContext (context_object (((case cur of None \<Rightarrow> Map.empty | Some m \<Rightarrow> m) ++ ext)(CorrelationId \<mapsto> c))) = Inr m'"
    using assms unfolding runWithStore_def res_simps Let_def
    by (elim exE conjE, elim runWith_correlation) auto
  have "m' = ((case cur of None \<Rightarrow> Map.empty | Some m \<Rightarrow> m) ++ ext)(CorrelationId \<mapsto> c)"
    by (rule validateContext_object [OF v])
  also have "\<dots> = (case cur of None \<Rightarrow> Map.empty | Some m \<Rightarrow> m) ++ ext"
    using c by (auto simp: fun_eq_iff map_add_def split: option.splits)
  finally have m': "m' = (case cur of None \<Rightarrow> Map.empty | Some m \<Rightarrow> m) ++ ext" .
  have "ext k = None \<or> m k = None \<or> ext k = m k" if "cur = Some m" for m k
    using chk that rest_keys [of k] by (auto split: if_splits option.splits simp: find_None_iff)
  then show ?thesis using that [OF ext validateContext_wf [OF v] _ m'] by blast
qed

lemma bindActorId_wf:
  assumes "wf_context m" "bindActorId a (Some m) = Inr (b, Some m')"
  shows "wf_context m'"
proof -
  obtain c where c: "m CorrelationId = Some c" "\<not> starts_with ''legacy:'' c"
    using assms by (auto simp: bindActorId_def wf_context_def res_simps split: if_splits)
  have "m' = m(InitiatorActorId \<mapsto> a)" "canonical_value InitiatorActorId a"
    using assms by (auto simp: bindActorId_def res_simps assertContextValue_def split: if_splits)
  then show ?thesis using assms(1) c by (auto simp: wf_context_def)
qed

lemma wf_context_shrink:
  assumes wf: "wf_context m" and sub: "\<And>k s. m' k = Some s \<Longrightarrow> m k = Some s"
    and cor: "m' CorrelationId = m CorrelationId"
  shows "wf_context m'"
  unfolding wf_context_def
proof (intro conjI allI impI)
  show "\<exists>c. m' CorrelationId = Some c" using wf cor by (simp add: wf_context_def)
  show "canonical_value k s" if "m' k = Some s" for k s
    using wf sub [OF that] unfolding wf_context_def by blast
  show "m' CorrelationId = Some r" if "m' RequestId = Some r" for r
    using wf sub [OF that] cor unfolding wf_context_def by simp
  show "k = CorrelationId \<or> k = JobId"
    if "m' CorrelationId = Some c \<and> starts_with ''legacy:'' c \<and> m' k \<noteq> None" for c k
  proof -
    from that obtain s where "m' k = Some s" by blast
    from sub [OF this] that show ?thesis using wf cor unfolding wf_context_def by fastforce
  qed
qed

lemma active_store_wf: "active_store m \<Longrightarrow> wf_context m"
proof (induction rule: active_store.induct)
  case (clear m m')
  then have "m' = m(InitiatorActorId := None)" by (simp add: clearActorId_def)
  then have "m' k = Some s \<Longrightarrow> m k = Some s" "m' CorrelationId = m CorrelationId" for k s
    by (auto split: if_splits)
  then show ?case using clear.IH wf_context_shrink by blast
qed (auto intro: validateContext_wf bindActorId_wf elim: runWithStore_result)

lemma copy_fold:
  "foldl (\<lambda>n name. case m name of None \<Rightarrow> n | Some v \<Rightarrow> n(name \<mapsto> v)) Map.empty CONTEXT_KEYS = m"
  by (rule ext) (case_tac x; simp add: CONTEXT_KEYS_def split: option.splits)

lemma copyContext_same: "copyContext m = Inr m' \<Longrightarrow> m' = m"
  by (auto simp: copyContext_def copy_fold Let_def split: if_splits)

lemma copyContext_wf:
  assumes wf: "wf_context m"
  shows "copyContext m = Inr m"
proof -
  obtain c where "m CorrelationId = Some c" "canonical_value CorrelationId c"
    using wf unfolding wf_context_def by blast
  then have "m CorrelationId \<noteq> None" "m CorrelationId \<noteq> Some []"
    by (auto simp: isSafeCorrelationId_def isCanonicalUuidV4_def prefixed_digest_def starts_with_def
        dest: uuid_v4_length)
  then show ?thesis by (auto simp: copyContext_def copy_fold Let_def)
qed

subsection \<open>Properties\<close>

text \<open>Contexts stay well formed. Whatever sequence of \<^verbatim>\<open>run\<close>, \<^verbatim>\<open>runWith\<close>, \<^verbatim>\<open>bindActorId\<close> and
  \<^verbatim>\<open>clearActorId\<close> led to the active store, it holds a canonical correlation identifier and
  only canonical identifiers, its request identifier is the correlation identifier, a legacy
  context carries at most a job identifier, and \<^verbatim>\<open>current()\<close> returns exactly its entries.
\<close>

theorem active_contexts_well_formed:
  assumes "active_store m"
  shows "wf_context m \<and> current_context (Some m) = Inr (Some m)"
  using active_store_wf [OF assms] copyContext_wf by (simp add: current_context_def)

abbreviation sample_id :: string where
  "sample_id \<equiv> ''10000000-0000-4000-8000-00000000000a''"

lemma sample_context_accepted:
  "validateContext (context_object (createRootLogContext sample_id)) = Inr (createRootLogContext sample_id)"
proof -
  have "uuid_v4 sample_id" by code_simp
  then show ?thesis
    by (simp add: validateContext_def contextDescriptors_def context_object_def createRootLogContext_def
        CONTEXT_KEYS_def dataValue_def assertContextValue_def isSafeCorrelationId_def isCanonicalUuidV4_def
        starts_with_def fun_upd_twist)
qed

theorem active_contexts_well_formed_witness:
  "wf_context (createRootLogContext sample_id) \<and>
   current_context (Some (createRootLogContext sample_id)) = Inr (Some (createRootLogContext sample_id))"
  by (rule active_contexts_well_formed, rule active_store.run, rule sample_context_accepted)

text \<open>Nesting only adds. A context entered by \<^verbatim>\<open>runWith\<close> inside another keeps every identifier
  of the outer one, the correlation identifier included, and every identifier it adds comes
  from the validated extension.
\<close>

theorem nested_context_extends:
  assumes "runWithStore v (Some m) = Inr m'"
  shows "m \<subseteq>\<^sub>m m' \<and> (\<exists>ext. validateExtension v = Inr ext \<and> (\<forall>k. m' k = m k \<or> m' k = ext k))"
proof -
  from assms obtain ext where e: "validateExtension v = Inr ext"
    and a: "\<forall>k. ext k = None \<or> m k = None \<or> ext k = m k" and m': "m' = m ++ ext"
    by (rule runWithStore_result) auto
  have "m' k = m k" if "m k \<noteq> None" for k
    using a [rule_format, of k] that by (auto simp: m' map_add_def split: option.splits)
  then have "m \<subseteq>\<^sub>m m'" by (auto simp: map_le_def)
  moreover have "m' k = m k \<or> m' k = ext k" for k by (auto simp: m' map_add_def split: option.splits)
  ultimately show ?thesis using e by blast
qed

lemma sample_extension:
  "runWithStore (mk_object [(''transactionId'', JString sample_id)]) (Some (createRootLogContext sample_id)) =
     Inr ((createRootLogContext sample_id)(TransactionId \<mapsto> sample_id))"
proof -
  have "uuid_v4 sample_id" by code_simp
  then show ?thesis
    by (simp add: runWithStore_def validateExtension_def validateContext_def contextDescriptors_def mk_object_def
        context_object_def createRootLogContext_def CONTEXT_KEYS_def dataValue_def assertContextValue_def
        isSafeCorrelationId_def isCanonicalUuidV4_def starts_with_def map_add_def fun_upd_twist)
qed

theorem nested_context_extends_witness:
  "createRootLogContext sample_id \<subseteq>\<^sub>m (createRootLogContext sample_id)(TransactionId \<mapsto> sample_id)"
  using nested_context_extends [OF sample_extension] by blast

text \<open>References are safe. When the hash returns 64 hexadecimal digits, the reference made
  from an opaque identifier is accepted as a log reference, the legacy correlation made from
  it as a correlation identifier; both are made for exactly the strings of 1 to 4096 characters.
\<close>

theorem safe_references:
  assumes hash: "\<And>b. sha256_hex (sha256 b)" and "ns = ''job'' \<or> ns = ''message''"
  shows "(case createSafeLogReference sha256 ns v of None \<Rightarrow> True | Some r \<Rightarrow> isSafeLogReference r) \<and>
     (case createSafeLegacyCorrelationId sha256 ns v of None \<Rightarrow> True | Some r \<Rightarrow> isSafeCorrelationId r) \<and>
     ((\<exists>r. createSafeLogReference sha256 ns v = Some r) = (\<exists>s. v = JString s \<and> 1 \<le> length s \<and> length s \<le> 4096))"
  using assms
  by (cases v) (auto simp: isSafeLogReference_def isSafeCorrelationId_def prefixed_digest_def starts_with_def
      MAX_OPAQUE_REFERENCE_INPUT_LENGTH_def Suc_le_eq)

theorem safe_references_witness:
  "isSafeLogReference (''job:'' @ replicate 64 (CHR ''a''))"
proof -
  have "sha256_hex (replicate 64 (CHR ''a''))" by code_simp
  then show ?thesis
    using safe_references [of "\<lambda>_. replicate 64 (CHR ''a'')" "''job''" "JString ''x''"]
    by (simp add: MAX_OPAQUE_REFERENCE_INPUT_LENGTH_def)
qed

end
