(* ===== verification/Js_Action.thy ===== *)
theory Js_Action
  imports Js_Prelude
begin

text \<open>
  Asynchronous operations on a world. An action takes the world it starts in and returns
  its outcome (a thrown error or a value) together with the world it leaves behind; awaiting
  an action is running it. The world stands for everything the ports of a service act on:
  the database, the resolvers, the telemetry.
\<close>

type_synonym ('w, 'e, 'a) action = "'w \<Rightarrow> ('e + 'a) \<times> 'w"

definition act_return :: "'a \<Rightarrow> ('w, 'e, 'a) action" where
  "act_return x w = (Inr x, w)"

definition act_throw :: "'e \<Rightarrow> ('w, 'e, 'a) action" where
  "act_throw e w = (Inl e, w)"

definition act_bind :: "('w, 'e, 'a) action \<Rightarrow> ('a \<Rightarrow> ('w, 'e, 'b) action) \<Rightarrow> ('w, 'e, 'b) action" where
  "act_bind m k w = (case m w of (Inl e, w') \<Rightarrow> (Inl e, w') | (Inr x, w') \<Rightarrow> k x w')"

text \<open>A computation without effects inside an action.\<close>

definition act_pure :: "'e + 'a \<Rightarrow> ('w, 'e, 'a) action" where
  "act_pure r w = (r, w)"

text \<open>Giving the errors of a port their place among the errors of the service.\<close>

definition act_lift :: "('d \<Rightarrow> 'e) \<Rightarrow> ('w, 'd, 'a) action \<Rightarrow> ('w, 'e, 'a) action" where
  "act_lift f m w = (case m w of (r, w') \<Rightarrow> (lift_error f r, w'))"

text \<open>\<^verbatim>\<open>try { ... } catch { throw e }\<close>: every error becomes \<open>e\<close>, the effects stay.\<close>

definition act_rethrow :: "'e \<Rightarrow> ('w, 'd, 'a) action \<Rightarrow> ('w, 'e, 'a) action" where
  "act_rethrow e m w = (case m w of (r, w') \<Rightarrow> (rethrow e r, w'))"

text \<open>\<^verbatim>\<open>try { ... } catch { }\<close>: the error is swallowed, the effects stay.\<close>

definition act_swallow :: "('w, 'd, 'a) action \<Rightarrow> ('w, 'e, 'a option) action" where
  "act_swallow m w = (case m w of (Inl _, w') \<Rightarrow> (Inr None, w') | (Inr x, w') \<Rightarrow> (Inr (Some x), w'))"

lemmas act_defs =
  act_return_def act_throw_def act_bind_def act_pure_def act_lift_def act_rethrow_def act_swallow_def

lemma act_bind_pure [simp]:
  "act_bind (act_pure (Inl e)) k w = (Inl e, w)"
  "act_bind (act_pure (Inr x)) k w = k x w"
  by (simp_all add: act_defs)

lemma act_bind_Inr_iff:
  "(act_bind m k w = (Inr y, w')) = (\<exists>x v. m w = (Inr x, v) \<and> k x v = (Inr y, w'))"
  by (auto simp: act_bind_def split: prod.splits sum.splits)

lemma act_lift_Inr_iff: "(act_lift f m w = (Inr y, w')) = (m w = (Inr y, w'))"
  by (cases "m w"; cases "fst (m w)") (auto simp: act_lift_def)

lemma act_rethrow_Inr_iff: "(act_rethrow e m w = (Inr y, w')) = (m w = (Inr y, w'))"
  by (cases "m w"; cases "fst (m w)") (auto simp: act_rethrow_def)

lemma act_pure_Inr_iff: "(act_pure r w = (Inr y, w')) = (r = Inr y \<and> w' = w)"
  by (auto simp: act_pure_def)

lemmas act_Inr_iffs = act_bind_Inr_iff act_lift_Inr_iff act_rethrow_Inr_iff act_pure_Inr_iff

text \<open>
  An action keeps an observation of the world when no outcome changes it.
\<close>

definition keeps :: "('w \<Rightarrow> 'o) \<Rightarrow> ('w, 'e, 'a) action \<Rightarrow> bool" where
  "keeps obs m = (\<forall>w. obs (snd (m w)) = obs w)"

named_theorems keeps_rules

lemma keeps_bind [keeps_rules]: "keeps obs m \<Longrightarrow> (\<And>x. keeps obs (k x)) \<Longrightarrow> keeps obs (act_bind m k)"
  by (auto simp: keeps_def act_bind_def split: prod.splits sum.splits) (metis snd_conv)+

lemma keeps_pure [keeps_rules]: "keeps obs (act_pure r)"
  by (simp add: keeps_def act_pure_def)

lemma keeps_throw [keeps_rules]: "keeps obs (act_throw e)"
  by (simp add: keeps_def act_throw_def)

lemma keeps_return [keeps_rules]: "keeps obs (act_return x)"
  by (simp add: keeps_def act_return_def)

lemma keeps_lift [keeps_rules]: "keeps obs m \<Longrightarrow> keeps obs (act_lift f m)"
  by (auto simp: keeps_def act_lift_def split: prod.splits) (metis snd_conv)

lemma keeps_rethrow [keeps_rules]: "keeps obs m \<Longrightarrow> keeps obs (act_rethrow e m)"
  by (auto simp: keeps_def act_rethrow_def split: prod.splits) (metis snd_conv)

end
