(* ===== verification/Ledger_Service.thy ===== *)
theory Ledger_Service
  imports Ledger_Lifecycle Ledger_Idempotency Logging_Context Js_Action
begin

text \<open>
  The ledger service (\<^verbatim>\<open>apps/api/src/ledger/application/ledger.service.ts\<close>) and the capability
  objects it hands to the repository (\<^verbatim>\<open>ledger-capability-resolver.port.ts\<close>).

  The ports of the service (repository, actor resolver, capability resolver, telemetry) are
  fields of the record \<open>LedgerPorts\<close>, actions on an arbitrary world; the logging context is the
  one of \<^verbatim>\<open>logging-context.ts\<close>, its active store being read from the world. The theorems hold
  for every implementation of the ports; what one of them needs from the repository is a
  hypothesis of that theorem.
\<close>

subsection \<open>Capabilities\<close>

text \<open>
  A capability is an empty frozen object; its bearer value and purpose live in two weak maps
  keyed by the object. Objects are numbered in the order of their creation.
\<close>

datatype LedgerCapabilityPurpose = POST | REVERSE

record capability_table =
  nextCapability :: nat
  capabilityValues :: "nat \<rightharpoonup> string"
  capabilityPurposes :: "nat \<rightharpoonup> LedgerCapabilityPurpose"

datatype capability_value = Capability nat | ForeignValue

fun createLedgerCapability ::
  "LedgerCapabilityPurpose \<Rightarrow> jsval \<Rightarrow> capability_table \<Rightarrow> (capability_value \<times> capability_table) option" where
  "createLedgerCapability purpose (JString value) t =
     (if \<not> sha256_hex value then None
      else Some (Capability (nextCapability t),
        t\<lparr>nextCapability := nextCapability t + 1,
          capabilityValues := (capabilityValues t)(nextCapability t \<mapsto> value),
          capabilityPurposes := (capabilityPurposes t)(nextCapability t \<mapsto> purpose)\<rparr>))"
| "createLedgerCapability purpose _ t = None"

text \<open>Any other value (not one of these objects) has no purpose in the weak map.\<close>

fun revealLedgerCapability ::
  "capability_value \<Rightarrow> LedgerCapabilityPurpose \<Rightarrow> capability_table \<Rightarrow> string option" where
  "revealLedgerCapability (Capability c) expectedPurpose t =
     (if capabilityPurposes t c \<noteq> Some expectedPurpose then None else capabilityValues t c)"
| "revealLedgerCapability ForeignValue expectedPurpose t = None"

definition wf_capabilities :: "capability_table \<Rightarrow> bool" where
  "wf_capabilities t =
     (\<forall>c \<ge> nextCapability t. capabilityValues t c = None \<and> capabilityPurposes t c = None)"

inductive issued :: "capability_table \<Rightarrow> bool" where
  none: "issued \<lparr>nextCapability = 0, capabilityValues = Map.empty, capabilityPurposes = Map.empty\<rparr>"
| create: "issued t \<Longrightarrow> createLedgerCapability p v t = Some (c, t') \<Longrightarrow> issued t'"

lemma createLedgerCapability_iff:
  "(createLedgerCapability p v t = Some (c, t')) =
     (\<exists>s. v = JString s \<and> sha256_hex s \<and> c = Capability (nextCapability t) \<and>
        t' = t\<lparr>nextCapability := nextCapability t + 1,
          capabilityValues := (capabilityValues t)(nextCapability t \<mapsto> s),
          capabilityPurposes := (capabilityPurposes t)(nextCapability t \<mapsto> p)\<rparr>)"
  by (cases v) auto

lemma issued_wf: "issued t \<Longrightarrow> wf_capabilities t"
  by (induction rule: issued.induct)
    (auto simp: wf_capabilities_def createLedgerCapability_iff)

subsection \<open>Ports and errors\<close>

record LedgerPostingCapabilityRequest =
  cap_actorAccountId :: string
  cap_bookId :: string
  cap_transactionId :: string
  cap_legId :: string
  cap_economicEventType :: EconomicEventType
  cap_reason :: PostLedgerReasonCode

record LedgerReversalCapabilityRequest =
  rcap_actorAccountId :: string
  rcap_originalJournalId :: string
  rcap_reason :: ReversalLedgerReasonCode

datatype 'err service_error =
    LedgerInvalid LedgerValidationCode
  | LifecycleInvalid lifecycle_error
  | IdempotencyInvalid idempotency_error
  | LoggingInvalid logging_error
  | LedgerCommandContextRequired
  | PortError 'err

datatype ObservabilityQuoteState = QS_CREATED | QS_AVAILABLE | QS_SELECTED | QS_EXPIRED | QS_REJECTED | QS_FAILED

record ('w, 'cap, 'err) LedgerPorts =
  activeStore :: "'w \<Rightarrow> LogCorrelationContext option"
  resolveActor :: "('w, 'err, jsval) action"
  repo_resolveIdempotency :: "LedgerIdempotencyContext \<Rightarrow> ('w, 'err, string option) action"
  resolvePosting :: "LedgerPostingCapabilityRequest \<Rightarrow> ('w, 'err, 'cap option) action"
  resolveReversal :: "LedgerReversalCapabilityRequest \<Rightarrow> ('w, 'err, 'cap option) action"
  repo_postJournal :: "LogCorrelationContext \<Rightarrow> PostLedgerJournalCommand \<Rightarrow> 'cap \<Rightarrow> LedgerIdempotencyContext \<Rightarrow> ('w, 'err, string) action"
  repo_reverseJournal :: "ReverseLedgerJournalCommand \<Rightarrow> 'cap \<Rightarrow> LedgerIdempotencyContext \<Rightarrow> ('w, 'err, string) action"
  repo_transitionLifecycle :: "LedgerLifecycleTransitionCommand \<Rightarrow> ('w, 'err, unit) action"
  repo_transitionRecovery :: "LedgerRecoveryTransitionCommand \<Rightarrow> ('w, 'err, unit) action"
  startSpan :: "('w, 'err, nat) action"
  endSpan :: "nat \<Rightarrow> bool \<Rightarrow> ('w, 'err, unit) action"
  recordExecutionState :: "LedgerLifecycleState \<Rightarrow> ('w, 'err, unit) action"
  recordQuoteState :: "ObservabilityQuoteState \<Rightarrow> ('w, 'err, unit) action"
  emitTransitioned :: "bool \<Rightarrow> LedgerLifecycleState \<Rightarrow> LedgerLifecycleReasonCode \<Rightarrow> 'w \<Rightarrow> 'w"

type_synonym ('w, 'err, 'a) service_action = "('w, 'err service_error, 'a) action"

subsection \<open>The service\<close>

fun js_falsy :: "jsval \<Rightarrow> bool" where
  "js_falsy JUndefined = True"
| "js_falsy JNull = True"
| "js_falsy (JBool b) = (\<not> b)"
| "js_falsy (JNumber n) = (n = NumInt 0 \<or> n = NumNaN)"
| "js_falsy (JBigInt n) = (n = 0)"
| "js_falsy (JString s) = (s = [])"
| "js_falsy _ = False"

definition resolveLedgerContext :: "('w, 'cap, 'err) LedgerPorts \<Rightarrow> ('w, 'err, string \<times> string) service_action" where
  "resolveLedgerContext P w =
     act_bind (act_pure (lift_error LoggingInvalid (current_context (activeStore P w)))) (\<lambda>current.
     act_rethrow LedgerCommandContextRequired
      (case current of
         None \<Rightarrow> act_throw ()
       | Some context \<Rightarrow>
           act_bind (act_rethrow () (resolveActor P)) (\<lambda>resolvedActor.
           if js_falsy resolvedActor then act_throw ()
           else act_bind (act_pure (rethrow () (parseLedgerActorAccountId resolvedActor))) (\<lambda>actor.
           if context InitiatorActorId \<noteq> None \<and> context InitiatorActorId \<noteq> Some actor then act_throw ()
           else act_bind (act_pure (rethrow () (parseLedgerCorrelationId
                  (case context CorrelationId of None \<Rightarrow> JUndefined | Some c \<Rightarrow> JString c)))) (\<lambda>corr.
           act_return (actor, corr)))))) w"

fun quoteStateForTransition :: "LedgerLifecycleReasonCode \<Rightarrow> ObservabilityQuoteState option" where
  "quoteStateForTransition INTENT_CREATED = Some QS_CREATED"
| "quoteStateForTransition QUOTE_CREATED = Some QS_AVAILABLE"
| "quoteStateForTransition USER_APPROVAL_RECORDED = Some QS_SELECTED"
| "quoteStateForTransition QUOTE_EXPIRED = Some QS_EXPIRED"
| "quoteStateForTransition USER_REJECTED = Some QS_REJECTED"
| "quoteStateForTransition PREFLIGHT_FAILED = Some QS_FAILED"
| "quoteStateForTransition _ = None"

definition startDiagnosticSpan :: "('w, 'cap, 'err) LedgerPorts \<Rightarrow> ('w, 'err, nat option) service_action" where
  "startDiagnosticSpan P = act_swallow (startSpan P)"

text \<open>A diagnostic runs for its effect only; what it throws is dropped.\<close>

definition recordDiagnostic :: "('w, 'err, unit) action \<Rightarrow> 'w \<Rightarrow> 'w" where
  "recordDiagnostic m w = snd (m w)"

definition capability_of :: "('w, 'err, 'cap option) action \<Rightarrow> ('w, 'err, 'cap) service_action" where
  "capability_of m =
     act_rethrow LedgerCommandContextRequired
      (act_bind (act_rethrow () m) (\<lambda>capability. act_pure (of_option () capability)))"

definition posting_request :: "string \<Rightarrow> ValidatedPostLedgerJournal \<Rightarrow> LedgerPostingCapabilityRequest" where
  "posting_request actor journal =
     \<lparr>cap_actorAccountId = actor, cap_bookId = bookId journal, cap_transactionId = transactionId journal,
      cap_legId = legId journal, cap_economicEventType = economicEventType journal, cap_reason = reason journal\<rparr>"

definition reversal_request :: "string \<Rightarrow> ValidatedReverseLedgerJournal \<Rightarrow> LedgerReversalCapabilityRequest" where
  "reversal_request actor reversal =
     \<lparr>rcap_actorAccountId = actor, rcap_originalJournalId = originalJournalId reversal,
      rcap_reason = reversalReason reversal\<rparr>"

text \<open>\<^verbatim>\<open>if (replay) return replay\<close>: null and the empty text are falsy.\<close>

definition truthy_id :: "string option \<Rightarrow> string option" where
  "truthy_id r = (if r = Some [] then None else r)"

text \<open>The part of \<^verbatim>\<open>postJournal\<close> after the replay check.\<close>

definition submitPosting :: "('w, 'cap, 'err) LedgerPorts \<Rightarrow> string \<Rightarrow> string \<Rightarrow> ValidatedPostLedgerJournal \<Rightarrow>
    LedgerIdempotencyContext \<Rightarrow> ('w, 'err, string) service_action" where
  "submitPosting P actor corr journal idempotency =
     act_bind (capability_of (resolvePosting P (posting_request actor journal))) (\<lambda>capability.
     act_bind (act_pure (lift_error LedgerInvalid
       (normalizePostLedgerJournalCommand (post_command_object corr journal)))) (\<lambda>command. \<lambda>w.
     act_bind (act_pure (lift_error LoggingInvalid (runWithStore
       (mk_object [(''transactionId'', JString (transactionId journal))]) (activeStore P w)))) (\<lambda>store.
     act_lift PortError (repo_postJournal P store command capability idempotency)) w))"

definition postJournal :: "('w, 'cap, 'err) LedgerPorts \<Rightarrow> (string \<Rightarrow> string) \<Rightarrow> jsval \<Rightarrow> jsval \<Rightarrow>
    ('w, 'err, string) service_action" where
  "postJournal P sha256 input idempotencyKey =
     act_bind (act_pure (lift_error LedgerInvalid (normalizePostLedgerJournalInput input))) (\<lambda>journal.
     act_bind (resolveLedgerContext P) (\<lambda>(actor, corr).
     act_bind (act_pure (lift_error IdempotencyInvalid
       (createPostLedgerIdempotencyContext sha256 idempotencyKey (JString actor) journal))) (\<lambda>idempotency.
     act_bind (act_lift PortError (repo_resolveIdempotency P idempotency)) (\<lambda>replay.
     case truthy_id replay of
       Some journalId \<Rightarrow> act_return journalId
     | None \<Rightarrow> submitPosting P actor corr journal idempotency))))"

definition submitReversal :: "('w, 'cap, 'err) LedgerPorts \<Rightarrow> string \<Rightarrow> string \<Rightarrow> ValidatedReverseLedgerJournal \<Rightarrow>
    LedgerIdempotencyContext \<Rightarrow> ('w, 'err, string) service_action" where
  "submitReversal P actor corr reversal idempotency =
     act_bind (capability_of (resolveReversal P (reversal_request actor reversal))) (\<lambda>capability.
     act_bind (act_pure (lift_error LedgerInvalid
       (normalizeReverseLedgerJournalCommand (reverse_command_object corr reversal)))) (\<lambda>command.
     act_lift PortError (repo_reverseJournal P command capability idempotency)))"

definition reverseJournal :: "('w, 'cap, 'err) LedgerPorts \<Rightarrow> (string \<Rightarrow> string) \<Rightarrow> jsval \<Rightarrow> jsval \<Rightarrow>
    ('w, 'err, string) service_action" where
  "reverseJournal P sha256 input idempotencyKey =
     act_bind (act_pure (lift_error LedgerInvalid (normalizeReverseLedgerJournalInput input))) (\<lambda>reversal.
     act_bind (resolveLedgerContext P) (\<lambda>(actor, corr).
     act_bind (act_pure (lift_error IdempotencyInvalid
       (createReverseLedgerIdempotencyContext sha256 idempotencyKey (JString actor) reversal))) (\<lambda>idempotency.
     act_bind (act_lift PortError (repo_resolveIdempotency P idempotency)) (\<lambda>replay.
     case truthy_id replay of
       Some journalId \<Rightarrow> act_return journalId
     | None \<Rightarrow> submitReversal P actor corr reversal idempotency))))"

definition transitionLifecycle :: "('w, 'cap, 'err) LedgerPorts \<Rightarrow> jsval \<Rightarrow> ('w, 'err, unit) service_action" where
  "transitionLifecycle P input =
     act_bind (act_pure (lift_error LifecycleInvalid (normalizeLedgerLifecycleTransitionInput input))) (\<lambda>transition.
     act_bind (resolveLedgerContext P) (\<lambda>(actor, corr).
     act_bind (act_pure (lift_error LifecycleInvalid
       (normalizeLedgerLifecycleTransitionCommand (lifecycle_command_object actor corr transition)))) (\<lambda>command.
     act_bind (startDiagnosticSpan P) (\<lambda>span. \<lambda>w.
     (let finish = (\<lambda>ok. case span of None \<Rightarrow> (\<lambda>v. v) | Some s \<Rightarrow> recordDiagnostic (endSpan P s ok))
      in case repo_transitionLifecycle P command w of
           (Inl e, w1) \<Rightarrow> (Inl (PortError e), finish False w1)
         | (Inr _, w1) \<Rightarrow>
             let w2 = finish True w1;
                 w3 = recordDiagnostic (recordExecutionState P (lt_nextState transition)) w2;
                 w4 = (case quoteStateForTransition (lt_reason transition) of
                         None \<Rightarrow> w3 | Some q \<Rightarrow> recordDiagnostic (recordQuoteState P q) w3)
             in (Inr (), emitTransitioned P (lt_legId transition \<noteq> None \<and> lt_legId transition \<noteq> Some [])
                           (lt_nextState transition) (lt_reason transition) w4))))))"

definition transitionRecovery :: "('w, 'cap, 'err) LedgerPorts \<Rightarrow> jsval \<Rightarrow> ('w, 'err, unit) service_action" where
  "transitionRecovery P input =
     act_bind (act_pure (lift_error LifecycleInvalid (normalizeLedgerRecoveryTransitionInput input))) (\<lambda>transition.
     act_bind (resolveLedgerContext P) (\<lambda>(actor, corr).
     act_bind (act_pure (lift_error LifecycleInvalid
       (normalizeLedgerRecoveryTransitionCommand (recovery_command_object actor corr transition)))) (\<lambda>command.
     act_lift PortError (repo_transitionRecovery P command))))"

subsection \<open>The command context\<close>

lemma current_context_same: "current_context s = Inr (Some m) \<Longrightarrow> s = Some m"
  by (auto simp: current_context_def res_simps dest: copyContext_same split: option.splits)

lemma resolveLedgerContext_success:
  assumes "resolveLedgerContext P w = (Inr (actor, corr), w')"
  shows "uuid_v4 actor \<and> uuid_v4 corr \<and> resolveActor P w = (Inr (JString actor), w') \<and>
    (\<exists>m. activeStore P w = Some m \<and> (m InitiatorActorId = None \<or> m InitiatorActorId = Some actor) \<and>
      m CorrelationId = Some corr)"
proof -
  obtain c where c: "current_context (activeStore P w) = Inr c"
    using assms by (auto simp: resolveLedgerContext_def act_Inr_iffs res_simps)
  with assms obtain m where m: "current_context (activeStore P w) = Inr (Some m)"
    by (cases c) (auto simp: resolveLedgerContext_def act_Inr_iffs act_throw_def)
  note store = current_context_same [OF m]
  show ?thesis
    using assms m store
    by (auto simp: resolveLedgerContext_def act_Inr_iffs act_throw_def act_return_def res_simps parse_id_defs
        split: if_splits option.splits)
qed

subsection \<open>Success of a posting\<close>

lemma capability_of_success: "(capability_of m w = (Inr cap, w')) = (m w = (Inr (Some cap), w'))"
  by (auto simp: capability_of_def act_Inr_iffs res_simps)

lemma command_accepted:
  assumes "normalizePostLedgerJournalInput input = Inr j" "resolveLedgerContext P w = (Inr (actor, corr), w')"
  shows "normalizePostLedgerJournalCommand (post_command_object corr j) =
    Inr \<lparr>postCorrelationId = corr, postedJournal = j\<rparr>"
  using post_command_complete [OF post_input.sound [OF assms(1)]] resolveLedgerContext_success [OF assms(2)] by blast

lemma submitPosting_success:
  assumes "normalizePostLedgerJournalCommand (post_command_object corr j) = Inr command"
  shows "(submitPosting P actor corr j ctx w = (Inr jid, w')) =
    (\<exists>cap w3 store.
       resolvePosting P (posting_request actor j) w = (Inr (Some cap), w3) \<and>
       runWithStore (mk_object [(''transactionId'', JString (transactionId j))]) (activeStore P w3) = Inr store \<and>
       repo_postJournal P store command cap ctx w3 = (Inr jid, w'))"
  by (simp add: submitPosting_def assms act_Inr_iffs capability_of_success lift_error_eq_Inr)

lemma submitReversal_success:
  assumes "normalizeReverseLedgerJournalCommand (reverse_command_object corr r) = Inr command"
  shows "(submitReversal P actor corr r ctx w = (Inr jid, w')) =
    (\<exists>cap w3. resolveReversal P (reversal_request actor r) w = (Inr (Some cap), w3) \<and>
       repo_reverseJournal P command cap ctx w3 = (Inr jid, w'))"
  by (simp add: submitReversal_def assms act_Inr_iffs capability_of_success lift_error_eq_Inr)

lemma replay_success:
  "((case truthy_id r of Some journalId \<Rightarrow> act_return journalId | None \<Rightarrow> m) w = (Inr jid, w')) =
     (truthy_id r = Some jid \<and> w' = w \<or> truthy_id r = None \<and> m w = (Inr jid, w'))"
  by (auto simp: act_return_def split: option.splits)

lemma postJournal_success:
  "(postJournal P sha256 input key w = (Inr jid, w')) =
     (\<exists>j actor corr w1 ctx r w2.
        normalizePostLedgerJournalInput input = Inr j \<and>
        resolveLedgerContext P w = (Inr (actor, corr), w1) \<and>
        createPostLedgerIdempotencyContext sha256 key (JString actor) j = Inr ctx \<and>
        repo_resolveIdempotency P ctx w1 = (Inr r, w2) \<and>
        (truthy_id r = Some jid \<and> w' = w2 \<or>
         truthy_id r = None \<and> submitPosting P actor corr j ctx w2 = (Inr jid, w')))"
  unfolding postJournal_def act_Inr_iffs lift_error_eq_Inr split_paired_Ex prod.case replay_success
  by (rule iffI; elim exE conjE; hypsubst?; intro exI conjI; (assumption | rule refl))

lemma reverseJournal_success:
  "(reverseJournal P sha256 input key w = (Inr jid, w')) =
     (\<exists>j actor corr w1 ctx r w2.
        normalizeReverseLedgerJournalInput input = Inr j \<and>
        resolveLedgerContext P w = (Inr (actor, corr), w1) \<and>
        createReverseLedgerIdempotencyContext sha256 key (JString actor) j = Inr ctx \<and>
        repo_resolveIdempotency P ctx w1 = (Inr r, w2) \<and>
        (truthy_id r = Some jid \<and> w' = w2 \<or>
         truthy_id r = None \<and> submitReversal P actor corr j ctx w2 = (Inr jid, w')))"
  unfolding reverseJournal_def act_Inr_iffs lift_error_eq_Inr split_paired_Ex prod.case replay_success
  by (rule iffI; elim exE conjE; hypsubst?; intro exI conjI; (assumption | rule refl))

subsection \<open>What an operation leaves untouched\<close>

lemma keeps_context [keeps_rules]: "keeps obs (resolveActor P) \<Longrightarrow> keeps obs (resolveLedgerContext P)"
  unfolding keeps_def resolveLedgerContext_def
  by (auto simp: act_defs split: prod.splits sum.splits option.splits) (metis snd_conv)+

lemma keeps_capability_of [keeps_rules]: "keeps obs m \<Longrightarrow> keeps obs (capability_of m)"
  unfolding capability_of_def by (intro keeps_rules)

text \<open>A failing action keeps an observation: its outcome may be a write only when it succeeds.\<close>

definition fails_clean :: "('w \<Rightarrow> 'o) \<Rightarrow> ('w, 'e, 'a) action \<Rightarrow> bool" where
  "fails_clean obs m = (\<forall>w e w'. m w = (Inl e, w') \<longrightarrow> obs w' = obs w)"

lemma keeps_fails_clean: "keeps obs m \<Longrightarrow> fails_clean obs m"
  by (auto simp: keeps_def fails_clean_def) (metis snd_conv)

lemma fails_clean_bind:
  assumes "keeps obs m" "\<And>x. fails_clean obs (k x)"
  shows "fails_clean obs (act_bind m k)"
  unfolding fails_clean_def
proof (intro allI impI)
  fix w e w' assume run: "act_bind m k w = (Inl e, w')"
  obtain r v where m: "m w = (r, v)" by fastforce
  have v: "obs v = obs w" using assms(1) m unfolding keeps_def by (metis snd_conv)
  show "obs w' = obs w"
  proof (cases r)
    case (Inl d)
    then show ?thesis using run m v by (simp add: act_bind_def)
  next
    case (Inr x)
    then have "k x v = (Inl e, w')" using run m by (simp add: act_bind_def)
    then show ?thesis using assms(2) v unfolding fails_clean_def by metis
  qed
qed

lemma fails_clean_lift: "fails_clean obs m \<Longrightarrow> fails_clean obs (act_lift f m)"
  by (auto simp: fails_clean_def act_lift_def split: prod.splits)
    (metis lift_error_simps(2) sum.exhaust Inr_not_Inl)

lemma submitPosting_fails_clean:
  assumes "\<And>r. keeps obs (resolvePosting P r)"
    and "\<And>s cmd cap ctx. fails_clean obs (repo_postJournal P s cmd cap ctx)"
  shows "fails_clean obs (submitPosting P actor corr j ctx)"
proof -
  have "fails_clean obs (\<lambda>w. act_bind (act_pure (r w)) (\<lambda>s. act_lift PortError (repo_postJournal P s c cap ctx)) w)"
    for r :: "_ \<Rightarrow> _ service_error + _" and c cap
    unfolding fails_clean_def
  proof (intro allI impI)
    fix w e w' assume "act_bind (act_pure (r w)) (\<lambda>s. act_lift PortError (repo_postJournal P s c cap ctx)) w = (Inl e, w')"
    moreover have "fails_clean obs (act_bind (act_pure (r w)) (\<lambda>s. act_lift PortError (repo_postJournal P s c cap ctx)))"
      by (intro fails_clean_bind keeps_rules fails_clean_lift assms)
    ultimately show "obs w' = obs w" unfolding fails_clean_def by blast
  qed
  then show ?thesis
    unfolding submitPosting_def by (intro fails_clean_bind keeps_rules assms) 
qed

lemma postJournal_fails_clean:
  assumes "keeps obs (resolveActor P)" "\<And>c. keeps obs (repo_resolveIdempotency P c)"
    and "\<And>r. keeps obs (resolvePosting P r)"
    and "\<And>s cmd cap ctx. fails_clean obs (repo_postJournal P s cmd cap ctx)"
  shows "fails_clean obs (postJournal P sha256 input key)"
proof -
  have tail: "fails_clean obs (case truthy_id r of Some i \<Rightarrow> act_return i | None \<Rightarrow> submitPosting P actor corr j ctx)"
    for r actor corr j ctx
    by (cases "truthy_id r")
      (auto intro: submitPosting_fails_clean assms keeps_fails_clean keeps_return)
  show ?thesis
    unfolding postJournal_def
    by (intro fails_clean_bind keeps_rules assms) (auto split: prod.splits intro!: fails_clean_bind keeps_rules assms tail)
qed

subsection \<open>An example world\<close>

text \<open>
  The world of the examples is the list of committed commands with their journal identifiers;
  every request comes from the same actor, the repository replays what it has committed.
\<close>

type_synonym sample_world = "(LedgerIdempotencyContext \<times> string) list"

definition sample_commit :: "LedgerIdempotencyContext \<Rightarrow> (sample_world, unit, string) action" where
  "sample_commit ctx w = (Inr ''10000000-0000-4000-8000-000000000077'', (ctx, ''10000000-0000-4000-8000-000000000077'') # w)"

definition sample_ports :: "(sample_world, unit, unit) LedgerPorts" where
  "sample_ports =
     \<lparr>activeStore = (\<lambda>_. Some (createRootLogContext sample_id)),
      resolveActor = act_return (JString sample_id),
      repo_resolveIdempotency = (\<lambda>ctx w. (Inr (map_of w ctx), w)),
      resolvePosting = (\<lambda>_. act_return (Some ())),
      resolveReversal = (\<lambda>_. act_return (Some ())),
      repo_postJournal = (\<lambda>_ _ _. sample_commit),
      repo_reverseJournal = (\<lambda>_ _. sample_commit),
      repo_transitionLifecycle = (\<lambda>_. act_return ()),
      repo_transitionRecovery = (\<lambda>_. act_return ()),
      startSpan = act_throw (),
      endSpan = (\<lambda>_ _. act_throw ()),
      recordExecutionState = (\<lambda>_. act_throw ()),
      recordQuoteState = (\<lambda>_. act_throw ()),
      emitTransitioned = (\<lambda>_ _ _ w. w)\<rparr>"

lemma sample_context: "resolveLedgerContext sample_ports w = (Inr (sample_id, sample_id), w)"
proof -
  have "uuid_v4 sample_id" by code_simp
  moreover have "current_context (Some (createRootLogContext sample_id)) = Inr (Some (createRootLogContext sample_id))"
    using copyContext_wf [OF validateContext_wf [OF sample_context_accepted]] by (simp add: current_context_def)
  ultimately show ?thesis
    by (simp add: resolveLedgerContext_def sample_ports_def act_defs createRootLogContext_def parse_id_defs)
qed

lemma sample_idempotency:
  "\<exists>ctx. createPostLedgerIdempotencyContext (\<lambda>b. b) (JString ''key-1'') (JString sample_id) sample_journal = Inr ctx"
proof -
  have "parseLedgerActorAccountId (JString sample_id) = Inr sample_id" "parseRawIdempotencyKey (JString ''key-1'') = Inr ''key-1''"
    by code_simp+
  then show ?thesis
    by (simp add: createPostLedgerIdempotencyContext_def digestLedgerIdempotencyKey_def)
qed

lemma sample_transaction_store:
  "\<exists>s. runWithStore (mk_object [(''transactionId'', JString (transactionId sample_journal))])
     (Some (createRootLogContext sample_id)) = Inr s"
proof -
  have "uuid_v4 sample_id" "uuid_v4 (transactionId sample_journal)" by code_simp+
  then show ?thesis
    by (simp add: runWithStore_def validateExtension_def validateContext_def contextDescriptors_def mk_object_def
        context_object_def createRootLogContext_def CONTEXT_KEYS_def dataValue_def assertContextValue_def
        isSafeCorrelationId_def isCanonicalUuidV4_def starts_with_def map_add_def)
qed

lemma sample_post:
  "\<exists>w'. postJournal sample_ports (\<lambda>b. b) (post_input_object sample_journal) (JString ''key-1'') [] =
     (Inr ''10000000-0000-4000-8000-000000000077'', w')"
proof -
  obtain ctx where ctx: "createPostLedgerIdempotencyContext (\<lambda>b. b) (JString ''key-1'') (JString sample_id) sample_journal = Inr ctx"
    using sample_idempotency by blast
  obtain s where "runWithStore (mk_object [(''transactionId'', JString (transactionId sample_journal))])
     (Some (createRootLogContext sample_id)) = Inr s"
    using sample_transaction_store by blast
  then have "submitPosting sample_ports sample_id sample_id sample_journal ctx [] =
      (Inr ''10000000-0000-4000-8000-000000000077'', [(ctx, ''10000000-0000-4000-8000-000000000077'')])"
    unfolding submitPosting_success [OF command_accepted [OF sample_journal_accepted sample_context]]
    by (simp add: sample_ports_def act_return_def sample_commit_def)
  moreover have "repo_resolveIdempotency sample_ports ctx [] = (Inr None, [])" by (simp add: sample_ports_def)
  ultimately show ?thesis
    unfolding postJournal_success
    using sample_journal_accepted sample_context ctx by (fastforce simp: truthy_id_def)
qed

subsection \<open>Properties\<close>

text \<open>C12. Posting is exact. When \<^verbatim>\<open>postJournal\<close> returns a journal identifier, the input was a valid
  journal, the request had an authenticated actor and an active correlation, and either the
  repository already had the result of the same command, which is returned without asking
  for a capability and without writing, or the repository posted exactly the validated
  journal under that correlation, with the capability resolved for that actor and journal.
\<close>

theorem postJournal_posts_the_validated_journal:
  assumes "postJournal P sha256 input key w = (Inr jid, w')"
  shows "\<exists>j actor corr w1 ctx r w2.
    normalizePostLedgerJournalInput input = Inr j \<and> valid_post_journal j \<and>
    resolveActor P w = (Inr (JString actor), w1) \<and> uuid_v4 actor \<and> uuid_v4 corr \<and>
    createPostLedgerIdempotencyContext sha256 key (JString actor) j = Inr ctx \<and>
    repo_resolveIdempotency P ctx w1 = (Inr r, w2) \<and>
    (r = Some jid \<and> w' = w2 \<or>
     (\<exists>cap w3 store. (r = None \<or> r = Some []) \<and>
        resolvePosting P (posting_request actor j) w2 = (Inr (Some cap), w3) \<and>
        repo_postJournal P store \<lparr>postCorrelationId = corr, postedJournal = j\<rparr> cap ctx w3 = (Inr jid, w')))"
proof -
  obtain j actor corr w1 ctx r w2 where
    j: "normalizePostLedgerJournalInput input = Inr j" and c: "resolveLedgerContext P w = (Inr (actor, corr), w1)"
    and i: "createPostLedgerIdempotencyContext sha256 key (JString actor) j = Inr ctx"
      "repo_resolveIdempotency P ctx w1 = (Inr r, w2)"
    and tail: "truthy_id r = Some jid \<and> w' = w2 \<or>
      truthy_id r = None \<and> submitPosting P actor corr j ctx w2 = (Inr jid, w')"
    using assms unfolding postJournal_success by blast
  note ctx = resolveLedgerContext_success [OF c]
  have "r = Some jid \<and> w' = w2 \<or>
     (\<exists>cap w3 store. (r = None \<or> r = Some []) \<and>
        resolvePosting P (posting_request actor j) w2 = (Inr (Some cap), w3) \<and>
        repo_postJournal P store \<lparr>postCorrelationId = corr, postedJournal = j\<rparr> cap ctx w3 = (Inr jid, w'))"
    using tail unfolding submitPosting_success [OF command_accepted [OF j c]] truthy_id_def
    by (auto split: if_splits)
  then show ?thesis using j post_input.sound [OF j] ctx i by blast
qed

theorem postJournal_posts_the_validated_journal_witness:
  "\<exists>j. normalizePostLedgerJournalInput (post_input_object sample_journal) = Inr j \<and> valid_post_journal j"
  using sample_post postJournal_posts_the_validated_journal
    [of sample_ports "\<lambda>b. b" "post_input_object sample_journal" "JString ''key-1''" "[]"] by blast

text \<open>C4. A retry returns the same journal and writes nothing. The hypotheses on the repository
  are its contract: after a committed posting, and after a replay, resolving the same
  idempotency context finds the same non-empty identifier and changes nothing. Then calling
  \<^verbatim>\<open>postJournal\<close> again with the same input and key for the same actor, in whatever request,
  returns the identifier of the first call and leaves the world as it was.
\<close>

theorem posting_retry_is_idempotent:
  assumes first: "postJournal P sha256 input key w = (Inr jid, w')"
    and actor: "\<forall>u. resolveActor P u = (Inr (JString actor), u)"
    and committed: "\<forall>s cmd cap ctx u i u'. repo_postJournal P s cmd cap ctx u = (Inr i, u') \<longrightarrow>
      i \<noteq> [] \<and> repo_resolveIdempotency P ctx u' = (Inr (Some i), u')"
    and stable: "\<forall>ctx u r u'. repo_resolveIdempotency P ctx u = (Inr r, u') \<longrightarrow>
      repo_resolveIdempotency P ctx u' = (Inr r, u')"
    and retry: "resolveLedgerContext P w' = (Inr (actor, corr'), w')"
  shows "postJournal P sha256 input key w' = (Inr jid, w')"
proof -
  obtain j actor1 corr w1 ctx r w2 where
    j: "normalizePostLedgerJournalInput input = Inr j" and c: "resolveLedgerContext P w = (Inr (actor1, corr), w1)"
    and i: "createPostLedgerIdempotencyContext sha256 key (JString actor1) j = Inr ctx"
      "repo_resolveIdempotency P ctx w1 = (Inr r, w2)"
    and tail: "truthy_id r = Some jid \<and> w' = w2 \<or>
      truthy_id r = None \<and> submitPosting P actor1 corr j ctx w2 = (Inr jid, w')"
    using first unfolding postJournal_success by blast
  have same: "actor1 = actor" using resolveLedgerContext_success [OF c] actor by simp
  have "\<exists>r. repo_resolveIdempotency P ctx w' = (Inr r, w') \<and> truthy_id r = Some jid"
    using tail
  proof
    assume "truthy_id r = Some jid \<and> w' = w2"
    then show ?thesis using stable i(2) by blast
  next
    assume "truthy_id r = None \<and> submitPosting P actor1 corr j ctx w2 = (Inr jid, w')"
    then have "jid \<noteq> [] \<and> repo_resolveIdempotency P ctx w' = (Inr (Some jid), w')"
      using submitPosting_success [OF command_accepted [OF j c]] committed by fast
    then show ?thesis by (auto simp: truthy_id_def)
  qed
  then show ?thesis
    unfolding postJournal_success using j retry i(1) same by blast
qed

theorem posting_retry_is_idempotent_witness:
  "\<exists>w'. postJournal sample_ports (\<lambda>b. b) (post_input_object sample_journal) (JString ''key-1'') w' =
     (Inr ''10000000-0000-4000-8000-000000000077'', w')"
proof -
  obtain w' where first: "postJournal sample_ports (\<lambda>b. b) (post_input_object sample_journal) (JString ''key-1'') [] =
     (Inr ''10000000-0000-4000-8000-000000000077'', w')"
    using sample_post by blast
  have "postJournal sample_ports (\<lambda>b. b) (post_input_object sample_journal) (JString ''key-1'') w' =
     (Inr ''10000000-0000-4000-8000-000000000077'', w')"
    by (rule posting_retry_is_idempotent [OF first _ _ _ sample_context])
      (auto simp: sample_ports_def act_return_def sample_commit_def)
  then show ?thesis by blast
qed

text \<open>A failed posting writes nothing. For every observation of the world that the actor
  resolver, the capability resolver and the idempotency lookup do not change, and that the
  repository does not change when its own write fails, a call of \<^verbatim>\<open>postJournal\<close> that throws
  leaves the observation unchanged, whatever it throws and wherever.
\<close>

theorem failed_posting_writes_nothing:
  assumes "keeps obs (resolveActor P)" "\<forall>c. keeps obs (repo_resolveIdempotency P c)"
    and "\<forall>r. keeps obs (resolvePosting P r)"
    and "\<forall>s cmd cap ctx u e u'. repo_postJournal P s cmd cap ctx u = (Inl e, u') \<longrightarrow> obs u' = obs u"
    and "postJournal P sha256 input key w = (Inl e, w')"
  shows "obs w' = obs w"
proof -
  have "fails_clean obs (postJournal P sha256 input key)"
    by (rule postJournal_fails_clean) (use assms in \<open>auto simp: fails_clean_def\<close>)
  then show ?thesis using assms(5) by (simp add: fails_clean_def)
qed

theorem failed_posting_writes_nothing_witness:
  "snd (postJournal sample_ports (\<lambda>b. b) JNull (JString ''key-1'') []) = []"
proof -
  have "normalizePostLedgerJournalInput JNull = Inl INVALID_LEDGER_JOURNAL" by code_simp
  then have "postJournal sample_ports (\<lambda>b. b) JNull (JString ''key-1'') [] = (Inl (LedgerInvalid INVALID_LEDGER_JOURNAL), [])"
    by (simp add: postJournal_def)
  with failed_posting_writes_nothing [of "\<lambda>w. w" sample_ports "\<lambda>b. b" JNull "JString ''key-1''" "[]"] show ?thesis
    by (simp add: sample_ports_def keeps_def act_return_def sample_commit_def)
qed

text \<open>Telemetry never decides a transition. For a valid transition and a resolved context,
  the outcome of \<^verbatim>\<open>transitionLifecycle\<close> is the outcome of the repository on exactly the
  validated command, whatever the span, the metrics and the log do or throw.
\<close>

theorem transition_outcome_is_the_repository:
  assumes "normalizeLedgerLifecycleTransitionInput input = Inr t"
    and "resolveLedgerContext P w = (Inr (actor, corr), w1)"
    and "w2 = snd (startSpan P w1)"
    and "repo_transitionLifecycle P \<lparr>lc_actorAccountId = actor, lc_correlationId = corr, lc_transition = t\<rparr> w2 = (r, w3)"
  shows "fst (transitionLifecycle P input w) = lift_error PortError r"
proof -
  have "uuid_v4 actor" "uuid_v4 corr" using resolveLedgerContext_success [OF assms(2)] by blast+
  then have cmd: "normalizeLedgerLifecycleTransitionCommand (lifecycle_command_object actor corr t) =
      Inr \<lparr>lc_actorAccountId = actor, lc_correlationId = corr, lc_transition = t\<rparr>"
    by (rule lifecycle_command_complete [OF lifecycle_input.sound [OF assms(1)]])
  have "\<exists>s. startDiagnosticSpan P w1 = (Inr s, w2)"
    using assms(3) by (cases "startSpan P w1"; cases "fst (startSpan P w1)")
      (auto simp: startDiagnosticSpan_def act_swallow_def)
  then obtain s where s: "startDiagnosticSpan P w1 = (Inr s, w2)" by blast
  show ?thesis
    unfolding transitionLifecycle_def assms(1) lift_error_simps act_bind_pure
    unfolding act_bind_def [of "resolveLedgerContext P"] assms(2) prod.case sum.case cmd lift_error_simps act_bind_pure
    unfolding act_bind_def s prod.case sum.case Let_def assms(4)
    by (cases r) simp_all
qed

definition sample_transition :: ValidatedLedgerLifecycleTransition where
  "sample_transition =
     \<lparr>lt_transactionId = sample_id, lt_legId = None, lt_expectedState = None, lt_nextState = CREATED,
      lt_reason = INTENT_CREATED, lt_effectiveAt = ''2026-08-25T00:00:00.000Z''\<rparr>"

theorem transition_outcome_witness:
  "fst (transitionLifecycle sample_ports (lifecycle_input_object sample_transition) []) = Inr ()"
proof -
  have "normalizeLedgerLifecycleTransitionInput (lifecycle_input_object sample_transition) = Inr sample_transition"
    by code_simp
  from transition_outcome_is_the_repository [OF this sample_context refl] show ?thesis
    by (simp add: sample_ports_def act_return_def)
qed

text \<open>A capability reveals its value for its purpose only. After any history of creations, a
  capability created from 64 hexadecimal digits reveals them for the purpose it was created
  for and nothing for the other one, creating it changes no earlier capability, and an object
  that was not created as a capability reveals nothing.
\<close>

theorem capability_purpose_binding:
  assumes "issued t" and "createLedgerCapability p v t = Some (c, t')"
  shows "(\<exists>s. v = JString s \<and> sha256_hex s \<and>
       (\<forall>q. revealLedgerCapability c q t' = (if q = p then Some s else None))) \<and>
     (\<forall>d q. d \<noteq> c \<longrightarrow> revealLedgerCapability d q t' = revealLedgerCapability d q t) \<and>
     (\<forall>q. revealLedgerCapability c q t = None \<and> revealLedgerCapability ForeignValue q t' = None)"
proof -
  obtain s where s: "v = JString s" "sha256_hex s" "c = Capability (nextCapability t)"
    "t' = t\<lparr>nextCapability := nextCapability t + 1,
          capabilityValues := (capabilityValues t)(nextCapability t \<mapsto> s),
          capabilityPurposes := (capabilityPurposes t)(nextCapability t \<mapsto> p)\<rparr>"
    using assms(2) unfolding createLedgerCapability_iff by blast
  have fresh: "revealLedgerCapability c q t = None" for q
    using issued_wf [OF assms(1)] by (simp add: s wf_capabilities_def)
  have "revealLedgerCapability d q t' = revealLedgerCapability d q t" if "d \<noteq> c" for d q
    using that by (cases d) (auto simp: s)
  with s fresh show ?thesis by auto
qed

theorem capability_purpose_binding_witness:
  "\<exists>c t'. createLedgerCapability POST (JString (replicate 64 (CHR ''a'')))
      \<lparr>nextCapability = 0, capabilityValues = Map.empty, capabilityPurposes = Map.empty\<rparr> = Some (c, t') \<and>
    revealLedgerCapability c REVERSE t' = None"
proof -
  have "sha256_hex (replicate 64 (CHR ''a''))" by code_simp
  then obtain c t' where "createLedgerCapability POST (JString (replicate 64 (CHR ''a'')))
      \<lparr>nextCapability = 0, capabilityValues = Map.empty, capabilityPurposes = Map.empty\<rparr> = Some (c, t')"
    by simp
  with capability_purpose_binding [OF issued.none this] show ?thesis by auto
qed

end
