(* ===== verification/Canonical_Values.thy ===== *)
theory Canonical_Values
  imports Js_Value Iso_Time
begin

text \<open>
  Value formats shared by the domain modules: 256-bit amounts as decimal texts, canonical
  UTC timestamps with a four-digit year, safe integers, safe references, and the JSON text
  that is hashed into fingerprints.
\<close>

subsection \<open>Amounts\<close>

definition UINT256_TEXT :: string where
  "UINT256_TEXT = ''115792089237316195423570985008687907853269984665640564039457584007913129639935''"

lemma uint256_text_positive: "positive_nat UINT256_TEXT"
  by code_simp

lemma uint256_text_val: "dec_val UINT256_TEXT = 2 ^ 256 - 1"
  by (simp add: dec_val_def UINT256_TEXT_def digit_val_def)

lemma uint256_text_length: "length UINT256_TEXT = 78"
  by (simp add: UINT256_TEXT_def)

lemma le_pred_iff: "0 < m \<Longrightarrow> (n \<le> m - 1) = (n < m)" for m n :: nat
  by arith

lemma within_uint256_iff:
  assumes "canonical_nat s"
  shows "within_text_limit UINT256_TEXT s = (dec_val s < 2 ^ 256)"
proof (cases "s = ''0''")
  case True
  then show ?thesis by (simp add: within_text_limit_def uint256_text_length digit_val_def)
next
  case False
  with assms have "positive_nat s" by (simp add: positive_nat_iff)
  from within_text_limit_iff [OF this uint256_text_positive] have
    "within_text_limit UINT256_TEXT s = (dec_val s \<le> 2 ^ 256 - 1)"
    by (simp only: uint256_text_val)
  then show ?thesis using le_pred_iff [of "2 ^ 256" "dec_val s"] by simp
qed

lemma canonical_nat_iff: "canonical_nat s = (\<exists>n. s = nat_text n)"
  by (metis canonical_nat_text nat_text_dec_val)

lemma positive_nat_text_iff: "positive_nat s = (\<exists>n. 0 < n \<and> s = nat_text n)"
proof
  assume s: "positive_nat s"
  then have "s = nat_text (dec_val s)" by (simp add: nat_text_dec_val positive_nat_iff)
  with positive_dec_val [OF s] show "\<exists>n. 0 < n \<and> s = nat_text n" by blast
qed auto

subsection \<open>Timestamps\<close>

text \<open>
  \<^verbatim>\<open>CANONICAL_UTC_TIMESTAMP_PATTERN\<close> together with the test that the date read from the text
  prints as the text again.
\<close>

abbreviation digit_class :: string where
  "digit_class \<equiv> ''0123456789''"

definition utc_pattern :: "string \<Rightarrow> bool" where
  "utc_pattern = matches_classes
     (replicate 4 digit_class @ [''-''] @ replicate 2 digit_class @ [''-''] @ replicate 2 digit_class @ [''T''] @
      replicate 2 digit_class @ ['':''] @ replicate 2 digit_class @ ['':''] @ replicate 2 digit_class @ [''.''] @
      replicate 3 digit_class @ [''Z''])"

definition canonical_utc :: "string \<Rightarrow> bool" where
  "canonical_utc s = (utc_pattern s \<and> read_timestamp s \<noteq> None)"

lemma matches_classes_append:
  "length a = length ps \<Longrightarrow> matches_classes (ps @ qs) (a @ b) = (matches_classes ps a \<and> matches_classes qs b)"
  by (simp add: matches_classes_def list_all2_append)

lemma matches_digits:
  "length a = n \<Longrightarrow> matches_classes (replicate n digit_class) a = list_all is_digit a"
  by (simp add: matches_classes_def char_in_def is_digit_def [abs_def] list_all2_conv_all_nth list_all_length)

lemma utc_pattern_to_iso: "plain_year t \<Longrightarrow> utc_pattern (to_iso t)"
  unfolding utc_pattern_def to_iso_def time_tail_def year_text_def plain_year_def
  by (simp add: matches_classes_append matches_digits pad_text_digits)

lemma canonical_utc_iff: "canonical_utc s = (\<exists>t. valid_time t \<and> plain_year t \<and> s = to_iso t)"
proof
  assume s: "canonical_utc s"
  then obtain t where t: "valid_time t" "s = to_iso t"
    by (auto simp: canonical_utc_def read_timestamp_iff)
  have "length s = 24" using s by (auto simp: canonical_utc_def utc_pattern_def dest: matches_classes_length)
  then have "plain_year t" using length_to_iso_extended [of t] t(2) by fastforce
  with t show "\<exists>t. valid_time t \<and> plain_year t \<and> s = to_iso t" by blast
qed (auto simp: canonical_utc_def utc_pattern_to_iso read_timestamp_to_iso)

subsection \<open>Integers and references\<close>

definition safe_integer :: "int \<Rightarrow> bool" where
  "safe_integer n = (\<bar>n\<bar> \<le> 9007199254740991)"

text \<open>\<^verbatim>\<open>/^[A-Za-z0-9][A-Za-z0-9._:/-]*$/\<close>\<close>

definition alphanumeric :: "char \<Rightarrow> bool" where
  "alphanumeric c = (c \<in> set ''ABCDEFGHIJKLMNOPQRSTUVWXYZabcdefghijklmnopqrstuvwxyz0123456789'')"

definition reference_char :: "char \<Rightarrow> bool" where
  "reference_char c = (alphanumeric c \<or> c \<in> set ''._:/-'')"

definition safe_reference_text :: "string \<Rightarrow> bool" where
  "safe_reference_text s = (s \<noteq> [] \<and> alphanumeric (hd s) \<and> list_all reference_char (tl s))"

subsection \<open>Records with optional keys\<close>

lemma own_key_names_literal:
  "own_key_names (map (\<lambda>(k, v). (KeyStr k, DataProp True v)) r) = Some (map fst r)"
  by (induction r) auto

lemma optional_data_record_literal:
  assumes "distinct (map fst r)" "set req \<subseteq> fst ` set r" "fst ` set r \<subseteq> set (req @ opt)"
  shows "optional_data_record req opt (mk_object r) = Some r"
proof -
  have "map_of r k \<noteq> None" if "k \<in> set req" for k
    using assms(2) that by (auto simp: map_of_eq_None_iff)
  then have "\<not> list_ex (\<lambda>k. map_of (map (\<lambda>(k, v). (KeyStr k, DataProp True v)) r) (KeyStr k) = None) req"
    by (auto simp: list_ex_iff map_of_literal)
  moreover have "\<not> list_ex (\<lambda>(k, _). \<not> key_in (req @ opt) k) (map (\<lambda>(k, v). (KeyStr k, DataProp True v)) r)"
    using assms(3) by (force simp: list_ex_iff)
  ultimately show ?thesis
    using read_data_literal [of r r] assms(1)
    by (simp add: optional_data_record_def mk_object_def own_key_names_literal)
qed

subsection \<open>JSON texts\<close>

text \<open>
  The values whose \<^verbatim>\<open>JSON.stringify\<close> is hashed: null, booleans, integers, strings, arrays and objects
  with their keys in insertion order.
\<close>

datatype json = JsonNull | JsonBool bool | JsonInt int | JsonText string | JsonArray "json list" | JsonObject "(string \<times> json) list"

definition int_text :: "int \<Rightarrow> string" where
  "int_text n = (if n < 0 then CHR ''-'' # nat_text (nat (- n)) else nat_text (nat n))"

definition quote_char :: "char \<Rightarrow> string" where
  "quote_char c =
     (let n = (of_char c :: nat)
      in if n = 34 then [CHR 92, CHR 34]
         else if n = 92 then [CHR 92, CHR 92]
         else if n = 8 then [CHR 92, CHR ''b'']
         else if n = 12 then [CHR 92, CHR ''f'']
         else if n = 10 then [CHR 92, CHR ''n'']
         else if n = 13 then [CHR 92, CHR ''r'']
         else if n = 9 then [CHR 92, CHR ''t'']
         else if n < 32 then [CHR 92, CHR ''u'', CHR ''0'', CHR ''0'', hex_digits ! (n div 16), hex_digits ! (n mod 16)]
         else [c])"

definition quote_text :: "string \<Rightarrow> string" where
  "quote_text s = [CHR 34] @ concat (map quote_char s) @ [CHR 34]"

fun comma_join :: "string list \<Rightarrow> string" where
  "comma_join [] = []"
| "comma_join [x] = x"
| "comma_join (x # y # zs) = x @ '','' @ comma_join (y # zs)"

fun json_text :: "json \<Rightarrow> string" where
  "json_text JsonNull = ''null''"
| "json_text (JsonBool b) = (if b then ''true'' else ''false'')"
| "json_text (JsonInt n) = int_text n"
| "json_text (JsonText s) = quote_text s"
| "json_text (JsonArray xs) = ''['' @ comma_join (map json_text xs) @ '']''"
| "json_text (JsonObject fs) = ''{'' @ comma_join (map (\<lambda>(k, v). quote_text k @ '':'' @ json_text v) fs) @ ''}''"

end
