(* ===== verification/Routing_Fee.thy ===== *)
theory Routing_Fee
  imports Canonical_Values "HOL-Library.Product_Lexorder" "HOL-Library.AList" "HOL-Library.Multiset"
begin

text \<open>
  Routing fees (\<^verbatim>\<open>apps/api/src/routing-fees/domain/routing-fee.ts\<close>): fee rules and their
  catalog, routes and their classification, the exact rounding of a rate, and the fee
  snapshot of a quote. Amounts are decimal texts whose values are natural numbers; the
  source's BigInt arithmetic is exact, as is the model's. The schema versions, constant in
  the source's types, are the constant 1 and not fields of the records.
\<close>

subsection \<open>Data\<close>

datatype RoutingFeeTier = FREE | INDIVIDUAL | PRO

datatype RoutingFeeCategory = PLATFORM | NETWORK | DEX | BRIDGE_FEE | PROVIDER

datatype RoutingFeeDeductionMode = ADDED_ON_TOP | DEDUCTED_FROM_INPUT | DEDUCTED_FROM_OUTPUT

datatype RoutingFeeRoundingMode = DOWN | UP | HALF_EVEN

datatype RoutingFeeRouteLegKind = DIRECT_SETTLEMENT | SWAP | BRIDGE

datatype RoutingFeeRouteClassificationKind = DIRECT_COMPATIBLE | MATERIAL_ORCHESTRATION

datatype RoutingFeeClassificationReason =
  SINGLE_DIRECT_COMPATIBLE_LEG | MULTI_LEG_ROUTE | SWAP_REQUIRED | BRIDGE_REQUIRED

datatype RoutingFeeValidationCode =
    INVALID_RULE | INVALID_RULE_CATALOG | NO_EFFECTIVE_RULE | INVALID_ROUTE
  | INVALID_CALCULATION_INPUT | INVALID_FEE_COMPONENT | INVALID_ATOMIC_AMOUNT | NUMERIC_LIMIT_EXCEEDED

fun tier_text :: "RoutingFeeTier \<Rightarrow> string" where
  "tier_text FREE = ''FREE''" | "tier_text INDIVIDUAL = ''INDIVIDUAL''" | "tier_text PRO = ''PRO''"

fun category_text :: "RoutingFeeCategory \<Rightarrow> string" where
  "category_text PLATFORM = ''PLATFORM''" | "category_text NETWORK = ''NETWORK''" | "category_text DEX = ''DEX''"
| "category_text BRIDGE_FEE = ''BRIDGE''" | "category_text PROVIDER = ''PROVIDER''"

fun deduction_text :: "RoutingFeeDeductionMode \<Rightarrow> string" where
  "deduction_text ADDED_ON_TOP = ''ADDED_ON_TOP''"
| "deduction_text DEDUCTED_FROM_INPUT = ''DEDUCTED_FROM_INPUT''"
| "deduction_text DEDUCTED_FROM_OUTPUT = ''DEDUCTED_FROM_OUTPUT''"

fun rounding_text :: "RoutingFeeRoundingMode \<Rightarrow> string" where
  "rounding_text DOWN = ''DOWN''" | "rounding_text UP = ''UP''" | "rounding_text HALF_EVEN = ''HALF_EVEN''"

fun leg_kind_text :: "RoutingFeeRouteLegKind \<Rightarrow> string" where
  "leg_kind_text DIRECT_SETTLEMENT = ''DIRECT_SETTLEMENT''"
| "leg_kind_text SWAP = ''SWAP''" | "leg_kind_text BRIDGE = ''BRIDGE''"

fun classification_text :: "RoutingFeeRouteClassificationKind \<Rightarrow> string" where
  "classification_text DIRECT_COMPATIBLE = ''DIRECT_COMPATIBLE''"
| "classification_text MATERIAL_ORCHESTRATION = ''MATERIAL_ORCHESTRATION''"

fun classification_reason_text :: "RoutingFeeClassificationReason \<Rightarrow> string" where
  "classification_reason_text SINGLE_DIRECT_COMPATIBLE_LEG = ''SINGLE_DIRECT_COMPATIBLE_LEG''"
| "classification_reason_text MULTI_LEG_ROUTE = ''MULTI_LEG_ROUTE''"
| "classification_reason_text SWAP_REQUIRED = ''SWAP_REQUIRED''"
| "classification_reason_text BRIDGE_REQUIRED = ''BRIDGE_REQUIRED''"

definition ROUTING_FEE_TIERS :: "RoutingFeeTier list" where
  "ROUTING_FEE_TIERS = [FREE, INDIVIDUAL, PRO]"

definition ROUTING_FEE_PASS_THROUGH_CATEGORIES :: "RoutingFeeCategory list" where
  "ROUTING_FEE_PASS_THROUGH_CATEGORIES = [NETWORK, DEX, BRIDGE_FEE, PROVIDER]"

definition ROUTING_FEE_DEDUCTION_MODES :: "RoutingFeeDeductionMode list" where
  "ROUTING_FEE_DEDUCTION_MODES = [ADDED_ON_TOP, DEDUCTED_FROM_INPUT, DEDUCTED_FROM_OUTPUT]"

definition ROUTING_FEE_ROUNDING_MODES :: "RoutingFeeRoundingMode list" where
  "ROUTING_FEE_ROUNDING_MODES = [DOWN, UP, HALF_EVEN]"

definition ROUTING_FEE_ROUTE_LEG_KINDS :: "RoutingFeeRouteLegKind list" where
  "ROUTING_FEE_ROUTE_LEG_KINDS = [DIRECT_SETTLEMENT, SWAP, BRIDGE]"

fun ROUTING_FEE_V1_BASIS_POINTS :: "RoutingFeeTier \<Rightarrow> nat" where
  "ROUTING_FEE_V1_BASIS_POINTS FREE = 20"
| "ROUTING_FEE_V1_BASIS_POINTS INDIVIDUAL = 12"
| "ROUTING_FEE_V1_BASIS_POINTS PRO = 8"

definition MAX_DECIMAL_DIGITS :: nat where "MAX_DECIMAL_DIGITS = 78"
definition MAX_DECIMAL_SCALE :: int where "MAX_DECIMAL_SCALE = 77"
definition MAX_REFERENCE_LENGTH :: nat where "MAX_REFERENCE_LENGTH = 192"
definition MAX_ROUTE_LEGS :: nat where "MAX_ROUTE_LEGS = 32"
definition MAX_FEE_COMPONENTS :: nat where "MAX_FEE_COMPONENTS = 32"

definition MAX_ROUTING_FEE_ATOMIC_AMOUNT :: string where
  "MAX_ROUTING_FEE_ATOMIC_AMOUNT = UINT256_TEXT"

record RoutingFeeDecimalV1 =
  mantissa :: string
  scale :: nat

record RoutingFeeRates =
  rate_FREE :: RoutingFeeDecimalV1
  rate_INDIVIDUAL :: RoutingFeeDecimalV1
  rate_PRO :: RoutingFeeDecimalV1

record RoutingFeeRuleVersionV1 =
  ruleReferenceId :: string
  ruleVersion :: nat
  effectiveFrom :: string
  effectiveUntil :: "string option"
  roundingMode :: RoutingFeeRoundingMode
  directCompatible :: RoutingFeeDecimalV1
  materialOrchestration :: RoutingFeeRates

record RoutingFeeRouteEndpointV1 =
  networkId :: string
  assetId :: string

record RoutingFeeRouteLegV1 =
  leg_kind :: RoutingFeeRouteLegKind
  leg_source :: RoutingFeeRouteEndpointV1
  leg_destination :: RoutingFeeRouteEndpointV1

record RoutingFeeRouteV1 =
  route_source :: RoutingFeeRouteEndpointV1
  route_destination :: RoutingFeeRouteEndpointV1
  route_legs :: "RoutingFeeRouteLegV1 list"

record RoutingFeeRouteClassificationV1 =
  class_kind :: RoutingFeeRouteClassificationKind
  class_reasons :: "RoutingFeeClassificationReason list"

record RoutingFeeAtomicAmount =
  fee_assetRevisionId :: string
  fee_amountAtomic :: string

record RoutingFeePassThroughComponent =
  pass_category :: RoutingFeeCategory
  pass_assetRevisionId :: string
  pass_amountAtomic :: string
  pass_deductionMode :: RoutingFeeDeductionMode
  pass_sourceReferenceId :: string

datatype RoutingFeeComponentSource = PLATFORM_RULE | PASS_THROUGH_QUOTE

record RoutingFeeComponentV1 =
  lineNumber :: nat
  comp_category :: RoutingFeeCategory
  comp_assetRevisionId :: string
  comp_amountAtomic :: string
  comp_deductionMode :: RoutingFeeDeductionMode
  comp_source :: RoutingFeeComponentSource
  comp_sourceReferenceId :: string

record RoutingFeeSnapshotV1 =
  quoteReferenceId :: string
  routeReferenceId :: string
  quotedAt :: string
  snapshotTier :: RoutingFeeTier
  snapshotRule :: RoutingFeeRuleVersionV1
  snapshotRoute :: RoutingFeeRouteV1
  routeClassification :: RoutingFeeRouteClassificationV1
  feeBase :: RoutingFeeAtomicAmount
  components :: "RoutingFeeComponentV1 list"
  snapshotTotals :: "RoutingFeeAtomicAmount list"
  fingerprintSha256 :: string

subsection \<open>Parsing values\<close>

type_synonym 'a fee_result = "RoutingFeeValidationCode + 'a"

definition ownDataRecord :: "jsval \<Rightarrow> string list \<Rightarrow> string list \<Rightarrow> RoutingFeeValidationCode \<Rightarrow> js_record fee_result" where
  "ownDataRecord value requiredKeys optionalKeys code =
     of_option code (optional_data_record requiredKeys optionalKeys value)"

definition exactDataRecord :: "jsval \<Rightarrow> string list \<Rightarrow> RoutingFeeValidationCode \<Rightarrow> js_record fee_result" where
  "exactDataRecord value keys code = ownDataRecord value keys [] code"

definition ownDataArray :: "jsval \<Rightarrow> nat \<Rightarrow> nat \<Rightarrow> RoutingFeeValidationCode \<Rightarrow> jsval list fee_result" where
  "ownDataArray value minimumLength maximumLength code =
     of_option code (exact_data_array minimumLength maximumLength value)"

definition enumMember :: "('a \<Rightarrow> string) \<Rightarrow> 'a list \<Rightarrow> jsval \<Rightarrow> RoutingFeeValidationCode \<Rightarrow> 'a fee_result" where
  "enumMember spell allowed value code = of_option code (parse_enum spell allowed value)"

fun uuidV4 :: "jsval \<Rightarrow> RoutingFeeValidationCode \<Rightarrow> string fee_result" where
  "uuidV4 (JString s) code = (if uuid_v4 s then Inr s else Inl code)"
| "uuidV4 _ code = Inl code"

fun safeReference :: "jsval \<Rightarrow> RoutingFeeValidationCode \<Rightarrow> string fee_result" where
  "safeReference (JString s) code =
     (if length s = 0 \<or> length s > MAX_REFERENCE_LENGTH \<or> \<not> safe_reference_text s then Inl code else Inr s)"
| "safeReference _ code = Inl code"

fun positiveVersion :: "jsval \<Rightarrow> RoutingFeeValidationCode \<Rightarrow> nat fee_result" where
  "positiveVersion (JNumber (NumInt n)) code = (if \<not> safe_integer n \<or> n < 1 then Inl code else Inr (nat n))"
| "positiveVersion _ code = Inl code"

fun canonicalTimestamp :: "jsval \<Rightarrow> RoutingFeeValidationCode \<Rightarrow> string fee_result" where
  "canonicalTimestamp (JString s) code = (if canonical_utc s then Inr s else Inl code)"
| "canonicalTimestamp _ code = Inl code"

fun decimalOf :: "jsval \<Rightarrow> jsval \<Rightarrow> RoutingFeeDecimalV1 option" where
  "decimalOf (JString m) (JNumber (NumInt k)) =
     (if \<not> canonical_nat m \<or> length m > MAX_DECIMAL_DIGITS \<or> \<not> safe_integer k \<or> k < 0 \<or> k > MAX_DECIMAL_SCALE \<or>
         dec_val m > 10 ^ nat k
      then None else Some \<lparr>mantissa = m, scale = nat k\<rparr>)"
| "decimalOf _ _ = None"

definition parseDecimal :: "jsval \<Rightarrow> RoutingFeeValidationCode \<Rightarrow> RoutingFeeDecimalV1 fee_result" where
  "parseDecimal value code =
     res_bind (exactDataRecord value [''mantissa'', ''scale''] code) (\<lambda>record.
     of_option code (decimalOf (js_get record ''mantissa'') (js_get record ''scale'')))"

definition isZeroDecimal :: "RoutingFeeDecimalV1 \<Rightarrow> bool" where
  "isZeroDecimal value = (mantissa value = ''0'')"

fun parseAtomicAmount :: "jsval \<Rightarrow> bool \<Rightarrow> RoutingFeeValidationCode \<Rightarrow> string fee_result" where
  "parseAtomicAmount (JString s) allowZero code =
     (if \<not> (if allowZero then canonical_nat s else positive_nat s) \<or>
         length s > length MAX_ROUTING_FEE_ATOMIC_AMOUNT \<or>
         (length s = length MAX_ROUTING_FEE_ATOMIC_AMOUNT \<and> s > MAX_ROUTING_FEE_ATOMIC_AMOUNT)
      then Inl code else Inr s)"
| "parseAtomicAmount _ allowZero code = Inl code"

subsection \<open>Rules and the catalog\<close>

definition parseRates :: "jsval \<Rightarrow> RoutingFeeRates fee_result" where
  "parseRates value =
     res_bind (exactDataRecord value (map tier_text ROUTING_FEE_TIERS) INVALID_RULE) (\<lambda>record.
     res_bind (parseDecimal (js_get record ''FREE'') INVALID_RULE) (\<lambda>free.
     res_bind (parseDecimal (js_get record ''INDIVIDUAL'') INVALID_RULE) (\<lambda>individual.
     res_bind (parseDecimal (js_get record ''PRO'') INVALID_RULE) (\<lambda>pro.
     Inr \<lparr>rate_FREE = free, rate_INDIVIDUAL = individual, rate_PRO = pro\<rparr>))))"

definition optionalTimestamp :: "jsval \<Rightarrow> RoutingFeeValidationCode \<Rightarrow> string option fee_result" where
  "optionalTimestamp value code =
     (if value = JNull then Inr None else res_bind (canonicalTimestamp value code) (\<lambda>s. Inr (Some s)))"

definition normalizeRoutingFeeRuleVersionV1 :: "jsval \<Rightarrow> RoutingFeeRuleVersionV1 fee_result" where
  "normalizeRoutingFeeRuleVersionV1 value =
     res_bind (exactDataRecord value [''schemaVersion'', ''ruleReferenceId'', ''version'', ''effectiveFrom'',
       ''effectiveUntil'', ''routeClassificationVersion'', ''roundingMode'', ''platformRates''] INVALID_RULE) (\<lambda>record.
     res_bind (require INVALID_RULE (js_get record ''schemaVersion'' = js_int 1 \<and>
       js_get record ''routeClassificationVersion'' = js_int 1)) (\<lambda>_.
     res_bind (canonicalTimestamp (js_get record ''effectiveFrom'') INVALID_RULE) (\<lambda>from.
     res_bind (optionalTimestamp (js_get record ''effectiveUntil'') INVALID_RULE) (\<lambda>until.
     res_bind (require INVALID_RULE (case until of None \<Rightarrow> True | Some u \<Rightarrow> \<not> u \<le> from)) (\<lambda>_.
     res_bind (exactDataRecord (js_get record ''platformRates'') [''directCompatible'', ''materialOrchestration'']
       INVALID_RULE) (\<lambda>platformRates.
     res_bind (parseDecimal (js_get platformRates ''directCompatible'') INVALID_RULE) (\<lambda>direct.
     res_bind (require INVALID_RULE (isZeroDecimal direct)) (\<lambda>_.
     res_bind (uuidV4 (js_get record ''ruleReferenceId'') INVALID_RULE) (\<lambda>ref.
     res_bind (positiveVersion (js_get record ''version'') INVALID_RULE) (\<lambda>version.
     res_bind (enumMember rounding_text ROUTING_FEE_ROUNDING_MODES (js_get record ''roundingMode'') INVALID_RULE) (\<lambda>rounding.
     res_bind (parseRates (js_get platformRates ''materialOrchestration'')) (\<lambda>rates.
     Inr \<lparr>ruleReferenceId = ref, ruleVersion = version, effectiveFrom = from, effectiveUntil = until,
          roundingMode = rounding, directCompatible = direct, materialOrchestration = rates\<rparr>))))))))))))"

definition sortRules :: "RoutingFeeRuleVersionV1 list \<Rightarrow> RoutingFeeRuleVersionV1 list" where
  "sortRules rules = sort_key (\<lambda>r. (effectiveFrom r, ruleVersion r)) rules"

fun consecutiveRules :: "RoutingFeeRuleVersionV1 list \<Rightarrow> bool" where
  "consecutiveRules (current # nxt # rest) =
     (\<not> ruleVersion current \<ge> ruleVersion nxt \<and>
      (case effectiveUntil current of None \<Rightarrow> False | Some u \<Rightarrow> \<not> u > effectiveFrom nxt) \<and>
      consecutiveRules (nxt # rest))"
| "consecutiveRules _ = True"

definition normalizeRoutingFeeRuleCatalogV1 :: "jsval \<Rightarrow> RoutingFeeRuleVersionV1 list fee_result" where
  "normalizeRoutingFeeRuleCatalogV1 value =
     res_bind (exactDataRecord value [''schemaVersion'', ''rules''] INVALID_RULE_CATALOG) (\<lambda>record.
     res_bind (require INVALID_RULE_CATALOG (js_get record ''schemaVersion'' = js_int 1)) (\<lambda>_.
     res_bind (ownDataArray (js_get record ''rules'') 1 128 INVALID_RULE_CATALOG) (\<lambda>rawRules.
     res_bind (rethrow INVALID_RULE_CATALOG (res_map normalizeRoutingFeeRuleVersionV1 rawRules)) (\<lambda>parsed.
     let rules = sortRules parsed
     in res_bind (require INVALID_RULE_CATALOG
          (distinct (map ruleReferenceId rules) \<and> distinct (map ruleVersion rules))) (\<lambda>_.
        res_bind (require INVALID_RULE_CATALOG (consecutiveRules rules)) (\<lambda>_. Inr rules))))))"

definition ruleCovers :: "string \<Rightarrow> RoutingFeeRuleVersionV1 \<Rightarrow> bool" where
  "ruleCovers at rule =
     (effectiveFrom rule \<le> at \<and> (case effectiveUntil rule of None \<Rightarrow> True | Some u \<Rightarrow> at < u))"

definition resolveRoutingFeeRuleV1 :: "jsval \<Rightarrow> jsval \<Rightarrow> RoutingFeeRuleVersionV1 fee_result" where
  "resolveRoutingFeeRuleV1 catalogValue atValue =
     res_bind (normalizeRoutingFeeRuleCatalogV1 catalogValue) (\<lambda>rules.
     res_bind (canonicalTimestamp atValue NO_EFFECTIVE_RULE) (\<lambda>at.
     case filter (ruleCovers at) rules of
       [rule] \<Rightarrow> Inr rule
     | _ \<Rightarrow> Inl NO_EFFECTIVE_RULE))"

subsection \<open>Routes\<close>

definition parseEndpoint :: "jsval \<Rightarrow> RoutingFeeRouteEndpointV1 fee_result" where
  "parseEndpoint value =
     res_bind (exactDataRecord value [''networkId'', ''assetId''] INVALID_ROUTE) (\<lambda>record.
     res_bind (safeReference (js_get record ''networkId'') INVALID_ROUTE) (\<lambda>network.
     res_bind (safeReference (js_get record ''assetId'') INVALID_ROUTE) (\<lambda>asset.
     Inr \<lparr>networkId = network, assetId = asset\<rparr>)))"

definition sameEndpoint :: "RoutingFeeRouteEndpointV1 \<Rightarrow> RoutingFeeRouteEndpointV1 \<Rightarrow> bool" where
  "sameEndpoint left right = (networkId left = networkId right \<and> assetId left = assetId right)"

fun legEndpointsFit :: "RoutingFeeRouteLegKind \<Rightarrow> RoutingFeeRouteEndpointV1 \<Rightarrow> RoutingFeeRouteEndpointV1 \<Rightarrow> bool" where
  "legEndpointsFit DIRECT_SETTLEMENT source destination = sameEndpoint source destination"
| "legEndpointsFit SWAP source destination =
     (\<not> (networkId source \<noteq> networkId destination \<or> assetId source = assetId destination))"
| "legEndpointsFit BRIDGE source destination = (networkId source \<noteq> networkId destination)"

definition parseLeg :: "jsval \<Rightarrow> RoutingFeeRouteLegV1 fee_result" where
  "parseLeg value =
     res_bind (exactDataRecord value [''kind'', ''source'', ''destination''] INVALID_ROUTE) (\<lambda>record.
     res_bind (enumMember leg_kind_text ROUTING_FEE_ROUTE_LEG_KINDS (js_get record ''kind'') INVALID_ROUTE) (\<lambda>kind.
     res_bind (parseEndpoint (js_get record ''source'')) (\<lambda>source.
     res_bind (parseEndpoint (js_get record ''destination'')) (\<lambda>destination.
     res_bind (require INVALID_ROUTE (legEndpointsFit kind source destination)) (\<lambda>_.
     Inr \<lparr>leg_kind = kind, leg_source = source, leg_destination = destination\<rparr>)))))"

fun connectedLegs :: "RoutingFeeRouteLegV1 list \<Rightarrow> bool" where
  "connectedLegs (first # second # rest) =
     (sameEndpoint (leg_destination first) (leg_source second) \<and> connectedLegs (second # rest))"
| "connectedLegs _ = True"

definition normalizeRoutingFeeRouteV1 :: "jsval \<Rightarrow> RoutingFeeRouteV1 fee_result" where
  "normalizeRoutingFeeRouteV1 value =
     res_bind (exactDataRecord value [''schemaVersion'', ''source'', ''destination'', ''legs''] INVALID_ROUTE) (\<lambda>record.
     res_bind (require INVALID_ROUTE (js_get record ''schemaVersion'' = js_int 1)) (\<lambda>_.
     res_bind (parseEndpoint (js_get record ''source'')) (\<lambda>source.
     res_bind (parseEndpoint (js_get record ''destination'')) (\<lambda>destination.
     res_bind (ownDataArray (js_get record ''legs'') 1 MAX_ROUTE_LEGS INVALID_ROUTE) (\<lambda>rawLegs.
     res_bind (res_map parseLeg rawLegs) (\<lambda>legs.
     res_bind (require INVALID_ROUTE
       (sameEndpoint source (leg_source (hd legs)) \<and> sameEndpoint destination (leg_destination (last legs)))) (\<lambda>_.
     res_bind (require INVALID_ROUTE (connectedLegs legs)) (\<lambda>_.
     Inr \<lparr>route_source = source, route_destination = destination, route_legs = legs\<rparr>))))))))"

definition classifyNormalizedRoute :: "RoutingFeeRouteV1 \<Rightarrow> RoutingFeeRouteClassificationV1" where
  "classifyNormalizedRoute route =
     (let swapRequired = list_ex (\<lambda>l. leg_kind l = SWAP) (route_legs route);
          bridgeRequired = list_ex (\<lambda>l. leg_kind l = BRIDGE) (route_legs route);
          multiLeg = length (route_legs route) > 1
      in if \<not> swapRequired \<and> \<not> bridgeRequired \<and> \<not> multiLeg
         then \<lparr>class_kind = DIRECT_COMPATIBLE, class_reasons = [SINGLE_DIRECT_COMPATIBLE_LEG]\<rparr>
         else \<lparr>class_kind = MATERIAL_ORCHESTRATION,
               class_reasons = (if multiLeg then [MULTI_LEG_ROUTE] else []) @
                 (if swapRequired then [SWAP_REQUIRED] else []) @ (if bridgeRequired then [BRIDGE_REQUIRED] else [])\<rparr>)"

definition classifyRoutingFeeRouteV1 :: "jsval \<Rightarrow> RoutingFeeRouteClassificationV1 fee_result" where
  "classifyRoutingFeeRouteV1 value =
     res_bind (normalizeRoutingFeeRouteV1 value) (\<lambda>route. Inr (classifyNormalizedRoute route))"

subsection \<open>Fees\<close>

definition parseFeeBase :: "jsval \<Rightarrow> RoutingFeeAtomicAmount fee_result" where
  "parseFeeBase value =
     res_bind (exactDataRecord value [''assetRevisionId'', ''amountAtomic''] INVALID_CALCULATION_INPUT) (\<lambda>record.
     res_bind (uuidV4 (js_get record ''assetRevisionId'') INVALID_CALCULATION_INPUT) (\<lambda>asset.
     res_bind (parseAtomicAmount (js_get record ''amountAtomic'') False INVALID_ATOMIC_AMOUNT) (\<lambda>amount.
     Inr \<lparr>fee_assetRevisionId = asset, fee_amountAtomic = amount\<rparr>)))"

definition parsePassThroughComponent :: "jsval \<Rightarrow> RoutingFeePassThroughComponent fee_result" where
  "parsePassThroughComponent value =
     res_bind (exactDataRecord value [''category'', ''assetRevisionId'', ''amountAtomic'', ''deductionMode'',
       ''sourceReferenceId''] INVALID_FEE_COMPONENT) (\<lambda>record.
     res_bind (enumMember category_text ROUTING_FEE_PASS_THROUGH_CATEGORIES (js_get record ''category'')
       INVALID_FEE_COMPONENT) (\<lambda>category.
     res_bind (uuidV4 (js_get record ''assetRevisionId'') INVALID_FEE_COMPONENT) (\<lambda>asset.
     res_bind (parseAtomicAmount (js_get record ''amountAtomic'') True INVALID_ATOMIC_AMOUNT) (\<lambda>amount.
     res_bind (enumMember deduction_text ROUTING_FEE_DEDUCTION_MODES (js_get record ''deductionMode'')
       INVALID_FEE_COMPONENT) (\<lambda>deduction.
     res_bind (uuidV4 (js_get record ''sourceReferenceId'') INVALID_FEE_COMPONENT) (\<lambda>ref.
     Inr \<lparr>pass_category = category, pass_assetRevisionId = asset, pass_amountAtomic = amount,
          pass_deductionMode = deduction, pass_sourceReferenceId = ref\<rparr>))))))"

definition effectiveTier :: "jsval \<Rightarrow> RoutingFeeTier fee_result" where
  "effectiveTier value =
     (if value = JUndefined \<or> value = JNull then Inr FREE
      else enumMember tier_text ROUTING_FEE_TIERS value INVALID_CALCULATION_INPUT)"

definition roundRatio :: "nat \<Rightarrow> nat \<Rightarrow> RoutingFeeRoundingMode \<Rightarrow> nat" where
  "roundRatio numerator denominator mode =
     (let quotient = numerator div denominator;
          remainder = numerator mod denominator
      in if remainder = 0 \<or> mode = DOWN then quotient
         else if mode = UP then quotient + 1
         else let doubledRemainder = remainder * 2
              in if doubledRemainder < denominator then quotient
                 else if doubledRemainder > denominator then quotient + 1
                 else if quotient mod 2 = 0 then quotient else quotient + 1)"

definition calculateRoutingFeeAtomicAmount :: "jsval \<Rightarrow> jsval \<Rightarrow> jsval \<Rightarrow> string fee_result" where
  "calculateRoutingFeeAtomicAmount amountAtomicValue rateValue roundingModeValue =
     res_bind (parseAtomicAmount amountAtomicValue True INVALID_ATOMIC_AMOUNT) (\<lambda>amount.
     res_bind (parseDecimal rateValue INVALID_RULE) (\<lambda>rate.
     res_bind (enumMember rounding_text ROUTING_FEE_ROUNDING_MODES roundingModeValue INVALID_RULE) (\<lambda>mode.
     let result = roundRatio (dec_val amount * dec_val (mantissa rate)) (10 ^ scale rate) mode
     in if result > dec_val MAX_ROUTING_FEE_ATOMIC_AMOUNT then Inl NUMERIC_LIMIT_EXCEEDED
        else Inr (nat_text result))))"

text \<open>The map of totals in insertion order.\<close>

fun addTotals :: "RoutingFeeComponentV1 list \<Rightarrow> (string \<times> nat) list \<Rightarrow> (string \<times> nat) list fee_result" where
  "addTotals [] totals = Inr totals"
| "addTotals (c # cs) totals =
     (let nxt = (case map_of totals (comp_assetRevisionId c) of None \<Rightarrow> 0 | Some n \<Rightarrow> n) + dec_val (comp_amountAtomic c)
      in if nxt > dec_val MAX_ROUTING_FEE_ATOMIC_AMOUNT then Inl NUMERIC_LIMIT_EXCEEDED
         else addTotals cs (AList.update (comp_assetRevisionId c) nxt totals))"

definition totalsByAsset :: "RoutingFeeComponentV1 list \<Rightarrow> RoutingFeeAtomicAmount list fee_result" where
  "totalsByAsset comps =
     res_bind (addTotals comps []) (\<lambda>totals.
     Inr (map (\<lambda>(asset, amount). \<lparr>fee_assetRevisionId = asset, fee_amountAtomic = nat_text amount\<rparr>)
       (sort_key fst totals)))"

subsection \<open>The objects of the snapshot\<close>

definition decimal_object :: "RoutingFeeDecimalV1 \<Rightarrow> jsval" where
  "decimal_object d = mk_object [(''mantissa'', JString (mantissa d)), (''scale'', js_int (int (scale d)))]"

definition rates_object :: "RoutingFeeRates \<Rightarrow> jsval" where
  "rates_object r = mk_object
     [(''FREE'', decimal_object (rate_FREE r)), (''INDIVIDUAL'', decimal_object (rate_INDIVIDUAL r)),
      (''PRO'', decimal_object (rate_PRO r))]"

definition rule_object :: "RoutingFeeRuleVersionV1 \<Rightarrow> jsval" where
  "rule_object r = mk_object
     [(''schemaVersion'', js_int 1), (''ruleReferenceId'', JString (ruleReferenceId r)),
      (''version'', js_int (int (ruleVersion r))), (''effectiveFrom'', JString (effectiveFrom r)),
      (''effectiveUntil'', case effectiveUntil r of None \<Rightarrow> JNull | Some u \<Rightarrow> JString u),
      (''routeClassificationVersion'', js_int 1), (''roundingMode'', JString (rounding_text (roundingMode r))),
      (''platformRates'', mk_object
         [(''directCompatible'', decimal_object (directCompatible r)),
          (''materialOrchestration'', rates_object (materialOrchestration r))])]"

definition catalog_object :: "RoutingFeeRuleVersionV1 list \<Rightarrow> jsval" where
  "catalog_object rules = mk_object [(''schemaVersion'', js_int 1), (''rules'', mk_array (map rule_object rules))]"

definition decimal_json :: "RoutingFeeDecimalV1 \<Rightarrow> json" where
  "decimal_json d = JsonObject [(''mantissa'', JsonText (mantissa d)), (''scale'', JsonInt (int (scale d)))]"

definition rule_json :: "RoutingFeeRuleVersionV1 \<Rightarrow> json" where
  "rule_json r = JsonObject
     [(''schemaVersion'', JsonInt 1), (''ruleReferenceId'', JsonText (ruleReferenceId r)),
      (''version'', JsonInt (int (ruleVersion r))), (''effectiveFrom'', JsonText (effectiveFrom r)),
      (''effectiveUntil'', case effectiveUntil r of None \<Rightarrow> JsonNull | Some u \<Rightarrow> JsonText u),
      (''routeClassificationVersion'', JsonInt 1), (''roundingMode'', JsonText (rounding_text (roundingMode r))),
      (''platformRates'', JsonObject
         [(''directCompatible'', decimal_json (directCompatible r)),
          (''materialOrchestration'', JsonObject
             [(''FREE'', decimal_json (rate_FREE (materialOrchestration r))),
              (''INDIVIDUAL'', decimal_json (rate_INDIVIDUAL (materialOrchestration r))),
              (''PRO'', decimal_json (rate_PRO (materialOrchestration r)))])])]"

definition endpoint_json :: "RoutingFeeRouteEndpointV1 \<Rightarrow> json" where
  "endpoint_json e = JsonObject [(''networkId'', JsonText (networkId e)), (''assetId'', JsonText (assetId e))]"

definition leg_json :: "RoutingFeeRouteLegV1 \<Rightarrow> json" where
  "leg_json l = JsonObject [(''kind'', JsonText (leg_kind_text (leg_kind l))),
     (''source'', endpoint_json (leg_source l)), (''destination'', endpoint_json (leg_destination l))]"

definition route_json :: "RoutingFeeRouteV1 \<Rightarrow> json" where
  "route_json r = JsonObject [(''schemaVersion'', JsonInt 1), (''source'', endpoint_json (route_source r)),
     (''destination'', endpoint_json (route_destination r)), (''legs'', JsonArray (map leg_json (route_legs r)))]"

definition classification_json :: "RoutingFeeRouteClassificationV1 \<Rightarrow> json" where
  "classification_json c = JsonObject [(''version'', JsonInt 1), (''kind'', JsonText (classification_text (class_kind c))),
     (''reasons'', JsonArray (map (\<lambda>r. JsonText (classification_reason_text r)) (class_reasons c)))]"

definition amount_json :: "RoutingFeeAtomicAmount \<Rightarrow> json" where
  "amount_json a = JsonObject [(''assetRevisionId'', JsonText (fee_assetRevisionId a)),
     (''amountAtomic'', JsonText (fee_amountAtomic a))]"

fun component_source_text :: "RoutingFeeComponentSource \<Rightarrow> string" where
  "component_source_text PLATFORM_RULE = ''PLATFORM_RULE''"
| "component_source_text PASS_THROUGH_QUOTE = ''PASS_THROUGH_QUOTE''"

definition component_json :: "RoutingFeeComponentV1 \<Rightarrow> json" where
  "component_json c = JsonObject
     [(''lineNumber'', JsonInt (int (lineNumber c))), (''category'', JsonText (category_text (comp_category c))),
      (''assetRevisionId'', JsonText (comp_assetRevisionId c)), (''amountAtomic'', JsonText (comp_amountAtomic c)),
      (''deductionMode'', JsonText (deduction_text (comp_deductionMode c))),
      (''source'', JsonText (component_source_text (comp_source c))),
      (''sourceReferenceId'', JsonText (comp_sourceReferenceId c))]"

text \<open>The snapshot without its fingerprint, in the order its literal has the keys.\<close>

definition snapshot_json :: "RoutingFeeSnapshotV1 \<Rightarrow> json" where
  "snapshot_json s = JsonObject
     [(''schemaVersion'', JsonInt 1), (''quoteReferenceId'', JsonText (quoteReferenceId s)),
      (''routeReferenceId'', JsonText (routeReferenceId s)), (''quotedAt'', JsonText (quotedAt s)),
      (''effectiveTier'', JsonText (tier_text (snapshotTier s))), (''rule'', rule_json (snapshotRule s)),
      (''route'', route_json (snapshotRoute s)), (''routeClassification'', classification_json (routeClassification s)),
      (''feeBase'', amount_json (feeBase s)), (''components'', JsonArray (map component_json (components s))),
      (''totalsByAsset'', JsonArray (map amount_json (snapshotTotals s)))]"

definition fingerprint :: "(string \<Rightarrow> string) \<Rightarrow> json \<Rightarrow> string" where
  "fingerprint sha256 value =
     sha256 (utf8 (''crypto-lending:routing-fee-snapshot:v1'' @ [CHR 0x00]) @ utf8 (json_text value))"

subsection \<open>The snapshot\<close>

fun materialRate :: "RoutingFeeRates \<Rightarrow> RoutingFeeTier \<Rightarrow> RoutingFeeDecimalV1" where
  "materialRate r FREE = rate_FREE r"
| "materialRate r INDIVIDUAL = rate_INDIVIDUAL r"
| "materialRate r PRO = rate_PRO r"

definition platformRate :: "RoutingFeeRuleVersionV1 \<Rightarrow> RoutingFeeRouteClassificationV1 \<Rightarrow> RoutingFeeTier \<Rightarrow> RoutingFeeDecimalV1" where
  "platformRate rule classification tier =
     (if class_kind classification = DIRECT_COMPATIBLE then directCompatible rule
      else materialRate (materialOrchestration rule) tier)"

definition passThroughLine :: "nat \<Rightarrow> RoutingFeePassThroughComponent \<Rightarrow> RoutingFeeComponentV1" where
  "passThroughLine index c =
     \<lparr>lineNumber = index + 2, comp_category = pass_category c, comp_assetRevisionId = pass_assetRevisionId c,
      comp_amountAtomic = pass_amountAtomic c, comp_deductionMode = pass_deductionMode c,
      comp_source = PASS_THROUGH_QUOTE, comp_sourceReferenceId = pass_sourceReferenceId c\<rparr>"

definition feeComponents :: "RoutingFeeAtomicAmount \<Rightarrow> string \<Rightarrow> RoutingFeeRuleVersionV1 \<Rightarrow>
    RoutingFeePassThroughComponent list \<Rightarrow> RoutingFeeComponentV1 list" where
  "feeComponents base platformAmount rule passThrough =
     \<lparr>lineNumber = 1, comp_category = PLATFORM, comp_assetRevisionId = fee_assetRevisionId base,
      comp_amountAtomic = platformAmount, comp_deductionMode = ADDED_ON_TOP, comp_source = PLATFORM_RULE,
      comp_sourceReferenceId = ruleReferenceId rule\<rparr>
     # map (\<lambda>(index, c). passThroughLine index c) (zip [0..<length passThrough] passThrough)"

definition calculateRoutingFeeSnapshotV1 :: "(string \<Rightarrow> string) \<Rightarrow> jsval \<Rightarrow> jsval \<Rightarrow> RoutingFeeSnapshotV1 fee_result" where
  "calculateRoutingFeeSnapshotV1 sha256 inputValue catalogValue =
     res_bind (ownDataRecord inputValue [''schemaVersion'', ''quoteReferenceId'', ''routeReferenceId'', ''quotedAt'',
       ''route'', ''feeBase'', ''passThroughComponents''] [''tier''] INVALID_CALCULATION_INPUT) (\<lambda>record.
     res_bind (require INVALID_CALCULATION_INPUT (js_get record ''schemaVersion'' = js_int 1)) (\<lambda>_.
     res_bind (uuidV4 (js_get record ''quoteReferenceId'') INVALID_CALCULATION_INPUT) (\<lambda>quoteRef.
     res_bind (uuidV4 (js_get record ''routeReferenceId'') INVALID_CALCULATION_INPUT) (\<lambda>routeRef.
     res_bind (canonicalTimestamp (js_get record ''quotedAt'') INVALID_CALCULATION_INPUT) (\<lambda>quoted.
     res_bind (effectiveTier (js_get record ''tier'')) (\<lambda>tier.
     res_bind (normalizeRoutingFeeRouteV1 (js_get record ''route'')) (\<lambda>route.
     let classification = classifyNormalizedRoute route
     in
     res_bind (parseFeeBase (js_get record ''feeBase'')) (\<lambda>base.
     res_bind (ownDataArray (js_get record ''passThroughComponents'') 0 (MAX_FEE_COMPONENTS - 1)
       INVALID_FEE_COMPONENT) (\<lambda>rawComponents.
     res_bind (res_map parsePassThroughComponent rawComponents) (\<lambda>passThrough.
     res_bind (resolveRoutingFeeRuleV1 catalogValue (JString quoted)) (\<lambda>rule.
     res_bind (calculateRoutingFeeAtomicAmount (JString (fee_amountAtomic base))
       (decimal_object (platformRate rule classification tier))
       (JString (rounding_text (roundingMode rule)))) (\<lambda>platformAmount.
     let comps = feeComponents base platformAmount rule passThrough
     in
     res_bind (totalsByAsset comps) (\<lambda>totals.
     let snapshot = \<lparr>quoteReferenceId = quoteRef, routeReferenceId = routeRef, quotedAt = quoted, snapshotTier = tier,
           snapshotRule = rule, snapshotRoute = route, routeClassification = classification, feeBase = base,
           components = comps, snapshotTotals = totals, fingerprintSha256 = []\<rparr>;
         fp = fingerprint sha256 (snapshot_json snapshot)
     in if \<not> sha256_hex fp then Inl INVALID_CALCULATION_INPUT
        else Inr (snapshot\<lparr>fingerprintSha256 := fp\<rparr>))))))))))))))"

subsection \<open>The catalog of version 1\<close>

definition ROUTING_FEE_RULE_V1 :: "RoutingFeeRuleVersionV1 fee_result" where
  "ROUTING_FEE_RULE_V1 = normalizeRoutingFeeRuleVersionV1 (mk_object
     [(''schemaVersion'', js_int 1), (''ruleReferenceId'', JString ''76000000-0000-4000-8000-000000000001''),
      (''version'', js_int 1), (''effectiveFrom'', JString ''2026-08-25T00:00:00.000Z''), (''effectiveUntil'', JNull),
      (''routeClassificationVersion'', js_int 1), (''roundingMode'', JString ''HALF_EVEN''),
      (''platformRates'', mk_object
         [(''directCompatible'', mk_object [(''mantissa'', JString ''0''), (''scale'', js_int 0)]),
          (''materialOrchestration'', mk_object
             [(''FREE'', mk_object [(''mantissa'', JString (nat_text (ROUTING_FEE_V1_BASIS_POINTS FREE))), (''scale'', js_int 4)]),
              (''INDIVIDUAL'', mk_object [(''mantissa'', JString (nat_text (ROUTING_FEE_V1_BASIS_POINTS INDIVIDUAL))), (''scale'', js_int 4)]),
              (''PRO'', mk_object [(''mantissa'', JString (nat_text (ROUTING_FEE_V1_BASIS_POINTS PRO))), (''scale'', js_int 4)])])])])"

definition ROUTING_FEE_RULE_CATALOG_V1 :: "RoutingFeeRuleVersionV1 list fee_result" where
  "ROUTING_FEE_RULE_CATALOG_V1 =
     res_bind ROUTING_FEE_RULE_V1 (\<lambda>rule. normalizeRoutingFeeRuleCatalogV1 (mk_object
       [(''schemaVersion'', js_int 1), (''rules'', mk_array [rule_object rule])]))"

subsection \<open>Rounding\<close>

text \<open>
  What a rounded quotient is: the floor, the ceiling, or the nearest integer with ties to
  the even one.
\<close>

fun rounded :: "RoutingFeeRoundingMode \<Rightarrow> nat \<Rightarrow> nat \<Rightarrow> nat \<Rightarrow> bool" where
  "rounded DOWN n d q = (q * d \<le> n \<and> n < (q + 1) * d)"
| "rounded UP n d q = (n \<le> q * d \<and> q * d < n + d)"
| "rounded HALF_EVEN n d q =
     (2 * \<bar>int (q * d) - int n\<bar> \<le> int d \<and> (2 * \<bar>int (q * d) - int n\<bar> = int d \<longrightarrow> even q))"

lemma roundRatio_rounded:
  assumes "0 < d"
  shows "rounded m n d (roundRatio n d m)"
proof -
  define q r where "q = n div d" and "r = n mod d"
  have n: "n = q * d + r" and r: "r < d" using assms by (simp_all add: q_def r_def)
  have R: "roundRatio n d m = (if r = 0 \<or> m = DOWN then q else if m = UP then q + 1
      else if r * 2 < d then q else if r * 2 > d then q + 1 else if even q then q else q + 1)"
    by (simp only: roundRatio_def q_def r_def Let_def even_iff_mod_2_eq_zero)
  have sq: "int ((q + 1) * d) = int (q * d) + int d" by (simp add: algebra_simps)
  show ?thesis
  proof (cases m)
    case HALF_EVEN
    have ni: "int n = int (q * d) + int r" by (metis n of_nat_add)
    show ?thesis
    proof (cases "r = 0 \<or> r * 2 < d \<or> (r * 2 = d \<and> even q)")
      case True
      then have "roundRatio n d m = q" unfolding R using HALF_EVEN by auto
      moreover have "\<bar>int (q * d) - int n\<bar> = int r" using ni by simp
      ultimately show ?thesis using True HALF_EVEN assms by auto
    next
      case False
      then have "roundRatio n d m = q + 1" unfolding R using HALF_EVEN by auto
      moreover have "\<bar>int ((q + 1) * d) - int n\<bar> = int d - int r" using ni sq r by simp
      ultimately show ?thesis using False HALF_EVEN by (auto simp del: of_nat_mult)
    qed
  next
    case DOWN
    then have "roundRatio n d m = q" unfolding R by simp
    then show ?thesis using DOWN n r by simp
  next
    case UP
    then have "roundRatio n d m = (if r = 0 then q else q + 1)" unfolding R by simp
    then show ?thesis using UP n r by simp
  qed
qed

lemma rounded_close:
  assumes "rounded m n d q" "0 < d"
  shows "q * d < n + d \<and> n < (q + 1) * d"
proof (cases m)
  case HALF_EVEN
  then have "2 * \<bar>int (q * d) - int n\<bar> \<le> int d" using assms by simp
  then have "int (q * d) < int n + int d" "int n < int (q * d) + int d" using assms(2) by (auto simp: abs_if split: if_splits)
  then have "q * d < n + d" "n < q * d + d" by (simp_all only: of_nat_add [symmetric] of_nat_less_iff)
  then show ?thesis by (simp add: algebra_simps)
qed (use assms in \<open>auto simp: algebra_simps\<close>)

lemma rounded_step:
  assumes "rounded m n d q" "rounded m n d (q + 1)" "0 < d"
  shows False
proof (cases m)
  case HALF_EVEN
  have s: "int ((q + 1) * d) = int (q * d) + int d" by (simp add: algebra_simps)
  have "2 * \<bar>int (q * d) - int n\<bar> \<le> int d" "2 * \<bar>int (q * d) + int d - int n\<bar> \<le> int d"
    unfolding s [symmetric] using assms HALF_EVEN by (simp_all only: rounded.simps)
  then have "2 * \<bar>int (q * d) - int n\<bar> = int d" "2 * \<bar>int (q * d) + int d - int n\<bar> = int d"
    by (auto simp: abs_if split: if_splits)
  then have "even q" "even (q + 1)"
    using assms HALF_EVEN unfolding s [symmetric] by (simp_all only: rounded.simps)
  then show ?thesis by simp
qed (use assms in \<open>auto simp: algebra_simps\<close>)

lemma rounded_unique:
  assumes "rounded m n d q" "rounded m n d q'" "0 < d"
  shows "q = q'"
proof -
  have *: "b \<le> a + 1" if "rounded m n d a" "rounded m n d b" for a b
  proof (rule ccontr)
    assume "\<not> b \<le> a + 1"
    then have "(a + 2) * d \<le> b * d" by (intro mult_right_mono) auto
    then show False
      using rounded_close [OF that(1) assms(3)] rounded_close [OF that(2) assms(3)] by (simp add: algebra_simps)
  qed
  have "q \<le> q' + 1" "q' \<le> q + 1" using * assms by blast+
  moreover have "q \<noteq> q' + 1" "q' \<noteq> q + 1" using rounded_step assms by blast+
  ultimately show ?thesis by linarith
qed

lemma roundRatio_iff: "0 < d \<Longrightarrow> (roundRatio n d m = q) = rounded m n d q"
  using roundRatio_rounded rounded_unique by metis

lemma roundRatio_le:
  assumes "0 < d" "n \<le> a * d"
  shows "roundRatio n d m \<le> a"
proof (rule ccontr)
  let ?q = "roundRatio n d m"
  assume "\<not> ?q \<le> a"
  then have "(a + 1) * d \<le> ?q * d" by (intro mult_right_mono) auto
  moreover have "?q * d < n + d" using rounded_close [OF roundRatio_rounded assms(1)] assms(1) by blast
  ultimately show False using assms(2) by (simp add: algebra_simps)
qed

lemma roundRatio_exact: "0 < d \<Longrightarrow> roundRatio (a * d) d m = a"
  by (simp add: roundRatio_def)

lemma roundRatio_mono:
  assumes "0 < d" "n \<le> n'"
  shows "roundRatio n d m \<le> roundRatio n' d m"
proof (rule ccontr)
  let ?a = "roundRatio n d m" and ?b = "roundRatio n' d m"
  assume "\<not> ?a \<le> ?b"
  then have lt: "?b + 1 \<le> ?a" by simp
  note ra = roundRatio_rounded [OF assms(1), of m n] and rb = roundRatio_rounded [OF assms(1), of m n']
  have ba: "(?b + 1) * d \<le> ?a * d" using lt by (intro mult_right_mono) auto
  show False
  proof (cases m)
    case HALF_EVEN
    have s: "int ((?b + 1) * d) = int (?b * d) + int d" by (simp add: algebra_simps)
    have i: "int ((?b + 1) * d) \<le> int (?a * d)" using ba by (simp only: of_nat_le_iff)
    have A: "2 * \<bar>int (?a * d) - int n\<bar> \<le> int d" and B: "2 * \<bar>int (?b * d) - int n'\<bar> \<le> int d"
      using ra rb HALF_EVEN by simp_all
    have "int n \<le> int n'" using assms(2) by simp
    then have eq: "int (?a * d) = int (?b * d) + int d" "2 * \<bar>int (?a * d) - int n\<bar> = int d"
      "2 * \<bar>int (?b * d) - int n'\<bar> = int d" "n = n'"
      using A B i s by (auto simp: abs_if split: if_splits)
    then have "?a = ?b" by simp
    then show False using lt by simp
  qed (use ra rb ba assms in \<open>auto simp: algebra_simps\<close>)
qed

subsection \<open>Accepted values\<close>

definition valid_decimal :: "RoutingFeeDecimalV1 \<Rightarrow> bool" where
  "valid_decimal d =
     (canonical_nat (mantissa d) \<and> length (mantissa d) \<le> 78 \<and> scale d \<le> 77 \<and> dec_val (mantissa d) \<le> 10 ^ scale d)"

lemma exactDataRecord_literal:
  assumes "distinct (map fst r)" "map fst r = keys"
  shows "exactDataRecord (mk_object r) keys code = Inr r"
proof -
  have "optional_data_record keys [] (mk_object r) = Some r"
    using assms by (intro optional_data_record_literal) force+
  then show ?thesis by (simp add: exactDataRecord_def ownDataRecord_def)
qed

lemma fee_get_Cons: "js_get ((k, v) # r) k' = (if k = k' then v else js_get r k')"
  by (simp add: js_get_def)

lemma decimalOf_iff:
  "(decimalOf v w = Some d) = (v = JString (mantissa d) \<and> w = js_int (int (scale d)) \<and> valid_decimal d)"
proof (cases "(v, w)" rule: decimalOf.cases)
  case (1 m k)
  then show ?thesis
    by (cases d) (auto simp: valid_decimal_def MAX_DECIMAL_DIGITS_def MAX_DECIMAL_SCALE_def safe_integer_def)
qed auto

lemma parseDecimal_sound: "parseDecimal v c = Inr d \<Longrightarrow> valid_decimal d"
  by (auto simp: parseDecimal_def res_simps decimalOf_iff)

lemma parseDecimal_object:
  assumes "valid_decimal d"
  shows "parseDecimal (decimal_object d) c = Inr d"
proof -
  have "exactDataRecord (decimal_object d) [''mantissa'', ''scale''] c =
      Inr [(''mantissa'', JString (mantissa d)), (''scale'', js_int (int (scale d)))]"
    unfolding decimal_object_def by (rule exactDataRecord_literal) simp_all
  moreover have "decimalOf (JString (mantissa d)) (js_int (int (scale d))) = Some d"
    using assms by (simp only: decimalOf_iff)
  ultimately show ?thesis by (simp add: parseDecimal_def fee_get_Cons del: decimalOf.simps)
qed

lemma feeAtomicAmount_iff:
  "(parseAtomicAmount v allowZero c = Inr s) =
     (v = JString s \<and> (\<exists>n. (allowZero \<or> 0 < n) \<and> n < 2 ^ 256 \<and> s = nat_text n))"
proof (cases v)
  case (JString x)
  have lim: "canonical_nat x \<Longrightarrow>
      (\<not> (length x > length MAX_ROUTING_FEE_ATOMIC_AMOUNT \<or>
         (length x = length MAX_ROUTING_FEE_ATOMIC_AMOUNT \<and> x > MAX_ROUTING_FEE_ATOMIC_AMOUNT))) = (dec_val x < 2 ^ 256)"
    using within_uint256_iff by (simp only: within_text_limit_def MAX_ROUTING_FEE_ATOMIC_AMOUNT_def)
  have pat: "(if allowZero then canonical_nat x else positive_nat x) = (\<exists>n. (allowZero \<or> 0 < n) \<and> x = nat_text n)"
    by (auto simp: canonical_nat_iff positive_nat_text_iff)
  show ?thesis
  proof (cases "\<exists>n. (allowZero \<or> 0 < n) \<and> x = nat_text n")
    case True
    then obtain n where n: "allowZero \<or> 0 < n" "x = nat_text n" by blast
    then have "(parseAtomicAmount v allowZero c = Inr s) = (x = s \<and> dec_val x < 2 ^ 256)"
      using lim pat True JString by (auto simp: not_le not_less)
    then show ?thesis using n JString by auto
  next
    case False
    then have "parseAtomicAmount v allowZero c = Inl c" using pat JString by simp
    then show ?thesis using False JString by auto
  qed
qed auto

interpretation rounding: text_enum rounding_text ROUTING_FEE_ROUNDING_MODES
proof
  show "x \<in> set ROUTING_FEE_ROUNDING_MODES" for x by (cases x) (simp_all add: ROUTING_FEE_ROUNDING_MODES_def)
  show "rounding_text x = rounding_text y \<Longrightarrow> x = y" for x y by (cases x; cases y) simp_all
qed

interpretation tier: text_enum tier_text ROUTING_FEE_TIERS
proof
  show "x \<in> set ROUTING_FEE_TIERS" for x by (cases x) (simp_all add: ROUTING_FEE_TIERS_def)
  show "tier_text x = tier_text y \<Longrightarrow> x = y" for x y by (cases x; cases y) simp_all
qed

lemma max_fee_val: "dec_val MAX_ROUTING_FEE_ATOMIC_AMOUNT = 2 ^ 256 - 1"
  by (simp only: MAX_ROUTING_FEE_ATOMIC_AMOUNT_def uint256_text_val)

lemma fee_le_amount:
  assumes "valid_decimal d"
  shows "roundRatio (a * dec_val (mantissa d)) (10 ^ scale d) m \<le> a"
  using assms by (intro roundRatio_le) (simp_all add: valid_decimal_def)

lemma calculate_amount:
  assumes "parseAtomicAmount v True INVALID_ATOMIC_AMOUNT = Inr s" "parseDecimal r INVALID_RULE = Inr d"
    "enumMember rounding_text ROUTING_FEE_ROUNDING_MODES mv INVALID_RULE = Inr m"
  shows "calculateRoutingFeeAtomicAmount v r mv =
    Inr (nat_text (roundRatio (dec_val s * dec_val (mantissa d)) (10 ^ scale d) m))"
proof -
  have "dec_val s < 2 ^ 256" using assms(1) by (auto simp: feeAtomicAmount_iff)
  moreover have "roundRatio (dec_val s * dec_val (mantissa d)) (10 ^ scale d) m \<le> dec_val s"
    by (rule fee_le_amount [OF parseDecimal_sound [OF assms(2)]])
  ultimately have "\<not> roundRatio (dec_val s * dec_val (mantissa d)) (10 ^ scale d) m > 2 ^ 256 - 1"
    by linarith
  then show ?thesis
    unfolding calculateRoutingFeeAtomicAmount_def assms max_fee_val res_bind.simps Let_def by (simp only: if_False)
qed

lemma calculate_success:
  "(calculateRoutingFeeAtomicAmount v r mv = Inr t) =
     (\<exists>s d m. parseAtomicAmount v True INVALID_ATOMIC_AMOUNT = Inr s \<and> parseDecimal r INVALID_RULE = Inr d \<and>
        enumMember rounding_text ROUTING_FEE_ROUNDING_MODES mv INVALID_RULE = Inr m \<and>
        t = nat_text (roundRatio (dec_val s * dec_val (mantissa d)) (10 ^ scale d) m))" (is "_ = ?rhs")
proof
  assume c: "calculateRoutingFeeAtomicAmount v r mv = Inr t"
  then obtain s d m where "parseAtomicAmount v True INVALID_ATOMIC_AMOUNT = Inr s" "parseDecimal r INVALID_RULE = Inr d"
    "enumMember rounding_text ROUTING_FEE_ROUNDING_MODES mv INVALID_RULE = Inr m"
    unfolding calculateRoutingFeeAtomicAmount_def res_bind_eq_Inr by blast
  with c calculate_amount [OF this] show ?rhs by auto
qed (auto simp: calculate_amount)

subsection \<open>The catalog\<close>

definition valid_rule :: "RoutingFeeRuleVersionV1 \<Rightarrow> bool" where
  "valid_rule r =
     (uuid_v4 (ruleReferenceId r) \<and> 1 \<le> ruleVersion r \<and> canonical_utc (effectiveFrom r) \<and>
      (case effectiveUntil r of None \<Rightarrow> True | Some u \<Rightarrow> canonical_utc u \<and> effectiveFrom r < u) \<and>
      valid_decimal (directCompatible r) \<and> mantissa (directCompatible r) = ''0'' \<and>
      (\<forall>t. valid_decimal (materialRate (materialOrchestration r) t)))"

lemma uuidV4_iff: "(uuidV4 v c = Inr s) = (v = JString s \<and> uuid_v4 s)"
  by (cases v) auto

lemma canonicalTimestamp_iff: "(canonicalTimestamp v c = Inr s) = (v = JString s \<and> canonical_utc s)"
  by (cases v) auto

lemma parseRates_sound: "parseRates v = Inr r \<Longrightarrow> valid_decimal (materialRate r t)"
  by (cases t) (auto simp: parseRates_def res_simps dest: parseDecimal_sound)

lemma positiveVersion_sound: "positiveVersion v c = Inr n \<Longrightarrow> 1 \<le> n"
  by (cases "(v, c)" rule: positiveVersion.cases) (auto split: if_splits)

lemma rule_sound:
  assumes "normalizeRoutingFeeRuleVersionV1 v = Inr r"
  shows "valid_rule r"
proof -
  obtain rec rates d fr until where
    f: "canonicalTimestamp (js_get rec ''effectiveFrom'') INVALID_RULE = Inr fr"
    and u: "optionalTimestamp (js_get rec ''effectiveUntil'') INVALID_RULE = Inr until"
    and ord: "case until of None \<Rightarrow> True | Some u \<Rightarrow> \<not> u \<le> fr"
    and d: "parseDecimal (js_get rates ''directCompatible'') INVALID_RULE = Inr d" "isZeroDecimal d"
    and ref: "uuidV4 (js_get rec ''ruleReferenceId'') INVALID_RULE = Inr (ruleReferenceId r)"
    and ver: "positiveVersion (js_get rec ''version'') INVALID_RULE = Inr (ruleVersion r)"
    and rt: "parseRates (js_get rates ''materialOrchestration'') = Inr (materialOrchestration r)"
    and r: "effectiveFrom r = fr" "effectiveUntil r = until" "directCompatible r = d"
    using assms unfolding normalizeRoutingFeeRuleVersionV1_def res_bind_eq_Inr require_eq_Inr sum.inject
    by (elim exE conjE, hypsubst) (rule that; simp)
  have "case until of None \<Rightarrow> True | Some u \<Rightarrow> canonical_utc u"
    using u by (auto simp: optionalTimestamp_def res_simps canonicalTimestamp_iff split: if_splits option.splits)
  then show ?thesis
    using f ord d ref ver rt
    by (auto simp: valid_rule_def r canonicalTimestamp_iff uuidV4_iff isZeroDecimal_def not_le
        dest: parseDecimal_sound positiveVersion_sound parseRates_sound split: option.splits)
qed

text \<open>In an accepted catalog an earlier rule ends before any later rule starts.\<close>

definition rule_before :: "RoutingFeeRuleVersionV1 \<Rightarrow> RoutingFeeRuleVersionV1 \<Rightarrow> bool" where
  "rule_before a b =
     (ruleVersion a < ruleVersion b \<and> (\<exists>u. effectiveUntil a = Some u \<and> u \<le> effectiveFrom b))"

lemma rule_before_trans:
  assumes "valid_rule b" "rule_before a b" "rule_before b c"
  shows "rule_before a c"
proof -
  obtain u w where u: "effectiveUntil a = Some u" "u \<le> effectiveFrom b"
    and w: "effectiveUntil b = Some w" "w \<le> effectiveFrom c"
    using assms by (auto simp: rule_before_def)
  have "effectiveFrom b < w" using assms(1) w by (simp add: valid_rule_def)
  with u w have "u \<le> effectiveFrom c" by (meson less_imp_le order_trans)
  with assms(2,3) u show ?thesis by (auto simp: rule_before_def)
qed

lemma consecutive_sorted_wrt:
  "consecutiveRules rs \<Longrightarrow> \<forall>r \<in> set rs. valid_rule r \<Longrightarrow> sorted_wrt rule_before rs"
proof (induction rs rule: consecutiveRules.induct)
  case (1 a b rs)
  then have ab: "rule_before a b"
    by (auto simp: rule_before_def not_le not_less split: option.splits)
  from 1 have s: "sorted_wrt rule_before (b # rs)" by simp
  have "rule_before a c" if "c \<in> set rs" for c
    using rule_before_trans [OF _ ab, of c] s that "1.prems"(2) by simp
  with ab s show ?case by simp
qed simp_all

lemma catalog_sound:
  assumes "normalizeRoutingFeeRuleCatalogV1 v = Inr rules"
  shows "(\<forall>r \<in> set rules. valid_rule r) \<and> sorted_wrt rule_before rules \<and> rules \<noteq> [] \<and> length rules \<le> 128"
proof -
  obtain fields raw parsed where
    raw: "ownDataArray (js_get fields ''rules'') 1 128 INVALID_RULE_CATALOG = Inr raw"
    and parsed: "res_map normalizeRoutingFeeRuleVersionV1 raw = Inr parsed"
    and rules: "rules = sortRules parsed" "consecutiveRules rules"
    using assms
    unfolding normalizeRoutingFeeRuleCatalogV1_def res_bind_eq_Inr require_eq_Inr rethrow_eq_Inr Let_def sum.inject
    by (elim exE conjE, hypsubst) (rule that; simp)
  have "\<forall>r \<in> set parsed. valid_rule r"
    by (rule res_map_all [OF parsed]) (rule rule_sound)
  then have v: "\<forall>r \<in> set rules. valid_rule r" by (simp add: rules(1) sortRules_def)
  have "1 \<le> length raw \<and> length raw \<le> 128"
    using raw exact_data_array_bounds by (fastforce simp: ownDataArray_def res_simps)
  moreover have "length rules = length raw"
    using res_map_length [OF parsed] by (simp add: rules(1) sortRules_def)
  ultimately show ?thesis using v consecutive_sorted_wrt [OF rules(2) v] by auto
qed

lemma covering_rules_agree:
  assumes "sorted_wrt rule_before rules" "a \<in> set rules" "b \<in> set rules" "ruleCovers at a" "ruleCovers at b"
  shows "a = b"
proof -
  have no: "\<not> (ruleCovers at x \<and> ruleCovers at y)" if before: "rule_before x y" for x y
  proof
    assume c: "ruleCovers at x \<and> ruleCovers at y"
    obtain u where "effectiveUntil x = Some u" "u \<le> effectiveFrom y" using before by (auto simp: rule_before_def)
    with c have "at < u" "u \<le> at" by (auto simp: ruleCovers_def)
    then show False by simp
  qed
  obtain i j where ij: "i < length rules" "rules ! i = a" "j < length rules" "rules ! j = b"
    using assms(2,3) by (auto simp: in_set_conv_nth)
  then have "i < j \<Longrightarrow> rule_before a b" "j < i \<Longrightarrow> rule_before b a"
    using assms(1) by (auto simp: sorted_wrt_iff_nth_less)
  then have "i = j" using no assms(4,5) by (metis nat_neq_iff)
  with ij show ?thesis by simp
qed

lemma filter_unique:
  assumes "\<And>x y. x \<in> set xs \<Longrightarrow> y \<in> set xs \<Longrightarrow> P x \<Longrightarrow> P y \<Longrightarrow> x = y" "distinct xs"
  shows "filter P xs = (case find P xs of None \<Rightarrow> [] | Some x \<Rightarrow> [x])"
  using assms
proof (induction xs)
  case (Cons a xs)
  show ?case
  proof (cases "P a")
    case True
    then have "filter P xs = []"
      using Cons.prems by (auto simp: filter_empty_conv)
    with True show ?thesis by simp
  next
    case False
    with Cons show ?thesis by simp
  qed
qed simp

lemma find_unique_iff:
  assumes "\<And>x y. x \<in> set xs \<Longrightarrow> y \<in> set xs \<Longrightarrow> P x \<Longrightarrow> P y \<Longrightarrow> x = y"
  shows "(find P xs = Some r) = (r \<in> set xs \<and> P r)"
proof (cases "find P xs")
  case None
  then show ?thesis using find_None_iff [of P xs] by auto
next
  case (Some x)
  then have "x \<in> set xs" "P x" by (auto simp: find_Some_iff)
  then show ?thesis using Some assms by auto
qed

lemma rule_before_irrefl: "\<not> rule_before a a"
  by (simp add: rule_before_def)

lemma sorted_rules_distinct: "sorted_wrt rule_before rules \<Longrightarrow> distinct rules"
  by (induction rules) (auto simp: rule_before_irrefl)

lemma resolve_success:
  assumes "normalizeRoutingFeeRuleCatalogV1 v = Inr rules"
  shows "(resolveRoutingFeeRuleV1 v (JString at) = Inr r) = (canonical_utc at \<and> r \<in> set rules \<and> ruleCovers at r)"
proof -
  have s: "sorted_wrt rule_before rules" using catalog_sound [OF assms] by blast
  have f: "filter (ruleCovers at) rules = (case find (ruleCovers at) rules of None \<Rightarrow> [] | Some x \<Rightarrow> [x])"
    by (rule filter_unique) (use covering_rules_agree [OF s] sorted_rules_distinct [OF s] in blast)+
  have "(case filter (ruleCovers at) rules of [rule] \<Rightarrow> Inr rule | _ \<Rightarrow> Inl NO_EFFECTIVE_RULE) =
      (case find (ruleCovers at) rules of None \<Rightarrow> Inl NO_EFFECTIVE_RULE | Some x \<Rightarrow> Inr x)"
    unfolding f by (simp split: option.splits)
  moreover have "(find (ruleCovers at) rules = Some r) = (r \<in> set rules \<and> ruleCovers at r)"
    by (rule find_unique_iff) (use covering_rules_agree [OF s] in blast)
  ultimately show ?thesis
    unfolding resolveRoutingFeeRuleV1_def assms
    by (auto split: option.splits simp: canonicalTimestamp_iff res_simps)
qed

subsection \<open>Order of the rules in the input\<close>

lemma res_map_Inr_iff: "(\<exists>ys. res_map f xs = Inr ys) = (\<forall>x \<in> set xs. \<exists>y. f x = Inr y)"
proof (induction xs)
  case (Cons x xs)
  then show ?case by (cases "f x"; cases "res_map f xs") auto
qed simp

lemma res_map_mset:
  assumes "mset xs = mset xs'" "res_map f xs = Inr ys"
  shows "\<exists>ys'. res_map f xs' = Inr ys' \<and> mset ys' = mset ys"
proof -
  define g where "g = (\<lambda>x. case f x of Inr y \<Rightarrow> y | Inl e \<Rightarrow> undefined)"
  have map: "zs = map g vs" if "res_map f vs = Inr zs" for vs zs
    using that by (induction vs arbitrary: zs) (auto simp: res_simps g_def)
  have "set xs = set xs'" using assms(1) by (rule mset_eq_setD)
  then obtain ys' where ys': "res_map f xs' = Inr ys'"
    using assms(2) res_map_Inr_iff [of f xs] res_map_Inr_iff [of f xs'] by metis
  have "mset ys' = mset ys" using map [OF ys'] map [OF assms(2)] assms(1) by simp
  with ys' show ?thesis by blast
qed

lemma sortRules_mset:
  assumes "mset rs = mset rs'" "distinct (map ruleVersion rs)"
  shows "sortRules rs = sortRules rs'"
  unfolding sortRules_def
proof (rule sort_key_eq_sort_key)
  show "mset rs = mset rs'" by (rule assms(1))
qed (use assms(2) in \<open>auto simp: inj_on_def distinct_map\<close>)

lemma catalog_literal:
  assumes "length vs \<le> 128" "vs \<noteq> []"
  shows "normalizeRoutingFeeRuleCatalogV1 (mk_object [(''schemaVersion'', js_int 1), (''rules'', mk_array vs)]) =
    res_bind (rethrow INVALID_RULE_CATALOG (res_map normalizeRoutingFeeRuleVersionV1 vs)) (\<lambda>parsed.
      if distinct (map ruleReferenceId (sortRules parsed)) \<and> distinct (map ruleVersion (sortRules parsed)) \<and>
         consecutiveRules (sortRules parsed)
      then Inr (sortRules parsed) else Inl INVALID_RULE_CATALOG)"
proof -
  have r: "exactDataRecord (mk_object [(''schemaVersion'', js_int 1), (''rules'', mk_array vs)])
      [''schemaVersion'', ''rules''] INVALID_RULE_CATALOG = Inr [(''schemaVersion'', js_int 1), (''rules'', mk_array vs)]"
    by (rule exactDataRecord_literal) simp_all
  have a: "ownDataArray (mk_array vs) 1 128 INVALID_RULE_CATALOG = Inr vs"
    using assms by (simp add: ownDataArray_def exact_data_array_literal Suc_le_eq)
  have "res_bind (require e p) (\<lambda>_. res_bind (require e q) (\<lambda>_. Inr x)) = (if p \<and> q then Inr x else Inl e)"
    for e :: RoutingFeeValidationCode and p q and x :: "RoutingFeeRuleVersionV1 list"
    by (simp add: require_def)
  then show ?thesis
    unfolding normalizeRoutingFeeRuleCatalogV1_def r res_bind.simps
    by (simp add: fee_get_Cons a Let_def del: One_nat_def)
qed

lemma sortRules_distinct:
  "distinct (map f (sortRules rs)) = distinct (map f rs)"
  by (simp add: sortRules_def distinct_map)

lemma catalog_order:
  assumes "mset vs = mset vs'" "length vs \<le> 128" "vs \<noteq> []"
  shows "normalizeRoutingFeeRuleCatalogV1 (mk_object [(''schemaVersion'', js_int 1), (''rules'', mk_array vs)]) =
    normalizeRoutingFeeRuleCatalogV1 (mk_object [(''schemaVersion'', js_int 1), (''rules'', mk_array vs')])"
proof -
  have len: "length vs' \<le> 128" "vs' \<noteq> []"
    using assms mset_eq_length [OF assms(1)] by auto
  show ?thesis
  proof (cases "res_map normalizeRoutingFeeRuleVersionV1 vs")
    case (Inl e)
    then have "\<nexists>ps. res_map normalizeRoutingFeeRuleVersionV1 vs' = Inr ps"
      using res_map_mset [OF assms(1) [symmetric]] by fastforce
    then obtain e' where "res_map normalizeRoutingFeeRuleVersionV1 vs' = Inl e'"
      by (cases "res_map normalizeRoutingFeeRuleVersionV1 vs'") auto
    with Inl show ?thesis unfolding catalog_literal [OF assms(2,3)] catalog_literal [OF len] by simp
  next
    case (Inr ps)
    then obtain ps' where ps': "res_map normalizeRoutingFeeRuleVersionV1 vs' = Inr ps'" "mset ps' = mset ps"
      using res_map_mset [OF assms(1)] by blast
    have d: "distinct (map ruleVersion ps') = distinct (map ruleVersion ps)"
      using ps'(2) by (metis mset_eq_imp_distinct_iff mset_map)
    show ?thesis
    proof (cases "distinct (map ruleVersion ps)")
      case True
      then have "sortRules ps = sortRules ps'" using ps'(2) by (metis sortRules_mset)
      then show ?thesis
        unfolding catalog_literal [OF assms(2,3)] catalog_literal [OF len] Inr ps'(1) by simp
    next
      case False
      then show ?thesis
        unfolding catalog_literal [OF assms(2,3)] catalog_literal [OF len] Inr ps'(1)
        by (simp add: sortRules_distinct d)
    qed
  qed
qed

subsection \<open>Totals\<close>

definition asset_total :: "string \<Rightarrow> RoutingFeeComponentV1 list \<Rightarrow> nat" where
  "asset_total a cs = sum_list (map (\<lambda>c. dec_val (comp_amountAtomic c)) (filter (\<lambda>c. comp_assetRevisionId c = a) cs))"

definition total_of :: "(string \<times> nat) list \<Rightarrow> string \<Rightarrow> nat" where
  "total_of ts a = (case map_of ts a of None \<Rightarrow> 0 | Some n \<Rightarrow> n)"

lemma addTotals_sound:
  assumes "addTotals cs ts = Inr us" "distinct (map fst ts)" "\<forall>n \<in> snd ` set ts. n < 2 ^ 256"
  shows "distinct (map fst us) \<and> set (map fst us) = set (map fst ts) \<union> comp_assetRevisionId ` set cs \<and>
    (\<forall>a. total_of us a = total_of ts a + asset_total a cs) \<and> (\<forall>n \<in> snd ` set us. n < 2 ^ 256)"
  using assms
proof (induction cs arbitrary: ts)
  case Nil
  then show ?case by (simp add: asset_total_def)
next
  case (Cons c cs)
  define nxt where "nxt = total_of ts (comp_assetRevisionId c) + dec_val (comp_amountAtomic c)"
  define ts' where "ts' = AList.update (comp_assetRevisionId c) nxt ts"
  from Cons.prems(1) have n: "\<not> nxt > 2 ^ 256 - 1" and r: "addTotals cs ts' = Inr us"
    unfolding addTotals.simps Let_def max_fee_val nxt_def ts'_def total_of_def by (auto split: if_splits)
  have n': "nxt < 2 ^ 256" using n le_pred_iff [of "2 ^ 256" nxt] by simp
  have dist: "distinct (map fst ts')" unfolding ts'_def using Cons.prems(2) by (rule distinct_update)
  have sub: "snd ` set ts' \<subseteq> insert nxt (snd ` set ts)"
    unfolding ts'_def by (induction ts) auto
  have keys: "set (map fst ts') = insert (comp_assetRevisionId c) (set (map fst ts))"
    unfolding ts'_def by (auto simp: update_keys split: if_splits)
  have tot: "total_of ts' a = total_of ts a + (if a = comp_assetRevisionId c then dec_val (comp_amountAtomic c) else 0)" for a
    by (simp add: ts'_def total_of_def update_conv nxt_def)
  have "\<forall>n \<in> snd ` set ts'. n < 2 ^ 256" using sub Cons.prems(3) n' by blast
  note ih = Cons.IH [OF r dist this]
  have "set (map fst us) = set (map fst ts) \<union> comp_assetRevisionId ` set (c # cs)"
    using ih unfolding keys by auto
  moreover have "total_of us a = total_of ts a + asset_total a (c # cs)" for a
    using ih by (simp add: tot asset_total_def)
  ultimately show ?case using ih by blast
qed

lemma totalsByAsset_sound:
  assumes "totalsByAsset cs = Inr ts"
  shows "map fee_assetRevisionId ts = sorted_list_of_set (comp_assetRevisionId ` set cs) \<and>
    (\<forall>t \<in> set ts. \<exists>n. fee_amountAtomic t = nat_text n \<and> n = asset_total (fee_assetRevisionId t) cs \<and> n < 2 ^ 256)"
proof -
  obtain us where us: "addTotals cs [] = Inr us"
    and ts: "ts = map (\<lambda>(asset, amount). \<lparr>fee_assetRevisionId = asset, fee_amountAtomic = nat_text amount\<rparr>) (sort_key fst us)"
    using assms by (auto simp: totalsByAsset_def res_simps)
  from addTotals_sound [OF us] have u: "distinct (map fst us)" "set (map fst us) = comp_assetRevisionId ` set cs"
    "\<forall>a. total_of us a = asset_total a cs" "\<forall>n \<in> snd ` set us. n < 2 ^ 256"
    by (auto simp: total_of_def)
  have "map fee_assetRevisionId ts = map fst (sort_key fst us)" by (simp add: ts case_prod_beta)
  also have "\<dots> = sorted_list_of_set (set (map fst us))"
    by (rule sorted_distinct_set_unique) (use u(1) in \<open>auto simp: distinct_map intro: inj_on_subset\<close>)
  finally have 1: "map fee_assetRevisionId ts = sorted_list_of_set (comp_assetRevisionId ` set cs)"
    unfolding u(2) .
  have "\<exists>n. fee_amountAtomic t = nat_text n \<and> n = asset_total (fee_assetRevisionId t) cs \<and> n < 2 ^ 256"
    if "t \<in> set ts" for t
  proof -
    from that obtain a n where an: "(a, n) \<in> set us" "t = \<lparr>fee_assetRevisionId = a, fee_amountAtomic = nat_text n\<rparr>"
      by (auto simp: ts)
    then have "total_of us a = n" using u(1) by (simp add: total_of_def map_of_is_SomeI)
    then show ?thesis using an u(3,4) by force
  qed
  with 1 show ?thesis by blast
qed

subsection \<open>Snapshots\<close>

lemma snapshot_json_fingerprint: "snapshot_json (s\<lparr>fingerprintSha256 := x\<rparr>) = snapshot_json s"
  by (simp add: snapshot_json_def)

lemma snapshot_success:
  assumes "calculateRoutingFeeSnapshotV1 sha256 v cat = Inr s"
  shows "\<exists>routeValue baseValue raw pt fee.
    resolveRoutingFeeRuleV1 cat (JString (quotedAt s)) = Inr (snapshotRule s) \<and>
    normalizeRoutingFeeRouteV1 routeValue = Inr (snapshotRoute s) \<and>
    routeClassification s = classifyNormalizedRoute (snapshotRoute s) \<and>
    parseFeeBase baseValue = Inr (feeBase s) \<and>
    length raw \<le> 31 \<and> res_map parsePassThroughComponent raw = Inr pt \<and>
    calculateRoutingFeeAtomicAmount (JString (fee_amountAtomic (feeBase s)))
      (decimal_object (platformRate (snapshotRule s) (routeClassification s) (snapshotTier s)))
      (JString (rounding_text (roundingMode (snapshotRule s)))) = Inr fee \<and>
    components s = feeComponents (feeBase s) fee (snapshotRule s) pt \<and>
    totalsByAsset (components s) = Inr (snapshotTotals s) \<and>
    fingerprintSha256 s = fingerprint sha256 (snapshot_json s) \<and> sha256_hex (fingerprintSha256 s)"
proof -
  obtain fields quoteRef routeRef quoted tier route base raw pt rule fee totals fp where
    "normalizeRoutingFeeRouteV1 (js_get fields ''route'') = Inr route"
    "parseFeeBase (js_get fields ''feeBase'') = Inr base"
    and raw: "ownDataArray (js_get fields ''passThroughComponents'') 0 (MAX_FEE_COMPONENTS - 1) INVALID_FEE_COMPONENT = Inr raw"
    and "res_map parsePassThroughComponent raw = Inr pt"
    "resolveRoutingFeeRuleV1 cat (JString quoted) = Inr rule"
    "calculateRoutingFeeAtomicAmount (JString (fee_amountAtomic base))
       (decimal_object (platformRate rule (classifyNormalizedRoute route) tier))
       (JString (rounding_text (roundingMode rule))) = Inr fee"
    "totalsByAsset (feeComponents base fee rule pt) = Inr totals"
    and s: "s = \<lparr>quoteReferenceId = quoteRef, routeReferenceId = routeRef, quotedAt = quoted, snapshotTier = tier,
           snapshotRule = rule, snapshotRoute = route, routeClassification = classifyNormalizedRoute route, feeBase = base,
           components = feeComponents base fee rule pt, snapshotTotals = totals, fingerprintSha256 = fp\<rparr>"
      "fp = fingerprint sha256 (snapshot_json \<lparr>quoteReferenceId = quoteRef, routeReferenceId = routeRef, quotedAt = quoted, snapshotTier = tier,
           snapshotRule = rule, snapshotRoute = route, routeClassification = classifyNormalizedRoute route, feeBase = base,
           components = feeComponents base fee rule pt, snapshotTotals = totals, fingerprintSha256 = []\<rparr>)" "sha256_hex fp"
    using assms
    unfolding calculateRoutingFeeSnapshotV1_def res_bind_eq_Inr require_eq_Inr Let_def
    by (elim exE conjE) (rule that; simp split: if_splits)
  moreover have "fp = fingerprint sha256 (snapshot_json s)"
    using s(2) snapshot_json_fingerprint [of "[]" s] unfolding s(1) by (simp only: RoutingFeeSnapshotV1.update_convs)
  moreover have "length raw \<le> 31"
    using raw exact_data_array_bounds by (fastforce simp: ownDataArray_def res_simps MAX_FEE_COMPONENTS_def)
  moreover have "quotedAt s = quoted" "snapshotRule s = rule" "snapshotRoute s = route" "snapshotTier s = tier"
    "routeClassification s = classifyNormalizedRoute route" "feeBase s = base"
    "components s = feeComponents base fee rule pt" "snapshotTotals s = totals" "fingerprintSha256 s = fp"
    by (simp_all add: s(1))
  ultimately show ?thesis using s(3) by (simp only:) blast
qed

end
