(* ===== verification/Routing_Fee_Correct.thy ===== *)
theory Routing_Fee_Correct
  imports Routing_Fee
begin

text \<open>
  Correctness of the routing fees: exact rounding and its bounds, the catalog of rules, the
  classification of routes, and the snapshot of a quote, over the model of \<open>Routing_Fee\<close>.
\<close>

lemma rounding_member:
  "(enumMember rounding_text ROUTING_FEE_ROUNDING_MODES (JString (rounding_text x)) c = Inr m) = (m = x)"
  by (auto simp: enumMember_def res_simps rounding.parse_spell)

lemma parseDecimal_object_same:
  assumes "parseDecimal (decimal_object d) c = Inr d'"
  shows "d' = d"
proof -
  have "exactDataRecord (decimal_object d) [''mantissa'', ''scale''] c =
      Inr [(''mantissa'', JString (mantissa d)), (''scale'', js_int (int (scale d)))]"
    unfolding decimal_object_def by (rule exactDataRecord_literal) simp_all
  with assms have "decimalOf (JString (mantissa d)) (js_int (int (scale d))) = Some d'"
    by (simp add: parseDecimal_def fee_get_Cons res_simps del: decimalOf.simps)
  then show ?thesis unfolding decimalOf_iff by simp
qed

lemma calculate_no_limit_error: "calculateRoutingFeeAtomicAmount v r mv \<noteq> Inl NUMERIC_LIMIT_EXCEEDED"
proof
  assume e: "calculateRoutingFeeAtomicAmount v r mv = Inl NUMERIC_LIMIT_EXCEEDED"
  have 1: "parseAtomicAmount v True INVALID_ATOMIC_AMOUNT \<noteq> Inl NUMERIC_LIMIT_EXCEEDED" by (cases v) auto
  have 2: "parseDecimal r INVALID_RULE \<noteq> Inl NUMERIC_LIMIT_EXCEEDED"
    by (auto simp: parseDecimal_def exactDataRecord_def ownDataRecord_def of_option_def res_bind_eq_Inl split: option.splits)
  have 3: "enumMember rounding_text ROUTING_FEE_ROUNDING_MODES mv INVALID_RULE \<noteq> Inl NUMERIC_LIMIT_EXCEEDED"
    by (simp add: enumMember_def of_option_def split: option.splits)
  obtain s d m where "parseAtomicAmount v True INVALID_ATOMIC_AMOUNT = Inr s" "parseDecimal r INVALID_RULE = Inr d"
    "enumMember rounding_text ROUTING_FEE_ROUNDING_MODES mv INVALID_RULE = Inr m"
    using e 1 2 3 unfolding calculateRoutingFeeAtomicAmount_def
    by (cases "parseAtomicAmount v True INVALID_ATOMIC_AMOUNT"; cases "parseDecimal r INVALID_RULE";
        cases "enumMember rounding_text ROUTING_FEE_ROUNDING_MODES mv INVALID_RULE") auto
  from calculate_amount [OF this] e show False by simp
qed

lemma map_zip_lines: "map (\<lambda>x. Suc (Suc (fst x))) (zip [0..<length xs] xs) = [Suc (Suc 0)..<Suc (Suc (length xs))]"
proof -
  have "map (\<lambda>x. Suc (Suc (fst x))) (zip [0..<length xs] xs) = map Suc (map Suc (map fst (zip [0..<length xs] xs)))"
    by (simp only: map_map comp_def)
  also have "\<dots> = [Suc (Suc 0)..<Suc (Suc (length xs))]"
    by (simp only: map_fst_zip length_upt diff_zero map_Suc_upt)
  finally show ?thesis .
qed

subsection \<open>Routes\<close>

lemma sameEndpoint_iff: "sameEndpoint a b = (a = b)"
  by (cases a; cases b) (simp add: sameEndpoint_def)

lemma route_sound:
  assumes "normalizeRoutingFeeRouteV1 v = Inr r"
  shows "route_legs r \<noteq> [] \<and> length (route_legs r) \<le> 32 \<and> route_source r = leg_source (hd (route_legs r)) \<and>
    route_destination r = leg_destination (last (route_legs r)) \<and> connectedLegs (route_legs r) \<and>
    (\<forall>l \<in> set (route_legs r). legEndpointsFit (leg_kind l) (leg_source l) (leg_destination l))"
proof -
  obtain fields raw legs src dst where raw: "ownDataArray (js_get fields ''legs'') 1 MAX_ROUTE_LEGS INVALID_ROUTE = Inr raw"
    and legs: "res_map parseLeg raw = Inr legs"
    and ends: "sameEndpoint src (leg_source (hd legs)) \<and> sameEndpoint dst (leg_destination (last legs))"
    and con: "connectedLegs legs"
    and r: "r = \<lparr>route_source = src, route_destination = dst, route_legs = legs\<rparr>"
    using assms unfolding normalizeRoutingFeeRouteV1_def res_bind_eq_Inr require_eq_Inr sum.inject
    by (elim exE conjE, hypsubst) (rule that; simp)
  have "1 \<le> length raw \<and> length raw \<le> 32"
    using raw exact_data_array_bounds by (fastforce simp: ownDataArray_def res_simps MAX_ROUTE_LEGS_def)
  then have "legs \<noteq> [] \<and> length legs \<le> 32" using res_map_length [OF legs] by auto
  moreover have "\<forall>l \<in> set legs. legEndpointsFit (leg_kind l) (leg_source l) (leg_destination l)"
    by (rule res_map_all [OF legs]) (auto simp: parseLeg_def res_simps)
  ultimately show ?thesis using ends con by (simp add: r sameEndpoint_iff)
qed

lemmas route_legs_nonempty = route_sound [THEN conjunct1]

lemma direct_classification:
  assumes "route_legs r \<noteq> []"
  shows "(class_kind (classifyNormalizedRoute r) = DIRECT_COMPATIBLE) =
    (\<exists>l. route_legs r = [l] \<and> leg_kind l = DIRECT_SETTLEMENT)"
proof (cases "route_legs r")
  case (Cons l ls)
  show ?thesis
    using Cons by (cases ls; cases "leg_kind l") (auto simp: classifyNormalizedRoute_def Let_def)
qed (use assms in simp)

lemma direct_route_endpoints:
  assumes "normalizeRoutingFeeRouteV1 v = Inr r" "route_legs r = [l]" "leg_kind l = DIRECT_SETTLEMENT"
  shows "route_source r = route_destination r"
  using route_sound [OF assms(1)] assms(2,3) by (auto simp: sameEndpoint_iff)

lemma legs_same_network:
  "ls \<noteq> [] \<Longrightarrow> connectedLegs ls \<Longrightarrow>
   \<forall>l \<in> set ls. legEndpointsFit (leg_kind l) (leg_source l) (leg_destination l) \<Longrightarrow>
   \<forall>l \<in> set ls. leg_kind l \<noteq> BRIDGE \<Longrightarrow>
   networkId (leg_source (hd ls)) = networkId (leg_destination (last ls))"
proof (induction ls rule: induct_list012)
  case (2 a)
  then show ?case by (cases "leg_kind a") (auto simp: sameEndpoint_iff)
next
  case (3 a b ls)
  have "networkId (leg_source a) = networkId (leg_destination a)"
    using "3.prems"(3,4) by (cases "leg_kind a") (auto simp: sameEndpoint_iff)
  with 3 show ?case by (auto simp: sameEndpoint_iff)
qed simp

subsection \<open>Examples\<close>

definition sample_rule :: "nat \<Rightarrow> string \<Rightarrow> string option \<Rightarrow> RoutingFeeRuleVersionV1" where
  "sample_rule n from until =
     \<lparr>ruleReferenceId = ''76000000-0000-4000-8000-00000000000'' @ nat_text n, ruleVersion = n, effectiveFrom = from,
      effectiveUntil = until, roundingMode = HALF_EVEN, directCompatible = \<lparr>mantissa = ''0'', scale = 0\<rparr>,
      materialOrchestration = \<lparr>rate_FREE = \<lparr>mantissa = ''20'', scale = 4\<rparr>,
        rate_INDIVIDUAL = \<lparr>mantissa = ''12'', scale = 4\<rparr>, rate_PRO = \<lparr>mantissa = ''8'', scale = 4\<rparr>\<rparr>\<rparr>"

abbreviation first_day :: string where "first_day \<equiv> ''2026-08-25T00:00:00.000Z''"
abbreviation second_day :: string where "second_day \<equiv> ''2026-09-25T00:00:00.000Z''"

definition sample_rules :: "RoutingFeeRuleVersionV1 list" where
  "sample_rules = [sample_rule 1 first_day (Some second_day), sample_rule 2 second_day None]"

text \<open>An example quote: a swap of one asset on one network, with one network fee passed through.\<close>

definition endpoint_object :: "string \<Rightarrow> string \<Rightarrow> jsval" where
  "endpoint_object network asset = mk_object [(''networkId'', JString network), (''assetId'', JString asset)]"

definition sample_route :: jsval where
  "sample_route = mk_object
     [(''schemaVersion'', js_int 1), (''source'', endpoint_object ''solana'' ''usdc''),
      (''destination'', endpoint_object ''solana'' ''usdt''),
      (''legs'', mk_array [mk_object [(''kind'', JString ''SWAP''), (''source'', endpoint_object ''solana'' ''usdc''),
         (''destination'', endpoint_object ''solana'' ''usdt'')]])]"

definition sample_quote :: jsval where
  "sample_quote = mk_object
     [(''schemaVersion'', js_int 1),
      (''quoteReferenceId'', JString ''10000000-0000-4000-8000-00000000000a''),
      (''routeReferenceId'', JString ''10000000-0000-4000-8000-00000000000b''),
      (''quotedAt'', JString first_day), (''route'', sample_route),
      (''feeBase'', mk_object [(''assetRevisionId'', JString ''10000000-0000-4000-8000-00000000000c''),
         (''amountAtomic'', JString ''12345'')]),
      (''passThroughComponents'', mk_array [mk_object
         [(''category'', JString ''NETWORK''), (''assetRevisionId'', JString ''10000000-0000-4000-8000-00000000000c''),
          (''amountAtomic'', JString ''7''), (''deductionMode'', JString ''ADDED_ON_TOP''),
          (''sourceReferenceId'', JString ''10000000-0000-4000-8000-00000000000d'')]])]"

abbreviation sample_digest :: "string \<Rightarrow> string" where
  "sample_digest \<equiv> \<lambda>_. replicate 64 (CHR ''a'')"

definition V1_RULES :: "RoutingFeeRuleVersionV1 list" where
  "V1_RULES = [sample_rule 1 first_day None]"

lemma basis_point_texts: "nat_text 20 = ''20''" "nat_text 12 = ''12''" "nat_text 8 = ''8''"
  by code_simp+

lemma v1_catalog: "ROUTING_FEE_RULE_CATALOG_V1 = Inr V1_RULES"
  by code_simp

lemma v1_normal: "normalizeRoutingFeeRuleCatalogV1 (catalog_object V1_RULES) = Inr V1_RULES"
  by code_simp

definition direct_result :: "RoutingFeeSnapshotV1 fee_result \<Rightarrow> bool" where
  "direct_result r = (case r of Inl _ \<Rightarrow> False | Inr s \<Rightarrow> class_kind (routeClassification s) = DIRECT_COMPATIBLE)"

definition material_result :: "RoutingFeeSnapshotV1 fee_result \<Rightarrow> bool" where
  "material_result r = (case r of Inl _ \<Rightarrow> False | Inr s \<Rightarrow> class_kind (routeClassification s) = MATERIAL_ORCHESTRATION)"

definition sample_direct_quote :: jsval where
  "sample_direct_quote = mk_object
     [(''schemaVersion'', js_int 1),
      (''quoteReferenceId'', JString ''10000000-0000-4000-8000-00000000000a''),
      (''routeReferenceId'', JString ''10000000-0000-4000-8000-00000000000b''),
      (''quotedAt'', JString first_day), (''tier'', JString ''PRO''),
      (''route'', mk_object
         [(''schemaVersion'', js_int 1), (''source'', endpoint_object ''solana'' ''usdc''),
          (''destination'', endpoint_object ''solana'' ''usdc''),
          (''legs'', mk_array [mk_object [(''kind'', JString ''DIRECT_SETTLEMENT''),
             (''source'', endpoint_object ''solana'' ''usdc''), (''destination'', endpoint_object ''solana'' ''usdc'')]])]),
      (''feeBase'', mk_object [(''assetRevisionId'', JString ''10000000-0000-4000-8000-00000000000c''),
         (''amountAtomic'', JString ''12345'')]),
      (''passThroughComponents'', mk_array [])]"

lemma sample_quote_material:
  "material_result (calculateRoutingFeeSnapshotV1 sample_digest sample_quote (catalog_object V1_RULES))"
  by code_simp

lemma sample_direct_quote_ok:
  "direct_result (calculateRoutingFeeSnapshotV1 sample_digest sample_direct_quote (catalog_object V1_RULES))"
  by code_simp

lemma sample_quote_accepted:
  "\<exists>s. calculateRoutingFeeSnapshotV1 sample_digest sample_quote (catalog_object V1_RULES) = Inr s"
  using sample_quote_material by (auto simp: material_result_def split: sum.splits)

subsection \<open>Properties\<close>

text \<open>C31. Exact rounding. A fee amount is computed exactly for a decimal amount below 2^256, a
  valid rate and a rounding mode, and then it spells the unique integer that the mode
  prescribes for amount times rate: the floor, the ceiling, or the nearest integer with ties
  to even.
\<close>

theorem fee_amount_exact:
  "(calculateRoutingFeeAtomicAmount v r mv = Inr t) =
     (\<exists>amount rate mode fee. v = JString (nat_text amount) \<and> amount < 2 ^ 256 \<and>
        parseDecimal r INVALID_RULE = Inr rate \<and> mv = JString (rounding_text mode) \<and>
        t = nat_text fee \<and> rounded mode (amount * dec_val (mantissa rate)) (10 ^ scale rate) fee)"
proof -
  have m: "(enumMember rounding_text ROUTING_FEE_ROUNDING_MODES mv INVALID_RULE = Inr mode) = (mv = JString (rounding_text mode))"
    for mode by (simp add: enumMember_def res_simps rounding.parse_iff)
  have r: "rounded mode n (10 ^ k) fee = (roundRatio n (10 ^ k) mode = fee)" for mode n k fee
    by (simp add: roundRatio_iff)
  show ?thesis
    unfolding calculate_success feeAtomicAmount_iff m r by auto
qed

text \<open>The fee never exceeds the amount. A computed fee is at most the amount it is charged
  on, a larger amount never pays less at the same rate, and the numeric limit is never the
  reason for a refusal.
\<close>

theorem fee_bounded_and_monotone:
  "calculateRoutingFeeAtomicAmount v r mv \<noteq> Inl NUMERIC_LIMIT_EXCEEDED \<and>
   (\<forall>a t. calculateRoutingFeeAtomicAmount (JString (nat_text a)) r mv = Inr t \<longrightarrow> dec_val t \<le> a) \<and>
   (\<forall>a b t u. a \<le> b \<and> calculateRoutingFeeAtomicAmount (JString (nat_text a)) r mv = Inr t \<and>
      calculateRoutingFeeAtomicAmount (JString (nat_text b)) r mv = Inr u \<longrightarrow> dec_val t \<le> dec_val u)"
proof (intro conjI allI impI)
  show "calculateRoutingFeeAtomicAmount v r mv \<noteq> Inl NUMERIC_LIMIT_EXCEEDED"
    by (rule calculate_no_limit_error)
  show "dec_val t \<le> a" if "calculateRoutingFeeAtomicAmount (JString (nat_text a)) r mv = Inr t" for a t
    using that fee_le_amount [OF parseDecimal_sound] unfolding calculate_success feeAtomicAmount_iff by auto
  show "dec_val t \<le> dec_val u"
    if "a \<le> b \<and> calculateRoutingFeeAtomicAmount (JString (nat_text a)) r mv = Inr t \<and>
      calculateRoutingFeeAtomicAmount (JString (nat_text b)) r mv = Inr u" for a b t u
    using that unfolding calculate_success feeAtomicAmount_iff
    by (auto intro!: roundRatio_mono mult_right_mono)
qed

theorem fee_bounded_and_monotone_witness:
  "\<exists>t. calculateRoutingFeeAtomicAmount (JString (nat_text 12345)) (decimal_object \<lparr>mantissa = ''20'', scale = 4\<rparr>)
     (JString ''HALF_EVEN'') = Inr t \<and> dec_val t \<le> 12345"
proof -
  have "calculateRoutingFeeAtomicAmount (JString (nat_text 12345)) (decimal_object \<lparr>mantissa = ''20'', scale = 4\<rparr>)
     (JString ''HALF_EVEN'') = Inr ''25''" by code_simp
  then show ?thesis using fee_bounded_and_monotone by blast
qed

text \<open>C32. One rule at a time. In an accepted catalog two different rules never cover the same
  instant; a rule is resolved for an instant exactly when it is the rule of the catalog that
  covers it, so resolution fails only where the catalog has a gap.
\<close>

theorem one_rule_at_a_time:
  assumes "normalizeRoutingFeeRuleCatalogV1 v = Inr rules"
  shows "(resolveRoutingFeeRuleV1 v (JString at) = Inr r) = (canonical_utc at \<and> r \<in> set rules \<and> ruleCovers at r) \<and>
    (\<forall>a \<in> set rules. \<forall>b \<in> set rules. ruleCovers at a \<and> ruleCovers at b \<longrightarrow> a = b)"
  using resolve_success [OF assms] catalog_sound [OF assms] covering_rules_agree by blast

lemma sample_catalog_accepted: "normalizeRoutingFeeRuleCatalogV1 (catalog_object sample_rules) = Inr sample_rules"
  by code_simp

theorem one_rule_at_a_time_witness:
  "resolveRoutingFeeRuleV1 (catalog_object sample_rules) (JString second_day) = Inr (sample_rule 2 second_day None)"
proof -
  have "canonical_utc second_day" by code_simp
  moreover have "ruleCovers second_day (sample_rule 2 second_day None)" by code_simp
  moreover have "sample_rule 2 second_day None \<in> set sample_rules" by (simp add: sample_rules_def)
  ultimately show ?thesis
    using one_rule_at_a_time [OF sample_catalog_accepted, of second_day "sample_rule 2 second_day None"] by blast
qed

text \<open>The order of the rules in the input does not matter: catalogs that list the same rules
  in another order are refused together or normalise to the same catalog.
\<close>

theorem catalog_order_irrelevant:
  assumes "mset vs = mset vs'" "vs \<noteq> []" "length vs \<le> 128"
  shows "normalizeRoutingFeeRuleCatalogV1 (mk_object [(''schemaVersion'', js_int 1), (''rules'', mk_array vs)]) =
    normalizeRoutingFeeRuleCatalogV1 (mk_object [(''schemaVersion'', js_int 1), (''rules'', mk_array vs')])"
  by (rule catalog_order [OF assms(1,3,2)])

theorem catalog_order_irrelevant_witness:
  "normalizeRoutingFeeRuleCatalogV1 (mk_object [(''schemaVersion'', js_int 1),
     (''rules'', mk_array (map rule_object (rev sample_rules)))]) = Inr sample_rules"
proof -
  have "mset (map rule_object (rev sample_rules)) = mset (map rule_object sample_rules)"
    by (simp add: sample_rules_def)
  from catalog_order_irrelevant [OF this] show ?thesis
    using sample_catalog_accepted by (simp add: catalog_object_def sample_rules_def)
qed

text \<open>Totals are sums. In every snapshot the totals list each asset of the components exactly
  once, in ascending order, with the exact sum of the component amounts in that asset, which
  is below 2^256; amounts of different assets are never added together.
\<close>

theorem snapshot_totals_are_sums:
  assumes "calculateRoutingFeeSnapshotV1 sha256 v cat = Inr s"
  shows "map fee_assetRevisionId (snapshotTotals s) = sorted_list_of_set (comp_assetRevisionId ` set (components s)) \<and>
    (\<forall>t \<in> set (snapshotTotals s). dec_val (fee_amountAtomic t) < 2 ^ 256 \<and>
       dec_val (fee_amountAtomic t) = (\<Sum>c \<leftarrow> components s. if comp_assetRevisionId c = fee_assetRevisionId t
          then dec_val (comp_amountAtomic c) else 0))"
proof -
  have *: "asset_total a cs = (\<Sum>c \<leftarrow> cs. if comp_assetRevisionId c = a then dec_val (comp_amountAtomic c) else 0)" for a cs
    by (induction cs) (auto simp: asset_total_def)
  have "totalsByAsset (components s) = Inr (snapshotTotals s)" using snapshot_success [OF assms] by blast
  from totalsByAsset_sound [OF this] show ?thesis unfolding * by fastforce
qed

theorem snapshot_totals_are_sums_witness:
  "\<exists>s. calculateRoutingFeeSnapshotV1 sample_digest sample_quote (catalog_object V1_RULES) = Inr s \<and>
    map fee_assetRevisionId (snapshotTotals s) = sorted_list_of_set (comp_assetRevisionId ` set (components s))"
  using sample_quote_accepted snapshot_totals_are_sums by blast

text \<open>The platform fee. Every snapshot has at most 32 lines numbered from 1; the first is the
  platform fee in the asset of the fee base, added on top, at most the fee base, and exactly
  the rounding of base times the rate of the effective rule for the route's class and the
  tier; the remaining lines are pass-through quotes.
\<close>

theorem snapshot_platform_line:
  assumes "calculateRoutingFeeSnapshotV1 sha256 v cat = Inr s"
  shows "length (components s) \<le> 32 \<and>
    map lineNumber (components s) = [1..<length (components s) + 1] \<and>
    (\<exists>base fee rest. components s = \<lparr>lineNumber = 1, comp_category = PLATFORM,
        comp_assetRevisionId = fee_assetRevisionId (feeBase s), comp_amountAtomic = nat_text fee,
        comp_deductionMode = ADDED_ON_TOP, comp_source = PLATFORM_RULE,
        comp_sourceReferenceId = ruleReferenceId (snapshotRule s)\<rparr> # rest \<and>
      list_all (\<lambda>c. comp_source c = PASS_THROUGH_QUOTE) rest \<and>
      fee_amountAtomic (feeBase s) = nat_text base \<and> fee \<le> base \<and>
      (let rate = platformRate (snapshotRule s) (routeClassification s) (snapshotTier s)
       in rounded (roundingMode (snapshotRule s)) (base * dec_val (mantissa rate)) (10 ^ scale rate) fee))"
proof -
  obtain raw pt fee where raw: "length raw \<le> 31" "res_map parsePassThroughComponent raw = Inr pt"
    and fee: "calculateRoutingFeeAtomicAmount (JString (fee_amountAtomic (feeBase s)))
      (decimal_object (platformRate (snapshotRule s) (routeClassification s) (snapshotTier s)))
      (JString (rounding_text (roundingMode (snapshotRule s)))) = Inr fee"
    and c: "components s = feeComponents (feeBase s) fee (snapshotRule s) pt"
    using snapshot_success [OF assms] by blast
  let ?d = "platformRate (snapshotRule s) (routeClassification s) (snapshotTier s)"
  obtain base d n where b: "fee_amountAtomic (feeBase s) = nat_text base" and d: "parseDecimal (decimal_object ?d) INVALID_RULE = Inr d"
    and n: "fee = nat_text n" "n = roundRatio (base * dec_val (mantissa d)) (10 ^ scale d) (roundingMode (snapshotRule s))"
    using fee unfolding calculate_success feeAtomicAmount_iff
    by (auto simp: enumMember_def res_simps rounding.parse_iff dest: rounding.spell_inj)
  have dd: "d = ?d" using d by (rule parseDecimal_object_same)
  have r: "rounded (roundingMode (snapshotRule s)) (base * dec_val (mantissa ?d)) (10 ^ scale ?d) n"
    using n(2) by (simp add: roundRatio_iff [symmetric] dd)
  have le: "n \<le> base" using fee_le_amount [OF parseDecimal_sound [OF d]] n(2) by simp
  have len: "length pt \<le> 31" using raw res_map_length by metis
  show ?thesis
    using len b r le
    by (auto simp: c feeComponents_def n(1) Let_def passThroughLine_def list_all_iff comp_def case_prod_beta
        map_zip_lines upt_conv_Cons simp del: upt_Suc)
qed

theorem snapshot_platform_line_witness:
  "\<exists>s. calculateRoutingFeeSnapshotV1 sample_digest sample_quote (catalog_object V1_RULES) = Inr s \<and>
    map lineNumber (components s) = [1..<length (components s) + 1]"
  using sample_quote_accepted snapshot_platform_line by blast

text \<open>Direct routes are free. A route is classified as direct exactly when it is a single
  direct settlement, which leaves network and asset unchanged; a snapshot of such a route
  carries a platform fee of zero, whatever the tier and the rule.
\<close>

theorem direct_route_pays_no_platform_fee:
  assumes "calculateRoutingFeeSnapshotV1 sha256 v cat = Inr s"
  shows "(class_kind (routeClassification s) = DIRECT_COMPATIBLE) =
      (\<exists>l. route_legs (snapshotRoute s) = [l] \<and> leg_kind l = DIRECT_SETTLEMENT) \<and>
    (class_kind (routeClassification s) = DIRECT_COMPATIBLE \<longrightarrow>
      route_source (snapshotRoute s) = route_destination (snapshotRoute s) \<and>
      comp_amountAtomic (hd (components s)) = ''0'')"
proof -
  obtain rv bv raw pt fee where rule: "resolveRoutingFeeRuleV1 cat (JString (quotedAt s)) = Inr (snapshotRule s)"
    and route: "normalizeRoutingFeeRouteV1 rv = Inr (snapshotRoute s)"
    and cls: "routeClassification s = classifyNormalizedRoute (snapshotRoute s)"
    and fee: "calculateRoutingFeeAtomicAmount (JString (fee_amountAtomic (feeBase s)))
      (decimal_object (platformRate (snapshotRule s) (routeClassification s) (snapshotTier s)))
      (JString (rounding_text (roundingMode (snapshotRule s)))) = Inr fee"
    and comps: "components s = feeComponents (feeBase s) fee (snapshotRule s) pt"
    using snapshot_success [OF assms] by blast
  have iff: "(class_kind (routeClassification s) = DIRECT_COMPATIBLE) =
      (\<exists>l. route_legs (snapshotRoute s) = [l] \<and> leg_kind l = DIRECT_SETTLEMENT)"
    unfolding cls using route_legs_nonempty [OF route] by (rule direct_classification)
  have "comp_amountAtomic (hd (components s)) = ''0''" if "class_kind (routeClassification s) = DIRECT_COMPATIBLE"
  proof -
    obtain rules where "normalizeRoutingFeeRuleCatalogV1 cat = Inr rules"
      using rule by (auto simp: resolveRoutingFeeRuleV1_def res_simps)
    then have "valid_rule (snapshotRule s)" using rule resolve_success catalog_sound by blast
    then have z: "mantissa (directCompatible (snapshotRule s)) = ''0''" by (simp add: valid_rule_def)
    have "platformRate (snapshotRule s) (routeClassification s) (snapshotTier s) = directCompatible (snapshotRule s)"
      using that by (simp add: platformRate_def)
    then have "fee = ''0''"
      using fee z unfolding calculate_success
      by (auto dest!: parseDecimal_object_same simp: digit_val_def roundRatio_def nat_text_zero)
    then show ?thesis by (simp add: comps feeComponents_def)
  qed
  moreover have "route_source (snapshotRoute s) = route_destination (snapshotRoute s)"
    if "class_kind (routeClassification s) = DIRECT_COMPATIBLE"
    using that unfolding iff by (auto intro: direct_route_endpoints [OF route])
  ultimately show ?thesis using iff by blast
qed

theorem direct_route_pays_no_platform_fee_witness:
  "\<exists>s. calculateRoutingFeeSnapshotV1 sample_digest sample_direct_quote (catalog_object V1_RULES) = Inr s \<and>
    class_kind (routeClassification s) = DIRECT_COMPATIBLE \<and> comp_amountAtomic (hd (components s)) = ''0''"
proof -
  obtain s where s: "calculateRoutingFeeSnapshotV1 sample_digest sample_direct_quote (catalog_object V1_RULES) = Inr s"
    and d: "class_kind (routeClassification s) = DIRECT_COMPATIBLE"
    using sample_direct_quote_ok by (auto simp: direct_result_def split: sum.splits)
  from direct_route_pays_no_platform_fee [OF s] s d show ?thesis by blast
qed

text \<open>Moving between networks needs a bridge. A normalised route is a chain of legs from its
  source to its destination; when it ends on another network than it starts on, it has a
  bridge leg and its classification says so, and when source and destination differ at all,
  it is never classified as direct.
\<close>

theorem network_change_needs_bridge:
  assumes "normalizeRoutingFeeRouteV1 v = Inr r"
  shows "(networkId (route_source r) \<noteq> networkId (route_destination r) \<longrightarrow>
      BRIDGE_REQUIRED \<in> set (class_reasons (classifyNormalizedRoute r))) \<and>
    (route_source r \<noteq> route_destination r \<longrightarrow>
      class_kind (classifyNormalizedRoute r) = MATERIAL_ORCHESTRATION)"
proof (intro conjI impI)
  note s = route_sound [OF assms]
  assume "networkId (route_source r) \<noteq> networkId (route_destination r)"
  then have "\<exists>l \<in> set (route_legs r). leg_kind l = BRIDGE"
    using legs_same_network [of "route_legs r"] s by (metis (no_types, lifting))
  then show "BRIDGE_REQUIRED \<in> set (class_reasons (classifyNormalizedRoute r))"
    by (auto simp: classifyNormalizedRoute_def Let_def list_ex_iff)
next
  assume "route_source r \<noteq> route_destination r"
  then have "class_kind (classifyNormalizedRoute r) \<noteq> DIRECT_COMPATIBLE"
    using direct_classification [OF route_legs_nonempty [OF assms]] direct_route_endpoints [OF assms] by blast
  then show "class_kind (classifyNormalizedRoute r) = MATERIAL_ORCHESTRATION"
    by (cases "class_kind (classifyNormalizedRoute r)") auto
qed

theorem network_change_needs_bridge_witness:
  "\<exists>r. normalizeRoutingFeeRouteV1 sample_route = Inr r \<and> class_kind (classifyNormalizedRoute r) = MATERIAL_ORCHESTRATION"
proof -
  have ok: "normalizeRoutingFeeRouteV1 sample_route = Inr \<lparr>route_source = \<lparr>networkId = ''solana'', assetId = ''usdc''\<rparr>,
      route_destination = \<lparr>networkId = ''solana'', assetId = ''usdt''\<rparr>,
      route_legs = [\<lparr>leg_kind = SWAP, leg_source = \<lparr>networkId = ''solana'', assetId = ''usdc''\<rparr>,
        leg_destination = \<lparr>networkId = ''solana'', assetId = ''usdt''\<rparr>\<rparr>]\<rparr>"
    by code_simp
  from network_change_needs_bridge [OF ok] ok show ?thesis by simp
qed

text \<open>The published schedule. Under the catalog the module exports, every snapshot is quoted
  on or after 25 August 2026, and the platform fee of a material route is the fee base times
  20, 12 or 8 basis points for the free, individual and pro tier, rounded to the nearest
  atomic unit with ties to even.
\<close>

theorem version_one_schedule:
  assumes "ROUTING_FEE_RULE_CATALOG_V1 = Inr rules"
    and "calculateRoutingFeeSnapshotV1 sha256 v (catalog_object rules) = Inr s"
    and "class_kind (routeClassification s) = MATERIAL_ORCHESTRATION"
  shows "first_day \<le> quotedAt s \<and>
    (\<exists>base fee. fee_amountAtomic (feeBase s) = nat_text base \<and> comp_amountAtomic (hd (components s)) = nat_text fee \<and>
      rounded HALF_EVEN (base * ROUTING_FEE_V1_BASIS_POINTS (snapshotTier s)) 10000 fee)"
proof -
  have rules: "rules = V1_RULES" using assms(1) unfolding v1_catalog by (rule sum.inject(2) [THEN iffD1, symmetric])
  obtain fee pt where rule: "resolveRoutingFeeRuleV1 (catalog_object rules) (JString (quotedAt s)) = Inr (snapshotRule s)"
    and fee: "calculateRoutingFeeAtomicAmount (JString (fee_amountAtomic (feeBase s)))
      (decimal_object (platformRate (snapshotRule s) (routeClassification s) (snapshotTier s)))
      (JString (rounding_text (roundingMode (snapshotRule s)))) = Inr fee"
    and comps: "components s = feeComponents (feeBase s) fee (snapshotRule s) pt"
    using snapshot_success [OF assms(2)] by blast
  have r: "snapshotRule s = sample_rule 1 first_day None" "ruleCovers (quotedAt s) (snapshotRule s)"
    using rule unfolding rules resolve_success [OF v1_normal] by (auto simp: V1_RULES_def)
  have rate: "platformRate (snapshotRule s) (routeClassification s) (snapshotTier s) =
      \<lparr>mantissa = nat_text (ROUTING_FEE_V1_BASIS_POINTS (snapshotTier s)), scale = 4\<rparr>"
    using assms(3) by (cases "snapshotTier s") (simp_all add: r(1) platformRate_def sample_rule_def basis_point_texts)
  have mode: "roundingMode (snapshotRule s) = HALF_EVEN" by (simp add: r(1) sample_rule_def)
  obtain base d where b: "fee_amountAtomic (feeBase s) = nat_text base"
    and d: "parseDecimal (decimal_object \<lparr>mantissa = nat_text (ROUTING_FEE_V1_BASIS_POINTS (snapshotTier s)), scale = 4\<rparr>)
      INVALID_RULE = Inr d"
    and f: "fee = nat_text (roundRatio (base * dec_val (mantissa d)) (10 ^ scale d) HALF_EVEN)"
    using fee unfolding rate mode calculate_success feeAtomicAmount_iff rounding_member
    by (auto simp del: nat_text.simps)
  have "fee = nat_text (roundRatio (base * ROUTING_FEE_V1_BASIS_POINTS (snapshotTier s)) 10000 HALF_EVEN)"
    using f parseDecimal_object_same [OF d] by (simp del: nat_text.simps)
  moreover have "first_day \<le> quotedAt s" using r by (simp add: ruleCovers_def sample_rule_def)
  ultimately show ?thesis
    using b roundRatio_rounded [of 10000 HALF_EVEN] by (auto simp: comps feeComponents_def simp del: nat_text.simps rounded.simps)
qed

theorem version_one_schedule_witness:
  "\<exists>s. calculateRoutingFeeSnapshotV1 sample_digest sample_quote (catalog_object V1_RULES) = Inr s \<and>
    first_day \<le> quotedAt s"
proof -
  obtain s where s: "calculateRoutingFeeSnapshotV1 sample_digest sample_quote (catalog_object V1_RULES) = Inr s"
    "class_kind (routeClassification s) = MATERIAL_ORCHESTRATION"
    using sample_quote_material by (auto simp: material_result_def split: sum.splits)
  from version_one_schedule [OF v1_catalog this] s show ?thesis by blast
qed

end
