(* ===== verification/Base58.thy ===== *)
theory Base58
  imports Js_Prelude
begin

text \<open>
  Conversion between byte strings and Base58 texts, the algorithm shared by
  \<^verbatim>\<open>apps/api/src/wallets/domain/wallet-identity.ts\<close> and
  \<^verbatim>\<open>apps/api/src/mainnet-actions/domain/dormant-mainnet-financial-action-lifecycle.ts\<close>: a
  little-endian digit array is multiplied and added to in place, leading zeros are counted
  apart. The sources compute with \<open>&\<close>, \<open>>>\<close> and \<open><<\<close> on 32-bit integers; the operands stay far
  below that width (\<open>carry_bound\<close>), so the model uses division and remainder.

  Main facts: both directions compute the canonical digits of the same number, and they are
  inverse to each other.
\<close>

definition BASE58_ALPHABET :: string where
  "BASE58_ALPHABET = ''123456789ABCDEFGHJKLMNPQRSTUVWXYZabcdefghijkmnopqrstuvwxyz''"

subsection \<open>Digits\<close>

fun flush :: "nat \<Rightarrow> nat \<Rightarrow> nat list" where
  "flush base carry = (if carry = 0 \<or> base \<le> 1 then [] else carry mod base # flush base (carry div base))"

declare flush.simps [simp del]

text \<open>One step of the inner loop and the pushes after it.\<close>

fun mul_add :: "nat \<Rightarrow> nat \<Rightarrow> nat \<Rightarrow> nat list \<Rightarrow> nat list" where
  "mul_add base factor carry [] = flush base carry"
| "mul_add base factor carry (d # ds) =
     (carry + d * factor) mod base # mul_add base factor ((carry + d * factor) div base) ds"

definition convert :: "nat \<Rightarrow> nat \<Rightarrow> nat list \<Rightarrow> nat list" where
  "convert base factor digits = foldl (\<lambda>acc d. mul_add base factor d acc) [0] digits"

definition significant :: "nat list \<Rightarrow> nat list" where
  "significant ds = (if ds = [0] then [] else ds)"

definition index_of :: "char \<Rightarrow> nat option" where
  "index_of c = (let i = length (takeWhile (\<lambda>x. x \<noteq> c) BASE58_ALPHABET)
     in if i < length BASE58_ALPHABET then Some i else None)"

definition leading :: "'a \<Rightarrow> 'a list \<Rightarrow> nat" where
  "leading z xs = length (takeWhile (\<lambda>x. x = z) xs)"

definition decode_digits :: "nat list \<Rightarrow> nat list" where
  "decode_digits ds = replicate (leading 0 ds) 0 @ rev (significant (convert 256 58 ds))"

definition encode_digits :: "nat list \<Rightarrow> nat list" where
  "encode_digits bs = replicate (leading 0 bs) 0 @ rev (significant (convert 58 256 bs))"

subsection \<open>Values\<close>

fun le_val :: "nat \<Rightarrow> nat list \<Rightarrow> nat" where
  "le_val base [] = 0"
| "le_val base (d # ds) = d + base * le_val base ds"

definition be_val :: "nat \<Rightarrow> nat list \<Rightarrow> nat" where
  "be_val base ds = foldl (\<lambda>acc d. acc * base + d) 0 ds"

text \<open>A digit array without superfluous high digits; zero is the single digit 0.\<close>

definition canonical :: "nat \<Rightarrow> nat list \<Rightarrow> bool" where
  "canonical base ds = ((\<forall>d \<in> set ds. d < base) \<and> ds \<noteq> [] \<and> (ds = [0] \<or> last ds \<noteq> 0))"

lemma flush_zero [simp]: "flush base 0 = []"
  by (simp add: flush.simps)

lemma flush_pos: "2 \<le> base \<Longrightarrow> 0 < n \<Longrightarrow> flush base n = n mod base # flush base (n div base)"
  by (subst flush.simps) auto

lemma flush_val: "2 \<le> base \<Longrightarrow> le_val base (flush base n) = n"
proof (induction base n rule: flush.induct)
  case (1 base n)
  then show ?case by (cases "n = 0") (auto simp: flush_pos)
qed

lemma flush_digits: "2 \<le> base \<Longrightarrow> d \<in> set (flush base n) \<Longrightarrow> d < base"
proof (induction base n rule: flush.induct)
  case (1 base n)
  then show ?case by (cases "n = 0") (auto simp: flush_pos)
qed

lemma flush_last: "2 \<le> base \<Longrightarrow> 0 < n \<Longrightarrow> flush base n \<noteq> [] \<and> last (flush base n) \<noteq> 0"
proof (induction base n rule: flush.induct)
  case (1 base n)
  show ?case
  proof (cases "n < base")
    case True
    then show ?thesis using "1.prems" by (simp add: flush_pos)
  next
    case False
    then have "0 < n div base" using "1.prems" by (simp add: div_greater_zero_iff)
    then show ?thesis using "1.IH" "1.prems" by (simp add: flush_pos)
  qed
qed

lemma mul_add_val: "2 \<le> base \<Longrightarrow> le_val base (mul_add base f c ds) = c + f * le_val base ds"
proof (induction ds arbitrary: c)
  case Nil
  then show ?case by (simp add: flush_val)
next
  case (Cons d ds)
  have "(c + d * f) mod base + base * ((c + d * f) div base + f * le_val base ds) =
      (c + d * f) + f * (base * le_val base ds)"
    by (simp add: distrib_left ac_simps)
  with Cons show ?case by (simp add: algebra_simps)
qed

lemma mul_add_digits: "2 \<le> base \<Longrightarrow> d \<in> set (mul_add base f c ds) \<Longrightarrow> d < base"
  by (induction ds arbitrary: c) (auto simp: flush_digits)

lemma mul_add_last:
  assumes "2 \<le> base" "1 \<le> f" "ds \<noteq> []" "last ds \<noteq> 0"
  shows "mul_add base f c ds \<noteq> [] \<and> last (mul_add base f c ds) \<noteq> 0"
  using assms(3,4)
proof (induction ds arbitrary: c)
  case (Cons d ds)
  show ?case
  proof (cases "ds = []")
    case True
    then have d: "0 < c + d * f" using Cons.prems assms(2) by simp
    show ?thesis
    proof (cases "c + d * f < base")
      case True
      then show ?thesis using \<open>ds = []\<close> d by simp
    next
      case False
      then have "0 < (c + d * f) div base" using assms(1) by (simp add: div_greater_zero_iff)
      with flush_last [OF assms(1) this] show ?thesis using \<open>ds = []\<close> by simp
    qed
  next
    case False
    then show ?thesis using Cons.IH Cons.prems by simp
  qed
qed simp

lemma mul_add_canonical:
  assumes "2 \<le> base" "1 \<le> f" "canonical base ds"
  shows "canonical base (mul_add base f c ds)"
proof (cases "ds = [0]")
  case True
  show ?thesis
  proof (cases "c < base")
    case True
    then show ?thesis using \<open>ds = [0]\<close> by (cases "c = 0") (simp_all add: canonical_def)
  next
    case False
    then have "0 < c div base" using assms(1) by (simp add: div_greater_zero_iff)
    with flush_last [OF assms(1) this] show ?thesis
      using \<open>ds = [0]\<close> assms(1) by (auto simp: canonical_def dest: flush_digits [OF assms(1)])
  qed
next
  case False
  then show ?thesis
    using assms mul_add_last [OF assms(1,2)] mul_add_digits [OF assms(1)] by (auto simp: canonical_def)
qed

text \<open>The carries stay below the multiplier, so the machine integers never overflow.\<close>

lemma carry_bound:
  fixes c :: nat
  assumes "c < f" "d < base"
  shows "c + d * f < base * f" "(c + d * f) div base < f"
proof -
  have "c + d * f < f + d * f" using assms(1) by simp
  also have "\<dots> = (d + 1) * f" by simp
  also have "\<dots> \<le> base * f" using assms(2) by (intro mult_right_mono) auto
  finally show 1: "c + d * f < base * f" .
  then show "(c + d * f) div base < f" by (simp add: less_mult_imp_div_less mult.commute)
qed

lemma convert_step:
  assumes "2 \<le> base" "1 \<le> f" "canonical base acc"
  shows "canonical base (foldl (\<lambda>acc d. mul_add base f d acc) acc ds) \<and>
    le_val base (foldl (\<lambda>acc d. mul_add base f d acc) acc ds) = foldl (\<lambda>n d. n * f + d) (le_val base acc) ds"
  using assms(3)
proof (induction ds arbitrary: acc)
  case (Cons d ds)
  have "canonical base (mul_add base f d acc)" by (rule mul_add_canonical [OF assms(1,2) Cons.prems])
  from Cons.IH [OF this] show ?case by (simp add: mul_add_val [OF assms(1)] ac_simps)
qed simp

lemma convert_correct:
  assumes "2 \<le> base" "1 \<le> f"
  shows "canonical base (convert base f ds)" "le_val base (convert base f ds) = be_val f ds"
  using convert_step [OF assms, of "[0]" ds] assms(1) by (auto simp: convert_def be_val_def canonical_def)

text \<open>Canonical digits are determined by their value.\<close>

lemma le_val_last_pos: "0 < base \<Longrightarrow> ds \<noteq> [] \<Longrightarrow> last ds \<noteq> 0 \<Longrightarrow> 0 < le_val base ds"
  by (induction ds) (auto split: if_splits)

lemma flush_unique:
  "2 \<le> base \<Longrightarrow> (\<forall>d \<in> set ds. d < base) \<Longrightarrow> (ds \<noteq> [] \<longrightarrow> last ds \<noteq> 0) \<Longrightarrow> flush base (le_val base ds) = ds"
proof (induction ds)
  case (Cons d ds)
  have pos: "0 < le_val base (d # ds)" using Cons.prems by (intro le_val_last_pos) auto
  have "flush base (le_val base ds) = ds" using Cons by (cases "ds = []") auto
  then show ?case using Cons.prems pos by (subst flush_pos) auto
qed simp

lemma significant_convert:
  assumes "2 \<le> base" "1 \<le> f"
  shows "significant (convert base f ds) = flush base (be_val f ds)"
proof -
  note c = convert_correct [OF assms, of ds]
  show ?thesis
  proof (cases "convert base f ds = [0]")
    case True
    then have "be_val f ds = 0" using c(2) by simp
    with True show ?thesis by (simp add: significant_def)
  next
    case False
    then have "flush base (le_val base (convert base f ds)) = convert base f ds"
      using c(1) by (intro flush_unique [OF assms(1)]) (auto simp: canonical_def)
    with False c(2) show ?thesis by (simp add: significant_def)
  qed
qed

subsection \<open>Inverse\<close>

lemma be_val_append: "be_val base (xs @ ys) = be_val base xs * base ^ length ys + be_val base ys"
proof (induction ys rule: rev_induct)
  case Nil
  then show ?case by (simp add: be_val_def)
next
  case (snoc y ys)
  then show ?case by (simp add: be_val_def algebra_simps flip: append_assoc)
qed

lemma be_val_rev: "be_val base (rev ds) = le_val base ds"
proof (induction ds)
  case Nil
  then show ?case by (simp add: be_val_def)
next
  case (Cons d ds)
  have "be_val base (rev ds @ [d]) = be_val base (rev ds) * base + d" by (simp add: be_val_def)
  with Cons show ?case by (simp add: mult.commute)
qed

lemma be_val_zeros: "be_val base (replicate n 0 @ ds) = be_val base ds"
proof -
  have "be_val base (replicate n 0) = 0" by (induction n) (simp_all add: be_val_def)
  then show ?thesis by (simp add: be_val_append)
qed

lemma leading_split: "\<exists>rest. ds = replicate (leading z ds) z @ rest \<and> (rest \<noteq> [] \<longrightarrow> hd rest \<noteq> z)"
proof -
  have "takeWhile (\<lambda>x. x = z) ds = replicate (leading z ds) z"
    by (induction ds) (auto simp: leading_def)
  moreover have "ds = takeWhile (\<lambda>x. x = z) ds @ dropWhile (\<lambda>x. x = z) ds" by simp
  moreover have "dropWhile (\<lambda>x. x = z) ds \<noteq> [] \<longrightarrow> hd (dropWhile (\<lambda>x. x = z) ds) \<noteq> z"
    by (induction ds) auto
  ultimately have "ds = replicate (leading z ds) z @ dropWhile (\<lambda>x. x = z) ds \<and>
      (dropWhile (\<lambda>x. x = z) ds \<noteq> [] \<longrightarrow> hd (dropWhile (\<lambda>x. x = z) ds) \<noteq> z)" by presburger
  then show ?thesis by blast
qed

lemma leading_replicate: "(rest \<noteq> [] \<longrightarrow> hd rest \<noteq> z) \<Longrightarrow> leading z (replicate n z @ rest) = n"
  by (induction n; cases rest) (auto simp: leading_def)

definition change_base :: "nat \<Rightarrow> nat \<Rightarrow> nat list \<Rightarrow> nat list" where
  "change_base base f ds = replicate (leading 0 ds) 0 @ rev (significant (convert base f ds))"

lemma change_base_inverse:
  assumes "2 \<le> a" "2 \<le> b" "\<forall>d \<in> set ds. d < a"
  shows "change_base a b (change_base b a ds) = ds"
proof -
  obtain rest where ds: "ds = replicate (leading 0 ds) 0 @ rest" and hd: "rest \<noteq> [] \<longrightarrow> hd rest \<noteq> 0"
    using leading_split [of ds 0] by blast
  define N where "N = be_val a rest"
  have dsN: "be_val a ds = N" by (subst ds) (simp add: be_val_zeros N_def)
  have out: "change_base b a ds = replicate (leading 0 ds) 0 @ rev (flush b N)"
    using assms(1,2) by (simp add: change_base_def significant_convert dsN)
  have h: "rev (flush b N) \<noteq> [] \<longrightarrow> hd (rev (flush b N)) \<noteq> 0"
    using flush_last [OF assms(2), of N] by (cases "N = 0") (auto simp: hd_rev)
  have val: "be_val b (change_base b a ds) = N"
    unfolding out by (simp add: be_val_zeros be_val_rev flush_val [OF assms(2)])
  have lead: "leading 0 (change_base b a ds) = leading 0 ds"
    unfolding out by (rule leading_replicate [OF h])
  have "flush a N = rev rest"
  proof -
    have "le_val a (rev rest) = N" using be_val_rev [of a "rev rest"] by (simp add: N_def)
    moreover have "flush a (le_val a (rev rest)) = rev rest"
    proof (rule flush_unique [OF assms(1)])
      show "\<forall>d \<in> set (rev rest). d < a" using assms(3) ds by (metis Un_iff set_append set_rev)
      show "rev rest \<noteq> [] \<longrightarrow> last (rev rest) \<noteq> 0" using hd by (simp add: last_rev)
    qed
    ultimately show ?thesis by simp
  qed
  then have "change_base a b (change_base b a ds) = replicate (leading 0 ds) 0 @ rest"
    unfolding change_base_def [of a] lead using assms(1,2) by (simp add: significant_convert val)
  then show ?thesis using ds by simp
qed

lemma change_base_digits:
  assumes "2 \<le> base" "1 \<le> f" "d \<in> set (change_base base f ds)"
  shows "d < base"
  using assms by (auto simp: change_base_def significant_convert dest: flush_digits split: if_splits)

lemma decode_encode_digits: "(\<forall>b \<in> set bs. b < 256) \<Longrightarrow> decode_digits (encode_digits bs) = bs"
  using change_base_inverse [of 256 58 bs] by (simp add: decode_digits_def encode_digits_def change_base_def)

lemma encode_decode_digits: "(\<forall>d \<in> set ds. d < 58) \<Longrightarrow> encode_digits (decode_digits ds) = ds"
  using change_base_inverse [of 58 256 ds] by (simp add: decode_digits_def encode_digits_def change_base_def)

subsection \<open>Texts\<close>

fun indices :: "string \<Rightarrow> nat list option" where
  "indices [] = Some []"
| "indices (c # cs) =
     (case index_of c of None \<Rightarrow> None | Some i \<Rightarrow> (case indices cs of None \<Rightarrow> None | Some is \<Rightarrow> Some (i # is)))"

definition base58_decode :: "string \<Rightarrow> nat list option" where
  "base58_decode s = map_option decode_digits (indices s)"

definition base58_encode :: "nat list \<Rightarrow> string" where
  "base58_encode bs = map (\<lambda>d. BASE58_ALPHABET ! d) (encode_digits bs)"

lemma alphabet_length: "length BASE58_ALPHABET = 58"
  by (simp add: BASE58_ALPHABET_def)

lemma alphabet_distinct: "distinct BASE58_ALPHABET"
  by code_simp

lemma takeWhile_index:
  "length (takeWhile (\<lambda>x. x \<noteq> c) xs) < length xs \<Longrightarrow> xs ! length (takeWhile (\<lambda>x. x \<noteq> c) xs) = c"
  by (induction xs) (auto split: if_splits)

lemma takeWhile_distinct_index:
  "distinct xs \<Longrightarrow> i < length xs \<Longrightarrow> length (takeWhile (\<lambda>x. x \<noteq> xs ! i) xs) = i"
proof (induction xs arbitrary: i)
  case (Cons x xs)
  then show ?case by (cases i) auto
qed simp

lemma index_of_Some: "index_of c = Some i \<Longrightarrow> i < 58 \<and> BASE58_ALPHABET ! i = c"
  using takeWhile_index [of c BASE58_ALPHABET]
  by (auto simp: index_of_def Let_def alphabet_length split: if_splits)

lemma index_of_nth: "i < 58 \<Longrightarrow> index_of (BASE58_ALPHABET ! i) = Some i"
  using takeWhile_distinct_index [OF alphabet_distinct, of i] by (simp add: index_of_def alphabet_length)

lemma indices_Some: "indices s = Some is \<Longrightarrow> (\<forall>i \<in> set is. i < 58) \<and> map (\<lambda>d. BASE58_ALPHABET ! d) is = s"
  by (induction s arbitrary: "is") (auto split: option.splits dest: index_of_Some)

lemma indices_map: "(\<forall>i \<in> set is. i < 58) \<Longrightarrow> indices (map (\<lambda>d. BASE58_ALPHABET ! d) is) = Some is"
  by (induction "is") (auto simp: index_of_nth)

text \<open>The two conversions are inverse to each other.\<close>

lemma base58_encode_decode: "base58_decode s = Some bs \<Longrightarrow> base58_encode bs = s"
  using indices_Some encode_decode_digits by (fastforce simp: base58_decode_def base58_encode_def)

lemma encode_digits_bound: "d \<in> set (encode_digits bs) \<Longrightarrow> d < 58"
  using change_base_digits [of 58 256 d bs] by (simp add: encode_digits_def change_base_def)

lemma decode_digits_bound: "b \<in> set (decode_digits ds) \<Longrightarrow> b < 256"
  using change_base_digits [of 256 58 b ds] by (simp add: decode_digits_def change_base_def)

lemma base58_decode_encode: "(\<forall>b \<in> set bs. b < 256) \<Longrightarrow> base58_decode (base58_encode bs) = Some bs"
  using indices_map [of "encode_digits bs"] encode_digits_bound decode_encode_digits
  by (simp add: base58_decode_def base58_encode_def)

lemma base58_decode_bytes: "base58_decode s = Some bs \<Longrightarrow> b \<in> set bs \<Longrightarrow> b < 256"
  by (auto simp: base58_decode_def dest: decode_digits_bound)

end
