(* ===== verification/Wallet_Identity.thy ===== *)
theory Wallet_Identity
  imports Base58 Js_Value
begin

text \<open>
  Wallet identities, \<^verbatim>\<open>apps/api/src/wallets/domain/wallet-identity.ts\<close>: the closed list of CAIP-2
  networks, EVM and Solana addresses, and CAIP-10 account identifiers.

  \<^verbatim>\<open>isAddress\<close> of the package \<^verbatim>\<open>viem\<close> is the parameter \<open>isAddress\<close>. Its documented behaviour in strict
  mode, that an address written in lower case carries no checksum and is accepted, is the
  hypothesis \<open>lower_case_is_address\<close> of the properties that depend on it.

  Main facts: the Solana texts that are accepted are exactly the Base58 texts of the 32-byte
  keys other than the zero key, so the length window of the pattern and the final re-encoding
  never refuse a key; account identifiers are canonical and determine network and address.
\<close>

datatype WalletIdentityValidationCode =
    INVALID_WALLET_CHAIN_ID | INVALID_WALLET_ADDRESS | INVALID_WALLET_ACCOUNT_ID

datatype WalletNamespace = Namespace_eip155 | Namespace_solana

definition ZERO_EVM_ADDRESS :: string where
  "ZERO_EVM_ADDRESS = ''0x'' @ replicate 40 (CHR ''0'')"

definition ZERO_SOLANA_ADDRESS :: string where
  "ZERO_SOLANA_ADDRESS = ''11111111111111111111111111111111''"

definition EVM_ADDRESS_PATTERN :: "string \<Rightarrow> bool" where
  "EVM_ADDRESS_PATTERN = matches_classes ([''0'', ''x''] @ replicate 40 ''0123456789abcdefABCDEF'')"

definition SOLANA_ADDRESS_PATTERN :: "string \<Rightarrow> bool" where
  "SOLANA_ADDRESS_PATTERN s =
     (32 \<le> length s \<and> length s \<le> 44 \<and> list_all (\<lambda>c. c \<in> set BASE58_ALPHABET) s)"

definition WALLET_OWNERSHIP_CHAIN_IDS :: "string list" where
  "WALLET_OWNERSHIP_CHAIN_IDS =
     [''eip155:1'', ''eip155:8453'', ''eip155:42161'', ''eip155:11155111'', ''eip155:84532'', ''eip155:421614'',
      ''solana:5eykt4UsFv8P8NJdTREpY1vzqKqZKvdp'', ''solana:EtWTRABZaYq6iMfeYKouRu166VU2xqa1'']"

definition isSupportedChainId :: "string \<Rightarrow> bool" where
  "isSupportedChainId s = (s \<in> set WALLET_OWNERSHIP_CHAIN_IDS)"

definition parseWalletChainId :: "jsval \<Rightarrow> WalletIdentityValidationCode + string" where
  "parseWalletChainId v =
     (case v of
        JString s \<Rightarrow> if isSupportedChainId s then Inr s else Inl INVALID_WALLET_CHAIN_ID
      | _ \<Rightarrow> Inl INVALID_WALLET_CHAIN_ID)"

definition walletNamespaceOf :: "string \<Rightarrow> WalletNamespace" where
  "walletNamespaceOf chainId = (if starts_with ''eip155:'' chainId then Namespace_eip155 else Namespace_solana)"

text \<open>
  \<^verbatim>\<open>decodeBase58\<close> and \<^verbatim>\<open>encodeBase58\<close> are the conversions of the theory \<open>Base58\<close>; the decoder
  tests the pattern first.
\<close>

definition decodeBase58 :: "string \<Rightarrow> nat list option" where
  "decodeBase58 s = (if SOLANA_ADDRESS_PATTERN s then base58_decode s else None)"

definition encodeBase58 :: "nat list \<Rightarrow> string" where
  "encodeBase58 bs = base58_encode bs"

text \<open>\<^verbatim>\<open>toLowerCase\<close> on the characters the pattern lets through.\<close>

definition lower_char :: "char \<Rightarrow> char" where
  "lower_char c = (let n = (of_char c :: nat) in if 65 \<le> n \<and> n \<le> 90 then char_of (n + 32) else c)"

definition to_lower :: "string \<Rightarrow> string" where
  "to_lower = map lower_char"

definition parseEvmWalletAddress :: "(string \<Rightarrow> bool) \<Rightarrow> jsval \<Rightarrow> WalletIdentityValidationCode + string" where
  "parseEvmWalletAddress isAddress v =
     (case v of
        JString s \<Rightarrow>
          if \<not> EVM_ADDRESS_PATTERN s \<or> \<not> isAddress s \<or> to_lower s = ZERO_EVM_ADDRESS
          then Inl INVALID_WALLET_ADDRESS
          else Inr (to_lower s)
      | _ \<Rightarrow> Inl INVALID_WALLET_ADDRESS)"

definition parseSolanaWalletAddress :: "jsval \<Rightarrow> WalletIdentityValidationCode + string" where
  "parseSolanaWalletAddress v =
     (case v of
        JString s \<Rightarrow>
          if s = ZERO_SOLANA_ADDRESS then Inl INVALID_WALLET_ADDRESS
          else (case decodeBase58 s of
                  None \<Rightarrow> Inl INVALID_WALLET_ADDRESS
                | Some decoded \<Rightarrow>
                    if length decoded \<noteq> 32 \<or> encodeBase58 decoded \<noteq> s
                    then Inl INVALID_WALLET_ADDRESS
                    else Inr s)
      | _ \<Rightarrow> Inl INVALID_WALLET_ADDRESS)"

definition parseWalletAddress ::
  "(string \<Rightarrow> bool) \<Rightarrow> jsval \<Rightarrow> jsval \<Rightarrow> WalletIdentityValidationCode + string" where
  "parseWalletAddress isAddress chainIdValue addressValue =
     res_bind (parseWalletChainId chainIdValue) (\<lambda>chainId.
       if walletNamespaceOf chainId = Namespace_eip155
       then parseEvmWalletAddress isAddress addressValue
       else parseSolanaWalletAddress addressValue)"

definition formatWalletAccountId ::
  "(string \<Rightarrow> bool) \<Rightarrow> jsval \<Rightarrow> jsval \<Rightarrow> WalletIdentityValidationCode + string" where
  "formatWalletAccountId isAddress chainIdValue addressValue =
     res_bind (parseWalletChainId chainIdValue) (\<lambda>chainId.
     res_bind (parseWalletAddress isAddress (JString chainId) addressValue) (\<lambda>address.
       Inr (chainId @ '':'' @ address)))"

text \<open>The loop over the networks stops at the first one whose prefix fits.\<close>

fun accountIdOn :: "(string \<Rightarrow> bool) \<Rightarrow> string list \<Rightarrow> string \<Rightarrow> WalletIdentityValidationCode + string" where
  "accountIdOn isAddress [] s = Inl INVALID_WALLET_ACCOUNT_ID"
| "accountIdOn isAddress (chainId # rest) s =
     (let prefix = chainId @ '':''
      in if \<not> starts_with prefix s then accountIdOn isAddress rest s
         else res_bind (formatWalletAccountId isAddress (JString chainId) (JString (drop (length prefix) s)))
           (\<lambda>canonical. if canonical \<noteq> s then Inl INVALID_WALLET_ACCOUNT_ID else Inr canonical))"

definition parseWalletAccountId :: "(string \<Rightarrow> bool) \<Rightarrow> jsval \<Rightarrow> WalletIdentityValidationCode + string" where
  "parseWalletAccountId isAddress v =
     (case v of
        JString s \<Rightarrow>
          if 128 < length s then Inl INVALID_WALLET_ACCOUNT_ID
          else accountIdOn isAddress WALLET_OWNERSHIP_CHAIN_IDS s
      | _ \<Rightarrow> Inl INVALID_WALLET_ACCOUNT_ID)"

definition solanaWalletAddressBytes :: "jsval \<Rightarrow> WalletIdentityValidationCode + nat list" where
  "solanaWalletAddressBytes v =
     res_bind (parseSolanaWalletAddress v) (\<lambda>address.
       case decodeBase58 address of
         None \<Rightarrow> Inl INVALID_WALLET_ADDRESS
       | Some decoded \<Rightarrow> if length decoded \<noteq> 32 then Inl INVALID_WALLET_ADDRESS else Inr decoded)"

subsection \<open>Lengths of Base58 texts\<close>

lemma flush_length_upper: "2 \<le> base \<Longrightarrow> n < base ^ k \<Longrightarrow> length (flush base n) \<le> k"
proof (induction k arbitrary: n)
  case 0
  then show ?case by simp
next
  case (Suc k)
  show ?case
  proof (cases "n = 0")
    case False
    have "n div base < base ^ k" using Suc.prems by (simp add: less_mult_imp_div_less mult.commute)
    then show ?thesis using Suc False by (simp add: flush_pos)
  qed simp
qed

lemma flush_length_lower: "2 \<le> base \<Longrightarrow> base ^ k \<le> n \<Longrightarrow> Suc k \<le> length (flush base n)"
proof (induction k arbitrary: n)
  case 0
  then show ?case by (simp add: flush_pos)
next
  case (Suc k)
  have "0 < base ^ Suc k" using Suc.prems by simp
  then have "0 < n" using Suc.prems(2) by linarith
  have "base * base ^ k \<le> n" using Suc.prems by simp
  then have "base ^ k \<le> n div base" using Suc.prems(1) by (simp add: less_eq_div_iff_mult_less_eq mult.commute)
  then show ?case using Suc \<open>0 < n\<close> by (simp add: flush_pos)
qed

lemma be_val_upper: "\<forall>d \<in> set ds. d < base \<Longrightarrow> be_val base ds < base ^ length ds"
proof (induction ds rule: rev_induct)
  case Nil
  then show ?case by (simp add: be_val_def)
next
  case (snoc d ds)
  then have "be_val base ds + 1 \<le> base ^ length ds" by simp
  then have "(be_val base ds + 1) * base \<le> base ^ length ds * base" by (rule mult_right_mono) simp
  moreover have "d < base" using snoc by simp
  ultimately show ?case by (simp add: be_val_def algebra_simps)
qed

lemma be_val_lower: "ds \<noteq> [] \<Longrightarrow> hd ds \<noteq> 0 \<Longrightarrow> base ^ (length ds - 1) \<le> be_val base ds"
proof -
  assume "ds \<noteq> []" "hd ds \<noteq> 0"
  then obtain d xs where ds: "ds = [d] @ xs" and d: "1 \<le> d" by (cases ds) auto
  have "be_val base [d] = d" by (simp add: be_val_def)
  then have "be_val base ds = d * base ^ length xs + be_val base xs"
    unfolding ds be_val_append by simp
  moreover have "1 * base ^ length xs \<le> d * base ^ length xs" using d by (intro mult_right_mono) auto
  ultimately have "base ^ length xs \<le> be_val base ds" by linarith
  moreover have "length ds - 1 = length xs" by (simp add: ds)
  ultimately show ?thesis by simp
qed

text \<open>Thirty-two bytes take at most 44 digits, and every leading zero byte makes the text shorter.\<close>

lemma power_256_58: "k \<le> 32 \<Longrightarrow> (256::nat) ^ k \<le> 58 ^ (k + 12)"
proof -
  assume k: "k \<le> 32"
  have "(256::nat) ^ k * 58 ^ (32 - k) \<le> 256 ^ k * 256 ^ (32 - k)"
    by (intro mult_left_mono power_mono) auto
  also have "\<dots> = 256 ^ 32" using k by (simp flip: power_add)
  also have "\<dots> \<le> 58 ^ 44" by simp
  also have "\<dots> = 58 ^ (k + 12) * 58 ^ (32 - k)" using k by (simp flip: power_add)
  finally show ?thesis by simp
qed

lemma encode_length_bounds:
  assumes "length bs = 32" "\<forall>b \<in> set bs. b < 256"
  shows "32 \<le> length (encode_digits bs)" "length (encode_digits bs) \<le> 44"
proof -
  obtain rest where bs: "bs = replicate (leading 0 bs) 0 @ rest" and hd: "rest \<noteq> [] \<longrightarrow> hd rest \<noteq> 0"
    using leading_split [of bs 0] by blast
  define k where "k = length rest"
  have len: "length bs = leading 0 bs + k"
    using arg_cong [OF bs, of length] by (simp add: k_def)
  have val: "be_val 256 bs = be_val 256 rest" by (subst bs) (rule be_val_zeros)
  have out: "length (encode_digits bs) = leading 0 bs + length (flush 58 (be_val 256 rest))"
    by (simp add: encode_digits_def significant_convert val)
  have "\<forall>b \<in> set rest. b < 256" using assms(2) bs by (metis Un_iff set_append)
  then have "be_val 256 rest < 256 ^ k" unfolding k_def by (rule be_val_upper)
  moreover have "k \<le> 32" using len assms(1) by simp
  ultimately have "be_val 256 rest < 58 ^ (k + 12)" using power_256_58 by fastforce
  then have up: "length (flush 58 (be_val 256 rest)) \<le> k + 12" by (intro flush_length_upper) auto
  then show "length (encode_digits bs) \<le> 44" using out len assms(1) by simp
  have lo: "k \<le> length (flush 58 (be_val 256 rest))"
  proof (cases "rest = []")
    case False
    have "(58::nat) ^ (k - 1) \<le> 256 ^ (k - 1)" by (intro power_mono) auto
    also have "\<dots> \<le> be_val 256 rest" unfolding k_def using False hd by (intro be_val_lower) auto
    finally have "Suc (k - 1) \<le> length (flush 58 (be_val 256 rest))" by (intro flush_length_lower) auto
    then show ?thesis by simp
  qed (simp add: k_def)
  then show "32 \<le> length (encode_digits bs)" using out len assms(1) by simp
qed

subsection \<open>Solana addresses\<close>

text \<open>A public key is 32 bytes and not the all-zero key.\<close>

definition solana_key :: "nat list \<Rightarrow> bool" where
  "solana_key bs = (length bs = 32 \<and> list_all (\<lambda>b. b < 256) bs \<and> bs \<noteq> replicate 32 0)"

lemma zero_solana_address: "ZERO_SOLANA_ADDRESS = base58_encode (replicate 32 0)"
  by code_simp

lemma alphabet_index: "c \<in> set BASE58_ALPHABET \<Longrightarrow> \<exists>i. index_of c = Some i"
  by (metis alphabet_length in_set_conv_nth index_of_nth)

lemma index_alphabet: "index_of c = Some i \<Longrightarrow> c \<in> set BASE58_ALPHABET"
  by (metis alphabet_length index_of_Some nth_mem)

lemma indices_defined: "(indices s \<noteq> None) = list_all (\<lambda>c. c \<in> set BASE58_ALPHABET) s"
  by (induction s) (auto split: option.splits dest: index_alphabet alphabet_index)

lemma base58_encode_length: "length (base58_encode bs) = length (encode_digits bs)"
  by (simp add: base58_encode_def)

lemma base58_encode_inject:
  "list_all (\<lambda>b. b < 256) a \<Longrightarrow> list_all (\<lambda>b. b < 256) b \<Longrightarrow> (base58_encode a = base58_encode b) = (a = b)"
  by (metis base58_decode_encode list_all_iff option.inject)

lemma key_text_pattern:
  assumes "length bs = 32" "list_all (\<lambda>b. b < 256) bs"
  shows "SOLANA_ADDRESS_PATTERN (base58_encode bs)"
proof -
  have b: "\<forall>b \<in> set bs. b < 256" using assms(2) by (simp add: list_all_iff)
  have "indices (base58_encode bs) \<noteq> None"
    using base58_decode_encode [OF b] by (auto simp: base58_decode_def)
  then have "list_all (\<lambda>c. c \<in> set BASE58_ALPHABET) (base58_encode bs)" by (simp only: indices_defined)
  then show ?thesis
    using encode_length_bounds [OF assms(1) b]
    by (simp add: SOLANA_ADDRESS_PATTERN_def base58_encode_length)
qed

lemma decode_key_text:
  assumes "length bs = 32" "list_all (\<lambda>b. b < 256) bs"
  shows "decodeBase58 (base58_encode bs) = Some bs"
  using assms by (simp add: decodeBase58_def key_text_pattern base58_decode_encode list_all_iff)

lemma decodeBase58_Some: "decodeBase58 s = Some bs \<Longrightarrow> base58_encode bs = s \<and> list_all (\<lambda>b. b < 256) bs"
  by (auto simp: decodeBase58_def base58_encode_decode list_all_iff base58_decode_bytes split: if_splits)

lemma parseSolana_iff:
  "(parseSolanaWalletAddress v = Inr a) = (v = JString a \<and> (\<exists>bs. solana_key bs \<and> a = base58_encode bs))"
proof
  assume "parseSolanaWalletAddress v = Inr a"
  then obtain bs where v: "v = JString a" and z: "a \<noteq> ZERO_SOLANA_ADDRESS"
      and d: "decodeBase58 a = Some bs" "length bs = 32"
    by (auto simp: parseSolanaWalletAddress_def split: jsval.splits if_splits option.splits)
  have "bs \<noteq> replicate 32 0" using z decodeBase58_Some [OF d(1)] zero_solana_address by metis
  with decodeBase58_Some [OF d(1)] d(2) v
  show "v = JString a \<and> (\<exists>bs. solana_key bs \<and> a = base58_encode bs)" by (auto simp: solana_key_def)
next
  assume r: "v = JString a \<and> (\<exists>bs. solana_key bs \<and> a = base58_encode bs)"
  then obtain bs where k: "solana_key bs" and a: "a = base58_encode bs" by blast
  have "a \<noteq> ZERO_SOLANA_ADDRESS"
    using k unfolding a zero_solana_address by (subst base58_encode_inject) (auto simp: solana_key_def list_all_iff)
  then show "parseSolanaWalletAddress v = Inr a"
    using r k decode_key_text [of bs] by (simp add: parseSolanaWalletAddress_def a solana_key_def encodeBase58_def)
qed

interpretation solana_text: validator parseSolanaWalletAddress JString
  "\<lambda>a. \<exists>bs. solana_key bs \<and> a = base58_encode bs"
  by unfold_locales (simp_all add: parseSolana_iff)

lemma solana_bytes_of_key:
  assumes "solana_key bs"
  shows "solanaWalletAddressBytes (JString (base58_encode bs)) = Inr bs"
proof -
  have "parseSolanaWalletAddress (JString (base58_encode bs)) = Inr (base58_encode bs)"
    using assms by (intro solana_text.complete) blast
  then show ?thesis
    using assms decode_key_text [of bs] by (simp add: solanaWalletAddressBytes_def solana_key_def)
qed

lemma solana_bytes_iff: "(solanaWalletAddressBytes (JString (base58_encode bs)) = Inr bs) = solana_key bs"
proof
  assume b: "solanaWalletAddressBytes (JString (base58_encode bs)) = Inr bs"
  then obtain a where "parseSolanaWalletAddress (JString (base58_encode bs)) = Inr a"
    unfolding solanaWalletAddressBytes_def res_bind_eq_Inr by blast
  then obtain bs' where k: "solana_key bs'" "base58_encode bs = base58_encode bs'" unfolding parseSolana_iff by blast
  have "bs = bs'" using b unfolding k(2) solana_bytes_of_key [OF k(1)] sum.inject by (rule sym)
  then show "solana_key bs" using k(1) by blast
qed (rule solana_bytes_of_key)

text \<open>C37. The Solana addresses that are accepted are exactly the Base58 texts of the 32-byte
  keys other than the zero key, each of one key, returned unchanged; and a key is read back from
  its Base58 text exactly when it is such a key: the length window of the pattern and the
  re-encoding test refuse no key and let nothing else through.\<close>

theorem solana_addresses_are_the_keys:
  "(parseSolanaWalletAddress v = Inr a) = (v = JString a \<and> (\<exists>!bs. solana_key bs \<and> a = encodeBase58 bs)) \<and>
   (solanaWalletAddressBytes (JString (encodeBase58 key)) = Inr key) = solana_key key"
proof -
  have "(\<exists>bs. solana_key bs \<and> a = base58_encode bs) = (\<exists>!bs. solana_key bs \<and> a = encodeBase58 bs)"
    unfolding encodeBase58_def
    by (intro iffI ex_ex1I; elim exE ex1E conjE) (auto simp: solana_key_def base58_encode_inject)
  then show ?thesis unfolding parseSolana_iff by (simp add: encodeBase58_def solana_bytes_iff)
qed

subsection \<open>EVM addresses\<close>

lemma lower_char_idem [simp]: "lower_char (lower_char c) = lower_char c"
proof -
  define n where "n = (of_char c :: nat)"
  show ?thesis
  proof (cases "65 \<le> n \<and> n \<le> 90")
    case True
    then have "(of_char (char_of (n + 32) :: char) :: nat) = n + 32" by (subst of_char_of) simp
    then show ?thesis using True by (simp add: lower_char_def n_def [symmetric] Let_def)
  next
    case False
    then have "lower_char c = c" by (auto simp: lower_char_def n_def [symmetric] Let_def)
    then show ?thesis by simp
  qed
qed

lemma to_lower_idem [simp]: "to_lower (to_lower s) = to_lower s"
  by (simp add: to_lower_def)

lemma hex_lower: "c \<in> set ''0123456789abcdefABCDEF'' \<Longrightarrow> lower_char c \<in> set ''0123456789abcdefABCDEF''"
proof -
  have "list_all (\<lambda>c. lower_char c \<in> set ''0123456789abcdefABCDEF'') ''0123456789abcdefABCDEF''" by code_simp
  moreover assume "c \<in> set ''0123456789abcdefABCDEF''"
  ultimately show ?thesis unfolding list_all_iff by blast
qed

lemma matches_classes_lower:
  "matches_classes (replicate n ''0123456789abcdefABCDEF'') s \<Longrightarrow>
   matches_classes (replicate n ''0123456789abcdefABCDEF'') (to_lower s)"
proof (induction n arbitrary: s)
  case (Suc n)
  then show ?case
    using hex_lower by (cases s) (simp_all add: to_lower_def del: list.set)
qed (simp add: to_lower_def)

lemma evm_pattern_lower: "EVM_ADDRESS_PATTERN s \<Longrightarrow> EVM_ADDRESS_PATTERN (to_lower s)"
proof -
  assume s: "EVM_ADDRESS_PATTERN s"
  then obtain r where r: "s = ''0x'' @ r" "matches_classes (replicate 40 ''0123456789abcdefABCDEF'') r"
    by (cases s; cases "tl s") (auto simp: EVM_ADDRESS_PATTERN_def)
  have "to_lower s = ''0x'' @ to_lower r" by (simp add: r(1) to_lower_def lower_char_def)
  with matches_classes_lower [OF r(2)] show ?thesis
    by (simp add: EVM_ADDRESS_PATTERN_def)
qed

lemma evm_pattern_length: "EVM_ADDRESS_PATTERN s \<Longrightarrow> length s = 42"
  by (auto simp: EVM_ADDRESS_PATTERN_def dest!: matches_classes_length)

text \<open>What \<^verbatim>\<open>isAddress\<close> documents of addresses written in lower case.\<close>

definition lower_case_is_address :: "(string \<Rightarrow> bool) \<Rightarrow> bool" where
  "lower_case_is_address isAddress =
     (\<forall>s. EVM_ADDRESS_PATTERN s \<and> to_lower s = s \<longrightarrow> isAddress s)"

lemma parseEvm_idem:
  assumes "lower_case_is_address isAddress" "parseEvmWalletAddress isAddress v = Inr a"
  shows "parseEvmWalletAddress isAddress (JString a) = Inr a"
  using assms
  by (auto simp: parseEvmWalletAddress_def lower_case_is_address_def evm_pattern_lower
      split: jsval.splits if_splits)

lemma parseEvm_length: "parseEvmWalletAddress isAddress v = Inr a \<Longrightarrow> length a = 42"
  by (auto simp: parseEvmWalletAddress_def to_lower_def evm_pattern_length split: jsval.splits if_splits)

subsection \<open>Account identifiers\<close>

lemma parseWalletChainId_iff:
  "(parseWalletChainId v = Inr c) = (v = JString c \<and> c \<in> set WALLET_OWNERSHIP_CHAIN_IDS)"
  by (auto simp: parseWalletChainId_def isSupportedChainId_def split: jsval.splits if_splits)

lemma supported_chain_parses: "c \<in> set WALLET_OWNERSHIP_CHAIN_IDS \<Longrightarrow> parseWalletChainId (JString c) = Inr c"
  by (simp add: parseWalletChainId_iff)

lemma chain_id_length: "c \<in> set WALLET_OWNERSHIP_CHAIN_IDS \<Longrightarrow> length c \<le> 39"
  by (auto simp: WALLET_OWNERSHIP_CHAIN_IDS_def)

text \<open>No supported network is the prefix of another up to the colon.\<close>

lemma chain_prefix_unique:
  assumes "c \<in> set WALLET_OWNERSHIP_CHAIN_IDS" "d \<in> set WALLET_OWNERSHIP_CHAIN_IDS"
  shows "starts_with (d @ '':'') (c @ '':'' @ a) = (d = c)"
  using assms unfolding WALLET_OWNERSHIP_CHAIN_IDS_def set_simps insert_iff empty_iff
  by (elim disjE; simp add: starts_with_def)

lemma formatWalletAccountId_iff:
  "(formatWalletAccountId isAddress cv av = Inr s) =
   (\<exists>c a. cv = JString c \<and> c \<in> set WALLET_OWNERSHIP_CHAIN_IDS \<and> parseWalletAddress isAddress cv av = Inr a \<and>
      s = c @ '':'' @ a)"
  by (auto simp: formatWalletAccountId_def res_simps parseWalletChainId_iff)

lemma accountIdOn_supported:
  assumes "c \<in> set cs" "set cs \<subseteq> set WALLET_OWNERSHIP_CHAIN_IDS"
  shows "accountIdOn isAddress cs (c @ '':'' @ a) =
    res_bind (formatWalletAccountId isAddress (JString c) (JString a))
      (\<lambda>canonical. if canonical \<noteq> c @ '':'' @ a then Inl INVALID_WALLET_ACCOUNT_ID else Inr canonical)"
  using assms
proof (induction cs)
  case (Cons d cs)
  then have "starts_with (d @ '':'') (c @ '':'' @ a) = (d = c)" by (intro chain_prefix_unique) auto
  with Cons show ?case by (cases "d = c") (simp_all add: Let_def)
qed simp

lemma accountIdOn_Inr:
  "accountIdOn isAddress cs s = Inr t \<Longrightarrow>
   t = s \<and> (\<exists>c a. c \<in> set cs \<and> s = c @ '':'' @ a \<and> formatWalletAccountId isAddress (JString c) (JString a) = Inr s)"
proof (induction cs)
  case (Cons c cs)
  show ?case
  proof (cases "starts_with (c @ '':'') s")
    case True
    then have s: "s = c @ '':'' @ drop (Suc (length c)) s" using starts_withD by force
    from Cons.prems True have
      "formatWalletAccountId isAddress (JString c) (JString (drop (Suc (length c)) s)) = Inr s" and "t = s"
      by (auto simp: Let_def res_simps split: if_splits)
    with s show ?thesis by auto
  next
    case False
    then show ?thesis using Cons by (auto simp: Let_def)
  qed
qed simp

lemma parseWalletAddress_on:
  "c \<in> set WALLET_OWNERSHIP_CHAIN_IDS \<Longrightarrow>
   parseWalletAddress isAddress (JString c) av =
     (if walletNamespaceOf c = Namespace_eip155 then parseEvmWalletAddress isAddress av
      else parseSolanaWalletAddress av)"
  by (simp add: parseWalletAddress_def supported_chain_parses)

lemma parseWalletAddress_idem:
  assumes "lower_case_is_address isAddress" "c \<in> set WALLET_OWNERSHIP_CHAIN_IDS"
    "parseWalletAddress isAddress (JString c) av = Inr a"
  shows "parseWalletAddress isAddress (JString c) (JString a) = Inr a"
  using assms by (auto simp: parseWalletAddress_on parseEvm_idem parseSolana_iff split: if_splits)

lemma parseWalletAddress_length:
  assumes "c \<in> set WALLET_OWNERSHIP_CHAIN_IDS" "parseWalletAddress isAddress (JString c) av = Inr a"
  shows "length a \<le> 44"
proof (cases "walletNamespaceOf c = Namespace_eip155")
  case True
  then show ?thesis using assms parseEvm_length by (fastforce simp: parseWalletAddress_on)
next
  case False
  then obtain bs where "solana_key bs" "a = base58_encode bs"
    using assms by (auto simp: parseWalletAddress_on parseSolana_iff)
  then show ?thesis
    using encode_length_bounds(2) [of bs] by (simp add: solana_key_def base58_encode_length list_all_iff)
qed

lemma parse_of_format:
  assumes "lower_case_is_address isAddress" "formatWalletAccountId isAddress cv av = Inr s"
  shows "parseWalletAccountId isAddress (JString s) = Inr s"
proof -
  obtain c a where c: "cv = JString c" "c \<in> set WALLET_OWNERSHIP_CHAIN_IDS" and s: "s = c @ '':'' @ a"
      and a: "parseWalletAddress isAddress (JString c) av = Inr a"
    using assms(2) by (auto simp: formatWalletAccountId_iff)
  have len: "length s \<le> 128" using chain_id_length [OF c(2)] parseWalletAddress_length [OF c(2) a] s by simp
  have "formatWalletAccountId isAddress (JString c) (JString a) = Inr s"
    using parseWalletAddress_idem [OF assms(1) c(2) a] c s by (simp add: formatWalletAccountId_iff)
  then have "accountIdOn isAddress WALLET_OWNERSHIP_CHAIN_IDS s = Inr s"
    using accountIdOn_supported [OF c(2) subset_refl, of isAddress a] s by simp
  then show ?thesis using len by (simp add: parseWalletAccountId_def)
qed

lemma parse_account_id_D:
  assumes "parseWalletAccountId isAddress v = Inr s"
  shows "v = JString s \<and> (\<exists>c a. c \<in> set WALLET_OWNERSHIP_CHAIN_IDS \<and> s = c @ '':'' @ a \<and>
    formatWalletAccountId isAddress (JString c) (JString a) = Inr s)"
  using assms accountIdOn_Inr by (fastforce simp: parseWalletAccountId_def split: jsval.splits if_splits)

lemma account_id_determines:
  assumes "c \<in> set WALLET_OWNERSHIP_CHAIN_IDS" "d \<in> set WALLET_OWNERSHIP_CHAIN_IDS"
    "c @ '':'' @ a = d @ '':'' @ b"
  shows "c = d \<and> a = b"
  using assms chain_prefix_unique [OF assms(1,2), of a] starts_with_append [of "d @ '':''" b] by auto

text \<open>The account identifiers that are accepted are exactly the ones the program formats, they
  are accepted unchanged, and equal identifiers come from the same network and the same
  canonical address.\<close>

theorem account_ids_are_canonical:
  assumes "lower_case_is_address isAddress"
  shows "((parseWalletAccountId isAddress v = Inr s) =
        (v = JString s \<and> (\<exists>cv av. formatWalletAccountId isAddress cv av = Inr s)))
    \<and> (formatWalletAccountId isAddress cv av = Inr s \<and> formatWalletAccountId isAddress cv' av' = Inr s \<longrightarrow>
        cv = cv' \<and> parseWalletAddress isAddress cv av = parseWalletAddress isAddress cv' av')"
proof (intro conjI impI)
  show "(parseWalletAccountId isAddress v = Inr s) =
      (v = JString s \<and> (\<exists>cv av. formatWalletAccountId isAddress cv av = Inr s))"
    using parse_account_id_D parse_of_format [OF assms] by blast
next
  assume fg: "formatWalletAccountId isAddress cv av = Inr s \<and> formatWalletAccountId isAddress cv' av' = Inr s"
  then obtain c a d b where
    "cv = JString c" "c \<in> set WALLET_OWNERSHIP_CHAIN_IDS" "parseWalletAddress isAddress cv av = Inr a"
    "cv' = JString d" "d \<in> set WALLET_OWNERSHIP_CHAIN_IDS" "parseWalletAddress isAddress cv' av' = Inr b"
    "c @ '':'' @ a = d @ '':'' @ b"
    unfolding formatWalletAccountId_iff by blast
  then show "cv = cv'" "parseWalletAddress isAddress cv av = parseWalletAddress isAddress cv' av'"
    using account_id_determines by metis+
qed

theorem account_ids_are_canonical_witness:
  "parseWalletAccountId (\<lambda>s. True) (JString (''eip155:1:0x'' @ replicate 39 (CHR ''0'') @ ''a'')) =
     Inr (''eip155:1:0x'' @ replicate 39 (CHR ''0'') @ ''a'')"
proof -
  define S where "S = ''eip155:1:0x'' @ replicate 39 (CHR ''0'') @ ''a''"
  have h: "lower_case_is_address (\<lambda>s. True)" by (simp add: lower_case_is_address_def)
  have "formatWalletAccountId (\<lambda>s. True) (JString ''eip155:1'') (JString (''0x'' @ replicate 39 (CHR ''0'') @ ''A'')) = Inr S"
    unfolding S_def by code_simp
  then have "\<exists>cv av. formatWalletAccountId (\<lambda>s. True) cv av = Inr S" by blast
  then have "parseWalletAccountId (\<lambda>s. True) (JString S) = Inr S"
    using account_ids_are_canonical [OF h, of "JString S" S] by blast
  then show ?thesis by (simp only: S_def)
qed

end
