(* ===== verification/Action_Values.thy ===== *)
theory Action_Values
  imports Asset_Registry
begin

text \<open>
  Values shared by the mainnet-action modules under \<^verbatim>\<open>apps/api/src/mainnet-actions/domain\<close>: the
  record copy that refuses proxies, identifiers, digests, strict timestamps and the server time.
  Both source files declare these helpers with the same body and their own error codes; here
  the error is an argument.
\<close>

subsection \<open>Records\<close>

definition plain_data_record :: "'e \<Rightarrow> string list \<Rightarrow> jsval \<Rightarrow> 'e + js_record" where
  "plain_data_record e keys v =
     (if js_is_proxy v then Inl e else of_option e (exact_data_record keys v))"

subsection \<open>Identifiers and digests\<close>

definition uuid_value :: "'e \<Rightarrow> jsval \<Rightarrow> 'e + string" where
  "uuid_value e v = (case v of JString s \<Rightarrow> if uuid_v4 s then Inr s else Inl e | _ \<Rightarrow> Inl e)"

definition nonzero_digest :: "string \<Rightarrow> bool" where
  "nonzero_digest s = (sha256_hex s \<and> s \<noteq> replicate 64 (CHR ''0''))"

definition digest_value :: "'e \<Rightarrow> jsval \<Rightarrow> 'e + string" where
  "digest_value e v = (case v of JString s \<Rightarrow> if nonzero_digest s then Inr s else Inl e | _ \<Rightarrow> Inl e)"

lemma uuid_value_iff: "(uuid_value e v = Inr s) = (v = JString s \<and> uuid_v4 s)"
  by (auto simp: uuid_value_def split: jsval.splits if_splits)

lemma digest_value_iff: "(digest_value e v = Inr s) = (v = JString s \<and> nonzero_digest s)"
  by (auto simp: digest_value_def split: jsval.splits if_splits)

subsection \<open>Times\<close>

text \<open>
  A regular expression that is a sequence of groups, each a choice between fixed-width
  alternatives of one width.
\<close>

fun matches_groups :: "string list list list \<Rightarrow> string \<Rightarrow> bool" where
  "matches_groups [] s = (s = [])"
| "matches_groups (alternatives # groups) s =
     (let w = length (hd alternatives)
      in list_ex (\<lambda>a. matches_classes a (take w s)) alternatives \<and> matches_groups groups (drop w s))"

definition CANONICAL_TIMESTAMP_PATTERN :: "string \<Rightarrow> bool" where
  "CANONICAL_TIMESTAMP_PATTERN = matches_groups
     [[replicate 4 digit_class @ [''-'']],
      [[''0'', ''123456789''], [''1'', ''012'']], [[''-'']],
      [[''0'', ''123456789''], [''12'', digit_class], [''3'', ''01'']], [[''T'']],
      [[''01'', digit_class], [''2'', ''0123'']],
      [['':'', ''012345'', digit_class, '':'', ''012345'', digit_class, ''.''] @ replicate 3 digit_class @ [''Z'']]]"

text \<open>
  \<^verbatim>\<open>Date.parse\<close> followed by the comparison of the printed date with the text: the text and its
  time value.
\<close>

definition strict_timestamp :: "'e \<Rightarrow> jsval \<Rightarrow> 'e + string \<times> int" where
  "strict_timestamp e v =
     (case v of
        JString s \<Rightarrow>
          if \<not> CANONICAL_TIMESTAMP_PATTERN s then Inl e
          else (case read_timestamp s of None \<Rightarrow> Inl e | Some t \<Rightarrow> Inr (s, t))
      | _ \<Rightarrow> Inl e)"

text \<open>
  The server time: a date object with the date prototype that is no proxy; an object that is
  no date has no time value and is refused by the catch block.
\<close>

definition server_time_value :: "'e \<Rightarrow> jsval \<Rightarrow> 'e + int" where
  "server_time_value e v = (case v of JDate ProtoDate (Some t) \<Rightarrow> Inr t | _ \<Rightarrow> Inl e)"

lemma strict_timestamp_iff:
  "(strict_timestamp e v = Inr (s, t)) = (v = JString s \<and> CANONICAL_TIMESTAMP_PATTERN s \<and> valid_time t \<and> s = to_iso t)"
  by (auto simp: strict_timestamp_def read_timestamp_to_iso split: jsval.splits if_splits option.splits
      dest: read_timestamp_iff [THEN iffD1])

lemma server_time_value_iff: "(server_time_value e v = Inr t) = (v = mk_date t)"
  by (auto simp: server_time_value_def mk_date_def split: jsval.splits jsproto.splits option.splits)

end
