(* ===== verification/Asset_Registry_Correct.thy ===== *)
theory Asset_Registry_Correct
  imports Asset_Registry "HOL-Library.Multiset"
begin

text \<open>
  Correctness of the asset registry: the joined keys are unambiguous, the two computations of
  the length of a Solana key agree, a snapshot satisfies its invariant, and the lookups return
  exactly the assets of the snapshot.
\<close>

subsection \<open>Joined keys\<close>

lemma nul_join_inject:
  "CHR 0x00 \<notin> set a \<Longrightarrow> CHR 0x00 \<notin> set a' \<Longrightarrow> (a @ NUL @ b = a' @ NUL @ b') = (a = a' \<and> b = b')"
proof (induction a arbitrary: a')
  case Nil
  then show ?case by (cases a') (auto simp: NUL_def)
next
  case (Cons x a)
  then show ?case by (cases a') (auto simp: NUL_def)
qed

lemma texts_no_nul [simp]:
  "CHR 0x00 \<notin> set (stablecoin_text s)" "CHR 0x00 \<notin> set (chain_text c)"
  by (cases s; simp) (cases c; simp)

lemma stablecoin_text_inject [simp]: "(stablecoin_text a = stablecoin_text b) = (a = b)"
  by (auto dest: stablecoin_enum.spell_inj)

lemma reviewed_ids_no_nul: "r \<in> set REVIEWED_NETWORKS \<Longrightarrow> CHR 0x00 \<notin> set (rn_networkId r)"
proof -
  have "list_all (\<lambda>r. CHR 0x00 \<notin> set (rn_networkId r)) REVIEWED_NETWORKS" by code_simp
  then show "r \<in> set REVIEWED_NETWORKS \<Longrightarrow> ?thesis" by (simp add: list_all_iff)
qed

subsection \<open>Lengths of Solana keys\<close>

lemma flush_16_256: "0 < n \<Longrightarrow> (length (flush 16 n) + 1) div 2 = length (flush 256 n)"
proof (induction n rule: less_induct)
  case (less n)
  show ?case
  proof (cases "n < 16")
    case True
    then show ?thesis using less.prems by (simp add: flush_pos)
  next
    case big: False
    then have two: "flush 16 n = n mod 16 # n div 16 mod 16 # flush 16 (n div 256)"
      using less.prems by (simp add: flush_pos div_greater_zero_iff div_mult2_eq [of n 16 16, simplified])
    have one: "flush 256 n = n mod 256 # flush 256 (n div 256)" using less.prems by (simp add: flush_pos)
    show ?thesis
    proof (cases "n div 256 = 0")
      case True
      then show ?thesis unfolding one two by (simp only: flush_zero list.size)
    next
      case False
      then have "(length (flush 16 (n div 256)) + 1) div 2 = length (flush 256 (n div 256))"
        using less.prems by (intro less.IH) auto
      then show ?thesis unfolding one two by simp
    qed
  qed
qed

lemma index_of_one: "(index_of c = Some 0) = (c = CHR ''1'')"
proof -
  have "BASE58_ALPHABET ! 0 = CHR ''1''" by (simp add: BASE58_ALPHABET_def)
  then show ?thesis using index_of_Some [of c 0] index_of_nth [of 0] by auto
qed

lemma leading_indices: "indices s = Some ds \<Longrightarrow> leading (CHR ''1'') s = leading 0 ds"
proof (induction s arbitrary: ds)
  case (Cons c s)
  then obtain i ds' where "index_of c = Some i" "indices s = Some ds'" "ds = i # ds'"
    by (auto split: option.splits)
  then show ?case using Cons.IH index_of_one [of c] by (auto simp: leading_def)
qed (simp add: leading_def)

lemma byte_length_decode: "solanaPublicKeyByteLength s = map_option length (base58_decode s)"
proof (cases "indices s")
  case None
  then show ?thesis by (simp add: solanaPublicKeyByteLength_def base58_decode_def)
next
  case (Some ds)
  have len: "length (decode_digits ds) = leading 0 ds + length (flush 256 (be_val 58 ds))"
    by (simp add: decode_digits_def significant_convert)
  have "(if be_val 58 ds = 0 then 0 else (length (flush 16 (be_val 58 ds)) + 1) div 2) = length (flush 256 (be_val 58 ds))"
    using flush_16_256 [of "be_val 58 ds"] by (cases "be_val 58 ds = 0") simp_all
  then show ?thesis
    using Some leading_indices [OF Some] len
    by (simp only: solanaPublicKeyByteLength_def base58_decode_def option.case option.map Let_def be_val_def [symmetric])
qed

lemma normalize_solana_iff:
  "(normalizeIdentity SOLANA_MINT v = Inr a) = (parseSolanaWalletAddress v = Inr a)"
proof -
  have pat: "SOLANA_BASE58_PATTERN = SOLANA_ADDRESS_PATTERN"
    by (auto simp: SOLANA_BASE58_PATTERN_def SOLANA_ADDRESS_PATTERN_def fun_eq_iff)
  have zero: "SOLANA_ZERO_PUBLIC_KEY = ZERO_SOLANA_ADDRESS"
    by (simp add: SOLANA_ZERO_PUBLIC_KEY_def ZERO_SOLANA_ADDRESS_def)
  show ?thesis
  proof (cases v)
    case (JString s)
    show ?thesis
    proof (cases "SOLANA_ADDRESS_PATTERN s")
      case False
      then show ?thesis by (simp add: JString normalizeIdentity_def parseSolanaWalletAddress_def pat zero decodeBase58_def)
    next
      case True
      then have "indices s \<noteq> None" unfolding indices_defined SOLANA_ADDRESS_PATTERN_def by blast
      then obtain bs where bs: "base58_decode s = Some bs" by (auto simp: base58_decode_def)
      then show ?thesis
        using True base58_encode_decode [OF bs]
        by (simp add: JString normalizeIdentity_def parseSolanaWalletAddress_def pat zero decodeBase58_def
            byte_length_decode encodeBase58_def)
    qed
  qed (simp_all add: normalizeIdentity_def parseSolanaWalletAddress_def)
qed

text \<open>The asset registry and the wallet module compute the length of a Solana public key in
  different ways, and they accept exactly the same texts with the same result.\<close>

theorem solana_mints_are_solana_addresses:
  "(normalizeIdentity SOLANA_MINT v = Inr a) = (parseSolanaWalletAddress v = Inr a)"
  by (rule normalize_solana_iff)

subsection \<open>The invariant of a snapshot\<close>

text \<open>A network of a snapshot is a reviewed network of the snapshot's environment.\<close>

definition reviewed_as :: "AssetRegistryEnvironment \<Rightarrow> SupportedNetwork \<Rightarrow> bool" where
  "reviewed_as environment n =
     list_ex (\<lambda>r. rn_environment r = environment \<and> rn_chain r = net_chain n \<and> rn_networkId r = net_networkId n \<and>
       rn_displayName r = net_displayName n \<and> rn_identityKind r = net_identityKind n) REVIEWED_NETWORKS"

text \<open>An asset of a snapshot is a verified identity of the catalogue, on a network of the snapshot
  that is active whenever the asset is.\<close>

definition verified_as :: "AssetRegistryEnvironment \<Rightarrow> SupportedStablecoinAsset \<Rightarrow> bool" where
  "verified_as environment a =
     list_ex (\<lambda>c. vi_environment c = environment \<and> vi_stablecoin c = asset_stablecoin a \<and>
       vi_issuer c = asset_issuer a \<and> vi_chain c = asset_chain a \<and> vi_networkId c = asset_networkId a \<and>
       vi_identity c = asset_identity a \<and> vi_decimals c = asset_decimals a \<and>
       vi_verificationSource c = asset_verificationSource a) VERIFIED_STABLECOIN_IDENTITIES"

definition hosted_by :: "SupportedNetwork list \<Rightarrow> SupportedStablecoinAsset \<Rightarrow> bool" where
  "hosted_by networks a =
     list_ex (\<lambda>n. net_chain n = asset_chain a \<and> net_networkId n = asset_networkId a \<and>
       net_identityKind n = asset_identityKind a \<and>
       (asset_activationState a = INACTIVE \<or> net_activationState n = ACTIVE)) networks"

definition snapshot_networks_ok :: "AssetRegistryEnvironment \<Rightarrow> SupportedNetwork list \<Rightarrow> bool" where
  "snapshot_networks_ok environment networks =
     (list_all (reviewed_as environment) networks \<and> distinct (map net_chain networks) \<and>
      distinct (map net_networkId networks))"

definition snapshot_assets_ok ::
  "int \<Rightarrow> AssetRegistryEnvironment \<Rightarrow> SupportedNetwork list \<Rightarrow> SupportedStablecoinAsset list \<Rightarrow> bool" where
  "snapshot_assets_ok version environment networks assets =
     (list_all (\<lambda>a. asset_registryVersion a = version \<and> verified_as environment a \<and> hosted_by networks a) assets \<and>
      distinct (map (\<lambda>a. (asset_networkId a, asset_stablecoin a)) assets) \<and>
      distinct (map (\<lambda>a. (asset_networkId a, asset_identity a)) assets))"

definition snapshot_ok :: "SupportedAssetRegistrySnapshot \<Rightarrow> bool" where
  "snapshot_ok s =
     (1 \<le> sn_version s \<and> snapshot_networks_ok (sn_environment s) (sn_networks s) \<and>
      length (sn_networks s) = 4 \<and> set (map net_chain (sn_networks s)) = set SUPPORTED_CHAINS \<and>
      snapshot_assets_ok (sn_version s) (sn_environment s) (sn_networks s) (sn_assets s))"

lemma find_SomeD: "find P xs = Some x \<Longrightarrow> x \<in> set xs \<and> P x"
  by (auto simp: find_Some_iff)

lemma validateNetworkDefinition_sound:
  assumes "validateNetworkDefinition environment networks d = Inr n"
  shows "reviewed_as environment n \<and> net_chain n \<notin> set (map net_chain networks) \<and>
    net_networkId n \<notin> set (map net_networkId networks)"
  using assms
  unfolding validateNetworkDefinition_def res_bind_eq_Inr require_eq_Inr of_option_eq_Inr sum.inject
  by (auto simp: reviewed_as_def list_ex_iff reviewedNetworksFor_def byChain_def byNetworkId_def find_None_iff
      dest!: find_SomeD)

lemma collectNetworks_sound:
  "collectNetworks environment acc ds = Inr networks \<Longrightarrow> snapshot_networks_ok environment acc \<Longrightarrow>
   snapshot_networks_ok environment networks"
proof (induction ds arbitrary: acc)
  case (Cons d ds)
  then obtain n where n: "validateNetworkDefinition environment acc d = Inr n"
      and rest: "collectNetworks environment (acc @ [n]) ds = Inr networks"
    by (auto simp: res_simps)
  have "snapshot_networks_ok environment (acc @ [n])"
    using validateNetworkDefinition_sound [OF n] Cons.prems(2) by (auto simp: snapshot_networks_ok_def)
  then show ?case using Cons.IH rest by blast
qed simp

text \<open>Every identity of the catalogue is in normal form for the kind of its network.\<close>

lemma catalog_identity_normal:
  assumes "c \<in> set (verifiedIdentityCandidates kind identity)"
  shows "c \<in> set VERIFIED_STABLECOIN_IDENTITIES \<and> vi_identity c = identity"
proof -
  have lower: "list_all (\<lambda>c. EVM_CONTRACT_PATTERN (vi_identity c) \<longrightarrow> to_lower (vi_identity c) = vi_identity c)
      VERIFIED_STABLECOIN_IDENTITIES" by code_simp
  have c: "c \<in> set VERIFIED_STABLECOIN_IDENTITIES" "normalizeIdentity kind (JString (vi_identity c)) = Inr identity"
    using assms unfolding verifiedIdentityCandidates_def by (auto split: option.splits)
  then show ?thesis using lower by (auto simp: normalizeIdentity_def list_all_iff split: if_splits)
qed

lemma validateAssetDefinition_sound:
  assumes "validateAssetDefinition version environment d networks = Inr a"
  shows "asset_registryVersion a = version \<and> verified_as environment a \<and> hosted_by networks a"
proof -
  obtain stablecoin chain networkId activation network identity cand where
    net: "byChain networks chain = Some network" "net_networkId network = networkId"
    and act: "\<not> (activation = ACTIVE \<and> net_activationState network \<noteq> ACTIVE)"
    and cand: "find (\<lambda>c. vi_environment c = environment \<and> vi_chain c = chain \<and> vi_networkId c = networkId)
        (verifiedIdentityCandidates (net_identityKind network) identity) = Some cand"
    and coin: "vi_stablecoin cand = stablecoin"
    and a: "a = \<lparr>asset_registryVersion = version, asset_stablecoin = stablecoin,
          asset_issuer = vi_issuer cand, asset_chain = chain, asset_networkId = networkId,
          asset_identityKind = net_identityKind network, asset_identity = identity,
          asset_qualifiedIdentity =
            networkId @ ''/'' @ to_lower (identity_kind_text (net_identityKind network)) @ '':'' @ identity,
          asset_decimals = vi_decimals cand, asset_activationState = activation,
          asset_verificationSource = vi_verificationSource cand\<rparr>"
    using assms unfolding validateAssetDefinition_def res_bind_eq_Inr require_eq_Inr of_option_eq_Inr sum.inject Let_def
    by (elim exE conjE, hypsubst) (rule that; simp)
  from cand have c: "cand \<in> set (verifiedIdentityCandidates (net_identityKind network) identity)"
      and eqs: "vi_environment cand = environment" "vi_chain cand = chain" "vi_networkId cand = networkId"
    by (auto dest: find_SomeD)
  have "verified_as environment a"
    unfolding verified_as_def list_ex_iff using catalog_identity_normal [OF c] eqs coin by (auto simp: a intro!: bexI)
  moreover have "hosted_by networks a"
  proof -
    have "network \<in> set networks" "net_chain network = chain"
      using net(1) by (auto simp: byChain_def dest: find_SomeD)
    moreover have "activation = INACTIVE \<or> net_activationState network = ACTIVE" using act by (cases activation) auto
    ultimately show ?thesis unfolding hosted_by_def list_ex_iff using net(2) by (auto simp: a intro!: bexI)
  qed
  ultimately show ?thesis by (simp add: a)
qed

lemma hosted_no_nul:
  assumes "list_all (reviewed_as environment) networks" "hosted_by networks a"
  shows "CHR 0x00 \<notin> set (asset_networkId a)"
proof -
  obtain n where "n \<in> set networks" "net_networkId n = asset_networkId a"
    using assms(2) by (auto simp: hosted_by_def list_ex_iff)
  then show ?thesis
    using assms(1) reviewed_ids_no_nul by (fastforce simp: list_all_iff reviewed_as_def list_ex_iff)
qed

lemma collectAssets_sound:
  "collectAssets version environment networks acc ds = Inr assets \<Longrightarrow>
   list_all (reviewed_as environment) networks \<Longrightarrow>
   snapshot_assets_ok version environment networks acc \<Longrightarrow> snapshot_assets_ok version environment networks assets"
proof (induction ds arbitrary: acc)
  case (Cons d ds)
  then obtain a where a: "validateAssetDefinition version environment d networks = Inr a"
      and keys: "assetKey a \<notin> set (map assetKey acc)" "assetIdentityKey a \<notin> set (map assetIdentityKey acc)"
      and rest: "collectAssets version environment networks (acc @ [a]) ds = Inr assets"
    by (auto simp: res_simps)
  from validateAssetDefinition_sound [OF a] have a_ok:
    "asset_registryVersion a = version" "verified_as environment a" "hosted_by networks a" by blast+
  have nul: "CHR 0x00 \<notin> set (asset_networkId b)" if "b \<in> set (acc @ [a])" for b
    using hosted_no_nul [OF Cons.prems(2)] that Cons.prems(3) a_ok(3) by (auto simp: snapshot_assets_ok_def list_all_iff)
  have "(asset_networkId a, asset_stablecoin a) \<noteq> (asset_networkId b, asset_stablecoin b)"
      "(asset_networkId a, asset_identity a) \<noteq> (asset_networkId b, asset_identity b)" if "b \<in> set acc" for b
    using keys that by (auto simp: assetKey_def assetIdentityKey_def identityKey_def)
  then have "snapshot_assets_ok version environment networks (acc @ [a])"
    using Cons.prems(3) a_ok by (force simp: snapshot_assets_ok_def)
  then show ?case using Cons.IH rest Cons.prems(2) by blast
qed simp

lemma networks_cover:
  assumes "list_all (\<lambda>c. byChain networks c \<noteq> None) SUPPORTED_CHAINS"
  shows "set (map net_chain networks) = set SUPPORTED_CHAINS"
proof -
  have "c \<in> set (map net_chain networks)" for c
    using assms chain_enum.listed [of c] by (fastforce simp: list_all_iff byChain_def dest: find_SomeD)
  then show ?thesis using chain_enum.listed by blast
qed

lemma snapshot_sound:
  assumes "createSupportedAssetRegistrySnapshot sha256 d = Inr s"
  shows "snapshot_ok s"
proof -
  obtain version environment networks assets where
    v: "parseVersion (sd_version d) = Inr version"
    and n: "collectNetworks environment [] (sd_networks d) = Inr networks"
    and len: "length networks = length SUPPORTED_CHAINS" "list_all (\<lambda>c. byChain networks c \<noteq> None) SUPPORTED_CHAINS"
    and a: "collectAssets version environment networks [] (sd_assets d) = Inr assets"
    and s: "s = \<lparr>sn_version = version, sn_environment = environment,
          sn_fingerprintSha256 = fingerprintSnapshot sha256 version environment networks assets,
          sn_networks = networks, sn_assets = assets\<rparr>"
    using assms unfolding createSupportedAssetRegistrySnapshot_def validateNetworkDefinitions_def
      res_bind_eq_Inr require_eq_Inr sum.inject
    by (elim exE conjE, hypsubst) (rule that; simp)
  have nets: "snapshot_networks_ok environment networks"
    by (rule collectNetworks_sound [OF n]) (simp add: snapshot_networks_ok_def)
  then have "snapshot_assets_ok version environment networks assets"
    by (intro collectAssets_sound [OF a]) (simp_all add: snapshot_networks_ok_def snapshot_assets_ok_def)
  moreover have "1 \<le> version" using v by (auto simp: parseVersion_def split: jsval.splits jsnum.splits if_splits)
  ultimately show ?thesis
    using nets len(1) networks_cover [OF len(2)] by (simp add: s snapshot_ok_def SUPPORTED_CHAINS_def)
qed

subsection \<open>Lookups\<close>

lemma map_of_rev_keys:
  "distinct (map f xs) \<Longrightarrow> (map_of (rev (map (\<lambda>x. (f x, x)) xs)) k = Some x) = (x \<in> set xs \<and> f x = k)"
  by (subst map_of_eq_Some_iff) (auto simp: o_def rev_map [symmetric])

lemma snapshot_assets_okD:
  assumes "snapshot_ok s" "a \<in> set (sn_assets s)"
  shows "hosted_by (sn_networks s) a" "verified_as (sn_environment s) a" "CHR 0x00 \<notin> set (asset_networkId a)"
  using assms hosted_no_nul
  by (auto simp: snapshot_ok_def snapshot_assets_ok_def snapshot_networks_ok_def list_all_iff)

lemma snapshot_keys_distinct:
  assumes "snapshot_ok s"
  shows "distinct (map assetIdentityKey (sn_assets s))"
proof -
  have d: "distinct (map (\<lambda>a. (asset_networkId a, asset_identity a)) (sn_assets s))"
    using assms by (simp add: snapshot_ok_def snapshot_assets_ok_def)
  moreover have "inj_on assetIdentityKey (set (sn_assets s))"
  proof (rule inj_onI)
    fix a b assume ab: "a \<in> set (sn_assets s)" "b \<in> set (sn_assets s)" "assetIdentityKey a = assetIdentityKey b"
    then have "(asset_networkId a, asset_identity a) = (asset_networkId b, asset_identity b)"
      using snapshot_assets_okD(3) [OF assms]
      unfolding assetIdentityKey_def identityKey_def by (simp add: nul_join_inject)
    with d ab(1,2) show "a = b" by (simp add: distinct_map inj_on_def)
  qed
  ultimately show ?thesis by (simp add: distinct_map)
qed

lemma byNetworkId_iff:
  "distinct (map net_networkId networks) \<Longrightarrow>
   (byNetworkId networks i = Some n) = (n \<in> set networks \<and> net_networkId n = i)"
proof -
  assume d: "distinct (map net_networkId networks)"
  show ?thesis
  proof
    assume "byNetworkId networks i = Some n"
    then show "n \<in> set networks \<and> net_networkId n = i" by (auto simp: byNetworkId_def dest: find_SomeD)
  next
    assume n: "n \<in> set networks \<and> net_networkId n = i"
    then obtain m where m: "byNetworkId networks i = Some m"
      by (cases "byNetworkId networks i") (auto simp: byNetworkId_def find_None_iff)
    then have "m \<in> set networks" "net_networkId m = i" by (auto simp: byNetworkId_def dest: find_SomeD)
    with n d have "m = n" by (auto simp: distinct_map inj_on_def)
    with m show "byNetworkId networks i = Some n" by simp
  qed
qed

lemma snapshot_networkD:
  assumes "snapshot_ok s" "a \<in> set (sn_assets s)"
  shows "\<exists>n. byNetworkId (sn_networks s) (asset_networkId a) = Some n \<and> net_networkId n = asset_networkId a \<and>
    net_identityKind n = asset_identityKind a \<and> (asset_activationState a = ACTIVE \<longrightarrow> net_activationState n = ACTIVE)"
proof -
  have "distinct (map net_networkId (sn_networks s))" using assms(1) by (simp add: snapshot_ok_def snapshot_networks_ok_def)
  then show ?thesis
    using snapshot_assets_okD(1) [OF assms] by (auto simp: byNetworkId_iff hosted_by_def list_ex_iff)
qed

lemma identifyAsset_iff:
  assumes "snapshot_ok s"
  shows "(identifyAsset s n i = Some a) =
    (a \<in> set (sn_assets s) \<and> asset_networkId a = n \<and> normalizeIdentity (asset_identityKind a) (JString i) = Inr (asset_identity a))"
proof
  assume "identifyAsset s n i = Some a"
  then obtain network identity where net: "byNetworkId (sn_networks s) n = Some network"
      and norm: "normalizeIdentity (net_identityKind network) (JString i) = Inr identity"
      and "map_of (rev (map (\<lambda>a. (assetIdentityKey a, a)) (sn_assets s))) (identityKey (net_networkId network) identity) = Some a"
    by (auto simp: identifyAsset_def split: option.splits sum.splits)
  then have a: "a \<in> set (sn_assets s)" "assetIdentityKey a = identityKey (net_networkId network) identity"
    by (auto simp: map_of_rev_keys [OF snapshot_keys_distinct [OF assms]])
  have r: "network \<in> set (sn_networks s)" "net_networkId network = n"
    using net by (auto simp: byNetworkId_def dest: find_SomeD)
  then have "CHR 0x00 \<notin> set (net_networkId network)"
    using assms reviewed_ids_no_nul
    by (fastforce simp: snapshot_ok_def snapshot_networks_ok_def list_all_iff reviewed_as_def list_ex_iff)
  then have eq: "asset_networkId a = n" "asset_identity a = identity"
    using a snapshot_assets_okD(3) [OF assms a(1)] r(2) by (simp_all add: assetIdentityKey_def identityKey_def nul_join_inject)
  with snapshot_networkD [OF assms a(1)] net norm a(1) show
    "a \<in> set (sn_assets s) \<and> asset_networkId a = n \<and> normalizeIdentity (asset_identityKind a) (JString i) = Inr (asset_identity a)"
    by auto
next
  assume r: "a \<in> set (sn_assets s) \<and> asset_networkId a = n \<and>
    normalizeIdentity (asset_identityKind a) (JString i) = Inr (asset_identity a)"
  then obtain network where "byNetworkId (sn_networks s) n = Some network" "net_networkId network = n"
      "net_identityKind network = asset_identityKind a"
    using snapshot_networkD [OF assms] by blast
  moreover have "map_of (rev (map (\<lambda>a. (assetIdentityKey a, a)) (sn_assets s))) (assetIdentityKey a) = Some a"
    using r by (simp add: map_of_rev_keys [OF snapshot_keys_distinct [OF assms]])
  ultimately show "identifyAsset s n i = Some a"
    using r by (simp add: identifyAsset_def assetIdentityKey_def)
qed

subsection \<open>The shipped registries\<close>

definition kind_of_chain :: "SupportedChain \<Rightarrow> AssetIdentityKind" where
  "kind_of_chain c = (if c = SOLANA then SOLANA_MINT else EVM_CONTRACT)"

lemma mint_normal:
  assumes "SOLANA_BASE58_PATTERN s" "leading (CHR ''1'') s = 0" "indices s = Some ds"
    "256 ^ 31 \<le> be_val 58 ds" "be_val 58 ds < 256 ^ 32"
  shows "normalizeIdentity SOLANA_MINT (JString s) = Inr s"
proof -
  have "leading 0 ds = 0" using assms(2) leading_indices [OF assms(3)] by simp
  moreover have "length (flush 256 (be_val 58 ds)) = 32"
    using flush_length_upper [of 256 "be_val 58 ds" 32] flush_length_lower [of 256 31 "be_val 58 ds"] assms(4,5) by simp
  ultimately have "length (decode_digits ds) = 32"
    by (simp add: decode_digits_def significant_convert)
  then have "solanaPublicKeyByteLength s = Some 32"
    by (simp add: byte_length_decode base58_decode_def assms(3))
  moreover have "s \<noteq> SOLANA_ZERO_PUBLIC_KEY"
    using assms(2) by (auto simp: SOLANA_ZERO_PUBLIC_KEY_def leading_def)
  ultimately show ?thesis using assms(1) by (simp add: normalizeIdentity_def)
qed

lemma mints_normal:
  "normalizeIdentity SOLANA_MINT (JString ''EPjFWdd5AufqSSqeM2qN1xzybapC8G4wEGGkZwyTDt1v'') =
     Inr ''EPjFWdd5AufqSSqeM2qN1xzybapC8G4wEGGkZwyTDt1v''"
  "normalizeIdentity SOLANA_MINT (JString ''Es9vMFrzaCERmJfrF4H2FYD4KCoNkY11McCe8BenwNYB'') =
     Inr ''Es9vMFrzaCERmJfrF4H2FYD4KCoNkY11McCe8BenwNYB''"
  "normalizeIdentity SOLANA_MINT (JString ''2b1kV6DkPAnxd5ixfnxCpjxmKwqjjaYmCZfHsFu24GXo'') =
     Inr ''2b1kV6DkPAnxd5ixfnxCpjxmKwqjjaYmCZfHsFu24GXo''"
  "normalizeIdentity SOLANA_MINT (JString ''4zMMC9srt5Ri5X14GAgXhaHii3GnPAEERYPJgZJDncDU'') =
     Inr ''4zMMC9srt5Ri5X14GAgXhaHii3GnPAEERYPJgZJDncDU''"
  "normalizeIdentity SOLANA_MINT (JString ''CXk2AMBfi3TwaEL2468s6zP8xq9NxTXjp9gjMgzeUynM'') =
     Inr ''CXk2AMBfi3TwaEL2468s6zP8xq9NxTXjp9gjMgzeUynM''"
  by (rule mint_normal, code_simp, code_simp, code_simp, simp add: be_val_def, simp add: be_val_def)+

lemma catalog_solana:
  "map vi_identity (filter (\<lambda>c. vi_chain c = SOLANA) VERIFIED_STABLECOIN_IDENTITIES) =
     [''EPjFWdd5AufqSSqeM2qN1xzybapC8G4wEGGkZwyTDt1v'', ''Es9vMFrzaCERmJfrF4H2FYD4KCoNkY11McCe8BenwNYB'',
      ''2b1kV6DkPAnxd5ixfnxCpjxmKwqjjaYmCZfHsFu24GXo'', ''4zMMC9srt5Ri5X14GAgXhaHii3GnPAEERYPJgZJDncDU'',
      ''CXk2AMBfi3TwaEL2468s6zP8xq9NxTXjp9gjMgzeUynM'']"
  by code_simp

lemma catalog_normal:
  assumes "c \<in> set VERIFIED_STABLECOIN_IDENTITIES"
  shows "normalizeIdentity (kind_of_chain (vi_chain c)) (JString (vi_identity c)) = Inr (vi_identity c)"
proof (cases "vi_chain c = SOLANA")
  case True
  then have "vi_identity c \<in> set (map vi_identity (filter (\<lambda>c. vi_chain c = SOLANA) VERIFIED_STABLECOIN_IDENTITIES))"
    using assms by auto
  then show ?thesis
    unfolding catalog_solana list.set insert_iff empty_iff kind_of_chain_def if_P [OF True]
    by (elim disjE FalseE) (simp_all only: mints_normal)
next
  case False
  have "list_all (\<lambda>c. normalizeIdentity EVM_CONTRACT (JString (vi_identity c)) = Inr (vi_identity c))
      (filter (\<lambda>c. vi_chain c \<noteq> SOLANA) VERIFIED_STABLECOIN_IDENTITIES)" by code_simp
  with False assms show ?thesis by (simp add: list_all_iff kind_of_chain_def)
qed

lemma catalog_networks:
  "list_all (\<lambda>c. case find (\<lambda>n. rn_environment n = vi_environment c \<and> rn_chain n = vi_chain c \<and>
       rn_networkId n = vi_networkId c) REVIEWED_NETWORKS of
     None \<Rightarrow> False | Some n \<Rightarrow> rn_identityKind n = kind_of_chain (vi_chain c)) VERIFIED_STABLECOIN_IDENTITIES"
  by code_simp

lemma candidates_alt:
  "verifiedIdentityCandidates kind identity =
     filter (\<lambda>c. kind_of_chain (vi_chain c) = kind \<and> vi_identity c = identity) VERIFIED_STABLECOIN_IDENTITIES"
  unfolding verifiedIdentityCandidates_def
proof (rule filter_cong [OF refl])
  fix c assume c: "c \<in> set VERIFIED_STABLECOIN_IDENTITIES"
  then obtain n where n: "find (\<lambda>n. rn_environment n = vi_environment c \<and> rn_chain n = vi_chain c \<and>
       rn_networkId n = vi_networkId c) REVIEWED_NETWORKS = Some n" "rn_identityKind n = kind_of_chain (vi_chain c)"
    using catalog_networks by (fastforce simp: list_all_iff split: option.splits)
  show "(case find (\<lambda>n. rn_environment n = vi_environment c \<and> rn_chain n = vi_chain c \<and>
       rn_networkId n = vi_networkId c) REVIEWED_NETWORKS of
          None \<Rightarrow> False
        | Some candidateNetwork \<Rightarrow> rn_identityKind candidateNetwork = kind \<and>
            normalizeIdentity kind (JString (vi_identity c)) = Inr identity) =
      (kind_of_chain (vi_chain c) = kind \<and> vi_identity c = identity)"
    using catalog_normal [OF c] n by auto
qed

lemma catalog_identity_unique:
  assumes "c \<in> set VERIFIED_STABLECOIN_IDENTITIES" "c' \<in> set VERIFIED_STABLECOIN_IDENTITIES"
    "vi_environment c = vi_environment c'" "vi_networkId c = vi_networkId c'" "vi_identity c = vi_identity c'"
  shows "c = c'"
proof -
  have "distinct (map (\<lambda>c. (vi_networkId c, vi_identity c)) VERIFIED_STABLECOIN_IDENTITIES)" by code_simp
  then show ?thesis using assms by (auto simp: distinct_map inj_on_def)
qed

text \<open>The definition and the asset made from a catalogue entry.\<close>

definition definition_of :: "RegistryActivationState \<Rightarrow> VerifiedStablecoinIdentity \<Rightarrow> StablecoinAssetDefinition" where
  "definition_of activation c =
     \<lparr>ad_stablecoin = JString (stablecoin_text (vi_stablecoin c)), ad_chain = JString (chain_text (vi_chain c)),
      ad_networkId = JString (vi_networkId c), ad_identity = JString (vi_identity c),
      ad_decimals = js_int (vi_decimals c), ad_activationState = JString (activation_text activation)\<rparr>"

definition asset_of :: "int \<Rightarrow> RegistryActivationState \<Rightarrow> VerifiedStablecoinIdentity \<Rightarrow> SupportedStablecoinAsset" where
  "asset_of version activation c =
     \<lparr>asset_registryVersion = version, asset_stablecoin = vi_stablecoin c, asset_issuer = vi_issuer c,
      asset_chain = vi_chain c, asset_networkId = vi_networkId c, asset_identityKind = kind_of_chain (vi_chain c),
      asset_identity = vi_identity c,
      asset_qualifiedIdentity = vi_networkId c @ ''/'' @ to_lower (identity_kind_text (kind_of_chain (vi_chain c))) @ '':'' @ vi_identity c,
      asset_decimals = vi_decimals c, asset_activationState = activation,
      asset_verificationSource = vi_verificationSource c\<rparr>"

lemma catalog_fields:
  assumes "c \<in> set VERIFIED_STABLECOIN_IDENTITIES"
  shows "parseNetworkId (JString (vi_networkId c)) = Inr (vi_networkId c)" "safe_integer (vi_decimals c)"
proof -
  have "list_all (\<lambda>c. parseNetworkId (JString (vi_networkId c)) = Inr (vi_networkId c) \<and> safe_integer (vi_decimals c))
      VERIFIED_STABLECOIN_IDENTITIES" by code_simp
  with assms show "parseNetworkId (JString (vi_networkId c)) = Inr (vi_networkId c)" "safe_integer (vi_decimals c)"
    by (simp_all add: list_all_iff)
qed

text \<open>Every catalogue entry is accepted on a network of its own that is active.\<close>

lemma verified_definition_accepted:
  assumes c: "c \<in> set VERIFIED_STABLECOIN_IDENTITIES" "vi_environment c = environment"
    and n: "byChain networks (vi_chain c) = Some n" "net_networkId n = vi_networkId c"
      "net_identityKind n = kind_of_chain (vi_chain c)" "net_activationState n = ACTIVE"
  shows "validateAssetDefinition version environment (definition_of activation c) networks = Inr (asset_of version activation c)"
proof -
  let ?cands = "verifiedIdentityCandidates (kind_of_chain (vi_chain c)) (vi_identity c)"
  have mem: "c \<in> set ?cands" using c(1) by (simp add: candidates_alt)
  obtain c' where c': "find (\<lambda>d. vi_environment d = environment \<and> vi_chain d = vi_chain c \<and>
      vi_networkId d = vi_networkId c) ?cands = Some c'"
    using mem c(2) by (cases "find (\<lambda>d. vi_environment d = environment \<and> vi_chain d = vi_chain c \<and>
      vi_networkId d = vi_networkId c) ?cands") (auto simp: find_None_iff)
  have "c' \<in> set ?cands" "vi_environment c' = environment" "vi_networkId c' = vi_networkId c"
    using find_SomeD [OF c'] by auto
  then have "c' = c" using c by (intro catalog_identity_unique) (auto simp: candidates_alt)
  moreover have "?cands \<noteq> []" using mem by auto
  ultimately show ?thesis
    using c' n catalog_normal [OF c(1)] catalog_fields [OF c(1)]
    by (simp add: validateAssetDefinition_def definition_of_def asset_of_def parseStablecoin_def parseChain_def
        parseActivationState_def stablecoin_enum.parse_spell chain_enum.parse_spell activation_enum.parse_spell)
qed

lemma collectAssets_accepted:
  "(\<forall>c \<in> set cs. validateAssetDefinition version environment (f c) networks = Inr (g c)) \<Longrightarrow>
   distinct (map assetKey (acc @ map g cs)) \<Longrightarrow> distinct (map assetIdentityKey (acc @ map g cs)) \<Longrightarrow>
   collectAssets version environment networks acc (map f cs) = Inr (acc @ map g cs)"
proof (induction cs arbitrary: acc)
  case (Cons c cs)
  have "collectAssets version environment networks (acc @ [g c]) (map f cs) = Inr ((acc @ [g c]) @ map g cs)"
    using Cons.prems by (intro Cons.IH) auto
  moreover have "assetKey (g c) \<notin> set (map assetKey acc)" "assetIdentityKey (g c) \<notin> set (map assetIdentityKey acc)"
    using Cons.prems(2,3) by auto
  ultimately show ?case using Cons.prems(1) by simp
qed simp

definition catalog_entries :: "AssetRegistryEnvironment \<Rightarrow> VerifiedStablecoinIdentity list" where
  "catalog_entries environment = filter (\<lambda>c. vi_environment c = environment) VERIFIED_STABLECOIN_IDENTITIES"

definition active_networks :: "AssetRegistryEnvironment \<Rightarrow> SupportedNetwork list" where
  "active_networks environment =
     map (\<lambda>r. \<lparr>net_chain = rn_chain r, net_networkId = rn_networkId r, net_activationState = ACTIVE,
       net_environment = environment, net_displayName = rn_displayName r, net_identityKind = rn_identityKind r\<rparr>)
       (reviewedNetworksFor environment)"

definition shipped_networks :: "AssetRegistryEnvironment \<Rightarrow> SupportedNetworkDefinition list" where
  "shipped_networks environment =
     (if environment = MAINNET then MAINNET_V1_NETWORK_DEFINITIONS else TESTNET_V1_NETWORK_DEFINITIONS)"

definition shipped_manifest :: "AssetRegistryEnvironment \<Rightarrow> RegistryAssetManifestEntry list" where
  "shipped_manifest environment =
     (if environment = MAINNET then MAINNET_V1_ASSET_MANIFEST else TESTNET_V1_ASSET_MANIFEST)"

lemma shipped_inputs:
  "list_all (\<lambda>e. validateNetworkDefinitions e (shipped_networks e) = Inr (active_networks e)) [MAINNET, TESTNET]"
  "list_all (\<lambda>e. assetDefinitionsFromManifest e (shipped_manifest e) = Inr (map (definition_of ACTIVE) (catalog_entries e)))
     [MAINNET, TESTNET]"
  "list_all (\<lambda>e. list_all (\<lambda>c. case byChain (active_networks e) (vi_chain c) of None \<Rightarrow> False
     | Some n \<Rightarrow> net_networkId n = vi_networkId c \<and> net_identityKind n = kind_of_chain (vi_chain c) \<and>
         net_activationState n = ACTIVE) (catalog_entries e)) [MAINNET, TESTNET]"
  "list_all (\<lambda>e. distinct (map assetKey (map (asset_of 1 ACTIVE) (catalog_entries e)))) [MAINNET, TESTNET]"
  "list_all (\<lambda>e. distinct (map assetIdentityKey (map (asset_of 1 ACTIVE) (catalog_entries e)))) [MAINNET, TESTNET]"
  by code_simp+

definition shipped_definition ::
  "AssetRegistryEnvironment \<Rightarrow> VerifiedStablecoinIdentity list \<Rightarrow> SupportedAssetRegistrySnapshotDefinition" where
  "shipped_definition e cs =
     \<lparr>sd_version = js_int 1, sd_environment = JString (environment_text e), sd_networks = shipped_networks e,
      sd_assets = map (definition_of ACTIVE) cs\<rparr>"

lemma distinct_map_subset: "distinct (map f xs) \<Longrightarrow> distinct ys \<Longrightarrow> set ys \<subseteq> set xs \<Longrightarrow> distinct (map f ys)"
  by (auto simp: distinct_map intro: inj_on_subset)

lemma shipped_snapshot:
  assumes "distinct cs" "set cs \<subseteq> set (catalog_entries e)"
  shows "\<exists>s. createSupportedAssetRegistrySnapshot sha256 (shipped_definition e cs) = Inr s \<and>
    sn_version s = 1 \<and> sn_environment s = e \<and> sn_networks s = active_networks e \<and>
    sn_assets s = map (asset_of 1 ACTIVE) cs \<and>
    sn_fingerprintSha256 s = fingerprintSnapshot sha256 1 e (active_networks e) (map (asset_of 1 ACTIVE) cs)"
proof -
  have e: "e \<in> set [MAINNET, TESTNET]" by (cases e) auto
  note facts = shipped_inputs [unfolded list_all_iff, rule_format, OF e]
  have acc: "\<forall>c \<in> set cs. validateAssetDefinition 1 e (definition_of ACTIVE c) (active_networks e) =
      Inr (asset_of 1 ACTIVE c)"
  proof
    fix c assume "c \<in> set cs"
    then have c: "c \<in> set (catalog_entries e)" using assms(2) by blast
    then obtain n where "byChain (active_networks e) (vi_chain c) = Some n" "net_networkId n = vi_networkId c"
        "net_identityKind n = kind_of_chain (vi_chain c)" "net_activationState n = ACTIVE"
      using facts(3) [OF c] by (auto split: option.splits)
    then show "validateAssetDefinition 1 e (definition_of ACTIVE c) (active_networks e) = Inr (asset_of 1 ACTIVE c)"
      using c by (intro verified_definition_accepted) (auto simp: catalog_entries_def)
  qed
  have keys: "distinct (map assetKey ([] @ map (asset_of 1 ACTIVE) cs))"
      "distinct (map assetIdentityKey ([] @ map (asset_of 1 ACTIVE) cs))"
    using facts(4,5) assms unfolding append_Nil map_map by (blast intro: distinct_map_subset)+
  have "collectAssets 1 e (active_networks e) [] (map (definition_of ACTIVE) cs) =
      Inr ([] @ map (asset_of 1 ACTIVE) cs)"
    by (rule collectAssets_accepted [OF acc keys])
  then show ?thesis
    using facts(1)
    by (simp add: createSupportedAssetRegistrySnapshot_def shipped_definition_def parseVersion_def safe_integer_def
        parseEnvironment_def environment_enum.parse_spell)
qed

lemma catalog_entries_distinct: "distinct (catalog_entries e)"
proof -
  have "distinct VERIFIED_STABLECOIN_IDENTITIES" by code_simp
  then show ?thesis by (simp add: catalog_entries_def)
qed

lemmas shipped_example = shipped_snapshot [of "catalog_entries MAINNET" MAINNET, OF catalog_entries_distinct subset_refl]

lemma registryOf_sound:
  assumes "registryOf sha256 e networks manifest = Inr r"
  shows "snapshot_ok (vr_latest r)" "sn_environment (vr_latest r) = e"
proof -
  obtain assets s where s: "createSupportedAssetRegistrySnapshot sha256
      \<lparr>sd_version = js_int 1, sd_environment = JString (environment_text e), sd_networks = networks, sd_assets = assets\<rparr> = Inr s"
      and r: "vr_latest r = s"
    using assms by (auto simp: registryOf_def createVersionedSupportedAssetRegistry_def res_simps split: if_splits)
  from snapshot_sound [OF s] show "snapshot_ok (vr_latest r)" by (simp add: r)
  from s show "sn_environment (vr_latest r) = e"
    by (auto simp: r createSupportedAssetRegistrySnapshot_def res_simps parseEnvironment_def environment_enum.parse_spell)
qed

text \<open>C33. A snapshot holds exactly one reviewed network per supported chain, every asset is a
  verified identity of the catalogue for the snapshot's environment (same coin, issuer, chain,
  network, decimals and source) on a network of the snapshot that is active whenever the asset
  is, and no two assets share a coin or an identity on a network.\<close>

theorem snapshot_invariant:
  assumes "createSupportedAssetRegistrySnapshot sha256 d = Inr s"
  shows "snapshot_ok s"
  by (rule snapshot_sound [OF assms])

theorem snapshot_invariant_witness:
  "\<exists>s. createSupportedAssetRegistrySnapshot (\<lambda>bytes. []) (shipped_definition MAINNET (catalog_entries MAINNET)) = Inr s \<and>
     snapshot_ok s \<and> sn_assets s = map (asset_of 1 ACTIVE) (catalog_entries MAINNET)"
  using shipped_example [of "\<lambda>bytes. []"] snapshot_invariant by blast

text \<open>C38. Both shipped registries load without a refusal: they have the single version 1, hold every
  verified identity of their environment, and every asset is found as active under its own
  network and identity.\<close>

theorem shipped_registries_load:
  "\<exists>r. supportedAssetRegistryForEnvironment sha256 (JString (environment_text e)) = Inr r \<and>
     vr_environment r = e \<and> vr_versions r = [1] \<and>
     map asset_identity (sn_assets (vr_latest r)) = map vi_identity (catalog_entries e) \<and>
     list_all (\<lambda>a. normalizeAsset r (asset_networkId a) (asset_identity a) = Some a) (sn_assets (vr_latest r))"
proof -
  obtain s where s: "createSupportedAssetRegistrySnapshot sha256 (shipped_definition e (catalog_entries e)) = Inr s"
    "sn_version s = 1" "sn_environment s = e" "sn_networks s = active_networks e"
    "sn_assets s = map (asset_of 1 ACTIVE) (catalog_entries e)"
    using shipped_snapshot [OF catalog_entries_distinct subset_refl] by blast
  define r where "r = \<lparr>vr_environment = e, vr_versions = [1], vr_latest = s, vr_snapshots = [s]\<rparr>"
  have e: "e \<in> set [MAINNET, TESTNET]" by (cases e) auto
  have "registryOf sha256 e (shipped_networks e) (shipped_manifest e) = Inr r"
    using shipped_inputs(2) [unfolded list_all_iff, rule_format, OF e] s
    by (simp add: registryOf_def createVersionedSupportedAssetRegistry_def sequentialVersions_def r_def shipped_definition_def)
  then have load: "supportedAssetRegistryForEnvironment sha256 (JString (environment_text e)) = Inr r"
    by (cases e) (simp_all add: supportedAssetRegistryForEnvironment_def parseEnvironment_def environment_enum.parse_spell
        MAINNET_SUPPORTED_ASSET_REGISTRY_def TESTNET_SUPPORTED_ASSET_REGISTRY_def shipped_networks_def shipped_manifest_def
        del: environment_text.simps)
  have ok: "snapshot_ok s" by (rule snapshot_sound [OF s(1)])
  have "normalizeAsset r (asset_networkId a) (asset_identity a) = Some a" if a: "a \<in> set (sn_assets s)" for a
  proof -
    have "normalizeIdentity (asset_identityKind a) (JString (asset_identity a)) = Inr (asset_identity a)"
      "asset_activationState a = ACTIVE"
      using a s(5) catalog_normal by (auto simp: asset_of_def catalog_entries_def)
    then show ?thesis
      using identifyAsset_iff [OF ok, of "asset_networkId a" "asset_identity a" a] snapshot_networkD [OF ok a] a
      by (auto simp: normalizeAsset_def r_def)
  qed
  then have "list_all (\<lambda>a. normalizeAsset r (asset_networkId a) (asset_identity a) = Some a) (sn_assets (vr_latest r))"
    by (simp add: list_all_iff r_def)
  with load show ?thesis using s(5) by (auto simp: r_def asset_of_def)
qed

text \<open>The catalogue passes its own check when the platform parses its four sources as https URLs
  without credentials.\<close>

lemma catalog_is_valid:
  assumes "list_all (isHttpsVerificationSource parse_url)
    [CIRCLE_USDC_SOURCE, TETHER_SOURCE, PAXOS_PYUSD_MAINNET_SOURCE, PAXOS_PYUSD_TESTNET_SOURCE]"
  shows "validateReviewedNetworks [] REVIEWED_NETWORKS = Inr REVIEWED_NETWORKS" "allChainSlots REVIEWED_NETWORKS"
    "list_all (\<lambda>c. isHttpsVerificationSource parse_url (vi_verificationSource c)) VERIFIED_STABLECOIN_IDENTITIES"
proof -
  show "validateReviewedNetworks [] REVIEWED_NETWORKS = Inr REVIEWED_NETWORKS" by code_simp
  show "allChainSlots REVIEWED_NETWORKS" by code_simp
  show "list_all (\<lambda>c. isHttpsVerificationSource parse_url (vi_verificationSource c)) VERIFIED_STABLECOIN_IDENTITIES"
    using assms by (simp add: VERIFIED_STABLECOIN_IDENTITIES_def verifiedIdentity_def)
qed

subsection \<open>The fingerprint\<close>

lemma sort_key_permuted:
  assumes "mset xs = mset ys" "inj_on f (set xs)"
  shows "sort_key f xs = sort_key f ys"
proof -
  have "inj_on f (set ys)" using assms by (metis set_mset_mset)
  then show ?thesis
    using sort_key_inj_key_eq [of xs "sort_key f ys" f] assms by simp
qed

lemma sort_keys_injective:
  assumes "snapshot_ok s"
  shows "inj_on network_sort_key (set (sn_networks s))" "inj_on asset_sort_key (set (sn_assets s))"
proof -
  have nets: "snapshot_networks_ok (sn_environment s) (sn_networks s)" using assms by (simp add: snapshot_ok_def)
  have nul: "CHR 0x00 \<notin> set (net_networkId n)" if "n \<in> set (sn_networks s)" for n
    using nets that reviewed_ids_no_nul by (fastforce simp: snapshot_networks_ok_def list_all_iff reviewed_as_def list_ex_iff)
  show "inj_on network_sort_key (set (sn_networks s))"
    using nets nul by (auto simp: inj_on_def network_sort_key_def nul_join_inject snapshot_networks_ok_def distinct_map)
  have d: "inj_on (\<lambda>a. (asset_networkId a, asset_identity a)) (set (sn_assets s))"
    using assms by (simp add: snapshot_ok_def snapshot_assets_ok_def distinct_map)
  show "inj_on asset_sort_key (set (sn_assets s))"
  proof (rule inj_onI)
    fix a b assume ab: "a \<in> set (sn_assets s)" "b \<in> set (sn_assets s)" "asset_sort_key a = asset_sort_key b"
    then have "asset_networkId a = asset_networkId b \<and> asset_identity a = asset_identity b"
      using snapshot_assets_okD(3) [OF assms] by (simp add: asset_sort_key_def nul_join_inject)
    with d ab show "a = b" by (simp add: inj_on_def)
  qed
qed

text \<open>The fingerprint of a snapshot does not depend on the order in which its networks and
  assets were listed.\<close>

theorem fingerprint_ignores_order:
  assumes "createSupportedAssetRegistrySnapshot sha256 d = Inr s" "createSupportedAssetRegistrySnapshot sha256 d' = Inr s'"
    "sn_version s = sn_version s'" "sn_environment s = sn_environment s'"
    "mset (sn_networks s) = mset (sn_networks s')" "mset (sn_assets s) = mset (sn_assets s')"
  shows "sn_fingerprintSha256 s = sn_fingerprintSha256 s'"
proof -
  have fp: "sn_fingerprintSha256 s = fingerprintSnapshot sha256 (sn_version s) (sn_environment s) (sn_networks s) (sn_assets s)"
    if "createSupportedAssetRegistrySnapshot sha256 d = Inr s" for d s
    using that unfolding createSupportedAssetRegistrySnapshot_def res_bind_eq_Inr sum.inject by auto
  note inj = sort_keys_injective [OF snapshot_sound [OF assms(1)]]
  have "sort_key network_sort_key (sn_networks s) = sort_key network_sort_key (sn_networks s')"
       "sort_key asset_sort_key (sn_assets s) = sort_key asset_sort_key (sn_assets s')"
    using sort_key_permuted assms(5,6) inj by blast+
  then show ?thesis
    using fp [OF assms(1)] fp [OF assms(2)] assms(3,4) by (simp add: fingerprintSnapshot_def canonicalSnapshot_def)
qed

text \<open>The lookup by identity returns exactly the asset of the snapshot on that network whose
  identity is the normal form of the given text.\<close>

theorem identify_asset_exact:
  assumes "createSupportedAssetRegistrySnapshot sha256 d = Inr s"
  shows "(identifyAsset s n i = Some a) =
    (a \<in> set (sn_assets s) \<and> asset_networkId a = n \<and>
     normalizeIdentity (asset_identityKind a) (JString i) = Inr (asset_identity a))"
  by (rule identifyAsset_iff [OF snapshot_sound [OF assms]])

theorem identify_asset_exact_witness:
  "\<exists>s a. createSupportedAssetRegistrySnapshot (\<lambda>bytes. []) (shipped_definition MAINNET (catalog_entries MAINNET)) = Inr s \<and>
     identifyAsset s ''eip155:1'' ''0xDAC17F958D2EE523A2206206994597C13D831EC7'' = Some a \<and> asset_stablecoin a = USDT"
proof -
  obtain s where s: "createSupportedAssetRegistrySnapshot (\<lambda>bytes. [])
      (shipped_definition MAINNET (catalog_entries MAINNET)) = Inr s"
      "sn_assets s = map (asset_of 1 ACTIVE) (catalog_entries MAINNET)"
    using shipped_example [of "\<lambda>bytes. []"] by blast
  define c where "c = catalog_entries MAINNET ! 4"
  have c: "length (catalog_entries MAINNET) = 9" "vi_networkId c = ''eip155:1''"
    "kind_of_chain (vi_chain c) = EVM_CONTRACT" "vi_stablecoin c = USDT"
    "normalizeIdentity EVM_CONTRACT (JString ''0xDAC17F958D2EE523A2206206994597C13D831EC7'') = Inr (vi_identity c)"
    unfolding c_def by code_simp+
  have "c \<in> set (catalog_entries MAINNET)" using c(1) by (simp add: c_def)
  then have "asset_of 1 ACTIVE c \<in> set (sn_assets s)" using s(2) by simp
  then have "identifyAsset s ''eip155:1'' ''0xDAC17F958D2EE523A2206206994597C13D831EC7'' = Some (asset_of 1 ACTIVE c)"
    using c by (subst identify_asset_exact [OF s(1)]) (simp add: asset_of_def)
  with s(1) c(4) show ?thesis by (auto simp: asset_of_def)
qed

theorem fingerprint_ignores_order_witness:
  "\<exists>s s'. createSupportedAssetRegistrySnapshot id (shipped_definition MAINNET (catalog_entries MAINNET)) = Inr s \<and>
     createSupportedAssetRegistrySnapshot id (shipped_definition MAINNET (rev (catalog_entries MAINNET))) = Inr s' \<and>
     sn_assets s \<noteq> sn_assets s' \<and> sn_fingerprintSha256 s = sn_fingerprintSha256 s'"
proof -
  obtain s where s: "createSupportedAssetRegistrySnapshot id (shipped_definition MAINNET (catalog_entries MAINNET)) = Inr s"
      "sn_version s = 1" "sn_environment s = MAINNET" "sn_networks s = active_networks MAINNET"
      "sn_assets s = map (asset_of 1 ACTIVE) (catalog_entries MAINNET)"
    using shipped_example [of id] by blast
  obtain s' where s': "createSupportedAssetRegistrySnapshot id (shipped_definition MAINNET (rev (catalog_entries MAINNET))) = Inr s'"
      "sn_version s' = 1" "sn_environment s' = MAINNET" "sn_networks s' = active_networks MAINNET"
      "sn_assets s' = map (asset_of 1 ACTIVE) (rev (catalog_entries MAINNET))"
    using shipped_snapshot [of "rev (catalog_entries MAINNET)" MAINNET id] catalog_entries_distinct by auto
  have "sn_fingerprintSha256 s = sn_fingerprintSha256 s'"
    by (rule fingerprint_ignores_order [OF s(1) s'(1)]) (simp_all add: s s')
  moreover have "map (asset_identity \<circ> asset_of 1 ACTIVE) (catalog_entries MAINNET) \<noteq>
      map (asset_identity \<circ> asset_of 1 ACTIVE) (rev (catalog_entries MAINNET))" by code_simp
  then have "sn_assets s \<noteq> sn_assets s'" unfolding s(5) s'(5) by (metis map_map)
  ultimately show ?thesis using s(1) s'(1) by blast
qed

end
