(* ===== verification/Action_Intent.thy ===== *)
theory Action_Intent
  imports Action_Values Asset_Registry_Correct
begin

text \<open>
  Intents of mainnet financial actions,
  \<^verbatim>\<open>apps/api/src/mainnet-actions/domain/dormant-mainnet-financial-action.ts\<close>: the parser of an
  untrusted intent, the zero policy and the assessment.

  \<^verbatim>\<open>MAINNET_SUPPORTED_ASSET_REGISTRY.latest\<close> is the argument \<open>registry\<close>; the properties are stated
  for the registry the program loads (\<open>Asset_Registry\<close>). \<open>isAddress\<close> is the check of the package
  \<^verbatim>\<open>viem\<close>, as in \<open>Wallet_Identity\<close>.

  Main facts: an accepted intent is bound to one launch network, one provider of that network,
  an active verified asset of the registry and an exact allowance; its four identifiers
  differ; it is accepted exactly during its validity window of at most five minutes; and the
  assessment never authorises anything, each intent violating the zero policy.
\<close>

subsection \<open>Vocabulary\<close>

datatype MainnetFinancialAction = SUPPLY | WITHDRAW | BORROW | REPAY

fun action_text :: "MainnetFinancialAction \<Rightarrow> string" where
  "action_text SUPPLY = ''SUPPLY''"
| "action_text WITHDRAW = ''WITHDRAW''"
| "action_text BORROW = ''BORROW''"
| "action_text REPAY = ''REPAY''"

definition MAINNET_FINANCIAL_ACTIONS :: "MainnetFinancialAction list" where
  "MAINNET_FINANCIAL_ACTIONS = [SUPPLY, WITHDRAW, BORROW, REPAY]"

interpretation action_enum: text_enum action_text MAINNET_FINANCIAL_ACTIONS
proof unfold_locales
  show "x \<in> set MAINNET_FINANCIAL_ACTIONS" for x by (cases x) (simp_all add: MAINNET_FINANCIAL_ACTIONS_def)
  show "action_text x = action_text y \<Longrightarrow> x = y" for x y by (cases x; cases y) simp_all
qed

datatype MainnetFinancialActionProviderId =
    Provider_aave
  | Provider_morpho
  | Provider_compound
  | Provider_spark
  | Provider_euler
  | Provider_gearbox
  | Provider_kamino
  | Provider_save
  | Provider_project_0
  | Provider_jupiter

datatype MainnetFinancialActionProtocolId =
    Protocol_aave_v3
  | Protocol_morpho_blue
  | Protocol_compound_iii
  | Protocol_sparklend
  | Protocol_euler_v2
  | Protocol_gearbox_v3
  | Protocol_kamino_lend
  | Protocol_save_lend
  | Protocol_marginfi_v2
  | Protocol_jupiter_lend

fun provider_text :: "MainnetFinancialActionProviderId \<Rightarrow> string" where
  "provider_text Provider_aave = ''aave''"
| "provider_text Provider_morpho = ''morpho''"
| "provider_text Provider_compound = ''compound''"
| "provider_text Provider_spark = ''spark''"
| "provider_text Provider_euler = ''euler''"
| "provider_text Provider_gearbox = ''gearbox''"
| "provider_text Provider_kamino = ''kamino''"
| "provider_text Provider_save = ''save''"
| "provider_text Provider_project_0 = ''project-0''"
| "provider_text Provider_jupiter = ''jupiter''"

fun protocol_text :: "MainnetFinancialActionProtocolId \<Rightarrow> string" where
  "protocol_text Protocol_aave_v3 = ''aave-v3''"
| "protocol_text Protocol_morpho_blue = ''morpho-blue''"
| "protocol_text Protocol_compound_iii = ''compound-iii''"
| "protocol_text Protocol_sparklend = ''sparklend''"
| "protocol_text Protocol_euler_v2 = ''euler-v2''"
| "protocol_text Protocol_gearbox_v3 = ''gearbox-v3''"
| "protocol_text Protocol_kamino_lend = ''kamino-lend''"
| "protocol_text Protocol_save_lend = ''save-lend''"
| "protocol_text Protocol_marginfi_v2 = ''marginfi-v2''"
| "protocol_text Protocol_jupiter_lend = ''jupiter-lend''"

record MainnetFinancialActionProviderCandidate =
  pc_providerId :: MainnetFinancialActionProviderId
  pc_protocolId :: MainnetFinancialActionProtocolId
  pc_networkId :: string

definition candidate :: "MainnetFinancialActionProviderId \<Rightarrow> MainnetFinancialActionProtocolId \<Rightarrow> string \<Rightarrow>
    MainnetFinancialActionProviderCandidate" where
  "candidate providerId protocolId networkId =
     \<lparr>pc_providerId = providerId, pc_protocolId = protocolId, pc_networkId = networkId\<rparr>"

definition MAINNET_FINANCIAL_ACTION_PROVIDER_CANDIDATES :: "MainnetFinancialActionProviderCandidate list" where
  "MAINNET_FINANCIAL_ACTION_PROVIDER_CANDIDATES =
     [candidate Provider_aave Protocol_aave_v3 ''eip155:1'',
      candidate Provider_morpho Protocol_morpho_blue ''eip155:1'',
      candidate Provider_compound Protocol_compound_iii ''eip155:1'',
      candidate Provider_spark Protocol_sparklend ''eip155:1'',
      candidate Provider_euler Protocol_euler_v2 ''eip155:1'',
      candidate Provider_gearbox Protocol_gearbox_v3 ''eip155:1'',
      candidate Provider_kamino Protocol_kamino_lend ''solana:5eykt4UsFv8P8NJdTREpY1vzqKqZKvdp'',
      candidate Provider_save Protocol_save_lend ''solana:5eykt4UsFv8P8NJdTREpY1vzqKqZKvdp'',
      candidate Provider_project_0 Protocol_marginfi_v2 ''solana:5eykt4UsFv8P8NJdTREpY1vzqKqZKvdp'',
      candidate Provider_jupiter Protocol_jupiter_lend ''solana:5eykt4UsFv8P8NJdTREpY1vzqKqZKvdp'']"

datatype DormantMainnetFinancialActionValidationCode =
    INVALID_INTENT_INPUT | INVALID_SCHEMA_VERSION | INVALID_INTENT_ID | INVALID_ACCOUNT_ID
  | INVALID_WALLET_REGISTRATION_ID | INVALID_REPLAY_PROTECTION | INVALID_NETWORK | INVALID_WALLET
  | INVALID_PROVIDER_BINDING | INVALID_MARKET_BINDING | INVALID_ASSET_REGISTRY_BINDING
  | INVALID_ASSET_BINDING | INVALID_ACTION | INVALID_AMOUNT | INVALID_VALUE_LIMIT_INPUT
  | INVALID_NETWORK_FEE_LIMIT_INPUT | INVALID_POST_ACTION_RESERVE | INVALID_ALLOWANCE
  | INVALID_INTENT_TIME | INVALID_SERVER_TIME

type_synonym 'a intent_result = "DormantMainnetFinancialActionValidationCode + 'a"

definition DORMANT_MAINNET_FINANCIAL_ACTION_MAXIMUM_TTL_MILLISECONDS :: int where
  "DORMANT_MAINNET_FINANCIAL_ACTION_MAXIMUM_TTL_MILLISECONDS = 5 * 60 * 1000"

definition INTENT_INPUT_KEYS :: "string list" where
  "INTENT_INPUT_KEYS =
     [''schemaVersion'',
      ''intentId'',
      ''accountId'',
      ''walletRegistrationId'',
      ''replayProtectionId'',
      ''idempotencyKeyDigestSha256'',
      ''networkId'',
      ''walletAddress'',
      ''providerId'',
      ''protocolId'',
      ''marketId'',
      ''assetRegistryVersion'',
      ''assetRegistryFingerprintSha256'',
      ''assetSymbol'',
      ''assetIdentity'',
      ''action'',
      ''amountAtomic'',
      ''requestedValueUsdMicros'',
      ''maximumNetworkFeeAtomic'',
      ''maximumNetworkFeeBasisPoints'',
      ''minimumPostActionNativeBalanceAtomic'',
      ''allowanceMode'',
      ''allowanceAmountAtomic'',
      ''issuedAt'',
      ''expiresAt'']"

record DormantMainnetFinancialActionIntentV1 =
  in_schemaVersion :: int
  in_use :: string
  in_mayAuthorizeFinancialAction :: bool
  in_intentId :: string
  in_accountId :: string
  in_walletRegistrationId :: string
  in_replayProtectionId :: string
  in_idempotencyKeyDigestSha256 :: string
  in_networkId :: string
  in_walletAddress :: string
  in_providerId :: MainnetFinancialActionProviderId
  in_protocolId :: MainnetFinancialActionProtocolId
  in_marketId :: string
  in_assetRegistryVersion :: int
  in_assetRegistryFingerprintSha256 :: string
  in_assetSymbol :: SupportedStablecoin
  in_assetIdentity :: string
  in_assetDecimals :: int
  in_action :: MainnetFinancialAction
  in_amountAtomic :: string
  in_requestedValueUsdMicros :: string
  in_maximumNetworkFeeAtomic :: string
  in_maximumNetworkFeeBasisPoints :: int
  in_minimumPostActionNativeBalanceAtomic :: string
  in_allowanceMode :: string
  in_allowanceAmountAtomic :: string
  in_issuedAt :: string
  in_expiresAt :: string
  in_signingResponsibility :: string
  in_broadcastResponsibility :: string
  in_apiMaySign :: bool
  in_apiMayBroadcast :: bool
  in_crossChainExecutionAllowed :: bool
  in_automaticResendAllowed :: bool
  in_automaticFeeEscalationAllowed :: bool
  in_durableReplayProtectionVerified :: bool

subsection \<open>The zero policy\<close>

datatype DormantMainnetFinancialActionDenialReason =
    MAINNET_ACTIONS_DISABLED | PROVIDER_WRITE_APPROVAL_MISSING | MARKET_WRITE_MANIFEST_MISSING
  | DURABLE_REPLAY_PROTECTION_UNAVAILABLE | DURABLE_LIMIT_COUNTERS_UNAVAILABLE
  | PER_TRANSACTION_LIMIT_ZERO | PER_WALLET_DAILY_LIMIT_ZERO | GLOBAL_DAILY_LIMIT_ZERO
  | TOTAL_VALUE_LIMIT_ZERO | NETWORK_FEE_LIMIT_ZERO | POST_ACTION_RESERVE_UNCONFIGURED
  | UNRESOLVED_INTENT_LIMIT_ZERO

definition DORMANT_MAINNET_FINANCIAL_ACTION_DENIAL_REASONS :: "DormantMainnetFinancialActionDenialReason list" where
  "DORMANT_MAINNET_FINANCIAL_ACTION_DENIAL_REASONS =
     [MAINNET_ACTIONS_DISABLED, PROVIDER_WRITE_APPROVAL_MISSING, MARKET_WRITE_MANIFEST_MISSING,
      DURABLE_REPLAY_PROTECTION_UNAVAILABLE, DURABLE_LIMIT_COUNTERS_UNAVAILABLE,
      PER_TRANSACTION_LIMIT_ZERO, PER_WALLET_DAILY_LIMIT_ZERO, GLOBAL_DAILY_LIMIT_ZERO,
      TOTAL_VALUE_LIMIT_ZERO, NETWORK_FEE_LIMIT_ZERO, POST_ACTION_RESERVE_UNCONFIGURED,
      UNRESOLVED_INTENT_LIMIT_ZERO]"

record DormantMainnetFinancialActionPolicyV1 =
  po_schemaVersion :: int
  po_mode :: string
  po_mayAuthorizeFinancialAction :: bool
  po_chainKillSwitches :: "(string \<times> string) list"
  po_approvedProviders :: "MainnetFinancialActionProviderId list"
  po_approvedMarkets :: "string list"
  po_approvedAssets :: "string list"
  po_approvedActions :: "MainnetFinancialAction list"
  po_allowlistedWallets :: "string list"
  po_perTransactionUsdMicros :: string
  po_perWalletDailyUsdMicros :: string
  po_globalDailyUsdMicros :: string
  po_totalOutstandingUsdMicros :: string
  po_maximumNetworkFeeAtomic :: string
  po_maximumNetworkFeeBasisPoints :: int
  po_minimumPostActionNativeBalanceAtomic :: string
  po_maximumAllowanceAtomic :: string
  po_maximumUnresolvedIntentsPerWallet :: int
  po_walletAllowlistSize :: int
  po_exactAllowanceRequired :: bool
  po_automaticResendAllowed :: bool
  po_automaticFeeEscalationAllowed :: bool
  po_durableReplayProtectionAvailable :: bool
  po_durableLimitCountersAvailable :: bool
  po_providerWriteApprovalAvailable :: bool
  po_marketWriteManifestAvailable :: bool
  po_signingResponsibility :: string
  po_broadcastResponsibility :: string
  po_apiMaySign :: bool
  po_apiMayBroadcast :: bool

definition DORMANT_MAINNET_FINANCIAL_ACTION_POLICY :: DormantMainnetFinancialActionPolicyV1 where
  "DORMANT_MAINNET_FINANCIAL_ACTION_POLICY =
     \<lparr>po_schemaVersion = 1, po_mode = ''DISABLED'', po_mayAuthorizeFinancialAction = False,
      po_chainKillSwitches =
        [(''eip155:1'', ''HALT''), (''solana:5eykt4UsFv8P8NJdTREpY1vzqKqZKvdp'', ''HALT'')],
      po_approvedProviders = [], po_approvedMarkets = [], po_approvedAssets = [], po_approvedActions = [],
      po_allowlistedWallets = [], po_perTransactionUsdMicros = ''0'', po_perWalletDailyUsdMicros = ''0'',
      po_globalDailyUsdMicros = ''0'', po_totalOutstandingUsdMicros = ''0'', po_maximumNetworkFeeAtomic = ''0'',
      po_maximumNetworkFeeBasisPoints = 0, po_minimumPostActionNativeBalanceAtomic = ''0'',
      po_maximumAllowanceAtomic = ''0'', po_maximumUnresolvedIntentsPerWallet = 0, po_walletAllowlistSize = 0,
      po_exactAllowanceRequired = True, po_automaticResendAllowed = False, po_automaticFeeEscalationAllowed = False,
      po_durableReplayProtectionAvailable = False, po_durableLimitCountersAvailable = False,
      po_providerWriteApprovalAvailable = False, po_marketWriteManifestAvailable = False,
      po_signingResponsibility = ''USER_WALLET_ONLY'', po_broadcastResponsibility = ''USER_WALLET_ONLY'',
      po_apiMaySign = False, po_apiMayBroadcast = False\<rparr>"

record DormantMainnetFinancialActionAssessmentV1 =
  as_schemaVersion :: int
  as_decision :: string
  as_mayAuthorizeFinancialAction :: bool
  as_intent :: DormantMainnetFinancialActionIntentV1
  as_policy :: DormantMainnetFinancialActionPolicyV1
  as_denialReasons :: "DormantMainnetFinancialActionDenialReason list"

subsection \<open>Fields\<close>

definition exactDataRecord :: "jsval \<Rightarrow> js_record intent_result" where
  "exactDataRecord v = plain_data_record INVALID_INTENT_INPUT INTENT_INPUT_KEYS v"

definition uuid :: "jsval \<Rightarrow> DormantMainnetFinancialActionValidationCode \<Rightarrow> string intent_result" where
  "uuid v code = uuid_value code v"

definition replayDigest :: "jsval \<Rightarrow> string intent_result" where
  "replayDigest v = digest_value INVALID_REPLAY_PROTECTION v"

definition launchNetwork :: "jsval \<Rightarrow> string intent_result" where
  "launchNetwork v =
     (case v of
        JString s \<Rightarrow> if isMainnetLaunchNetwork s then Inr s else Inl INVALID_NETWORK
      | _ \<Rightarrow> Inl INVALID_NETWORK)"

definition wallet :: "(string \<Rightarrow> bool) \<Rightarrow> string \<Rightarrow> jsval \<Rightarrow> string intent_result" where
  "wallet isAddress networkId v = rethrow INVALID_WALLET (parseWalletAddress isAddress (JString networkId) v)"

definition providerBinding ::
  "string \<Rightarrow> jsval \<Rightarrow> jsval \<Rightarrow> MainnetFinancialActionProviderCandidate intent_result" where
  "providerBinding networkId providerIdValue protocolIdValue =
     of_option INVALID_PROVIDER_BINDING
       (find (\<lambda>entry. pc_networkId entry = networkId \<and> JString (provider_text (pc_providerId entry)) = providerIdValue \<and>
           JString (protocol_text (pc_protocolId entry)) = protocolIdValue)
         MAINNET_FINANCIAL_ACTION_PROVIDER_CANDIDATES)"

text \<open>\<^verbatim>\<open>/^0x(?:[0-9a-f]{40}|[0-9a-f]{64})$/\<close> and \<^verbatim>\<open>/^0x0+$/\<close>\<close>

definition EVM_MARKET_PATTERN :: "string \<Rightarrow> bool" where
  "EVM_MARKET_PATTERN s =
     (matches_classes ([''0'', ''x''] @ replicate 40 hex_digits) s \<or>
      matches_classes ([''0'', ''x''] @ replicate 64 hex_digits) s)"

definition zero_market :: "string \<Rightarrow> bool" where
  "zero_market s = (take 2 s = ''0x'' \<and> drop 2 s \<noteq> [] \<and> list_all (\<lambda>c. c = CHR ''0'') (drop 2 s))"

definition marketBinding :: "string \<Rightarrow> jsval \<Rightarrow> string intent_result" where
  "marketBinding networkId v =
     (case v of
        JString s \<Rightarrow>
          if networkId = ''eip155:1'' then
            if \<not> EVM_MARKET_PATTERN s \<or> zero_market s then Inl INVALID_MARKET_BINDING else Inr s
          else rethrow INVALID_MARKET_BINDING (parseSolanaWalletAddress v)
      | _ \<Rightarrow> Inl INVALID_MARKET_BINDING)"

definition financialAction :: "jsval \<Rightarrow> MainnetFinancialAction intent_result" where
  "financialAction v = of_option INVALID_ACTION (parse_enum action_text MAINNET_FINANCIAL_ACTIONS v)"

definition atomic ::
  "jsval \<Rightarrow> DormantMainnetFinancialActionValidationCode \<Rightarrow> bool \<Rightarrow> string intent_result" where
  "atomic v code allowZero =
     (case v of
        JString s \<Rightarrow>
          if 78 < length s \<or> \<not> canonical_nat s then Inl code
          else if 2 ^ 256 - 1 < dec_val s \<or> (\<not> allowZero \<and> dec_val s = 0) then Inl code
          else Inr s
      | _ \<Rightarrow> Inl code)"

definition feeBasisPoints :: "jsval \<Rightarrow> int intent_result" where
  "feeBasisPoints v =
     (case v of
        JNumber (NumInt n) \<Rightarrow>
          if \<not> safe_integer n \<or> n < 0 \<or> 10000 < n then Inl INVALID_NETWORK_FEE_LIMIT_INPUT else Inr n
      | _ \<Rightarrow> Inl INVALID_NETWORK_FEE_LIMIT_INPUT)"

definition canonicalTime ::
  "jsval \<Rightarrow> DormantMainnetFinancialActionValidationCode \<Rightarrow> (string \<times> int) intent_result" where
  "canonicalTime v code = strict_timestamp code v"

definition serverTime :: "jsval \<Rightarrow> int intent_result" where
  "serverTime v = server_time_value INVALID_SERVER_TIME v"

definition assetBinding :: "SupportedAssetRegistrySnapshot \<Rightarrow> string \<Rightarrow> jsval \<Rightarrow> jsval \<Rightarrow> jsval \<Rightarrow> jsval \<Rightarrow>
    SupportedStablecoinAsset intent_result" where
  "assetBinding registry networkId versionValue fingerprintValue symbolValue identityValue =
     (if versionValue \<noteq> js_int (sn_version registry) \<or> fingerprintValue \<noteq> JString (sn_fingerprintSha256 registry)
      then Inl INVALID_ASSET_REGISTRY_BINDING
      else case (identityValue, symbolValue) of
        (JString identity, JString symbol) \<Rightarrow>
          (case (identifyAsset registry networkId identity, byNetworkId (sn_networks registry) networkId) of
             (Some asset, Some network) \<Rightarrow>
               if asset_activationState asset \<noteq> ACTIVE \<or> net_activationState network \<noteq> ACTIVE \<or>
                  stablecoin_text (asset_stablecoin asset) \<noteq> symbol \<or> asset_identity asset \<noteq> identity
               then Inl INVALID_ASSET_BINDING
               else Inr asset
           | _ \<Rightarrow> Inl INVALID_ASSET_BINDING)
      | _ \<Rightarrow> Inl INVALID_ASSET_BINDING)"

subsection \<open>The parser and the assessment\<close>

definition parseDormantMainnetFinancialActionIntent :: "(string \<Rightarrow> bool) \<Rightarrow> SupportedAssetRegistrySnapshot \<Rightarrow>
    jsval \<Rightarrow> jsval \<Rightarrow> DormantMainnetFinancialActionIntentV1 intent_result" where
  "parseDormantMainnetFinancialActionIntent isAddress registry input serverNow =
     res_bind (exactDataRecord input) (\<lambda>r.
     res_bind (require INVALID_SCHEMA_VERSION (js_get r ''schemaVersion'' = js_int 1)) (\<lambda>_.
     res_bind (uuid (js_get r ''intentId'') INVALID_INTENT_ID) (\<lambda>intentId.
     res_bind (uuid (js_get r ''accountId'') INVALID_ACCOUNT_ID) (\<lambda>accountId.
     res_bind (uuid (js_get r ''walletRegistrationId'') INVALID_WALLET_REGISTRATION_ID) (\<lambda>walletRegistrationId.
     res_bind (uuid (js_get r ''replayProtectionId'') INVALID_REPLAY_PROTECTION) (\<lambda>replayProtectionId.
     res_bind (require INVALID_REPLAY_PROTECTION
       (distinct [intentId, accountId, walletRegistrationId, replayProtectionId])) (\<lambda>_.
     res_bind (replayDigest (js_get r ''idempotencyKeyDigestSha256'')) (\<lambda>idempotencyKeyDigestSha256.
     res_bind (launchNetwork (js_get r ''networkId'')) (\<lambda>networkId.
     res_bind (wallet isAddress networkId (js_get r ''walletAddress'')) (\<lambda>walletAddress.
     res_bind (providerBinding networkId (js_get r ''providerId'') (js_get r ''protocolId'')) (\<lambda>provider.
     res_bind (marketBinding networkId (js_get r ''marketId'')) (\<lambda>marketId.
     res_bind (assetBinding registry networkId (js_get r ''assetRegistryVersion'')
       (js_get r ''assetRegistryFingerprintSha256'') (js_get r ''assetSymbol'') (js_get r ''assetIdentity'')) (\<lambda>asset.
     res_bind (financialAction (js_get r ''action'')) (\<lambda>action.
     res_bind (atomic (js_get r ''amountAtomic'') INVALID_AMOUNT False) (\<lambda>amountAtomic.
     res_bind (atomic (js_get r ''requestedValueUsdMicros'') INVALID_VALUE_LIMIT_INPUT False) (\<lambda>requestedValueUsdMicros.
     res_bind (atomic (js_get r ''maximumNetworkFeeAtomic'') INVALID_NETWORK_FEE_LIMIT_INPUT True) (\<lambda>maximumNetworkFeeAtomic.
     res_bind (feeBasisPoints (js_get r ''maximumNetworkFeeBasisPoints'')) (\<lambda>maximumNetworkFeeBasisPoints.
     res_bind (atomic (js_get r ''minimumPostActionNativeBalanceAtomic'') INVALID_POST_ACTION_RESERVE False) (\<lambda>reserve.
     res_bind (atomic (js_get r ''allowanceAmountAtomic'') INVALID_ALLOWANCE True) (\<lambda>allowanceAmountAtomic.
     res_bind (require INVALID_ALLOWANCE
       (js_get r ''allowanceMode'' = JString ''EXACT'' \<and>
        allowanceAmountAtomic = (if action = SUPPLY \<or> action = REPAY then amountAtomic else ''0''))) (\<lambda>_.
     res_bind (serverTime serverNow) (\<lambda>now.
     res_bind (canonicalTime (js_get r ''issuedAt'') INVALID_INTENT_TIME) (\<lambda>issuedAt.
     res_bind (canonicalTime (js_get r ''expiresAt'') INVALID_INTENT_TIME) (\<lambda>expiresAt.
     res_bind (require INVALID_INTENT_TIME
       (\<not> (snd issuedAt > now \<or> snd expiresAt \<le> now \<or> snd expiresAt \<le> snd issuedAt \<or>
           snd expiresAt - snd issuedAt > DORMANT_MAINNET_FINANCIAL_ACTION_MAXIMUM_TTL_MILLISECONDS))) (\<lambda>_.
     Inr \<lparr>in_schemaVersion = 1, in_use = ''DORMANT_MAINNET_FINANCIAL_ACTION_INTENT_VALIDATION_ONLY'',
          in_mayAuthorizeFinancialAction = False, in_intentId = intentId, in_accountId = accountId,
          in_walletRegistrationId = walletRegistrationId, in_replayProtectionId = replayProtectionId,
          in_idempotencyKeyDigestSha256 = idempotencyKeyDigestSha256, in_networkId = networkId,
          in_walletAddress = walletAddress, in_providerId = pc_providerId provider,
          in_protocolId = pc_protocolId provider, in_marketId = marketId,
          in_assetRegistryVersion = sn_version registry,
          in_assetRegistryFingerprintSha256 = sn_fingerprintSha256 registry,
          in_assetSymbol = asset_stablecoin asset, in_assetIdentity = asset_identity asset,
          in_assetDecimals = asset_decimals asset, in_action = action, in_amountAtomic = amountAtomic,
          in_requestedValueUsdMicros = requestedValueUsdMicros, in_maximumNetworkFeeAtomic = maximumNetworkFeeAtomic,
          in_maximumNetworkFeeBasisPoints = maximumNetworkFeeBasisPoints,
          in_minimumPostActionNativeBalanceAtomic = reserve, in_allowanceMode = ''EXACT'',
          in_allowanceAmountAtomic = allowanceAmountAtomic, in_issuedAt = fst issuedAt, in_expiresAt = fst expiresAt,
          in_signingResponsibility = ''USER_WALLET_ONLY'', in_broadcastResponsibility = ''USER_WALLET_ONLY'',
          in_apiMaySign = False, in_apiMayBroadcast = False, in_crossChainExecutionAllowed = False,
          in_automaticResendAllowed = False, in_automaticFeeEscalationAllowed = False,
          in_durableReplayProtectionVerified = False\<rparr>)))))))))))))))))))))))))"

definition assessDormantMainnetFinancialAction :: "(string \<Rightarrow> bool) \<Rightarrow> SupportedAssetRegistrySnapshot \<Rightarrow>
    jsval \<Rightarrow> jsval \<Rightarrow> DormantMainnetFinancialActionAssessmentV1 intent_result" where
  "assessDormantMainnetFinancialAction isAddress registry input serverNow =
     res_bind (parseDormantMainnetFinancialActionIntent isAddress registry input serverNow) (\<lambda>intent.
     Inr \<lparr>as_schemaVersion = 1, as_decision = ''DENY'', as_mayAuthorizeFinancialAction = False,
          as_intent = intent, as_policy = DORMANT_MAINNET_FINANCIAL_ACTION_POLICY,
          as_denialReasons = DORMANT_MAINNET_FINANCIAL_ACTION_DENIAL_REASONS\<rparr>)"

subsection \<open>Inversion\<close>

text \<open>The steps of an accepted intent.\<close>

lemma intent_steps:
  assumes "parseDormantMainnetFinancialActionIntent isAddress registry input serverNow = Inr i"
  obtains r intentId accountId walletRegistrationId replayProtectionId idempotencyKeyDigestSha256 networkId
    walletAddress provider marketId asset action amountAtomic requestedValueUsdMicros
    maximumNetworkFeeAtomic maximumNetworkFeeBasisPoints reserve allowanceAmountAtomic now issuedAt
    expiresAt where
    "exactDataRecord input = Inr r"
    "(js_get r ''schemaVersion'' = js_int 1)"
    "uuid (js_get r ''intentId'') INVALID_INTENT_ID = Inr intentId"
    "uuid (js_get r ''accountId'') INVALID_ACCOUNT_ID = Inr accountId"
    "uuid (js_get r ''walletRegistrationId'') INVALID_WALLET_REGISTRATION_ID = Inr walletRegistrationId"
    "uuid (js_get r ''replayProtectionId'') INVALID_REPLAY_PROTECTION = Inr replayProtectionId"
    "(distinct [intentId, accountId, walletRegistrationId, replayProtectionId])"
    "replayDigest (js_get r ''idempotencyKeyDigestSha256'') = Inr idempotencyKeyDigestSha256"
    "launchNetwork (js_get r ''networkId'') = Inr networkId"
    "wallet isAddress networkId (js_get r ''walletAddress'') = Inr walletAddress"
    "providerBinding networkId (js_get r ''providerId'') (js_get r ''protocolId'') = Inr provider"
    "marketBinding networkId (js_get r ''marketId'') = Inr marketId"
    "assetBinding registry networkId (js_get r ''assetRegistryVersion'') (js_get r ''assetRegistryFingerprintSha256'') (js_get r ''assetSymbol'') (js_get r ''assetIdentity'') = Inr asset"
    "financialAction (js_get r ''action'') = Inr action"
    "atomic (js_get r ''amountAtomic'') INVALID_AMOUNT False = Inr amountAtomic"
    "atomic (js_get r ''requestedValueUsdMicros'') INVALID_VALUE_LIMIT_INPUT False = Inr requestedValueUsdMicros"
    "atomic (js_get r ''maximumNetworkFeeAtomic'') INVALID_NETWORK_FEE_LIMIT_INPUT True = Inr maximumNetworkFeeAtomic"
    "feeBasisPoints (js_get r ''maximumNetworkFeeBasisPoints'') = Inr maximumNetworkFeeBasisPoints"
    "atomic (js_get r ''minimumPostActionNativeBalanceAtomic'') INVALID_POST_ACTION_RESERVE False = Inr reserve"
    "atomic (js_get r ''allowanceAmountAtomic'') INVALID_ALLOWANCE True = Inr allowanceAmountAtomic"
    "(js_get r ''allowanceMode'' = JString ''EXACT'' \<and> allowanceAmountAtomic = (if action = SUPPLY \<or> action = REPAY then amountAtomic else ''0''))"
    "serverTime serverNow = Inr now"
    "canonicalTime (js_get r ''issuedAt'') INVALID_INTENT_TIME = Inr issuedAt"
    "canonicalTime (js_get r ''expiresAt'') INVALID_INTENT_TIME = Inr expiresAt"
    "(\<not> (snd issuedAt > now \<or> snd expiresAt \<le> now \<or> snd expiresAt \<le> snd issuedAt \<or> snd expiresAt - snd issuedAt > DORMANT_MAINNET_FINANCIAL_ACTION_MAXIMUM_TTL_MILLISECONDS))"
    "i = \<lparr>in_schemaVersion = 1, in_use = ''DORMANT_MAINNET_FINANCIAL_ACTION_INTENT_VALIDATION_ONLY'',
          in_mayAuthorizeFinancialAction = False, in_intentId = intentId, in_accountId = accountId,
          in_walletRegistrationId = walletRegistrationId, in_replayProtectionId = replayProtectionId,
          in_idempotencyKeyDigestSha256 = idempotencyKeyDigestSha256, in_networkId = networkId,
          in_walletAddress = walletAddress, in_providerId = pc_providerId provider,
          in_protocolId = pc_protocolId provider, in_marketId = marketId,
          in_assetRegistryVersion = sn_version registry,
          in_assetRegistryFingerprintSha256 = sn_fingerprintSha256 registry,
          in_assetSymbol = asset_stablecoin asset, in_assetIdentity = asset_identity asset,
          in_assetDecimals = asset_decimals asset, in_action = action, in_amountAtomic = amountAtomic,
          in_requestedValueUsdMicros = requestedValueUsdMicros, in_maximumNetworkFeeAtomic = maximumNetworkFeeAtomic,
          in_maximumNetworkFeeBasisPoints = maximumNetworkFeeBasisPoints,
          in_minimumPostActionNativeBalanceAtomic = reserve, in_allowanceMode = ''EXACT'',
          in_allowanceAmountAtomic = allowanceAmountAtomic, in_issuedAt = fst issuedAt, in_expiresAt = fst expiresAt,
          in_signingResponsibility = ''USER_WALLET_ONLY'', in_broadcastResponsibility = ''USER_WALLET_ONLY'',
          in_apiMaySign = False, in_apiMayBroadcast = False, in_crossChainExecutionAllowed = False,
          in_automaticResendAllowed = False, in_automaticFeeEscalationAllowed = False,
          in_durableReplayProtectionVerified = False\<rparr>"
  using assms
  unfolding parseDormantMainnetFinancialActionIntent_def res_bind_eq_Inr require_eq_Inr sum.inject
  by (elim exE conjE, hypsubst) (rule that; (assumption | rule refl | (rule conjI; (assumption | rule refl))))

subsection \<open>Accepted fields\<close>

lemma atomic_iff:
  "(atomic v code z = Inr s) =
     (v = JString s \<and> length s \<le> 78 \<and> canonical_nat s \<and> dec_val s \<le> 2 ^ 256 - 1 \<and> (z \<or> dec_val s \<noteq> 0))"
  by (auto simp: atomic_def split: jsval.splits if_splits)

lemma launchNetwork_iff: "(launchNetwork v = Inr s) = (v = JString s \<and> s \<in> set MAINNET_LAUNCH_NETWORK_IDS)"
  by (auto simp: launchNetwork_def isMainnetLaunchNetwork_def split: jsval.splits if_splits)

lemma providerBinding_sound:
  "providerBinding n p q = Inr c \<Longrightarrow> c \<in> set MAINNET_FINANCIAL_ACTION_PROVIDER_CANDIDATES \<and> pc_networkId c = n \<and>
     p = JString (provider_text (pc_providerId c)) \<and> q = JString (protocol_text (pc_protocolId c))"
  by (auto simp: providerBinding_def res_simps dest: find_SomeD)

lemma assetBinding_sound:
  assumes "assetBinding registry n v f s i = Inr a"
  shows "identifyAsset registry n (asset_identity a) = Some a \<and> asset_activationState a = ACTIVE \<and>
    v = js_int (sn_version registry) \<and> f = JString (sn_fingerprintSha256 registry) \<and>
    s = JString (stablecoin_text (asset_stablecoin a)) \<and> i = JString (asset_identity a)"
  using assms by (auto simp: assetBinding_def split: jsval.splits if_splits option.splits)

lemma canonicalTime_iff:
  "(canonicalTime v code = Inr (s, t)) = (v = JString s \<and> CANONICAL_TIMESTAMP_PATTERN s \<and> valid_time t \<and> s = to_iso t)"
  by (simp add: canonicalTime_def strict_timestamp_iff)

lemma serverTime_iff: "(serverTime v = Inr t) = (v = mk_date t)"
  by (simp add: serverTime_def server_time_value_iff)

text \<open>What the acceptance of an intent says about its identifiers, bindings and amounts.\<close>

definition intent_identifiers_ok :: "DormantMainnetFinancialActionIntentV1 \<Rightarrow> bool" where
  "intent_identifiers_ok i =
     (let ids = [in_intentId i, in_accountId i, in_walletRegistrationId i, in_replayProtectionId i]
      in list_all uuid_v4 ids \<and> distinct ids \<and> nonzero_digest (in_idempotencyKeyDigestSha256 i))"

definition intent_provider_ok :: "DormantMainnetFinancialActionIntentV1 \<Rightarrow> bool" where
  "intent_provider_ok i =
     (in_networkId i \<in> set MAINNET_LAUNCH_NETWORK_IDS \<and>
      candidate (in_providerId i) (in_protocolId i) (in_networkId i) \<in> set MAINNET_FINANCIAL_ACTION_PROVIDER_CANDIDATES)"

definition intent_asset_ok :: "DormantMainnetFinancialActionIntentV1 \<Rightarrow> bool" where
  "intent_asset_ok i =
     list_ex (\<lambda>c. vi_environment c = MAINNET \<and> vi_networkId c = in_networkId i \<and> vi_identity c = in_assetIdentity i \<and>
       vi_stablecoin c = in_assetSymbol i \<and> vi_decimals c = in_assetDecimals i) VERIFIED_STABLECOIN_IDENTITIES"

definition intent_amounts_ok :: "DormantMainnetFinancialActionIntentV1 \<Rightarrow> bool" where
  "intent_amounts_ok i =
     (list_all (\<lambda>s. canonical_nat s \<and> 0 < dec_val s \<and> dec_val s \<le> 2 ^ 256 - 1)
        [in_amountAtomic i, in_requestedValueUsdMicros i, in_minimumPostActionNativeBalanceAtomic i] \<and>
      dec_val (in_allowanceAmountAtomic i) =
        (if in_action i \<in> {SUPPLY, REPAY} then dec_val (in_amountAtomic i) else 0) \<and>
      0 \<le> in_maximumNetworkFeeBasisPoints i \<and> in_maximumNetworkFeeBasisPoints i \<le> 10000)"

lemma intent_sound:
  assumes "parseDormantMainnetFinancialActionIntent isAddress registry input now = Inr i"
    and "snapshot_ok registry" "sn_environment registry = MAINNET"
  shows "intent_identifiers_ok i" "intent_provider_ok i" "intent_asset_ok i" "intent_amounts_ok i"
proof -
  obtain r intentId accountId walletRegistrationId replayProtectionId d n w provider m asset action amount value' fee bp
      reserve allowance t ti te where
    ids: "uuid (js_get r ''intentId'') INVALID_INTENT_ID = Inr intentId"
      "uuid (js_get r ''accountId'') INVALID_ACCOUNT_ID = Inr accountId"
      "uuid (js_get r ''walletRegistrationId'') INVALID_WALLET_REGISTRATION_ID = Inr walletRegistrationId"
      "uuid (js_get r ''replayProtectionId'') INVALID_REPLAY_PROTECTION = Inr replayProtectionId"
      "distinct [intentId, accountId, walletRegistrationId, replayProtectionId]"
      "replayDigest (js_get r ''idempotencyKeyDigestSha256'') = Inr d"
    and net: "launchNetwork (js_get r ''networkId'') = Inr n"
      "providerBinding n (js_get r ''providerId'') (js_get r ''protocolId'') = Inr provider"
    and asset: "assetBinding registry n (js_get r ''assetRegistryVersion'') (js_get r ''assetRegistryFingerprintSha256'')
        (js_get r ''assetSymbol'') (js_get r ''assetIdentity'') = Inr asset"
    and amounts: "atomic (js_get r ''amountAtomic'') INVALID_AMOUNT False = Inr amount"
      "atomic (js_get r ''requestedValueUsdMicros'') INVALID_VALUE_LIMIT_INPUT False = Inr value'"
      "feeBasisPoints (js_get r ''maximumNetworkFeeBasisPoints'') = Inr bp"
      "atomic (js_get r ''minimumPostActionNativeBalanceAtomic'') INVALID_POST_ACTION_RESERVE False = Inr reserve"
      "allowance = (if action = SUPPLY \<or> action = REPAY then amount else ''0'')"
    and i: "in_intentId i = intentId" "in_accountId i = accountId" "in_walletRegistrationId i = walletRegistrationId"
      "in_replayProtectionId i = replayProtectionId" "in_idempotencyKeyDigestSha256 i = d" "in_networkId i = n"
      "in_providerId i = pc_providerId provider" "in_protocolId i = pc_protocolId provider"
      "in_assetSymbol i = asset_stablecoin asset" "in_assetIdentity i = asset_identity asset"
      "in_assetDecimals i = asset_decimals asset" "in_action i = action" "in_amountAtomic i = amount"
      "in_requestedValueUsdMicros i = value'" "in_maximumNetworkFeeBasisPoints i = bp"
      "in_minimumPostActionNativeBalanceAtomic i = reserve" "in_allowanceAmountAtomic i = allowance"
    using assms(1)
    by (rule intent_steps)
      (hypsubst, rule that; (assumption | erule conjunct2 | simp only: DormantMainnetFinancialActionIntentV1.select_convs))
  show "intent_identifiers_ok i"
    using ids by (simp add: intent_identifiers_ok_def i uuid_def uuid_value_iff replayDigest_def digest_value_iff)
  have "candidate (pc_providerId provider) (pc_protocolId provider) n = provider"
    using providerBinding_sound [OF net(2)] by (cases provider) (simp add: candidate_def)
  then show "intent_provider_ok i"
    using providerBinding_sound [OF net(2)] net(1) by (simp add: intent_provider_ok_def i launchNetwork_iff)
  have "asset \<in> set (sn_assets registry)" "asset_networkId asset = n"
    using assetBinding_sound [OF asset] identifyAsset_iff [OF assms(2)] by blast+
  then show "intent_asset_ok i"
    using snapshot_assets_okD(2) [OF assms(2)] assms(3)
    by (fastforce simp: intent_asset_ok_def i verified_as_def list_ex_iff)
  have "0 \<le> bp" "bp \<le> 10000"
    using amounts(3) by (auto simp: feeBasisPoints_def split: jsval.splits jsnum.splits if_splits)
  then show "intent_amounts_ok i"
    using amounts(1,2,4,5) unfolding intent_amounts_ok_def i atomic_iff by (auto simp: digit_val_def)
qed

subsection \<open>Time\<close>

text \<open>The rest of the parser does not look at the server time.\<close>

lemma intent_time:
  assumes "parseDormantMainnetFinancialActionIntent isAddress registry input now = Inr i"
  shows "\<exists>ti te. valid_time ti \<and> valid_time te \<and> in_issuedAt i = to_iso ti \<and> in_expiresAt i = to_iso te \<and>
    ti < te \<and> te - ti \<le> 300000 \<and> (\<exists>n. now = mk_date n \<and> ti \<le> n \<and> n < te) \<and>
    (\<forall>t. parseDormantMainnetFinancialActionIntent isAddress registry input (mk_date t) =
       (if ti \<le> t \<and> t < te then Inr i else Inl INVALID_INTENT_TIME))"
  using assms
proof (rule intent_steps)
  fix r intentId accountId walletRegistrationId replayProtectionId d n w provider m asset action amount value' fee bp
      reserve allowance t and issued expires :: "string \<times> int"
  assume steps: "exactDataRecord input = Inr r" "(js_get r ''schemaVersion'' = js_int 1)"
      "uuid (js_get r ''intentId'') INVALID_INTENT_ID = Inr intentId"
      "uuid (js_get r ''accountId'') INVALID_ACCOUNT_ID = Inr accountId"
      "uuid (js_get r ''walletRegistrationId'') INVALID_WALLET_REGISTRATION_ID = Inr walletRegistrationId"
      "uuid (js_get r ''replayProtectionId'') INVALID_REPLAY_PROTECTION = Inr replayProtectionId"
      "distinct [intentId, accountId, walletRegistrationId, replayProtectionId]"
      "replayDigest (js_get r ''idempotencyKeyDigestSha256'') = Inr d"
      "launchNetwork (js_get r ''networkId'') = Inr n"
      "wallet isAddress n (js_get r ''walletAddress'') = Inr w"
      "providerBinding n (js_get r ''providerId'') (js_get r ''protocolId'') = Inr provider"
      "marketBinding n (js_get r ''marketId'') = Inr m"
      "assetBinding registry n (js_get r ''assetRegistryVersion'') (js_get r ''assetRegistryFingerprintSha256'')
        (js_get r ''assetSymbol'') (js_get r ''assetIdentity'') = Inr asset"
      "financialAction (js_get r ''action'') = Inr action"
      "atomic (js_get r ''amountAtomic'') INVALID_AMOUNT False = Inr amount"
      "atomic (js_get r ''requestedValueUsdMicros'') INVALID_VALUE_LIMIT_INPUT False = Inr value'"
      "atomic (js_get r ''maximumNetworkFeeAtomic'') INVALID_NETWORK_FEE_LIMIT_INPUT True = Inr fee"
      "feeBasisPoints (js_get r ''maximumNetworkFeeBasisPoints'') = Inr bp"
      "atomic (js_get r ''minimumPostActionNativeBalanceAtomic'') INVALID_POST_ACTION_RESERVE False = Inr reserve"
      "atomic (js_get r ''allowanceAmountAtomic'') INVALID_ALLOWANCE True = Inr allowance"
      "(js_get r ''allowanceMode'' = JString ''EXACT'' \<and>
        allowance = (if action = SUPPLY \<or> action = REPAY then amount else ''0''))"
    and now: "serverTime now = Inr t"
    and times: "canonicalTime (js_get r ''issuedAt'') INVALID_INTENT_TIME = Inr issued"
      "canonicalTime (js_get r ''expiresAt'') INVALID_INTENT_TIME = Inr expires"
    and window: "(\<not> (snd issued > t \<or> snd expires \<le> t \<or> snd expires \<le> snd issued \<or>
           snd expires - snd issued > DORMANT_MAINNET_FINANCIAL_ACTION_MAXIMUM_TTL_MILLISECONDS))"
    and i: "i = \<lparr>in_schemaVersion = 1, in_use = ''DORMANT_MAINNET_FINANCIAL_ACTION_INTENT_VALIDATION_ONLY'',
          in_mayAuthorizeFinancialAction = False, in_intentId = intentId, in_accountId = accountId,
          in_walletRegistrationId = walletRegistrationId, in_replayProtectionId = replayProtectionId,
          in_idempotencyKeyDigestSha256 = d, in_networkId = n,
          in_walletAddress = w, in_providerId = pc_providerId provider,
          in_protocolId = pc_protocolId provider, in_marketId = m,
          in_assetRegistryVersion = sn_version registry,
          in_assetRegistryFingerprintSha256 = sn_fingerprintSha256 registry,
          in_assetSymbol = asset_stablecoin asset, in_assetIdentity = asset_identity asset,
          in_assetDecimals = asset_decimals asset, in_action = action, in_amountAtomic = amount,
          in_requestedValueUsdMicros = value', in_maximumNetworkFeeAtomic = fee,
          in_maximumNetworkFeeBasisPoints = bp,
          in_minimumPostActionNativeBalanceAtomic = reserve, in_allowanceMode = ''EXACT'',
          in_allowanceAmountAtomic = allowance, in_issuedAt = fst issued, in_expiresAt = fst expires,
          in_signingResponsibility = ''USER_WALLET_ONLY'', in_broadcastResponsibility = ''USER_WALLET_ONLY'',
          in_apiMaySign = False, in_apiMayBroadcast = False, in_crossChainExecutionAllowed = False,
          in_automaticResendAllowed = False, in_automaticFeeEscalationAllowed = False,
          in_durableReplayProtectionVerified = False\<rparr>"
  have texts: "valid_time (snd issued)" "valid_time (snd expires)" "in_issuedAt i = to_iso (snd issued)"
      "in_expiresAt i = to_iso (snd expires)"
    using times canonicalTime_iff [of _ _ "fst issued" "snd issued"] canonicalTime_iff [of _ _ "fst expires" "snd expires"]
    unfolding i DormantMainnetFinancialActionIntentV1.select_convs by simp_all
  have w: "snd issued \<le> t" "t < snd expires" "snd issued < snd expires" "snd expires - snd issued \<le> 300000"
    using window by (simp_all add: DORMANT_MAINNET_FINANCIAL_ACTION_MAXIMUM_TTL_MILLISECONDS_def)
  have iff: "(\<not> (snd issued > u \<or> snd expires \<le> u \<or> snd expires \<le> snd issued \<or>
           snd expires - snd issued > DORMANT_MAINNET_FINANCIAL_ACTION_MAXIMUM_TTL_MILLISECONDS)) =
      (snd issued \<le> u \<and> u < snd expires)" for u
    using w by (auto simp: DORMANT_MAINNET_FINANCIAL_ACTION_MAXIMUM_TTL_MILLISECONDS_def)
  have again: "parseDormantMainnetFinancialActionIntent isAddress registry input (mk_date u) =
       (if snd issued \<le> u \<and> u < snd expires then Inr i else Inl INVALID_INTENT_TIME)" for u
  proof -
    have "serverTime (mk_date u) = Inr u" by (simp add: serverTime_iff)
    then have "parseDormantMainnetFinancialActionIntent isAddress registry input (mk_date u) =
        res_bind (require INVALID_INTENT_TIME (snd issued \<le> u \<and> u < snd expires)) (\<lambda>_. Inr i)"
      unfolding parseDormantMainnetFinancialActionIntent_def
      by (simp only: steps times iff res_bind.simps require_simps(1) i simp_thms refl)
    then show ?thesis by (simp add: require_def)
  qed
  from now have "now = mk_date t" by (simp add: serverTime_iff)
  with texts w again show ?thesis by blast
qed

subsection \<open>A sample intent\<close>

text \<open>The mainnet registry under a constant digest, and an intent on it.\<close>

definition sample_digest :: string where
  "sample_digest = replicate 64 (CHR ''a'')"

definition sample_registry :: SupportedAssetRegistrySnapshot where
  "sample_registry =
     \<lparr>sn_version = 1, sn_environment = MAINNET, sn_fingerprintSha256 = sample_digest,
      sn_networks = active_networks MAINNET, sn_assets = map (asset_of 1 ACTIVE) (catalog_entries MAINNET)\<rparr>"

lemma sample_registry_loaded:
  "\<exists>r. MAINNET_SUPPORTED_ASSET_REGISTRY (\<lambda>bytes. sample_digest) = Inr r \<and> vr_latest r = sample_registry"
proof -
  obtain s where s: "createSupportedAssetRegistrySnapshot (\<lambda>bytes. sample_digest) (shipped_definition MAINNET (catalog_entries MAINNET)) = Inr s"
    "sn_version s = 1" "sn_environment s = MAINNET" "sn_networks s = active_networks MAINNET"
    "sn_assets s = map (asset_of 1 ACTIVE) (catalog_entries MAINNET)" "sn_fingerprintSha256 s = sample_digest"
    using shipped_example [of "\<lambda>bytes. sample_digest"] by (auto simp: fingerprintSnapshot_def)
  have "s = sample_registry" using s(2-6) by (cases s) (simp add: sample_registry_def)
  moreover have "assetDefinitionsFromManifest MAINNET MAINNET_V1_ASSET_MANIFEST =
      Inr (map (definition_of ACTIVE) (catalog_entries MAINNET))"
    using shipped_inputs(2) by (simp add: shipped_manifest_def)
  ultimately show ?thesis
    using s(1,2) by (simp add: MAINNET_SUPPORTED_ASSET_REGISTRY_def registryOf_def createVersionedSupportedAssetRegistry_def
        sequentialVersions_def shipped_definition_def shipped_networks_def)
qed

definition sample_uuid :: "string \<Rightarrow> string" where
  "sample_uuid c = concat (replicate 8 c) @ ''-0000-4000-8000-'' @ replicate 12 (CHR ''0'')"

definition sample_intent_input :: jsval where
  "sample_intent_input = mk_object (zip INTENT_INPUT_KEYS
     [js_int 1, JString (sample_uuid ''1''), JString (sample_uuid ''2''), JString (sample_uuid ''3''),
      JString (sample_uuid ''4''), JString sample_digest, JString ''eip155:1'',
      JString (''0x'' @ replicate 40 (CHR ''1'')), JString ''aave'', JString ''aave-v3'',
      JString (''0x'' @ replicate 40 (CHR ''2'')), js_int 1, JString sample_digest, JString ''USDC'',
      JString ''0xa0b86991c6218b36c1d19d4a2e9eb0ce3606eb48'', JString ''SUPPLY'', JString ''1000000'',
      JString ''1000000'', JString ''0'', js_int 50, JString ''1'', JString ''EXACT'', JString ''1000000'',
      JString ''2026-01-01T00:00:00.000Z'', JString ''2026-01-01T00:05:00.000Z''])"

definition sample_now :: int where
  "sample_now = 1767225600000"

definition accepted_as :: "('a \<Rightarrow> bool) \<Rightarrow> 'e + 'a \<Rightarrow> bool" where
  "accepted_as P r = (case r of Inl _ \<Rightarrow> False | Inr x \<Rightarrow> P x)"

lemma accepted_asD: "accepted_as P r \<Longrightarrow> \<exists>x. r = Inr x \<and> P x"
  by (auto simp: accepted_as_def split: sum.splits)

lemma sample_intent_accepted:
  "accepted_as (\<lambda>i. in_networkId i = ''eip155:1'' \<and> in_assetSymbol i = USDC)
     (parseDormantMainnetFinancialActionIntent (\<lambda>s. True) sample_registry sample_intent_input (mk_date sample_now))"
  by code_simp

subsection \<open>Properties\<close>

text \<open>C26. An intent accepted against the registry the program loads has four different identifiers
  and a non-zero replay digest; it names a launch network and one of the listed providers with its
  own protocol on that network; its asset is the catalogue's verified identity with that coin and
  those decimals on that network; its amounts are positive 256-bit numbers, and its allowance is
  exactly the amount for a supply or a repayment and zero otherwise.\<close>

theorem accepted_intent_is_bound:
  assumes "MAINNET_SUPPORTED_ASSET_REGISTRY sha256 = Inr r"
    and "parseDormantMainnetFinancialActionIntent isAddress (vr_latest r) input now = Inr i"
  shows "intent_identifiers_ok i \<and> intent_provider_ok i \<and> intent_asset_ok i \<and> intent_amounts_ok i"
proof -
  have "snapshot_ok (vr_latest r)" "sn_environment (vr_latest r) = MAINNET"
    using registryOf_sound [of sha256 MAINNET] assms(1) by (simp_all add: MAINNET_SUPPORTED_ASSET_REGISTRY_def)
  then show ?thesis using intent_sound [OF assms(2)] by blast
qed

theorem accepted_intent_is_bound_witness:
  "\<exists>r i. MAINNET_SUPPORTED_ASSET_REGISTRY (\<lambda>bytes. sample_digest) = Inr r \<and>
     parseDormantMainnetFinancialActionIntent (\<lambda>s. True) (vr_latest r) sample_intent_input (mk_date sample_now) = Inr i \<and>
     intent_asset_ok i \<and> intent_provider_ok i"
proof -
  obtain r where r: "MAINNET_SUPPORTED_ASSET_REGISTRY (\<lambda>bytes. sample_digest) = Inr r" "vr_latest r = sample_registry"
    using sample_registry_loaded by blast
  obtain i where "parseDormantMainnetFinancialActionIntent (\<lambda>s. True) (vr_latest r) sample_intent_input (mk_date sample_now) = Inr i"
    using accepted_asD [OF sample_intent_accepted] unfolding r(2) by blast
  with accepted_intent_is_bound [OF r(1) this] r(1) show ?thesis by blast
qed

text \<open>An accepted intent states its issue and expiry times, at most five minutes apart, and the
  same input is accepted, with the same result, exactly at the server times from its issue up to
  but not including its expiry; at any other time it is refused as an invalid intent time.\<close>

theorem intent_validity_window:
  assumes "parseDormantMainnetFinancialActionIntent isAddress registry input now = Inr i"
  shows "\<exists>ti te. in_issuedAt i = to_iso ti \<and> in_expiresAt i = to_iso te \<and> ti < te \<and> te - ti \<le> 300000 \<and>
    (\<forall>t. parseDormantMainnetFinancialActionIntent isAddress registry input (mk_date t) =
       (if ti \<le> t \<and> t < te then Inr i else Inl INVALID_INTENT_TIME))"
  using intent_time [OF assms] by blast

theorem intent_validity_window_witness:
  "\<exists>i te. parseDormantMainnetFinancialActionIntent (\<lambda>s. True) sample_registry sample_intent_input (mk_date sample_now) = Inr i \<and>
     in_expiresAt i = to_iso te \<and>
     parseDormantMainnetFinancialActionIntent (\<lambda>s. True) sample_registry sample_intent_input (mk_date te) = Inl INVALID_INTENT_TIME"
proof -
  obtain i where i: "parseDormantMainnetFinancialActionIntent (\<lambda>s. True) sample_registry sample_intent_input (mk_date sample_now) = Inr i"
    using accepted_asD [OF sample_intent_accepted] by blast
  from intent_validity_window [OF this] obtain ti te where "in_expiresAt i = to_iso te"
      "\<forall>t. parseDormantMainnetFinancialActionIntent (\<lambda>s. True) sample_registry sample_intent_input (mk_date t) =
       (if ti \<le> t \<and> t < te then Inr i else Inl INVALID_INTENT_TIME)" by blast
  then have "parseDormantMainnetFinancialActionIntent (\<lambda>s. True) sample_registry sample_intent_input (mk_date te) =
      Inl INVALID_INTENT_TIME" by simp
  with i \<open>in_expiresAt i = to_iso te\<close> show ?thesis by blast
qed

text \<open>What the zero policy says of an intent: its network is halted, its provider, action, market,
  wallet and asset are not approved, and its value and amount exceed the limits.\<close>

definition policy_forbids :: "DormantMainnetFinancialActionPolicyV1 \<Rightarrow> DormantMainnetFinancialActionIntentV1 \<Rightarrow> bool" where
  "policy_forbids p i =
     (map_of (po_chainKillSwitches p) (in_networkId i) = Some ''HALT'' \<and>
      in_providerId i \<notin> set (po_approvedProviders p) \<and> in_action i \<notin> set (po_approvedActions p) \<and>
      in_marketId i \<notin> set (po_approvedMarkets p) \<and> in_walletAddress i \<notin> set (po_allowlistedWallets p) \<and>
      in_assetIdentity i \<notin> set (po_approvedAssets p) \<and>
      dec_val (po_perTransactionUsdMicros p) < dec_val (in_requestedValueUsdMicros i) \<and>
      (in_action i \<in> {SUPPLY, REPAY} \<longrightarrow> dec_val (po_maximumAllowanceAtomic p) < dec_val (in_allowanceAmountAtomic i)))"

text \<open>The assessment never authorises an intent: it is a denial that carries the validated
  intent and the zero policy, every clause of which the intent violates, and neither the intent,
  the policy nor the assessment grants signing, broadcasting, resending or fee escalation.\<close>

theorem assessment_never_authorises:
  assumes "MAINNET_SUPPORTED_ASSET_REGISTRY sha256 = Inr r"
    and "assessDormantMainnetFinancialAction isAddress (vr_latest r) input now = Inr a"
  shows "as_decision a = ''DENY'' \<and>
    parseDormantMainnetFinancialActionIntent isAddress (vr_latest r) input now = Inr (as_intent a) \<and>
    policy_forbids (as_policy a) (as_intent a) \<and> as_denialReasons a \<noteq> [] \<and>
    list_all Not [as_mayAuthorizeFinancialAction a, in_mayAuthorizeFinancialAction (as_intent a),
      po_mayAuthorizeFinancialAction (as_policy a), in_apiMaySign (as_intent a), in_apiMayBroadcast (as_intent a),
      in_automaticResendAllowed (as_intent a), in_automaticFeeEscalationAllowed (as_intent a),
      in_crossChainExecutionAllowed (as_intent a), po_apiMaySign (as_policy a), po_apiMayBroadcast (as_policy a)]"
proof -
  from assms(2) obtain i where p: "parseDormantMainnetFinancialActionIntent isAddress (vr_latest r) input now = Inr i"
      and a: "a = \<lparr>as_schemaVersion = 1, as_decision = ''DENY'', as_mayAuthorizeFinancialAction = False,
          as_intent = i, as_policy = DORMANT_MAINNET_FINANCIAL_ACTION_POLICY,
          as_denialReasons = DORMANT_MAINNET_FINANCIAL_ACTION_DENIAL_REASONS\<rparr>"
    unfolding assessDormantMainnetFinancialAction_def res_bind_eq_Inr sum.inject by blast
  have "snapshot_ok (vr_latest r)" "sn_environment (vr_latest r) = MAINNET"
    using registryOf_sound [of sha256 MAINNET] assms(1) by (simp_all add: MAINNET_SUPPORTED_ASSET_REGISTRY_def)
  note ok = intent_sound [OF p this]
  have flags: "\<not> in_mayAuthorizeFinancialAction i" "\<not> in_apiMaySign i" "\<not> in_apiMayBroadcast i"
      "\<not> in_automaticResendAllowed i" "\<not> in_automaticFeeEscalationAllowed i" "\<not> in_crossChainExecutionAllowed i"
    using p by (rule intent_steps; hypsubst;
        simp only: DormantMainnetFinancialActionIntentV1.select_convs not_False_eq_True)+
  have "policy_forbids DORMANT_MAINNET_FINANCIAL_ACTION_POLICY i"
    using ok(2,4)
    by (auto simp: policy_forbids_def DORMANT_MAINNET_FINANCIAL_ACTION_POLICY_def intent_provider_ok_def
        intent_amounts_ok_def MAINNET_LAUNCH_NETWORK_IDS_def digit_val_def)
  with p flags show ?thesis
    by (simp add: a DORMANT_MAINNET_FINANCIAL_ACTION_POLICY_def DORMANT_MAINNET_FINANCIAL_ACTION_DENIAL_REASONS_def)
qed

theorem assessment_never_authorises_witness:
  "\<exists>r a. MAINNET_SUPPORTED_ASSET_REGISTRY (\<lambda>bytes. sample_digest) = Inr r \<and>
     assessDormantMainnetFinancialAction (\<lambda>s. True) (vr_latest r) sample_intent_input (mk_date sample_now) = Inr a \<and>
     as_decision a = ''DENY'' \<and> policy_forbids (as_policy a) (as_intent a)"
proof -
  obtain r where r: "MAINNET_SUPPORTED_ASSET_REGISTRY (\<lambda>bytes. sample_digest) = Inr r" "vr_latest r = sample_registry"
    using sample_registry_loaded by blast
  obtain i where "parseDormantMainnetFinancialActionIntent (\<lambda>s. True) (vr_latest r) sample_intent_input (mk_date sample_now) = Inr i"
    using accepted_asD [OF sample_intent_accepted] unfolding r(2) by blast
  then obtain a where "assessDormantMainnetFinancialAction (\<lambda>s. True) (vr_latest r) sample_intent_input (mk_date sample_now) = Inr a"
    by (simp add: assessDormantMainnetFinancialAction_def)
  with assessment_never_authorises [OF r(1) this] r(1) show ?thesis by blast
qed

end
