(* ===== verification/Action_Lifecycle.thy ===== *)
theory Action_Lifecycle
  imports Action_Intent
begin

text \<open>
  The lifecycle protocol of mainnet actions,
  \<^verbatim>\<open>apps/api/src/mainnet-actions/domain/dormant-mainnet-financial-action-lifecycle.ts\<close>: an in-memory
  recorder of what the user's wallet signed and sent and of what the chain was seen to do.

  The closure variables of \<^verbatim>\<open>createDormantMainnetFinancialActionLifecycleProtocol\<close> are the record
  \<open>ProtocolState\<close>. An operation maps a state to an error or to a snapshot and a new state; every
  assignment of the sources comes after the last check, so a failing operation leaves the state
  as it was. \<open>sha256\<close> (bytes to a hexadecimal digest), \<open>isAddress\<close> and \<open>registry\<close> are parameters as
  in \<open>Action_Intent\<close>. \<^verbatim>\<open>Date.parse\<close> is applied to stored canonical texts only; \<open>date_parse\<close> reads
  them, and a comparison with NaN is false.
\<close>

subsection \<open>Vocabulary\<close>

datatype DormantMainnetFinancialActionLifecycleStage =
    PREPARED | WALLET_SIGNED_SUBMISSION_BOUND | BROADCAST_OUTCOME_AMBIGUOUS | RECONCILIATION_AMBIGUOUS
  | FINALIZED_SUCCESS | FINALIZED_FAILURE | REORG_QUARANTINED

fun stage_text :: "DormantMainnetFinancialActionLifecycleStage \<Rightarrow> string" where
  "stage_text PREPARED = ''PREPARED''"
| "stage_text WALLET_SIGNED_SUBMISSION_BOUND = ''WALLET_SIGNED_SUBMISSION_BOUND''"
| "stage_text BROADCAST_OUTCOME_AMBIGUOUS = ''BROADCAST_OUTCOME_AMBIGUOUS''"
| "stage_text RECONCILIATION_AMBIGUOUS = ''RECONCILIATION_AMBIGUOUS''"
| "stage_text FINALIZED_SUCCESS = ''FINALIZED_SUCCESS''"
| "stage_text FINALIZED_FAILURE = ''FINALIZED_FAILURE''"
| "stage_text REORG_QUARANTINED = ''REORG_QUARANTINED''"

datatype DormantMainnetFinancialActionLifecycleErrorCode =
    INVALID_SUBMISSION_INPUT | INVALID_BROADCAST_OBSERVATION_INPUT | INVALID_RECONCILIATION_OBSERVATION_INPUT
  | LC_INVALID_SERVER_TIME | INTENT_NOT_FOUND | INTENT_CONFLICT | IDEMPOTENCY_REPLAY_CONFLICT
  | REPLAY_PROTECTION_CONFLICT | EVIDENCE_DIGEST_CONFLICT | INTENT_EXPIRED | INVALID_LIFECYCLE_TRANSITION
  | TRANSACTION_IDENTITY_CONFLICT | ONE_SHOT_BROADCAST_ALREADY_RECORDED | OBSERVATION_REPLAY_CONFLICT
  | NON_MONOTONIC_RECONCILIATION | TERMINAL_RECONCILIATION

text \<open>The errors that leave an operation: its own, those of the intent parser, and those of the
  wallet module.\<close>

datatype lifecycle_error =
    LifecycleFailed DormantMainnetFinancialActionLifecycleErrorCode
  | IntentInvalid DormantMainnetFinancialActionValidationCode
  | WalletInvalid WalletIdentityValidationCode

type_synonym 'a lifecycle_result = "lifecycle_error + 'a"

datatype DormantMainnetWalletBroadcastOutcome =
    WALLET_REPORTED_SUBMITTED | WALLET_REPORTED_AMBIGUOUS | WALLET_REPORTED_REJECTED

fun broadcast_outcome_text :: "DormantMainnetWalletBroadcastOutcome \<Rightarrow> string" where
  "broadcast_outcome_text WALLET_REPORTED_SUBMITTED = ''WALLET_REPORTED_SUBMITTED''"
| "broadcast_outcome_text WALLET_REPORTED_AMBIGUOUS = ''WALLET_REPORTED_AMBIGUOUS''"
| "broadcast_outcome_text WALLET_REPORTED_REJECTED = ''WALLET_REPORTED_REJECTED''"

definition BROADCAST_OUTCOMES :: "DormantMainnetWalletBroadcastOutcome list" where
  "BROADCAST_OUTCOMES = [WALLET_REPORTED_SUBMITTED, WALLET_REPORTED_AMBIGUOUS, WALLET_REPORTED_REJECTED]"

datatype DormantMainnetReconciliationOutcome =
    Outcome_PENDING | Outcome_UNKNOWN | Outcome_FINALIZED_SUCCESS | Outcome_FINALIZED_FAILURE | Outcome_REORGED_OUT

fun reconciliation_outcome_text :: "DormantMainnetReconciliationOutcome \<Rightarrow> string" where
  "reconciliation_outcome_text Outcome_PENDING = ''PENDING''"
| "reconciliation_outcome_text Outcome_UNKNOWN = ''UNKNOWN''"
| "reconciliation_outcome_text Outcome_FINALIZED_SUCCESS = ''FINALIZED_SUCCESS''"
| "reconciliation_outcome_text Outcome_FINALIZED_FAILURE = ''FINALIZED_FAILURE''"
| "reconciliation_outcome_text Outcome_REORGED_OUT = ''REORGED_OUT''"

definition RECONCILIATION_OUTCOMES :: "DormantMainnetReconciliationOutcome list" where
  "RECONCILIATION_OUTCOMES =
     [Outcome_PENDING, Outcome_UNKNOWN, Outcome_FINALIZED_SUCCESS, Outcome_FINALIZED_FAILURE, Outcome_REORGED_OUT]"

record authority =
  au_operationalMode :: string
  au_mayAuthorizeFinancialAction :: bool
  au_mayBuildTransaction :: bool
  au_maySignTransaction :: bool
  au_mayBroadcastTransaction :: bool
  au_mayAutomaticallyResubmit :: bool
  au_mayEscalateNetworkFee :: bool
  au_signingResponsibility :: string
  au_broadcastResponsibility :: string

definition ZERO_AUTHORITY :: authority where
  "ZERO_AUTHORITY =
     \<lparr>au_operationalMode = ''DORMANT'', au_mayAuthorizeFinancialAction = False, au_mayBuildTransaction = False,
      au_maySignTransaction = False, au_mayBroadcastTransaction = False, au_mayAutomaticallyResubmit = False,
      au_mayEscalateNetworkFee = False, au_signingResponsibility = ''USER_WALLET_ONLY'',
      au_broadcastResponsibility = ''USER_WALLET_ONLY''\<rparr>"

record durability =
  du_kind :: string
  du_durable :: bool
  du_mayClaimReplayProtectionAfterRestart :: bool
  du_persistenceAuthority :: bool

definition VOLATILE_DURABILITY :: durability where
  "VOLATILE_DURABILITY =
     \<lparr>du_kind = ''VOLATILE_IN_PROCESS_ONLY'', du_durable = False,
      du_mayClaimReplayProtectionAfterRestart = False, du_persistenceAuthority = False\<rparr>"

record DormantMainnetFinancialActionSubmissionBindingV1 =
  su_schemaVersion :: int
  su_source :: string
  su_intentId :: string
  su_intentFingerprintSha256 :: string
  su_networkId :: string
  su_signerWalletAccountId :: string
  su_transactionId :: string
  su_chainQualifiedTransactionId :: string
  su_walletSignedPayloadSha256 :: string
  su_walletSignatureEvidenceSha256 :: string
  su_signedAt :: string
  su_submissionFingerprintSha256 :: string
  su_cryptographicSignatureVerifiedByThisProtocol :: bool
  su_signedPayloadMatchesIntentVerifiedByThisProtocol :: bool

record DormantMainnetWalletBroadcastObservationV1 =
  bo_schemaVersion :: int
  bo_source :: string
  bo_observationId :: string
  bo_intentId :: string
  bo_submissionFingerprintSha256 :: string
  bo_networkId :: string
  bo_transactionId :: string
  bo_chainQualifiedTransactionId :: string
  bo_outcome :: DormantMainnetWalletBroadcastOutcome
  bo_evidenceSha256 :: string
  bo_observedAt :: string
  bo_broadcastAttemptConsumed :: bool
  bo_onchainAcceptanceVerifiedByThisProtocol :: bool

record DormantMainnetReconciliationObservationV1 =
  ro_schemaVersion :: int
  ro_source :: string
  ro_observationId :: string
  ro_intentId :: string
  ro_submissionFingerprintSha256 :: string
  ro_networkId :: string
  ro_transactionId :: string
  ro_chainQualifiedTransactionId :: string
  ro_outcome :: DormantMainnetReconciliationOutcome
  ro_transactionPosition :: "string option"
  ro_transactionBlockId :: "string option"
  ro_finalizedPosition :: string
  ro_finalizedBlockId :: string
  ro_effectEvidenceSha256 :: "string option"
  ro_failureEvidenceSha256 :: "string option"
  ro_sourceEvidenceSha256 :: string
  ro_observedAt :: string
  ro_independentlyReadByThisProtocol :: bool

record identities =
  id_walletAccountId :: string
  id_providerMarketId :: string
  id_assetId :: string

record DormantMainnetFinancialActionLifecycleSnapshotV1 =
  sp_schemaVersion :: int
  sp_use :: string
  sp_stage :: DormantMainnetFinancialActionLifecycleStage
  sp_revision :: nat
  sp_previousSnapshotSha256 :: "string option"
  sp_transitionFingerprintSha256 :: string
  sp_snapshotSha256 :: string
  sp_intentFingerprintSha256 :: string
  sp_intent :: DormantMainnetFinancialActionIntentV1
  sp_identities :: identities
  sp_submission :: "DormantMainnetFinancialActionSubmissionBindingV1 option"
  sp_broadcastObservation :: "DormantMainnetWalletBroadcastObservationV1 option"
  sp_reconciliation :: "DormantMainnetReconciliationObservationV1 option"
  sp_terminal :: bool
  sp_requiresManualReconciliation :: bool
  sp_authority :: authority
  sp_durability :: durability

type_synonym snapshot = DormantMainnetFinancialActionLifecycleSnapshotV1

record LifecycleRecord =
  lr_prepared :: snapshot
  lr_current :: snapshot
  lr_submissionReplay :: "(string \<times> snapshot) option"
  lr_broadcastReplay :: "(string \<times> string \<times> snapshot) option"
  lr_reconciliationReplays :: "string \<Rightarrow> (string \<times> snapshot) option"
  lr_lastTransactionPosition :: "string option"
  lr_lastTransactionBlockId :: "string option"
  lr_lastFinalizedPosition :: "string option"
  lr_lastFinalizedBlockId :: "string option"
  lr_lastReconciliationObservedAt :: "string option"

datatype EvidenceDigestRole =
    WALLET_SIGNED_PAYLOAD | WALLET_SIGNATURE_EVIDENCE | WALLET_BROADCAST_EVIDENCE
  | RECONCILIATION_SOURCE_EVIDENCE | RECONCILIATION_EFFECT_EVIDENCE | RECONCILIATION_FAILURE_EVIDENCE

record EvidenceDigestClaim =
  cl_digest :: string
  cl_role :: EvidenceDigestRole
  cl_fingerprint :: string

record ProtocolState =
  records :: "string \<Rightarrow> LifecycleRecord option"
  idempotencyOwners :: "string \<Rightarrow> string option"
  replayProtectionOwners :: "string \<Rightarrow> string option"
  transactionOwners :: "string \<Rightarrow> string option"
  observationOwners :: "string \<Rightarrow> string option"
  evidenceDigestOwners :: "string \<Rightarrow> (EvidenceDigestRole \<times> string) option"

definition SUBMISSION_KEYS :: "string list" where
  "SUBMISSION_KEYS =
     [''schemaVersion'', ''intentId'', ''intentFingerprintSha256'', ''networkId'', ''signerWalletAccountId'',
      ''transactionId'', ''walletSignedPayloadSha256'', ''walletSignatureEvidenceSha256'', ''signedAt'']"

definition BROADCAST_KEYS :: "string list" where
  "BROADCAST_KEYS =
     [''schemaVersion'', ''observationId'', ''intentId'', ''submissionFingerprintSha256'', ''networkId'',
      ''transactionId'', ''outcome'', ''evidenceSha256'', ''observedAt'']"

definition RECONCILIATION_KEYS :: "string list" where
  "RECONCILIATION_KEYS =
     [''schemaVersion'', ''observationId'', ''intentId'', ''submissionFingerprintSha256'', ''networkId'',
      ''transactionId'', ''outcome'', ''transactionPosition'', ''transactionBlockId'', ''finalizedPosition'',
      ''finalizedBlockId'', ''effectEvidenceSha256'', ''failureEvidenceSha256'', ''sourceEvidenceSha256'', ''observedAt'']"

subsection \<open>Values\<close>

abbreviation lc_fail :: "DormantMainnetFinancialActionLifecycleErrorCode \<Rightarrow> lifecycle_error" where
  "lc_fail \<equiv> LifecycleFailed"

definition lc_exactRecord ::
  "jsval \<Rightarrow> string list \<Rightarrow> DormantMainnetFinancialActionLifecycleErrorCode \<Rightarrow> js_record lifecycle_result" where
  "lc_exactRecord v keys code = plain_data_record (lc_fail code) keys v"

definition lc_digest :: "jsval \<Rightarrow> DormantMainnetFinancialActionLifecycleErrorCode \<Rightarrow> string lifecycle_result" where
  "lc_digest v code = digest_value (lc_fail code) v"

definition lc_uuid :: "jsval \<Rightarrow> DormantMainnetFinancialActionLifecycleErrorCode \<Rightarrow> string lifecycle_result" where
  "lc_uuid v code = uuid_value (lc_fail code) v"

definition lc_timestamp ::
  "jsval \<Rightarrow> DormantMainnetFinancialActionLifecycleErrorCode \<Rightarrow> (string \<times> int) lifecycle_result" where
  "lc_timestamp v code = strict_timestamp (lc_fail code) v"

definition lc_serverTime :: "jsval \<Rightarrow> int lifecycle_result" where
  "lc_serverTime v = server_time_value (lc_fail LC_INVALID_SERVER_TIME) v"

definition canonicalUint64 ::
  "jsval \<Rightarrow> DormantMainnetFinancialActionLifecycleErrorCode \<Rightarrow> string lifecycle_result" where
  "canonicalUint64 v code =
     (case v of
        JString s \<Rightarrow>
          if 20 < length s \<or> \<not> canonical_nat s then Inl (lc_fail code)
          else if 2 ^ 64 - 1 < dec_val s then Inl (lc_fail code)
          else Inr s
      | _ \<Rightarrow> Inl (lc_fail code))"

text \<open>\<^verbatim>\<open>decodeBase58\<close> without a length window; the pattern asks for one character at least.\<close>

definition lc_decodeBase58 :: "string \<Rightarrow> nat list option" where
  "lc_decodeBase58 s =
     (if s = [] \<or> \<not> list_all (\<lambda>c. c \<in> set BASE58_ALPHABET) s then None else base58_decode s)"

definition lc_encodeBase58 :: "nat list \<Rightarrow> string" where
  "lc_encodeBase58 bs = base58_encode bs"

definition canonicalBase58 ::
  "jsval \<Rightarrow> nat \<Rightarrow> DormantMainnetFinancialActionLifecycleErrorCode \<Rightarrow> string lifecycle_result" where
  "canonicalBase58 v decodedLength code =
     (case v of
        JString s \<Rightarrow>
          if 90 < length s then Inl (lc_fail code)
          else (case lc_decodeBase58 s of
                  None \<Rightarrow> Inl (lc_fail code)
                | Some decoded \<Rightarrow>
                    if length decoded \<noteq> decodedLength \<or> lc_encodeBase58 decoded \<noteq> s \<or> list_all (\<lambda>b. b = 0) decoded
                    then Inl (lc_fail code)
                    else Inr s)
      | _ \<Rightarrow> Inl (lc_fail code))"

definition evmHash :: "jsval \<Rightarrow> DormantMainnetFinancialActionLifecycleErrorCode \<Rightarrow> string lifecycle_result" where
  "evmHash v code =
     (case v of
        JString s \<Rightarrow>
          if \<not> matches_classes ([''0'', ''x''] @ replicate 64 hex_digits) s \<or> s = ''0x'' @ replicate 64 (CHR ''0'')
          then Inl (lc_fail code) else Inr s
      | _ \<Rightarrow> Inl (lc_fail code))"

definition transactionId ::
  "string \<Rightarrow> jsval \<Rightarrow> DormantMainnetFinancialActionLifecycleErrorCode \<Rightarrow> string lifecycle_result" where
  "transactionId networkId v code =
     (if networkId = ''eip155:1'' then evmHash v code else canonicalBase58 v 64 code)"

definition blockId ::
  "string \<Rightarrow> jsval \<Rightarrow> DormantMainnetFinancialActionLifecycleErrorCode \<Rightarrow> string lifecycle_result" where
  "blockId networkId v code =
     (if networkId = ''eip155:1'' then evmHash v code else canonicalBase58 v 32 code)"

text \<open>\<^verbatim>\<open>value === null ? null : parse(value)\<close>\<close>

definition nullable :: "(jsval \<Rightarrow> 'e + 'a) \<Rightarrow> jsval \<Rightarrow> 'e + 'a option" where
  "nullable p v = (if v = JNull then Inr None else res_bind (p v) (\<lambda>x. Inr (Some x)))"

definition enum_value :: "('a \<Rightarrow> string) \<Rightarrow> 'a list \<Rightarrow> jsval \<Rightarrow> DormantMainnetFinancialActionLifecycleErrorCode \<Rightarrow>
    'a lifecycle_result" where
  "enum_value spell vals v code = of_option (lc_fail code) (parse_enum spell vals v)"

definition date_parse :: "string \<Rightarrow> int option" where
  "date_parse s = read_timestamp s"

fun time_less :: "int option \<Rightarrow> int option \<Rightarrow> bool" where
  "time_less (Some a) (Some b) = (a < b)"
| "time_less _ _ = False"

fun time_le :: "int option \<Rightarrow> int option \<Rightarrow> bool" where
  "time_le (Some a) (Some b) = (a \<le> b)"
| "time_le _ _ = False"

subsection \<open>Fingerprints and snapshots\<close>

definition lc_fingerprint :: "(string \<Rightarrow> string) \<Rightarrow> string \<Rightarrow> json list \<Rightarrow> string" where
  "lc_fingerprint sha256 domain values = sha256 (utf8 (domain @ NUL @ json_text (JsonArray values)))"

definition nullable_json :: "string option \<Rightarrow> json" where
  "nullable_json x = (case x of None \<Rightarrow> JsonNull | Some s \<Rightarrow> JsonText s)"

definition intentFingerprint :: "(string \<Rightarrow> string) \<Rightarrow> DormantMainnetFinancialActionIntentV1 \<Rightarrow> string" where
  "intentFingerprint sha256 i = lc_fingerprint sha256 ''CRYPTO_LENDING:DORMANT_MAINNET_ACTION_INTENT:v1''
     [JsonInt (in_schemaVersion i), JsonText (in_intentId i), JsonText (in_accountId i),
      JsonText (in_walletRegistrationId i), JsonText (in_replayProtectionId i),
      JsonText (in_idempotencyKeyDigestSha256 i), JsonText (in_networkId i), JsonText (in_walletAddress i),
      JsonText (provider_text (in_providerId i)), JsonText (protocol_text (in_protocolId i)), JsonText (in_marketId i),
      JsonInt (in_assetRegistryVersion i), JsonText (in_assetRegistryFingerprintSha256 i),
      JsonText (stablecoin_text (in_assetSymbol i)), JsonText (in_assetIdentity i), JsonInt (in_assetDecimals i),
      JsonText (action_text (in_action i)), JsonText (in_amountAtomic i), JsonText (in_requestedValueUsdMicros i),
      JsonText (in_maximumNetworkFeeAtomic i), JsonInt (in_maximumNetworkFeeBasisPoints i),
      JsonText (in_minimumPostActionNativeBalanceAtomic i), JsonText (in_allowanceMode i),
      JsonText (in_allowanceAmountAtomic i), JsonText (in_issuedAt i), JsonText (in_expiresAt i)]"

definition terminal_stage :: "DormantMainnetFinancialActionLifecycleStage \<Rightarrow> bool" where
  "terminal_stage stage = (stage = FINALIZED_SUCCESS \<or> stage = FINALIZED_FAILURE \<or> stage = REORG_QUARANTINED)"

definition makeSnapshot :: "(string \<Rightarrow> bool) \<Rightarrow> (string \<Rightarrow> string) \<Rightarrow> snapshot option \<Rightarrow>
    DormantMainnetFinancialActionIntentV1 \<Rightarrow> string \<Rightarrow> DormantMainnetFinancialActionLifecycleStage \<Rightarrow> string \<Rightarrow>
    DormantMainnetFinancialActionSubmissionBindingV1 option \<Rightarrow> DormantMainnetWalletBroadcastObservationV1 option \<Rightarrow>
    DormantMainnetReconciliationObservationV1 option \<Rightarrow> snapshot lifecycle_result" where
  "makeSnapshot isAddress sha256 previous intent intentDigest stage transitionDigest submission broadcastObservation
     reconciliation =
     (let revision = (case previous of None \<Rightarrow> 0 | Some p \<Rightarrow> sp_revision p) + 1;
          previousSnapshotSha256 = map_option sp_snapshotSha256 previous;
          snapshotSha256 = lc_fingerprint sha256 ''CRYPTO_LENDING:DORMANT_MAINNET_ACTION_SNAPSHOT:v1''
            [JsonText (in_intentId intent), JsonInt (int revision), JsonText (stage_text stage),
             nullable_json previousSnapshotSha256, JsonText transitionDigest]
      in res_bind (lift_error WalletInvalid
           (formatWalletAccountId isAddress (JString (in_networkId intent)) (JString (in_walletAddress intent)))) (\<lambda>account.
         Inr \<lparr>sp_schemaVersion = 1, sp_use = ''DORMANT_MAINNET_FINANCIAL_ACTION_LIFECYCLE_PROTOCOL_ONLY'',
              sp_stage = stage, sp_revision = revision, sp_previousSnapshotSha256 = previousSnapshotSha256,
              sp_transitionFingerprintSha256 = transitionDigest, sp_snapshotSha256 = snapshotSha256,
              sp_intentFingerprintSha256 = intentDigest, sp_intent = intent,
              sp_identities =
                \<lparr>id_walletAccountId = account,
                 id_providerMarketId = in_networkId intent @ '':'' @ provider_text (in_providerId intent) @ '':'' @
                   protocol_text (in_protocolId intent) @ '':'' @ in_marketId intent,
                 id_assetId = in_networkId intent @ '':'' @ in_assetIdentity intent\<rparr>,
              sp_submission = submission, sp_broadcastObservation = broadcastObservation,
              sp_reconciliation = reconciliation, sp_terminal = terminal_stage stage,
              sp_requiresManualReconciliation = (stage = REORG_QUARANTINED),
              sp_authority = ZERO_AUTHORITY, sp_durability = VOLATILE_DURABILITY\<rparr>))"

text \<open>The submission of the current snapshot and the transaction it names, for an observation.\<close>

definition assertContext :: "LifecycleRecord \<Rightarrow> js_record \<Rightarrow> DormantMainnetFinancialActionLifecycleErrorCode \<Rightarrow>
    (DormantMainnetFinancialActionSubmissionBindingV1 \<times> string) lifecycle_result" where
  "assertContext r input code =
     (let intent = sp_intent (lr_current r)
      in case sp_submission (lr_current r) of
           None \<Rightarrow> Inl (lc_fail code)
         | Some submission \<Rightarrow>
             if js_get input ''intentId'' \<noteq> JString (in_intentId intent) \<or>
                js_get input ''submissionFingerprintSha256'' \<noteq> JString (su_submissionFingerprintSha256 submission) \<or>
                js_get input ''networkId'' \<noteq> JString (in_networkId intent)
             then Inl (lc_fail code)
             else res_bind (transactionId (in_networkId intent) (js_get input ''transactionId'') code) (\<lambda>parsed.
               if parsed \<noteq> su_transactionId submission then Inl (lc_fail code) else Inr (submission, parsed)))"

subsection \<open>The protocol\<close>

definition initialState :: ProtocolState where
  "initialState =
     \<lparr>records = (\<lambda>_. None), idempotencyOwners = (\<lambda>_. None), replayProtectionOwners = (\<lambda>_. None),
      transactionOwners = (\<lambda>_. None), observationOwners = (\<lambda>_. None), evidenceDigestOwners = (\<lambda>_. None)\<rparr>"

definition claim_available :: "ProtocolState \<Rightarrow> EvidenceDigestClaim \<Rightarrow> bool" where
  "claim_available st claim =
     (case evidenceDigestOwners st (cl_digest claim) of
        None \<Rightarrow> True
      | Some (role, fp) \<Rightarrow> role = cl_role claim \<and> fp = cl_fingerprint claim)"

definition assertEvidenceDigestsAvailable :: "ProtocolState \<Rightarrow> EvidenceDigestClaim list \<Rightarrow> unit lifecycle_result" where
  "assertEvidenceDigestsAvailable st claims =
     require (lc_fail EVIDENCE_DIGEST_CONFLICT) (list_all (claim_available st) claims)"

definition commitEvidenceDigests :: "EvidenceDigestClaim list \<Rightarrow> ProtocolState \<Rightarrow> ProtocolState" where
  "commitEvidenceDigests claims st =
     st\<lparr>evidenceDigestOwners :=
       foldl (\<lambda>owners claim. owners(cl_digest claim \<mapsto> (cl_role claim, cl_fingerprint claim)))
         (evidenceDigestOwners st) claims\<rparr>"

definition recordFor :: "ProtocolState \<Rightarrow> jsval \<Rightarrow> LifecycleRecord lifecycle_result" where
  "recordFor st v =
     (case v of
        JString s \<Rightarrow> of_option (lc_fail INTENT_NOT_FOUND) (records st s)
      | _ \<Rightarrow> Inl (lc_fail INTENT_NOT_FOUND))"

definition idempotencyScope :: "DormantMainnetFinancialActionIntentV1 \<Rightarrow> string" where
  "idempotencyScope i = in_accountId i @ '':MAINNET_FINANCIAL_ACTION:v1:'' @ in_idempotencyKeyDigestSha256 i"

definition replayProtectionScope :: "DormantMainnetFinancialActionIntentV1 \<Rightarrow> string" where
  "replayProtectionScope i =
     in_accountId i @ '':MAINNET_FINANCIAL_ACTION_REPLAY_PROTECTION:v1:'' @ in_replayProtectionId i"

definition newRecord :: "snapshot \<Rightarrow> LifecycleRecord" where
  "newRecord prepared =
     \<lparr>lr_prepared = prepared, lr_current = prepared, lr_submissionReplay = None, lr_broadcastReplay = None,
      lr_reconciliationReplays = (\<lambda>_. None), lr_lastTransactionPosition = None, lr_lastTransactionBlockId = None,
      lr_lastFinalizedPosition = None, lr_lastFinalizedBlockId = None, lr_lastReconciliationObservedAt = None\<rparr>"

text \<open>The part of \<^verbatim>\<open>prepareIntent\<close> for an intent that has no record yet.\<close>

definition prepareNewIntent :: "(string \<Rightarrow> bool) \<Rightarrow> (string \<Rightarrow> string) \<Rightarrow> DormantMainnetFinancialActionIntentV1 \<Rightarrow> string \<Rightarrow>
    ProtocolState \<Rightarrow> (snapshot \<times> ProtocolState) lifecycle_result" where
  "prepareNewIntent isAddress sha256 intent intentDigest st =
     res_bind (require (lc_fail IDEMPOTENCY_REPLAY_CONFLICT)
       (idempotencyOwners st (idempotencyScope intent) \<in> {None, Some intentDigest})) (\<lambda>_.
     res_bind (require (lc_fail REPLAY_PROTECTION_CONFLICT)
       (replayProtectionOwners st (replayProtectionScope intent) \<in> {None, Some intentDigest})) (\<lambda>_.
     res_bind (makeSnapshot isAddress sha256 None intent intentDigest PREPARED
       (lc_fingerprint sha256 ''CRYPTO_LENDING:DORMANT_MAINNET_ACTION_PREPARED:v1''
         [JsonText intentDigest, JsonText (idempotencyScope intent)]) None None None) (\<lambda>prepared.
     Inr (prepared,
       st\<lparr>records := (records st)(in_intentId intent \<mapsto> newRecord prepared),
          idempotencyOwners := (idempotencyOwners st)(idempotencyScope intent \<mapsto> intentDigest),
          replayProtectionOwners := (replayProtectionOwners st)(replayProtectionScope intent \<mapsto> intentDigest)\<rparr>))))"

definition prepareIntent :: "(string \<Rightarrow> bool) \<Rightarrow> (string \<Rightarrow> string) \<Rightarrow> SupportedAssetRegistrySnapshot \<Rightarrow> jsval \<Rightarrow> jsval \<Rightarrow>
    ProtocolState \<Rightarrow> (snapshot \<times> ProtocolState) lifecycle_result" where
  "prepareIntent isAddress sha256 registry input now st =
     res_bind (lift_error IntentInvalid (parseDormantMainnetFinancialActionIntent isAddress registry input now)) (\<lambda>intent.
     let intentDigest = intentFingerprint sha256 intent
     in case records st (in_intentId intent) of
          Some existing \<Rightarrow>
            if sp_intentFingerprintSha256 (lr_prepared existing) \<noteq> intentDigest then Inl (lc_fail INTENT_CONFLICT)
            else Inr (lr_current existing, st)
        | None \<Rightarrow> prepareNewIntent isAddress sha256 intent intentDigest st)"

definition submissionClaims :: "string \<Rightarrow> string \<Rightarrow> string \<Rightarrow> EvidenceDigestClaim list" where
  "submissionClaims payload signature fp =
     [\<lparr>cl_digest = payload, cl_role = WALLET_SIGNED_PAYLOAD, cl_fingerprint = fp\<rparr>,
      \<lparr>cl_digest = signature, cl_role = WALLET_SIGNATURE_EVIDENCE, cl_fingerprint = fp\<rparr>]"

text \<open>The part of \<^verbatim>\<open>bindWalletSignedSubmission\<close> after the replay check.\<close>

definition bindNewSubmission :: "(string \<Rightarrow> bool) \<Rightarrow> (string \<Rightarrow> string) \<Rightarrow> LifecycleRecord \<Rightarrow> string \<Rightarrow>
    DormantMainnetFinancialActionSubmissionBindingV1 \<Rightarrow> int \<Rightarrow> int \<Rightarrow> ProtocolState \<Rightarrow>
    (snapshot \<times> ProtocolState) lifecycle_result" where
  "bindNewSubmission isAddress sha256 r intentIdValue submission signedAt now st =
     (let intent = sp_intent (lr_current r);
          fp = su_submissionFingerprintSha256 submission;
          claims = submissionClaims (su_walletSignedPayloadSha256 submission) (su_walletSignatureEvidenceSha256 submission) fp
      in res_bind (require (lc_fail INTENT_EXPIRED)
           (\<not> (time_less (Some signedAt) (date_parse (in_issuedAt intent)) \<or> signedAt > now \<or>
              time_le (date_parse (in_expiresAt intent)) (Some signedAt) \<or>
              time_le (date_parse (in_expiresAt intent)) (Some now)))) (\<lambda>_.
         res_bind (require (lc_fail INVALID_LIFECYCLE_TRANSITION) (sp_stage (lr_current r) = PREPARED)) (\<lambda>_.
         res_bind (require (lc_fail TRANSACTION_IDENTITY_CONFLICT)
           (transactionOwners st (su_chainQualifiedTransactionId submission) \<in> {None, Some intentIdValue})) (\<lambda>_.
         res_bind (assertEvidenceDigestsAvailable st claims) (\<lambda>_.
         res_bind (makeSnapshot isAddress sha256 (Some (lr_current r)) intent (su_intentFingerprintSha256 submission)
           WALLET_SIGNED_SUBMISSION_BOUND fp (Some submission) None None) (\<lambda>snapshot.
         Inr (snapshot,
           commitEvidenceDigests claims
             (st\<lparr>records := (records st)(intentIdValue \<mapsto>
                   r\<lparr>lr_current := snapshot, lr_submissionReplay := Some (fp, snapshot)\<rparr>),
                 transactionOwners := (transactionOwners st)(su_chainQualifiedTransactionId submission \<mapsto> intentIdValue)\<rparr>))))))))"

text \<open>The replay check of \<^verbatim>\<open>bindWalletSignedSubmission\<close> on a parsed submission.\<close>

definition bindParsedSubmission :: "(string \<Rightarrow> bool) \<Rightarrow> (string \<Rightarrow> string) \<Rightarrow> LifecycleRecord \<Rightarrow> string \<Rightarrow>
    DormantMainnetFinancialActionSubmissionBindingV1 \<Rightarrow> int \<Rightarrow> int \<Rightarrow> ProtocolState \<Rightarrow>
    (snapshot \<times> ProtocolState) lifecycle_result" where
  "bindParsedSubmission isAddress sha256 r intentIdValue submission signedAt now st =
     (case lr_submissionReplay r of
        Some (fp, _) \<Rightarrow>
          if fp \<noteq> su_submissionFingerprintSha256 submission then Inl (lc_fail IDEMPOTENCY_REPLAY_CONFLICT)
          else Inr (lr_current r, st)
      | None \<Rightarrow> bindNewSubmission isAddress sha256 r intentIdValue submission signedAt now st)"

definition bindWalletSignedSubmission :: "(string \<Rightarrow> bool) \<Rightarrow> (string \<Rightarrow> string) \<Rightarrow> jsval \<Rightarrow> jsval \<Rightarrow> ProtocolState \<Rightarrow>
    (snapshot \<times> ProtocolState) lifecycle_result" where
  "bindWalletSignedSubmission isAddress sha256 v now st =
     (let E = INVALID_SUBMISSION_INPUT in
     res_bind (lc_exactRecord v SUBMISSION_KEYS E) (\<lambda>input.
     res_bind (require (lc_fail E) (js_get input ''schemaVersion'' = js_int 1)) (\<lambda>_.
     res_bind (lc_uuid (js_get input ''intentId'') E) (\<lambda>intentIdValue.
     res_bind (recordFor st (JString intentIdValue)) (\<lambda>r.
     let intent = sp_intent (lr_current r) in
     res_bind (lc_digest (js_get input ''intentFingerprintSha256'') E) (\<lambda>expectedIntentDigest.
     res_bind (require (lc_fail E)
       (expectedIntentDigest = sp_intentFingerprintSha256 (lr_current r) \<and>
        js_get input ''networkId'' = JString (in_networkId intent))) (\<lambda>_.
     res_bind (lift_error WalletInvalid
       (formatWalletAccountId isAddress (JString (in_networkId intent)) (JString (in_walletAddress intent)))) (\<lambda>account.
     res_bind (require (lc_fail E) (js_get input ''signerWalletAccountId'' = JString account)) (\<lambda>_.
     res_bind (transactionId (in_networkId intent) (js_get input ''transactionId'') E) (\<lambda>parsedTransactionId.
     res_bind (lc_digest (js_get input ''walletSignedPayloadSha256'') E) (\<lambda>payload.
     res_bind (lc_digest (js_get input ''walletSignatureEvidenceSha256'') E) (\<lambda>signature.
     res_bind (require (lc_fail E) (payload \<noteq> signature)) (\<lambda>_.
     res_bind (lc_timestamp (js_get input ''signedAt'') E) (\<lambda>signedAt.
     res_bind (lc_serverTime now) (\<lambda>nowMilliseconds.
     let fp = lc_fingerprint sha256 ''CRYPTO_LENDING:DORMANT_MAINNET_ACTION_WALLET_SUBMISSION:v1''
           [JsonText intentIdValue, JsonText expectedIntentDigest, JsonText (in_networkId intent), JsonText account,
            JsonText parsedTransactionId, JsonText payload, JsonText signature, JsonText (fst signedAt)]
     in bindParsedSubmission isAddress sha256 r intentIdValue
          \<lparr>su_schemaVersion = 1, su_source = ''USER_WALLET_REPORT_ONLY'', su_intentId = intentIdValue,
               su_intentFingerprintSha256 = expectedIntentDigest, su_networkId = in_networkId intent,
               su_signerWalletAccountId = account, su_transactionId = parsedTransactionId,
               su_chainQualifiedTransactionId = in_networkId intent @ '':'' @ parsedTransactionId,
               su_walletSignedPayloadSha256 = payload, su_walletSignatureEvidenceSha256 = signature,
               su_signedAt = fst signedAt, su_submissionFingerprintSha256 = fp,
               su_cryptographicSignatureVerifiedByThisProtocol = False,
               su_signedPayloadMatchesIntentVerifiedByThisProtocol = False\<rparr>
              (snd signedAt) nowMilliseconds st)))))))))))))))"

definition broadcastClaims :: "string \<Rightarrow> string \<Rightarrow> EvidenceDigestClaim list" where
  "broadcastClaims evidence fp =
     [\<lparr>cl_digest = evidence, cl_role = WALLET_BROADCAST_EVIDENCE, cl_fingerprint = fp\<rparr>]"

text \<open>The part of \<^verbatim>\<open>recordWalletBroadcastObservation\<close> after the replay check.\<close>

definition recordNewBroadcast :: "(string \<Rightarrow> bool) \<Rightarrow> (string \<Rightarrow> string) \<Rightarrow> LifecycleRecord \<Rightarrow> string \<Rightarrow> string \<Rightarrow>
    DormantMainnetFinancialActionSubmissionBindingV1 \<Rightarrow> DormantMainnetWalletBroadcastObservationV1 \<Rightarrow> int \<Rightarrow> int \<Rightarrow>
    ProtocolState \<Rightarrow> (snapshot \<times> ProtocolState) lifecycle_result" where
  "recordNewBroadcast isAddress sha256 r intentIdValue fp submission observation observedAt now st =
     (let intent = sp_intent (lr_current r);
          observationId = bo_observationId observation;
          claims = broadcastClaims (bo_evidenceSha256 observation) fp
      in res_bind (require (lc_fail INVALID_BROADCAST_OBSERVATION_INPUT)
           (\<not> (time_less (Some observedAt) (date_parse (su_signedAt submission)) \<or> observedAt > now \<or>
              time_le (date_parse (in_expiresAt intent)) (Some observedAt) \<or>
              time_le (date_parse (in_expiresAt intent)) (Some now)))) (\<lambda>_.
         res_bind (require (lc_fail INVALID_LIFECYCLE_TRANSITION)
           (sp_stage (lr_current r) = WALLET_SIGNED_SUBMISSION_BOUND)) (\<lambda>_.
         res_bind (require (lc_fail OBSERVATION_REPLAY_CONFLICT)
           (observationOwners st observationId \<in> {None, Some intentIdValue})) (\<lambda>_.
         res_bind (assertEvidenceDigestsAvailable st claims) (\<lambda>_.
         res_bind (makeSnapshot isAddress sha256 (Some (lr_current r)) intent (sp_intentFingerprintSha256 (lr_current r))
           BROADCAST_OUTCOME_AMBIGUOUS fp (Some submission) (Some observation) None) (\<lambda>snapshot.
         Inr (snapshot,
           commitEvidenceDigests claims
             (st\<lparr>records := (records st)(intentIdValue \<mapsto>
                   r\<lparr>lr_current := snapshot, lr_broadcastReplay := Some (observationId, fp, snapshot)\<rparr>),
                 observationOwners := (observationOwners st)(observationId \<mapsto> intentIdValue)\<rparr>))))))))"

text \<open>The replay check of \<^verbatim>\<open>recordWalletBroadcastObservation\<close> on a parsed observation.\<close>

definition recordParsedBroadcast :: "(string \<Rightarrow> bool) \<Rightarrow> (string \<Rightarrow> string) \<Rightarrow> LifecycleRecord \<Rightarrow> string \<Rightarrow> string \<Rightarrow>
    DormantMainnetFinancialActionSubmissionBindingV1 \<Rightarrow> DormantMainnetWalletBroadcastObservationV1 \<Rightarrow> int \<Rightarrow> int \<Rightarrow>
    ProtocolState \<Rightarrow> (snapshot \<times> ProtocolState) lifecycle_result" where
  "recordParsedBroadcast isAddress sha256 r intentIdValue fp submission observation observedAt now st =
     (case lr_broadcastReplay r of
        Some (observationId, fp', _) \<Rightarrow>
          if observationId \<noteq> bo_observationId observation \<or> fp' \<noteq> fp
          then Inl (lc_fail ONE_SHOT_BROADCAST_ALREADY_RECORDED)
          else Inr (lr_current r, st)
      | None \<Rightarrow> recordNewBroadcast isAddress sha256 r intentIdValue fp submission observation observedAt now st)"

definition recordWalletBroadcastObservation :: "(string \<Rightarrow> bool) \<Rightarrow> (string \<Rightarrow> string) \<Rightarrow> jsval \<Rightarrow> jsval \<Rightarrow>
    ProtocolState \<Rightarrow> (snapshot \<times> ProtocolState) lifecycle_result" where
  "recordWalletBroadcastObservation isAddress sha256 v now st =
     (let E = INVALID_BROADCAST_OBSERVATION_INPUT in
     res_bind (lc_exactRecord v BROADCAST_KEYS E) (\<lambda>input.
     res_bind (require (lc_fail E) (js_get input ''schemaVersion'' = js_int 1)) (\<lambda>_.
     res_bind (lc_uuid (js_get input ''intentId'') E) (\<lambda>intentIdValue.
     res_bind (lc_uuid (js_get input ''observationId'') E) (\<lambda>observationId.
     res_bind (recordFor st (JString intentIdValue)) (\<lambda>r.
     res_bind (assertContext r input E) (\<lambda>(submission, parsedTransactionId).
     res_bind (enum_value broadcast_outcome_text BROADCAST_OUTCOMES (js_get input ''outcome'') E) (\<lambda>outcome.
     res_bind (lc_digest (js_get input ''evidenceSha256'') E) (\<lambda>evidence.
     res_bind (lc_timestamp (js_get input ''observedAt'') E) (\<lambda>observedAt.
     res_bind (lc_serverTime now) (\<lambda>nowMilliseconds.
     res_bind (require (lc_fail E)
       (evidence \<noteq> su_walletSignedPayloadSha256 submission \<and> evidence \<noteq> su_walletSignatureEvidenceSha256 submission)) (\<lambda>_.
     let network = in_networkId (sp_intent (lr_current r));
         fp = lc_fingerprint sha256 ''CRYPTO_LENDING:DORMANT_MAINNET_ACTION_WALLET_BROADCAST_OBSERVATION:v1''
           [JsonText observationId, JsonText intentIdValue, JsonText (su_submissionFingerprintSha256 submission),
            JsonText network, JsonText parsedTransactionId, JsonText (broadcast_outcome_text outcome),
            JsonText evidence, JsonText (fst observedAt)]
     in recordParsedBroadcast isAddress sha256 r intentIdValue fp submission
          \<lparr>bo_schemaVersion = 1, bo_source = ''USER_WALLET_REPORT_ONLY'', bo_observationId = observationId,
               bo_intentId = intentIdValue, bo_submissionFingerprintSha256 = su_submissionFingerprintSha256 submission,
               bo_networkId = network, bo_transactionId = parsedTransactionId,
               bo_chainQualifiedTransactionId = su_chainQualifiedTransactionId submission, bo_outcome = outcome,
               bo_evidenceSha256 = evidence, bo_observedAt = fst observedAt, bo_broadcastAttemptConsumed = True,
               bo_onchainAcceptanceVerifiedByThisProtocol = False\<rparr>
              (snd observedAt) nowMilliseconds st))))))))))))"

text \<open>The consistency conditions on a reconciliation observation.\<close>

definition observation_consistent :: "DormantMainnetReconciliationOutcome \<Rightarrow> nat option \<Rightarrow> nat \<Rightarrow> string option \<Rightarrow>
    string option \<Rightarrow> string \<Rightarrow> bool" where
  "observation_consistent outcome position finalized effect failure source =
     (\<not> ((outcome = Outcome_UNKNOWN \<and> position \<noteq> None) \<or>
        (outcome \<noteq> Outcome_UNKNOWN \<and> outcome \<noteq> Outcome_PENDING \<and> position = None) \<or>
        (outcome = Outcome_PENDING \<and> (case position of None \<Rightarrow> False | Some p \<Rightarrow> finalized \<ge> p)) \<or>
        ((outcome = Outcome_FINALIZED_SUCCESS \<or> outcome = Outcome_FINALIZED_FAILURE \<or> outcome = Outcome_REORGED_OUT) \<and>
           (case position of None \<Rightarrow> False | Some p \<Rightarrow> finalized < p)) \<or>
        (outcome = Outcome_FINALIZED_SUCCESS \<and> (effect = None \<or> failure \<noteq> None)) \<or>
        (outcome = Outcome_FINALIZED_FAILURE \<and> (failure = None \<or> effect \<noteq> None)) \<or>
        ((outcome = Outcome_PENDING \<or> outcome = Outcome_UNKNOWN \<or> outcome = Outcome_REORGED_OUT) \<and>
           (effect \<noteq> None \<or> failure \<noteq> None)) \<or>
        Some source = effect \<or> Some source = failure))"

text \<open>The conditions against the previous observations of the same record.\<close>

definition observation_monotonic :: "LifecycleRecord \<Rightarrow> DormantMainnetReconciliationOutcome \<Rightarrow> string option \<Rightarrow>
    string option \<Rightarrow> string \<Rightarrow> string \<Rightarrow> int \<Rightarrow> bool" where
  "observation_monotonic r outcome position block finalizedPosition finalizedBlock observedAt =
     (\<not> (case lr_lastReconciliationObservedAt r of
           None \<Rightarrow> False
         | Some last' \<Rightarrow> time_less (Some observedAt) (date_parse last')) \<and>
      \<not> (case lr_lastFinalizedPosition r of
           None \<Rightarrow> False
         | Some lastFinalized \<Rightarrow>
             dec_val finalizedPosition < dec_val lastFinalized \<or>
             (finalizedPosition = lastFinalized \<and> Some finalizedBlock \<noteq> lr_lastFinalizedBlockId r \<and>
                outcome \<noteq> Outcome_REORGED_OUT) \<or>
             (position \<noteq> None \<and> lr_lastTransactionPosition r \<noteq> None \<and>
                (position \<noteq> lr_lastTransactionPosition r \<or> block \<noteq> lr_lastTransactionBlockId r) \<and>
                outcome \<noteq> Outcome_REORGED_OUT)) \<and>
      \<not> (outcome = Outcome_REORGED_OUT \<and> lr_lastTransactionPosition r \<noteq> None \<and>
           (position \<noteq> lr_lastTransactionPosition r \<or> block \<noteq> lr_lastTransactionBlockId r)))"

definition reconciliationClaims :: "string \<Rightarrow> string option \<Rightarrow> string option \<Rightarrow> string \<Rightarrow> EvidenceDigestClaim list" where
  "reconciliationClaims source effect failure fp =
     [\<lparr>cl_digest = source, cl_role = RECONCILIATION_SOURCE_EVIDENCE, cl_fingerprint = fp\<rparr>] @
     (case effect of None \<Rightarrow> []
      | Some d \<Rightarrow> [\<lparr>cl_digest = d, cl_role = RECONCILIATION_EFFECT_EVIDENCE, cl_fingerprint = fp\<rparr>]) @
     (case failure of None \<Rightarrow> []
      | Some d \<Rightarrow> [\<lparr>cl_digest = d, cl_role = RECONCILIATION_FAILURE_EVIDENCE, cl_fingerprint = fp\<rparr>])"

fun reconciliationStage :: "DormantMainnetReconciliationOutcome \<Rightarrow> DormantMainnetFinancialActionLifecycleStage" where
  "reconciliationStage Outcome_FINALIZED_SUCCESS = FINALIZED_SUCCESS"
| "reconciliationStage Outcome_FINALIZED_FAILURE = FINALIZED_FAILURE"
| "reconciliationStage Outcome_REORGED_OUT = REORG_QUARANTINED"
| "reconciliationStage _ = RECONCILIATION_AMBIGUOUS"

text \<open>The part of \<^verbatim>\<open>recordReconciliationObservation\<close> after the replay check.\<close>

definition recordNewReconciliation :: "(string \<Rightarrow> bool) \<Rightarrow> (string \<Rightarrow> string) \<Rightarrow> LifecycleRecord \<Rightarrow> string \<Rightarrow> string \<Rightarrow>
    DormantMainnetReconciliationObservationV1 \<Rightarrow> int \<Rightarrow> ProtocolState \<Rightarrow> (snapshot \<times> ProtocolState) lifecycle_result" where
  "recordNewReconciliation isAddress sha256 r intentIdValue fp ob observedAt st =
     (let current = lr_current r;
          claims = reconciliationClaims (ro_sourceEvidenceSha256 ob) (ro_effectEvidenceSha256 ob) (ro_failureEvidenceSha256 ob) fp
      in res_bind (require (lc_fail OBSERVATION_REPLAY_CONFLICT) (observationOwners st (ro_observationId ob) = None)) (\<lambda>_.
         res_bind (require (lc_fail TERMINAL_RECONCILIATION)
           (\<not> sp_terminal current \<and>
            (sp_stage current = BROADCAST_OUTCOME_AMBIGUOUS \<or> sp_stage current = RECONCILIATION_AMBIGUOUS))) (\<lambda>_.
         res_bind (require (lc_fail NON_MONOTONIC_RECONCILIATION)
           (observation_monotonic r (ro_outcome ob) (ro_transactionPosition ob) (ro_transactionBlockId ob)
              (ro_finalizedPosition ob) (ro_finalizedBlockId ob) observedAt)) (\<lambda>_.
         res_bind (assertEvidenceDigestsAvailable st claims) (\<lambda>_.
         res_bind (makeSnapshot isAddress sha256 (Some current) (sp_intent current) (sp_intentFingerprintSha256 current)
           (reconciliationStage (ro_outcome ob)) fp (sp_submission current) (sp_broadcastObservation current) (Some ob)) (\<lambda>snapshot.
         let moved = ro_transactionPosition ob \<noteq> None \<and> ro_outcome ob \<noteq> Outcome_REORGED_OUT
         in Inr (snapshot,
           commitEvidenceDigests claims
             (st\<lparr>records := (records st)(intentIdValue \<mapsto>
                   r\<lparr>lr_current := snapshot,
                     lr_reconciliationReplays := (lr_reconciliationReplays r)(ro_observationId ob \<mapsto> (fp, snapshot)),
                     lr_lastTransactionPosition :=
                       (if moved then ro_transactionPosition ob else lr_lastTransactionPosition r),
                     lr_lastTransactionBlockId :=
                       (if moved then ro_transactionBlockId ob else lr_lastTransactionBlockId r),
                     lr_lastFinalizedPosition := Some (ro_finalizedPosition ob),
                     lr_lastFinalizedBlockId := Some (ro_finalizedBlockId ob),
                     lr_lastReconciliationObservedAt := Some (ro_observedAt ob)\<rparr>),
                 observationOwners := (observationOwners st)(ro_observationId ob \<mapsto> intentIdValue)\<rparr>))))))))"

text \<open>The checks of \<^verbatim>\<open>recordReconciliationObservation\<close> on a parsed observation, up to the replay check.\<close>

definition reconcileObservation :: "(string \<Rightarrow> bool) \<Rightarrow> (string \<Rightarrow> string) \<Rightarrow> LifecycleRecord \<Rightarrow> string \<Rightarrow>
    DormantMainnetReconciliationObservationV1 \<Rightarrow> int \<Rightarrow> jsval \<Rightarrow> ProtocolState \<Rightarrow>
    (snapshot \<times> ProtocolState) lifecycle_result" where
  "reconcileObservation isAddress sha256 r intentIdValue ob observedAt now st =
     (let E = INVALID_RECONCILIATION_OBSERVATION_INPUT in
     case sp_broadcastObservation (lr_current r) of
       None \<Rightarrow> Inl (lc_fail E)
     | Some broadcast \<Rightarrow>
     if time_less (Some observedAt) (date_parse (bo_observedAt broadcast)) then Inl (lc_fail E)
     else res_bind (lc_serverTime now) (\<lambda>nowMilliseconds.
     res_bind (require (lc_fail E) (\<not> observedAt > nowMilliseconds)) (\<lambda>_.
     res_bind (require (lc_fail E)
       (observation_consistent (ro_outcome ob) (map_option dec_val (ro_transactionPosition ob))
          (dec_val (ro_finalizedPosition ob)) (ro_effectEvidenceSha256 ob) (ro_failureEvidenceSha256 ob)
          (ro_sourceEvidenceSha256 ob))) (\<lambda>_.
     let fp = lc_fingerprint sha256 ''CRYPTO_LENDING:DORMANT_MAINNET_ACTION_RECONCILIATION_OBSERVATION:v1''
           [JsonText (ro_observationId ob), JsonText intentIdValue, JsonText (ro_submissionFingerprintSha256 ob),
            JsonText (ro_networkId ob), JsonText (ro_transactionId ob),
            JsonText (reconciliation_outcome_text (ro_outcome ob)), nullable_json (ro_transactionPosition ob),
            nullable_json (ro_transactionBlockId ob), JsonText (ro_finalizedPosition ob),
            JsonText (ro_finalizedBlockId ob), nullable_json (ro_effectEvidenceSha256 ob),
            nullable_json (ro_failureEvidenceSha256 ob), JsonText (ro_sourceEvidenceSha256 ob), JsonText (ro_observedAt ob)]
     in case lr_reconciliationReplays r (ro_observationId ob) of
          Some (fp', _) \<Rightarrow>
            if fp' \<noteq> fp then Inl (lc_fail OBSERVATION_REPLAY_CONFLICT) else Inr (lr_current r, st)
        | None \<Rightarrow> recordNewReconciliation isAddress sha256 r intentIdValue fp ob observedAt st))))"

definition recordReconciliationObservation :: "(string \<Rightarrow> bool) \<Rightarrow> (string \<Rightarrow> string) \<Rightarrow> jsval \<Rightarrow> jsval \<Rightarrow>
    ProtocolState \<Rightarrow> (snapshot \<times> ProtocolState) lifecycle_result" where
  "recordReconciliationObservation isAddress sha256 v now st =
     (let E = INVALID_RECONCILIATION_OBSERVATION_INPUT in
     res_bind (lc_exactRecord v RECONCILIATION_KEYS E) (\<lambda>input.
     res_bind (require (lc_fail E) (js_get input ''schemaVersion'' = js_int 1)) (\<lambda>_.
     res_bind (lc_uuid (js_get input ''intentId'') E) (\<lambda>intentIdValue.
     res_bind (lc_uuid (js_get input ''observationId'') E) (\<lambda>observationId.
     res_bind (recordFor st (JString intentIdValue)) (\<lambda>r.
     res_bind (assertContext r input E) (\<lambda>(submission, parsedTransactionId).
     let network = in_networkId (sp_intent (lr_current r)) in
     res_bind (enum_value reconciliation_outcome_text RECONCILIATION_OUTCOMES (js_get input ''outcome'') E) (\<lambda>outcome.
     res_bind (nullable (\<lambda>x. canonicalUint64 x E) (js_get input ''transactionPosition'')) (\<lambda>position.
     res_bind (nullable (\<lambda>x. blockId network x E) (js_get input ''transactionBlockId'')) (\<lambda>block.
     res_bind (require (lc_fail E) ((position = None) = (block = None))) (\<lambda>_.
     res_bind (canonicalUint64 (js_get input ''finalizedPosition'') E) (\<lambda>finalizedPosition.
     res_bind (blockId network (js_get input ''finalizedBlockId'') E) (\<lambda>finalizedBlock.
     res_bind (nullable (\<lambda>x. lc_digest x E) (js_get input ''effectEvidenceSha256'')) (\<lambda>effect.
     res_bind (nullable (\<lambda>x. lc_digest x E) (js_get input ''failureEvidenceSha256'')) (\<lambda>failure.
     res_bind (lc_digest (js_get input ''sourceEvidenceSha256'') E) (\<lambda>source.
     res_bind (lc_timestamp (js_get input ''observedAt'') E) (\<lambda>observedAt.
     reconcileObservation isAddress sha256 r intentIdValue
       \<lparr>ro_schemaVersion = 1, ro_source = ''CALLER_SUPPLIED_READ_ONLY_CHAIN_EVIDENCE'',
        ro_observationId = observationId, ro_intentId = intentIdValue,
        ro_submissionFingerprintSha256 = su_submissionFingerprintSha256 submission, ro_networkId = network,
        ro_transactionId = parsedTransactionId,
        ro_chainQualifiedTransactionId = su_chainQualifiedTransactionId submission, ro_outcome = outcome,
        ro_transactionPosition = position, ro_transactionBlockId = block,
        ro_finalizedPosition = finalizedPosition, ro_finalizedBlockId = finalizedBlock,
        ro_effectEvidenceSha256 = effect, ro_failureEvidenceSha256 = failure,
        ro_sourceEvidenceSha256 = source, ro_observedAt = fst observedAt,
        ro_independentlyReadByThisProtocol = False\<rparr>
       (snd observedAt) now st)))))))))))))))))"

definition readSnapshot :: "jsval \<Rightarrow> ProtocolState \<Rightarrow> snapshot lifecycle_result" where
  "readSnapshot intentId st = res_bind (recordFor st intentId) (\<lambda>r. Inr (lr_current r))"

end
