(* ===== verification/Action_Lifecycle_Correct.thy ===== *)
theory Action_Lifecycle_Correct
  imports Action_Lifecycle
begin

text \<open>
  Correctness of the lifecycle protocol. The operations are the events of a transition system
  on \<open>ProtocolState\<close>; \<open>record_ok\<close> is its invariant, preserved because every owner map only grows
  (\<open>owners_extend\<close>) and every operation stores a consistent record.

  Main facts: an operation either replays and changes nothing, or moves one record along one
  edge of the stage graph; terminal records never change; every identity has one owner; a
  finalized success carries its submission, its broadcast and effect evidence at a finalized
  position; finalized positions never go back; a repeated submission returns the same snapshot.
\<close>

subsection \<open>Owner maps\<close>

definition extends :: "('k \<Rightarrow> 'v option) \<Rightarrow> ('k \<Rightarrow> 'v option) \<Rightarrow> bool" where
  "extends m m' = (\<forall>k v. m k = Some v \<longrightarrow> m' k = Some v)"

lemma extends_refl [simp]: "extends m m"
  by (simp add: extends_def)

lemma extendsD: "extends m m' \<Longrightarrow> m k = Some v \<Longrightarrow> m' k = Some v"
  by (simp add: extends_def)

lemma extends_update: "m k \<in> {None, Some v} \<Longrightarrow> extends m (m(k \<mapsto> v))"
  by (auto simp: extends_def)

definition owners_extend :: "ProtocolState \<Rightarrow> ProtocolState \<Rightarrow> bool" where
  "owners_extend st st' =
     (extends (idempotencyOwners st) (idempotencyOwners st') \<and>
      extends (replayProtectionOwners st) (replayProtectionOwners st') \<and>
      extends (transactionOwners st) (transactionOwners st') \<and>
      extends (observationOwners st) (observationOwners st') \<and>
      extends (evidenceDigestOwners st) (evidenceDigestOwners st'))"

lemma owners_extend_refl [simp]: "owners_extend st st"
  by (simp add: owners_extend_def)

text \<open>Committing claims that are available keeps every owner, and each claim of a list without
  repeated digests is owned afterwards.\<close>

definition claim_value :: "EvidenceDigestClaim \<Rightarrow> EvidenceDigestRole \<times> string" where
  "claim_value c = (cl_role c, cl_fingerprint c)"

lemma commit_owners:
  "foldl (\<lambda>owners claim. owners(cl_digest claim \<mapsto> (cl_role claim, cl_fingerprint claim))) m claims =
     m ++ map_of (rev (map (\<lambda>c. (cl_digest c, claim_value c)) claims))"
  by (induction claims arbitrary: m) (auto simp: claim_value_def map_add_def fun_eq_iff split: option.splits)

lemma commit_simps [simp]:
  "records (commitEvidenceDigests cs st) = records st"
  "idempotencyOwners (commitEvidenceDigests cs st) = idempotencyOwners st"
  "replayProtectionOwners (commitEvidenceDigests cs st) = replayProtectionOwners st"
  "transactionOwners (commitEvidenceDigests cs st) = transactionOwners st"
  "observationOwners (commitEvidenceDigests cs st) = observationOwners st"
  by (simp_all add: commitEvidenceDigests_def)

lemma commit_extends:
  assumes "list_all (claim_available st) claims" "evidenceDigestOwners st = evidenceDigestOwners st0"
  shows "extends (evidenceDigestOwners st) (evidenceDigestOwners (commitEvidenceDigests claims st0))"
proof -
  have "map_of (rev (map (\<lambda>c. (cl_digest c, claim_value c)) claims)) k \<in> {None, Some v}"
    if "evidenceDigestOwners st k = Some v" for k v
  proof (cases "map_of (rev (map (\<lambda>c. (cl_digest c, claim_value c)) claims)) k")
    case (Some u)
    then obtain c where "c \<in> set claims" "cl_digest c = k" "u = claim_value c"
      by (auto dest!: map_of_SomeD)
    moreover from this have "claim_available st c" using assms(1) by (simp add: list_all_iff)
    ultimately show ?thesis
      using that Some by (cases v) (simp add: claim_available_def claim_value_def)
  qed simp
  then show ?thesis
    using assms(2) by (fastforce simp: extends_def commitEvidenceDigests_def commit_owners map_add_def split: option.splits)
qed

lemma commit_owned:
  assumes "distinct (map cl_digest claims)"
  shows "list_all (\<lambda>c. evidenceDigestOwners (commitEvidenceDigests claims st) (cl_digest c) = Some (claim_value c)) claims"
proof -
  have "map_of (rev (map (\<lambda>c. (cl_digest c, claim_value c)) claims)) (cl_digest c) = Some (claim_value c)"
    if "c \<in> set claims" for c
    by (rule map_of_is_SomeI) (use assms that in \<open>auto simp: rev_map [symmetric] o_def\<close>)
  then show ?thesis by (simp add: list_all_iff commitEvidenceDigests_def commit_owners map_add_def)
qed

subsection \<open>What the operations do\<close>

lemma makeSnapshot_fields:
  assumes "makeSnapshot isAddress sha256 previous intent d stage t su bo ro = Inr s"
  shows "sp_stage s = stage" "sp_revision s = Suc (case previous of None \<Rightarrow> 0 | Some p \<Rightarrow> sp_revision p)"
    "sp_previousSnapshotSha256 s = map_option sp_snapshotSha256 previous" "sp_transitionFingerprintSha256 s = t"
    "sp_intentFingerprintSha256 s = d" "sp_intent s = intent" "sp_submission s = su" "sp_broadcastObservation s = bo"
    "sp_reconciliation s = ro" "sp_terminal s = terminal_stage stage" "sp_authority s = ZERO_AUTHORITY"
  using assms unfolding makeSnapshot_def Let_def res_bind_eq_Inr sum.inject by auto

lemma prepare_parses:
  assumes "prepareIntent isAddress sha256 registry input now st = Inr (s, st')"
  shows "\<exists>intent. parseDormantMainnetFinancialActionIntent isAddress registry input now = Inr intent"
  using assms unfolding prepareIntent_def
  by (simp only: res_bind_eq_Inr lift_error_eq_Inr) (elim exE conjE, rule exI, assumption)

lemma prepare_cases:
  assumes "prepareIntent isAddress sha256 registry input now st = Inr (s, st')"
  obtains (replay) i r where "records st i = Some r" "s = lr_current r" "st' = st"
  | (new) intent where "parseDormantMainnetFinancialActionIntent isAddress registry input now = Inr intent"
      "records st (in_intentId intent) = None"
      "prepareNewIntent isAddress sha256 intent (intentFingerprint sha256 intent) st = Inr (s, st')"
proof (rule exE [OF prepare_parses [OF assms]])
  fix intent assume p: "parseDormantMainnetFinancialActionIntent isAddress registry input now = Inr intent"
  note eq = assms [unfolded prepareIntent_def p lift_error_simps res_bind.simps Let_def]
  show ?thesis
  proof (cases "records st (in_intentId intent)")
    case (Some r)
    show ?thesis
    proof (rule replay [OF Some])
      show "s = lr_current r" "st' = st"
        using eq unfolding Some option.case by (simp_all only: sum.inject prod.inject sum.distinct split: if_splits)
    qed
  next
    case None
    show ?thesis by (rule new [OF p None]) (use eq in \<open>simp only: None option.case\<close>)
  qed
qed

lemma prepareNew_cases:
  assumes "prepareNewIntent isAddress sha256 intent fp st = Inr (s, st')"
  shows "idempotencyOwners st (idempotencyScope intent) \<in> {None, Some fp}"
    "replayProtectionOwners st (replayProtectionScope intent) \<in> {None, Some fp}"
    "\<exists>t. makeSnapshot isAddress sha256 None intent fp PREPARED t None None None = Inr s"
    "st' = st\<lparr>records := (records st)(in_intentId intent \<mapsto> newRecord s),
               idempotencyOwners := (idempotencyOwners st)(idempotencyScope intent \<mapsto> fp),
               replayProtectionOwners := (replayProtectionOwners st)(replayProtectionScope intent \<mapsto> fp)\<rparr>"
  using assms unfolding prepareNewIntent_def res_bind_eq_Inr require_eq_Inr sum.inject prod.inject by blast+

lemma recordFor_iff: "(recordFor st v = Inr r) = (\<exists>i. v = JString i \<and> records st i = Some r)"
  by (auto simp: recordFor_def res_simps split: jsval.splits)

text \<open>The submission an accepted input describes.\<close>

definition submission_for :: "LifecycleRecord \<Rightarrow> string \<Rightarrow> DormantMainnetFinancialActionSubmissionBindingV1 \<Rightarrow> bool" where
  "submission_for r i su =
     (su_intentId su = i \<and> su_networkId su = in_networkId (sp_intent (lr_current r)) \<and>
      su_intentFingerprintSha256 su = sp_intentFingerprintSha256 (lr_current r) \<and>
      su_chainQualifiedTransactionId su = su_networkId su @ '':'' @ su_transactionId su \<and>
      su_walletSignedPayloadSha256 su \<noteq> su_walletSignatureEvidenceSha256 su)"

lemma bind_cases:
  assumes "bindWalletSignedSubmission isAddress sha256 v now st = Inr (s, st')"
  obtains (replay) i r where "records st i = Some r" "lr_submissionReplay r \<noteq> None" "s = lr_current r" "st' = st"
  | (new) i r su t n where "records st i = Some r" "lr_submissionReplay r = None" "submission_for r i su"
      "bindNewSubmission isAddress sha256 r i su t n st = Inr (s, st')"
proof -
  obtain i r su t n where eq: "bindParsedSubmission isAddress sha256 r i su t n st = Inr (s, st')"
      and "records st i = Some r" "submission_for r i su"
    using assms
    unfolding bindWalletSignedSubmission_def Let_def res_bind_eq_Inr require_eq_Inr lift_error_eq_Inr recordFor_iff jsval.inject
    by (elim exE conjE, hypsubst)
      (rule that, assumption, assumption,
        unfold submission_for_def DormantMainnetFinancialActionSubmissionBindingV1.select_convs, intro conjI refl, assumption)
  then show ?thesis by (cases "lr_submissionReplay r") (auto simp: bindParsedSubmission_def intro: replay new split: if_splits)
qed

lemma bindNew_cases:
  assumes "bindNewSubmission isAddress sha256 r i su t n st = Inr (s, st')"
  shows "sp_stage (lr_current r) = PREPARED"
    "transactionOwners st (su_chainQualifiedTransactionId su) \<in> {None, Some i}"
    "list_all (claim_available st) (submissionClaims (su_walletSignedPayloadSha256 su) (su_walletSignatureEvidenceSha256 su)
       (su_submissionFingerprintSha256 su))"
    "makeSnapshot isAddress sha256 (Some (lr_current r)) (sp_intent (lr_current r)) (su_intentFingerprintSha256 su)
       WALLET_SIGNED_SUBMISSION_BOUND (su_submissionFingerprintSha256 su) (Some su) None None = Inr s"
    "st' = commitEvidenceDigests (submissionClaims (su_walletSignedPayloadSha256 su) (su_walletSignatureEvidenceSha256 su)
       (su_submissionFingerprintSha256 su))
       (st\<lparr>records := (records st)(i \<mapsto>
             r\<lparr>lr_current := s, lr_submissionReplay := Some (su_submissionFingerprintSha256 su, s)\<rparr>),
           transactionOwners := (transactionOwners st)(su_chainQualifiedTransactionId su \<mapsto> i)\<rparr>)"
  using assms
  unfolding bindNewSubmission_def Let_def res_bind_eq_Inr require_eq_Inr assertEvidenceDigestsAvailable_def sum.inject prod.inject
  by blast+

lemma assertContext_sound:
  "assertContext r input code = Inr (su, tx) \<Longrightarrow> sp_submission (lr_current r) = Some su \<and> tx = su_transactionId su"
  by (auto simp: assertContext_def Let_def res_simps split: option.splits if_splits)

lemma broadcast_cases:
  assumes "recordWalletBroadcastObservation isAddress sha256 v now st = Inr (s, st')"
  obtains (replay) i r where "records st i = Some r" "lr_broadcastReplay r \<noteq> None" "s = lr_current r" "st' = st"
  | (new) i r su bo fp t n where "records st i = Some r" "lr_broadcastReplay r = None" "sp_submission (lr_current r) = Some su"
      "bo_submissionFingerprintSha256 bo = su_submissionFingerprintSha256 su" "bo_intentId bo = i"
      "recordNewBroadcast isAddress sha256 r i fp su bo t n st = Inr (s, st')"
proof -
  obtain i r su bo fp t n where eq: "recordParsedBroadcast isAddress sha256 r i fp su bo t n st = Inr (s, st')"
      and "records st i = Some r" "sp_submission (lr_current r) = Some su"
      "bo_submissionFingerprintSha256 bo = su_submissionFingerprintSha256 su" "bo_intentId bo = i"
    using assms
    unfolding recordWalletBroadcastObservation_def Let_def res_bind_eq_Inr require_eq_Inr recordFor_iff jsval.inject split_paired_Ex
      prod.case
    by (elim exE conjE, hypsubst)
      (rule that, assumption, assumption, (rule assertContext_sound [THEN conjunct1], assumption),
        (simp (no_asm) only: DormantMainnetWalletBroadcastObservationV1.select_convs)+)
  then show ?thesis by (cases "lr_broadcastReplay r") (auto simp: recordParsedBroadcast_def intro: replay new split: if_splits)
qed

lemma broadcastNew_cases:
  assumes "recordNewBroadcast isAddress sha256 r i fp su bo t n st = Inr (s, st')"
  shows "sp_stage (lr_current r) = WALLET_SIGNED_SUBMISSION_BOUND"
    "observationOwners st (bo_observationId bo) \<in> {None, Some i}"
    "list_all (claim_available st) (broadcastClaims (bo_evidenceSha256 bo) fp)"
    "makeSnapshot isAddress sha256 (Some (lr_current r)) (sp_intent (lr_current r)) (sp_intentFingerprintSha256 (lr_current r))
       BROADCAST_OUTCOME_AMBIGUOUS fp (Some su) (Some bo) None = Inr s"
    "st' = commitEvidenceDigests (broadcastClaims (bo_evidenceSha256 bo) fp)
       (st\<lparr>records := (records st)(i \<mapsto>
             r\<lparr>lr_current := s, lr_broadcastReplay := Some (bo_observationId bo, fp, s)\<rparr>),
           observationOwners := (observationOwners st)(bo_observationId bo \<mapsto> i)\<rparr>)"
  using assms
  unfolding recordNewBroadcast_def Let_def res_bind_eq_Inr require_eq_Inr assertEvidenceDigestsAvailable_def sum.inject prod.inject
  by blast+

lemma reconciliation_cases:
  assumes "recordReconciliationObservation isAddress sha256 v now st = Inr (s, st')"
  obtains (replay) i r where "records st i = Some r" "s = lr_current r" "st' = st"
  | (new) i r su ro fp t where "records st i = Some r" "lr_reconciliationReplays r (ro_observationId ro) = None"
      "sp_submission (lr_current r) = Some su" "sp_broadcastObservation (lr_current r) \<noteq> None"
      "ro_submissionFingerprintSha256 ro = su_submissionFingerprintSha256 su" "ro_intentId ro = i"
      "ro_transactionId ro = su_transactionId su"
      "observation_consistent (ro_outcome ro) (map_option dec_val (ro_transactionPosition ro)) (dec_val (ro_finalizedPosition ro))
         (ro_effectEvidenceSha256 ro) (ro_failureEvidenceSha256 ro) (ro_sourceEvidenceSha256 ro)"
      "recordNewReconciliation isAddress sha256 r i fp ro t st = Inr (s, st')"
proof -
  obtain i r su ro t where eq: "reconcileObservation isAddress sha256 r i ro t now st = Inr (s, st')"
      and r: "records st i = Some r" "sp_submission (lr_current r) = Some su"
      "ro_submissionFingerprintSha256 ro = su_submissionFingerprintSha256 su" "ro_intentId ro = i"
      "ro_transactionId ro = su_transactionId su"
    using assms
    unfolding recordReconciliationObservation_def Let_def res_bind_eq_Inr require_eq_Inr recordFor_iff jsval.inject
      split_paired_Ex prod.case
    by (elim exE conjE, hypsubst)
      (rule that, assumption, assumption, (rule assertContext_sound [THEN conjunct1], assumption),
        (simp (no_asm) only: DormantMainnetReconciliationObservationV1.select_convs)+,
        (rule assertContext_sound [THEN conjunct2], assumption))
  from eq obtain bo where bo: "sp_broadcastObservation (lr_current r) = Some bo"
    by (cases "sp_broadcastObservation (lr_current r)") (auto simp: reconcileObservation_def)
  from eq obtain fp where c: "observation_consistent (ro_outcome ro) (map_option dec_val (ro_transactionPosition ro))
         (dec_val (ro_finalizedPosition ro)) (ro_effectEvidenceSha256 ro) (ro_failureEvidenceSha256 ro) (ro_sourceEvidenceSha256 ro)"
      and rest: "(case lr_reconciliationReplays r (ro_observationId ro) of
          Some (fp', _) \<Rightarrow> if fp' \<noteq> fp then Inl (lc_fail OBSERVATION_REPLAY_CONFLICT) else Inr (lr_current r, st)
        | None \<Rightarrow> recordNewReconciliation isAddress sha256 r i fp ro t st) = Inr (s, st')"
    unfolding reconcileObservation_def Let_def bo option.case
    by (auto simp: res_simps split: if_splits)
  show ?thesis
  proof (cases "lr_reconciliationReplays r (ro_observationId ro)")
    case None
    then show ?thesis using rest r bo c by (intro new [of i r ro su fp t]) auto
  next
    case (Some x)
    then show ?thesis using rest r(1) by (intro replay [of i r]) (auto split: prod.splits if_splits)
  qed
qed

lemma reconciliationNew_cases:
  assumes "recordNewReconciliation isAddress sha256 r i fp ob t st = Inr (s, st')"
  shows "observationOwners st (ro_observationId ob) = None"
    "\<not> sp_terminal (lr_current r)"
    "sp_stage (lr_current r) = BROADCAST_OUTCOME_AMBIGUOUS \<or> sp_stage (lr_current r) = RECONCILIATION_AMBIGUOUS"
    "observation_monotonic r (ro_outcome ob) (ro_transactionPosition ob) (ro_transactionBlockId ob)
       (ro_finalizedPosition ob) (ro_finalizedBlockId ob) t"
    "list_all (claim_available st)
       (reconciliationClaims (ro_sourceEvidenceSha256 ob) (ro_effectEvidenceSha256 ob) (ro_failureEvidenceSha256 ob) fp)"
    "makeSnapshot isAddress sha256 (Some (lr_current r)) (sp_intent (lr_current r)) (sp_intentFingerprintSha256 (lr_current r))
       (reconciliationStage (ro_outcome ob)) fp (sp_submission (lr_current r)) (sp_broadcastObservation (lr_current r)) (Some ob) = Inr s"
    "\<exists>p b. st' = commitEvidenceDigests
       (reconciliationClaims (ro_sourceEvidenceSha256 ob) (ro_effectEvidenceSha256 ob) (ro_failureEvidenceSha256 ob) fp)
       (st\<lparr>records := (records st)(i \<mapsto>
             r\<lparr>lr_current := s, lr_reconciliationReplays := (lr_reconciliationReplays r)(ro_observationId ob \<mapsto> (fp, s)),
               lr_lastTransactionPosition := p, lr_lastTransactionBlockId := b,
               lr_lastFinalizedPosition := Some (ro_finalizedPosition ob),
               lr_lastFinalizedBlockId := Some (ro_finalizedBlockId ob),
               lr_lastReconciliationObservedAt := Some (ro_observedAt ob)\<rparr>),
           observationOwners := (observationOwners st)(ro_observationId ob \<mapsto> i)\<rparr>)"
  using assms
  unfolding recordNewReconciliation_def Let_def res_bind_eq_Inr require_eq_Inr assertEvidenceDigestsAvailable_def sum.inject prod.inject
  by blast+

subsection \<open>The invariant\<close>

text \<open>What the stage of a snapshot says about its parts.\<close>

fun stage_shape :: "DormantMainnetFinancialActionLifecycleStage \<Rightarrow> bool \<Rightarrow> bool \<Rightarrow> bool \<Rightarrow> nat \<Rightarrow> bool" where
  "stage_shape PREPARED submitted broadcast reconciled revision =
     (\<not> submitted \<and> \<not> broadcast \<and> \<not> reconciled \<and> revision = 1)"
| "stage_shape WALLET_SIGNED_SUBMISSION_BOUND submitted broadcast reconciled revision =
     (submitted \<and> \<not> broadcast \<and> \<not> reconciled \<and> revision = 2)"
| "stage_shape BROADCAST_OUTCOME_AMBIGUOUS submitted broadcast reconciled revision =
     (submitted \<and> broadcast \<and> \<not> reconciled \<and> revision = 3)"
| "stage_shape _ submitted broadcast reconciled revision =
     (submitted \<and> broadcast \<and> reconciled \<and> 4 \<le> revision)"

definition snapshot_shape :: "snapshot \<Rightarrow> bool" where
  "snapshot_shape c =
     (stage_shape (sp_stage c) (sp_submission c \<noteq> None) (sp_broadcastObservation c \<noteq> None) (sp_reconciliation c \<noteq> None)
        (sp_revision c) \<and>
      sp_terminal c = terminal_stage (sp_stage c) \<and> sp_authority c = ZERO_AUTHORITY)"

text \<open>What the owner maps say about a submission and its observations.\<close>

definition submission_owned :: "ProtocolState \<Rightarrow> string \<Rightarrow> snapshot \<Rightarrow> DormantMainnetFinancialActionSubmissionBindingV1 \<Rightarrow> bool" where
  "submission_owned st i c su =
     (su_intentId su = i \<and> su_intentFingerprintSha256 su = sp_intentFingerprintSha256 c \<and>
      transactionOwners st (su_chainQualifiedTransactionId su) = Some i \<and>
      evidenceDigestOwners st (su_walletSignedPayloadSha256 su) =
        Some (WALLET_SIGNED_PAYLOAD, su_submissionFingerprintSha256 su) \<and>
      evidenceDigestOwners st (su_walletSignatureEvidenceSha256 su) =
        Some (WALLET_SIGNATURE_EVIDENCE, su_submissionFingerprintSha256 su))"

definition broadcast_owned :: "ProtocolState \<Rightarrow> string \<Rightarrow> snapshot \<Rightarrow> DormantMainnetWalletBroadcastObservationV1 \<Rightarrow> bool" where
  "broadcast_owned st i c bo =
     (bo_intentId bo = i \<and> observationOwners st (bo_observationId bo) = Some i \<and>
      (\<exists>fp. evidenceDigestOwners st (bo_evidenceSha256 bo) = Some (WALLET_BROADCAST_EVIDENCE, fp)))"

definition reconciliation_owned :: "ProtocolState \<Rightarrow> string \<Rightarrow> LifecycleRecord \<Rightarrow> DormantMainnetReconciliationObservationV1 \<Rightarrow> bool" where
  "reconciliation_owned st i r ro =
     (ro_intentId ro = i \<and> observationOwners st (ro_observationId ro) = Some i \<and>
      (\<exists>fp. evidenceDigestOwners st (ro_sourceEvidenceSha256 ro) = Some (RECONCILIATION_SOURCE_EVIDENCE, fp)) \<and>
      observation_consistent (ro_outcome ro) (map_option dec_val (ro_transactionPosition ro)) (dec_val (ro_finalizedPosition ro))
        (ro_effectEvidenceSha256 ro) (ro_failureEvidenceSha256 ro) (ro_sourceEvidenceSha256 ro) \<and>
      sp_stage (lr_current r) = reconciliationStage (ro_outcome ro) \<and>
      lr_lastFinalizedPosition r = Some (ro_finalizedPosition ro))"

definition record_ok :: "ProtocolState \<Rightarrow> string \<Rightarrow> LifecycleRecord \<Rightarrow> bool" where
  "record_ok st i r =
     (let c = lr_current r
      in in_intentId (sp_intent c) = i \<and> snapshot_shape c \<and>
         sp_intentFingerprintSha256 (lr_prepared r) = sp_intentFingerprintSha256 c \<and>
         idempotencyOwners st (idempotencyScope (sp_intent c)) = Some (sp_intentFingerprintSha256 c) \<and>
         replayProtectionOwners st (replayProtectionScope (sp_intent c)) = Some (sp_intentFingerprintSha256 c) \<and>
         (lr_submissionReplay r = None) = (sp_submission c = None) \<and>
         (lr_broadcastReplay r = None) = (sp_broadcastObservation c = None) \<and>
         pred_option (submission_owned st i c) (sp_submission c) \<and>
         pred_option (broadcast_owned st i c) (sp_broadcastObservation c) \<and>
         pred_option (reconciliation_owned st i r) (sp_reconciliation c) \<and>
         (\<forall>oid. lr_reconciliationReplays r oid \<noteq> None \<longrightarrow> observationOwners st oid = Some i))"

definition state_ok :: "ProtocolState \<Rightarrow> bool" where
  "state_ok st = (\<forall>i r. records st i = Some r \<longrightarrow> record_ok st i r)"

lemma record_ok_extend:
  assumes "record_ok st i r" "owners_extend st st'"
  shows "record_ok st' i r"
proof -
  have e: "idempotencyOwners st k = Some v \<Longrightarrow> idempotencyOwners st' k = Some v"
      "replayProtectionOwners st k = Some v \<Longrightarrow> replayProtectionOwners st' k = Some v"
      "transactionOwners st k = Some v \<Longrightarrow> transactionOwners st' k = Some v"
      "observationOwners st k = Some v \<Longrightarrow> observationOwners st' k = Some v"
      "evidenceDigestOwners st k = Some w \<Longrightarrow> evidenceDigestOwners st' k = Some w" for k v w
    using assms(2) unfolding owners_extend_def by (blast dest: extendsD)+
  have owned: "submission_owned st i c su \<Longrightarrow> submission_owned st' i c su"
      "broadcast_owned st i c bo \<Longrightarrow> broadcast_owned st' i c bo"
      "reconciliation_owned st i r ro \<Longrightarrow> reconciliation_owned st' i r ro" for c su bo ro
    by (auto simp: submission_owned_def broadcast_owned_def reconciliation_owned_def e intro: e)
  have parts: "pred_option (submission_owned st i c) x \<Longrightarrow> pred_option (submission_owned st' i c) x"
      "pred_option (broadcast_owned st i c) y \<Longrightarrow> pred_option (broadcast_owned st' i c) y"
      "pred_option (reconciliation_owned st i r) z \<Longrightarrow> pred_option (reconciliation_owned st' i r) z" for c x y z
    by (cases x, simp_all add: owned, cases y, simp_all add: owned, cases z, simp_all add: owned)
  show ?thesis
    using assms(1) unfolding record_ok_def Let_def by (simp add: e parts)
qed

text \<open>A step that stores one consistent record and only extends the owners keeps the invariant.\<close>

lemma state_ok_update:
  assumes "state_ok st" "owners_extend st st'" "records st' = (records st)(i \<mapsto> r)" "record_ok st' i r"
  shows "state_ok st'"
  using assms record_ok_extend [OF _ assms(2)] by (auto simp: state_ok_def)

text \<open>The stage graph.\<close>

definition stage_edge ::
  "DormantMainnetFinancialActionLifecycleStage \<Rightarrow> DormantMainnetFinancialActionLifecycleStage \<Rightarrow> bool" where
  "stage_edge a b =
     ((a = PREPARED \<and> b = WALLET_SIGNED_SUBMISSION_BOUND) \<or>
      (a = WALLET_SIGNED_SUBMISSION_BOUND \<and> b = BROADCAST_OUTCOME_AMBIGUOUS) \<or>
      ((a = BROADCAST_OUTCOME_AMBIGUOUS \<or> a = RECONCILIATION_AMBIGUOUS) \<and>
       (b = RECONCILIATION_AMBIGUOUS \<or> terminal_stage b)))"

lemma stage_edge_simps [simp]:
  "stage_edge PREPARED WALLET_SIGNED_SUBMISSION_BOUND"
  "stage_edge WALLET_SIGNED_SUBMISSION_BOUND BROADCAST_OUTCOME_AMBIGUOUS"
  by (simp_all add: stage_edge_def)

lemma stage_edge_reconciliation:
  "a = BROADCAST_OUTCOME_AMBIGUOUS \<or> a = RECONCILIATION_AMBIGUOUS \<Longrightarrow> stage_edge a (reconciliationStage x)"
  by (cases x) (auto simp: stage_edge_def terminal_stage_def)

lemma stage_edge_terminal: "stage_edge a b \<Longrightarrow> \<not> terminal_stage a"
  by (auto simp: stage_edge_def terminal_stage_def)

text \<open>What a record remembers of the calls it accepted.\<close>

definition replays_kept :: "LifecycleRecord \<Rightarrow> LifecycleRecord \<Rightarrow> bool" where
  "replays_kept q r =
     (lr_prepared r = lr_prepared q \<and> sp_intent (lr_current r) = sp_intent (lr_current q) \<and>
      sp_intentFingerprintSha256 (lr_current r) = sp_intentFingerprintSha256 (lr_current q) \<and>
      lr_submissionReplay q \<in> {None, lr_submissionReplay r} \<and> lr_broadcastReplay q \<in> {None, lr_broadcastReplay r} \<and>
      extends (lr_reconciliationReplays q) (lr_reconciliationReplays r) \<and>
      sp_submission (lr_current q) \<in> {None, sp_submission (lr_current r)} \<and>
      sp_broadcastObservation (lr_current q) \<in> {None, sp_broadcastObservation (lr_current r)})"

lemma replays_kept_refl [simp]: "replays_kept r r"
  by (simp add: replays_kept_def)

lemma replays_kept_trans: "replays_kept a b \<Longrightarrow> replays_kept b c \<Longrightarrow> replays_kept a c"
  by (auto simp: replays_kept_def extends_def)

text \<open>The effect of a step that is no replay.\<close>

definition moves :: "ProtocolState \<Rightarrow> snapshot \<Rightarrow> ProtocolState \<Rightarrow> bool" where
  "moves st s st' =
     (\<exists>i r. records st' = (records st)(i \<mapsto> r) \<and> lr_current r = s \<and> owners_extend st st' \<and> record_ok st' i r \<and>
        (case records st i of
           None \<Rightarrow> sp_stage s = PREPARED \<and> sp_previousSnapshotSha256 s = None
         | Some q \<Rightarrow>
             stage_edge (sp_stage (lr_current q)) (sp_stage s) \<and>
             sp_revision s = Suc (sp_revision (lr_current q)) \<and>
             sp_previousSnapshotSha256 s = Some (sp_snapshotSha256 (lr_current q)) \<and>
             replays_kept q r \<and>
             (\<forall>p. lr_lastFinalizedPosition q = Some p \<longrightarrow>
                (\<exists>p'. lr_lastFinalizedPosition r = Some p' \<and> dec_val p \<le> dec_val p'))))"

lemma prepareNew_moves:
  assumes "prepareNewIntent isAddress sha256 intent fp st = Inr (s, st')" "records st (in_intentId intent) = None"
  shows "moves st s st'"
proof -
  note c = prepareNew_cases [OF assms(1)]
  obtain t where m: "makeSnapshot isAddress sha256 None intent fp PREPARED t None None None = Inr s" using c(3) ..
  note f = makeSnapshot_fields [OF m]
  have ext: "owners_extend st st'" using c(1,2) by (simp add: owners_extend_def c(4) extends_update)
  have "record_ok st' (in_intentId intent) (newRecord s)"
    by (simp add: record_ok_def newRecord_def Let_def f snapshot_shape_def c(4))
  then show ?thesis
    unfolding moves_def using ext f(1,3) assms(2)
    by (intro exI [of _ "in_intentId intent"] exI [of _ "newRecord s"]) (simp add: newRecord_def c(4))
qed

lemma bindNew_moves:
  assumes "bindNewSubmission isAddress sha256 r i su t n st = Inr (s, st')"
    and "records st i = Some r" "record_ok st i r" "submission_for r i su"
  shows "moves st s st'"
proof -
  note c = bindNew_cases [OF assms(1)]
  note f = makeSnapshot_fields [OF c(4)]
  note su = assms(4) [unfolded submission_for_def]
  let ?r = "r\<lparr>lr_current := s, lr_submissionReplay := Some (su_submissionFingerprintSha256 su, s)\<rparr>"
  let ?claims = "submissionClaims (su_walletSignedPayloadSha256 su) (su_walletSignatureEvidenceSha256 su)
       (su_submissionFingerprintSha256 su)"
  have rec: "records st' = (records st)(i \<mapsto> ?r)" by (simp add: c(5))
  have ev: "extends (evidenceDigestOwners st) (evidenceDigestOwners st')"
    unfolding c(5) by (rule commit_extends [OF c(3)]) simp
  have ext: "owners_extend st st'" using c(2) ev by (simp add: owners_extend_def c(5) extends_update)
  have owned: "list_all (\<lambda>k. evidenceDigestOwners st' (cl_digest k) = Some (claim_value k)) ?claims"
    unfolding c(5) by (rule commit_owned) (use su in \<open>simp add: submissionClaims_def\<close>)
  note ok = record_ok_extend [OF assms(3) ext, unfolded record_ok_def Let_def snapshot_shape_def c(1) stage_shape.simps]
  have "transactionOwners st' (su_chainQualifiedTransactionId su) = Some i" by (simp add: c(5))
  moreover have "evidenceDigestOwners st' (su_walletSignedPayloadSha256 su) =
        Some (WALLET_SIGNED_PAYLOAD, su_submissionFingerprintSha256 su)"
      "evidenceDigestOwners st' (su_walletSignatureEvidenceSha256 su) =
        Some (WALLET_SIGNATURE_EVIDENCE, su_submissionFingerprintSha256 su)"
    using owned by (simp_all add: submissionClaims_def claim_value_def)
  ultimately have "submission_owned st' i s su"
    using su by (simp add: submission_owned_def f)
  then have "record_ok st' i ?r"
    using ok su unfolding record_ok_def Let_def snapshot_shape_def by (simp add: f)
  moreover have "replays_kept r ?r"
    using ok su by (simp add: replays_kept_def f extends_def)
  ultimately show ?thesis
    unfolding moves_def using ext rec assms(2) c(1) f ok
    by (intro exI [of _ i] exI [of _ ?r]) simp
qed

lemma broadcastNew_moves:
  assumes "recordNewBroadcast isAddress sha256 r i fp su bo t n st = Inr (s, st')"
    and "records st i = Some r" "record_ok st i r" "sp_submission (lr_current r) = Some su" "bo_intentId bo = i"
  shows "moves st s st'"
proof -
  note c = broadcastNew_cases [OF assms(1)]
  note f = makeSnapshot_fields [OF c(4)]
  let ?r = "r\<lparr>lr_current := s, lr_broadcastReplay := Some (bo_observationId bo, fp, s)\<rparr>"
  let ?claims = "broadcastClaims (bo_evidenceSha256 bo) fp"
  have rec: "records st' = (records st)(i \<mapsto> ?r)" by (simp add: c(5))
  have ev: "extends (evidenceDigestOwners st) (evidenceDigestOwners st')"
    unfolding c(5) by (rule commit_extends [OF c(3)]) simp
  have ext: "owners_extend st st'" using c(2) ev by (simp add: owners_extend_def c(5) extends_update)
  have owned: "list_all (\<lambda>k. evidenceDigestOwners st' (cl_digest k) = Some (claim_value k)) ?claims"
    unfolding c(5) by (rule commit_owned) (simp add: broadcastClaims_def)
  note ok = record_ok_extend [OF assms(3) ext, unfolded record_ok_def Let_def snapshot_shape_def c(1) stage_shape.simps]
  have obs: "observationOwners st' (bo_observationId bo) = Some i" by (simp add: c(5))
  have "evidenceDigestOwners st' (bo_evidenceSha256 bo) = Some (WALLET_BROADCAST_EVIDENCE, fp)"
    using owned by (simp add: broadcastClaims_def claim_value_def)
  with obs have "broadcast_owned st' i s bo" using assms(5) by (simp add: broadcast_owned_def)
  then have "record_ok st' i ?r"
    using ok assms(4) unfolding record_ok_def Let_def snapshot_shape_def by (simp add: f submission_owned_def)
  moreover have "replays_kept r ?r"
    using ok assms(4) by (simp add: replays_kept_def f extends_def)
  ultimately show ?thesis
    unfolding moves_def using ext rec assms(2,4) c(1) f ok
    by (intro exI [of _ i] exI [of _ ?r]) simp
qed

lemma stage_shape_reconciled: "stage_shape (reconciliationStage x) a b d n = (a \<and> b \<and> d \<and> 4 \<le> n)"
  by (cases x) simp_all

lemma reconciliation_claims_distinct:
  "observation_consistent outcome p f effect failure source \<Longrightarrow>
   distinct (map cl_digest (reconciliationClaims source effect failure fp))"
  by (cases outcome) (auto simp: observation_consistent_def reconciliationClaims_def split: option.splits)

lemma monotonic_finalized:
  "observation_monotonic r outcome p b f fb t \<Longrightarrow> lr_lastFinalizedPosition r = Some q \<Longrightarrow> dec_val q \<le> dec_val f"
  by (simp add: observation_monotonic_def)

lemma reconciliationNew_moves:
  assumes "recordNewReconciliation isAddress sha256 r i fp ro t st = Inr (s, st')"
    and "records st i = Some r" "record_ok st i r" "sp_submission (lr_current r) = Some su"
    and "sp_broadcastObservation (lr_current r) \<noteq> None" "ro_intentId ro = i"
    and fresh: "lr_reconciliationReplays r (ro_observationId ro) = None"
    and consistent: "observation_consistent (ro_outcome ro) (map_option dec_val (ro_transactionPosition ro))
      (dec_val (ro_finalizedPosition ro)) (ro_effectEvidenceSha256 ro) (ro_failureEvidenceSha256 ro) (ro_sourceEvidenceSha256 ro)"
  shows "moves st s st'"
proof -
  note c = reconciliationNew_cases [OF assms(1)]
  note f = makeSnapshot_fields [OF c(6)]
  let ?claims = "reconciliationClaims (ro_sourceEvidenceSha256 ro) (ro_effectEvidenceSha256 ro) (ro_failureEvidenceSha256 ro) fp"
  obtain p b where st': "st' = commitEvidenceDigests ?claims
       (st\<lparr>records := (records st)(i \<mapsto>
             r\<lparr>lr_current := s, lr_reconciliationReplays := (lr_reconciliationReplays r)(ro_observationId ro \<mapsto> (fp, s)),
               lr_lastTransactionPosition := p, lr_lastTransactionBlockId := b,
               lr_lastFinalizedPosition := Some (ro_finalizedPosition ro),
               lr_lastFinalizedBlockId := Some (ro_finalizedBlockId ro),
               lr_lastReconciliationObservedAt := Some (ro_observedAt ro)\<rparr>),
           observationOwners := (observationOwners st)(ro_observationId ro \<mapsto> i)\<rparr>)" (is "_ = commitEvidenceDigests _ (st\<lparr>records := (records st)(i \<mapsto> ?r), observationOwners := _\<rparr>)")
    using c(7) by blast
  have rec: "records st' = (records st)(i \<mapsto> ?r)" by (simp add: st')
  have ev: "extends (evidenceDigestOwners st) (evidenceDigestOwners st')"
    unfolding st' by (rule commit_extends [OF c(5)]) simp
  have ext: "owners_extend st st'" using c(1) ev by (simp add: owners_extend_def st' extends_update)
  have owned: "list_all (\<lambda>k. evidenceDigestOwners st' (cl_digest k) = Some (claim_value k)) ?claims"
    unfolding st' by (rule commit_owned [OF reconciliation_claims_distinct [OF consistent]])
  note ok0 = record_ok_extend [OF assms(3) ext, unfolded record_ok_def Let_def snapshot_shape_def]
  have rev: "3 \<le> sp_revision (lr_current r)"
    using ok0 c(3) by (elim disjE) simp_all
  have obs: "observationOwners st' (ro_observationId ro) = Some i" by (simp add: st')
  have "evidenceDigestOwners st' (ro_sourceEvidenceSha256 ro) = Some (RECONCILIATION_SOURCE_EVIDENCE, fp)"
    using owned by (simp add: reconciliationClaims_def claim_value_def)
  with obs have "reconciliation_owned st' i ?r ro"
    using assms(6) consistent by (simp add: reconciliation_owned_def f)
  then have "record_ok st' i ?r"
    using ok0 rev assms(4,5) unfolding record_ok_def Let_def snapshot_shape_def f(1) stage_shape_reconciled
    by (auto simp: f obs stage_shape_reconciled submission_owned_def broadcast_owned_def)
  moreover have "replays_kept r ?r"
    using fresh by (simp add: replays_kept_def f extends_update)
  moreover have "stage_edge (sp_stage (lr_current r)) (sp_stage s)"
    unfolding f(1) by (rule stage_edge_reconciliation [OF c(3)])
  ultimately show ?thesis
    unfolding moves_def using ext rec assms(2) f(2,3,6,7,8) monotonic_finalized [OF c(4)]
    by (intro exI [of _ i] exI [of _ ?r]) simp
qed

subsection \<open>The transition system\<close>

datatype lifecycle_operation =
    PrepareIntent jsval jsval
  | BindSubmission jsval jsval
  | RecordBroadcast jsval jsval
  | RecordReconciliation jsval jsval

fun run_operation :: "(string \<Rightarrow> bool) \<Rightarrow> (string \<Rightarrow> string) \<Rightarrow> SupportedAssetRegistrySnapshot \<Rightarrow> lifecycle_operation \<Rightarrow>
    ProtocolState \<Rightarrow> (snapshot \<times> ProtocolState) lifecycle_result" where
  "run_operation isAddress sha256 registry (PrepareIntent v now) = prepareIntent isAddress sha256 registry v now"
| "run_operation isAddress sha256 registry (BindSubmission v now) = bindWalletSignedSubmission isAddress sha256 v now"
| "run_operation isAddress sha256 registry (RecordBroadcast v now) = recordWalletBroadcastObservation isAddress sha256 v now"
| "run_operation isAddress sha256 registry (RecordReconciliation v now) =
     recordReconciliationObservation isAddress sha256 v now"

inductive reachable :: "(string \<Rightarrow> bool) \<Rightarrow> (string \<Rightarrow> string) \<Rightarrow> SupportedAssetRegistrySnapshot \<Rightarrow> ProtocolState \<Rightarrow> bool"
  for isAddress sha256 registry where
  initial: "reachable isAddress sha256 registry initialState"
| step: "reachable isAddress sha256 registry st \<Longrightarrow>
    run_operation isAddress sha256 registry operation st = Inr (s, st') \<Longrightarrow> reachable isAddress sha256 registry st'"

text \<open>A sequence of calls; a call that throws leaves the state.\<close>

fun run_all :: "(string \<Rightarrow> bool) \<Rightarrow> (string \<Rightarrow> string) \<Rightarrow> SupportedAssetRegistrySnapshot \<Rightarrow> lifecycle_operation list \<Rightarrow>
    ProtocolState \<Rightarrow> ProtocolState" where
  "run_all isAddress sha256 registry [] st = st"
| "run_all isAddress sha256 registry (operation # rest) st =
     run_all isAddress sha256 registry rest
       (case run_operation isAddress sha256 registry operation st of Inl _ \<Rightarrow> st | Inr (s, st') \<Rightarrow> st')"

lemma step_moves:
  assumes "state_ok st" "run_operation isAddress sha256 registry operation st = Inr (s, st')"
  shows "(st' = st \<and> (\<exists>i r. records st i = Some r \<and> s = lr_current r)) \<or> moves st s st'"
proof (cases operation)
  case (PrepareIntent v now)
  then show ?thesis
    using assms(2) by (auto elim!: prepare_cases dest: prepareNew_moves)
next
  case (BindSubmission v now)
  have ok: "records st i = Some r \<Longrightarrow> record_ok st i r" for i r using assms(1) by (simp add: state_ok_def)
  from BindSubmission show ?thesis
    using assms(2) ok by (auto elim!: bind_cases dest: bindNew_moves)
next
  case (RecordBroadcast v now)
  have ok: "records st i = Some r \<Longrightarrow> record_ok st i r" for i r using assms(1) by (simp add: state_ok_def)
  from RecordBroadcast show ?thesis
    using assms(2) ok by (auto elim!: broadcast_cases dest: broadcastNew_moves)
next
  case (RecordReconciliation v now)
  have ok: "records st i = Some r \<Longrightarrow> record_ok st i r" for i r using assms(1) by (simp add: state_ok_def)
  from RecordReconciliation have "recordReconciliationObservation isAddress sha256 v now st = Inr (s, st')"
    using assms(2) by simp
  then show ?thesis
    by (cases rule: reconciliation_cases) (use ok reconciliationNew_moves in blast)+
qed

lemma moves_state_ok: "state_ok st \<Longrightarrow> moves st s st' \<Longrightarrow> state_ok st'"
  unfolding moves_def using state_ok_update by blast

lemma reachable_ok: "reachable isAddress sha256 registry st \<Longrightarrow> state_ok st"
proof (induction rule: reachable.induct)
  case initial
  then show ?case by (simp add: state_ok_def initialState_def)
next
  case (step st operation s st')
  then show ?case using step_moves moves_state_ok by blast
qed

lemma reachable_run_all:
  "reachable isAddress sha256 registry st \<Longrightarrow> reachable isAddress sha256 registry (run_all isAddress sha256 registry ops st)"
proof (induction ops arbitrary: st)
  case (Cons operation ops)
  have "reachable isAddress sha256 registry
      (case run_operation isAddress sha256 registry operation st of Inl _ \<Rightarrow> st | Inr (s, st') \<Rightarrow> st')"
    using Cons.prems by (auto split: sum.split intro: reachable.step)
  then show ?case using Cons.IH by simp
qed simp

text \<open>What later calls may change in a record.\<close>

definition progressed :: "LifecycleRecord \<Rightarrow> LifecycleRecord \<Rightarrow> bool" where
  "progressed q r =
     (replays_kept q r \<and> sp_revision (lr_current q) \<le> sp_revision (lr_current r) \<and>
      (sp_revision (lr_current r) = sp_revision (lr_current q) \<longrightarrow> r = q) \<and>
      (sp_terminal (lr_current q) \<longrightarrow> r = q) \<and>
      (\<forall>p. lr_lastFinalizedPosition q = Some p \<longrightarrow>
         (\<exists>p'. lr_lastFinalizedPosition r = Some p' \<and> dec_val p \<le> dec_val p')))"

lemma progressed_refl [simp]: "progressed r r"
  by (simp add: progressed_def)

lemma progressed_trans: "progressed a b \<Longrightarrow> progressed b c \<Longrightarrow> progressed a c"
proof (cases "sp_revision (lr_current b) = sp_revision (lr_current a) \<or> sp_revision (lr_current c) = sp_revision (lr_current b)")
  case True
  assume p: "progressed a b" "progressed b c"
  have "b = a \<or> c = b"
    using True p unfolding progressed_def by (elim conjE disjE) (blast, blast)
  then show ?thesis using p by (elim disjE) simp_all
next
  case False
  assume p: "progressed a b" "progressed b c"
  have less: "sp_revision (lr_current a) < sp_revision (lr_current b)" "sp_revision (lr_current b) < sp_revision (lr_current c)"
    using False p unfolding progressed_def by simp_all
  have "\<not> sp_terminal (lr_current a)"
  proof
    assume "sp_terminal (lr_current a)"
    then have "b = a" using p(1) unfolding progressed_def by blast
    then show False using less by simp
  qed
  moreover have "\<exists>p'. lr_lastFinalizedPosition c = Some p' \<and> dec_val p \<le> dec_val p'"
    if a: "lr_lastFinalizedPosition a = Some p" for p
  proof -
    obtain p1 where 1: "lr_lastFinalizedPosition b = Some p1" "dec_val p \<le> dec_val p1"
      using p(1) a unfolding progressed_def by blast
    obtain p2 where "lr_lastFinalizedPosition c = Some p2" "dec_val p1 \<le> dec_val p2"
      using p(2) 1(1) unfolding progressed_def by blast
    with 1 show ?thesis by auto
  qed
  moreover have "replays_kept a c" using p replays_kept_trans unfolding progressed_def by blast
  ultimately show ?thesis using less p unfolding progressed_def by simp
qed

lemma moves_progress:
  assumes "state_ok st" "moves st s st'" "records st j = Some q"
  shows "\<exists>r. records st' j = Some r \<and> progressed q r"
proof -
  obtain i r where m: "records st' = (records st)(i \<mapsto> r)" "lr_current r = s"
    "(case records st i of
           None \<Rightarrow> sp_stage s = PREPARED \<and> sp_previousSnapshotSha256 s = None
         | Some q \<Rightarrow>
             stage_edge (sp_stage (lr_current q)) (sp_stage s) \<and>
             sp_revision s = Suc (sp_revision (lr_current q)) \<and>
             sp_previousSnapshotSha256 s = Some (sp_snapshotSha256 (lr_current q)) \<and>
             replays_kept q r \<and>
             (\<forall>p. lr_lastFinalizedPosition q = Some p \<longrightarrow>
                (\<exists>p'. lr_lastFinalizedPosition r = Some p' \<and> dec_val p \<le> dec_val p')))"
    using assms(2) unfolding moves_def by (elim exE conjE) (rule that; assumption)
  show ?thesis
  proof (cases "j = i")
    case True
    have "sp_terminal (lr_current q) = terminal_stage (sp_stage (lr_current q))"
      using assms(1,3) unfolding state_ok_def record_ok_def snapshot_shape_def Let_def by blast
    moreover have "stage_edge (sp_stage (lr_current q)) (sp_stage s)" using m(3) assms(3) True by simp
    then have "\<not> terminal_stage (sp_stage (lr_current q))" by (rule stage_edge_terminal)
    ultimately have "\<not> sp_terminal (lr_current q)" by simp
    then show ?thesis using m True assms(3) by (auto simp: progressed_def)
  next
    case False
    then show ?thesis using m(1) assms(3) by simp
  qed
qed

lemma run_all_progress:
  "state_ok st \<Longrightarrow> records st j = Some q \<Longrightarrow>
   \<exists>r. records (run_all isAddress sha256 registry ops st) j = Some r \<and> progressed q r"
proof (induction ops arbitrary: st q)
  case (Cons operation ops)
  show ?case
  proof (cases "run_operation isAddress sha256 registry operation st")
    case (Inl e)
    then show ?thesis using Cons by simp
  next
    case (Inr b)
    obtain s st' where b: "b = (s, st')" by (cases b)
    from step_moves [OF Cons.prems(1) Inr [unfolded b]] show ?thesis
    proof
      assume "st' = st \<and> (\<exists>i r. records st i = Some r \<and> s = lr_current r)"
      then show ?thesis using Cons Inr b by simp
    next
      assume m: "moves st s st'"
      obtain q' where q': "records st' j = Some q'" "progressed q q'"
        using moves_progress [OF Cons.prems(1) m Cons.prems(2)] by blast
      from Cons.IH [OF moves_state_ok [OF Cons.prems(1) m] q'(1)] q'(2) show ?thesis
        using Inr b progressed_trans by auto
    qed
  qed
qed simp

end
