(* ===== verification/Action_Lifecycle_Protocol.thy ===== *)
theory Action_Lifecycle_Protocol
  imports Action_Lifecycle_Correct
begin

text \<open>
  The lifecycle protocol as a whole: delivering an accepted call again, the stage machine it
  refines, and the properties of its reachable states.
\<close>

subsection \<open>Delivering an accepted call again\<close>

text \<open>At every \<open>allowed\<close> time, in every state that still keeps what the call left in its record, the call returns
  the current snapshot of that record and changes nothing.\<close>

definition repeats :: "(int \<Rightarrow> ProtocolState \<Rightarrow> (snapshot \<times> ProtocolState) lifecycle_result) \<Rightarrow> (int \<Rightarrow> bool) \<Rightarrow> snapshot \<Rightarrow>
    ProtocolState \<Rightarrow> bool" where
  "repeats f allowed s st =
     (\<exists>i r. records st i = Some r \<and> lr_current r = s \<and>
        (\<forall>n st2 r2. allowed n \<longrightarrow> records st2 i = Some r2 \<longrightarrow> replays_kept r r2 \<longrightarrow> f n st2 = Inr (lr_current r2, st2)))"

lemma repeatsI:
  assumes "records st i = Some r" "lr_current r = s"
    and "\<And>n st2 r2. allowed n \<Longrightarrow> records st2 i = Some r2 \<Longrightarrow> replays_kept r r2 \<Longrightarrow> f n st2 = Inr (lr_current r2, st2)"
  shows "repeats f allowed s st"
  unfolding repeats_def using assms by (intro exI [of _ i] exI [of _ r] conjI allI impI) assumption+

lemma lc_serverTime_iff: "(lc_serverTime v = Inr n) = (v = mk_date n)"
  by (simp add: lc_serverTime_def server_time_value_iff)

lemma lc_serverTime_date: "lc_serverTime (mk_date n) = Inr n"
  by (simp add: lc_serverTime_iff)

definition expired_at :: "DormantMainnetFinancialActionIntentV1 \<Rightarrow> int \<Rightarrow> bool" where
  "expired_at intent n = time_le (date_parse (in_expiresAt intent)) (Some n)"

text \<open>An accepted intent parses again at every later time before it expires, and at no time after.\<close>

lemma intent_again:
  assumes "parseDormantMainnetFinancialActionIntent isAddress registry v (mk_date n) = Inr intent" "n \<le> n'"
  shows "parseDormantMainnetFinancialActionIntent isAddress registry v (mk_date n') =
    (if expired_at intent n' then Inl INVALID_INTENT_TIME else Inr intent)"
proof -
  obtain ti te where t: "valid_time te" "in_expiresAt intent = to_iso te" "\<exists>k. mk_date n = mk_date k \<and> ti \<le> k \<and> k < te"
      "parseDormantMainnetFinancialActionIntent isAddress registry v (mk_date n') =
         (if ti \<le> n' \<and> n' < te then Inr intent else Inl INVALID_INTENT_TIME)"
    using intent_time [OF assms(1)] by blast
  have "ti \<le> n" using t(3) by (auto simp: mk_date_def)
  moreover have "expired_at intent n' = (te \<le> n')" using t(1,2) by (simp add: expired_at_def date_parse_def read_timestamp_to_iso)
  ultimately show ?thesis using assms(2) t(4) by auto
qed

lemma bind_reads:
  assumes "bindWalletSignedSubmission isAddress sha256 v now st = Inr (s, st')"
  shows "\<exists>i r su t n. records st i = Some r \<and> bindParsedSubmission isAddress sha256 r i su t n st = Inr (s, st') \<and>
     submission_for r i su \<and>
     (\<forall>n' st2 r2. records st2 i = Some r2 \<longrightarrow> sp_intent (lr_current r2) = sp_intent (lr_current r) \<longrightarrow>
        sp_intentFingerprintSha256 (lr_current r2) = sp_intentFingerprintSha256 (lr_current r) \<longrightarrow>
        bindWalletSignedSubmission isAddress sha256 v (mk_date n') st2 = bindParsedSubmission isAddress sha256 r2 i su t n' st2)"
  using assms
  unfolding bindWalletSignedSubmission_def Let_def res_bind_eq_Inr require_eq_Inr lift_error_eq_Inr recordFor_iff jsval.inject
  apply (elim exE conjE, hypsubst)
  apply (rule exI)+
  apply (rule conjI, assumption)
  apply (rule conjI, assumption)
  apply (rule conjI)
   apply (unfold submission_for_def DormantMainnetFinancialActionSubmissionBindingV1.select_convs, intro conjI refl, assumption)[1]
  apply (intro allI impI)
  apply (simp only: recordFor_def jsval.case of_option_simps res_bind.simps lift_error_simps require_simps simp_thms refl
      lc_serverTime_date)
  done

lemma bind_repeats:
  assumes "bindWalletSignedSubmission isAddress sha256 v now st = Inr (s, st')"
  shows "repeats (\<lambda>n. bindWalletSignedSubmission isAddress sha256 v (mk_date n)) (\<lambda>_. True) s st'"
proof -
  obtain i r su t n where r: "records st i = Some r"
      and b: "bindParsedSubmission isAddress sha256 r i su t n st = Inr (s, st')"
      and su: "submission_for r i su"
      and reads: "\<And>n' st2 r2. records st2 i = Some r2 \<Longrightarrow> sp_intent (lr_current r2) = sp_intent (lr_current r) \<Longrightarrow>
        sp_intentFingerprintSha256 (lr_current r2) = sp_intentFingerprintSha256 (lr_current r) \<Longrightarrow>
        bindWalletSignedSubmission isAddress sha256 v (mk_date n') st2 = bindParsedSubmission isAddress sha256 r2 i su t n' st2"
    using bind_reads [OF assms] by (elim exE conjE) (rule that; blast)
  show ?thesis
  proof (cases "lr_submissionReplay r")
    case None
    then have new: "bindNewSubmission isAddress sha256 r i su t n st = Inr (s, st')"
      using b by (simp add: bindParsedSubmission_def)
    note c = bindNew_cases [OF new]
    note f = makeSnapshot_fields [OF c(4)]
    let ?r = "r\<lparr>lr_current := s, lr_submissionReplay := Some (su_submissionFingerprintSha256 su, s)\<rparr>"
    show ?thesis
    proof (rule repeatsI [of _ i ?r])
      fix n' and st2 :: ProtocolState and r2 :: LifecycleRecord assume r2: "records st2 i = Some r2" "replays_kept ?r r2"
      have "sp_intent (lr_current r2) = sp_intent (lr_current r)"
          "sp_intentFingerprintSha256 (lr_current r2) = sp_intentFingerprintSha256 (lr_current r)"
        using r2(2) su by (simp_all add: replays_kept_def f submission_for_def)
      moreover have "lr_submissionReplay r2 = Some (su_submissionFingerprintSha256 su, s)"
        using r2(2) by (simp add: replays_kept_def)
      ultimately show "bindWalletSignedSubmission isAddress sha256 v (mk_date n') st2 = Inr (lr_current r2, st2)"
        using reads [OF r2(1)] by (simp add: bindParsedSubmission_def)
    qed (simp_all add: c(5))
  next
    case (Some x)
    obtain fp s' where x: "x = (fp, s')" by (cases x)
    have same: "fp = su_submissionFingerprintSha256 su" "s = lr_current r" "st' = st"
      using b Some x by (simp_all add: bindParsedSubmission_def split: if_splits)
    show ?thesis
    proof (rule repeatsI [of _ i r])
      fix n' and st2 :: ProtocolState and r2 :: LifecycleRecord assume r2: "records st2 i = Some r2" "replays_kept r r2"
      then have "lr_submissionReplay r2 = Some x" using Some by (simp add: replays_kept_def)
      then show "bindWalletSignedSubmission isAddress sha256 v (mk_date n') st2 = Inr (lr_current r2, st2)"
        using reads [OF r2(1)] r2(2) x same(1) by (simp add: bindParsedSubmission_def replays_kept_def)
    qed (simp_all add: r same)
  qed
qed

lemma prepare_repeats:
  assumes "prepareIntent isAddress sha256 registry v (mk_date n) st = Inr (s, st')"
    and p: "parseDormantMainnetFinancialActionIntent isAddress registry v (mk_date n) = Inr intent"
  shows "repeats (\<lambda>n. prepareIntent isAddress sha256 registry v (mk_date n)) (\<lambda>n'. n \<le> n' \<and> \<not> expired_at intent n') s st'"
proof -
  note reads = prepareIntent_def lift_error_simps res_bind.simps Let_def
  note eq = assms(1) [unfolded reads p]
  have again: "prepareIntent isAddress sha256 registry v (mk_date n') st2 = Inr (lr_current r2, st2)"
    if "n \<le> n' \<and> \<not> expired_at intent n'" "records st2 (in_intentId intent) = Some r2" "lr_prepared r2 = lr_prepared r"
      "sp_intentFingerprintSha256 (lr_prepared r) = intentFingerprint sha256 intent"
    for n' and st2 :: ProtocolState and r r2 :: LifecycleRecord
  proof -
    have "parseDormantMainnetFinancialActionIntent isAddress registry v (mk_date n') = Inr intent"
      using intent_again [OF p, of n'] that(1) by simp
    then show ?thesis by (simp only: reads that(2) option.case that(3,4) simp_thms if_False)
  qed
  show ?thesis
  proof (cases "records st (in_intentId intent)")
    case None
    have new: "prepareNewIntent isAddress sha256 intent (intentFingerprint sha256 intent) st = Inr (s, st')"
      using eq by (simp only: None option.case)
    note c = prepareNew_cases [OF new]
    obtain t where m: "makeSnapshot isAddress sha256 None intent (intentFingerprint sha256 intent) PREPARED t None None None = Inr s"
      using c(3) ..
    note f = makeSnapshot_fields [OF m]
    show ?thesis
    proof (rule repeatsI [of _ "in_intentId intent" "newRecord s"])
      fix n' and st2 :: ProtocolState and r2 :: LifecycleRecord assume "n \<le> n' \<and> \<not> expired_at intent n'" "records st2 (in_intentId intent) = Some r2" "replays_kept (newRecord s) r2"
      then show "prepareIntent isAddress sha256 registry v (mk_date n') st2 = Inr (lr_current r2, st2)"
        by (intro again [of _ _ _ "newRecord s"]) (simp_all add: replays_kept_def newRecord_def f)
    qed (simp_all add: c(4) newRecord_def)
  next
    case (Some r)
    have same: "s = lr_current r" "st' = st"
        "sp_intentFingerprintSha256 (lr_prepared r) = intentFingerprint sha256 intent"
      using eq unfolding Some option.case by (simp_all only: sum.inject prod.inject sum.distinct split: if_splits)
    show ?thesis
    proof (rule repeatsI [of _ "in_intentId intent" r])
      fix n' and st2 :: ProtocolState and r2 :: LifecycleRecord assume "n \<le> n' \<and> \<not> expired_at intent n'" "records st2 (in_intentId intent) = Some r2" "replays_kept r r2"
      then show "prepareIntent isAddress sha256 registry v (mk_date n') st2 = Inr (lr_current r2, st2)"
        by (intro again [of _ _ _ r]) (simp_all add: replays_kept_def same)
    qed (simp_all add: Some same)
  qed
qed

lemma prepare_late:
  assumes "parseDormantMainnetFinancialActionIntent isAddress registry v (mk_date n) = Inr intent" "n \<le> n'" "expired_at intent n'"
  shows "prepareIntent isAddress sha256 registry v (mk_date n') st = Inl (IntentInvalid INVALID_INTENT_TIME)"
  using intent_again [OF assms(1,2)] assms(3) by (simp add: prepareIntent_def)

lemma assertContext_again:
  assumes "assertContext r input code = Inr (su, tx)" "sp_intent (lr_current r2) = sp_intent (lr_current r)"
    and "sp_submission (lr_current r) \<in> {None, sp_submission (lr_current r2)}"
  shows "assertContext r2 input code = Inr (su, tx)"
proof -
  have r: "sp_submission (lr_current r) = Some su" using assertContext_sound [OF assms(1)] ..
  then have "sp_submission (lr_current r2) = Some su" using assms(3) by simp
  with r show ?thesis using assms(1) by (simp only: assertContext_def Let_def assms(2) option.case)
qed

lemma broadcast_reads:
  assumes "recordWalletBroadcastObservation isAddress sha256 v now st = Inr (s, st')"
  shows "\<exists>i r su bo fp t n. records st i = Some r \<and>
     recordParsedBroadcast isAddress sha256 r i fp su bo t n st = Inr (s, st') \<and> sp_submission (lr_current r) = Some su \<and>
     (\<forall>n' st2 r2. records st2 i = Some r2 \<longrightarrow> sp_intent (lr_current r2) = sp_intent (lr_current r) \<longrightarrow>
        sp_submission (lr_current r) \<in> {None, sp_submission (lr_current r2)} \<longrightarrow>
        recordWalletBroadcastObservation isAddress sha256 v (mk_date n') st2 = recordParsedBroadcast isAddress sha256 r2 i fp su bo t n' st2)"
  using assms
  unfolding recordWalletBroadcastObservation_def Let_def res_bind_eq_Inr require_eq_Inr recordFor_iff jsval.inject
      split_paired_Ex prod.case
  apply (elim exE conjE, hypsubst)
  apply (rule exI)+
  apply (rule conjI, assumption)
  apply (rule conjI, assumption)
  apply (rule conjI)
   apply (rule assertContext_sound [THEN conjunct1], assumption)
  apply (intro allI impI)
  apply (frule assertContext_again, assumption, assumption)
  apply (simp only: recordFor_def jsval.case of_option_simps res_bind.simps require_simps simp_thms refl prod.case
      lc_serverTime_date)
  done

lemma broadcast_repeats:
  assumes "recordWalletBroadcastObservation isAddress sha256 v now st = Inr (s, st')"
  shows "repeats (\<lambda>n. recordWalletBroadcastObservation isAddress sha256 v (mk_date n)) (\<lambda>_. True) s st'"
proof -
  obtain i r su bo fp t n where r: "records st i = Some r"
      and b: "recordParsedBroadcast isAddress sha256 r i fp su bo t n st = Inr (s, st')"
      and su: "sp_submission (lr_current r) = Some su"
      and reads: "\<And>n' st2 r2. records st2 i = Some r2 \<Longrightarrow> sp_intent (lr_current r2) = sp_intent (lr_current r) \<Longrightarrow>
        sp_submission (lr_current r) \<in> {None, sp_submission (lr_current r2)} \<Longrightarrow>
        recordWalletBroadcastObservation isAddress sha256 v (mk_date n') st2 = recordParsedBroadcast isAddress sha256 r2 i fp su bo t n' st2"
    using broadcast_reads [OF assms] by (elim exE conjE) (rule that; blast)
  show ?thesis
  proof (cases "lr_broadcastReplay r")
    case None
    then have new: "recordNewBroadcast isAddress sha256 r i fp su bo t n st = Inr (s, st')"
      using b by (simp add: recordParsedBroadcast_def)
    note c = broadcastNew_cases [OF new]
    note f = makeSnapshot_fields [OF c(4)]
    let ?r = "r\<lparr>lr_current := s, lr_broadcastReplay := Some (bo_observationId bo, fp, s)\<rparr>"
    show ?thesis
    proof (rule repeatsI [of _ i ?r])
      fix n' and st2 :: ProtocolState and r2 :: LifecycleRecord assume r2: "records st2 i = Some r2" "replays_kept ?r r2"
      then have "sp_intent (lr_current r2) = sp_intent (lr_current r)"
          "sp_submission (lr_current r) \<in> {None, sp_submission (lr_current r2)}"
          "lr_broadcastReplay r2 = Some (bo_observationId bo, fp, s)"
        using su by (simp_all add: replays_kept_def f)
      then show "recordWalletBroadcastObservation isAddress sha256 v (mk_date n') st2 = Inr (lr_current r2, st2)"
        using reads [OF r2(1)] by (simp add: recordParsedBroadcast_def)
    qed (simp_all add: c(5))
  next
    case (Some x)
    obtain oid fp' s' where x: "x = (oid, fp', s')" by (cases x)
    have same: "oid = bo_observationId bo" "fp' = fp" "s = lr_current r" "st' = st"
      using b Some x by (simp_all add: recordParsedBroadcast_def split: if_splits)
    show ?thesis
    proof (rule repeatsI [of _ i r])
      fix n' and st2 :: ProtocolState and r2 :: LifecycleRecord assume r2: "records st2 i = Some r2" "replays_kept r r2"
      then have "lr_broadcastReplay r2 = Some x" using Some by (simp add: replays_kept_def)
      then show "recordWalletBroadcastObservation isAddress sha256 v (mk_date n') st2 = Inr (lr_current r2, st2)"
        using reads [OF r2(1)] r2(2) x same(1,2) by (simp add: recordParsedBroadcast_def replays_kept_def)
    qed (simp_all add: r same)
  qed
qed

lemma reconciliation_reads:
  assumes "recordReconciliationObservation isAddress sha256 v now st = Inr (s, st')"
  shows "\<exists>i r su ro t. records st i = Some r \<and>
     reconcileObservation isAddress sha256 r i ro t now st = Inr (s, st') \<and> sp_submission (lr_current r) = Some su \<and>
     (\<forall>n' st2 r2. records st2 i = Some r2 \<longrightarrow> sp_intent (lr_current r2) = sp_intent (lr_current r) \<longrightarrow>
        sp_submission (lr_current r) \<in> {None, sp_submission (lr_current r2)} \<longrightarrow>
        recordReconciliationObservation isAddress sha256 v (mk_date n') st2 = reconcileObservation isAddress sha256 r2 i ro t (mk_date n') st2)"
  using assms
  unfolding recordReconciliationObservation_def Let_def res_bind_eq_Inr require_eq_Inr recordFor_iff jsval.inject
      split_paired_Ex prod.case
  apply (elim exE conjE, hypsubst)
  apply (rule exI)+
  apply (rule conjI, assumption)
  apply (rule conjI, assumption)
  apply (rule conjI)
   apply (rule assertContext_sound [THEN conjunct1], assumption)
  apply (intro allI impI)
  apply (frule assertContext_again, assumption, assumption)
  apply (simp only: recordFor_def jsval.case of_option_simps res_bind.simps require_simps simp_thms refl prod.case
      lc_serverTime_date)
  done

lemma reconcile_reads:
  assumes "reconcileObservation isAddress sha256 r i ro t (mk_date n) st = Inr (s, st')"
  shows "\<exists>fp bo. sp_broadcastObservation (lr_current r) = Some bo \<and>
     (\<forall>n' st2 r2. n \<le> n' \<longrightarrow> sp_broadcastObservation (lr_current r2) = Some bo \<longrightarrow>
        reconcileObservation isAddress sha256 r2 i ro t (mk_date n') st2 =
          (case lr_reconciliationReplays r2 (ro_observationId ro) of
             Some (fp', _) \<Rightarrow> if fp' \<noteq> fp then Inl (lc_fail OBSERVATION_REPLAY_CONFLICT) else Inr (lr_current r2, st2)
           | None \<Rightarrow> recordNewReconciliation isAddress sha256 r2 i fp ro t st2))"
proof -
  obtain bo where bo: "sp_broadcastObservation (lr_current r) = Some bo"
    using assms by (cases "sp_broadcastObservation (lr_current r)") (auto simp: reconcileObservation_def)
  have facts: "\<not> time_less (Some t) (date_parse (bo_observedAt bo))" "\<not> t > n"
      "observation_consistent (ro_outcome ro) (map_option dec_val (ro_transactionPosition ro)) (dec_val (ro_finalizedPosition ro))
         (ro_effectEvidenceSha256 ro) (ro_failureEvidenceSha256 ro) (ro_sourceEvidenceSha256 ro)"
    using assms unfolding reconcileObservation_def Let_def bo option.case lc_serverTime_date
    by (auto simp: res_simps split: if_splits)
  have time: "\<not> t > n'" if "n \<le> n'" for n' using facts(2) that by simp
  show ?thesis unfolding reconcileObservation_def Let_def
    by (rule exI, rule exI, rule conjI, rule bo, intro allI impI,
      simp only: facts time lc_serverTime_date option.case if_False res_bind.simps require_simps simp_thms)
qed

lemma reconciliation_repeats:
  assumes "recordReconciliationObservation isAddress sha256 v (mk_date n) st = Inr (s, st')"
  shows "repeats (\<lambda>n. recordReconciliationObservation isAddress sha256 v (mk_date n)) (\<lambda>n'. n \<le> n') s st'"
proof -
  obtain i r su ro t where r: "records st i = Some r"
      and b: "reconcileObservation isAddress sha256 r i ro t (mk_date n) st = Inr (s, st')"
      and su: "sp_submission (lr_current r) = Some su"
      and outer: "\<And>n' st2 r2. records st2 i = Some r2 \<Longrightarrow> sp_intent (lr_current r2) = sp_intent (lr_current r) \<Longrightarrow>
        sp_submission (lr_current r) \<in> {None, sp_submission (lr_current r2)} \<Longrightarrow>
        recordReconciliationObservation isAddress sha256 v (mk_date n') st2 = reconcileObservation isAddress sha256 r2 i ro t (mk_date n') st2"
    using reconciliation_reads [OF assms] by (elim exE conjE) (rule that; blast)
  obtain fp bo where bo: "sp_broadcastObservation (lr_current r) = Some bo"
      and inner: "\<And>n' st2 r2. n \<le> n' \<Longrightarrow> sp_broadcastObservation (lr_current r2) = Some bo \<Longrightarrow>
        reconcileObservation isAddress sha256 r2 i ro t (mk_date n') st2 =
          (case lr_reconciliationReplays r2 (ro_observationId ro) of
             Some (fp', _) \<Rightarrow> if fp' \<noteq> fp then Inl (lc_fail OBSERVATION_REPLAY_CONFLICT) else Inr (lr_current r2, st2)
           | None \<Rightarrow> recordNewReconciliation isAddress sha256 r2 i fp ro t st2)"
    using reconcile_reads [OF b] by (elim exE conjE) (rule that; blast)
  have again: "recordReconciliationObservation isAddress sha256 v (mk_date n') st2 = Inr (lr_current r2, st2)"
    if "n \<le> n'" "records st2 i = Some r2" "sp_intent (lr_current r2) = sp_intent (lr_current r)"
      "sp_submission (lr_current r2) = Some su" "sp_broadcastObservation (lr_current r2) = Some bo"
      "lr_reconciliationReplays r2 (ro_observationId ro) = Some (fp, x)"
    for n' and st2 :: ProtocolState and r2 :: LifecycleRecord and x
    using outer [OF that(2,3)] inner [OF that(1,5)] that(4,6) su by simp
  show ?thesis
  proof (cases "lr_reconciliationReplays r (ro_observationId ro)")
    case None
    then have new: "recordNewReconciliation isAddress sha256 r i fp ro t st = Inr (s, st')"
      using b inner [OF order_refl bo] by simp
    note c = reconciliationNew_cases [OF new]
    note f = makeSnapshot_fields [OF c(6)]
    obtain p b' where st': "st' = commitEvidenceDigests
       (reconciliationClaims (ro_sourceEvidenceSha256 ro) (ro_effectEvidenceSha256 ro) (ro_failureEvidenceSha256 ro) fp)
       (st\<lparr>records := (records st)(i \<mapsto>
             r\<lparr>lr_current := s, lr_reconciliationReplays := (lr_reconciliationReplays r)(ro_observationId ro \<mapsto> (fp, s)),
               lr_lastTransactionPosition := p, lr_lastTransactionBlockId := b',
               lr_lastFinalizedPosition := Some (ro_finalizedPosition ro),
               lr_lastFinalizedBlockId := Some (ro_finalizedBlockId ro),
               lr_lastReconciliationObservedAt := Some (ro_observedAt ro)\<rparr>),
           observationOwners := (observationOwners st)(ro_observationId ro \<mapsto> i)\<rparr>)"
      (is "_ = commitEvidenceDigests _ (st\<lparr>records := (records st)(i \<mapsto> ?r), observationOwners := _\<rparr>)")
      using c(7) by blast
    show ?thesis
    proof (rule repeatsI [of _ i ?r])
      fix n' and st2 :: ProtocolState and r2 :: LifecycleRecord assume r2: "n \<le> n'" "records st2 i = Some r2" "replays_kept ?r r2"
      then show "recordReconciliationObservation isAddress sha256 v (mk_date n') st2 = Inr (lr_current r2, st2)"
        by (intro again [of _ _ _ s]) (simp_all add: replays_kept_def f su bo extends_def)
    qed (simp_all add: st')
  next
    case (Some x)
    obtain fp' s' where x: "x = (fp', s')" by (cases x)
    have same: "fp' = fp" "s = lr_current r" "st' = st"
      using b inner [OF order_refl bo] Some x by (simp_all split: if_splits)
    show ?thesis
    proof (rule repeatsI [of _ i r])
      fix n' and st2 :: ProtocolState and r2 :: LifecycleRecord assume r2: "n \<le> n'" "records st2 i = Some r2" "replays_kept r r2"
      then have "lr_reconciliationReplays r2 (ro_observationId ro) = Some (fp, s')"
        using Some x same(1) by (simp add: replays_kept_def extends_def)
      then show "recordReconciliationObservation isAddress sha256 v (mk_date n') st2 = Inr (lr_current r2, st2)"
        using r2 su bo by (intro again [of _ _ _ s']) (simp_all add: replays_kept_def)
    qed (simp_all add: r same)
  qed
qed

lemma run_operation_eqs:
  "run_operation isAddress sha256 registry (PrepareIntent v now) = prepareIntent isAddress sha256 registry v now"
  "run_operation isAddress sha256 registry (BindSubmission v now) = bindWalletSignedSubmission isAddress sha256 v now"
  "run_operation isAddress sha256 registry (RecordBroadcast v now) = recordWalletBroadcastObservation isAddress sha256 v now"
  "run_operation isAddress sha256 registry (RecordReconciliation v now) =
     recordReconciliationObservation isAddress sha256 v now"
  by (auto simp only: run_operation.simps)

text \<open>The same call at another server time, and whether it presents an intent that has expired by then.\<close>

fun at_time :: "int \<Rightarrow> lifecycle_operation \<Rightarrow> lifecycle_operation" where
  "at_time n (PrepareIntent v _) = PrepareIntent v (mk_date n)"
| "at_time n (BindSubmission v _) = BindSubmission v (mk_date n)"
| "at_time n (RecordBroadcast v _) = RecordBroadcast v (mk_date n)"
| "at_time n (RecordReconciliation v _) = RecordReconciliation v (mk_date n)"

fun presents_expired :: "(string \<Rightarrow> bool) \<Rightarrow> SupportedAssetRegistrySnapshot \<Rightarrow> int \<Rightarrow> int \<Rightarrow> lifecycle_operation \<Rightarrow> bool" where
  "presents_expired isAddress registry n n' (PrepareIntent v _) =
     (case parseDormantMainnetFinancialActionIntent isAddress registry v (mk_date n) of
        Inl _ \<Rightarrow> False | Inr intent \<Rightarrow> expired_at intent n')"
| "presents_expired _ _ _ _ _ = False"

lemma run_repeats:
  assumes "run_operation isAddress sha256 registry (at_time n operation) st = Inr (s, st')"
  shows "repeats (\<lambda>n'. run_operation isAddress sha256 registry (at_time n' operation))
    (\<lambda>n'. n \<le> n' \<and> \<not> presents_expired isAddress registry n n' operation) s st'"
proof (cases operation)
  case (PrepareIntent v now)
  note run = assms [unfolded PrepareIntent at_time.simps run_operation_eqs]
  obtain intent where p: "parseDormantMainnetFinancialActionIntent isAddress registry v (mk_date n) = Inr intent"
    using prepare_parses [OF run] ..
  show ?thesis
    unfolding PrepareIntent at_time.simps run_operation_eqs presents_expired.simps p sum.case by (rule prepare_repeats [OF run p])
next
  case (BindSubmission v now)
  show ?thesis
    using bind_repeats [OF assms [unfolded BindSubmission at_time.simps run_operation_eqs]]
    unfolding BindSubmission at_time.simps run_operation_eqs repeats_def by blast
next
  case (RecordBroadcast v now)
  show ?thesis
    using broadcast_repeats [OF assms [unfolded RecordBroadcast at_time.simps run_operation_eqs]]
    unfolding RecordBroadcast at_time.simps run_operation_eqs repeats_def by blast
next
  case (RecordReconciliation v now)
  show ?thesis
    using reconciliation_repeats [OF assms [unfolded RecordReconciliation at_time.simps run_operation_eqs]]
    unfolding RecordReconciliation at_time.simps run_operation_eqs repeats_def by blast
qed

lemma run_late:
  assumes "presents_expired isAddress registry n n' operation" "n \<le> n'"
  shows "run_operation isAddress sha256 registry (at_time n' operation) st = Inl (IntentInvalid INVALID_INTENT_TIME)"
  using assms(1) prepare_late [OF _ assms(2)] by (cases operation) (auto split: sum.splits)

subsection \<open>The stage machine\<close>

text \<open>A specification that only knows, for each intent, its stage, its revision and the hash of its
  last snapshot. The snapshot is the label of a step.\<close>

type_synonym stage_view = "string \<Rightarrow> (DormantMainnetFinancialActionLifecycleStage \<times> nat \<times> string) option"

definition stage_entry :: "snapshot \<Rightarrow> DormantMainnetFinancialActionLifecycleStage \<times> nat \<times> string" where
  "stage_entry s = (sp_stage s, sp_revision s, sp_snapshotSha256 s)"

definition stage_view :: "ProtocolState \<Rightarrow> stage_view" where
  "stage_view st i = map_option (\<lambda>r. stage_entry (lr_current r)) (records st i)"

inductive stage_machine :: "stage_view \<Rightarrow> snapshot \<Rightarrow> stage_view \<Rightarrow> bool" where
  opened: "view (in_intentId (sp_intent s)) = None \<Longrightarrow> sp_stage s = PREPARED \<Longrightarrow> sp_revision s = 1 \<Longrightarrow>
    sp_previousSnapshotSha256 s = None \<Longrightarrow> stage_machine view s (view(in_intentId (sp_intent s) \<mapsto> stage_entry s))"
| advanced: "view (in_intentId (sp_intent s)) = Some (stage, n, hash) \<Longrightarrow> stage_edge stage (sp_stage s) \<Longrightarrow>
    sp_revision s = Suc n \<Longrightarrow> sp_previousSnapshotSha256 s = Some hash \<Longrightarrow>
    stage_machine view s (view(in_intentId (sp_intent s) \<mapsto> stage_entry s))"

lemma moves_stage_machine:
  assumes "moves st s st'"
  shows "stage_machine (stage_view st) s (stage_view st')"
proof -
  obtain i r where m: "records st' = (records st)(i \<mapsto> r)" "lr_current r = s" "record_ok st' i r"
    "(case records st i of
           None \<Rightarrow> sp_stage s = PREPARED \<and> sp_previousSnapshotSha256 s = None
         | Some q \<Rightarrow>
             stage_edge (sp_stage (lr_current q)) (sp_stage s) \<and>
             sp_revision s = Suc (sp_revision (lr_current q)) \<and>
             sp_previousSnapshotSha256 s = Some (sp_snapshotSha256 (lr_current q)) \<and> replays_kept q r \<and>
             (\<forall>p. lr_lastFinalizedPosition q = Some p \<longrightarrow>
                (\<exists>p'. lr_lastFinalizedPosition r = Some p' \<and> dec_val p \<le> dec_val p')))"
    using assms unfolding moves_def by (elim exE conjE) (rule that; assumption)
  have i: "in_intentId (sp_intent s) = i" using m(2,3) by (simp add: record_ok_def Let_def)
  have shape: "snapshot_shape s" using m(2,3) by (simp add: record_ok_def Let_def)
  have view: "stage_view st' = (stage_view st)(in_intentId (sp_intent s) \<mapsto> stage_entry s)"
    by (rule ext) (simp add: stage_view_def m(1,2) i)
  show ?thesis
  proof (cases "records st i")
    case None
    then show ?thesis unfolding view
      using m(4) shape by (intro stage_machine.opened) (simp_all add: stage_view_def i snapshot_shape_def)
  next
    case (Some q)
    then show ?thesis unfolding view
      using m(4) by (intro stage_machine.advanced [of _ _ "sp_stage (lr_current q)" "sp_revision (lr_current q)"
        "sp_snapshotSha256 (lr_current q)"]) (simp_all add: stage_view_def i stage_entry_def)
  qed
qed

subsection \<open>Evidence of a record\<close>

text \<open>The evidence digests of the current snapshot, with what each stands for.\<close>

definition snapshot_evidence :: "snapshot \<Rightarrow> (EvidenceDigestRole \<times> string) list" where
  "snapshot_evidence c =
     (case sp_submission c of None \<Rightarrow> []
      | Some su \<Rightarrow> [(WALLET_SIGNED_PAYLOAD, su_walletSignedPayloadSha256 su),
                    (WALLET_SIGNATURE_EVIDENCE, su_walletSignatureEvidenceSha256 su)]) @
     (case sp_broadcastObservation c of None \<Rightarrow> []
      | Some bo \<Rightarrow> [(WALLET_BROADCAST_EVIDENCE, bo_evidenceSha256 bo)]) @
     (case sp_reconciliation c of None \<Rightarrow> []
      | Some ro \<Rightarrow> [(RECONCILIATION_SOURCE_EVIDENCE, ro_sourceEvidenceSha256 ro)] @
          (case ro_effectEvidenceSha256 ro of None \<Rightarrow> [] | Some d \<Rightarrow> [(RECONCILIATION_EFFECT_EVIDENCE, d)]) @
          (case ro_failureEvidenceSha256 ro of None \<Rightarrow> [] | Some d \<Rightarrow> [(RECONCILIATION_FAILURE_EVIDENCE, d)]))"

text \<open>
  The evidence of every report a record has accepted, the earlier reconciliation observations included: the
  digest, what it stands for, and the fingerprint of the submission or observation that presented it.
\<close>

inductive evidence_of :: "LifecycleRecord \<Rightarrow> string \<Rightarrow> EvidenceDigestRole \<Rightarrow> string \<Rightarrow> bool" for r where
  payload: "sp_submission (lr_current r) = Some su \<Longrightarrow>
    evidence_of r (su_walletSignedPayloadSha256 su) WALLET_SIGNED_PAYLOAD (su_submissionFingerprintSha256 su)"
| signature: "sp_submission (lr_current r) = Some su \<Longrightarrow>
    evidence_of r (su_walletSignatureEvidenceSha256 su) WALLET_SIGNATURE_EVIDENCE (su_submissionFingerprintSha256 su)"
| broadcast: "lr_broadcastReplay r = Some (oid, fp, s) \<Longrightarrow> sp_broadcastObservation s = Some bo \<Longrightarrow>
    evidence_of r (bo_evidenceSha256 bo) WALLET_BROADCAST_EVIDENCE fp"
| source: "lr_reconciliationReplays r oid = Some (fp, s) \<Longrightarrow> sp_reconciliation s = Some ro \<Longrightarrow>
    evidence_of r (ro_sourceEvidenceSha256 ro) RECONCILIATION_SOURCE_EVIDENCE fp"
| effect: "lr_reconciliationReplays r oid = Some (fp, s) \<Longrightarrow> sp_reconciliation s = Some ro \<Longrightarrow>
    ro_effectEvidenceSha256 ro = Some d \<Longrightarrow> evidence_of r d RECONCILIATION_EFFECT_EVIDENCE fp"
| failure: "lr_reconciliationReplays r oid = Some (fp, s) \<Longrightarrow> sp_reconciliation s = Some ro \<Longrightarrow>
    ro_failureEvidenceSha256 ro = Some d \<Longrightarrow> evidence_of r d RECONCILIATION_FAILURE_EVIDENCE fp"

text \<open>The invariant: the owner of each digest is the report that presented it, and the reports of the current
  snapshot are among those the record keeps.\<close>

definition broadcast_kept :: "ProtocolState \<Rightarrow> LifecycleRecord \<Rightarrow> bool" where
  "broadcast_kept st r =
     (case lr_broadcastReplay r of
        None \<Rightarrow> sp_broadcastObservation (lr_current r) = None
      | Some (oid, fp, s) \<Rightarrow>
          (case sp_broadcastObservation s of
             None \<Rightarrow> False
           | Some bo \<Rightarrow> sp_broadcastObservation (lr_current r) = Some bo \<and>
               evidenceDigestOwners st (bo_evidenceSha256 bo) = Some (WALLET_BROADCAST_EVIDENCE, fp)))"

definition observation_kept :: "ProtocolState \<Rightarrow> string \<Rightarrow> snapshot \<Rightarrow> bool" where
  "observation_kept st fp s =
     (case sp_reconciliation s of
        None \<Rightarrow> False
      | Some ro \<Rightarrow>
          list_all (\<lambda>c. evidenceDigestOwners st (cl_digest c) = Some (claim_value c))
            (reconciliationClaims (ro_sourceEvidenceSha256 ro) (ro_effectEvidenceSha256 ro) (ro_failureEvidenceSha256 ro) fp))"

definition reports_kept :: "ProtocolState \<Rightarrow> LifecycleRecord \<Rightarrow> bool" where
  "reports_kept st r =
     (broadcast_kept st r \<and>
      (\<forall>oid fp s. lr_reconciliationReplays r oid = Some (fp, s) \<longrightarrow> observation_kept st fp s) \<and>
      pred_option (\<lambda>ro. \<exists>oid fp s. lr_reconciliationReplays r oid = Some (fp, s) \<and> sp_reconciliation s = Some ro)
        (sp_reconciliation (lr_current r)))"

lemma reports_kept_extend:
  assumes "reports_kept st r" "owners_extend st st'"
  shows "reports_kept st' r"
proof -
  have e: "evidenceDigestOwners st k = Some w \<Longrightarrow> evidenceDigestOwners st' k = Some w" for k w
    using assms(2) unfolding owners_extend_def by (blast dest: extendsD)
  have "observation_kept st fp s \<Longrightarrow> observation_kept st' fp s" for fp s
    by (auto simp: observation_kept_def list_all_iff e split: option.splits)
  moreover have "broadcast_kept st r \<Longrightarrow> broadcast_kept st' r"
    by (auto simp: broadcast_kept_def e split: option.splits)
  ultimately show ?thesis using assms(1) unfolding reports_kept_def by blast
qed

definition all_kept :: "ProtocolState \<Rightarrow> bool" where
  "all_kept st = (\<forall>i r. records st i = Some r \<longrightarrow> reports_kept st r)"

lemma all_kept_update:
  "all_kept st \<Longrightarrow> moves st s st' \<Longrightarrow> records st' = (records st)(i \<mapsto> r) \<Longrightarrow> reports_kept st' r \<Longrightarrow> all_kept st'"
  using reports_kept_extend unfolding all_kept_def moves_def by (metis fun_upd_apply option.inject)

lemma prepareNew_kept:
  assumes "prepareNewIntent isAddress sha256 intent fp st = Inr (s, st')" "records st (in_intentId intent) = None" "all_kept st"
  shows "all_kept st'"
proof -
  note c = prepareNew_cases [OF assms(1)]
  obtain t where m: "makeSnapshot isAddress sha256 None intent fp PREPARED t None None None = Inr s" using c(3) ..
  note f = makeSnapshot_fields [OF m]
  show ?thesis
    by (rule all_kept_update [OF assms(3) prepareNew_moves [OF assms(1,2)], of "in_intentId intent" "newRecord s"])
      (simp_all add: c(4) reports_kept_def broadcast_kept_def newRecord_def f)
qed

lemma bindNew_kept:
  assumes "bindNewSubmission isAddress sha256 r i su t n st = Inr (s, st')"
    and "records st i = Some r" "record_ok st i r" "submission_for r i su" "all_kept st"
  shows "all_kept st'"
proof -
  note c = bindNew_cases [OF assms(1)]
  note f = makeSnapshot_fields [OF c(4)]
  note m = bindNew_moves [OF assms(1-4)]
  have "reports_kept st' r" using assms(2,5) m reports_kept_extend unfolding all_kept_def moves_def by blast
  moreover have "sp_broadcastObservation (lr_current r) = None" "lr_broadcastReplay r = None"
    using assms(3) c(1) by (simp_all add: record_ok_def snapshot_shape_def Let_def)
  ultimately have "reports_kept st' (r\<lparr>lr_current := s, lr_submissionReplay := Some (su_submissionFingerprintSha256 su, s)\<rparr>)"
    by (simp add: reports_kept_def broadcast_kept_def f)
  then show ?thesis by (rule all_kept_update [OF assms(5) m, rotated]) (simp add: c(5))
qed

lemma broadcastNew_kept:
  assumes "recordNewBroadcast isAddress sha256 r i fp su bo t n st = Inr (s, st')"
    and "records st i = Some r" "record_ok st i r" "sp_submission (lr_current r) = Some su" "bo_intentId bo = i" "all_kept st"
  shows "all_kept st'"
proof -
  note c = broadcastNew_cases [OF assms(1)]
  note f = makeSnapshot_fields [OF c(4)]
  note m = broadcastNew_moves [OF assms(1-5)]
  have owned: "list_all (\<lambda>k. evidenceDigestOwners st' (cl_digest k) = Some (claim_value k)) (broadcastClaims (bo_evidenceSha256 bo) fp)"
    unfolding c(5) by (rule commit_owned) (simp add: broadcastClaims_def)
  have "reports_kept st' r" using assms(2,6) m reports_kept_extend unfolding all_kept_def moves_def by blast
  then have "reports_kept st' (r\<lparr>lr_current := s, lr_broadcastReplay := Some (bo_observationId bo, fp, s)\<rparr>)"
    using owned by (simp add: reports_kept_def broadcast_kept_def f broadcastClaims_def claim_value_def)
  then show ?thesis by (rule all_kept_update [OF assms(6) m, rotated]) (simp add: c(5))
qed

lemma reconciliationNew_kept:
  assumes "recordNewReconciliation isAddress sha256 r i fp ro t st = Inr (s, st')"
    and "records st i = Some r" "record_ok st i r" "sp_submission (lr_current r) = Some su"
    and "sp_broadcastObservation (lr_current r) \<noteq> None" "ro_intentId ro = i" "lr_reconciliationReplays r (ro_observationId ro) = None"
    and consistent: "observation_consistent (ro_outcome ro) (map_option dec_val (ro_transactionPosition ro))
      (dec_val (ro_finalizedPosition ro)) (ro_effectEvidenceSha256 ro) (ro_failureEvidenceSha256 ro) (ro_sourceEvidenceSha256 ro)"
    and "all_kept st"
  shows "all_kept st'"
proof -
  note c = reconciliationNew_cases [OF assms(1)]
  note f = makeSnapshot_fields [OF c(6)]
  note m = reconciliationNew_moves [OF assms(1-8)]
  let ?claims = "reconciliationClaims (ro_sourceEvidenceSha256 ro) (ro_effectEvidenceSha256 ro) (ro_failureEvidenceSha256 ro) fp"
  obtain p b where st': "st' = commitEvidenceDigests ?claims
       (st\<lparr>records := (records st)(i \<mapsto>
             r\<lparr>lr_current := s, lr_reconciliationReplays := (lr_reconciliationReplays r)(ro_observationId ro \<mapsto> (fp, s)),
               lr_lastTransactionPosition := p, lr_lastTransactionBlockId := b,
               lr_lastFinalizedPosition := Some (ro_finalizedPosition ro),
               lr_lastFinalizedBlockId := Some (ro_finalizedBlockId ro),
               lr_lastReconciliationObservedAt := Some (ro_observedAt ro)\<rparr>),
           observationOwners := (observationOwners st)(ro_observationId ro \<mapsto> i)\<rparr>)" (is "_ = commitEvidenceDigests _ (st\<lparr>records := (records st)(i \<mapsto> ?r), observationOwners := _\<rparr>)")
    using c(7) by blast
  have owned: "list_all (\<lambda>k. evidenceDigestOwners st' (cl_digest k) = Some (claim_value k)) ?claims"
    unfolding st' by (rule commit_owned [OF reconciliation_claims_distinct [OF consistent]])
  have new: "observation_kept st' fp s" using owned by (simp add: observation_kept_def f)
  have "reports_kept st' r" using assms(2,9) m reports_kept_extend unfolding all_kept_def moves_def by blast
  moreover have "broadcast_kept st' ?r = broadcast_kept st' r" by (auto simp: broadcast_kept_def f split: option.splits)
  ultimately have "reports_kept st' ?r" using new by (auto simp: reports_kept_def f split: if_splits)
  then show ?thesis by (rule all_kept_update [OF assms(9) m, rotated]) (simp add: st')
qed

lemma step_kept:
  assumes "state_ok st" "all_kept st" "run_operation isAddress sha256 registry operation st = Inr (s, st')"
  shows "all_kept st'"
proof -
  have ok: "records st i = Some r \<Longrightarrow> record_ok st i r" for i r using assms(1) by (simp add: state_ok_def)
  show ?thesis
  proof (cases operation)
    case (PrepareIntent v now)
    note run = assms(3) [unfolded PrepareIntent run_operation_eqs]
    from run show ?thesis by (cases rule: prepare_cases) (use assms(2) prepareNew_kept in blast)+
  next
    case (BindSubmission v now)
    note run = assms(3) [unfolded BindSubmission run_operation_eqs]
    from run show ?thesis by (cases rule: bind_cases) (use assms(2) ok bindNew_kept in blast)+
  next
    case (RecordBroadcast v now)
    note run = assms(3) [unfolded RecordBroadcast run_operation_eqs]
    from run show ?thesis by (cases rule: broadcast_cases) (use assms(2) ok broadcastNew_kept in blast)+
  next
    case (RecordReconciliation v now)
    note run = assms(3) [unfolded RecordReconciliation run_operation_eqs]
    from run show ?thesis by (cases rule: reconciliation_cases) (use assms(2) ok reconciliationNew_kept in blast)+
  qed
qed

lemma reachable_kept: "reachable isAddress sha256 registry st \<Longrightarrow> all_kept st"
proof (induction rule: reachable.induct)
  case initial
  then show ?case by (simp add: all_kept_def initialState_def)
next
  case (step st operation s st')
  then show ?case using step_kept reachable_ok by blast
qed

lemma evidence_owned:
  assumes "record_ok st i r" "reports_kept st r" "evidence_of r d role fp"
  shows "evidenceDigestOwners st d = Some (role, fp)"
  using assms(3)
proof cases
  case (payload su)
  then show ?thesis using assms(1) by (simp add: record_ok_def Let_def submission_owned_def)
next
  case (signature su)
  then show ?thesis using assms(1) by (simp add: record_ok_def Let_def submission_owned_def)
next
  case (broadcast oid s bo)
  then show ?thesis using assms(2) by (simp add: reports_kept_def broadcast_kept_def)
next
  case (source oid s ro)
  then have "observation_kept st fp s" using assms(2) unfolding reports_kept_def by blast
  then show ?thesis using source by (simp add: observation_kept_def reconciliationClaims_def claim_value_def)
next
  case (effect oid s ro)
  then have "observation_kept st fp s" using assms(2) unfolding reports_kept_def by blast
  then show ?thesis using effect by (simp add: observation_kept_def reconciliationClaims_def claim_value_def)
next
  case (failure oid s ro)
  then have "observation_kept st fp s" using assms(2) unfolding reports_kept_def by blast
  then show ?thesis using failure by (simp add: observation_kept_def reconciliationClaims_def claim_value_def)
qed

lemma snapshot_evidence_of:
  assumes "reports_kept st r" "(role, d) \<in> set (snapshot_evidence (lr_current r))"
  shows "\<exists>fp. evidence_of r d role fp"
proof -
  consider su where "sp_submission (lr_current r) = Some su" "(role, d) \<in>
        {(WALLET_SIGNED_PAYLOAD, su_walletSignedPayloadSha256 su), (WALLET_SIGNATURE_EVIDENCE, su_walletSignatureEvidenceSha256 su)}"
    | bo where "sp_broadcastObservation (lr_current r) = Some bo" "(role, d) = (WALLET_BROADCAST_EVIDENCE, bo_evidenceSha256 bo)"
    | ro where "sp_reconciliation (lr_current r) = Some ro"
        "(role, d) = (RECONCILIATION_SOURCE_EVIDENCE, ro_sourceEvidenceSha256 ro) \<or>
         role = RECONCILIATION_EFFECT_EVIDENCE \<and> ro_effectEvidenceSha256 ro = Some d \<or>
         role = RECONCILIATION_FAILURE_EVIDENCE \<and> ro_failureEvidenceSha256 ro = Some d"
    using assms(2) by (cases "sp_submission (lr_current r)"; cases "sp_broadcastObservation (lr_current r)";
        cases "sp_reconciliation (lr_current r)") (auto simp: snapshot_evidence_def split: option.splits)
  then show ?thesis
  proof cases
    case 1
    then show ?thesis by (auto intro: evidence_of.intros)
  next
    case 2
    then obtain oid fp s where "lr_broadcastReplay r = Some (oid, fp, s)" "sp_broadcastObservation s = Some bo"
      using assms(1) by (auto simp: reports_kept_def broadcast_kept_def split: option.splits)
    then show ?thesis using 2(2) evidence_of.broadcast [of r oid fp s bo] by auto
  next
    case 3
    then obtain oid fp s where "lr_reconciliationReplays r oid = Some (fp, s)" "sp_reconciliation s = Some ro"
      using assms(1) by (auto simp: reports_kept_def)
    then show ?thesis using 3(2) evidence_of.source [of r oid fp s ro] evidence_of.effect [of r oid fp s ro d]
        evidence_of.failure [of r oid fp s ro d] by auto
  qed
qed

definition observation_ids :: "LifecycleRecord \<Rightarrow> string set" where
  "observation_ids r =
     {oid. lr_reconciliationReplays r oid \<noteq> None \<or>
           map_option bo_observationId (sp_broadcastObservation (lr_current r)) = Some oid}"

lemma record_observations_owned:
  assumes "record_ok st i r" "oid \<in> observation_ids r"
  shows "observationOwners st oid = Some i"
  using assms by (cases "sp_broadcastObservation (lr_current r)")
    (auto simp: observation_ids_def record_ok_def Let_def broadcast_owned_def)

lemma record_transaction_owned:
  assumes "record_ok st i r" "map_option su_chainQualifiedTransactionId (sp_submission (lr_current r)) = Some t"
  shows "transactionOwners st t = Some i"
  using assms by (cases "sp_submission (lr_current r)")
    (simp_all add: record_ok_def Let_def submission_owned_def)

lemma reachable_record: "reachable isAddress sha256 registry st \<Longrightarrow> records st i = Some r \<Longrightarrow> record_ok st i r"
  using reachable_ok unfolding state_ok_def by blast

subsection \<open>A life of one action\<close>

definition sample_transaction :: string where
  "sample_transaction = ''0x'' @ replicate 64 (CHR ''3'')"

definition sample_evidence :: "char \<Rightarrow> string" where
  "sample_evidence c = replicate 64 c"

definition sample_report :: "string list \<Rightarrow> jsval list \<Rightarrow> jsval" where
  "sample_report keys vs = mk_object (zip keys vs)"

definition sample_prepare :: lifecycle_operation where
  "sample_prepare = PrepareIntent sample_intent_input (mk_date sample_now)"

definition sample_bind :: lifecycle_operation where
  "sample_bind = BindSubmission (sample_report SUBMISSION_KEYS
     [js_int 1, JString (sample_uuid ''1''), JString sample_digest, JString ''eip155:1'',
      JString (''eip155:1:0x'' @ replicate 40 (CHR ''1'')), JString sample_transaction, JString (sample_evidence (CHR ''a'')),
      JString (sample_evidence (CHR ''b'')), JString ''2026-01-01T00:01:00.000Z'']) (mk_date (sample_now + 60000))"

definition sample_broadcast :: lifecycle_operation where
  "sample_broadcast = RecordBroadcast (sample_report BROADCAST_KEYS
     [js_int 1, JString (sample_uuid ''8''), JString (sample_uuid ''1''), JString sample_digest, JString ''eip155:1'',
      JString sample_transaction, JString ''WALLET_REPORTED_SUBMITTED'', JString (sample_evidence (CHR ''c'')),
      JString ''2026-01-01T00:02:00.000Z'']) (mk_date (sample_now + 120000))"

definition sample_reconcile :: lifecycle_operation where
  "sample_reconcile = RecordReconciliation (sample_report RECONCILIATION_KEYS
     [js_int 1, JString (sample_uuid ''9''), JString (sample_uuid ''1''), JString sample_digest, JString ''eip155:1'',
      JString sample_transaction, JString ''FINALIZED_SUCCESS'', JString ''100'',
      JString (''0x'' @ sample_evidence (CHR ''4'')), JString ''120'', JString (''0x'' @ sample_evidence (CHR ''5'')),
      JString (sample_evidence (CHR ''d'')), JNull, JString (sample_evidence (CHR ''e'')),
      JString ''2026-01-01T00:10:00.000Z'']) (mk_date (sample_now + 600000))"

definition sample_run :: "lifecycle_operation list \<Rightarrow> ProtocolState" where
  "sample_run ops = run_all (\<lambda>s. True) (\<lambda>bytes. sample_digest) sample_registry ops initialState"

lemma sample_run_reachable: "reachable (\<lambda>s. True) (\<lambda>bytes. sample_digest) sample_registry (sample_run ops)"
  unfolding sample_run_def by (rule reachable_run_all [OF reachable.initial])

definition sample_finalized :: ProtocolState where
  "sample_finalized = sample_run [sample_prepare, sample_bind, sample_broadcast, sample_reconcile]"

lemma sample_finalized_record:
  "case records sample_finalized (sample_uuid ''1'') of None \<Rightarrow> False
   | Some r \<Rightarrow> sp_stage (lr_current r) = FINALIZED_SUCCESS \<and> sp_revision (lr_current r) = 4 \<and> sp_terminal (lr_current r)"
  by code_simp

lemma sample_finalized_evidence:
  "case records sample_finalized (sample_uuid ''1'') of None \<Rightarrow> False
   | Some r \<Rightarrow> (RECONCILIATION_EFFECT_EVIDENCE, sample_evidence (CHR ''d'')) \<in> set (snapshot_evidence (lr_current r))"
  by code_simp

lemma sample_steps:
  "accepted_as (\<lambda>b. sp_stage (fst b) = BROADCAST_OUTCOME_AMBIGUOUS)
     (run_operation (\<lambda>s. True) (\<lambda>bytes. sample_digest) sample_registry sample_broadcast
        (sample_run [sample_prepare, sample_bind]))"
  by code_simp

subsection \<open>Properties\<close>

text \<open>C5. The lifecycle protocol refines the stage machine: from every reachable state, a call that
  succeeds either returns the current snapshot of its intent and changes nothing, or makes exactly
  one step of the machine: a new intent is PREPARED at revision 1, and an existing one moves along
  an edge of the stage graph, one revision further, with the hash of the snapshot before it.\<close>

theorem lifecycle_refines_stage_machine:
  assumes "reachable isAddress sha256 registry st"
    and "run_operation isAddress sha256 registry operation st = Inr (s, st')"
  shows "(st' = st \<and> stage_view st (in_intentId (sp_intent s)) = Some (stage_entry s)) \<or>
    stage_machine (stage_view st) s (stage_view st')"
  using step_moves [OF reachable_ok [OF assms(1)] assms(2)]
proof
  assume "st' = st \<and> (\<exists>i r. records st i = Some r \<and> s = lr_current r)"
  then obtain i r where r: "st' = st" "records st i = Some r" "s = lr_current r" by blast
  have "in_intentId (sp_intent s) = i"
    using reachable_record [OF assms(1) r(2)] by (simp add: record_ok_def Let_def r(3))
  then show ?thesis using r by (simp add: stage_view_def)
next
  assume "moves st s st'"
  then show ?thesis by (intro disjI2 moves_stage_machine)
qed

theorem lifecycle_refines_stage_machine_witness:
  "\<exists>s st'. run_operation (\<lambda>s. True) (\<lambda>bytes. sample_digest) sample_registry sample_broadcast
       (sample_run [sample_prepare, sample_bind]) = Inr (s, st') \<and> sp_stage s = BROADCAST_OUTCOME_AMBIGUOUS \<and>
     ((st' = sample_run [sample_prepare, sample_bind] \<and>
       stage_view (sample_run [sample_prepare, sample_bind]) (in_intentId (sp_intent s)) = Some (stage_entry s)) \<or>
      stage_machine (stage_view (sample_run [sample_prepare, sample_bind])) s (stage_view st'))"
proof -
  obtain b where b: "run_operation (\<lambda>s. True) (\<lambda>bytes. sample_digest) sample_registry sample_broadcast
      (sample_run [sample_prepare, sample_bind]) = Inr (fst b, snd b)" "sp_stage (fst b) = BROADCAST_OUTCOME_AMBIGUOUS"
    using accepted_asD [OF sample_steps] by (elim exE conjE) (rule that; simp only: prod.collapse)
  from b lifecycle_refines_stage_machine [OF sample_run_reachable b(1)] show ?thesis
    by (intro exI conjI)
qed

text \<open>C6. Reports may be delivered more than once, and late. A successful call delivered again, any number of
  calls later and at any later server time, succeeds, returns the current snapshot of its intent and changes
  nothing; a submission, a broadcast and an observation also after their intent has expired. Only the
  preparation of an intent that has expired by then is refused, as an intent outside its time.\<close>

theorem accepted_calls_repeat_harmlessly:
  assumes "reachable isAddress sha256 registry st"
    and "run_operation isAddress sha256 registry (at_time n operation) st = Inr (s, st1)"
    and "st2 = run_all isAddress sha256 registry later st1" and "n \<le> n'"
  shows "\<exists>i q r. records st1 i = Some q \<and> lr_current q = s \<and> records st2 i = Some r \<and>
    run_operation isAddress sha256 registry (at_time n' operation) st2 =
      (if presents_expired isAddress registry n n' operation then Inl (IntentInvalid INVALID_INTENT_TIME)
       else Inr (lr_current r, st2))"
proof -
  obtain i q where q: "records st1 i = Some q" "lr_current q = s"
      and again: "\<And>n' st2 r. n \<le> n' \<and> \<not> presents_expired isAddress registry n n' operation \<Longrightarrow>
        records st2 i = Some r \<Longrightarrow> replays_kept q r \<Longrightarrow>
        run_operation isAddress sha256 registry (at_time n' operation) st2 = Inr (lr_current r, st2)"
    using run_repeats [OF assms(2)] unfolding repeats_def by (elim exE conjE) (rule that; blast)
  have "state_ok st1" using reachable.step [OF assms(1,2)] by (rule reachable_ok)
  from run_all_progress [OF this q(1), of isAddress sha256 registry later, folded assms(3)] obtain r
    where r: "records st2 i = Some r" "progressed q r" by (elim exE conjE) (rule that)
  have "replays_kept q r" using r(2) by (simp add: progressed_def)
  then have "run_operation isAddress sha256 registry (at_time n' operation) st2 =
      (if presents_expired isAddress registry n n' operation then Inl (IntentInvalid INVALID_INTENT_TIME)
       else Inr (lr_current r, st2))"
    using again [OF _ r(1)] run_late [OF _ assms(4)] assms(4) by (simp split: if_split)
  with q r(1) show ?thesis by (intro exI conjI)
qed

text \<open>The broadcast of the sample, reported again a day after the intent expired.\<close>

theorem accepted_calls_repeat_harmlessly_witness:
  "\<exists>s st1 i q (r :: LifecycleRecord). run_operation (\<lambda>s. True) (\<lambda>bytes. sample_digest) sample_registry sample_broadcast
       (sample_run [sample_prepare, sample_bind]) = Inr (s, st1) \<and> records st1 i = Some q \<and> lr_current q = s \<and>
     run_operation (\<lambda>s. True) (\<lambda>bytes. sample_digest) sample_registry (at_time (sample_now + 86400000) sample_broadcast)
       (run_all (\<lambda>s. True) (\<lambda>bytes. sample_digest) sample_registry [sample_reconcile] st1) =
       Inr (lr_current r, run_all (\<lambda>s. True) (\<lambda>bytes. sample_digest) sample_registry [sample_reconcile] st1)"
proof -
  obtain b where b: "run_operation (\<lambda>s. True) (\<lambda>bytes. sample_digest) sample_registry sample_broadcast
      (sample_run [sample_prepare, sample_bind]) = Inr (fst b, snd b)"
    using accepted_asD [OF sample_steps] by (elim exE conjE) (rule that; simp only: prod.collapse)
  have call: "at_time (sample_now + 120000) sample_broadcast = sample_broadcast"
    unfolding sample_broadcast_def at_time.simps by (rule refl)
  have again: "run_operation (\<lambda>s. True) (\<lambda>bytes. sample_digest) sample_registry (at_time (sample_now + 120000) sample_broadcast)
      (sample_run [sample_prepare, sample_bind]) = Inr (fst b, snd b)"
    unfolding call by (rule b)
  have kind: "\<not> presents_expired (\<lambda>s. True) sample_registry n n' sample_broadcast" for n n'
    unfolding sample_broadcast_def presents_expired.simps by (rule notI)
  have late: "sample_now + 120000 \<le> sample_now + 86400000" by (rule add_left_mono) simp
  obtain i q and r :: LifecycleRecord where q: "records (snd b) i = Some q" "lr_current q = fst b"
      and r: "run_operation (\<lambda>s. True) (\<lambda>bytes. sample_digest) sample_registry (at_time (sample_now + 86400000) sample_broadcast)
        (run_all (\<lambda>s. True) (\<lambda>bytes. sample_digest) sample_registry [sample_reconcile] (snd b)) =
        Inr (lr_current r, run_all (\<lambda>s. True) (\<lambda>bytes. sample_digest) sample_registry [sample_reconcile] (snd b))"
    using accepted_calls_repeat_harmlessly [OF sample_run_reachable again refl late, of "[sample_reconcile]", unfolded if_not_P [OF kind]]
    by (elim exE conjE) (rule that)
  show ?thesis by (intro exI conjI) (rule b, rule q(1), rule q(2), rule r)
qed

text \<open>C13. Whatever calls follow, a record of a reachable state stays, with its intent and its prepared
  snapshot: a record in a terminal stage is never changed, a bound submission and a recorded
  broadcast are never replaced, the revision never decreases and the record changes only with
  it, and the finalized position never goes back.\<close>

theorem records_only_progress:
  assumes "reachable isAddress sha256 registry st" "records st i = Some q"
  shows "\<exists>r. records (run_all isAddress sha256 registry later st) i = Some r \<and>
    lr_prepared r = lr_prepared q \<and> sp_intent (lr_current r) = sp_intent (lr_current q) \<and>
    (terminal_stage (sp_stage (lr_current q)) \<longrightarrow> r = q) \<and>
    sp_submission (lr_current q) \<in> {None, sp_submission (lr_current r)} \<and>
    sp_broadcastObservation (lr_current q) \<in> {None, sp_broadcastObservation (lr_current r)} \<and>
    sp_revision (lr_current q) \<le> sp_revision (lr_current r) \<and>
    (sp_revision (lr_current r) = sp_revision (lr_current q) \<longrightarrow> r = q) \<and>
    (\<forall>p. lr_lastFinalizedPosition q = Some p \<longrightarrow>
       (\<exists>p'. lr_lastFinalizedPosition r = Some p' \<and> dec_val p \<le> dec_val p'))"
proof -
  obtain r where r: "records (run_all isAddress sha256 registry later st) i = Some r" "progressed q r"
    using run_all_progress [OF reachable_ok [OF assms(1)] assms(2), of isAddress sha256 registry later] by (elim exE conjE) (rule that)
  have "sp_terminal (lr_current q) = terminal_stage (sp_stage (lr_current q))"
    using reachable_record [OF assms] by (simp add: record_ok_def Let_def snapshot_shape_def)
  with r show ?thesis by (intro exI [of _ r]) (simp add: progressed_def replays_kept_def)
qed

theorem records_only_progress_witness:
  "\<exists>q. records sample_finalized (sample_uuid ''1'') = Some q \<and> sp_stage (lr_current q) = FINALIZED_SUCCESS \<and>
     (\<forall>later. records (run_all (\<lambda>s. True) (\<lambda>bytes. sample_digest) sample_registry later sample_finalized)
        (sample_uuid ''1'') = Some q)"
proof -
  obtain q where q: "records sample_finalized (sample_uuid ''1'') = Some q" "sp_stage (lr_current q) = FINALIZED_SUCCESS"
    using sample_finalized_record by (cases "records sample_finalized (sample_uuid ''1'')") simp_all
  have "records (run_all (\<lambda>s. True) (\<lambda>bytes. sample_digest) sample_registry later sample_finalized)
      (sample_uuid ''1'') = Some q" for later
  proof -
    obtain r where "records (run_all (\<lambda>s. True) (\<lambda>bytes. sample_digest) sample_registry later sample_finalized)
          (sample_uuid ''1'') = Some r" "terminal_stage (sp_stage (lr_current q)) \<longrightarrow> r = q"
      using records_only_progress [OF sample_run_reachable q(1) [unfolded sample_finalized_def], of later,
          folded sample_finalized_def] by (elim exE conjE) (rule that)
    then show ?thesis using q(2) by (simp add: terminal_stage_def)
  qed
  with q show ?thesis by (intro exI [of _ q]) simp
qed

text \<open>C14. In a reachable state every identity has one owner: two records with the same
  transaction, or with a common observation identifier, are the same record; two records with the
  same idempotency or replay-protection scope have the same intent fingerprint; and an evidence digest belongs
  to one report: whenever it appears among the reports accepted for any record, earlier reconciliation
  observations and their effect and failure digests included, it stands for the same kind of evidence of the
  report with the same fingerprint. Every digest of a current snapshot is among these.\<close>

theorem identities_have_one_owner:
  assumes "reachable isAddress sha256 registry st" "records st i = Some a" "records st j = Some b"
  shows "(map_option su_chainQualifiedTransactionId (sp_submission (lr_current a)) = Some t \<longrightarrow>
     map_option su_chainQualifiedTransactionId (sp_submission (lr_current b)) = Some t \<longrightarrow> i = j) \<and>
    (observation_ids a \<inter> observation_ids b \<noteq> {} \<longrightarrow> i = j) \<and>
    (idempotencyScope (sp_intent (lr_current a)) = idempotencyScope (sp_intent (lr_current b)) \<or>
     replayProtectionScope (sp_intent (lr_current a)) = replayProtectionScope (sp_intent (lr_current b)) \<longrightarrow>
       sp_intentFingerprintSha256 (lr_current a) = sp_intentFingerprintSha256 (lr_current b)) \<and>
    (evidence_of a d role fp \<longrightarrow> evidence_of b d role' fp' \<longrightarrow> role = role' \<and> fp = fp') \<and>
    ((kind, digest) \<in> set (snapshot_evidence (lr_current a)) \<longrightarrow> (\<exists>print. evidence_of a digest kind print))"
proof (intro conjI impI)
  note a = reachable_record [OF assms(1,2)]
  note b = reachable_record [OF assms(1,3)]
  have kept: "reports_kept st a" "reports_kept st b" using reachable_kept [OF assms(1)] assms(2,3) unfolding all_kept_def by blast+
  show "i = j" if "map_option su_chainQualifiedTransactionId (sp_submission (lr_current a)) = Some t"
    "map_option su_chainQualifiedTransactionId (sp_submission (lr_current b)) = Some t"
    using record_transaction_owned [OF a that(1)] record_transaction_owned [OF b that(2)] by simp
  show "i = j" if common: "observation_ids a \<inter> observation_ids b \<noteq> {}"
  proof -
    obtain oid where "oid \<in> observation_ids a" "oid \<in> observation_ids b" using common by blast
    then show ?thesis using record_observations_owned [OF a] record_observations_owned [OF b] by fastforce
  qed
  show "sp_intentFingerprintSha256 (lr_current a) = sp_intentFingerprintSha256 (lr_current b)"
    if "idempotencyScope (sp_intent (lr_current a)) = idempotencyScope (sp_intent (lr_current b)) \<or>
     replayProtectionScope (sp_intent (lr_current a)) = replayProtectionScope (sp_intent (lr_current b))"
    using that a b unfolding record_ok_def Let_def by (elim disjE conjE) simp_all
  show "role = role'" "fp = fp'" if "evidence_of a d role fp" "evidence_of b d role' fp'"
    using evidence_owned [OF a kept(1) that(1)] evidence_owned [OF b kept(2) that(2)] by simp_all
  show "\<exists>print. evidence_of a digest kind print" if "(kind, digest) \<in> set (snapshot_evidence (lr_current a))"
    by (rule snapshot_evidence_of [OF kept(1) that])
qed

theorem identities_have_one_owner_witness:
  "\<exists>q fp. records sample_finalized (sample_uuid ''1'') = Some q \<and> sp_stage (lr_current q) = FINALIZED_SUCCESS \<and>
     evidence_of q (sample_evidence (CHR ''d'')) RECONCILIATION_EFFECT_EVIDENCE fp \<and>
     (\<forall>role fp'. evidence_of q (sample_evidence (CHR ''d'')) role fp' \<longrightarrow> role = RECONCILIATION_EFFECT_EVIDENCE \<and> fp' = fp)"
proof -
  obtain q where q: "records sample_finalized (sample_uuid ''1'') = Some q" "sp_stage (lr_current q) = FINALIZED_SUCCESS"
      "(RECONCILIATION_EFFECT_EVIDENCE, sample_evidence (CHR ''d'')) \<in> set (snapshot_evidence (lr_current q))"
    using sample_finalized_record sample_finalized_evidence by (cases "records sample_finalized (sample_uuid ''1'')") simp_all
  note one = identities_have_one_owner [OF sample_run_reachable q(1) [unfolded sample_finalized_def]
      q(1) [unfolded sample_finalized_def]]
  obtain fp where fp: "evidence_of q (sample_evidence (CHR ''d'')) RECONCILIATION_EFFECT_EVIDENCE fp" using one q(3) by blast
  have "role = RECONCILIATION_EFFECT_EVIDENCE \<and> fp' = fp" if "evidence_of q (sample_evidence (CHR ''d'')) role fp'" for role fp'
    using one that fp by blast
  then show ?thesis using q(1,2) fp by (intro exI [of _ q] exI [of _ fp]) blast
qed

lemma consistent_success:
  "observation_consistent Outcome_FINALIZED_SUCCESS p f effect failure source \<Longrightarrow>
   \<exists>q d. p = Some q \<and> q \<le> f \<and> effect = Some d \<and> d \<noteq> source \<and> failure = None"
  by (auto simp: observation_consistent_def)

text \<open>C21. A record of a reachable state is FINALIZED_SUCCESS only on evidence: its submission and its
  broadcast are recorded, its last observation reports a transaction position not after the
  finalized position, an effect digest different from the source digest and no failure digest.\<close>

theorem finalized_success_is_evidenced:
  assumes "reachable isAddress sha256 registry st" "records st i = Some r"
    and "sp_stage (lr_current r) = FINALIZED_SUCCESS"
  shows "\<exists>ro p e. sp_reconciliation (lr_current r) = Some ro \<and> ro_intentId ro = i \<and>
    sp_submission (lr_current r) \<noteq> None \<and> sp_broadcastObservation (lr_current r) \<noteq> None \<and>
    ro_outcome ro = Outcome_FINALIZED_SUCCESS \<and> ro_transactionPosition ro = Some p \<and>
    dec_val p \<le> dec_val (ro_finalizedPosition ro) \<and> ro_effectEvidenceSha256 ro = Some e \<and>
    e \<noteq> ro_sourceEvidenceSha256 ro \<and> ro_failureEvidenceSha256 ro = None \<and>
    evidenceDigestOwners st (ro_sourceEvidenceSha256 ro) \<noteq> None"
proof -
  note ok = reachable_record [OF assms(1,2), unfolded record_ok_def Let_def snapshot_shape_def assms(3) stage_shape.simps]
  then obtain ro where ro: "sp_reconciliation (lr_current r) = Some ro"
    by (cases "sp_reconciliation (lr_current r)") simp_all
  with ok have owned: "reconciliation_owned st i r ro" by simp
  have outcome: "ro_outcome ro = Outcome_FINALIZED_SUCCESS"
    using owned assms(3) by (cases "ro_outcome ro") (simp_all add: reconciliation_owned_def)
  obtain x e where x: "map_option dec_val (ro_transactionPosition ro) = Some x" "x \<le> dec_val (ro_finalizedPosition ro)"
      "ro_effectEvidenceSha256 ro = Some e" "e \<noteq> ro_sourceEvidenceSha256 ro" "ro_failureEvidenceSha256 ro = None"
    using owned consistent_success unfolding reconciliation_owned_def outcome by blast
  obtain p where "ro_transactionPosition ro = Some p" "dec_val p = x"
    using x(1) by (cases "ro_transactionPosition ro") simp_all
  moreover have "ro_intentId ro = i" "evidenceDigestOwners st (ro_sourceEvidenceSha256 ro) \<noteq> None"
    using owned by (auto simp: reconciliation_owned_def)
  moreover have "sp_submission (lr_current r) \<noteq> None" "sp_broadcastObservation (lr_current r) \<noteq> None"
    using ok by blast+
  ultimately show ?thesis
    using ro outcome x by (intro exI [of _ ro] exI [of _ p] exI [of _ e] conjI) simp_all
qed

theorem finalized_success_is_evidenced_witness:
  "\<exists>q ro. records sample_finalized (sample_uuid ''1'') = Some q \<and> sp_reconciliation (lr_current q) = Some ro \<and>
     ro_outcome ro = Outcome_FINALIZED_SUCCESS \<and> ro_failureEvidenceSha256 ro = None"
proof -
  obtain q where q: "records sample_finalized (sample_uuid ''1'') = Some q" "sp_stage (lr_current q) = FINALIZED_SUCCESS"
    using sample_finalized_record by (cases "records sample_finalized (sample_uuid ''1'')") simp_all
  from finalized_success_is_evidenced [OF sample_run_reachable q(1) [unfolded sample_finalized_def] q(2)] q(1)
  show ?thesis by (elim exE conjE) (intro exI conjI)
qed

end
