(* ===== verification/Fee_Return.thy ===== *)
theory Fee_Return
  imports Js_Prelude "HOL-Library.Product_Lexorder"
begin

text \<open>
  The arithmetic of fee-aware returns (\<^verbatim>\<open>apps/api/src/smart-lending/domain/fee-aware-return.ts\<close>).
  All values are BigInts in the source and integers here; US dollar amounts have 18 decimals.
  BigInt division truncates, which on the non-negative values that pass the range check is
  the integer division of the model.

  Shown: the break-even day is exact and decides the sign of the net benefit, accepted
  calculations are within range and profitable, costs never help, and the comparison of
  candidates is a total order.
\<close>

subsection \<open>Data\<close>

text \<open>
  The optional cost may be absent, a key with the value undefined (which the range check of
  the values refuses), or a BigInt.
\<close>

datatype OptionalCost = CostAbsent | CostUndefined | CostValue int

record FeeAwareAllocationCostsUsdMantissa =
  entrySourceNetwork :: int
  entrySourceSwap :: int
  entryBridge :: int
  entryDestinationNetwork :: int
  entryDestinationSwap :: int
  providerEntry :: int
  providerExit :: int
  exitDestinationNetwork :: int
  exitDestinationSwap :: int
  exitBridge :: int
  exitSourceNetwork :: int
  platformRouting :: int
  exitPlatformRouting :: OptionalCost
  riskBuffer :: int

record FeeAwareCandidateCalculation =
  grossApyBasisPoints :: int
  recurringFeeBasisPoints :: int
  riskPenaltyBasisPoints :: int
  conservativeApyBasisPoints :: int
  principalUsdMantissa :: int
  deployedPrincipalUsdMantissa :: int
  entryCostUsdMantissa :: int
  anticipatedExitCostUsdMantissa :: int
  totalLifecycleCostUsdMantissa :: int
  costsUsdMantissa :: FeeAwareAllocationCostsUsdMantissa
  projectedGrossYieldUsdMantissa :: int
  projectedConservativeYieldUsdMantissa :: int
  netBenefitUsdMantissa :: int
  breakEvenDays :: "int option"
  improvementOverSameChainUsdMantissa :: "int option"

datatype ReturnReason =
    NUMERIC_LIMIT_EXCEEDED | TOTAL_COST_EXCEEDS_PRINCIPAL | NON_POSITIVE_NET_BENEFIT | MINIMUM_NET_BENEFIT_NOT_MET

record FeeAwareReturnInput =
  in_principal :: int
  in_gross :: int
  in_recurring :: int
  in_penalty :: int
  in_holdingPeriodDays :: int
  in_minimumNetBenefit :: int
  in_costs :: FeeAwareAllocationCostsUsdMantissa

definition MAX_MANTISSA :: int where
  "MAX_MANTISSA = 2 ^ 256 - 1"

subsection \<open>Calculation\<close>

definition requiredCosts :: "FeeAwareAllocationCostsUsdMantissa \<Rightarrow> int list" where
  "requiredCosts c =
     [entrySourceNetwork c, entrySourceSwap c, entryBridge c, entryDestinationNetwork c, entryDestinationSwap c,
      providerEntry c, providerExit c, exitDestinationNetwork c, exitDestinationSwap c, exitBridge c,
      exitSourceNetwork c, platformRouting c, riskBuffer c]"

definition inRange :: "int \<Rightarrow> bool" where
  "inRange v = (\<not> (v < 0 \<or> v > MAX_MANTISSA))"

fun optionalInRange :: "OptionalCost \<Rightarrow> bool" where
  "optionalInRange CostAbsent = True"
| "optionalInRange CostUndefined = False"
| "optionalInRange (CostValue v) = inRange v"

definition valuesInRange :: "FeeAwareReturnInput \<Rightarrow> bool" where
  "valuesInRange i =
     (list_all inRange ([in_principal i, in_gross i, in_recurring i, in_penalty i, in_holdingPeriodDays i,
        in_minimumNetBenefit i] @ requiredCosts (in_costs i)) \<and>
      optionalInRange (exitPlatformRouting (in_costs i)))"

text \<open>\<^verbatim>\<open>costs.exitPlatformRouting ?? 0n\<close>\<close>

fun optionalCost :: "OptionalCost \<Rightarrow> int" where
  "optionalCost (CostValue v) = v"
| "optionalCost _ = 0"

definition entryCost :: "FeeAwareAllocationCostsUsdMantissa \<Rightarrow> int" where
  "entryCost c =
     entrySourceNetwork c + entrySourceSwap c + entryBridge c + entryDestinationNetwork c + entryDestinationSwap c +
     providerEntry c + platformRouting c + riskBuffer c"

definition exitCost :: "FeeAwareAllocationCostsUsdMantissa \<Rightarrow> int" where
  "exitCost c =
     providerExit c + exitDestinationNetwork c + exitDestinationSwap c + exitBridge c + exitSourceNetwork c +
     optionalCost (exitPlatformRouting c)"

definition calculateFeeAwareReturn ::
  "FeeAwareReturnInput \<Rightarrow> FeeAwareCandidateCalculation option \<times> ReturnReason list" where
  "calculateFeeAwareReturn i =
     (if \<not> valuesInRange i then (None, [NUMERIC_LIMIT_EXCEEDED])
      else
        let principal = in_principal i; gross = in_gross i; recurring = in_recurring i; penalty = in_penalty i;
            days = in_holdingPeriodDays i; costs = in_costs i;
            entry = entryCost costs;
            exit = exitCost costs;
            total = entry + exit
        in if total > MAX_MANTISSA then (None, [NUMERIC_LIMIT_EXCEEDED])
           else
             let deployed = (if entry < principal then principal - entry else 0);
                 conservative = (if gross > recurring + penalty then gross - recurring - penalty else 0);
                 grossYield = (deployed * gross * days) div (10000 * 365);
                 yieldAfterDeductions = (deployed * conservative * days) div (10000 * 365)
             in if grossYield > MAX_MANTISSA \<or> yieldAfterDeductions > MAX_MANTISSA
                then (None, [NUMERIC_LIMIT_EXCEEDED])
                else
                  let net = yieldAfterDeductions - total;
                      dailyNumerator = deployed * conservative;
                      breakEven =
                        (if total = 0 then Some 0
                         else if dailyNumerator = 0 then None
                         else Some ((total * 10000 * 365 + dailyNumerator - 1) div dailyNumerator))
                  in (Some \<lparr>grossApyBasisPoints = gross, recurringFeeBasisPoints = recurring,
                        riskPenaltyBasisPoints = penalty, conservativeApyBasisPoints = conservative,
                        principalUsdMantissa = principal, deployedPrincipalUsdMantissa = deployed,
                        entryCostUsdMantissa = entry, anticipatedExitCostUsdMantissa = exit,
                        totalLifecycleCostUsdMantissa = total, costsUsdMantissa = costs,
                        projectedGrossYieldUsdMantissa = grossYield,
                        projectedConservativeYieldUsdMantissa = yieldAfterDeductions,
                        netBenefitUsdMantissa = net, breakEvenDays = breakEven,
                        improvementOverSameChainUsdMantissa = None\<rparr>,
                      (if total \<ge> principal then [TOTAL_COST_EXCEEDS_PRINCIPAL] else []) @
                      (if net \<le> 0 then [NON_POSITIVE_NET_BENEFIT] else []) @
                      (if net < in_minimumNetBenefit i then [MINIMUM_NET_BENEFIT_NOT_MET] else [])))"

subsection \<open>Comparison\<close>

datatype RouteKind = SAME_CHAIN | CROSS_CHAIN

record ReturnCandidate =
  cand_id :: string
  cand_routeKind :: RouteKind
  cand_calculation :: "FeeAwareCandidateCalculation option"

definition compareFeeAwareReturns :: "ReturnCandidate \<Rightarrow> ReturnCandidate \<Rightarrow> int" where
  "compareFeeAwareReturns left right =
     (case (cand_calculation left, cand_calculation right) of
        (None, None) \<Rightarrow> 0
      | (None, Some _) \<Rightarrow> 1
      | (Some _, None) \<Rightarrow> - 1
      | (Some a, Some b) \<Rightarrow>
          if netBenefitUsdMantissa a \<noteq> netBenefitUsdMantissa b
          then (if netBenefitUsdMantissa a > netBenefitUsdMantissa b then - 1 else 1)
          else if cand_routeKind left \<noteq> cand_routeKind right
          then (if cand_routeKind left = SAME_CHAIN then - 1 else 1)
          else if totalLifecycleCostUsdMantissa a \<noteq> totalLifecycleCostUsdMantissa b
          then (if totalLifecycleCostUsdMantissa a < totalLifecycleCostUsdMantissa b then - 1 else 1)
          else if cand_id left = cand_id right then 0 else if cand_id left < cand_id right then - 1 else 1)"

subsection \<open>The calculation in closed form\<close>

definition deployedOf :: "FeeAwareReturnInput \<Rightarrow> int" where
  "deployedOf i = max 0 (in_principal i - entryCost (in_costs i))"

definition conservativeOf :: "FeeAwareReturnInput \<Rightarrow> int" where
  "conservativeOf i = max 0 (in_gross i - in_recurring i - in_penalty i)"

definition totalOf :: "FeeAwareReturnInput \<Rightarrow> int" where
  "totalOf i = entryCost (in_costs i) + exitCost (in_costs i)"

lemma optionalCost_nonneg: "optionalInRange o' \<Longrightarrow> 0 \<le> optionalCost o'"
  by (cases o') (auto simp: inRange_def)

lemma costs_nonneg:
  assumes "valuesInRange i"
  shows "0 \<le> entryCost (in_costs i)" "0 \<le> exitCost (in_costs i)"
  using assms optionalCost_nonneg [of "exitPlatformRouting (in_costs i)"]
  by (auto simp: valuesInRange_def requiredCosts_def inRange_def entryCost_def exitCost_def)

lemma calculation_closed:
  assumes "calculateFeeAwareReturn i = (Some c, rs)"
  shows "valuesInRange i" "totalOf i \<le> MAX_MANTISSA"
    and "deployedPrincipalUsdMantissa c = deployedOf i" "conservativeApyBasisPoints c = conservativeOf i"
    and "totalLifecycleCostUsdMantissa c = totalOf i"
    and "projectedConservativeYieldUsdMantissa c = (deployedOf i * conservativeOf i * in_holdingPeriodDays i) div 3650000"
    and "projectedGrossYieldUsdMantissa c = (deployedOf i * in_gross i * in_holdingPeriodDays i) div 3650000"
    and "projectedConservativeYieldUsdMantissa c \<le> MAX_MANTISSA" "projectedGrossYieldUsdMantissa c \<le> MAX_MANTISSA"
    and "netBenefitUsdMantissa c = projectedConservativeYieldUsdMantissa c - totalOf i"
    and "breakEvenDays c = (if totalOf i = 0 then Some 0 else if deployedOf i * conservativeOf i = 0 then None
      else Some ((3650000 * totalOf i + deployedOf i * conservativeOf i - 1) div (deployedOf i * conservativeOf i)))"
    and "rs = (if totalOf i \<ge> in_principal i then [TOTAL_COST_EXCEEDS_PRINCIPAL] else []) @
      (if netBenefitUsdMantissa c \<le> 0 then [NON_POSITIVE_NET_BENEFIT] else []) @
      (if netBenefitUsdMantissa c < in_minimumNetBenefit i then [MINIMUM_NET_BENEFIT_NOT_MET] else [])"
proof -
  have d: "(if entryCost (in_costs i) < in_principal i then in_principal i - entryCost (in_costs i) else 0) = deployedOf i"
    "(if in_gross i > in_recurring i + in_penalty i then in_gross i - in_recurring i - in_penalty i else 0) = conservativeOf i"
    by (auto simp: deployedOf_def conservativeOf_def max_def)
  show v: "valuesInRange i" and t: "totalOf i \<le> MAX_MANTISSA"
    using assms by (auto simp: calculateFeeAwareReturn_def Let_def totalOf_def split: if_splits)
  have y: "\<not> ((deployedOf i * in_gross i * in_holdingPeriodDays i) div 3650000 > MAX_MANTISSA \<or>
      (deployedOf i * conservativeOf i * in_holdingPeriodDays i) div 3650000 > MAX_MANTISSA)"
  proof
    assume "(deployedOf i * in_gross i * in_holdingPeriodDays i) div 3650000 > MAX_MANTISSA \<or>
      (deployedOf i * conservativeOf i * in_holdingPeriodDays i) div 3650000 > MAX_MANTISSA"
    then have "calculateFeeAwareReturn i = (None, [NUMERIC_LIMIT_EXCEEDED])"
      unfolding calculateFeeAwareReturn_def Let_def d by simp
    with assms show False by simp
  qed
  have t': "\<not> entryCost (in_costs i) + exitCost (in_costs i) > MAX_MANTISSA" using t by (simp add: totalOf_def)
  note c = assms [unfolded calculateFeeAwareReturn_def Let_def d, simplified v t' y, simplified]
  show "deployedPrincipalUsdMantissa c = deployedOf i" "conservativeApyBasisPoints c = conservativeOf i"
    "totalLifecycleCostUsdMantissa c = totalOf i"
    "projectedConservativeYieldUsdMantissa c = (deployedOf i * conservativeOf i * in_holdingPeriodDays i) div 3650000"
    "projectedGrossYieldUsdMantissa c = (deployedOf i * in_gross i * in_holdingPeriodDays i) div 3650000"
    "projectedConservativeYieldUsdMantissa c \<le> MAX_MANTISSA" "projectedGrossYieldUsdMantissa c \<le> MAX_MANTISSA"
    "netBenefitUsdMantissa c = projectedConservativeYieldUsdMantissa c - totalOf i"
    "breakEvenDays c = (if totalOf i = 0 then Some 0 else if deployedOf i * conservativeOf i = 0 then None
      else Some ((3650000 * totalOf i + deployedOf i * conservativeOf i - 1) div (deployedOf i * conservativeOf i)))"
    "rs = (if totalOf i \<ge> in_principal i then [TOTAL_COST_EXCEEDS_PRINCIPAL] else []) @
      (if netBenefitUsdMantissa c \<le> 0 then [NON_POSITIVE_NET_BENEFIT] else []) @
      (if netBenefitUsdMantissa c < in_minimumNetBenefit i then [MINIMUM_NET_BENEFIT_NOT_MET] else [])"
    using c y by (auto simp: totalOf_def)
qed

lemma closed_bounds:
  assumes "valuesInRange i"
  shows "0 \<le> deployedOf i" "0 \<le> conservativeOf i" "0 \<le> totalOf i" "0 \<le> in_holdingPeriodDays i" "0 \<le> in_gross i"
    "conservativeOf i \<le> in_gross i" "deployedOf i \<le> in_principal i"
  using assms costs_nonneg [OF assms]
  by (auto simp: deployedOf_def conservativeOf_def totalOf_def valuesInRange_def inRange_def)

lemma floor_div_ge_iff:
  fixes a b d :: int
  assumes "0 < b"
  shows "(d \<le> a div b) = (d * b \<le> a)"
proof
  assume "d \<le> a div b"
  then have "d * b \<le> a div b * b" using assms by (intro mult_right_mono) auto
  also have "\<dots> \<le> a" using assms by (simp add: div_mult_mod_eq [symmetric] minus_mod_eq_div_mult [symmetric])
  finally show "d * b \<le> a" .
next
  assume "d * b \<le> a"
  then have "(d * b) div b \<le> a div b" using assms by (rule zdiv_mono1)
  then show "d \<le> a div b" using assms by simp
qed

text \<open>The ceiling division of the break-even day.\<close>

lemma ceiling_div_le_iff:
  fixes a b d :: int
  assumes "0 < b"
  shows "((a + b - 1) div b \<le> d) = (a \<le> d * b)"
proof -
  have "((a + b - 1) div b \<le> d) = (\<not> d + 1 \<le> (a + b - 1) div b)" by linarith
  also have "\<dots> = (\<not> (d + 1) * b \<le> a + b - 1)" by (simp only: floor_div_ge_iff [OF assms])
  also have "\<dots> = (a \<le> d * b)" by (auto simp: algebra_simps)
  finally show ?thesis .
qed

subsection \<open>Properties\<close>

text \<open>C35. The break-even day is exact. It is the least number of days for which the conservative
  yield, computed without rounding, covers the total cost, and it is absent exactly when no
  number of days does; the net benefit over the holding period, although its yield is
  rounded down, is non-negative exactly when the holding period reaches the break-even day.
\<close>

theorem break_even_is_exact:
  assumes "calculateFeeAwareReturn i = (Some c, rs)"
  shows "(\<forall>d. 0 \<le> d \<longrightarrow>
      (3650000 * totalLifecycleCostUsdMantissa c \<le> d * (deployedPrincipalUsdMantissa c * conservativeApyBasisPoints c)) =
      (case breakEvenDays c of None \<Rightarrow> False | Some b \<Rightarrow> b \<le> d)) \<and>
    (0 \<le> netBenefitUsdMantissa c) =
      (case breakEvenDays c of None \<Rightarrow> False | Some b \<Rightarrow> b \<le> in_holdingPeriodDays i)"
proof -
  note cc = calculation_closed [OF assms]
  note b = closed_bounds [OF cc(1)]
  let ?n = "deployedOf i * conservativeOf i"
  have n0: "0 \<le> ?n" using b(1,2) by simp
  have least: "(3650000 * totalOf i \<le> d * ?n) = (case breakEvenDays c of None \<Rightarrow> False | Some b \<Rightarrow> b \<le> d)" if d: "0 \<le> d" for d
  proof (cases "totalOf i = 0")
    case True
    then show ?thesis using d n0 by (simp add: cc(11))
  next
    case False
    then have t: "0 < totalOf i" using b(3) by simp
    show ?thesis
    proof (cases "?n = 0")
      case True
      then show ?thesis unfolding cc(11) True using t False by simp
    next
      case n: False
      then have "0 < ?n" using n0 by linarith
      then show ?thesis unfolding cc(11) using False n ceiling_div_le_iff by simp
    qed
  qed
  have "(0 \<le> netBenefitUsdMantissa c) = (totalOf i \<le> (deployedOf i * conservativeOf i * in_holdingPeriodDays i) div 3650000)"
    by (simp add: cc(6,10))
  also have "\<dots> = (totalOf i * 3650000 \<le> ?n * in_holdingPeriodDays i)"
    by (rule floor_div_ge_iff) simp
  also have "\<dots> = (3650000 * totalOf i \<le> in_holdingPeriodDays i * ?n)" by (simp only: mult.commute)
  also have "\<dots> = (case breakEvenDays c of None \<Rightarrow> False | Some b \<Rightarrow> b \<le> in_holdingPeriodDays i)"
    by (rule least) (rule b(4))
  finally show ?thesis using least by (simp only: cc(3,4,5)) blast
qed

definition sample_costs :: "int \<Rightarrow> FeeAwareAllocationCostsUsdMantissa" where
  "sample_costs fee =
     \<lparr>entrySourceNetwork = fee, entrySourceSwap = 0, entryBridge = 0, entryDestinationNetwork = 0,
      entryDestinationSwap = 0, providerEntry = 0, providerExit = 0, exitDestinationNetwork = 0,
      exitDestinationSwap = 0, exitBridge = 0, exitSourceNetwork = fee, platformRouting = 0,
      exitPlatformRouting = CostAbsent, riskBuffer = 0\<rparr>"

definition sample_return :: "int \<Rightarrow> FeeAwareReturnInput" where
  "sample_return fee =
     \<lparr>in_principal = 1000000, in_gross = 500, in_recurring = 50, in_penalty = 50, in_holdingPeriodDays = 365,
      in_minimumNetBenefit = 100, in_costs = sample_costs fee\<rparr>"

lemma sample_return_accepted:
  "\<exists>c. calculateFeeAwareReturn (sample_return 1000) = (Some c, [])"
  by (simp add: calculateFeeAwareReturn_def sample_return_def sample_costs_def valuesInRange_def requiredCosts_def
      inRange_def MAX_MANTISSA_def entryCost_def exitCost_def Let_def)

theorem break_even_is_exact_witness:
  "\<exists>c. calculateFeeAwareReturn (sample_return 1000) = (Some c, []) \<and>
    (0 \<le> netBenefitUsdMantissa c) = (case breakEvenDays c of None \<Rightarrow> False | Some b \<Rightarrow> b \<le> 365)"
proof -
  obtain c where c: "calculateFeeAwareReturn (sample_return 1000) = (Some c, [])" using sample_return_accepted by blast
  have h: "in_holdingPeriodDays (sample_return 1000) = 365" by (simp add: sample_return_def)
  show ?thesis using break_even_is_exact [OF c, unfolded h] c by blast
qed

text \<open>An accepted return is sound. A calculation is returned only for values in the range of
  256-bit integers; deployed principal, cost and yields stay in that range, the conservative
  rate never exceeds the gross rate nor its yield the gross yield; and when no reason is
  reported, the total cost is below the principal, the deployed principal is the principal
  less the entry cost, and the net benefit is positive and at least the required minimum.
\<close>

theorem accepted_return_is_sound:
  assumes "calculateFeeAwareReturn i = (Some c, rs)"
  shows "0 \<le> deployedPrincipalUsdMantissa c \<and> deployedPrincipalUsdMantissa c \<le> in_principal i \<and>
    0 \<le> totalLifecycleCostUsdMantissa c \<and> totalLifecycleCostUsdMantissa c < 2 ^ 256 \<and>
    0 \<le> projectedConservativeYieldUsdMantissa c \<and>
    projectedConservativeYieldUsdMantissa c \<le> projectedGrossYieldUsdMantissa c \<and>
    projectedGrossYieldUsdMantissa c < 2 ^ 256 \<and>
    (rs = [] \<longrightarrow> totalLifecycleCostUsdMantissa c < in_principal i \<and>
      deployedPrincipalUsdMantissa c = in_principal i - entryCost (in_costs i) \<and>
      0 < netBenefitUsdMantissa c \<and> in_minimumNetBenefit i \<le> netBenefitUsdMantissa c)"
proof -
  note cc = calculation_closed [OF assms]
  note b = closed_bounds [OF cc(1)]
  have "deployedOf i * conservativeOf i * in_holdingPeriodDays i \<le> deployedOf i * in_gross i * in_holdingPeriodDays i"
    using b by (intro mult_right_mono mult_left_mono) auto
  then have y: "projectedConservativeYieldUsdMantissa c \<le> projectedGrossYieldUsdMantissa c"
    unfolding cc(6,7) by (rule zdiv_mono1) simp
  have p: "0 \<le> projectedConservativeYieldUsdMantissa c"
    unfolding cc(6) using b by (simp add: pos_imp_zdiv_nonneg_iff)
  have "rs = [] \<longrightarrow> totalOf i < in_principal i \<and> 0 < netBenefitUsdMantissa c \<and> in_minimumNetBenefit i \<le> netBenefitUsdMantissa c"
    unfolding cc(12) by (auto split: if_splits)
  moreover have "totalOf i < in_principal i \<Longrightarrow> deployedOf i = in_principal i - entryCost (in_costs i)"
    using costs_nonneg [OF cc(1)] by (simp add: totalOf_def deployedOf_def)
  moreover have "totalOf i < 2 ^ 256" "projectedGrossYieldUsdMantissa c < 2 ^ 256"
    using cc(2,9) by (simp_all add: MAX_MANTISSA_def)
  ultimately show ?thesis unfolding cc(3,5) using y p b(1,3,7) by blast
qed

theorem accepted_return_is_sound_witness:
  "\<exists>c. calculateFeeAwareReturn (sample_return 1000) = (Some c, []) \<and> 0 < netBenefitUsdMantissa c"
  using sample_return_accepted accepted_return_is_sound by blast

text \<open>Costs never help. Of two calculations that differ only in their costs, the one with the
  higher entry cost and the higher exit cost has no larger net benefit.
\<close>

theorem costs_never_help:
  assumes "calculateFeeAwareReturn i = (Some c, rs)"
    and "calculateFeeAwareReturn (i\<lparr>in_costs := costs\<rparr>) = (Some c', rs')"
    and "entryCost (in_costs i) \<le> entryCost costs" and "exitCost (in_costs i) \<le> exitCost costs"
  shows "netBenefitUsdMantissa c' \<le> netBenefitUsdMantissa c"
proof -
  let ?i' = "i\<lparr>in_costs := costs\<rparr>"
  note cc = calculation_closed [OF assms(1)] and cc' = calculation_closed [OF assms(2)]
  note b = closed_bounds [OF cc(1)]
  have "deployedOf ?i' \<le> deployedOf i" using assms(3) by (simp add: deployedOf_def)
  moreover have same: "conservativeOf ?i' = conservativeOf i" by (simp add: conservativeOf_def)
  ultimately have "deployedOf ?i' * conservativeOf ?i' * in_holdingPeriodDays i \<le>
      deployedOf i * conservativeOf i * in_holdingPeriodDays i"
    unfolding same using b(2,4) by (intro mult_right_mono) auto
  then have "projectedConservativeYieldUsdMantissa c' \<le> projectedConservativeYieldUsdMantissa c"
    unfolding cc(6) cc'(6) by (intro zdiv_mono1) simp_all
  moreover have "totalOf i \<le> totalOf ?i'" using assms(3,4) by (simp add: totalOf_def)
  ultimately show ?thesis unfolding cc(10) cc'(10) by linarith
qed

theorem costs_never_help_witness:
  "\<exists>c c'. calculateFeeAwareReturn (sample_return 1000) = (Some c, []) \<and>
    calculateFeeAwareReturn (sample_return 2000) = (Some c', []) \<and> netBenefitUsdMantissa c' \<le> netBenefitUsdMantissa c"
proof -
  obtain c where c: "calculateFeeAwareReturn (sample_return 1000) = (Some c, [])" using sample_return_accepted by blast
  obtain c' where c': "calculateFeeAwareReturn (sample_return 2000) = (Some c', [])"
    by (simp add: calculateFeeAwareReturn_def sample_return_def sample_costs_def valuesInRange_def requiredCosts_def
        inRange_def MAX_MANTISSA_def entryCost_def exitCost_def Let_def)
  have i: "sample_return 2000 = (sample_return 1000)\<lparr>in_costs := sample_costs 2000\<rparr>" by (simp add: sample_return_def)
  have "netBenefitUsdMantissa c' \<le> netBenefitUsdMantissa c"
    by (rule costs_never_help [OF c c' [unfolded i]])
      (simp_all add: sample_return_def sample_costs_def entryCost_def exitCost_def)
  with c c' show ?thesis by blast
qed

definition candidate_key :: "ReturnCandidate \<Rightarrow> int \<times> int \<times> int \<times> int \<times> string" where
  "candidate_key x =
     (case cand_calculation x of
        None \<Rightarrow> (1, 0, 0, 0, [])
      | Some a \<Rightarrow> (0, - netBenefitUsdMantissa a, if cand_routeKind x = SAME_CHAIN then 0 else 1,
                  totalLifecycleCostUsdMantissa a, cand_id x))"

lemma compare_key:
  "compareFeeAwareReturns x y =
     (if candidate_key x < candidate_key y then - 1 else if candidate_key y < candidate_key x then 1 else 0)"
proof (cases "cand_calculation x"; cases "cand_calculation y")
  fix a b assume ab: "cand_calculation x = Some a" "cand_calculation y = Some b"
  show ?thesis
    by (cases "cand_routeKind x"; cases "cand_routeKind y")
      (auto simp: compareFeeAwareReturns_def candidate_key_def ab less_prod_def)
qed (auto simp: compareFeeAwareReturns_def candidate_key_def less_prod_def)

text \<open>Candidates are totally ordered. The comparison of candidates is that of a key: a
  calculation before none, then the larger net benefit, then same-chain before cross-chain,
  then the smaller total cost, then the identifier. So it is antisymmetric and transitive,
  and sorting with it is well defined.
\<close>

theorem comparison_is_a_total_order:
  "compareFeeAwareReturns x y =
     (if candidate_key x < candidate_key y then - 1 else if candidate_key y < candidate_key x then 1 else 0)"
  by (rule compare_key)

end
