(* ===== verification/Allocation.thy ===== *)
theory Allocation
  imports Fee_Return Canonical_Values Action_Values
begin

text \<open>
  The allocation policy, \<^verbatim>\<open>apps/api/src/smart-lending/domain/fee-aware-allocation.ts\<close>: data and
  input validation. Every BigInt is an integer. The source throws \<open>InvalidInput\<close> without a code, so
  a parser returns \<open>InvalidInput\<close> or the parsed value. The \<^verbatim>\<open>Parsed\<close> records of the source extend the
  input records by the times in milliseconds; here they are single records.
\<close>

subsection \<open>Vocabulary\<close>

datatype Availability = AVAILABLE | UNAVAILABLE

fun availability_text :: "Availability \<Rightarrow> string" where
  "availability_text AVAILABLE = ''AVAILABLE''"
| "availability_text UNAVAILABLE = ''UNAVAILABLE''"

datatype RecommendationEligibility = ELIGIBLE | INELIGIBLE

fun eligibility_text :: "RecommendationEligibility \<Rightarrow> string" where
  "eligibility_text ELIGIBLE = ''ELIGIBLE''"
| "eligibility_text INELIGIBLE = ''INELIGIBLE''"

datatype InvalidInput = InvalidInput

type_synonym 'a parsed = "InvalidInput + 'a"

datatype CostIssue = INCOMPLETE_COST_QUOTE | INVALID_COST_QUOTE

text \<open>The rejection reasons; those of the return calculation are embedded by \<open>Return\<close>.\<close>

datatype FeeAwareCandidateReason =
    CostQuote CostIssue
  | COST_QUOTE_FROM_FUTURE | COST_QUOTE_EXPIRED | COST_QUOTE_STALE
  | COST_QUOTE_POSITION_MISMATCH | COST_QUOTE_OPPORTUNITY_MISMATCH
  | ROUTE_NETWORK_MISMATCH | ROUTE_ASSET_MISMATCH | SOURCE_AMOUNT_MISMATCH
  | OPPORTUNITY_UNAVAILABLE | OPPORTUNITY_INELIGIBLE
  | OPPORTUNITY_EVIDENCE_FROM_FUTURE | OPPORTUNITY_EVIDENCE_EXPIRED | OPPORTUNITY_EVIDENCE_STALE
  | RISK_ASSESSMENT_REQUIRED | RISK_ASSESSMENT_FROM_FUTURE | RISK_ASSESSMENT_EXPIRED | RISK_ASSESSMENT_STALE
  | INSUFFICIENT_OPPORTUNITY_CAPACITY
  | CROSS_CHAIN_OPT_IN_REQUIRED | CROSS_CHAIN_OPT_IN_NOT_ACTIVE | CROSS_CHAIN_OPT_IN_EXPIRED
  | BRIDGE_ESTIMATE_REQUIRED | BRIDGE_PROVIDER_NOT_ALLOWED | UNEXPECTED_BRIDGE_ESTIMATE | UNEXPECTED_BRIDGE_COST
  | CROSS_CHAIN_COST_LIMIT_EXCEEDED
  | NO_ELIGIBLE_SAME_CHAIN_BASELINE | CROSS_CHAIN_IMPROVEMENT_BELOW_THRESHOLD
  | AGGREGATE_CAPACITY_EXCEEDED | AGGREGATE_CROSS_CHAIN_PRINCIPAL_EXCEEDED | AGGREGATE_PROVIDER_PRINCIPAL_EXCEEDED
  | Return ReturnReason

definition FEE_AWARE_ALLOCATION_POLICY_VERSION :: int where
  "FEE_AWARE_ALLOCATION_POLICY_VERSION = 1"

definition FEE_AWARE_ALLOCATION_USD_SCALE :: int where
  "FEE_AWARE_ALLOCATION_USD_SCALE = 18"

definition MAX_RATE_BASIS_POINTS :: int where
  "MAX_RATE_BASIS_POINTS = 1000000"

definition MAX_HOLDING_PERIOD_DAYS :: int where
  "MAX_HOLDING_PERIOD_DAYS = 36500"

definition MAX_FRESHNESS_SECONDS :: int where
  "MAX_FRESHNESS_SECONDS = 86400"

definition FEE_AWARE_ALLOCATION_COST_KINDS :: "string list" where
  "FEE_AWARE_ALLOCATION_COST_KINDS =
     [''entrySourceNetwork'', ''entrySourceSwap'', ''entryBridge'', ''entryDestinationNetwork'',
      ''entryDestinationSwap'', ''providerEntry'', ''providerExit'', ''exitDestinationNetwork'',
      ''exitDestinationSwap'', ''exitBridge'', ''exitSourceNetwork'', ''platformRouting'', ''riskBuffer'']"

subsection \<open>Data\<close>

record FeeAwareCapitalPosition =
  ps_positionId :: string
  ps_walletId :: string
  ps_networkId :: string
  ps_assetId :: string
  ps_amountAtomic :: int
  ps_amountUsdMantissa :: int

record FeeAwareOpportunityEvidence =
  oe_evidenceReferenceId :: string
  oe_adapterId :: string
  oe_observedAt :: string
  oe_validUntil :: string

record FeeAwareRiskAssessment =
  ra_assessmentReferenceId :: string
  ra_assessedAt :: string
  ra_validUntil :: string
  ra_penaltyBasisPoints :: int

record ParsedOpportunity =
  op_opportunityId :: string
  op_providerId :: string
  op_networkId :: string
  op_assetId :: string
  op_availability :: Availability
  op_recommendationEligibility :: RecommendationEligibility
  op_grossApyBasisPoints :: int
  op_recurringFeeBasisPoints :: int
  op_availableCapacityUsdMantissa :: int
  op_evidence :: FeeAwareOpportunityEvidence
  op_riskAssessment :: "FeeAwareRiskAssessment option"
  op_evidenceObservedAtMs :: int
  op_evidenceValidUntilMs :: int
  op_riskAssessedAtMs :: "int option"
  op_riskValidUntilMs :: "int option"

record FeeAwareBridgeEstimate =
  be_entryBridgeProviderId :: string
  be_exitBridgeProviderId :: string
  be_entryEstimateReferenceId :: string
  be_exitEstimateReferenceId :: string
  be_entryMinimumOutputAtomic :: int
  be_exitMinimumOutputAtomic :: int

record ParsedCostQuote =
  cq_quoteReferenceId :: string
  cq_routeReferenceId :: string
  cq_positionId :: string
  cq_opportunityId :: string
  cq_verifiedByAdapterId :: string
  cq_quotedAt :: string
  cq_validUntil :: string
  cq_quotedAtMs :: int
  cq_validUntilMs :: int
  cq_sourceNetworkId :: string
  cq_destinationNetworkId :: string
  cq_sourceAssetId :: string
  cq_destinationAssetId :: string
  cq_sourceAmountAtomic :: int
  cq_minimumDestinationAmountAtomic :: int
  cq_costsUsdMantissa :: "FeeAwareAllocationCostsUsdMantissa option"
  cq_costIssue :: "CostIssue option"
  cq_bridge :: "FeeAwareBridgeEstimate option"

record ParsedCandidate =
  cd_candidateId :: string
  cd_positionId :: string
  cd_opportunityId :: string
  cd_costQuote :: "ParsedCostQuote option"
  cd_quoteIssue :: "CostIssue option"

record ParsedOptIn =
  oi_consentReferenceId :: string
  oi_grantedAt :: string
  oi_expiresAt :: string
  oi_grantedAtMs :: int
  oi_expiresAtMs :: int

record FeeAwareCrossChainPolicy =
  cp_optIn :: "ParsedOptIn option"
  cp_allowedBridgeProviderIds :: "string list"
  cp_maximumLifecycleCostUsdMantissa :: int
  cp_minimumNetImprovementUsdMantissa :: int

record FeeAwareAllocationExposurePolicy =
  ep_maximumCrossChainPrincipalUsdMantissa :: int
  ep_maximumProviderPrincipalUsdMantissa :: int

record ParsedRequest =
  rq_evaluatedAt :: string
  rq_evaluatedAtMs :: int
  rq_holdingPeriodDays :: int
  rq_maximumQuoteAgeSeconds :: int
  rq_maximumOpportunityAgeSeconds :: int
  rq_minimumNetBenefitUsdMantissa :: int
  rq_crossChainPolicy :: FeeAwareCrossChainPolicy
  rq_exposurePolicy :: FeeAwareAllocationExposurePolicy
  rq_positions :: "FeeAwareCapitalPosition list"
  rq_opportunities :: "ParsedOpportunity list"
  rq_candidates :: "ParsedCandidate list"

subsection \<open>Values\<close>

definition alloc_exactRecord :: "jsval \<Rightarrow> string list \<Rightarrow> js_record parsed" where
  "alloc_exactRecord v expectedKeys = of_option InvalidInput (exact_data_record expectedKeys v)"

definition alloc_exactArray :: "jsval \<Rightarrow> nat \<Rightarrow> nat \<Rightarrow> jsval list parsed" where
  "alloc_exactArray v minimum maximum = of_option InvalidInput (exact_data_array minimum maximum v)"

text \<open>The text and its time in milliseconds.\<close>

definition alloc_timestamp :: "jsval \<Rightarrow> (string \<times> int) parsed" where
  "alloc_timestamp v =
     (case v of
        JString s \<Rightarrow>
          if \<not> utc_pattern s then Inl InvalidInput
          else (case read_timestamp s of None \<Rightarrow> Inl InvalidInput | Some t \<Rightarrow> Inr (s, t))
      | _ \<Rightarrow> Inl InvalidInput)"

definition graphic_char :: "char \<Rightarrow> bool" where
  "graphic_char c = (let n = (of_char c :: nat) in 33 \<le> n \<and> n \<le> 126)"

definition alloc_reference :: "jsval \<Rightarrow> string parsed" where
  "alloc_reference v =
     (case v of
        JString s \<Rightarrow>
          if \<not> (1 \<le> length s \<and> length s \<le> 192 \<and> list_all graphic_char s) then Inl InvalidInput else Inr s
      | _ \<Rightarrow> Inl InvalidInput)"

definition alloc_networkId :: "jsval \<Rightarrow> string parsed" where
  "alloc_networkId v =
     (case v of JString s \<Rightarrow> if s \<notin> set MAINNET_LAUNCH_NETWORK_IDS then Inl InvalidInput else Inr s
      | _ \<Rightarrow> Inl InvalidInput)"

definition unsignedBigInt :: "jsval \<Rightarrow> int \<Rightarrow> int parsed" where
  "unsignedBigInt v maximum =
     (case v of JBigInt n \<Rightarrow> if n < 0 \<or> n > maximum then Inl InvalidInput else Inr n | _ \<Rightarrow> Inl InvalidInput)"

definition positiveBigInt :: "jsval \<Rightarrow> int \<Rightarrow> int parsed" where
  "positiveBigInt v maximum =
     res_bind (unsignedBigInt v maximum) (\<lambda>n. if n = 0 then Inl InvalidInput else Inr n)"

definition alloc_enumValue :: "('a \<Rightarrow> string) \<Rightarrow> 'a list \<Rightarrow> jsval \<Rightarrow> 'a parsed" where
  "alloc_enumValue spell allowed v = of_option InvalidInput (parse_enum spell allowed v)"

definition alloc_unique :: "string list \<Rightarrow> unit parsed" where
  "alloc_unique values = require InvalidInput (distinct values)"

subsection \<open>Parsers\<close>

definition parsePosition :: "jsval \<Rightarrow> FeeAwareCapitalPosition parsed" where
  "parsePosition v =
     res_bind (alloc_exactRecord v
       [''positionId'', ''walletId'', ''networkId'', ''assetId'', ''amountAtomic'', ''amountUsdMantissa'']) (\<lambda>r.
     res_bind (alloc_reference (js_get r ''positionId'')) (\<lambda>positionId.
     res_bind (alloc_reference (js_get r ''walletId'')) (\<lambda>walletId.
     res_bind (alloc_networkId (js_get r ''networkId'')) (\<lambda>networkId.
     res_bind (alloc_reference (js_get r ''assetId'')) (\<lambda>assetId.
     res_bind (positiveBigInt (js_get r ''amountAtomic'') MAX_MANTISSA) (\<lambda>amountAtomic.
     res_bind (positiveBigInt (js_get r ''amountUsdMantissa'') MAX_MANTISSA) (\<lambda>amountUsd.
     Inr \<lparr>ps_positionId = positionId, ps_walletId = walletId, ps_networkId = networkId, ps_assetId = assetId,
          ps_amountAtomic = amountAtomic, ps_amountUsdMantissa = amountUsd\<rparr>)))))))"

text \<open>The assessment with its two times.\<close>

definition parseRiskAssessment :: "jsval \<Rightarrow> (FeeAwareRiskAssessment \<times> int \<times> int) option parsed" where
  "parseRiskAssessment v =
     (if v = JNull then Inr None
      else
        res_bind (alloc_exactRecord v
          [''status'', ''assessmentReferenceId'', ''assessedAt'', ''validUntil'', ''penaltyBasisPoints'']) (\<lambda>r.
        res_bind (require InvalidInput (js_get r ''status'' = JString ''APPROVED_FOR_RECOMMENDATION'')) (\<lambda>_.
        res_bind (alloc_timestamp (js_get r ''assessedAt'')) (\<lambda>assessedAt.
        res_bind (alloc_timestamp (js_get r ''validUntil'')) (\<lambda>validUntil.
        res_bind (require InvalidInput (\<not> snd validUntil \<le> snd assessedAt)) (\<lambda>_.
        res_bind (alloc_reference (js_get r ''assessmentReferenceId'')) (\<lambda>ref.
        res_bind (unsignedBigInt (js_get r ''penaltyBasisPoints'') MAX_RATE_BASIS_POINTS) (\<lambda>penalty.
        Inr (Some (\<lparr>ra_assessmentReferenceId = ref, ra_assessedAt = fst assessedAt, ra_validUntil = fst validUntil,
                    ra_penaltyBasisPoints = penalty\<rparr>, snd assessedAt, snd validUntil))))))))))"

definition parseOpportunity :: "jsval \<Rightarrow> ParsedOpportunity parsed" where
  "parseOpportunity v =
     res_bind (alloc_exactRecord v
       [''opportunityId'', ''providerId'', ''networkId'', ''assetId'', ''availability'', ''recommendationEligibility'',
        ''grossApyBasisPoints'', ''recurringFeeBasisPoints'', ''availableCapacityUsdMantissa'', ''evidence'',
        ''riskAssessment'']) (\<lambda>r.
     res_bind (alloc_exactRecord (js_get r ''evidence'')
       [''evidenceReferenceId'', ''adapterId'', ''observedAt'', ''validUntil'']) (\<lambda>e.
     res_bind (alloc_timestamp (js_get e ''observedAt'')) (\<lambda>observedAt.
     res_bind (alloc_timestamp (js_get e ''validUntil'')) (\<lambda>validUntil.
     res_bind (require InvalidInput (\<not> snd validUntil \<le> snd observedAt)) (\<lambda>_.
     res_bind (parseRiskAssessment (js_get r ''riskAssessment'')) (\<lambda>risk.
     res_bind (alloc_reference (js_get r ''opportunityId'')) (\<lambda>opportunityId.
     res_bind (alloc_reference (js_get r ''providerId'')) (\<lambda>providerId.
     res_bind (alloc_networkId (js_get r ''networkId'')) (\<lambda>networkId.
     res_bind (alloc_reference (js_get r ''assetId'')) (\<lambda>assetId.
     res_bind (alloc_enumValue availability_text [AVAILABLE, UNAVAILABLE] (js_get r ''availability'')) (\<lambda>availability.
     res_bind (alloc_enumValue eligibility_text [ELIGIBLE, INELIGIBLE] (js_get r ''recommendationEligibility'')) (\<lambda>eligibility.
     res_bind (unsignedBigInt (js_get r ''grossApyBasisPoints'') MAX_RATE_BASIS_POINTS) (\<lambda>gross.
     res_bind (unsignedBigInt (js_get r ''recurringFeeBasisPoints'') MAX_RATE_BASIS_POINTS) (\<lambda>recurring.
     res_bind (unsignedBigInt (js_get r ''availableCapacityUsdMantissa'') MAX_MANTISSA) (\<lambda>capacity.
     res_bind (alloc_reference (js_get e ''evidenceReferenceId'')) (\<lambda>evidenceReferenceId.
     res_bind (alloc_reference (js_get e ''adapterId'')) (\<lambda>adapterId.
     Inr \<lparr>op_opportunityId = opportunityId, op_providerId = providerId, op_networkId = networkId, op_assetId = assetId,
          op_availability = availability, op_recommendationEligibility = eligibility,
          op_grossApyBasisPoints = gross, op_recurringFeeBasisPoints = recurring,
          op_availableCapacityUsdMantissa = capacity,
          op_evidence = \<lparr>oe_evidenceReferenceId = evidenceReferenceId, oe_adapterId = adapterId,
                         oe_observedAt = fst observedAt, oe_validUntil = fst validUntil\<rparr>,
          op_riskAssessment = map_option fst risk,
          op_evidenceObservedAtMs = snd observedAt, op_evidenceValidUntilMs = snd validUntil,
          op_riskAssessedAtMs = map_option (\<lambda>x. fst (snd x)) risk,
          op_riskValidUntilMs = map_option (\<lambda>x. snd (snd x)) risk\<rparr>)))))))))))))))))"

text \<open>
  \<^verbatim>\<open>parseCosts\<close> does not throw: a value that is no plain object, an accessor or a bad amount is
  an invalid quote, a wrong set of keys an incomplete one.
\<close>

definition parseCosts :: "jsval \<Rightarrow> FeeAwareAllocationCostsUsdMantissa option \<times> CostIssue option" where
  "parseCosts v =
     (case js_peel v of
        Some (JObject proto props) \<Rightarrow>
          if proto \<noteq> ProtoObject \<and> proto \<noteq> ProtoNull then (None, Some INVALID_COST_QUOTE)
          else if length props \<noteq> length FEE_AWARE_ALLOCATION_COST_KINDS \<or>
                  list_ex (\<lambda>(k, _). \<not> key_in FEE_AWARE_ALLOCATION_COST_KINDS k) props
          then (None, Some INCOMPLETE_COST_QUOTE)
          else (case read_data FEE_AWARE_ALLOCATION_COST_KINDS props of
                  None \<Rightarrow> (None, Some INVALID_COST_QUOTE)
                | Some r \<Rightarrow>
                    (case res_map (\<lambda>(k, x). unsignedBigInt x MAX_MANTISSA) r of
                       Inr [a, b, c, d, e, f, g, h, i, j, k, l, m] \<Rightarrow>
                         (Some \<lparr>entrySourceNetwork = a, entrySourceSwap = b, entryBridge = c,
                                entryDestinationNetwork = d, entryDestinationSwap = e, providerEntry = f,
                                providerExit = g, exitDestinationNetwork = h, exitDestinationSwap = i,
                                exitBridge = j, exitSourceNetwork = k, platformRouting = l,
                                exitPlatformRouting = CostAbsent, riskBuffer = m\<rparr>, None)
                     | _ \<Rightarrow> (None, Some INVALID_COST_QUOTE)))
      | _ \<Rightarrow> (None, Some INVALID_COST_QUOTE))"

definition parseBridge :: "jsval \<Rightarrow> FeeAwareBridgeEstimate option parsed" where
  "parseBridge v =
     (if v = JNull then Inr None
      else
        res_bind (alloc_exactRecord v
          [''entryBridgeProviderId'', ''exitBridgeProviderId'', ''entryEstimateReferenceId'', ''exitEstimateReferenceId'',
           ''entryMinimumOutputAtomic'', ''exitMinimumOutputAtomic'']) (\<lambda>r.
        res_bind (alloc_reference (js_get r ''entryBridgeProviderId'')) (\<lambda>entryProvider.
        res_bind (alloc_reference (js_get r ''exitBridgeProviderId'')) (\<lambda>exitProvider.
        res_bind (alloc_reference (js_get r ''entryEstimateReferenceId'')) (\<lambda>entryRef.
        res_bind (alloc_reference (js_get r ''exitEstimateReferenceId'')) (\<lambda>exitRef.
        res_bind (positiveBigInt (js_get r ''entryMinimumOutputAtomic'') MAX_MANTISSA) (\<lambda>entryMinimum.
        res_bind (positiveBigInt (js_get r ''exitMinimumOutputAtomic'') MAX_MANTISSA) (\<lambda>exitMinimum.
        Inr (Some \<lparr>be_entryBridgeProviderId = entryProvider, be_exitBridgeProviderId = exitProvider,
                   be_entryEstimateReferenceId = entryRef, be_exitEstimateReferenceId = exitRef,
                   be_entryMinimumOutputAtomic = entryMinimum, be_exitMinimumOutputAtomic = exitMinimum\<rparr>)))))))))"

definition parseCostQuote :: "jsval \<Rightarrow> ParsedCostQuote parsed" where
  "parseCostQuote v =
     res_bind (alloc_exactRecord v
       [''quoteReferenceId'', ''routeReferenceId'', ''positionId'', ''opportunityId'', ''verifiedByAdapterId'',
        ''quotedAt'', ''validUntil'', ''sourceNetworkId'', ''destinationNetworkId'', ''sourceAssetId'',
        ''destinationAssetId'', ''sourceAmountAtomic'', ''minimumDestinationAmountAtomic'', ''costsUsdMantissa'',
        ''bridge'']) (\<lambda>r.
     res_bind (alloc_timestamp (js_get r ''quotedAt'')) (\<lambda>quotedAt.
     res_bind (alloc_timestamp (js_get r ''validUntil'')) (\<lambda>validUntil.
     res_bind (require InvalidInput (\<not> snd validUntil \<le> snd quotedAt)) (\<lambda>_.
     let parsedCosts = parseCosts (js_get r ''costsUsdMantissa'') in
     res_bind (positiveBigInt (js_get r ''sourceAmountAtomic'') MAX_MANTISSA) (\<lambda>sourceAmount.
     res_bind (positiveBigInt (js_get r ''minimumDestinationAmountAtomic'') MAX_MANTISSA) (\<lambda>minimumDestination.
     res_bind (parseBridge (js_get r ''bridge'')) (\<lambda>bridge.
     res_bind (require InvalidInput
       (case bridge of
          None \<Rightarrow> True
        | Some b \<Rightarrow> \<not> (be_entryMinimumOutputAtomic b \<noteq> minimumDestination \<or>
                        be_entryMinimumOutputAtomic b > sourceAmount \<or>
                        be_exitMinimumOutputAtomic b > be_entryMinimumOutputAtomic b))) (\<lambda>_.
     res_bind (alloc_reference (js_get r ''quoteReferenceId'')) (\<lambda>quoteReferenceId.
     res_bind (alloc_reference (js_get r ''routeReferenceId'')) (\<lambda>routeReferenceId.
     res_bind (alloc_reference (js_get r ''positionId'')) (\<lambda>positionId.
     res_bind (alloc_reference (js_get r ''opportunityId'')) (\<lambda>opportunityId.
     res_bind (alloc_reference (js_get r ''verifiedByAdapterId'')) (\<lambda>adapterId.
     res_bind (alloc_networkId (js_get r ''sourceNetworkId'')) (\<lambda>sourceNetworkId.
     res_bind (alloc_networkId (js_get r ''destinationNetworkId'')) (\<lambda>destinationNetworkId.
     res_bind (alloc_reference (js_get r ''sourceAssetId'')) (\<lambda>sourceAssetId.
     res_bind (alloc_reference (js_get r ''destinationAssetId'')) (\<lambda>destinationAssetId.
     Inr \<lparr>cq_quoteReferenceId = quoteReferenceId, cq_routeReferenceId = routeReferenceId,
          cq_positionId = positionId, cq_opportunityId = opportunityId, cq_verifiedByAdapterId = adapterId,
          cq_quotedAt = fst quotedAt, cq_validUntil = fst validUntil,
          cq_quotedAtMs = snd quotedAt, cq_validUntilMs = snd validUntil,
          cq_sourceNetworkId = sourceNetworkId, cq_destinationNetworkId = destinationNetworkId,
          cq_sourceAssetId = sourceAssetId, cq_destinationAssetId = destinationAssetId,
          cq_sourceAmountAtomic = sourceAmount, cq_minimumDestinationAmountAtomic = minimumDestination,
          cq_costsUsdMantissa = fst parsedCosts, cq_costIssue = snd parsedCosts, cq_bridge = bridge\<rparr>)))))))))))))))))"

text \<open>The \<^verbatim>\<open>try\<close> around the quote turns its errors into an issue of the candidate.\<close>

definition parseCandidate :: "jsval \<Rightarrow> ParsedCandidate parsed" where
  "parseCandidate v =
     res_bind (alloc_exactRecord v [''candidateId'', ''positionId'', ''opportunityId'', ''costQuote'']) (\<lambda>r.
     let quote = (case parseCostQuote (js_get r ''costQuote'') of
                    Inr q \<Rightarrow> (Some q, None)
                  | Inl _ \<Rightarrow> (None, Some INVALID_COST_QUOTE)) in
     res_bind (alloc_reference (js_get r ''candidateId'')) (\<lambda>candidateId.
     res_bind (alloc_reference (js_get r ''positionId'')) (\<lambda>positionId.
     res_bind (alloc_reference (js_get r ''opportunityId'')) (\<lambda>opportunityId.
     Inr \<lparr>cd_candidateId = candidateId, cd_positionId = positionId, cd_opportunityId = opportunityId,
          cd_costQuote = fst quote, cd_quoteIssue = snd quote\<rparr>))))"

definition parseOptIn :: "jsval \<Rightarrow> ParsedOptIn option parsed" where
  "parseOptIn v =
     (if v = JNull then Inr None
      else
        res_bind (alloc_exactRecord v [''scope'', ''consentReferenceId'', ''grantedAt'', ''expiresAt'']) (\<lambda>r.
        res_bind (require InvalidInput (js_get r ''scope'' = JString ''CONSIDER_CROSS_CHAIN_RECOMMENDATIONS'')) (\<lambda>_.
        res_bind (alloc_timestamp (js_get r ''grantedAt'')) (\<lambda>grantedAt.
        res_bind (alloc_timestamp (js_get r ''expiresAt'')) (\<lambda>expiresAt.
        res_bind (require InvalidInput (\<not> snd expiresAt \<le> snd grantedAt)) (\<lambda>_.
        res_bind (alloc_reference (js_get r ''consentReferenceId'')) (\<lambda>consent.
        Inr (Some \<lparr>oi_consentReferenceId = consent, oi_grantedAt = fst grantedAt, oi_expiresAt = fst expiresAt,
                   oi_grantedAtMs = snd grantedAt, oi_expiresAtMs = snd expiresAt\<rparr>))))))))"

definition parseCrossChainPolicy :: "jsval \<Rightarrow> FeeAwareCrossChainPolicy parsed" where
  "parseCrossChainPolicy v =
     res_bind (alloc_exactRecord v
       [''optIn'', ''allowedBridgeProviderIds'', ''maximumLifecycleCostUsdMantissa'',
        ''minimumNetImprovementUsdMantissa'']) (\<lambda>r.
     res_bind (alloc_exactArray (js_get r ''allowedBridgeProviderIds'') 0 32) (\<lambda>bridges.
     res_bind (res_map alloc_reference bridges) (\<lambda>allowed.
     res_bind (alloc_unique allowed) (\<lambda>_.
     res_bind (parseOptIn (js_get r ''optIn'')) (\<lambda>optIn.
     res_bind (unsignedBigInt (js_get r ''maximumLifecycleCostUsdMantissa'') MAX_MANTISSA) (\<lambda>maximumCost.
     res_bind (unsignedBigInt (js_get r ''minimumNetImprovementUsdMantissa'') MAX_MANTISSA) (\<lambda>minimumImprovement.
     Inr \<lparr>cp_optIn = optIn, cp_allowedBridgeProviderIds = allowed, cp_maximumLifecycleCostUsdMantissa = maximumCost,
          cp_minimumNetImprovementUsdMantissa = minimumImprovement\<rparr>)))))))"

definition parseExposurePolicy :: "jsval \<Rightarrow> FeeAwareAllocationExposurePolicy parsed" where
  "parseExposurePolicy v =
     res_bind (alloc_exactRecord v [''maximumCrossChainPrincipalUsdMantissa'', ''maximumProviderPrincipalUsdMantissa'']) (\<lambda>r.
     res_bind (unsignedBigInt (js_get r ''maximumCrossChainPrincipalUsdMantissa'') MAX_MANTISSA) (\<lambda>crossChain.
     res_bind (unsignedBigInt (js_get r ''maximumProviderPrincipalUsdMantissa'') MAX_MANTISSA) (\<lambda>provider.
     Inr \<lparr>ep_maximumCrossChainPrincipalUsdMantissa = crossChain, ep_maximumProviderPrincipalUsdMantissa = provider\<rparr>)))"

definition REQUEST_KEYS :: "string list" where
  "REQUEST_KEYS =
     [''usdScale'', ''evaluatedAt'', ''holdingPeriodDays'', ''maximumQuoteAgeSeconds'', ''maximumOpportunityAgeSeconds'',
      ''minimumNetBenefitUsdMantissa'', ''crossChainPolicy'', ''exposurePolicy'', ''positions'', ''opportunities'',
      ''candidates'']"

definition parseRequest :: "jsval \<Rightarrow> ParsedRequest parsed" where
  "parseRequest v =
     res_bind (alloc_exactRecord v REQUEST_KEYS) (\<lambda>r.
     res_bind (require InvalidInput (js_get r ''usdScale'' = js_int FEE_AWARE_ALLOCATION_USD_SCALE)) (\<lambda>_.
     res_bind (alloc_timestamp (js_get r ''evaluatedAt'')) (\<lambda>evaluatedAt.
     res_bind (positiveBigInt (js_get r ''holdingPeriodDays'') MAX_HOLDING_PERIOD_DAYS) (\<lambda>holdingPeriodDays.
     res_bind (positiveBigInt (js_get r ''maximumQuoteAgeSeconds'') MAX_FRESHNESS_SECONDS) (\<lambda>quoteAge.
     res_bind (positiveBigInt (js_get r ''maximumOpportunityAgeSeconds'') MAX_FRESHNESS_SECONDS) (\<lambda>opportunityAge.
     res_bind (unsignedBigInt (js_get r ''minimumNetBenefitUsdMantissa'') MAX_MANTISSA) (\<lambda>minimumNetBenefit.
     res_bind (alloc_exactArray (js_get r ''positions'') 1 64) (\<lambda>ps.
     res_bind (res_map parsePosition ps) (\<lambda>positions.
     res_bind (alloc_exactArray (js_get r ''opportunities'') 1 256) (\<lambda>os.
     res_bind (res_map parseOpportunity os) (\<lambda>opportunities.
     res_bind (alloc_exactArray (js_get r ''candidates'') 0 1024) (\<lambda>cs.
     res_bind (res_map parseCandidate cs) (\<lambda>candidates.
     res_bind (alloc_unique (map ps_positionId positions)) (\<lambda>_.
     res_bind (alloc_unique (map op_opportunityId opportunities)) (\<lambda>_.
     res_bind (alloc_unique (map cd_candidateId candidates)) (\<lambda>_.
     res_bind (parseCrossChainPolicy (js_get r ''crossChainPolicy'')) (\<lambda>crossChainPolicy.
     res_bind (parseExposurePolicy (js_get r ''exposurePolicy'')) (\<lambda>exposurePolicy.
     Inr \<lparr>rq_evaluatedAt = fst evaluatedAt, rq_evaluatedAtMs = snd evaluatedAt,
          rq_holdingPeriodDays = holdingPeriodDays, rq_maximumQuoteAgeSeconds = quoteAge,
          rq_maximumOpportunityAgeSeconds = opportunityAge, rq_minimumNetBenefitUsdMantissa = minimumNetBenefit,
          rq_crossChainPolicy = crossChainPolicy, rq_exposurePolicy = exposurePolicy,
          rq_positions = positions, rq_opportunities = opportunities, rq_candidates = candidates\<rparr>))))))))))))))))))"

end
