(* ===== verification/Allocation_Policy.thy ===== *)
theory Allocation_Policy
  imports Allocation Js_Sort
begin

text \<open>
  The allocation policy, \<^verbatim>\<open>apps/api/src/smart-lending/domain/fee-aware-allocation.ts\<close>: the assessment
  of candidates, the comparison of cross-chain with same-chain routes, the selection within the
  limits, and the recommendation.

  The assessments are mutable objects shared by several arrays in the source; here the array of
  assessments is the store and the groups of the selection are lists of indices into it.
\<close>

definition compareText :: "string \<Rightarrow> string \<Rightarrow> int" where
  "compareText left right = (if left = right then 0 else if left < right then - 1 else 1)"

subsection \<open>Assessment\<close>

record InternalAssessment =
  ia_candidate :: ParsedCandidate
  ia_position :: FeeAwareCapitalPosition
  ia_opportunity :: ParsedOpportunity
  ia_routeKind :: RouteKind
  ia_reasons :: "FeeAwareCandidateReason list"
  ia_calculation :: "FeeAwareCandidateCalculation option"
  ia_selected :: bool

text \<open>The reasons that hold, in the order of the checks.\<close>

definition reasons_of :: "(bool \<times> FeeAwareCandidateReason) list \<Rightarrow> FeeAwareCandidateReason list" where
  "reasons_of checks = map snd (filter fst checks)"

definition assessQuoteFreshness :: "ParsedRequest \<Rightarrow> ParsedCostQuote \<Rightarrow> FeeAwareCandidateReason list" where
  "assessQuoteFreshness request quote = reasons_of
     [(cq_quotedAtMs quote > rq_evaluatedAtMs request, COST_QUOTE_FROM_FUTURE),
      (rq_evaluatedAtMs request \<ge> cq_validUntilMs quote, COST_QUOTE_EXPIRED),
      (cq_quotedAtMs quote \<le> rq_evaluatedAtMs request \<and>
         rq_evaluatedAtMs request - cq_quotedAtMs quote \<ge> rq_maximumQuoteAgeSeconds request * 1000, COST_QUOTE_STALE)]"

definition assessOpportunity :: "ParsedRequest \<Rightarrow> ParsedOpportunity \<Rightarrow> FeeAwareCandidateReason list" where
  "assessOpportunity request o' =
     (let now = rq_evaluatedAtMs request; age = rq_maximumOpportunityAgeSeconds request * 1000
      in reasons_of
           [(op_availability o' \<noteq> AVAILABLE, OPPORTUNITY_UNAVAILABLE),
            (op_recommendationEligibility o' \<noteq> ELIGIBLE, OPPORTUNITY_INELIGIBLE),
            (op_evidenceObservedAtMs o' > now, OPPORTUNITY_EVIDENCE_FROM_FUTURE),
            (now \<ge> op_evidenceValidUntilMs o', OPPORTUNITY_EVIDENCE_EXPIRED),
            (op_evidenceObservedAtMs o' \<le> now \<and> now - op_evidenceObservedAtMs o' \<ge> age, OPPORTUNITY_EVIDENCE_STALE)] @
         (case op_riskAssessment o' of
            None \<Rightarrow> [RISK_ASSESSMENT_REQUIRED]
          | Some _ \<Rightarrow> reasons_of
              [(case op_riskAssessedAtMs o' of None \<Rightarrow> True | Some t \<Rightarrow> t > now, RISK_ASSESSMENT_FROM_FUTURE),
               (case op_riskValidUntilMs o' of None \<Rightarrow> True | Some t \<Rightarrow> now \<ge> t, RISK_ASSESSMENT_EXPIRED),
               (case op_riskAssessedAtMs o' of None \<Rightarrow> False | Some t \<Rightarrow> t \<le> now \<and> now - t \<ge> age, RISK_ASSESSMENT_STALE)]))"

definition assessRouteKind :: "ParsedRequest \<Rightarrow> RouteKind \<Rightarrow> ParsedCostQuote \<Rightarrow> FeeAwareCandidateReason list" where
  "assessRouteKind request routeKind quote =
     (let policy = rq_crossChainPolicy request in
      if routeKind = SAME_CHAIN
      then reasons_of
        [(cq_bridge quote \<noteq> None, UNEXPECTED_BRIDGE_ESTIMATE),
         (case cq_costsUsdMantissa quote of
            None \<Rightarrow> False | Some costs \<Rightarrow> entryBridge costs \<noteq> 0 \<or> exitBridge costs \<noteq> 0, UNEXPECTED_BRIDGE_COST)]
      else
        (case cp_optIn policy of
           None \<Rightarrow> [CROSS_CHAIN_OPT_IN_REQUIRED]
         | Some optIn \<Rightarrow> reasons_of
             [(rq_evaluatedAtMs request < oi_grantedAtMs optIn, CROSS_CHAIN_OPT_IN_NOT_ACTIVE),
              (rq_evaluatedAtMs request \<ge> oi_expiresAtMs optIn, CROSS_CHAIN_OPT_IN_EXPIRED)]) @
        (case cq_bridge quote of
           None \<Rightarrow> [BRIDGE_ESTIMATE_REQUIRED]
         | Some bridge \<Rightarrow> reasons_of
             [(be_entryBridgeProviderId bridge \<notin> set (cp_allowedBridgeProviderIds policy) \<or>
               be_exitBridgeProviderId bridge \<notin> set (cp_allowedBridgeProviderIds policy), BRIDGE_PROVIDER_NOT_ALLOWED)]))"

definition calculateCandidate :: "ParsedRequest \<Rightarrow> FeeAwareCapitalPosition \<Rightarrow> ParsedOpportunity \<Rightarrow>
    FeeAwareAllocationCostsUsdMantissa \<Rightarrow> FeeAwareCandidateCalculation option \<times> FeeAwareCandidateReason list" where
  "calculateCandidate request position o' costs =
     (let result = calculateFeeAwareReturn
        \<lparr>in_principal = ps_amountUsdMantissa position, in_gross = op_grossApyBasisPoints o',
         in_recurring = op_recurringFeeBasisPoints o',
         in_penalty = (case op_riskAssessment o' of None \<Rightarrow> 0 | Some r \<Rightarrow> ra_penaltyBasisPoints r),
         in_holdingPeriodDays = rq_holdingPeriodDays request,
         in_minimumNetBenefit = rq_minimumNetBenefitUsdMantissa request, in_costs = costs\<rparr>
      in (fst result, map Return (snd result)))"

text \<open>The conditions that bind a quote to its position and opportunity.\<close>

definition position_bound :: "ParsedCostQuote \<Rightarrow> FeeAwareCapitalPosition \<Rightarrow> bool" where
  "position_bound quote position = (cq_positionId quote = ps_positionId position)"

definition opportunity_bound :: "ParsedCostQuote \<Rightarrow> ParsedOpportunity \<Rightarrow> bool" where
  "opportunity_bound quote o' = (cq_opportunityId quote = op_opportunityId o')"

definition network_mismatch :: "ParsedCostQuote \<Rightarrow> FeeAwareCapitalPosition \<Rightarrow> ParsedOpportunity \<Rightarrow> bool" where
  "network_mismatch quote position o' =
     (cq_sourceNetworkId quote \<noteq> ps_networkId position \<or> cq_destinationNetworkId quote \<noteq> op_networkId o')"

definition asset_mismatch :: "ParsedCostQuote \<Rightarrow> FeeAwareCapitalPosition \<Rightarrow> ParsedOpportunity \<Rightarrow> bool" where
  "asset_mismatch quote position o' =
     (cq_sourceAssetId quote \<noteq> ps_assetId position \<or> cq_destinationAssetId quote \<noteq> op_assetId o')"

definition amount_mismatch :: "ParsedCostQuote \<Rightarrow> FeeAwareCapitalPosition \<Rightarrow> bool" where
  "amount_mismatch quote position = (cq_sourceAmountAtomic quote \<noteq> ps_amountAtomic position)"

text \<open>The assessment of a candidate whose quote was parsed: its calculation and its reasons.\<close>

definition assessQuote :: "ParsedRequest \<Rightarrow> ParsedCostQuote \<Rightarrow> FeeAwareCapitalPosition \<Rightarrow> ParsedOpportunity \<Rightarrow> RouteKind \<Rightarrow>
    FeeAwareCandidateCalculation option \<times> FeeAwareCandidateReason list" where
  "assessQuote request quote position o' routeKind =
     (let checks =
        (case (cq_costIssue quote, cq_costsUsdMantissa quote) of
           (Some issue, _) \<Rightarrow> [CostQuote issue]
         | (None, None) \<Rightarrow> [CostQuote INVALID_COST_QUOTE]
         | (None, Some _) \<Rightarrow> []) @
        assessQuoteFreshness request quote @
        reasons_of
          [(\<not> position_bound quote position, COST_QUOTE_POSITION_MISMATCH),
           (\<not> opportunity_bound quote o', COST_QUOTE_OPPORTUNITY_MISMATCH),
           (network_mismatch quote position o', ROUTE_NETWORK_MISMATCH),
           (asset_mismatch quote position o', ROUTE_ASSET_MISMATCH),
           (amount_mismatch quote position, SOURCE_AMOUNT_MISMATCH)] @
        assessOpportunity request o' @
        reasons_of
          [(ps_amountUsdMantissa position > op_availableCapacityUsdMantissa o', INSUFFICIENT_OPPORTUNITY_CAPACITY)] @
        assessRouteKind request routeKind quote
      in case cq_costsUsdMantissa quote of
           None \<Rightarrow> (None, checks)
         | Some costs \<Rightarrow>
             if \<not> position_bound quote position \<or> \<not> opportunity_bound quote o' \<or> network_mismatch quote position o' \<or>
                asset_mismatch quote position o' \<or> amount_mismatch quote position
             then (None, checks)
             else let result = calculateCandidate request position o' costs in (fst result, checks @ snd result))"

definition assessCandidate :: "ParsedRequest \<Rightarrow> ParsedCandidate \<Rightarrow> FeeAwareCapitalPosition \<Rightarrow> ParsedOpportunity \<Rightarrow>
    InternalAssessment" where
  "assessCandidate request candidate position o' =
     (let routeKind = (if ps_networkId position = op_networkId o' then SAME_CHAIN else CROSS_CHAIN);
          result =
            (case (cd_quoteIssue candidate, cd_costQuote candidate) of
               (Some issue, _) \<Rightarrow> (None, [CostQuote issue])
             | (None, None) \<Rightarrow> (None, [CostQuote INVALID_COST_QUOTE])
             | (None, Some quote) \<Rightarrow> assessQuote request quote position o' routeKind)
      in \<lparr>ia_candidate = candidate, ia_position = position, ia_opportunity = o', ia_routeKind = routeKind,
          ia_reasons = snd result, ia_calculation = fst result, ia_selected = False\<rparr>)"

subsection \<open>Comparison\<close>

definition isEligibleInternal :: "InternalAssessment \<Rightarrow> bool" where
  "isEligibleInternal a = (ia_reasons a = [] \<and> ia_calculation a \<noteq> None)"

definition return_candidate :: "InternalAssessment \<Rightarrow> ReturnCandidate" where
  "return_candidate a =
     \<lparr>cand_id = cd_candidateId (ia_candidate a), cand_routeKind = ia_routeKind a, cand_calculation = ia_calculation a\<rparr>"

definition compareAssessments :: "InternalAssessment \<Rightarrow> InternalAssessment \<Rightarrow> int" where
  "compareAssessments left right = compareFeeAwareReturns (return_candidate left) (return_candidate right)"

definition net_benefit :: "InternalAssessment \<Rightarrow> int option" where
  "net_benefit a = map_option netBenefitUsdMantissa (ia_calculation a)"

definition compareOptionalNetBenefit :: "InternalAssessment option \<Rightarrow> InternalAssessment option \<Rightarrow> int" where
  "compareOptionalNetBenefit left right =
     (case (Option.bind left net_benefit, Option.bind right net_benefit) of
        (None, None) \<Rightarrow> 0
      | (None, Some _) \<Rightarrow> 1
      | (Some _, None) \<Rightarrow> - 1
      | (Some l, Some r) \<Rightarrow> if l = r then 0 else if l > r then - 1 else 1)"

subsection \<open>Cross-chain routes against the same-chain baseline\<close>

definition sameChainBaseline :: "InternalAssessment list \<Rightarrow> FeeAwareCapitalPosition \<Rightarrow> int option" where
  "sameChainBaseline assessments position =
     (case js_sort compareAssessments (filter (\<lambda>a.
             ps_positionId (ia_position a) = ps_positionId position \<and> ia_routeKind a = SAME_CHAIN \<and>
             ia_reasons a = [] \<and> ia_calculation a \<noteq> None) assessments) of
        [] \<Rightarrow> None
      | best # _ \<Rightarrow> net_benefit best)"

definition compareWithBaseline :: "FeeAwareCrossChainPolicy \<Rightarrow> FeeAwareCapitalPosition \<Rightarrow> int option \<Rightarrow>
    InternalAssessment \<Rightarrow> InternalAssessment" where
  "compareWithBaseline policy position baseline a =
     (if ps_positionId (ia_position a) \<noteq> ps_positionId position \<or> ia_routeKind a \<noteq> CROSS_CHAIN then a
      else case ia_calculation a of
             None \<Rightarrow> a
           | Some c \<Rightarrow>
               (case baseline of
                  None \<Rightarrow> a\<lparr>ia_reasons := ia_reasons a @ [NO_ELIGIBLE_SAME_CHAIN_BASELINE]\<rparr>
                | Some b \<Rightarrow>
                    let improvement = netBenefitUsdMantissa c - b
                    in a\<lparr>ia_calculation := Some (c\<lparr>improvementOverSameChainUsdMantissa := Some improvement\<rparr>),
                         ia_reasons := ia_reasons a @ reasons_of
                           [(totalLifecycleCostUsdMantissa c > cp_maximumLifecycleCostUsdMantissa policy,
                               CROSS_CHAIN_COST_LIMIT_EXCEEDED),
                            (improvement < cp_minimumNetImprovementUsdMantissa policy,
                               CROSS_CHAIN_IMPROVEMENT_BELOW_THRESHOLD)]\<rparr>))"

fun applyCrossChainComparisonPolicy :: "FeeAwareCrossChainPolicy \<Rightarrow> FeeAwareCapitalPosition list \<Rightarrow>
    InternalAssessment list \<Rightarrow> InternalAssessment list" where
  "applyCrossChainComparisonPolicy policy [] assessments = assessments"
| "applyCrossChainComparisonPolicy policy (position # positions) assessments =
     applyCrossChainComparisonPolicy policy positions
       (map (compareWithBaseline policy position (sameChainBaseline assessments position)) assessments)"

subsection \<open>Selection within the limits\<close>

text \<open>The index groups of the positions, in the order of their first assessment.\<close>

fun add_to_group :: "string \<Rightarrow> nat \<Rightarrow> (string \<times> nat list) list \<Rightarrow> (string \<times> nat list) list" where
  "add_to_group positionId i [] = [(positionId, [i])]"
| "add_to_group positionId i ((k, g) # gs) =
     (if k = positionId then (k, g @ [i]) # gs else (k, g) # add_to_group positionId i gs)"

definition positionGroups :: "InternalAssessment list \<Rightarrow> (string \<times> nat list) list" where
  "positionGroups assessments =
     fold (\<lambda>i. add_to_group (ps_positionId (ia_position (assessments ! i))) i) [0..<length assessments] []"

text \<open>\<^verbatim>\<open>group.filter(isEligibleInternal).sort(compareAssessments)\<close> on the present store.\<close>

definition eligible_order :: "InternalAssessment list \<Rightarrow> nat list \<Rightarrow> nat list" where
  "eligible_order assessments grp =
     js_sort (\<lambda>i j. compareAssessments (assessments ! i) (assessments ! j))
       (filter (\<lambda>i. isEligibleInternal (assessments ! i)) grp)"

definition best_of :: "InternalAssessment list \<Rightarrow> nat list \<Rightarrow> InternalAssessment option" where
  "best_of assessments grp =
     (case eligible_order assessments grp of [] \<Rightarrow> None | i # _ \<Rightarrow> Some (assessments ! i))"

definition first_position :: "InternalAssessment list \<Rightarrow> nat list \<Rightarrow> string" where
  "first_position assessments grp =
     (case grp of [] \<Rightarrow> [] | i # _ \<Rightarrow> ps_positionId (ia_position (assessments ! i)))"

definition compareGroups :: "InternalAssessment list \<Rightarrow> nat list \<Rightarrow> nat list \<Rightarrow> int" where
  "compareGroups assessments left right =
     (let c = compareOptionalNetBenefit (best_of assessments left) (best_of assessments right)
      in if c \<noteq> 0 then c else compareText (first_position assessments left) (first_position assessments right))"

definition orderedGroups :: "InternalAssessment list \<Rightarrow> nat list list" where
  "orderedGroups assessments = js_sort (compareGroups assessments) (map snd (positionGroups assessments))"

record Budgets =
  bg_capacity :: "string \<Rightarrow> int option"
  bg_provider :: "string \<Rightarrow> int option"
  bg_crossChain :: int

definition push_reason :: "FeeAwareCandidateReason \<Rightarrow> InternalAssessment \<Rightarrow> InternalAssessment" where
  "push_reason reason a = a\<lparr>ia_reasons := ia_reasons a @ [reason]\<rparr>"

fun selectInGroup :: "FeeAwareAllocationExposurePolicy \<Rightarrow> nat list \<Rightarrow> InternalAssessment list \<times> Budgets \<Rightarrow>
    InternalAssessment list \<times> Budgets" where
  "selectInGroup policy [] st = st"
| "selectInGroup policy (i # is) (assessments, budgets) =
     (let a = assessments ! i;
          amount = ps_amountUsdMantissa (ia_position a);
          opportunityId = op_opportunityId (ia_opportunity a);
          providerId = op_providerId (ia_opportunity a);
          capacity = (case bg_capacity budgets opportunityId of None \<Rightarrow> 0 | Some c \<Rightarrow> c);
          providerCapacity =
            (case bg_provider budgets providerId of None \<Rightarrow> ep_maximumProviderPrincipalUsdMantissa policy | Some c \<Rightarrow> c)
      in if capacity < amount
         then selectInGroup policy is (assessments[i := push_reason AGGREGATE_CAPACITY_EXCEEDED a], budgets)
         else if ia_routeKind a = CROSS_CHAIN \<and> bg_crossChain budgets < amount
         then selectInGroup policy is (assessments[i := push_reason AGGREGATE_CROSS_CHAIN_PRINCIPAL_EXCEEDED a], budgets)
         else if providerCapacity < amount
         then selectInGroup policy is (assessments[i := push_reason AGGREGATE_PROVIDER_PRINCIPAL_EXCEEDED a], budgets)
         else (assessments[i := a\<lparr>ia_selected := True\<rparr>],
               budgets\<lparr>bg_capacity := (bg_capacity budgets)(opportunityId \<mapsto> capacity - amount),
                       bg_provider := (bg_provider budgets)(providerId \<mapsto> providerCapacity - amount),
                       bg_crossChain :=
                         (if ia_routeKind a = CROSS_CHAIN then bg_crossChain budgets - amount else bg_crossChain budgets)\<rparr>))"

fun selectGroups :: "FeeAwareAllocationExposurePolicy \<Rightarrow> nat list list \<Rightarrow> InternalAssessment list \<times> Budgets \<Rightarrow>
    InternalAssessment list \<times> Budgets" where
  "selectGroups policy [] st = st"
| "selectGroups policy (grp # groups) st =
     selectGroups policy groups (selectInGroup policy (eligible_order (fst st) grp) st)"

definition initialBudgets :: "ParsedOpportunity list \<Rightarrow> FeeAwareAllocationExposurePolicy \<Rightarrow> Budgets" where
  "initialBudgets opportunities policy =
     \<lparr>bg_capacity = map_of (rev (map (\<lambda>o'. (op_opportunityId o', op_availableCapacityUsdMantissa o')) opportunities)),
      bg_provider = (\<lambda>_. None),
      bg_crossChain = ep_maximumCrossChainPrincipalUsdMantissa policy\<rparr>"

definition selectCandidatesWithinLimits :: "InternalAssessment list \<Rightarrow> ParsedOpportunity list \<Rightarrow>
    FeeAwareAllocationExposurePolicy \<Rightarrow> InternalAssessment list" where
  "selectCandidatesWithinLimits assessments opportunities policy =
     fst (selectGroups policy (orderedGroups assessments) (assessments, initialBudgets opportunities policy))"

subsection \<open>Recommendation\<close>

record FeeAwareCandidateAssessment =
  fa_candidateId :: string
  fa_positionId :: string
  fa_opportunityId :: string
  fa_routeKind :: RouteKind
  fa_eligible :: bool
  fa_selected :: bool
  fa_reasons :: "FeeAwareCandidateReason list"
  fa_calculation :: "FeeAwareCandidateCalculation option"

record FeeAwarePositionDecision =
  pd_positionId :: string
  pd_walletId :: string
  pd_sourceNetworkId :: string
  pd_sourceAssetId :: string
  pd_sourceAmountAtomic :: int
  pd_principalUsdMantissa :: int
  pd_selectedCandidateId :: "string option"
  pd_selectedOpportunityId :: "string option"
  pd_selectedProviderId :: "string option"
  pd_selectedQuoteReferenceId :: "string option"
  pd_selectedRouteReferenceId :: "string option"
  pd_selectedOpportunityEvidenceReferenceId :: "string option"
  pd_selectedRiskAssessmentReferenceId :: "string option"
  pd_selectedRouteKind :: "RouteKind option"
  pd_requiresSeparateTransactionApproval :: bool
  pd_assessments :: "FeeAwareCandidateAssessment list"

datatype RecommendationStatus = RECOMMENDED | PARTIAL_RECOMMENDATION | NO_ELIGIBLE_ROUTE | INVALID_INPUT

datatype RecommendationReason = Reason_INVALID_INPUT | ONE_OR_MORE_POSITIONS_UNALLOCATED

record FeeAwareAllocationRecommendation =
  rc_policyVersion :: int
  rc_usdScale :: int
  rc_status :: RecommendationStatus
  rc_evaluatedAt :: "string option"
  rc_holdingPeriodDays :: "int option"
  rc_reasons :: "RecommendationReason list"
  rc_totalPrincipalUsdMantissa :: int
  rc_recommendedPrincipalUsdMantissa :: int
  rc_projectedNetBenefitUsdMantissa :: int
  rc_decisions :: "FeeAwarePositionDecision list"
  rc_use :: string
  rc_crossChainOptInMayAuthorizeTransaction :: bool
  rc_mayAuthorizeFinancialAction :: bool
  rc_mayAuthorizeTransaction :: bool
  rc_mayExecuteTransaction :: bool

definition publicAssessment :: "InternalAssessment \<Rightarrow> FeeAwareCandidateAssessment" where
  "publicAssessment a =
     \<lparr>fa_candidateId = cd_candidateId (ia_candidate a), fa_positionId = ps_positionId (ia_position a),
      fa_opportunityId = op_opportunityId (ia_opportunity a), fa_routeKind = ia_routeKind a,
      fa_eligible = (ia_reasons a = []), fa_selected = ia_selected a, fa_reasons = ia_reasons a,
      fa_calculation = ia_calculation a\<rparr>"

definition positionDecision :: "FeeAwareCapitalPosition \<Rightarrow> InternalAssessment list \<Rightarrow> FeeAwarePositionDecision" where
  "positionDecision position assessments =
     (let matching = js_sort (\<lambda>l r. compareText (cd_candidateId (ia_candidate l)) (cd_candidateId (ia_candidate r)))
            (filter (\<lambda>a. ps_positionId (ia_position a) = ps_positionId position) assessments);
          selected = find ia_selected matching
      in \<lparr>pd_positionId = ps_positionId position, pd_walletId = ps_walletId position,
          pd_sourceNetworkId = ps_networkId position, pd_sourceAssetId = ps_assetId position,
          pd_sourceAmountAtomic = ps_amountAtomic position, pd_principalUsdMantissa = ps_amountUsdMantissa position,
          pd_selectedCandidateId = map_option (\<lambda>a. cd_candidateId (ia_candidate a)) selected,
          pd_selectedOpportunityId = map_option (\<lambda>a. op_opportunityId (ia_opportunity a)) selected,
          pd_selectedProviderId = map_option (\<lambda>a. op_providerId (ia_opportunity a)) selected,
          pd_selectedQuoteReferenceId =
            Option.bind selected (\<lambda>a. map_option cq_quoteReferenceId (cd_costQuote (ia_candidate a))),
          pd_selectedRouteReferenceId =
            Option.bind selected (\<lambda>a. map_option cq_routeReferenceId (cd_costQuote (ia_candidate a))),
          pd_selectedOpportunityEvidenceReferenceId =
            map_option (\<lambda>a. oe_evidenceReferenceId (op_evidence (ia_opportunity a))) selected,
          pd_selectedRiskAssessmentReferenceId =
            Option.bind selected (\<lambda>a. map_option ra_assessmentReferenceId (op_riskAssessment (ia_opportunity a))),
          pd_selectedRouteKind = map_option ia_routeKind selected,
          pd_requiresSeparateTransactionApproval = (selected \<noteq> None),
          pd_assessments = map publicAssessment matching\<rparr>)"

fun boundedSum :: "int \<Rightarrow> int list \<Rightarrow> int option" where
  "boundedSum acc [] = Some acc"
| "boundedSum acc (v # vs) = (if acc + v > MAX_MANTISSA then None else boundedSum (acc + v) vs)"

definition invalidRecommendation :: FeeAwareAllocationRecommendation where
  "invalidRecommendation =
     \<lparr>rc_policyVersion = FEE_AWARE_ALLOCATION_POLICY_VERSION, rc_usdScale = FEE_AWARE_ALLOCATION_USD_SCALE,
      rc_status = INVALID_INPUT, rc_evaluatedAt = None, rc_holdingPeriodDays = None, rc_reasons = [Reason_INVALID_INPUT],
      rc_totalPrincipalUsdMantissa = 0, rc_recommendedPrincipalUsdMantissa = 0,
      rc_projectedNetBenefitUsdMantissa = 0, rc_decisions = [], rc_use = ''NON_EXECUTING_RECOMMENDATION_ONLY'',
      rc_crossChainOptInMayAuthorizeTransaction = False, rc_mayAuthorizeFinancialAction = False,
      rc_mayAuthorizeTransaction = False, rc_mayExecuteTransaction = False\<rparr>"

text \<open>The loop over the candidates; a candidate of an unknown position or opportunity ends it.\<close>

definition assessAll :: "ParsedRequest \<Rightarrow> InternalAssessment list parsed" where
  "assessAll request =
     (let positionById = map_of (rev (map (\<lambda>p. (ps_positionId p, p)) (rq_positions request)));
          opportunityById = map_of (rev (map (\<lambda>o'. (op_opportunityId o', o')) (rq_opportunities request)))
      in res_map (\<lambda>candidate.
           case (positionById (cd_positionId candidate), opportunityById (cd_opportunityId candidate)) of
             (Some position, Some o') \<Rightarrow> Inr (assessCandidate request candidate position o')
           | _ \<Rightarrow> Inl InvalidInput) (rq_candidates request))"

text \<open>The assessments after the comparison and the selection.\<close>

definition decideAll :: "ParsedRequest \<Rightarrow> InternalAssessment list \<Rightarrow> InternalAssessment list" where
  "decideAll request assessments =
     selectCandidatesWithinLimits
       (applyCrossChainComparisonPolicy (rq_crossChainPolicy request) (rq_positions request) assessments)
       (rq_opportunities request) (rq_exposurePolicy request)"

definition summarize :: "ParsedRequest \<Rightarrow> InternalAssessment list \<Rightarrow> FeeAwareAllocationRecommendation" where
  "summarize request assessments =
     (let decisions = js_sort (\<lambda>l r. compareText (pd_positionId l) (pd_positionId r))
            (map (\<lambda>position. positionDecision position assessments) (rq_positions request));
          selected = filter ia_selected assessments;
          projected = sum_list (map (\<lambda>a. case net_benefit a of None \<Rightarrow> 0 | Some n \<Rightarrow> n) selected)
      in case (boundedSum 0 (map ps_amountUsdMantissa (rq_positions request)),
               boundedSum 0 (map (\<lambda>a. ps_amountUsdMantissa (ia_position a)) selected)) of
           (Some totalPrincipal, Some recommended) \<Rightarrow>
             if projected > MAX_MANTISSA then invalidRecommendation
             else
               let status =
                 (if length selected = length (rq_positions request) then RECOMMENDED
                  else if length selected = 0 then NO_ELIGIBLE_ROUTE else PARTIAL_RECOMMENDATION)
               in \<lparr>rc_policyVersion = FEE_AWARE_ALLOCATION_POLICY_VERSION, rc_usdScale = FEE_AWARE_ALLOCATION_USD_SCALE,
                   rc_status = status, rc_evaluatedAt = Some (rq_evaluatedAt request),
                   rc_holdingPeriodDays = Some (rq_holdingPeriodDays request),
                   rc_reasons = (if status = PARTIAL_RECOMMENDATION then [ONE_OR_MORE_POSITIONS_UNALLOCATED] else []),
                   rc_totalPrincipalUsdMantissa = totalPrincipal, rc_recommendedPrincipalUsdMantissa = recommended,
                   rc_projectedNetBenefitUsdMantissa = projected, rc_decisions = decisions,
                   rc_use = ''NON_EXECUTING_RECOMMENDATION_ONLY'',
                   rc_crossChainOptInMayAuthorizeTransaction = False, rc_mayAuthorizeFinancialAction = False,
                   rc_mayAuthorizeTransaction = False, rc_mayExecuteTransaction = False\<rparr>
         | _ \<Rightarrow> invalidRecommendation)"

definition recommendFeeAwareAllocation :: "jsval \<Rightarrow> FeeAwareAllocationRecommendation" where
  "recommendFeeAwareAllocation input =
     (case parseRequest input of
        Inl _ \<Rightarrow> invalidRecommendation
      | Inr request \<Rightarrow>
          (case assessAll request of
             Inl _ \<Rightarrow> invalidRecommendation
           | Inr assessments \<Rightarrow> summarize request (decideAll request assessments)))"

end
