(* ===== verification/Allocation_Select.thy ===== *)
theory Allocation_Select
  imports Allocation_Policy
begin

text \<open>
  The selection of \<open>Allocation_Policy\<close>: sorting, the groups of the positions, the limits as an
  invariant of the selection, and what the selection leaves in each group.
\<close>

subsection \<open>Sorting\<close>

lemma compareText_key: "(compareText l r \<le> 0) = (l \<le> r)"
  by (auto simp: compareText_def)

lemma compareAssessments_key:
  "(compareAssessments l r \<le> 0) = (candidate_key (return_candidate l) \<le> candidate_key (return_candidate r))"
  using linorder_less_linear [of "candidate_key (return_candidate l)" "candidate_key (return_candidate r)"]
  by (auto simp: compareAssessments_def compare_key)

lemma eligible_order_sort:
  "eligible_order as grp = sort_key (\<lambda>i. candidate_key (return_candidate (as ! i)))
     (filter (\<lambda>i. isEligibleInternal (as ! i)) grp)"
  unfolding eligible_order_def by (rule js_sort_key) (rule compareAssessments_key)

lemma set_eligible_order: "set (eligible_order as grp) = {i \<in> set grp. isEligibleInternal (as ! i)}"
  by (simp add: eligible_order_def)

lemma sorted_eligible_order:
  "eligible_order as grp = xs @ i # ys \<Longrightarrow> j \<in> set ys \<Longrightarrow>
   candidate_key (return_candidate (as ! i)) \<le> candidate_key (return_candidate (as ! j))"
  using sorted_sort_key [of "\<lambda>i. candidate_key (return_candidate (as ! i))" "filter (\<lambda>i. isEligibleInternal (as ! i)) grp"]
  unfolding eligible_order_sort [symmetric] by (simp add: sorted_append)

lemma distinct_eligible_order: "distinct grp \<Longrightarrow> distinct (eligible_order as grp)"
  by (metis distinct_filter eligible_order_def mset_eq_imp_distinct_iff mset_js_sort)

lemma eligible_order_cong:
  assumes "\<And>i. i \<in> set grp \<Longrightarrow> as ! i = bs ! i"
  shows "eligible_order as grp = eligible_order bs grp"
proof -
  have f: "filter (\<lambda>i. isEligibleInternal (as ! i)) grp = filter (\<lambda>i. isEligibleInternal (bs ! i)) grp"
    using assms by (intro filter_cong) simp_all
  have "insort_key (\<lambda>i. candidate_key (return_candidate (as ! i))) x ys =
      insort_key (\<lambda>i. candidate_key (return_candidate (bs ! i))) x ys"
    if "x \<in> set grp" "set ys \<subseteq> set grp" for x ys
    using that by (induction ys) (simp_all add: assms)
  then have "set xs \<subseteq> set grp \<Longrightarrow> sort_key (\<lambda>i. candidate_key (return_candidate (as ! i))) xs =
      sort_key (\<lambda>i. candidate_key (return_candidate (bs ! i))) xs" for xs
    by (induction xs) (simp_all add: set_insort_key)
  then show ?thesis unfolding eligible_order_sort f by (simp add: subset_iff)
qed

subsection \<open>Groups\<close>

lemma add_to_group_keys:
  "map fst (add_to_group k i gs) = (if k \<in> set (map fst gs) then map fst gs else map fst gs @ [k])"
  by (induction gs) (auto, force)

lemma add_to_group_entries:
  "(q, h) \<in> set (add_to_group k i gs) \<Longrightarrow>
   (q, h) \<in> set gs \<or> (q = k \<and> (h = [i] \<or> (\<exists>g. (k, g) \<in> set gs \<and> h = g @ [i])))"
  by (induction gs) (auto split: if_splits)

lemma add_to_group_members: "mset (concat (map snd (add_to_group k i gs))) = add_mset i (mset (concat (map snd gs)))"
  by (induction gs) auto

definition groups_ok :: "InternalAssessment list \<Rightarrow> (string \<times> nat list) list \<Rightarrow> bool" where
  "groups_ok as gs =
     (distinct (map fst gs) \<and>
      (\<forall>(k, g) \<in> set gs. g \<noteq> [] \<and> (\<forall>i \<in> set g. ps_positionId (ia_position (as ! i)) = k)))"

lemma add_to_group_ok:
  assumes "groups_ok as gs" "ps_positionId (ia_position (as ! i)) = k"
  shows "groups_ok as (add_to_group k i gs)"
proof -
  have "distinct (map fst (add_to_group k i gs))"
    using assms(1) unfolding add_to_group_keys by (simp add: groups_ok_def)
  moreover have old: "h \<noteq> [] \<and> (\<forall>j \<in> set h. ps_positionId (ia_position (as ! j)) = q)" if "(q, h) \<in> set gs" for q h
    using assms(1) that by (auto simp: groups_ok_def)
  have "h \<noteq> [] \<and> (\<forall>j \<in> set h. ps_positionId (ia_position (as ! j)) = q)"
    if "(q, h) \<in> set (add_to_group k i gs)" for q h
    using add_to_group_entries [OF that] assms(2) by (elim disjE conjE exE) (force dest: old)+
  ultimately show ?thesis by (auto simp: groups_ok_def)
qed

lemma positionGroups_ok:
  "groups_ok as (positionGroups as)" "mset (concat (map snd (positionGroups as))) = mset [0..<length as]"
proof -
  have "groups_ok as (fold (\<lambda>i. add_to_group (ps_positionId (ia_position (as ! i))) i) js gs) \<and>
      mset (concat (map snd (fold (\<lambda>i. add_to_group (ps_positionId (ia_position (as ! i))) i) js gs))) =
        mset (concat (map snd gs)) + mset js" if "groups_ok as gs" for js gs
    using that by (induction js arbitrary: gs) (simp_all add: add_to_group_ok add_to_group_members)
  from this [of "[]" "[0..<length as]"]
  show "groups_ok as (positionGroups as)" "mset (concat (map snd (positionGroups as))) = mset [0..<length as]"
    by (simp_all add: positionGroups_def groups_ok_def)
qed

text \<open>The groups partition the indices, and two indices are in one group exactly when they have the
  same position.\<close>

lemma orderedGroups_partition:
  "distinct (concat (orderedGroups as))" "set (concat (orderedGroups as)) = {..<length as}"
proof -
  have "mset (orderedGroups as) = mset (map snd (positionGroups as))" by (simp add: orderedGroups_def)
  moreover have "mset (concat xss) = sum_mset (image_mset mset (mset xss))" for xss :: "nat list list"
    by (induction xss) auto
  ultimately have "mset (concat (orderedGroups as)) = mset (concat (map snd (positionGroups as)))" by presburger
  then have m: "mset (concat (orderedGroups as)) = mset [0..<length as]" by (simp only: positionGroups_ok(2))
  show "distinct (concat (orderedGroups as))" using mset_eq_imp_distinct_iff [OF m] by simp
  show "set (concat (orderedGroups as)) = {..<length as}"
    using mset_eq_setD [OF m] by (simp add: lessThan_atLeast0)
qed

lemma orderedGroups_same_position:
  assumes "g \<in> set (orderedGroups as)" "i \<in> set g" "j < length as"
  shows "(j \<in> set g) = (ps_positionId (ia_position (as ! j)) = ps_positionId (ia_position (as ! i)))"
proof -
  have gs: "groups_ok as (positionGroups as)" by (rule positionGroups_ok)
  obtain k where k: "(k, g) \<in> set (positionGroups as)" using assms(1) by (auto simp: orderedGroups_def)
  have i: "ps_positionId (ia_position (as ! i)) = k" using gs k assms(2) by (auto simp: groups_ok_def)
  have "j \<in> set (concat (map snd (positionGroups as)))"
    using mset_eq_setD [OF positionGroups_ok(2) [of as]] assms(3) by simp
  then obtain q h where h: "(q, h) \<in> set (positionGroups as)" "j \<in> set h" by auto
  have j: "ps_positionId (ia_position (as ! j)) = q" using gs h by (auto simp: groups_ok_def)
  show ?thesis
  proof
    assume "j \<in> set g"
    then show "ps_positionId (ia_position (as ! j)) = ps_positionId (ia_position (as ! i))"
      using gs k i by (auto simp: groups_ok_def)
  next
    assume "ps_positionId (ia_position (as ! j)) = ps_positionId (ia_position (as ! i))"
    then have "q = k" using i j by simp
    then have "h = g" using gs h(1) k by (auto simp: groups_ok_def dest: eq_key_imp_eq_value)
    with h(2) show "j \<in> set g" by simp
  qed
qed

subsection \<open>The limits\<close>

definition amount_of :: "InternalAssessment \<Rightarrow> int" where
  "amount_of a = ps_amountUsdMantissa (ia_position a)"

definition selected_sum :: "(InternalAssessment \<Rightarrow> bool) \<Rightarrow> InternalAssessment list \<Rightarrow> int" where
  "selected_sum P as = sum_list (map amount_of (filter (\<lambda>a. ia_selected a \<and> P a) as))"

definition for_opportunity :: "string \<Rightarrow> InternalAssessment \<Rightarrow> bool" where
  "for_opportunity oid a = (op_opportunityId (ia_opportunity a) = oid)"

definition for_provider :: "string \<Rightarrow> InternalAssessment \<Rightarrow> bool" where
  "for_provider pid a = (op_providerId (ia_opportunity a) = pid)"

definition crossing :: "InternalAssessment \<Rightarrow> bool" where
  "crossing a = (ia_routeKind a = CROSS_CHAIN)"

lemmas selection_classes = for_opportunity_def for_provider_def crossing_def amount_of_def

lemma selected_sum_update:
  assumes "i < length as" "\<not> ia_selected (as ! i)"
  shows "selected_sum P (as[i := b]) = selected_sum P as + (if ia_selected b \<and> P b then amount_of b else 0)"
proof -
  have as: "as = take i as @ as ! i # drop (Suc i) as" using assms(1) by (simp add: id_take_nth_drop)
  have "selected_sum P (as[i := b]) = selected_sum P (take i as @ b # drop (Suc i) as)"
    using assms(1) by (simp add: upd_conv_take_nth_drop)
  moreover have "selected_sum P as = selected_sum P (take i as @ as ! i # drop (Suc i) as)"
    using as by simp
  ultimately show ?thesis using assms(2) by (simp add: selected_sum_def)
qed

text \<open>What was spent and what is left make up each limit, and nothing is overspent.\<close>

definition budgets_ok :: "(string \<Rightarrow> int) \<Rightarrow> FeeAwareAllocationExposurePolicy \<Rightarrow> InternalAssessment list \<times> Budgets \<Rightarrow> bool" where
  "budgets_ok capacity policy st =
     (let as = fst st; bg = snd st;
          left_for = (\<lambda>oid. case bg_capacity bg oid of None \<Rightarrow> 0 | Some c \<Rightarrow> c);
          left_provider = (\<lambda>pid. case bg_provider bg pid of
            None \<Rightarrow> ep_maximumProviderPrincipalUsdMantissa policy | Some c \<Rightarrow> c)
      in (\<forall>oid. selected_sum (for_opportunity oid) as + left_for oid = capacity oid \<and> 0 \<le> left_for oid) \<and>
         (\<forall>pid. selected_sum (for_provider pid) as + left_provider pid = ep_maximumProviderPrincipalUsdMantissa policy \<and>
            0 \<le> left_provider pid) \<and>
         selected_sum crossing as + bg_crossChain bg = ep_maximumCrossChainPrincipalUsdMantissa policy \<and>
         0 \<le> bg_crossChain bg)"

definition same_core :: "InternalAssessment \<Rightarrow> InternalAssessment \<Rightarrow> bool" where
  "same_core a b =
     (ia_candidate b = ia_candidate a \<and> ia_position b = ia_position a \<and> ia_opportunity b = ia_opportunity a \<and>
      ia_routeKind b = ia_routeKind a \<and> ia_calculation b = ia_calculation a)"

lemma same_core_refl [simp]: "same_core a a"
  by (simp add: same_core_def)

lemma same_core_push [simp]: "same_core a (push_reason r a)"
  by (simp add: same_core_def push_reason_def)

lemma push_reason_simps [simp]:
  "ia_selected (push_reason r a) = ia_selected a" "ia_reasons (push_reason r a) = ia_reasons a @ [r]"
  by (simp_all add: push_reason_def)

text \<open>What one pass over a group's eligible order leaves: the refused ones carry a reason, then one
  selection, the rest untouched; or all are refused.\<close>

definition pass_outcome :: "nat list \<Rightarrow> InternalAssessment list \<Rightarrow> InternalAssessment list \<Rightarrow> bool" where
  "pass_outcome is as bs =
     (length bs = length as \<and>
      (\<exists>refused rest. is = refused @ rest \<and>
         (\<forall>j \<in> set refused. same_core (as ! j) (bs ! j) \<and> \<not> ia_selected (bs ! j) \<and> ia_reasons (bs ! j) \<noteq> []) \<and>
         (case rest of
            [] \<Rightarrow> \<forall>j. j \<notin> set refused \<longrightarrow> bs ! j = as ! j
          | s # _ \<Rightarrow> bs ! s = (as ! s)\<lparr>ia_selected := True\<rparr> \<and> (\<forall>j. j \<notin> set refused \<and> j \<noteq> s \<longrightarrow> bs ! j = as ! j))))"

lemma pass_outcome_refused:
  assumes "pass_outcome is (as[i := b]) bs" "same_core (as ! i) b" "\<not> ia_selected b" "ia_reasons b \<noteq> []"
    and "i < length as" "i \<notin> set is"
  shows "pass_outcome (i # is) as bs"
proof -
  obtain refused rest where r: "is = refused @ rest"
      "\<forall>j \<in> set refused. same_core (as[i := b] ! j) (bs ! j) \<and> \<not> ia_selected (bs ! j) \<and> ia_reasons (bs ! j) \<noteq> []"
      "case rest of
         [] \<Rightarrow> \<forall>j. j \<notin> set refused \<longrightarrow> bs ! j = as[i := b] ! j
       | s # _ \<Rightarrow> bs ! s = (as[i := b] ! s)\<lparr>ia_selected := True\<rparr> \<and>
           (\<forall>j. j \<notin> set refused \<and> j \<noteq> s \<longrightarrow> bs ! j = as[i := b] ! j)"
    and l: "length bs = length as"
    using assms(1) by (auto simp: pass_outcome_def)
  have ne: "j \<noteq> i" if "j \<in> set refused \<union> set rest" for j
    using that r(1) assms(6) by auto
  have refused: "same_core (as ! j) (bs ! j) \<and> \<not> ia_selected (bs ! j) \<and> ia_reasons (bs ! j) \<noteq> []" if "j \<in> set refused" for j
    using bspec [OF r(2) that] ne [of j] that by simp
  have i: "bs ! i = b" "i \<notin> set refused" using r(3) ne assms(5) by (cases rest; force)+
  have rest: "case rest of
         [] \<Rightarrow> \<forall>j. j \<notin> set (i # refused) \<longrightarrow> bs ! j = as ! j
       | s # _ \<Rightarrow> bs ! s = (as ! s)\<lparr>ia_selected := True\<rparr> \<and> (\<forall>j. j \<notin> set (i # refused) \<and> j \<noteq> s \<longrightarrow> bs ! j = as ! j)"
  proof (cases rest)
    case Nil
    then show ?thesis using r(3) by auto
  next
    case (Cons s xs)
    then have "s \<noteq> i" using ne by simp
    then show ?thesis using r(3) Cons by auto
  qed
  show ?thesis
    unfolding pass_outcome_def
    by (intro conjI exI [of _ "i # refused"] exI [of _ rest])
      (use r(1) l i(1) refused rest assms(2-4) in simp_all)
qed

lemma budgets_ok_refused:
  assumes "i < length as" "\<not> ia_selected (as ! i)" "\<not> ia_selected b"
  shows "budgets_ok capacity policy (as[i := b], bg) = budgets_ok capacity policy (as, bg)"
  using assms by (simp add: budgets_ok_def Let_def selected_sum_update)

text \<open>The budgets after the selection of \<open>a\<close> when \<open>cap\<close> and \<open>prov\<close> were left for it.\<close>

definition spend :: "InternalAssessment \<Rightarrow> int \<Rightarrow> int \<Rightarrow> Budgets \<Rightarrow> Budgets" where
  "spend a cap prov bg =
     bg\<lparr>bg_capacity := (bg_capacity bg)(op_opportunityId (ia_opportunity a) \<mapsto> cap - amount_of a),
        bg_provider := (bg_provider bg)(op_providerId (ia_opportunity a) \<mapsto> prov - amount_of a),
        bg_crossChain := (if ia_routeKind a = CROSS_CHAIN then bg_crossChain bg - amount_of a else bg_crossChain bg)\<rparr>"

definition left_for :: "Budgets \<Rightarrow> InternalAssessment \<Rightarrow> int" where
  "left_for bg a = (case bg_capacity bg (op_opportunityId (ia_opportunity a)) of None \<Rightarrow> 0 | Some c \<Rightarrow> c)"

definition left_provider :: "FeeAwareAllocationExposurePolicy \<Rightarrow> Budgets \<Rightarrow> InternalAssessment \<Rightarrow> int" where
  "left_provider policy bg a =
     (case bg_provider bg (op_providerId (ia_opportunity a)) of
        None \<Rightarrow> ep_maximumProviderPrincipalUsdMantissa policy | Some c \<Rightarrow> c)"

definition refusal :: "FeeAwareAllocationExposurePolicy \<Rightarrow> Budgets \<Rightarrow> InternalAssessment \<Rightarrow> FeeAwareCandidateReason option" where
  "refusal policy bg a =
     (if left_for bg a < amount_of a then Some AGGREGATE_CAPACITY_EXCEEDED
      else if ia_routeKind a = CROSS_CHAIN \<and> bg_crossChain bg < amount_of a
      then Some AGGREGATE_CROSS_CHAIN_PRINCIPAL_EXCEEDED
      else if left_provider policy bg a < amount_of a then Some AGGREGATE_PROVIDER_PRINCIPAL_EXCEEDED
      else None)"

lemma selectInGroup_step:
  "selectInGroup policy (i # is) (as, bg) =
     (case refusal policy bg (as ! i) of
        Some r \<Rightarrow> selectInGroup policy is (as[i := push_reason r (as ! i)], bg)
      | None \<Rightarrow> (as[i := (as ! i)\<lparr>ia_selected := True\<rparr>],
                 spend (as ! i) (left_for bg (as ! i)) (left_provider policy bg (as ! i)) bg))"
  by (simp add: Let_def refusal_def spend_def left_for_def left_provider_def amount_of_def)

lemma budgets_ok_selected:
  assumes "budgets_ok capacity policy (as, bg)" "i < length as" "\<not> ia_selected (as ! i)"
    and "refusal policy bg (as ! i) = None"
  shows "budgets_ok capacity policy (as[i := (as ! i)\<lparr>ia_selected := True\<rparr>],
    spend (as ! i) (left_for bg (as ! i)) (left_provider policy bg (as ! i)) bg)"
proof -
  have sum: "selected_sum P (as[i := (as ! i)\<lparr>ia_selected := True\<rparr>]) =
      selected_sum P as + (if P ((as ! i)\<lparr>ia_selected := True\<rparr>) then amount_of (as ! i) else 0)" for P
    using selected_sum_update [OF assms(2,3)] by (simp add: amount_of_def)
  have "\<not> left_for bg (as ! i) < amount_of (as ! i)" "\<not> left_provider policy bg (as ! i) < amount_of (as ! i)"
      "\<not> (ia_routeKind (as ! i) = CROSS_CHAIN \<and> bg_crossChain bg < amount_of (as ! i))"
    using assms(4) by (simp_all add: refusal_def split: if_splits)
  then show ?thesis
    using assms(1) unfolding budgets_ok_def Let_def fst_conv snd_conv sum spend_def
    by (auto simp: selection_classes left_for_def left_provider_def)
qed

lemma selectInGroup_pass:
  assumes "distinct is" "\<And>i. i \<in> set is \<Longrightarrow> i < length as \<and> \<not> ia_selected (as ! i)"
    and "budgets_ok capacity policy (as, bg)"
  shows "pass_outcome is as (fst (selectInGroup policy is (as, bg))) \<and>
    budgets_ok capacity policy (selectInGroup policy is (as, bg))"
  using assms
proof (induction "is" arbitrary: as)
  case Nil
  then show ?case by (simp add: pass_outcome_def)
next
  case (Cons i "is")
  have i: "i < length as" "\<not> ia_selected (as ! i)" "i \<notin> set is" using Cons.prems by auto
  show ?case
  proof (cases "refusal policy bg (as ! i)")
    case None
    have "pass_outcome (i # is) as (as[i := (as ! i)\<lparr>ia_selected := True\<rparr>])"
      unfolding pass_outcome_def using i by (intro conjI exI [of _ "[]"] exI [of _ "i # is"]) auto
    then show ?thesis
      using budgets_ok_selected [OF Cons.prems(3) i(1,2) None]
      by (simp add: selectInGroup_step None del: selectInGroup.simps)
  next
    case (Some r)
    let ?b = "push_reason r (as ! i)"
    have "pass_outcome is (as[i := ?b]) (fst (selectInGroup policy is (as[i := ?b], bg))) \<and>
        budgets_ok capacity policy (selectInGroup policy is (as[i := ?b], bg))"
    proof (rule Cons.IH)
      show "distinct is" using Cons.prems(1) by simp
      show "j < length (as[i := ?b]) \<and> \<not> ia_selected (as[i := ?b] ! j)" if "j \<in> set is" for j
        using Cons.prems(2) [of j] i(3) that by (cases "j = i") auto
      show "budgets_ok capacity policy (as[i := ?b], bg)"
        using budgets_ok_refused [OF i(1,2)] i(2) Cons.prems(3) by simp
    qed
    then show ?thesis
      using pass_outcome_refused [of "is" as i ?b] i by (simp add: selectInGroup_step Some del: selectInGroup.simps)
  qed
qed

text \<open>The same for a group, on the store before the selection and the store after all of it.\<close>

definition group_outcome :: "nat list \<Rightarrow> InternalAssessment list \<Rightarrow> InternalAssessment list \<Rightarrow> bool" where
  "group_outcome g as bs =
     (\<exists>refused rest. eligible_order as g = refused @ rest \<and>
        (\<forall>j \<in> set refused. same_core (as ! j) (bs ! j) \<and> \<not> ia_selected (bs ! j) \<and> ia_reasons (bs ! j) \<noteq> []) \<and>
        (case rest of
           [] \<Rightarrow> \<forall>j \<in> set g. j \<notin> set refused \<longrightarrow> bs ! j = as ! j
         | s # _ \<Rightarrow> bs ! s = (as ! s)\<lparr>ia_selected := True\<rparr> \<and>
             (\<forall>j \<in> set g. j \<notin> set refused \<and> j \<noteq> s \<longrightarrow> bs ! j = as ! j)))"

lemma pass_outcome_frame:
  assumes "pass_outcome is as bs" "j \<notin> set is"
  shows "bs ! j = as ! j"
proof -
  obtain refused rest where r: "is = refused @ rest"
      "case rest of
         [] \<Rightarrow> \<forall>j. j \<notin> set refused \<longrightarrow> bs ! j = as ! j
       | s # _ \<Rightarrow> bs ! s = (as ! s)\<lparr>ia_selected := True\<rparr> \<and> (\<forall>j. j \<notin> set refused \<and> j \<noteq> s \<longrightarrow> bs ! j = as ! j)"
    using assms(1) unfolding pass_outcome_def by blast
  then show ?thesis using assms(2) by (cases rest) auto
qed

lemma pass_group_outcome:
  assumes "pass_outcome (eligible_order as g) as bs" "\<And>j. j \<in> set g \<Longrightarrow> cs ! j = bs ! j"
  shows "group_outcome g as cs"
proof -
  obtain refused rest where r: "eligible_order as g = refused @ rest"
      "\<forall>j \<in> set refused. same_core (as ! j) (bs ! j) \<and> \<not> ia_selected (bs ! j) \<and> ia_reasons (bs ! j) \<noteq> []"
      "case rest of
         [] \<Rightarrow> \<forall>j. j \<notin> set refused \<longrightarrow> bs ! j = as ! j
       | s # _ \<Rightarrow> bs ! s = (as ! s)\<lparr>ia_selected := True\<rparr> \<and> (\<forall>j. j \<notin> set refused \<and> j \<noteq> s \<longrightarrow> bs ! j = as ! j)"
    using assms(1) by (auto simp: pass_outcome_def)
  have "set refused \<union> set rest \<subseteq> set g"
    using set_eligible_order [of as g] unfolding r(1) by auto
  then show ?thesis
    unfolding group_outcome_def using r assms(2)
    by (intro exI [of _ refused] exI [of _ rest]) (auto split: list.splits simp: subset_iff)
qed

lemma group_outcome_cong:
  assumes "group_outcome h as1 bs" "\<And>i. i \<in> set h \<Longrightarrow> as1 ! i = as ! i"
  shows "group_outcome h as bs"
proof -
  obtain refused rest where r: "eligible_order as1 h = refused @ rest"
      "\<forall>j \<in> set refused. same_core (as1 ! j) (bs ! j) \<and> \<not> ia_selected (bs ! j) \<and> ia_reasons (bs ! j) \<noteq> []"
      "case rest of
         [] \<Rightarrow> \<forall>j \<in> set h. j \<notin> set refused \<longrightarrow> bs ! j = as1 ! j
       | s # _ \<Rightarrow> bs ! s = (as1 ! s)\<lparr>ia_selected := True\<rparr> \<and>
           (\<forall>j \<in> set h. j \<notin> set refused \<and> j \<noteq> s \<longrightarrow> bs ! j = as1 ! j)"
    using assms(1) by (auto simp: group_outcome_def)
  have "set refused \<union> set rest \<subseteq> set h"
    using set_eligible_order [of as1 h] unfolding r(1) by auto
  moreover have "eligible_order as h = refused @ rest"
    using eligible_order_cong [of h as1 as] assms(2) r(1) by simp
  ultimately show ?thesis
    unfolding group_outcome_def using r(2,3) assms(2)
    by (intro exI [of _ refused] exI [of _ rest]) (auto split: list.splits simp: subset_iff)
qed

lemma selectGroups_outcome:
  assumes "distinct (concat gs)" "\<And>i. i \<in> set (concat gs) \<Longrightarrow> i < length as \<and> \<not> ia_selected (as ! i)"
    and "budgets_ok capacity policy (as, bg)"
  shows "budgets_ok capacity policy (selectGroups policy gs (as, bg)) \<and>
    length (fst (selectGroups policy gs (as, bg))) = length as \<and>
    (\<forall>g \<in> set gs. group_outcome g as (fst (selectGroups policy gs (as, bg)))) \<and>
    (\<forall>j. j \<notin> set (concat gs) \<longrightarrow> fst (selectGroups policy gs (as, bg)) ! j = as ! j)"
  using assms
proof (induction gs arbitrary: as bg)
  case Nil
  then show ?case by simp
next
  case (Cons g gs)
  obtain as1 bg1 where s: "selectInGroup policy (eligible_order as g) (as, bg) = (as1, bg1)"
    by (cases "selectInGroup policy (eligible_order as g) (as, bg)")
  have "pass_outcome (eligible_order as g) as (fst (selectInGroup policy (eligible_order as g) (as, bg))) \<and>
      budgets_ok capacity policy (selectInGroup policy (eligible_order as g) (as, bg))"
    using Cons.prems by (intro selectInGroup_pass) (auto simp: set_eligible_order distinct_eligible_order)
  then have pass: "pass_outcome (eligible_order as g) as as1" and ok: "budgets_ok capacity policy (as1, bg1)"
    by (simp_all add: s)
  have frame: "as1 ! j = as ! j" if "j \<notin> set g" for j
    using pass_outcome_frame [OF pass] that by (simp add: set_eligible_order)
  have len: "length as1 = length as" using pass by (simp add: pass_outcome_def)
  have disjoint: "j \<notin> set g" if "j \<in> set (concat gs)" for j
    using Cons.prems(1) that by auto
  let ?bs = "fst (selectGroups policy gs (as1, bg1))"
  have ih: "budgets_ok capacity policy (selectGroups policy gs (as1, bg1)) \<and> length ?bs = length as1 \<and>
      (\<forall>g \<in> set gs. group_outcome g as1 ?bs) \<and> (\<forall>j. j \<notin> set (concat gs) \<longrightarrow> ?bs ! j = as1 ! j)"
  proof (rule Cons.IH [OF _ _ ok])
    show "distinct (concat gs)" using Cons.prems(1) by simp
    show "i < length as1 \<and> \<not> ia_selected (as1 ! i)" if "i \<in> set (concat gs)" for i
      using Cons.prems(2) [of i] that frame [OF disjoint [OF that]] len by simp
  qed
  have "group_outcome h as ?bs" if h: "h \<in> set gs" for h
  proof (rule group_outcome_cong)
    show "group_outcome h as1 ?bs" using ih h by blast
    show "as1 ! i = as ! i" if "i \<in> set h" for i using frame disjoint h that by auto
  qed
  moreover have "group_outcome g as ?bs"
    using pass
  proof (rule pass_group_outcome)
    fix j assume "j \<in> set g"
    then have "j \<notin> set (concat gs)" using disjoint by blast
    then show "?bs ! j = as1 ! j" using ih by blast
  qed
  moreover have "?bs ! j = as ! j" if "j \<notin> set (concat (g # gs))" for j
    using that ih frame by simp
  ultimately show ?case using ih len by (simp add: s)
qed

subsection \<open>The selection as a whole\<close>

lemma same_core_key: "same_core a b \<Longrightarrow> return_candidate b = return_candidate a"
  by (simp add: same_core_def return_candidate_def)

lemma same_core_selected [simp]: "same_core a (a\<lparr>ia_selected := True\<rparr>)"
  by (simp add: same_core_def)

lemma group_outcome_member:
  assumes "group_outcome g as bs" "\<And>i. i \<in> set g \<Longrightarrow> \<not> ia_selected (as ! i)" "j \<in> set g"
  shows "same_core (as ! j) (bs ! j)"
    and "ia_selected (bs ! j) \<Longrightarrow> isEligibleInternal (as ! j) \<and> bs ! j = (as ! j)\<lparr>ia_selected := True\<rparr>"
    and "isEligibleInternal (bs ! j) \<Longrightarrow>
      \<exists>s \<in> set g. ia_selected (bs ! s) \<and> candidate_key (return_candidate (bs ! s)) \<le> candidate_key (return_candidate (bs ! j))"
    and "ia_selected (bs ! j) \<Longrightarrow> ia_selected (bs ! i) \<Longrightarrow> i \<in> set g \<Longrightarrow> i = j"
proof -
  obtain refused rest where r: "eligible_order as g = refused @ rest"
      "\<forall>j \<in> set refused. same_core (as ! j) (bs ! j) \<and> \<not> ia_selected (bs ! j) \<and> ia_reasons (bs ! j) \<noteq> []"
      "case rest of
         [] \<Rightarrow> \<forall>j \<in> set g. j \<notin> set refused \<longrightarrow> bs ! j = as ! j
       | s # _ \<Rightarrow> bs ! s = (as ! s)\<lparr>ia_selected := True\<rparr> \<and>
           (\<forall>j \<in> set g. j \<notin> set refused \<and> j \<noteq> s \<longrightarrow> bs ! j = as ! j)"
    using assms(1) by (auto simp: group_outcome_def)
  have members: "set refused \<union> set rest = {i \<in> set g. isEligibleInternal (as ! i)}"
    using set_eligible_order [of as g] unfolding r(1) by simp
  show core: "same_core (as ! j) (bs ! j)"
    using r(2,3) assms(3) by (cases "j \<in> set refused"; cases rest; cases "j = hd rest") auto
  have sel: "rest \<noteq> [] \<and> i = hd rest" if "ia_selected (bs ! i)" "i \<in> set g" for i
    using r(2,3) that assms(2) [OF that(2)] by (cases rest) auto
  show "isEligibleInternal (as ! j) \<and> bs ! j = (as ! j)\<lparr>ia_selected := True\<rparr>" if "ia_selected (bs ! j)"
    using sel [OF that assms(3)] r(3) members by (cases rest) auto
  show "i = j" if "ia_selected (bs ! j)" "ia_selected (bs ! i)" "i \<in> set g"
    using sel [OF that(1) assms(3)] sel [OF that(2,3)] by simp
  show "\<exists>s \<in> set g. ia_selected (bs ! s) \<and> candidate_key (return_candidate (bs ! s)) \<le> candidate_key (return_candidate (bs ! j))"
    if e: "isEligibleInternal (bs ! j)"
  proof -
    have j: "j \<notin> set refused" using r(2) e by (auto simp: isEligibleInternal_def)
    have ej: "isEligibleInternal (as ! j)"
    proof (cases "rest \<noteq> [] \<and> j = hd rest")
      case True
      then show ?thesis using members by (cases rest) auto
    next
      case False
      then have "bs ! j = as ! j" using r(3) j assms(3) by (cases rest) auto
      then show ?thesis using e by simp
    qed
    then have "j \<in> set rest" using members assms(3) j by blast
    then obtain s xs where rest: "rest = s # xs" by (cases rest) auto
    have s: "s \<in> set g" "bs ! s = (as ! s)\<lparr>ia_selected := True\<rparr>" using r(3) members by (auto simp: rest)
    have "candidate_key (return_candidate (as ! s)) \<le> candidate_key (return_candidate (as ! j))"
      using sorted_eligible_order [OF r(1) [unfolded rest], of j] \<open>j \<in> set rest\<close> by (auto simp: rest)
    then show ?thesis
      using s same_core_key [OF core] by (intro bexI [of _ s]) (simp_all add: return_candidate_def)
  qed
qed

definition capacity_of :: "ParsedOpportunity list \<Rightarrow> string \<Rightarrow> int" where
  "capacity_of opportunities oid =
     (case map_of (rev (map (\<lambda>o'. (op_opportunityId o', op_availableCapacityUsdMantissa o')) opportunities)) oid of
        None \<Rightarrow> 0 | Some c \<Rightarrow> c)"

lemma selected_sum_none: "list_all (\<lambda>a. \<not> ia_selected a) as \<Longrightarrow> selected_sum P as = 0"
  by (induction as) (simp_all add: selected_sum_def)

lemma selection_outcome:
  assumes "bs = selectCandidatesWithinLimits as opportunities policy" "list_all (\<lambda>a. \<not> ia_selected a) as"
    and "\<And>o'. o' \<in> set opportunities \<Longrightarrow> 0 \<le> op_availableCapacityUsdMantissa o'"
    and "0 \<le> ep_maximumProviderPrincipalUsdMantissa policy" "0 \<le> ep_maximumCrossChainPrincipalUsdMantissa policy"
  shows "length bs = length as" "\<And>g. g \<in> set (orderedGroups as) \<Longrightarrow> group_outcome g as bs"
    and "selected_sum (for_opportunity oid) bs \<le> capacity_of opportunities oid"
    and "selected_sum (for_provider pid) bs \<le> ep_maximumProviderPrincipalUsdMantissa policy"
    and "selected_sum crossing bs \<le> ep_maximumCrossChainPrincipalUsdMantissa policy"
proof -
  have cap: "0 \<le> capacity_of opportunities oid" for oid
    using assms(3) by (auto simp: capacity_of_def split: option.splits dest!: map_of_SomeD)
  have init: "budgets_ok (capacity_of opportunities) policy (as, initialBudgets opportunities policy)"
    using assms(2,4,5) cap by (simp add: budgets_ok_def Let_def selected_sum_none initialBudgets_def capacity_of_def)
  have "budgets_ok (capacity_of opportunities) policy
      (selectGroups policy (orderedGroups as) (as, initialBudgets opportunities policy)) \<and>
    length bs = length as \<and> (\<forall>g \<in> set (orderedGroups as). group_outcome g as bs)"
    unfolding assms(1) selectCandidatesWithinLimits_def
    using selectGroups_outcome [OF orderedGroups_partition(1) _ init] assms(2)
    by (simp only: orderedGroups_partition(2) list_all_length lessThan_iff simp_thms) blast
  note all = this [unfolded budgets_ok_def Let_def, folded selectCandidatesWithinLimits_def, folded assms(1)]
  show "group_outcome g as bs" if "g \<in> set (orderedGroups as)" for g
    using all that by blast
  show "length bs = length as" using all by blast
  show "selected_sum (for_opportunity oid) bs \<le> capacity_of opportunities oid"
    using conjunct1 [OF conjunct1 [OF all], THEN spec, of oid] by linarith
  show "selected_sum (for_provider pid) bs \<le> ep_maximumProviderPrincipalUsdMantissa policy"
    using conjunct1 [OF conjunct2 [OF conjunct1 [OF all]], THEN spec, of pid] by linarith
  show "selected_sum crossing bs \<le> ep_maximumCrossChainPrincipalUsdMantissa policy"
    using all by linarith
qed

end
