(* ===== verification/Allocation_Correct.thy ===== *)
theory Allocation_Correct
  imports Allocation_Select
begin

text \<open>
  What a recommendation promises: only candidates that pass every check are selected, the
  selections stay within the exposure limits, each position gets its best eligible candidate,
  and the totals are those of the decisions.
\<close>

subsection \<open>Accepted requests\<close>

lemma unsignedBigInt_iff: "(unsignedBigInt v m = Inr n) = (v = JBigInt n \<and> 0 \<le> n \<and> n \<le> m)"
  by (auto simp: unsignedBigInt_def split: jsval.splits if_splits)

lemma positiveBigInt_iff: "(positiveBigInt v m = Inr n) = (v = JBigInt n \<and> 0 < n \<and> n \<le> m)"
  by (cases v) (auto simp: positiveBigInt_def unsignedBigInt_def)

lemma alloc_unique_iff: "(alloc_unique xs = Inr u) = distinct xs"
  by (simp add: alloc_unique_def res_simps)

lemma parsePosition_amount: "parsePosition v = Inr p \<Longrightarrow> 0 < ps_amountUsdMantissa p"
  unfolding parsePosition_def res_bind_eq_Inr positiveBigInt_iff sum.inject by auto

lemma parseOpportunity_capacity:
  assumes "parseOpportunity v = Inr x"
  shows "0 \<le> op_availableCapacityUsdMantissa x"
  using assms unfolding parseOpportunity_def res_bind_eq_Inr unsignedBigInt_iff sum.inject
  by (elim exE conjE, hypsubst) (simp only: ParsedOpportunity.select_convs)

lemma parseExposurePolicy_bounds:
  "parseExposurePolicy v = Inr x \<Longrightarrow>
   0 \<le> ep_maximumProviderPrincipalUsdMantissa x \<and> 0 \<le> ep_maximumCrossChainPrincipalUsdMantissa x"
  unfolding parseExposurePolicy_def res_bind_eq_Inr unsignedBigInt_iff sum.inject by auto

definition request_ok :: "ParsedRequest \<Rightarrow> bool" where
  "request_ok request =
     (distinct (map ps_positionId (rq_positions request)) \<and> distinct (map op_opportunityId (rq_opportunities request)) \<and>
      distinct (map cd_candidateId (rq_candidates request)) \<and>
      list_all (\<lambda>p. 0 < ps_amountUsdMantissa p) (rq_positions request) \<and>
      list_all (\<lambda>o'. 0 \<le> op_availableCapacityUsdMantissa o') (rq_opportunities request) \<and>
      0 \<le> ep_maximumProviderPrincipalUsdMantissa (rq_exposurePolicy request) \<and>
      0 \<le> ep_maximumCrossChainPrincipalUsdMantissa (rq_exposurePolicy request))"

lemma res_map_list_all: "res_map f xs = Inr ys \<Longrightarrow> (\<And>x y. f x = Inr y \<Longrightarrow> P y) \<Longrightarrow> list_all P ys"
  using res_map_all [of f xs ys P] by (simp add: list_all_iff)

lemma parseRequest_ok:
  assumes "parseRequest input = Inr request"
  shows "request_ok request"
  using assms unfolding parseRequest_def res_bind_eq_Inr alloc_unique_iff sum.inject
  by (elim exE conjE, hypsubst)
    (simp add: request_ok_def parseExposurePolicy_bounds res_map_list_all parsePosition_amount parseOpportunity_capacity)

subsection \<open>Assessments\<close>

text \<open>An assessment of a candidate of the request, with the position and the opportunity it names.\<close>

definition assessed :: "ParsedRequest \<Rightarrow> InternalAssessment \<Rightarrow> bool" where
  "assessed request a =
     (ia_candidate a \<in> set (rq_candidates request) \<and> ia_position a \<in> set (rq_positions request) \<and>
      ia_opportunity a \<in> set (rq_opportunities request) \<and>
      ps_positionId (ia_position a) = cd_positionId (ia_candidate a) \<and>
      op_opportunityId (ia_opportunity a) = cd_opportunityId (ia_candidate a) \<and>
      a = assessCandidate request (ia_candidate a) (ia_position a) (ia_opportunity a))"

lemma assessCandidate_core [simp]:
  "ia_candidate (assessCandidate request c p o') = c" "ia_position (assessCandidate request c p o') = p"
  "ia_opportunity (assessCandidate request c p o') = o'" "\<not> ia_selected (assessCandidate request c p o')"
  "ia_routeKind (assessCandidate request c p o') = (if ps_networkId p = op_networkId o' then SAME_CHAIN else CROSS_CHAIN)"
  by (simp_all add: assessCandidate_def Let_def)

lemma assessAll_assessed:
  assumes "assessAll request = Inr as"
  shows "list_all (assessed request) as" "map ia_candidate as = rq_candidates request"
proof -
  have "list_all2 (\<lambda>c a. assessed request a \<and> ia_candidate a = c) (rq_candidates request) as"
    unfolding list_all2_conv_all_nth
  proof (intro conjI allI impI)
    have all: "list_all2 (\<lambda>c a. (case (map_of (rev (map (\<lambda>p. (ps_positionId p, p)) (rq_positions request))) (cd_positionId c),
          map_of (rev (map (\<lambda>o'. (op_opportunityId o', o')) (rq_opportunities request))) (cd_opportunityId c)) of
             (Some position, Some o') \<Rightarrow> Inr (assessCandidate request c position o')
           | _ \<Rightarrow> Inl InvalidInput) = Inr a) (rq_candidates request) as"
      using assms by (simp add: assessAll_def Let_def res_map_eq_Inr)
    then show "length (rq_candidates request) = length as" by (rule list_all2_lengthD)
    fix i assume i: "i < length (rq_candidates request)"
    have "rq_candidates request ! i \<in> set (rq_candidates request)" using i by simp
    moreover obtain p o' where "p \<in> set (rq_positions request)" "o' \<in> set (rq_opportunities request)"
        "cd_positionId (rq_candidates request ! i) = ps_positionId p"
        "cd_opportunityId (rq_candidates request ! i) = op_opportunityId o'"
        and a: "as ! i = assessCandidate request (rq_candidates request ! i) p o'"
      using list_all2_nthD [OF all i] by (auto split: option.splits dest!: map_of_SomeD)
    ultimately show "assessed request (as ! i)" "ia_candidate (as ! i) = rq_candidates request ! i"
      by (simp_all add: assessed_def a)
  qed
  then show "list_all (assessed request) as" "map ia_candidate as = rq_candidates request"
    by (induction rule: list_all2_induct) simp_all
qed

subsection \<open>The comparison with the baseline\<close>

lemma compareWithBaseline_core [simp]:
  "ia_candidate (compareWithBaseline policy p b a) = ia_candidate a"
  "ia_position (compareWithBaseline policy p b a) = ia_position a"
  "ia_opportunity (compareWithBaseline policy p b a) = ia_opportunity a"
  "ia_routeKind (compareWithBaseline policy p b a) = ia_routeKind a"
  "ia_selected (compareWithBaseline policy p b a) = ia_selected a"
  by (simp_all add: compareWithBaseline_def Let_def split: option.splits)

lemma compareWithBaseline_same: "ia_routeKind a = SAME_CHAIN \<Longrightarrow> compareWithBaseline policy p b a = a"
  by (simp add: compareWithBaseline_def)

lemma compareWithBaseline_other: "ps_positionId (ia_position a) \<noteq> ps_positionId p \<Longrightarrow> compareWithBaseline policy p b a = a"
  by (simp add: compareWithBaseline_def)

lemma compareWithBaseline_cong: "ps_positionId p = ps_positionId q \<Longrightarrow> compareWithBaseline policy p b = compareWithBaseline policy q b"
  by (rule ext) (simp add: compareWithBaseline_def)

lemma baseline_unchanged: "sameChainBaseline (map (compareWithBaseline policy p b) as) q = sameChainBaseline as q"
proof -
  let ?P = "\<lambda>a. ps_positionId (ia_position a) = ps_positionId q \<and> ia_routeKind a = SAME_CHAIN \<and>
             ia_reasons a = [] \<and> ia_calculation a \<noteq> None"
  have "filter ?P (map (compareWithBaseline policy p b) as) = filter ?P as"
    by (induction as) (auto simp: compareWithBaseline_same)
  then show ?thesis unfolding sameChainBaseline_def by (simp only:)
qed

lemma baseline_cong: "ps_positionId p = ps_positionId q \<Longrightarrow> sameChainBaseline as p = sameChainBaseline as q"
  by (simp add: sameChainBaseline_def)

lemma applyPolicy_nth:
  assumes "distinct (map ps_positionId ps)" "i < length as"
    and "ia_position (as ! i) \<in> set ps"
  shows "applyCrossChainComparisonPolicy policy ps as ! i =
    compareWithBaseline policy (ia_position (as ! i)) (sameChainBaseline as (ia_position (as ! i))) (as ! i)"
proof -
  have other: "applyCrossChainComparisonPolicy policy ps as ! i = as ! i \<and>
      length (applyCrossChainComparisonPolicy policy ps as) = length as"
    if "ps_positionId (ia_position (as ! i)) \<notin> set (map ps_positionId ps)" "i < length as" for ps as
    using that
  proof (induction ps arbitrary: as)
    case (Cons p ps)
    have "map (compareWithBaseline policy p b) as ! i = as ! i" for b
      using Cons.prems by (simp add: compareWithBaseline_other)
    then show ?case using Cons.IH [of "map (compareWithBaseline policy p (sameChainBaseline as p)) as"] Cons.prems by simp
  qed simp
  show ?thesis
    using assms
  proof (induction ps arbitrary: as)
    case (Cons p ps)
    let ?bs = "map (compareWithBaseline policy p (sameChainBaseline as p)) as"
    show ?case
    proof (cases "ia_position (as ! i) = p")
      case True
      then show ?thesis using other [of ?bs ps] Cons.prems by simp
    next
      case False
      then have "ia_position (as ! i) \<in> set ps" using Cons.prems by simp
      then have "ps_positionId (ia_position (as ! i)) \<in> ps_positionId ` set ps" by (rule imageI)
      then have "ps_positionId (ia_position (as ! i)) \<noteq> ps_positionId p" using Cons.prems(1) by auto
      then have "?bs ! i = as ! i" using Cons.prems(2) by (simp add: compareWithBaseline_other)
      then show ?thesis
        using Cons.IH [of ?bs] Cons.prems \<open>ia_position (as ! i) \<in> set ps\<close> by (simp add: baseline_unchanged)
    qed
  qed simp
qed

lemma applyPolicy_length [simp]: "length (applyCrossChainComparisonPolicy policy ps as) = length as"
  by (induction ps arbitrary: as) simp_all

subsection \<open>What an empty list of reasons means\<close>

lemma reasons_of_Nil [simp]: "(reasons_of cs = []) = list_all (\<lambda>c. \<not> fst c) cs"
  by (induction cs) (auto simp: reasons_of_def)

definition quote_current :: "ParsedRequest \<Rightarrow> ParsedCostQuote \<Rightarrow> bool" where
  "quote_current request q =
     (cq_quotedAtMs q \<le> rq_evaluatedAtMs request \<and> rq_evaluatedAtMs request < cq_validUntilMs q \<and>
      rq_evaluatedAtMs request - cq_quotedAtMs q < rq_maximumQuoteAgeSeconds request * 1000)"

definition opportunity_current :: "ParsedRequest \<Rightarrow> ParsedOpportunity \<Rightarrow> bool" where
  "opportunity_current request o' =
     (let now = rq_evaluatedAtMs request; age = rq_maximumOpportunityAgeSeconds request * 1000
      in op_availability o' = AVAILABLE \<and> op_recommendationEligibility o' = ELIGIBLE \<and>
         op_evidenceObservedAtMs o' \<le> now \<and> now < op_evidenceValidUntilMs o' \<and> now - op_evidenceObservedAtMs o' < age \<and>
         op_riskAssessment o' \<noteq> None \<and>
         (\<exists>t u. op_riskAssessedAtMs o' = Some t \<and> op_riskValidUntilMs o' = Some u \<and> t \<le> now \<and> now < u \<and> now - t < age))"

definition bound_to :: "ParsedCostQuote \<Rightarrow> FeeAwareCapitalPosition \<Rightarrow> ParsedOpportunity \<Rightarrow> bool" where
  "bound_to q p o' =
     (cq_positionId q = ps_positionId p \<and> cq_opportunityId q = op_opportunityId o' \<and>
      cq_sourceNetworkId q = ps_networkId p \<and> cq_destinationNetworkId q = op_networkId o' \<and>
      cq_sourceAssetId q = ps_assetId p \<and> cq_destinationAssetId q = op_assetId o' \<and>
      cq_sourceAmountAtomic q = ps_amountAtomic p)"

definition crossing_allowed :: "ParsedRequest \<Rightarrow> ParsedCostQuote \<Rightarrow> bool" where
  "crossing_allowed request q =
     (\<exists>optIn bridge. cp_optIn (rq_crossChainPolicy request) = Some optIn \<and> cq_bridge q = Some bridge \<and>
        oi_grantedAtMs optIn \<le> rq_evaluatedAtMs request \<and> rq_evaluatedAtMs request < oi_expiresAtMs optIn \<and>
        be_entryBridgeProviderId bridge \<in> set (cp_allowedBridgeProviderIds (rq_crossChainPolicy request)) \<and>
        be_exitBridgeProviderId bridge \<in> set (cp_allowedBridgeProviderIds (rq_crossChainPolicy request)))"

text \<open>The returns of a candidate: what remains of the principal after the entry costs earns the rate less fees and
  risk penalty over the holding period, rounded down, and all costs are taken off.\<close>

definition return_input :: "ParsedRequest \<Rightarrow> FeeAwareCapitalPosition \<Rightarrow> ParsedOpportunity \<Rightarrow>
    FeeAwareAllocationCostsUsdMantissa \<Rightarrow> FeeAwareReturnInput" where
  "return_input request p o' costs =
     \<lparr>in_principal = ps_amountUsdMantissa p, in_gross = op_grossApyBasisPoints o',
      in_recurring = op_recurringFeeBasisPoints o',
      in_penalty = (case op_riskAssessment o' of None \<Rightarrow> 0 | Some r \<Rightarrow> ra_penaltyBasisPoints r),
      in_holdingPeriodDays = rq_holdingPeriodDays request,
      in_minimumNetBenefit = rq_minimumNetBenefitUsdMantissa request, in_costs = costs\<rparr>"

definition net_of :: "FeeAwareReturnInput \<Rightarrow> int" where
  "net_of i = (deployedOf i * conservativeOf i * in_holdingPeriodDays i) div 3650000 - totalOf i"

definition within_limits :: "FeeAwareReturnInput \<Rightarrow> bool" where
  "within_limits i =
     (valuesInRange i \<and> totalOf i \<le> MAX_MANTISSA \<and>
      (deployedOf i * in_gross i * in_holdingPeriodDays i) div 3650000 \<le> MAX_MANTISSA \<and>
      (deployedOf i * conservativeOf i * in_holdingPeriodDays i) div 3650000 \<le> MAX_MANTISSA)"

definition worthwhile :: "FeeAwareReturnInput \<Rightarrow> bool" where
  "worthwhile i =
     (within_limits i \<and> totalOf i < in_principal i \<and> 0 < net_of i \<and> in_minimumNetBenefit i \<le> net_of i)"

lemmas request_checks = quote_current_def opportunity_current_def bound_to_def crossing_allowed_def

lemma freshness_Nil: "(assessQuoteFreshness request q = []) = quote_current request q"
  by (auto simp: assessQuoteFreshness_def quote_current_def)

lemma opportunity_Nil: "(assessOpportunity request o' = []) = opportunity_current request o'"
  by (cases "op_riskAssessedAtMs o'"; cases "op_riskValidUntilMs o'"; cases "op_riskAssessment o'")
    (auto simp: assessOpportunity_def opportunity_current_def Let_def)

lemma crossing_Nil: "(assessRouteKind request CROSS_CHAIN q = []) = crossing_allowed request q"
  by (cases "cp_optIn (rq_crossChainPolicy request)"; cases "cq_bridge q")
    (auto simp: assessRouteKind_def crossing_allowed_def Let_def)

lemma same_chain_Nil:
  "cq_costsUsdMantissa q = Some costs \<Longrightarrow>
   (assessRouteKind request SAME_CHAIN q = []) = (cq_bridge q = None \<and> entryBridge costs = 0 \<and> exitBridge costs = 0)"
  by (auto simp: assessRouteKind_def Let_def)

lemma return_worthwhile:
  assumes "calculateFeeAwareReturn i = (Some c, [])"
  shows "worthwhile i" "netBenefitUsdMantissa c = net_of i" "totalLifecycleCostUsdMantissa c = totalOf i"
  using calculation_closed [OF assms] by (auto simp: worthwhile_def within_limits_def net_of_def split: if_splits)

lemma worthwhile_return:
  assumes "worthwhile i"
  shows "\<exists>c. calculateFeeAwareReturn i = (Some c, [])"
proof -
  have closed: "(if entryCost (in_costs i) < in_principal i then in_principal i - entryCost (in_costs i) else 0) = deployedOf i"
      "(if in_gross i > in_recurring i + in_penalty i then in_gross i - in_recurring i - in_penalty i else 0) = conservativeOf i"
      "entryCost (in_costs i) + exitCost (in_costs i) = totalOf i"
    by (auto simp: deployedOf_def conservativeOf_def totalOf_def max_def)
  have numbers: "(10000 :: int) * 365 = 3650000" by simp
  have w: "valuesInRange i" "\<not> MAX_MANTISSA < totalOf i"
      "\<not> ((deployedOf i * in_gross i * in_holdingPeriodDays i) div 3650000 > MAX_MANTISSA \<or>
        (deployedOf i * conservativeOf i * in_holdingPeriodDays i) div 3650000 > MAX_MANTISSA)"
      "\<not> in_principal i \<le> totalOf i"
      "\<not> (deployedOf i * conservativeOf i * in_holdingPeriodDays i) div 3650000 - totalOf i \<le> 0"
      "\<not> (deployedOf i * conservativeOf i * in_holdingPeriodDays i) div 3650000 - totalOf i < in_minimumNetBenefit i"
    using assms by (auto simp: worthwhile_def within_limits_def net_of_def)
  show ?thesis unfolding calculateFeeAwareReturn_def Let_def closed numbers using w by (simp only: if_True if_False not_True_eq_False append_Nil) blast
qed

text \<open>The checks of a candidate by itself: a complete quote for exactly this position and opportunity, in force, an
  opportunity in force with the capacity, the conditions of its route, and a worthwhile return.\<close>

definition cleared :: "ParsedRequest \<Rightarrow> ParsedCandidate \<Rightarrow> FeeAwareCapitalPosition \<Rightarrow> ParsedOpportunity \<Rightarrow>
    FeeAwareAllocationCostsUsdMantissa \<Rightarrow> bool" where
  "cleared request cand p o' costs =
     (\<exists>q. cd_quoteIssue cand = None \<and> cd_costQuote cand = Some q \<and> cq_costIssue q = None \<and> cq_costsUsdMantissa q = Some costs \<and>
        bound_to q p o' \<and> quote_current request q \<and> opportunity_current request o' \<and>
        ps_amountUsdMantissa p \<le> op_availableCapacityUsdMantissa o' \<and>
        (if ps_networkId p = op_networkId o' then cq_bridge q = None \<and> entryBridge costs = 0 \<and> exitBridge costs = 0
         else crossing_allowed request q) \<and>
        worthwhile (return_input request p o' costs))"

lemma assessCandidate_clear:
  assumes "ia_reasons (assessCandidate request cand p o') = []" "ia_calculation (assessCandidate request cand p o') = Some c"
  shows "\<exists>costs. cleared request cand p o' costs \<and> netBenefitUsdMantissa c = net_of (return_input request p o' costs) \<and>
    totalLifecycleCostUsdMantissa c = totalOf (return_input request p o' costs)"
proof -
  let ?kind = "if ps_networkId p = op_networkId o' then SAME_CHAIN else CROSS_CHAIN"
  obtain q where q: "cd_quoteIssue cand = None" "cd_costQuote cand = Some q"
    using assms(1) by (auto simp: assessCandidate_def Let_def split: option.splits)
  have eq: "assessQuote request q p o' ?kind = (Some c, [])"
    using assms by (simp add: assessCandidate_def Let_def q prod_eq_iff)
  obtain costs where costs: "cq_costsUsdMantissa q = Some costs"
    using eq by (cases "cq_costsUsdMantissa q") (simp_all add: assessQuote_def Let_def)
  have issue: "cq_costIssue q = None"
    using eq costs by (cases "cq_costIssue q") (simp_all add: assessQuote_def Let_def split: if_splits)
  have bound: "position_bound q p" "opportunity_bound q o'" "\<not> network_mismatch q p o'" "\<not> asset_mismatch q p o'"
      "\<not> amount_mismatch q p"
    using eq costs by (auto simp: assessQuote_def Let_def split: if_splits)
  have rest: "assessQuoteFreshness request q = []" "assessOpportunity request o' = []"
      "assessRouteKind request ?kind q = []" "ps_amountUsdMantissa p \<le> op_availableCapacityUsdMantissa o'"
      "calculateCandidate request p o' costs = (Some c, [])"
    using eq costs bound by (auto simp: assessQuote_def Let_def prod_eq_iff simp del: if_split)
  have r: "calculateFeeAwareReturn (return_input request p o' costs) = (Some c, [])"
    using rest(5) by (simp add: calculateCandidate_def return_input_def Let_def prod_eq_iff)
  have "cleared request cand p o' costs"
    using q costs issue bound rest return_worthwhile(1) [OF r]
    by (auto simp: cleared_def freshness_Nil opportunity_Nil same_chain_Nil crossing_Nil bound_to_def position_bound_def
        opportunity_bound_def network_mismatch_def asset_mismatch_def amount_mismatch_def split: if_splits)
  then show ?thesis using return_worthwhile(2,3) [OF r] by blast
qed

lemma clear_assessCandidate:
  assumes "cleared request cand p o' costs"
  shows "\<exists>c. ia_reasons (assessCandidate request cand p o') = [] \<and> ia_calculation (assessCandidate request cand p o') = Some c \<and>
    netBenefitUsdMantissa c = net_of (return_input request p o' costs)"
proof -
  obtain q where q: "cd_quoteIssue cand = None" "cd_costQuote cand = Some q" "cq_costIssue q = None"
      "cq_costsUsdMantissa q = Some costs" "bound_to q p o'" "quote_current request q" "opportunity_current request o'"
      "ps_amountUsdMantissa p \<le> op_availableCapacityUsdMantissa o'"
      "if ps_networkId p = op_networkId o' then cq_bridge q = None \<and> entryBridge costs = 0 \<and> exitBridge costs = 0
       else crossing_allowed request q"
      "worthwhile (return_input request p o' costs)"
    using assms by (auto simp: cleared_def)
  obtain c where c: "calculateFeeAwareReturn (return_input request p o' costs) = (Some c, [])"
    using worthwhile_return [OF q(10)] by blast
  have calc: "calculateCandidate request p o' costs = (Some c, [])"
    using c by (simp add: calculateCandidate_def return_input_def)
  have kind: "assessRouteKind request (if ps_networkId p = op_networkId o' then SAME_CHAIN else CROSS_CHAIN) q = []"
    using q(9) by (simp add: same_chain_Nil [OF q(4)] crossing_Nil split: if_splits)
  have bound: "position_bound q p" "opportunity_bound q o'" "\<not> network_mismatch q p o'" "\<not> asset_mismatch q p o'" "\<not> amount_mismatch q p"
    using q(5) by (simp_all add: bound_to_def position_bound_def opportunity_bound_def network_mismatch_def asset_mismatch_def amount_mismatch_def)
  have fresh: "assessQuoteFreshness request q = []" "assessOpportunity request o' = []"
    using q(6,7) by (simp_all only: freshness_Nil opportunity_Nil)
  have "assessQuote request q p o' (if ps_networkId p = op_networkId o' then SAME_CHAIN else CROSS_CHAIN) = (Some c, [])"
    unfolding assessQuote_def Let_def fresh kind using bound q(3,4,8) by (simp add: calc)
  then show ?thesis
    using return_worthwhile(2) [OF c] by (intro exI [of _ c]) (simp add: assessCandidate_def Let_def q(1,2))
qed

text \<open>The net benefits of the candidates that keep a position on its network and pass their own checks.\<close>

definition staying :: "ParsedRequest \<Rightarrow> FeeAwareCapitalPosition \<Rightarrow> int set" where
  "staying request p =
     {net_of (return_input request p o' costs) | cand o' costs.
        cand \<in> set (rq_candidates request) \<and> o' \<in> set (rq_opportunities request) \<and>
        cd_positionId cand = ps_positionId p \<and> cd_opportunityId cand = op_opportunityId o' \<and>
        ps_networkId p = op_networkId o' \<and> cleared request cand p o' costs}"

lemma candidate_assessed:
  assumes "request_ok request" "assessAll request = Inr as" "cand \<in> set (rq_candidates request)"
    and "p \<in> set (rq_positions request)" "cd_positionId cand = ps_positionId p"
    and "o' \<in> set (rq_opportunities request)" "cd_opportunityId cand = op_opportunityId o'"
  shows "assessCandidate request cand p o' \<in> set as"
proof -
  obtain a where a: "a \<in> set as" "ia_candidate a = cand" using assessAll_assessed(2) [OF assms(2)] assms(3) by (metis imageE list.set_map)
  have s: "assessed request a" using assessAll_assessed(1) [OF assms(2)] a(1) by (simp add: list_all_iff)
  have "ia_position a = p" "ia_opportunity a = o'"
    using s assms(1,4-7) a(2) inj_onD [of ps_positionId "set (rq_positions request)" "ia_position a" p]
      inj_onD [of op_opportunityId "set (rq_opportunities request)" "ia_opportunity a" o']
    by (simp_all add: assessed_def request_ok_def distinct_map)
  then show ?thesis using s a by (metis assessed_def)
qed

lemma baseline_is_best:
  assumes "request_ok request" "assessAll request = Inr as" "p \<in> set (rq_positions request)" "sameChainBaseline as p = Some base"
  shows "base \<in> staying request p" "\<And>n. n \<in> staying request p \<Longrightarrow> n \<le> base"
proof -
  let ?P = "\<lambda>a. ps_positionId (ia_position a) = ps_positionId p \<and> ia_routeKind a = SAME_CHAIN \<and> ia_reasons a = [] \<and> ia_calculation a \<noteq> None"
  let ?key = "\<lambda>a. candidate_key (return_candidate a)"
  have sort: "js_sort compareAssessments (filter ?P as) = sort_key ?key (filter ?P as)"
    by (rule js_sort_key) (rule compareAssessments_key)
  obtain best rest where best: "sort_key ?key (filter ?P as) = best # rest" "net_benefit best = Some base"
    using assms(4) unfolding sameChainBaseline_def sort by (auto split: list.splits)
  have least: "?key best \<le> ?key a" if "a \<in> set as" "?P a" for a
  proof -
    have "a \<in> set (best # rest)" using that by (simp flip: best(1))
    then show ?thesis using sorted_sort_key [of ?key "filter ?P as"] unfolding best(1) by auto
  qed
  have all: "assessed request a" if "a \<in> set as" for a
    using assessAll_assessed(1) [OF assms(2)] that by (simp add: list_all_iff)
  have "best \<in> set (sort_key ?key (filter ?P as))" unfolding best(1) by simp
  then have "best \<in> set (filter ?P as)" by (simp only: set_sort)
  then have b: "best \<in> set as" "?P best" by simp_all
  then obtain c where c: "ia_calculation best = Some c" by blast
  have pos: "ia_position best = p"
    using all [OF b(1)] b(2) assms(1,3) inj_onD [of ps_positionId "set (rq_positions request)" "ia_position best" p]
    by (simp add: assessed_def request_ok_def distinct_map)
  have eq: "best = assessCandidate request (ia_candidate best) p (ia_opportunity best)"
    using all [OF b(1)] by (simp add: assessed_def pos)
  obtain costs where costs: "cleared request (ia_candidate best) p (ia_opportunity best) costs"
      "netBenefitUsdMantissa c = net_of (return_input request p (ia_opportunity best) costs)"
    using assessCandidate_clear [of request "ia_candidate best" p "ia_opportunity best" c, folded eq] b(2) c by blast
  have same: "ps_networkId p = op_networkId (ia_opportunity best)"
  proof (rule ccontr)
    assume "ps_networkId p \<noteq> op_networkId (ia_opportunity best)"
    then have "ia_routeKind best = CROSS_CHAIN" by (subst eq) simp
    with b(2) show False by simp
  qed
  have net: "base = netBenefitUsdMantissa c" using best(2) c by (simp add: net_benefit_def)
  show "base \<in> staying request p"
    using all [OF b(1)] pos same costs unfolding staying_def assessed_def net
    by (intro CollectI exI [of _ "ia_candidate best"] exI [of _ "ia_opportunity best"] exI [of _ costs]) simp
  fix n assume "n \<in> staying request p"
  then obtain cand o' costs' where n: "n = net_of (return_input request p o' costs')" "cand \<in> set (rq_candidates request)"
      "o' \<in> set (rq_opportunities request)" "cd_positionId cand = ps_positionId p" "cd_opportunityId cand = op_opportunityId o'"
      "ps_networkId p = op_networkId o'" "cleared request cand p o' costs'"
    by (auto simp: staying_def)
  let ?a = "assessCandidate request cand p o'"
  obtain c' where c': "ia_reasons ?a = []" "ia_calculation ?a = Some c'" "netBenefitUsdMantissa c' = n"
    using clear_assessCandidate [OF n(7)] n(1) by blast
  have "?key best \<le> ?key ?a"
    by (rule least) (use candidate_assessed [OF assms(1,2) n(2) assms(3) n(4,3,5)] n(6) c' in simp_all)
  then show "n \<le> base"
    using c c' net by (auto simp: candidate_key_def return_candidate_def less_eq_prod_def)
qed

subsection \<open>The decided assessments\<close>

text \<open>
  What a selected assessment has passed: the checks of its candidate, with the calculation that follows from the
  request, and for another network the cost limit and the improvement over the best candidate that stays.
\<close>

definition passes :: "ParsedRequest \<Rightarrow> InternalAssessment \<Rightarrow> bool" where
  "passes request a =
     (\<exists>costs c i. cleared request (ia_candidate a) (ia_position a) (ia_opportunity a) costs \<and>
        i = return_input request (ia_position a) (ia_opportunity a) costs \<and>
        ia_routeKind a = (if ps_networkId (ia_position a) = op_networkId (ia_opportunity a) then SAME_CHAIN else CROSS_CHAIN) \<and>
        ia_calculation a = Some c \<and> netBenefitUsdMantissa c = net_of i \<and> totalLifecycleCostUsdMantissa c = totalOf i \<and>
        (ps_networkId (ia_position a) = op_networkId (ia_opportunity a) \<or>
         totalOf i \<le> cp_maximumLifecycleCostUsdMantissa (rq_crossChainPolicy request) \<and>
         (\<exists>base \<in> staying request (ia_position a). (\<forall>n \<in> staying request (ia_position a). n \<le> base) \<and>
            improvementOverSameChainUsdMantissa c = Some (net_of i - base) \<and>
            cp_minimumNetImprovementUsdMantissa (rq_crossChainPolicy request) \<le> net_of i - base)))"

lemma passes_selected [simp]: "passes request (a\<lparr>ia_selected := x\<rparr>) = passes request a"
  by (simp add: passes_def)

lemma passes_positive: "passes request a \<Longrightarrow> \<exists>c. ia_calculation a = Some c \<and> 0 < netBenefitUsdMantissa c"
  by (auto simp: passes_def cleared_def worthwhile_def)

lemma eligible_passes:
  assumes "request_ok request" "assessAll request = Inr as" "assessed request a"
    and "b = compareWithBaseline (rq_crossChainPolicy request) (ia_position a) (sameChainBaseline as (ia_position a)) a"
    and "isEligibleInternal b"
  shows "passes request b"
proof -
  have a: "a = assessCandidate request (ia_candidate a) (ia_position a) (ia_opportunity a)"
    using assms(3) by (simp add: assessed_def)
  have kind: "ia_routeKind a = (if ps_networkId (ia_position a) = op_networkId (ia_opportunity a) then SAME_CHAIN else CROSS_CHAIN)"
    by (subst a) simp
  note clear = assessCandidate_clear [of request "ia_candidate a" "ia_position a" "ia_opportunity a", folded a]
  show ?thesis
  proof (cases "ia_routeKind a")
    case SAME_CHAIN
    then have b: "b = a" by (simp add: assms(4) compareWithBaseline_same)
    obtain c where "ia_reasons a = []" "ia_calculation a = Some c"
      using assms(5) by (auto simp: b isEligibleInternal_def)
    then show ?thesis using clear [of c] SAME_CHAIN kind by (auto simp: passes_def b split: if_splits)
  next
    case CROSS_CHAIN
    obtain c where c: "ia_calculation a = Some c"
      using assms(5) CROSS_CHAIN by (cases "ia_calculation a") (auto simp: assms(4) compareWithBaseline_def isEligibleInternal_def)
    obtain base where base: "sameChainBaseline as (ia_position a) = Some base"
      using assms(5) CROSS_CHAIN c
      by (cases "sameChainBaseline as (ia_position a)") (auto simp: assms(4) compareWithBaseline_def isEligibleInternal_def)
    have b: "b = a\<lparr>ia_calculation := Some (c\<lparr>improvementOverSameChainUsdMantissa := Some (netBenefitUsdMantissa c - base)\<rparr>),
        ia_reasons := ia_reasons a @ reasons_of
          [(totalLifecycleCostUsdMantissa c > cp_maximumLifecycleCostUsdMantissa (rq_crossChainPolicy request),
              CROSS_CHAIN_COST_LIMIT_EXCEEDED),
           (netBenefitUsdMantissa c - base < cp_minimumNetImprovementUsdMantissa (rq_crossChainPolicy request),
              CROSS_CHAIN_IMPROVEMENT_BELOW_THRESHOLD)]\<rparr>"
      using CROSS_CHAIN by (simp add: assms(4) compareWithBaseline_def c base Let_def)
    have none: "ia_reasons a = []"
        "totalLifecycleCostUsdMantissa c \<le> cp_maximumLifecycleCostUsdMantissa (rq_crossChainPolicy request)"
        "cp_minimumNetImprovementUsdMantissa (rq_crossChainPolicy request) \<le> netBenefitUsdMantissa c - base"
      using assms(5) by (auto simp: b isEligibleInternal_def)
    have p: "ia_position a \<in> set (rq_positions request)" using assms(3) by (simp add: assessed_def)
    note best = baseline_is_best [OF assms(1,2) p base]
    obtain costs where "cleared request (ia_candidate a) (ia_position a) (ia_opportunity a) costs"
        "netBenefitUsdMantissa c = net_of (return_input request (ia_position a) (ia_opportunity a) costs)"
        "totalLifecycleCostUsdMantissa c = totalOf (return_input request (ia_position a) (ia_opportunity a) costs)"
      using clear [OF none(1) c] by blast
    then show ?thesis
      unfolding passes_def using none(2,3) kind best
      by (intro exI [of _ costs] exI [of _ "c\<lparr>improvementOverSameChainUsdMantissa := Some (netBenefitUsdMantissa c - base)\<rparr>"] exI)
        (auto simp: b intro!: bexI [of _ base])
  qed
qed

lemma decideAll_outcome:
  assumes "request_ok request" "assessAll request = Inr as" "bs = decideAll request as"
  shows "length bs = length as" "map ia_candidate bs = rq_candidates request"
    "\<And>b. b \<in> set bs \<Longrightarrow> ia_position b \<in> set (rq_positions request) \<and> ia_opportunity b \<in> set (rq_opportunities request)"
    "\<And>b. b \<in> set bs \<Longrightarrow> ia_selected b \<Longrightarrow> ia_reasons b = [] \<and> passes request b"
    "\<And>b. b \<in> set bs \<Longrightarrow> isEligibleInternal b \<Longrightarrow> \<exists>s \<in> set bs. ia_selected s \<and>
       ps_positionId (ia_position s) = ps_positionId (ia_position b) \<and>
       candidate_key (return_candidate s) \<le> candidate_key (return_candidate b)"
    "\<And>i j. i < length bs \<Longrightarrow> j < length bs \<Longrightarrow> ia_selected (bs ! i) \<Longrightarrow> ia_selected (bs ! j) \<Longrightarrow>
       ps_positionId (ia_position (bs ! i)) = ps_positionId (ia_position (bs ! j)) \<Longrightarrow> i = j"
    "selected_sum (for_opportunity oid) bs \<le> capacity_of (rq_opportunities request) oid"
    "selected_sum (for_provider pid) bs \<le> ep_maximumProviderPrincipalUsdMantissa (rq_exposurePolicy request)"
    "selected_sum crossing bs \<le> ep_maximumCrossChainPrincipalUsdMantissa (rq_exposurePolicy request)"
    "\<And>b. b \<in> set bs \<Longrightarrow> cd_positionId (ia_candidate b) = ps_positionId (ia_position b) \<and>
       cd_opportunityId (ia_candidate b) = op_opportunityId (ia_opportunity b)"
proof -
  let ?cs = "applyCrossChainComparisonPolicy (rq_crossChainPolicy request) (rq_positions request) as"
  have as: "assessed request (as ! i)" if "i < length as" for i
    using assessAll_assessed(1) [OF assms(2)] that by (simp add: list_all_length)
  have cs: "?cs ! i = compareWithBaseline (rq_crossChainPolicy request) (ia_position (as ! i))
      (sameChainBaseline as (ia_position (as ! i))) (as ! i)" if "i < length as" for i
    using assms(1) that as [OF that] by (intro applyPolicy_nth) (simp_all add: request_ok_def assessed_def)
  have unsel: "\<not> ia_selected (?cs ! i)" if "i < length as" for i
  proof -
    have "as ! i = assessCandidate request (ia_candidate (as ! i)) (ia_position (as ! i)) (ia_opportunity (as ! i))"
      using as [OF that] by (simp add: assessed_def)
    then have "\<not> ia_selected (as ! i)" using assessCandidate_core(4) by metis
    then show ?thesis by (simp add: cs that)
  qed
  then have none: "list_all (\<lambda>a. \<not> ia_selected a) ?cs" by (simp add: list_all_length)
  have bs: "bs = selectCandidatesWithinLimits ?cs (rq_opportunities request) (rq_exposurePolicy request)"
    by (simp add: assms(3) decideAll_def)
  have bounds: "\<And>o'. o' \<in> set (rq_opportunities request) \<Longrightarrow> 0 \<le> op_availableCapacityUsdMantissa o'"
      "0 \<le> ep_maximumProviderPrincipalUsdMantissa (rq_exposurePolicy request)"
      "0 \<le> ep_maximumCrossChainPrincipalUsdMantissa (rq_exposurePolicy request)"
    using assms(1) by (simp_all add: request_ok_def list_all_iff)
  note out = selection_outcome [OF bs none]
  show "selected_sum (for_opportunity oid) bs \<le> capacity_of (rq_opportunities request) oid"
    by (rule out(3)) (use bounds in blast)+
  show "selected_sum (for_provider pid) bs \<le> ep_maximumProviderPrincipalUsdMantissa (rq_exposurePolicy request)"
    by (rule out(4)) (use bounds in blast)+
  show "selected_sum crossing bs \<le> ep_maximumCrossChainPrincipalUsdMantissa (rq_exposurePolicy request)"
    by (rule out(5)) (use bounds in blast)+
  show len: "length bs = length as" using out(1) bounds by simp
  have grp: "\<exists>g \<in> set (orderedGroups ?cs). i \<in> set g \<and> group_outcome g ?cs bs \<and> (\<forall>j \<in> set g. j < length as)" if i: "i < length as" for i
  proof -
    have u: "(\<Union>g \<in> set (orderedGroups ?cs). set g) = {..<length as}"
      using orderedGroups_partition(2) [of ?cs] by simp
    then obtain g where g: "g \<in> set (orderedGroups ?cs)" "i \<in> set g" using i by (metis UN_E lessThan_iff)
    then have "\<forall>j \<in> set g. j < length as" using u by blast
    with g out(2) [OF bounds g(1)] show ?thesis by blast
  qed
  have core: "same_core (?cs ! i) (bs ! i)" if i: "i < length as" for i
    using grp [OF i] group_outcome_member(1) unsel by blast
  have pos: "ia_position (bs ! i) = ia_position (as ! i)" "ia_opportunity (bs ! i) = ia_opportunity (as ! i)"
      "ia_candidate (bs ! i) = ia_candidate (as ! i)" if "i < length as" for i
    using core [OF that] by (simp_all add: same_core_def cs that)
  show "map ia_candidate bs = rq_candidates request"
    using pos(3) len by (simp add: list_eq_iff_nth_eq flip: assessAll_assessed(2) [OF assms(2)])
  show "i = j" if ij: "i < length bs" "j < length bs" "ia_selected (bs ! i)" "ia_selected (bs ! j)"
    "ps_positionId (ia_position (bs ! i)) = ps_positionId (ia_position (bs ! j))" for i j
  proof -
    have l: "i < length as" "j < length as" using ij(1,2) len by simp_all
    obtain g where g: "g \<in> set (orderedGroups ?cs)" "j \<in> set g" "group_outcome g ?cs bs" "\<forall>j \<in> set g. j < length as"
      using grp [OF l(2)] by blast
    have "i \<in> set g"
      using orderedGroups_same_position [OF g(1,2), of i] l ij(5) pos by (simp add: cs)
    then show ?thesis
      using group_outcome_member(4) [OF g(3) _ g(2)] unsel g(4) ij(3,4) by blast
  qed
  fix b assume "b \<in> set bs"
  then obtain i where i: "i < length as" "b = bs ! i" by (auto simp: in_set_conv_nth len)
  show "ia_position b \<in> set (rq_positions request) \<and> ia_opportunity b \<in> set (rq_opportunities request)"
    using as [OF i(1)] by (simp add: assessed_def i pos)
  show "cd_positionId (ia_candidate b) = ps_positionId (ia_position b) \<and>
       cd_opportunityId (ia_candidate b) = op_opportunityId (ia_opportunity b)"
    using as [OF i(1)] by (simp add: assessed_def i pos)
  obtain g where g: "g \<in> set (orderedGroups ?cs)" "i \<in> set g" "group_outcome g ?cs bs" "\<forall>j \<in> set g. j < length as"
    using grp [OF i(1)] by blast
  note member = group_outcome_member [OF g(3) _ g(2)]
  show "ia_reasons b = [] \<and> passes request b" if "ia_selected b"
  proof -
    have s: "isEligibleInternal (?cs ! i)" "b = (?cs ! i)\<lparr>ia_selected := True\<rparr>"
      using member(2) that unsel g(4) by (auto simp: i)
    have "passes request (?cs ! i)"
      by (rule eligible_passes [OF assms(1,2) as [OF i(1)] cs [OF i(1)] s(1)])
    moreover have "ia_reasons (?cs ! i) = []" using s(1) by (simp add: isEligibleInternal_def)
    ultimately show ?thesis using s(2) by simp
  qed
  show "\<exists>s \<in> set bs. ia_selected s \<and> ps_positionId (ia_position s) = ps_positionId (ia_position b) \<and>
       candidate_key (return_candidate s) \<le> candidate_key (return_candidate b)" if e: "isEligibleInternal b"
  proof -
    obtain s where s: "s \<in> set g" "ia_selected (bs ! s)"
        "candidate_key (return_candidate (bs ! s)) \<le> candidate_key (return_candidate (bs ! i))"
      using member(3) e unsel g(4) by (auto simp: i)
    have "s < length as" using s(1) g(4) by blast
    moreover have "ps_positionId (ia_position (bs ! s)) = ps_positionId (ia_position (bs ! i))"
      using orderedGroups_same_position [OF g(1) g(2), of s] s(1) \<open>s < length as\<close> i(1) pos by (simp add: cs)
    ultimately show ?thesis using s i(2) len by (intro bexI [of _ "bs ! s"]) simp_all
  qed
qed

subsection \<open>The decisions\<close>

definition decision_for :: "InternalAssessment list \<Rightarrow> FeeAwareCapitalPosition \<Rightarrow> InternalAssessment option" where
  "decision_for bs p = find ia_selected
     (js_sort (\<lambda>l r. compareText (cd_candidateId (ia_candidate l)) (cd_candidateId (ia_candidate r)))
       (filter (\<lambda>a. ps_positionId (ia_position a) = ps_positionId p) bs))"

lemma find_Some_D: "find P xs = Some x \<Longrightarrow> x \<in> set xs \<and> P x"
  by (induction xs) (auto split: if_splits)

text \<open>Assessments that select at most one candidate of each position, over distinct positions.\<close>

definition one_choice :: "FeeAwareCapitalPosition list \<Rightarrow> InternalAssessment list \<Rightarrow> bool" where
  "one_choice ps bs =
     (distinct (map ps_positionId ps) \<and> (\<forall>b \<in> set bs. ia_position b \<in> set ps) \<and>
      (\<forall>i j. i < length bs \<and> j < length bs \<and> ia_selected (bs ! i) \<and> ia_selected (bs ! j) \<and>
         ps_positionId (ia_position (bs ! i)) = ps_positionId (ia_position (bs ! j)) \<longrightarrow> i = j))"

lemma decided_one_choice:
  assumes "request_ok request" "assessAll request = Inr as"
  shows "one_choice (rq_positions request) (decideAll request as)"
  unfolding one_choice_def
proof (intro conjI ballI allI impI)
  show "distinct (map ps_positionId (rq_positions request))" using assms(1) by (simp add: request_ok_def)
  show "ia_position b \<in> set (rq_positions request)" if "b \<in> set (decideAll request as)" for b
    using decideAll_outcome(3) [OF assms refl that] by simp
  show "i = j" if "i < length (decideAll request as) \<and> j < length (decideAll request as) \<and>
      ia_selected (decideAll request as ! i) \<and> ia_selected (decideAll request as ! j) \<and>
      ps_positionId (ia_position (decideAll request as ! i)) = ps_positionId (ia_position (decideAll request as ! j))" for i j
    using that decideAll_outcome(6) [OF assms refl] by blast
qed

lemma same_position:
  "one_choice ps bs \<Longrightarrow> p \<in> set ps \<Longrightarrow> b \<in> set bs \<Longrightarrow> ps_positionId (ia_position b) = ps_positionId p \<Longrightarrow> ia_position b = p"
  using inj_onD [of ps_positionId "set ps" "ia_position b" p] by (simp add: one_choice_def distinct_map)

lemma decision_for_iff:
  assumes "one_choice ps bs" "p \<in> set ps"
  shows "(decision_for bs p = Some a) = (a \<in> set bs \<and> ia_selected a \<and> ia_position a = p)"
proof -
  let ?ms = "js_sort (\<lambda>l r. compareText (cd_candidateId (ia_candidate l)) (cd_candidateId (ia_candidate r)))
       (filter (\<lambda>a. ps_positionId (ia_position a) = ps_positionId p) bs)"
  have ms: "set ?ms = {b \<in> set bs. ps_positionId (ia_position b) = ps_positionId p}" by simp
  have uniq: "x = y" if xy: "x \<in> set ?ms" "y \<in> set ?ms" "ia_selected x" "ia_selected y" for x y
  proof -
    obtain i j where "i < length bs" "x = bs ! i" "j < length bs" "y = bs ! j"
      using xy(1,2) unfolding ms in_set_conv_nth [of _ bs] by blast
    moreover have "ps_positionId (ia_position x) = ps_positionId (ia_position y)" using xy(1,2) unfolding ms by simp
    ultimately show ?thesis using assms(1) xy(3,4) unfolding one_choice_def by blast
  qed
  have "(decision_for bs p = Some a) = (a \<in> set ?ms \<and> ia_selected a)"
  proof
    show "a \<in> set ?ms \<and> ia_selected a" if "decision_for bs p = Some a"
      using that unfolding decision_for_def by (rule find_Some_D)
    assume a: "a \<in> set ?ms \<and> ia_selected a"
    then obtain b where b: "decision_for bs p = Some b"
      using find_None_iff [of ia_selected ?ms] unfolding decision_for_def by (cases "find ia_selected ?ms") blast+
    then have "b \<in> set ?ms" "ia_selected b" using find_Some_D [of ia_selected ?ms b] by (simp_all add: decision_for_def)
    with b show "decision_for bs p = Some a" using uniq a by blast
  qed
  moreover have "(a \<in> set ?ms) = (a \<in> set bs \<and> ia_position a = p)"
    using same_position [OF assms(1,2)] by (auto simp: ms)
  ultimately show ?thesis by blast
qed

text \<open>The selections of a class, counted over the decisions, are those counted over the assessments.\<close>

lemma decided_positions:
  assumes "one_choice ps bs"
  shows "mset (map ia_position (filter (\<lambda>a. ia_selected a \<and> P a) bs)) =
    mset (filter (\<lambda>p. \<exists>a. decision_for bs p = Some a \<and> P a) ps)"
proof (rule set_eq_iff_mset_eq_distinct [THEN iffD1])
  have sel: "ps_positionId (ia_position (bs ! i)) \<noteq> ps_positionId (ia_position (bs ! j))"
    if "i < length bs" "j < length bs" "ia_selected (bs ! i)" "ia_selected (bs ! j)" "i \<noteq> j" for i j
    using assms that by (simp add: one_choice_def) blast
  show "distinct (map ia_position (filter (\<lambda>a. ia_selected a \<and> P a) bs))"
  proof -
    have "distinct (map ia_position (filter (\<lambda>a. ia_selected a \<and> P a) xs))"
      if "\<And>i j. i < length xs \<Longrightarrow> j < length xs \<Longrightarrow> ia_selected (xs ! i) \<Longrightarrow> ia_selected (xs ! j) \<Longrightarrow> i \<noteq> j \<Longrightarrow>
        ps_positionId (ia_position (xs ! i)) \<noteq> ps_positionId (ia_position (xs ! j))" for xs
      using that
    proof (induction xs)
      case (Cons x xs)
      have "distinct (map ia_position (filter (\<lambda>a. ia_selected a \<and> P a) xs))"
        by (rule Cons.IH) (use Cons.prems [of "Suc _" "Suc _"] in simp)
      moreover have "ia_position x \<noteq> ia_position y" if "ia_selected x" "y \<in> set xs" "ia_selected y" for y
        using that Cons.prems [of 0 "Suc _"] by (force simp: in_set_conv_nth)
      ultimately show ?case by auto
    qed simp
    then show ?thesis using sel by blast
  qed
  show "distinct (filter (\<lambda>p. \<exists>a. decision_for bs p = Some a \<and> P a) ps)"
    using assms by (auto simp: one_choice_def distinct_map)
  show "set (map ia_position (filter (\<lambda>a. ia_selected a \<and> P a) bs)) =
      set (filter (\<lambda>p. \<exists>a. decision_for bs p = Some a \<and> P a) ps)"
    using decision_for_iff [OF assms] assms by (auto simp: one_choice_def)
qed

lemma decided_sum:
  "one_choice ps bs \<Longrightarrow> selected_sum P bs =
   sum_list (map ps_amountUsdMantissa (filter (\<lambda>p. \<exists>a. decision_for bs p = Some a \<and> P a) ps))"
proof -
  have s: "sum_list (map f xs) = sum_list (map f ys)" if "mset xs = mset ys"
    for f :: "FeeAwareCapitalPosition \<Rightarrow> int" and xs ys
    using that by (metis mset_map sum_mset_sum_list)
  assume "one_choice ps bs"
  from s [OF decided_positions [OF this, of P], of ps_amountUsdMantissa]
  show ?thesis by (simp add: selected_sum_def amount_of_def [abs_def] o_def)
qed

lemma selected_everything:
  "one_choice ps bs \<Longrightarrow> selected_sum (\<lambda>_. True) bs =
     sum_list (map ps_amountUsdMantissa (filter (\<lambda>p. decision_for bs p \<noteq> None) ps))"
  using decided_sum [of ps bs "\<lambda>_. True"] by (simp add: not_None_eq)

lemma selected_count:
  assumes "one_choice ps bs"
  shows "length (filter ia_selected bs) = length (filter (\<lambda>p. decision_for bs p \<noteq> None) ps)"
proof -
  have "length (map ia_position (filter (\<lambda>a. ia_selected a \<and> True) bs)) =
      length (filter (\<lambda>p. \<exists>a. decision_for bs p = Some a \<and> True) ps)"
    by (rule mset_eq_length) (rule decided_positions [OF assms])
  then show ?thesis by (simp add: not_None_eq)
qed

text \<open>Every assessment stands in the decision of its position.\<close>

lemma mset_filter_or:
  "(\<And>x. P x \<Longrightarrow> \<not> Q x) \<Longrightarrow> mset (filter P xs) + mset (filter Q xs) = mset (filter (\<lambda>x. P x \<or> Q x) xs)"
  by (induction xs) auto

lemma mset_by_key:
  "distinct ks \<Longrightarrow> mset (concat (map (\<lambda>k. filter (\<lambda>a. f a = k) xs) ks)) = mset (filter (\<lambda>a. f a \<in> set ks) xs)"
proof (induction ks)
  case (Cons k ks)
  then show ?case
    using mset_filter_or [of "\<lambda>a. f a = k" "\<lambda>a. f a \<in> set ks" xs] by auto
qed simp

definition decisions_of :: "ParsedRequest \<Rightarrow> InternalAssessment list \<Rightarrow> FeeAwarePositionDecision list" where
  "decisions_of request bs = js_sort (\<lambda>l r. compareText (pd_positionId l) (pd_positionId r))
     (map (\<lambda>p. positionDecision p bs) (rq_positions request))"

lemma positionDecision_core:
  "pd_positionId (positionDecision p bs) = ps_positionId p" "pd_principalUsdMantissa (positionDecision p bs) = ps_amountUsdMantissa p"
  "pd_selectedCandidateId (positionDecision p bs) = map_option (\<lambda>a. cd_candidateId (ia_candidate a)) (decision_for bs p)"
  "pd_selectedOpportunityId (positionDecision p bs) = map_option (\<lambda>a. op_opportunityId (ia_opportunity a)) (decision_for bs p)"
  "pd_selectedProviderId (positionDecision p bs) = map_option (\<lambda>a. op_providerId (ia_opportunity a)) (decision_for bs p)"
  "pd_selectedRouteKind (positionDecision p bs) = map_option ia_routeKind (decision_for bs p)"
  "set (pd_assessments (positionDecision p bs)) =
     publicAssessment ` {a \<in> set bs. ps_positionId (ia_position a) = ps_positionId p}"
  "mset (pd_assessments (positionDecision p bs)) =
     mset (map publicAssessment (filter (\<lambda>a. ps_positionId (ia_position a) = ps_positionId p) bs))"
  by (simp_all add: positionDecision_def decision_for_def Let_def)

lemma publicAssessment_core [simp]:
  "fa_candidateId (publicAssessment a) = cd_candidateId (ia_candidate a)" "fa_eligible (publicAssessment a) = (ia_reasons a = [])"
  "fa_selected (publicAssessment a) = ia_selected a" "fa_calculation (publicAssessment a) = ia_calculation a"
  by (simp_all add: publicAssessment_def)

lemma decisions_sum:
  fixes f :: "FeeAwarePositionDecision \<Rightarrow> int"
  shows "sum_list (map f (filter P (decisions_of request bs))) =
    sum_list (map (\<lambda>p. f (positionDecision p bs)) (filter (\<lambda>p. P (positionDecision p bs)) (rq_positions request)))"
proof -
  have "mset (map f (filter P (decisions_of request bs))) =
      mset (map f (filter P (map (\<lambda>p. positionDecision p bs) (rq_positions request))))"
    by (simp add: decisions_of_def)
  then have "sum_list (map f (filter P (decisions_of request bs))) =
      sum_list (map f (filter P (map (\<lambda>p. positionDecision p bs) (rq_positions request))))"
    by (metis sum_mset_sum_list)
  then show ?thesis by (simp add: filter_map o_def)
qed

lemma decisions_assessments:
  assumes "one_choice (rq_positions request) bs"
  shows "mset (concat (map pd_assessments (decisions_of request bs))) = mset (map publicAssessment bs)"
proof -
  let ?ps = "rq_positions request"
  have flat: "mset (concat xss) = sum_mset (image_mset mset (mset xss))" for xss :: "FeeAwareCandidateAssessment list list"
    by (induction xss) auto
  have "mset (concat (map pd_assessments (decisions_of request bs))) =
      mset (concat (map (\<lambda>p. pd_assessments (positionDecision p bs)) ?ps))"
    by (simp add: flat decisions_of_def image_mset.compositionality o_def)
  also have "\<dots> = mset (map publicAssessment
      (concat (map (\<lambda>k. filter (\<lambda>a. ps_positionId (ia_position a) = k) bs) (map ps_positionId ?ps))))"
  proof -
    have "mset (concat (map (\<lambda>p. pd_assessments (positionDecision p bs)) ps)) = mset (map publicAssessment
        (concat (map (\<lambda>k. filter (\<lambda>a. ps_positionId (ia_position a) = k) bs) (map ps_positionId ps))))" for ps
      by (induction ps) (simp_all add: positionDecision_core(8))
    then show ?thesis .
  qed
  also have "\<dots> = mset (map publicAssessment (filter (\<lambda>a. ps_positionId (ia_position a) \<in> set (map ps_positionId ?ps)) bs))"
    using mset_by_key [of "map ps_positionId ?ps" "\<lambda>a. ps_positionId (ia_position a)" bs] assms
    by (simp only: one_choice_def mset_map)
  also have "filter (\<lambda>a. ps_positionId (ia_position a) \<in> set (map ps_positionId ?ps)) bs = bs"
    using assms by (auto simp: one_choice_def filter_id_conv)
  finally show ?thesis .
qed

definition projected_of :: "InternalAssessment list \<Rightarrow> int" where
  "projected_of bs = sum_list (map (\<lambda>a. case net_benefit a of None \<Rightarrow> 0 | Some n \<Rightarrow> n) (filter ia_selected bs))"

lemma summarize_valid:
  assumes "summarize request bs \<noteq> invalidRecommendation"
  shows "boundedSum 0 (map ps_amountUsdMantissa (rq_positions request)) = Some (rc_totalPrincipalUsdMantissa (summarize request bs))"
    "boundedSum 0 (map amount_of (filter ia_selected bs)) = Some (rc_recommendedPrincipalUsdMantissa (summarize request bs))"
    "rc_projectedNetBenefitUsdMantissa (summarize request bs) = projected_of bs" "projected_of bs \<le> MAX_MANTISSA"
    "rc_decisions (summarize request bs) = decisions_of request bs"
    "rc_status (summarize request bs) = (if length (filter ia_selected bs) = length (rq_positions request) then RECOMMENDED
       else if filter ia_selected bs = [] then NO_ELIGIBLE_ROUTE else PARTIAL_RECOMMENDATION)"
proof -
  have amounts: "map (\<lambda>a. ps_amountUsdMantissa (ia_position a)) (filter ia_selected bs) = map amount_of (filter ia_selected bs)"
    by (simp add: amount_of_def)
  obtain x y where xy: "boundedSum 0 (map ps_amountUsdMantissa (rq_positions request)) = Some x"
      "boundedSum 0 (map amount_of (filter ia_selected bs)) = Some y" "\<not> projected_of bs > MAX_MANTISSA"
    using assms unfolding summarize_def Let_def amounts projected_of_def
    by (cases "boundedSum 0 (map ps_amountUsdMantissa (rq_positions request))";
        cases "boundedSum 0 (map amount_of (filter ia_selected bs))") (simp_all split: if_splits)
  show "boundedSum 0 (map ps_amountUsdMantissa (rq_positions request)) = Some (rc_totalPrincipalUsdMantissa (summarize request bs))"
    "boundedSum 0 (map amount_of (filter ia_selected bs)) = Some (rc_recommendedPrincipalUsdMantissa (summarize request bs))"
    "rc_projectedNetBenefitUsdMantissa (summarize request bs) = projected_of bs"
    "rc_decisions (summarize request bs) = decisions_of request bs"
    "rc_status (summarize request bs) = (if length (filter ia_selected bs) = length (rq_positions request) then RECOMMENDED
       else if filter ia_selected bs = [] then NO_ELIGIBLE_ROUTE else PARTIAL_RECOMMENDATION)"
    using xy(3) by (simp_all add: summarize_def Let_def amounts xy(1,2) decisions_of_def
        del: length_0_conv add: length_0_conv [symmetric] flip: projected_of_def)
  show "projected_of bs \<le> MAX_MANTISSA" using xy(3) by simp
qed

lemma recommendation_decided:
  assumes "rc_status (recommendFeeAwareAllocation input) \<noteq> INVALID_INPUT \<or> rc_decisions (recommendFeeAwareAllocation input) \<noteq> []"
  shows "\<exists>request as. parseRequest input = Inr request \<and> assessAll request = Inr as \<and> request_ok request \<and>
    one_choice (rq_positions request) (decideAll request as) \<and>
    rc_decisions (recommendFeeAwareAllocation input) = decisions_of request (decideAll request as) \<and>
    recommendFeeAwareAllocation input = summarize request (decideAll request as) \<and>
    summarize request (decideAll request as) \<noteq> invalidRecommendation"
proof -
  have inv: "rc_status invalidRecommendation = INVALID_INPUT" "rc_decisions invalidRecommendation = []"
    by (simp_all add: invalidRecommendation_def)
  obtain request as where r: "parseRequest input = Inr request" "assessAll request = Inr as"
      "recommendFeeAwareAllocation input = summarize request (decideAll request as)"
    using assms inv unfolding recommendFeeAwareAllocation_def by (auto split: sum.splits)
  have "summarize request (decideAll request as) \<noteq> invalidRecommendation" using assms inv r(3) by metis
  moreover from this have "rc_decisions (summarize request (decideAll request as)) = decisions_of request (decideAll request as)"
    by (rule summarize_valid(5))
  moreover have "request_ok request" using r(1) by (rule parseRequest_ok)
  ultimately show ?thesis using r decided_one_choice by metis
qed

subsection \<open>A sample request\<close>

text \<open>Two positions; the first may stay on its network or move to the other, the second has no candidate.\<close>

definition sample_networks :: "string \<times> string" where
  "sample_networks = (''eip155:1'', ''solana:5eykt4UsFv8P8NJdTREpY1vzqKqZKvdp'')"

definition sample_position :: "string \<Rightarrow> string \<Rightarrow> jsval" where
  "sample_position pid net = mk_object (zip
     [''positionId'', ''walletId'', ''networkId'', ''assetId'', ''amountAtomic'', ''amountUsdMantissa'']
     [JString pid, JString ''wallet'', JString net, JString ''usdc'', JBigInt 1000000, JBigInt 1000000])"

definition sample_opportunity :: "string \<Rightarrow> string \<Rightarrow> int \<Rightarrow> jsval" where
  "sample_opportunity oid net gross = mk_object (zip
     [''opportunityId'', ''providerId'', ''networkId'', ''assetId'', ''availability'', ''recommendationEligibility'',
      ''grossApyBasisPoints'', ''recurringFeeBasisPoints'', ''availableCapacityUsdMantissa'', ''evidence'', ''riskAssessment'']
     [JString oid, JString ''aave'', JString net, JString ''usdc'', JString ''AVAILABLE'', JString ''ELIGIBLE'',
      JBigInt gross, JBigInt 0, JBigInt 2000000,
      mk_object (zip [''evidenceReferenceId'', ''adapterId'', ''observedAt'', ''validUntil'']
        [JString ''evidence'', JString ''adapter'', JString ''2026-01-01T00:00:00.000Z'', JString ''2026-01-01T01:00:00.000Z'']),
      mk_object (zip [''status'', ''assessmentReferenceId'', ''assessedAt'', ''validUntil'', ''penaltyBasisPoints'']
        [JString ''APPROVED_FOR_RECOMMENDATION'', JString ''risk'', JString ''2026-01-01T00:00:00.000Z'',
         JString ''2026-01-01T01:00:00.000Z'', JBigInt 0])])"

definition sample_candidate :: "string \<Rightarrow> string \<Rightarrow> string \<Rightarrow> string \<Rightarrow> string \<Rightarrow> jsval" where
  "sample_candidate cid pid oid source destination = mk_object (zip [''candidateId'', ''positionId'', ''opportunityId'', ''costQuote'']
     [JString cid, JString pid, JString oid, mk_object (zip
        [''quoteReferenceId'', ''routeReferenceId'', ''positionId'', ''opportunityId'', ''verifiedByAdapterId'',
         ''quotedAt'', ''validUntil'', ''sourceNetworkId'', ''destinationNetworkId'', ''sourceAssetId'',
         ''destinationAssetId'', ''sourceAmountAtomic'', ''minimumDestinationAmountAtomic'', ''costsUsdMantissa'', ''bridge'']
        [JString ''quote'', JString ''route'', JString pid, JString oid, JString ''adapter'',
         JString ''2026-01-01T00:00:00.000Z'', JString ''2026-01-01T00:10:00.000Z'', JString source, JString destination,
         JString ''usdc'', JString ''usdc'', JBigInt 1000000, JBigInt 990000,
         mk_object (map (\<lambda>k. (k, JBigInt (if source = destination \<and> (k = ''entryBridge'' \<or> k = ''exitBridge'') then 0 else 10)))
           FEE_AWARE_ALLOCATION_COST_KINDS),
         (if source = destination then JNull else mk_object (zip
            [''entryBridgeProviderId'', ''exitBridgeProviderId'', ''entryEstimateReferenceId'', ''exitEstimateReferenceId'',
             ''entryMinimumOutputAtomic'', ''exitMinimumOutputAtomic'']
            [JString ''bridge'', JString ''bridge'', JString ''there'', JString ''back'', JBigInt 990000, JBigInt 980000]))])])"

definition sample_request :: jsval where
  "sample_request =
     (let (here, there) = sample_networks in mk_object (zip REQUEST_KEYS
       [js_int 18, JString ''2026-01-01T00:00:10.000Z'', JBigInt 365, JBigInt 60, JBigInt 60, JBigInt 100,
        mk_object (zip [''optIn'', ''allowedBridgeProviderIds'', ''maximumLifecycleCostUsdMantissa'', ''minimumNetImprovementUsdMantissa'']
          [mk_object (zip [''scope'', ''consentReferenceId'', ''grantedAt'', ''expiresAt'']
             [JString ''CONSIDER_CROSS_CHAIN_RECOMMENDATIONS'', JString ''consent'', JString ''2026-01-01T00:00:00.000Z'',
              JString ''2026-01-02T00:00:00.000Z'']),
           mk_array [JString ''bridge''], JBigInt 1000, JBigInt 100]),
        mk_object (zip [''maximumCrossChainPrincipalUsdMantissa'', ''maximumProviderPrincipalUsdMantissa'']
          [JBigInt 1500000, JBigInt 2000000]),
        mk_array [sample_position ''p1'' here, sample_position ''p2'' there],
        mk_array [sample_opportunity ''o1'' here 500, sample_opportunity ''o2'' there 700],
        mk_array [sample_candidate ''c1'' ''p1'' ''o1'' here here, sample_candidate ''c2'' ''p1'' ''o2'' here there]]))"

lemma MAX_MANTISSA_code [code]: "MAX_MANTISSA = 115792089237316195423570985008687907853269984665640564039457584007913129639935"
  by (simp add: MAX_MANTISSA_def)

definition listed :: "FeeAwareCandidateAssessment \<Rightarrow> string \<times> bool \<times> bool \<times> bool" where
  "listed x = (fa_candidateId x, fa_eligible x, fa_selected x, fa_calculation x = None)"

definition moves_first_position :: "FeeAwarePositionDecision list \<Rightarrow> bool" where
  "moves_first_position ds =
     (map (\<lambda>d. (pd_selectedCandidateId d, map listed (pd_assessments d))) ds =
        [(Some ''c2'', [(''c1'', True, False, False), (''c2'', True, True, False)]), (None, [])])"

lemma sample_recommended: "moves_first_position (rc_decisions (recommendFeeAwareAllocation sample_request))"
  by code_simp

lemma sample_first_decision:
  obtains d where "d \<in> set (rc_decisions (recommendFeeAwareAllocation sample_request))" "pd_selectedCandidateId d = Some ''c2''"
    "map listed (pd_assessments d) = [(''c1'', True, False, False), (''c2'', True, True, False)]"
proof -
  obtain d e where "rc_decisions (recommendFeeAwareAllocation sample_request) = [d, e]"
      "pd_selectedCandidateId d = Some ''c2''"
      "map listed (pd_assessments d) = [(''c1'', True, False, False), (''c2'', True, True, False)]"
    using sample_recommended unfolding moves_first_position_def
    by (cases "rc_decisions (recommendFeeAwareAllocation sample_request)") fastforce+
  then show ?thesis using that [of d] by simp
qed

lemma sample_cross: "map (\<lambda>d. (pd_selectedCandidateId d, pd_selectedRouteKind d)) (rc_decisions (recommendFeeAwareAllocation sample_request)) =
    [(Some ''c2'', Some CROSS_CHAIN), (None, None)]"
  by code_simp

lemma sample_cross_decision:
  obtains d where "d \<in> set (rc_decisions (recommendFeeAwareAllocation sample_request))" "pd_selectedCandidateId d = Some ''c2''"
    "pd_selectedRouteKind d = Some CROSS_CHAIN"
  using sample_cross by (cases "rc_decisions (recommendFeeAwareAllocation sample_request)") auto

lemma sample_improvement:
  "case parseRequest sample_request of
     Inl _ \<Rightarrow> False | Inr request \<Rightarrow> cp_minimumNetImprovementUsdMantissa (rq_crossChainPolicy request) = 100"
  by code_simp

lemma sample_not_invalid: "rc_status (recommendFeeAwareAllocation sample_request) \<noteq> INVALID_INPUT"
proof -
  have "rc_decisions (recommendFeeAwareAllocation sample_request) \<noteq> []" using sample_first_decision by fastforce
  then obtain request as where "recommendFeeAwareAllocation sample_request = summarize request (decideAll request as)"
      "summarize request (decideAll request as) \<noteq> invalidRecommendation"
    using recommendation_decided [of sample_request] by blast
  then show ?thesis using summarize_valid(6) [of request "decideAll request as"] by (simp split: if_splits)
qed

subsection \<open>Properties\<close>

text \<open>C15. Every selection of a recommendation passes every check. It is a candidate of the request for the
  position and the opportunity it names; its quote is complete, for exactly this position, opportunity, route and
  amount, and in force; the opportunity is available, eligible, freshly observed and assessed, and has the
  capacity; the decision's list flags it with a calculation whose net benefit and costs are those of the
  principal, the rates, the holding period and the quoted costs, and that net benefit is positive and at least
  the required minimum, the costs below the principal. A selection on the same network uses no bridge; one on
  another has an opt-in in force and allowed bridges, costs within their limit, and the required improvement
  over the best candidate that keeps the position on its network, which must exist.
\<close>

theorem selections_pass_every_check:
  assumes "d \<in> set (rc_decisions (recommendFeeAwareAllocation input))" "pd_selectedCandidateId d = Some cid"
  shows "\<exists>request cand p o' costs x c i base. parseRequest input = Inr request \<and>
    cand \<in> set (rq_candidates request) \<and> cd_candidateId cand = cid \<and>
    p \<in> set (rq_positions request) \<and> cd_positionId cand = ps_positionId p \<and> pd_positionId d = ps_positionId p \<and>
    o' \<in> set (rq_opportunities request) \<and> cd_opportunityId cand = op_opportunityId o' \<and>
    pd_selectedOpportunityId d = Some (op_opportunityId o') \<and> cleared request cand p o' costs \<and>
    i = return_input request p o' costs \<and>
    x \<in> set (pd_assessments d) \<and> fa_candidateId x = cid \<and> fa_selected x \<and> fa_calculation x = Some c \<and>
    netBenefitUsdMantissa c = net_of i \<and> totalLifecycleCostUsdMantissa c = totalOf i \<and>
    (if ps_networkId p = op_networkId o' then pd_selectedRouteKind d = Some SAME_CHAIN
     else pd_selectedRouteKind d = Some CROSS_CHAIN \<and>
       totalOf i \<le> cp_maximumLifecycleCostUsdMantissa (rq_crossChainPolicy request) \<and>
       base \<in> staying request p \<and> (\<forall>n \<in> staying request p. n \<le> base) \<and>
       improvementOverSameChainUsdMantissa c = Some (net_of i - base) \<and>
       cp_minimumNetImprovementUsdMantissa (rq_crossChainPolicy request) \<le> net_of i - base)"
proof -
  obtain request as where r: "parseRequest input = Inr request" "assessAll request = Inr as" "request_ok request"
      "one_choice (rq_positions request) (decideAll request as)"
      "rc_decisions (recommendFeeAwareAllocation input) = decisions_of request (decideAll request as)"
    using recommendation_decided [of input] assms(1) by (metis empty_iff list.set(1))
  let ?bs = "decideAll request as"
  obtain p where p: "p \<in> set (rq_positions request)" "d = positionDecision p ?bs"
    using assms(1) by (auto simp: r(5) decisions_of_def)
  obtain a where a: "decision_for ?bs p = Some a" "cd_candidateId (ia_candidate a) = cid"
    using assms(2) by (auto simp: p(2) positionDecision_core)
  have s: "a \<in> set ?bs" "ia_selected a" "ia_position a = p" using a(1) decision_for_iff [OF r(4) p(1)] by simp_all
  note out = decideAll_outcome(3,4,10) [OF r(3,2) refl s(1)]
  have "ia_candidate a \<in> set (rq_candidates request)"
    using s(1) by (simp flip: decideAll_outcome(2) [OF r(3,2) refl])
  moreover obtain costs c base where "cleared request (ia_candidate a) p (ia_opportunity a) costs"
      "ia_routeKind a = (if ps_networkId p = op_networkId (ia_opportunity a) then SAME_CHAIN else CROSS_CHAIN)"
      "ia_calculation a = Some c" "netBenefitUsdMantissa c = net_of (return_input request p (ia_opportunity a) costs)"
      "totalLifecycleCostUsdMantissa c = totalOf (return_input request p (ia_opportunity a) costs)"
      "ps_networkId p = op_networkId (ia_opportunity a) \<or>
         totalOf (return_input request p (ia_opportunity a) costs) \<le> cp_maximumLifecycleCostUsdMantissa (rq_crossChainPolicy request) \<and>
         base \<in> staying request p \<and> (\<forall>n \<in> staying request p. n \<le> base) \<and>
         improvementOverSameChainUsdMantissa c = Some (net_of (return_input request p (ia_opportunity a) costs) - base) \<and>
         cp_minimumNetImprovementUsdMantissa (rq_crossChainPolicy request)
           \<le> net_of (return_input request p (ia_opportunity a) costs) - base"
    using out(2) s(2) unfolding passes_def s(3) by blast
  ultimately show ?thesis
    using r(1) p a s out(1,3)
    by (intro exI [of _ request] exI [of _ "ia_candidate a"] exI [of _ p] exI [of _ "ia_opportunity a"] exI [of _ costs]
        exI [of _ "publicAssessment a"] exI [of _ c] exI [of _ "return_input request p (ia_opportunity a) costs"] exI [of _ base])
      (auto simp: positionDecision_core)
qed

theorem selections_pass_every_check_witness:
  "\<exists>request p (c :: FeeAwareCandidateCalculation) base. parseRequest sample_request = Inr request \<and> base \<in> staying request p \<and>
     improvementOverSameChainUsdMantissa c = Some (netBenefitUsdMantissa c - base) \<and> 100 \<le> netBenefitUsdMantissa c - base"
proof -
  obtain d where d: "d \<in> set (rc_decisions (recommendFeeAwareAllocation sample_request))" "pd_selectedCandidateId d = Some ''c2''"
      "pd_selectedRouteKind d = Some CROSS_CHAIN"
    by (rule sample_cross_decision)
  have limit: "cp_minimumNetImprovementUsdMantissa (rq_crossChainPolicy request) = 100" if "parseRequest sample_request = Inr request" for request
    using sample_improvement that by simp
  from selections_pass_every_check [OF d(1,2)] show ?thesis
  proof (elim exE conjE)
    fix request p o' base and i :: FeeAwareReturnInput and c :: FeeAwareCandidateCalculation
    assume s: "parseRequest sample_request = Inr request" "netBenefitUsdMantissa c = net_of i"
      "if ps_networkId p = op_networkId o' then pd_selectedRouteKind d = Some SAME_CHAIN
       else pd_selectedRouteKind d = Some CROSS_CHAIN \<and>
         totalOf i \<le> cp_maximumLifecycleCostUsdMantissa (rq_crossChainPolicy request) \<and>
         base \<in> staying request p \<and> (\<forall>n \<in> staying request p. n \<le> base) \<and>
         improvementOverSameChainUsdMantissa c = Some (net_of i - base) \<and>
         cp_minimumNetImprovementUsdMantissa (rq_crossChainPolicy request) \<le> net_of i - base"
    have "base \<in> staying request p" "improvementOverSameChainUsdMantissa c = Some (netBenefitUsdMantissa c - base)"
        "100 \<le> netBenefitUsdMantissa c - base"
      using s(2,3) d(3) limit [OF s(1)] by (simp_all split: if_splits)
    with s(1) show ?thesis by blast
  qed
qed

text \<open>C16. The exposure limits hold over the decisions of any recommendation for a request: the principal moved
  into one opportunity never exceeds its available capacity, the principal entrusted to one provider never
  exceeds the provider limit, and the principal moved across networks never exceeds its limit.
\<close>

theorem exposure_limits_hold:
  assumes "parseRequest input = Inr request" "ds = rc_decisions (recommendFeeAwareAllocation input)"
  shows "sum_list (map pd_principalUsdMantissa (filter (\<lambda>d. pd_selectedOpportunityId d = Some oid) ds))
      \<le> capacity_of (rq_opportunities request) oid \<and>
    sum_list (map pd_principalUsdMantissa (filter (\<lambda>d. pd_selectedProviderId d = Some pid) ds))
      \<le> ep_maximumProviderPrincipalUsdMantissa (rq_exposurePolicy request) \<and>
    sum_list (map pd_principalUsdMantissa (filter (\<lambda>d. pd_selectedRouteKind d = Some CROSS_CHAIN) ds))
      \<le> ep_maximumCrossChainPrincipalUsdMantissa (rq_exposurePolicy request)"
proof (cases "ds = []")
  case True
  have "request_ok request" using assms(1) by (rule parseRequest_ok)
  then have "0 \<le> capacity_of (rq_opportunities request) oid"
      "0 \<le> ep_maximumProviderPrincipalUsdMantissa (rq_exposurePolicy request)"
      "0 \<le> ep_maximumCrossChainPrincipalUsdMantissa (rq_exposurePolicy request)"
    by (auto simp: request_ok_def list_all_iff capacity_of_def split: option.splits dest!: map_of_SomeD)
  with True show ?thesis by simp
next
  case False
  obtain as where r: "assessAll request = Inr as" "request_ok request"
      "one_choice (rq_positions request) (decideAll request as)" "ds = decisions_of request (decideAll request as)"
    using recommendation_decided [of input] False assms by auto
  let ?bs = "decideAll request as"
  note out = decideAll_outcome(7-9) [OF r(2,1) refl]
  have class_sum: "sum_list (map pd_principalUsdMantissa (filter (\<lambda>d. sel d = Some k) ds)) = selected_sum P ?bs"
    if "\<And>p. sel (positionDecision p ?bs) = map_option g (decision_for ?bs p)" "\<And>a. P a = (g a = k)" for sel g k P
    unfolding r(4) decisions_sum decided_sum [OF r(3)] that positionDecision_core by simp
  show ?thesis
    using out class_sum [of pd_selectedOpportunityId _ "for_opportunity oid" oid]
      class_sum [of pd_selectedProviderId _ "for_provider pid" pid]
      class_sum [of pd_selectedRouteKind _ crossing CROSS_CHAIN]
    by (simp add: positionDecision_core selection_classes)
qed

theorem exposure_limits_hold_witness:
  "\<exists>request. parseRequest sample_request = Inr request \<and>
     sum_list (map pd_principalUsdMantissa (filter (\<lambda>d. pd_selectedRouteKind d = Some CROSS_CHAIN)
       (rc_decisions (recommendFeeAwareAllocation sample_request))))
     \<le> ep_maximumCrossChainPrincipalUsdMantissa (rq_exposurePolicy request)"
proof -
  obtain request where r: "parseRequest sample_request = Inr request"
    using recommendation_decided [of sample_request] sample_not_invalid by blast
  with exposure_limits_hold [OF r refl] show ?thesis by blast
qed

text \<open>C22. Each position gets its best candidate: when a decision lists an eligible candidate, it selects one
  whose net benefit is at least as high, and the selected candidate is flagged in the same list.
\<close>

theorem best_eligible_candidate_selected:
  assumes "d \<in> set (rc_decisions (recommendFeeAwareAllocation input))" "x \<in> set (pd_assessments d)"
    and "fa_eligible x" "fa_calculation x = Some c"
  shows "\<exists>s c'. s \<in> set (pd_assessments d) \<and> fa_selected s \<and> pd_selectedCandidateId d = Some (fa_candidateId s) \<and>
    fa_calculation s = Some c' \<and> netBenefitUsdMantissa c \<le> netBenefitUsdMantissa c'"
proof -
  obtain request as where r: "assessAll request = Inr as" "request_ok request"
      "one_choice (rq_positions request) (decideAll request as)"
      "rc_decisions (recommendFeeAwareAllocation input) = decisions_of request (decideAll request as)"
    using recommendation_decided [of input] assms(1) by (metis empty_iff list.set(1))
  let ?bs = "decideAll request as"
  obtain p where p: "p \<in> set (rq_positions request)" "d = positionDecision p ?bs"
    using assms(1) by (auto simp: r(4) decisions_of_def)
  obtain a where a: "a \<in> set ?bs" "ps_positionId (ia_position a) = ps_positionId p" "x = publicAssessment a"
    using assms(2) by (auto simp: p(2) positionDecision_core)
  have "isEligibleInternal a" using assms(3,4) by (simp add: a(3) isEligibleInternal_def)
  then obtain s where s: "s \<in> set ?bs" "ia_selected s" "ps_positionId (ia_position s) = ps_positionId p"
      "candidate_key (return_candidate s) \<le> candidate_key (return_candidate a)"
    using decideAll_outcome(5) [OF r(2,1) refl a(1)] a(2) by auto
  have "decision_for ?bs p = Some s"
    using decision_for_iff [OF r(3) p(1)] s(1-3) same_position [OF r(3) p(1) s(1,3)] by simp
  moreover have ac: "ia_calculation a = Some c" using assms(4) by (simp add: a(3))
  moreover obtain c' where c': "ia_calculation s = Some c'"
    using decideAll_outcome(4) [OF r(2,1) refl s(1,2)] by (auto dest: passes_positive)
  moreover have "netBenefitUsdMantissa c \<le> netBenefitUsdMantissa c'"
    using s(4) ac c' by (auto simp: candidate_key_def return_candidate_def less_eq_prod_def)
  ultimately show ?thesis
    using s(1-3)
    by (intro exI [of _ "publicAssessment s"] exI [of _ c']) (simp add: p(2) positionDecision_core)
qed

theorem best_eligible_candidate_selected_witness:
  "\<exists>d \<in> set (rc_decisions (recommendFeeAwareAllocation sample_request)). \<exists>x s c c'.
     x \<in> set (pd_assessments d) \<and> fa_candidateId x = ''c1'' \<and> \<not> fa_selected x \<and> fa_calculation x = Some c \<and>
     s \<in> set (pd_assessments d) \<and> fa_selected s \<and> fa_calculation s = Some c' \<and>
     netBenefitUsdMantissa c \<le> netBenefitUsdMantissa c'"
proof -
  obtain d where d: "d \<in> set (rc_decisions (recommendFeeAwareAllocation sample_request))"
      "pd_selectedCandidateId d = Some ''c2''"
      "map listed (pd_assessments d) =
         [(''c1'', True, False, False), (''c2'', True, True, False)]"
    by (rule sample_first_decision)
  from d(3) obtain x c where x: "x \<in> set (pd_assessments d)" "fa_candidateId x = ''c1''" "fa_eligible x" "\<not> fa_selected x"
      "fa_calculation x = Some c"
    by (cases "pd_assessments d") (auto simp: listed_def)
  obtain s c' where "s \<in> set (pd_assessments d)" "fa_selected s" "fa_calculation s = Some c'"
      "netBenefitUsdMantissa c \<le> netBenefitUsdMantissa c'"
    using best_eligible_candidate_selected [OF d(1) x(1,3,5)] by (elim exE conjE)
  with x d(1) show ?thesis by (intro bexI [of _ d] exI [of _ x] exI [of _ s] exI [of _ c] exI [of _ c']) simp_all
qed

lemma boundedSum_eq: "boundedSum acc vs = Some s \<Longrightarrow> acc \<le> MAX_MANTISSA \<Longrightarrow> s = acc + sum_list vs \<and> s \<le> MAX_MANTISSA"
  by (induction acc vs rule: boundedSum.induct) (auto split: if_splits)

lemma projected_bounds:
  assumes "list_all (\<lambda>a. \<exists>c. ia_calculation a = Some c \<and> 0 < netBenefitUsdMantissa c) (filter ia_selected bs)"
  shows "projected_of bs = sum_list (map (\<lambda>f. netBenefitUsdMantissa (the (fa_calculation f))) (filter fa_selected (map publicAssessment bs)))"
    and "int (length (filter ia_selected bs)) \<le> projected_of bs"
  using assms by (induction bs) (auto simp: projected_of_def net_benefit_def)

text \<open>The totals of a valid recommendation are those of its decisions: the total principal is that of all
  decisions, the recommended principal that of the decisions with a selection, the projected net benefit
  that of the selected assessments; none leaves the numeric range, each selection adds a positive benefit,
  and the status says whether all, some or none of the decisions have a selection.
\<close>

theorem totals_are_those_of_the_decisions:
  assumes "r = recommendFeeAwareAllocation input" "rc_status r \<noteq> INVALID_INPUT"
  shows "rc_totalPrincipalUsdMantissa r = sum_list (map pd_principalUsdMantissa (rc_decisions r)) \<and>
    rc_recommendedPrincipalUsdMantissa r =
      sum_list (map pd_principalUsdMantissa (filter (\<lambda>d. pd_selectedCandidateId d \<noteq> None) (rc_decisions r))) \<and>
    rc_projectedNetBenefitUsdMantissa r =
      sum_list (map (\<lambda>f. netBenefitUsdMantissa (the (fa_calculation f)))
        (filter fa_selected (concat (map pd_assessments (rc_decisions r))))) \<and>
    rc_recommendedPrincipalUsdMantissa r \<le> rc_totalPrincipalUsdMantissa r \<and>
    rc_totalPrincipalUsdMantissa r \<le> MAX_MANTISSA \<and> rc_projectedNetBenefitUsdMantissa r \<le> MAX_MANTISSA \<and>
    int (length (filter (\<lambda>d. pd_selectedCandidateId d \<noteq> None) (rc_decisions r))) \<le> rc_projectedNetBenefitUsdMantissa r \<and>
    rc_status r = (if \<forall>d \<in> set (rc_decisions r). pd_selectedCandidateId d \<noteq> None then RECOMMENDED
      else if \<exists>d \<in> set (rc_decisions r). pd_selectedCandidateId d \<noteq> None then PARTIAL_RECOMMENDATION else NO_ELIGIBLE_ROUTE)"
proof -
  obtain request as where r: "assessAll request = Inr as" "request_ok request"
      "one_choice (rq_positions request) (decideAll request as)" "rc_decisions r = decisions_of request (decideAll request as)"
      "r = summarize request (decideAll request as)" "summarize request (decideAll request as) \<noteq> invalidRecommendation"
    using recommendation_decided [of input] assms by auto
  let ?bs = "decideAll request as" and ?ps = "rq_positions request" and ?sel = "\<lambda>d. pd_selectedCandidateId d \<noteq> None"
  note valid = summarize_valid [OF r(6), folded r(5)]
  have zero: "0 \<le> MAX_MANTISSA" by (simp add: MAX_MANTISSA_def)
  have tot: "rc_totalPrincipalUsdMantissa r = sum_list (map ps_amountUsdMantissa ?ps)" "rc_totalPrincipalUsdMantissa r \<le> MAX_MANTISSA"
    using boundedSum_eq [OF valid(1) zero] by simp_all
  have rec: "rc_recommendedPrincipalUsdMantissa r = selected_sum (\<lambda>_. True) ?bs"
    using boundedSum_eq [OF valid(2) zero] by (simp add: selected_sum_def)
  have all: "sum_list (map pd_principalUsdMantissa (rc_decisions r)) = sum_list (map ps_amountUsdMantissa ?ps)"
    using decisions_sum [of pd_principalUsdMantissa "\<lambda>_. True" request ?bs] by (simp add: r(4) positionDecision_core)
  have sel: "sum_list (map pd_principalUsdMantissa (filter ?sel (rc_decisions r))) = selected_sum (\<lambda>_. True) ?bs"
    unfolding r(4) decisions_sum selected_everything [OF r(3)] positionDecision_core by (simp add: not_None_eq)
  have pass: "list_all (\<lambda>a. \<exists>c. ia_calculation a = Some c \<and> 0 < netBenefitUsdMantissa c) (filter ia_selected ?bs)"
    using decideAll_outcome(4) [OF r(2,1) refl] by (auto simp: list_all_iff dest: passes_positive)
  have flags: "mset (filter fa_selected (concat (map pd_assessments (rc_decisions r)))) = mset (filter fa_selected (map publicAssessment ?bs))"
    using arg_cong [OF decisions_assessments [OF r(3)], of "filter_mset fa_selected"] by (simp only: r(4) mset_filter)
  have proj: "projected_of ?bs = sum_list (map (\<lambda>f. netBenefitUsdMantissa (the (fa_calculation f)))
      (filter fa_selected (concat (map pd_assessments (rc_decisions r)))))"
    using arg_cong [OF flags, of "\<lambda>m. sum_mset (image_mset (\<lambda>f. netBenefitUsdMantissa (the (fa_calculation f))) m)"]
    by (simp only: projected_bounds(1) [OF pass] mset_map [symmetric] sum_mset_sum_list)
  have count: "length (filter ?sel (rc_decisions r)) = length (filter ia_selected ?bs)"
  proof -
    have "length (filter ?sel (rc_decisions r)) = length (filter ?sel (map (\<lambda>p. positionDecision p ?bs) ?ps))"
      by (rule mset_eq_length) (simp add: r(4) decisions_of_def)
    then show ?thesis by (simp add: filter_map o_def positionDecision_core selected_count [OF r(3)])
  qed
  have len: "length (rc_decisions r) = length ?ps"
    using mset_eq_length [of "rc_decisions r" "map (\<lambda>p. positionDecision p ?bs) ?ps"] by (simp add: r(4) decisions_of_def)
  have "rc_recommendedPrincipalUsdMantissa r \<le> rc_totalPrincipalUsdMantissa r"
  proof -
    have le: "sum_list (map ps_amountUsdMantissa (filter Q xs)) \<le> sum_list (map ps_amountUsdMantissa xs)"
      if "list_all (\<lambda>p. 0 < ps_amountUsdMantissa p) xs" for Q xs
      using that by (induction xs) auto
    have "list_all (\<lambda>p. 0 < ps_amountUsdMantissa p) ?ps" using r(2) by (simp add: request_ok_def)
    from le [OF this] show ?thesis unfolding rec tot(1) selected_everything [OF r(3)] .
  qed
  moreover have "rc_status r = (if \<forall>d \<in> set (rc_decisions r). ?sel d then RECOMMENDED
      else if \<exists>d \<in> set (rc_decisions r). ?sel d then PARTIAL_RECOMMENDATION else NO_ELIGIBLE_ROUTE)"
  proof -
    have "(\<forall>d \<in> set (rc_decisions r). ?sel d) = (length (filter ?sel (rc_decisions r)) = length (rc_decisions r))"
    proof -
      have "(\<forall>x \<in> set xs. Q x) = (length (filter Q xs) = length xs)" for Q and xs :: "FeeAwarePositionDecision list"
      proof (induction xs)
        case (Cons x xs)
        then show ?case by (cases "Q x") (simp_all add: less_imp_neq [OF le_imp_less_Suc [OF length_filter_le]])
      qed simp
      then show ?thesis .
    qed
    moreover have "(\<exists>d \<in> set (rc_decisions r). ?sel d) = (length (filter ?sel (rc_decisions r)) \<noteq> 0)"
      by (simp add: filter_empty_conv)
    ultimately show ?thesis unfolding valid(6) count len by simp
  qed
  ultimately show ?thesis
    using tot rec all sel proj valid(3,4) count projected_bounds(2) [OF pass] by simp
qed

theorem totals_are_those_of_the_decisions_witness:
  "rc_recommendedPrincipalUsdMantissa (recommendFeeAwareAllocation sample_request) =
     sum_list (map pd_principalUsdMantissa (filter (\<lambda>d. pd_selectedCandidateId d \<noteq> None)
       (rc_decisions (recommendFeeAwareAllocation sample_request)))) \<and>
   rc_recommendedPrincipalUsdMantissa (recommendFeeAwareAllocation sample_request)
     \<le> rc_totalPrincipalUsdMantissa (recommendFeeAwareAllocation sample_request)"
  using totals_are_those_of_the_decisions [OF refl sample_not_invalid] by blast

end
