(* ===== verification/Valuation.thy ===== *)
theory Valuation
  imports Asset_Registry Js_Sort
begin

text \<open>
  Stablecoin valuation, \<^verbatim>\<open>apps/api/src/valuation/domain/stablecoin-valuation-policy.ts\<close>: vocabulary,
  fixed-point arithmetic and input validation. \<^verbatim>\<open>MAINNET_SUPPORTED_ASSET_REGISTRY\<close> is the argument
  \<open>registry\<close>; the properties are stated for the registry the program loads (\<open>Asset_Registry\<close>).
  The BigInt mantissas come from digit texts and are never negative, so they are naturals; scales are
  parsed as integers from 0 to 36. The source throws \<open>InvalidValuationInput\<close> without a code.
\<close>

subsection \<open>Vocabulary\<close>

datatype StablecoinValuationSourceId = PYTH_CORE | CHAINLINK_DATA_FEEDS

fun source_text :: "StablecoinValuationSourceId \<Rightarrow> string" where
  "source_text PYTH_CORE = ''PYTH_CORE''"
| "source_text CHAINLINK_DATA_FEEDS = ''CHAINLINK_DATA_FEEDS''"

definition STABLECOIN_VALUATION_SOURCES :: "StablecoinValuationSourceId list" where
  "STABLECOIN_VALUATION_SOURCES = [PYTH_CORE, CHAINLINK_DATA_FEEDS]"

interpretation source_enum: text_enum source_text STABLECOIN_VALUATION_SOURCES
proof unfold_locales
  show "x \<in> set STABLECOIN_VALUATION_SOURCES" for x by (cases x) (simp_all add: STABLECOIN_VALUATION_SOURCES_def)
  show "source_text x = source_text y \<Longrightarrow> x = y" for x y by (cases x; cases y) simp_all
qed

datatype SourceRole = PRIMARY_ROLE | FALLBACK_AND_CROSS_CHECK

datatype StablecoinSourceEligibility =
  ELIGIBLE_CURRENT | STALE | MISSING | EXPIRED | FUTURE_TIMESTAMP | NON_MONOTONIC_SEQUENCE | REPLAYED_OR_REGRESSED
  | WIDE_CONFIDENCE

datatype StablecoinDownsideBand = NORMAL | WATCH | DEPEGGED | BAND_NOT_ASSESSED

datatype StablecoinSourceAgreement = CORROBORATED | SOFT_DISAGREEMENT | CONFLICT | AGREEMENT_SINGLE_SOURCE | NOT_AVAILABLE

datatype InvalidValuationInput = InvalidValuationInput

type_synonym 'a valued = "InvalidValuationInput + 'a"

subsection \<open>Policy\<close>

text \<open>The constants of \<^verbatim>\<open>STABLECOIN_VALUATION_POLICY\<close> the code reads.\<close>

definition maxObservations :: nat where "maxObservations = 8"

definition maxAmountDigits :: nat where "maxAmountDigits = 78"

definition maxRateDigits :: nat where "maxRateDigits = 78"

definition maxRateScale :: int where "maxRateScale = 36"

definition maxAssetDecimals :: int where "maxAssetDecimals = 36"

definition maxProductDigits :: nat where "maxProductDigits = 156"

definition maxUsdValueDigits :: nat where "maxUsdValueDigits = 96"

definition usdValueScale :: nat where "usdValueScale = 18"

definition normalizedUsdRateScale :: nat where "normalizedUsdRateScale = 8"

definition currentWithinMs :: int where "currentWithinMs = 60000"

definition unavailableAfterMs :: int where "unavailableAfterMs = 300000"

definition publishedWidthEligibleAtOrBelowBps :: nat where "publishedWidthEligibleAtOrBelowBps = 50"

definition mediumPublishedWidthAtOrBelowBps :: nat where "mediumPublishedWidthAtOrBelowBps = 25"

definition corroboratedAtOrBelowBps :: nat where "corroboratedAtOrBelowBps = 25"

definition softDisagreementAtOrBelowBps :: nat where "softDisagreementAtOrBelowBps = 50"

definition normalAtOrBelowBps :: nat where "normalAtOrBelowBps = 50"

definition depeggedAtOrAboveBps :: nat where "depeggedAtOrAboveBps = 200"

definition consecutiveDualCorroboratedObservations :: nat where "consecutiveDualCorroboratedObservations = 4"

definition withinPegBps :: nat where "withinPegBps = 25"

definition minimumSpanMs :: int where "minimumSpanMs = 1800000"

lemmas policy_bounds =
  maxObservations_def maxAmountDigits_def maxRateDigits_def maxRateScale_def maxAssetDecimals_def maxProductDigits_def
  maxUsdValueDigits_def usdValueScale_def normalizedUsdRateScale_def currentWithinMs_def unavailableAfterMs_def

lemmas policy_widths =
  publishedWidthEligibleAtOrBelowBps_def mediumPublishedWidthAtOrBelowBps_def corroboratedAtOrBelowBps_def
  softDisagreementAtOrBelowBps_def normalAtOrBelowBps_def depeggedAtOrAboveBps_def withinPegBps_def

definition sourceOrder :: "(StablecoinValuationSourceId \<times> SourceRole) list" where
  "sourceOrder = [(PYTH_CORE, PRIMARY_ROLE), (CHAINLINK_DATA_FEEDS, FALLBACK_AND_CROSS_CHECK)]"

fun STABLECOIN_VALUATION_FEED_REFERENCES :: "SupportedStablecoin \<Rightarrow> StablecoinValuationSourceId \<Rightarrow> string" where
  "STABLECOIN_VALUATION_FEED_REFERENCES USDC PYTH_CORE = ''eaa020c61cc479712813461ce153894a96a6c00b21ed0cfc2798d1f9a9e9c94a''"
| "STABLECOIN_VALUATION_FEED_REFERENCES USDC CHAINLINK_DATA_FEEDS = ''usdc-usd.data.eth''"
| "STABLECOIN_VALUATION_FEED_REFERENCES USDT PYTH_CORE = ''2b89b9dc8fdf9f34709a5b106b472f0f39bb6ca9ce04b0fd7f2e971688e2e53b''"
| "STABLECOIN_VALUATION_FEED_REFERENCES USDT CHAINLINK_DATA_FEEDS = ''usdt-usd.data.eth''"
| "STABLECOIN_VALUATION_FEED_REFERENCES PYUSD PYTH_CORE = ''c1da1b73d7f01e7ddd54b3766cf7fcd644395ad14f70aa706ec5384c59e76692''"
| "STABLECOIN_VALUATION_FEED_REFERENCES PYUSD CHAINLINK_DATA_FEEDS = ''pyusd-usd.data.eth''"

subsection \<open>Data\<close>

record FixedDecimal =
  fx_mantissa :: nat
  fx_scale :: nat

record StablecoinValuationAssetReference =
  va_registryEnvironment :: AssetRegistryEnvironment
  va_registryVersion :: int
  va_registryFingerprintSha256 :: string
  va_stablecoin :: SupportedStablecoin
  va_networkId :: string
  va_identity :: string
  va_decimals :: int

datatype StablecoinPriceConfidence =
    PUBLISHED_ABSOLUTE_USD (confidenceMantissa: string) (confidenceScale: nat)
  | NOT_PUBLISHED

record StablecoinPriceObservation =
  po_asset :: StablecoinValuationAssetReference
  po_sourceId :: StablecoinValuationSourceId
  po_sourceReference :: string
  po_sourceSequence :: string
  po_sourceUpdateId :: string
  po_pricedAt :: string
  po_observedAt :: string
  po_usdRateMantissa :: string
  po_usdRateScale :: nat
  po_confidence :: StablecoinPriceConfidence

text \<open>A parsed observation: its public fields (\<^verbatim>\<open>publicObservation\<close>) and the parsed values.\<close>

record ParsedObservation =
  publicObservation :: StablecoinPriceObservation
  ob_pricedAtMs :: int
  ob_observedAtMs :: int
  ob_rate :: FixedDecimal
  ob_confidenceAmount :: "FixedDecimal option"

text \<open>A watermark: nothing accepted yet, or the last accepted sequence, times and update.\<close>

record ParsedSourceWatermark =
  wm_sourceId :: StablecoinValuationSourceId
  wm_lastAcceptedSequence :: "string option"
  wm_lastAcceptedPricedAt :: "string option"
  wm_lastAcceptedObservedAt :: "string option"
  wm_lastAcceptedUpdateId :: "string option"
  wm_lastAcceptedPricedAtMs :: "int option"
  wm_lastAcceptedObservedAtMs :: "int option"

record ParsedValuationRequest =
  vq_asset :: StablecoinValuationAssetReference
  vq_amountAtomic :: string
  vq_amount :: nat
  vq_evaluatedAt :: string
  vq_evaluatedAtMs :: int
  vq_sourceWatermarks :: "ParsedSourceWatermark list"
  vq_observations :: "ParsedObservation list"

abbreviation ob_sourceId :: "ParsedObservation \<Rightarrow> StablecoinValuationSourceId" where
  "ob_sourceId x \<equiv> po_sourceId (publicObservation x)"

abbreviation ob_sequence :: "ParsedObservation \<Rightarrow> nat" where
  "ob_sequence x \<equiv> dec_val (po_sourceSequence (publicObservation x))"

abbreviation ob_updateId :: "ParsedObservation \<Rightarrow> string" where
  "ob_updateId x \<equiv> po_sourceUpdateId (publicObservation x)"

subsection \<open>Fixed-point arithmetic\<close>

definition powerOfTen :: "nat \<Rightarrow> nat" where
  "powerOfTen exponent = 10 ^ exponent"

function canonical_pair :: "nat \<Rightarrow> nat \<Rightarrow> nat \<times> nat" where
  "canonical_pair mantissa scale =
     (if 0 < scale \<and> mantissa mod 10 = 0 then canonical_pair (mantissa div 10) (scale - 1) else (mantissa, scale))"
  by pat_completeness auto
termination by (relation "measure snd") auto

definition canonicalFixed :: "FixedDecimal \<Rightarrow> FixedDecimal" where
  "canonicalFixed v =
     (let r = canonical_pair (fx_mantissa v) (fx_scale v) in \<lparr>fx_mantissa = fst r, fx_scale = snd r\<rparr>)"

definition compareBigInt :: "nat \<Rightarrow> nat \<Rightarrow> int" where
  "compareBigInt left right = (if left < right then - 1 else if left > right then 1 else 0)"

definition compareFixed :: "FixedDecimal \<Rightarrow> FixedDecimal \<Rightarrow> int" where
  "compareFixed first second =
     compareBigInt (fx_mantissa first * powerOfTen (fx_scale second)) (fx_mantissa second * powerOfTen (fx_scale first))"

definition minimumFixed :: "FixedDecimal \<Rightarrow> FixedDecimal \<Rightarrow> FixedDecimal" where
  "minimumFixed first second = (if compareFixed first second \<le> 0 then first else second)"

definition subtractFixedFloorZero :: "FixedDecimal \<Rightarrow> FixedDecimal \<Rightarrow> FixedDecimal" where
  "subtractFixedFloorZero minuend subtrahend =
     (let scale = (if fx_scale minuend \<ge> fx_scale subtrahend then fx_scale minuend else fx_scale subtrahend);
          minuendMantissa = fx_mantissa minuend * powerOfTen (scale - fx_scale minuend);
          subtrahendMantissa = fx_mantissa subtrahend * powerOfTen (scale - fx_scale subtrahend)
      in \<lparr>fx_mantissa = (if minuendMantissa > subtrahendMantissa then minuendMantissa - subtrahendMantissa else 0),
          fx_scale = scale\<rparr>)"

definition absoluteDifference :: "FixedDecimal \<Rightarrow> FixedDecimal \<Rightarrow> FixedDecimal" where
  "absoluteDifference first second =
     (let scale = (if fx_scale first \<ge> fx_scale second then fx_scale first else fx_scale second);
          firstMantissa = fx_mantissa first * powerOfTen (scale - fx_scale first);
          secondMantissa = fx_mantissa second * powerOfTen (scale - fx_scale second)
      in canonicalFixed
           \<lparr>fx_mantissa = (if firstMantissa \<ge> secondMantissa then firstMantissa - secondMantissa
                           else secondMantissa - firstMantissa),
            fx_scale = scale\<rparr>)"

definition absoluteUsdAmountExceedsBps :: "FixedDecimal \<Rightarrow> nat \<Rightarrow> bool" where
  "absoluteUsdAmountExceedsBps amount thresholdBps =
     (let canonical = canonicalFixed amount
      in fx_mantissa canonical * 10000 > thresholdBps * powerOfTen (fx_scale canonical))"

definition absoluteUsdAmountAtOrAboveBps :: "FixedDecimal \<Rightarrow> nat \<Rightarrow> bool" where
  "absoluteUsdAmountAtOrAboveBps amount thresholdBps =
     (let canonical = canonicalFixed amount
      in fx_mantissa canonical * 10000 \<ge> thresholdBps * powerOfTen (fx_scale canonical))"

definition val_divideRoundHalfEven :: "nat \<Rightarrow> nat \<Rightarrow> nat" where
  "val_divideRoundHalfEven numerator denominator =
     (let quotient = numerator div denominator;
          doubledRemainder = numerator mod denominator * 2
      in if doubledRemainder < denominator then quotient
         else if doubledRemainder > denominator then quotient + 1
         else if quotient mod 2 = 0 then quotient else quotient + 1)"

definition calculateUsdValue :: "nat \<Rightarrow> int \<Rightarrow> FixedDecimal \<Rightarrow> nat option" where
  "calculateUsdValue amountAtomic assetDecimals rate =
     (let product = amountAtomic * fx_mantissa rate
      in if length (nat_text product) > maxProductDigits then None
         else let value' = val_divideRoundHalfEven (product * powerOfTen usdValueScale)
                             (powerOfTen (nat assetDecimals + fx_scale rate))
              in if length (nat_text value') \<le> maxUsdValueDigits then Some value' else None)"

subsection \<open>Values\<close>

definition val_dataRecord :: "jsval \<Rightarrow> string list \<Rightarrow> js_record valued" where
  "val_dataRecord v expectedKeys = of_option InvalidValuationInput (exact_data_record expectedKeys v)"

definition val_dataArray :: "jsval \<Rightarrow> nat \<Rightarrow> nat \<Rightarrow> jsval list valued" where
  "val_dataArray v minimum maximum = of_option InvalidValuationInput (exact_data_array minimum maximum v)"

text \<open>A string, or an integer number, that passes a test.\<close>

definition text_where :: "(string \<Rightarrow> bool) \<Rightarrow> jsval \<Rightarrow> string valued" where
  "text_where P v = (case v of JString s \<Rightarrow> if P s then Inr s else Inl InvalidValuationInput | _ \<Rightarrow> Inl InvalidValuationInput)"

definition integer_where :: "(int \<Rightarrow> bool) \<Rightarrow> jsval \<Rightarrow> int valued" where
  "integer_where P v =
     (case v of JNumber (NumInt n) \<Rightarrow> if P n then Inr n else Inl InvalidValuationInput | _ \<Rightarrow> Inl InvalidValuationInput)"

definition parseSourceId :: "jsval \<Rightarrow> StablecoinValuationSourceId valued" where
  "parseSourceId v = of_option InvalidValuationInput (parse_enum source_text STABLECOIN_VALUATION_SOURCES v)"

definition parseAmount :: "jsval \<Rightarrow> string valued" where
  "parseAmount = text_where (\<lambda>s. positive_nat s \<and> \<not> length s > maxAmountDigits \<and> within_text_limit UINT256_TEXT s)"

definition parseScale :: "jsval \<Rightarrow> nat valued" where
  "parseScale v =
     res_bind (integer_where (\<lambda>n. safe_integer n \<and> \<not> n < 0 \<and> \<not> n > maxRateScale) v) (\<lambda>n. Inr (nat n))"

definition val_parseTimestamp :: "jsval \<Rightarrow> (string \<times> int) valued" where
  "val_parseTimestamp v =
     res_bind (text_where utc_pattern v) (\<lambda>s.
       case read_timestamp s of
         None \<Rightarrow> Inl InvalidValuationInput
       | Some t \<Rightarrow> if \<not> safe_integer t \<or> t < 0 then Inl InvalidValuationInput else Inr (s, t))"

definition parseRecoveryEventId :: "jsval \<Rightarrow> string valued" where
  "parseRecoveryEventId = text_where sha256_hex"

definition validSourceUpdateId :: "StablecoinValuationSourceId \<Rightarrow> string \<Rightarrow> string \<Rightarrow> bool" where
  "validSourceUpdateId sourceId updateId sequence =
     (if sourceId = PYTH_CORE then sha256_hex updateId else updateId = sequence)"

text \<open>\<^verbatim>\<open>/^[\x21-\x7e]{1,192}$/\<close>\<close>

definition SOURCE_REFERENCE_PATTERN :: "string \<Rightarrow> bool" where
  "SOURCE_REFERENCE_PATTERN s =
     (1 \<le> length s \<and> length s \<le> 192 \<and> list_all (\<lambda>c. let n = (of_char c :: nat) in 33 \<le> n \<and> n \<le> 126) s)"

definition val_sameAsset :: "StablecoinValuationAssetReference \<Rightarrow> StablecoinValuationAssetReference \<Rightarrow> bool" where
  "val_sameAsset first second =
     (va_registryEnvironment first = va_registryEnvironment second \<and> va_registryVersion first = va_registryVersion second \<and>
      va_registryFingerprintSha256 first = va_registryFingerprintSha256 second \<and>
      va_stablecoin first = va_stablecoin second \<and> va_networkId first = va_networkId second \<and>
      va_identity first = va_identity second \<and> va_decimals first = va_decimals second)"

subsection \<open>Parsers\<close>

definition ASSET_KEYS :: "string list" where
  "ASSET_KEYS =
     [''registryEnvironment'', ''registryVersion'', ''registryFingerprintSha256'', ''stablecoin'', ''networkId'',
      ''identity'', ''decimals'']"

definition parseAsset :: "VersionedSupportedAssetRegistry \<Rightarrow> jsval \<Rightarrow> StablecoinValuationAssetReference valued" where
  "parseAsset registry v =
     res_bind (val_dataRecord v ASSET_KEYS) (\<lambda>r.
     res_bind (require InvalidValuationInput (js_get r ''registryEnvironment'' = JString ''MAINNET'')) (\<lambda>_.
     res_bind (integer_where (\<lambda>n. n = 1) (js_get r ''registryVersion'')) (\<lambda>registryVersion.
     res_bind (text_where sha256_hex (js_get r ''registryFingerprintSha256'')) (\<lambda>fingerprint.
     res_bind (of_option InvalidValuationInput
       (parse_enum stablecoin_text SUPPORTED_STABLECOINS (js_get r ''stablecoin''))) (\<lambda>stablecoin.
     res_bind (text_where (\<lambda>_. True) (js_get r ''networkId'')) (\<lambda>networkId.
     res_bind (text_where (\<lambda>_. True) (js_get r ''identity'')) (\<lambda>identity'.
     res_bind (integer_where (\<lambda>n. safe_integer n \<and> \<not> n < 0 \<and> \<not> n > maxAssetDecimals) (js_get r ''decimals'')) (\<lambda>decimals.
     res_bind (of_option InvalidValuationInput (atVersion registry registryVersion)) (\<lambda>snapshot.
     res_bind (of_option InvalidValuationInput (identifyAsset snapshot networkId identity')) (\<lambda>asset.
     res_bind (of_option InvalidValuationInput (byNetworkId (sn_networks snapshot) networkId)) (\<lambda>network.
     res_bind (require InvalidValuationInput
       (\<not> (sn_fingerprintSha256 snapshot \<noteq> fingerprint \<or> asset_stablecoin asset \<noteq> stablecoin \<or>
            asset_identity asset \<noteq> identity' \<or> asset_decimals asset \<noteq> decimals \<or>
            asset_activationState asset \<noteq> ACTIVE \<or> net_activationState network \<noteq> ACTIVE))) (\<lambda>_.
     Inr \<lparr>va_registryEnvironment = MAINNET, va_registryVersion = registryVersion,
          va_registryFingerprintSha256 = fingerprint, va_stablecoin = stablecoin, va_networkId = networkId,
          va_identity = identity', va_decimals = decimals\<rparr>))))))))))))"

definition parseConfidence :: "jsval \<Rightarrow> StablecoinValuationSourceId \<Rightarrow> StablecoinPriceConfidence valued" where
  "parseConfidence v sourceId =
     (if sourceId = PYTH_CORE then
        res_bind (val_dataRecord v [''kind'', ''mantissa'', ''scale'']) (\<lambda>r.
        res_bind (parseScale (js_get r ''scale'')) (\<lambda>scale.
        res_bind (require InvalidValuationInput (js_get r ''kind'' = JString ''PUBLISHED_ABSOLUTE_USD'')) (\<lambda>_.
        res_bind (text_where (\<lambda>s. canonical_nat s \<and> \<not> length s > maxRateDigits) (js_get r ''mantissa'')) (\<lambda>mantissa.
        res_bind (require InvalidValuationInput (scale = normalizedUsdRateScale)) (\<lambda>_.
        Inr (PUBLISHED_ABSOLUTE_USD mantissa scale))))))
      else
        res_bind (val_dataRecord v [''kind'']) (\<lambda>r.
        res_bind (require InvalidValuationInput (js_get r ''kind'' = JString ''NOT_PUBLISHED'')) (\<lambda>_.
        Inr NOT_PUBLISHED)))"

definition OBSERVATION_KEYS :: "string list" where
  "OBSERVATION_KEYS =
     [''asset'', ''sourceId'', ''sourceReference'', ''sourceSequence'', ''sourceUpdateId'', ''pricedAt'', ''observedAt'',
      ''usdRateMantissa'', ''usdRateScale'', ''confidence'']"

text \<open>The parsed observation of validated public fields.\<close>

definition parsedObservation :: "StablecoinPriceObservation \<Rightarrow> int \<Rightarrow> int \<Rightarrow> ParsedObservation" where
  "parsedObservation observation pricedAtMs observedAtMs =
     \<lparr>publicObservation = observation, ob_pricedAtMs = pricedAtMs, ob_observedAtMs = observedAtMs,
      ob_rate = \<lparr>fx_mantissa = dec_val (po_usdRateMantissa observation), fx_scale = po_usdRateScale observation\<rparr>,
      ob_confidenceAmount =
        (case po_confidence observation of
           PUBLISHED_ABSOLUTE_USD mantissa scale \<Rightarrow> Some \<lparr>fx_mantissa = dec_val mantissa, fx_scale = scale\<rparr>
         | NOT_PUBLISHED \<Rightarrow> None)\<rparr>"

definition parseObservation :: "VersionedSupportedAssetRegistry \<Rightarrow> StablecoinValuationAssetReference \<Rightarrow> jsval \<Rightarrow>
    ParsedObservation valued" where
  "parseObservation registry requestedAsset v =
     res_bind (val_dataRecord v OBSERVATION_KEYS) (\<lambda>r.
     res_bind (parseAsset registry (js_get r ''asset'')) (\<lambda>asset.
     res_bind (require InvalidValuationInput (val_sameAsset asset requestedAsset)) (\<lambda>_.
     res_bind (parseSourceId (js_get r ''sourceId'')) (\<lambda>sourceId.
     res_bind (parseScale (js_get r ''usdRateScale'')) (\<lambda>usdRateScale.
     res_bind (text_where (\<lambda>s. SOURCE_REFERENCE_PATTERN s \<and>
       s = STABLECOIN_VALUATION_FEED_REFERENCES (va_stablecoin asset) sourceId) (js_get r ''sourceReference'')) (\<lambda>sourceReference.
     res_bind (text_where (\<lambda>s. positive_nat s \<and> \<not> length s > maxAmountDigits) (js_get r ''sourceSequence'')) (\<lambda>sourceSequence.
     res_bind (text_where (\<lambda>s. validSourceUpdateId sourceId s sourceSequence) (js_get r ''sourceUpdateId'')) (\<lambda>sourceUpdateId.
     res_bind (text_where (\<lambda>s. canonical_nat s \<and> \<not> length s > maxRateDigits) (js_get r ''usdRateMantissa'')) (\<lambda>usdRateMantissa.
     res_bind (require InvalidValuationInput (usdRateScale = normalizedUsdRateScale)) (\<lambda>_.
     res_bind (val_parseTimestamp (js_get r ''pricedAt'')) (\<lambda>pricedAt.
     res_bind (val_parseTimestamp (js_get r ''observedAt'')) (\<lambda>observedAt.
     res_bind (parseConfidence (js_get r ''confidence'') sourceId) (\<lambda>confidence.
     Inr (parsedObservation
       \<lparr>po_asset = asset, po_sourceId = sourceId, po_sourceReference = sourceReference,
        po_sourceSequence = sourceSequence, po_sourceUpdateId = sourceUpdateId, po_pricedAt = fst pricedAt,
        po_observedAt = fst observedAt, po_usdRateMantissa = usdRateMantissa, po_usdRateScale = usdRateScale,
        po_confidence = confidence\<rparr> (snd pricedAt) (snd observedAt)))))))))))))))"

definition parseSourceWatermark :: "jsval \<Rightarrow> ParsedSourceWatermark valued" where
  "parseSourceWatermark v =
     res_bind (val_dataRecord v
       [''sourceId'', ''lastAcceptedSequence'', ''lastAcceptedPricedAt'', ''lastAcceptedObservedAt'', ''lastAcceptedUpdateId'']) (\<lambda>r.
     res_bind (parseSourceId (js_get r ''sourceId'')) (\<lambda>sourceId.
     if js_get r ''lastAcceptedSequence'' = JNull \<and> js_get r ''lastAcceptedPricedAt'' = JNull \<and>
        js_get r ''lastAcceptedObservedAt'' = JNull \<and> js_get r ''lastAcceptedUpdateId'' = JNull
     then Inr \<lparr>wm_sourceId = sourceId, wm_lastAcceptedSequence = None, wm_lastAcceptedPricedAt = None,
               wm_lastAcceptedObservedAt = None, wm_lastAcceptedUpdateId = None, wm_lastAcceptedPricedAtMs = None,
               wm_lastAcceptedObservedAtMs = None\<rparr>
     else
       res_bind (text_where (\<lambda>s. positive_nat s \<and> \<not> length s > maxAmountDigits) (js_get r ''lastAcceptedSequence'')) (\<lambda>sequence.
       res_bind (text_where (\<lambda>s. validSourceUpdateId sourceId s sequence) (js_get r ''lastAcceptedUpdateId'')) (\<lambda>updateId.
       res_bind (val_parseTimestamp (js_get r ''lastAcceptedPricedAt'')) (\<lambda>pricedAt.
       res_bind (val_parseTimestamp (js_get r ''lastAcceptedObservedAt'')) (\<lambda>observedAt.
       res_bind (require InvalidValuationInput (\<not> snd pricedAt > snd observedAt)) (\<lambda>_.
       Inr \<lparr>wm_sourceId = sourceId, wm_lastAcceptedSequence = Some sequence, wm_lastAcceptedPricedAt = Some (fst pricedAt),
            wm_lastAcceptedObservedAt = Some (fst observedAt), wm_lastAcceptedUpdateId = Some updateId,
            wm_lastAcceptedPricedAtMs = Some (snd pricedAt), wm_lastAcceptedObservedAtMs = Some (snd observedAt)\<rparr>)))))))"

text \<open>Each source stands exactly once.\<close>

definition each_source_once :: "('a \<Rightarrow> StablecoinValuationSourceId) \<Rightarrow> 'a list \<Rightarrow> bool" where
  "each_source_once source_of xs =
     (\<not> list_ex (\<lambda>s. length (filter (\<lambda>x. source_of x = s) xs) \<noteq> 1) STABLECOIN_VALUATION_SOURCES)"

definition parseSourceWatermarks :: "jsval \<Rightarrow> ParsedSourceWatermark list valued" where
  "parseSourceWatermarks v =
     res_bind (val_dataArray v (length STABLECOIN_VALUATION_SOURCES) (length STABLECOIN_VALUATION_SOURCES)) (\<lambda>xs.
     res_bind (res_map parseSourceWatermark xs) (\<lambda>values.
     res_bind (require InvalidValuationInput (each_source_once wm_sourceId values)) (\<lambda>_. Inr values)))"

definition VALUATION_REQUEST_KEYS :: "string list" where
  "VALUATION_REQUEST_KEYS = [''asset'', ''amountAtomic'', ''evaluatedAt'', ''sourceWatermarks'', ''observations'']"

definition parseValuationRequest :: "VersionedSupportedAssetRegistry \<Rightarrow> jsval \<Rightarrow> ParsedValuationRequest valued" where
  "parseValuationRequest registry v =
     res_bind (val_dataRecord v VALUATION_REQUEST_KEYS) (\<lambda>r.
     res_bind (parseAsset registry (js_get r ''asset'')) (\<lambda>asset.
     res_bind (parseAmount (js_get r ''amountAtomic'')) (\<lambda>amountAtomic.
     res_bind (val_parseTimestamp (js_get r ''evaluatedAt'')) (\<lambda>evaluatedAt.
     res_bind (parseSourceWatermarks (js_get r ''sourceWatermarks'')) (\<lambda>sourceWatermarks.
     res_bind (val_dataArray (js_get r ''observations'') 0 maxObservations) (\<lambda>xs.
     res_bind (res_map (parseObservation registry asset) xs) (\<lambda>observations.
     Inr \<lparr>vq_asset = asset, vq_amountAtomic = amountAtomic, vq_amount = dec_val amountAtomic,
          vq_evaluatedAt = fst evaluatedAt, vq_evaluatedAtMs = snd evaluatedAt,
          vq_sourceWatermarks = sourceWatermarks, vq_observations = observations\<rparr>)))))))"

text \<open>\<^verbatim>\<open>calculateStablecoinUsdValueMantissa\<close>; null for any refused input.\<close>

definition calculateStablecoinUsdValueMantissa :: "jsval \<Rightarrow> string option" where
  "calculateStablecoinUsdValueMantissa v =
     (case res_bind (val_dataRecord v [''amountAtomic'', ''assetDecimals'', ''usdRateMantissa'', ''usdRateScale'']) (\<lambda>r.
           res_bind (parseAmount (js_get r ''amountAtomic'')) (\<lambda>amountAtomic.
           res_bind (parseScale (js_get r ''usdRateScale'')) (\<lambda>rateScale.
           res_bind (integer_where (\<lambda>n. safe_integer n \<and> \<not> n < 0 \<and> \<not> n > maxAssetDecimals) (js_get r ''assetDecimals'')) (\<lambda>assetDecimals.
           res_bind (text_where (\<lambda>s. canonical_nat s \<and> \<not> length s > maxRateDigits) (js_get r ''usdRateMantissa'')) (\<lambda>rateMantissa.
           Inr (calculateUsdValue (dec_val amountAtomic) assetDecimals
             \<lparr>fx_mantissa = dec_val rateMantissa, fx_scale = rateScale\<rparr>)))))) of
        Inl _ \<Rightarrow> None
      | Inr result \<Rightarrow> map_option nat_text result)"

end
