(* ===== verification/Valuation_Policy.thy ===== *)
theory Valuation_Policy
  imports Valuation
begin

text \<open>
  Stablecoin valuation, \<^verbatim>\<open>apps/api/src/valuation/domain/stablecoin-valuation-policy.ts\<close>: the
  assessment of the two price sources, the valuation and the recovery from a depeg.
\<close>

subsection \<open>Results\<close>

datatype StablecoinValuationAvailability = Price_AVAILABLE | Price_UNAVAILABLE

datatype StablecoinValuationFreshness = Fresh_CURRENT | Fresh_STALE | Fresh_UNAVAILABLE

datatype StablecoinValuationConfidenceClass = Confidence_MEDIUM | Confidence_LOW | Confidence_UNAVAILABLE

datatype StablecoinValuationDepegClass = Depeg_NOT_ASSESSED | WITHIN_POLICY | OUTSIDE_POLICY

datatype StablecoinValuationSelection = Select_PRIMARY | Select_FALLBACK | CONSERVATIVE_MINIMUM | Select_NONE

datatype StablecoinValuationReason =
  Valuation_INVALID_INPUT | NO_ELIGIBLE_SOURCE | SOURCE_CONFLICT | SINGLE_SOURCE | FALLBACK_SOURCE_SELECTED
  | SOFT_SOURCE_DISAGREEMENT | PUBLISHED_CONFIDENCE_LOWER_BOUND | UPSIDE_CAPPED_AT_PEG | WATCH_DOWNSIDE
  | DEPEG_DETECTED | Valuation_NUMERIC_LIMIT_EXCEEDED

datatype ReportingUse = CONSERVATIVE_REPORTING_ONLY | BLOCKED

record StablecoinSourceAssessment =
  sa_sourceId :: StablecoinValuationSourceId
  sa_role :: SourceRole
  sa_eligibility :: StablecoinSourceEligibility
  sa_observation :: "StablecoinPriceObservation option"
  sa_conservativeUsdRateMantissa :: "string option"
  sa_conservativeUsdRateScale :: "nat option"

record StablecoinValuationResult =
  sv_policyVersion :: int
  sv_policyApprovalState :: string
  sv_availability :: StablecoinValuationAvailability
  sv_asset :: "StablecoinValuationAssetReference option"
  sv_amountAtomic :: "string option"
  sv_evaluatedAt :: "string option"
  sv_selection :: StablecoinValuationSelection
  sv_selectedSourceId :: "StablecoinValuationSourceId option"
  sv_selectedSourceReference :: "string option"
  sv_selectedSourceSequence :: "string option"
  sv_pricedAt :: "string option"
  sv_observedAt :: "string option"
  sv_usdRateMantissa :: "string option"
  sv_usdRateScale :: "nat option"
  sv_usdValueMantissa :: "string option"
  sv_usdValueScale :: nat
  sv_roundingMode :: string
  sv_freshnessClass :: StablecoinValuationFreshness
  sv_confidenceClass :: StablecoinValuationConfidenceClass
  sv_depegClass :: StablecoinValuationDepegClass
  sv_downsideBand :: StablecoinDownsideBand
  sv_sourceAgreement :: StablecoinSourceAgreement
  sv_reasons :: "StablecoinValuationReason list"
  sv_sourceAssessments :: "StablecoinSourceAssessment list"
  sv_reportingUse :: ReportingUse
  sv_mayIncreaseBuyingPower :: bool
  sv_mayAuthorizeFinancialUse :: bool

text \<open>A current source: its assessment, observation and conservative rate.\<close>

record SourceCandidate =
  sc_assessment :: StablecoinSourceAssessment
  sc_observation :: ParsedObservation
  sc_conservativeRate :: FixedDecimal
  sc_freshness :: StablecoinValuationFreshness
  sc_confidenceLowerBoundApplied :: bool

text \<open>\<^verbatim>\<open>InternalAssessment\<close>: the public assessment and the candidate, if any.\<close>

type_synonym ValuationAssessment = "StablecoinSourceAssessment \<times> SourceCandidate option"

definition REASON_ORDER :: "StablecoinValuationReason list" where
  "REASON_ORDER =
     [Valuation_INVALID_INPUT, NO_ELIGIBLE_SOURCE, SOURCE_CONFLICT, Valuation_NUMERIC_LIMIT_EXCEEDED, SINGLE_SOURCE,
      FALLBACK_SOURCE_SELECTED, SOFT_SOURCE_DISAGREEMENT, PUBLISHED_CONFIDENCE_LOWER_BOUND, UPSIDE_CAPPED_AT_PEG,
      WATCH_DOWNSIDE, DEPEG_DETECTED]"

definition orderedReasons :: "StablecoinValuationReason list \<Rightarrow> StablecoinValuationReason list" where
  "orderedReasons reasons = filter (\<lambda>r. r \<in> set reasons) REASON_ORDER"

definition unavailableResult :: "StablecoinValuationAssetReference option \<Rightarrow> string option \<Rightarrow> string option \<Rightarrow>
    StablecoinSourceAgreement \<Rightarrow> StablecoinValuationReason list \<Rightarrow> StablecoinSourceAssessment list \<Rightarrow>
    StablecoinValuationDepegClass \<Rightarrow> StablecoinDownsideBand \<Rightarrow> StablecoinValuationResult" where
  "unavailableResult asset amountAtomic evaluatedAt agreement reasons assessments depegClass band =
     \<lparr>sv_policyVersion = 1, sv_policyApprovalState = ''PENDING_EXTERNAL_APPROVAL'', sv_availability = Price_UNAVAILABLE,
      sv_asset = asset, sv_amountAtomic = amountAtomic, sv_evaluatedAt = evaluatedAt, sv_selection = Select_NONE,
      sv_selectedSourceId = None, sv_selectedSourceReference = None, sv_selectedSourceSequence = None,
      sv_pricedAt = None, sv_observedAt = None, sv_usdRateMantissa = None, sv_usdRateScale = None,
      sv_usdValueMantissa = None, sv_usdValueScale = 18, sv_roundingMode = ''ROUND_HALF_EVEN'',
      sv_freshnessClass = Fresh_UNAVAILABLE, sv_confidenceClass = Confidence_UNAVAILABLE, sv_depegClass = depegClass,
      sv_downsideBand = band, sv_sourceAgreement = agreement, sv_reasons = orderedReasons reasons,
      sv_sourceAssessments = assessments, sv_reportingUse = BLOCKED, sv_mayIncreaseBuyingPower = False,
      sv_mayAuthorizeFinancialUse = False\<rparr>"

subsection \<open>Classification of rates\<close>

definition classifySourceAgreement :: "FixedDecimal \<Rightarrow> FixedDecimal \<Rightarrow> StablecoinSourceAgreement" where
  "classifySourceAgreement first second =
     (let difference = absoluteDifference first second
      in if \<not> absoluteUsdAmountExceedsBps difference corroboratedAtOrBelowBps then CORROBORATED
         else if \<not> absoluteUsdAmountExceedsBps difference softDisagreementAtOrBelowBps then SOFT_DISAGREEMENT
         else CONFLICT)"

definition classifyDownside :: "FixedDecimal \<Rightarrow> StablecoinDownsideBand" where
  "classifyDownside rate =
     (let peg = \<lparr>fx_mantissa = 1, fx_scale = 0\<rparr>
      in if compareFixed rate peg \<ge> 0 then NORMAL
         else let downside = subtractFixedFloorZero peg rate
              in if \<not> absoluteUsdAmountExceedsBps downside normalAtOrBelowBps then NORMAL
                 else if absoluteUsdAmountAtOrAboveBps downside depeggedAtOrAboveBps then DEPEGGED
                 else WATCH)"

definition mostSevereDownsideBand :: "StablecoinDownsideBand list \<Rightarrow> StablecoinDownsideBand" where
  "mostSevereDownsideBand bands =
     (if DEPEGGED \<in> set bands then DEPEGGED else if WATCH \<in> set bands then WATCH else NORMAL)"

definition pythConfidenceAllowsMedium :: "SourceCandidate list \<Rightarrow> bool" where
  "pythConfidenceAllowsMedium candidates =
     (case find (\<lambda>c. ob_sourceId (sc_observation c) = PYTH_CORE) candidates of
        None \<Rightarrow> False
      | Some pyth \<Rightarrow>
          (case ob_confidenceAmount (sc_observation pyth) of
             None \<Rightarrow> False
           | Some confidence \<Rightarrow> \<not> absoluteUsdAmountExceedsBps confidence mediumPublishedWidthAtOrBelowBps))"

subsection \<open>Assessment of a source\<close>

fun monotonic_from :: "string list \<Rightarrow> ParsedObservation option \<Rightarrow> ParsedObservation list \<Rightarrow> bool" where
  "monotonic_from updateIds previous [] = True"
| "monotonic_from updateIds previous (x # xs) =
     (if ob_updateId x \<in> set updateIds then False
      else if (case previous of
                 None \<Rightarrow> False
               | Some p \<Rightarrow> ob_sequence x \<le> ob_sequence p \<or> ob_pricedAtMs x < ob_pricedAtMs p \<or>
                            ob_observedAtMs x < ob_observedAtMs p) then False
      else monotonic_from (ob_updateId x # updateIds) (Some x) xs)"

definition hasMonotonicSequenceAndTime :: "ParsedObservation list \<Rightarrow> bool" where
  "hasMonotonicSequenceAndTime = monotonic_from [] None"

definition publicAssessment :: "StablecoinValuationSourceId \<Rightarrow> SourceRole \<Rightarrow> StablecoinSourceEligibility \<Rightarrow>
    ParsedObservation option \<Rightarrow> FixedDecimal option \<Rightarrow> StablecoinSourceAssessment" where
  "publicAssessment sourceId role eligibility observation rate =
     \<lparr>sa_sourceId = sourceId, sa_role = role, sa_eligibility = eligibility,
      sa_observation = map_option publicObservation observation,
      sa_conservativeUsdRateMantissa = map_option (\<lambda>r. nat_text (fx_mantissa r)) rate,
      sa_conservativeUsdRateScale = map_option fx_scale rate\<rparr>"

definition internalAssessment :: "StablecoinValuationSourceId \<Rightarrow> SourceRole \<Rightarrow> StablecoinSourceEligibility \<Rightarrow>
    ParsedObservation option \<Rightarrow> FixedDecimal option \<Rightarrow> ValuationAssessment" where
  "internalAssessment sourceId role eligibility observation rate =
     (publicAssessment sourceId role eligibility observation rate, None)"

text \<open>The watermark test: there is a watermark and the observation is newer than it.\<close>

definition watermark_refuses :: "ParsedSourceWatermark option \<Rightarrow> ParsedObservation \<Rightarrow> bool" where
  "watermark_refuses watermark observation =
     (case watermark of
        None \<Rightarrow> True
      | Some w \<Rightarrow>
          (case wm_lastAcceptedSequence w of
             None \<Rightarrow> False
           | Some sequence \<Rightarrow>
               ob_sequence observation \<le> dec_val sequence \<or>
               (case (wm_lastAcceptedPricedAtMs w, wm_lastAcceptedObservedAtMs w) of
                  (Some pricedAtMs, Some observedAtMs) \<Rightarrow>
                    ob_pricedAtMs observation < pricedAtMs \<or> ob_observedAtMs observation < observedAtMs
                | _ \<Rightarrow> True) \<or>
               Some (ob_updateId observation) = wm_lastAcceptedUpdateId w))"

text \<open>
  The conservative rate: for the primary source the rate less its published confidence, which must
  be narrow; the flag says whether the confidence lowered it.
\<close>

definition conservative_rate :: "StablecoinValuationSourceId \<Rightarrow> ParsedObservation \<Rightarrow> (FixedDecimal \<times> bool) option" where
  "conservative_rate sourceId observation =
     (if sourceId = PYTH_CORE then
        (case ob_confidenceAmount observation of
           None \<Rightarrow> None
         | Some confidence \<Rightarrow>
             if absoluteUsdAmountExceedsBps confidence publishedWidthEligibleAtOrBelowBps then None
             else Some (subtractFixedFloorZero (ob_rate observation) confidence, 0 < fx_mantissa confidence))
      else Some (ob_rate observation, False))"

definition assessSource :: "ParsedValuationRequest \<Rightarrow> StablecoinValuationSourceId \<Rightarrow> SourceRole \<Rightarrow> ValuationAssessment" where
  "assessSource request sourceId role =
     (let observations = js_sort (\<lambda>left right. compareBigInt (ob_sequence left) (ob_sequence right))
            (filter (\<lambda>x. ob_sourceId x = sourceId) (vq_observations request))
      in if observations = [] then internalAssessment sourceId role MISSING None None
         else if \<not> hasMonotonicSequenceAndTime observations
         then internalAssessment sourceId role NON_MONOTONIC_SEQUENCE (Some (last observations)) None
         else
           let observation = last observations;
               watermark = find (\<lambda>w. wm_sourceId w = sourceId) (vq_sourceWatermarks request);
               ageMs = vq_evaluatedAtMs request - ob_pricedAtMs observation
           in if watermark_refuses watermark observation
              then internalAssessment sourceId role REPLAYED_OR_REGRESSED (Some observation) None
              else if ob_pricedAtMs observation > vq_evaluatedAtMs request \<or>
                      ob_observedAtMs observation > vq_evaluatedAtMs request \<or>
                      ob_pricedAtMs observation > ob_observedAtMs observation
              then internalAssessment sourceId role FUTURE_TIMESTAMP (Some observation) None
              else if ageMs > unavailableAfterMs
              then internalAssessment sourceId role EXPIRED (Some observation) None
              else
                (case conservative_rate sourceId observation of
                   None \<Rightarrow> internalAssessment sourceId role WIDE_CONFIDENCE (Some observation) None
                 | Some (conservativeRate, lowerBoundApplied) \<Rightarrow>
                     if length (nat_text (fx_mantissa conservativeRate)) > 78
                     then internalAssessment sourceId role WIDE_CONFIDENCE (Some observation) None
                     else if ageMs > currentWithinMs
                     then internalAssessment sourceId role STALE (Some observation) (Some conservativeRate)
                     else
                       let assessment = publicAssessment sourceId role ELIGIBLE_CURRENT (Some observation) (Some conservativeRate)
                       in (assessment,
                           Some \<lparr>sc_assessment = assessment, sc_observation = observation,
                                 sc_conservativeRate = conservativeRate, sc_freshness = Fresh_CURRENT,
                                 sc_confidenceLowerBoundApplied = lowerBoundApplied\<rparr>)))"

subsection \<open>Valuation\<close>

text \<open>The candidate with the lowest conservative rate; the first of equals.\<close>

definition lowest_candidate :: "SourceCandidate list \<Rightarrow> SourceCandidate" where
  "lowest_candidate candidates =
     foldl (\<lambda>lowest candidate.
        if compareFixed (sc_conservativeRate candidate) (sc_conservativeRate lowest) < 0 then candidate else lowest)
       (hd candidates) (tl candidates)"

definition PEG :: FixedDecimal where
  "PEG = \<lparr>fx_mantissa = 100000000, fx_scale = 8\<rparr>"

definition availableResult :: "ParsedValuationRequest \<Rightarrow> SourceCandidate list \<Rightarrow> StablecoinSourceAssessment list \<Rightarrow>
    StablecoinSourceAgreement \<Rightarrow> StablecoinValuationConfidenceClass \<Rightarrow> StablecoinValuationResult" where
  "availableResult request candidates assessments agreement confidenceClass =
     (let selected = lowest_candidate candidates;
          uncappedRate = sc_conservativeRate selected;
          effectiveRate = minimumFixed uncappedRate PEG;
          upsideCapped = compareFixed uncappedRate effectiveRate > 0
      in case calculateUsdValue (vq_amount request) (va_decimals (vq_asset request)) effectiveRate of
           None \<Rightarrow>
             unavailableResult (Some (vq_asset request)) (Some (vq_amountAtomic request)) (Some (vq_evaluatedAt request))
               agreement [Valuation_NUMERIC_LIMIT_EXCEEDED] assessments Depeg_NOT_ASSESSED BAND_NOT_ASSESSED
         | Some usdValue \<Rightarrow>
             let band = classifyDownside effectiveRate;
                 observation = publicObservation (sc_observation selected);
                 selection = (if length candidates > 1 then CONSERVATIVE_MINIMUM
                              else if po_sourceId observation = PYTH_CORE then Select_PRIMARY else Select_FALLBACK);
                 freshnessClass = (if list_all (\<lambda>c. sc_freshness c = Fresh_CURRENT) candidates then Fresh_CURRENT else Fresh_STALE);
                 reasons = orderedReasons
                   ((if length candidates = 1 then [SINGLE_SOURCE] else []) @
                    (if po_sourceId observation = CHAINLINK_DATA_FEEDS then [FALLBACK_SOURCE_SELECTED] else []) @
                    (if agreement = SOFT_DISAGREEMENT then [SOFT_SOURCE_DISAGREEMENT] else []) @
                    (if sc_confidenceLowerBoundApplied selected then [PUBLISHED_CONFIDENCE_LOWER_BOUND] else []) @
                    (if upsideCapped then [UPSIDE_CAPPED_AT_PEG] else []) @
                    (if band = WATCH then [WATCH_DOWNSIDE] else []) @
                    (if band = DEPEGGED then [DEPEG_DETECTED] else []))
             in \<lparr>sv_policyVersion = 1, sv_policyApprovalState = ''PENDING_EXTERNAL_APPROVAL'', sv_availability = Price_AVAILABLE,
                 sv_asset = Some (vq_asset request), sv_amountAtomic = Some (vq_amountAtomic request),
                 sv_evaluatedAt = Some (vq_evaluatedAt request), sv_selection = selection,
                 sv_selectedSourceId = Some (po_sourceId observation),
                 sv_selectedSourceReference = Some (po_sourceReference observation),
                 sv_selectedSourceSequence = Some (po_sourceSequence observation),
                 sv_pricedAt = Some (po_pricedAt observation), sv_observedAt = Some (po_observedAt observation),
                 sv_usdRateMantissa = Some (nat_text (fx_mantissa effectiveRate)), sv_usdRateScale = Some (fx_scale effectiveRate),
                 sv_usdValueMantissa = Some (nat_text usdValue), sv_usdValueScale = 18, sv_roundingMode = ''ROUND_HALF_EVEN'',
                 sv_freshnessClass = freshnessClass,
                 sv_confidenceClass = (if freshnessClass = Fresh_STALE then Confidence_LOW else confidenceClass),
                 sv_depegClass = (if band = DEPEGGED then OUTSIDE_POLICY else WITHIN_POLICY),
                 sv_downsideBand = band, sv_sourceAgreement = agreement, sv_reasons = reasons,
                 sv_sourceAssessments = assessments, sv_reportingUse = CONSERVATIVE_REPORTING_ONLY,
                 sv_mayIncreaseBuyingPower = False, sv_mayAuthorizeFinancialUse = False\<rparr>)"

text \<open>The valuation of a parsed request: \<^verbatim>\<open>evaluateStablecoinValuation\<close> after its parser.\<close>

definition valueRequest :: "ParsedValuationRequest \<Rightarrow> StablecoinValuationResult" where
  "valueRequest request =
     (let internalAssessments = map (\<lambda>(sourceId, role). assessSource request sourceId role) sourceOrder;
          assessments = map fst internalAssessments;
          candidates = concat (map (\<lambda>(_, candidate). case candidate of None \<Rightarrow> [] | Some c \<Rightarrow> [c]) internalAssessments);
          selectionPool = filter (\<lambda>c. sc_freshness c = Fresh_CURRENT) candidates;
          unavailable = unavailableResult (Some (vq_asset request)) (Some (vq_amountAtomic request)) (Some (vq_evaluatedAt request))
      in case selectionPool of
           [] \<Rightarrow> unavailable NOT_AVAILABLE [NO_ELIGIBLE_SOURCE] assessments Depeg_NOT_ASSESSED BAND_NOT_ASSESSED
         | [first, second] \<Rightarrow>
             let disagreement = classifySourceAgreement (ob_rate (sc_observation first)) (ob_rate (sc_observation second))
             in if disagreement = CONFLICT then
                  let band = mostSevereDownsideBand
                        [classifyDownside (sc_conservativeRate first), classifyDownside (sc_conservativeRate second)]
                  in unavailable CONFLICT
                       (if band = DEPEGGED then [SOURCE_CONFLICT, DEPEG_DETECTED] else [SOURCE_CONFLICT]) assessments
                       (if band = DEPEGGED then OUTSIDE_POLICY else Depeg_NOT_ASSESSED)
                       (if band = DEPEGGED then DEPEGGED else BAND_NOT_ASSESSED)
                else availableResult request selectionPool assessments disagreement
                       (if disagreement = CORROBORATED \<and> pythConfidenceAllowsMedium selectionPool
                        then Confidence_MEDIUM else Confidence_LOW)
         | _ \<Rightarrow> availableResult request selectionPool assessments AGREEMENT_SINGLE_SOURCE Confidence_LOW)"

definition evaluateStablecoinValuation :: "VersionedSupportedAssetRegistry \<Rightarrow> jsval \<Rightarrow> StablecoinValuationResult" where
  "evaluateStablecoinValuation registry input =
     (case parseValuationRequest registry input of
        Inl _ \<Rightarrow>
          unavailableResult None None None NOT_AVAILABLE [Valuation_INVALID_INPUT] [] Depeg_NOT_ASSESSED BAND_NOT_ASSESSED
      | Inr request \<Rightarrow> valueRequest request)"

end
