(* ===== verification/Valuation_Recovery.thy ===== *)
theory Valuation_Recovery
  imports Valuation_Policy
begin

text \<open>
  Recovery from a stablecoin depeg, \<^verbatim>\<open>evaluateStablecoinRecovery\<close> of
  \<^verbatim>\<open>apps/api/src/valuation/domain/stablecoin-valuation-policy.ts\<close>. A recovery sample is valued by
  building a valuation request from its parsed observations and parsing that again; \<open>observation_value\<close>
  and \<open>asset_value\<close> are the objects the code builds.
\<close>

subsection \<open>Data\<close>

record StablecoinDepegLatchReference =
  dl_asset :: StablecoinValuationAssetReference
  dl_latchId :: string
  dl_latchedAt :: string

record StablecoinManualRiskClearReference =
  mc_asset :: StablecoinValuationAssetReference
  mc_clearId :: string
  mc_latchId :: string
  mc_clearedAt :: string

text \<open>The parsed references carry their time in milliseconds.\<close>

type_synonym ParsedDepegLatchReference = "StablecoinDepegLatchReference \<times> int"

type_synonym ParsedManualRiskClearReference = "StablecoinManualRiskClearReference \<times> int"

record ParsedRecoverySample =
  rs_evaluatedAt :: string
  rs_evaluatedAtMs :: int
  rs_observations :: "ParsedObservation list"
  rs_valuation :: StablecoinValuationResult

record ParsedRecoveryRequest =
  rr_asset :: StablecoinValuationAssetReference
  rr_evaluatedAt :: string
  rr_evaluatedAtMs :: int
  rr_depegLatch :: "ParsedDepegLatchReference option"
  rr_manualRiskClear :: "ParsedManualRiskClearReference option"
  rr_samples :: "ParsedRecoverySample list"

datatype StablecoinRecoveryStatus =
  Recovery_INVALID_INPUT | NOT_APPLICABLE | RECOVERY_PENDING | MANUAL_RISK_CLEAR_REQUIRED | RECOVERY_CANDIDATE_CLEARED

datatype StablecoinRecoveryReason =
  Reason_INVALID_RECOVERY_INPUT | NO_PRIOR_DEPEG_LATCH | INSUFFICIENT_DISTINCT_OBSERVATIONS | NON_MONOTONIC_EVIDENCE
  | INSUFFICIENT_OBSERVATION_SPAN | DEPEG_LATCH_AFTER_RECOVERY_EVALUATION | EVIDENCE_PRECEDES_DEPEG_LATCH
  | EVIDENCE_AFTER_RECOVERY_EVALUATION | OBSERVATION_NOT_CURRENT | OBSERVATION_NOT_CORROBORATED
  | OBSERVATION_OUTSIDE_REPEG_BAND | Reason_MANUAL_RISK_CLEAR_REQUIRED | MANUAL_RISK_CLEAR_LATCH_MISMATCH
  | MANUAL_RISK_CLEAR_PRECEDES_FINAL_SAMPLE | MANUAL_RISK_CLEAR_AFTER_RECOVERY_EVALUATION | LOCAL_CANDIDATE_CLEAR_ONLY

record StablecoinRecoveryResult =
  rv_policyVersion :: int
  rv_policyApprovalState :: string
  rv_status :: StablecoinRecoveryStatus
  rv_asset :: "StablecoinValuationAssetReference option"
  rv_evaluatedAt :: "string option"
  rv_depegLatch :: "StablecoinDepegLatchReference option"
  rv_acceptedManualRiskClear :: "StablecoinManualRiskClearReference option"
  rv_evidenceCount :: nat
  rv_evidenceSpanMs :: "int option"
  rv_reasons :: "StablecoinRecoveryReason list"
  rv_manualRiskClearAccepted :: bool
  rv_mayIncreaseBuyingPower :: bool
  rv_mayAuthorizeFinancialUse :: bool

subsection \<open>The objects of a sample's valuation request\<close>

definition asset_value :: "StablecoinValuationAssetReference \<Rightarrow> jsval" where
  "asset_value a = mk_object (zip ASSET_KEYS
     [JString (environment_text (va_registryEnvironment a)), js_int (va_registryVersion a),
      JString (va_registryFingerprintSha256 a), JString (stablecoin_text (va_stablecoin a)), JString (va_networkId a),
      JString (va_identity a), js_int (va_decimals a)])"

fun confidence_value :: "StablecoinPriceConfidence \<Rightarrow> jsval" where
  "confidence_value (PUBLISHED_ABSOLUTE_USD mantissa scale) =
     mk_object [(''kind'', JString ''PUBLISHED_ABSOLUTE_USD''), (''mantissa'', JString mantissa), (''scale'', js_int (int scale))]"
| "confidence_value NOT_PUBLISHED = mk_object [(''kind'', JString ''NOT_PUBLISHED'')]"

definition observation_value :: "StablecoinPriceObservation \<Rightarrow> jsval" where
  "observation_value x = mk_object (zip OBSERVATION_KEYS
     [asset_value (po_asset x), JString (source_text (po_sourceId x)), JString (po_sourceReference x),
      JString (po_sourceSequence x), JString (po_sourceUpdateId x), JString (po_pricedAt x), JString (po_observedAt x),
      JString (po_usdRateMantissa x), js_int (int (po_usdRateScale x)), confidence_value (po_confidence x)])"

definition STABLECOIN_VALUATION_FIRST_USE_WATERMARKS :: jsval where
  "STABLECOIN_VALUATION_FIRST_USE_WATERMARKS = mk_array (map (\<lambda>s. mk_object
     [(''sourceId'', JString (source_text s)), (''lastAcceptedSequence'', JNull), (''lastAcceptedPricedAt'', JNull),
      (''lastAcceptedObservedAt'', JNull), (''lastAcceptedUpdateId'', JNull)]) STABLECOIN_VALUATION_SOURCES)"

definition sample_request_value :: "StablecoinValuationAssetReference \<Rightarrow> string \<Rightarrow> StablecoinPriceObservation list \<Rightarrow> jsval" where
  "sample_request_value asset evaluatedAt observations = mk_object (zip VALUATION_REQUEST_KEYS
     [asset_value asset, JString ''1'', JString evaluatedAt, STABLECOIN_VALUATION_FIRST_USE_WATERMARKS,
      mk_array (map observation_value observations)])"

subsection \<open>Parsers\<close>

definition parseDepegLatchReference :: "VersionedSupportedAssetRegistry \<Rightarrow> StablecoinValuationAssetReference \<Rightarrow> jsval \<Rightarrow>
    ParsedDepegLatchReference valued" where
  "parseDepegLatchReference registry requestedAsset v =
     res_bind (val_dataRecord v [''asset'', ''latchId'', ''latchedAt'']) (\<lambda>r.
     res_bind (parseAsset registry (js_get r ''asset'')) (\<lambda>asset.
     res_bind (require InvalidValuationInput (val_sameAsset asset requestedAsset)) (\<lambda>_.
     res_bind (parseRecoveryEventId (js_get r ''latchId'')) (\<lambda>latchId.
     res_bind (val_parseTimestamp (js_get r ''latchedAt'')) (\<lambda>latchedAt.
     Inr (\<lparr>dl_asset = asset, dl_latchId = latchId, dl_latchedAt = fst latchedAt\<rparr>, snd latchedAt))))))"

definition parseManualRiskClearReference :: "VersionedSupportedAssetRegistry \<Rightarrow> StablecoinValuationAssetReference \<Rightarrow> jsval \<Rightarrow>
    ParsedManualRiskClearReference valued" where
  "parseManualRiskClearReference registry requestedAsset v =
     res_bind (val_dataRecord v [''asset'', ''clearId'', ''latchId'', ''clearedAt'']) (\<lambda>r.
     res_bind (parseAsset registry (js_get r ''asset'')) (\<lambda>asset.
     res_bind (require InvalidValuationInput (val_sameAsset asset requestedAsset)) (\<lambda>_.
     res_bind (parseRecoveryEventId (js_get r ''clearId'')) (\<lambda>clearId.
     res_bind (parseRecoveryEventId (js_get r ''latchId'')) (\<lambda>latchId.
     res_bind (val_parseTimestamp (js_get r ''clearedAt'')) (\<lambda>clearedAt.
     Inr (\<lparr>mc_asset = asset, mc_clearId = clearId, mc_latchId = latchId, mc_clearedAt = fst clearedAt\<rparr>, snd clearedAt)))))))"

definition parseRecoverySample :: "VersionedSupportedAssetRegistry \<Rightarrow> StablecoinValuationAssetReference \<Rightarrow> jsval \<Rightarrow>
    ParsedRecoverySample valued" where
  "parseRecoverySample registry asset v =
     res_bind (val_dataRecord v [''evaluatedAt'', ''observations'']) (\<lambda>r.
     res_bind (val_parseTimestamp (js_get r ''evaluatedAt'')) (\<lambda>evaluatedAt.
     res_bind (val_dataArray (js_get r ''observations'') 2 2) (\<lambda>xs.
     res_bind (res_map (parseObservation registry asset) xs) (\<lambda>observations.
     res_bind (require InvalidValuationInput (each_source_once ob_sourceId observations)) (\<lambda>_.
     Inr \<lparr>rs_evaluatedAt = fst evaluatedAt, rs_evaluatedAtMs = snd evaluatedAt, rs_observations = observations,
          rs_valuation = evaluateStablecoinValuation registry
            (sample_request_value asset (fst evaluatedAt) (map publicObservation observations))\<rparr>)))))"

text \<open>Null, or a parsed reference.\<close>

definition nullable :: "(jsval \<Rightarrow> 'a valued) \<Rightarrow> jsval \<Rightarrow> 'a option valued" where
  "nullable parse v = (if v = JNull then Inr None else res_bind (parse v) (\<lambda>x. Inr (Some x)))"

definition parseRecoveryRequest :: "VersionedSupportedAssetRegistry \<Rightarrow> jsval \<Rightarrow> ParsedRecoveryRequest valued" where
  "parseRecoveryRequest registry v =
     res_bind (val_dataRecord v [''asset'', ''evaluatedAt'', ''depegLatch'', ''manualRiskClear'', ''samples'']) (\<lambda>r.
     res_bind (parseAsset registry (js_get r ''asset'')) (\<lambda>asset.
     res_bind (val_parseTimestamp (js_get r ''evaluatedAt'')) (\<lambda>evaluatedAt.
     res_bind (nullable (parseDepegLatchReference registry asset) (js_get r ''depegLatch'')) (\<lambda>depegLatch.
     res_bind (nullable (parseManualRiskClearReference registry asset) (js_get r ''manualRiskClear'')) (\<lambda>manualRiskClear.
     res_bind (require InvalidValuationInput (\<not> (depegLatch = None \<and> manualRiskClear \<noteq> None))) (\<lambda>_.
     res_bind (require InvalidValuationInput
       (case depegLatch of
          None \<Rightarrow> True
        | Some latch \<Rightarrow> map_option (\<lambda>c. mc_clearId (fst c)) manualRiskClear \<noteq> Some (dl_latchId (fst latch)))) (\<lambda>_.
     res_bind (val_dataArray (js_get r ''samples'') 0 maxObservations) (\<lambda>xs.
     res_bind (res_map (parseRecoverySample registry asset) xs) (\<lambda>samples.
     Inr \<lparr>rr_asset = asset, rr_evaluatedAt = fst evaluatedAt, rr_evaluatedAtMs = snd evaluatedAt,
          rr_depegLatch = depegLatch, rr_manualRiskClear = manualRiskClear, rr_samples = samples\<rparr>)))))))))"

subsection \<open>Evidence\<close>

definition recoverySpan :: "ParsedRecoverySample list \<Rightarrow> int option" where
  "recoverySpan samples =
     (case samples of [] \<Rightarrow> None | first # _ \<Rightarrow> Some (rs_evaluatedAtMs (last samples) - rs_evaluatedAtMs first))"

definition sample_observation :: "ParsedRecoverySample \<Rightarrow> StablecoinValuationSourceId \<Rightarrow> ParsedObservation option" where
  "sample_observation sample sourceId = find (\<lambda>x. ob_sourceId x = sourceId) (rs_observations sample)"

text \<open>The update identifiers of a sample, none of them seen for its source before.\<close>

fun collect_updates :: "StablecoinValuationSourceId list \<Rightarrow> ParsedRecoverySample \<Rightarrow>
    (StablecoinValuationSourceId \<Rightarrow> string list) \<Rightarrow> (StablecoinValuationSourceId \<Rightarrow> string list) option" where
  "collect_updates [] sample seen = Some seen"
| "collect_updates (s # ss) sample seen =
     (case sample_observation sample s of
        None \<Rightarrow> None
      | Some x \<Rightarrow> if ob_updateId x \<in> set (seen s) then None
                  else collect_updates ss sample (seen (s := ob_updateId x # seen s)))"

definition source_advances :: "ParsedRecoverySample \<Rightarrow> ParsedRecoverySample \<Rightarrow> StablecoinValuationSourceId \<Rightarrow> bool" where
  "source_advances previous sample sourceId =
     (case (sample_observation previous sourceId, sample_observation sample sourceId) of
        (Some before, Some after) \<Rightarrow>
          \<not> (ob_sequence after \<le> ob_sequence before \<or> ob_updateId after = ob_updateId before \<or>
             ob_pricedAtMs after < ob_pricedAtMs before \<or> ob_observedAtMs after < ob_observedAtMs before)
      | _ \<Rightarrow> False)"

fun monotonic_evidence_from :: "(StablecoinValuationSourceId \<Rightarrow> string list) \<Rightarrow> ParsedRecoverySample option \<Rightarrow>
    ParsedRecoverySample list \<Rightarrow> bool" where
  "monotonic_evidence_from seen previous [] = True"
| "monotonic_evidence_from seen previous (sample # samples) =
     (case collect_updates STABLECOIN_VALUATION_SOURCES sample seen of
        None \<Rightarrow> False
      | Some seen' \<Rightarrow>
          if (case previous of
                None \<Rightarrow> True
              | Some p \<Rightarrow> \<not> rs_evaluatedAtMs sample \<le> rs_evaluatedAtMs p \<and>
                           list_all (source_advances p sample) STABLECOIN_VALUATION_SOURCES)
          then monotonic_evidence_from seen' (Some sample) samples
          else False)"

definition recoveryEvidenceIsStrictlyMonotonic :: "ParsedRecoverySample list \<Rightarrow> bool" where
  "recoveryEvidenceIsStrictlyMonotonic = monotonic_evidence_from (\<lambda>_. []) None"

definition valuationWithinRecoveryBand :: "StablecoinValuationResult \<Rightarrow> bool" where
  "valuationWithinRecoveryBand valuation =
     (if sv_availability valuation \<noteq> Price_AVAILABLE then False
      else case (sv_usdRateMantissa valuation, sv_usdRateScale valuation) of
             (Some mantissa, Some scale) \<Rightarrow>
               (let rate = \<lparr>fx_mantissa = dec_val mantissa, fx_scale = scale\<rparr>
                in compareFixed rate PEG \<le> 0 \<and>
                   \<not> absoluteUsdAmountExceedsBps (subtractFixedFloorZero PEG rate) withinPegBps)
           | _ \<Rightarrow> False)"

definition RECOVERY_REASON_ORDER :: "StablecoinRecoveryReason list" where
  "RECOVERY_REASON_ORDER =
     [Reason_INVALID_RECOVERY_INPUT, NO_PRIOR_DEPEG_LATCH, INSUFFICIENT_DISTINCT_OBSERVATIONS, NON_MONOTONIC_EVIDENCE,
      INSUFFICIENT_OBSERVATION_SPAN, DEPEG_LATCH_AFTER_RECOVERY_EVALUATION, EVIDENCE_PRECEDES_DEPEG_LATCH,
      EVIDENCE_AFTER_RECOVERY_EVALUATION, OBSERVATION_NOT_CURRENT, OBSERVATION_NOT_CORROBORATED,
      OBSERVATION_OUTSIDE_REPEG_BAND, Reason_MANUAL_RISK_CLEAR_REQUIRED, MANUAL_RISK_CLEAR_LATCH_MISMATCH,
      MANUAL_RISK_CLEAR_PRECEDES_FINAL_SAMPLE, MANUAL_RISK_CLEAR_AFTER_RECOVERY_EVALUATION, LOCAL_CANDIDATE_CLEAR_ONLY]"

definition orderedRecoveryReasons :: "StablecoinRecoveryReason list \<Rightarrow> StablecoinRecoveryReason list" where
  "orderedRecoveryReasons reasons = filter (\<lambda>r. r \<in> set reasons) RECOVERY_REASON_ORDER"

definition sample_reasons :: "ParsedRecoveryRequest \<Rightarrow> int \<Rightarrow> ParsedRecoverySample \<Rightarrow> StablecoinRecoveryReason list" where
  "sample_reasons request latchedAtMs sample =
     (let valuation = rs_valuation sample
      in (if rs_evaluatedAtMs sample < latchedAtMs \<or>
             list_ex (\<lambda>x. ob_pricedAtMs x < latchedAtMs \<or> ob_observedAtMs x < latchedAtMs) (rs_observations sample)
          then [EVIDENCE_PRECEDES_DEPEG_LATCH] else []) @
         (if rs_evaluatedAtMs sample > rr_evaluatedAtMs request then [EVIDENCE_AFTER_RECOVERY_EVALUATION] else []) @
         (if list_ex (\<lambda>a. sa_eligibility a \<noteq> ELIGIBLE_CURRENT) (sv_sourceAssessments valuation)
          then [OBSERVATION_NOT_CURRENT] else []) @
         (if sv_availability valuation \<noteq> Price_AVAILABLE \<or> sv_sourceAgreement valuation \<noteq> CORROBORATED \<or>
             sv_confidenceClass valuation \<noteq> Confidence_MEDIUM
          then [OBSERVATION_NOT_CORROBORATED] else []) @
         (if \<not> valuationWithinRecoveryBand valuation then [OBSERVATION_OUTSIDE_REPEG_BAND] else []))"

subsection \<open>Recovery\<close>

definition recoveryResult :: "StablecoinRecoveryStatus \<Rightarrow> StablecoinValuationAssetReference option \<Rightarrow> string option \<Rightarrow>
    StablecoinDepegLatchReference option \<Rightarrow> StablecoinManualRiskClearReference option \<Rightarrow> nat \<Rightarrow> int option \<Rightarrow>
    StablecoinRecoveryReason list \<Rightarrow> StablecoinRecoveryResult" where
  "recoveryResult status asset evaluatedAt depegLatch acceptedClear evidenceCount evidenceSpanMs reasons =
     \<lparr>rv_policyVersion = 1, rv_policyApprovalState = ''PENDING_EXTERNAL_APPROVAL'', rv_status = status,
      rv_asset = asset, rv_evaluatedAt = evaluatedAt, rv_depegLatch = depegLatch,
      rv_acceptedManualRiskClear = acceptedClear, rv_evidenceCount = evidenceCount,
      rv_evidenceSpanMs = evidenceSpanMs, rv_reasons = orderedRecoveryReasons reasons,
      rv_manualRiskClearAccepted = (acceptedClear \<noteq> None), rv_mayIncreaseBuyingPower = False,
      rv_mayAuthorizeFinancialUse = False\<rparr>"

text \<open>The reasons before the manual clear is looked at.\<close>

definition evidence_reasons :: "ParsedRecoveryRequest \<Rightarrow> int \<Rightarrow> StablecoinRecoveryReason list" where
  "evidence_reasons request latchedAtMs =
     (let samples = rr_samples request
      in (if length samples < consecutiveDualCorroboratedObservations then [INSUFFICIENT_DISTINCT_OBSERVATIONS] else []) @
         (if \<not> recoveryEvidenceIsStrictlyMonotonic samples then [NON_MONOTONIC_EVIDENCE] else []) @
         (if (case recoverySpan samples of None \<Rightarrow> True | Some spanMs \<Rightarrow> spanMs < minimumSpanMs)
          then [INSUFFICIENT_OBSERVATION_SPAN] else []) @
         (if latchedAtMs > rr_evaluatedAtMs request then [DEPEG_LATCH_AFTER_RECOVERY_EVALUATION] else []) @
         concat (map (sample_reasons request latchedAtMs) samples))"

definition recoverRequest :: "ParsedRecoveryRequest \<Rightarrow> StablecoinRecoveryResult" where
  "recoverRequest request =
     (let samples = rr_samples request;
          result = (\<lambda>status latch clear reasons. recoveryResult status (Some (rr_asset request)) (Some (rr_evaluatedAt request))
            latch clear (length samples) (recoverySpan samples) reasons)
      in case rr_depegLatch request of
           None \<Rightarrow> result NOT_APPLICABLE None None [NO_PRIOR_DEPEG_LATCH]
         | Some (latch, latchedAtMs) \<Rightarrow>
             let uniqueReasons = orderedRecoveryReasons (evidence_reasons request latchedAtMs)
             in if length uniqueReasons > 0 then result RECOVERY_PENDING (Some latch) None uniqueReasons
                else
                  (case rr_manualRiskClear request of
                     None \<Rightarrow> result MANUAL_RISK_CLEAR_REQUIRED (Some latch) None [Reason_MANUAL_RISK_CLEAR_REQUIRED]
                   | Some (clear, clearedAtMs) \<Rightarrow>
                       if mc_latchId clear \<noteq> dl_latchId latch
                       then result MANUAL_RISK_CLEAR_REQUIRED (Some latch) None [MANUAL_RISK_CLEAR_LATCH_MISMATCH]
                       else if samples = [] \<or> clearedAtMs < rs_evaluatedAtMs (last samples)
                       then result MANUAL_RISK_CLEAR_REQUIRED (Some latch) None [MANUAL_RISK_CLEAR_PRECEDES_FINAL_SAMPLE]
                       else if clearedAtMs > rr_evaluatedAtMs request
                       then result MANUAL_RISK_CLEAR_REQUIRED (Some latch) None [MANUAL_RISK_CLEAR_AFTER_RECOVERY_EVALUATION]
                       else result RECOVERY_CANDIDATE_CLEARED (Some latch) (Some clear) [LOCAL_CANDIDATE_CLEAR_ONLY]))"

definition evaluateStablecoinRecovery :: "VersionedSupportedAssetRegistry \<Rightarrow> jsval \<Rightarrow> StablecoinRecoveryResult" where
  "evaluateStablecoinRecovery registry input =
     (case parseRecoveryRequest registry input of
        Inl _ \<Rightarrow> recoveryResult Recovery_INVALID_INPUT None None None None 0 None [Reason_INVALID_RECOVERY_INPUT]
      | Inr request \<Rightarrow> recoverRequest request)"

end
