(* ===== verification/Valuation_Correct.thy ===== *)
theory Valuation_Correct
  imports Valuation_Policy
begin

text \<open>
  What a stablecoin valuation promises: which observations count as current, that the rate used is the
  lowest conservative one capped at the peg, when a value is available, when a depeg is reported, that
  accepted evidence cannot be replayed, and the exact rounding of the value.
\<close>

subsection \<open>Fixed-point arithmetic\<close>

lemma canonical_pair_value:
  "canonical_pair m s = (m', s') \<Longrightarrow> \<exists>k. s = s' + k \<and> m = m' * 10 ^ k"
proof (induction m s arbitrary: m' s' rule: canonical_pair.induct)
  case (1 m s)
  show ?case
  proof (cases "0 < s \<and> m mod 10 = 0")
    case True
    then have "canonical_pair (m div 10) (s - 1) = (m', s')" using 1(2) by simp
    from 1(1) [OF True this] obtain k where k: "s - 1 = s' + k" "m div 10 = m' * 10 ^ k" by blast
    have "m = m div 10 * 10" using True by (metis add.right_neutral div_mult_mod_eq)
    then have "m = m' * 10 ^ Suc k" using k(2) by simp
    moreover have "s = s' + Suc k" using k(1) True by (metis One_nat_def Suc_diff_Suc add_Suc_right diff_zero)
    ultimately show ?thesis by blast
  next
    case False
    then show ?thesis using 1(2) by (intro exI [of _ 0]) (auto simp: canonical_pair.simps [of m s] simp del: canonical_pair.simps)
  qed
qed

declare canonical_pair.simps [simp del]

lemma canonicalFixed_value: "\<exists>k. fx_scale v = fx_scale (canonicalFixed v) + k \<and> fx_mantissa v = fx_mantissa (canonicalFixed v) * 10 ^ k"
  using canonical_pair_value [of "fx_mantissa v" "fx_scale v"]
  by (cases "canonical_pair (fx_mantissa v) (fx_scale v)") (auto simp: canonicalFixed_def)

lemma scaled_less: "(t * 10 ^ (s + k) < m * 10 ^ k * 10000) = (t * 10 ^ s < m * (10000 :: nat))"
proof -
  have "t * 10 ^ (s + k) = (t * 10 ^ s) * 10 ^ k" by (simp add: power_add mult.assoc)
  moreover have "m * 10 ^ k * 10000 = (m * 10000) * 10 ^ k" by simp
  ultimately show ?thesis by (simp only: mult_less_cancel2) simp
qed

lemma exceeds_iff: "absoluteUsdAmountExceedsBps v t = (t * 10 ^ fx_scale v < fx_mantissa v * 10000)"
proof -
  obtain k where "fx_scale v = fx_scale (canonicalFixed v) + k" "fx_mantissa v = fx_mantissa (canonicalFixed v) * 10 ^ k"
    using canonicalFixed_value by blast
  then show ?thesis
    by (simp add: absoluteUsdAmountExceedsBps_def Let_def powerOfTen_def scaled_less)
qed

lemma atOrAbove_iff: "absoluteUsdAmountAtOrAboveBps v t = (t * 10 ^ fx_scale v \<le> fx_mantissa v * 10000)"
proof -
  obtain k where k: "fx_scale v = fx_scale (canonicalFixed v) + k" "fx_mantissa v = fx_mantissa (canonicalFixed v) * 10 ^ k"
    using canonicalFixed_value by blast
  have "(t * 10 ^ (s + k) \<le> m * 10 ^ k * 10000) = (t * 10 ^ s \<le> m * (10000 :: nat))" for s m
  proof -
    have "t * 10 ^ (s + k) = (t * 10 ^ s) * 10 ^ k" "m * 10 ^ k * 10000 = (m * 10000) * (10 ^ k :: nat)"
      by (simp_all add: power_add mult.assoc)
    then show ?thesis by (simp only: mult_le_cancel2) simp
  qed
  then show ?thesis by (simp only: absoluteUsdAmountAtOrAboveBps_def Let_def powerOfTen_def k)
qed

definition rate8 :: "nat \<Rightarrow> FixedDecimal" where
  "rate8 m = \<lparr>fx_mantissa = m, fx_scale = 8\<rparr>"

lemma rate8_simps [simp]: "fx_mantissa (rate8 m) = m" "fx_scale (rate8 m) = 8"
  by (simp_all add: rate8_def)

lemma rate8_eq: "fx_scale v = 8 \<Longrightarrow> v = rate8 (fx_mantissa v)"
  by (simp add: rate8_def)

lemma PEG_rate8: "PEG = rate8 100000000"
  by (simp add: PEG_def rate8_def)

lemma compare_rate8: "compareFixed (rate8 m) (rate8 n) = (if m < n then - 1 else if m > n then 1 else 0)"
  by (simp add: compareFixed_def compareBigInt_def powerOfTen_def)

lemma minimum_rate8: "minimumFixed (rate8 m) (rate8 n) = rate8 (min m n)"
  by (simp add: minimumFixed_def compare_rate8 min_def)

lemma subtract_rate8: "subtractFixedFloorZero (rate8 m) (rate8 n) = rate8 (m - n)"
  by (simp add: subtractFixedFloorZero_def powerOfTen_def rate8_def)

lemma difference_exceeds_rate8:
  "absoluteUsdAmountExceedsBps (absoluteDifference (rate8 m) (rate8 n)) t = (t * 10000 < (m - n) + (n - m))"
proof -
  have same: "absoluteUsdAmountExceedsBps (canonicalFixed v) t = absoluteUsdAmountExceedsBps v t" for v
  proof -
    obtain k where "fx_scale v = fx_scale (canonicalFixed v) + k" "fx_mantissa v = fx_mantissa (canonicalFixed v) * 10 ^ k"
      using canonicalFixed_value by blast
    then show ?thesis by (simp add: exceeds_iff scaled_less)
  qed
  show ?thesis
    by (simp add: absoluteDifference_def powerOfTen_def same) (simp add: exceeds_iff mult.commute)
qed

lemma agreement_rate8:
  "classifySourceAgreement (rate8 m) (rate8 n) =
     (if (m - n) + (n - m) \<le> 250000 then CORROBORATED
      else if (m - n) + (n - m) \<le> 500000 then SOFT_DISAGREEMENT else CONFLICT)"
  by (simp add: classifySourceAgreement_def difference_exceeds_rate8 policy_widths not_less)

lemma downside_rate8:
  "classifyDownside (rate8 m) = (if 99500000 \<le> m then NORMAL else if m \<le> 98000000 then DEPEGGED else WATCH)"
proof -
  have c: "(0 \<le> compareFixed (rate8 m) \<lparr>fx_mantissa = 1, fx_scale = 0\<rparr>) = (100000000 \<le> m)"
    by (simp add: compareFixed_def compareBigInt_def powerOfTen_def)
  have s: "subtractFixedFloorZero \<lparr>fx_mantissa = 1, fx_scale = 0\<rparr> (rate8 m) = rate8 (100000000 - m)"
    by (simp add: subtractFixedFloorZero_def powerOfTen_def rate8_def)
  show ?thesis
    unfolding classifyDownside_def Let_def c s by (auto simp: exceeds_iff atOrAbove_iff policy_widths)
qed

subsection \<open>Rounding\<close>

text \<open>The nearest multiple, the even one of two equally near.\<close>

definition half_even :: "nat \<Rightarrow> nat \<Rightarrow> nat \<Rightarrow> bool" where
  "half_even n d q =
     (2 * n \<le> (2 * q + 1) * d \<and> 2 * q * d \<le> 2 * n + d \<and>
      (2 * n = (2 * q + 1) * d \<or> 2 * q * d = 2 * n + d \<longrightarrow> even q))"

lemma divide_half_even:
  assumes "0 < d"
  shows "half_even n d (val_divideRoundHalfEven n d)"
proof -
  define q r where "q = n div d" and "r = n mod d"
  have n: "n = q * d + r" "r < d" using assms by (simp_all add: q_def r_def)
  show ?thesis
  proof (cases "2 * r < d")
    case True
    then show ?thesis using n by (simp add: half_even_def val_divideRoundHalfEven_def Let_def q_def [symmetric] r_def [symmetric] algebra_simps)
  next
    case False
    show ?thesis
    proof (cases "2 * r = d")
      case True
      then show ?thesis using n
        by (cases "even q") (auto simp: half_even_def val_divideRoundHalfEven_def Let_def q_def [symmetric] r_def [symmetric] algebra_simps even_iff_mod_2_eq_zero [symmetric])
    next
      case False
      with \<open>\<not> 2 * r < d\<close> show ?thesis using n
        by (simp add: half_even_def val_divideRoundHalfEven_def Let_def q_def [symmetric] r_def [symmetric] algebra_simps)
    qed
  qed
qed

lemma half_even_le:
  assumes "half_even n d q" "n \<le> k * d" "0 < d"
  shows "q \<le> k"
proof (rule ccontr)
  assume "\<not> q \<le> k"
  then have "(k + 1) * d \<le> q * d" by (intro mult_le_mono1) simp
  moreover have "2 * (q * d) \<le> 2 * n + d" using assms(1) by (simp add: half_even_def algebra_simps)
  ultimately show False using assms(2,3) by (simp add: algebra_simps)
qed

subsection \<open>Parsed requests\<close>

lemma text_where_iff: "(text_where P v = Inr s) = (v = JString s \<and> P s)"
  by (auto simp: text_where_def split: jsval.splits if_splits)

lemma integer_where_iff: "(integer_where P v = Inr n) = (v = js_int n \<and> P n)"
  by (auto simp: integer_where_def split: jsval.splits jsnum.splits if_splits)

lemma parseScale_iff: "(parseScale v = Inr k) = (v = js_int (int k) \<and> k \<le> 36)"
proof -
  have "safe_integer (int k)" if "k \<le> 36" using that by (simp add: safe_integer_def)
  then show ?thesis
    by (auto simp: parseScale_def res_simps integer_where_iff maxRateScale_def)
qed

lemma val_parseTimestamp_iff:
  "(val_parseTimestamp v = Inr (s, t)) = (v = JString s \<and> canonical_utc s \<and> valid_time t \<and> 0 \<le> t \<and> s = to_iso t)"
proof -
  have "safe_integer t" if "valid_time t" using that by (simp add: safe_integer_def valid_time_def)
  then show ?thesis
    by (auto simp: val_parseTimestamp_def res_simps text_where_iff canonical_utc_def read_timestamp_to_iso
        split: option.splits if_splits dest: read_timestamp_iff [THEN iffD1])
qed

lemmas valued_iffs = res_bind_eq_Inr require_eq_Inr of_option_eq_Inr text_where_iff integer_where_iff parseScale_iff

definition observation_ok :: "StablecoinValuationAssetReference \<Rightarrow> ParsedObservation \<Rightarrow> bool" where
  "observation_ok asset x =
     (let p = publicObservation x
      in po_asset p = asset \<and> canonical_nat (po_usdRateMantissa p) \<and> length (po_usdRateMantissa p) \<le> 78 \<and>
         po_usdRateScale p = 8 \<and> x = parsedObservation p (ob_pricedAtMs x) (ob_observedAtMs x) \<and>
         po_pricedAt p = to_iso (ob_pricedAtMs x) \<and> po_observedAt p = to_iso (ob_observedAtMs x) \<and>
         positive_nat (po_sourceSequence p) \<and> length (po_sourceSequence p) \<le> 78 \<and>
         validSourceUpdateId (po_sourceId p) (po_sourceUpdateId p) (po_sourceSequence p) \<and>
         (po_sourceId p = PYTH_CORE \<longrightarrow> (\<exists>m. po_confidence p = PUBLISHED_ABSOLUTE_USD m 8)) \<and>
         (po_sourceId p = CHAINLINK_DATA_FEEDS \<longrightarrow> po_confidence p = NOT_PUBLISHED))"

lemma val_sameAsset_iff: "val_sameAsset a b = (a = b)"
  by (auto simp: val_sameAsset_def)

lemma parseConfidence_kind:
  "parseConfidence v s = Inr c \<Longrightarrow>
   (s = PYTH_CORE \<longrightarrow> (\<exists>m. c = PUBLISHED_ABSOLUTE_USD m 8)) \<and> (s = CHAINLINK_DATA_FEEDS \<longrightarrow> c = NOT_PUBLISHED)"
  by (cases s) (auto simp: parseConfidence_def valued_iffs normalizedUsdRateScale_def)

lemma parseObservation_ok:
  assumes "parseObservation registry asset v = Inr x"
  shows "observation_ok asset x"
  using assms unfolding parseObservation_def valued_iffs val_sameAsset_iff
  by (elim exE conjE)
    (auto simp: observation_ok_def parsedObservation_def val_parseTimestamp_iff policy_bounds dest!: parseConfidence_kind)

definition vq_ok :: "ParsedValuationRequest \<Rightarrow> bool" where
  "vq_ok q =
     (list_all (observation_ok (vq_asset q)) (vq_observations q) \<and> vq_amount q = dec_val (vq_amountAtomic q) \<and>
      0 < vq_amount q \<and> vq_amount q < 2 ^ 256 \<and> 0 \<le> va_decimals (vq_asset q) \<and> va_decimals (vq_asset q) \<le> 36)"

lemma parseAsset_decimals: "parseAsset registry v = Inr a \<Longrightarrow> 0 \<le> va_decimals a \<and> va_decimals a \<le> 36"
  unfolding parseAsset_def valued_iffs by (elim exE conjE) (auto simp: policy_bounds)

lemma parseAmount_range: "parseAmount v = Inr s \<Longrightarrow> 0 < dec_val s \<and> dec_val s < 2 ^ 256"
  using within_uint256_iff [of s]
  by (auto simp: parseAmount_def text_where_iff positive_dec_val positive_nat_iff)

lemma parse_observations:
  "res_map (parseObservation registry asset) xs = Inr ys \<Longrightarrow> list_all (observation_ok asset) ys"
  using res_map_all [of "parseObservation registry asset" xs ys "observation_ok asset"] parseObservation_ok
  by (auto simp: list_all_iff)

lemma parseValuationRequest_ok:
  assumes "parseValuationRequest registry v = Inr q"
  shows "vq_ok q"
  using assms unfolding parseValuationRequest_def valued_iffs sum.inject
  by (elim exE conjE, hypsubst)
    (simp only: vq_ok_def ParsedValuationRequest.select_convs sum.inject parse_observations parseAsset_decimals
      parseAmount_range simp_thms)

subsection \<open>Assessment of a source\<close>

text \<open>
  The observations of a source are consistent when their sequences and updates differ and neither time
  goes back as the sequence grows; the newest one is then well defined.
\<close>

definition of_source :: "ParsedValuationRequest \<Rightarrow> StablecoinValuationSourceId \<Rightarrow> ParsedObservation list" where
  "of_source q s = filter (\<lambda>x. ob_sourceId x = s) (vq_observations q)"

definition consistent :: "ParsedObservation list \<Rightarrow> bool" where
  "consistent xs =
     (distinct (map ob_updateId xs) \<and> distinct (map ob_sequence xs) \<and>
      (\<forall>x \<in> set xs. \<forall>y \<in> set xs. ob_sequence x < ob_sequence y \<longrightarrow>
         ob_pricedAtMs x \<le> ob_pricedAtMs y \<and> ob_observedAtMs x \<le> ob_observedAtMs y))"

definition newest :: "ParsedObservation list \<Rightarrow> ParsedObservation \<Rightarrow> bool" where
  "newest xs x = (x \<in> set xs \<and> (\<forall>y \<in> set xs. ob_sequence y \<le> ob_sequence x))"

definition follows :: "ParsedObservation \<Rightarrow> ParsedObservation \<Rightarrow> bool" where
  "follows p x = (ob_sequence p < ob_sequence x \<and> ob_pricedAtMs p \<le> ob_pricedAtMs x \<and> ob_observedAtMs p \<le> ob_observedAtMs x)"

lemma transp_follows: "transp follows"
  by (auto simp: transp_def follows_def)

lemma monotonic_from_iff:
  "monotonic_from ids prev xs =
     (distinct (map ob_updateId xs) \<and> set (map ob_updateId xs) \<inter> set ids = {} \<and>
      successively follows (case prev of None \<Rightarrow> xs | Some p \<Rightarrow> p # xs))"
  by (induction ids prev xs rule: monotonic_from.induct)
    (auto simp: follows_def not_le not_less successively_Cons split: option.splits)

lemma hasMonotonic_iff:
  "hasMonotonicSequenceAndTime xs = (distinct (map ob_updateId xs) \<and> sorted_wrt follows xs)"
  using transp_follows by (simp add: hasMonotonicSequenceAndTime_def monotonic_from_iff successively_conv_sorted_wrt)

abbreviation by_sequence :: "ParsedObservation list \<Rightarrow> ParsedObservation list" where
  "by_sequence \<equiv> js_sort (\<lambda>left right. compareBigInt (ob_sequence left) (ob_sequence right))"

lemma by_sequence_key: "by_sequence xs = sort_key ob_sequence xs"
  by (rule js_sort_key) (simp add: compareBigInt_def)

lemma sorted_follows:
  assumes s: "sorted (map ob_sequence ys)"
  shows "sorted_wrt follows ys = (distinct (map ob_sequence ys) \<and>
      (\<forall>x \<in> set ys. \<forall>y \<in> set ys. ob_sequence x < ob_sequence y \<longrightarrow>
         ob_pricedAtMs x \<le> ob_pricedAtMs y \<and> ob_observedAtMs x \<le> ob_observedAtMs y))" (is "_ = ?R")
proof
  assume w: "sorted_wrt follows ys"
  have "sorted_wrt (<) (map ob_sequence ys)"
    using w by (simp add: sorted_wrt_map follows_def sorted_wrt_iff_nth_less)
  then have dis: "distinct (map ob_sequence ys)" by (simp add: strict_sorted_iff)
  show ?R
  proof (intro conjI ballI impI dis)
    fix x y assume xy: "x \<in> set ys" "y \<in> set ys" "ob_sequence x < ob_sequence y"
    obtain i j where ij: "i < length ys" "x = ys ! i" "j < length ys" "y = ys ! j"
      using xy(1,2) unfolding in_set_conv_nth by blast
    have "i < j"
    proof (rule ccontr)
      assume "\<not> i < j"
      then have "ob_sequence (ys ! j) \<le> ob_sequence (ys ! i)" using s ij by (simp add: sorted_iff_nth_mono)
      with xy(3) ij show False by simp
    qed
    then show "ob_pricedAtMs x \<le> ob_pricedAtMs y" "ob_observedAtMs x \<le> ob_observedAtMs y"
      using w ij by (auto simp: sorted_wrt_iff_nth_less follows_def)
  qed
next
  assume r: ?R
  then have "sorted_wrt (<) (map ob_sequence ys)" using s by (simp add: strict_sorted_iff)
  then show "sorted_wrt follows ys"
    using r by (simp add: sorted_wrt_iff_nth_less follows_def)
qed

lemma sorted_last: "sorted (map f ys) \<Longrightarrow> y \<in> set ys \<Longrightarrow> f y \<le> f (last ys)"
  for f :: "'a \<Rightarrow> 'b::linorder"
  by (induction ys) auto

lemma sorted_by_sequence: "sorted (map ob_sequence (by_sequence xs))"
  by (simp add: by_sequence_key)

lemma distinct_map_js_sort [simp]: "distinct (map f (js_sort c xs)) = distinct (map f xs)"
  by (rule mset_eq_imp_distinct_iff) simp

lemma by_sequence_monotonic: "hasMonotonicSequenceAndTime (by_sequence xs) = consistent xs"
  unfolding hasMonotonic_iff sorted_follows [OF sorted_by_sequence] by (simp add: consistent_def)

lemma by_sequence_nonempty: "xs \<noteq> [] \<Longrightarrow> by_sequence xs \<noteq> []"
proof
  assume "by_sequence xs = []"
  then have "mset xs = {#}" using mset_js_sort [of _ xs] by (metis mset.simps(1))
  then show "xs \<noteq> [] \<Longrightarrow> False" by simp
qed

lemma by_sequence_last:
  assumes "consistent xs"
  shows "(xs \<noteq> [] \<and> last (by_sequence xs) = x) = newest xs x"
proof -
  have l: "newest xs (last (by_sequence xs))" if "xs \<noteq> []"
    using last_in_set [OF by_sequence_nonempty [OF that]] sorted_last [OF sorted_by_sequence, of _ xs]
    by (simp add: newest_def)
  have unique: "y = z" if "newest xs y" "newest xs z" for y z
  proof -
    have "ob_sequence y = ob_sequence z" using that by (meson newest_def order_antisym)
    then show ?thesis using assms that by (auto simp: consistent_def newest_def distinct_map dest: inj_onD)
  qed
  show ?thesis
  proof
    assume x: "newest xs x"
    then have "xs \<noteq> []" by (auto simp: newest_def)
    with unique [OF l x] show "xs \<noteq> [] \<and> last (by_sequence xs) = x" by blast
  qed (use l in blast)
qed

lemma nat_text_length: "0 < k \<Longrightarrow> (length (nat_text n) \<le> k) = (n < 10 ^ k)"
proof (cases "n = 0")
  case False
  then show ?thesis using positive_dec_val_length [of "nat_text n" k] by (simp del: nat_text.simps)
qed (simp add: nat_text_zero)

definition rate_of :: "ParsedObservation \<Rightarrow> nat" where
  "rate_of x = fx_mantissa (ob_rate x)"

definition width_of :: "ParsedObservation \<Rightarrow> nat" where
  "width_of x = (case ob_confidenceAmount x of None \<Rightarrow> 0 | Some c \<Rightarrow> fx_mantissa c)"

text \<open>The conservative rate in units of 10 to the -8: the rate less its published width.\<close>

definition conservative_of :: "ParsedObservation \<Rightarrow> nat" where
  "conservative_of x = rate_of x - width_of x"

lemma observation_ok_rate:
  assumes "observation_ok asset x"
  shows "ob_rate x = rate8 (rate_of x)" "rate_of x < 10 ^ 78"
    and "ob_confidenceAmount x = (if ob_sourceId x = PYTH_CORE then Some (rate8 (width_of x)) else None)"
    and "ob_sourceId x \<noteq> PYTH_CORE \<Longrightarrow> width_of x = 0"
proof -
  have x: "x = parsedObservation (publicObservation x) (ob_pricedAtMs x) (ob_observedAtMs x)"
      "po_usdRateScale (publicObservation x) = 8" "canonical_nat (po_usdRateMantissa (publicObservation x))"
      "length (po_usdRateMantissa (publicObservation x)) \<le> 78"
    using assms by (simp_all only: observation_ok_def Let_def)
  have r: "ob_rate x = \<lparr>fx_mantissa = dec_val (po_usdRateMantissa (publicObservation x)), fx_scale = 8\<rparr>"
    by (subst x(1)) (simp add: parsedObservation_def x(2))
  then show "ob_rate x = rate8 (rate_of x)" by (simp add: rate8_def rate_of_def)
  have "nat_text (dec_val (po_usdRateMantissa (publicObservation x))) = po_usdRateMantissa (publicObservation x)"
    using x(3) by (rule nat_text_dec_val)
  then show "rate_of x < 10 ^ 78"
    using x(4) nat_text_length [of 78 "rate_of x"] by (simp only: rate_of_def r FixedDecimal.select_convs zero_less_numeral)
  have c: "ob_confidenceAmount x = (case po_confidence (publicObservation x) of
      PUBLISHED_ABSOLUTE_USD m s \<Rightarrow> Some \<lparr>fx_mantissa = dec_val m, fx_scale = s\<rparr> | NOT_PUBLISHED \<Rightarrow> None)"
    by (subst x(1)) (simp add: parsedObservation_def)
  show "ob_confidenceAmount x = (if ob_sourceId x = PYTH_CORE then Some (rate8 (width_of x)) else None)"
    "ob_sourceId x \<noteq> PYTH_CORE \<Longrightarrow> width_of x = 0"
    using assms by (cases "ob_sourceId x"; auto simp: c width_of_def observation_ok_def Let_def rate8_def)+
qed

definition watermark_for :: "ParsedValuationRequest \<Rightarrow> StablecoinValuationSourceId \<Rightarrow> ParsedSourceWatermark option" where
  "watermark_for q s = find (\<lambda>w. wm_sourceId w = s) (vq_sourceWatermarks q)"

text \<open>
  The current evidence of a source: its newest observation, consistent with the others, newer than the
  watermark, timed in order, at most a minute old and, for the primary source, published with a
  confidence of at most 50 basis points.
\<close>

definition current_evidence :: "ParsedValuationRequest \<Rightarrow> StablecoinValuationSourceId \<Rightarrow> ParsedObservation \<Rightarrow> bool" where
  "current_evidence q s x =
     (consistent (of_source q s) \<and> newest (of_source q s) x \<and> \<not> watermark_refuses (watermark_for q s) x \<and>
      ob_pricedAtMs x \<le> ob_observedAtMs x \<and> ob_observedAtMs x \<le> vq_evaluatedAtMs q \<and>
      vq_evaluatedAtMs q - ob_pricedAtMs x \<le> 60000 \<and> (s = PYTH_CORE \<longrightarrow> width_of x \<le> 500000))"

definition candidate_of :: "StablecoinValuationSourceId \<Rightarrow> SourceRole \<Rightarrow> ParsedObservation \<Rightarrow> SourceCandidate" where
  "candidate_of s role x =
     \<lparr>sc_assessment = publicAssessment s role ELIGIBLE_CURRENT (Some x) (Some (rate8 (conservative_of x))),
      sc_observation = x, sc_conservativeRate = rate8 (conservative_of x), sc_freshness = Fresh_CURRENT,
      sc_confidenceLowerBoundApplied = (s = PYTH_CORE \<and> 0 < width_of x)\<rparr>"

lemma conservative_rate_eq:
  assumes "observation_ok asset x" "ob_sourceId x = s"
  shows "conservative_rate s x =
    (if s = PYTH_CORE \<and> 500000 < width_of x then None
     else Some (rate8 (conservative_of x), s = PYTH_CORE \<and> 0 < width_of x))"
proof (cases "s = PYTH_CORE")
  case True
  then show ?thesis
    using observation_ok_rate(1,3) [OF assms(1)] assms(2)
    by (simp add: conservative_rate_def exceeds_iff policy_widths subtract_rate8 conservative_of_def)
next
  case False
  then show ?thesis
    using observation_ok_rate(1,4) [OF assms(1)] assms(2) by (simp add: conservative_rate_def conservative_of_def)
qed

lemma conservative_digits:
  assumes "observation_ok asset x"
  shows "\<not> 78 < length (nat_text (conservative_of x))"
proof -
  have "conservative_of x < 10 ^ 78" using observation_ok_rate(2) [OF assms] by (simp add: conservative_of_def)
  then have "length (nat_text (conservative_of x)) \<le> 78" using nat_text_length [of 78 "conservative_of x"] by (simp only: zero_less_numeral)
  then show ?thesis by simp
qed

lemma assessSource_cases:
  assumes "vq_ok q"
  shows "(snd (assessSource q s role) = None \<and> sa_eligibility (fst (assessSource q s role)) \<noteq> ELIGIBLE_CURRENT \<and>
            (\<forall>x. \<not> current_evidence q s x)) \<or>
         (\<exists>x. current_evidence q s x \<and> x \<in> set (vq_observations q) \<and> ob_sourceId x = s \<and>
            assessSource q s role = (sc_assessment (candidate_of s role x), Some (candidate_of s role x)))"
proof -
  let ?xs = "of_source q s"
  show ?thesis
  proof (cases "?xs \<noteq> [] \<and> consistent ?xs")
    case False
    then have "\<not> current_evidence q s x" for x by (auto simp: current_evidence_def newest_def)
    moreover have "(?xs = [] \<longrightarrow> by_sequence ?xs = [])" by (simp add: js_sort_def)
    moreover have "?xs \<noteq> [] \<Longrightarrow> by_sequence ?xs \<noteq> []" by (rule by_sequence_nonempty)
    ultimately show ?thesis using False
      by (auto simp: assessSource_def Let_def of_source_def [symmetric] by_sequence_monotonic internalAssessment_def publicAssessment_def)
  next
    case True
    define x where "x = last (by_sequence ?xs)"
    have x: "newest ?xs x" using by_sequence_last [of ?xs x] True x_def by blast
    have only: "current_evidence q s y \<Longrightarrow> y = x" for y
      using by_sequence_last [of ?xs y] True by (auto simp: current_evidence_def x_def)
    have mem: "x \<in> set (vq_observations q)" "ob_sourceId x = s" using x by (auto simp: newest_def of_source_def)
    then have ok: "observation_ok (vq_asset q) x" using assms by (simp add: vq_ok_def list_all_iff)
    have ne: "by_sequence ?xs \<noteq> []" using True by (intro by_sequence_nonempty) simp
    show ?thesis
    proof (cases "current_evidence q s x")
      case current: True
      then have "assessSource q s role = (sc_assessment (candidate_of s role x), Some (candidate_of s role x))"
        using True ne conservative_digits [OF ok]
        by (auto simp: assessSource_def Let_def of_source_def [symmetric] by_sequence_monotonic x_def [symmetric]
            watermark_for_def [symmetric] conservative_rate_eq [OF ok mem(2)] current_evidence_def policy_bounds candidate_of_def
            split: option.splits)
      with current mem show ?thesis by blast
    next
      case False
      then have "snd (assessSource q s role) = None \<and> sa_eligibility (fst (assessSource q s role)) \<noteq> ELIGIBLE_CURRENT"
        using True ne x conservative_digits [OF ok]
        by (auto simp: assessSource_def Let_def of_source_def [symmetric] by_sequence_monotonic x_def [symmetric]
            watermark_for_def [symmetric] conservative_rate_eq [OF ok mem(2)] current_evidence_def policy_bounds
            internalAssessment_def publicAssessment_def split: option.splits)
      with False only show ?thesis by blast
    qed
  qed
qed

subsection \<open>The value\<close>

lemma uint256_digits: "n < 2 ^ 256 \<Longrightarrow> n < (10 :: nat) ^ 78"
proof -
  assume "n < 2 ^ 256"
  also have "(2 :: nat) ^ 256 = (2 ^ 23) ^ 11 * 2 ^ 3" by (simp only: power_mult [symmetric] power_add [symmetric]) simp
  also have "\<dots> \<le> (10 ^ 7) ^ 11 * 10 ^ 1" by (intro mult_le_mono power_mono) simp_all
  also have "\<dots> = (10 :: nat) ^ 78" by (simp only: power_mult [symmetric] power_add [symmetric]) simp
  finally show ?thesis .
qed

lemma usd_value_total:
  assumes "amount < 2 ^ 256" "m \<le> 100000000" "0 \<le> dec" "dec \<le> 36"
  shows "\<exists>v. calculateUsdValue amount dec (rate8 m) = Some v \<and>
    half_even (amount * m * 10 ^ 18) (10 ^ (nat dec + 8)) v \<and> v \<le> amount * 10 ^ 18"
proof -
  define d n v where "d = (10 :: nat) ^ (nat dec + 8)" and "n = amount * m * 10 ^ 18" and "v = val_divideRoundHalfEven n d"
  have a: "amount < 10 ^ 78" using assms(1) by (rule uint256_digits)
  have "amount * m \<le> amount * 10 ^ 8" using assms(2) by simp
  also have "\<dots> < 10 ^ 78 * 10 ^ 8" using a by (rule mult_strict_right_mono) simp
  also have "\<dots> \<le> (10 :: nat) ^ 156" by (simp add: power_add [symmetric])
  finally have "\<not> length (nat_text (amount * m)) > 156" using nat_text_length [of 156 "amount * m"] by (simp only: zero_less_numeral) simp
  moreover have he: "half_even n d v" unfolding v_def by (rule divide_half_even) (simp add: d_def)
  moreover have "n \<le> amount * 10 ^ 18 * d"
  proof -
    have "m \<le> d" using assms(2) le_trans [of m "10 ^ 8" d] power_increasing [of 8 "nat dec + 8" "10 :: nat"] by (simp add: d_def)
    then have "amount * 10 ^ 18 * m \<le> amount * 10 ^ 18 * d" by (rule mult_le_mono2)
    then show ?thesis by (simp only: n_def ac_simps)
  qed
  then have le: "v \<le> amount * 10 ^ 18" by (rule half_even_le [OF he]) (simp add: d_def)
  moreover have "length (nat_text v) \<le> 96"
  proof -
    have "amount * 10 ^ 18 < 10 ^ 78 * (10 :: nat) ^ 18" using a by (rule mult_strict_right_mono) simp
    then have "v < 10 ^ 96" using le by (simp add: power_add [symmetric])
    then show ?thesis using nat_text_length [of 96 v] by (simp only: zero_less_numeral)
  qed
  ultimately show ?thesis
    by (simp add: calculateUsdValue_def Let_def policy_bounds powerOfTen_def n_def d_def v_def)
qed

abbreviation pyth_candidate :: "ParsedObservation \<Rightarrow> SourceCandidate" where
  "pyth_candidate \<equiv> candidate_of PYTH_CORE PRIMARY_ROLE"

abbreviation link_candidate :: "ParsedObservation \<Rightarrow> SourceCandidate" where
  "link_candidate \<equiv> candidate_of CHAINLINK_DATA_FEEDS FALLBACK_AND_CROSS_CHECK"

lemma candidate_of_simps [simp]:
  "sc_observation (candidate_of s role x) = x" "sc_conservativeRate (candidate_of s role x) = rate8 (conservative_of x)"
  "sc_freshness (candidate_of s role x) = Fresh_CURRENT"
  by (simp_all add: candidate_of_def)

lemma current_unique: "current_evidence q s x \<Longrightarrow> current_evidence q s y \<Longrightarrow> x = y"
  using by_sequence_last [of "of_source q s"] by (metis current_evidence_def)

lemma value_cases:
  assumes "vq_ok q"
  obtains (neither) "\<And>s x. \<not> current_evidence q s x"
      "\<exists>as. valueRequest q = unavailableResult (Some (vq_asset q)) (Some (vq_amountAtomic q)) (Some (vq_evaluatedAt q))
         NOT_AVAILABLE [NO_ELIGIBLE_SOURCE] as Depeg_NOT_ASSESSED BAND_NOT_ASSESSED"
    | (single) s role x where "current_evidence q s x" "\<And>s' x'. current_evidence q s' x' \<Longrightarrow> s' = s \<and> x' = x"
      "x \<in> set (vq_observations q)" "ob_sourceId x = s"
      "\<exists>as. valueRequest q = availableResult q [candidate_of s role x] as AGREEMENT_SINGLE_SOURCE Confidence_LOW"
    | (both) x y where "current_evidence q PYTH_CORE x" "current_evidence q CHAINLINK_DATA_FEEDS y"
      "x \<in> set (vq_observations q)" "y \<in> set (vq_observations q)" "ob_sourceId x = PYTH_CORE"
      "ob_sourceId y = CHAINLINK_DATA_FEEDS"
      "\<exists>as. valueRequest q =
         (let disagreement = classifySourceAgreement (ob_rate x) (ob_rate y)
          in if disagreement = CONFLICT then
               let band = mostSevereDownsideBand
                     [classifyDownside (rate8 (conservative_of x)), classifyDownside (rate8 (conservative_of y))]
               in unavailableResult (Some (vq_asset q)) (Some (vq_amountAtomic q)) (Some (vq_evaluatedAt q)) CONFLICT
                    (if band = DEPEGGED then [SOURCE_CONFLICT, DEPEG_DETECTED] else [SOURCE_CONFLICT]) as
                    (if band = DEPEGGED then OUTSIDE_POLICY else Depeg_NOT_ASSESSED)
                    (if band = DEPEGGED then DEPEGGED else BAND_NOT_ASSESSED)
             else availableResult q [pyth_candidate x, link_candidate y] as disagreement
                    (if disagreement = CORROBORATED \<and> pythConfidenceAllowsMedium [pyth_candidate x, link_candidate y]
                     then Confidence_MEDIUM else Confidence_LOW))"
proof -
  have two: "s = PYTH_CORE \<or> s = CHAINLINK_DATA_FEEDS" for s by (cases s) simp_all
  note p = assessSource_cases [OF assms, of PYTH_CORE PRIMARY_ROLE]
    and l = assessSource_cases [OF assms, of CHAINLINK_DATA_FEEDS FALLBACK_AND_CROSS_CHECK]
  show thesis
  proof (cases "\<exists>x. current_evidence q PYTH_CORE x"; cases "\<exists>y. current_evidence q CHAINLINK_DATA_FEEDS y")
    assume n: "\<nexists>x. current_evidence q PYTH_CORE x" "\<nexists>y. current_evidence q CHAINLINK_DATA_FEEDS y"
    show thesis
    proof (rule neither)
      show "\<not> current_evidence q s x" for s x using n two [of s] by auto
      show "\<exists>as. valueRequest q = unavailableResult (Some (vq_asset q)) (Some (vq_amountAtomic q)) (Some (vq_evaluatedAt q))
         NOT_AVAILABLE [NO_ELIGIBLE_SOURCE] as Depeg_NOT_ASSESSED BAND_NOT_ASSESSED"
        using p l n by (auto simp: valueRequest_def sourceOrder_def Let_def split_def)
    qed
  next
    assume n: "\<exists>x. current_evidence q PYTH_CORE x" "\<nexists>y. current_evidence q CHAINLINK_DATA_FEEDS y"
    then obtain x where x: "current_evidence q PYTH_CORE x" "x \<in> set (vq_observations q)" "ob_sourceId x = PYTH_CORE"
        "snd (assessSource q PYTH_CORE PRIMARY_ROLE) = Some (pyth_candidate x)" using p by auto
    show thesis
    proof (rule single [OF x(1) _ x(2,3)])
      show "s' = PYTH_CORE \<and> x' = x" if "current_evidence q s' x'" for s' x'
        using that n(2) two [of s'] current_unique [OF x(1)] by auto
      show "\<exists>as. valueRequest q = availableResult q [pyth_candidate x] as AGREEMENT_SINGLE_SOURCE Confidence_LOW"
        using x(4) l n by (auto simp: valueRequest_def sourceOrder_def Let_def split_def)
    qed
  next
    assume n: "\<nexists>x. current_evidence q PYTH_CORE x" "\<exists>y. current_evidence q CHAINLINK_DATA_FEEDS y"
    then obtain y where y: "current_evidence q CHAINLINK_DATA_FEEDS y" "y \<in> set (vq_observations q)"
        "ob_sourceId y = CHAINLINK_DATA_FEEDS"
        "snd (assessSource q CHAINLINK_DATA_FEEDS FALLBACK_AND_CROSS_CHECK) = Some (link_candidate y)" using l by auto
    show thesis
    proof (rule single [OF y(1) _ y(2,3)])
      show "s' = CHAINLINK_DATA_FEEDS \<and> x' = y" if "current_evidence q s' x'" for s' x'
        using that n(1) two [of s'] current_unique [OF y(1)] by auto
      show "\<exists>as. valueRequest q = availableResult q [link_candidate y] as AGREEMENT_SINGLE_SOURCE Confidence_LOW"
        using y(4) p n by (auto simp: valueRequest_def sourceOrder_def Let_def split_def)
    qed
  next
    assume n: "\<exists>x. current_evidence q PYTH_CORE x" "\<exists>y. current_evidence q CHAINLINK_DATA_FEEDS y"
    obtain x where x: "current_evidence q PYTH_CORE x" "x \<in> set (vq_observations q)" "ob_sourceId x = PYTH_CORE"
        "snd (assessSource q PYTH_CORE PRIMARY_ROLE) = Some (pyth_candidate x)" using p n(1) by auto
    obtain y where y: "current_evidence q CHAINLINK_DATA_FEEDS y" "y \<in> set (vq_observations q)"
        "ob_sourceId y = CHAINLINK_DATA_FEEDS"
        "snd (assessSource q CHAINLINK_DATA_FEEDS FALLBACK_AND_CROSS_CHECK) = Some (link_candidate y)" using l n(2) by auto
    show thesis
      by (rule both [OF x(1) y(1) x(2) y(2) x(3) y(3)])
        (simp add: valueRequest_def sourceOrder_def Let_def split_def x(4) y(4), blast)
  qed
qed

lemma orderedReasons_mem [simp]: "set (orderedReasons rs) = set rs"
proof -
  have "r \<in> set REASON_ORDER" for r by (cases r) (simp_all add: REASON_ORDER_def)
  then show ?thesis by (auto simp: orderedReasons_def)
qed

lemma lowest_rate:
  "sc_conservativeRate (lowest_candidate [candidate_of s role x]) = rate8 (conservative_of x)"
  "sc_conservativeRate (lowest_candidate [candidate_of s role x, candidate_of s' role' y]) =
     rate8 (min (conservative_of x) (conservative_of y))"
  by (simp_all add: lowest_candidate_def compare_rate8 min_def)

lemma availableResult_fields:
  assumes "vq_ok q" "sc_conservativeRate (lowest_candidate cs) = rate8 k" "r = availableResult q cs as agreement confidence"
  shows "sv_availability r = Price_AVAILABLE" "sv_usdRateMantissa r = Some (nat_text (min k 100000000))"
    "sv_usdRateScale r = Some 8" "sv_downsideBand r = classifyDownside (rate8 (min k 100000000))"
    "sv_depegClass r = (if k \<le> 98000000 then OUTSIDE_POLICY else WITHIN_POLICY)"
    "(DEPEG_DETECTED \<in> set (sv_reasons r)) = (k \<le> 98000000)" "sv_sourceAgreement r = agreement"
    "sv_confidenceClass r = (if list_all (\<lambda>c. sc_freshness c = Fresh_CURRENT) cs then confidence else Confidence_LOW)"
    "\<exists>v. sv_usdValueMantissa r = Some (nat_text v) \<and>
       half_even (vq_amount q * min k 100000000 * 10 ^ 18) (10 ^ (nat (va_decimals (vq_asset q)) + 8)) v \<and>
       v \<le> vq_amount q * 10 ^ 18"
proof -
  have "vq_amount q < 2 ^ 256" "0 \<le> va_decimals (vq_asset q)" "va_decimals (vq_asset q) \<le> 36"
    using assms(1) unfolding vq_ok_def by blast+
  then obtain v where v: "calculateUsdValue (vq_amount q) (va_decimals (vq_asset q)) (rate8 (min k 100000000)) = Some v"
      "half_even (vq_amount q * min k 100000000 * 10 ^ 18) (10 ^ (nat (va_decimals (vq_asset q)) + 8)) v"
      "v \<le> vq_amount q * 10 ^ 18"
    using usd_value_total [of "vq_amount q" "min k 100000000" "va_decimals (vq_asset q)"] by (metis min.cobounded2)
  have band: "(classifyDownside (rate8 (min k 100000000)) = DEPEGGED) = (k \<le> 98000000)"
    by (simp add: downside_rate8 min_def)
  have r: "r = availableResult q cs as agreement confidence" by (rule assms(3))
  note unfolded = r [unfolded availableResult_def Let_def assms(2) PEG_rate8 minimum_rate8 v(1) option.case]
  show "sv_availability r = Price_AVAILABLE" "sv_usdRateMantissa r = Some (nat_text (min k 100000000))"
    "sv_usdRateScale r = Some 8" "sv_downsideBand r = classifyDownside (rate8 (min k 100000000))"
    "sv_sourceAgreement r = agreement"
    by (simp_all only: unfolded StablecoinValuationResult.select_convs rate8_simps)
  show "sv_depegClass r = (if k \<le> 98000000 then OUTSIDE_POLICY else WITHIN_POLICY)"
    by (simp only: unfolded StablecoinValuationResult.select_convs band)
  show "(DEPEG_DETECTED \<in> set (sv_reasons r)) = (k \<le> 98000000)"
    by (simp only: unfolded StablecoinValuationResult.select_convs band) (auto split: if_splits)
  show "sv_confidenceClass r = (if list_all (\<lambda>c. sc_freshness c = Fresh_CURRENT) cs then confidence else Confidence_LOW)"
    by (simp only: unfolded StablecoinValuationResult.select_convs) simp
  show "\<exists>v. sv_usdValueMantissa r = Some (nat_text v) \<and>
       half_even (vq_amount q * min k 100000000 * 10 ^ 18) (10 ^ (nat (va_decimals (vq_asset q)) + 8)) v \<and>
       v \<le> vq_amount q * 10 ^ 18"
    using v(2,3) by (intro exI [of _ v]) (simp only: unfolded StablecoinValuationResult.select_convs simp_thms)
qed

lemma unavailableResult_fields [simp]:
  "sv_availability (unavailableResult a am e ag rs as d b) = Price_UNAVAILABLE"
  "sv_depegClass (unavailableResult a am e ag rs as d b) = d"
  "sv_downsideBand (unavailableResult a am e ag rs as d b) = b"
  "set (sv_reasons (unavailableResult a am e ag rs as d b)) = set rs"
  "sv_sourceAssessments (unavailableResult a am e ag rs as d b) = as"
  "sv_sourceAgreement (unavailableResult a am e ag rs as d b) = ag"
  "sv_confidenceClass (unavailableResult a am e ag rs as d b) = Confidence_UNAVAILABLE"
  by (simp_all add: unavailableResult_def)

text \<open>How far two rates differ.\<close>

definition distance :: "nat \<Rightarrow> nat \<Rightarrow> nat" where
  "distance m n = (m - n) + (n - m)"

definition sources_agree :: "nat \<Rightarrow> ParsedValuationRequest \<Rightarrow> bool" where
  "sources_agree limit q =
     (\<forall>x y. current_evidence q PYTH_CORE x \<and> current_evidence q CHAINLINK_DATA_FEEDS y \<longrightarrow>
        distance (rate_of x) (rate_of y) \<le> limit)"

lemma both_agree:
  assumes "current_evidence q PYTH_CORE x" "current_evidence q CHAINLINK_DATA_FEEDS y"
  shows "sources_agree limit q = (distance (rate_of x) (rate_of y) \<le> limit)"
  unfolding sources_agree_def using assms current_unique [of q] by metis

lemma agreement_of:
  assumes "vq_ok q" "x \<in> set (vq_observations q)" "y \<in> set (vq_observations q)"
  shows "classifySourceAgreement (ob_rate x) (ob_rate y) =
    (if distance (rate_of x) (rate_of y) \<le> 250000 then CORROBORATED
     else if distance (rate_of x) (rate_of y) \<le> 500000 then SOFT_DISAGREEMENT else CONFLICT)"
proof -
  have "observation_ok (vq_asset q) x" "observation_ok (vq_asset q) y"
    using assms by (simp_all add: vq_ok_def list_all_iff)
  then show ?thesis
    using agreement_rate8 [of "rate_of x" "rate_of y"] observation_ok_rate(1) by (simp add: distance_def)
qed

lemma value_rate:
  assumes "vq_ok q" "sv_availability (valueRequest q) = Price_AVAILABLE"
  shows "\<exists>k. (\<forall>s x. current_evidence q s x \<longrightarrow> k \<le> conservative_of x) \<and> (\<exists>s x. current_evidence q s x \<and> k = conservative_of x) \<and>
    (\<exists>cs as agreement confidence. valueRequest q = availableResult q cs as agreement confidence \<and>
       sc_conservativeRate (lowest_candidate cs) = rate8 k)"
  using assms(1)
proof (cases rule: value_cases)
  case neither
  then show ?thesis using assms(2) by auto
next
  case (single s role x)
  then show ?thesis by (intro exI [of _ "conservative_of x"]) (metis lowest_rate(1) order_refl)
next
  case (both x y)
  have two: "s = PYTH_CORE \<or> s = CHAINLINK_DATA_FEEDS" for s by (cases s) simp_all
  have le: "min (conservative_of x) (conservative_of y) \<le> conservative_of z" if "current_evidence q s z" for s z
    using that two [of s] current_unique both(1,2) by (metis min.cobounded1 min.cobounded2)
  have ex: "\<exists>s z. current_evidence q s z \<and> min (conservative_of x) (conservative_of y) = conservative_of z"
    using both(1,2) by (metis min_def)
  have "classifySourceAgreement (ob_rate x) (ob_rate y) \<noteq> CONFLICT"
    using both(7) assms(2) by (auto simp: Let_def)
  then have "\<exists>as agreement confidence. valueRequest q =
      availableResult q [pyth_candidate x, link_candidate y] as agreement confidence"
    using both(7) by (auto simp: Let_def)
  then show ?thesis using le ex lowest_rate(2) by blast
qed

lemma ex_source: "(\<exists>s. P s) = (P PYTH_CORE \<or> P CHAINLINK_DATA_FEEDS)"
  by (metis StablecoinValuationSourceId.exhaust)

lemma current_ex: "current_evidence q s x \<Longrightarrow> (\<exists>z. current_evidence q s z \<and> P z) = P x"
  using current_unique [of q s x] by blast

lemma one_source:
  assumes "\<And>s' x'. current_evidence q s' x' \<Longrightarrow> s' = s \<and> x' = x"
  shows "\<not> (current_evidence q PYTH_CORE y \<and> current_evidence q CHAINLINK_DATA_FEEDS z)"
  using assms [of PYTH_CORE y] assms [of CHAINLINK_DATA_FEEDS z] by auto

lemma no_conflict_available:
  "\<exists>as. v = (let d = D in if d = CONFLICT then F as else availableResult q cs as d (G d)) \<Longrightarrow> D \<noteq> CONFLICT \<Longrightarrow>
   \<exists>as agreement confidence. v = availableResult q cs as agreement confidence"
  by (auto simp: Let_def)

lemma single_available:
  "vq_ok q \<Longrightarrow> \<exists>as. valueRequest q = availableResult q [candidate_of s role x] as agreement confidence \<Longrightarrow>
   sv_availability (valueRequest q) = Price_AVAILABLE"
  by (elim exE) (erule availableResult_fields(1) [OF _ lowest_rate(1)])

lemma both_available:
  "vq_ok q \<Longrightarrow> \<exists>as agreement confidence. valueRequest q =
     availableResult q [candidate_of s role x, candidate_of s' role' y] as agreement confidence \<Longrightarrow>
   sv_availability (valueRequest q) = Price_AVAILABLE"
  by (elim exE) (erule availableResult_fields(1) [OF _ lowest_rate(2)])

lemma value_available:
  assumes "vq_ok q"
  shows "(sv_availability (valueRequest q) = Price_AVAILABLE) = ((\<exists>s x. current_evidence q s x) \<and> sources_agree 500000 q)"
  using assms
proof (cases rule: value_cases)
  case neither
  then show ?thesis by auto
next
  case (single s role x)
  have "\<not> (current_evidence q PYTH_CORE x' \<and> current_evidence q CHAINLINK_DATA_FEEDS y')" for x' y'
    by (rule one_source [OF single(2)])
  then have "sources_agree 500000 q" unfolding sources_agree_def by blast
  then show ?thesis using single(1) single_available [OF assms single(5)] by blast
next
  case (both x y)
  note d = agreement_of [OF assms both(3,4)] and agree = both_agree [OF both(1,2), of 500000]
  show ?thesis
  proof (cases "distance (rate_of x) (rate_of y) \<le> 500000")
    case True
    then have "classifySourceAgreement (ob_rate x) (ob_rate y) \<noteq> CONFLICT" using d by simp
    then have "\<exists>as agreement confidence. valueRequest q = availableResult q [pyth_candidate x, link_candidate y] as agreement confidence"
      using both(7) by (auto simp: Let_def)
    from both_available [OF assms this] show ?thesis using True agree both(1) by blast
  next
    case False
    then show ?thesis using both(7) d agree by (auto simp: Let_def)
  qed
qed

lemma value_depeg:
  assumes "vq_ok q"
  shows "(DEPEG_DETECTED \<in> set (sv_reasons (valueRequest q))) = (\<exists>s x. current_evidence q s x \<and> conservative_of x \<le> 98000000)"
    "(sv_depegClass (valueRequest q) = OUTSIDE_POLICY) = (\<exists>s x. current_evidence q s x \<and> conservative_of x \<le> 98000000)"
proof -
  have "(DEPEG_DETECTED \<in> set (sv_reasons (valueRequest q))) = (\<exists>s x. current_evidence q s x \<and> conservative_of x \<le> 98000000) \<and>
    (sv_depegClass (valueRequest q) = OUTSIDE_POLICY) = (\<exists>s x. current_evidence q s x \<and> conservative_of x \<le> 98000000)"
  proof (cases "sv_availability (valueRequest q) = Price_AVAILABLE")
    case True
    obtain k cs as agreement confidence where k: "\<forall>s x. current_evidence q s x \<longrightarrow> k \<le> conservative_of x"
        "\<exists>s x. current_evidence q s x \<and> k = conservative_of x"
        "valueRequest q = availableResult q cs as agreement confidence" "sc_conservativeRate (lowest_candidate cs) = rate8 k"
      using value_rate [OF assms True] by blast
    have "(\<exists>s x. current_evidence q s x \<and> conservative_of x \<le> 98000000) = (k \<le> 98000000)"
      using k(1,2) by (metis le_trans)
    then show ?thesis using availableResult_fields(5,6) [OF assms k(4,3)] by simp
  next
    case False
    show ?thesis
      using assms
    proof (cases rule: value_cases)
      case neither
      then show ?thesis by auto
    next
      case (single s role x)
      then show ?thesis using False single_available [OF assms single(5)] by blast
    next
      case (both x y)
      have low: "(\<exists>s z. current_evidence q s z \<and> conservative_of z \<le> 98000000) =
          (conservative_of x \<le> 98000000 \<or> conservative_of y \<le> 98000000)"
        unfolding ex_source current_ex [OF both(1)] current_ex [OF both(2)] ..
      have band: "(mostSevereDownsideBand [classifyDownside (rate8 m), classifyDownside (rate8 n)] = DEPEGGED) =
          (m \<le> 98000000 \<or> n \<le> 98000000)" for m n
        by (auto simp: mostSevereDownsideBand_def downside_rate8)
      have "classifySourceAgreement (ob_rate x) (ob_rate y) = CONFLICT"
      proof (rule ccontr)
        assume "classifySourceAgreement (ob_rate x) (ob_rate y) \<noteq> CONFLICT"
        then have "\<exists>as agreement confidence. valueRequest q = availableResult q [pyth_candidate x, link_candidate y] as agreement confidence"
          using both(7) by (auto simp: Let_def)
        from both_available [OF assms this] False show False by blast
      qed
      then show ?thesis using both(7) by (auto simp: Let_def band low split: if_splits)
    qed
  qed
  then show "(DEPEG_DETECTED \<in> set (sv_reasons (valueRequest q))) = (\<exists>s x. current_evidence q s x \<and> conservative_of x \<le> 98000000)"
    "(sv_depegClass (valueRequest q) = OUTSIDE_POLICY) = (\<exists>s x. current_evidence q s x \<and> conservative_of x \<le> 98000000)"
    by blast+
qed

lemma value_medium:
  assumes "vq_ok q"
  shows "(sv_confidenceClass (valueRequest q) = Confidence_MEDIUM) =
    (\<exists>x y. current_evidence q PYTH_CORE x \<and> current_evidence q CHAINLINK_DATA_FEEDS y \<and>
       distance (rate_of x) (rate_of y) \<le> 250000 \<and> width_of x \<le> 250000)"
  using assms
proof (cases rule: value_cases)
  case neither
  then show ?thesis by auto
next
  case (single s role x)
  have "\<not> (current_evidence q PYTH_CORE x' \<and> current_evidence q CHAINLINK_DATA_FEEDS y')" for x' y'
    by (rule one_source [OF single(2)])
  moreover obtain as where "valueRequest q = availableResult q [candidate_of s role x] as AGREEMENT_SINGLE_SOURCE Confidence_LOW"
    using single(5) by blast
  from availableResult_fields(8) [OF assms lowest_rate(1) this] have "sv_confidenceClass (valueRequest q) = Confidence_LOW" by simp
  ultimately show ?thesis by simp
next
  case (both x y)
  have ok: "observation_ok (vq_asset q) x" using assms both(3) by (simp add: vq_ok_def list_all_iff)
  have medium: "pythConfidenceAllowsMedium [pyth_candidate x, link_candidate y] = (width_of x \<le> 250000)"
    using observation_ok_rate(3) [OF ok] both(5)
    by (simp add: pythConfidenceAllowsMedium_def exceeds_iff policy_widths not_less)
  have rhs: "(\<exists>x y. current_evidence q PYTH_CORE x \<and> current_evidence q CHAINLINK_DATA_FEEDS y \<and>
       distance (rate_of x) (rate_of y) \<le> 250000 \<and> width_of x \<le> 250000) =
     (distance (rate_of x) (rate_of y) \<le> 250000 \<and> width_of x \<le> 250000)"
    using both(1,2) current_unique by metis
  show ?thesis
  proof (cases "classifySourceAgreement (ob_rate x) (ob_rate y) = CONFLICT")
    case True
    then show ?thesis using both(7) unfolding rhs agreement_of [OF assms both(3,4)]
      by (auto simp: Let_def agreement_of [OF assms both(3,4)] split: if_splits)
  next
    case False
    obtain as where "valueRequest q = availableResult q [pyth_candidate x, link_candidate y] as
        (classifySourceAgreement (ob_rate x) (ob_rate y))
        (if classifySourceAgreement (ob_rate x) (ob_rate y) = CORROBORATED \<and> width_of x \<le> 250000
         then Confidence_MEDIUM else Confidence_LOW)"
      using both(7) False by (auto simp: Let_def medium)
    from availableResult_fields(8) [OF assms lowest_rate(2) this] show ?thesis
      unfolding rhs by (simp add: agreement_of [OF assms both(3,4)])
  qed
qed

end
