(* ===== verification/Valuation_Recovery_Correct.thy ===== *)
theory Valuation_Recovery_Correct
  imports Valuation_Recovery Valuation_Correct Action_Intent
begin

text \<open>
  Normalized values parse to themselves, so a recovery sample is valued on exactly its observations;
  the properties of valuation and of the recovery from a depeg, with a sample request.
\<close>

subsection \<open>Normalized values parse to themselves\<close>

lemma literal_record:
  assumes "distinct keys" "length keys = length vs"
  shows "val_dataRecord (mk_object (zip keys vs)) keys = Inr (zip keys vs)"
  using exact_data_record_literal [of "zip keys vs" keys] assms by (simp add: val_dataRecord_def)

lemma literal_array: "lo \<le> length vs \<Longrightarrow> length vs \<le> hi \<Longrightarrow> val_dataArray (mk_array vs) lo hi = Inr vs"
  by (simp add: val_dataArray_def exact_data_array_literal)

lemma keys_distinct: "distinct ASSET_KEYS" "distinct OBSERVATION_KEYS" "distinct VALUATION_REQUEST_KEYS"
  by code_simp+

lemma parse_asset_value:
  assumes "parseAsset registry v = Inr a"
  shows "parseAsset registry (asset_value a) = Inr a"
proof -
  obtain registryVersion fingerprint stablecoin networkId identity' decimals snapshot asset network where
    a: "\<lparr>va_registryEnvironment = MAINNET, va_registryVersion = registryVersion,
          va_registryFingerprintSha256 = fingerprint, va_stablecoin = stablecoin, va_networkId = networkId,
          va_identity = identity', va_decimals = decimals\<rparr> = a"
    and f: "registryVersion = 1" "sha256_hex fingerprint" "safe_integer decimals" "\<not> decimals < 0" "\<not> decimals > maxAssetDecimals"
      "atVersion registry registryVersion = Some snapshot" "identifyAsset snapshot networkId identity' = Some asset"
      "byNetworkId (sn_networks snapshot) networkId = Some network"
      "\<not> (sn_fingerprintSha256 snapshot \<noteq> fingerprint \<or> asset_stablecoin asset \<noteq> stablecoin \<or>
            asset_identity asset \<noteq> identity' \<or> asset_decimals asset \<noteq> decimals \<or>
            asset_activationState asset \<noteq> ACTIVE \<or> net_activationState network \<noteq> ACTIVE)"
    using assms unfolding parseAsset_def valued_iffs sum.inject by (elim exE conjE) (rule that; assumption)
  let ?vs = "[JString ''MAINNET'', js_int registryVersion, JString fingerprint, JString (stablecoin_text stablecoin),
      JString networkId, JString identity', js_int decimals]"
  have r: "val_dataRecord (asset_value a) ASSET_KEYS = Inr (zip ASSET_KEYS ?vs)"
    using literal_record [OF keys_distinct(1), of ?vs] by (simp add: asset_value_def a [symmetric] ASSET_KEYS_def)
  have g: "js_get (zip ASSET_KEYS ?vs) ''registryEnvironment'' = JString ''MAINNET''"
      "js_get (zip ASSET_KEYS ?vs) ''registryVersion'' = js_int registryVersion"
      "js_get (zip ASSET_KEYS ?vs) ''registryFingerprintSha256'' = JString fingerprint"
      "js_get (zip ASSET_KEYS ?vs) ''stablecoin'' = JString (stablecoin_text stablecoin)"
      "js_get (zip ASSET_KEYS ?vs) ''networkId'' = JString networkId"
      "js_get (zip ASSET_KEYS ?vs) ''identity'' = JString identity'"
      "js_get (zip ASSET_KEYS ?vs) ''decimals'' = js_int decimals"
    by (simp_all add: ASSET_KEYS_def js_get_def)
  have p: "integer_where (\<lambda>n. n = 1) (js_int registryVersion) = Inr registryVersion"
      "text_where sha256_hex (JString fingerprint) = Inr fingerprint"
      "parse_enum stablecoin_text SUPPORTED_STABLECOINS (JString (stablecoin_text stablecoin)) = Some stablecoin"
      "text_where (\<lambda>_. True) (JString networkId) = Inr networkId" "text_where (\<lambda>_. True) (JString identity') = Inr identity'"
      "integer_where (\<lambda>n. safe_integer n \<and> \<not> n < 0 \<and> \<not> n > maxAssetDecimals) (js_int decimals) = Inr decimals"
    using f(1-5) by (simp_all add: text_where_def integer_where_def stablecoin_enum.parse_spell)
  show ?thesis
    unfolding parseAsset_def r res_bind.simps g p
    using f(6-) by (simp only: a require_def of_option_simps res_bind.simps simp_thms if_True)
qed

definition four_digit_time :: "int \<Rightarrow> bool" where
  "four_digit_time t = (valid_time t \<and> 0 \<le> t \<and> plain_year t)"

lemma parse_time: "(val_parseTimestamp v = Inr (s, t)) = (v = JString (to_iso t) \<and> s = to_iso t \<and> four_digit_time t)"
proof -
  have "plain_year t" if "canonical_utc (to_iso t)" "valid_time t"
  proof -
    obtain t' where t': "valid_time t'" "plain_year t'" "to_iso t = to_iso t'" using \<open>canonical_utc (to_iso t)\<close> by (auto simp: canonical_utc_iff)
    then have "t = t'" using to_iso_inject [OF that(2) t'(1)] by blast
    with t'(2) show ?thesis by blast
  qed
  moreover have "canonical_utc (to_iso t)" if "valid_time t" "plain_year t" using that canonical_utc_iff by blast
  ultimately show ?thesis by (auto simp: val_parseTimestamp_iff four_digit_time_def)
qed

text \<open>What an accepted observation says, with its two times.\<close>

definition observation_wf :: "StablecoinValuationAssetReference \<Rightarrow> StablecoinPriceObservation \<Rightarrow> int \<Rightarrow> int \<Rightarrow> bool" where
  "observation_wf asset p t u =
     (po_asset p = asset \<and> po_sourceReference p = STABLECOIN_VALUATION_FEED_REFERENCES (va_stablecoin asset) (po_sourceId p) \<and>
      positive_nat (po_sourceSequence p) \<and> length (po_sourceSequence p) \<le> 78 \<and>
      validSourceUpdateId (po_sourceId p) (po_sourceUpdateId p) (po_sourceSequence p) \<and>
      canonical_nat (po_usdRateMantissa p) \<and> length (po_usdRateMantissa p) \<le> 78 \<and> po_usdRateScale p = 8 \<and>
      four_digit_time t \<and> po_pricedAt p = to_iso t \<and> four_digit_time u \<and> po_observedAt p = to_iso u \<and>
      (case po_confidence p of
         PUBLISHED_ABSOLUTE_USD m s \<Rightarrow> po_sourceId p = PYTH_CORE \<and> canonical_nat m \<and> length m \<le> 78 \<and> s = 8
       | NOT_PUBLISHED \<Rightarrow> po_sourceId p \<noteq> PYTH_CORE))"

lemma parseConfidence_iff:
  "(parseConfidence v s = Inr c) \<Longrightarrow>
   (case c of PUBLISHED_ABSOLUTE_USD m k \<Rightarrow> s = PYTH_CORE \<and> canonical_nat m \<and> length m \<le> 78 \<and> k = 8
    | NOT_PUBLISHED \<Rightarrow> s \<noteq> PYTH_CORE)"
  by (auto simp: parseConfidence_def valued_iffs policy_bounds not_less split: if_splits)

lemma parseConfidence_value:
  assumes "case c of PUBLISHED_ABSOLUTE_USD m k \<Rightarrow> s = PYTH_CORE \<and> canonical_nat m \<and> length m \<le> 78 \<and> k = 8
    | NOT_PUBLISHED \<Rightarrow> s \<noteq> PYTH_CORE"
  shows "parseConfidence (confidence_value c) s = Inr c"
proof (cases c)
  case (PUBLISHED_ABSOLUTE_USD m k)
  have r: "val_dataRecord (confidence_value c) [''kind'', ''mantissa'', ''scale''] =
      Inr [(''kind'', JString ''PUBLISHED_ABSOLUTE_USD''), (''mantissa'', JString m), (''scale'', js_int (int k))]"
    using literal_record [of "[''kind'', ''mantissa'', ''scale'']" "[JString ''PUBLISHED_ABSOLUTE_USD'', JString m, js_int (int k)]"]
    by (simp add: PUBLISHED_ABSOLUTE_USD)
  have "parseScale (js_int (int k)) = Inr k" using assms by (simp add: parseScale_iff PUBLISHED_ABSOLUTE_USD)
  then show ?thesis
    using assms r by (simp add: parseConfidence_def PUBLISHED_ABSOLUTE_USD js_get_def text_where_def policy_bounds not_less)
next
  case NOT_PUBLISHED
  have r: "val_dataRecord (confidence_value c) [''kind''] = Inr [(''kind'', JString ''NOT_PUBLISHED'')]"
    using literal_record [of "[''kind'']" "[JString ''NOT_PUBLISHED'']"] by (simp add: NOT_PUBLISHED)
  then show ?thesis using assms by (simp add: parseConfidence_def NOT_PUBLISHED js_get_def)
qed

lemma parseObservation_wf:
  assumes "parseObservation registry asset v = Inr x"
  shows "observation_wf asset (publicObservation x) (ob_pricedAtMs x) (ob_observedAtMs x) \<and>
    x = parsedObservation (publicObservation x) (ob_pricedAtMs x) (ob_observedAtMs x)"
proof -
  obtain a s k ref seq upd rate pa oa c vp vo vc where
    x: "parsedObservation
       \<lparr>po_asset = a, po_sourceId = s, po_sourceReference = ref,
        po_sourceSequence = seq, po_sourceUpdateId = upd, po_pricedAt = fst pa,
        po_observedAt = fst oa, po_usdRateMantissa = rate, po_usdRateScale = k,
        po_confidence = c\<rparr> (snd pa) (snd oa) = x"
    and f: "a = asset" "ref = STABLECOIN_VALUATION_FEED_REFERENCES (va_stablecoin a) s" "positive_nat seq" "\<not> length seq > maxAmountDigits"
      "validSourceUpdateId s upd seq" "canonical_nat rate" "\<not> length rate > maxRateDigits" "k = normalizedUsdRateScale"
      "val_parseTimestamp vp = Inr pa" "val_parseTimestamp vo = Inr oa" "parseConfidence vc s = Inr c"
    using assms unfolding parseObservation_def valued_iffs val_sameAsset_iff sum.inject by (elim exE conjE) (rule that; assumption)
  obtain pt pm ot om where t: "pa = (pt, pm)" "oa = (ot, om)" by (cases pa; cases oa)
  have "pt = to_iso pm \<and> four_digit_time pm" "ot = to_iso om \<and> four_digit_time om"
    using f(9,10) by (auto simp: t parse_time)
  moreover have "case c of PUBLISHED_ABSOLUTE_USD m k \<Rightarrow> s = PYTH_CORE \<and> canonical_nat m \<and> length m \<le> 78 \<and> k = 8
      | NOT_PUBLISHED \<Rightarrow> s \<noteq> PYTH_CORE"
    using f(11) parseConfidence_iff by blast
  ultimately show ?thesis
    using f(1-8) by (simp add: x [symmetric] t observation_wf_def parsedObservation_def policy_bounds not_less split: StablecoinPriceConfidence.splits)
qed

lemma feed_references: "SOURCE_REFERENCE_PATTERN (STABLECOIN_VALUATION_FEED_REFERENCES c s)"
  by (cases c; cases s; simp only: STABLECOIN_VALUATION_FEED_REFERENCES.simps; code_simp)

lemma parse_observation_value:
  assumes "observation_wf asset p t u" "parseAsset registry (asset_value asset) = Inr asset"
  shows "parseObservation registry asset (observation_value p) = Inr (parsedObservation p t u)"
proof -
  let ?vs = "[asset_value (po_asset p), JString (source_text (po_sourceId p)), JString (po_sourceReference p),
      JString (po_sourceSequence p), JString (po_sourceUpdateId p), JString (po_pricedAt p), JString (po_observedAt p),
      JString (po_usdRateMantissa p), js_int (int (po_usdRateScale p)), confidence_value (po_confidence p)]"
  have r: "val_dataRecord (observation_value p) OBSERVATION_KEYS = Inr (zip OBSERVATION_KEYS ?vs)"
    using literal_record [OF keys_distinct(2), of ?vs] by (simp add: observation_value_def OBSERVATION_KEYS_def)
  have g: "js_get (zip OBSERVATION_KEYS ?vs) ''asset'' = asset_value (po_asset p)"
      "js_get (zip OBSERVATION_KEYS ?vs) ''sourceId'' = JString (source_text (po_sourceId p))"
      "js_get (zip OBSERVATION_KEYS ?vs) ''sourceReference'' = JString (po_sourceReference p)"
      "js_get (zip OBSERVATION_KEYS ?vs) ''sourceSequence'' = JString (po_sourceSequence p)"
      "js_get (zip OBSERVATION_KEYS ?vs) ''sourceUpdateId'' = JString (po_sourceUpdateId p)"
      "js_get (zip OBSERVATION_KEYS ?vs) ''pricedAt'' = JString (po_pricedAt p)"
      "js_get (zip OBSERVATION_KEYS ?vs) ''observedAt'' = JString (po_observedAt p)"
      "js_get (zip OBSERVATION_KEYS ?vs) ''usdRateMantissa'' = JString (po_usdRateMantissa p)"
      "js_get (zip OBSERVATION_KEYS ?vs) ''usdRateScale'' = js_int (int (po_usdRateScale p))"
      "js_get (zip OBSERVATION_KEYS ?vs) ''confidence'' = confidence_value (po_confidence p)"
    by (simp_all add: OBSERVATION_KEYS_def js_get_def)
  have "parseSourceId (JString (source_text (po_sourceId p))) = Inr (po_sourceId p)"
    by (simp add: parseSourceId_def source_enum.parse_spell)
  moreover have "parseScale (js_int (int (po_usdRateScale p))) = Inr 8" using assms(1) by (simp add: parseScale_iff observation_wf_def)
  moreover have "val_parseTimestamp (JString (po_pricedAt p)) = Inr (po_pricedAt p, t)"
      "val_parseTimestamp (JString (po_observedAt p)) = Inr (po_observedAt p, u)"
    using assms(1) by (simp_all add: parse_time observation_wf_def)
  moreover have "parseConfidence (confidence_value (po_confidence p)) (po_sourceId p) = Inr (po_confidence p)"
    using assms(1) by (intro parseConfidence_value) (simp add: observation_wf_def)
  moreover have "\<lparr>po_asset = asset, po_sourceId = po_sourceId p,
        po_sourceReference = STABLECOIN_VALUATION_FEED_REFERENCES (va_stablecoin asset) (po_sourceId p),
        po_sourceSequence = po_sourceSequence p, po_sourceUpdateId = po_sourceUpdateId p, po_pricedAt = to_iso t,
        po_observedAt = to_iso u, po_usdRateMantissa = po_usdRateMantissa p, po_usdRateScale = 8,
        po_confidence = po_confidence p\<rparr> = p"
    using assms(1) by (cases p) (simp add: observation_wf_def)
  note again = this
  ultimately have "parseObservation registry asset (observation_value p) = Inr (parsedObservation
      \<lparr>po_asset = asset, po_sourceId = po_sourceId p,
        po_sourceReference = STABLECOIN_VALUATION_FEED_REFERENCES (va_stablecoin asset) (po_sourceId p),
        po_sourceSequence = po_sourceSequence p, po_sourceUpdateId = po_sourceUpdateId p, po_pricedAt = to_iso t,
        po_observedAt = to_iso u, po_usdRateMantissa = po_usdRateMantissa p, po_usdRateScale = 8,
        po_confidence = po_confidence p\<rparr> t u)"
    unfolding parseObservation_def r res_bind.simps g using assms feed_references
    by (simp add: observation_wf_def text_where_def val_sameAsset_iff policy_bounds not_less)
  then show ?thesis by (simp only: again)
qed

text \<open>The first-use watermarks.\<close>

definition first_use :: "StablecoinValuationSourceId \<Rightarrow> ParsedSourceWatermark" where
  "first_use s =
     \<lparr>wm_sourceId = s, wm_lastAcceptedSequence = None, wm_lastAcceptedPricedAt = None, wm_lastAcceptedObservedAt = None,
      wm_lastAcceptedUpdateId = None, wm_lastAcceptedPricedAtMs = None, wm_lastAcceptedObservedAtMs = None\<rparr>"

lemma parse_first_use:
  "parseSourceWatermarks STABLECOIN_VALUATION_FIRST_USE_WATERMARKS = Inr (map first_use STABLECOIN_VALUATION_SOURCES)"
proof -
  have "parseSourceWatermark (mk_object
     [(''sourceId'', JString (source_text s)), (''lastAcceptedSequence'', JNull), (''lastAcceptedPricedAt'', JNull),
      (''lastAcceptedObservedAt'', JNull), (''lastAcceptedUpdateId'', JNull)]) = Inr (first_use s)" for s
    using literal_record [of "[''sourceId'', ''lastAcceptedSequence'', ''lastAcceptedPricedAt'', ''lastAcceptedObservedAt'',
        ''lastAcceptedUpdateId'']" "[JString (source_text s), JNull, JNull, JNull, JNull]"]
    by (simp add: parseSourceWatermark_def js_get_def parseSourceId_def source_enum.parse_spell first_use_def)
  then have "res_map parseSourceWatermark (map (\<lambda>s. mk_object
     [(''sourceId'', JString (source_text s)), (''lastAcceptedSequence'', JNull), (''lastAcceptedPricedAt'', JNull),
      (''lastAcceptedObservedAt'', JNull), (''lastAcceptedUpdateId'', JNull)]) STABLECOIN_VALUATION_SOURCES) =
      Inr (map first_use STABLECOIN_VALUATION_SOURCES)"
    by (intro res_map_Inr_map)
  moreover have "each_source_once wm_sourceId (map first_use STABLECOIN_VALUATION_SOURCES)"
    by (simp add: each_source_once_def first_use_def STABLECOIN_VALUATION_SOURCES_def)
  ultimately show ?thesis
    by (simp add: parseSourceWatermarks_def STABLECOIN_VALUATION_FIRST_USE_WATERMARKS_def literal_array)
qed

text \<open>A request with any amount and watermarks, and the request of a recovery sample.\<close>

definition request_value :: "StablecoinValuationAssetReference \<Rightarrow> string \<Rightarrow> string \<Rightarrow> jsval \<Rightarrow> StablecoinPriceObservation list \<Rightarrow> jsval" where
  "request_value asset amount evaluatedAt watermarks ps = mk_object (zip VALUATION_REQUEST_KEYS
     [asset_value asset, JString amount, JString evaluatedAt, watermarks, mk_array (map observation_value ps)])"

definition valuation_query :: "StablecoinValuationAssetReference \<Rightarrow> string \<Rightarrow> int \<Rightarrow> ParsedSourceWatermark list \<Rightarrow>
    ParsedObservation list \<Rightarrow> ParsedValuationRequest" where
  "valuation_query asset amount t ws xs =
     \<lparr>vq_asset = asset, vq_amountAtomic = amount, vq_amount = dec_val amount, vq_evaluatedAt = to_iso t, vq_evaluatedAtMs = t,
      vq_sourceWatermarks = ws, vq_observations = xs\<rparr>"

definition sample_query :: "StablecoinValuationAssetReference \<Rightarrow> int \<Rightarrow> ParsedObservation list \<Rightarrow> ParsedValuationRequest" where
  "sample_query asset t xs = valuation_query asset ''1'' t (map first_use STABLECOIN_VALUATION_SOURCES) xs"

lemma parse_request_value:
  assumes "parseAsset registry (asset_value asset) = Inr asset" "four_digit_time t" "length ps \<le> 8"
    and "\<And>p. p \<in> set ps \<Longrightarrow> parseObservation registry asset (observation_value p) = Inr (f p)"
    and "parseAmount (JString amount) = Inr amount" "parseSourceWatermarks watermarks = Inr ws"
  shows "parseValuationRequest registry (request_value asset amount (to_iso t) watermarks ps) =
    Inr (valuation_query asset amount t ws (map f ps))"
proof -
  let ?vs = "[asset_value asset, JString amount, JString (to_iso t), watermarks, mk_array (map observation_value ps)]"
  have r: "val_dataRecord (request_value asset amount (to_iso t) watermarks ps) VALUATION_REQUEST_KEYS = Inr (zip VALUATION_REQUEST_KEYS ?vs)"
    using literal_record [OF keys_distinct(3), of ?vs] by (simp add: request_value_def VALUATION_REQUEST_KEYS_def)
  have g: "js_get (zip VALUATION_REQUEST_KEYS ?vs) ''asset'' = asset_value asset"
      "js_get (zip VALUATION_REQUEST_KEYS ?vs) ''amountAtomic'' = JString amount"
      "js_get (zip VALUATION_REQUEST_KEYS ?vs) ''evaluatedAt'' = JString (to_iso t)"
      "js_get (zip VALUATION_REQUEST_KEYS ?vs) ''sourceWatermarks'' = watermarks"
      "js_get (zip VALUATION_REQUEST_KEYS ?vs) ''observations'' = mk_array (map observation_value ps)"
    by (simp_all add: VALUATION_REQUEST_KEYS_def js_get_def)
  have "val_parseTimestamp (JString (to_iso t)) = Inr (to_iso t, t)" using assms(2) by (simp add: parse_time)
  moreover have "val_dataArray (mk_array (map observation_value ps)) 0 maxObservations = Inr (map observation_value ps)"
    using assms(3) by (simp add: literal_array policy_bounds)
  moreover have "res_map (parseObservation registry asset) (map observation_value ps) = Inr (map f ps)"
    using assms(4) by (rule res_map_Inr_map)
  ultimately show ?thesis
    unfolding parseValuationRequest_def r res_bind.simps g
    by (simp add: assms(1,5,6) valuation_query_def)
qed

lemma parseAmount_one: "parseAmount (JString ''1'') = Inr ''1''"
  by code_simp

lemma parse_sample_request:
  assumes "parseAsset registry (asset_value asset) = Inr asset" "four_digit_time t" "length ps \<le> 8"
    and "\<And>p. p \<in> set ps \<Longrightarrow> parseObservation registry asset (observation_value p) = Inr (f p)"
  shows "parseValuationRequest registry (sample_request_value asset (to_iso t) ps) = Inr (sample_query asset t (map f ps))"
  using parse_request_value [OF assms parseAmount_one parse_first_use]
  by (simp add: sample_query_def request_value_def sample_request_value_def)

text \<open>A parsed recovery sample is valued on its own observations.\<close>

lemma parseRecoverySample_valuation:
  assumes "parseRecoverySample registry asset v = Inr smp" "parseAsset registry w = Inr asset"
  shows "rs_valuation smp = valueRequest (sample_query asset (rs_evaluatedAtMs smp) (rs_observations smp))"
    and "each_source_once ob_sourceId (rs_observations smp)" "list_all (observation_ok asset) (rs_observations smp)"
    and "rs_evaluatedAt smp = to_iso (rs_evaluatedAtMs smp)" "four_digit_time (rs_evaluatedAtMs smp)"
proof -
  obtain r s t xs os where p: "val_parseTimestamp (js_get r ''evaluatedAt'') = Inr (s, t)"
      "val_dataArray (js_get r ''observations'') 2 2 = Inr xs" "res_map (parseObservation registry asset) xs = Inr os"
      "each_source_once ob_sourceId os"
      "smp = \<lparr>rs_evaluatedAt = s, rs_evaluatedAtMs = t, rs_observations = os,
          rs_valuation = evaluateStablecoinValuation registry (sample_request_value asset s (map publicObservation os))\<rparr>"
    using assms(1) unfolding parseRecoverySample_def valued_iffs sum.inject by (elim exE conjE) (metis prod.collapse)
  have time: "s = to_iso t" "four_digit_time t" using p(1) by (auto simp: parse_time)
  have parsed: "list_all2 (\<lambda>x y. parseObservation registry asset x = Inr y) xs os"
    using p(3) by (simp add: res_map_eq_Inr)
  have "length xs = 2" using p(2) by (auto simp: val_dataArray_def of_option_eq_Inr dest: exact_data_array_bounds)
  then have len: "length (map publicObservation os) \<le> 8" using list_all2_lengthD [OF parsed] by simp
  define f where "f = (\<lambda>p. case parseObservation registry asset (observation_value p) of Inr x \<Rightarrow> x)"
  have again: "parseObservation registry asset (observation_value (publicObservation x)) = Inr x" if "x \<in> set os" for x
  proof -
    obtain v where "parseObservation registry asset v = Inr x"
      using parsed \<open>x \<in> set os\<close> by (auto simp: list_all2_conv_all_nth in_set_conv_nth)
    from parseObservation_wf [OF this] show ?thesis
      using parse_observation_value [OF _ parse_asset_value [OF assms(2)]] by metis
  qed
  have "parseValuationRequest registry (sample_request_value asset (to_iso t) (map publicObservation os)) =
      Inr (sample_query asset t (map f (map publicObservation os)))"
    by (rule parse_sample_request [OF parse_asset_value [OF assms(2)] time(2) len]) (auto simp: f_def again)
  moreover have "map f (map publicObservation os) = os" by (auto simp: f_def again intro!: map_idI)
  ultimately show "rs_valuation smp = valueRequest (sample_query asset (rs_evaluatedAtMs smp) (rs_observations smp))"
    by (simp add: p(5) time(1) evaluateStablecoinValuation_def)
  show "each_source_once ob_sourceId (rs_observations smp)" "list_all (observation_ok asset) (rs_observations smp)"
    "rs_evaluatedAt smp = to_iso (rs_evaluatedAtMs smp)" "four_digit_time (rs_evaluatedAtMs smp)"
    using p(4) parse_observations [OF p(3)] time by (simp_all add: p(5))
qed

end
