(* ===== verification/Valuation_Properties.thy ===== *)
theory Valuation_Properties
  imports Valuation_Recovery_Correct
begin

text \<open>
  The properties of stablecoin valuation and of the recovery from a depeg, with sample requests built on
  the registry the program loads.
\<close>

subsection \<open>Assessments and fully corroborated values\<close>

definition source_assessments :: "ParsedValuationRequest \<Rightarrow> StablecoinSourceAssessment list" where
  "source_assessments q = map (\<lambda>(s, role). fst (assessSource q s role)) sourceOrder"

lemma availableResult_assessments [simp]:
  "sv_sourceAssessments (availableResult q cs as agreement confidence) = as"
  by (auto simp: availableResult_def Let_def unavailableResult_def split: option.splits)

lemma value_assessments: "sv_sourceAssessments (valueRequest q) = source_assessments q"
proof -
  have "map fst (map (\<lambda>(s, role). assessSource q s role) sourceOrder) = source_assessments q"
    by (simp add: source_assessments_def case_prod_unfold)
  then show ?thesis
    unfolding valueRequest_def Let_def by (simp only:) (simp split: list.splits)
qed

text \<open>Two current sources that corroborate each other give a value of medium confidence.\<close>

definition corroborated_at :: "ParsedValuationRequest \<Rightarrow> nat \<Rightarrow> bool" where
  "corroborated_at q k =
     (\<exists>x y. current_evidence q PYTH_CORE x \<and> current_evidence q CHAINLINK_DATA_FEEDS y \<and>
        distance (rate_of x) (rate_of y) \<le> 250000 \<and> width_of x \<le> 250000 \<and>
        k = min (conservative_of x) (conservative_of y))"

lemma source_current:
  assumes "vq_ok q" "current_evidence q s x"
  shows "sa_eligibility (fst (assessSource q s role)) = ELIGIBLE_CURRENT"
  using assessSource_cases [OF assms(1), of s role] assms(2) by (auto simp: candidate_of_def publicAssessment_def)

lemma corroborated_value:
  assumes "vq_ok q" "corroborated_at q k"
  shows "sv_availability (valueRequest q) = Price_AVAILABLE" "sv_sourceAgreement (valueRequest q) = CORROBORATED"
    "sv_confidenceClass (valueRequest q) = Confidence_MEDIUM"
    "sv_usdRateMantissa (valueRequest q) = Some (nat_text (min k 100000000))"
    "sv_usdRateScale (valueRequest q) = Some 8"
    "list_all (\<lambda>a. sa_eligibility a = ELIGIBLE_CURRENT) (sv_sourceAssessments (valueRequest q))"
proof -
  obtain x y where xy: "current_evidence q PYTH_CORE x" "current_evidence q CHAINLINK_DATA_FEEDS y"
      "distance (rate_of x) (rate_of y) \<le> 250000" "width_of x \<le> 250000" "k = min (conservative_of x) (conservative_of y)"
    using assms(2) unfolding corroborated_at_def by blast
  have mem: "x \<in> set (vq_observations q)" "y \<in> set (vq_observations q)"
    using xy(1,2) by (auto simp: current_evidence_def newest_def of_source_def)
  have agreement: "classifySourceAgreement (ob_rate x) (ob_rate y) = CORROBORATED"
    using agreement_of [OF assms(1) mem] xy(3) by simp
  have "\<exists>as c. valueRequest q = availableResult q [pyth_candidate x, link_candidate y] as CORROBORATED c"
    using assms(1)
  proof (cases rule: value_cases)
    case neither
    then show ?thesis using xy(1) by blast
  next
    case (single s role z)
    then show ?thesis using xy(1,2) by (metis StablecoinValuationSourceId.distinct(1))
  next
    case (both x' y')
    have "x' = x" "y' = y" using both(1,2) xy(1,2) current_unique by blast+
    then show ?thesis using both(7) by (simp only: agreement Let_def) auto
  qed
  then obtain as c where v: "valueRequest q = availableResult q [pyth_candidate x, link_candidate y] as CORROBORATED c"
    by blast
  note fields = availableResult_fields [OF assms(1) lowest_rate(2) v]
  show "sv_availability (valueRequest q) = Price_AVAILABLE" "sv_sourceAgreement (valueRequest q) = CORROBORATED"
    "sv_usdRateMantissa (valueRequest q) = Some (nat_text (min k 100000000))"
    "sv_usdRateScale (valueRequest q) = Some 8"
    by (simp_all only: fields xy(5))
  show "sv_confidenceClass (valueRequest q) = Confidence_MEDIUM"
    using value_medium [OF assms(1)] xy(1-4) by blast
  show "list_all (\<lambda>a. sa_eligibility a = ELIGIBLE_CURRENT) (sv_sourceAssessments (valueRequest q))"
    by (simp add: value_assessments source_assessments_def sourceOrder_def source_current [OF assms(1) xy(1)]
        source_current [OF assms(1) xy(2)])
qed

lemma agreement_corroborated:
  assumes "vq_ok q" "sv_confidenceClass (valueRequest q) = Confidence_MEDIUM"
  shows "\<exists>k. corroborated_at q k"
  using value_medium [OF assms(1)] assms(2) unfolding corroborated_at_def by blast

lemma recovery_band:
  assumes "sv_availability v = Price_AVAILABLE" "sv_usdRateMantissa v = Some (nat_text m)" "sv_usdRateScale v = Some 8"
  shows "valuationWithinRecoveryBand v = (99750000 \<le> m \<and> m \<le> 100000000)"
  using assms
  by (simp add: valuationWithinRecoveryBand_def Let_def PEG_rate8 rate8_def [symmetric] compare_rate8 subtract_rate8
      exceeds_iff policy_widths) auto

subsection \<open>Evidence of a recovery\<close>

definition update_of :: "StablecoinValuationSourceId \<Rightarrow> ParsedRecoverySample \<Rightarrow> string option" where
  "update_of s sample = map_option ob_updateId (sample_observation sample s)"

definition observes_all :: "ParsedRecoverySample \<Rightarrow> bool" where
  "observes_all sample = (\<forall>s. sample_observation sample s \<noteq> None)"

text \<open>A sample is later than another: its time, and for both sources the sequence, are; no time goes back.\<close>

definition later_sample :: "ParsedRecoverySample \<Rightarrow> ParsedRecoverySample \<Rightarrow> bool" where
  "later_sample p sample =
     (rs_evaluatedAtMs p < rs_evaluatedAtMs sample \<and>
      (\<forall>s. \<exists>x y. sample_observation p s = Some x \<and> sample_observation sample s = Some y \<and>
         ob_sequence x < ob_sequence y \<and> ob_pricedAtMs x \<le> ob_pricedAtMs y \<and> ob_observedAtMs x \<le> ob_observedAtMs y))"

definition monotonic_evidence :: "ParsedRecoverySample list \<Rightarrow> bool" where
  "monotonic_evidence samples =
     (list_all observes_all samples \<and> (\<forall>s. distinct (map (update_of s) samples)) \<and> sorted_wrt later_sample samples)"

lemma transp_later: "transp later_sample"
  by (rule transpI) (force simp: later_sample_def)

lemma all_sources: "(\<forall>s. P s) = (P PYTH_CORE \<and> P CHAINLINK_DATA_FEEDS)"
  by (metis StablecoinValuationSourceId.exhaust)

lemma collect_all:
  "collect_updates STABLECOIN_VALUATION_SOURCES sample seen =
     (if observes_all sample \<and> (\<forall>s. update_of s sample \<notin> Some ` set (seen s))
      then Some (\<lambda>s. the (update_of s sample) # seen s) else None)"
  by (auto simp: STABLECOIN_VALUATION_SOURCES_def observes_all_def all_sources update_of_def fun_eq_iff
      split: option.splits if_splits)

lemma advances_iff:
  assumes "observes_all p" "observes_all sample" "\<forall>s. update_of s p \<noteq> update_of s sample"
  shows "(\<not> rs_evaluatedAtMs sample \<le> rs_evaluatedAtMs p \<and> list_all (source_advances p sample) STABLECOIN_VALUATION_SOURCES) =
    later_sample p sample"
  using assms
  by (auto simp: later_sample_def all_sources STABLECOIN_VALUATION_SOURCES_def source_advances_def observes_all_def update_of_def
      not_le not_less)

lemma monotonic_evidence_from_iff:
  assumes "case prev of None \<Rightarrow> True | Some p \<Rightarrow> observes_all p \<and> (\<forall>s. update_of s p \<in> Some ` set (seen s))"
  shows "monotonic_evidence_from seen prev samples =
    (list_all observes_all samples \<and>
     (\<forall>s. distinct (map (update_of s) samples) \<and> set (map (update_of s) samples) \<inter> Some ` set (seen s) = {}) \<and>
     successively later_sample (case prev of None \<Rightarrow> samples | Some p \<Rightarrow> p # samples))"
  using assms
proof (induction samples arbitrary: seen prev)
  case Nil
  then show ?case by (simp split: option.splits)
next
  case (Cons sample samples)
  show ?case
  proof (cases "observes_all sample \<and> (\<forall>s. update_of s sample \<notin> Some ` set (seen s))")
    case False
    then show ?thesis by (auto simp: collect_all)
  next
    case True
    let ?seen = "\<lambda>s. the (update_of s sample) # seen s"
    have some: "update_of s sample = Some (the (update_of s sample))" for s
      using True by (auto simp: observes_all_def update_of_def)
    have ids: "Some ` set (?seen s) = insert (update_of s sample) (Some ` set (seen s))" for s
      using some [of s] by auto
    have ih: "monotonic_evidence_from ?seen (Some sample) samples =
      (list_all observes_all samples \<and>
       (\<forall>s. distinct (map (update_of s) samples) \<and> set (map (update_of s) samples) \<inter> Some ` set (?seen s) = {}) \<and>
       successively later_sample (sample # samples))"
      using Cons.IH [of ?seen "Some sample"] True some by (simp only: option.case ids) blast
    have step: "(case prev of None \<Rightarrow> True
          | Some p \<Rightarrow> \<not> rs_evaluatedAtMs sample \<le> rs_evaluatedAtMs p \<and>
              list_all (source_advances p sample) STABLECOIN_VALUATION_SOURCES) =
        (case prev of None \<Rightarrow> True | Some p \<Rightarrow> later_sample p sample)"
    proof (cases prev)
      case (Some p)
      have p: "observes_all p" "\<And>s. update_of s p \<in> Some ` set (seen s)" using Cons.prems Some by simp_all
      have "update_of s p \<noteq> update_of s sample" for s using p(2) [of s] True by metis
      then show ?thesis using advances_iff [OF p(1)] True by (simp only: Some option.case simp_thms)
    qed simp
    have split: "successively later_sample (case prev of None \<Rightarrow> sample # samples | Some p \<Rightarrow> p # sample # samples) =
        ((case prev of None \<Rightarrow> True | Some p \<Rightarrow> later_sample p sample) \<and> successively later_sample (sample # samples))"
      by (cases prev) simp_all
    have once: "(distinct (map (update_of s) samples) \<and> set (map (update_of s) samples) \<inter> Some ` set (?seen s) = {}) =
        (distinct (map (update_of s) (sample # samples)) \<and> set (map (update_of s) (sample # samples)) \<inter> Some ` set (seen s) = {})" for s
    proof -
      have "update_of s sample \<notin> Some ` set (seen s)" using True by blast
      then show ?thesis by (simp only: ids) (simp, blast)
    qed
    show ?thesis
      using True unfolding monotonic_evidence_from.simps collect_all step split by (simp add: ih [unfolded once])
  qed
qed

lemma monotonic_evidence_iff: "recoveryEvidenceIsStrictlyMonotonic samples = monotonic_evidence samples"
  using transp_later
  by (simp add: recoveryEvidenceIsStrictlyMonotonic_def monotonic_evidence_from_iff monotonic_evidence_def
      successively_conv_sorted_wrt)

subsection \<open>Recovery\<close>

text \<open>
  A sample proves the peg: it and its observations are timed between the latch and the evaluation, and
  both sources are current, corroborate each other and are at most 25 basis points under the peg.
\<close>

definition sample_valuation_query :: "ParsedRecoveryRequest \<Rightarrow> ParsedRecoverySample \<Rightarrow> ParsedValuationRequest" where
  "sample_valuation_query r smp = sample_query (rr_asset r) (rs_evaluatedAtMs smp) (rs_observations smp)"

definition sample_at_peg :: "ParsedRecoveryRequest \<Rightarrow> int \<Rightarrow> ParsedRecoverySample \<Rightarrow> bool" where
  "sample_at_peg r latchedAt smp =
     (latchedAt \<le> rs_evaluatedAtMs smp \<and> rs_evaluatedAtMs smp \<le> rr_evaluatedAtMs r \<and>
      (\<forall>x \<in> set (rs_observations smp). latchedAt \<le> ob_pricedAtMs x \<and> latchedAt \<le> ob_observedAtMs x) \<and>
      (\<exists>k. corroborated_at (sample_valuation_query r smp) k \<and> 99750000 \<le> k))"

definition peg_evidence :: "ParsedRecoveryRequest \<Rightarrow> int \<Rightarrow> bool" where
  "peg_evidence r latchedAt =
     (latchedAt \<le> rr_evaluatedAtMs r \<and> 4 \<le> length (rr_samples r) \<and> monotonic_evidence (rr_samples r) \<and>
      rs_evaluatedAtMs (hd (rr_samples r)) + 1800000 \<le> rs_evaluatedAtMs (last (rr_samples r)) \<and>
      (\<forall>smp \<in> set (rr_samples r). sample_at_peg r latchedAt smp))"

definition clears :: "ParsedRecoveryRequest \<Rightarrow> StablecoinDepegLatchReference \<Rightarrow> ParsedManualRiskClearReference \<Rightarrow> bool" where
  "clears r latch clear =
     (mc_latchId (fst clear) = dl_latchId latch \<and> rs_evaluatedAtMs (last (rr_samples r)) \<le> snd clear \<and>
      snd clear \<le> rr_evaluatedAtMs r)"

definition rr_ok :: "ParsedRecoveryRequest \<Rightarrow> bool" where
  "rr_ok r = (\<forall>smp \<in> set (rr_samples r). rs_valuation smp = valueRequest (sample_valuation_query r smp) \<and>
     vq_ok (sample_valuation_query r smp))"

lemma sample_query_ok:
  assumes "list_all (observation_ok asset) xs" "0 \<le> va_decimals asset" "va_decimals asset \<le> 36"
  shows "vq_ok (sample_query asset t xs)"
proof -
  have "(1 :: nat) < 2 ^ 256" by (rule one_less_power) simp_all
  moreover have "dec_val ''1'' = 1" by (simp add: digit_val_def)
  ultimately show ?thesis using assms unfolding vq_ok_def sample_query_def valuation_query_def ParsedValuationRequest.select_convs by simp
qed

lemma parseRecoveryRequest_ok:
  assumes "parseRecoveryRequest registry input = Inr r"
  shows "rr_ok r"
proof -
  obtain v asset xs samples e d m where p: "parseAsset registry v = Inr asset"
      "res_map (parseRecoverySample registry asset) xs = Inr samples"
      "\<lparr>rr_asset = asset, rr_evaluatedAt = fst e, rr_evaluatedAtMs = snd e, rr_depegLatch = d,
        rr_manualRiskClear = m, rr_samples = samples\<rparr> = r"
    using assms unfolding parseRecoveryRequest_def valued_iffs sum.inject by (elim exE conjE) (rule that; assumption)
  have "rs_valuation smp = valueRequest (sample_valuation_query r smp) \<and> vq_ok (sample_valuation_query r smp)"
    if "smp \<in> set samples" for smp
  proof -
    obtain w where "parseRecoverySample registry asset w = Inr smp"
      using p(2) \<open>smp \<in> set samples\<close> by (auto simp: res_map_eq_Inr list_all2_conv_all_nth in_set_conv_nth)
    note parsed = parseRecoverySample_valuation [OF this p(1)]
    show ?thesis
      using parsed(1) sample_query_ok [OF parsed(3), of "rs_evaluatedAtMs smp"] parseAsset_decimals [OF p(1)]
      by (simp add: sample_valuation_query_def p(3) [symmetric])
  qed
  then show ?thesis by (simp add: rr_ok_def p(3) [symmetric])
qed

lemma sample_reasons_iff:
  assumes "rs_valuation smp = valueRequest (sample_valuation_query r smp)" "vq_ok (sample_valuation_query r smp)"
  shows "(sample_reasons r latchedAt smp = []) = sample_at_peg r latchedAt smp"
proof -
  let ?v = "rs_valuation smp"
  have "(list_all (\<lambda>a. sa_eligibility a = ELIGIBLE_CURRENT) (sv_sourceAssessments ?v) \<and> sv_availability ?v = Price_AVAILABLE \<and>
      sv_sourceAgreement ?v = CORROBORATED \<and> sv_confidenceClass ?v = Confidence_MEDIUM \<and> valuationWithinRecoveryBand ?v) =
    (\<exists>k. corroborated_at (sample_valuation_query r smp) k \<and> 99750000 \<le> k)"
    (is "?ok = ?peg")
  proof
    assume ok: ?ok
    then obtain k where k: "corroborated_at (sample_valuation_query r smp) k"
      using agreement_corroborated [OF assms(2)] assms(1) by metis
    note fields = corroborated_value [OF assms(2) k, folded assms(1)]
    have "99750000 \<le> min k 100000000" using ok recovery_band [OF fields(1,4,5)] by blast
    then show ?peg using k by (intro exI [of _ k]) simp
  next
    assume ?peg
    then obtain k where k: "corroborated_at (sample_valuation_query r smp) k" "99750000 \<le> k" by blast
    note fields = corroborated_value [OF assms(2) k(1), folded assms(1)]
    show ?ok using fields recovery_band [OF fields(1,4,5)] k(2) by simp
  qed
  moreover have "(sample_reasons r latchedAt smp = []) =
      (latchedAt \<le> rs_evaluatedAtMs smp \<and> rs_evaluatedAtMs smp \<le> rr_evaluatedAtMs r \<and>
       (\<forall>x \<in> set (rs_observations smp). latchedAt \<le> ob_pricedAtMs x \<and> latchedAt \<le> ob_observedAtMs x) \<and>
       list_all (\<lambda>a. sa_eligibility a = ELIGIBLE_CURRENT) (sv_sourceAssessments ?v) \<and> sv_availability ?v = Price_AVAILABLE \<and>
       sv_sourceAgreement ?v = CORROBORATED \<and> sv_confidenceClass ?v = Confidence_MEDIUM \<and> valuationWithinRecoveryBand ?v)"
    by (simp add: sample_reasons_def Let_def list_ex_iff list_all_iff linorder_not_less [symmetric])
  ultimately show ?thesis unfolding sample_at_peg_def by (simp only:)
qed

lemma orderedRecoveryReasons_empty: "(orderedRecoveryReasons rs = []) = (rs = [])"
proof -
  have "r \<in> set RECOVERY_REASON_ORDER" for r by (cases r) (simp_all add: RECOVERY_REASON_ORDER_def)
  then show ?thesis by (cases rs) (auto simp: orderedRecoveryReasons_def filter_empty_conv)
qed

lemma evidence_reasons_iff:
  assumes "rr_ok r"
  shows "(evidence_reasons r latchedAt = []) = peg_evidence r latchedAt"
proof -
  have "(concat (map (sample_reasons r latchedAt) (rr_samples r)) = []) = (\<forall>smp \<in> set (rr_samples r). sample_at_peg r latchedAt smp)"
    using assms sample_reasons_iff by (simp add: rr_ok_def)
  then show ?thesis
    by (auto simp: evidence_reasons_def Let_def peg_evidence_def monotonic_evidence_iff recoverySpan_def
        consecutiveDualCorroboratedObservations_def minimumSpanMs_def not_less split: list.splits if_splits)
qed

lemma recoverRequest_cleared:
  assumes "rr_ok r"
  shows "(rv_status (recoverRequest r) = RECOVERY_CANDIDATE_CLEARED) =
    (\<exists>latch latchedAt clear. rr_depegLatch r = Some (latch, latchedAt) \<and> rr_manualRiskClear r = Some clear \<and>
       peg_evidence r latchedAt \<and> clears r latch clear)"
proof (cases "rr_depegLatch r")
  case None
  then show ?thesis by (simp add: recoverRequest_def recoveryResult_def Let_def)
next
  case (Some latch)
  obtain l t where l: "latch = (l, t)" by (cases latch)
  have reasons: "(0 < length (orderedRecoveryReasons (evidence_reasons r t))) = (\<not> peg_evidence r t)"
    using orderedRecoveryReasons_empty evidence_reasons_iff [OF assms] by simp
  have "rr_samples r \<noteq> []" if "peg_evidence r t" using that by (auto simp: peg_evidence_def)
  then show ?thesis
    using reasons
    by (auto simp: recoverRequest_def Let_def Some l recoveryResult_def clears_def split: option.splits if_splits)
qed

end
