(* ===== verification/Valuation_Samples.thy ===== *)
theory Valuation_Samples
  imports Valuation_Properties
begin

text \<open>
  A price at the peg, and the recovery request made of four such prices of both sources, ten minutes apart
  after the latch. It is parsed and cleared for every asset the registry accepts.
\<close>

subsection \<open>Single observations\<close>

lemma single_current:
  assumes "of_source q s = [x]" "watermark_for q s = Some w" "wm_lastAcceptedSequence w = None"
    "ob_pricedAtMs x \<le> ob_observedAtMs x" "ob_observedAtMs x \<le> vq_evaluatedAtMs q"
    "vq_evaluatedAtMs q - ob_pricedAtMs x \<le> 60000" "width_of x \<le> 500000"
  shows "current_evidence q s x"
  using assms by (simp add: current_evidence_def consistent_def newest_def watermark_refuses_def)

lemma year_of_mono: "t \<le> u \<Longrightarrow> year_of t \<le> year_of u"
  using day_less_iff [of "u div 86400000" "t div 86400000"] zdiv_mono1 [of t u 86400000]
  by (fastforce simp: year_of_def)

lemma four_digit_between: "four_digit_time t \<Longrightarrow> t \<le> u \<Longrightarrow> u \<le> w \<Longrightarrow> four_digit_time w \<Longrightarrow> four_digit_time u"
  using year_of_mono [of t u] year_of_mono [of u w] by (auto simp: four_digit_time_def plain_year_def valid_time_def)

definition sample_quote :: "StablecoinValuationAssetReference \<Rightarrow> StablecoinValuationSourceId \<Rightarrow> string \<Rightarrow> string \<Rightarrow> int \<Rightarrow>
    StablecoinPriceObservation" where
  "sample_quote asset s q rate t =
     \<lparr>po_asset = asset, po_sourceId = s, po_sourceReference = STABLECOIN_VALUATION_FEED_REFERENCES (va_stablecoin asset) s,
      po_sourceSequence = q, po_sourceUpdateId = (if s = PYTH_CORE then replicate 64 (hd q) else q),
      po_pricedAt = to_iso t, po_observedAt = to_iso t, po_usdRateMantissa = rate, po_usdRateScale = 8,
      po_confidence = (if s = PYTH_CORE then PUBLISHED_ABSOLUTE_USD ''0'' 8 else NOT_PUBLISHED)\<rparr>"

definition parsed_quote :: "StablecoinValuationAssetReference \<Rightarrow> StablecoinValuationSourceId \<Rightarrow> string \<Rightarrow> string \<Rightarrow> int \<Rightarrow>
    ParsedObservation" where
  "parsed_quote asset s q rate t = parsedObservation (sample_quote asset s q rate t) t t"

definition step_digit :: "string \<Rightarrow> bool" where
  "step_digit q = (q \<in> {''1'', ''2'', ''3'', ''4''})"

lemma step_digit_update: "step_digit q \<Longrightarrow> sha256_hex (replicate 64 (hd q)) \<and> positive_nat q \<and> length q \<le> 78"
  unfolding step_digit_def by (elim insertE emptyE; hypsubst; code_simp)

lemma quote_rates: "canonical_nat ''100000000'' \<and> length ''100000000'' \<le> 78" "canonical_nat ''97000000'' \<and> length ''97000000'' \<le> 78"
  "dec_val ''100000000'' = 100000000" "dec_val ''97000000'' = 97000000" "canonical_nat ''0''" "dec_val ''0'' = 0"
  by code_simp+

lemma quote_wf:
  assumes "step_digit q" "four_digit_time t" "canonical_nat rate \<and> length rate \<le> 78"
  shows "observation_wf asset (sample_quote asset s q rate t) t t"
  using step_digit_update [OF assms(1)] assms(2,3)
  by (cases s) (simp_all add: observation_wf_def sample_quote_def validSourceUpdateId_def quote_rates(5))

lemma parse_quote:
  assumes "parseAsset registry (asset_value asset) = Inr asset" "step_digit q" "four_digit_time t" "canonical_nat rate \<and> length rate \<le> 78"
  shows "parseObservation registry asset (observation_value (sample_quote asset s q rate t)) = Inr (parsed_quote asset s q rate t)"
  unfolding parsed_quote_def by (rule parse_observation_value [OF quote_wf [OF assms(2,3,4)] assms(1)])

lemma parsed_quote_fields [simp]:
  "ob_sourceId (parsed_quote asset s q rate t) = s" "ob_sequence (parsed_quote asset s q rate t) = dec_val q"
  "ob_pricedAtMs (parsed_quote asset s q rate t) = t" "ob_observedAtMs (parsed_quote asset s q rate t) = t"
  "rate_of (parsed_quote asset s q rate t) = dec_val rate" "width_of (parsed_quote asset s q rate t) = 0"
  "ob_updateId (parsed_quote asset s q rate t) = (if s = PYTH_CORE then replicate 64 (hd q) else q)"
  "conservative_of (parsed_quote asset s q rate t) = dec_val rate"
  by (simp_all add: parsed_quote_def parsedObservation_def sample_quote_def rate_of_def width_of_def conservative_of_def
      digit_val_def)

definition both_quotes :: "StablecoinValuationAssetReference \<Rightarrow> string \<Rightarrow> string \<Rightarrow> int \<Rightarrow> ParsedObservation list" where
  "both_quotes asset q rate t = map (\<lambda>s. parsed_quote asset s q rate t) STABLECOIN_VALUATION_SOURCES"

lemma quotes_current:
  assumes "vq_observations r = both_quotes asset q rate t" "vq_sourceWatermarks r = map first_use STABLECOIN_VALUATION_SOURCES"
    "t \<le> vq_evaluatedAtMs r" "vq_evaluatedAtMs r - t \<le> 60000"
  shows "current_evidence r s (parsed_quote asset s q rate t)"
proof (rule single_current [where w = "first_use s"])
  show "of_source r s = [parsed_quote asset s q rate t]"
    using assms(1) by (cases s) (simp_all add: of_source_def both_quotes_def STABLECOIN_VALUATION_SOURCES_def)
  show "watermark_for r s = Some (first_use s)"
    using assms(2) by (cases s) (simp_all add: watermark_for_def STABLECOIN_VALUATION_SOURCES_def first_use_def)
qed (use assms(3,4) in \<open>simp_all add: first_use_def\<close>)

lemma quotes_corroborated:
  assumes "vq_observations r = both_quotes asset q rate t" "vq_sourceWatermarks r = map first_use STABLECOIN_VALUATION_SOURCES"
    "t \<le> vq_evaluatedAtMs r" "vq_evaluatedAtMs r - t \<le> 60000"
  shows "corroborated_at r (dec_val rate)"
  unfolding corroborated_at_def
  by (rule exI [of _ "parsed_quote asset PYTH_CORE q rate t"], rule exI [of _ "parsed_quote asset CHAINLINK_DATA_FEEDS q rate t"])
    (simp add: quotes_current [OF assms] distance_def)

subsection \<open>A recovery request\<close>

lemma parse_event: "sha256_hex e \<Longrightarrow> parseRecoveryEventId (JString e) = Inr e"
  by (simp add: parseRecoveryEventId_def text_where_def)

lemma parse_iso: "four_digit_time t \<Longrightarrow> val_parseTimestamp (JString (to_iso t)) = Inr (to_iso t, t)"
  by (simp add: parse_time)

definition latch_value :: "StablecoinValuationAssetReference \<Rightarrow> string \<Rightarrow> int \<Rightarrow> jsval" where
  "latch_value asset latchId t = mk_object (zip [''asset'', ''latchId'', ''latchedAt''] [asset_value asset, JString latchId, JString (to_iso t)])"

definition clear_value :: "StablecoinValuationAssetReference \<Rightarrow> string \<Rightarrow> string \<Rightarrow> int \<Rightarrow> jsval" where
  "clear_value asset clearId latchId t = mk_object (zip [''asset'', ''clearId'', ''latchId'', ''clearedAt'']
     [asset_value asset, JString clearId, JString latchId, JString (to_iso t)])"

definition sample_value :: "StablecoinValuationAssetReference \<Rightarrow> string \<Rightarrow> int \<Rightarrow> jsval" where
  "sample_value asset q t = mk_object (zip [''evaluatedAt'', ''observations'']
     [JString (to_iso t), mk_array (map (\<lambda>s. observation_value (sample_quote asset s q ''100000000'' t)) STABLECOIN_VALUATION_SOURCES)])"

definition sample_steps :: "int \<Rightarrow> (string \<times> int) list" where
  "sample_steps t = [(''1'', t), (''2'', t + 600000), (''3'', t + 1200000), (''4'', t + 1800000)]"

definition recovery_value :: "StablecoinValuationAssetReference \<Rightarrow> string \<Rightarrow> string \<Rightarrow> int \<Rightarrow> jsval" where
  "recovery_value asset latchId clearId t = mk_object (zip [''asset'', ''evaluatedAt'', ''depegLatch'', ''manualRiskClear'', ''samples'']
     [asset_value asset, JString (to_iso (t + 1800000)), latch_value asset latchId t, clear_value asset clearId latchId (t + 1800000),
      mk_array (map (\<lambda>(q, t). sample_value asset q t) (sample_steps t))])"

definition peg_sample :: "VersionedSupportedAssetRegistry \<Rightarrow> StablecoinValuationAssetReference \<Rightarrow> string \<Rightarrow> int \<Rightarrow> ParsedRecoverySample" where
  "peg_sample registry asset q t =
     \<lparr>rs_evaluatedAt = to_iso t, rs_evaluatedAtMs = t, rs_observations = both_quotes asset q ''100000000'' t,
      rs_valuation = evaluateStablecoinValuation registry
        (sample_request_value asset (to_iso t) (map publicObservation (both_quotes asset q ''100000000'' t)))\<rparr>"

definition peg_request :: "VersionedSupportedAssetRegistry \<Rightarrow> StablecoinValuationAssetReference \<Rightarrow> string \<Rightarrow> string \<Rightarrow> int \<Rightarrow>
    ParsedRecoveryRequest" where
  "peg_request registry asset latchId clearId t =
     \<lparr>rr_asset = asset, rr_evaluatedAt = to_iso (t + 1800000), rr_evaluatedAtMs = t + 1800000,
      rr_depegLatch = Some (\<lparr>dl_asset = asset, dl_latchId = latchId, dl_latchedAt = to_iso t\<rparr>, t),
      rr_manualRiskClear = Some (\<lparr>mc_asset = asset, mc_clearId = clearId, mc_latchId = latchId,
        mc_clearedAt = to_iso (t + 1800000)\<rparr>, t + 1800000),
      rr_samples = map (\<lambda>(q, t). peg_sample registry asset q t) (sample_steps t)\<rparr>"

lemma parse_sample_value:
  assumes "parseAsset registry (asset_value asset) = Inr asset" "step_digit q" "four_digit_time t"
  shows "parseRecoverySample registry asset (sample_value asset q t) = Inr (peg_sample registry asset q t)"
proof -
  let ?xs = "map (\<lambda>s. observation_value (sample_quote asset s q ''100000000'' t)) STABLECOIN_VALUATION_SOURCES"
  have r: "val_dataRecord (sample_value asset q t) [''evaluatedAt'', ''observations''] =
      Inr [(''evaluatedAt'', JString (to_iso t)), (''observations'', mk_array ?xs)]"
    using literal_record [of "[''evaluatedAt'', ''observations'']" "[JString (to_iso t), mk_array ?xs]"]
    by (simp add: sample_value_def)
  have a: "val_dataArray (mk_array ?xs) 2 2 = Inr ?xs" by (rule literal_array) (simp_all add: STABLECOIN_VALUATION_SOURCES_def)
  have o: "res_map (parseObservation registry asset) ?xs = Inr (both_quotes asset q ''100000000'' t)"
    unfolding both_quotes_def by (rule res_map_Inr_map) (rule parse_quote [OF assms quote_rates(1)])
  have once: "each_source_once ob_sourceId (both_quotes asset q ''100000000'' t)"
    by (simp add: each_source_once_def both_quotes_def STABLECOIN_VALUATION_SOURCES_def)
  show ?thesis
    by (simp add: parseRecoverySample_def r js_get_def parse_iso [OF assms(3)] a o once peg_sample_def)
qed

lemma parse_recovery_value:
  assumes "parseAsset registry (asset_value asset) = Inr asset" "sha256_hex latchId" "sha256_hex clearId" "clearId \<noteq> latchId"
    "four_digit_time t" "four_digit_time (t + 1800000)"
  shows "parseRecoveryRequest registry (recovery_value asset latchId clearId t) = Inr (peg_request registry asset latchId clearId t)"
proof -
  have l: "val_dataRecord (latch_value asset latchId t) [''asset'', ''latchId'', ''latchedAt''] =
      Inr [(''asset'', asset_value asset), (''latchId'', JString latchId), (''latchedAt'', JString (to_iso t))]"
    using literal_record [of "[''asset'', ''latchId'', ''latchedAt'']" "[asset_value asset, JString latchId, JString (to_iso t)]"]
    by (simp add: latch_value_def)
  have c: "val_dataRecord (clear_value asset clearId latchId u) [''asset'', ''clearId'', ''latchId'', ''clearedAt''] =
      Inr [(''asset'', asset_value asset), (''clearId'', JString clearId), (''latchId'', JString latchId), (''clearedAt'', JString (to_iso u))]" for u
    using literal_record [of "[''asset'', ''clearId'', ''latchId'', ''clearedAt'']"
        "[asset_value asset, JString clearId, JString latchId, JString (to_iso u)]"]
    by (simp add: clear_value_def)
  let ?xs = "map (\<lambda>(q, t). sample_value asset q t) (sample_steps t)"
  have r: "val_dataRecord (recovery_value asset latchId clearId t) [''asset'', ''evaluatedAt'', ''depegLatch'', ''manualRiskClear'', ''samples''] =
      Inr [(''asset'', asset_value asset), (''evaluatedAt'', JString (to_iso (t + 1800000))), (''depegLatch'', latch_value asset latchId t),
        (''manualRiskClear'', clear_value asset clearId latchId (t + 1800000)), (''samples'', mk_array ?xs)]"
    using literal_record [of "[''asset'', ''evaluatedAt'', ''depegLatch'', ''manualRiskClear'', ''samples'']"
        "[asset_value asset, JString (to_iso (t + 1800000)), latch_value asset latchId t,
          clear_value asset clearId latchId (t + 1800000), mk_array ?xs]"]
    by (simp add: recovery_value_def)
  have same: "val_sameAsset asset asset" by (simp add: val_sameAsset_iff)
  have latch: "parseDepegLatchReference registry asset (latch_value asset latchId t) =
      Inr (\<lparr>dl_asset = asset, dl_latchId = latchId, dl_latchedAt = to_iso t\<rparr>, t)"
    by (simp add: parseDepegLatchReference_def l js_get_def assms(1) same parse_event [OF assms(2)] parse_iso [OF assms(5)])
  have clear: "parseManualRiskClearReference registry asset (clear_value asset clearId latchId (t + 1800000)) =
      Inr (\<lparr>mc_asset = asset, mc_clearId = clearId, mc_latchId = latchId, mc_clearedAt = to_iso (t + 1800000)\<rparr>, t + 1800000)"
    by (simp add: parseManualRiskClearReference_def c js_get_def assms(1) same parse_event [OF assms(2)] parse_event [OF assms(3)]
        parse_iso [OF assms(6)])
  have objects: "latch_value asset latchId t \<noteq> JNull" "clear_value asset clearId latchId u \<noteq> JNull" for u
    by (simp_all add: latch_value_def clear_value_def mk_object_def)
  have a: "val_dataArray (mk_array ?xs) 0 maxObservations = Inr ?xs"
    by (rule literal_array) (simp_all add: sample_steps_def maxObservations_def)
  have time: "four_digit_time u" if "t \<le> u" "u \<le> t + 1800000" for u
    using four_digit_between [OF assms(5) that assms(6)] .
  have "parseRecoverySample registry asset (sample_value asset q u) = Inr (peg_sample registry asset q u)"
    if "(q, u) \<in> set (sample_steps t)" for q u
    using that by (intro parse_sample_value [OF assms(1)] time) (auto simp: sample_steps_def step_digit_def)
  then have s: "res_map (parseRecoverySample registry asset) ?xs = Inr (map (\<lambda>(q, t). peg_sample registry asset q t) (sample_steps t))"
    by (intro res_map_Inr_map) auto
  show ?thesis
    using assms(4) by (simp add: parseRecoveryRequest_def r js_get_def assms(1) parse_iso [OF assms(6)] nullable_def objects latch clear a s
        peg_request_def)
qed

lemma peg_request_evidence:
  assumes "parseAsset registry (asset_value asset) = Inr asset" "sha256_hex latchId" "sha256_hex clearId" "clearId \<noteq> latchId"
    "four_digit_time t" "four_digit_time (t + 1800000)"
  shows "peg_evidence (peg_request registry asset latchId clearId t) t"
proof -
  let ?r = "peg_request registry asset latchId clearId t"
  have obs: "sample_observation (peg_sample registry asset q u) s = Some (parsed_quote asset s q ''100000000'' u)" for q u s
    by (cases s) (simp_all add: sample_observation_def peg_sample_def both_quotes_def STABLECOIN_VALUATION_SOURCES_def)
  have peg: "sample_at_peg ?r t (peg_sample registry asset q u)" if "t \<le> u" "u \<le> t + 1800000" for q u
  proof -
    have "corroborated_at (sample_valuation_query ?r (peg_sample registry asset q u)) (dec_val ''100000000'')"
      by (rule quotes_corroborated [where t = u and asset = asset and q = q]) (simp_all add: sample_valuation_query_def sample_query_def valuation_query_def peg_sample_def)
    then have "corroborated_at (sample_valuation_query ?r (peg_sample registry asset q u)) 100000000"
      by (simp only: quote_rates)
    then show ?thesis
      using that by (auto simp: sample_at_peg_def peg_request_def peg_sample_def both_quotes_def)
  qed
  have "monotonic_evidence (rr_samples ?r)"
    by (simp add: monotonic_evidence_def peg_request_def sample_steps_def observes_all_def update_of_def obs later_sample_def
        digit_val_def) (simp add: peg_sample_def)
  then show ?thesis
    using peg by (simp add: peg_evidence_def peg_request_def sample_steps_def peg_sample_def)
qed

end
