(* ===== verification/Valuation_Theorems.thy ===== *)
theory Valuation_Theorems
  imports Valuation_Samples Action_Intent
begin

text \<open>
  The properties of stablecoin valuation and recovery, for any registry and any input, each with an
  instance on an asset of the registry the program loads.
\<close>

subsection \<open>A sample asset\<close>

definition sample_versions :: VersionedSupportedAssetRegistry where
  "sample_versions =
     \<lparr>vr_environment = MAINNET, vr_versions = [1], vr_latest = sample_registry, vr_snapshots = [sample_registry]\<rparr>"

definition sample_asset :: StablecoinValuationAssetReference where
  "sample_asset =
     \<lparr>va_registryEnvironment = MAINNET, va_registryVersion = 1, va_registryFingerprintSha256 = sample_digest,
      va_stablecoin = USDC, va_networkId = ''eip155:1'', va_identity = ''0xa0b86991c6218b36c1d19d4a2e9eb0ce3606eb48'',
      va_decimals = 6\<rparr>"

lemma sample_asset_parsed: "parseAsset sample_versions (asset_value sample_asset) = Inr sample_asset"
  by code_simp

definition sample_time :: int where
  "sample_time = 1767225600000"

lemma quote_times: "four_digit_time sample_time" "four_digit_time (sample_time + 1800000)"
  by code_simp+

text \<open>One USDC, valued at the sample time on one quote of both sources.\<close>

definition quotes_request :: "string \<Rightarrow> jsval \<Rightarrow> jsval" where
  "quotes_request rate watermarks = request_value sample_asset ''1000000'' (to_iso sample_time) watermarks
     (map (\<lambda>s. sample_quote sample_asset s ''2'' rate sample_time) STABLECOIN_VALUATION_SOURCES)"

definition quotes_query :: "string \<Rightarrow> ParsedSourceWatermark list \<Rightarrow> ParsedValuationRequest" where
  "quotes_query rate ws = valuation_query sample_asset ''1000000'' sample_time ws (both_quotes sample_asset ''2'' rate sample_time)"

lemma parse_quotes_request:
  assumes "canonical_nat rate \<and> length rate \<le> 78" "parseSourceWatermarks watermarks = Inr ws"
  shows "parseValuationRequest sample_versions (quotes_request rate watermarks) = Inr (quotes_query rate ws)"
proof -
  let ?ps = "map (\<lambda>s. sample_quote sample_asset s ''2'' rate sample_time) STABLECOIN_VALUATION_SOURCES"
  let ?f = "\<lambda>p. parsed_quote sample_asset (po_sourceId p) ''2'' rate sample_time"
  have "parseValuationRequest sample_versions (request_value sample_asset ''1000000'' (to_iso sample_time) watermarks ?ps) =
      Inr (valuation_query sample_asset ''1000000'' sample_time ws (map ?f ?ps))"
  proof (rule parse_request_value [OF sample_asset_parsed quote_times(1)])
    show "length ?ps \<le> 8" by (simp add: STABLECOIN_VALUATION_SOURCES_def)
    show "parseAmount (JString ''1000000'') = Inr ''1000000''" by code_simp
    fix p assume "p \<in> set ?ps"
    then obtain s where p: "p = sample_quote sample_asset s ''2'' rate sample_time" by auto
    have "po_sourceId p = s" by (simp add: p sample_quote_def)
    then show "parseObservation sample_versions sample_asset (observation_value p) = Inr (?f p)"
      unfolding p by (simp add: parse_quote [OF sample_asset_parsed _ quote_times(1) assms(1)] step_digit_def)
  qed (rule assms(2))
  moreover have "map ?f ?ps = both_quotes sample_asset ''2'' rate sample_time"
    by (simp add: both_quotes_def sample_quote_def STABLECOIN_VALUATION_SOURCES_def)
  ultimately show ?thesis by (simp add: quotes_request_def quotes_query_def)
qed

abbreviation first_quotes :: "string \<Rightarrow> jsval" where
  "first_quotes rate \<equiv> quotes_request rate STABLECOIN_VALUATION_FIRST_USE_WATERMARKS"

abbreviation first_query :: "string \<Rightarrow> ParsedValuationRequest" where
  "first_query rate \<equiv> quotes_query rate (map first_use STABLECOIN_VALUATION_SOURCES)"

lemma parse_first_quotes:
  "parseValuationRequest sample_versions (first_quotes ''100000000'') = Inr (first_query ''100000000'')"
  "parseValuationRequest sample_versions (first_quotes ''97000000'') = Inr (first_query ''97000000'')"
  by (rule parse_quotes_request [OF quote_rates(1) parse_first_use], rule parse_quotes_request [OF quote_rates(2) parse_first_use])

lemma first_quotes_current: "current_evidence (first_query rate) s (parsed_quote sample_asset s ''2'' rate sample_time)"
  by (rule quotes_current) (simp_all add: quotes_query_def valuation_query_def)

lemma first_quotes_corroborated: "corroborated_at (first_query rate) (dec_val rate)"
  by (rule quotes_corroborated [where asset = sample_asset and q = "''2''" and t = sample_time])
    (simp_all add: quotes_query_def valuation_query_def)

lemma parsed_value:
  assumes "parseValuationRequest registry input = Inr q"
  shows "evaluateStablecoinValuation registry input = valueRequest q" "vq_ok q"
  using assms parseValuationRequest_ok by (auto simp: evaluateStablecoinValuation_def)

lemma first_quotes_available:
  "sv_availability (evaluateStablecoinValuation sample_versions (first_quotes ''100000000'')) = Price_AVAILABLE"
  using parsed_value [OF parse_first_quotes(1)] corroborated_value(1) first_quotes_corroborated by metis

text \<open>The watermark of an accepted observation.\<close>

definition accepted :: "ParsedObservation \<Rightarrow> ParsedSourceWatermark" where
  "accepted x =
     \<lparr>wm_sourceId = ob_sourceId x, wm_lastAcceptedSequence = Some (po_sourceSequence (publicObservation x)),
      wm_lastAcceptedPricedAt = Some (po_pricedAt (publicObservation x)),
      wm_lastAcceptedObservedAt = Some (po_observedAt (publicObservation x)), wm_lastAcceptedUpdateId = Some (ob_updateId x),
      wm_lastAcceptedPricedAtMs = Some (ob_pricedAtMs x), wm_lastAcceptedObservedAtMs = Some (ob_observedAtMs x)\<rparr>"

definition accepted_value :: "ParsedObservation \<Rightarrow> jsval" where
  "accepted_value x = mk_object (zip
     [''sourceId'', ''lastAcceptedSequence'', ''lastAcceptedPricedAt'', ''lastAcceptedObservedAt'', ''lastAcceptedUpdateId'']
     [JString (source_text (ob_sourceId x)), JString (po_sourceSequence (publicObservation x)),
      JString (po_pricedAt (publicObservation x)), JString (po_observedAt (publicObservation x)), JString (ob_updateId x)])"

lemma parse_accepted_value:
  assumes "observation_ok asset x" "four_digit_time (ob_pricedAtMs x)" "four_digit_time (ob_observedAtMs x)" "ob_pricedAtMs x \<le> ob_observedAtMs x"
  shows "parseSourceWatermark (accepted_value x) = Inr (accepted x)"
proof -
  let ?ks = "[''sourceId'', ''lastAcceptedSequence'', ''lastAcceptedPricedAt'', ''lastAcceptedObservedAt'', ''lastAcceptedUpdateId'']"
  let ?vs = "[JString (source_text (ob_sourceId x)), JString (po_sourceSequence (publicObservation x)),
      JString (po_pricedAt (publicObservation x)), JString (po_observedAt (publicObservation x)), JString (ob_updateId x)]"
  have r: "val_dataRecord (accepted_value x) ?ks = Inr (zip ?ks ?vs)"
    unfolding accepted_value_def by (rule literal_record) simp_all
  have g: "js_get (zip ?ks ?vs) ''sourceId'' = JString (source_text (ob_sourceId x))"
      "js_get (zip ?ks ?vs) ''lastAcceptedSequence'' = JString (po_sourceSequence (publicObservation x))"
      "js_get (zip ?ks ?vs) ''lastAcceptedPricedAt'' = JString (po_pricedAt (publicObservation x))"
      "js_get (zip ?ks ?vs) ''lastAcceptedObservedAt'' = JString (po_observedAt (publicObservation x))"
      "js_get (zip ?ks ?vs) ''lastAcceptedUpdateId'' = JString (ob_updateId x)"
    by (simp_all add: js_get_def)
  have p: "positive_nat (po_sourceSequence (publicObservation x))" "length (po_sourceSequence (publicObservation x)) \<le> 78"
      "validSourceUpdateId (ob_sourceId x) (ob_updateId x) (po_sourceSequence (publicObservation x))"
      "po_pricedAt (publicObservation x) = to_iso (ob_pricedAtMs x)" "po_observedAt (publicObservation x) = to_iso (ob_observedAtMs x)"
    using assms(1) by (simp_all add: observation_ok_def Let_def)
  show ?thesis
    unfolding parseSourceWatermark_def r res_bind.simps g
    using p(1-3) assms(2-4)
    by (simp add: parseSourceId_def source_enum.parse_spell text_where_def policy_bounds not_less p(4,5) accepted_def
        parse_iso [OF assms(2)] parse_iso [OF assms(3)])
qed

lemma replayed_assessment:
  assumes "consistent (of_source q s)" "newest (of_source q s) x" "watermark_refuses (watermark_for q s) x"
  shows "sa_eligibility (fst (assessSource q s role)) = REPLAYED_OR_REGRESSED"
proof -
  have ne: "of_source q s \<noteq> []" using assms(2) by (auto simp: newest_def)
  have x: "x = last (by_sequence (of_source q s))"
    using by_sequence_last [of "of_source q s" x] assms(1,2) ne by blast
  show ?thesis
    using assms(1,3) by_sequence_nonempty [OF ne]
    by (simp add: assessSource_def Let_def of_source_def [symmetric] by_sequence_monotonic x [symmetric]
        watermark_for_def [symmetric] internalAssessment_def publicAssessment_def)
qed

lemma assessment_listed:
  "\<exists>a \<in> set (source_assessments q). \<exists>role. a = fst (assessSource q s role)"
  by (cases s) (auto simp: source_assessments_def sourceOrder_def)

lemma assessment_source: "sa_sourceId (fst (assessSource q s role)) = s"
  by (auto simp: assessSource_def Let_def internalAssessment_def publicAssessment_def split: option.splits)

lemma parsed_quote_ok:
  assumes "step_digit q" "four_digit_time t" "canonical_nat rate \<and> length rate \<le> 78"
  shows "observation_ok asset (parsed_quote asset s q rate t)"
  using quote_wf [OF assms, of asset s]
  by (cases s) (simp_all add: observation_wf_def observation_ok_def parsed_quote_def parsedObservation_def sample_quote_def)

definition replay_watermarks :: "ParsedSourceWatermark list" where
  "replay_watermarks = map accepted (both_quotes sample_asset ''2'' ''100000000'' sample_time)"

definition replay_watermarks_value :: jsval where
  "replay_watermarks_value = mk_array (map accepted_value (both_quotes sample_asset ''2'' ''100000000'' sample_time))"

lemma parse_replay_watermarks: "parseSourceWatermarks replay_watermarks_value = Inr replay_watermarks"
proof -
  let ?xs = "both_quotes sample_asset ''2'' ''100000000'' sample_time"
  have "parseSourceWatermark (accepted_value x) = Inr (accepted x)" if "x \<in> set ?xs" for x
  proof -
    have "observation_ok sample_asset x" "ob_pricedAtMs x = sample_time" "ob_observedAtMs x = sample_time"
      using that parsed_quote_ok [OF _ quote_times(1) quote_rates(1), of "''2''"] by (auto simp: both_quotes_def step_digit_def)
    then show ?thesis using parse_accepted_value [of sample_asset x] quote_times(1) by simp
  qed
  then have "res_map parseSourceWatermark (map accepted_value ?xs) = Inr (map accepted ?xs)" by (rule res_map_Inr_map)
  moreover have "val_dataArray (mk_array (map accepted_value ?xs)) (length STABLECOIN_VALUATION_SOURCES) (length STABLECOIN_VALUATION_SOURCES) =
      Inr (map accepted_value ?xs)"
    by (rule literal_array) (simp_all add: both_quotes_def)
  moreover have "each_source_once wm_sourceId (map accepted ?xs)"
    by (simp add: each_source_once_def accepted_def both_quotes_def STABLECOIN_VALUATION_SOURCES_def)
  ultimately show ?thesis by (simp add: parseSourceWatermarks_def replay_watermarks_value_def replay_watermarks_def)
qed

subsection \<open>Properties of a valuation\<close>

text \<open>C7. An available value is conservative: its rate is the lowest conservative rate of the current
  evidence, capped at one dollar and reported with scale 8, and its value is the exact product of amount
  and rate at scale 18, rounded half to even.
\<close>

theorem available_value_is_conservative:
  assumes "parseValuationRequest registry input = Inr q"
    "sv_availability (evaluateStablecoinValuation registry input) = Price_AVAILABLE"
  shows "\<exists>k v. (\<forall>s x. current_evidence q s x \<longrightarrow> k \<le> conservative_of x) \<and>
    (\<exists>s x. current_evidence q s x \<and> k = conservative_of x) \<and>
    sv_usdRateMantissa (evaluateStablecoinValuation registry input) = Some (nat_text (min k 100000000)) \<and>
    sv_usdRateScale (evaluateStablecoinValuation registry input) = Some 8 \<and>
    sv_usdValueMantissa (evaluateStablecoinValuation registry input) = Some (nat_text v) \<and>
    half_even (vq_amount q * min k 100000000 * 10 ^ 18) (10 ^ (nat (va_decimals (vq_asset q)) + 8)) v \<and>
    v \<le> vq_amount q * 10 ^ 18"
proof -
  note parsed = parsed_value [OF assms(1)]
  obtain k cs as agreement confidence where k: "\<forall>s x. current_evidence q s x \<longrightarrow> k \<le> conservative_of x"
      "\<exists>s x. current_evidence q s x \<and> k = conservative_of x"
      "valueRequest q = availableResult q cs as agreement confidence" "sc_conservativeRate (lowest_candidate cs) = rate8 k"
    using value_rate [OF parsed(2) assms(2) [unfolded parsed(1)]] by blast
  note fields = availableResult_fields [OF parsed(2) k(4,3)]
  obtain v where v: "sv_usdValueMantissa (valueRequest q) = Some (nat_text v)"
      "half_even (vq_amount q * min k 100000000 * 10 ^ 18) (10 ^ (nat (va_decimals (vq_asset q)) + 8)) v"
      "v \<le> vq_amount q * 10 ^ 18"
    using fields(9) by blast
  show ?thesis
    unfolding parsed(1) using k(1,2) fields(2,3) v
    by - (rule exI [of _ k], rule exI [of _ v], intro conjI)
qed

theorem available_value_is_conservative_witness:
  "\<exists>k v. (\<forall>s x. current_evidence (first_query ''100000000'') s x \<longrightarrow> k \<le> conservative_of x) \<and>
    (\<exists>s x. current_evidence (first_query ''100000000'') s x \<and> k = conservative_of x) \<and>
    sv_usdRateMantissa (evaluateStablecoinValuation sample_versions (first_quotes ''100000000'')) = Some (nat_text (min k 100000000)) \<and>
    sv_usdRateScale (evaluateStablecoinValuation sample_versions (first_quotes ''100000000'')) = Some 8 \<and>
    sv_usdValueMantissa (evaluateStablecoinValuation sample_versions (first_quotes ''100000000'')) = Some (nat_text v) \<and>
    half_even (vq_amount (first_query ''100000000'') * min k 100000000 * 10 ^ 18)
      (10 ^ (nat (va_decimals (vq_asset (first_query ''100000000''))) + 8)) v \<and>
    v \<le> vq_amount (first_query ''100000000'') * 10 ^ 18"
  by (rule available_value_is_conservative [OF parse_first_quotes(1) first_quotes_available])

text \<open>A value is available exactly when some source has current evidence and the two sources, when both
  are current, differ by at most 50 basis points; its confidence is medium exactly when both are current,
  differ by at most 25 basis points and the primary source publishes a width of at most 25.
\<close>

theorem availability_and_confidence:
  assumes "parseValuationRequest registry input = Inr q"
  shows "(sv_availability (evaluateStablecoinValuation registry input) = Price_AVAILABLE) =
      ((\<exists>s x. current_evidence q s x) \<and> sources_agree 500000 q) \<and>
    (sv_confidenceClass (evaluateStablecoinValuation registry input) = Confidence_MEDIUM) =
      (\<exists>x y. current_evidence q PYTH_CORE x \<and> current_evidence q CHAINLINK_DATA_FEEDS y \<and>
         distance (rate_of x) (rate_of y) \<le> 250000 \<and> width_of x \<le> 250000)"
  unfolding parsed_value(1) [OF assms]
  using value_available [OF parsed_value(2) [OF assms]] value_medium [OF parsed_value(2) [OF assms]] by (rule conjI)

theorem availability_and_confidence_witness:
  "(sv_availability (evaluateStablecoinValuation sample_versions (first_quotes ''100000000'')) = Price_AVAILABLE) =
      ((\<exists>s x. current_evidence (first_query ''100000000'') s x) \<and> sources_agree 500000 (first_query ''100000000'')) \<and>
    (sv_confidenceClass (evaluateStablecoinValuation sample_versions (first_quotes ''100000000'')) = Confidence_MEDIUM) =
      (\<exists>x y. current_evidence (first_query ''100000000'') PYTH_CORE x \<and>
         current_evidence (first_query ''100000000'') CHAINLINK_DATA_FEEDS y \<and>
         distance (rate_of x) (rate_of y) \<le> 250000 \<and> width_of x \<le> 250000)"
  by (rule availability_and_confidence [OF parse_first_quotes(1)])

text \<open>C23. A depeg is reported exactly when some source's current evidence has a conservative rate of at most
  0.98 dollars: with one source, with two that agree, and with two in conflict.
\<close>

theorem depeg_reported_exactly:
  assumes "parseValuationRequest registry input = Inr q"
  shows "(DEPEG_DETECTED \<in> set (sv_reasons (evaluateStablecoinValuation registry input))) =
      (\<exists>s x. current_evidence q s x \<and> conservative_of x \<le> 98000000) \<and>
    (sv_depegClass (evaluateStablecoinValuation registry input) = OUTSIDE_POLICY) =
      (\<exists>s x. current_evidence q s x \<and> conservative_of x \<le> 98000000)"
  unfolding parsed_value(1) [OF assms]
  using value_depeg [OF parsed_value(2) [OF assms]] by (rule conjI)

theorem depeg_reported_exactly_witness:
  "DEPEG_DETECTED \<in> set (sv_reasons (evaluateStablecoinValuation sample_versions (first_quotes ''97000000''))) \<and>
   DEPEG_DETECTED \<notin> set (sv_reasons (evaluateStablecoinValuation sample_versions (first_quotes ''100000000'')))"
proof -
  have "current_evidence (first_query ''97000000'') PYTH_CORE (parsed_quote sample_asset PYTH_CORE ''2'' ''97000000'' sample_time)"
    by (rule first_quotes_current)
  then have low: "\<exists>s x. current_evidence (first_query ''97000000'') s x \<and> conservative_of x \<le> 98000000"
    by (intro exI conjI) (assumption, simp add: quote_rates)
  have "conservative_of x = 100000000" if "current_evidence (first_query ''100000000'') s x" for s x
    using current_unique [OF that first_quotes_current] quote_rates(3) by simp
  then have "\<not> (\<exists>s x. current_evidence (first_query ''100000000'') s x \<and> conservative_of x \<le> 98000000)" by fastforce
  with low show ?thesis
    using depeg_reported_exactly [OF parse_first_quotes(1)] depeg_reported_exactly [OF parse_first_quotes(2)] by blast
qed

text \<open>C17. Accepted evidence is not used again: when a later request carries the same observations of a source
  and the watermark of the evidence accepted before, that source is assessed as replayed, whatever the
  other source, the amount and the time.
\<close>

theorem accepted_evidence_is_not_used_again:
  assumes "parseValuationRequest registry input = Inr q" "current_evidence q s x"
    "parseValuationRequest registry later = Inr q'" "of_source q' s = of_source q s" "watermark_for q' s = Some (accepted x)"
  shows "\<exists>a \<in> set (sv_sourceAssessments (evaluateStablecoinValuation registry later)).
      sa_sourceId a = s \<and> sa_eligibility a = REPLAYED_OR_REGRESSED"
proof -
  have "consistent (of_source q' s)" "newest (of_source q' s) x" using assms(2,4) by (simp_all add: current_evidence_def)
  moreover have "watermark_refuses (watermark_for q' s) x"
    unfolding assms(5) by (simp add: watermark_refuses_def accepted_def)
  ultimately have "sa_eligibility (fst (assessSource q' s role)) = REPLAYED_OR_REGRESSED" for role by (rule replayed_assessment)
  then show ?thesis
    using assessment_listed [of q' s] assessment_source [of q' s]
    unfolding parsed_value(1) [OF assms(3)] value_assessments by metis
qed

theorem accepted_evidence_is_not_used_again_witness:
  "\<exists>a \<in> set (sv_sourceAssessments (evaluateStablecoinValuation sample_versions (quotes_request ''100000000'' replay_watermarks_value))).
      sa_sourceId a = PYTH_CORE \<and> sa_eligibility a = REPLAYED_OR_REGRESSED"
proof (rule accepted_evidence_is_not_used_again [OF parse_first_quotes(1) first_quotes_current
      parse_quotes_request [OF quote_rates(1) parse_replay_watermarks]])
  show "of_source (quotes_query ''100000000'' replay_watermarks) PYTH_CORE = of_source (first_query ''100000000'') PYTH_CORE"
    by (simp add: of_source_def quotes_query_def valuation_query_def)
  show "watermark_for (quotes_query ''100000000'' replay_watermarks) PYTH_CORE =
      Some (accepted (parsed_quote sample_asset PYTH_CORE ''2'' ''100000000'' sample_time))"
    by (simp add: watermark_for_def quotes_query_def valuation_query_def replay_watermarks_def both_quotes_def
        STABLECOIN_VALUATION_SOURCES_def accepted_def)
qed

subsection \<open>Properties of a recovery\<close>

text \<open>C8. A depeg latch is cleared exactly when the request holds a latch, at least four samples of strictly
  newer evidence spanning at least thirty minutes, every one timed between the latch and the evaluation
  with both sources current, corroborated and within 25 basis points of the peg, and a manual clear of
  that latch made after the last sample and before the evaluation.
\<close>

theorem recovery_cleared_exactly:
  "(rv_status (evaluateStablecoinRecovery registry input) = RECOVERY_CANDIDATE_CLEARED) =
    (\<exists>r latch latchedAt clear. parseRecoveryRequest registry input = Inr r \<and> rr_depegLatch r = Some (latch, latchedAt) \<and>
       rr_manualRiskClear r = Some clear \<and> peg_evidence r latchedAt \<and> clears r latch clear)"
proof (cases "parseRecoveryRequest registry input")
  case (Inl e)
  then show ?thesis by (simp add: evaluateStablecoinRecovery_def recoveryResult_def)
next
  case (Inr r)
  then have "evaluateStablecoinRecovery registry input = recoverRequest r" by (simp add: evaluateStablecoinRecovery_def)
  then show ?thesis
    unfolding Inr sum.inject using recoverRequest_cleared [OF parseRecoveryRequest_ok [OF Inr]] by (simp only:) blast
qed

text \<open>C27. A latched asset can recover: for every asset the registry accepts, every latch on it and every
  clear identifier there is a request that clears the latch, so the conditions of a recovery can be met.
\<close>

theorem latched_asset_can_recover:
  assumes "parseAsset registry v = Inr asset" "sha256_hex latchId" "sha256_hex clearId" "clearId \<noteq> latchId"
    "four_digit_time latchedAt" "four_digit_time (latchedAt + 1800000)"
  shows "\<exists>input. rv_status (evaluateStablecoinRecovery registry input) = RECOVERY_CANDIDATE_CLEARED \<and>
    rv_depegLatch (evaluateStablecoinRecovery registry input) =
      Some \<lparr>dl_asset = asset, dl_latchId = latchId, dl_latchedAt = to_iso latchedAt\<rparr>"
proof -
  note given = parse_asset_value [OF assms(1)] assms(2-)
  let ?r = "peg_request registry asset latchId clearId latchedAt"
  have parsed: "parseRecoveryRequest registry (recovery_value asset latchId clearId latchedAt) = Inr ?r"
    by (rule parse_recovery_value [OF given])
  have result: "evaluateStablecoinRecovery registry (recovery_value asset latchId clearId latchedAt) = recoverRequest ?r"
    by (simp only: evaluateStablecoinRecovery_def parsed sum.case)
  have "clears ?r (fst (the (rr_depegLatch ?r))) (the (rr_manualRiskClear ?r))"
    by (simp add: clears_def peg_request_def sample_steps_def peg_sample_def)
  moreover have latch: "rr_depegLatch ?r = Some (\<lparr>dl_asset = asset, dl_latchId = latchId, dl_latchedAt = to_iso latchedAt\<rparr>, latchedAt)"
    "rr_manualRiskClear ?r \<noteq> None"
    by (simp_all add: peg_request_def)
  ultimately have cleared: "rv_status (recoverRequest ?r) = RECOVERY_CANDIDATE_CLEARED"
    unfolding recoverRequest_cleared [OF parseRecoveryRequest_ok [OF parsed]]
    using peg_request_evidence [OF given] by auto
  have "rv_depegLatch (recoverRequest ?r) = map_option fst (rr_depegLatch ?r)"
    by (auto simp: recoverRequest_def Let_def recoveryResult_def split: option.splits)
  then show ?thesis using cleared latch(1) result by (intro exI [of _ "recovery_value asset latchId clearId latchedAt"]) simp
qed

theorem latched_asset_can_recover_witness:
  "\<exists>input. rv_status (evaluateStablecoinRecovery sample_versions input) = RECOVERY_CANDIDATE_CLEARED \<and>
    rv_depegLatch (evaluateStablecoinRecovery sample_versions input) =
      Some \<lparr>dl_asset = sample_asset, dl_latchId = replicate 64 (CHR ''a''), dl_latchedAt = to_iso sample_time\<rparr>"
proof (rule latched_asset_can_recover [OF sample_asset_parsed])
  show "sha256_hex (replicate 64 (CHR ''a''))" "sha256_hex (replicate 64 (CHR ''b''))" by code_simp+
  show "replicate 64 (CHR ''b'') \<noteq> replicate 64 (CHR ''a'')" by simp
qed (rule quote_times)+

text \<open>What the parsers return parses to itself: an accepted asset reference and an accepted observation,
  written out again, give the same parsed values.
\<close>

theorem parsed_values_reparse:
  assumes "parseAsset registry v = Inr asset" "parseObservation registry asset w = Inr x"
  shows "parseAsset registry (asset_value asset) = Inr asset \<and>
    parseObservation registry asset (observation_value (publicObservation x)) = Inr x"
proof -
  have wf: "observation_wf asset (publicObservation x) (ob_pricedAtMs x) (ob_observedAtMs x)"
    "x = parsedObservation (publicObservation x) (ob_pricedAtMs x) (ob_observedAtMs x)"
    using parseObservation_wf [OF assms(2)] by blast+
  show ?thesis
    using parse_asset_value [OF assms(1)] parse_observation_value [OF wf(1) parse_asset_value [OF assms(1)]]
    by (simp only: wf(2) [symmetric])
qed

theorem parsed_values_reparse_witness:
  "parseAsset sample_versions (asset_value sample_asset) = Inr sample_asset \<and>
    parseObservation sample_versions sample_asset
      (observation_value (publicObservation (parsed_quote sample_asset PYTH_CORE ''2'' ''100000000'' sample_time))) =
      Inr (parsed_quote sample_asset PYTH_CORE ''2'' ''100000000'' sample_time)"
  by (rule parsed_values_reparse [OF sample_asset_parsed parse_quote [OF sample_asset_parsed _ quote_times(1) quote_rates(1)]])
    (simp add: step_digit_def)

end
