(* ===== verification/Json_Text.thy ===== *)
theory Json_Text
  imports Canonical_Values
begin

text \<open>
  The JSON text of a value determines the value: no two values are written the same way, also
  when other text follows. So equal fingerprints of JSON texts mean equal contents unless the hash
  collides.
\<close>

subsection \<open>Strings\<close>

text \<open>One escaped character read back; a bare quote ends the string.\<close>

definition char_code :: "char \<Rightarrow> nat" where
  "char_code c = of_char c"

definition hex_value :: "char \<Rightarrow> nat" where
  "hex_value c = (if char_code c < 58 then char_code c - 48 else char_code c - 87)"

fun unquote_char :: "string \<Rightarrow> (char \<times> string) option" where
  "unquote_char (c # d # rest) =
     (if char_code c \<noteq> 92 then (if char_code c = 34 then None else Some (c, d # rest))
      else if d = CHR ''b'' then Some (CHR 8, rest)
      else if d = CHR ''f'' then Some (CHR 12, rest)
      else if d = CHR ''n'' then Some (CHR 10, rest)
      else if d = CHR ''r'' then Some (CHR 13, rest)
      else if d = CHR ''t'' then Some (CHR 9, rest)
      else if d = CHR ''u'' then Some (char_of (hex_value (rest ! 2) * 16 + hex_value (rest ! 3)), drop 4 rest)
      else Some (d, rest))"
| "unquote_char s = None"

lemma unquote_quote_char: "unquote_char (quote_char c @ d # rest) = Some (c, d # rest)"
proof (cases c)
  case (Char a b c d e f g h)
  then show ?thesis
    by (cases a; cases b; cases c; cases d; cases e; cases f; cases g; cases h;
        simp add: quote_char_def char_code_def hex_value_def of_char_def char_of_def bit_0;
        simp add: bit_iff_odd)
qed

lemma quote_char_first: "quote_char c @ s \<noteq> CHR 34 # t"
proof
  assume "quote_char c @ s = CHR 34 # t"
  then show False
    by (cases c) (auto simp: quote_char_def Let_def split: if_splits)
qed

lemma quote_chars_inject:
  "concat (map quote_char a) @ CHR 34 # r = concat (map quote_char b) @ CHR 34 # s \<Longrightarrow> a = b \<and> r = s"
proof (induction a arbitrary: b)
  case Nil
  then show ?case using quote_char_first by (cases b) (force dest: sym)+
next
  case (Cons x a)
  show ?case
  proof (cases b)
    case Nil
    then show ?thesis using Cons.prems quote_char_first [of x "concat (map quote_char a) @ CHR 34 # r" s] by simp
  next
    case b: (Cons y b')
    have e: "quote_char x @ (concat (map quote_char a) @ CHR 34 # r) = quote_char y @ (concat (map quote_char b') @ CHR 34 # s)"
      using Cons.prems b by simp
    obtain c u where u: "concat (map quote_char a) @ CHR 34 # r = c # u" by (cases "concat (map quote_char a) @ CHR 34 # r") simp_all
    obtain d v where v: "concat (map quote_char b') @ CHR 34 # s = d # v" by (cases "concat (map quote_char b') @ CHR 34 # s") simp_all
    have "Some (x, c # u) = Some (y, d # v)" using e unquote_quote_char [of x c u] unquote_quote_char [of y d v] by (simp only: u v)
    then have "x = y" "concat (map quote_char a) @ CHR 34 # r = concat (map quote_char b') @ CHR 34 # s" using u v by simp_all
    then show ?thesis using Cons.IH b by simp
  qed
qed

lemma quote_text_inject: "quote_text a @ r = quote_text b @ s \<Longrightarrow> a = b \<and> r = s"
  using quote_chars_inject [of a r b s] by (simp add: quote_text_def)

subsection \<open>Numbers\<close>

definition number_char :: "char \<Rightarrow> bool" where
  "number_char c = (is_digit c \<or> c = CHR ''-'')"

lemma int_text_chars: "list_all number_char (int_text n)" "int_text n \<noteq> []"
  using nat_text_digits [of "nat n"] nat_text_digits [of "nat (- n)"]
  by (auto simp: int_text_def number_char_def list_all_iff)

lemma int_text_inject: "(int_text n = int_text m) = (n = m)"
proof
  have digit: "\<not> is_digit (CHR ''-'')" by code_simp
  have no_minus: "nat_text k \<noteq> CHR ''-'' # s" for k s using nat_text_digits [of k] digit by (cases "nat_text k") auto
  assume "int_text n = int_text m"
  then show "n = m" using no_minus no_minus [symmetric] by (simp add: int_text_def split: if_splits)
qed simp

text \<open>What may follow a value inside an array or an object, or at the end.\<close>

definition stops :: "string \<Rightarrow> bool" where
  "stops r = (r = [] \<or> hd r \<in> {CHR '','', CHR '']'', CHR ''}''})"

lemma stops_simps [simp]: "stops []" "stops (CHR '','' # r)" "stops (CHR '']'' # r)" "stops (CHR ''}'' # r)"
  by (simp_all add: stops_def)

lemma stops_number: "stops r \<Longrightarrow> takeWhile number_char (int_text n @ r) = int_text n"
proof -
  assume "stops r"
  then have "takeWhile number_char r = []" by (cases r) (auto simp: stops_def number_char_def is_digit_def)
  then show ?thesis using int_text_chars(1) [of n] by (simp add: takeWhile_append list_all_iff)
qed

lemma int_text_follow: "int_text n @ r = int_text m @ s \<Longrightarrow> stops r \<Longrightarrow> stops s \<Longrightarrow> n = m \<and> r = s"
  using stops_number [of r n] stops_number [of s m] by (metis append_same_eq int_text_inject same_append_eq)

subsection \<open>Lists\<close>

text \<open>
  A printer that reads back: its texts determine the value also when more text follows, and begin with a
  character that does not close a list.
\<close>

definition reads_back :: "('a \<Rightarrow> string) \<Rightarrow> 'a \<Rightarrow> bool" where
  "reads_back f x = (\<forall>y r s. f x @ r = f y @ s \<longrightarrow> stops r \<longrightarrow> stops s \<longrightarrow> x = y \<and> r = s)"

lemma comma_join_Cons: "comma_join (x # xs) = x @ (if xs = [] then [] else CHR '','' # comma_join xs)"
  by (cases xs) simp_all

lemma comma_join_inject:
  assumes "\<And>x. x \<in> set xs \<Longrightarrow> reads_back f x" "\<And>x. f x \<noteq> [] \<and> hd (f x) \<notin> {CHR '']'', CHR ''}''}" "c \<in> {CHR '']'', CHR ''}''}"
    and "comma_join (map f xs) @ c # r = comma_join (map f ys) @ c # s"
  shows "xs = ys \<and> r = s"
  using assms(1,4)
proof (induction xs arbitrary: ys)
  case Nil
  show ?case
  proof (cases ys)
    case (Cons y ys')
    have "hd (f y) = c" using Nil(2) Cons assms(2) [of y] by (cases "f y") (auto simp: comma_join_Cons)
    then show ?thesis using assms(2) [of y] assms(3) by auto
  qed (use Nil in simp)
next
  case (Cons x xs)
  have stops: "stops ((if zs = [] then [] else CHR '','' # comma_join (map f zs)) @ c # u)" for zs u
    using assms(3) by (auto simp: stops_def)
  show ?case
  proof (cases ys)
    case Nil
    have "hd (f x) = c" using Cons.prems(2) Nil assms(2) [of x] by (cases "f x") (auto simp: comma_join_Cons)
    then show ?thesis using assms(2) [of x] assms(3) by auto
  next
    case ys: (Cons y ys')
    have "f x @ ((if xs = [] then [] else CHR '','' # comma_join (map f xs)) @ c # r) =
        f y @ ((if ys' = [] then [] else CHR '','' # comma_join (map f ys')) @ c # s)"
      using Cons.prems(2) ys by (simp add: comma_join_Cons)
    moreover have "reads_back f x" using Cons.prems(1) by simp
    ultimately have eq: "x = y" "(if xs = [] then [] else CHR '','' # comma_join (map f xs)) @ c # r =
        (if ys' = [] then [] else CHR '','' # comma_join (map f ys')) @ c # s"
      using stops unfolding reads_back_def by blast+
    show ?thesis
    proof (cases "xs = [] \<longleftrightarrow> ys' = []")
      case True
      then have "comma_join (map f xs) @ c # r = comma_join (map f ys') @ c # s" using eq(2) by (auto split: if_splits)
      then have "xs = ys' \<and> r = s" using Cons.IH Cons.prems(1) by simp
      then show ?thesis using eq(1) ys by simp
    next
      case False
      then show ?thesis using eq(2) assms(3) by (auto split: if_splits)
    qed
  qed
qed

subsection \<open>Values\<close>

lemma json_text_first: "json_text v \<noteq> [] \<and> hd (json_text v) \<notin> {CHR '']'', CHR ''}''}"
proof (cases v)
  case (JsonInt n)
  have "hd (int_text n) \<in> set (int_text n)" using int_text_chars(2) by simp
  then have "number_char (hd (int_text n))" using int_text_chars(1) by (auto simp: list_all_iff)
  then show ?thesis using JsonInt int_text_chars(2) by (auto simp: number_char_def is_digit_def)
qed (simp_all add: quote_text_def)

definition entry_text :: "string \<times> json \<Rightarrow> string" where
  "entry_text e = quote_text (fst e) @ '':'' @ json_text (snd e)"

lemma json_object_text: "json_text (JsonObject fs) = ''{'' @ comma_join (map entry_text fs) @ ''}''"
proof -
  have "entry_text = (\<lambda>(k, v). quote_text k @ '':'' @ json_text v)" by (simp add: fun_eq_iff entry_text_def)
  then show ?thesis by simp
qed

lemma entry_text_first: "entry_text e \<noteq> [] \<and> hd (entry_text e) \<notin> {CHR '']'', CHR ''}''}"
  by (simp add: entry_text_def quote_text_def)

text \<open>The first character tells the kinds of values apart.\<close>

datatype json_kind = Kind_null | Kind_true | Kind_false | Kind_number | Kind_string | Kind_array | Kind_object

fun kind_of :: "json \<Rightarrow> json_kind" where
  "kind_of JsonNull = Kind_null"
| "kind_of (JsonBool b) = (if b then Kind_true else Kind_false)"
| "kind_of (JsonInt n) = Kind_number"
| "kind_of (JsonText s) = Kind_string"
| "kind_of (JsonArray xs) = Kind_array"
| "kind_of (JsonObject fs) = Kind_object"

definition first_kind :: "char \<Rightarrow> json_kind" where
  "first_kind c =
     (if c = CHR ''n'' then Kind_null else if c = CHR ''t'' then Kind_true else if c = CHR ''f'' then Kind_false
      else if c = CHR 34 then Kind_string
      else if c = CHR ''['' then Kind_array else if c = CHR ''{'' then Kind_object else Kind_number)"

lemma first_kind_text: "first_kind (hd (json_text v @ r)) = kind_of v"
proof (cases v)
  case (JsonInt n)
  have "hd (int_text n) \<in> set (int_text n)" using int_text_chars(2) by simp
  then have "number_char (hd (int_text n))" using int_text_chars(1) by (auto simp: list_all_iff)
  then show ?thesis using JsonInt int_text_chars(2) by (auto simp: number_char_def is_digit_def first_kind_def)
qed (simp_all add: quote_text_def first_kind_def)

lemma same_kind: "json_text v @ r = json_text w @ s \<Longrightarrow> kind_of v = kind_of w"
  using first_kind_text [of v r] first_kind_text [of w s] by simp

lemma json_text_reads_back: "reads_back json_text v"
proof (induction v)
  case JsonNull
  have "v = JsonNull" if "json_text JsonNull @ r = json_text v @ s" for v r s
    using same_kind [OF that] by (cases v) (simp_all split: if_splits)
  then show ?case unfolding reads_back_def by fastforce
next
  case (JsonBool b)
  have "v = JsonBool b" if "json_text (JsonBool b) @ r = json_text v @ s" for v r s
    using same_kind [OF that] by (cases v) (simp_all split: if_splits)
  then show ?case unfolding reads_back_def by fastforce
next
  case (JsonInt n)
  show ?case
    unfolding reads_back_def
  proof (intro allI impI)
    fix v r s assume e: "json_text (JsonInt n) @ r = json_text v @ s" and stops: "stops r" "stops s"
    have "kind_of v = Kind_number" using same_kind [OF e] by simp
    then obtain m where v: "v = JsonInt m" by (cases v) (simp_all split: if_splits)
    show "JsonInt n = v \<and> r = s" using int_text_follow [of n r m s] e stops by (simp add: v)
  qed
next
  case (JsonText a)
  show ?case
    unfolding reads_back_def
  proof (intro allI impI)
    fix v r s assume e: "json_text (JsonText a) @ r = json_text v @ s"
    have "kind_of v = Kind_string" using same_kind [OF e] by simp
    then obtain b where v: "v = JsonText b" by (cases v) (simp_all split: if_splits)
    show "JsonText a = v \<and> r = s" using quote_text_inject [of a r b s] e by (simp add: v)
  qed
next
  case (JsonArray xs)
  show ?case
    unfolding reads_back_def
  proof (intro allI impI)
    fix v r s assume e: "json_text (JsonArray xs) @ r = json_text v @ s"
    have "kind_of v = Kind_array" using same_kind [OF e] by simp
    then obtain ys where v: "v = JsonArray ys" by (cases v) (simp_all split: if_splits)
    have "comma_join (map json_text xs) @ CHR '']'' # r = comma_join (map json_text ys) @ CHR '']'' # s" using e v by simp
    then have "xs = ys \<and> r = s"
      by (intro comma_join_inject [where f = json_text and c = "CHR '']''"]) (use JsonArray json_text_first in auto)
    then show "JsonArray xs = v \<and> r = s" using v by simp
  qed
next
  case (JsonObject fs)
  have entries: "reads_back entry_text e" if "e \<in> set fs" for e
    unfolding reads_back_def
  proof (intro allI impI)
    fix y r s assume eq: "entry_text e @ r = entry_text y @ s" and stops: "stops r" "stops s"
    have "reads_back json_text (snd e)" using JsonObject that by (cases e) auto
    moreover have "fst e = fst y" "json_text (snd e) @ r = json_text (snd y) @ s"
      using quote_text_inject [of "fst e" "'':'' @ json_text (snd e) @ r" "fst y" "'':'' @ json_text (snd y) @ s"] eq
      by (simp_all add: entry_text_def)
    ultimately show "e = y \<and> r = s" using stops unfolding reads_back_def by (metis prod_eqI)
  qed
  show ?case
    unfolding reads_back_def
  proof (intro allI impI)
    fix v r s assume e: "json_text (JsonObject fs) @ r = json_text v @ s"
    have "kind_of v = Kind_object" using same_kind [OF e] by simp
    then obtain gs where v: "v = JsonObject gs" by (cases v) (simp_all split: if_splits)
    have "comma_join (map entry_text fs) @ CHR ''}'' # r = comma_join (map entry_text gs) @ CHR ''}'' # s"
      using e unfolding v json_object_text by simp
    then have "fs = gs \<and> r = s"
      by (intro comma_join_inject [where f = entry_text and c = "CHR ''}''"]) (use entries entry_text_first in auto)
    then show "JsonObject fs = v \<and> r = s" using v by simp
  qed
qed

theorem json_text_inject: "(json_text v = json_text w) = (v = w)"
  using json_text_reads_back [of v] unfolding reads_back_def by (metis append_Nil2 stops_simps(1))

theorem json_utf8_inject: "(utf8 (json_text v) = utf8 (json_text w)) = (v = w)"
  using utf8_decode_encode json_text_inject by metis

end
