(* ===== verification/Js_Array.thy ===== *)
theory Js_Array
  imports Js_Value
begin

text \<open>
  What an array's \<^verbatim>\<open>map\<close> visits: the elements in order, a hole being \<open>None\<close>. No result for an array whose
  \<^verbatim>\<open>map\<close> runs other code: a foreign prototype, a \<^verbatim>\<open>map\<close> or constructor of its own, or an element with a getter.
\<close>

definition array_items :: "jsproto \<Rightarrow> nat \<Rightarrow> (jskey \<times> jsval jsdesc) list \<Rightarrow> jsval option list option" where
  "array_items proto len props =
     (if proto \<noteq> ProtoArray \<or> list_ex (\<lambda>(k, _). key_in [''map'', ''constructor''] k) props \<or>
         list_ex (\<lambda>(k, d). key_in (index_keys len) k \<and> (case d of AccessorProp _ \<Rightarrow> True | DataProp _ _ \<Rightarrow> False)) props
      then None
      else Some (map (\<lambda>k. case map_of props (KeyStr k) of Some (DataProp _ v) \<Rightarrow> Some v | _ \<Rightarrow> None) (index_keys len)))"

text \<open>\<^verbatim>\<open>array.map(f)\<close> with a callback that may throw: holes stay holes.\<close>

fun map_items :: "(jsval \<Rightarrow> 'e + 'a) \<Rightarrow> jsval option list \<Rightarrow> 'e + 'a option list" where
  "map_items f [] = Inr []"
| "map_items f (None # xs) = res_bind (map_items f xs) (\<lambda>ys. Inr (None # ys))"
| "map_items f (Some v # xs) = res_bind (f v) (\<lambda>y. res_bind (map_items f xs) (\<lambda>ys. Inr (Some y # ys)))"

lemma map_items_Some: "map_items f (map Some vs) = res_bind (res_map f vs) (\<lambda>ys. Inr (map Some ys))"
proof (induction vs)
  case (Cons v vs)
  then show ?case by (cases "f v"; cases "res_map f vs") simp_all
qed simp

lemma map_items_length: "map_items f xs = Inr ys \<Longrightarrow> length ys = length xs"
  by (induction f xs arbitrary: ys rule: map_items.induct) (auto simp: res_bind_eq_Inr)

end
