(* ===== verification/Depeg_Latch.thy ===== *)
theory Depeg_Latch
  imports Valuation_Recovery Json_Text Js_Array
begin

text \<open>
  Commands that record and clear the latch of a stablecoin depeg,
  \<^verbatim>\<open>apps/api/src/valuation/domain/stablecoin-depeg-latch.ts\<close>. The registry and SHA-256 are arguments.
  A request that reached the evaluators was read through its exact data properties, so the canonical
  JSON text is asked only of arrays without getters; for an array with a getter, a foreign prototype or
  its own \<^verbatim>\<open>map\<close> the model answers \<open>OtherThrow\<close>, as it does for a revoked proxy.
\<close>

subsection \<open>Data\<close>

datatype StablecoinDepegLatchValidationCode =
  INVALID_DEPEG_LATCH_INPUT | INVALID_DEPEG_LATCH_ASSET | VALUATION_DID_NOT_DETECT_DEPEG
  | DEPEG_EVIDENCE_FINGERPRINT_MISMATCH | INVALID_DEPEG_RECOVERY_INPUT | RECOVERY_NOT_CLEARED
  | INVALID_DEPEG_RECOVERY_AUTHORIZATION | DEPEG_RECOVERY_AUTHORIZATION_MISMATCH | OtherThrow

type_synonym 'a latched = "StablecoinDepegLatchValidationCode + 'a"

definition LATCH_RECORD_KEYS :: "string list" where
  "LATCH_RECORD_KEYS =
     [''expectedRevision'', ''correlationId'', ''latchId'', ''evidenceActorReferenceId'',
      ''depegEvidenceFingerprintSha256'', ''valuationRequest'']"

definition CLEAR_KEYS :: "string list" where
  "CLEAR_KEYS = [''evaluatedAt'', ''correlationId'', ''recoveryRequest'', ''authorization'']"

definition AUTHORIZATION_MATERIAL_KEYS :: "string list" where
  "AUTHORIZATION_MATERIAL_KEYS =
     [''schemaVersion'', ''authorizationType'', ''scope'', ''mayAuthorizeFinancialAction'', ''operation'', ''asset'',
      ''expectedLatchId'', ''expectedRevision'', ''clearId'', ''recoveryEvidenceFingerprintSha256'',
      ''evidenceActorReferenceId'', ''riskApproverReferenceId'', ''riskApproverRole'', ''issuedAt'', ''notBefore'',
      ''expiresAt'', ''nonce'']"

definition AUTHORIZATION_KEYS :: "string list" where
  "AUTHORIZATION_KEYS = AUTHORIZATION_MATERIAL_KEYS @ [''authorizationFingerprintSha256'', ''authorizationId'']"

definition DEPEG_EVIDENCE_FINGERPRINT_DOMAIN :: string where
  "DEPEG_EVIDENCE_FINGERPRINT_DOMAIN = ''crypto-lending:stablecoin-depeg-evidence:v1''"

definition RECOVERY_EVIDENCE_FINGERPRINT_DOMAIN :: string where
  "RECOVERY_EVIDENCE_FINGERPRINT_DOMAIN = ''crypto-lending:stablecoin-depeg-recovery-evidence:v1''"

definition LATCH_COMMAND_FINGERPRINT_DOMAIN :: string where
  "LATCH_COMMAND_FINGERPRINT_DOMAIN = ''crypto-lending:stablecoin-depeg-latch-command:v1''"

definition LATCH_EVENT_FINGERPRINT_DOMAIN :: string where
  "LATCH_EVENT_FINGERPRINT_DOMAIN = ''crypto-lending:stablecoin-depeg-latch-event:v1''"

definition RECOVERY_AUTHORIZATION_FINGERPRINT_DOMAIN :: string where
  "RECOVERY_AUTHORIZATION_FINGERPRINT_DOMAIN = ''crypto-lending:stablecoin-depeg-recovery-authorization:v1''"

definition CLEAR_COMMAND_FINGERPRINT_DOMAIN :: string where
  "CLEAR_COMMAND_FINGERPRINT_DOMAIN = ''crypto-lending:stablecoin-depeg-clear-command:v1''"

definition CLEAR_EVENT_FINGERPRINT_DOMAIN :: string where
  "CLEAR_EVENT_FINGERPRINT_DOMAIN = ''crypto-lending:stablecoin-depeg-clear-event:v1''"

definition AUTHORIZATION_ID_PREFIX :: string where
  "AUTHORIZATION_ID_PREFIX = ''stablecoin-depeg-latch-recovery:''"

definition STABLECOIN_DEPEG_RECOVERY_AUTHORIZATION_MAXIMUM_AGE_MILLISECONDS :: int where
  "STABLECOIN_DEPEG_RECOVERY_AUTHORIZATION_MAXIMUM_AGE_MILLISECONDS = 15 * 60 * 1000"

record NormalizedRecordStablecoinDepegLatchCommand =
  nl_asset :: StablecoinValuationAssetReference
  nl_expectedRevision :: "int option"
  nl_correlationId :: string
  nl_latchId :: string
  nl_latchedAt :: string
  nl_evidenceActorReferenceId :: string
  nl_depegEvidenceFingerprintSha256 :: string
  nl_commandFingerprintSha256 :: string
  nl_eventFingerprintSha256 :: string

text \<open>
  The material of an authorization; the fields that have one value (schema version, type, scope,
  operation, role and the financial flag) are constants of the code that reads them.
\<close>

record StablecoinDepegRecoveryAuthorizationMaterial =
  au_asset :: StablecoinValuationAssetReference
  au_expectedLatchId :: string
  au_expectedRevision :: int
  au_clearId :: string
  au_recoveryEvidenceFingerprintSha256 :: string
  au_evidenceActorReferenceId :: string
  au_riskApproverReferenceId :: string
  au_issuedAt :: string
  au_notBefore :: string
  au_expiresAt :: string
  au_nonce :: string

record StablecoinDepegRecoveryAuthorization =
  az_material :: StablecoinDepegRecoveryAuthorizationMaterial
  az_authorizationFingerprintSha256 :: string
  az_authorizationId :: string

record ValidatedRecoveryEvidence =
  re_asset :: StablecoinValuationAssetReference
  re_latchId :: string
  re_latchedAt :: string
  re_clearId :: string
  re_clearedAt :: string
  re_evaluatedAt :: string
  re_fingerprintSha256 :: string

record NormalizedClearStablecoinDepegLatchCommand =
  nc_asset :: StablecoinValuationAssetReference
  nc_evaluatedAt :: string
  nc_correlationId :: string
  nc_clearId :: string
  nc_latchId :: string
  nc_latchedAt :: string
  nc_expectedRevision :: int
  nc_recoveryEvidenceFingerprintSha256 :: string
  nc_evidenceActorReferenceId :: string
  nc_riskApproverReferenceId :: string
  nc_clearedAt :: string
  nc_authorizationIssuedAt :: string
  nc_authorizationNotBefore :: string
  nc_authorizationExpiresAt :: string
  nc_authorizationNonce :: string
  nc_authorizationFingerprintSha256 :: string
  nc_authorizationId :: string
  nc_commandFingerprintSha256 :: string
  nc_eventFingerprintSha256 :: string

subsection \<open>Values\<close>

definition ownDataRecord :: "jsval \<Rightarrow> string list \<Rightarrow> StablecoinDepegLatchValidationCode \<Rightarrow> js_record latched" where
  "ownDataRecord v expectedKeys code = of_option code (exact_data_record expectedKeys v)"

text \<open>The copy is an object without a prototype.\<close>

definition copied_object :: "js_record \<Rightarrow> jsval" where
  "copied_object r = JObject ProtoNull (map (\<lambda>(k, v). (KeyStr k, DataProp True v)) r)"

definition latch_text :: "(string \<Rightarrow> bool) \<Rightarrow> jsval \<Rightarrow> StablecoinDepegLatchValidationCode \<Rightarrow> string latched" where
  "latch_text P v code = (case v of JString s \<Rightarrow> if P s then Inr s else Inl code | _ \<Rightarrow> Inl code)"

definition latch_parseTimestamp :: "jsval \<Rightarrow> StablecoinDepegLatchValidationCode \<Rightarrow> (string \<times> int) latched" where
  "latch_parseTimestamp v code =
     res_bind (latch_text utc_pattern v code) (\<lambda>s.
       case read_timestamp s of
         None \<Rightarrow> Inl code
       | Some t \<Rightarrow> if \<not> safe_integer t \<or> t < 0 then Inl code else Inr (s, t))"

definition latch_parseUuid :: "jsval \<Rightarrow> StablecoinDepegLatchValidationCode \<Rightarrow> string latched" where
  "latch_parseUuid = latch_text uuid_v4"

definition latch_parseDigest :: "jsval \<Rightarrow> StablecoinDepegLatchValidationCode \<Rightarrow> string latched" where
  "latch_parseDigest = latch_text sha256_hex"

text \<open>\<^verbatim>\<open>/^[a-z0-9][a-z0-9._:-]{2,127}$/\<close>\<close>

definition REFERENCE :: "string \<Rightarrow> bool" where
  "REFERENCE s =
     (3 \<le> length s \<and> length s \<le> 128 \<and> hd s \<in> set ''abcdefghijklmnopqrstuvwxyz0123456789'' \<and>
      list_all (\<lambda>c. c \<in> set ''abcdefghijklmnopqrstuvwxyz0123456789._:-'') (tl s))"

definition latch_parseReference :: "jsval \<Rightarrow> StablecoinDepegLatchValidationCode \<Rightarrow> string latched" where
  "latch_parseReference = latch_text REFERENCE"

definition parseRevision :: "jsval \<Rightarrow> bool \<Rightarrow> StablecoinDepegLatchValidationCode \<Rightarrow> int option latched" where
  "parseRevision v may_be_null code =
     (if may_be_null \<and> v = JNull then Inr None
      else case v of
             JNumber (NumInt n) \<Rightarrow>
               if \<not> safe_integer n \<or> n < 1 \<or> n \<ge> 9007199254740991 then Inl code else Inr (Some n)
           | _ \<Rightarrow> Inl code)"

definition normalizeStablecoinDepegLatchAsset :: "VersionedSupportedAssetRegistry \<Rightarrow> jsval \<Rightarrow>
    StablecoinValuationAssetReference latched" where
  "normalizeStablecoinDepegLatchAsset registry v =
     res_bind (ownDataRecord v ASSET_KEYS INVALID_DEPEG_LATCH_ASSET) (\<lambda>r.
     case (js_get r ''registryFingerprintSha256'', js_get r ''stablecoin'', js_get r ''networkId'', js_get r ''identity'',
           js_get r ''decimals'') of
       (JString fingerprint, JString stablecoin, JString networkId, JString identity', JNumber (NumInt decimals)) \<Rightarrow>
         if js_get r ''registryEnvironment'' \<noteq> JString ''MAINNET'' \<or> js_get r ''registryVersion'' \<noteq> js_int 1 \<or>
            fingerprint \<noteq> sn_fingerprintSha256 (vr_latest registry) \<or> \<not> isMainnetLaunchNetwork networkId \<or>
            \<not> safe_integer decimals
         then Inl INVALID_DEPEG_LATCH_ASSET
         else
           (case atVersion registry 1 of
              None \<Rightarrow> Inl INVALID_DEPEG_LATCH_ASSET
            | Some snapshot \<Rightarrow>
                (case (identifyAsset snapshot networkId identity', byNetworkId (sn_networks snapshot) networkId) of
                   (Some registered, Some network) \<Rightarrow>
                     if net_activationState network \<noteq> ACTIVE \<or> asset_activationState registered \<noteq> ACTIVE \<or>
                        stablecoin_text (asset_stablecoin registered) \<noteq> stablecoin \<or>
                        asset_identity registered \<noteq> identity' \<or> asset_decimals registered \<noteq> decimals
                     then Inl INVALID_DEPEG_LATCH_ASSET
                     else Inr \<lparr>va_registryEnvironment = MAINNET, va_registryVersion = 1,
                               va_registryFingerprintSha256 = sn_fingerprintSha256 snapshot,
                               va_stablecoin = asset_stablecoin registered, va_networkId = asset_networkId registered,
                               va_identity = asset_identity registered, va_decimals = asset_decimals registered\<rparr>
                 | _ \<Rightarrow> Inl INVALID_DEPEG_LATCH_ASSET))
     | _ \<Rightarrow> Inl INVALID_DEPEG_LATCH_ASSET)"

subsection \<open>Canonical JSON\<close>

fun key_text :: "jskey \<Rightarrow> string" where
  "key_text (KeyStr k) = k"
| "key_text (KeySym n) = []"

definition is_symbol_key :: "jskey \<Rightarrow> bool" where
  "is_symbol_key k = (case k of KeyStr _ \<Rightarrow> False | KeySym _ \<Rightarrow> True)"

text \<open>
  \<^verbatim>\<open>encode\<close> with its node counter. An object is handed on with its own properties sorted by key, an
  array with its items.
\<close>

datatype json_view =
    View_text string
  | View_items "jsval option list"
  | View_entries "(jskey \<times> jsval jsdesc) list"
  | View_refused
  | View_throws

definition json_view :: "jsval \<Rightarrow> json_view" where
  "json_view v =
     (case v of
        JNull \<Rightarrow> View_text ''null''
      | JBool b \<Rightarrow> View_text (if b then ''true'' else ''false'')
      | JString s \<Rightarrow>
          if length s > 4096 \<or> list_ex (\<lambda>c. c \<in> {CHR 0x00, CHR 13, CHR 10}) s then View_refused else View_text (quote_text s)
      | JNumber (NumInt n) \<Rightarrow> if \<not> safe_integer n \<or> n < 0 then View_refused else View_text (int_text n)
      | _ \<Rightarrow>
          (case js_peel v of
             None \<Rightarrow> View_throws
           | Some (JArray proto len props) \<Rightarrow>
               if len > 32 then View_refused
               else (case array_items proto len props of None \<Rightarrow> View_throws | Some items \<Rightarrow> View_items items)
           | Some (JObject proto props) \<Rightarrow>
               if proto \<noteq> ProtoObject \<and> proto \<noteq> ProtoNull then View_refused
               else if length props > 64 \<or> list_ex (\<lambda>(k, _). is_symbol_key k) props then View_refused
               else View_entries (sort_key (\<lambda>(k, _). key_text k) props)
           | Some (JDate proto _) \<Rightarrow>
               if proto \<noteq> ProtoObject \<and> proto \<noteq> ProtoNull then View_refused else View_entries []
           | _ \<Rightarrow> View_refused))"

function encode :: "nat \<Rightarrow> int \<Rightarrow> jsval \<Rightarrow> (string \<times> int) latched"
  and encode_items :: "nat \<Rightarrow> int \<Rightarrow> jsval option list \<Rightarrow> (string list \<times> int) latched"
  and encode_entries :: "nat \<Rightarrow> int \<Rightarrow> (jskey \<times> jsval jsdesc) list \<Rightarrow> (string list \<times> int) latched" where
  "encode depth remaining v =
     (if remaining - 1 < 0 \<or> depth > 12 then Inl INVALID_DEPEG_LATCH_INPUT
      else case json_view v of
             View_text s \<Rightarrow> Inr (s, remaining - 1)
           | View_items xs \<Rightarrow>
               res_bind (encode_items (depth + 1) (remaining - 1) xs) (\<lambda>(texts, left). Inr (''['' @ comma_join texts @ '']'', left))
           | View_entries es \<Rightarrow>
               res_bind (encode_entries (depth + 1) (remaining - 1) es) (\<lambda>(texts, left). Inr (''{'' @ comma_join texts @ ''}'', left))
           | View_refused \<Rightarrow> Inl INVALID_DEPEG_LATCH_INPUT
           | View_throws \<Rightarrow> Inl OtherThrow)"
| "encode_items depth remaining [] = Inr ([], remaining)"
| "encode_items depth remaining (None # xs) =
     res_bind (encode_items depth remaining xs) (\<lambda>(texts, left). Inr ([] # texts, left))"
| "encode_items depth remaining (Some v # xs) =
     res_bind (encode depth remaining v) (\<lambda>(s, left).
     res_bind (encode_items depth left xs) (\<lambda>(texts, left'). Inr (s # texts, left')))"
| "encode_entries depth remaining [] = Inr ([], remaining)"
| "encode_entries depth remaining ((k, d) # es) =
     (case d of
        DataProp True v \<Rightarrow>
          res_bind (encode depth remaining v) (\<lambda>(s, left).
          res_bind (encode_entries depth left es) (\<lambda>(texts, left'). Inr ((quote_text (key_text k) @ '':'' @ s) # texts, left')))
      | _ \<Rightarrow> Inl INVALID_DEPEG_LATCH_INPUT)"
  by pat_completeness auto
termination
  by (relation "inv_image (less_than <*lex*> less_than) (\<lambda>x. case x of
        Inl (depth, remaining, v) \<Rightarrow> (14 - depth, 0)
      | Inr (Inl (depth, remaining, xs)) \<Rightarrow> (14 - depth, Suc (length xs))
      | Inr (Inr (depth, remaining, es)) \<Rightarrow> (14 - depth, Suc (length es)))") auto

definition canonicalJson :: "jsval \<Rightarrow> string latched" where
  "canonicalJson v = res_bind (encode 0 512 v) (\<lambda>(s, _). Inr s)"

definition fingerprint :: "(string \<Rightarrow> string) \<Rightarrow> string \<Rightarrow> jsval \<Rightarrow> string latched" where
  "fingerprint sha256 domain v =
     res_bind (canonicalJson v) (\<lambda>s. Inr (sha256 (utf8 (domain @ [CHR 10]) @ utf8 s)))"

subsection \<open>Recording a latch\<close>

definition revision_value :: "int option \<Rightarrow> jsval" where
  "revision_value r = (case r of None \<Rightarrow> JNull | Some n \<Rightarrow> js_int n)"

text \<open>The asset, the evaluation time and the fingerprint of depeg evidence.\<close>

definition validateDepegEvidence :: "(string \<Rightarrow> string) \<Rightarrow> VersionedSupportedAssetRegistry \<Rightarrow> jsval \<Rightarrow> string \<Rightarrow>
    (StablecoinValuationAssetReference \<times> string \<times> string) latched" where
  "validateDepegEvidence sha256 registry valuationRequest evidenceActorReferenceId =
     res_bind (ownDataRecord valuationRequest VALUATION_REQUEST_KEYS INVALID_DEPEG_LATCH_INPUT) (\<lambda>request.
     res_bind (normalizeStablecoinDepegLatchAsset registry (js_get request ''asset'')) (\<lambda>asset.
       let result = evaluateStablecoinValuation registry (copied_object request)
       in case (sv_asset result, sv_evaluatedAt result) of
            (Some resultAsset, Some evaluatedAt) \<Rightarrow>
              if \<not> val_sameAsset resultAsset asset \<or> JString evaluatedAt \<noteq> js_get request ''evaluatedAt'' \<or>
                 sv_depegClass result \<noteq> OUTSIDE_POLICY \<or> sv_downsideBand result \<noteq> DEPEGGED \<or>
                 DEPEG_DETECTED \<notin> set (sv_reasons result) \<or> sv_mayIncreaseBuyingPower result \<or>
                 sv_mayAuthorizeFinancialUse result
              then Inl VALUATION_DID_NOT_DETECT_DEPEG
              else
                res_bind (latch_parseTimestamp (JString evaluatedAt) INVALID_DEPEG_LATCH_INPUT) (\<lambda>_.
                res_bind (fingerprint sha256 DEPEG_EVIDENCE_FINGERPRINT_DOMAIN
                  (mk_array [js_int 1, JString evidenceActorReferenceId, copied_object request])) (\<lambda>fingerprintSha256.
                Inr (asset, evaluatedAt, fingerprintSha256)))
          | _ \<Rightarrow> Inl VALUATION_DID_NOT_DETECT_DEPEG))"

definition fingerprintStablecoinDepegEvidence :: "(string \<Rightarrow> string) \<Rightarrow> VersionedSupportedAssetRegistry \<Rightarrow> jsval \<Rightarrow> string latched" where
  "fingerprintStablecoinDepegEvidence sha256 registry v =
     res_bind (ownDataRecord v [''evidenceActorReferenceId'', ''valuationRequest''] INVALID_DEPEG_LATCH_INPUT) (\<lambda>r.
     res_bind (latch_parseReference (js_get r ''evidenceActorReferenceId'') INVALID_DEPEG_LATCH_INPUT) (\<lambda>actor.
     res_bind (validateDepegEvidence sha256 registry (js_get r ''valuationRequest'') actor) (\<lambda>(_, _, f). Inr f)))"

definition latch_command_value :: "StablecoinValuationAssetReference \<Rightarrow> int option \<Rightarrow> string \<Rightarrow> string \<Rightarrow> string \<Rightarrow> string \<Rightarrow> string \<Rightarrow>
    jsval" where
  "latch_command_value asset expectedRevision correlationId latchId evaluatedAt actor requestedFingerprint =
     mk_array [js_int 1, asset_value asset, revision_value expectedRevision, JString correlationId, JString latchId,
       JString evaluatedAt, JString actor, JString requestedFingerprint]"

definition latch_event_value :: "string \<Rightarrow> int \<Rightarrow> string \<Rightarrow> jsval" where
  "latch_event_value commandFingerprint revision event = mk_array [JString commandFingerprint, js_int revision, JString event]"

definition normalizeRecordStablecoinDepegLatchCommand :: "(string \<Rightarrow> string) \<Rightarrow> VersionedSupportedAssetRegistry \<Rightarrow> jsval \<Rightarrow>
    NormalizedRecordStablecoinDepegLatchCommand latched" where
  "normalizeRecordStablecoinDepegLatchCommand sha256 registry v =
     res_bind (ownDataRecord v LATCH_RECORD_KEYS INVALID_DEPEG_LATCH_INPUT) (\<lambda>r.
     res_bind (parseRevision (js_get r ''expectedRevision'') True INVALID_DEPEG_LATCH_INPUT) (\<lambda>expectedRevision.
     res_bind (latch_parseUuid (js_get r ''correlationId'') INVALID_DEPEG_LATCH_INPUT) (\<lambda>correlationId.
     res_bind (latch_parseDigest (js_get r ''latchId'') INVALID_DEPEG_LATCH_INPUT) (\<lambda>latchId.
     res_bind (latch_parseReference (js_get r ''evidenceActorReferenceId'') INVALID_DEPEG_LATCH_INPUT) (\<lambda>actor.
     res_bind (latch_parseDigest (js_get r ''depegEvidenceFingerprintSha256'') INVALID_DEPEG_LATCH_INPUT) (\<lambda>requestedFingerprint.
     res_bind (validateDepegEvidence sha256 registry (js_get r ''valuationRequest'') actor) (\<lambda>(asset, evaluatedAt, evidenceFingerprint).
     res_bind (require DEPEG_EVIDENCE_FINGERPRINT_MISMATCH (requestedFingerprint = evidenceFingerprint)) (\<lambda>_.
     res_bind (fingerprint sha256 LATCH_COMMAND_FINGERPRINT_DOMAIN
       (latch_command_value asset expectedRevision correlationId latchId evaluatedAt actor requestedFingerprint)) (\<lambda>commandFingerprint.
     res_bind (fingerprint sha256 LATCH_EVENT_FINGERPRINT_DOMAIN
       (latch_event_value commandFingerprint (case expectedRevision of None \<Rightarrow> 1 | Some n \<Rightarrow> n + 1) ''LATCHED'')) (\<lambda>eventFingerprint.
     Inr \<lparr>nl_asset = asset, nl_expectedRevision = expectedRevision, nl_correlationId = correlationId, nl_latchId = latchId,
          nl_latchedAt = evaluatedAt, nl_evidenceActorReferenceId = actor,
          nl_depegEvidenceFingerprintSha256 = requestedFingerprint, nl_commandFingerprintSha256 = commandFingerprint,
          nl_eventFingerprintSha256 = eventFingerprint\<rparr>))))))))))"

subsection \<open>Clearing a latch\<close>

definition RECOVERY_REQUEST_KEYS :: "string list" where
  "RECOVERY_REQUEST_KEYS = [''asset'', ''evaluatedAt'', ''depegLatch'', ''manualRiskClear'', ''samples'']"

definition validateRecoveryEvidence :: "(string \<Rightarrow> string) \<Rightarrow> VersionedSupportedAssetRegistry \<Rightarrow> jsval \<Rightarrow>
    ValidatedRecoveryEvidence latched" where
  "validateRecoveryEvidence sha256 registry v =
     res_bind (ownDataRecord v RECOVERY_REQUEST_KEYS INVALID_DEPEG_RECOVERY_INPUT) (\<lambda>request.
     res_bind (normalizeStablecoinDepegLatchAsset registry (js_get request ''asset'')) (\<lambda>asset.
       let result = evaluateStablecoinRecovery registry (copied_object request)
       in case (rv_asset result, rv_depegLatch result, rv_acceptedManualRiskClear result, rv_evaluatedAt result) of
            (Some resultAsset, Some latch, Some clear, Some resultEvaluatedAt) \<Rightarrow>
              if rv_status result \<noteq> RECOVERY_CANDIDATE_CLEARED \<or> \<not> rv_manualRiskClearAccepted result \<or>
                 \<not> val_sameAsset resultAsset asset \<or> JString resultEvaluatedAt \<noteq> js_get request ''evaluatedAt'' \<or>
                 rv_mayIncreaseBuyingPower result \<or> rv_mayAuthorizeFinancialUse result
              then Inl RECOVERY_NOT_CLEARED
              else
                res_bind (normalizeStablecoinDepegLatchAsset registry (asset_value (dl_asset latch))) (\<lambda>depegAsset.
                res_bind (normalizeStablecoinDepegLatchAsset registry (asset_value (mc_asset clear))) (\<lambda>clearAsset.
                res_bind (require RECOVERY_NOT_CLEARED (\<not> (\<not> val_sameAsset asset depegAsset \<or> \<not> val_sameAsset asset clearAsset))) (\<lambda>_.
                res_bind (latch_parseDigest (JString (dl_latchId latch)) INVALID_DEPEG_RECOVERY_INPUT) (\<lambda>latchId.
                res_bind (latch_parseDigest (JString (mc_clearId clear)) INVALID_DEPEG_RECOVERY_INPUT) (\<lambda>clearId.
                res_bind (latch_parseTimestamp (JString (dl_latchedAt latch)) INVALID_DEPEG_RECOVERY_INPUT) (\<lambda>latchedAt.
                res_bind (latch_parseTimestamp (JString (mc_clearedAt clear)) INVALID_DEPEG_RECOVERY_INPUT) (\<lambda>clearedAt.
                res_bind (latch_parseTimestamp (JString resultEvaluatedAt) INVALID_DEPEG_RECOVERY_INPUT) (\<lambda>evaluatedAt.
                res_bind (fingerprint sha256 RECOVERY_EVIDENCE_FINGERPRINT_DOMAIN
                  (mk_array [js_int 1, copied_object request])) (\<lambda>fingerprintSha256.
                Inr \<lparr>re_asset = asset, re_latchId = latchId, re_latchedAt = fst latchedAt, re_clearId = clearId,
                     re_clearedAt = fst clearedAt, re_evaluatedAt = fst evaluatedAt,
                     re_fingerprintSha256 = fingerprintSha256\<rparr>)))))))))
          | _ \<Rightarrow> Inl RECOVERY_NOT_CLEARED))"

definition fingerprintStablecoinDepegRecoveryEvidence :: "(string \<Rightarrow> string) \<Rightarrow> VersionedSupportedAssetRegistry \<Rightarrow> jsval \<Rightarrow>
    string latched" where
  "fingerprintStablecoinDepegRecoveryEvidence sha256 registry v =
     res_bind (validateRecoveryEvidence sha256 registry v) (\<lambda>e. Inr (re_fingerprintSha256 e))"

definition normalizeAuthorizationMaterial :: "VersionedSupportedAssetRegistry \<Rightarrow> jsval \<Rightarrow>
    StablecoinDepegRecoveryAuthorizationMaterial latched" where
  "normalizeAuthorizationMaterial registry v =
     (let code = INVALID_DEPEG_RECOVERY_AUTHORIZATION
      in res_bind (ownDataRecord v AUTHORIZATION_MATERIAL_KEYS code) (\<lambda>r.
     res_bind (require code
       (\<not> (js_get r ''schemaVersion'' \<noteq> js_int 1 \<or> js_get r ''authorizationType'' \<noteq> JString ''STABLECOIN_DEPEG_LATCH_RECOVERY'' \<or>
           js_get r ''scope'' \<noteq> JString ''DEPEG_LATCH_CLEAR_ONLY'' \<or> js_get r ''mayAuthorizeFinancialAction'' \<noteq> JBool False \<or>
           js_get r ''operation'' \<noteq> JString ''CLEAR_STABLECOIN_DEPEG_LATCH'' \<or>
           js_get r ''riskApproverRole'' \<noteq> JString ''RISK_APPROVER''))) (\<lambda>_.
     res_bind (normalizeStablecoinDepegLatchAsset registry (js_get r ''asset'')) (\<lambda>asset.
     res_bind (latch_parseDigest (js_get r ''expectedLatchId'') code) (\<lambda>expectedLatchId.
     res_bind (parseRevision (js_get r ''expectedRevision'') False code) (\<lambda>revision.
     res_bind (of_option code revision) (\<lambda>expectedRevision.
     res_bind (latch_parseDigest (js_get r ''clearId'') code) (\<lambda>clearId.
     res_bind (latch_parseDigest (js_get r ''recoveryEvidenceFingerprintSha256'') code) (\<lambda>evidenceFingerprint.
     res_bind (latch_parseReference (js_get r ''evidenceActorReferenceId'') code) (\<lambda>evidenceActor.
     res_bind (latch_parseReference (js_get r ''riskApproverReferenceId'') code) (\<lambda>riskApprover.
     res_bind (require code (\<not> (evidenceActor = riskApprover \<or> expectedLatchId = clearId))) (\<lambda>_.
     res_bind (latch_parseTimestamp (js_get r ''issuedAt'') code) (\<lambda>issuedAt.
     res_bind (latch_parseTimestamp (js_get r ''notBefore'') code) (\<lambda>notBefore.
     res_bind (latch_parseTimestamp (js_get r ''expiresAt'') code) (\<lambda>expiresAt.
     res_bind (require code
       (\<not> (snd issuedAt > snd notBefore \<or> snd expiresAt \<le> snd notBefore \<or>
           snd expiresAt - snd issuedAt > STABLECOIN_DEPEG_RECOVERY_AUTHORIZATION_MAXIMUM_AGE_MILLISECONDS))) (\<lambda>_.
     res_bind (latch_parseUuid (js_get r ''nonce'') code) (\<lambda>nonce.
     Inr \<lparr>au_asset = asset, au_expectedLatchId = expectedLatchId, au_expectedRevision = expectedRevision,
          au_clearId = clearId, au_recoveryEvidenceFingerprintSha256 = evidenceFingerprint,
          au_evidenceActorReferenceId = evidenceActor, au_riskApproverReferenceId = riskApprover,
          au_issuedAt = fst issuedAt, au_notBefore = fst notBefore, au_expiresAt = fst expiresAt, au_nonce = nonce\<rparr>)))))))))))))))))"

text \<open>The values of the material in the order of its keys: the object, and the array that is hashed.\<close>

definition material_values :: "StablecoinDepegRecoveryAuthorizationMaterial \<Rightarrow> jsval list" where
  "material_values m =
     [js_int 1, JString ''STABLECOIN_DEPEG_LATCH_RECOVERY'', JString ''DEPEG_LATCH_CLEAR_ONLY'', JBool False,
      JString ''CLEAR_STABLECOIN_DEPEG_LATCH'', asset_value (au_asset m), JString (au_expectedLatchId m),
      js_int (au_expectedRevision m), JString (au_clearId m), JString (au_recoveryEvidenceFingerprintSha256 m),
      JString (au_evidenceActorReferenceId m), JString (au_riskApproverReferenceId m), JString ''RISK_APPROVER'',
      JString (au_issuedAt m), JString (au_notBefore m), JString (au_expiresAt m), JString (au_nonce m)]"

definition material_value :: "StablecoinDepegRecoveryAuthorizationMaterial \<Rightarrow> jsval" where
  "material_value m = mk_object (zip AUTHORIZATION_MATERIAL_KEYS (material_values m))"

definition fingerprintStablecoinDepegRecoveryAuthorization :: "(string \<Rightarrow> string) \<Rightarrow> VersionedSupportedAssetRegistry \<Rightarrow> jsval \<Rightarrow>
    string latched" where
  "fingerprintStablecoinDepegRecoveryAuthorization sha256 registry v =
     res_bind (normalizeAuthorizationMaterial registry v) (\<lambda>m.
     fingerprint sha256 RECOVERY_AUTHORIZATION_FINGERPRINT_DOMAIN (mk_array (material_values m)))"

definition normalizeAuthorization :: "(string \<Rightarrow> string) \<Rightarrow> VersionedSupportedAssetRegistry \<Rightarrow> jsval \<Rightarrow>
    StablecoinDepegRecoveryAuthorization latched" where
  "normalizeAuthorization sha256 registry v =
     (let code = INVALID_DEPEG_RECOVERY_AUTHORIZATION
      in res_bind (ownDataRecord v AUTHORIZATION_KEYS code) (\<lambda>r.
     res_bind (normalizeAuthorizationMaterial registry
       (copied_object (map (\<lambda>k. (k, js_get r k)) AUTHORIZATION_MATERIAL_KEYS))) (\<lambda>m.
     res_bind (latch_parseDigest (js_get r ''authorizationFingerprintSha256'') code) (\<lambda>given.
     res_bind (fingerprintStablecoinDepegRecoveryAuthorization sha256 registry (material_value m)) (\<lambda>expected.
     res_bind (require code (given = expected)) (\<lambda>_.
     res_bind (require code (js_get r ''authorizationId'' = JString (AUTHORIZATION_ID_PREFIX @ given))) (\<lambda>_.
     Inr \<lparr>az_material = m, az_authorizationFingerprintSha256 = given,
          az_authorizationId = AUTHORIZATION_ID_PREFIX @ given\<rparr>)))))))"

text \<open>What the command fingerprint of a clear covers.\<close>

definition clear_command_value :: "ValidatedRecoveryEvidence \<Rightarrow> StablecoinDepegRecoveryAuthorization \<Rightarrow> string \<Rightarrow> string \<Rightarrow> jsval" where
  "clear_command_value recovery authorization evaluatedAt correlationId =
     (let m = az_material authorization
      in mk_array [js_int 1, asset_value (re_asset recovery), JString evaluatedAt, JString correlationId, JString (re_clearId recovery),
           JString (re_latchId recovery), JString (re_latchedAt recovery), js_int (au_expectedRevision m),
           JString (re_fingerprintSha256 recovery), JString (au_evidenceActorReferenceId m), JString (au_riskApproverReferenceId m),
           JString ''RISK_APPROVER'', JString (re_clearedAt recovery), JString (au_issuedAt m), JString (au_notBefore m),
           JString (au_expiresAt m), JString (au_nonce m), JString (az_authorizationFingerprintSha256 authorization),
           JString (az_authorizationId authorization)])"

definition normalizeClearStablecoinDepegLatchCommand :: "(string \<Rightarrow> string) \<Rightarrow> VersionedSupportedAssetRegistry \<Rightarrow> jsval \<Rightarrow>
    NormalizedClearStablecoinDepegLatchCommand latched" where
  "normalizeClearStablecoinDepegLatchCommand sha256 registry v =
     res_bind (ownDataRecord v CLEAR_KEYS INVALID_DEPEG_RECOVERY_INPUT) (\<lambda>r.
     res_bind (latch_parseTimestamp (js_get r ''evaluatedAt'') INVALID_DEPEG_RECOVERY_INPUT) (\<lambda>evaluatedAt.
     res_bind (latch_parseUuid (js_get r ''correlationId'') INVALID_DEPEG_RECOVERY_INPUT) (\<lambda>correlationId.
     res_bind (validateRecoveryEvidence sha256 registry (js_get r ''recoveryRequest'')) (\<lambda>recovery.
     res_bind (normalizeAuthorization sha256 registry (js_get r ''authorization'')) (\<lambda>authorization.
     let m = az_material authorization in
     res_bind (latch_parseTimestamp (JString (au_issuedAt m)) INVALID_DEPEG_RECOVERY_AUTHORIZATION) (\<lambda>issuedAt.
     res_bind (latch_parseTimestamp (JString (au_notBefore m)) INVALID_DEPEG_RECOVERY_AUTHORIZATION) (\<lambda>notBefore.
     res_bind (latch_parseTimestamp (JString (au_expiresAt m)) INVALID_DEPEG_RECOVERY_AUTHORIZATION) (\<lambda>expiresAt.
     res_bind (require DEPEG_RECOVERY_AUTHORIZATION_MISMATCH
       (\<not> (re_evaluatedAt recovery \<noteq> fst evaluatedAt \<or> \<not> val_sameAsset (re_asset recovery) (au_asset m) \<or>
           re_latchId recovery \<noteq> au_expectedLatchId m \<or> re_clearId recovery \<noteq> au_clearId m \<or>
           re_clearedAt recovery \<noteq> au_issuedAt m \<or>
           re_fingerprintSha256 recovery \<noteq> au_recoveryEvidenceFingerprintSha256 m \<or>
           snd evaluatedAt < snd notBefore \<or> snd evaluatedAt \<ge> snd expiresAt \<or> snd issuedAt > snd evaluatedAt))) (\<lambda>_.
     res_bind (fingerprint sha256 CLEAR_COMMAND_FINGERPRINT_DOMAIN
       (clear_command_value recovery authorization (fst evaluatedAt) correlationId)) (\<lambda>commandFingerprint.
     res_bind (fingerprint sha256 CLEAR_EVENT_FINGERPRINT_DOMAIN
       (latch_event_value commandFingerprint (au_expectedRevision m + 1) ''CLEARED'')) (\<lambda>eventFingerprint.
     Inr \<lparr>nc_asset = re_asset recovery, nc_evaluatedAt = fst evaluatedAt, nc_correlationId = correlationId,
          nc_clearId = re_clearId recovery, nc_latchId = re_latchId recovery, nc_latchedAt = re_latchedAt recovery,
          nc_expectedRevision = au_expectedRevision m, nc_recoveryEvidenceFingerprintSha256 = re_fingerprintSha256 recovery,
          nc_evidenceActorReferenceId = au_evidenceActorReferenceId m, nc_riskApproverReferenceId = au_riskApproverReferenceId m,
          nc_clearedAt = re_clearedAt recovery, nc_authorizationIssuedAt = au_issuedAt m,
          nc_authorizationNotBefore = au_notBefore m, nc_authorizationExpiresAt = au_expiresAt m,
          nc_authorizationNonce = au_nonce m,
          nc_authorizationFingerprintSha256 = az_authorizationFingerprintSha256 authorization,
          nc_authorizationId = az_authorizationId authorization, nc_commandFingerprintSha256 = commandFingerprint,
          nc_eventFingerprintSha256 = eventFingerprint\<rparr>)))))))))))"

definition stablecoinDepegRecoveryAuthorizationId :: "jsval \<Rightarrow> string latched" where
  "stablecoinDepegRecoveryAuthorizationId v =
     res_bind (latch_parseDigest v INVALID_DEPEG_RECOVERY_AUTHORIZATION) (\<lambda>s. Inr (AUTHORIZATION_ID_PREFIX @ s))"

definition stablecoinDepegLatchAssetKey :: "(string \<Rightarrow> string) \<Rightarrow> VersionedSupportedAssetRegistry \<Rightarrow> jsval \<Rightarrow> string latched" where
  "stablecoinDepegLatchAssetKey sha256 registry v =
     res_bind (normalizeStablecoinDepegLatchAsset registry v) (\<lambda>asset.
     fingerprint sha256 ''crypto-lending:stablecoin-depeg-latch-asset-key:v1'' (asset_value asset))"

definition supportedStablecoinForDepegLatch :: "VersionedSupportedAssetRegistry \<Rightarrow> jsval \<Rightarrow> SupportedStablecoin latched" where
  "supportedStablecoinForDepegLatch registry v =
     res_bind (normalizeStablecoinDepegLatchAsset registry v) (\<lambda>asset. Inr (va_stablecoin asset))"

end
