(* ===== verification/Depeg_Canonical.thy ===== *)
theory Depeg_Canonical
  imports Depeg_Latch Valuation_Recovery_Correct
begin

text \<open>
  What the canonical JSON text of \<open>Depeg_Latch\<close> says of a value. A value reads as a JSON value when its
  data properties, with the keys of objects in order, are those; the encoder prints exactly that value, or
  refuses it when it is too large. Accepted requests read as the JSON values of what the parsers return.
\<close>

subsection \<open>Reading a value\<close>

inductive reads :: "jsval \<Rightarrow> json \<Rightarrow> bool" where
  reads_null: "reads JNull JsonNull"
| reads_bool: "reads (JBool b) (JsonBool b)"
| reads_text: "reads (JString s) (JsonText s)"
| reads_int: "reads (js_int n) (JsonInt n)"
| reads_items: "json_view v = View_items (map Some vs) \<Longrightarrow> list_all2 reads vs js \<Longrightarrow> reads v (JsonArray js)"
| reads_entries: "json_view v = View_entries (map (\<lambda>(k, x). (KeyStr k, DataProp True x)) (zip ks vs)) \<Longrightarrow>
    length vs = length ks \<Longrightarrow> list_all2 reads vs js \<Longrightarrow> reads v (JsonObject (zip ks js))"

lemmas reads_scalars [simp, intro] = reads_null reads_bool reads_text reads_int

text \<open>The limits of the encoder: depth, number of nodes, length of texts, range of numbers.\<close>

definition text_fits :: "string \<Rightarrow> bool" where
  "text_fits s = (\<not> length s > 4096 \<and> \<not> list_ex (\<lambda>c. c \<in> {CHR 0x00, CHR 13, CHR 10}) s)"

fun fits :: "nat \<Rightarrow> json \<Rightarrow> bool" where
  "fits depth (JsonText s) = (\<not> depth > 12 \<and> text_fits s)"
| "fits depth (JsonInt n) = (\<not> depth > 12 \<and> safe_integer n \<and> \<not> n < 0)"
| "fits depth (JsonArray xs) = (\<not> depth > 12 \<and> list_all (fits (depth + 1)) xs)"
| "fits depth (JsonObject fs) = (\<not> depth > 12 \<and> list_all (\<lambda>e. fits (depth + 1) (snd e)) fs)"
| "fits depth JsonNull = (\<not> depth > 12)"
| "fits depth (JsonBool b) = (\<not> depth > 12)"

fun nodes :: "json \<Rightarrow> nat" where
  "nodes (JsonArray xs) = Suc (sum_list (map nodes xs))"
| "nodes (JsonObject fs) = Suc (sum_list (map (\<lambda>e. nodes (snd e)) fs))"
| "nodes j = 1"

definition encodes :: "nat \<Rightarrow> jsval \<Rightarrow> json \<Rightarrow> bool" where
  "encodes depth v j = (\<forall>n \<ge> 0. encode depth n v =
     (if fits depth j \<and> int (nodes j) \<le> n then Inr (json_text j, n - int (nodes j)) else Inl INVALID_DEPEG_LATCH_INPUT))"

declare encode.simps [simp del]

lemma encode_items_reads:
  "list_all2 (encodes depth) vs js \<Longrightarrow> 0 \<le> n \<Longrightarrow>
   encode_items depth n (map Some vs) =
     (if list_all (fits depth) js \<and> int (sum_list (map nodes js)) \<le> n
      then Inr (map json_text js, n - int (sum_list (map nodes js))) else Inl INVALID_DEPEG_LATCH_INPUT)"
proof (induction vs js arbitrary: n rule: list_all2_induct)
  case Nil
  then show ?case by simp
next
  case (Cons v vs j js)
  show ?case
  proof (cases "fits depth j \<and> int (nodes j) \<le> n")
    case True
    then have e: "encode depth n v = Inr (json_text j, n - int (nodes j))" using Cons(1,4) by (simp add: encodes_def)
    have "0 \<le> n - int (nodes j)" using True by simp
    from Cons(3) [OF this] show ?thesis using True by (auto simp: e algebra_simps)
  next
    case False
    then have "encode depth n v = Inl INVALID_DEPEG_LATCH_INPUT" using Cons(1,4) by (auto simp: encodes_def)
    then show ?thesis using False by auto
  qed
qed

lemma encode_entries_reads:
  "list_all2 (encodes depth) vs js \<Longrightarrow> length ks = length vs \<Longrightarrow> 0 \<le> n \<Longrightarrow>
   encode_entries depth n (map (\<lambda>(k, x). (KeyStr k, DataProp True x)) (zip ks vs)) =
     (if list_all (fits depth) js \<and> int (sum_list (map nodes js)) \<le> n
      then Inr (map (\<lambda>(k, v). quote_text k @ '':'' @ json_text v) (zip ks js), n - int (sum_list (map nodes js)))
      else Inl INVALID_DEPEG_LATCH_INPUT)"
proof (induction vs js arbitrary: n ks rule: list_all2_induct)
  case Nil
  then show ?case by simp
next
  case (Cons v vs j js)
  obtain k ks' where ks: "ks = k # ks'" "length ks' = length vs" using Cons.prems(1) by (cases ks) auto
  show ?case
  proof (cases "fits depth j \<and> int (nodes j) \<le> n")
    case True
    then have e: "encode depth n v = Inr (json_text j, n - int (nodes j))" using Cons(1,5) by (simp add: encodes_def)
    have "0 \<le> n - int (nodes j)" using True by simp
    from Cons(3) [OF ks(2) this] show ?thesis using True by (auto simp: e ks(1) algebra_simps)
  next
    case False
    then have "encode depth n v = Inl INVALID_DEPEG_LATCH_INPUT" using Cons(1,5) by (auto simp: encodes_def)
    then show ?thesis using False by (auto simp: ks(1))
  qed
qed

lemma zip_values: "length ks = length js \<Longrightarrow> map (\<lambda>e. nodes (snd e)) (zip ks js) = map nodes js"
    "length ks = length js \<Longrightarrow> list_all (\<lambda>e. P (snd e)) (zip ks js) = list_all P js"
  by (induction ks js rule: list_induct2) simp_all

lemma reads_encodes: "reads v j \<Longrightarrow> encodes depth v j"
proof (induction arbitrary: depth rule: reads.induct)
  case (reads_items v vs js)
  then have items: "list_all2 (encodes (Suc depth)) vs js" by (auto elim: list_all2_mono)
  show ?case
    unfolding encodes_def
    by (auto simp: encode.simps [of depth _ v] reads_items(1) encode_items_reads [OF items] split: if_splits)
next
  case (reads_entries v ks vs js)
  then have items: "list_all2 (encodes (Suc depth)) vs js" by (auto elim: list_all2_mono)
  have len: "length ks = length vs" "length ks = length js"
    using reads_entries(2,3) by (auto dest: list_all2_lengthD)
  show ?case
    unfolding encodes_def
    by (auto simp: encode.simps [of depth _ v] reads_entries(1) encode_entries_reads [OF items len(1)] zip_values [OF len(2)]
        split: if_splits)
qed (auto simp: encodes_def encode.simps json_view_def text_fits_def)

text \<open>The canonical text of a value is the JSON text of what it reads as.\<close>

definition encodable :: "json \<Rightarrow> bool" where
  "encodable j = (fits 0 j \<and> nodes j \<le> 512)"

lemma canonicalJson_reads:
  "reads v j \<Longrightarrow> canonicalJson v = (if encodable j then Inr (json_text j) else Inl INVALID_DEPEG_LATCH_INPUT)"
  using reads_encodes [of v j 0] by (auto simp: encodes_def canonicalJson_def encodable_def)

definition digest_input :: "string \<Rightarrow> json \<Rightarrow> string" where
  "digest_input domain j = utf8 (domain @ [CHR 10]) @ utf8 (json_text j)"

lemma fingerprint_reads:
  "reads v j \<Longrightarrow> fingerprint sha256 domain v =
     (if encodable j then Inr (sha256 (digest_input domain j)) else Inl INVALID_DEPEG_LATCH_INPUT)"
  by (simp add: fingerprint_def canonicalJson_reads digest_input_def)

lemma digest_input_inject: "(digest_input domain i = digest_input domain j) = (i = j)"
  by (simp add: digest_input_def json_text_inject)

subsection \<open>Exact records and arrays\<close>

lemma json_view_peel:
  "js_peel v = Some (JObject proto props) \<Longrightarrow> json_view v =
     (if proto \<noteq> ProtoObject \<and> proto \<noteq> ProtoNull then View_refused
      else if length props > 64 \<or> list_ex (\<lambda>(k, _). is_symbol_key k) props then View_refused
      else View_entries (sort_key (\<lambda>(k, _). key_text k) props))"
  "js_peel v = Some (JArray proto len ps) \<Longrightarrow> json_view v =
     (if len > 32 then View_refused
      else case array_items proto len ps of None \<Rightarrow> View_throws | Some items \<Rightarrow> View_items items)"
  by (cases v; simp add: json_view_def)+

lemma exact_props:
  assumes "length props = length keys" "\<not> list_ex (\<lambda>(k, _). \<not> key_in keys k) props" "read_data keys props = Some r" "distinct keys"
  shows "set (map fst props) = KeyStr ` set keys" "distinct (map fst props)"
    "\<And>k. k \<in> set keys \<Longrightarrow> map_of props (KeyStr k) = Some (DataProp True (js_get r k))"
    "\<And>k d. (k, d) \<in> set props \<Longrightarrow> \<exists>k'. k = KeyStr k' \<and> k' \<in> set keys \<and> d = DataProp True (js_get r k')"
proof -
  show get: "map_of props (KeyStr k) = Some (DataProp True (js_get r k))" if k: "k \<in> set keys" for k
  proof -
    obtain x where x: "map_of r k = Some x" using read_data_map_of [OF assms(3) k] by blast
    then have "map_of props (KeyStr k) = Some (DataProp True x)" using read_data_values [OF assms(3)] map_of_SomeD by fast
    then show ?thesis by (simp add: js_get_def x)
  qed
  have strings: "\<exists>k'. k = KeyStr k' \<and> k' \<in> set keys" if "(k, d) \<in> set props" for k d
    using assms(2) that by (cases k) (auto simp: list_ex_iff)
  show keys: "set (map fst props) = KeyStr ` set keys"
    using strings get by (force dest: map_of_SomeD)
  have "card (set (map fst props)) = length keys"
    unfolding keys using assms(4) by (simp add: card_image inj_on_def distinct_card)
  then show dist: "distinct (map fst props)" using assms(1) by (intro card_distinct) simp
  show "\<exists>k'. k = KeyStr k' \<and> k' \<in> set keys \<and> d = DataProp True (js_get r k')" if p: "(k, d) \<in> set props" for k d
  proof -
    obtain k' where k: "k = KeyStr k'" "k' \<in> set keys" using strings [OF p] by blast
    then show ?thesis using get [OF k(2)] map_of_is_SomeI [OF dist p] by simp
  qed
qed

lemma js_get_keys: "map fst r = keys \<Longrightarrow> distinct keys \<Longrightarrow> map (js_get r) keys = map snd r"
  by (auto simp: js_get_def)

lemma sort_props:
  assumes "set (map fst props) = KeyStr ` set keys" "distinct (map fst props)" "distinct keys"
    "\<And>k d. (k, d) \<in> set props \<Longrightarrow> \<exists>k'. k = KeyStr k' \<and> k' \<in> set keys \<and> d = DataProp True (f k')"
  shows "sort_key (\<lambda>(k, _). key_text k) props = map (\<lambda>k. (KeyStr k, DataProp True (f k))) (sort keys)"
proof -
  let ?g = "\<lambda>k. (KeyStr k, DataProp True (f k))"
  let ?sorted = "sort_key (\<lambda>(k, _). key_text k) props"
  have set: "set props = ?g ` set keys"
  proof (intro equalityI subsetI)
    fix p assume p: "p \<in> set props"
    obtain k d where kd: "p = (k, d)" by (cases p)
    then show "p \<in> ?g ` set keys" using assms(4) [of k d] p by blast
  next
    fix p assume "p \<in> ?g ` set keys"
    then obtain k where k: "k \<in> set keys" "p = ?g k" by blast
    then have "KeyStr k \<in> set (map fst props)" using assms(1) by simp
    then obtain d where d: "(KeyStr k, d) \<in> set props" by auto
    then show "p \<in> set props" using assms(4) [OF d] k(2) by auto
  qed
  have names: "map (\<lambda>(k, _). key_text k) ?sorted = sort keys"
  proof (rule sorted_distinct_set_unique)
    show "sorted (map (\<lambda>(k, _). key_text k) ?sorted)" by simp
    have "inj_on (\<lambda>(k, _). key_text k) (set props)" unfolding set by (auto simp: inj_on_def)
    moreover have "distinct props" using assms(2) distinct_map by blast
    ultimately show "distinct (map (\<lambda>(k, _). key_text k) ?sorted)" by (simp add: distinct_map)
    show "set (map (\<lambda>(k, _). key_text k) ?sorted) = set (sort keys)" by (simp add: set image_image)
  qed (use assms(3) in simp_all)
  have "map (\<lambda>p. ?g ((\<lambda>(k, _). key_text k) p)) ?sorted = ?sorted"
    by (rule map_idI) (use set in auto)
  then have "?sorted = map ?g (map (\<lambda>(k, _). key_text k) ?sorted)" by (simp add: o_def)
  then show ?thesis using names by metis
qed

text \<open>An object with its keys in order.\<close>

definition sorted_object :: "string list \<Rightarrow> json list \<Rightarrow> json" where
  "sorted_object keys js = JsonObject (map (\<lambda>k. (k, the (map_of (zip keys js) k))) (sort keys))"

lemma sorted_object_inject:
  assumes "distinct keys" "length js = length keys" "length is = length keys"
  shows "(sorted_object keys is = sorted_object keys js) = (is = js)"
proof
  assume "sorted_object keys is = sorted_object keys js"
  then have "the (map_of (zip keys is) k) = the (map_of (zip keys js) k)" if "k \<in> set keys" for k
    using that by (simp add: sorted_object_def)
  moreover have "map (\<lambda>k. the (map_of (zip keys xs) k)) keys = xs" if "length xs = length keys" for xs :: "json list"
    using assms(1) that by (intro nth_equalityI) (simp_all add: map_of_zip_nth)
  ultimately show "is = js" using assms(2,3) by (metis (no_types, lifting) map_cong)
qed simp

lemma reads_record:
  assumes "exact_data_record keys v = Some r" "distinct keys" "length keys \<le> 64" "list_all2 reads (map (js_get r) keys) js"
  shows "reads v (sorted_object keys js)"
proof -
  obtain proto props where v: "js_peel v = Some (JObject proto props)" "proto = ProtoObject \<or> proto = ProtoNull"
      "length props = length keys" "\<not> list_ex (\<lambda>(k, _). \<not> key_in keys k) props" "read_data keys props = Some r"
    using assms(1) by (auto simp: exact_data_record_def split: option.splits jsval.splits if_splits)
  note props = exact_props [OF v(3,4,5) assms(2)]
  have "\<not> list_ex (\<lambda>(k, _). is_symbol_key k) props" using props(4) by (fastforce simp: list_ex_iff is_symbol_key_def)
  then have "json_view v = View_entries (map (\<lambda>k. (KeyStr k, DataProp True (js_get r k))) (sort keys))"
    using json_view_peel(1) [OF v(1)] v(2,3) assms(3) sort_props [OF props(1,2) assms(2) props(4)] by auto
  also have "map (\<lambda>k. (KeyStr k, DataProp True (js_get r k))) (sort keys) =
      map (\<lambda>(k, x). (KeyStr k, DataProp True x)) (zip (sort keys) (map (js_get r) (sort keys)))"
    by (simp add: zip_map2 zip_same_conv_map)
  finally have view: "json_view v = View_entries (map (\<lambda>(k, x). (KeyStr k, DataProp True x)) (zip (sort keys) (map (js_get r) (sort keys))))" .
  have len: "length js = length keys" using assms(4) by (auto dest: list_all2_lengthD)
  have each: "reads (js_get r k) (the (map_of (zip keys js) k))" if k: "k \<in> set keys" for k
  proof -
    obtain i where i: "i < length keys" "keys ! i = k" using k by (auto simp: in_set_conv_nth)
    then have "reads (js_get r k) (js ! i)" using list_all2_nthD [OF assms(4), of i] by simp
    moreover have "map_of (zip keys js) k = Some (js ! i)" using i len assms(2) by (metis map_of_zip_nth)
    ultimately show ?thesis by simp
  qed
  have "list_all2 reads (map (js_get r) (sort keys)) (map (\<lambda>k. the (map_of (zip keys js) k)) (sort keys))"
    using each by (simp add: list_all2_map1 list_all2_map2 list_all2_same)
  from reads_entries [OF view _ this]
  have "reads v (JsonObject (zip (sort keys) (map (\<lambda>k. the (map_of (zip keys js) k)) (sort keys))))" by (simp only: length_map)
  then show ?thesis by (simp only: sorted_object_def zip_map2 zip_same_conv_map map_map prod.case o_def)
qed

lemma index_key_shape: "k \<in> set (index_keys n) \<Longrightarrow> k \<noteq> ''map'' \<and> k \<noteq> ''constructor''"
proof -
  assume "k \<in> set (index_keys n)"
  then have "list_all is_digit k" using nat_text_digits by (auto simp: index_keys_def)
  moreover have "\<not> list_all is_digit ''map''" "\<not> list_all is_digit ''constructor''" by code_simp+
  ultimately show ?thesis by metis
qed

lemma reads_array:
  assumes "exact_data_array lo hi v = Some vs" "length vs \<le> 32" "list_all2 reads vs js"
  shows "reads v (JsonArray js)"
proof -
  obtain len props r where v: "js_peel v = Some (JArray ProtoArray len props)" "length props = length (index_keys len)"
      "\<not> list_ex (\<lambda>(k, _). \<not> key_in (index_keys len) k) props" "read_data (index_keys len) props = Some r" "vs = map snd r"
    using assms(1) by (auto simp: exact_data_array_def split: option.splits jsval.splits if_splits)
  have keys: "map fst r = index_keys len" by (rule read_data_keys [OF v(4)])
  have len: "length vs = len" using keys v(5) by (metis length_index_keys length_map)
  note props = exact_props [OF v(2,3,4) distinct_index_keys]
  have "\<not> list_ex (\<lambda>(k, _). key_in [''map'', ''constructor''] k) props"
    using props(4) index_key_shape [of _ len] by (fastforce simp: list_ex_iff)
  moreover have "\<not> list_ex (\<lambda>(k, d). key_in (index_keys len) k \<and> (case d of AccessorProp _ \<Rightarrow> True | DataProp _ _ \<Rightarrow> False)) props"
    using props(4) by (fastforce simp: list_ex_iff)
  moreover have "map (\<lambda>k. case map_of props (KeyStr k) of Some (DataProp _ v) \<Rightarrow> Some v | _ \<Rightarrow> None) (index_keys len) =
      map Some (map (js_get r) (index_keys len))"
    using props(3) by simp
  ultimately have "array_items ProtoArray len props = Some (map Some vs)"
    unfolding array_items_def v(5) js_get_keys [OF keys distinct_index_keys, symmetric] by simp
  then have "json_view v = View_items (map Some vs)" using json_view_peel(2) [OF v(1)] len assms(2) by simp
  then show ?thesis using assms(3) by (rule reads_items)
qed

text \<open>The same for the copies of the domain modules and for the values the code builds.\<close>

lemma reads_own:
  assumes "ownDataRecord v keys code = Inr r" "distinct keys" "length keys \<le> 64" "list_all2 reads (map (js_get r) keys) js"
  shows "reads v (sorted_object keys js)"
  using assms(1) by (intro reads_record [OF _ assms(2-4)]) (simp add: ownDataRecord_def of_option_eq_Inr)

lemma reads_val_record:
  assumes "val_dataRecord v keys = Inr r" "distinct keys" "length keys \<le> 64" "list_all2 reads (map (js_get r) keys) js"
  shows "reads v (sorted_object keys js)"
  using assms(1) by (intro reads_record [OF _ assms(2-4)]) (simp add: val_dataRecord_def of_option_eq_Inr)

lemma reads_val_array:
  assumes "val_dataArray v lo hi = Inr vs" "hi \<le> 32" "list_all2 reads vs js"
  shows "reads v (JsonArray js)"
proof -
  have "exact_data_array lo hi v = Some vs" using assms(1) by (simp add: val_dataArray_def of_option_eq_Inr)
  then show ?thesis using reads_array [of lo hi v vs js] exact_data_array_bounds [of lo hi v vs] assms(2,3) by simp
qed

lemma copied_record:
  assumes "map fst r = keys" "distinct keys"
  shows "exact_data_record keys (copied_object r) = Some r"
proof -
  have "exact_data_record keys (mk_object r) = Some r"
    using exact_data_record_literal [of r keys] assms by simp
  then show ?thesis by (simp add: exact_data_record_def copied_object_def mk_object_def)
qed

lemma own_keys: "ownDataRecord v keys code = Inr r \<Longrightarrow> map fst r = keys"
  by (simp add: ownDataRecord_def of_option_eq_Inr exact_data_record_keys)

lemma reads_copied:
  assumes "ownDataRecord v keys code = Inr r" "distinct keys" "length keys \<le> 64" "list_all2 reads (map (js_get r) keys) js"
  shows "reads (copied_object r) (sorted_object keys js)"
  by (rule reads_record [OF copied_record [OF own_keys [OF assms(1)] assms(2)] assms(2-4)])

lemma reads_mk_array: "length vs \<le> 32 \<Longrightarrow> list_all2 reads vs js \<Longrightarrow> reads (mk_array vs) (JsonArray js)"
  using reads_array [OF exact_data_array_literal [of 0 vs "length vs"]] by simp

lemma reads_mk_object:
  assumes "distinct keys" "length keys \<le> 64" "length vs = length keys" "list_all2 reads vs js"
  shows "reads (mk_object (zip keys vs)) (sorted_object keys js)"
proof -
  have "exact_data_record keys (mk_object (zip keys vs)) = Some (zip keys vs)"
    using exact_data_record_literal [of "zip keys vs" keys] assms(1,3) by simp
  moreover have "map (js_get (zip keys vs)) keys = vs"
    using js_get_keys [of "zip keys vs" keys] assms(1,3) by simp
  ultimately show ?thesis using reads_record [of keys _ "zip keys vs" js] assms(1,2,4) by simp
qed

subsection \<open>The JSON values of accepted data\<close>

definition asset_reference_json :: "StablecoinValuationAssetReference \<Rightarrow> json" where
  "asset_reference_json a = sorted_object ASSET_KEYS
     [JsonText (environment_text (va_registryEnvironment a)), JsonInt (va_registryVersion a),
      JsonText (va_registryFingerprintSha256 a), JsonText (stablecoin_text (va_stablecoin a)), JsonText (va_networkId a),
      JsonText (va_identity a), JsonInt (va_decimals a)]"

fun confidence_json :: "StablecoinPriceConfidence \<Rightarrow> json" where
  "confidence_json (PUBLISHED_ABSOLUTE_USD m k) = sorted_object [''kind'', ''mantissa'', ''scale'']
     [JsonText ''PUBLISHED_ABSOLUTE_USD'', JsonText m, JsonInt (int k)]"
| "confidence_json NOT_PUBLISHED = sorted_object [''kind''] [JsonText ''NOT_PUBLISHED'']"

definition observation_json :: "StablecoinPriceObservation \<Rightarrow> json" where
  "observation_json p = sorted_object OBSERVATION_KEYS
     [asset_reference_json (po_asset p), JsonText (source_text (po_sourceId p)), JsonText (po_sourceReference p),
      JsonText (po_sourceSequence p), JsonText (po_sourceUpdateId p), JsonText (po_pricedAt p), JsonText (po_observedAt p),
      JsonText (po_usdRateMantissa p), JsonInt (int (po_usdRateScale p)), confidence_json (po_confidence p)]"

definition sample_json :: "ParsedRecoverySample \<Rightarrow> json" where
  "sample_json x = sorted_object [''evaluatedAt'', ''observations'']
     [JsonText (rs_evaluatedAt x), JsonArray (map (\<lambda>o'. observation_json (publicObservation o')) (rs_observations x))]"

definition latch_json :: "StablecoinDepegLatchReference \<Rightarrow> json" where
  "latch_json l = sorted_object [''asset'', ''latchId'', ''latchedAt'']
     [asset_reference_json (dl_asset l), JsonText (dl_latchId l), JsonText (dl_latchedAt l)]"

definition clear_json :: "StablecoinManualRiskClearReference \<Rightarrow> json" where
  "clear_json c = sorted_object [''asset'', ''clearId'', ''latchId'', ''clearedAt'']
     [asset_reference_json (mc_asset c), JsonText (mc_clearId c), JsonText (mc_latchId c), JsonText (mc_clearedAt c)]"

definition option_json :: "('a \<Rightarrow> json) \<Rightarrow> 'a option \<Rightarrow> json" where
  "option_json f x = (case x of None \<Rightarrow> JsonNull | Some y \<Rightarrow> f y)"

definition recovery_json :: "ParsedRecoveryRequest \<Rightarrow> json" where
  "recovery_json r = sorted_object RECOVERY_REQUEST_KEYS
     [asset_reference_json (rr_asset r), JsonText (rr_evaluatedAt r), option_json (\<lambda>l. latch_json (fst l)) (rr_depegLatch r),
      option_json (\<lambda>c. clear_json (fst c)) (rr_manualRiskClear r), JsonArray (map sample_json (rr_samples r))]"

lemma keys_ok:
  "distinct ASSET_KEYS" "length ASSET_KEYS = 7" "distinct OBSERVATION_KEYS" "length OBSERVATION_KEYS = 10"
  "distinct RECOVERY_REQUEST_KEYS" "length RECOVERY_REQUEST_KEYS = 5"
  "distinct VALUATION_REQUEST_KEYS" "length VALUATION_REQUEST_KEYS = 5"
  by (simp_all add: ASSET_KEYS_def OBSERVATION_KEYS_def RECOVERY_REQUEST_KEYS_def VALUATION_REQUEST_KEYS_def)

lemma reads_asset_value: "reads (asset_value a) (asset_reference_json a)"
  unfolding asset_value_def asset_reference_json_def by (rule reads_mk_object) (simp_all add: keys_ok)

lemma reads_asset:
  assumes "parseAsset registry v = Inr a"
  shows "reads v (asset_reference_json a)"
proof -
  obtain r registryVersion fingerprint stablecoin networkId identity' decimals where r: "val_dataRecord v ASSET_KEYS = Inr r"
      "js_get r ''registryEnvironment'' = JString ''MAINNET''" "js_get r ''registryVersion'' = js_int registryVersion"
      "js_get r ''registryFingerprintSha256'' = JString fingerprint"
      "parse_enum stablecoin_text SUPPORTED_STABLECOINS (js_get r ''stablecoin'') = Some stablecoin"
      "js_get r ''networkId'' = JString networkId" "js_get r ''identity'' = JString identity'"
      "js_get r ''decimals'' = js_int decimals"
    and a: "\<lparr>va_registryEnvironment = MAINNET, va_registryVersion = registryVersion,
          va_registryFingerprintSha256 = fingerprint, va_stablecoin = stablecoin, va_networkId = networkId,
          va_identity = identity', va_decimals = decimals\<rparr> = a"
    using assms unfolding parseAsset_def valued_iffs sum.inject by (elim exE conjE) (rule that; assumption)
  have "js_get r ''stablecoin'' = JString (stablecoin_text stablecoin)" using r(5) by (simp add: stablecoin_enum.parse_iff)
  then have "list_all2 reads (map (js_get r) ASSET_KEYS)
     [JsonText (environment_text (va_registryEnvironment a)), JsonInt (va_registryVersion a),
      JsonText (va_registryFingerprintSha256 a), JsonText (stablecoin_text (va_stablecoin a)), JsonText (va_networkId a),
      JsonText (va_identity a), JsonInt (va_decimals a)]"
    using r by (simp add: ASSET_KEYS_def a [symmetric])
  then show ?thesis unfolding asset_reference_json_def by (intro reads_val_record [OF r(1)]) (simp_all add: keys_ok)
qed

lemma reads_confidence:
  assumes "parseConfidence v s = Inr c"
  shows "reads v (confidence_json c)"
proof (cases "s = PYTH_CORE")
  case True
  obtain r k m where r: "val_dataRecord v [''kind'', ''mantissa'', ''scale''] = Inr r" "js_get r ''scale'' = js_int (int k)"
      "js_get r ''kind'' = JString ''PUBLISHED_ABSOLUTE_USD''" "js_get r ''mantissa'' = JString m" "c = PUBLISHED_ABSOLUTE_USD m k"
    using assms True by (auto simp: parseConfidence_def valued_iffs)
  show ?thesis unfolding r(5) confidence_json.simps by (rule reads_val_record [OF r(1)]) (simp_all add: r(2-4))
next
  case False
  obtain r where r: "val_dataRecord v [''kind''] = Inr r" "js_get r ''kind'' = JString ''NOT_PUBLISHED''" "c = NOT_PUBLISHED"
    using assms False by (auto simp: parseConfidence_def valued_iffs)
  show ?thesis unfolding r(3) confidence_json.simps by (rule reads_val_record [OF r(1)]) (simp_all add: r(2))
qed

lemma parseSourceId_iff: "(parseSourceId v = Inr s) = (v = JString (source_text s))"
  by (simp add: parseSourceId_def of_option_eq_Inr source_enum.parse_iff)

lemma timestamp_text: "val_parseTimestamp v = Inr p \<Longrightarrow> v = JString (fst p)"
  by (cases p) (simp add: val_parseTimestamp_iff)

lemma reads_observation:
  assumes "parseObservation registry asset v = Inr x"
  shows "reads v (observation_json (publicObservation x))"
proof -
  obtain r a s k ref seq upd rate pa oa c where r: "val_dataRecord v OBSERVATION_KEYS = Inr r"
      "parseAsset registry (js_get r ''asset'') = Inr a" "js_get r ''sourceId'' = JString (source_text s)"
      "js_get r ''usdRateScale'' = js_int (int k)" "js_get r ''sourceReference'' = JString ref"
      "js_get r ''sourceSequence'' = JString seq" "js_get r ''sourceUpdateId'' = JString upd"
      "js_get r ''usdRateMantissa'' = JString rate" "val_parseTimestamp (js_get r ''pricedAt'') = Inr pa"
      "val_parseTimestamp (js_get r ''observedAt'') = Inr oa" "parseConfidence (js_get r ''confidence'') s = Inr c"
    and x: "parsedObservation
       \<lparr>po_asset = a, po_sourceId = s, po_sourceReference = ref,
        po_sourceSequence = seq, po_sourceUpdateId = upd, po_pricedAt = fst pa,
        po_observedAt = fst oa, po_usdRateMantissa = rate, po_usdRateScale = k,
        po_confidence = c\<rparr> (snd pa) (snd oa) = x"
    using assms unfolding parseObservation_def valued_iffs parseSourceId_iff sum.inject by (elim exE conjE) (rule that; assumption)
  have p: "publicObservation x = \<lparr>po_asset = a, po_sourceId = s, po_sourceReference = ref,
        po_sourceSequence = seq, po_sourceUpdateId = upd, po_pricedAt = fst pa,
        po_observedAt = fst oa, po_usdRateMantissa = rate, po_usdRateScale = k, po_confidence = c\<rparr>"
    by (simp add: x [symmetric] parsedObservation_def)
  show ?thesis
    unfolding observation_json_def p
    by (rule reads_val_record [OF r(1)])
      (simp_all add: keys_ok, simp add: OBSERVATION_KEYS_def r(3-8) reads_asset [OF r(2)] reads_confidence [OF r(11)]
        timestamp_text [OF r(9)] timestamp_text [OF r(10)])
qed

lemma reads_sample:
  assumes "parseRecoverySample registry asset v = Inr x"
  shows "reads v (sample_json x)"
proof -
  obtain r e xs os w where r: "val_dataRecord v [''evaluatedAt'', ''observations''] = Inr r"
      "val_parseTimestamp (js_get r ''evaluatedAt'') = Inr e" "val_dataArray (js_get r ''observations'') 2 2 = Inr xs"
      "res_map (parseObservation registry asset) xs = Inr os"
    and x: "\<lparr>rs_evaluatedAt = fst e, rs_evaluatedAtMs = snd e, rs_observations = os, rs_valuation = w\<rparr> = x"
    using assms unfolding parseRecoverySample_def valued_iffs sum.inject by (elim exE conjE) (rule that; assumption)
  have "list_all2 reads xs (map (\<lambda>o'. observation_json (publicObservation o')) os)"
    using r(4) reads_observation by (auto simp: res_map_eq_Inr list_all2_map2 elim: list_all2_mono)
  then have "reads (js_get r ''observations'') (JsonArray (map (\<lambda>o'. observation_json (publicObservation o')) os))"
    by (intro reads_val_array [OF r(3)]) simp_all
  then show ?thesis
    unfolding sample_json_def x [symmetric] ParsedRecoverySample.select_convs
    by (intro reads_val_record [OF r(1)]) (simp_all add: timestamp_text [OF r(2)])
qed

lemma reads_latch:
  assumes "parseDepegLatchReference registry asset v = Inr l"
  shows "reads v (latch_json (fst l))"
proof -
  obtain r a i e where r: "val_dataRecord v [''asset'', ''latchId'', ''latchedAt''] = Inr r"
      "parseAsset registry (js_get r ''asset'') = Inr a" "js_get r ''latchId'' = JString i"
      "val_parseTimestamp (js_get r ''latchedAt'') = Inr e"
    and x: "(\<lparr>dl_asset = a, dl_latchId = i, dl_latchedAt = fst e\<rparr>, snd e) = l"
    using assms unfolding parseDepegLatchReference_def parseRecoveryEventId_def valued_iffs sum.inject
    by (elim exE conjE) (rule that; assumption)
  show ?thesis
    unfolding latch_json_def x [symmetric] fst_conv StablecoinDepegLatchReference.select_convs
    by (rule reads_val_record [OF r(1)]) (simp_all add: r(3) reads_asset [OF r(2)] timestamp_text [OF r(4)])
qed

lemma reads_clear:
  assumes "parseManualRiskClearReference registry asset v = Inr c"
  shows "reads v (clear_json (fst c))"
proof -
  obtain r a i j e where r: "val_dataRecord v [''asset'', ''clearId'', ''latchId'', ''clearedAt''] = Inr r"
      "parseAsset registry (js_get r ''asset'') = Inr a" "js_get r ''clearId'' = JString i" "js_get r ''latchId'' = JString j"
      "val_parseTimestamp (js_get r ''clearedAt'') = Inr e"
    and x: "(\<lparr>mc_asset = a, mc_clearId = i, mc_latchId = j, mc_clearedAt = fst e\<rparr>, snd e) = c"
    using assms unfolding parseManualRiskClearReference_def parseRecoveryEventId_def valued_iffs sum.inject
    by (elim exE conjE) (rule that; assumption)
  show ?thesis
    unfolding clear_json_def x [symmetric] fst_conv StablecoinManualRiskClearReference.select_convs
    by (rule reads_val_record [OF r(1)]) (simp_all add: r(3,4) reads_asset [OF r(2)] timestamp_text [OF r(5)])
qed

lemma reads_nullable:
  assumes "nullable parse v = Inr x" "\<And>y. parse v = Inr y \<Longrightarrow> reads v (f y)"
  shows "reads v (option_json f x)"
  using assms by (auto simp: nullable_def option_json_def res_bind_eq_Inr split: if_splits)

lemma reads_recovery:
  assumes "parseRecoveryRequest registry v = Inr q"
  shows "reads v (recovery_json q)"
proof -
  obtain r a e d m xs ss where r: "val_dataRecord v [''asset'', ''evaluatedAt'', ''depegLatch'', ''manualRiskClear'', ''samples''] = Inr r"
      "parseAsset registry (js_get r ''asset'') = Inr a" "val_parseTimestamp (js_get r ''evaluatedAt'') = Inr e"
      "nullable (parseDepegLatchReference registry a) (js_get r ''depegLatch'') = Inr d"
      "nullable (parseManualRiskClearReference registry a) (js_get r ''manualRiskClear'') = Inr m"
      "val_dataArray (js_get r ''samples'') 0 maxObservations = Inr xs" "res_map (parseRecoverySample registry a) xs = Inr ss"
    and x: "\<lparr>rr_asset = a, rr_evaluatedAt = fst e, rr_evaluatedAtMs = snd e, rr_depegLatch = d, rr_manualRiskClear = m,
        rr_samples = ss\<rparr> = q"
    using assms unfolding parseRecoveryRequest_def valued_iffs sum.inject by (elim exE conjE) (rule that; assumption)
  have "list_all2 reads xs (map sample_json ss)"
    using r(7) reads_sample by (auto simp: res_map_eq_Inr list_all2_map2 elim: list_all2_mono)
  then have samples: "reads (js_get r ''samples'') (JsonArray (map sample_json ss))"
    by (intro reads_val_array [OF r(6)]) (simp_all add: maxObservations_def)
  have latch: "reads (js_get r ''depegLatch'') (option_json (\<lambda>l. latch_json (fst l)) d)"
    by (rule reads_nullable [OF r(4)]) (rule reads_latch)
  have clear: "reads (js_get r ''manualRiskClear'') (option_json (\<lambda>c. clear_json (fst c)) m)"
    by (rule reads_nullable [OF r(5)]) (rule reads_clear)
  show ?thesis
    unfolding recovery_json_def x [symmetric] ParsedRecoveryRequest.select_convs
    unfolding RECOVERY_REQUEST_KEYS_def
    by (rule reads_val_record [OF r(1)]) (simp_all add: timestamp_text [OF r(3)] reads_asset [OF r(2)] latch clear samples)
qed

text \<open>A valuation request.\<close>

definition watermark_json :: "ParsedSourceWatermark \<Rightarrow> json" where
  "watermark_json w = sorted_object
     [''sourceId'', ''lastAcceptedSequence'', ''lastAcceptedPricedAt'', ''lastAcceptedObservedAt'', ''lastAcceptedUpdateId'']
     [JsonText (source_text (wm_sourceId w)), option_json JsonText (wm_lastAcceptedSequence w),
      option_json JsonText (wm_lastAcceptedPricedAt w), option_json JsonText (wm_lastAcceptedObservedAt w),
      option_json JsonText (wm_lastAcceptedUpdateId w)]"

definition valuation_json :: "ParsedValuationRequest \<Rightarrow> json" where
  "valuation_json q = sorted_object VALUATION_REQUEST_KEYS
     [asset_reference_json (vq_asset q), JsonText (vq_amountAtomic q), JsonText (vq_evaluatedAt q),
      JsonArray (map watermark_json (vq_sourceWatermarks q)),
      JsonArray (map (\<lambda>o'. observation_json (publicObservation o')) (vq_observations q))]"

lemma reads_watermark:
  assumes "parseSourceWatermark v = Inr w"
  shows "reads v (watermark_json w)"
proof -
  let ?keys = "[''sourceId'', ''lastAcceptedSequence'', ''lastAcceptedPricedAt'', ''lastAcceptedObservedAt'', ''lastAcceptedUpdateId'']"
  obtain r s where r: "val_dataRecord v ?keys = Inr r" "js_get r ''sourceId'' = JString (source_text s)"
    using assms unfolding parseSourceWatermark_def valued_iffs parseSourceId_iff by blast
  have "list_all2 reads (map (js_get r) ?keys)
     [JsonText (source_text (wm_sourceId w)), option_json JsonText (wm_lastAcceptedSequence w),
      option_json JsonText (wm_lastAcceptedPricedAt w), option_json JsonText (wm_lastAcceptedObservedAt w),
      option_json JsonText (wm_lastAcceptedUpdateId w)]"
  proof (cases "js_get r ''lastAcceptedSequence'' = JNull \<and> js_get r ''lastAcceptedPricedAt'' = JNull \<and>
      js_get r ''lastAcceptedObservedAt'' = JNull \<and> js_get r ''lastAcceptedUpdateId'' = JNull")
    case True
    then show ?thesis
      using assms r by (auto simp: parseSourceWatermark_def valued_iffs parseSourceId_iff option_json_def)
  next
    case False
    then show ?thesis
      using assms r by (auto simp: parseSourceWatermark_def valued_iffs parseSourceId_iff option_json_def val_parseTimestamp_iff)
  qed
  then show ?thesis unfolding watermark_json_def by (rule reads_val_record [OF r(1), rotated 2]) simp_all
qed

lemma reads_watermarks:
  assumes "parseSourceWatermarks v = Inr ws"
  shows "reads v (JsonArray (map watermark_json ws))"
proof -
  obtain xs where xs: "val_dataArray v 2 2 = Inr xs" "res_map parseSourceWatermark xs = Inr ws"
    using assms by (auto simp: parseSourceWatermarks_def valued_iffs STABLECOIN_VALUATION_SOURCES_def numeral_2_eq_2)
  have "list_all2 reads xs (map watermark_json ws)"
    using xs(2) reads_watermark by (auto simp: res_map_eq_Inr list_all2_map2 elim: list_all2_mono)
  then show ?thesis by (intro reads_val_array [OF xs(1)]) simp_all
qed

lemma parseAmount_text: "parseAmount v = Inr s \<Longrightarrow> v = JString s"
  by (auto simp: parseAmount_def text_where_iff)

lemma reads_valuation:
  assumes "parseValuationRequest registry v = Inr q"
  shows "reads v (valuation_json q)"
proof -
  obtain r a am e ws xs os where r: "val_dataRecord v VALUATION_REQUEST_KEYS = Inr r"
      "parseAsset registry (js_get r ''asset'') = Inr a" "parseAmount (js_get r ''amountAtomic'') = Inr am"
      "val_parseTimestamp (js_get r ''evaluatedAt'') = Inr e" "parseSourceWatermarks (js_get r ''sourceWatermarks'') = Inr ws"
      "val_dataArray (js_get r ''observations'') 0 maxObservations = Inr xs" "res_map (parseObservation registry a) xs = Inr os"
    and q: "\<lparr>vq_asset = a, vq_amountAtomic = am, vq_amount = dec_val am, vq_evaluatedAt = fst e, vq_evaluatedAtMs = snd e,
      vq_sourceWatermarks = ws, vq_observations = os\<rparr> = q"
    using assms unfolding parseValuationRequest_def valued_iffs sum.inject by (elim exE conjE) (rule that; assumption)
  have "list_all2 reads xs (map (\<lambda>o'. observation_json (publicObservation o')) os)"
    using r(7) reads_observation by (auto simp: res_map_eq_Inr list_all2_map2 elim: list_all2_mono)
  then have "reads (js_get r ''observations'') (JsonArray (map (\<lambda>o'. observation_json (publicObservation o')) os))"
    by (intro reads_val_array [OF r(6)]) (simp_all add: maxObservations_def)
  then show ?thesis
    unfolding valuation_json_def q [symmetric] ParsedValuationRequest.select_convs
    by (intro reads_val_record [OF r(1)])
      (simp_all add: keys_ok, simp add: VALUATION_REQUEST_KEYS_def reads_asset [OF r(2)] parseAmount_text [OF r(3)]
        timestamp_text [OF r(4)] reads_watermarks [OF r(5)])
qed

end
