(* ===== verification/Depeg_Inject.thy ===== *)
theory Depeg_Inject
  imports Depeg_Canonical
begin

text \<open>
  The canonical JSON value of an accepted request determines the request: two accepted requests that are
  printed alike are the same.
\<close>

lemma asset_json_inject: "(asset_reference_json a = asset_reference_json b) = (a = b)"
proof
  assume "asset_reference_json a = asset_reference_json b"
  then have "[JsonText (environment_text (va_registryEnvironment a)), JsonInt (va_registryVersion a),
      JsonText (va_registryFingerprintSha256 a), JsonText (stablecoin_text (va_stablecoin a)), JsonText (va_networkId a),
      JsonText (va_identity a), JsonInt (va_decimals a)] =
     [JsonText (environment_text (va_registryEnvironment b)), JsonInt (va_registryVersion b),
      JsonText (va_registryFingerprintSha256 b), JsonText (stablecoin_text (va_stablecoin b)), JsonText (va_networkId b),
      JsonText (va_identity b), JsonInt (va_decimals b)]"
    unfolding asset_reference_json_def by (subst (asm) sorted_object_inject) (simp_all add: keys_ok)
  then show "a = b"
    using environment_enum.spell_inj stablecoin_enum.spell_inj by (cases a; cases b) auto
qed simp

lemma confidence_json_inject: "(confidence_json c = confidence_json d) = (c = d)"
proof -
  have "confidence_json NOT_PUBLISHED \<noteq> confidence_json (PUBLISHED_ABSOLUTE_USD m k)" for m k
    by (simp add: sorted_object_def)
  moreover have "(confidence_json (PUBLISHED_ABSOLUTE_USD m k) = confidence_json (PUBLISHED_ABSOLUTE_USD m' k')) = (m = m' \<and> k = k')"
    for m k m' k' unfolding confidence_json.simps by (subst sorted_object_inject) auto
  ultimately show ?thesis by (cases c; cases d) (simp_all del: confidence_json.simps, metis)
qed

lemma observation_json_inject: "(observation_json p = observation_json p') = (p = p')"
proof
  assume "observation_json p = observation_json p'"
  then have "[asset_reference_json (po_asset p), JsonText (source_text (po_sourceId p)), JsonText (po_sourceReference p),
      JsonText (po_sourceSequence p), JsonText (po_sourceUpdateId p), JsonText (po_pricedAt p), JsonText (po_observedAt p),
      JsonText (po_usdRateMantissa p), JsonInt (int (po_usdRateScale p)), confidence_json (po_confidence p)] =
     [asset_reference_json (po_asset p'), JsonText (source_text (po_sourceId p')), JsonText (po_sourceReference p'),
      JsonText (po_sourceSequence p'), JsonText (po_sourceUpdateId p'), JsonText (po_pricedAt p'), JsonText (po_observedAt p'),
      JsonText (po_usdRateMantissa p'), JsonInt (int (po_usdRateScale p')), confidence_json (po_confidence p')]"
    unfolding observation_json_def by (subst (asm) sorted_object_inject) (simp_all add: keys_ok)
  then show "p = p'"
    using source_enum.spell_inj by (cases p; cases p') (auto simp: asset_json_inject confidence_json_inject)
qed simp

lemma observation_inj:
  "inj_on (\<lambda>x. observation_json (publicObservation x)) {x. \<exists>v. parseObservation registry asset v = Inr x}"
proof (rule inj_onI)
  fix x y
  assume "x \<in> {x. \<exists>v. parseObservation registry asset v = Inr x}" "y \<in> {x. \<exists>v. parseObservation registry asset v = Inr x}"
  then have wf: "observation_wf asset (publicObservation x) (ob_pricedAtMs x) (ob_observedAtMs x)"
      "x = parsedObservation (publicObservation x) (ob_pricedAtMs x) (ob_observedAtMs x)"
      "observation_wf asset (publicObservation y) (ob_pricedAtMs y) (ob_observedAtMs y)"
      "y = parsedObservation (publicObservation y) (ob_pricedAtMs y) (ob_observedAtMs y)"
    using parseObservation_wf by blast+
  assume "observation_json (publicObservation x) = observation_json (publicObservation y)"
  then have p: "publicObservation x = publicObservation y" by (simp add: observation_json_inject)
  then have "ob_pricedAtMs x = ob_pricedAtMs y" "ob_observedAtMs x = ob_observedAtMs y"
    using wf(1,3) to_iso_inject unfolding observation_wf_def four_digit_time_def by metis+
  then show "x = y" using wf(2,4) p by metis
qed

lemma iso_pair:
  "val_parseTimestamp v = Inr p \<Longrightarrow> val_parseTimestamp w = Inr r \<Longrightarrow> fst p = fst r \<Longrightarrow> p = r"
  using parse_time [of v "fst p" "snd p"] parse_time [of w "fst r" "snd r"] to_iso_inject [of "snd p" "snd r"]
  by (auto simp: four_digit_time_def prod_eq_iff)

lemma sample_parsed:
  assumes "parseRecoverySample registry asset v = Inr x"
  obtains w e xs where "val_parseTimestamp w = Inr e" "res_map (parseObservation registry asset) xs = Inr (rs_observations x)"
    "x = \<lparr>rs_evaluatedAt = fst e, rs_evaluatedAtMs = snd e, rs_observations = rs_observations x,
        rs_valuation = evaluateStablecoinValuation registry
          (sample_request_value asset (fst e) (map publicObservation (rs_observations x)))\<rparr>"
proof -
  obtain r e xs os where "val_parseTimestamp (js_get r ''evaluatedAt'') = Inr e" "res_map (parseObservation registry asset) xs = Inr os"
    "\<lparr>rs_evaluatedAt = fst e, rs_evaluatedAtMs = snd e, rs_observations = os,
        rs_valuation = evaluateStablecoinValuation registry (sample_request_value asset (fst e) (map publicObservation os))\<rparr> = x"
    using assms unfolding parseRecoverySample_def valued_iffs sum.inject by (elim exE conjE) (rule that; assumption)
  then show thesis by (intro that) auto
qed

lemma parsed_list: "res_map parse xs = Inr ys \<Longrightarrow> set ys \<subseteq> {y. \<exists>v. parse v = Inr y}"
  by (fastforce simp: res_map_eq_Inr list_all2_conv_all_nth in_set_conv_nth)

lemma parsed_lists_eq:
  assumes "res_map parse xs = Inr ys" "res_map parse us = Inr ws" "inj_on f {y. \<exists>v. parse v = Inr y}" "map f ys = map f ws"
  shows "ys = ws"
proof -
  have "inj_on f (set ys \<union> set ws)"
    using assms(3) by (rule inj_on_subset) (use parsed_list [OF assms(1)] parsed_list [OF assms(2)] in blast)
  then show ?thesis using assms(4) by (simp add: inj_on_map_eq_map)
qed

lemma sample_inj: "inj_on sample_json {x. \<exists>v. parseRecoverySample registry asset v = Inr x}"
proof (rule inj_onI)
  fix x y
  assume "x \<in> {x. \<exists>v. parseRecoverySample registry asset v = Inr x}" "y \<in> {x. \<exists>v. parseRecoverySample registry asset v = Inr x}"
  then obtain vx vy where p: "parseRecoverySample registry asset vx = Inr x" "parseRecoverySample registry asset vy = Inr y" by blast
  obtain wx ex xs where x: "val_parseTimestamp wx = Inr ex" "res_map (parseObservation registry asset) xs = Inr (rs_observations x)"
    "x = \<lparr>rs_evaluatedAt = fst ex, rs_evaluatedAtMs = snd ex, rs_observations = rs_observations x,
        rs_valuation = evaluateStablecoinValuation registry
          (sample_request_value asset (fst ex) (map publicObservation (rs_observations x)))\<rparr>"
    by (rule sample_parsed [OF p(1)])
  obtain wy ey ys where y: "val_parseTimestamp wy = Inr ey" "res_map (parseObservation registry asset) ys = Inr (rs_observations y)"
    "y = \<lparr>rs_evaluatedAt = fst ey, rs_evaluatedAtMs = snd ey, rs_observations = rs_observations y,
        rs_valuation = evaluateStablecoinValuation registry
          (sample_request_value asset (fst ey) (map publicObservation (rs_observations y)))\<rparr>"
    by (rule sample_parsed [OF p(2)])
  assume "sample_json x = sample_json y"
  then have j: "rs_evaluatedAt x = rs_evaluatedAt y"
      "map (\<lambda>o'. observation_json (publicObservation o')) (rs_observations x) =
       map (\<lambda>o'. observation_json (publicObservation o')) (rs_observations y)"
    unfolding sample_json_def by (subst (asm) sorted_object_inject; simp)+
  have os: "rs_observations x = rs_observations y" by (rule parsed_lists_eq [OF x(2) y(2) observation_inj j(2)])
  have "fst ex = fst ey" using x(3) y(3) j(1) by (metis ParsedRecoverySample.select_convs(1))
  then have "ex = ey" by (rule iso_pair [OF x(1) y(1)])
  then show "x = y" using x(3) y(3) os by metis
qed

lemma latch_inj: "inj_on (\<lambda>l. latch_json (fst l)) {l. \<exists>v. parseDepegLatchReference registry asset v = Inr l}"
proof (rule inj_onI)
  have parsed: "\<exists>w e. val_parseTimestamp w = Inr e \<and> dl_latchedAt (fst l) = fst e \<and> snd l = snd e"
    if l: "parseDepegLatchReference registry asset v = Inr l" for l v
  proof -
    obtain r a i e where "val_parseTimestamp (js_get r ''latchedAt'') = Inr e"
        "(\<lparr>dl_asset = a, dl_latchId = i, dl_latchedAt = fst e\<rparr>, snd e) = l"
      using l unfolding parseDepegLatchReference_def parseRecoveryEventId_def valued_iffs sum.inject
      by (elim exE conjE) (rule that; assumption)
    then show ?thesis by auto
  qed
  fix x y
  assume "x \<in> {l. \<exists>v. parseDepegLatchReference registry asset v = Inr l}"
    "y \<in> {l. \<exists>v. parseDepegLatchReference registry asset v = Inr l}"
  then obtain wx ex wy ey where e: "val_parseTimestamp wx = Inr ex" "dl_latchedAt (fst x) = fst ex" "snd x = snd ex"
      "val_parseTimestamp wy = Inr ey" "dl_latchedAt (fst y) = fst ey" "snd y = snd ey"
    using parsed by blast
  assume "latch_json (fst x) = latch_json (fst y)"
  then have "[asset_reference_json (dl_asset (fst x)), JsonText (dl_latchId (fst x)), JsonText (dl_latchedAt (fst x))] =
      [asset_reference_json (dl_asset (fst y)), JsonText (dl_latchId (fst y)), JsonText (dl_latchedAt (fst y))]"
    unfolding latch_json_def by (subst (asm) sorted_object_inject) simp_all
  then have "fst x = fst y" by (simp add: asset_json_inject)
  moreover from this have "ex = ey" using iso_pair [OF e(1,4)] e(2,5) by simp
  ultimately show "x = y" using e(3,6) by (simp add: prod_eq_iff)
qed

lemma clear_inj: "inj_on (\<lambda>c. clear_json (fst c)) {c. \<exists>v. parseManualRiskClearReference registry asset v = Inr c}"
proof (rule inj_onI)
  have parsed: "\<exists>w e. val_parseTimestamp w = Inr e \<and> mc_clearedAt (fst c) = fst e \<and> snd c = snd e"
    if c: "parseManualRiskClearReference registry asset v = Inr c" for c v
  proof -
    obtain r a i j e where "val_parseTimestamp (js_get r ''clearedAt'') = Inr e"
        "(\<lparr>mc_asset = a, mc_clearId = i, mc_latchId = j, mc_clearedAt = fst e\<rparr>, snd e) = c"
      using c unfolding parseManualRiskClearReference_def parseRecoveryEventId_def valued_iffs sum.inject
      by (elim exE conjE) (rule that; assumption)
    then show ?thesis by auto
  qed
  fix x y
  assume "x \<in> {c. \<exists>v. parseManualRiskClearReference registry asset v = Inr c}"
    "y \<in> {c. \<exists>v. parseManualRiskClearReference registry asset v = Inr c}"
  then obtain wx ex wy ey where e: "val_parseTimestamp wx = Inr ex" "mc_clearedAt (fst x) = fst ex" "snd x = snd ex"
      "val_parseTimestamp wy = Inr ey" "mc_clearedAt (fst y) = fst ey" "snd y = snd ey"
    using parsed by blast
  assume "clear_json (fst x) = clear_json (fst y)"
  then have "[asset_reference_json (mc_asset (fst x)), JsonText (mc_clearId (fst x)), JsonText (mc_latchId (fst x)), JsonText (mc_clearedAt (fst x))] =
      [asset_reference_json (mc_asset (fst y)), JsonText (mc_clearId (fst y)), JsonText (mc_latchId (fst y)), JsonText (mc_clearedAt (fst y))]"
    unfolding clear_json_def by (subst (asm) sorted_object_inject) simp_all
  then have "fst x = fst y" by (simp add: asset_json_inject)
  moreover from this have "ex = ey" using iso_pair [OF e(1,4)] e(2,5) by simp
  ultimately show "x = y" using e(3,6) by (simp add: prod_eq_iff)
qed

lemma nullable_eq:
  assumes "nullable parse v = Inr x" "nullable parse w = Inr y" "inj_on f {y. \<exists>v. parse v = Inr y}"
    "\<And>z. f z \<noteq> JsonNull" "option_json f x = option_json f y"
  shows "x = y"
  using assms(1,2,5) assms(4) [symmetric]
  by (auto simp: nullable_def option_json_def res_bind_eq_Inr assms(4) split: if_splits intro!: inj_onD [OF assms(3)])

lemma not_null: "latch_json l \<noteq> JsonNull" "clear_json c \<noteq> JsonNull"
  by (simp_all add: latch_json_def clear_json_def sorted_object_def)

lemma recovery_parsed:
  assumes "parseRecoveryRequest registry v = Inr q"
  obtains e w d m us ss where "val_parseTimestamp w = Inr e" "nullable (parseDepegLatchReference registry (rr_asset q)) d = Inr (rr_depegLatch q)"
    "nullable (parseManualRiskClearReference registry (rr_asset q)) m = Inr (rr_manualRiskClear q)"
    "res_map (parseRecoverySample registry (rr_asset q)) us = Inr (rr_samples q)"
    "rr_evaluatedAt q = fst e" "rr_evaluatedAtMs q = snd e"
proof -
  obtain r a e d m xs ss where "val_parseTimestamp (js_get r ''evaluatedAt'') = Inr e"
      "nullable (parseDepegLatchReference registry a) (js_get r ''depegLatch'') = Inr d"
      "nullable (parseManualRiskClearReference registry a) (js_get r ''manualRiskClear'') = Inr m"
      "res_map (parseRecoverySample registry a) xs = Inr ss"
    and "\<lparr>rr_asset = a, rr_evaluatedAt = fst e, rr_evaluatedAtMs = snd e, rr_depegLatch = d, rr_manualRiskClear = m,
        rr_samples = ss\<rparr> = q"
    using assms unfolding parseRecoveryRequest_def valued_iffs sum.inject by (elim exE conjE) (rule that; assumption)
  then show thesis by (intro that) auto
qed

text \<open>A recovery request is determined by its JSON value.\<close>

lemma recovery_inject:
  assumes "parseRecoveryRequest registry v = Inr p" "parseRecoveryRequest registry w = Inr q" "recovery_json p = recovery_json q"
  shows "p = q"
proof -
  have "[asset_reference_json (rr_asset p), JsonText (rr_evaluatedAt p), option_json (\<lambda>l. latch_json (fst l)) (rr_depegLatch p),
      option_json (\<lambda>c. clear_json (fst c)) (rr_manualRiskClear p), JsonArray (map sample_json (rr_samples p))] =
     [asset_reference_json (rr_asset q), JsonText (rr_evaluatedAt q), option_json (\<lambda>l. latch_json (fst l)) (rr_depegLatch q),
      option_json (\<lambda>c. clear_json (fst c)) (rr_manualRiskClear q), JsonArray (map sample_json (rr_samples q))]"
    using assms(3) unfolding recovery_json_def by (subst (asm) sorted_object_inject) (simp_all add: keys_ok)
  then have j: "rr_asset p = rr_asset q" "rr_evaluatedAt p = rr_evaluatedAt q"
      "option_json (\<lambda>l. latch_json (fst l)) (rr_depegLatch p) = option_json (\<lambda>l. latch_json (fst l)) (rr_depegLatch q)"
      "option_json (\<lambda>c. clear_json (fst c)) (rr_manualRiskClear p) = option_json (\<lambda>c. clear_json (fst c)) (rr_manualRiskClear q)"
      "map sample_json (rr_samples p) = map sample_json (rr_samples q)"
    by (simp_all add: asset_json_inject)
  obtain e x d m us ss where 1: "val_parseTimestamp x = Inr e" "nullable (parseDepegLatchReference registry (rr_asset p)) d = Inr (rr_depegLatch p)"
    "nullable (parseManualRiskClearReference registry (rr_asset p)) m = Inr (rr_manualRiskClear p)"
    "res_map (parseRecoverySample registry (rr_asset p)) us = Inr (rr_samples p)"
    "rr_evaluatedAt p = fst e" "rr_evaluatedAtMs p = snd e"
    by (rule recovery_parsed [OF assms(1)])
  obtain e' x' d' m' us' ss' where 2: "val_parseTimestamp x' = Inr e'" "nullable (parseDepegLatchReference registry (rr_asset q)) d' = Inr (rr_depegLatch q)"
    "nullable (parseManualRiskClearReference registry (rr_asset q)) m' = Inr (rr_manualRiskClear q)"
    "res_map (parseRecoverySample registry (rr_asset q)) us' = Inr (rr_samples q)"
    "rr_evaluatedAt q = fst e'" "rr_evaluatedAtMs q = snd e'"
    by (rule recovery_parsed [OF assms(2)])
  note 2 = 2 [folded j(1)]
  have "rr_depegLatch p = rr_depegLatch q" by (rule nullable_eq [OF 1(2) 2(2) latch_inj not_null(1) j(3)])
  moreover have "rr_manualRiskClear p = rr_manualRiskClear q" by (rule nullable_eq [OF 1(3) 2(3) clear_inj not_null(2) j(4)])
  moreover have "rr_samples p = rr_samples q" by (rule parsed_lists_eq [OF 1(4) 2(4) sample_inj j(5)])
  moreover have "e = e'" using iso_pair [OF 1(1) 2(1)] 1(5) 2(5) j(2) by simp
  ultimately show ?thesis using j(1,2) 1(5,6) 2(5,6) by (cases p; cases q) simp
qed

text \<open>So is a valuation request.\<close>

definition timed :: "string option \<Rightarrow> int option \<Rightarrow> bool" where
  "timed s t = ((s = None \<and> t = None) \<or> (\<exists>v p. val_parseTimestamp v = Inr p \<and> s = Some (fst p) \<and> t = Some (snd p)))"

lemma timed_eq: "timed s t \<Longrightarrow> timed s u \<Longrightarrow> t = u"
  using iso_pair by (fastforce simp: timed_def)

lemma watermark_timed:
  "parseSourceWatermark v = Inr w \<Longrightarrow>
   timed (wm_lastAcceptedPricedAt w) (wm_lastAcceptedPricedAtMs w) \<and> timed (wm_lastAcceptedObservedAt w) (wm_lastAcceptedObservedAtMs w)"
  unfolding parseSourceWatermark_def valued_iffs timed_def by (fastforce simp: valued_iffs split: if_splits)

lemma option_text_inject: "(option_json JsonText x = option_json JsonText y) = (x = y)"
  by (auto simp: option_json_def split: option.splits)

lemma watermark_inj: "inj_on watermark_json {w. \<exists>v. parseSourceWatermark v = Inr w}"
proof (rule inj_onI)
  fix x y
  assume "x \<in> {w. \<exists>v. parseSourceWatermark v = Inr w}" "y \<in> {w. \<exists>v. parseSourceWatermark v = Inr w}"
  then have timed: "timed (wm_lastAcceptedPricedAt x) (wm_lastAcceptedPricedAtMs x)" "timed (wm_lastAcceptedObservedAt x) (wm_lastAcceptedObservedAtMs x)"
      "timed (wm_lastAcceptedPricedAt y) (wm_lastAcceptedPricedAtMs y)" "timed (wm_lastAcceptedObservedAt y) (wm_lastAcceptedObservedAtMs y)"
    using watermark_timed by blast+
  assume "watermark_json x = watermark_json y"
  then have j: "source_text (wm_sourceId x) = source_text (wm_sourceId y)" "wm_lastAcceptedSequence x = wm_lastAcceptedSequence y"
      "wm_lastAcceptedPricedAt x = wm_lastAcceptedPricedAt y" "wm_lastAcceptedObservedAt x = wm_lastAcceptedObservedAt y"
      "wm_lastAcceptedUpdateId x = wm_lastAcceptedUpdateId y"
    unfolding watermark_json_def by (subst (asm) sorted_object_inject; simp add: option_text_inject)+
  then show "x = y"
    using source_enum.spell_inj [OF j(1)] timed_eq [OF timed(1)] timed_eq [OF timed(2)] timed(3,4) by (cases x; cases y) simp
qed

lemma valuation_parsed:
  assumes "parseValuationRequest registry v = Inr q"
  obtains w e ws us where "val_parseTimestamp w = Inr e" "res_map parseSourceWatermark ws = Inr (vq_sourceWatermarks q)"
    "res_map (parseObservation registry (vq_asset q)) us = Inr (vq_observations q)"
    "vq_evaluatedAt q = fst e" "vq_evaluatedAtMs q = snd e" "vq_amount q = dec_val (vq_amountAtomic q)"
proof -
  obtain r a am e ws xs os where p: "val_parseTimestamp (js_get r ''evaluatedAt'') = Inr e"
      "parseSourceWatermarks (js_get r ''sourceWatermarks'') = Inr ws" "res_map (parseObservation registry a) xs = Inr os"
    and q: "\<lparr>vq_asset = a, vq_amountAtomic = am, vq_amount = dec_val am, vq_evaluatedAt = fst e, vq_evaluatedAtMs = snd e,
      vq_sourceWatermarks = ws, vq_observations = os\<rparr> = q"
    using assms unfolding parseValuationRequest_def valued_iffs sum.inject by (elim exE conjE) (rule that; assumption)
  obtain us where us: "res_map parseSourceWatermark us = Inr ws" using p(2) by (auto simp: parseSourceWatermarks_def valued_iffs)
  have "vq_sourceWatermarks q = ws" "vq_observations q = os" "vq_asset q = a" "vq_evaluatedAt q = fst e" "vq_evaluatedAtMs q = snd e"
    "vq_amount q = dec_val (vq_amountAtomic q)"
    by (simp_all add: q [symmetric])
  with us p(3) show thesis by (intro that [OF p(1)]) simp_all
qed

lemma valuation_inject:
  assumes "parseValuationRequest registry v = Inr p" "parseValuationRequest registry w = Inr q" "valuation_json p = valuation_json q"
  shows "p = q"
proof -
  have "[asset_reference_json (vq_asset p), JsonText (vq_amountAtomic p), JsonText (vq_evaluatedAt p),
      JsonArray (map watermark_json (vq_sourceWatermarks p)),
      JsonArray (map (\<lambda>o'. observation_json (publicObservation o')) (vq_observations p))] =
     [asset_reference_json (vq_asset q), JsonText (vq_amountAtomic q), JsonText (vq_evaluatedAt q),
      JsonArray (map watermark_json (vq_sourceWatermarks q)),
      JsonArray (map (\<lambda>o'. observation_json (publicObservation o')) (vq_observations q))]"
    using assms(3) unfolding valuation_json_def by (subst (asm) sorted_object_inject) (simp_all add: keys_ok)
  then have j: "vq_asset p = vq_asset q" "vq_amountAtomic p = vq_amountAtomic q" "vq_evaluatedAt p = vq_evaluatedAt q"
      "map watermark_json (vq_sourceWatermarks p) = map watermark_json (vq_sourceWatermarks q)"
      "map (\<lambda>o'. observation_json (publicObservation o')) (vq_observations p) =
       map (\<lambda>o'. observation_json (publicObservation o')) (vq_observations q)"
    by (simp_all add: asset_json_inject)
  obtain x e ws us where 1: "val_parseTimestamp x = Inr e" "res_map parseSourceWatermark ws = Inr (vq_sourceWatermarks p)"
    "res_map (parseObservation registry (vq_asset p)) us = Inr (vq_observations p)"
    "vq_evaluatedAt p = fst e" "vq_evaluatedAtMs p = snd e" "vq_amount p = dec_val (vq_amountAtomic p)"
    by (rule valuation_parsed [OF assms(1)])
  obtain x' e' ws' us' where 2: "val_parseTimestamp x' = Inr e'" "res_map parseSourceWatermark ws' = Inr (vq_sourceWatermarks q)"
    "res_map (parseObservation registry (vq_asset q)) us' = Inr (vq_observations q)"
    "vq_evaluatedAt q = fst e'" "vq_evaluatedAtMs q = snd e'" "vq_amount q = dec_val (vq_amountAtomic q)"
    by (rule valuation_parsed [OF assms(2)])
  note 2 = 2 [folded j(1)]
  have "vq_sourceWatermarks p = vq_sourceWatermarks q" by (rule parsed_lists_eq [OF 1(2) 2(2) watermark_inj j(4)])
  moreover have "vq_observations p = vq_observations q" by (rule parsed_lists_eq [OF 1(3) 2(3) observation_inj j(5)])
  moreover have "e = e'" using iso_pair [OF 1(1) 2(1)] 1(4) 2(4) j(3) by simp
  ultimately show ?thesis using j(1-3) 1(4-6) 2(4-6) by (cases p; cases q) simp
qed

end
