(* ===== verification/Depeg_Latch_Correct.thy ===== *)
theory Depeg_Latch_Correct
  imports Depeg_Inject Valuation_Theorems
begin

text \<open>
  What an accepted depeg-latch command guarantees: a latch records a depeg that the valuation of its
  request detects; a clear rests on a recovery that the policy accepts and on an authorization by a second
  person that is in force; an authorization covers one recovery, and a command fingerprint one command,
  as far as SHA-256 separates the texts that are hashed.
\<close>

subsection \<open>Copies and assets\<close>

lemma own_record_iff: "(ownDataRecord v keys code = Inr r) = (val_dataRecord v keys = Inr r)"
  by (simp add: ownDataRecord_def val_dataRecord_def of_option_eq_Inr)

lemma copied_dataRecord:
  "ownDataRecord v keys code = Inr r \<Longrightarrow> distinct keys \<Longrightarrow> val_dataRecord (copied_object r) keys = val_dataRecord v keys"
  using copied_record [OF own_keys] own_record_iff by (simp add: val_dataRecord_def ownDataRecord_def of_option_eq_Inr)

lemma copied_valuation:
  "ownDataRecord v VALUATION_REQUEST_KEYS code = Inr r \<Longrightarrow>
   parseValuationRequest registry (copied_object r) = parseValuationRequest registry v"
  unfolding parseValuationRequest_def by (simp only: copied_dataRecord keys_ok)

lemma copied_recovery:
  "ownDataRecord v RECOVERY_REQUEST_KEYS code = Inr r \<Longrightarrow>
   parseRecoveryRequest registry (copied_object r) = parseRecoveryRequest registry v"
  unfolding parseRecoveryRequest_def RECOVERY_REQUEST_KEYS_def [symmetric] by (simp only: copied_dataRecord keys_ok)

text \<open>An asset that may be latched: registered in the first version, active, on an active launch network.\<close>

definition latchable :: "VersionedSupportedAssetRegistry \<Rightarrow> StablecoinValuationAssetReference \<Rightarrow> bool" where
  "latchable registry a =
     (isMainnetLaunchNetwork (va_networkId a) \<and>
      (\<exists>s c n. atVersion registry 1 = Some s \<and> identifyAsset s (va_networkId a) (va_identity a) = Some c \<and>
         byNetworkId (sn_networks s) (va_networkId a) = Some n \<and> asset_activationState c = ACTIVE \<and>
         net_activationState n = ACTIVE \<and> asset_stablecoin c = va_stablecoin a \<and> asset_decimals c = va_decimals a))"

lemma case_Inr:
  "((case v of JString s \<Rightarrow> f s | _ \<Rightarrow> Inl e) = Inr x) = (\<exists>s. v = JString s \<and> f s = Inr x)"
  "((case v of JNumber m \<Rightarrow> g m | _ \<Rightarrow> Inl e) = Inr x) = (\<exists>m. v = JNumber m \<and> g m = Inr x)"
  "((case m of NumInt n \<Rightarrow> h n | _ \<Rightarrow> Inl e) = Inr x) = (\<exists>n. m = NumInt n \<and> h n = Inr x)"
  "((case y of None \<Rightarrow> Inl e | Some z \<Rightarrow> k z) = Inr x) = (\<exists>z. y = Some z \<and> k z = Inr x)"
  "((if P then Inl e else z) = Inr x) = (\<not> P \<and> z = Inr x)"
  by (simp_all split: jsval.split jsnum.split option.split)

lemma normalized_asset:
  assumes "normalizeStablecoinDepegLatchAsset registry v = Inr a"
  obtains r n i s c net where "val_dataRecord v ASSET_KEYS = Inr r" "js_get r ''networkId'' = JString n"
    "js_get r ''identity'' = JString i" "isMainnetLaunchNetwork n" "atVersion registry 1 = Some s"
    "identifyAsset s n i = Some c" "byNetworkId (sn_networks s) n = Some net" "net_activationState net = ACTIVE"
    "asset_activationState c = ACTIVE"
    "\<lparr>va_registryEnvironment = MAINNET, va_registryVersion = 1, va_registryFingerprintSha256 = sn_fingerprintSha256 s,
      va_stablecoin = asset_stablecoin c, va_networkId = asset_networkId c, va_identity = asset_identity c,
      va_decimals = asset_decimals c\<rparr> = a"
  using assms unfolding normalizeStablecoinDepegLatchAsset_def res_bind_eq_Inr own_record_iff prod.case case_Inr sum.inject
    de_Morgan_disj not_not
  by (elim exE conjE) (rule that; assumption)

lemma latched_asset:
  assumes "normalizeStablecoinDepegLatchAsset registry v = Inr a" "parseAsset registry v = Inr a"
  shows "latchable registry a"
proof (rule normalized_asset [OF assms(1)])
  fix r n i s c net
  assume r: "val_dataRecord v ASSET_KEYS = Inr r" "js_get r ''networkId'' = JString n" "js_get r ''identity'' = JString i"
    "isMainnetLaunchNetwork n" "atVersion registry 1 = Some s" "identifyAsset s n i = Some c" 
    "byNetworkId (sn_networks s) n = Some net" "net_activationState net = ACTIVE" "asset_activationState c = ACTIVE"
  assume a: "\<lparr>va_registryEnvironment = MAINNET, va_registryVersion = 1, va_registryFingerprintSha256 = sn_fingerprintSha256 s,
      va_stablecoin = asset_stablecoin c, va_networkId = asset_networkId c, va_identity = asset_identity c,
      va_decimals = asset_decimals c\<rparr> = a"
  obtain r' n' i' where r': "val_dataRecord v ASSET_KEYS = Inr r'" "js_get r' ''networkId'' = JString n'"
      "js_get r' ''identity'' = JString i'" "va_networkId a = n'" "va_identity a = i'"
    using assms(2) unfolding parseAsset_def valued_iffs by (elim exE conjE) auto
  have "va_networkId a = n" "va_identity a = i" "va_stablecoin a = asset_stablecoin c" "va_decimals a = asset_decimals c"
    using r(1-3) r' a by auto
  then show ?thesis unfolding latchable_def using r(4-9) by auto
qed

subsection \<open>Recording\<close>

lemma result_request [simp]:
  "sv_asset (availableResult q cs as g c) = Some (vq_asset q)" "sv_evaluatedAt (availableResult q cs as g c) = Some (vq_evaluatedAt q)"
  "sv_asset (unavailableResult a am e ag rs as d b) = a" "sv_evaluatedAt (unavailableResult a am e ag rs as d b) = e"
  by (simp_all add: availableResult_def unavailableResult_def Let_def split: option.split)

lemma value_request_asset: "sv_asset (valueRequest q) = Some (vq_asset q)" "sv_evaluatedAt (valueRequest q) = Some (vq_evaluatedAt q)"
  unfolding valueRequest_def Let_def by (simp_all split: list.split)

lemma parsed_request_asset:
  assumes "parseValuationRequest registry v = Inr q" "val_dataRecord v VALUATION_REQUEST_KEYS = Inr r"
  shows "parseAsset registry (js_get r ''asset'') = Inr (vq_asset q)"
proof -
  obtain r' a am e ws os where "val_dataRecord v VALUATION_REQUEST_KEYS = Inr r'" "parseAsset registry (js_get r' ''asset'') = Inr a"
    "\<lparr>vq_asset = a, vq_amountAtomic = am, vq_amount = dec_val am, vq_evaluatedAt = fst e, vq_evaluatedAtMs = snd e,
      vq_sourceWatermarks = ws, vq_observations = os\<rparr> = q"
    using assms(1) unfolding parseValuationRequest_def valued_iffs sum.inject by (elim exE conjE) (rule that; assumption)
  then show ?thesis using assms(2) by auto
qed

text \<open>The text that is hashed for depeg evidence.\<close>

definition depeg_text :: "string \<Rightarrow> ParsedValuationRequest \<Rightarrow> string" where
  "depeg_text actor q = digest_input DEPEG_EVIDENCE_FINGERPRINT_DOMAIN (JsonArray [JsonInt 1, JsonText actor, valuation_json q])"

lemma depeg_evidence:
  assumes "validateDepegEvidence sha256 registry v actor = Inr (asset, evaluatedAt, f)"
  obtains q s x where "parseValuationRequest registry v = Inr q" "current_evidence q s x" "conservative_of x \<le> 98000000"
    "asset = vq_asset q" "evaluatedAt = vq_evaluatedAt q" "latchable registry asset" "f = sha256 (depeg_text actor q)"
proof -
  obtain r where r: "ownDataRecord v VALUATION_REQUEST_KEYS INVALID_DEPEG_LATCH_INPUT = Inr r"
      "normalizeStablecoinDepegLatchAsset registry (js_get r ''asset'') = Inr asset"
      "val_sameAsset (the (sv_asset (evaluateStablecoinValuation registry (copied_object r)))) asset"
      "sv_evaluatedAt (evaluateStablecoinValuation registry (copied_object r)) = Some evaluatedAt"
      "sv_depegClass (evaluateStablecoinValuation registry (copied_object r)) = OUTSIDE_POLICY"
      "fingerprint sha256 DEPEG_EVIDENCE_FINGERPRINT_DOMAIN (mk_array [js_int 1, JString actor, copied_object r]) = Inr f"
    using assms unfolding validateDepegEvidence_def res_bind_eq_Inr Let_def
    by (auto simp: res_simps split: option.splits if_splits)
  obtain q where q: "parseValuationRequest registry v = Inr q"
    using r(5) copied_valuation [OF r(1), of registry]
    by (cases "parseValuationRequest registry v") (auto simp: evaluateStablecoinValuation_def)
  have parsed: "parseValuationRequest registry (copied_object r) = Inr q" using q copied_valuation [OF r(1)] by simp
  note value_of = parsed_value [OF parsed]
  have asset: "asset = vq_asset q" "evaluatedAt = vq_evaluatedAt q"
    using r(3,4) by (simp_all add: value_of(1) value_request_asset val_sameAsset_iff)
  have "parseAsset registry (js_get r ''asset'') = Inr asset"
    unfolding asset(1)
    by (rule parsed_request_asset [OF q r(1) [unfolded own_record_iff]])
  then have "latchable registry asset" by (rule latched_asset [OF r(2)])
  moreover obtain s x where "current_evidence q s x" "conservative_of x \<le> 98000000"
    using value_depeg(2) [OF value_of(2)] r(5) by (auto simp: value_of(1))
  moreover have "reads (mk_array [js_int 1, JString actor, copied_object r]) (JsonArray [JsonInt 1, JsonText actor, valuation_json q])"
    by (rule reads_mk_array) (simp_all add: reads_valuation [OF parsed])
  then have "f = sha256 (depeg_text actor q)" using r(6) by (simp add: fingerprint_reads depeg_text_def split: if_splits)
  ultimately show thesis using that q asset by blast
qed

subsection \<open>Authorizations\<close>

lemma latch_text_iff: "(latch_text P v code = Inr s) = (v = JString s \<and> P s)"
  by (auto simp: latch_text_def split: jsval.splits if_splits)

lemma latch_time_iff: "(latch_parseTimestamp v code = Inr p) = (v = JString (to_iso (snd p)) \<and> fst p = to_iso (snd p) \<and> four_digit_time (snd p))"
proof -
  have "(latch_parseTimestamp v code = Inr p) = (val_parseTimestamp v = Inr p)"
    by (auto simp: latch_parseTimestamp_def val_parseTimestamp_def res_bind_eq_Inr latch_text_iff text_where_iff case_Inr)
  then show ?thesis using parse_time [of v "fst p" "snd p"] by simp
qed

lemma revision_iff:
  "(parseRevision v False code = Inr x) = (v = js_int (the x) \<and> x \<noteq> None \<and> 1 \<le> the x \<and> the x < 9007199254740991)"
  "(parseRevision v True code = Inr x) =
     (v = revision_value x \<and> (\<forall>n. x = Some n \<longrightarrow> 1 \<le> n \<and> n < 9007199254740991))"
  by (auto simp: parseRevision_def case_Inr revision_value_def safe_integer_def split: option.splits)

lemma latch_parse_iffs:
  "(latch_parseDigest v code = Inr s) = (v = JString s \<and> sha256_hex s)"
  "(latch_parseUuid v code = Inr s) = (v = JString s \<and> uuid_v4 s)"
  "(latch_parseReference v code = Inr s) = (v = JString s \<and> REFERENCE s)"
  by (simp_all add: latch_parseDigest_def latch_parseUuid_def latch_parseReference_def latch_text_iff)

lemmas latched_iffs = res_bind_eq_Inr require_eq_Inr of_option_eq_Inr own_record_iff latch_time_iff revision_iff
  latch_parse_iffs

text \<open>
  What every accepted authorization says: two people, two events, a window of at most fifteen minutes
  from its issue.
\<close>

definition window_ok :: "string \<Rightarrow> string \<Rightarrow> string \<Rightarrow> bool" where
  "window_ok issuedAt notBefore expiresAt =
     (\<exists>i n e. issuedAt = to_iso i \<and> notBefore = to_iso n \<and> expiresAt = to_iso e \<and> four_digit_time i \<and>
        four_digit_time n \<and> four_digit_time e \<and> i \<le> n \<and> n < e \<and> e - i \<le> 900000)"

definition authorization_ok :: "StablecoinDepegRecoveryAuthorizationMaterial \<Rightarrow> bool" where
  "authorization_ok m =
     (sha256_hex (au_expectedLatchId m) \<and> sha256_hex (au_clearId m) \<and> au_expectedLatchId m \<noteq> au_clearId m \<and>
      sha256_hex (au_recoveryEvidenceFingerprintSha256 m) \<and> REFERENCE (au_evidenceActorReferenceId m) \<and>
      REFERENCE (au_riskApproverReferenceId m) \<and> au_evidenceActorReferenceId m \<noteq> au_riskApproverReferenceId m \<and>
      1 \<le> au_expectedRevision m \<and> au_expectedRevision m < 9007199254740991 \<and> uuid_v4 (au_nonce m) \<and>
      window_ok (au_issuedAt m) (au_notBefore m) (au_expiresAt m))"

lemma material_accepted:
  assumes "normalizeAuthorizationMaterial registry v = Inr m"
  shows "authorization_ok m" "\<exists>w. normalizeStablecoinDepegLatchAsset registry w = Inr (au_asset m)"
proof -
  obtain r a l xr n c f e k i nb x u where r: "normalizeStablecoinDepegLatchAsset registry (js_get r ''asset'') = Inr a"
      "sha256_hex l" "1 \<le> the xr" "the xr < 9007199254740991" "xr = Some n" "sha256_hex c" "sha256_hex f" "REFERENCE e" "REFERENCE k"
      "\<not> (e = k \<or> l = c)" "fst i = to_iso (snd i)" "four_digit_time (snd i)" "fst nb = to_iso (snd nb)"
      "four_digit_time (snd nb)" "fst x = to_iso (snd x)" "four_digit_time (snd x)"
      "\<not> (snd nb < snd i \<or> snd x \<le> snd nb \<or> STABLECOIN_DEPEG_RECOVERY_AUTHORIZATION_MAXIMUM_AGE_MILLISECONDS < snd x - snd i)"
      "uuid_v4 u"
    and m: "\<lparr>au_asset = a, au_expectedLatchId = l, au_expectedRevision = n, au_clearId = c,
        au_recoveryEvidenceFingerprintSha256 = f, au_evidenceActorReferenceId = e, au_riskApproverReferenceId = k,
        au_issuedAt = fst i, au_notBefore = fst nb, au_expiresAt = fst x, au_nonce = u\<rparr> = m"
    using assms unfolding normalizeAuthorizationMaterial_def Let_def latched_iffs sum.inject
    by (elim exE conjE) (rule that; assumption)
  have "window_ok (fst i) (fst nb) (fst x)"
    unfolding window_ok_def r(11,13,15)
    using r(12,14,16,17) by (intro exI [of _ "snd i"] exI [of _ "snd nb"] exI [of _ "snd x"])
      (simp add: STABLECOIN_DEPEG_RECOVERY_AUTHORIZATION_MAXIMUM_AGE_MILLISECONDS_def)
  then show "authorization_ok m" using r by (simp add: m [symmetric] authorization_ok_def)
  show "\<exists>w. normalizeStablecoinDepegLatchAsset registry w = Inr (au_asset m)" using r(1) by (auto simp: m [symmetric])
qed

lemma material_keys: "distinct AUTHORIZATION_MATERIAL_KEYS" "length AUTHORIZATION_MATERIAL_KEYS = 17"
  by (simp_all add: AUTHORIZATION_MATERIAL_KEYS_def)

lemma material_written:
  assumes "authorization_ok m" "normalizeStablecoinDepegLatchAsset registry (asset_value (au_asset m)) = Inr (au_asset m)"
  shows "normalizeAuthorizationMaterial registry (material_value m) = Inr m"
proof -
  obtain i n e where w: "au_issuedAt m = to_iso i" "au_notBefore m = to_iso n" "au_expiresAt m = to_iso e" "four_digit_time i"
      "four_digit_time n" "four_digit_time e" "i \<le> n" "n < e" "e - i \<le> 900000"
    using assms(1) unfolding authorization_ok_def window_ok_def by blast
  have r: "ownDataRecord (material_value m) AUTHORIZATION_MATERIAL_KEYS code =
      Inr (zip AUTHORIZATION_MATERIAL_KEYS (material_values m))" for code
    unfolding own_record_iff material_value_def by (rule literal_record) (simp_all add: material_keys material_values_def)
  have given: "latch_text P (JString s) code = Inr s" if "P s" for P s code using that by (simp add: latch_text_iff)
  have time: "latch_parseTimestamp (JString (to_iso t)) code = Inr (to_iso t, t)" if "four_digit_time t" for t code
    using that by (simp add: latch_time_iff)
  have revision: "parseRevision (js_int (au_expectedRevision m)) False code = Inr (Some (au_expectedRevision m))" for code
    using assms(1) by (simp add: revision_iff authorization_ok_def)
  let ?r = "zip AUTHORIZATION_MATERIAL_KEYS (material_values m)"
  have g: "js_get ?r ''schemaVersion'' = js_int 1" "js_get ?r ''authorizationType'' = JString ''STABLECOIN_DEPEG_LATCH_RECOVERY''"
      "js_get ?r ''scope'' = JString ''DEPEG_LATCH_CLEAR_ONLY''" "js_get ?r ''mayAuthorizeFinancialAction'' = JBool False"
      "js_get ?r ''operation'' = JString ''CLEAR_STABLECOIN_DEPEG_LATCH''" "js_get ?r ''asset'' = asset_value (au_asset m)"
      "js_get ?r ''expectedLatchId'' = JString (au_expectedLatchId m)" "js_get ?r ''expectedRevision'' = js_int (au_expectedRevision m)"
      "js_get ?r ''clearId'' = JString (au_clearId m)"
      "js_get ?r ''recoveryEvidenceFingerprintSha256'' = JString (au_recoveryEvidenceFingerprintSha256 m)"
      "js_get ?r ''evidenceActorReferenceId'' = JString (au_evidenceActorReferenceId m)"
      "js_get ?r ''riskApproverReferenceId'' = JString (au_riskApproverReferenceId m)"
      "js_get ?r ''riskApproverRole'' = JString ''RISK_APPROVER''" "js_get ?r ''issuedAt'' = JString (au_issuedAt m)"
      "js_get ?r ''notBefore'' = JString (au_notBefore m)" "js_get ?r ''expiresAt'' = JString (au_expiresAt m)"
      "js_get ?r ''nonce'' = JString (au_nonce m)"
    by (simp_all add: js_get_def AUTHORIZATION_MATERIAL_KEYS_def material_values_def)
  show ?thesis
    unfolding normalizeAuthorizationMaterial_def Let_def r res_bind.simps
    using assms w
    by (simp add: g time revision given authorization_ok_def latch_parseDigest_def latch_parseUuid_def latch_parseReference_def
        STABLECOIN_DEPEG_RECOVERY_AUTHORIZATION_MAXIMUM_AGE_MILLISECONDS_def)
qed

subsection \<open>Recovery evidence\<close>

text \<open>An accepted asset reference has exactly the properties of the reference it stands for.\<close>

lemma parsed_asset_record:
  assumes "parseAsset registry v = Inr a"
  shows "ownDataRecord v ASSET_KEYS code = ownDataRecord (asset_value a) ASSET_KEYS code"
proof -
  obtain r registryVersion fingerprint stablecoin networkId identity' decimals where r: "val_dataRecord v ASSET_KEYS = Inr r"
      "js_get r ''registryEnvironment'' = JString ''MAINNET''" "js_get r ''registryVersion'' = js_int registryVersion"
      "js_get r ''registryFingerprintSha256'' = JString fingerprint"
      "parse_enum stablecoin_text SUPPORTED_STABLECOINS (js_get r ''stablecoin'') = Some stablecoin"
      "js_get r ''networkId'' = JString networkId" "js_get r ''identity'' = JString identity'"
      "js_get r ''decimals'' = js_int decimals"
    and a: "\<lparr>va_registryEnvironment = MAINNET, va_registryVersion = registryVersion,
          va_registryFingerprintSha256 = fingerprint, va_stablecoin = stablecoin, va_networkId = networkId,
          va_identity = identity', va_decimals = decimals\<rparr> = a"
    using assms unfolding parseAsset_def valued_iffs sum.inject by (elim exE conjE) (rule that; assumption)
  let ?vs = "[JString ''MAINNET'', js_int registryVersion, JString fingerprint, JString (stablecoin_text stablecoin),
      JString networkId, JString identity', js_int decimals]"
  have own: "ownDataRecord v ASSET_KEYS code = Inr r" for code using r(1) by (simp add: own_record_iff)
  have keys: "map fst r = ASSET_KEYS" by (rule own_keys [OF own])
  have "map snd r = ?vs"
    using js_get_keys [OF keys keys_ok(1)] r by (simp add: ASSET_KEYS_def stablecoin_enum.parse_iff)
  then have "r = zip ASSET_KEYS ?vs" using keys by (metis zip_map_fst_snd)
  moreover have "ownDataRecord (asset_value a) ASSET_KEYS code = Inr (zip ASSET_KEYS ?vs)"
    using literal_record [OF keys_ok(1), of ?vs] by (simp add: own_record_iff asset_value_def a [symmetric] keys_ok)
  ultimately show ?thesis using own by simp
qed

lemma parsed_asset_normalized:
  "parseAsset registry v = Inr a \<Longrightarrow>
   normalizeStablecoinDepegLatchAsset registry (asset_value a) = normalizeStablecoinDepegLatchAsset registry v"
  unfolding normalizeStablecoinDepegLatchAsset_def by (simp only: parsed_asset_record [symmetric])

text \<open>The text that is hashed for recovery evidence.\<close>

definition recovery_text :: "ParsedRecoveryRequest \<Rightarrow> string" where
  "recovery_text q = digest_input RECOVERY_EVIDENCE_FINGERPRINT_DOMAIN (JsonArray [JsonInt 1, recovery_json q])"

lemma recovery_result:
  assumes "parseRecoveryRequest registry v = Inr q" "rv_status (evaluateStablecoinRecovery registry v) = RECOVERY_CANDIDATE_CLEARED"
  obtains latch latchedAt clear where "rr_depegLatch q = Some (latch, latchedAt)" "rr_manualRiskClear q = Some clear"
    "peg_evidence q latchedAt" "clears q latch clear"
    "rv_asset (evaluateStablecoinRecovery registry v) = Some (rr_asset q)"
    "rv_evaluatedAt (evaluateStablecoinRecovery registry v) = Some (rr_evaluatedAt q)"
    "rv_depegLatch (evaluateStablecoinRecovery registry v) = Some latch"
    "rv_acceptedManualRiskClear (evaluateStablecoinRecovery registry v) = Some (fst clear)"
proof -
  have e: "evaluateStablecoinRecovery registry v = recoverRequest q" by (simp add: evaluateStablecoinRecovery_def assms(1))
  obtain latch latchedAt clear where c: "rr_depegLatch q = Some (latch, latchedAt)" "rr_manualRiskClear q = Some clear"
      "peg_evidence q latchedAt" "clears q latch clear"
    using assms(2) unfolding e recoverRequest_cleared [OF parseRecoveryRequest_ok [OF assms(1)]] by blast
  have "rv_asset (recoverRequest q) = Some (rr_asset q) \<and> rv_evaluatedAt (recoverRequest q) = Some (rr_evaluatedAt q) \<and>
      rv_depegLatch (recoverRequest q) = Some latch \<and> rv_acceptedManualRiskClear (recoverRequest q) = Some (fst clear)"
    using assms(2) c(1,2) unfolding e
    by (cases clear) (auto simp: recoverRequest_def Let_def recoveryResult_def split: if_splits)
  then show thesis using that [OF c] e by simp
qed

lemma parsed_recovery_asset:
  assumes "parseRecoveryRequest registry v = Inr q" "val_dataRecord v RECOVERY_REQUEST_KEYS = Inr r"
  shows "parseAsset registry (js_get r ''asset'') = Inr (rr_asset q)"
proof -
  obtain r' a e d m xs ss where "val_dataRecord v RECOVERY_REQUEST_KEYS = Inr r'" "parseAsset registry (js_get r' ''asset'') = Inr a"
    "\<lparr>rr_asset = a, rr_evaluatedAt = fst e, rr_evaluatedAtMs = snd e, rr_depegLatch = d, rr_manualRiskClear = m,
        rr_samples = ss\<rparr> = q"
    using assms(1) unfolding parseRecoveryRequest_def RECOVERY_REQUEST_KEYS_def [symmetric] valued_iffs sum.inject
    by (elim exE conjE) (rule that; assumption)
  then show ?thesis using assms(2) by auto
qed

lemma recovery_evidence:
  assumes "validateRecoveryEvidence sha256 registry v = Inr e"
  obtains q latch latchedAt clear where "parseRecoveryRequest registry v = Inr q" "rr_depegLatch q = Some (latch, latchedAt)"
    "rr_manualRiskClear q = Some clear" "peg_evidence q latchedAt" "clears q latch clear"
    "e = \<lparr>re_asset = rr_asset q, re_latchId = dl_latchId latch, re_latchedAt = dl_latchedAt latch,
        re_clearId = mc_clearId (fst clear), re_clearedAt = mc_clearedAt (fst clear), re_evaluatedAt = rr_evaluatedAt q,
        re_fingerprintSha256 = sha256 (recovery_text q)\<rparr>"
    "latchable registry (rr_asset q)"
    "normalizeStablecoinDepegLatchAsset registry (asset_value (rr_asset q)) = Inr (rr_asset q)"
proof -
  obtain r a ra l c t da ca la ct et f i j where r: "val_dataRecord v RECOVERY_REQUEST_KEYS = Inr r"
      "normalizeStablecoinDepegLatchAsset registry (js_get r ''asset'') = Inr a"
      "rv_asset (evaluateStablecoinRecovery registry (copied_object r)) = Some ra"
      "rv_depegLatch (evaluateStablecoinRecovery registry (copied_object r)) = Some l"
      "rv_acceptedManualRiskClear (evaluateStablecoinRecovery registry (copied_object r)) = Some c"
      "rv_evaluatedAt (evaluateStablecoinRecovery registry (copied_object r)) = Some t"
      "rv_status (evaluateStablecoinRecovery registry (copied_object r)) = RECOVERY_CANDIDATE_CLEARED"
      "val_sameAsset ra a" "JString (dl_latchId l) = JString i" "JString (mc_clearId c) = JString j"
      "JString (dl_latchedAt l) = JString (to_iso (snd la))" "fst la = to_iso (snd la)"
      "JString (mc_clearedAt c) = JString (to_iso (snd ct))" "fst ct = to_iso (snd ct)"
      "JString t = JString (to_iso (snd et))" "fst et = to_iso (snd et)"
      "fingerprint sha256 RECOVERY_EVIDENCE_FINGERPRINT_DOMAIN (mk_array [js_int 1, copied_object r]) = Inr f"
    and e: "\<lparr>re_asset = a, re_latchId = i, re_latchedAt = fst la, re_clearId = j, re_clearedAt = fst ct,
        re_evaluatedAt = fst et, re_fingerprintSha256 = f\<rparr> = e"
    using assms unfolding validateRecoveryEvidence_def Let_def latched_iffs prod.case case_Inr de_Morgan_disj not_not sum.inject
    by (elim exE conjE) (rule that; assumption)
  have own: "ownDataRecord v RECOVERY_REQUEST_KEYS INVALID_DEPEG_RECOVERY_INPUT = Inr r" using r(1) by (simp add: own_record_iff)
  obtain q where q: "parseRecoveryRequest registry (copied_object r) = Inr q"
    using r(3) by (cases "parseRecoveryRequest registry (copied_object r)") (auto simp: evaluateStablecoinRecovery_def recoveryResult_def)
  then have q': "parseRecoveryRequest registry v = Inr q" using copied_recovery [OF own] by simp
  obtain latch latchedAt clear where c: "rr_depegLatch q = Some (latch, latchedAt)" "rr_manualRiskClear q = Some clear"
      "peg_evidence q latchedAt" "clears q latch clear" "ra = rr_asset q" "t = rr_evaluatedAt q" "l = latch" "c = fst clear"
    by (rule recovery_result [OF q r(7), unfolded r(3-6) option.inject]) (rule that)
  have asset: "a = rr_asset q" using r(8) c(5) by (simp add: val_sameAsset_iff)
  have parsed: "parseAsset registry (js_get r ''asset'') = Inr (rr_asset q)"
    using q' r(1) parsed_recovery_asset by blast
  have "reads (mk_array [js_int 1, copied_object r]) (JsonArray [JsonInt 1, recovery_json q])"
    by (rule reads_mk_array) (simp_all add: reads_recovery [OF q])
  then have "f = sha256 (recovery_text q)"
    using r(17) by (simp add: fingerprint_reads recovery_text_def split: if_splits)
  then have "e = \<lparr>re_asset = rr_asset q, re_latchId = dl_latchId latch, re_latchedAt = dl_latchedAt latch,
        re_clearId = mc_clearId (fst clear), re_clearedAt = mc_clearedAt (fst clear), re_evaluatedAt = rr_evaluatedAt q,
        re_fingerprintSha256 = sha256 (recovery_text q)\<rparr>"
    using r(9-16) c(6-8) asset by (simp add: e [symmetric])
  moreover have "normalizeStablecoinDepegLatchAsset registry (asset_value (rr_asset q)) = Inr (rr_asset q)"
    using parsed_asset_normalized [OF parsed] r(2) asset by simp
  ultimately show thesis
    using that [OF q' c(1-4)] latched_asset [OF r(2)] parsed asset by simp
qed

text \<open>The text that is hashed for an authorization.\<close>

definition material_json :: "StablecoinDepegRecoveryAuthorizationMaterial \<Rightarrow> json" where
  "material_json m = JsonArray
     [JsonInt 1, JsonText ''STABLECOIN_DEPEG_LATCH_RECOVERY'', JsonText ''DEPEG_LATCH_CLEAR_ONLY'', JsonBool False,
      JsonText ''CLEAR_STABLECOIN_DEPEG_LATCH'', asset_reference_json (au_asset m), JsonText (au_expectedLatchId m),
      JsonInt (au_expectedRevision m), JsonText (au_clearId m), JsonText (au_recoveryEvidenceFingerprintSha256 m),
      JsonText (au_evidenceActorReferenceId m), JsonText (au_riskApproverReferenceId m), JsonText ''RISK_APPROVER'',
      JsonText (au_issuedAt m), JsonText (au_notBefore m), JsonText (au_expiresAt m), JsonText (au_nonce m)]"

definition authorization_text :: "StablecoinDepegRecoveryAuthorizationMaterial \<Rightarrow> string" where
  "authorization_text m = digest_input RECOVERY_AUTHORIZATION_FINGERPRINT_DOMAIN (material_json m)"

lemma reads_material: "reads (mk_array (material_values m)) (material_json m)"
  unfolding material_values_def material_json_def by (rule reads_mk_array) (simp_all add: reads_asset_value)

lemma authorization_accepted:
  assumes "normalizeAuthorization sha256 registry v = Inr z"
    "normalizeStablecoinDepegLatchAsset registry (asset_value (au_asset (az_material z))) = Inr (au_asset (az_material z))"
  shows "authorization_ok (az_material z)" "sha256_hex (az_authorizationFingerprintSha256 z)"
    "az_authorizationFingerprintSha256 z = sha256 (authorization_text (az_material z))"
    "az_authorizationId z = AUTHORIZATION_ID_PREFIX @ az_authorizationFingerprintSha256 z"
    "encodable (material_json (az_material z))"
proof -
  obtain r m g where r: "normalizeAuthorizationMaterial registry
       (copied_object (map (\<lambda>k. (k, js_get r k)) AUTHORIZATION_MATERIAL_KEYS)) = Inr m" "sha256_hex g"
      "fingerprintStablecoinDepegRecoveryAuthorization sha256 registry (material_value m) = Inr g"
    and z: "\<lparr>az_material = m, az_authorizationFingerprintSha256 = g, az_authorizationId = AUTHORIZATION_ID_PREFIX @ g\<rparr> = z"
    using assms(1) unfolding normalizeAuthorization_def Let_def latched_iffs sum.inject
    by (elim exE conjE) (rule that; simp)
  show ok: "authorization_ok (az_material z)" using material_accepted(1) [OF r(1)] by (simp add: z [symmetric])
  have "normalizeAuthorizationMaterial registry (material_value m) = Inr m"
    using material_written [OF ok assms(2)] by (simp add: z [symmetric])
  then have "encodable (material_json m) \<and> g = sha256 (authorization_text m)"
    using r(3) by (simp add: fingerprintStablecoinDepegRecoveryAuthorization_def fingerprint_reads [OF reads_material]
        authorization_text_def split: if_splits)
  then show "az_authorizationFingerprintSha256 z = sha256 (authorization_text (az_material z))"
    "encodable (material_json (az_material z))" by (simp_all add: z [symmetric])
  show "sha256_hex (az_authorizationFingerprintSha256 z)"
    "az_authorizationId z = AUTHORIZATION_ID_PREFIX @ az_authorizationFingerprintSha256 z"
    using r(2) by (simp_all add: z [symmetric])
qed

subsection \<open>Clearing\<close>

text \<open>The authorization a clear rests on, and the texts of its fingerprints.\<close>

definition material_of :: "NormalizedClearStablecoinDepegLatchCommand \<Rightarrow> StablecoinDepegRecoveryAuthorizationMaterial" where
  "material_of c =
     \<lparr>au_asset = nc_asset c, au_expectedLatchId = nc_latchId c, au_expectedRevision = nc_expectedRevision c,
      au_clearId = nc_clearId c, au_recoveryEvidenceFingerprintSha256 = nc_recoveryEvidenceFingerprintSha256 c,
      au_evidenceActorReferenceId = nc_evidenceActorReferenceId c, au_riskApproverReferenceId = nc_riskApproverReferenceId c,
      au_issuedAt = nc_authorizationIssuedAt c, au_notBefore = nc_authorizationNotBefore c,
      au_expiresAt = nc_authorizationExpiresAt c, au_nonce = nc_authorizationNonce c\<rparr>"

definition clear_command_text :: "NormalizedClearStablecoinDepegLatchCommand \<Rightarrow> string" where
  "clear_command_text c = digest_input CLEAR_COMMAND_FINGERPRINT_DOMAIN (JsonArray
     [JsonInt 1, asset_reference_json (nc_asset c), JsonText (nc_evaluatedAt c), JsonText (nc_correlationId c),
      JsonText (nc_clearId c), JsonText (nc_latchId c), JsonText (nc_latchedAt c), JsonInt (nc_expectedRevision c),
      JsonText (nc_recoveryEvidenceFingerprintSha256 c), JsonText (nc_evidenceActorReferenceId c),
      JsonText (nc_riskApproverReferenceId c), JsonText ''RISK_APPROVER'', JsonText (nc_clearedAt c),
      JsonText (nc_authorizationIssuedAt c), JsonText (nc_authorizationNotBefore c), JsonText (nc_authorizationExpiresAt c),
      JsonText (nc_authorizationNonce c), JsonText (nc_authorizationFingerprintSha256 c), JsonText (nc_authorizationId c)])"

definition event_text :: "string \<Rightarrow> string \<Rightarrow> int \<Rightarrow> string \<Rightarrow> string" where
  "event_text domain f revision event = digest_input domain (JsonArray [JsonText f, JsonInt revision, JsonText event])"

text \<open>The authorization is in force when the recovery is evaluated.\<close>

definition in_force :: "NormalizedClearStablecoinDepegLatchCommand \<Rightarrow> bool" where
  "in_force c =
     (\<exists>i n t e. nc_authorizationIssuedAt c = to_iso i \<and> nc_authorizationNotBefore c = to_iso n \<and>
        nc_evaluatedAt c = to_iso t \<and> nc_authorizationExpiresAt c = to_iso e \<and>
        four_digit_time i \<and> four_digit_time n \<and> four_digit_time t \<and> four_digit_time e \<and>
        i \<le> n \<and> n \<le> t \<and> t < e \<and> e \<le> i + 900000)"

lemma reads_clear_command:
  assumes "asset_value (re_asset e) = asset_value (nc_asset c)"
    "re_clearId e = nc_clearId c" "re_latchId e = nc_latchId c" "re_latchedAt e = nc_latchedAt c" "re_clearedAt e = nc_clearedAt c"
    "re_fingerprintSha256 e = nc_recoveryEvidenceFingerprintSha256 c" "az_material z = material_of c"
    "az_authorizationFingerprintSha256 z = nc_authorizationFingerprintSha256 c" "az_authorizationId z = nc_authorizationId c"
  shows "fingerprint sha256 CLEAR_COMMAND_FINGERPRINT_DOMAIN (clear_command_value e z (nc_evaluatedAt c) (nc_correlationId c)) = Inr f \<Longrightarrow>
    f = sha256 (clear_command_text c)"
proof -
  have "reads (clear_command_value e z (nc_evaluatedAt c) (nc_correlationId c)) (JsonArray
     [JsonInt 1, asset_reference_json (nc_asset c), JsonText (nc_evaluatedAt c), JsonText (nc_correlationId c),
      JsonText (nc_clearId c), JsonText (nc_latchId c), JsonText (nc_latchedAt c), JsonInt (nc_expectedRevision c),
      JsonText (nc_recoveryEvidenceFingerprintSha256 c), JsonText (nc_evidenceActorReferenceId c),
      JsonText (nc_riskApproverReferenceId c), JsonText ''RISK_APPROVER'', JsonText (nc_clearedAt c),
      JsonText (nc_authorizationIssuedAt c), JsonText (nc_authorizationNotBefore c), JsonText (nc_authorizationExpiresAt c),
      JsonText (nc_authorizationNonce c), JsonText (nc_authorizationFingerprintSha256 c), JsonText (nc_authorizationId c)])"
    unfolding clear_command_value_def Let_def assms material_of_def StablecoinDepegRecoveryAuthorizationMaterial.select_convs
    by (rule reads_mk_array) (simp_all add: reads_asset_value)
  then show "fingerprint sha256 CLEAR_COMMAND_FINGERPRINT_DOMAIN (clear_command_value e z (nc_evaluatedAt c) (nc_correlationId c)) = Inr f \<Longrightarrow>
    f = sha256 (clear_command_text c)"
    by (simp add: fingerprint_reads clear_command_text_def split: if_splits)
qed

lemma event_fingerprint:
  "fingerprint sha256 domain (latch_event_value f n event) = Inr g \<Longrightarrow> g = sha256 (event_text domain f n event)"
proof -
  have "reads (latch_event_value f n event) (JsonArray [JsonText f, JsonInt n, JsonText event])"
    unfolding latch_event_value_def by (rule reads_mk_array) simp_all
  then show "fingerprint sha256 domain (latch_event_value f n event) = Inr g \<Longrightarrow> g = sha256 (event_text domain f n event)"
    by (simp add: fingerprint_reads event_text_def split: if_splits)
qed

lemma clear_accepted:
  assumes "normalizeClearStablecoinDepegLatchCommand sha256 registry v = Inr c"
  obtains r q latch latchedAt clear where "val_dataRecord v CLEAR_KEYS = Inr r"
    "parseRecoveryRequest registry (js_get r ''recoveryRequest'') = Inr q" "rr_depegLatch q = Some (latch, latchedAt)"
    "rr_manualRiskClear q = Some clear" "peg_evidence q latchedAt" "clears q latch clear" "latchable registry (rr_asset q)"
    "nc_asset c = rr_asset q" "nc_evaluatedAt c = rr_evaluatedAt q" "nc_clearId c = mc_clearId (fst clear)"
    "nc_latchId c = dl_latchId latch" "nc_latchedAt c = dl_latchedAt latch" "nc_clearedAt c = mc_clearedAt (fst clear)"
    "nc_clearedAt c = nc_authorizationIssuedAt c" "nc_recoveryEvidenceFingerprintSha256 c = sha256 (recovery_text q)"
    "authorization_ok (material_of c)" "in_force c" "uuid_v4 (nc_correlationId c)"
    "nc_authorizationFingerprintSha256 c = sha256 (authorization_text (material_of c))"
    "nc_authorizationId c = AUTHORIZATION_ID_PREFIX @ nc_authorizationFingerprintSha256 c"
    "nc_commandFingerprintSha256 c = sha256 (clear_command_text c)"
    "nc_eventFingerprintSha256 c =
       sha256 (event_text CLEAR_EVENT_FINGERPRINT_DOMAIN (nc_commandFingerprintSha256 c) (nc_expectedRevision c + 1) ''CLEARED'')"
proof -
  obtain r t u e z i n x f g where c: "\<lparr>nc_asset = re_asset e, nc_evaluatedAt = fst t, nc_correlationId = u,
          nc_clearId = re_clearId e, nc_latchId = re_latchId e, nc_latchedAt = re_latchedAt e,
          nc_expectedRevision = au_expectedRevision (az_material z), nc_recoveryEvidenceFingerprintSha256 = re_fingerprintSha256 e,
          nc_evidenceActorReferenceId = au_evidenceActorReferenceId (az_material z),
          nc_riskApproverReferenceId = au_riskApproverReferenceId (az_material z),
          nc_clearedAt = re_clearedAt e, nc_authorizationIssuedAt = au_issuedAt (az_material z),
          nc_authorizationNotBefore = au_notBefore (az_material z), nc_authorizationExpiresAt = au_expiresAt (az_material z),
          nc_authorizationNonce = au_nonce (az_material z),
          nc_authorizationFingerprintSha256 = az_authorizationFingerprintSha256 z,
          nc_authorizationId = az_authorizationId z, nc_commandFingerprintSha256 = f,
          nc_eventFingerprintSha256 = g\<rparr> = c"
    and r: "val_dataRecord v CLEAR_KEYS = Inr r" "fst t = to_iso (snd t)" "four_digit_time (snd t)"
      "uuid_v4 u" "validateRecoveryEvidence sha256 registry (js_get r ''recoveryRequest'') = Inr e"
      "normalizeAuthorization sha256 registry (js_get r ''authorization'') = Inr z"
      "JString (au_issuedAt (az_material z)) = JString (to_iso (snd i))" "fst i = to_iso (snd i)" "four_digit_time (snd i)"
      "JString (au_notBefore (az_material z)) = JString (to_iso (snd n))" "fst n = to_iso (snd n)" "four_digit_time (snd n)"
      "JString (au_expiresAt (az_material z)) = JString (to_iso (snd x))" "fst x = to_iso (snd x)" "four_digit_time (snd x)"
      "re_evaluatedAt e = fst t" "val_sameAsset (re_asset e) (au_asset (az_material z))"
      "re_latchId e = au_expectedLatchId (az_material z)" "re_clearId e = au_clearId (az_material z)"
      "re_clearedAt e = au_issuedAt (az_material z)" "re_fingerprintSha256 e = au_recoveryEvidenceFingerprintSha256 (az_material z)"
      "\<not> snd t < snd n" "\<not> snd x \<le> snd t"
      "fingerprint sha256 CLEAR_COMMAND_FINGERPRINT_DOMAIN (clear_command_value e z (fst t) u) = Inr f"
      "fingerprint sha256 CLEAR_EVENT_FINGERPRINT_DOMAIN (latch_event_value f (au_expectedRevision (az_material z) + 1) ''CLEARED'') = Inr g"
    using assms unfolding normalizeClearStablecoinDepegLatchCommand_def Let_def latched_iffs de_Morgan_disj not_not sum.inject
    by (elim exE conjE) (rule that; assumption)
  obtain q latch latchedAt clear where q: "parseRecoveryRequest registry (js_get r ''recoveryRequest'') = Inr q"
      "rr_depegLatch q = Some (latch, latchedAt)" "rr_manualRiskClear q = Some clear" "peg_evidence q latchedAt"
      "clears q latch clear"
    and e: "e = \<lparr>re_asset = rr_asset q, re_latchId = dl_latchId latch, re_latchedAt = dl_latchedAt latch,
        re_clearId = mc_clearId (fst clear), re_clearedAt = mc_clearedAt (fst clear), re_evaluatedAt = rr_evaluatedAt q,
        re_fingerprintSha256 = sha256 (recovery_text q)\<rparr>"
    and ok: "latchable registry (rr_asset q)"
      "normalizeStablecoinDepegLatchAsset registry (asset_value (rr_asset q)) = Inr (rr_asset q)"
    by (rule recovery_evidence [OF r(5)])
  have asset: "au_asset (az_material z) = rr_asset q" using r(17) by (simp add: val_sameAsset_iff e)
  have m: "az_material z = material_of c"
    using r(18-21) asset by (simp add: material_of_def c [symmetric] e)
  note auth = authorization_accepted [OF r(6) ok(2) [folded asset], unfolded m]
  have fields: "asset_value (re_asset e) = asset_value (nc_asset c)" "re_clearId e = nc_clearId c" "re_latchId e = nc_latchId c"
      "re_latchedAt e = nc_latchedAt c" "re_clearedAt e = nc_clearedAt c"
      "re_fingerprintSha256 e = nc_recoveryEvidenceFingerprintSha256 c"
      "az_authorizationFingerprintSha256 z = nc_authorizationFingerprintSha256 c" "az_authorizationId z = nc_authorizationId c"
      "fst t = nc_evaluatedAt c" "u = nc_correlationId c" "f = nc_commandFingerprintSha256 c" "g = nc_eventFingerprintSha256 c"
      "au_expectedRevision (az_material z) = nc_expectedRevision c" "nc_authorizationIssuedAt c = to_iso (snd i)"
      "nc_authorizationNotBefore c = to_iso (snd n)" "nc_authorizationExpiresAt c = to_iso (snd x)"
      "nc_clearedAt c = nc_authorizationIssuedAt c"
    using r(7,10,13,20) by (simp_all add: c [symmetric])
  have plain: "nc_asset c = rr_asset q" "nc_evaluatedAt c = rr_evaluatedAt q" "nc_clearId c = mc_clearId (fst clear)"
      "nc_latchId c = dl_latchId latch" "nc_latchedAt c = dl_latchedAt latch" "nc_clearedAt c = mc_clearedAt (fst clear)"
      "nc_recoveryEvidenceFingerprintSha256 c = sha256 (recovery_text q)"
    using r(16) by (simp_all add: c [symmetric] e)
  have "in_force c"
  proof -
    obtain i' n' x' where w: "to_iso (snd i) = to_iso i'" "to_iso (snd n) = to_iso n'" "to_iso (snd x) = to_iso x'"
        "four_digit_time i'" "four_digit_time n'" "four_digit_time x'" "i' \<le> n'" "n' < x'" "x' - i' \<le> 900000"
      using auth(1) unfolding authorization_ok_def window_ok_def material_of_def
        StablecoinDepegRecoveryAuthorizationMaterial.select_convs fields(14-16) by blast
    then have "snd i = i'" "snd n = n'" "snd x = x'"
      using r(9,12,15) to_iso_inject unfolding four_digit_time_def by blast+
    then show ?thesis
      unfolding in_force_def fields(14-16)
      using w(4-9) r(2,3,22,23) fields(9) by (intro exI [of _ i'] exI [of _ n'] exI [of _ "snd t"] exI [of _ x']) simp
  qed
  moreover have "f = sha256 (clear_command_text c)"
    by (rule reads_clear_command [OF fields(1-6) m fields(7,8) r(24) [unfolded fields(9,10)]])
  ultimately show thesis
    using that [OF r(1) q ok(1) plain(1-6) fields(17) plain(7) auth(1)] r(4) auth(3,4)
      event_fingerprint [OF r(25)] fields by metis
qed

subsection \<open>Accepted record commands\<close>

definition latch_command_text :: "NormalizedRecordStablecoinDepegLatchCommand \<Rightarrow> string" where
  "latch_command_text c = digest_input LATCH_COMMAND_FINGERPRINT_DOMAIN (JsonArray
     [JsonInt 1, asset_reference_json (nl_asset c), option_json JsonInt (nl_expectedRevision c), JsonText (nl_correlationId c),
      JsonText (nl_latchId c), JsonText (nl_latchedAt c), JsonText (nl_evidenceActorReferenceId c),
      JsonText (nl_depegEvidenceFingerprintSha256 c)])"

lemma latch_fingerprint:
  assumes "fingerprint sha256 LATCH_COMMAND_FINGERPRINT_DOMAIN (latch_command_value (nl_asset c) (nl_expectedRevision c)
      (nl_correlationId c) (nl_latchId c) (nl_latchedAt c) (nl_evidenceActorReferenceId c) (nl_depegEvidenceFingerprintSha256 c)) = Inr f"
  shows "f = sha256 (latch_command_text c)"
proof -
  have "reads (revision_value x) (option_json JsonInt x)" for x by (simp add: revision_value_def option_json_def split: option.split)
  then have "reads (latch_command_value (nl_asset c) (nl_expectedRevision c) (nl_correlationId c) (nl_latchId c) (nl_latchedAt c)
      (nl_evidenceActorReferenceId c) (nl_depegEvidenceFingerprintSha256 c)) (JsonArray
     [JsonInt 1, asset_reference_json (nl_asset c), option_json JsonInt (nl_expectedRevision c), JsonText (nl_correlationId c),
      JsonText (nl_latchId c), JsonText (nl_latchedAt c), JsonText (nl_evidenceActorReferenceId c),
      JsonText (nl_depegEvidenceFingerprintSha256 c)])"
    unfolding latch_command_value_def by (intro reads_mk_array) (simp_all add: reads_asset_value)
  then show ?thesis using assms by (simp add: fingerprint_reads latch_command_text_def split: if_splits)
qed

definition next_revision :: "int option \<Rightarrow> int" where
  "next_revision r = (case r of None \<Rightarrow> 1 | Some n \<Rightarrow> n + 1)"

lemma record_accepted:
  assumes "normalizeRecordStablecoinDepegLatchCommand sha256 registry v = Inr c"
  obtains r q s x where "val_dataRecord v LATCH_RECORD_KEYS = Inr r"
    "parseValuationRequest registry (js_get r ''valuationRequest'') = Inr q" "current_evidence q s x"
    "conservative_of x \<le> 98000000" "latchable registry (vq_asset q)" "nl_asset c = vq_asset q"
    "nl_latchedAt c = vq_evaluatedAt q"
    "nl_depegEvidenceFingerprintSha256 c = sha256 (depeg_text (nl_evidenceActorReferenceId c) q)"
    "nl_commandFingerprintSha256 c = sha256 (latch_command_text c)"
    "nl_eventFingerprintSha256 c = sha256 (event_text LATCH_EVENT_FINGERPRINT_DOMAIN (nl_commandFingerprintSha256 c)
       (next_revision (nl_expectedRevision c)) ''LATCHED'')"
proof -
  obtain r n u l k d p f g where c: "\<lparr>nl_asset = fst p, nl_expectedRevision = n, nl_correlationId = u, nl_latchId = l,
          nl_latchedAt = fst (snd p), nl_evidenceActorReferenceId = k,
          nl_depegEvidenceFingerprintSha256 = d, nl_commandFingerprintSha256 = f,
          nl_eventFingerprintSha256 = g\<rparr> = c"
    and r: "val_dataRecord v LATCH_RECORD_KEYS = Inr r"
      "validateDepegEvidence sha256 registry (js_get r ''valuationRequest'') k = Inr p" "d = snd (snd p)"
      "fingerprint sha256 LATCH_COMMAND_FINGERPRINT_DOMAIN (latch_command_value (fst p) n u l (fst (snd p)) k d) = Inr f"
      "fingerprint sha256 LATCH_EVENT_FINGERPRINT_DOMAIN
         (latch_event_value f (case n of None \<Rightarrow> 1 | Some n \<Rightarrow> n + 1) ''LATCHED'') = Inr g"
    using assms unfolding normalizeRecordStablecoinDepegLatchCommand_def latched_iffs sum.inject case_prod_beta
    by (elim exE conjE) (rule that; assumption)
  obtain a t where p: "p = (a, t, d)" using r(3) by (cases p) auto
  obtain q s x where q: "parseValuationRequest registry (js_get r ''valuationRequest'') = Inr q" "current_evidence q s x"
      "conservative_of x \<le> 98000000" "a = vq_asset q" "t = vq_evaluatedAt q" "latchable registry a"
      "d = sha256 (depeg_text k q)"
    by (rule depeg_evidence [OF r(2) [unfolded p]])
  have "f = sha256 (latch_command_text c)"
    by (rule latch_fingerprint) (use r(4) in \<open>simp add: c [symmetric] p\<close>)
  then show thesis
    using that [OF r(1) q(1-3)] q(4-7) event_fingerprint [OF r(5)] by (simp add: c [symmetric] p next_revision_def)
qed

end
