(* ===== verification/Depeg_Samples.thy ===== *)
theory Depeg_Samples
  imports Depeg_Latch_Correct
begin

text \<open>
  An accepted clear command for every latched asset whose reference is short enough to be encoded, and an
  accepted record command; the sizes of the values they hash.
\<close>

subsection \<open>Size\<close>

lemma sorted_object_values:
  assumes "distinct keys" "length js = length keys"
  shows "mset (map snd (map (\<lambda>k. (k, the (map_of (zip keys js) k))) (sort keys))) = mset js"
proof -
  have "map (\<lambda>k. the (map_of (zip keys js) k)) keys = js"
    using assms by (intro nth_equalityI) (simp_all add: map_of_zip_nth)
  then have "mset (map (\<lambda>k. the (map_of (zip keys js) k)) keys) = mset js" by simp
  then show ?thesis by (simp add: o_def)
qed

lemma nodes_sorted_object:
  assumes "distinct keys" "length js = length keys"
  shows "nodes (sorted_object keys js) = Suc (sum_list (map nodes js))"
proof -
  have sum: "sum_list (map nodes xs) = sum_mset (image_mset nodes (mset xs))" for xs by (simp flip: sum_mset_sum_list)
  have "sum_list (map nodes (map snd (map (\<lambda>k. (k, the (map_of (zip keys js) k))) (sort keys)))) = sum_list (map nodes js)"
    unfolding sum sorted_object_values [OF assms] ..
  then show ?thesis unfolding sorted_object_def nodes.simps by (simp only: map_map o_def)
qed

lemma fits_sorted_object:
  assumes "distinct keys" "length js = length keys"
  shows "fits d (sorted_object keys js) = (\<not> d > 12 \<and> list_all (fits (d + 1)) js)"
proof -
  have "set (map snd (map (\<lambda>k. (k, the (map_of (zip keys js) k))) (sort keys))) = set js"
    using sorted_object_values [OF assms] by (rule mset_eq_setD)
  then have "list_all (fits (d + 1)) (map snd (map (\<lambda>k. (k, the (map_of (zip keys js) k))) (sort keys))) = list_all (fits (d + 1)) js"
    by (simp only: list_all_iff)
  then show ?thesis by (simp add: sorted_object_def list.pred_map o_def)
qed

lemma text_fits_classes:
  assumes "matches_classes ps s" "length ps \<le> 4096" "list_all (\<lambda>p. \<not> list_ex (\<lambda>c. c \<in> {CHR 0x00, CHR 13, CHR 10}) p) ps"
  shows "text_fits s"
proof -
  have "length s = length ps" using assms(1) by (rule matches_classes_length)
  moreover have "s ! i \<in> set (ps ! i)" if "i < length s" for i using assms(1) that by (auto simp: matches_classes_def list_all2_conv_all_nth char_in_def)
  ultimately show ?thesis
    using assms(2,3) by (fastforce simp: text_fits_def list_ex_iff list_all_iff in_set_conv_nth)
qed

lemma digest_fits: "sha256_hex s \<Longrightarrow> text_fits s"
  unfolding sha256_hex_def by (erule text_fits_classes) code_simp+

lemma uuid_fits: "uuid_v4 s \<Longrightarrow> text_fits s"
  unfolding uuid_v4_def by (erule text_fits_classes) code_simp+

lemma iso_fits: "four_digit_time t \<Longrightarrow> text_fits (to_iso t)"
proof -
  assume "four_digit_time t"
  then have "utc_pattern (to_iso t)" by (simp add: four_digit_time_def utc_pattern_to_iso)
  then show ?thesis unfolding utc_pattern_def by (rule text_fits_classes) code_simp+
qed

subsection \<open>Size of sample evidence\<close>

lemmas sized = nodes_sorted_object fits_sorted_object keys_ok

definition asset_fits :: "StablecoinValuationAssetReference \<Rightarrow> bool" where
  "asset_fits a = (encodable (asset_reference_json a))"

lemma asset_size: "nodes (asset_reference_json a) = 8"
  unfolding asset_reference_json_def by (subst nodes_sorted_object) (simp_all add: keys_ok)

lemma fits_asset: "asset_fits a \<Longrightarrow> d \<le> 11 \<Longrightarrow> fits d (asset_reference_json a)"
  unfolding asset_fits_def encodable_def asset_reference_json_def by (subst (asm) fits_sorted_object, simp_all add: sized)

lemma quote_size: "nodes (observation_json (sample_quote asset s q rate t)) \<le> 21"
  unfolding observation_json_def by (subst nodes_sorted_object) (cases s; simp add: sample_quote_def sized asset_size)+

lemma reference_fits: "text_fits (STABLECOIN_VALUATION_FEED_REFERENCES c s)"
  by (cases c; cases s; simp only: STABLECOIN_VALUATION_FEED_REFERENCES.simps; code_simp)

lemma rates_fit: "text_fits ''100000000''" "text_fits ''97000000''" "text_fits ''1000000''" "text_fits ''0''"
  by code_simp+

lemma step_fits: "step_digit q \<Longrightarrow> text_fits q" "step_digit q \<Longrightarrow> text_fits (replicate 64 (hd q))" "text_fits (source_text s)"
proof -
  show "text_fits q" "text_fits (replicate 64 (hd q))" if "step_digit q"
    using that by (auto simp: step_digit_def text_fits_def list_ex_iff)
  show "text_fits (source_text s)" by (cases s) (simp_all add: text_fits_def)
qed

lemma quote_fits:
  assumes "asset_fits asset" "step_digit q" "text_fits rate" "four_digit_time t" "d \<le> 10"
  shows "fits d (observation_json (sample_quote asset s q rate t))"
proof -
  have "text_fits ''PUBLISHED_ABSOLUTE_USD''" "text_fits ''NOT_PUBLISHED''" "text_fits ''PYTH_CORE''" "text_fits ''CHAINLINK_DATA_FEEDS''"
    by code_simp+
  then show ?thesis
    unfolding observation_json_def
    by (subst fits_sorted_object; cases s; use assms in \<open>simp add: sample_quote_def sized fits_asset step_fits reference_fits iso_fits rates_fit
        safe_integer_def\<close>)
qed

lemma public_quote: "publicObservation (parsed_quote asset s q rate t) = sample_quote asset s q rate t"
  by (simp add: parsed_quote_def parsedObservation_def)

lemma sample_size: "nodes (sample_json (peg_sample registry asset q t)) \<le> 45"
proof -
  have "nodes (observation_json (sample_quote asset PYTH_CORE q ''100000000'' t)) \<le> 21"
    "nodes (observation_json (sample_quote asset CHAINLINK_DATA_FEEDS q ''100000000'' t)) \<le> 21" by (rule quote_size)+
  then show ?thesis
    unfolding sample_json_def by (subst nodes_sorted_object) (simp_all add: peg_sample_def both_quotes_def public_quote STABLECOIN_VALUATION_SOURCES_def)
qed

lemma sample_fits:
  assumes "asset_fits asset" "step_digit q" "four_digit_time t" "d \<le> 8"
  shows "fits d (sample_json (peg_sample registry asset q t))"
  unfolding sample_json_def
  by (subst fits_sorted_object) (use assms in \<open>simp_all add: peg_sample_def both_quotes_def public_quote STABLECOIN_VALUATION_SOURCES_def quote_fits rates_fit iso_fits\<close>)

lemma recovery_encodable:
  assumes "asset_fits asset" "sha256_hex latchId" "sha256_hex clearId" "four_digit_time t" "four_digit_time (t + 1800000)"
  shows "encodable (JsonArray [JsonInt 1, recovery_json (peg_request registry asset latchId clearId t)])"
proof -
  have time: "four_digit_time u" if "t \<le> u" "u \<le> t + 1800000" for u
    using four_digit_between [OF assms(4) that assms(5)] .
  have sizes: "nodes (sample_json (peg_sample registry asset ''1'' t)) \<le> 45"
    "nodes (sample_json (peg_sample registry asset ''2'' (t + 600000))) \<le> 45"
    "nodes (sample_json (peg_sample registry asset ''3'' (t + 1200000))) \<le> 45"
    "nodes (sample_json (peg_sample registry asset ''4'' (t + 1800000))) \<le> 45" by (rule sample_size)+
  have "fits 3 (sample_json (peg_sample registry asset ''1'' t))"
    "fits 3 (sample_json (peg_sample registry asset ''2'' (t + 600000)))"
    "fits 3 (sample_json (peg_sample registry asset ''3'' (t + 1200000)))"
    "fits 3 (sample_json (peg_sample registry asset ''4'' (t + 1800000)))"
    by (rule sample_fits [OF assms(1)]; simp add: step_digit_def time)+
  then have fit: "fits 1 (recovery_json (peg_request registry asset latchId clearId t))"
    unfolding recovery_json_def peg_request_def ParsedRecoveryRequest.select_convs
    by (subst fits_sorted_object)
      (simp_all add: keys_ok sample_steps_def option_json_def latch_json_def clear_json_def sized fits_asset [OF assms(1)]
        digest_fits [OF assms(2)] digest_fits [OF assms(3)] iso_fits [OF assms(4)] iso_fits [OF assms(5)] eval_nat_numeral)
  have "nodes (recovery_json (peg_request registry asset latchId clearId t)) \<le> 300"
    using sizes unfolding recovery_json_def peg_request_def ParsedRecoveryRequest.select_convs
    by (subst nodes_sorted_object)
      (simp_all add: keys_ok sample_steps_def option_json_def latch_json_def clear_json_def sized asset_size)
  then show ?thesis using fit by (simp add: encodable_def safe_integer_def)
qed

subsection \<open>A clear command\<close>

lemma recovery_flags [simp]:
  "rv_mayIncreaseBuyingPower (recoverRequest q) = False" "rv_mayAuthorizeFinancialUse (recoverRequest q) = False"
  "rv_manualRiskClearAccepted (recoverRequest q) = (rv_acceptedManualRiskClear (recoverRequest q) \<noteq> None)"
  by (simp_all add: recoverRequest_def recoveryResult_def Let_def split: option.splits)

definition sample_evidence :: "(string \<Rightarrow> string) \<Rightarrow> VersionedSupportedAssetRegistry \<Rightarrow> StablecoinValuationAssetReference \<Rightarrow> string \<Rightarrow>
    string \<Rightarrow> int \<Rightarrow> ValidatedRecoveryEvidence" where
  "sample_evidence sha256 registry asset latchId clearId t =
     \<lparr>re_asset = asset, re_latchId = latchId, re_latchedAt = to_iso t, re_clearId = clearId,
      re_clearedAt = to_iso (t + 1800000), re_evaluatedAt = to_iso (t + 1800000),
      re_fingerprintSha256 = sha256 (recovery_text (peg_request registry asset latchId clearId t))\<rparr>"

lemma sample_evidence_accepted:
  assumes asset: "parseAsset registry (asset_value asset) = Inr asset"
      "normalizeStablecoinDepegLatchAsset registry (asset_value asset) = Inr asset" "asset_fits asset"
    and ids: "sha256_hex latchId" "sha256_hex clearId" "clearId \<noteq> latchId"
    and times: "four_digit_time t" "four_digit_time (t + 1800000)"
  shows "validateRecoveryEvidence sha256 registry (recovery_value asset latchId clearId t) =
    Inr (sample_evidence sha256 registry asset latchId clearId t)"
proof -
  let ?v = "recovery_value asset latchId clearId t"
  let ?q = "peg_request registry asset latchId clearId t"
  let ?vs = "[asset_value asset, JString (to_iso (t + 1800000)), latch_value asset latchId t, clear_value asset clearId latchId (t + 1800000),
      mk_array (map (\<lambda>(q, t). sample_value asset q t) (sample_steps t))]"
  let ?r = "zip RECOVERY_REQUEST_KEYS ?vs"
  have own: "ownDataRecord ?v RECOVERY_REQUEST_KEYS code = Inr ?r" for code
    using literal_record [OF keys_ok(5), of ?vs] by (simp add: own_record_iff recovery_value_def RECOVERY_REQUEST_KEYS_def)
  have g: "js_get ?r ''asset'' = asset_value asset" "js_get ?r ''evaluatedAt'' = JString (to_iso (t + 1800000))"
    by (simp_all add: RECOVERY_REQUEST_KEYS_def js_get_def)
  have q: "parseRecoveryRequest registry (copied_object ?r) = Inr ?q"
    using parse_recovery_value [OF asset(1) ids times] copied_recovery [OF own] by simp
  have e: "evaluateStablecoinRecovery registry (copied_object ?r) = recoverRequest ?q" by (simp add: evaluateStablecoinRecovery_def q)
  let ?l = "\<lparr>dl_asset = asset, dl_latchId = latchId, dl_latchedAt = to_iso t\<rparr>"
  let ?c = "\<lparr>mc_asset = asset, mc_clearId = clearId, mc_latchId = latchId, mc_clearedAt = to_iso (t + 1800000)\<rparr>"
  have parts: "rr_depegLatch ?q = Some (?l, t)" "rr_manualRiskClear ?q = Some (?c, t + 1800000)" "rr_asset ?q = asset"
    "rr_evaluatedAt ?q = to_iso (t + 1800000)"
    by (simp_all add: peg_request_def)
  have "clears ?q ?l (?c, t + 1800000)" by (simp add: clears_def peg_request_def sample_steps_def peg_sample_def)
  then have cleared: "rv_status (recoverRequest ?q) = RECOVERY_CANDIDATE_CLEARED"
    unfolding recoverRequest_cleared [OF parseRecoveryRequest_ok [OF q]]
    using peg_request_evidence [OF asset(1) ids times] parts by blast
  have result: "rv_asset (recoverRequest ?q) = Some asset" "rv_evaluatedAt (recoverRequest ?q) = Some (to_iso (t + 1800000))"
      "rv_depegLatch (recoverRequest ?q) = Some ?l" "rv_acceptedManualRiskClear (recoverRequest ?q) = Some ?c"
    by (rule recovery_result [OF q cleared [folded e]]; use parts e in simp)+
  have "reads (mk_array [js_int 1, copied_object ?r]) (JsonArray [JsonInt 1, recovery_json ?q])"
    by (rule reads_mk_array) (simp_all add: reads_recovery [OF q])
  then have f: "fingerprint sha256 RECOVERY_EVIDENCE_FINGERPRINT_DOMAIN (mk_array [js_int 1, copied_object ?r]) = Inr (sha256 (recovery_text ?q))"
    using recovery_encodable [OF asset(3) ids(1,2) times] by (simp add: fingerprint_reads recovery_text_def)
  have time: "latch_parseTimestamp (JString (to_iso u)) code = Inr (to_iso u, u)" if "four_digit_time u" for u code
    using that by (simp add: latch_time_iff)
  show ?thesis
    unfolding validateRecoveryEvidence_def own res_bind.simps g asset(2) Let_def e result option.case prod.case f
    using ids by (simp add: cleared result val_sameAsset_iff asset(2) latch_parseDigest_def latch_text_def time times sample_evidence_def)
qed

text \<open>The authorization of that recovery, and the command.\<close>

definition authorization_value :: "(string \<Rightarrow> string) \<Rightarrow> StablecoinDepegRecoveryAuthorizationMaterial \<Rightarrow> jsval" where
  "authorization_value sha256 m = mk_object (zip AUTHORIZATION_KEYS (material_values m @
     [JString (sha256 (authorization_text m)), JString (AUTHORIZATION_ID_PREFIX @ sha256 (authorization_text m))]))"

lemma authorization_keys: "distinct AUTHORIZATION_KEYS" "length AUTHORIZATION_KEYS = 19"
  "length (material_values m) = 17"
  by (simp_all add: AUTHORIZATION_KEYS_def AUTHORIZATION_MATERIAL_KEYS_def material_values_def)

lemma material_copied:
  "normalizeAuthorizationMaterial registry (copied_object (zip AUTHORIZATION_MATERIAL_KEYS (material_values m))) =
   normalizeAuthorizationMaterial registry (material_value m)"
proof -
  let ?r = "zip AUTHORIZATION_MATERIAL_KEYS (material_values m)"
  have "map fst ?r = AUTHORIZATION_MATERIAL_KEYS" by (simp add: material_keys material_values_def)
  then have "ownDataRecord (copied_object ?r) AUTHORIZATION_MATERIAL_KEYS code = Inr ?r" for code
    using copied_record [OF _ material_keys(1), of ?r] by (simp only: ownDataRecord_def of_option_eq_Inr)
  moreover have "ownDataRecord (material_value m) AUTHORIZATION_MATERIAL_KEYS code = Inr ?r" for code
    unfolding own_record_iff material_value_def by (rule literal_record) (simp_all add: material_keys material_values_def)
  ultimately show ?thesis unfolding normalizeAuthorizationMaterial_def by (simp only:)
qed

lemma js_get_append:
  "length vs = length ks \<Longrightarrow> k \<in> set ks \<Longrightarrow> js_get (zip (ks @ ls) (vs @ ws)) k = js_get (zip ks vs) k"
  "length vs = length ks \<Longrightarrow> k \<notin> set ks \<Longrightarrow> js_get (zip (ks @ ls) (vs @ ws)) k = js_get (zip ls ws) k"
  by (induction vs ks rule: list_induct2) (auto simp: js_get_def)

lemma authorization_written:
  assumes "authorization_ok m" "normalizeStablecoinDepegLatchAsset registry (asset_value (au_asset m)) = Inr (au_asset m)"
    "\<And>s. sha256_hex (sha256 s)" "encodable (material_json m)"
  shows "normalizeAuthorization sha256 registry (authorization_value sha256 m) =
    Inr \<lparr>az_material = m, az_authorizationFingerprintSha256 = sha256 (authorization_text m),
         az_authorizationId = AUTHORIZATION_ID_PREFIX @ sha256 (authorization_text m)\<rparr>"
proof -
  let ?g = "sha256 (authorization_text m)"
  let ?ws = "[JString ?g, JString (AUTHORIZATION_ID_PREFIX @ ?g)]"
  let ?r = "zip AUTHORIZATION_KEYS (material_values m @ ?ws)"
  have own: "ownDataRecord (authorization_value sha256 m) AUTHORIZATION_KEYS code = Inr ?r" for code
    unfolding own_record_iff authorization_value_def by (rule literal_record) (simp_all add: authorization_keys)
  have len: "length (material_values m) = length AUTHORIZATION_MATERIAL_KEYS" by (simp add: material_keys authorization_keys)
  have "map (\<lambda>k. (k, js_get ?r k)) AUTHORIZATION_MATERIAL_KEYS =
      zip AUTHORIZATION_MATERIAL_KEYS (map (js_get (zip AUTHORIZATION_MATERIAL_KEYS (material_values m))) AUTHORIZATION_MATERIAL_KEYS)"
    unfolding AUTHORIZATION_KEYS_def by (simp add: zip_map2 zip_same_conv_map js_get_append(1) [OF len])
  then have copied: "map (\<lambda>k. (k, js_get ?r k)) AUTHORIZATION_MATERIAL_KEYS = zip AUTHORIZATION_MATERIAL_KEYS (material_values m)"
    using js_get_keys [of "zip AUTHORIZATION_MATERIAL_KEYS (material_values m)" AUTHORIZATION_MATERIAL_KEYS] material_keys(1) len
    by simp
  have fresh: "''authorizationFingerprintSha256'' \<notin> set AUTHORIZATION_MATERIAL_KEYS" "''authorizationId'' \<notin> set AUTHORIZATION_MATERIAL_KEYS"
    by (simp_all add: AUTHORIZATION_MATERIAL_KEYS_def)
  have g: "js_get ?r ''authorizationFingerprintSha256'' = JString ?g" "js_get ?r ''authorizationId'' = JString (AUTHORIZATION_ID_PREFIX @ ?g)"
    unfolding AUTHORIZATION_KEYS_def by (simp_all add: js_get_append(2) [OF len] fresh) (simp_all add: js_get_def)
  note m = material_written [OF assms(1,2)]
  have f: "fingerprintStablecoinDepegRecoveryAuthorization sha256 registry (material_value m) = Inr ?g"
    using assms(4) by (simp add: fingerprintStablecoinDepegRecoveryAuthorization_def m fingerprint_reads [OF reads_material] authorization_text_def)
  show ?thesis
    unfolding normalizeAuthorization_def Let_def own res_bind.simps copied material_copied m g f
    using assms(3) by (simp add: latch_parseDigest_def latch_text_def)
qed

lemma material_fits:
  assumes "asset_fits (au_asset m)" "authorization_ok m" "text_fits (au_evidenceActorReferenceId m)" "text_fits (au_riskApproverReferenceId m)"
  shows "encodable (material_json m)"
proof -
  have "text_fits ''STABLECOIN_DEPEG_LATCH_RECOVERY''" "text_fits ''DEPEG_LATCH_CLEAR_ONLY''" "text_fits ''CLEAR_STABLECOIN_DEPEG_LATCH''"
    "text_fits ''RISK_APPROVER''" by code_simp+
  moreover have "text_fits (au_issuedAt m)" "text_fits (au_notBefore m)" "text_fits (au_expiresAt m)"
    using assms(2) iso_fits by (auto simp: authorization_ok_def window_ok_def)
  ultimately show ?thesis
    using assms digest_fits uuid_fits
    by (simp add: encodable_def material_json_def asset_size fits_asset authorization_ok_def safe_integer_def)
qed

definition sample_material :: "(string \<Rightarrow> string) \<Rightarrow> VersionedSupportedAssetRegistry \<Rightarrow> StablecoinValuationAssetReference \<Rightarrow>
    string \<Rightarrow> string \<Rightarrow> int \<Rightarrow> StablecoinDepegRecoveryAuthorizationMaterial" where
  "sample_material sha256 registry asset latchId clearId t =
     \<lparr>au_asset = asset, au_expectedLatchId = latchId, au_expectedRevision = 1, au_clearId = clearId,
      au_recoveryEvidenceFingerprintSha256 = sha256 (recovery_text (peg_request registry asset latchId clearId t)),
      au_evidenceActorReferenceId = ''depeg-monitor'', au_riskApproverReferenceId = ''risk-approver'',
      au_issuedAt = to_iso (t + 1800000), au_notBefore = to_iso (t + 1800000), au_expiresAt = to_iso (t + 2700000),
      au_nonce = ''00000000-0000-4000-8000-000000000000''\<rparr>"

lemma sample_material_ok:
  assumes "\<And>s. sha256_hex (sha256 s)" "sha256_hex latchId" "sha256_hex clearId" "clearId \<noteq> latchId"
    "four_digit_time (t + 1800000)" "four_digit_time (t + 2700000)"
  shows "authorization_ok (sample_material sha256 registry asset latchId clearId t)"
proof -
  have "REFERENCE ''depeg-monitor''" "REFERENCE ''risk-approver''" "uuid_v4 ''00000000-0000-4000-8000-000000000000''" by code_simp+
  moreover have "window_ok (to_iso (t + 1800000)) (to_iso (t + 1800000)) (to_iso (t + 2700000))"
    unfolding window_ok_def using assms(5,6)
    by (intro exI [of _ "t + 1800000"] exI [of _ "t + 2700000"]) simp
  ultimately show ?thesis using assms(1-4) by (auto simp: authorization_ok_def sample_material_def)
qed

definition clear_input :: "(string \<Rightarrow> string) \<Rightarrow> VersionedSupportedAssetRegistry \<Rightarrow> StablecoinValuationAssetReference \<Rightarrow>
    string \<Rightarrow> string \<Rightarrow> int \<Rightarrow> string \<Rightarrow> jsval" where
  "clear_input sha256 registry asset latchId clearId t correlationId = mk_object (zip CLEAR_KEYS
     [JString (to_iso (t + 1800000)), JString correlationId, recovery_value asset latchId clearId t,
      authorization_value sha256 (sample_material sha256 registry asset latchId clearId t)])"

definition sample_clear :: "(string \<Rightarrow> string) \<Rightarrow> VersionedSupportedAssetRegistry \<Rightarrow> StablecoinValuationAssetReference \<Rightarrow>
    string \<Rightarrow> string \<Rightarrow> int \<Rightarrow> string \<Rightarrow> string \<Rightarrow> string \<Rightarrow> NormalizedClearStablecoinDepegLatchCommand" where
  "sample_clear sha256 registry asset latchId clearId t correlationId f g =
     (let m = sample_material sha256 registry asset latchId clearId t in
      \<lparr>nc_asset = asset, nc_evaluatedAt = to_iso (t + 1800000), nc_correlationId = correlationId,
       nc_clearId = clearId, nc_latchId = latchId, nc_latchedAt = to_iso t, nc_expectedRevision = 1,
       nc_recoveryEvidenceFingerprintSha256 = au_recoveryEvidenceFingerprintSha256 m,
       nc_evidenceActorReferenceId = au_evidenceActorReferenceId m, nc_riskApproverReferenceId = au_riskApproverReferenceId m,
       nc_clearedAt = to_iso (t + 1800000), nc_authorizationIssuedAt = au_issuedAt m, nc_authorizationNotBefore = au_notBefore m,
       nc_authorizationExpiresAt = au_expiresAt m, nc_authorizationNonce = au_nonce m,
       nc_authorizationFingerprintSha256 = sha256 (authorization_text m),
       nc_authorizationId = AUTHORIZATION_ID_PREFIX @ sha256 (authorization_text m), nc_commandFingerprintSha256 = f,
       nc_eventFingerprintSha256 = g\<rparr>)"

lemma prefix_fits: "sha256_hex s \<Longrightarrow> text_fits (AUTHORIZATION_ID_PREFIX @ s)"
proof -
  assume s: "sha256_hex s"
  have "text_fits AUTHORIZATION_ID_PREFIX \<and> length AUTHORIZATION_ID_PREFIX \<le> 100" by code_simp
  moreover have "length s = 64" using s unfolding sha256_hex_def by (auto dest: matches_classes_length)
  ultimately show ?thesis using digest_fits [OF s] by (simp add: text_fits_def)
qed

lemma event_accepted:
  assumes "text_fits f" "text_fits event" "0 \<le> n" "n < 9007199254740991"
  shows "fingerprint sha256 domain (latch_event_value f n event) = Inr (sha256 (event_text domain f n event))"
proof -
  have "reads (latch_event_value f n event) (JsonArray [JsonText f, JsonInt n, JsonText event])"
    unfolding latch_event_value_def by (rule reads_mk_array) simp_all
  then show ?thesis using assms by (simp add: fingerprint_reads event_text_def encodable_def safe_integer_def)
qed

lemma clear_command_written:
  assumes "asset_fits asset" "\<And>s. sha256_hex (sha256 s)" "sha256_hex latchId" "sha256_hex clearId" "uuid_v4 correlationId"
    "four_digit_time t" "four_digit_time (t + 1800000)" "four_digit_time (t + 2700000)"
  shows "\<exists>f. sha256_hex f \<and> fingerprint sha256 CLEAR_COMMAND_FINGERPRINT_DOMAIN (clear_command_value
      (sample_evidence sha256 registry asset latchId clearId t)
      \<lparr>az_material = sample_material sha256 registry asset latchId clearId t, az_authorizationFingerprintSha256 = sha256 g,
       az_authorizationId = AUTHORIZATION_ID_PREFIX @ sha256 g\<rparr> (to_iso (t + 1800000)) correlationId) = Inr f"
proof -
  have texts: "text_fits ''depeg-monitor''" "text_fits ''risk-approver''" "text_fits ''RISK_APPROVER''"
    "text_fits ''00000000-0000-4000-8000-000000000000''" by code_simp+
  let ?m = "sample_material sha256 registry asset latchId clearId t"
  let ?e = "sample_evidence sha256 registry asset latchId clearId t"
  let ?j = "JsonArray
     [JsonInt 1, asset_reference_json asset, JsonText (to_iso (t + 1800000)), JsonText correlationId, JsonText clearId, JsonText latchId,
      JsonText (to_iso t), JsonInt 1, JsonText (re_fingerprintSha256 ?e), JsonText ''depeg-monitor'', JsonText ''risk-approver'',
      JsonText ''RISK_APPROVER'', JsonText (to_iso (t + 1800000)), JsonText (to_iso (t + 1800000)), JsonText (to_iso (t + 1800000)),
      JsonText (to_iso (t + 2700000)), JsonText ''00000000-0000-4000-8000-000000000000'', JsonText (sha256 g),
      JsonText (AUTHORIZATION_ID_PREFIX @ sha256 g)]"
  let ?v = "clear_command_value ?e \<lparr>az_material = ?m, az_authorizationFingerprintSha256 = sha256 g,
       az_authorizationId = AUTHORIZATION_ID_PREFIX @ sha256 g\<rparr> (to_iso (t + 1800000)) correlationId"
  have "reads ?v ?j"
    unfolding clear_command_value_def Let_def
    by (rule reads_mk_array) (simp_all add: reads_asset_value sample_evidence_def sample_material_def)
  moreover have "encodable ?j"
    using assms by (simp add: encodable_def asset_size fits_asset texts digest_fits uuid_fits iso_fits prefix_fits safe_integer_def
        sample_evidence_def)
  ultimately show ?thesis using assms(2) by (simp add: fingerprint_reads)
qed

lemma clear_input_accepted:
  assumes asset: "parseAsset registry (asset_value asset) = Inr asset"
      "normalizeStablecoinDepegLatchAsset registry (asset_value asset) = Inr asset" "asset_fits asset"
    and ids: "sha256_hex latchId" "sha256_hex clearId" "clearId \<noteq> latchId" "uuid_v4 correlationId" "\<And>s. sha256_hex (sha256 s)"
    and times: "four_digit_time t" "four_digit_time (t + 1800000)" "four_digit_time (t + 2700000)"
  shows "\<exists>f g. normalizeClearStablecoinDepegLatchCommand sha256 registry (clear_input sha256 registry asset latchId clearId t correlationId) =
    Inr (sample_clear sha256 registry asset latchId clearId t correlationId f g)"
proof -
  let ?m = "sample_material sha256 registry asset latchId clearId t"
  let ?e = "sample_evidence sha256 registry asset latchId clearId t"
  let ?g = "sha256 (authorization_text ?m)"
  let ?z = "\<lparr>az_material = ?m, az_authorizationFingerprintSha256 = ?g, az_authorizationId = AUTHORIZATION_ID_PREFIX @ ?g\<rparr>"
  let ?r = "zip CLEAR_KEYS [JString (to_iso (t + 1800000)), JString correlationId, recovery_value asset latchId clearId t,
      authorization_value sha256 ?m]"
  have own: "ownDataRecord (clear_input sha256 registry asset latchId clearId t correlationId) CLEAR_KEYS code = Inr ?r" for code
    unfolding own_record_iff clear_input_def by (rule literal_record) (simp_all add: CLEAR_KEYS_def)
  have get: "js_get ?r ''evaluatedAt'' = JString (to_iso (t + 1800000))" "js_get ?r ''correlationId'' = JString correlationId"
      "js_get ?r ''recoveryRequest'' = recovery_value asset latchId clearId t" "js_get ?r ''authorization'' = authorization_value sha256 ?m"
    by (simp_all add: CLEAR_KEYS_def js_get_def)
  have ok: "authorization_ok ?m" by (rule sample_material_ok) (use ids times in simp_all)
  have refs: "text_fits ''depeg-monitor''" "text_fits ''risk-approver''" by code_simp+
  have fits: "encodable (material_json ?m)"
    by (rule material_fits [OF _ ok]) (simp_all add: sample_material_def asset(3) refs)
  have auth: "normalizeAuthorization sha256 registry (authorization_value sha256 ?m) = Inr ?z"
    by (rule authorization_written [OF ok _ _ fits]) (simp_all add: sample_material_def asset(2) ids(5))
  note evidence = sample_evidence_accepted [OF asset ids(1-3) times(1,2)]
  obtain f where f: "sha256_hex f"
      "fingerprint sha256 CLEAR_COMMAND_FINGERPRINT_DOMAIN (clear_command_value ?e ?z (to_iso (t + 1800000)) correlationId) = Inr f"
    using clear_command_written [of asset sha256 latchId clearId correlationId t registry "authorization_text ?m"] asset ids times
    by blast
  have event: "text_fits ''CLEARED''" by code_simp
  have g: "fingerprint sha256 CLEAR_EVENT_FINGERPRINT_DOMAIN (latch_event_value f (au_expectedRevision ?m + 1) ''CLEARED'') =
      Inr (sha256 (event_text CLEAR_EVENT_FINGERPRINT_DOMAIN f (au_expectedRevision ?m + 1) ''CLEARED''))"
    by (rule event_accepted [OF digest_fits [OF f(1)] event]) (simp_all add: sample_material_def)
  have time: "latch_parseTimestamp (JString (to_iso u)) code = Inr (to_iso u, u)" if "four_digit_time u" for u code
    using that by (simp add: latch_time_iff)
  have uuid: "latch_parseUuid (JString correlationId) code = Inr correlationId" for code
    using ids(4) by (simp add: latch_parse_iffs)
  have issued: "au_issuedAt ?m = to_iso (t + 1800000)" "au_notBefore ?m = to_iso (t + 1800000)" "au_expiresAt ?m = to_iso (t + 2700000)"
    by (simp_all add: sample_material_def)
  let ?h = "sha256 (event_text CLEAR_EVENT_FINGERPRINT_DOMAIN f (au_expectedRevision ?m + 1) ''CLEARED'')"
  have "normalizeClearStablecoinDepegLatchCommand sha256 registry (clear_input sha256 registry asset latchId clearId t correlationId) =
    Inr (sample_clear sha256 registry asset latchId clearId t correlationId f ?h)"
    unfolding normalizeClearStablecoinDepegLatchCommand_def own res_bind.simps get time [OF times(2)] uuid evidence auth Let_def
      StablecoinDepegRecoveryAuthorization.select_convs issued time [OF times(3)] fst_conv snd_conv f(2) g
    by (simp add: sample_evidence_def sample_material_def val_sameAsset_iff sample_clear_def Let_def)
  then show ?thesis by blast
qed

subsection \<open>A record command\<close>

lemma value_band:
  assumes "vq_ok q" "current_evidence q s x" "conservative_of x \<le> 98000000"
  shows "sv_downsideBand (valueRequest q) = DEPEGGED"
proof -
  have out: "sv_depegClass (valueRequest q) = OUTSIDE_POLICY" using value_depeg(2) [OF assms(1)] assms(2,3) by blast
  show ?thesis
  proof (cases "sv_availability (valueRequest q) = Price_AVAILABLE")
    case True
    obtain k cs as agreement confidence where k: "valueRequest q = availableResult q cs as agreement confidence"
        "sc_conservativeRate (lowest_candidate cs) = rate8 k"
      using value_rate [OF assms(1) True] by blast
    have "k \<le> 98000000" using out availableResult_fields(5) [OF assms(1) k(2,1)] by (simp split: if_splits)
    then show ?thesis using availableResult_fields(4) [OF assms(1) k(2,1)] by (simp add: downside_rate8)
  next
    case False
    show ?thesis
      using assms(1)
    proof (cases rule: value_cases)
      case neither
      then show ?thesis using assms(2) by blast
    next
      case (single s role x)
      then show ?thesis using False single_available [OF assms(1) single(5)] by blast
    next
      case (both x y)
      have "classifySourceAgreement (ob_rate x) (ob_rate y) = CONFLICT"
      proof (rule ccontr)
        assume "classifySourceAgreement (ob_rate x) (ob_rate y) \<noteq> CONFLICT"
        then have "\<exists>as agreement confidence. valueRequest q = availableResult q [pyth_candidate x, link_candidate y] as agreement confidence"
          using both(7) by (auto simp: Let_def)
        from both_available [OF assms(1) this] False show False by blast
      qed
      then show ?thesis using both(7) out by (auto simp: Let_def split: if_splits)
    qed
  qed
qed

lemma value_flags:
  "sv_mayIncreaseBuyingPower (availableResult q cs as g c) = False" "sv_mayAuthorizeFinancialUse (availableResult q cs as g c) = False"
  "sv_mayIncreaseBuyingPower (unavailableResult a am e ag rs as d b) = False" "sv_mayAuthorizeFinancialUse (unavailableResult a am e ag rs as d b) = False"
  by (simp_all add: availableResult_def unavailableResult_def Let_def split: option.split)

lemma value_request_flags: "\<not> sv_mayIncreaseBuyingPower (valueRequest q)" "\<not> sv_mayAuthorizeFinancialUse (valueRequest q)"
  unfolding valueRequest_def Let_def by (simp_all add: value_flags split: list.split)

lemma sample_asset_latched:
  "normalizeStablecoinDepegLatchAsset sample_versions (asset_value sample_asset) = Inr sample_asset" "asset_fits sample_asset"
  by code_simp+

text \<open>A latch on the sample asset after a quote of 0.97 dollars.\<close>

definition latch_input :: jsval where
  "latch_input = mk_object (zip LATCH_RECORD_KEYS
     [JNull, JString ''00000000-0000-4000-8000-000000000000'', JString sample_digest, JString ''depeg-monitor'', JString sample_digest,
      first_quotes ''97000000''])"

lemma watermark_sizes: "nodes (watermark_json (first_use s)) = 6" "d \<le> 9 \<Longrightarrow> fits d (watermark_json (first_use s))"
  unfolding watermark_json_def by (subst nodes_sorted_object; simp add: first_use_def option_json_def)
    (subst fits_sorted_object; simp add: first_use_def option_json_def step_fits)

lemma latch_evidence_encodable:
  "encodable (JsonArray [JsonInt 1, JsonText ''depeg-monitor'', valuation_json (first_query ''97000000'')])"
proof -
  have actor: "text_fits ''depeg-monitor''" by code_simp
  have quotes: "map (\<lambda>o'. observation_json (publicObservation o')) (both_quotes sample_asset ''2'' ''97000000'' sample_time) =
      [observation_json (sample_quote sample_asset PYTH_CORE ''2'' ''97000000'' sample_time),
       observation_json (sample_quote sample_asset CHAINLINK_DATA_FEEDS ''2'' ''97000000'' sample_time)]"
    by (simp add: both_quotes_def public_quote STABLECOIN_VALUATION_SOURCES_def)
  have "nodes (observation_json (sample_quote sample_asset PYTH_CORE ''2'' ''97000000'' sample_time)) \<le> 21"
    "nodes (observation_json (sample_quote sample_asset CHAINLINK_DATA_FEEDS ''2'' ''97000000'' sample_time)) \<le> 21"
    by (rule quote_size)+
  moreover have "fits 3 (observation_json (sample_quote sample_asset PYTH_CORE ''2'' ''97000000'' sample_time))"
    "fits 3 (observation_json (sample_quote sample_asset CHAINLINK_DATA_FEEDS ''2'' ''97000000'' sample_time))"
    by (rule quote_fits; simp add: sample_asset_latched step_digit_def rates_fit quote_times)+
  ultimately show ?thesis
    unfolding valuation_json_def quotes_query_def valuation_query_def ParsedValuationRequest.select_convs quotes
    by (simp add: encodable_def sized asset_size fits_asset sample_asset_latched watermark_sizes STABLECOIN_VALUATION_SOURCES_def
        rates_fit iso_fits quote_times actor safe_integer_def eval_nat_numeral)
qed

abbreviation sample_hash :: "string \<Rightarrow> string" where
  "sample_hash \<equiv> (\<lambda>bytes. sample_digest)"

lemma sample_digest_hex: "sha256_hex sample_digest"
  by code_simp

text \<open>The same record without a prototype.\<close>

definition latch_copy :: jsval where
  "latch_copy = copied_object (zip LATCH_RECORD_KEYS
     [JNull, JString ''00000000-0000-4000-8000-000000000000'', JString sample_digest, JString ''depeg-monitor'', JString sample_digest,
      first_quotes ''97000000''])"

lemma latch_record: "ownDataRecord latch_input LATCH_RECORD_KEYS code = Inr (zip LATCH_RECORD_KEYS
     [JNull, JString ''00000000-0000-4000-8000-000000000000'', JString sample_digest, JString ''depeg-monitor'', JString sample_digest,
      first_quotes ''97000000''])"
  unfolding own_record_iff latch_input_def by (rule literal_record) (simp_all add: LATCH_RECORD_KEYS_def)

lemma latch_copy_same: "val_dataRecord latch_copy LATCH_RECORD_KEYS = val_dataRecord latch_input LATCH_RECORD_KEYS"
  "ownDataRecord latch_copy LATCH_RECORD_KEYS code = ownDataRecord latch_input LATCH_RECORD_KEYS code" "latch_copy \<noteq> latch_input"
proof -
  show same: "val_dataRecord latch_copy LATCH_RECORD_KEYS = val_dataRecord latch_input LATCH_RECORD_KEYS"
    unfolding latch_copy_def by (rule copied_dataRecord [OF latch_record]) (simp add: LATCH_RECORD_KEYS_def)
  show "ownDataRecord latch_copy LATCH_RECORD_KEYS code = ownDataRecord latch_input LATCH_RECORD_KEYS code"
    unfolding latch_record by (simp only: own_record_iff same latch_record [unfolded own_record_iff])
  show "latch_copy \<noteq> latch_input" by (simp add: latch_copy_def latch_input_def copied_object_def mk_object_def)
qed

lemma latch_evidence_accepted:
  "validateDepegEvidence sample_hash sample_versions (first_quotes ''97000000'') ''depeg-monitor'' =
   Inr (sample_asset, to_iso sample_time, sample_digest)"
proof -
  let ?q = "first_query ''97000000''"
  let ?vs = "[asset_value sample_asset, JString ''1000000'', JString (to_iso sample_time), STABLECOIN_VALUATION_FIRST_USE_WATERMARKS,
      mk_array (map observation_value
        (map (\<lambda>s. sample_quote sample_asset s ''2'' ''97000000'' sample_time) STABLECOIN_VALUATION_SOURCES))]"
  let ?r = "zip VALUATION_REQUEST_KEYS ?vs"
  have own: "ownDataRecord (first_quotes ''97000000'') VALUATION_REQUEST_KEYS code = Inr ?r" for code
    using literal_record [OF keys_ok(7), of ?vs] by (simp add: own_record_iff quotes_request_def request_value_def keys_ok)
  have g: "js_get ?r ''asset'' = asset_value sample_asset" "js_get ?r ''evaluatedAt'' = JString (to_iso sample_time)"
    by (simp_all add: VALUATION_REQUEST_KEYS_def js_get_def)
  have q: "parseValuationRequest sample_versions (copied_object ?r) = Inr ?q"
    using parse_first_quotes(2) copied_valuation [OF own] by simp
  note v = parsed_value [OF q]
  have current: "current_evidence ?q PYTH_CORE (parsed_quote sample_asset PYTH_CORE ''2'' ''97000000'' sample_time)"
    by (rule first_quotes_current)
  have low: "conservative_of (parsed_quote sample_asset PYTH_CORE ''2'' ''97000000'' sample_time) \<le> 98000000"
    by (simp add: quote_rates)
  have depeg: "DEPEG_DETECTED \<in> set (sv_reasons (valueRequest ?q))" "sv_depegClass (valueRequest ?q) = OUTSIDE_POLICY"
    using value_depeg [OF v(2)] current low by blast+
  have parts: "vq_asset ?q = sample_asset" "vq_evaluatedAt ?q = to_iso sample_time"
    by (simp_all add: quotes_query_def valuation_query_def)
  have "reads (mk_array [js_int 1, JString ''depeg-monitor'', copied_object ?r])
      (JsonArray [JsonInt 1, JsonText ''depeg-monitor'', valuation_json ?q])"
    by (rule reads_mk_array) (simp_all add: reads_valuation [OF q] del: map_map)
  then have f: "fingerprint sample_hash DEPEG_EVIDENCE_FINGERPRINT_DOMAIN (mk_array [js_int 1, JString ''depeg-monitor'', copied_object ?r]) =
      Inr sample_digest"
    using latch_evidence_encodable by (simp add: fingerprint_reads)
  have time: "latch_parseTimestamp (JString (to_iso sample_time)) code = Inr (to_iso sample_time, sample_time)" for code
    by (simp add: latch_time_iff quote_times)
  show ?thesis
    unfolding validateDepegEvidence_def own res_bind.simps g sample_asset_latched Let_def v(1) value_request_asset parts prod.case
      option.case time f
    using depeg value_band [OF v(2) current low] value_request_flags [of ?q] by (simp add: val_sameAsset_iff)
qed

lemma latch_input_accepted: "\<exists>c. normalizeRecordStablecoinDepegLatchCommand sample_hash sample_versions latch_input = Inr c"
proof -
  let ?u = "''00000000-0000-4000-8000-000000000000''"
  let ?r = "zip LATCH_RECORD_KEYS [JNull, JString ?u, JString sample_digest, JString ''depeg-monitor'', JString sample_digest,
      first_quotes ''97000000'']"
  note own = latch_record
  have get: "js_get ?r ''expectedRevision'' = JNull" "js_get ?r ''correlationId'' = JString ?u" "js_get ?r ''latchId'' = JString sample_digest"
      "js_get ?r ''evidenceActorReferenceId'' = JString ''depeg-monitor''" "js_get ?r ''depegEvidenceFingerprintSha256'' = JString sample_digest"
      "js_get ?r ''valuationRequest'' = first_quotes ''97000000''"
    by (simp_all add: LATCH_RECORD_KEYS_def js_get_def)
  have patterns: "uuid_v4 ?u" "REFERENCE ''depeg-monitor''" "text_fits ?u" "text_fits ''depeg-monitor''" "text_fits ''LATCHED''"
    by code_simp+
  have given: "parseRevision JNull True code = Inr None" "latch_parseUuid (JString ?u) code = Inr ?u"
      "latch_parseDigest (JString sample_digest) code = Inr sample_digest"
      "latch_parseReference (JString ''depeg-monitor'') code = Inr ''depeg-monitor''" for code
    by (simp_all add: revision_iff revision_value_def latch_parse_iffs patterns sample_digest_hex)
  let ?v = "latch_command_value sample_asset None ?u sample_digest (to_iso sample_time) ''depeg-monitor'' sample_digest"
  have "reads ?v (JsonArray [JsonInt 1, asset_reference_json sample_asset, JsonNull, JsonText ?u, JsonText sample_digest,
      JsonText (to_iso sample_time), JsonText ''depeg-monitor'', JsonText sample_digest])"
    unfolding latch_command_value_def revision_value_def option.case by (rule reads_mk_array) (simp_all add: reads_asset_value)
  then have f: "fingerprint sample_hash LATCH_COMMAND_FINGERPRINT_DOMAIN ?v = Inr sample_digest"
    using sample_asset_latched(2) patterns digest_fits [OF sample_digest_hex]
    by (simp add: fingerprint_reads encodable_def asset_size fits_asset iso_fits quote_times safe_integer_def)
  have g: "fingerprint sample_hash LATCH_EVENT_FINGERPRINT_DOMAIN (latch_event_value sample_digest 1 ''LATCHED'') = Inr sample_digest"
    by (rule event_accepted) (simp_all add: patterns digest_fits [OF sample_digest_hex])
  show ?thesis
    unfolding normalizeRecordStablecoinDepegLatchCommand_def own res_bind.simps get given latch_evidence_accepted prod.case f option.case g
    by simp
qed

lemma latch_copy_accepted:
  "normalizeRecordStablecoinDepegLatchCommand sha256 registry latch_copy = normalizeRecordStablecoinDepegLatchCommand sha256 registry latch_input"
  unfolding normalizeRecordStablecoinDepegLatchCommand_def latch_copy_same ..

lemma recovery_of_input:
  "\<exists>r. val_dataRecord (clear_input sha256 registry asset latchId clearId t correlationId) CLEAR_KEYS = Inr r \<and>
     js_get r ''recoveryRequest'' = recovery_value asset latchId clearId t"
proof -
  let ?vs = "[JString (to_iso (t + 1800000)), JString correlationId, recovery_value asset latchId clearId t,
      authorization_value sha256 (sample_material sha256 registry asset latchId clearId t)]"
  have "val_dataRecord (clear_input sha256 registry asset latchId clearId t correlationId) CLEAR_KEYS = Inr (zip CLEAR_KEYS ?vs)"
    unfolding clear_input_def by (rule literal_record) (simp_all add: CLEAR_KEYS_def)
  moreover have "js_get (zip CLEAR_KEYS ?vs) ''recoveryRequest'' = recovery_value asset latchId clearId t"
    by (simp add: CLEAR_KEYS_def js_get_def)
  ultimately show ?thesis by blast
qed

end
