(* ===== verification/Depeg_Latch_Theorems.thy ===== *)
theory Depeg_Latch_Theorems
  imports Depeg_Samples
begin

text \<open>
  The properties of the depeg-latch commands, for any registry, any input and any hash function, with
  instances on the sample asset of the valuation.
\<close>

subsection \<open>The requests of a command\<close>

definition valuation_of :: "VersionedSupportedAssetRegistry \<Rightarrow> jsval \<Rightarrow> ParsedValuationRequest valued" where
  "valuation_of registry v =
     res_bind (val_dataRecord v LATCH_RECORD_KEYS) (\<lambda>r. parseValuationRequest registry (js_get r ''valuationRequest''))"

definition recovery_of :: "VersionedSupportedAssetRegistry \<Rightarrow> jsval \<Rightarrow> ParsedRecoveryRequest valued" where
  "recovery_of registry v =
     res_bind (val_dataRecord v CLEAR_KEYS) (\<lambda>r. parseRecoveryRequest registry (js_get r ''recoveryRequest''))"

lemma material_json_inject: "(material_json m = material_json n) = (m = n)"
  by (cases m; cases n) (auto simp: material_json_def asset_json_inject)

lemma text_injects:
  "(authorization_text m = authorization_text n) = (m = n)"
  "(depeg_text a p = depeg_text b q) = (a = b \<and> valuation_json p = valuation_json q)"
  "(recovery_text r = recovery_text s) = (recovery_json r = recovery_json s)"
  by (simp_all add: authorization_text_def depeg_text_def recovery_text_def digest_input_inject material_json_inject)

lemma clear_text_fields:
  "clear_command_text c = clear_command_text c' \<Longrightarrow> material_of c = material_of c' \<and> nc_evaluatedAt c = nc_evaluatedAt c' \<and>
   nc_correlationId c = nc_correlationId c' \<and> nc_latchedAt c = nc_latchedAt c' \<and> nc_clearedAt c = nc_clearedAt c' \<and>
   nc_authorizationFingerprintSha256 c = nc_authorizationFingerprintSha256 c' \<and> nc_authorizationId c = nc_authorizationId c'"
  by (auto simp: clear_command_text_def digest_input_inject asset_json_inject material_of_def)

lemma option_int_inject: "(option_json JsonInt x = option_json JsonInt y) = (x = y)"
  by (auto simp: option_json_def split: option.splits)

lemma latch_text_fields:
  "latch_command_text c = latch_command_text c' \<Longrightarrow> nl_asset c = nl_asset c' \<and> nl_expectedRevision c = nl_expectedRevision c' \<and>
   nl_correlationId c = nl_correlationId c' \<and> nl_latchId c = nl_latchId c' \<and> nl_latchedAt c = nl_latchedAt c' \<and>
   nl_evidenceActorReferenceId c = nl_evidenceActorReferenceId c' \<and>
   nl_depegEvidenceFingerprintSha256 c = nl_depegEvidenceFingerprintSha256 c'"
  by (auto simp: latch_command_text_def digest_input_inject asset_json_inject option_int_inject)

lemma separated: "inj_on h {a, b} \<Longrightarrow> x = h a \<Longrightarrow> y = h b \<Longrightarrow> x = y \<Longrightarrow> a = b"
  by (rule inj_onD [of h "{a, b}" a b]) simp_all

text \<open>Two sample clears of one recovery, with different correlation identifiers.\<close>

abbreviation correlation :: "string \<Rightarrow> string" where
  "correlation d \<equiv> ''00000000-0000-4000-8000-00000000000'' @ d"

abbreviation sample_clear_id :: string where
  "sample_clear_id \<equiv> replicate 64 (CHR ''b'')"

abbreviation sample_clear_input :: "string \<Rightarrow> jsval" where
  "sample_clear_input d \<equiv> clear_input sample_hash sample_versions sample_asset sample_digest sample_clear_id sample_time (correlation d)"

lemma sample_clear_given:
  "sha256_hex sample_clear_id" "sample_clear_id \<noteq> sample_digest" "uuid_v4 (correlation ''1'')" "uuid_v4 (correlation ''2'')"
  "four_digit_time (sample_time + 2700000)"
  by code_simp+

lemma sample_clear_accepted:
  "uuid_v4 (correlation d) \<Longrightarrow> \<exists>f g. normalizeClearStablecoinDepegLatchCommand sample_hash sample_versions (sample_clear_input d) =
     Inr (sample_clear sample_hash sample_versions sample_asset sample_digest sample_clear_id sample_time (correlation d) f g)"
  by (rule clear_input_accepted [OF sample_asset_parsed sample_asset_latched sample_digest_hex sample_clear_given(1,2) _ sample_digest_hex
      quote_times sample_clear_given(5)])

lemma sample_clear_recovery:
  "recovery_of sample_versions (sample_clear_input d) =
   Inr (peg_request sample_versions sample_asset sample_digest sample_clear_id sample_time)"
proof -
  obtain r where r: "val_dataRecord (sample_clear_input d) CLEAR_KEYS = Inr r"
      "js_get r ''recoveryRequest'' = recovery_value sample_asset sample_digest sample_clear_id sample_time"
    using recovery_of_input by blast
  show ?thesis
    unfolding recovery_of_def r res_bind.simps
    by (rule parse_recovery_value [OF sample_asset_parsed sample_digest_hex sample_clear_given(1,2) quote_times])
qed

subsection \<open>Recording\<close>

text \<open>C18. An accepted command records a depeg that its evidence shows: the valuation request parses, some
  source has current evidence with a conservative rate of at most 0.98, the latch is on the asset of that
  request, which is active on an active launch network, from its evaluation time, and the evidence
  fingerprint is the hash of the actor and of the request.
\<close>

theorem latch_records_detected_depeg:
  assumes "normalizeRecordStablecoinDepegLatchCommand sha256 registry v = Inr c"
  shows "\<exists>q s x. valuation_of registry v = Inr q \<and> current_evidence q s x \<and> conservative_of x \<le> 98000000 \<and>
    latchable registry (nl_asset c) \<and> nl_asset c = vq_asset q \<and> nl_latchedAt c = vq_evaluatedAt q \<and>
    nl_depegEvidenceFingerprintSha256 c = sha256 (depeg_text (nl_evidenceActorReferenceId c) q)"
proof (rule record_accepted [OF assms])
  fix r q s x
  assume a: "val_dataRecord v LATCH_RECORD_KEYS = Inr r" "parseValuationRequest registry (js_get r ''valuationRequest'') = Inr q"
    "current_evidence q s x" "conservative_of x \<le> 98000000" "latchable registry (vq_asset q)" "nl_asset c = vq_asset q"
    "nl_latchedAt c = vq_evaluatedAt q" "nl_depegEvidenceFingerprintSha256 c = sha256 (depeg_text (nl_evidenceActorReferenceId c) q)"
  show ?thesis
    using a by (intro exI [of _ q] exI [of _ s] exI [of _ x]) (simp add: valuation_of_def)
qed

theorem latch_records_detected_depeg_witness:
  "\<exists>c q s x. normalizeRecordStablecoinDepegLatchCommand sample_hash sample_versions latch_input = Inr c \<and>
     valuation_of sample_versions latch_input = Inr q \<and> current_evidence q s x \<and> conservative_of x \<le> 98000000 \<and>
     latchable sample_versions (nl_asset c)"
proof -
  obtain c where c: "normalizeRecordStablecoinDepegLatchCommand sample_hash sample_versions latch_input = Inr c"
    using latch_input_accepted by blast
  show ?thesis using latch_records_detected_depeg [OF c] c by blast
qed

text \<open>C34. The command fingerprint identifies the command: when SHA-256 separates the texts that two accepted
  commands hash, equal command fingerprints mean equal commands on the same valuation request.
\<close>

theorem latch_fingerprint_identifies_command:
  assumes "normalizeRecordStablecoinDepegLatchCommand sha256 registry v = Inr c" "valuation_of registry v = Inr q"
    "normalizeRecordStablecoinDepegLatchCommand sha256 registry v' = Inr c'" "valuation_of registry v' = Inr q'"
    "nl_commandFingerprintSha256 c = nl_commandFingerprintSha256 c'"
    "inj_on sha256 {latch_command_text c, latch_command_text c'}"
    "inj_on sha256 {depeg_text (nl_evidenceActorReferenceId c) q, depeg_text (nl_evidenceActorReferenceId c') q'}"
  shows "c = c' \<and> q = q'"
proof (rule record_accepted [OF assms(1)], rule record_accepted [OF assms(3)])
  fix r p r' p'
  assume r: "val_dataRecord v LATCH_RECORD_KEYS = Inr r" "parseValuationRequest registry (js_get r ''valuationRequest'') = Inr p"
    "nl_depegEvidenceFingerprintSha256 c = sha256 (depeg_text (nl_evidenceActorReferenceId c) p)"
    "nl_commandFingerprintSha256 c = sha256 (latch_command_text c)"
    "nl_eventFingerprintSha256 c = sha256 (event_text LATCH_EVENT_FINGERPRINT_DOMAIN (nl_commandFingerprintSha256 c)
       (next_revision (nl_expectedRevision c)) ''LATCHED'')"
    and r': "val_dataRecord v' LATCH_RECORD_KEYS = Inr r'" "parseValuationRequest registry (js_get r' ''valuationRequest'') = Inr p'"
    "nl_depegEvidenceFingerprintSha256 c' = sha256 (depeg_text (nl_evidenceActorReferenceId c') p')"
    "nl_commandFingerprintSha256 c' = sha256 (latch_command_text c')"
    "nl_eventFingerprintSha256 c' = sha256 (event_text LATCH_EVENT_FINGERPRINT_DOMAIN (nl_commandFingerprintSha256 c')
       (next_revision (nl_expectedRevision c')) ''LATCHED'')"
  have p: "p = q" "p' = q'" using assms(2,4) r(1,2) r'(1,2) by (simp_all add: valuation_of_def)
  have "latch_command_text c = latch_command_text c'" by (rule separated [OF assms(6) r(4) r'(4) assms(5)])
  note fields = latch_text_fields [OF this]
  have "nl_depegEvidenceFingerprintSha256 c = nl_depegEvidenceFingerprintSha256 c'" using fields by blast
  then have "depeg_text (nl_evidenceActorReferenceId c) q = depeg_text (nl_evidenceActorReferenceId c') q'"
    by (rule separated [OF assms(7) r(3) [unfolded p] r'(3) [unfolded p]])
  then have "q = q'" using valuation_inject [OF r(2) r'(2)] p text_injects(2) by simp
  moreover have "nl_eventFingerprintSha256 c = nl_eventFingerprintSha256 c'" unfolding r(5) r'(5) using fields assms(5) by simp
  then have "c = c'" using fields assms(5) by (cases c; cases c') simp
  ultimately show ?thesis by blast
qed

theorem latch_fingerprint_identifies_command_witness:
  "\<exists>c c' q q'. normalizeRecordStablecoinDepegLatchCommand sample_hash sample_versions latch_input = Inr c \<and>
     valuation_of sample_versions latch_input = Inr q \<and> latch_copy \<noteq> latch_input \<and>
     normalizeRecordStablecoinDepegLatchCommand sample_hash sample_versions latch_copy = Inr c' \<and>
     valuation_of sample_versions latch_copy = Inr q' \<and> c = c' \<and> q = q'"
proof -
  obtain c where c: "normalizeRecordStablecoinDepegLatchCommand sample_hash sample_versions latch_input = Inr c"
    using latch_input_accepted by blast
  then have c': "normalizeRecordStablecoinDepegLatchCommand sample_hash sample_versions latch_copy = Inr c"
    by (simp only: latch_copy_accepted)
  obtain q where q: "valuation_of sample_versions latch_input = Inr q"
  proof (rule record_accepted [OF c])
    fix r p
    assume "val_dataRecord latch_input LATCH_RECORD_KEYS = Inr r" "parseValuationRequest sample_versions (js_get r ''valuationRequest'') = Inr p"
    then show thesis by (intro that [of p]) (simp add: valuation_of_def)
  qed
  then have q': "valuation_of sample_versions latch_copy = Inr q"
    by (simp only: valuation_of_def latch_copy_same)
  have "c = c \<and> q = q" by (rule latch_fingerprint_identifies_command [OF c q c' q' refl]) simp_all
  with c q c' q' latch_copy_same(3) show ?thesis by blast
qed

subsection \<open>Clearing\<close>

text \<open>C3. An accepted clear rests on a recovery and on a second person: the recovery request holds the latch,
  evidence of the peg since the latch, and a manual clear of that latch; the authorization names the same
  asset, latch, clear and evidence, its risk approver is not the one who gave the evidence, and it is in
  force when the recovery is evaluated, at most fifteen minutes after its issue.
\<close>

theorem clear_needs_authorized_recovery:
  assumes "normalizeClearStablecoinDepegLatchCommand sha256 registry v = Inr c"
  shows "\<exists>q latch latchedAt clear. recovery_of registry v = Inr q \<and> rr_depegLatch q = Some (latch, latchedAt) \<and>
    rr_manualRiskClear q = Some clear \<and> peg_evidence q latchedAt \<and> clears q latch clear \<and>
    latchable registry (nc_asset c) \<and> nc_asset c = rr_asset q \<and> nc_latchId c = dl_latchId latch \<and>
    nc_clearId c = mc_clearId (fst clear) \<and> nc_clearId c \<noteq> nc_latchId c \<and>
    nc_riskApproverReferenceId c \<noteq> nc_evidenceActorReferenceId c \<and> in_force c \<and>
    nc_recoveryEvidenceFingerprintSha256 c = sha256 (recovery_text q) \<and>
    nc_authorizationFingerprintSha256 c = sha256 (authorization_text (material_of c))"
proof (rule clear_accepted [OF assms])
  fix r q latch latchedAt clear
  assume a: "val_dataRecord v CLEAR_KEYS = Inr r" "parseRecoveryRequest registry (js_get r ''recoveryRequest'') = Inr q"
    "rr_depegLatch q = Some (latch, latchedAt)" "rr_manualRiskClear q = Some clear" "peg_evidence q latchedAt" "clears q latch clear"
    "latchable registry (rr_asset q)" "nc_asset c = rr_asset q" "nc_clearId c = mc_clearId (fst clear)" "nc_latchId c = dl_latchId latch"
    "nc_recoveryEvidenceFingerprintSha256 c = sha256 (recovery_text q)" "authorization_ok (material_of c)" "in_force c"
    "nc_authorizationFingerprintSha256 c = sha256 (authorization_text (material_of c))"
  have "nc_clearId c \<noteq> nc_latchId c" "nc_riskApproverReferenceId c \<noteq> nc_evidenceActorReferenceId c"
    using a(12) by (auto simp: authorization_ok_def material_of_def)
  then show ?thesis
    using a by (intro exI [of _ q] exI [of _ latch] exI [of _ latchedAt] exI [of _ clear]) (simp add: recovery_of_def)
qed

theorem clear_needs_authorized_recovery_witness:
  "\<exists>c q. normalizeClearStablecoinDepegLatchCommand sample_hash sample_versions (sample_clear_input ''1'') = Inr c \<and>
     recovery_of sample_versions (sample_clear_input ''1'') = Inr q \<and> in_force c \<and> latchable sample_versions (nc_asset c)"
proof -
  obtain c where c: "normalizeClearStablecoinDepegLatchCommand sample_hash sample_versions (sample_clear_input ''1'') = Inr c"
    using sample_clear_accepted [OF sample_clear_given(3)] by blast
  show ?thesis using clear_needs_authorized_recovery [OF c] c by blast
qed

text \<open>C19. An authorization covers one recovery: when SHA-256 separates the texts that are hashed, two accepted
  clears with one authorization fingerprint have the same authorization and the same recovery request.
\<close>

theorem authorization_covers_one_recovery:
  assumes "normalizeClearStablecoinDepegLatchCommand sha256 registry v = Inr c" "recovery_of registry v = Inr q"
    "normalizeClearStablecoinDepegLatchCommand sha256 registry v' = Inr c'" "recovery_of registry v' = Inr q'"
    "nc_authorizationFingerprintSha256 c = nc_authorizationFingerprintSha256 c'"
    "inj_on sha256 {authorization_text (material_of c), authorization_text (material_of c')}"
    "inj_on sha256 {recovery_text q, recovery_text q'}"
  shows "material_of c = material_of c' \<and> q = q'"
proof (rule clear_accepted [OF assms(1)], rule clear_accepted [OF assms(3)])
  fix r p r' p'
  assume r: "val_dataRecord v CLEAR_KEYS = Inr r" "parseRecoveryRequest registry (js_get r ''recoveryRequest'') = Inr p"
    "nc_recoveryEvidenceFingerprintSha256 c = sha256 (recovery_text p)"
    "nc_authorizationFingerprintSha256 c = sha256 (authorization_text (material_of c))"
    and r': "val_dataRecord v' CLEAR_KEYS = Inr r'" "parseRecoveryRequest registry (js_get r' ''recoveryRequest'') = Inr p'"
    "nc_recoveryEvidenceFingerprintSha256 c' = sha256 (recovery_text p')"
    "nc_authorizationFingerprintSha256 c' = sha256 (authorization_text (material_of c'))"
  have p: "p = q" "p' = q'" using assms(2,4) r(1,2) r'(1,2) by (simp_all add: recovery_of_def)
  have "authorization_text (material_of c) = authorization_text (material_of c')"
    by (rule separated [OF assms(6) r(4) r'(4) assms(5)])
  then have m: "material_of c = material_of c'" by (simp add: text_injects)
  then have "nc_recoveryEvidenceFingerprintSha256 c = nc_recoveryEvidenceFingerprintSha256 c'" by (simp add: material_of_def)
  then have "recovery_text q = recovery_text q'" by (rule separated [OF assms(7) r(3) [unfolded p] r'(3) [unfolded p]])
  then have "q = q'" using recovery_inject [OF r(2) r'(2)] p text_injects(3) by simp
  with m show ?thesis by blast
qed

theorem authorization_covers_one_recovery_witness:
  "\<exists>c c'. normalizeClearStablecoinDepegLatchCommand sample_hash sample_versions (sample_clear_input ''1'') = Inr c \<and>
     normalizeClearStablecoinDepegLatchCommand sample_hash sample_versions (sample_clear_input ''2'') = Inr c' \<and>
     c \<noteq> c' \<and> material_of c = material_of c'"
proof -
  obtain f g where c: "normalizeClearStablecoinDepegLatchCommand sample_hash sample_versions (sample_clear_input ''1'') =
      Inr (sample_clear sample_hash sample_versions sample_asset sample_digest sample_clear_id sample_time (correlation ''1'') f g)"
      (is "_ = Inr ?c")
    using sample_clear_accepted [OF sample_clear_given(3)] by blast
  obtain f' g' where c': "normalizeClearStablecoinDepegLatchCommand sample_hash sample_versions (sample_clear_input ''2'') =
      Inr (sample_clear sample_hash sample_versions sample_asset sample_digest sample_clear_id sample_time (correlation ''2'') f' g')"
      (is "_ = Inr ?c'")
    using sample_clear_accepted [OF sample_clear_given(4)] by blast
  have same: "material_of ?c = material_of ?c'" by (simp add: material_of_def sample_clear_def Let_def)
  let ?q = "peg_request sample_versions sample_asset sample_digest sample_clear_id sample_time"
  have "material_of ?c = material_of ?c' \<and> ?q = ?q"
  proof (rule authorization_covers_one_recovery [OF c sample_clear_recovery c' sample_clear_recovery])
    show "nc_authorizationFingerprintSha256 ?c = nc_authorizationFingerprintSha256 ?c'" by (simp add: sample_clear_def Let_def)
    show "inj_on sample_hash {authorization_text (material_of ?c), authorization_text (material_of ?c')}" unfolding same by simp
  qed simp
  moreover have "?c \<noteq> ?c'" by (simp add: sample_clear_def Let_def)
  ultimately show ?thesis using c c' by blast
qed

text \<open>C28. A latch can be cleared: for every asset that has a latch key, every latch and every other clear
  identifier, some command is accepted that clears that latch, whatever digests the hash function gives.
\<close>

theorem latched_depeg_can_be_cleared:
  assumes "parseAsset registry v = Inr asset" "normalizeStablecoinDepegLatchAsset registry v = Inr asset"
    "stablecoinDepegLatchAssetKey sha256 registry v = Inr key" "\<And>s. sha256_hex (sha256 s)"
    "sha256_hex latchId" "sha256_hex clearId" "clearId \<noteq> latchId" "uuid_v4 correlationId"
    "four_digit_time t" "four_digit_time (t + 1800000)" "four_digit_time (t + 2700000)"
  shows "\<exists>input c. normalizeClearStablecoinDepegLatchCommand sha256 registry input = Inr c \<and> nc_asset c = asset \<and>
    nc_latchId c = latchId \<and> nc_latchedAt c = to_iso t \<and> nc_clearId c = clearId \<and> nc_correlationId c = correlationId"
proof -
  have asset: "parseAsset registry (asset_value asset) = Inr asset"
    "normalizeStablecoinDepegLatchAsset registry (asset_value asset) = Inr asset"
    using parse_asset_value [OF assms(1)] parsed_asset_normalized [OF assms(1)] assms(2) by simp_all
  have "fingerprint sha256 ''crypto-lending:stablecoin-depeg-latch-asset-key:v1'' (asset_value asset) = Inr key"
    using assms(2,3) by (simp add: stablecoinDepegLatchAssetKey_def)
  then have "asset_fits asset"
    by (simp add: fingerprint_reads [OF reads_asset_value] asset_fits_def split: if_splits)
  then obtain f g where "normalizeClearStablecoinDepegLatchCommand sha256 registry (clear_input sha256 registry asset latchId clearId t correlationId) =
      Inr (sample_clear sha256 registry asset latchId clearId t correlationId f g)"
    using clear_input_accepted [of registry asset latchId clearId correlationId sha256 t] asset assms by blast
  then show ?thesis by (intro exI conjI, assumption) (simp_all add: sample_clear_def Let_def)
qed

theorem latched_depeg_can_be_cleared_witness:
  "\<exists>input c. normalizeClearStablecoinDepegLatchCommand sample_hash sample_versions input = Inr c \<and> nc_asset c = sample_asset \<and>
    nc_latchId c = sample_digest \<and> nc_latchedAt c = to_iso sample_time \<and> nc_clearId c = sample_clear_id \<and>
    nc_correlationId c = correlation ''1''"
proof (rule latched_depeg_can_be_cleared [OF sample_asset_parsed sample_asset_latched(1) _ sample_digest_hex sample_digest_hex
      sample_clear_given(1,2,3) quote_times sample_clear_given(5)])
  show "stablecoinDepegLatchAssetKey sample_hash sample_versions (asset_value sample_asset) = Inr sample_digest"
    using sample_asset_latched by (simp add: stablecoinDepegLatchAssetKey_def fingerprint_reads [OF reads_asset_value] asset_fits_def)
qed

end
