(* ===== verification/Buying_Power.thy ===== *)
theory Buying_Power
  imports Js_Action Js_Array Canonical_Values
begin

text \<open>
  Buying power, \<^verbatim>\<open>apps/api/src/buying-power/domain/buying-power.ts\<close> and
  \<^verbatim>\<open>apps/api/src/buying-power/application/buying-power-calculator.ts\<close>. The adjustment port and the clock are
  actions on a world; a rejected promise or a throw of theirs is \<open>Inl ()\<close>. An amount is a canonical decimal
  text, as in the code.

  The calculator reads an array through its \<^verbatim>\<open>map\<close>, so a hole of a sparse array survives parsing; the loops
  that read a hole throw a \<^verbatim>\<open>TypeError\<close>. For arrays whose \<^verbatim>\<open>map\<close> runs other code the model throws \<open>OtherThrown\<close>.
\<close>

subsection \<open>Amounts\<close>

definition MAX_USD_MANTISSA_DIGITS :: nat where
  "MAX_USD_MANTISSA_DIGITS = 100"

definition BUYING_POWER_USD_SCALE :: nat where
  "BUYING_POWER_USD_SCALE = 18"

datatype BuyingPowerValidationCode = INVALID_USD_MANTISSA | Mantissa_NUMERIC_LIMIT_EXCEEDED | NEGATIVE_USD_RESULT

datatype BuyingPowerDeductionKind = liquidity | conversion | slippage | network | routing

definition BUYING_POWER_DEDUCTION_KINDS :: "BuyingPowerDeductionKind list" where
  "BUYING_POWER_DEDUCTION_KINDS = [liquidity, conversion, slippage, network, routing]"

fun deduction_text :: "BuyingPowerDeductionKind \<Rightarrow> string" where
  "deduction_text liquidity = ''liquidity''"
| "deduction_text conversion = ''conversion''"
| "deduction_text slippage = ''slippage''"
| "deduction_text network = ''network''"
| "deduction_text routing = ''routing''"

text \<open>A breakdown gives an amount to every kind of deduction.\<close>

type_synonym BuyingPowerDeductionBreakdown = "BuyingPowerDeductionKind \<Rightarrow> string"

definition normalizeBuyingPowerUsdMantissa :: "jsval \<Rightarrow> BuyingPowerValidationCode + string" where
  "normalizeBuyingPowerUsdMantissa v =
     (case v of
        JString s \<Rightarrow> if \<not> canonical_nat s \<or> length s > MAX_USD_MANTISSA_DIGITS then Inl INVALID_USD_MANTISSA else Inr s
      | _ \<Rightarrow> Inl INVALID_USD_MANTISSA)"

definition addBuyingPowerUsdMantissas :: "string list \<Rightarrow> BuyingPowerValidationCode + string" where
  "addBuyingPowerUsdMantissas values =
     (let sum = nat_text (fold (\<lambda>v total'. total' + dec_val v) values 0)
      in if length sum > MAX_USD_MANTISSA_DIGITS then Inl Mantissa_NUMERIC_LIMIT_EXCEEDED else Inr sum)"

definition subtractBuyingPowerUsdMantissas :: "string \<Rightarrow> string \<Rightarrow> BuyingPowerValidationCode + string" where
  "subtractBuyingPowerUsdMantissas minuend subtrahend =
     (if dec_val minuend < dec_val subtrahend then Inl NEGATIVE_USD_RESULT
      else Inr (nat_text (dec_val minuend - dec_val subtrahend)))"

definition zeroBuyingPowerDeductions :: BuyingPowerDeductionBreakdown where
  "zeroBuyingPowerDeductions = (\<lambda>kind. ''0'')"

definition totalBuyingPowerDeductions :: "BuyingPowerDeductionBreakdown \<Rightarrow> BuyingPowerValidationCode + string" where
  "totalBuyingPowerDeductions deductions = addBuyingPowerUsdMantissas (map deductions BUYING_POWER_DEDUCTION_KINDS)"

subsection \<open>Data\<close>

datatype BuyingPowerFreshness = Data_CURRENT | Data_STALE | Data_UNAVAILABLE

datatype BuyingPowerValuationUse = Use_CONSERVATIVE_REPORTING_ONLY | Use_BLOCKED

datatype BuyingPowerUnavailableReason =
    NO_ELIGIBLE_CONTRIBUTIONS | UNSUPPORTED_ASSET | UNPRICED_ASSET | STALE_DATA | SOURCE_UNAVAILABLE | VALUATION_USE_BLOCKED
  | LIQUIDITY_DATA_UNAVAILABLE | CONVERSION_COST_UNAVAILABLE | SLIPPAGE_DATA_UNAVAILABLE | NETWORK_COST_UNAVAILABLE
  | ROUTING_DATA_UNAVAILABLE | ROUTE_UNAVAILABLE | ADJUSTMENT_SOURCE_FAILED | INVALID_ADJUSTMENT_RESPONSE | ADJUSTMENTS_EXCEED_VALUE

datatype BuyingPowerCalculationErrorCode =
  Power_INVALID_REQUEST | CLOCK_FAILED | Power_NUMERIC_LIMIT_EXCEEDED | TypeErrorThrown | OtherThrown

datatype BuyingPowerAvailability = Power_AVAILABLE | Power_PARTIAL | Power_UNAVAILABLE

fun freshness_text :: "BuyingPowerFreshness \<Rightarrow> string" where
  "freshness_text Data_CURRENT = ''CURRENT''"
| "freshness_text Data_STALE = ''STALE''"
| "freshness_text Data_UNAVAILABLE = ''UNAVAILABLE''"

fun use_text :: "BuyingPowerValuationUse \<Rightarrow> string" where
  "use_text Use_CONSERVATIVE_REPORTING_ONLY = ''CONSERVATIVE_REPORTING_ONLY''"
| "use_text Use_BLOCKED = ''BLOCKED''"

fun adjustment_reason_text :: "BuyingPowerUnavailableReason \<Rightarrow> string" where
  "adjustment_reason_text NO_ELIGIBLE_CONTRIBUTIONS = ''NO_ELIGIBLE_CONTRIBUTIONS''"
| "adjustment_reason_text UNSUPPORTED_ASSET = ''UNSUPPORTED_ASSET''"
| "adjustment_reason_text UNPRICED_ASSET = ''UNPRICED_ASSET''"
| "adjustment_reason_text STALE_DATA = ''STALE_DATA''"
| "adjustment_reason_text SOURCE_UNAVAILABLE = ''SOURCE_UNAVAILABLE''"
| "adjustment_reason_text VALUATION_USE_BLOCKED = ''VALUATION_USE_BLOCKED''"
| "adjustment_reason_text LIQUIDITY_DATA_UNAVAILABLE = ''LIQUIDITY_DATA_UNAVAILABLE''"
| "adjustment_reason_text CONVERSION_COST_UNAVAILABLE = ''CONVERSION_COST_UNAVAILABLE''"
| "adjustment_reason_text SLIPPAGE_DATA_UNAVAILABLE = ''SLIPPAGE_DATA_UNAVAILABLE''"
| "adjustment_reason_text NETWORK_COST_UNAVAILABLE = ''NETWORK_COST_UNAVAILABLE''"
| "adjustment_reason_text ROUTING_DATA_UNAVAILABLE = ''ROUTING_DATA_UNAVAILABLE''"
| "adjustment_reason_text ROUTE_UNAVAILABLE = ''ROUTE_UNAVAILABLE''"
| "adjustment_reason_text ADJUSTMENT_SOURCE_FAILED = ''ADJUSTMENT_SOURCE_FAILED''"
| "adjustment_reason_text INVALID_ADJUSTMENT_RESPONSE = ''INVALID_ADJUSTMENT_RESPONSE''"
| "adjustment_reason_text ADJUSTMENTS_EXCEED_VALUE = ''ADJUSTMENTS_EXCEED_VALUE''"

definition ADJUSTMENT_UNAVAILABLE_REASONS :: "BuyingPowerUnavailableReason list" where
  "ADJUSTMENT_UNAVAILABLE_REASONS =
     [LIQUIDITY_DATA_UNAVAILABLE, CONVERSION_COST_UNAVAILABLE, SLIPPAGE_DATA_UNAVAILABLE, NETWORK_COST_UNAVAILABLE,
      ROUTING_DATA_UNAVAILABLE, ROUTE_UNAVAILABLE]"

definition MAX_CONTRIBUTIONS :: nat where
  "MAX_CONTRIBUTIONS = 512"

definition MAX_IDENTIFIER_LENGTH :: nat where
  "MAX_IDENTIFIER_LENGTH = 256"

record ParsedContribution =
  pc_contributionId :: string
  pc_walletId :: string
  pc_networkId :: string
  pc_assetId :: string
  pc_supported :: bool
  pc_freshness :: BuyingPowerFreshness
  pc_valuationUse :: BuyingPowerValuationUse
  pc_usdValueMantissa :: "string option"
  pc_asOf :: string

record ParsedRequest =
  pr_portfolioSnapshotId :: string
  pr_contributions :: "ParsedContribution option list"

record AvailableAdjustment =
  aa_quoteId :: string
  aa_contributionId :: string
  aa_quotedAt :: string
  aa_validUntil :: string
  aa_deductions :: BuyingPowerDeductionBreakdown

datatype ParsedAdjustment = ParsedAvailable AvailableAdjustment | ParsedUnavailable "BuyingPowerUnavailableReason option list"

record BuyingPowerAdjustmentRequest =
  ar_contributionId :: string
  ar_walletId :: string
  ar_networkId :: string
  ar_assetId :: string
  ar_grossUsdValueMantissa :: string
  ar_usdScale :: nat
  ar_evaluatedAt :: string

text \<open>A reason \<open>None\<close> is an undefined value: the hole of an array of reasons from the port.\<close>

record BuyingPowerContributionResult =
  cr_contributionId :: string
  cr_walletId :: string
  cr_networkId :: string
  cr_assetId :: string
  cr_grossUsdValueMantissa :: "string option"
  cr_deductions :: "BuyingPowerDeductionBreakdown option"
  cr_totalDeductionUsdMantissa :: "string option"
  cr_availableBuyingPowerUsdMantissa :: string
  cr_available :: bool
  cr_unavailableReasons :: "BuyingPowerUnavailableReason option list"
  cr_asOf :: string
  cr_adjustmentQuoteId :: "string option"
  cr_adjustmentQuotedAt :: "string option"
  cr_adjustmentValidUntil :: "string option"

record BuyingPowerResult =
  br_portfolioSnapshotId :: string
  br_evaluatedAt :: string
  br_usdScale :: nat
  br_supportedPortfolioValueMantissa :: string
  br_eligibleGrossValueMantissa :: string
  br_totalDeductions :: BuyingPowerDeductionBreakdown
  br_totalDeductionUsdMantissa :: string
  br_availableBuyingPowerUsdMantissa :: string
  br_availability :: BuyingPowerAvailability
  br_unavailableReasons :: "BuyingPowerUnavailableReason option list"
  br_contributions :: "BuyingPowerContributionResult list"
  br_use :: string
  br_mayAuthorizeFinancialAction :: bool

text \<open>The ports: a promise of an unknown value, and a clock.\<close>

record 'w BuyingPowerPorts =
  bp_evaluate :: "BuyingPowerAdjustmentRequest \<Rightarrow> ('w, unit, jsval) action"
  bp_now :: "('w, unit, jsval) action"

subsection \<open>Parsing\<close>

text \<open>Inside the parsers every throw is caught, so one value stands for all of them.\<close>

type_synonym 'a parsed = "unit + 'a"

text \<open>\<^verbatim>\<open>/^[\x21-\x7e]+$/\<close> with a bounded length\<close>

definition safeIdentifier :: "jsval \<Rightarrow> string parsed" where
  "safeIdentifier v =
     (case v of
        JString s \<Rightarrow>
          if length s = 0 \<or> length s > MAX_IDENTIFIER_LENGTH \<or> \<not> list_all (\<lambda>c. 0x21 \<le> (of_char c :: nat) \<and> (of_char c :: nat) \<le> 0x7e) s
          then Inl () else Inr s
      | _ \<Rightarrow> Inl ())"

definition canonicalTimestamp :: "jsval \<Rightarrow> string parsed" where
  "canonicalTimestamp v = (case v of JString s \<Rightarrow> if canonical_utc s then Inr s else Inl () | _ \<Rightarrow> Inl ())"

definition oneOf :: "('a \<Rightarrow> string) \<Rightarrow> 'a list \<Rightarrow> jsval \<Rightarrow> 'a parsed" where
  "oneOf spell allowed v = of_option () (parse_enum spell allowed v)"

definition exactDataRecordWithAllowedKeys :: "jsval \<Rightarrow> string list \<Rightarrow> string list \<Rightarrow> js_record parsed" where
  "exactDataRecordWithAllowedKeys v required_keys optional_keys = of_option () (optional_data_record required_keys optional_keys v)"

definition assertExactKeys :: "js_record \<Rightarrow> string list \<Rightarrow> unit parsed" where
  "assertExactKeys r expectedKeys =
     (if length r \<noteq> length expectedKeys \<or> list_ex (\<lambda>k. map_of r k = None) expectedKeys then Inl () else Inr ())"

definition exactDataRecord :: "jsval \<Rightarrow> string list \<Rightarrow> js_record parsed" where
  "exactDataRecord v expectedKeys =
     res_bind (exactDataRecordWithAllowedKeys v expectedKeys []) (\<lambda>r.
     res_bind (assertExactKeys r expectedKeys) (\<lambda>_. Inr r))"

definition mantissa :: "jsval \<Rightarrow> string parsed" where
  "mantissa v = rethrow () (normalizeBuyingPowerUsdMantissa v)"

definition parseContribution :: "jsval \<Rightarrow> ParsedContribution parsed" where
  "parseContribution v =
     res_bind (exactDataRecord v
       [''contributionId'', ''walletId'', ''networkId'', ''assetId'', ''supported'', ''freshness'', ''valuationUse'',
        ''usdValueMantissa'', ''asOf'']) (\<lambda>r.
     case js_get r ''supported'' of
       JBool supported \<Rightarrow>
         res_bind (oneOf freshness_text [Data_CURRENT, Data_STALE, Data_UNAVAILABLE] (js_get r ''freshness'')) (\<lambda>freshness.
         res_bind (oneOf use_text [Use_CONSERVATIVE_REPORTING_ONLY, Use_BLOCKED] (js_get r ''valuationUse'')) (\<lambda>valuationUse.
         res_bind (safeIdentifier (js_get r ''contributionId'')) (\<lambda>contributionId.
         res_bind (safeIdentifier (js_get r ''walletId'')) (\<lambda>walletId.
         res_bind (safeIdentifier (js_get r ''networkId'')) (\<lambda>networkId.
         res_bind (safeIdentifier (js_get r ''assetId'')) (\<lambda>assetId.
         res_bind (if js_get r ''usdValueMantissa'' = JNull then Inr None
                   else res_bind (mantissa (js_get r ''usdValueMantissa'')) (\<lambda>m. Inr (Some m))) (\<lambda>usdValueMantissa.
         res_bind (canonicalTimestamp (js_get r ''asOf'')) (\<lambda>asOf.
         Inr \<lparr>pc_contributionId = contributionId, pc_walletId = walletId, pc_networkId = networkId, pc_assetId = assetId,
              pc_supported = supported, pc_freshness = freshness, pc_valuationUse = valuationUse,
              pc_usdValueMantissa = usdValueMantissa, pc_asOf = asOf\<rparr>))))))))
     | _ \<Rightarrow> Inl ())"

text \<open>The number of different identifiers is that of the contributions; a hole counts as one more value.\<close>

definition parseRequest :: "jsval \<Rightarrow> BuyingPowerCalculationErrorCode + ParsedRequest" where
  "parseRequest v =
     (case res_bind (exactDataRecord v [''portfolioSnapshotId'', ''contributions'']) (\<lambda>r.
           res_bind (safeIdentifier (js_get r ''portfolioSnapshotId'')) (\<lambda>portfolioSnapshotId. Inr (r, portfolioSnapshotId))) of
        Inl _ \<Rightarrow> Inl Power_INVALID_REQUEST
      | Inr (r, portfolioSnapshotId) \<Rightarrow>
          (case js_peel (js_get r ''contributions'') of
             Some (JArray proto len props) \<Rightarrow>
               if len > MAX_CONTRIBUTIONS then Inl Power_INVALID_REQUEST
               else (case array_items proto len props of
                       None \<Rightarrow> Inl OtherThrown
                     | Some items \<Rightarrow>
                         (case map_items parseContribution items of
                            Inl _ \<Rightarrow> Inl Power_INVALID_REQUEST
                          | Inr contributions \<Rightarrow>
                              if card (set (map (map_option pc_contributionId) contributions)) \<noteq> length contributions
                              then Inl Power_INVALID_REQUEST
                              else Inr \<lparr>pr_portfolioSnapshotId = portfolioSnapshotId, pr_contributions = contributions\<rparr>))
           | _ \<Rightarrow> Inl Power_INVALID_REQUEST))"

definition parseDeductions :: "jsval \<Rightarrow> BuyingPowerDeductionBreakdown parsed" where
  "parseDeductions v =
     res_bind (exactDataRecord v (map deduction_text BUYING_POWER_DEDUCTION_KINDS)) (\<lambda>r.
     res_bind (mantissa (js_get r ''liquidity'')) (\<lambda>l.
     res_bind (mantissa (js_get r ''conversion'')) (\<lambda>c.
     res_bind (mantissa (js_get r ''slippage'')) (\<lambda>s.
     res_bind (mantissa (js_get r ''network'')) (\<lambda>n.
     res_bind (mantissa (js_get r ''routing'')) (\<lambda>t.
     Inr (\<lambda>kind. case kind of liquidity \<Rightarrow> l | conversion \<Rightarrow> c | slippage \<Rightarrow> s | network \<Rightarrow> n | routing \<Rightarrow> t)))))))"

text \<open>
  The answer of the port. The array of reasons is read like the contributions; a hole in it stays a value
  different from every reason, and the array is only accepted when its values differ.
\<close>

definition parseAdjustment :: "jsval \<Rightarrow> string \<Rightarrow> string \<Rightarrow> ParsedAdjustment parsed" where
  "parseAdjustment v expectedContributionId evaluatedAt =
     res_bind (exactDataRecordWithAllowedKeys v [''status'', ''contributionId'']
       [''quoteId'', ''quotedAt'', ''validUntil'', ''deductions'', ''reasons'']) (\<lambda>base.
     res_bind (oneOf (\<lambda>b. if b then ''AVAILABLE'' else ''UNAVAILABLE'') [True, False] (js_get base ''status'')) (\<lambda>status.
     res_bind (safeIdentifier (js_get base ''contributionId'')) (\<lambda>contributionId.
     res_bind (require () (contributionId = expectedContributionId)) (\<lambda>_.
     if \<not> status then
       res_bind (assertExactKeys base [''status'', ''contributionId'', ''reasons'']) (\<lambda>_.
       case js_peel (js_get base ''reasons'') of
         Some (JArray proto len props) \<Rightarrow>
           res_bind (require () (len \<noteq> 0)) (\<lambda>_.
           res_bind (of_option () (array_items proto len props)) (\<lambda>items.
           res_bind (map_items (oneOf adjustment_reason_text ADJUSTMENT_UNAVAILABLE_REASONS) items) (\<lambda>reasons.
           res_bind (require () (card (set reasons) = length reasons)) (\<lambda>_.
           Inr (ParsedUnavailable reasons)))))
       | _ \<Rightarrow> Inl ())
     else
       res_bind (assertExactKeys base [''status'', ''quoteId'', ''contributionId'', ''quotedAt'', ''validUntil'', ''deductions'']) (\<lambda>_.
       res_bind (canonicalTimestamp (js_get base ''quotedAt'')) (\<lambda>quotedAt.
       res_bind (canonicalTimestamp (js_get base ''validUntil'')) (\<lambda>validUntil.
       res_bind (require () (\<not> (quotedAt > evaluatedAt \<or> validUntil < evaluatedAt \<or> validUntil < quotedAt))) (\<lambda>_.
       res_bind (safeIdentifier (js_get base ''quoteId'')) (\<lambda>quoteId.
       res_bind (parseDeductions (js_get base ''deductions'')) (\<lambda>deductions.
       Inr (ParsedAvailable \<lparr>aa_quoteId = quoteId, aa_contributionId = contributionId, aa_quotedAt = quotedAt,
         aa_validUntil = validUntil, aa_deductions = deductions\<rparr>)))))))))))"

subsection \<open>The calculator\<close>

definition contributionUnavailableReasons :: "ParsedContribution \<Rightarrow> BuyingPowerUnavailableReason list" where
  "contributionUnavailableReasons contribution =
     (if \<not> pc_supported contribution then [UNSUPPORTED_ASSET] else []) @
     (if pc_usdValueMantissa contribution = None then [UNPRICED_ASSET] else []) @
     (if pc_freshness contribution = Data_STALE then [STALE_DATA] else []) @
     (if pc_freshness contribution = Data_UNAVAILABLE then [SOURCE_UNAVAILABLE] else []) @
     (if pc_valuationUse contribution = Use_BLOCKED then [VALUATION_USE_BLOCKED] else [])"

definition unavailableContribution :: "ParsedContribution \<Rightarrow> BuyingPowerUnavailableReason option list \<Rightarrow>
    BuyingPowerContributionResult" where
  "unavailableContribution contribution reasons =
     \<lparr>cr_contributionId = pc_contributionId contribution, cr_walletId = pc_walletId contribution,
      cr_networkId = pc_networkId contribution, cr_assetId = pc_assetId contribution,
      cr_grossUsdValueMantissa = pc_usdValueMantissa contribution, cr_deductions = None,
      cr_totalDeductionUsdMantissa = None, cr_availableBuyingPowerUsdMantissa = ''0'', cr_available = False,
      cr_unavailableReasons = reasons, cr_asOf = pc_asOf contribution, cr_adjustmentQuoteId = None,
      cr_adjustmentQuotedAt = None, cr_adjustmentValidUntil = None\<rparr>"

text \<open>The first loop: nothing is newer than the evaluation; the supported values and the eligible ones.\<close>

fun collectValues :: "string \<Rightarrow> ParsedContribution option list \<Rightarrow>
    BuyingPowerCalculationErrorCode + string list \<times> string list" where
  "collectValues evaluatedAt [] = Inr ([], [])"
| "collectValues evaluatedAt (None # items) = Inl TypeErrorThrown"
| "collectValues evaluatedAt (Some contribution # items) =
     (if pc_asOf contribution > evaluatedAt then Inl Power_INVALID_REQUEST
      else res_bind (collectValues evaluatedAt items) (\<lambda>(supported, eligible).
        let value = (case pc_usdValueMantissa contribution of None \<Rightarrow> [] | Some v \<Rightarrow> [v])
        in Inr ((if pc_supported contribution then value else []) @ supported,
                (if contributionUnavailableReasons contribution = [] then value else []) @ eligible)))"

definition readEvaluationTime :: "'w BuyingPowerPorts \<Rightarrow> ('w, BuyingPowerCalculationErrorCode, string) action" where
  "readEvaluationTime ports =
     act_rethrow CLOCK_FAILED (act_bind (bp_now ports) (\<lambda>v. act_pure (canonicalTimestamp v)))"

text \<open>What becomes of one eligible contribution, given what the port answered.\<close>

definition adjustedContribution :: "ParsedContribution \<Rightarrow> string \<Rightarrow> string \<Rightarrow> jsval option \<Rightarrow> BuyingPowerContributionResult" where
  "adjustedContribution contribution gross evaluatedAt response =
     (case response of
        None \<Rightarrow> unavailableContribution contribution [Some ADJUSTMENT_SOURCE_FAILED]
      | Some v \<Rightarrow>
          (case parseAdjustment v (pc_contributionId contribution) evaluatedAt of
             Inl _ \<Rightarrow> unavailableContribution contribution [Some INVALID_ADJUSTMENT_RESPONSE]
           | Inr (ParsedUnavailable reasons) \<Rightarrow> unavailableContribution contribution reasons
           | Inr (ParsedAvailable adjustment) \<Rightarrow>
               (case res_bind (totalBuyingPowerDeductions (aa_deductions adjustment)) (\<lambda>deduction.
                     res_bind (subtractBuyingPowerUsdMantissas gross deduction) (\<lambda>available. Inr (deduction, available))) of
                  Inl _ \<Rightarrow> unavailableContribution contribution [Some ADJUSTMENTS_EXCEED_VALUE]
                | Inr (deduction, available) \<Rightarrow>
                    \<lparr>cr_contributionId = pc_contributionId contribution, cr_walletId = pc_walletId contribution,
                     cr_networkId = pc_networkId contribution, cr_assetId = pc_assetId contribution,
                     cr_grossUsdValueMantissa = Some gross, cr_deductions = Some (aa_deductions adjustment),
                     cr_totalDeductionUsdMantissa = Some deduction, cr_availableBuyingPowerUsdMantissa = available,
                     cr_available = True, cr_unavailableReasons = [], cr_asOf = pc_asOf contribution,
                     cr_adjustmentQuoteId = Some (aa_quoteId adjustment),
                     cr_adjustmentQuotedAt = Some (aa_quotedAt adjustment),
                     cr_adjustmentValidUntil = Some (aa_validUntil adjustment)\<rparr>)))"

definition adjustContribution :: "'w BuyingPowerPorts \<Rightarrow> ParsedContribution \<Rightarrow> string \<Rightarrow> string \<Rightarrow>
    ('w, BuyingPowerCalculationErrorCode, BuyingPowerContributionResult) action" where
  "adjustContribution ports contribution gross evaluatedAt =
     act_bind (act_swallow (bp_evaluate ports
       \<lparr>ar_contributionId = pc_contributionId contribution, ar_walletId = pc_walletId contribution,
        ar_networkId = pc_networkId contribution, ar_assetId = pc_assetId contribution,
        ar_grossUsdValueMantissa = gross, ar_usdScale = BUYING_POWER_USD_SCALE, ar_evaluatedAt = evaluatedAt\<rparr>)) (\<lambda>response.
     act_return (adjustedContribution contribution gross evaluatedAt response))"

text \<open>The second loop, in order.\<close>

fun adjustContributions :: "'w BuyingPowerPorts \<Rightarrow> string \<Rightarrow> ParsedContribution option list \<Rightarrow>
    ('w, BuyingPowerCalculationErrorCode, BuyingPowerContributionResult list) action" where
  "adjustContributions ports evaluatedAt [] = act_return []"
| "adjustContributions ports evaluatedAt (None # items) = act_throw TypeErrorThrown"
| "adjustContributions ports evaluatedAt (Some contribution # items) =
     act_bind
       (case (contributionUnavailableReasons contribution, pc_usdValueMantissa contribution) of
          ([], Some gross) \<Rightarrow> adjustContribution ports contribution gross evaluatedAt
        | (reasons, _) \<Rightarrow> act_return (unavailableContribution contribution (map Some reasons))) (\<lambda>result.
     act_bind (adjustContributions ports evaluatedAt items) (\<lambda>results. act_return (result # results)))"

definition sumDeductionBreakdowns :: "BuyingPowerDeductionBreakdown list \<Rightarrow>
    BuyingPowerValidationCode + BuyingPowerDeductionBreakdown" where
  "sumDeductionBreakdowns values =
     (if values = [] then Inr zeroBuyingPowerDeductions
      else
        res_bind (res_map (\<lambda>kind. addBuyingPowerUsdMantissas (map (\<lambda>d. d kind) values)) BUYING_POWER_DEDUCTION_KINDS) (\<lambda>sums.
        Inr (\<lambda>kind. the (map_of (zip BUYING_POWER_DEDUCTION_KINDS sums) kind))))"

text \<open>\<^verbatim>\<open>[...new Set(values)]\<close>: the first occurrence of each value.\<close>

definition uniqueReasons :: "'a list \<Rightarrow> 'a list" where
  "uniqueReasons values = rev (remdups (rev values))"

definition totals :: "BuyingPowerContributionResult list \<Rightarrow>
    BuyingPowerValidationCode + BuyingPowerDeductionBreakdown \<times> string \<times> string" where
  "totals results =
     res_bind (sumDeductionBreakdowns (concat (map (\<lambda>r. case cr_deductions r of None \<Rightarrow> [] | Some d \<Rightarrow> [d]) results))) (\<lambda>totalDeductions.
     res_bind (totalBuyingPowerDeductions totalDeductions) (\<lambda>totalDeduction.
     res_bind (res_map (\<lambda>r. normalizeBuyingPowerUsdMantissa (JString (cr_availableBuyingPowerUsdMantissa r))) results) (\<lambda>values.
     res_bind (addBuyingPowerUsdMantissas values) (\<lambda>available.
     Inr (totalDeductions, totalDeduction, available)))))"

definition summarize :: "ParsedRequest \<Rightarrow> string \<Rightarrow> string \<Rightarrow> string \<Rightarrow> BuyingPowerContributionResult list \<Rightarrow>
    BuyingPowerCalculationErrorCode + BuyingPowerResult" where
  "summarize request evaluatedAt supportedValue eligibleValue results =
     res_bind (rethrow Power_NUMERIC_LIMIT_EXCEEDED (totals results)) (\<lambda>(totalDeductions, totalDeduction, available).
     res_bind (require Power_NUMERIC_LIMIT_EXCEEDED
       (\<not> (dec_val available > dec_val eligibleValue \<or> dec_val available > dec_val supportedValue))) (\<lambda>_.
     let unavailableReasons = uniqueReasons (concat (map cr_unavailableReasons results)) @
           (if results = [] then [Some NO_ELIGIBLE_CONTRIBUTIONS] else []);
         availableCount = length (filter cr_available results)
     in Inr \<lparr>br_portfolioSnapshotId = pr_portfolioSnapshotId request, br_evaluatedAt = evaluatedAt,
             br_usdScale = BUYING_POWER_USD_SCALE, br_supportedPortfolioValueMantissa = supportedValue,
             br_eligibleGrossValueMantissa = eligibleValue, br_totalDeductions = totalDeductions,
             br_totalDeductionUsdMantissa = totalDeduction, br_availableBuyingPowerUsdMantissa = available,
             br_availability =
               (if availableCount = 0 then Power_UNAVAILABLE
                else if availableCount = length results then Power_AVAILABLE else Power_PARTIAL),
             br_unavailableReasons = unavailableReasons, br_contributions = results,
             br_use = ''LOCAL_DEMO_ESTIMATE_ONLY'', br_mayAuthorizeFinancialAction = False\<rparr>))"

definition calculate :: "'w BuyingPowerPorts \<Rightarrow> jsval \<Rightarrow> ('w, BuyingPowerCalculationErrorCode, BuyingPowerResult) action" where
  "calculate ports input =
     act_bind (act_pure (parseRequest input)) (\<lambda>request.
     act_bind (readEvaluationTime ports) (\<lambda>evaluatedAt.
     act_bind (act_pure (collectValues evaluatedAt (pr_contributions request))) (\<lambda>(supported, eligible).
     act_bind (act_pure (rethrow Power_NUMERIC_LIMIT_EXCEEDED (addBuyingPowerUsdMantissas supported))) (\<lambda>supportedValue.
     act_bind (act_pure (rethrow Power_NUMERIC_LIMIT_EXCEEDED (addBuyingPowerUsdMantissas eligible))) (\<lambda>eligibleValue.
     act_bind (adjustContributions ports evaluatedAt (pr_contributions request)) (\<lambda>results.
     act_pure (summarize request evaluatedAt supportedValue eligibleValue results)))))))"

end
