(* ===== verification/Buying_Power_Correct.thy ===== *)
theory Buying_Power_Correct
  imports Buying_Power
begin

text \<open>
  What an estimate of buying power promises: it is the exact difference of the gross values it counts and
  their deductions, never more than the eligible value of the portfolio; what counts is eligible and
  quoted for the time of the evaluation; no answer of the adjustment port makes the calculation fail.
\<close>

subsection \<open>Amounts\<close>

lemma fold_sum: "fold (\<lambda>v t. t + dec_val v) vs n = n + sum_list (map dec_val vs)"
  by (induction vs arbitrary: n) simp_all

lemma add_iff:
  "(addBuyingPowerUsdMantissas vs = Inr s) = (s = nat_text (sum_list (map dec_val vs)) \<and> length s \<le> 100)"
  by (auto simp: addBuyingPowerUsdMantissas_def fold_sum Let_def MAX_USD_MANTISSA_DIGITS_def)

lemma subtract_iff:
  "(subtractBuyingPowerUsdMantissas a b = Inr s) = (dec_val b \<le> dec_val a \<and> s = nat_text (dec_val a - dec_val b))"
  by (auto simp: subtractBuyingPowerUsdMantissas_def)

lemma total_iff:
  "(totalBuyingPowerDeductions d = Inr s) =
   (s = nat_text (sum_list (map (\<lambda>k. dec_val (d k)) BUYING_POWER_DEDUCTION_KINDS)) \<and> length s \<le> 100)"
  by (simp add: totalBuyingPowerDeductions_def add_iff o_def)

lemma normalize_iff: "(normalizeBuyingPowerUsdMantissa v = Inr s) = (v = JString s \<and> canonical_nat s \<and> length s \<le> 100)"
  by (auto simp: normalizeBuyingPowerUsdMantissa_def MAX_USD_MANTISSA_DIGITS_def split: jsval.splits if_splits)

lemma canonical_texts [simp]: "canonical_nat ''0''" "dec_val ''0'' = 0"
  by code_simp+

lemma text_bound: "(length (nat_text n) \<le> 100) = (n < 10 ^ 100)"
proof (cases "n = 0")
  case True
  have "nat_text 0 = ''0''" by code_simp
  then show ?thesis using True by simp
next
  case False
  then have "nat_text n \<noteq> ''0''" using dec_val_nat_text [of n] by (metis canonical_texts(2))
  then have "positive_nat (nat_text n)" by (simp add: positive_nat_iff)
  then show ?thesis using positive_dec_val_length [of "nat_text n" 100] by simp
qed

definition breakdown_sum :: "BuyingPowerDeductionBreakdown \<Rightarrow> nat" where
  "breakdown_sum d = sum_list (map (\<lambda>k. dec_val (d k)) BUYING_POWER_DEDUCTION_KINDS)"

subsection \<open>One contribution\<close>

definition eligible :: "ParsedContribution \<Rightarrow> bool" where
  "eligible c = (pc_supported c \<and> pc_usdValueMantissa c \<noteq> None \<and> pc_freshness c = Data_CURRENT \<and>
     pc_valuationUse c = Use_CONSERVATIVE_REPORTING_ONLY)"

lemma eligible_iff: "(contributionUnavailableReasons c = []) = eligible c"
  by (cases "pc_freshness c"; cases "pc_valuationUse c") (auto simp: contributionUnavailableReasons_def eligible_def)

text \<open>
  What the result of a contribution says: the contribution itself, and either a quote in force with exact
  deductions, or nothing available and a reason.
\<close>

definition quoted :: "string \<Rightarrow> ParsedContribution \<Rightarrow> BuyingPowerContributionResult \<Rightarrow> bool" where
  "quoted t c r =
     (eligible c \<and> cr_unavailableReasons r = [] \<and> canonical_nat (cr_availableBuyingPowerUsdMantissa r) \<and>
      (\<exists>g d. pc_usdValueMantissa c = Some g \<and> cr_deductions r = Some d \<and>
         cr_totalDeductionUsdMantissa r = Some (nat_text (breakdown_sum d)) \<and>
         breakdown_sum d + dec_val (cr_availableBuyingPowerUsdMantissa r) = dec_val g) \<and>
      (\<exists>q u v. cr_adjustmentQuoteId r = Some q \<and> cr_adjustmentQuotedAt r = Some u \<and> cr_adjustmentValidUntil r = Some v \<and>
         u \<le> t \<and> t \<le> v))"

definition result_for :: "string \<Rightarrow> ParsedContribution \<Rightarrow> BuyingPowerContributionResult \<Rightarrow> bool" where
  "result_for t c r =
     (cr_contributionId r = pc_contributionId c \<and> cr_walletId r = pc_walletId c \<and> cr_networkId r = pc_networkId c \<and>
      cr_assetId r = pc_assetId c \<and> cr_asOf r = pc_asOf c \<and> cr_grossUsdValueMantissa r = pc_usdValueMantissa c \<and>
      (if cr_available r then quoted t c r
       else cr_deductions r = None \<and> cr_totalDeductionUsdMantissa r = None \<and> cr_availableBuyingPowerUsdMantissa r = ''0'' \<and>
            cr_unavailableReasons r \<noteq> []))"

lemma unavailable_result: "reasons \<noteq> [] \<Longrightarrow> result_for t c (unavailableContribution c reasons)"
  by (simp add: result_for_def unavailableContribution_def)

lemma parsed_available:
  assumes "parseAdjustment v i t = Inr (ParsedAvailable a)"
  shows "aa_quotedAt a \<le> t" "t \<le> aa_validUntil a"
  using assms by (auto simp: parseAdjustment_def res_simps not_less split: if_splits option.splits jsval.splits)

lemma parsed_unavailable:
  assumes "parseAdjustment v i t = Inr (ParsedUnavailable reasons)"
  shows "reasons \<noteq> []"
proof -
  obtain proto len props items where "len \<noteq> 0" "array_items proto len props = Some items"
      "map_items (oneOf adjustment_reason_text ADJUSTMENT_UNAVAILABLE_REASONS) items = Inr reasons"
    using assms by (auto simp: parseAdjustment_def res_simps split: if_splits option.splits jsval.splits)
  moreover from this have "length items = len" by (auto simp: array_items_def split: if_splits)
  ultimately show ?thesis using map_items_length [of _ items reasons] by auto
qed

lemma adjusted_result:
  assumes "eligible c" "pc_usdValueMantissa c = Some g"
  shows "result_for t c (adjustedContribution c g t response)"
proof (cases response)
  case None
  then show ?thesis by (simp add: adjustedContribution_def unavailable_result)
next
  case (Some v)
  show ?thesis
  proof (cases "parseAdjustment v (pc_contributionId c) t")
    case (Inl e)
    then show ?thesis by (simp add: adjustedContribution_def unavailable_result Some)
  next
    case (Inr p)
    show ?thesis
    proof (cases p)
      case (ParsedUnavailable reasons)
      then show ?thesis
        using parsed_unavailable Inr by (simp add: adjustedContribution_def unavailable_result Some)
    next
      case (ParsedAvailable a)
      note life = parsed_available [OF Inr [unfolded ParsedAvailable]]
      let ?r = "res_bind (totalBuyingPowerDeductions (aa_deductions a)) (\<lambda>deduction.
          res_bind (subtractBuyingPowerUsdMantissas g deduction) (\<lambda>available. Inr (deduction, available)))"
      show ?thesis
      proof (cases ?r)
        case e: (Inl e)
        then show ?thesis using Inr ParsedAvailable by (simp add: adjustedContribution_def unavailable_result Some)
      next
        case ok: (Inr p')
        obtain s x where p': "p' = (s, x)" by (cases p')
        have "s = nat_text (breakdown_sum (aa_deductions a))" "dec_val s \<le> dec_val g" "x = nat_text (dec_val g - dec_val s)"
          using ok unfolding p' res_bind_eq_Inr total_iff subtract_iff by (auto simp: breakdown_sum_def)
        then show ?thesis
          using Inr ParsedAvailable ok p' life assms
          by (simp add: adjustedContribution_def Some result_for_def quoted_def)
      qed
    qed
  qed
qed

subsection \<open>The loops\<close>

lemma adjustContributions_results:
  "adjustContributions ports t items w = (Inr rs, w') \<Longrightarrow> \<exists>cs. items = map Some cs \<and> list_all2 (result_for t) cs rs"
proof (induction ports t items arbitrary: rs w w' rule: adjustContributions.induct)
  case (1 ports t)
  then show ?case by (auto simp: act_return_def intro: exI [of _ "[]"])
next
  case (2 ports t items)
  then show ?case by (simp add: act_throw_def)
next
  case (3 ports t c items)
  let ?one = "case (contributionUnavailableReasons c, pc_usdValueMantissa c) of
      ([], Some gross) \<Rightarrow> adjustContribution ports c gross t
    | (reasons, _) \<Rightarrow> act_return (unavailableContribution c (map Some reasons))"
  obtain r v rs' where one: "?one w = (Inr r, v)" and rest: "adjustContributions ports t items v = (Inr rs', w')" "rs = r # rs'"
    using "3.prems" by (auto simp: act_bind_Inr_iff act_return_def)
  obtain cs where cs: "items = map Some cs" "list_all2 (result_for t) cs rs'" using "3.IH" [OF rest(1)] by blast
  have "result_for t c r"
  proof (cases "contributionUnavailableReasons c")
    case Nil
    then obtain g where g: "pc_usdValueMantissa c = Some g" using eligible_iff [of c] by (auto simp: eligible_def)
    obtain response where "r = adjustedContribution c g t response"
      using one by (auto simp: Nil g adjustContribution_def act_bind_Inr_iff act_return_def)
    then show ?thesis using adjusted_result [of c g] eligible_iff [of c] Nil g by simp
  next
    case (Cons x xs)
    then have "r = unavailableContribution c (map Some (x # xs))" using one by (simp add: act_return_def)
    then show ?thesis by (simp add: unavailable_result)
  qed
  then show ?case using cs rest(2) by (intro exI [of _ "c # cs"]) simp
qed

lemma adjustContributions_total: "\<exists>rs w'. adjustContributions ports t (map Some cs) w = (Inr rs, w')"
proof (induction cs arbitrary: w)
  case Nil
  then show ?case by (simp add: act_return_def)
next
  case (Cons c cs)
  have "\<exists>r v. adjustContribution ports c g t w = (Inr r, v)" for g
    by (auto simp: adjustContribution_def act_bind_def act_swallow_def act_return_def split: prod.split sum.split)
  then have "\<exists>r v. (case (contributionUnavailableReasons c, pc_usdValueMantissa c) of
      ([], Some gross) \<Rightarrow> adjustContribution ports c gross t
    | (reasons, _) \<Rightarrow> act_return (unavailableContribution c (map Some reasons))) w = (Inr r, v)"
    by (auto simp: act_return_def split: list.split option.split)
  then obtain r v where one: "(case (contributionUnavailableReasons c, pc_usdValueMantissa c) of
      ([], Some gross) \<Rightarrow> adjustContribution ports c gross t
    | (reasons, _) \<Rightarrow> act_return (unavailableContribution c (map Some reasons))) w = (Inr r, v)" by blast
  obtain rs w' where "adjustContributions ports t (map Some cs) v = (Inr rs, w')" using Cons.IH by blast
  then show ?case using one by (simp add: act_bind_def act_return_def)
qed

definition value_of :: "ParsedContribution \<Rightarrow> nat" where
  "value_of c = (case pc_usdValueMantissa c of None \<Rightarrow> 0 | Some v \<Rightarrow> dec_val v)"

lemma collect_iff:
  "(collectValues t items = Inr (xs, ys)) \<Longrightarrow>
   \<exists>cs. items = map Some cs \<and> (\<forall>c \<in> set cs. pc_asOf c \<le> t) \<and>
     sum_list (map dec_val xs) = sum_list (map value_of (filter pc_supported cs)) \<and>
     sum_list (map dec_val ys) = sum_list (map value_of (filter eligible cs))"
proof (induction t items arbitrary: xs ys rule: collectValues.induct)
  case (1 t)
  then show ?case by (auto intro: exI [of _ "[]"])
next
  case (2 t items)
  then show ?case by simp
next
  case (3 t c items)
  obtain xs' ys' where r: "collectValues t items = Inr (xs', ys')" "\<not> pc_asOf c > t"
      "xs = (if pc_supported c then (case pc_usdValueMantissa c of None \<Rightarrow> [] | Some v \<Rightarrow> [v]) else []) @ xs'"
      "ys = (if contributionUnavailableReasons c = [] then (case pc_usdValueMantissa c of None \<Rightarrow> [] | Some v \<Rightarrow> [v]) else []) @ ys'"
    using "3.prems" by (auto simp: res_bind_eq_Inr Let_def split: if_splits)
  obtain cs where "items = map Some cs" "\<forall>c \<in> set cs. pc_asOf c \<le> t"
      "sum_list (map dec_val xs') = sum_list (map value_of (filter pc_supported cs))"
      "sum_list (map dec_val ys') = sum_list (map value_of (filter eligible cs))"
    using "3.IH" [OF r(2,1)] by blast
  moreover have "sum_list (map dec_val xs) = (if pc_supported c then value_of c else 0) + sum_list (map dec_val xs')"
    unfolding r(3) value_of_def by (simp split: option.split)
  moreover have "sum_list (map dec_val ys) = (if eligible c then value_of c else 0) + sum_list (map dec_val ys')"
    unfolding r(4) value_of_def eligible_iff by (simp split: option.split)
  ultimately show ?case using r(2) by (intro exI [of _ "c # cs"]) simp
qed

lemma collect_total:
  "\<forall>c \<in> set cs. pc_asOf c \<le> t \<Longrightarrow> \<exists>xs ys. collectValues t (map Some cs) = Inr (xs, ys)"
  by (induction cs) (auto simp: Let_def)

subsection \<open>The totals\<close>

abbreviation breakdowns :: "BuyingPowerContributionResult list \<Rightarrow> BuyingPowerDeductionBreakdown list" where
  "breakdowns rs \<equiv> concat (map (\<lambda>r. case cr_deductions r of None \<Rightarrow> [] | Some d \<Rightarrow> [d]) rs)"

abbreviation availables :: "BuyingPowerContributionResult list \<Rightarrow> nat list" where
  "availables rs \<equiv> map (dec_val \<circ> cr_availableBuyingPowerUsdMantissa) rs"

lemma kinds: "BUYING_POWER_DEDUCTION_KINDS = [liquidity, conversion, slippage, network, routing]"
  by (simp add: BUYING_POWER_DEDUCTION_KINDS_def)

lemma breakdown_sum_simp:
  "breakdown_sum d = dec_val (d liquidity) + dec_val (d conversion) + dec_val (d slippage) + dec_val (d network) + dec_val (d routing)"
  by (simp add: breakdown_sum_def kinds)

lemma sum_breakdowns_iff:
  "(sumDeductionBreakdowns ds = Inr d) =
   ((\<forall>k. d k = nat_text (sum_list (map (\<lambda>x. dec_val (x k)) ds))) \<and> (\<forall>k. length (d k) \<le> 100))"
proof -
  have z: "nat_text 0 = ''0''" by code_simp
  have five: "(\<forall>k. P k) = (P liquidity \<and> P conversion \<and> P slippage \<and> P network \<and> P routing)" for P
    by (metis BuyingPowerDeductionKind.exhaust)
  show ?thesis
  proof (cases "ds = []")
    case True
    then show ?thesis by (auto simp: sumDeductionBreakdowns_def zeroBuyingPowerDeductions_def z fun_eq_iff)
  next
    case False
    then show ?thesis
      by (auto simp: sumDeductionBreakdowns_def kinds res_bind_eq_Inr add_iff o_def five fun_eq_iff)
  qed
qed

lemma breakdown_sum_list:
  assumes "\<forall>k. d k = nat_text (sum_list (map (\<lambda>x. dec_val (x k)) ds))"
  shows "breakdown_sum d = sum_list (map breakdown_sum ds)"
  using assms by (simp add: breakdown_sum_simp [abs_def] sum_list_addf)

lemma normalize_texts:
  "(res_map (\<lambda>r. normalizeBuyingPowerUsdMantissa (JString (cr_availableBuyingPowerUsdMantissa r))) rs = Inr vs) =
   (vs = map cr_availableBuyingPowerUsdMantissa rs \<and>
    (\<forall>r \<in> set rs. canonical_nat (cr_availableBuyingPowerUsdMantissa r) \<and> length (cr_availableBuyingPowerUsdMantissa r) \<le> 100))"
  by (induction rs arbitrary: vs) (auto simp: res_bind_eq_Inr normalize_iff)

lemma totals_iff:
  "(totals rs = Inr (d, s, a)) =
   ((\<forall>k. d k = nat_text (sum_list (map (\<lambda>x. dec_val (x k)) (breakdowns rs)))) \<and> (\<forall>k. length (d k) \<le> 100) \<and>
    s = nat_text (breakdown_sum d) \<and> length s \<le> 100 \<and>
    (\<forall>r \<in> set rs. canonical_nat (cr_availableBuyingPowerUsdMantissa r) \<and> length (cr_availableBuyingPowerUsdMantissa r) \<le> 100) \<and>
    a = nat_text (sum_list (availables rs)) \<and> length a \<le> 100)"
  unfolding totals_def res_bind_eq_Inr sum_breakdowns_iff total_iff normalize_texts add_iff breakdown_sum_def
  by (auto simp: o_def)

definition gross_of :: "BuyingPowerContributionResult \<Rightarrow> nat" where
  "gross_of r = (case cr_grossUsdValueMantissa r of None \<Rightarrow> 0 | Some g \<Rightarrow> dec_val g)"

text \<open>Contribution by contribution the value counted is the deductions and what is left.\<close>

lemma results_conserve:
  "list_all2 (result_for t) cs rs \<Longrightarrow>
   sum_list (map breakdown_sum (breakdowns rs)) + sum_list (availables rs) = sum_list (map gross_of (filter cr_available rs))"
proof (induction rule: list_all2_induct)
  case Nil
  then show ?case by simp
next
  case (Cons c cs r rs)
  show ?case
  proof (cases "cr_available r")
    case True
    then obtain g d where "cr_grossUsdValueMantissa r = Some g" "cr_deductions r = Some d"
        "breakdown_sum d + dec_val (cr_availableBuyingPowerUsdMantissa r) = dec_val g"
      using Cons.hyps unfolding result_for_def quoted_def by auto
    then show ?thesis using Cons.IH True by (simp add: gross_of_def [of r])
  next
    case False
    then have "cr_deductions r = None" "dec_val (cr_availableBuyingPowerUsdMantissa r) = 0"
      using Cons.hyps canonical_texts(2) unfolding result_for_def by metis+
    then show ?thesis using Cons.IH False by simp
  qed
qed

lemma results_bound:
  "list_all2 (result_for t) cs rs \<Longrightarrow> sum_list (map gross_of (filter cr_available rs)) \<le> sum_list (map value_of (filter eligible cs))"
proof (induction rule: list_all2_induct)
  case Nil
  then show ?case by simp
next
  case (Cons c cs r rs)
  have "gross_of r = value_of c" "cr_available r \<Longrightarrow> eligible c"
    using Cons.hyps unfolding result_for_def quoted_def gross_of_def value_of_def by auto
  then show ?case using Cons.IH by auto
qed

lemma eligible_is_supported: "eligible c \<Longrightarrow> pc_supported c"
  by (simp add: eligible_def)

lemma eligible_supported: "sum_list (map value_of (filter eligible cs)) \<le> sum_list (map value_of (filter pc_supported cs))"
  by (induction cs) (auto dest: eligible_is_supported)

subsection \<open>The calculation\<close>

lemma calculate_Inr:
  assumes "calculate ports input w = (Inr r, w')"
  obtains q t cs d s a where
    "parseRequest input = Inr q" "pr_contributions q = map Some cs" "list_all2 (result_for t) cs (br_contributions r)"
    "br_evaluatedAt r = t" "br_totalDeductions r = d" "br_totalDeductionUsdMantissa r = s"
    "br_availableBuyingPowerUsdMantissa r = a" "totals (br_contributions r) = Inr (d, s, a)"
    "br_supportedPortfolioValueMantissa r = nat_text (sum_list (map value_of (filter pc_supported cs)))"
    "br_eligibleGrossValueMantissa r = nat_text (sum_list (map value_of (filter eligible cs)))"
    "\<forall>c \<in> set cs. pc_asOf c \<le> t" "\<not> br_mayAuthorizeFinancialAction r" "fst (readEvaluationTime ports w) = Inr t"
proof -
  obtain q t w1 sup el sv ev rs w2 where
      e: "parseRequest input = Inr q" "readEvaluationTime ports w = (Inr t, w1)"
      "collectValues t (pr_contributions q) = Inr (sup, el)" "addBuyingPowerUsdMantissas sup = Inr sv"
      "addBuyingPowerUsdMantissas el = Inr ev" "adjustContributions ports t (pr_contributions q) w1 = (Inr rs, w2)"
      "summarize q t sv ev rs = Inr r"
    using assms unfolding calculate_def
    by (auto simp: act_bind_Inr_iff act_pure_def rethrow_eq_Inr)
  obtain cs where cs: "pr_contributions q = map Some cs" "list_all2 (result_for t) cs rs"
    using adjustContributions_results [OF e(6)] by blast
  obtain cs' where cs': "pr_contributions q = map Some cs'" "\<forall>c \<in> set cs'. pc_asOf c \<le> t"
      "sum_list (map dec_val sup) = sum_list (map value_of (filter pc_supported cs'))"
      "sum_list (map dec_val el) = sum_list (map value_of (filter eligible cs'))"
    using collect_iff [OF e(3)] by blast
  have "cs' = cs" using cs(1) cs'(1) by (metis inj_map_eq_map inj_Some)
  obtain d s a where "totals rs = Inr (d, s, a)"
      "r = \<lparr>br_portfolioSnapshotId = pr_portfolioSnapshotId q, br_evaluatedAt = t,
             br_usdScale = BUYING_POWER_USD_SCALE, br_supportedPortfolioValueMantissa = sv,
             br_eligibleGrossValueMantissa = ev, br_totalDeductions = d,
             br_totalDeductionUsdMantissa = s, br_availableBuyingPowerUsdMantissa = a,
             br_availability = br_availability r, br_unavailableReasons = br_unavailableReasons r, br_contributions = rs,
             br_use = br_use r, br_mayAuthorizeFinancialAction = False\<rparr>"
    using e(7) unfolding summarize_def
    by (auto simp: res_bind_eq_Inr rethrow_eq_Inr Let_def)
  moreover have "fst (readEvaluationTime ports w) = Inr t" using e(2) by simp
  moreover have "sv = nat_text (sum_list (map value_of (filter pc_supported cs)))"
      "ev = nat_text (sum_list (map value_of (filter eligible cs)))"
    using e(4,5) cs'(3,4) \<open>cs' = cs\<close> by (simp_all add: add_iff)
  ultimately show ?thesis
    using that [OF e(1) cs(1), of t d s a] cs(2) cs'(2) \<open>cs' = cs\<close> by (metis BuyingPowerResult.select_convs)
qed

lemma collected_sums:
  assumes "collectValues t (map Some cs) = Inr (xs, ys)"
  shows "sum_list (map dec_val xs) = sum_list (map value_of (filter pc_supported cs))"
    and "sum_list (map dec_val ys) = sum_list (map value_of (filter eligible cs))"
proof -
  obtain cs' where "map Some cs = map Some cs'"
      "sum_list (map dec_val xs) = sum_list (map value_of (filter pc_supported cs'))"
      "sum_list (map dec_val ys) = sum_list (map value_of (filter eligible cs'))"
    using collect_iff [OF assms] by blast
  moreover from this have "cs' = cs" by (metis inj_map_eq_map inj_Some)
  ultimately show "sum_list (map dec_val xs) = sum_list (map value_of (filter pc_supported cs))"
    and "sum_list (map dec_val ys) = sum_list (map value_of (filter eligible cs))" by simp_all
qed

lemma available_texts:
  assumes "list_all2 (result_for t) cs rs" "r \<in> set rs"
  shows "canonical_nat (cr_availableBuyingPowerUsdMantissa r)"
  using assms by (induction rule: list_all2_induct) (auto simp: result_for_def quoted_def split: if_splits)

lemma totals_total:
  assumes "list_all2 (result_for t) cs rs" "sum_list (map value_of (filter pc_supported cs)) < 10 ^ 100"
  shows "\<exists>d s. totals rs = Inr (d, s, nat_text (sum_list (availables rs)))"
proof -
  have bound: "sum_list (map breakdown_sum (breakdowns rs)) + sum_list (availables rs) < 10 ^ 100"
    using results_conserve [OF assms(1)] results_bound [OF assms(1)] eligible_supported [of cs] assms(2) by linarith
  define d where "d k = nat_text (sum_list (map (\<lambda>x. dec_val (x k)) (breakdowns rs)))" for k
  have sum: "breakdown_sum d = sum_list (map breakdown_sum (breakdowns rs))" by (rule breakdown_sum_list) (simp add: d_def)
  have kind: "dec_val (d k) \<le> breakdown_sum d" for k by (cases k) (simp_all add: breakdown_sum_simp)
  have "length (d k) \<le> 100" for k
    using bound kind [of k] sum by (simp add: d_def text_bound)
  moreover have "length (cr_availableBuyingPowerUsdMantissa r) \<le> 100" if "r \<in> set rs" for r
  proof -
    have "dec_val (cr_availableBuyingPowerUsdMantissa r) \<le> sum_list (availables rs)"
      using that by (intro member_le_sum_list) auto
    then show ?thesis
      using bound text_bound [of "dec_val (cr_availableBuyingPowerUsdMantissa r)"] available_texts [OF assms(1) that]
      by (simp add: nat_text_dec_val)
  qed
  ultimately have "totals rs = Inr (d, nat_text (breakdown_sum d), nat_text (sum_list (availables rs)))"
    unfolding totals_iff using bound sum available_texts [OF assms(1)] by (simp add: d_def text_bound)
  then show ?thesis by blast
qed

lemma summarize_total:
  assumes "list_all2 (result_for t) cs rs" "sum_list (map value_of (filter pc_supported cs)) < 10 ^ 100"
  shows "\<exists>r. summarize q t (nat_text (sum_list (map value_of (filter pc_supported cs))))
      (nat_text (sum_list (map value_of (filter eligible cs)))) rs = Inr r"
proof -
  obtain d s where "totals rs = Inr (d, s, nat_text (sum_list (availables rs)))" using totals_total [OF assms] by blast
  then show ?thesis
    using results_conserve [OF assms(1)] results_bound [OF assms(1)] eligible_supported [of cs]
    by (simp add: summarize_def Let_def require_def)
qed

subsection \<open>What the port is asked and what it answers\<close>

text \<open>
  The answers of the adjustment port, contribution by contribution in order: it is asked once about every eligible
  contribution and about no other. \<open>None\<close> stands for a contribution that is not asked about, \<open>Some None\<close> for a
  throw or a rejected promise.
\<close>

definition adjustment_question :: "string \<Rightarrow> ParsedContribution \<Rightarrow> BuyingPowerAdjustmentRequest" where
  "adjustment_question t c =
     \<lparr>ar_contributionId = pc_contributionId c, ar_walletId = pc_walletId c, ar_networkId = pc_networkId c,
      ar_assetId = pc_assetId c, ar_grossUsdValueMantissa = the (pc_usdValueMantissa c), ar_usdScale = 18, ar_evaluatedAt = t\<rparr>"

fun port_answers :: "'w BuyingPowerPorts \<Rightarrow> string \<Rightarrow> ParsedContribution list \<Rightarrow> 'w \<Rightarrow> jsval option option list" where
  "port_answers ports t [] w = []"
| "port_answers ports t (c # cs) w =
     (if \<not> eligible c then None # port_answers ports t cs w
      else case bp_evaluate ports (adjustment_question t c) w of
             (Inl _, w') \<Rightarrow> Some None # port_answers ports t cs w'
           | (Inr v, w') \<Rightarrow> Some (Some v) # port_answers ports t cs w')"

text \<open>An answer with the given status about the contribution, with exactly the given answer.\<close>

definition identifier_text :: "string \<Rightarrow> bool" where
  "identifier_text s = (s \<noteq> [] \<and> length s \<le> 256 \<and> list_all (\<lambda>c. 0x21 \<le> (of_char c :: nat) \<and> (of_char c :: nat) \<le> 0x7e) s)"

definition amount_text :: "string \<Rightarrow> bool" where
  "amount_text s = (canonical_nat s \<and> length s \<le> 100)"

definition answer_fields :: "jsval \<Rightarrow> string \<Rightarrow> string \<Rightarrow> string list \<Rightarrow> js_record \<Rightarrow> bool" where
  "answer_fields v status i names answer =
     (optional_data_record [''status'', ''contributionId''] [''quoteId'', ''quotedAt'', ''validUntil'', ''deductions'', ''reasons''] v =
        Some answer \<and> length answer = length names \<and> list_all (\<lambda>k. map_of answer k \<noteq> None) names \<and>
      js_get answer ''status'' = JString status \<and> js_get answer ''contributionId'' = JString i)"

text \<open>A quote in force at the time of the evaluation, about this contribution.\<close>

definition quotes :: "jsval \<Rightarrow> string \<Rightarrow> string \<Rightarrow> AvailableAdjustment \<Rightarrow> bool" where
  "quotes v i t a =
     (\<exists>answer ded. answer_fields v ''AVAILABLE'' i
          [''status'', ''quoteId'', ''contributionId'', ''quotedAt'', ''validUntil'', ''deductions''] answer \<and>
        identifier_text i \<and> aa_contributionId a = i \<and>
        js_get answer ''quoteId'' = JString (aa_quoteId a) \<and> identifier_text (aa_quoteId a) \<and>
        js_get answer ''quotedAt'' = JString (aa_quotedAt a) \<and> canonical_utc (aa_quotedAt a) \<and>
        js_get answer ''validUntil'' = JString (aa_validUntil a) \<and> canonical_utc (aa_validUntil a) \<and>
        aa_quotedAt a \<le> t \<and> t \<le> aa_validUntil a \<and>
        exactDataRecord (js_get answer ''deductions'') (map deduction_text BUYING_POWER_DEDUCTION_KINDS) = Inr ded \<and>
        (\<forall>k. js_get ded (deduction_text k) = JString (aa_deductions a k) \<and> amount_text (aa_deductions a k)))"

text \<open>An answer that declines, with its reasons: an array of the listed texts, each once; a hole stays a hole.\<close>

definition declines :: "jsval \<Rightarrow> string \<Rightarrow> BuyingPowerUnavailableReason option list \<Rightarrow> bool" where
  "declines v i reasons =
     (\<exists>answer len props items. answer_fields v ''UNAVAILABLE'' i [''status'', ''contributionId'', ''reasons''] answer \<and>
        identifier_text i \<and> js_peel (js_get answer ''reasons'') = Some (JArray ProtoArray len props) \<and> 0 < len \<and>
        array_items ProtoArray len props = Some items \<and> distinct reasons \<and>
        list_all2 (\<lambda>x y. case (x, y) of
            (None, None) \<Rightarrow> True
          | (Some v, Some reason) \<Rightarrow> reason \<in> set ADJUSTMENT_UNAVAILABLE_REASONS \<and> v = JString (adjustment_reason_text reason)
          | _ \<Rightarrow> False) items reasons)"

lemma identifier_iff [res_simps]: "(safeIdentifier v = Inr s) = (v = JString s \<and> identifier_text s)"
  by (auto simp: safeIdentifier_def identifier_text_def MAX_IDENTIFIER_LENGTH_def split: jsval.splits if_splits)

lemma power_canonicalTimestamp_iff [res_simps]: "(canonicalTimestamp v = Inr s) = (v = JString s \<and> canonical_utc s)"
  by (auto simp: canonicalTimestamp_def split: jsval.splits if_splits)

lemma mantissa_iff [res_simps]: "(mantissa v = Inr s) = (v = JString s \<and> amount_text s)"
  by (auto simp: mantissa_def res_simps normalize_iff amount_text_def)

lemma exactKeys_iff [res_simps]:
  "(assertExactKeys r names = Inr u) = (length r = length names \<and> list_all (\<lambda>k. map_of r k \<noteq> None) names)"
  by (auto simp: assertExactKeys_def list_ex_iff list_all_iff)

lemma allowedKeys_iff [res_simps]: "(exactDataRecordWithAllowedKeys v a b = Inr r) = (optional_data_record a b v = Some r)"
  by (simp add: exactDataRecordWithAllowedKeys_def res_simps)

lemma status_iff [res_simps]:
  "(oneOf (\<lambda>b. if b then ''AVAILABLE'' else ''UNAVAILABLE'') [True, False] v = Inr s) =
   (v = JString (if s then ''AVAILABLE'' else ''UNAVAILABLE''))"
  by (cases s) (auto simp: oneOf_def parse_enum_def res_simps split: jsval.splits)

lemma deductions_iff [res_simps]:
  "(parseDeductions v = Inr d) =
   (\<exists>r. exactDataRecord v (map deduction_text BUYING_POWER_DEDUCTION_KINDS) = Inr r \<and>
      (\<forall>k. js_get r (deduction_text k) = JString (d k) \<and> amount_text (d k)))"
proof -
  have five: "(\<forall>k. P k) = (P liquidity \<and> P conversion \<and> P slippage \<and> P network \<and> P routing)" for P
    by (metis BuyingPowerDeductionKind.exhaust)
  show ?thesis
    unfolding parseDeductions_def res_bind_eq_Inr mantissa_iff five by (auto simp: fun_eq_iff five)
qed

text \<open>The two branches of \<^verbatim>\<open>parseAdjustment\<close>.\<close>

definition quote_branch :: "js_record \<Rightarrow> string \<Rightarrow> string \<Rightarrow> ParsedAdjustment parsed" where
  "quote_branch answer i t =
     res_bind (assertExactKeys answer [''status'', ''quoteId'', ''contributionId'', ''quotedAt'', ''validUntil'', ''deductions'']) (\<lambda>_.
     res_bind (canonicalTimestamp (js_get answer ''quotedAt'')) (\<lambda>quotedAt.
     res_bind (canonicalTimestamp (js_get answer ''validUntil'')) (\<lambda>validUntil.
     res_bind (require () (\<not> (quotedAt > t \<or> validUntil < t \<or> validUntil < quotedAt))) (\<lambda>_.
     res_bind (safeIdentifier (js_get answer ''quoteId'')) (\<lambda>quoteId.
     res_bind (parseDeductions (js_get answer ''deductions'')) (\<lambda>deductions.
     Inr (ParsedAvailable \<lparr>aa_quoteId = quoteId, aa_contributionId = i, aa_quotedAt = quotedAt,
       aa_validUntil = validUntil, aa_deductions = deductions\<rparr>)))))))"

definition decline_branch :: "js_record \<Rightarrow> ParsedAdjustment parsed" where
  "decline_branch answer =
     res_bind (assertExactKeys answer [''status'', ''contributionId'', ''reasons'']) (\<lambda>_.
     case js_peel (js_get answer ''reasons'') of
       Some (JArray proto len props) \<Rightarrow>
         res_bind (require () (len \<noteq> 0)) (\<lambda>_.
         res_bind (of_option () (array_items proto len props)) (\<lambda>items.
         res_bind (map_items (oneOf adjustment_reason_text ADJUSTMENT_UNAVAILABLE_REASONS) items) (\<lambda>reasons.
         res_bind (require () (card (set reasons) = length reasons)) (\<lambda>_.
         Inr (ParsedUnavailable reasons)))))
     | _ \<Rightarrow> Inl ())"

lemma adjustment_branches:
  "(parseAdjustment v i t = Inr p) =
   (\<exists>answer s. optional_data_record [''status'', ''contributionId''] [''quoteId'', ''quotedAt'', ''validUntil'', ''deductions'', ''reasons''] v =
        Some answer \<and> js_get answer ''status'' = JString (if s then ''AVAILABLE'' else ''UNAVAILABLE'') \<and>
      js_get answer ''contributionId'' = JString i \<and> identifier_text i \<and>
      (if s then quote_branch answer i t else decline_branch answer) = Inr p)"
proof -
  have eq: "parseAdjustment v i t =
     res_bind (exactDataRecordWithAllowedKeys v [''status'', ''contributionId'']
       [''quoteId'', ''quotedAt'', ''validUntil'', ''deductions'', ''reasons'']) (\<lambda>answer.
     res_bind (oneOf (\<lambda>b. if b then ''AVAILABLE'' else ''UNAVAILABLE'') [True, False] (js_get answer ''status'')) (\<lambda>s.
     res_bind (safeIdentifier (js_get answer ''contributionId'')) (\<lambda>k.
     res_bind (require () (k = i)) (\<lambda>_. if \<not> s then decline_branch answer else quote_branch answer k t))))"
    unfolding parseAdjustment_def quote_branch_def decline_branch_def by (rule refl)
  show ?thesis
    unfolding eq res_bind_eq_Inr allowedKeys_iff status_iff identifier_iff require_eq_Inr by auto
qed

lemma quote_branch_iff:
  "(quote_branch answer i t = Inr p) =
   (length answer = 6 \<and> list_all (\<lambda>k. map_of answer k \<noteq> None) [''status'', ''quoteId'', ''contributionId'', ''quotedAt'', ''validUntil'', ''deductions''] \<and>
    (\<exists>a. p = ParsedAvailable a \<and> aa_contributionId a = i \<and>
       js_get answer ''quotedAt'' = JString (aa_quotedAt a) \<and> canonical_utc (aa_quotedAt a) \<and>
       js_get answer ''validUntil'' = JString (aa_validUntil a) \<and> canonical_utc (aa_validUntil a) \<and>
       aa_quotedAt a \<le> t \<and> t \<le> aa_validUntil a \<and>
       js_get answer ''quoteId'' = JString (aa_quoteId a) \<and> identifier_text (aa_quoteId a) \<and>
       parseDeductions (js_get answer ''deductions'') = Inr (aa_deductions a)))"
  (is "?l = ?r")
proof
  assume ?l
  then obtain q e k d where
      "length answer = length [''status'', ''quoteId'', ''contributionId'', ''quotedAt'', ''validUntil'', ''deductions''] \<and>
        list_all (\<lambda>k. map_of answer k \<noteq> None) [''status'', ''quoteId'', ''contributionId'', ''quotedAt'', ''validUntil'', ''deductions'']"
      "js_get answer ''quotedAt'' = JString q \<and> canonical_utc q" "js_get answer ''validUntil'' = JString e \<and> canonical_utc e"
      "\<not> (q > t \<or> e < t \<or> e < q)" "js_get answer ''quoteId'' = JString k \<and> identifier_text k"
      "parseDeductions (js_get answer ''deductions'') = Inr d"
      "ParsedAvailable \<lparr>aa_quoteId = k, aa_contributionId = i, aa_quotedAt = q, aa_validUntil = e, aa_deductions = d\<rparr> = p"
    unfolding quote_branch_def res_bind_eq_Inr exactKeys_iff power_canonicalTimestamp_iff require_eq_Inr identifier_iff sum.inject
    by (elim exE conjE) (rule that; blast)
  then show ?r
    by (intro conjI exI [of _ "\<lparr>aa_quoteId = k, aa_contributionId = i, aa_quotedAt = q, aa_validUntil = e, aa_deductions = d\<rparr>"])
      (simp_all add: not_less)
next
  assume ?r
  then obtain a where a: "length answer = 6"
      "list_all (\<lambda>k. map_of answer k \<noteq> None) [''status'', ''quoteId'', ''contributionId'', ''quotedAt'', ''validUntil'', ''deductions'']"
      "p = ParsedAvailable a"
      "aa_contributionId a = i" "js_get answer ''quotedAt'' = JString (aa_quotedAt a)" "canonical_utc (aa_quotedAt a)"
      "js_get answer ''validUntil'' = JString (aa_validUntil a)" "canonical_utc (aa_validUntil a)"
      "aa_quotedAt a \<le> t" "t \<le> aa_validUntil a" "js_get answer ''quoteId'' = JString (aa_quoteId a)" "identifier_text (aa_quoteId a)"
      "parseDeductions (js_get answer ''deductions'') = Inr (aa_deductions a)" by blast
  have keys: "assertExactKeys answer [''status'', ''quoteId'', ''contributionId'', ''quotedAt'', ''validUntil'', ''deductions''] = Inr ()"
    unfolding exactKeys_iff using a(1,2) by simp
  have times: "canonicalTimestamp (js_get answer ''quotedAt'') = Inr (aa_quotedAt a)" "canonicalTimestamp (js_get answer ''validUntil'') = Inr (aa_validUntil a)"
      "safeIdentifier (js_get answer ''quoteId'') = Inr (aa_quoteId a)"
    unfolding power_canonicalTimestamp_iff identifier_iff using a by simp_all
  have "\<not> (aa_quotedAt a > t \<or> aa_validUntil a < t \<or> aa_validUntil a < aa_quotedAt a)"
    using a(9,10) by (auto simp: not_less)
  then show ?l
    using a(4) by (simp add: quote_branch_def keys times a(13) a(3))
qed

lemma array_items_proto: "array_items proto len props = Some items \<Longrightarrow> proto = ProtoArray"
  by (simp add: array_items_def split: if_splits)

lemma decline_branch_iff:
  "(decline_branch answer = Inr p) =
   (length answer = 3 \<and> list_all (\<lambda>k. map_of answer k \<noteq> None) [''status'', ''contributionId'', ''reasons''] \<and>
    (\<exists>len props items reasons. js_peel (js_get answer ''reasons'') = Some (JArray ProtoArray len props) \<and> 0 < len \<and>
       array_items ProtoArray len props = Some items \<and>
       map_items (oneOf adjustment_reason_text ADJUSTMENT_UNAVAILABLE_REASONS) items = Inr reasons \<and>
       distinct reasons \<and> p = ParsedUnavailable reasons))"
proof -
  have keys: "(assertExactKeys answer [''status'', ''contributionId'', ''reasons''] = Inr u) =
      (length answer = 3 \<and> list_all (\<lambda>k. map_of answer k \<noteq> None) [''status'', ''contributionId'', ''reasons''])" for u
    unfolding exactKeys_iff by (simp add: eval_nat_numeral)
  show ?thesis
  proof (cases "js_peel (js_get answer ''reasons'')")
    case None
    then show ?thesis unfolding decline_branch_def res_bind_eq_Inr keys by simp
  next
    case (Some x)
    have "(case x of JArray proto len props \<Rightarrow>
           res_bind (require () (len \<noteq> 0)) (\<lambda>_.
           res_bind (of_option () (array_items proto len props)) (\<lambda>items.
           res_bind (map_items (oneOf adjustment_reason_text ADJUSTMENT_UNAVAILABLE_REASONS) items) (\<lambda>reasons.
           res_bind (require () (card (set reasons) = length reasons)) (\<lambda>_.
           Inr (ParsedUnavailable reasons)))))
         | _ \<Rightarrow> Inl ()) = Inr p \<longleftrightarrow>
        (\<exists>len props items reasons. x = JArray ProtoArray len props \<and> 0 < len \<and> array_items ProtoArray len props = Some items \<and>
           map_items (oneOf adjustment_reason_text ADJUSTMENT_UNAVAILABLE_REASONS) items = Inr reasons \<and>
           distinct reasons \<and> p = ParsedUnavailable reasons)"
      by (cases x) (auto simp: res_simps card_distinct distinct_card, (frule array_items_proto, blast)+)
    then show ?thesis unfolding decline_branch_def res_bind_eq_Inr [of "assertExactKeys _ _"] keys Some option.case by simp
  qed
qed

lemma quotes_iff: "(parseAdjustment v i t = Inr (ParsedAvailable a)) = quotes v i t a"
  unfolding adjustment_branches quotes_def answer_fields_def
  by (auto simp: quote_branch_iff decline_branch_iff deductions_iff if_bool_eq_disj)

lemma reason_iff:
  "(oneOf adjustment_reason_text ADJUSTMENT_UNAVAILABLE_REASONS v = Inr reason) =
   (reason \<in> set ADJUSTMENT_UNAVAILABLE_REASONS \<and> v = JString (adjustment_reason_text reason))"
proof -
  have "x = y" if "adjustment_reason_text x = adjustment_reason_text y" for x y
    using that by (cases x; cases y) simp_all
  then show ?thesis
    by (cases v; cases reason) (auto simp: oneOf_def parse_enum_def ADJUSTMENT_UNAVAILABLE_REASONS_def res_simps split: if_splits)
qed

lemma reasons_iff:
  "(map_items (oneOf adjustment_reason_text ADJUSTMENT_UNAVAILABLE_REASONS) items = Inr reasons) =
   list_all2 (\<lambda>x y. case (x, y) of
            (None, None) \<Rightarrow> True
          | (Some v, Some reason) \<Rightarrow> reason \<in> set ADJUSTMENT_UNAVAILABLE_REASONS \<and> v = JString (adjustment_reason_text reason)
          | _ \<Rightarrow> False) items reasons"
proof (induction items arbitrary: reasons)
  case (Cons x items)
  show ?case
    by (cases x; cases reasons) (auto simp: res_bind_eq_Inr Cons.IH reason_iff split: option.splits)
qed auto

lemma declines_iff: "(parseAdjustment v i t = Inr (ParsedUnavailable reasons)) = declines v i reasons"
proof -
  have branch: "((if s then quote_branch answer i t else decline_branch answer) = Inr (ParsedUnavailable reasons)) =
      (\<not> s \<and> decline_branch answer = Inr (ParsedUnavailable reasons))" for s answer
    by (simp add: quote_branch_iff)
  show ?thesis
    unfolding adjustment_branches branch decline_branch_iff declines_def answer_fields_def reasons_iff ex_bool_eq
    by (simp add: eval_nat_numeral) blast
qed

subsection \<open>What becomes of a contribution\<close>

fun blocks :: "ParsedContribution \<Rightarrow> BuyingPowerUnavailableReason \<Rightarrow> bool" where
  "blocks c UNSUPPORTED_ASSET = (\<not> pc_supported c)"
| "blocks c UNPRICED_ASSET = (pc_usdValueMantissa c = None)"
| "blocks c STALE_DATA = (pc_freshness c = Data_STALE)"
| "blocks c SOURCE_UNAVAILABLE = (pc_freshness c = Data_UNAVAILABLE)"
| "blocks c VALUATION_USE_BLOCKED = (pc_valuationUse c = Use_BLOCKED)"
| "blocks c _ = False"

definition nothing_for :: "BuyingPowerContributionResult \<Rightarrow> BuyingPowerUnavailableReason option list \<Rightarrow> bool" where
  "nothing_for r reasons =
     (\<not> cr_available r \<and> cr_availableBuyingPowerUsdMantissa r = ''0'' \<and> cr_deductions r = None \<and>
      cr_totalDeductionUsdMantissa r = None \<and> cr_adjustmentQuoteId r = None \<and> cr_adjustmentQuotedAt r = None \<and>
      cr_adjustmentValidUntil r = None \<and> cr_unavailableReasons r = reasons)"

text \<open>The quote is taken: its deductions, and the value of the contribution less their sum.\<close>

definition takes :: "ParsedContribution \<Rightarrow> AvailableAdjustment \<Rightarrow> BuyingPowerContributionResult \<Rightarrow> bool" where
  "takes c a r =
     (cr_available r \<and> cr_unavailableReasons r = [] \<and> cr_deductions r = Some (aa_deductions a) \<and>
      cr_totalDeductionUsdMantissa r = Some (nat_text (breakdown_sum (aa_deductions a))) \<and>
      cr_availableBuyingPowerUsdMantissa r = nat_text (value_of c - breakdown_sum (aa_deductions a)) \<and>
      cr_adjustmentQuoteId r = Some (aa_quoteId a) \<and> cr_adjustmentQuotedAt r = Some (aa_quotedAt a) \<and>
      cr_adjustmentValidUntil r = Some (aa_validUntil a))"

definition affordable :: "ParsedContribution \<Rightarrow> AvailableAdjustment \<Rightarrow> bool" where
  "affordable c a = (breakdown_sum (aa_deductions a) \<le> value_of c \<and> breakdown_sum (aa_deductions a) < 10 ^ 100)"

definition answered :: "string \<Rightarrow> ParsedContribution \<Rightarrow> jsval option option \<Rightarrow> BuyingPowerContributionResult \<Rightarrow> bool" where
  "answered t c response r =
     (cr_contributionId r = pc_contributionId c \<and> cr_walletId r = pc_walletId c \<and> cr_networkId r = pc_networkId c \<and>
      cr_assetId r = pc_assetId c \<and> cr_asOf r = pc_asOf c \<and> cr_grossUsdValueMantissa r = pc_usdValueMantissa c \<and>
      (case response of
         None \<Rightarrow> \<not> eligible c \<and> (\<exists>reasons. nothing_for r (map Some reasons) \<and> distinct reasons \<and> (\<forall>x. x \<in> set reasons \<longleftrightarrow> blocks c x))
       | Some None \<Rightarrow> eligible c \<and> nothing_for r [Some ADJUSTMENT_SOURCE_FAILED]
       | Some (Some v) \<Rightarrow>
           eligible c \<and>
           (if \<exists>a. quotes v (pc_contributionId c) t a then
              \<exists>a. quotes v (pc_contributionId c) t a \<and>
                (if affordable c a then takes c a r else nothing_for r [Some ADJUSTMENTS_EXCEED_VALUE])
            else if \<exists>reasons. declines v (pc_contributionId c) reasons then
              \<exists>reasons. declines v (pc_contributionId c) reasons \<and> nothing_for r reasons
            else nothing_for r [Some INVALID_ADJUSTMENT_RESPONSE])))"

lemma unavailable_nothing: "nothing_for (unavailableContribution c reasons) reasons"
  by (simp add: nothing_for_def unavailableContribution_def)

lemma unavailable_core [simp]:
  "cr_contributionId (unavailableContribution c reasons) = pc_contributionId c"
  "cr_walletId (unavailableContribution c reasons) = pc_walletId c"
  "cr_networkId (unavailableContribution c reasons) = pc_networkId c"
  "cr_assetId (unavailableContribution c reasons) = pc_assetId c" "cr_asOf (unavailableContribution c reasons) = pc_asOf c"
  "cr_grossUsdValueMantissa (unavailableContribution c reasons) = pc_usdValueMantissa c"
  by (simp_all add: unavailableContribution_def)

lemma adjusted_answered:
  assumes "eligible c" "pc_usdValueMantissa c = Some g"
  shows "answered t c (Some response) (adjustedContribution c g t response)"
proof (cases response)
  case None
  then show ?thesis using assms by (simp add: answered_def adjustedContribution_def unavailable_nothing)
next
  case (Some v)
  show ?thesis
  proof (cases "parseAdjustment v (pc_contributionId c) t")
    case (Inl e)
    then have "\<not> quotes v (pc_contributionId c) t a" "\<not> declines v (pc_contributionId c) rs" for a rs
      by (simp_all flip: quotes_iff declines_iff [of v "pc_contributionId c" t])
    then show ?thesis using assms Inl by (simp add: answered_def adjustedContribution_def unavailable_nothing Some)
  next
    case (Inr p)
    show ?thesis
    proof (cases p)
      case (ParsedUnavailable reasons)
      then have "\<not> quotes v (pc_contributionId c) t a" "declines v (pc_contributionId c) reasons" for a
        using Inr by (simp_all flip: quotes_iff declines_iff [of v "pc_contributionId c" t])
      then show ?thesis using assms Inr ParsedUnavailable unavailable_nothing [of c reasons]
        by (auto simp: answered_def adjustedContribution_def Some)
    next
      case (ParsedAvailable a)
      then have q: "quotes v (pc_contributionId c) t a" using Inr by (simp flip: quotes_iff)
      have gross: "value_of c = dec_val g" by (simp add: value_of_def assms(2))
      show ?thesis
      proof (cases "affordable c a")
        case True
        then have t: "totalBuyingPowerDeductions (aa_deductions a) = Inr (nat_text (breakdown_sum (aa_deductions a)))"
            "subtractBuyingPowerUsdMantissas g (nat_text (breakdown_sum (aa_deductions a))) =
               Inr (nat_text (value_of c - breakdown_sum (aa_deductions a)))"
          unfolding total_iff subtract_iff by (simp_all add: affordable_def text_bound gross flip: breakdown_sum_def)
        have "takes c a (adjustedContribution c g t response)"
          by (simp add: takes_def adjustedContribution_def Some Inr ParsedAvailable t)
        then show ?thesis using assms q True
          by (auto simp: answered_def Some adjustedContribution_def Inr ParsedAvailable t)
      next
        case False
        have "\<exists>e. res_bind (totalBuyingPowerDeductions (aa_deductions a)) (\<lambda>deduction.
              res_bind (subtractBuyingPowerUsdMantissas g deduction) (\<lambda>available. Inr (deduction, available))) = Inl e"
        proof (cases "breakdown_sum (aa_deductions a) < 10 ^ 100")
          case small: True
          then have sum: "totalBuyingPowerDeductions (aa_deductions a) = Inr (nat_text (breakdown_sum (aa_deductions a)))"
            unfolding total_iff by (simp add: text_bound flip: breakdown_sum_def)
          have "dec_val g < breakdown_sum (aa_deductions a)" using False small by (simp add: affordable_def gross)
          then show ?thesis by (simp add: sum subtractBuyingPowerUsdMantissas_def)
        next
          case large: False
          have "totalBuyingPowerDeductions (aa_deductions a) \<noteq> Inr s" for s
            unfolding total_iff using large by (auto simp: text_bound simp flip: breakdown_sum_def)
          then obtain e where "totalBuyingPowerDeductions (aa_deductions a) = Inl e"
            by (cases "totalBuyingPowerDeductions (aa_deductions a)") auto
          then show ?thesis by simp
        qed
        then obtain e where e: "res_bind (totalBuyingPowerDeductions (aa_deductions a)) (\<lambda>deduction.
              res_bind (subtractBuyingPowerUsdMantissas g deduction) (\<lambda>available. Inr (deduction, available))) = Inl e" ..
        then have "nothing_for (adjustedContribution c g t response) [Some ADJUSTMENTS_EXCEED_VALUE]"
          by (simp add: adjustedContribution_def Some Inr ParsedAvailable unavailable_nothing)
        then show ?thesis using assms q False e
          by (auto simp: answered_def Some adjustedContribution_def Inr ParsedAvailable)
      qed
    qed
  qed
qed

lemma blocked_answered:
  assumes "\<not> eligible c"
  shows "answered t c None (unavailableContribution c (map Some (contributionUnavailableReasons c)))"
proof -
  let ?reasons = "contributionUnavailableReasons c"
  have "distinct ?reasons \<and> (\<forall>x. x \<in> set ?reasons \<longleftrightarrow> blocks c x)"
  proof (intro conjI allI)
    show "distinct ?reasons" by (auto simp: contributionUnavailableReasons_def)
    show "x \<in> set ?reasons \<longleftrightarrow> blocks c x" for x by (cases x) (auto simp: contributionUnavailableReasons_def)
  qed
  then show ?thesis using assms unavailable_nothing [of c "map Some ?reasons"] by (auto simp: answered_def)
qed

lemma adjustContributions_answered:
  "adjustContributions ports t (map Some cs) w = (Inr rs, w') \<Longrightarrow>
   list_all2 (\<lambda>(c, response) r. answered t c response r) (zip cs (port_answers ports t cs w)) rs"
proof (induction cs arbitrary: w rs)
  case Nil
  then show ?case by (simp add: act_return_def)
next
  case (Cons c cs)
  let ?one = "case (contributionUnavailableReasons c, pc_usdValueMantissa c) of
      ([], Some gross) \<Rightarrow> adjustContribution ports c gross t
    | (reasons, _) \<Rightarrow> act_return (unavailableContribution c (map Some reasons))"
  obtain r v rs' where one: "?one w = (Inr r, v)" and rest: "adjustContributions ports t (map Some cs) v = (Inr rs', w')" "rs = r # rs'"
    using Cons.prems by (auto simp: act_bind_Inr_iff act_return_def)
  note all = Cons.IH [OF rest(1)]
  show ?case
  proof (cases "eligible c")
    case True
    then obtain g where g: "pc_usdValueMantissa c = Some g" "contributionUnavailableReasons c = []"
      using eligible_iff [of c] by (auto simp: eligible_def)
    obtain a w2 where a: "bp_evaluate ports (adjustment_question t c) w = (a, w2)" by (cases "bp_evaluate ports (adjustment_question t c) w")
    have "v = w2 \<and> r = adjustedContribution c g t (case a of Inl _ \<Rightarrow> None | Inr x \<Rightarrow> Some x)"
      using one a by (cases a)
        (simp_all add: g adjustContribution_def act_bind_def act_swallow_def act_return_def adjustment_question_def BUYING_POWER_USD_SCALE_def)
    then show ?thesis
      using all adjusted_answered [OF True g(1), of t "case a of Inl _ \<Rightarrow> None | Inr x \<Rightarrow> Some x"]
      by (cases a) (simp_all add: True a rest(2))
  next
    case False
    then obtain x xs where "contributionUnavailableReasons c = x # xs" using eligible_iff [of c] by (cases "contributionUnavailableReasons c") auto
    then have "v = w \<and> r = unavailableContribution c (map Some (contributionUnavailableReasons c))"
      using one by (simp add: act_return_def)
    then show ?thesis using all blocked_answered [OF False] by (simp add: False rest(2))
  qed
qed

lemma calculate_answered:
  assumes "calculate ports input w = (Inr r, w')"
  obtains q t cs w1 where "parseRequest input = Inr q" "pr_contributions q = map Some cs" "br_evaluatedAt r = t"
    "\<forall>c \<in> set cs. pc_asOf c \<le> t" "readEvaluationTime ports w = (Inr t, w1)"
    "list_all2 (\<lambda>(c, response) r'. answered t c response r') (zip cs (port_answers ports t cs w1)) (br_contributions r)"
proof -
  obtain q t w1 sup el sv ev rs w2 where
      e: "parseRequest input = Inr q" "readEvaluationTime ports w = (Inr t, w1)"
      "collectValues t (pr_contributions q) = Inr (sup, el)"
      "adjustContributions ports t (pr_contributions q) w1 = (Inr rs, w2)" "summarize q t sv ev rs = Inr r"
    using assms unfolding calculate_def
    by (auto simp: act_bind_Inr_iff act_pure_def rethrow_eq_Inr)
  obtain cs where cs: "pr_contributions q = map Some cs" "\<forall>c \<in> set cs. pc_asOf c \<le> t" using collect_iff [OF e(3)] by blast
  have "br_contributions r = rs \<and> br_evaluatedAt r = t"
    using e(5) unfolding summarize_def by (auto simp: res_bind_eq_Inr rethrow_eq_Inr Let_def)
  then show ?thesis using that [OF e(1) cs(1) _ cs(2) e(2)] adjustContributions_answered [OF e(4) [unfolded cs(1)]] by simp
qed

end
