(* ===== verification/Buying_Power_Theorems.thy ===== *)
theory Buying_Power_Theorems
  imports Buying_Power_Correct
begin

text \<open>
  The properties of an estimate of buying power, with a sample portfolio of two contributions: one the port
  quotes, one that is stale.
\<close>

definition sample_contribution :: "string \<Rightarrow> string \<Rightarrow> jsval" where
  "sample_contribution i freshness =
     mk_object [(''contributionId'', JString i), (''walletId'', JString ''w''), (''networkId'', JString ''n''),
       (''assetId'', JString ''a''), (''supported'', JBool True), (''freshness'', JString freshness),
       (''valuationUse'', JString ''CONSERVATIVE_REPORTING_ONLY''), (''usdValueMantissa'', JString ''1000''),
       (''asOf'', JString ''2026-01-01T00:00:00.000Z'')]"

definition sample_portfolio :: jsval where
  "sample_portfolio =
     mk_object [(''portfolioSnapshotId'', JString ''p''),
       (''contributions'', mk_array [sample_contribution ''c1'' ''CURRENT'', sample_contribution ''c2'' ''STALE''])]"

definition sample_adjustment :: "string \<Rightarrow> jsval" where
  "sample_adjustment i =
     mk_object [(''status'', JString ''AVAILABLE''), (''quoteId'', JString ''q''), (''contributionId'', JString i),
       (''quotedAt'', JString ''2026-01-02T00:00:00.000Z''), (''validUntil'', JString ''2026-01-02T00:00:00.000Z''),
       (''deductions'', mk_object [(''liquidity'', JString ''1''), (''conversion'', JString ''20''), (''slippage'', JString ''0''),
          (''network'', JString ''300''), (''routing'', JString ''4'')])]"

definition sample_power_ports :: "unit BuyingPowerPorts" where
  "sample_power_ports =
     \<lparr>bp_evaluate = (\<lambda>a w. (Inr (sample_adjustment (ar_contributionId a)), w)),
      bp_now = (\<lambda>w. (Inr (JString ''2026-01-02T00:00:00.000Z''), w))\<rparr>"

lemma sample_power:
  "case fst (calculate sample_power_ports sample_portfolio ()) of
     Inl _ \<Rightarrow> False
   | Inr r \<Rightarrow> br_availableBuyingPowerUsdMantissa r = ''675'' \<and> map cr_available (br_contributions r) = [True, False]"
  by code_simp

lemma sample_power_result:
  obtains r where "fst (calculate sample_power_ports sample_portfolio ()) = Inr r"
    "br_availableBuyingPowerUsdMantissa r = ''675''" "map cr_available (br_contributions r) = [True, False]"
  using sample_power by (cases "fst (calculate sample_power_ports sample_portfolio ())") auto

text \<open>C9. An estimate is exact and conservative: what is available and all deductions add up to the gross value
  of the contributions that count, each kind of deduction is the sum over the contributions, and what is
  available is at most the eligible value, which is at most the supported value.
\<close>

theorem buying_power_is_conservative:
  assumes "fst (calculate ports input w) = Inr r"
  shows "dec_val (br_availableBuyingPowerUsdMantissa r) + dec_val (br_totalDeductionUsdMantissa r) =
      sum_list (map gross_of (filter cr_available (br_contributions r))) \<and>
    dec_val (br_availableBuyingPowerUsdMantissa r) = sum_list (availables (br_contributions r)) \<and>
    (\<forall>k. dec_val (br_totalDeductions r k) = sum_list (map (\<lambda>d. dec_val (d k)) (breakdowns (br_contributions r)))) \<and>
    dec_val (br_totalDeductionUsdMantissa r) = breakdown_sum (br_totalDeductions r) \<and>
    dec_val (br_availableBuyingPowerUsdMantissa r) \<le> dec_val (br_eligibleGrossValueMantissa r) \<and>
    dec_val (br_eligibleGrossValueMantissa r) \<le> dec_val (br_supportedPortfolioValueMantissa r) \<and>
    \<not> br_mayAuthorizeFinancialAction r"
proof -
  obtain w' where "calculate ports input w = (Inr r, w')" using assms by (cases "calculate ports input w") simp
  then obtain q t cs d s a where c: "list_all2 (result_for t) cs (br_contributions r)"
      "br_totalDeductions r = d" "br_totalDeductionUsdMantissa r = s" "br_availableBuyingPowerUsdMantissa r = a"
      "totals (br_contributions r) = Inr (d, s, a)"
      "br_supportedPortfolioValueMantissa r = nat_text (sum_list (map value_of (filter pc_supported cs)))"
      "br_eligibleGrossValueMantissa r = nat_text (sum_list (map value_of (filter eligible cs)))"
      "\<not> br_mayAuthorizeFinancialAction r"
    by (rule calculate_Inr)
  note conserve = results_conserve [OF c(1)] results_bound [OF c(1)] eligible_supported [of cs]
  have d: "d k = nat_text (sum_list (map (\<lambda>x. dec_val (x k)) (breakdowns (br_contributions r))))" for k
    using c(5) unfolding totals_iff by blast
  have s: "s = nat_text (breakdown_sum d)" and a: "a = nat_text (sum_list (availables (br_contributions r)))"
    using c(5) unfolding totals_iff by blast+
  have b: "breakdown_sum d = sum_list (map breakdown_sum (breakdowns (br_contributions r)))"
    by (rule breakdown_sum_list) (use d in blast)
  show ?thesis using conserve a s b d c(8) unfolding c(2-4,6,7) by simp
qed

lemma buying_power_is_conservative_witness:
  "\<exists>r. fst (calculate sample_power_ports sample_portfolio ()) = Inr r \<and> br_availableBuyingPowerUsdMantissa r = ''675'' \<and>
     675 + dec_val (br_totalDeductionUsdMantissa r) = sum_list (map gross_of (filter cr_available (br_contributions r)))"
proof -
  obtain r where r: "fst (calculate sample_power_ports sample_portfolio ()) = Inr r" "br_availableBuyingPowerUsdMantissa r = ''675''"
    by (rule sample_power_result)
  have amount: "dec_val ''675'' = 675" by code_simp
  show ?thesis using buying_power_is_conservative [OF r(1), unfolded r(2) amount] r by blast
qed

definition sample_parsed :: "string \<Rightarrow> BuyingPowerFreshness \<Rightarrow> ParsedContribution" where
  "sample_parsed i freshness =
     \<lparr>pc_contributionId = i, pc_walletId = ''w'', pc_networkId = ''n'', pc_assetId = ''a'', pc_supported = True,
      pc_freshness = freshness, pc_valuationUse = Use_CONSERVATIVE_REPORTING_ONLY, pc_usdValueMantissa = Some ''1000'',
      pc_asOf = ''2026-01-01T00:00:00.000Z''\<rparr>"

lemma sample_power_parsed:
  "parseRequest sample_portfolio = Inr \<lparr>pr_portfolioSnapshotId = ''p'',
     pr_contributions = map Some [sample_parsed ''c1'' Data_CURRENT, sample_parsed ''c2'' Data_STALE]\<rparr>"
  by code_simp

text \<open>C24. An estimate has one result per contribution of the request, in order, and each result follows from the
  answer the adjustment port gave about that contribution at the time of the evaluation. The port is asked
  exactly about the eligible contributions: supported, priced, current, with a valuation that may be reported. A
  contribution that is not eligible offers nothing, for exactly the reasons that apply to it. An eligible one is
  available exactly when the port's answer is a quote about this contribution, in force at that time, with
  deductions its value can bear; the result then carries the deductions of that answer, their sum and the rest
  of the value. Otherwise it offers nothing, for the reasons the answer gives (an array of known reasons, each
  once; a hole in it stays a hole), or because the port failed, the answer is not valid, or the deductions
  exceed the value.
\<close>

theorem available_contributions_are_eligible_and_quoted:
  assumes "fst (calculate ports input w) = Inr r"
  shows "\<exists>q cs w1. parseRequest input = Inr q \<and> pr_contributions q = map Some cs \<and>
     readEvaluationTime ports w = (Inr (br_evaluatedAt r), w1) \<and> (\<forall>c \<in> set cs. pc_asOf c \<le> br_evaluatedAt r) \<and>
     list_all2 (\<lambda>(c, response) r'. answered (br_evaluatedAt r) c response r')
       (zip cs (port_answers ports (br_evaluatedAt r) cs w1)) (br_contributions r)"
proof -
  obtain w' where "calculate ports input w = (Inr r, w')" using assms by (cases "calculate ports input w") simp
  then obtain q t cs w1 where c: "parseRequest input = Inr q" "pr_contributions q = map Some cs"
      "br_evaluatedAt r = t" "\<forall>c \<in> set cs. pc_asOf c \<le> t" "readEvaluationTime ports w = (Inr t, w1)"
      "list_all2 (\<lambda>(c, response) r'. answered t c response r') (zip cs (port_answers ports t cs w1)) (br_contributions r)"
    by (rule calculate_answered)
  show ?thesis by (intro exI [of _ q] exI [of _ cs] exI [of _ w1]) (simp add: c)
qed

lemma available_contributions_are_eligible_and_quoted_witness:
  "\<exists>r c c' r1 r2. fst (calculate sample_power_ports sample_portfolio ()) = Inr r \<and> br_contributions r = [r1, r2] \<and>
     answered (br_evaluatedAt r) c (Some (Some (sample_adjustment ''c1''))) r1 \<and> answered (br_evaluatedAt r) c' None r2 \<and>
     eligible c \<and> \<not> eligible c'"
proof -
  obtain r where r: "fst (calculate sample_power_ports sample_portfolio ()) = Inr r" by (rule sample_power_result)
  let ?c = "sample_parsed ''c1'' Data_CURRENT" and ?c' = "sample_parsed ''c2'' Data_STALE"
  have e: "eligible ?c" "\<not> eligible ?c'" by code_simp+
  obtain q cs w1 where cs: "parseRequest sample_portfolio = Inr q" "pr_contributions q = map Some cs"
      "list_all2 (\<lambda>(c, response) r'. answered (br_evaluatedAt r) c response r')
         (zip cs (port_answers sample_power_ports (br_evaluatedAt r) cs w1)) (br_contributions r)"
    using available_contributions_are_eligible_and_quoted [OF r] by blast
  have "port_answers sample_power_ports t [?c, ?c'] w1 = [Some (Some (sample_adjustment ''c1'')), None]" for t
    by (simp add: e sample_power_ports_def adjustment_question_def) (simp add: sample_parsed_def)
  moreover have "map Some cs = map Some [?c, ?c']" using cs(2) cs(1) [symmetric] by (simp only: sample_power_parsed sum.inject ParsedRequest.simps)
  then have "cs = [?c, ?c']" by (metis inj_map_eq_map inj_Some)
  ultimately have "list_all2 (\<lambda>(c, response) r'. answered (br_evaluatedAt r) c response r')
      [(?c, Some (Some (sample_adjustment ''c1''))), (?c', None)] (br_contributions r)" using cs(3) by simp
  then show ?thesis using r e by (auto simp: list_all2_Cons1)
qed

text \<open>C29. No answer of the adjustment port makes an estimate fail: for a valid request without holes, at a
  readable time not before its data, with a supported value in range, the calculation returns a result
  whatever the port answers, also when it throws for every contribution.
\<close>

theorem adjustments_never_fail_the_estimate:
  assumes "parseRequest input = Inr q" and "pr_contributions q = map Some cs"
    and "readEvaluationTime ports w = (Inr t, w1)" and "\<forall>c \<in> set cs. pc_asOf c \<le> t"
    and "sum_list (map value_of (filter pc_supported cs)) < 10 ^ 100"
  shows "\<exists>r. fst (calculate ports input w) = Inr r"
proof -
  obtain xs ys where collected: "collectValues t (map Some cs) = Inr (xs, ys)" using collect_total [OF assms(4)] by blast
  note sums = collected_sums [OF collected]
  obtain rs w' where rs: "adjustContributions ports t (map Some cs) w1 = (Inr rs, w')" using adjustContributions_total [of ports t cs w1] by blast
  have results: "list_all2 (result_for t) cs rs" using adjustContributions_results [OF rs] by simp
  obtain r where "summarize q t (nat_text (sum_list (map value_of (filter pc_supported cs))))
      (nat_text (sum_list (map value_of (filter eligible cs)))) rs = Inr r"
    using summarize_total [OF results assms(5)] by blast
  moreover have "addBuyingPowerUsdMantissas xs = Inr (nat_text (sum_list (map value_of (filter pc_supported cs))))"
      "addBuyingPowerUsdMantissas ys = Inr (nat_text (sum_list (map value_of (filter eligible cs))))"
    using sums assms(5) eligible_supported [of cs] by (simp_all add: add_iff text_bound)
  ultimately have "calculate ports input w = (Inr r, w')"
    using assms(1-3) collected rs by (simp add: calculate_def act_bind_def act_pure_def)
  then show ?thesis by simp
qed

definition failing_ports :: "unit BuyingPowerPorts" where
  "failing_ports = sample_power_ports\<lparr>bp_evaluate := (\<lambda>a w. (Inl (), w))\<rparr>"

lemma failing_clock: "readEvaluationTime failing_ports w = (Inr ''2026-01-02T00:00:00.000Z'', w)"
proof -
  have "canonicalTimestamp (JString ''2026-01-02T00:00:00.000Z'') = Inr ''2026-01-02T00:00:00.000Z''" by code_simp
  then show ?thesis
    by (simp add: readEvaluationTime_def failing_ports_def sample_power_ports_def act_rethrow_def act_bind_def act_pure_def)
qed

lemma adjustments_never_fail_the_estimate_witness:
  "\<exists>r. fst (calculate failing_ports sample_portfolio ()) = Inr r"
  by (rule adjustments_never_fail_the_estimate [OF sample_power_parsed _ failing_clock,
        of "[sample_parsed ''c1'' Data_CURRENT, sample_parsed ''c2'' Data_STALE]"]) code_simp+

lemma map_items_hole:
  assumes "res_map f (vs @ us) = Inr ys"
  shows "map_items f (map Some vs @ None # map Some us) = Inr (map Some (take (length vs) ys) @ None # map Some (drop (length vs) ys))"
  using assms
proof (induction vs arbitrary: ys)
  case Nil
  then show ?case by (simp add: map_items_Some)
next
  case (Cons v vs)
  then obtain z zs where z: "f v = Inr z" "res_map f (vs @ us) = Inr zs" "ys = z # zs" by (auto simp: res_simps)
  show ?case using Cons.IH [OF z(2)] by (simp add: z)
qed

lemma portfolio_record:
  "exactDataRecord (mk_object [(''portfolioSnapshotId'', a), (''contributions'', b)]) [''portfolioSnapshotId'', ''contributions''] =
   Inr [(''portfolioSnapshotId'', a), (''contributions'', b)]"
  by (simp add: exactDataRecord_def exactDataRecordWithAllowedKeys_def optional_data_record_def mk_object_def assertExactKeys_def)

text \<open>C39. A sparse array of contributions is not refused as an invalid request. When a request's array has one hole,
  its other elements are valid contributions with different identifiers and nothing else is wrong, then parsing
  accepts the request with the hole in it, and the calculation ends with a \<^verbatim>\<open>TypeError\<close> instead of an error of the
  calculator, without asking the adjustment port for anything.
\<close>

theorem sparse_contributions_throw_type_error:
  assumes "input = mk_object [(''portfolioSnapshotId'', JString p), (''contributions'', JArray ProtoArray len props)]"
    and "array_items ProtoArray len props = Some (map Some vs @ None # map Some us)" and "len \<le> MAX_CONTRIBUTIONS"
    and "res_map parseContribution (vs @ us) = Inr cs" and "distinct (map pc_contributionId cs)"
    and "safeIdentifier (JString p) = Inr p"
    and "readEvaluationTime ports w = (Inr t, w1)" and "\<forall>c \<in> set cs. pc_asOf c \<le> t"
  shows "(\<exists>q. parseRequest input = Inr q \<and> None \<in> set (pr_contributions q)) \<and>
    calculate ports input w = (Inl TypeErrorThrown, w1)"
proof -
  let ?items = "map Some (take (length vs) cs) @ None # map Some (drop (length vs) cs)"
  have ids: "card (set (map (map_option pc_contributionId) ?items)) = length ?items"
  proof -
    have "map (map_option pc_contributionId) ?items =
        map Some (take (length vs) (map pc_contributionId cs)) @ None # map Some (drop (length vs) (map pc_contributionId cs))"
      by (simp add: take_map drop_map)
    moreover have "distinct (map Some (take n xs) @ None # map Some (drop n xs))" if "distinct xs" for n and xs :: "string list"
      using that distinct_append [of "take n xs" "drop n xs"] by (auto simp: distinct_map)
    ultimately have "distinct (map (map_option pc_contributionId) ?items)" using assms(5) by simp
    then show ?thesis by (metis distinct_card length_map)
  qed
  have parsed: "parseRequest input = Inr \<lparr>pr_portfolioSnapshotId = p, pr_contributions = ?items\<rparr>"
    using map_items_hole [OF assms(4)] ids assms(2,3,6)
    by (simp add: parseRequest_def assms(1) portfolio_record js_get_def)
  have "collectValues t (map Some as @ None # items) = Inl TypeErrorThrown" if "\<forall>c \<in> set as. pc_asOf c \<le> t" for as items
    using that by (induction as) auto
  then have "collectValues t ?items = Inl TypeErrorThrown" using assms(8) by (auto dest: in_set_takeD)
  then show ?thesis using parsed assms(7) by (simp add: calculate_def act_bind_def act_pure_def)
qed

text \<open>The literal \<^verbatim>\<open>[c1, , c2]\<close>.\<close>

definition sparse_array :: jsval where
  "sparse_array = JArray ProtoArray 3
     [(KeyStr ''0'', DataProp True (sample_contribution ''c1'' ''CURRENT'')), (KeyStr ''2'', DataProp True (sample_contribution ''c2'' ''STALE''))]"

lemma sparse_contributions_throw_type_error_witness:
  "calculate failing_ports (mk_object [(''portfolioSnapshotId'', JString ''p''), (''contributions'', sparse_array)]) () =
     (Inl TypeErrorThrown, ())"
proof -
  let ?props = "[(KeyStr ''0'', DataProp True (sample_contribution ''c1'' ''CURRENT'')), (KeyStr ''2'', DataProp True (sample_contribution ''c2'' ''STALE''))]"
  have items: "array_items ProtoArray 3 ?props =
      Some (map Some [sample_contribution ''c1'' ''CURRENT''] @ None # map Some [sample_contribution ''c2'' ''STALE''])" by code_simp
  have parsed: "res_map parseContribution ([sample_contribution ''c1'' ''CURRENT''] @ [sample_contribution ''c2'' ''STALE'']) =
      Inr [sample_parsed ''c1'' Data_CURRENT, sample_parsed ''c2'' Data_STALE]" by code_simp
  have name: "safeIdentifier (JString ''p'') = Inr ''p''" by code_simp
  have time: "\<forall>c \<in> set [sample_parsed ''c1'' Data_CURRENT, sample_parsed ''c2'' Data_STALE]. pc_asOf c \<le> ''2026-01-02T00:00:00.000Z''"
    by code_simp
  show ?thesis
    unfolding sparse_array_def
    using sparse_contributions_throw_type_error [OF refl items _ parsed _ name failing_clock time]
    by (simp add: MAX_CONTRIBUTIONS_def sample_parsed_def)
qed

end
