(* ===== verification/Yield_Operation.thy ===== *)
theory Yield_Operation
  imports Ledger_Service
begin

text \<open>
  Yield operations, \<^verbatim>\<open>apps/api/src/yield-operations/domain/yield-operation.ts\<close>,
  \<^verbatim>\<open>yield-operation-idempotency.ts\<close> and \<^verbatim>\<open>application/yield-operation.service.ts\<close>: commands that create an
  operation and move it through the lifecycle of its ledger transaction. The repository, the actor resolver
  and SHA-256 are arguments; a repository's answer is passed on, so its type is a parameter.
\<close>

subsection \<open>Data\<close>

datatype YieldOperationType = ALLOCATE | WITHDRAW | REBALANCE

fun yield_type_text :: "YieldOperationType \<Rightarrow> string" where
  "yield_type_text ALLOCATE = ''ALLOCATE''"
| "yield_type_text WITHDRAW = ''WITHDRAW''"
| "yield_type_text REBALANCE = ''REBALANCE''"

definition YIELD_OPERATION_TYPES :: "YieldOperationType list" where
  "YIELD_OPERATION_TYPES = [ALLOCATE, WITHDRAW, REBALANCE]"

datatype YieldOperationValidationCode =
    INVALID_YIELD_OPERATION_INPUT | INVALID_YIELD_OPERATION_ID | INVALID_YIELD_OPERATION_TYPE
  | INVALID_YIELD_REFERENCE | INVALID_YIELD_LEDGER_REFERENCE

text \<open>Errors of the ledger's own parsers pass through.\<close>

datatype yield_error = YieldError YieldOperationValidationCode | YieldLifecycle lifecycle_error | YieldLedger LedgerValidationCode

record ValidatedCreateYieldOperation =
  yo_operationId :: string
  yo_operationType :: YieldOperationType
  yo_ledgerTransactionId :: string
  yo_planReferenceId :: string
  yo_quoteReferenceId :: string
  yo_effectiveAt :: string

record CreateYieldOperationCommand =
  yc_actorAccountId :: string
  yc_correlationId :: string
  yc_operation :: ValidatedCreateYieldOperation

record ValidatedTransitionYieldOperation =
  yt_operationId :: string
  yt_expectedState :: LedgerLifecycleState
  yt_nextState :: LedgerLifecycleState
  yt_reason :: LedgerLifecycleReasonCode
  yt_effectiveAt :: string
  yt_ledgerJournalId :: "string option"

record TransitionYieldOperationCommand =
  yx_actorAccountId :: string
  yx_correlationId :: string
  yx_transition :: ValidatedTransitionYieldOperation

type_synonym 'a yield_result = "yield_error + 'a"

subsection \<open>Parsing\<close>

definition yieldOwnDataRecord :: "jsval \<Rightarrow> string list \<Rightarrow> js_record yield_result" where
  "yieldOwnDataRecord v expectedKeys = of_option (YieldError INVALID_YIELD_OPERATION_INPUT) (exact_data_record expectedKeys v)"

definition yield_uuid :: "jsval \<Rightarrow> YieldOperationValidationCode \<Rightarrow> string yield_result" where
  "yield_uuid v code =
     (case v of JString s \<Rightarrow> if uuid_v4 s then Inr s else Inl (YieldError code) | _ \<Rightarrow> Inl (YieldError code))"

definition parseYieldOperationId :: "jsval \<Rightarrow> string yield_result" where
  "parseYieldOperationId v = yield_uuid v INVALID_YIELD_OPERATION_ID"

definition parseYieldPlanReferenceId :: "jsval \<Rightarrow> string yield_result" where
  "parseYieldPlanReferenceId v = yield_uuid v INVALID_YIELD_REFERENCE"

definition parseYieldQuoteReferenceId :: "jsval \<Rightarrow> string yield_result" where
  "parseYieldQuoteReferenceId v = yield_uuid v INVALID_YIELD_REFERENCE"

definition parseYieldTransitionEventId :: "jsval \<Rightarrow> string yield_result" where
  "parseYieldTransitionEventId v = yield_uuid v INVALID_YIELD_OPERATION_ID"

definition parseYieldSubmissionId :: "jsval \<Rightarrow> string yield_result" where
  "parseYieldSubmissionId v = yield_uuid v INVALID_YIELD_OPERATION_ID"

definition parseOperationType :: "jsval \<Rightarrow> YieldOperationType yield_result" where
  "parseOperationType v = of_option (YieldError INVALID_YIELD_OPERATION_TYPE) (parse_enum yield_type_text YIELD_OPERATION_TYPES v)"

text \<open>\<^verbatim>\<open>canonicalDate\<close>: a fresh date with the same time.\<close>

fun canonicalDate :: "jsval \<Rightarrow> jsval yield_result" where
  "canonicalDate (JDate ProtoDate (Some milliseconds)) = Inr (mk_date milliseconds)"
| "canonicalDate _ = Inl (YieldError INVALID_YIELD_OPERATION_INPUT)"

fun yield_timestampInput :: "jsval \<Rightarrow> jsval yield_result" where
  "yield_timestampInput (JString s) =
     (case read_timestamp s of None \<Rightarrow> Inl (YieldError INVALID_YIELD_OPERATION_INPUT) | Some t \<Rightarrow> Inr (mk_date t))"
| "yield_timestampInput _ = Inl (YieldError INVALID_YIELD_OPERATION_INPUT)"

definition parseJournalReference :: "jsval \<Rightarrow> LedgerLifecycleState \<Rightarrow> string option yield_result" where
  "parseJournalReference v nextState =
     (let requiresJournal = (nextState = SETTLED \<or> nextState = REVERSED)
      in if (v \<noteq> JNull) \<noteq> requiresJournal then Inl (YieldError INVALID_YIELD_LEDGER_REFERENCE)
         else rethrow (YieldError INVALID_YIELD_LEDGER_REFERENCE)
           (if v = JNull then Inr None else res_bind (parseLedgerJournalId v) (\<lambda>s. Inr (Some s))))"

abbreviation create_yield_keys :: "string list" where
  "create_yield_keys \<equiv> [''operationId'', ''operationType'', ''ledgerTransactionId'', ''planReferenceId'', ''quoteReferenceId'', ''effectiveAt'']"

abbreviation transition_yield_keys :: "string list" where
  "transition_yield_keys \<equiv> [''operationId'', ''expectedState'', ''nextState'', ''reason'', ''effectiveAt'', ''ledgerJournalId'']"

definition normalizeCreateYieldOperationInput :: "jsval \<Rightarrow> ValidatedCreateYieldOperation yield_result" where
  "normalizeCreateYieldOperationInput v =
     res_bind (yieldOwnDataRecord v create_yield_keys) (\<lambda>r.
     res_bind (canonicalDate (js_get r ''effectiveAt'')) (\<lambda>date.
     res_bind (lift_error YieldLifecycle (normalizeLedgerLifecycleTransitionInput (mk_object
       [(''transactionId'', js_get r ''ledgerTransactionId''), (''legId'', JNull), (''expectedState'', JNull),
        (''nextState'', JString ''CREATED''), (''reason'', JString ''INTENT_CREATED''), (''effectiveAt'', date)]))) (\<lambda>lifecycle.
     res_bind (parseYieldOperationId (js_get r ''operationId'')) (\<lambda>operationId.
     res_bind (parseOperationType (js_get r ''operationType'')) (\<lambda>operationType.
     res_bind (parseYieldPlanReferenceId (js_get r ''planReferenceId'')) (\<lambda>planReferenceId.
     res_bind (parseYieldQuoteReferenceId (js_get r ''quoteReferenceId'')) (\<lambda>quoteReferenceId.
     Inr \<lparr>yo_operationId = operationId, yo_operationType = operationType,
          yo_ledgerTransactionId = lt_transactionId lifecycle, yo_planReferenceId = planReferenceId,
          yo_quoteReferenceId = quoteReferenceId, yo_effectiveAt = lt_effectiveAt lifecycle\<rparr>)))))))"

definition normalizeCreateYieldOperationCommand :: "jsval \<Rightarrow> CreateYieldOperationCommand yield_result" where
  "normalizeCreateYieldOperationCommand v =
     res_bind (yieldOwnDataRecord v (''actorAccountId'' # ''correlationId'' # create_yield_keys)) (\<lambda>r.
     res_bind (yield_timestampInput (js_get r ''effectiveAt'')) (\<lambda>effectiveAt.
     res_bind (normalizeCreateYieldOperationInput (mk_object
       [(''operationId'', js_get r ''operationId''), (''operationType'', js_get r ''operationType''),
        (''ledgerTransactionId'', js_get r ''ledgerTransactionId''), (''planReferenceId'', js_get r ''planReferenceId''),
        (''quoteReferenceId'', js_get r ''quoteReferenceId''), (''effectiveAt'', effectiveAt)])) (\<lambda>operation.
     res_bind (lift_error YieldLedger (parseLedgerActorAccountId (js_get r ''actorAccountId''))) (\<lambda>actor.
     res_bind (lift_error YieldLedger (parseLedgerCorrelationId (js_get r ''correlationId''))) (\<lambda>correlation.
     Inr \<lparr>yc_actorAccountId = actor, yc_correlationId = correlation, yc_operation = operation\<rparr>)))))"

definition normalizeTransitionYieldOperationInput :: "jsval \<Rightarrow> ValidatedTransitionYieldOperation yield_result" where
  "normalizeTransitionYieldOperationInput v =
     res_bind (yieldOwnDataRecord v transition_yield_keys) (\<lambda>r.
     res_bind (canonicalDate (js_get r ''effectiveAt'')) (\<lambda>date.
     res_bind (lift_error YieldLifecycle (normalizeLedgerLifecycleTransitionInput (mk_object
       [(''transactionId'', JString ''00000000-0000-4000-8000-000000000000''), (''legId'', JNull),
        (''expectedState'', js_get r ''expectedState''), (''nextState'', js_get r ''nextState''),
        (''reason'', js_get r ''reason''), (''effectiveAt'', date)]))) (\<lambda>lifecycle.
     case lt_expectedState lifecycle of
       None \<Rightarrow> Inl (YieldError INVALID_YIELD_OPERATION_INPUT)
     | Some expectedState \<Rightarrow>
         res_bind (parseYieldOperationId (js_get r ''operationId'')) (\<lambda>operationId.
         res_bind (parseJournalReference (js_get r ''ledgerJournalId'') (lt_nextState lifecycle)) (\<lambda>journal.
         Inr \<lparr>yt_operationId = operationId, yt_expectedState = expectedState, yt_nextState = lt_nextState lifecycle,
              yt_reason = lt_reason lifecycle, yt_effectiveAt = lt_effectiveAt lifecycle,
              yt_ledgerJournalId = journal\<rparr>)))))"

definition normalizeTransitionYieldOperationCommand :: "jsval \<Rightarrow> TransitionYieldOperationCommand yield_result" where
  "normalizeTransitionYieldOperationCommand v =
     res_bind (yieldOwnDataRecord v (''actorAccountId'' # ''correlationId'' # transition_yield_keys)) (\<lambda>r.
     res_bind (yield_timestampInput (js_get r ''effectiveAt'')) (\<lambda>effectiveAt.
     res_bind (normalizeTransitionYieldOperationInput (mk_object
       [(''operationId'', js_get r ''operationId''), (''expectedState'', js_get r ''expectedState''),
        (''nextState'', js_get r ''nextState''), (''reason'', js_get r ''reason''), (''effectiveAt'', effectiveAt),
        (''ledgerJournalId'', js_get r ''ledgerJournalId'')])) (\<lambda>transition.
     res_bind (lift_error YieldLedger (parseLedgerActorAccountId (js_get r ''actorAccountId''))) (\<lambda>actor.
     res_bind (lift_error YieldLedger (parseLedgerCorrelationId (js_get r ''correlationId''))) (\<lambda>correlation.
     Inr \<lparr>yx_actorAccountId = actor, yx_correlationId = correlation, yx_transition = transition\<rparr>)))))"

text \<open>The object a command is built from: the validated fields, spread after the actor and the correlation.\<close>

definition create_yield_fields :: "(string \<Rightarrow> jsval) \<Rightarrow> ValidatedCreateYieldOperation \<Rightarrow> js_record" where
  "create_yield_fields time oper =
     [(''operationId'', JString (yo_operationId oper)), (''operationType'', JString (yield_type_text (yo_operationType oper))),
      (''ledgerTransactionId'', JString (yo_ledgerTransactionId oper)),
      (''planReferenceId'', JString (yo_planReferenceId oper)), (''quoteReferenceId'', JString (yo_quoteReferenceId oper)),
      (''effectiveAt'', time (yo_effectiveAt oper))]"

definition transition_yield_fields :: "(string \<Rightarrow> jsval) \<Rightarrow> ValidatedTransitionYieldOperation \<Rightarrow> js_record" where
  "transition_yield_fields time t =
     [(''operationId'', JString (yt_operationId t)), (''expectedState'', JString (lifecycle_state_text (yt_expectedState t))),
      (''nextState'', JString (lifecycle_state_text (yt_nextState t))), (''reason'', JString (lifecycle_reason_text (yt_reason t))),
      (''effectiveAt'', time (yt_effectiveAt t)), (''ledgerJournalId'', nullable_text (yt_ledgerJournalId t))]"

definition createYieldOperationCommand :: "ValidatedCreateYieldOperation \<Rightarrow> jsval \<Rightarrow> jsval \<Rightarrow>
    CreateYieldOperationCommand yield_result" where
  "createYieldOperationCommand oper actorAccountId correlationId =
     normalizeCreateYieldOperationCommand (mk_object
       ((''actorAccountId'', actorAccountId) # (''correlationId'', correlationId) # create_yield_fields JString oper))"

definition createTransitionYieldOperationCommand :: "ValidatedTransitionYieldOperation \<Rightarrow> jsval \<Rightarrow> jsval \<Rightarrow>
    TransitionYieldOperationCommand yield_result" where
  "createTransitionYieldOperationCommand transition actorAccountId correlationId =
     normalizeTransitionYieldOperationCommand (mk_object
       ((''actorAccountId'', actorAccountId) # (''correlationId'', correlationId) # transition_yield_fields JString transition))"

end
