(* ===== verification/Yield_Service.thy ===== *)
theory Yield_Service
  imports Yield_Operation
begin

text \<open>
  The idempotency contexts of yield operations (\<^verbatim>\<open>yield-operation-idempotency.ts\<close>) and the service that builds a
  command and hands it to the repository (\<^verbatim>\<open>yield-operation.service.ts\<close>).
\<close>

subsection \<open>Idempotency contexts\<close>

datatype YieldOperationIdempotencyErrorCode =
  INVALID_YIELD_IDEMPOTENCY_KEY | INVALID_YIELD_IDEMPOTENCY_CONTEXT | YIELD_IDEMPOTENCY_CONFLICT

datatype yield_idempotency_error =
  YieldIdempotencyError YieldOperationIdempotencyErrorCode | YieldActorError LedgerValidationCode

datatype YieldOperationCommandKind = Kind_CREATE | Kind_TRANSITION

fun command_kind_text :: "YieldOperationCommandKind \<Rightarrow> string" where
  "command_kind_text Kind_CREATE = ''CREATE''"
| "command_kind_text Kind_TRANSITION = ''TRANSITION''"

definition YIELD_OPERATION_COMMAND_KINDS :: "YieldOperationCommandKind list" where
  "YIELD_OPERATION_COMMAND_KINDS = [Kind_CREATE, Kind_TRANSITION]"

definition YIELD_OPERATION_IDEMPOTENCY_CONTRACT_VERSION :: nat where
  "YIELD_OPERATION_IDEMPOTENCY_CONTRACT_VERSION = 1"

definition YIELD_OPERATION_FINGERPRINT_VERSION :: nat where
  "YIELD_OPERATION_FINGERPRINT_VERSION = 1"

definition MAX_YIELD_OPERATION_IDEMPOTENCY_KEY_BYTES :: nat where
  "MAX_YIELD_OPERATION_IDEMPOTENCY_KEY_BYTES = 128"

definition YIELD_KEY_DIGEST_DOMAIN :: string where
  "YIELD_KEY_DIGEST_DOMAIN = ''crypto-lending:yield-operation-idempotency-key:v1''"

definition YIELD_REQUEST_FINGERPRINT_DOMAIN :: string where
  "YIELD_REQUEST_FINGERPRINT_DOMAIN = ''crypto-lending:yield-operation-request:v1''"

record YieldOperationIdempotencyContext =
  yi_actorAccountId :: string
  yi_commandKind :: YieldOperationCommandKind
  yi_contractVersion :: nat
  yi_keyDigest :: string
  yi_fingerprintVersion :: nat
  yi_requestFingerprint :: string

type_synonym 'a yield_idempotency_result = "yield_idempotency_error + 'a"

definition yield_digest_bytes :: "string \<Rightarrow> string list \<Rightarrow> string" where
  "yield_digest_bytes domain texts =
     concat (map (\<lambda>field. let bytes = utf8 field in nat_text (length bytes) @ '':'' @ bytes) (domain # texts))"

definition yield_digest :: "(string \<Rightarrow> string) \<Rightarrow> string \<Rightarrow> string list \<Rightarrow> string" where
  "yield_digest sha256 domain texts = sha256 (yield_digest_bytes domain texts)"

definition digestYieldOperationIdempotencyKey :: "(string \<Rightarrow> string) \<Rightarrow> jsval \<Rightarrow> string yield_idempotency_result" where
  "digestYieldOperationIdempotencyKey sha256 v =
     (case v of
        JString s \<Rightarrow>
          (let bytes = length (utf8 s)
           in if bytes < 1 \<or> bytes > MAX_YIELD_OPERATION_IDEMPOTENCY_KEY_BYTES \<or> \<not> (s \<noteq> [] \<and> list_all printable s)
              then Inl (YieldIdempotencyError INVALID_YIELD_IDEMPOTENCY_KEY)
              else Inr (yield_digest sha256 YIELD_KEY_DIGEST_DOMAIN [s]))
      | _ \<Rightarrow> Inl (YieldIdempotencyError INVALID_YIELD_IDEMPOTENCY_KEY))"

definition yield_request_fields :: "string \<Rightarrow> YieldOperationCommandKind \<Rightarrow> string list \<Rightarrow> string list" where
  "yield_request_fields actor commandKind texts =
     [nat_text YIELD_OPERATION_FINGERPRINT_VERSION, nat_text YIELD_OPERATION_IDEMPOTENCY_CONTRACT_VERSION, actor,
      command_kind_text commandKind] @ texts"

definition createContext :: "(string \<Rightarrow> string) \<Rightarrow> jsval \<Rightarrow> jsval \<Rightarrow> YieldOperationCommandKind \<Rightarrow> string list \<Rightarrow>
    YieldOperationIdempotencyContext yield_idempotency_result" where
  "createContext sha256 rawKey actorAccountId commandKind texts =
     res_bind (lift_error YieldActorError (parseLedgerActorAccountId actorAccountId)) (\<lambda>actor.
     res_bind (digestYieldOperationIdempotencyKey sha256 rawKey) (\<lambda>keyDigest.
     Inr \<lparr>yi_actorAccountId = actor, yi_commandKind = commandKind,
          yi_contractVersion = YIELD_OPERATION_IDEMPOTENCY_CONTRACT_VERSION, yi_keyDigest = keyDigest,
          yi_fingerprintVersion = YIELD_OPERATION_FINGERPRINT_VERSION,
          yi_requestFingerprint =
            yield_digest sha256 YIELD_REQUEST_FINGERPRINT_DOMAIN (yield_request_fields actor commandKind texts)\<rparr>))"

definition create_fingerprint_fields :: "ValidatedCreateYieldOperation \<Rightarrow> string list" where
  "create_fingerprint_fields oper =
     [yo_operationId oper, yield_type_text (yo_operationType oper), yo_ledgerTransactionId oper, yo_planReferenceId oper,
      yo_quoteReferenceId oper, yo_effectiveAt oper]"

definition transition_fingerprint_fields :: "ValidatedTransitionYieldOperation \<Rightarrow> string list" where
  "transition_fingerprint_fields t =
     [yt_operationId t, lifecycle_state_text (yt_expectedState t), lifecycle_state_text (yt_nextState t),
      lifecycle_reason_text (yt_reason t), yt_effectiveAt t, (case yt_ledgerJournalId t of None \<Rightarrow> [] | Some j \<Rightarrow> j)]"

definition createYieldOperationIdempotencyContext :: "(string \<Rightarrow> string) \<Rightarrow> jsval \<Rightarrow> CreateYieldOperationCommand \<Rightarrow>
    YieldOperationIdempotencyContext yield_idempotency_result" where
  "createYieldOperationIdempotencyContext sha256 rawKey command =
     createContext sha256 rawKey (JString (yc_actorAccountId command)) Kind_CREATE (create_fingerprint_fields (yc_operation command))"

definition createYieldTransitionIdempotencyContext :: "(string \<Rightarrow> string) \<Rightarrow> jsval \<Rightarrow> TransitionYieldOperationCommand \<Rightarrow>
    YieldOperationIdempotencyContext yield_idempotency_result" where
  "createYieldTransitionIdempotencyContext sha256 rawKey command =
     createContext sha256 rawKey (JString (yx_actorAccountId command)) Kind_TRANSITION
       (transition_fingerprint_fields (yx_transition command))"

definition normalizeYieldOperationIdempotencyContext :: "jsval \<Rightarrow> YieldOperationIdempotencyContext yield_idempotency_result" where
  "normalizeYieldOperationIdempotencyContext v =
     rethrow (YieldIdempotencyError INVALID_YIELD_IDEMPOTENCY_CONTEXT)
      (res_bind (of_option () (exact_data_record
         [''actorAccountId'', ''commandKind'', ''contractVersion'', ''keyDigest'', ''fingerprintVersion'',
          ''requestFingerprint''] v)) (\<lambda>r.
       res_bind (of_option () (parse_enum command_kind_text YIELD_OPERATION_COMMAND_KINDS (js_get r ''commandKind''))) (\<lambda>kind.
       res_bind (require () (js_get r ''contractVersion'' = js_int (int YIELD_OPERATION_IDEMPOTENCY_CONTRACT_VERSION))) (\<lambda>_.
       res_bind (require () (js_get r ''fingerprintVersion'' = js_int (int YIELD_OPERATION_FINGERPRINT_VERSION))) (\<lambda>_.
       res_bind (of_option () (digest_text (js_get r ''keyDigest''))) (\<lambda>keyDigest.
       res_bind (of_option () (digest_text (js_get r ''requestFingerprint''))) (\<lambda>requestFingerprint.
       res_bind (rethrow () (parseLedgerActorAccountId (js_get r ''actorAccountId''))) (\<lambda>actor.
       Inr \<lparr>yi_actorAccountId = actor, yi_commandKind = kind,
            yi_contractVersion = YIELD_OPERATION_IDEMPOTENCY_CONTRACT_VERSION, yi_keyDigest = keyDigest,
            yi_fingerprintVersion = YIELD_OPERATION_FINGERPRINT_VERSION,
            yi_requestFingerprint = requestFingerprint\<rparr>))))))))"

subsection \<open>The service\<close>

datatype 'err yield_service_error =
    YieldInvalid yield_error
  | YieldIdempotencyInvalid yield_idempotency_error
  | YieldLoggingInvalid logging_error
  | YieldCommandContextRequired
  | YieldPortError 'err

text \<open>The repository's create runs in the logging context it is entered with.\<close>

record ('w, 'err, 'r) YieldPorts =
  yp_activeStore :: "'w \<Rightarrow> LogCorrelationContext option"
  yp_resolveActor :: "('w, 'err, jsval) action"
  yp_create :: "LogCorrelationContext \<Rightarrow> CreateYieldOperationCommand \<Rightarrow> YieldOperationIdempotencyContext \<Rightarrow> ('w, 'err, 'r) action"
  yp_transition :: "TransitionYieldOperationCommand \<Rightarrow> YieldOperationIdempotencyContext \<Rightarrow> ('w, 'err, 'r) action"

type_synonym ('w, 'err, 'a) yield_action = "('w, 'err yield_service_error, 'a) action"

definition resolveCommandContext :: "('w, 'err, 'r) YieldPorts \<Rightarrow> ('w, 'err, string \<times> string) yield_action" where
  "resolveCommandContext P w =
     act_rethrow YieldCommandContextRequired
      (act_bind (act_pure (rethrow () (current_context (yp_activeStore P w)))) (\<lambda>current.
       case current of
         None \<Rightarrow> act_throw ()
       | Some context \<Rightarrow>
           act_bind (act_rethrow () (yp_resolveActor P)) (\<lambda>resolvedActor.
           if js_falsy resolvedActor then act_throw ()
           else act_bind (act_pure (rethrow () (parseLedgerActorAccountId resolvedActor))) (\<lambda>actor.
           if context InitiatorActorId \<noteq> None \<and> context InitiatorActorId \<noteq> Some actor then act_throw ()
           else act_bind (act_pure (rethrow () (parseLedgerCorrelationId
                  (case context CorrelationId of None \<Rightarrow> JUndefined | Some c \<Rightarrow> JString c)))) (\<lambda>corr.
           act_return (actor, corr)))))) w"

definition yield_create :: "('w, 'err, 'r) YieldPorts \<Rightarrow> (string \<Rightarrow> string) \<Rightarrow> jsval \<Rightarrow> jsval \<Rightarrow> ('w, 'err, 'r) yield_action" where
  "yield_create P sha256 input idempotencyKey =
     act_bind (act_pure (lift_error YieldInvalid (normalizeCreateYieldOperationInput input))) (\<lambda>oper.
     act_bind (resolveCommandContext P) (\<lambda>(actor, corr).
     act_bind (act_pure (lift_error YieldInvalid
       (createYieldOperationCommand oper (JString actor) (JString corr)))) (\<lambda>command.
     act_bind (act_pure (lift_error YieldIdempotencyInvalid
       (createYieldOperationIdempotencyContext sha256 idempotencyKey command))) (\<lambda>idempotency. \<lambda>w.
     act_bind (act_pure (lift_error YieldLoggingInvalid (runWithStore
       (mk_object [(''transactionId'', JString (yo_ledgerTransactionId oper))]) (yp_activeStore P w)))) (\<lambda>store.
     act_lift YieldPortError (yp_create P store command idempotency)) w))))"

definition yield_transition :: "('w, 'err, 'r) YieldPorts \<Rightarrow> (string \<Rightarrow> string) \<Rightarrow> jsval \<Rightarrow> jsval \<Rightarrow> ('w, 'err, 'r) yield_action" where
  "yield_transition P sha256 input idempotencyKey =
     act_bind (act_pure (lift_error YieldInvalid (normalizeTransitionYieldOperationInput input))) (\<lambda>transition.
     act_bind (resolveCommandContext P) (\<lambda>(actor, corr).
     act_bind (act_pure (lift_error YieldInvalid
       (createTransitionYieldOperationCommand transition (JString actor) (JString corr)))) (\<lambda>command.
     act_bind (act_pure (lift_error YieldIdempotencyInvalid
       (createYieldTransitionIdempotencyContext sha256 idempotencyKey command))) (\<lambda>idempotency.
     act_lift YieldPortError (yp_transition P command idempotency)))))"

end
