(* ===== verification/Yield_Correct.thy ===== *)
theory Yield_Correct
  imports Yield_Service
begin

text \<open>
  A yield operation follows the lifecycle of its ledger transaction and carries a journal exactly where the
  ledger has one; its fingerprint identifies the command; the repository only sees validated commands.
\<close>

subsection \<open>Validated commands\<close>

interpretation yield_type: text_enum yield_type_text YIELD_OPERATION_TYPES
proof
  show "x \<in> set YIELD_OPERATION_TYPES" for x by (cases x) (simp_all add: YIELD_OPERATION_TYPES_def)
  show "yield_type_text x = yield_type_text y \<Longrightarrow> x = y" for x y by (cases x; cases y) simp_all
qed

definition valid_create :: "ValidatedCreateYieldOperation \<Rightarrow> bool" where
  "valid_create oper =
     (uuid_v4 (yo_operationId oper) \<and> uuid_v4 (yo_ledgerTransactionId oper) \<and> uuid_v4 (yo_planReferenceId oper) \<and>
      uuid_v4 (yo_quoteReferenceId oper) \<and> valid_instant (yo_effectiveAt oper))"

definition carries_journal :: "LedgerLifecycleState \<Rightarrow> bool" where
  "carries_journal s = (s = SETTLED \<or> s = REVERSED)"

definition valid_transition :: "ValidatedTransitionYieldOperation \<Rightarrow> bool" where
  "valid_transition t =
     (isAllowedLedgerLifecycleTransition (Some (yt_expectedState t)) (yt_nextState t) (yt_reason t) \<and>
      uuid_v4 (yt_operationId t) \<and> valid_instant (yt_effectiveAt t) \<and> valid_leg (yt_ledgerJournalId t) \<and>
      (yt_ledgerJournalId t \<noteq> None) = carries_journal (yt_nextState t))"

definition create_yield_object :: "ValidatedCreateYieldOperation \<Rightarrow> jsval" where
  "create_yield_object oper = mk_object (create_yield_fields timestamp_date oper)"

definition transition_yield_object :: "ValidatedTransitionYieldOperation \<Rightarrow> jsval" where
  "transition_yield_object t = mk_object (transition_yield_fields timestamp_date t)"

lemma yield_uuid_iff [res_simps]: "(yield_uuid v code = Inr s) = (v = JString s \<and> uuid_v4 s)"
  by (auto simp: yield_uuid_def split: jsval.splits)

lemmas yield_ids = parseYieldOperationId_def parseYieldPlanReferenceId_def parseYieldQuoteReferenceId_def

lemma canonicalDate_iff [res_simps]: "(canonicalDate v = Inr d) = (\<exists>t. v = mk_date t \<and> d = v)"
  by (cases v rule: canonicalDate.cases) (auto simp: mk_date_def)

lemma canonicalDate_instant: "valid_instant s \<Longrightarrow> canonicalDate (timestamp_date s) = Inr (timestamp_date s)"
  by (auto simp: valid_instant_def timestamp_date_to_iso mk_date_def)

lemma yield_timestampInput_instant: "valid_instant s \<Longrightarrow> yield_timestampInput (JString s) = Inr (timestamp_date s)"
  by (auto simp: valid_instant_def timestamp_date_def read_timestamp_to_iso)

lemma journal_reference_iff:
  "(parseJournalReference v s = Inr j) =
   (v = nullable_text j \<and> valid_leg j \<and> (j \<noteq> None) = carries_journal s)"
  by (cases j) (auto simp: parseJournalReference_def Let_def carries_journal_def nullable_text_def valid_leg_def res_simps
      parse_id_defs)

lemma yield_record_iff [res_simps]: "(yieldOwnDataRecord v keys = Inr r) = (exact_data_record keys v = Some r)"
  by (simp add: yieldOwnDataRecord_def res_simps)

lemma create_sound: "normalizeCreateYieldOperationInput v = Inr oper \<Longrightarrow> valid_create oper"
  by (auto simp: normalizeCreateYieldOperationInput_def res_simps yield_ids valid_create_def valid_lifecycle_transition_def
      dest!: lifecycle_input.sound)

lemma transition_sound: "normalizeTransitionYieldOperationInput v = Inr t \<Longrightarrow> valid_transition t"
  by (auto simp: normalizeTransitionYieldOperationInput_def res_simps yield_ids valid_transition_def
      valid_lifecycle_transition_def journal_reference_iff dest!: lifecycle_input.sound split: option.splits)

lemma create_complete:
  assumes "valid_create oper"
  shows "normalizeCreateYieldOperationInput (create_yield_object oper) = Inr oper"
proof -
  have r: "yieldOwnDataRecord (create_yield_object oper) create_yield_keys = Inr (create_yield_fields timestamp_date oper)"
    unfolding yield_record_iff create_yield_object_def
    by (rule exact_data_record_literal) (simp_all add: create_yield_fields_def)
  let ?t = "\<lparr>lt_transactionId = yo_ledgerTransactionId oper, lt_legId = None, lt_expectedState = None, lt_nextState = CREATED,
    lt_reason = INTENT_CREATED, lt_effectiveAt = yo_effectiveAt oper\<rparr>"
  have "isAllowedLedgerLifecycleTransition None CREATED INTENT_CREATED" by code_simp
  then have "valid_lifecycle_transition ?t"
    using assms by (simp add: valid_lifecycle_transition_def valid_create_def valid_leg_def)
  from lifecycle_input.complete [OF this]
  have "normalizeLedgerLifecycleTransitionInput (mk_object
       [(''transactionId'', JString (yo_ledgerTransactionId oper)), (''legId'', JNull), (''expectedState'', JNull),
        (''nextState'', JString ''CREATED''), (''reason'', JString ''INTENT_CREATED''),
        (''effectiveAt'', timestamp_date (yo_effectiveAt oper))]) = Inr ?t"
    by (simp add: lifecycle_input_object_def lifecycle_fields_def nullable_text_def)
  then show ?thesis
    unfolding normalizeCreateYieldOperationInput_def r
    using assms by (simp add: create_yield_fields_def js_get_Cons valid_create_def canonicalDate_instant yield_ids
        yield_uuid_def parseOperationType_def yield_type.parse_spell)
qed

lemma transition_complete:
  assumes "valid_transition t"
  shows "normalizeTransitionYieldOperationInput (transition_yield_object t) = Inr t"
proof -
  have r: "yieldOwnDataRecord (transition_yield_object t) transition_yield_keys = Inr (transition_yield_fields timestamp_date t)"
    unfolding yield_record_iff transition_yield_object_def
    by (rule exact_data_record_literal) (simp_all add: transition_yield_fields_def)
  let ?t = "\<lparr>lt_transactionId = ''00000000-0000-4000-8000-000000000000'', lt_legId = None,
    lt_expectedState = Some (yt_expectedState t), lt_nextState = yt_nextState t,
    lt_reason = yt_reason t, lt_effectiveAt = yt_effectiveAt t\<rparr>"
  have "uuid_v4 ''00000000-0000-4000-8000-000000000000''" by code_simp
  then have "valid_lifecycle_transition ?t"
    using assms by (simp add: valid_lifecycle_transition_def valid_transition_def valid_leg_def)
  from lifecycle_input.complete [OF this]
  have "normalizeLedgerLifecycleTransitionInput (mk_object
       [(''transactionId'', JString ''00000000-0000-4000-8000-000000000000''), (''legId'', JNull),
        (''expectedState'', JString (lifecycle_state_text (yt_expectedState t))),
        (''nextState'', JString (lifecycle_state_text (yt_nextState t))),
        (''reason'', JString (lifecycle_reason_text (yt_reason t))),
        (''effectiveAt'', timestamp_date (yt_effectiveAt t))]) = Inr ?t"
    by (simp add: lifecycle_input_object_def lifecycle_fields_def nullable_text_def)
  moreover have "parseJournalReference (nullable_text (yt_ledgerJournalId t)) (yt_nextState t) = Inr (yt_ledgerJournalId t)"
    using assms by (simp add: journal_reference_iff valid_transition_def)
  ultimately show ?thesis
    unfolding normalizeTransitionYieldOperationInput_def r
    using assms by (simp add: transition_yield_fields_def js_get_Cons valid_transition_def canonicalDate_instant yield_ids
        yield_uuid_def)
qed

interpretation yield_create_input: validator normalizeCreateYieldOperationInput create_yield_object valid_create
  by unfold_locales (simp_all add: create_sound create_complete)

interpretation yield_transition_input: validator normalizeTransitionYieldOperationInput transition_yield_object valid_transition
  by unfold_locales (simp_all add: transition_sound transition_complete)

lemma create_command:
  assumes "valid_create oper" "uuid_v4 actor" "uuid_v4 corr"
  shows "createYieldOperationCommand oper (JString actor) (JString corr) =
    Inr \<lparr>yc_actorAccountId = actor, yc_correlationId = corr, yc_operation = oper\<rparr>"
proof -
  let ?o = "mk_object ((''actorAccountId'', JString actor) # (''correlationId'', JString corr) # create_yield_fields JString oper)"
  have r: "yieldOwnDataRecord ?o (''actorAccountId'' # ''correlationId'' # create_yield_keys) =
      Inr ((''actorAccountId'', JString actor) # (''correlationId'', JString corr) # create_yield_fields JString oper)"
    unfolding yield_record_iff by (rule exact_data_record_literal) (simp_all add: create_yield_fields_def)
  have "normalizeCreateYieldOperationInput (mk_object (create_yield_fields timestamp_date oper)) = Inr oper"
    using create_complete [OF assms(1)] by (simp add: create_yield_object_def)
  moreover have "yield_timestampInput (JString (yo_effectiveAt oper)) = Inr (timestamp_date (yo_effectiveAt oper))"
    using assms(1) by (intro yield_timestampInput_instant) (simp add: valid_create_def)
  ultimately show ?thesis
    unfolding createYieldOperationCommand_def normalizeCreateYieldOperationCommand_def r
    using assms(2,3) by (simp add: create_yield_fields_def js_get_Cons parse_id_defs)
qed

lemma transition_command:
  assumes "valid_transition t" "uuid_v4 actor" "uuid_v4 corr"
  shows "createTransitionYieldOperationCommand t (JString actor) (JString corr) =
    Inr \<lparr>yx_actorAccountId = actor, yx_correlationId = corr, yx_transition = t\<rparr>"
proof -
  let ?o = "mk_object ((''actorAccountId'', JString actor) # (''correlationId'', JString corr) # transition_yield_fields JString t)"
  have r: "yieldOwnDataRecord ?o (''actorAccountId'' # ''correlationId'' # transition_yield_keys) =
      Inr ((''actorAccountId'', JString actor) # (''correlationId'', JString corr) # transition_yield_fields JString t)"
    unfolding yield_record_iff by (rule exact_data_record_literal) (simp_all add: transition_yield_fields_def)
  have "normalizeTransitionYieldOperationInput (mk_object (transition_yield_fields timestamp_date t)) = Inr t"
    using transition_complete [OF assms(1)] by (simp add: transition_yield_object_def)
  moreover have "yield_timestampInput (JString (yt_effectiveAt t)) = Inr (timestamp_date (yt_effectiveAt t))"
    using assms(1) by (intro yield_timestampInput_instant) (simp add: valid_transition_def)
  ultimately show ?thesis
    unfolding createTransitionYieldOperationCommand_def normalizeTransitionYieldOperationCommand_def r
    using assms(2,3) by (simp add: transition_yield_fields_def js_get_Cons parse_id_defs)
qed

subsection \<open>Fingerprints\<close>

lemma yield_bytes: "yield_digest_bytes d xs = digest_bytes d xs"
  by (simp add: yield_digest_bytes_def digest_bytes_def updateField_def [abs_def])

lemma yield_bytes_inject: "(yield_digest_bytes d xs = yield_digest_bytes d' ys) = (d = d' \<and> xs = ys)"
  by (simp only: yield_bytes digest_bytes_inject)

lemma create_fields_inject: "create_fingerprint_fields x = create_fingerprint_fields y \<Longrightarrow> x = y"
  by (cases x; cases y) (auto simp: create_fingerprint_fields_def dest: yield_type.spell_inj)

lemma journal_text_inject:
  "valid_leg i \<Longrightarrow> valid_leg j \<Longrightarrow> (case i of None \<Rightarrow> [] | Some s \<Rightarrow> s) = (case j of None \<Rightarrow> [] | Some s \<Rightarrow> s) \<Longrightarrow> i = j"
proof -
  have "\<not> uuid_v4 []" by code_simp
  then show "valid_leg i \<Longrightarrow> valid_leg j \<Longrightarrow> (case i of None \<Rightarrow> [] | Some s \<Rightarrow> s) = (case j of None \<Rightarrow> [] | Some s \<Rightarrow> s) \<Longrightarrow> i = j"
    by (auto simp: valid_leg_def split: option.splits)
qed

lemma transition_fields_inject:
  assumes "transition_fingerprint_fields x = transition_fingerprint_fields y" "valid_transition x" "valid_transition y"
  shows "x = y"
proof -
  have "yt_ledgerJournalId x = yt_ledgerJournalId y"
    using assms by (intro journal_text_inject) (auto simp: transition_fingerprint_fields_def valid_transition_def)
  then show ?thesis
    using assms(1) by (cases x; cases y)
      (auto simp: transition_fingerprint_fields_def dest: lifecycle_state.spell_inj lifecycle_reason.spell_inj)
qed

lemma request_fields_inject:
  "(yield_request_fields a k xs = yield_request_fields a' k' ys) = (a = a' \<and> k = k' \<and> xs = ys)"
  by (cases k; cases k') (auto simp: yield_request_fields_def)

lemma context_fingerprint:
  "createContext sha256 key (JString a) k xs = Inr c \<Longrightarrow>
   uuid_v4 a \<and> yi_actorAccountId c = a \<and> yi_commandKind c = k \<and>
   yi_requestFingerprint c = sha256 (yield_digest_bytes YIELD_REQUEST_FINGERPRINT_DOMAIN (yield_request_fields a k xs))"
  by (auto simp: createContext_def res_simps parse_id_defs yield_digest_def split: if_splits)

subsection \<open>The service\<close>

lemma resolveCommandContext_success:
  assumes "resolveCommandContext P w = (Inr (actor, corr), w')"
  shows "uuid_v4 actor \<and> uuid_v4 corr \<and> yp_resolveActor P w = (Inr (JString actor), w') \<and>
    (\<exists>m. yp_activeStore P w = Some m \<and> (m InitiatorActorId = None \<or> m InitiatorActorId = Some actor) \<and>
      m CorrelationId = Some corr)"
proof -
  obtain c where c: "current_context (yp_activeStore P w) = Inr c"
    using assms by (auto simp: resolveCommandContext_def act_Inr_iffs res_simps)
  with assms obtain m where m: "current_context (yp_activeStore P w) = Inr (Some m)"
    by (cases c) (auto simp: resolveCommandContext_def act_Inr_iffs act_throw_def)
  note store = current_context_same [OF m]
  show ?thesis
    using assms m store
    by (auto simp: resolveCommandContext_def act_Inr_iffs act_throw_def act_return_def res_simps parse_id_defs
        split: if_splits option.splits)
qed

lemma yield_transition_outcome:
  assumes "normalizeTransitionYieldOperationInput input = Inr t" "resolveCommandContext P w = (Inr (actor, corr), w1)"
    and "createYieldTransitionIdempotencyContext sha256 key
      \<lparr>yx_actorAccountId = actor, yx_correlationId = corr, yx_transition = t\<rparr> = Inr ctx"
  shows "yield_transition P sha256 input key w =
    act_lift YieldPortError (yp_transition P \<lparr>yx_actorAccountId = actor, yx_correlationId = corr, yx_transition = t\<rparr> ctx) w1"
  using transition_command [OF transition_sound [OF assms(1)], of actor corr] resolveCommandContext_success [OF assms(2)] assms
  by (simp add: yield_transition_def act_bind_def [of "resolveCommandContext P"])

lemma yield_create_outcome:
  assumes "normalizeCreateYieldOperationInput input = Inr oper" "resolveCommandContext P w = (Inr (actor, corr), w1)"
    and "createYieldOperationIdempotencyContext sha256 key
      \<lparr>yc_actorAccountId = actor, yc_correlationId = corr, yc_operation = oper\<rparr> = Inr ctx"
    and "runWithStore (mk_object [(''transactionId'', JString (yo_ledgerTransactionId oper))]) (yp_activeStore P w1) = Inr store"
  shows "yield_create P sha256 input key w =
    act_lift YieldPortError (yp_create P store \<lparr>yc_actorAccountId = actor, yc_correlationId = corr, yc_operation = oper\<rparr> ctx) w1"
  using create_command [OF create_sound [OF assms(1)], of actor corr] resolveCommandContext_success [OF assms(2)] assms
  by (simp add: yield_create_def act_bind_def [of "resolveCommandContext P"])

lemma yield_transition_success:
  "(yield_transition P sha256 input key w = (Inr r, w')) =
     (\<exists>t actor corr w1 command ctx.
        normalizeTransitionYieldOperationInput input = Inr t \<and> resolveCommandContext P w = (Inr (actor, corr), w1) \<and>
        createTransitionYieldOperationCommand t (JString actor) (JString corr) = Inr command \<and>
        createYieldTransitionIdempotencyContext sha256 key command = Inr ctx \<and> yp_transition P command ctx w1 = (Inr r, w'))"
  unfolding yield_transition_def act_Inr_iffs lift_error_eq_Inr split_paired_Ex prod.case
  by (rule iffI; elim exE conjE; hypsubst?; intro exI conjI; (assumption | rule refl))

lemma yield_create_success:
  "(yield_create P sha256 input key w = (Inr r, w')) =
     (\<exists>oper actor corr w1 command ctx store.
        normalizeCreateYieldOperationInput input = Inr oper \<and> resolveCommandContext P w = (Inr (actor, corr), w1) \<and>
        createYieldOperationCommand oper (JString actor) (JString corr) = Inr command \<and>
        createYieldOperationIdempotencyContext sha256 key command = Inr ctx \<and>
        runWithStore (mk_object [(''transactionId'', JString (yo_ledgerTransactionId oper))]) (yp_activeStore P w1) = Inr store \<and>
        yp_create P store command ctx w1 = (Inr r, w'))"
  unfolding yield_create_def act_Inr_iffs lift_error_eq_Inr split_paired_Ex prod.case
  by (rule iffI; elim exE conjE; hypsubst?; intro exI conjI; (assumption | rule refl))

lemma yield_create_iff:
  "(yield_create P sha256 input key w = (Inr r, w')) =
    (\<exists>oper actor corr w1 ctx store. normalizeCreateYieldOperationInput input = Inr oper \<and> valid_create oper \<and>
       resolveCommandContext P w = (Inr (actor, corr), w1) \<and> uuid_v4 actor \<and> uuid_v4 corr \<and>
       createYieldOperationIdempotencyContext sha256 key \<lparr>yc_actorAccountId = actor, yc_correlationId = corr, yc_operation = oper\<rparr> = Inr ctx \<and>
       runWithStore (mk_object [(''transactionId'', JString (yo_ledgerTransactionId oper))]) (yp_activeStore P w1) = Inr store \<and>
       yp_create P store \<lparr>yc_actorAccountId = actor, yc_correlationId = corr, yc_operation = oper\<rparr> ctx w1 = (Inr r, w'))"
  (is "?call = ?submitted")
proof
  assume ?call
  then obtain oper actor corr w1 command ctx store where c:
      "normalizeCreateYieldOperationInput input = Inr oper" "resolveCommandContext P w = (Inr (actor, corr), w1)"
      "createYieldOperationCommand oper (JString actor) (JString corr) = Inr command"
      "createYieldOperationIdempotencyContext sha256 key command = Inr ctx"
      "runWithStore (mk_object [(''transactionId'', JString (yo_ledgerTransactionId oper))]) (yp_activeStore P w1) = Inr store"
      "yp_create P store command ctx w1 = (Inr r, w')"
    unfolding yield_create_success by blast
  have ids: "uuid_v4 actor" "uuid_v4 corr" using resolveCommandContext_success [OF c(2)] by blast+
  note v = create_sound [OF c(1)]
  have "command = \<lparr>yc_actorAccountId = actor, yc_correlationId = corr, yc_operation = oper\<rparr>"
    using c(3) create_command [OF v ids] by simp
  then show ?submitted using c v ids by blast
next
  assume ?submitted
  then obtain oper actor corr w1 ctx store where c:
      "normalizeCreateYieldOperationInput input = Inr oper" "resolveCommandContext P w = (Inr (actor, corr), w1)"
      "createYieldOperationIdempotencyContext sha256 key \<lparr>yc_actorAccountId = actor, yc_correlationId = corr, yc_operation = oper\<rparr> = Inr ctx"
      "runWithStore (mk_object [(''transactionId'', JString (yo_ledgerTransactionId oper))]) (yp_activeStore P w1) = Inr store"
      "yp_create P store \<lparr>yc_actorAccountId = actor, yc_correlationId = corr, yc_operation = oper\<rparr> ctx w1 = (Inr r, w')"
    by blast
  show ?call unfolding yield_create_outcome [OF c(1-4)] act_Inr_iffs by (rule c(5))
qed

lemma yield_transition_iff:
  "(yield_transition P sha256 input key w = (Inr r, w')) =
    (\<exists>t actor corr w1 ctx. normalizeTransitionYieldOperationInput input = Inr t \<and> valid_transition t \<and>
       resolveCommandContext P w = (Inr (actor, corr), w1) \<and> uuid_v4 actor \<and> uuid_v4 corr \<and>
       createYieldTransitionIdempotencyContext sha256 key \<lparr>yx_actorAccountId = actor, yx_correlationId = corr, yx_transition = t\<rparr> = Inr ctx \<and>
       yp_transition P \<lparr>yx_actorAccountId = actor, yx_correlationId = corr, yx_transition = t\<rparr> ctx w1 = (Inr r, w'))"
  (is "?call = ?submitted")
proof
  assume ?call
  then obtain t actor corr w1 command ctx where c:
      "normalizeTransitionYieldOperationInput input = Inr t" "resolveCommandContext P w = (Inr (actor, corr), w1)"
      "createTransitionYieldOperationCommand t (JString actor) (JString corr) = Inr command"
      "createYieldTransitionIdempotencyContext sha256 key command = Inr ctx" "yp_transition P command ctx w1 = (Inr r, w')"
    unfolding yield_transition_success by blast
  have ids: "uuid_v4 actor" "uuid_v4 corr" using resolveCommandContext_success [OF c(2)] by blast+
  note v = transition_sound [OF c(1)]
  have "command = \<lparr>yx_actorAccountId = actor, yx_correlationId = corr, yx_transition = t\<rparr>"
    using c(3) transition_command [OF v ids] by simp
  then show ?submitted using c v ids by blast
next
  assume ?submitted
  then obtain t actor corr w1 ctx where c:
      "normalizeTransitionYieldOperationInput input = Inr t" "resolveCommandContext P w = (Inr (actor, corr), w1)"
      "createYieldTransitionIdempotencyContext sha256 key \<lparr>yx_actorAccountId = actor, yx_correlationId = corr, yx_transition = t\<rparr> = Inr ctx"
      "yp_transition P \<lparr>yx_actorAccountId = actor, yx_correlationId = corr, yx_transition = t\<rparr> ctx w1 = (Inr r, w')"
    by blast
  show ?call unfolding yield_transition_outcome [OF c(1-3)] act_Inr_iffs by (rule c(4))
qed

end
