(* ===== verification/Postgres_Service.thy ===== *)
theory Postgres_Service
  imports Js_Action Js_Value
begin

text \<open>
  The transactions of \<^verbatim>\<open>infrastructure/database/postgres.service.ts\<close>. The connection pool and its clients (the
  \<^verbatim>\<open>pg\<close> package) are an argument. The state is the client in the asynchronous context, if one is there, and the
  world: \<^verbatim>\<open>transactionContext.run\<close> sets the client for the work it runs and for nothing after it.

  An error is \<open>Some\<close> error of the driver or of a port, or \<open>None\<close>, an error the program raises itself; those have no
  code that asks for a retry. Statements of other components are values of a type of their own; the statements
  of this service are the texts it sends.

  Shown: a transaction that succeeds has run its work once between a BEGIN and a COMMIT of one client, after
  attempts that were all rolled back, and one that fails has committed nothing.
\<close>

subsection \<open>The driver\<close>

datatype 'q PostgresStatement = Control string | Statement 'q "jsval list"

record ('w, 'c, 'q, 'err) PostgresPool =
  pp_connect :: "('w, 'err, 'c) action"
  pp_release :: "'c \<Rightarrow> ('w, 'err, unit) action"
  pp_clientQuery :: "'c \<Rightarrow> 'q PostgresStatement \<Rightarrow> ('w, 'err, jsval list) action"
  pp_query :: "'q PostgresStatement \<Rightarrow> ('w, 'err, jsval list) action"
  pp_sleep :: "int \<Rightarrow> 'w \<Rightarrow> 'w"
  pp_code :: "'err \<Rightarrow> string option"

type_synonym ('c, 'w) postgres_state = "'c option \<times> 'w"

subsection \<open>Options\<close>

datatype TransactionIsolationLevel = ReadCommitted | RepeatableRead | Serializable

fun ISOLATION_SQL :: "TransactionIsolationLevel \<Rightarrow> string" where
  "ISOLATION_SQL ReadCommitted = ''READ COMMITTED''"
| "ISOLATION_SQL RepeatableRead = ''REPEATABLE READ''"
| "ISOLATION_SQL Serializable = ''SERIALIZABLE''"

record TransactionOptions =
  to_isolationLevel :: "TransactionIsolationLevel option"
  to_readOnly :: bool
  to_maxRetries :: "jsnum option"
  to_retryDelayMs :: "int option"

definition no_options :: TransactionOptions where
  "no_options = \<lparr>to_isolationLevel = None, to_readOnly = False, to_maxRetries = None, to_retryDelayMs = None\<rparr>"

definition RETRYABLE_TRANSACTION_CODES :: "string list" where
  "RETRYABLE_TRANSACTION_CODES = [''40001'', ''40P01'']"

definition beginStatement :: "TransactionOptions \<Rightarrow> string" where
  "beginStatement options =
     ''BEGIN ISOLATION LEVEL '' @
     ISOLATION_SQL (case to_isolationLevel options of None \<Rightarrow> ReadCommitted | Some level \<Rightarrow> level) @ '' '' @
     (if to_readOnly options then ''READ ONLY'' else ''READ WRITE'')"

text \<open>The number of retries; \<open>None\<close> when it is no non-negative integer.\<close>

definition transaction_retries :: "TransactionOptions \<Rightarrow> nat option" where
  "transaction_retries options =
     (case to_maxRetries options of
        None \<Rightarrow> Some 0
      | Some (NumInt n) \<Rightarrow> if n < 0 then None else Some (nat n)
      | Some _ \<Rightarrow> None)"

definition retry_delay :: "TransactionOptions \<Rightarrow> nat \<Rightarrow> int" where
  "retry_delay options attempt =
     min ((case to_retryDelayMs options of None \<Rightarrow> 25 | Some delay \<Rightarrow> delay) * 2 ^ attempt) 1000"

definition retryable :: "('w, 'c, 'q, 'err) PostgresPool \<Rightarrow> 'err option \<Rightarrow> bool" where
  "retryable P failure =
     (case Option.bind failure (pp_code P) of None \<Rightarrow> False | Some code_text \<Rightarrow> code_text \<in> set RETRYABLE_TRANSACTION_CODES)"

subsection \<open>The service\<close>

definition hasActiveTransaction :: "('c, 'w) postgres_state \<Rightarrow> bool" where
  "hasActiveTransaction s = (fst s \<noteq> None)"

definition postgres_query :: "('w, 'c, 'q, 'err) PostgresPool \<Rightarrow> 'q \<Rightarrow> jsval list \<Rightarrow> (('c, 'w) postgres_state, 'err, jsval list) action" where
  "postgres_query P statement vals s =
     (case (case fst s of Some client \<Rightarrow> pp_clientQuery P client | None \<Rightarrow> pp_query P) (Statement statement vals) (snd s) of
        (r, w) \<Rightarrow> (r, (fst s, w)))"

text \<open>The body of the inner \<^verbatim>\<open>try\<close>: the work with the client in its context, then COMMIT.\<close>

definition attemptWork :: "('w, 'c, 'q, 'err) PostgresPool \<Rightarrow> 'c \<Rightarrow> ('c \<Rightarrow> (('c, 'w) postgres_state, 'err option, 'a) action) \<Rightarrow>
    ('w, 'err option, 'a) action" where
  "attemptWork P client work w =
     (case work client (Some client, w) of
        (Inl e, (_, w1)) \<Rightarrow> (Inl e, w1)
      | (Inr result, (_, w1)) \<Rightarrow>
          (case pp_clientQuery P client (Control ''COMMIT'') w1 of
             (Inl e, w2) \<Rightarrow> (Inl (Some e), w2)
           | (Inr _, w2) \<Rightarrow> (Inr result, w2)))"

text \<open>The loop over the attempts, \<open>left\<close> of which may still be retried.\<close>

fun runAttempts :: "('w, 'c, 'q, 'err) PostgresPool \<Rightarrow> 'c \<Rightarrow> ('c \<Rightarrow> (('c, 'w) postgres_state, 'err option, 'a) action) \<Rightarrow>
    TransactionOptions \<Rightarrow> nat \<Rightarrow> nat \<Rightarrow> ('w, 'err option, 'a) action" where
  "runAttempts P client work options attempt left w =
     (case pp_clientQuery P client (Control (beginStatement options)) w of
        (Inl e, w1) \<Rightarrow> (Inl (Some e), w1)
      | (Inr _, w1) \<Rightarrow>
          (case attemptWork P client work w1 of
             (Inr result, w2) \<Rightarrow> (Inr result, w2)
           | (Inl e, w2) \<Rightarrow>
               (case pp_clientQuery P client (Control ''ROLLBACK'') w2 of
                  (Inl e', w3) \<Rightarrow> (Inl (Some e'), w3)
                | (Inr _, w3) \<Rightarrow>
                    if \<not> retryable P e then (Inl e, w3)
                    else (case left of
                            0 \<Rightarrow> (Inl e, w3)
                          | Suc left' \<Rightarrow>
                              runAttempts P client work options (Suc attempt) left' (pp_sleep P (retry_delay options attempt) w3)))))"

declare runAttempts.simps [simp del]

text \<open>\<^verbatim>\<open>finally { client.release() }\<close>: an error of the release takes the place of the outcome.\<close>

definition releasing :: "('w, 'c, 'q, 'err) PostgresPool \<Rightarrow> 'c \<Rightarrow> ('err option + 'a) \<times> 'w \<Rightarrow> ('err option + 'a) \<times> ('c, 'w) postgres_state" where
  "releasing P client outcome =
     (case pp_release P client (snd outcome) of
        (Inl e, w) \<Rightarrow> (Inl (Some e), (None, w))
      | (Inr _, w) \<Rightarrow> (fst outcome, (None, w)))"

definition withTransaction :: "('w, 'c, 'q, 'err) PostgresPool \<Rightarrow> ('c \<Rightarrow> (('c, 'w) postgres_state, 'err option, 'a) action) \<Rightarrow>
    TransactionOptions \<Rightarrow> (('c, 'w) postgres_state, 'err option, 'a) action" where
  "withTransaction P work options s =
     (case s of
        (Some activeClient, w) \<Rightarrow> work activeClient (Some activeClient, w)
      | (None, w) \<Rightarrow>
          (case pp_connect P w of
             (Inl e, w1) \<Rightarrow> (Inl (Some e), (None, w1))
           | (Inr client, w1) \<Rightarrow>
               releasing P client
                 (case transaction_retries options of
                    None \<Rightarrow> (Inl None, w1)
                  | Some maxRetries \<Rightarrow> runAttempts P client work options 0 maxRetries w1)))"

subsection \<open>What the database promises\<close>

text \<open>
  \<open>begun client w\<close> says that the client has a transaction open, \<open>durable w\<close> is what has been committed. Statements of
  an open transaction change nothing durable, whether they succeed or fail, and neither do BEGIN, ROLLBACK and
  a COMMIT that is refused; taking and releasing a client and waiting touch no data, and a client that was taken
  can be released. A COMMIT whose answer is lost with the connection is outside this description.
\<close>

definition transactional :: "('w, 'c, 'q, 'err) PostgresPool \<Rightarrow> ('c \<Rightarrow> 'w \<Rightarrow> bool) \<Rightarrow> ('w \<Rightarrow> 'd) \<Rightarrow> bool" where
  "transactional P begun durable =
     ((\<forall>w. durable (snd (pp_connect P w)) = durable w) \<and>
      (\<forall>client w. fst (pp_release P client w) = Inr () \<and> durable (snd (pp_release P client w)) = durable w) \<and>
      (\<forall>delay w. durable (pp_sleep P delay w) = durable w) \<and>
      (\<forall>client options w. durable (snd (pp_clientQuery P client (Control (beginStatement options)) w)) = durable w \<and>
         (\<forall>rows w1. pp_clientQuery P client (Control (beginStatement options)) w = (Inr rows, w1) \<longrightarrow> begun client w1)) \<and>
      (\<forall>client w. durable (snd (pp_clientQuery P client (Control ''ROLLBACK'') w)) = durable w) \<and>
      (\<forall>client w e w1. pp_clientQuery P client (Control ''COMMIT'') w = (Inl e, w1) \<longrightarrow> durable w1 = durable w) \<and>
      (\<forall>client statement vals w. begun client w \<longrightarrow>
         durable (snd (pp_clientQuery P client (Statement statement vals) w)) = durable w \<and>
         begun client (snd (pp_clientQuery P client (Statement statement vals) w))))"

text \<open>Work that stays inside the transaction it is given.\<close>

definition contained :: "('c \<Rightarrow> 'w \<Rightarrow> bool) \<Rightarrow> ('w \<Rightarrow> 'd) \<Rightarrow> ('c \<Rightarrow> (('c, 'w) postgres_state, 'e, 'a) action) \<Rightarrow> bool" where
  "contained begun durable work =
     (\<forall>client w. begun client w \<longrightarrow> durable (snd (snd (work client (Some client, w)))) = durable w)"

lemma transactionalD:
  assumes "transactional P begun durable"
  shows "pp_connect P w = (a, w') \<Longrightarrow> durable w' = durable w"
    "pp_release P client w = (b, w') \<Longrightarrow> b = Inr () \<and> durable w' = durable w"
    "durable (pp_sleep P delay w) = durable w"
    "pp_clientQuery P client (Control (beginStatement options)) w = (c, w') \<Longrightarrow> durable w' = durable w"
    "pp_clientQuery P client (Control (beginStatement options)) w = (Inr x, w') \<Longrightarrow> begun client w'"
    "pp_clientQuery P client (Control ''ROLLBACK'') w = (c, w') \<Longrightarrow> durable w' = durable w"
    "pp_clientQuery P client (Control ''COMMIT'') w = (Inl e, w') \<Longrightarrow> durable w' = durable w"
    "pp_clientQuery P client (Statement statement vals) w = (c, w') \<Longrightarrow> begun client w \<Longrightarrow> durable w' = durable w \<and> begun client w'"
proof -
  note t = assms [unfolded transactional_def]
  show "pp_connect P w = (a, w') \<Longrightarrow> durable w' = durable w" using conjunct1 [OF t, THEN spec, of w] by simp
  show "pp_release P client w = (b, w') \<Longrightarrow> b = Inr () \<and> durable w' = durable w" using t by (metis fst_conv snd_conv)
  show "durable (pp_sleep P delay w) = durable w" using t by blast
  show "pp_clientQuery P client (Control (beginStatement options)) w = (c, w') \<Longrightarrow> durable w' = durable w" using t by (metis snd_conv)
  show "pp_clientQuery P client (Control (beginStatement options)) w = (Inr x, w') \<Longrightarrow> begun client w'" using t by blast
  show "pp_clientQuery P client (Control ''ROLLBACK'') w = (c, w') \<Longrightarrow> durable w' = durable w" using t by (metis snd_conv)
  show "pp_clientQuery P client (Control ''COMMIT'') w = (Inl e, w') \<Longrightarrow> durable w' = durable w" using t by blast
  show "pp_clientQuery P client (Statement statement vals) w = (c, w') \<Longrightarrow> begun client w \<Longrightarrow> durable w' = durable w \<and> begun client w'"
    using t by (metis snd_conv)
qed

text \<open>One attempt that succeeds, and the failing ones before it.\<close>

definition committed_by :: "('w, 'c, 'q, 'err) PostgresPool \<Rightarrow> 'c \<Rightarrow> ('c \<Rightarrow> (('c, 'w) postgres_state, 'err option, 'a) action) \<Rightarrow>
    'w \<Rightarrow> 'a \<Rightarrow> 'w \<Rightarrow> 'w \<Rightarrow> bool" where
  "committed_by P client work w1 result w2 w3 =
     ((\<exists>store. work client (Some client, w1) = (Inr result, (store, w2))) \<and>
      (\<exists>rows. pp_clientQuery P client (Control ''COMMIT'') w2 = (Inr rows, w3)))"

lemma attemptWork_Inr:
  "attemptWork P client work w1 = (Inr result, w3) \<Longrightarrow> \<exists>w2. committed_by P client work w1 result w2 w3"
  by (auto simp: attemptWork_def committed_by_def split: prod.splits sum.splits)

lemma attemptWork_Inl:
  assumes "attemptWork P client work w1 = (Inl e, w3)" "begun client w1" "transactional P begun durable" "contained begun durable work"
  shows "durable w3 = durable w1"
proof -
  have inside: "durable w2 = durable w1" if "work client (Some client, w1) = (r, (store, w2))" for r store w2
    using assms(2,4) that unfolding contained_def by (metis snd_conv)
  from assms(1) show ?thesis
    by (auto simp: attemptWork_def dest!: inside transactionalD(7) [OF assms(3)] split: prod.splits sum.splits)
qed

lemma attempt_step:
  assumes "transactional P begun durable" "contained begun durable work"
    and "runAttempts P client work options attempt left w = (r, w')"
  obtains (failed) e where "r = Inl e" "durable w' = durable w"
  | (committed) result w1 w2 where "r = Inr result" "durable w1 = durable w" "begun client w1" "committed_by P client work w1 result w2 w'"
  | (again) left' w1 where "left = Suc left'" "durable w1 = durable w"
      "runAttempts P client work options (Suc attempt) left' w1 = (r, w')"
proof -
  obtain a w1 where start: "pp_clientQuery P client (Control (beginStatement options)) w = (a, w1)" by fastforce
  note opened = transactionalD(4) [OF assms(1) start]
  show ?thesis
  proof (cases a)
    case (Inl e)
    then show ?thesis using assms(3) start opened by (intro failed) (auto simp: runAttempts.simps [of P client work options attempt])
  next
    case (Inr x)
    have begun: "begun client w1" using transactionalD(5) [OF assms(1)] start Inr by blast
    obtain b w2 where b: "attemptWork P client work w1 = (b, w2)" by fastforce
    note run = assms(3) [unfolded runAttempts.simps [of P client work options attempt] start Inr prod.case sum.case b]
    show ?thesis
    proof (cases b)
      case result: (Inr result)
      then have r: "r = Inr result" "w' = w2" using run by simp_all
      obtain w3 where "committed_by P client work w1 result w3 w'" using attemptWork_Inr [OF b [unfolded result]] r(2) by blast
      then show ?thesis by (rule committed [OF r(1) opened begun])
    next
      case e: (Inl e)
      note kept = attemptWork_Inl [OF b [unfolded e] begun assms(1,2)]
      obtain c w3 where c: "pp_clientQuery P client (Control ''ROLLBACK'') w2 = (c, w3)" by fastforce
      note undone = transactionalD(6) [OF assms(1) c]
      note run = run [unfolded e sum.case c prod.case]
      show ?thesis
      proof (cases "\<exists>y left'. c = Inr y \<and> retryable P e \<and> left = Suc left'")
        case True
        then obtain y left' where "c = Inr y" "retryable P e" "left = Suc left'" by blast
        then show ?thesis
          using run opened kept undone transactionalD(3) [OF assms(1)]
          by (intro again [of left' "pp_sleep P (retry_delay options attempt) w3"]) simp_all
      next
        case False
        then have "\<exists>e'. r = Inl e'" "w' = w3" using run by (auto split: sum.splits if_splits nat.splits)
        then show ?thesis using opened kept undone by (elim exE) (rule failed; simp)
      qed
    qed
  qed
qed

lemma attempts_outcome:
  assumes "transactional P begun durable" "contained begun durable work"
  shows "runAttempts P client work options attempt left w = (r, w') \<Longrightarrow>
    (case r of
       Inl e \<Rightarrow> durable w' = durable w
     | Inr result \<Rightarrow> \<exists>w1 w2. durable w1 = durable w \<and> begun client w1 \<and> committed_by P client work w1 result w2 w')"
proof (induction left arbitrary: attempt w)
  case (0 attempt w)
  show ?case by (rule attempt_step [OF assms 0]) (simp, simp only: sum.case, blast, simp)
next
  case (Suc left attempt w)
  show ?case
  proof (rule attempt_step [OF assms Suc.prems])
    fix left' w1 assume "Suc left = Suc left'" "durable w1 = durable w"
      "runAttempts P client work options (Suc attempt) left' w1 = (r, w')"
    then show ?thesis using Suc.IH [of "Suc attempt" w1] by (cases r) simp_all
  qed (simp, simp only: sum.case, blast)
qed

text \<open>A transaction without an outer one.\<close>

lemma transaction_outcome:
  assumes "transactional P begun durable" "contained begun durable work" "withTransaction P work options (None, w) = (r, s)"
  shows "case r of
      Inl e \<Rightarrow> durable (snd s) = durable w
    | Inr result \<Rightarrow> \<exists>client w1 w2 w3. durable w1 = durable w \<and> begun client w1 \<and>
        committed_by P client work w1 result w2 w3 \<and> durable (snd s) = durable w3"
proof -
  obtain a w0 where connect: "pp_connect P w = (a, w0)" by fastforce
  note taken = transactionalD(1) [OF assms(1) connect]
  show ?thesis
  proof (cases a)
    case (Inl e)
    then show ?thesis using assms(3) connect taken by (auto simp: withTransaction_def)
  next
    case (Inr client)
    obtain b w1 where b: "(case transaction_retries options of
        None \<Rightarrow> (Inl None, w0) | Some maxRetries \<Rightarrow> runAttempts P client work options 0 maxRetries w0) = (b, w1)" by fastforce
    obtain c w2 where c: "pp_release P client w1 = (c, w2)" by fastforce
    note released = transactionalD(2) [OF assms(1) c]
    have r: "r = b" "s = (None, w2)"
      using assms(3) connect Inr b c released by (simp_all add: withTransaction_def releasing_def)
    show ?thesis
    proof (cases "transaction_retries options")
      case None
      then show ?thesis using r b taken released by auto
    next
      case (Some n)
      then have "runAttempts P client work options 0 n w0 = (b, w1)" using b by simp
      from attempts_outcome [OF assms(1,2) this] show ?thesis
        using r taken released by (cases b) auto
    qed
  qed
qed

text \<open>Inside a transaction the work joins it.\<close>

lemma nested_transaction: "withTransaction P work options (Some client, w) = work client (Some client, w)"
  by (simp add: withTransaction_def)

end
