(* ===== verification/Yield_Repository.thy ===== *)
theory Yield_Repository
  imports Yield_Correct Postgres_Service
begin

text \<open>
  The repository of yield operations, \<^verbatim>\<open>yield-operations/infrastructure/postgres-yield-operation.repository.ts\<close>:
  what it asks the database, how it checks the row that comes back, and the submission job it enqueues in the
  same transaction. The database calls and the job publisher are the fields of \<open>YieldDatabase\<close>;
  \<open>postgres_database\<close> fills them with the database service over a pool and the publisher's statement.

  Inside the repository an error is \<open>Some\<close> error of a port or \<open>None\<close>, an error the program itself raises;
  \<open>persistenceError\<close> tells them apart by the code of a database error only.
\<close>

subsection \<open>Results\<close>

datatype yield_persistence_error = Yield_IDEMPOTENCY_CONFLICT | Yield_ILLEGAL_TRANSITION | YIELD_OPERATION_PERSISTENCE_FAILED

definition IDEMPOTENCY_CONFLICT_SQL_STATE :: string where
  "IDEMPOTENCY_CONFLICT_SQL_STATE = ''Y8601''"

definition ILLEGAL_LIFECYCLE_SQL_STATE :: string where
  "ILLEGAL_LIFECYCLE_SQL_STATE = ''L4201''"

record YieldOperationRecord =
  yr_operationId :: string
  yr_operationType :: YieldOperationType
  yr_state :: LedgerLifecycleState
  yr_ledgerTransactionId :: string
  yr_planReferenceId :: string
  yr_quoteReferenceId :: string
  yr_recordedAt :: string

record YieldOperationTransitionRecord =
  ye_eventId :: string
  ye_operationId :: string
  ye_actorAccountId :: string
  ye_previousState :: "LedgerLifecycleState option"
  ye_nextState :: LedgerLifecycleState
  ye_reason :: LedgerLifecycleReasonCode
  ye_effectiveAt :: string
  ye_recordedAt :: string
  ye_correlationId :: string
  ye_ledgerTransactionId :: string
  ye_ledgerJournalId :: "string option"

record YieldOperationCommandResult =
  ys_operation :: YieldOperationRecord
  ys_transition :: YieldOperationTransitionRecord
  ys_submissionId :: "string option"
  ys_replayed :: bool

text \<open>\<^verbatim>\<open>postgresErrorCode\<close> is a parameter here: the text an error of a port has as its own \<^verbatim>\<open>code\<close>.\<close>

definition persistenceError :: "('err \<Rightarrow> string option) \<Rightarrow> 'err option \<Rightarrow> yield_persistence_error" where
  "persistenceError code_of failure =
     (case Option.bind failure code_of of
        None \<Rightarrow> YIELD_OPERATION_PERSISTENCE_FAILED
      | Some code_text \<Rightarrow>
          if code_text = IDEMPOTENCY_CONFLICT_SQL_STATE then Yield_IDEMPOTENCY_CONFLICT
          else if code_text = ILLEGAL_LIFECYCLE_SQL_STATE then Yield_ILLEGAL_TRANSITION
          else YIELD_OPERATION_PERSISTENCE_FAILED)"

fun finiteTimestamp :: "jsval \<Rightarrow> string option" where
  "finiteTimestamp (JDate ProtoDate (Some milliseconds)) = (if valid_time milliseconds then Some (to_iso milliseconds) else None)"
| "finiteTimestamp _ = None"

definition yield_row_keys :: "string list" where
  "yield_row_keys =
     [''command_id'', ''operation_id'', ''operation_type'', ''current_state'', ''ledger_transaction_id'', ''plan_reference_id'',
      ''quote_reference_id'', ''operation_recorded_at'', ''transition_event_id'', ''actor_account_id'', ''previous_state'',
      ''next_state'', ''reason_code'', ''effective_at'', ''transition_recorded_at'', ''correlation_id'', ''ledger_journal_id'',
      ''submission_id'', ''outcome'']"

definition nullable_string :: "jsval \<Rightarrow> bool" where
  "nullable_string v = (v = JNull \<or> (\<exists>s. v = JString s))"

lemma nullable_string_code [code]:
  "nullable_string v = (case v of JNull \<Rightarrow> True | JString s \<Rightarrow> True | _ \<Rightarrow> False)"
  by (auto simp: nullable_string_def split: jsval.splits)

text \<open>
  The checks of the row that are about its shape. A date out of range has no time in JavaScript, so
  \<open>finiteTimestamp\<close> has only dates with a time to accept.
\<close>

definition yield_row_shape :: "js_record \<Rightarrow> bool" where
  "yield_row_shape r =
     ((case js_get r ''command_id'' of JString s \<Rightarrow> uuid_v4 s | _ \<Rightarrow> False) \<and>
      nullable_string (js_get r ''previous_state'') \<and>
      (case (js_get r ''current_state'', js_get r ''next_state'') of (JString c, JString n) \<Rightarrow> c = n | _ \<Rightarrow> False) \<and>
      (case js_get r ''reason_code'' of JString _ \<Rightarrow> True | _ \<Rightarrow> False) \<and>
      (case js_get r ''ledger_transaction_id'' of JString _ \<Rightarrow> True | _ \<Rightarrow> False) \<and>
      nullable_string (js_get r ''ledger_journal_id'') \<and>
      (js_get r ''outcome'' = JString ''COMMITTED'' \<or> js_get r ''outcome'' = JString ''REPLAYED'') \<and>
      (js_get r ''next_state'' = JString ''SUBMITTED'') = (js_get r ''submission_id'' \<noteq> JNull))"

text \<open>
  The row as a transition: the state before it, the state and reason after it, the ledger transaction a
  creation names, the journal, the effective time, the actor and the correlation.
\<close>

definition returned_transition :: "js_record \<Rightarrow> string \<Rightarrow> YieldOperationType \<Rightarrow> string \<Rightarrow>
    unit + LedgerLifecycleState option \<times> LedgerLifecycleState \<times> LedgerLifecycleReasonCode \<times> string option \<times> string" where
  "returned_transition r operationId type effective_text =
     (if js_get r ''previous_state'' = JNull then
        res_bind (rethrow () (normalizeCreateYieldOperationCommand (mk_object
          [(''actorAccountId'', js_get r ''actor_account_id''), (''correlationId'', js_get r ''correlation_id''),
           (''operationId'', JString operationId), (''operationType'', JString (yield_type_text type)),
           (''ledgerTransactionId'', js_get r ''ledger_transaction_id''), (''planReferenceId'', js_get r ''plan_reference_id''),
           (''quoteReferenceId'', js_get r ''quote_reference_id''), (''effectiveAt'', JString effective_text)]))) (\<lambda>command.
        res_bind (require () (js_get r ''next_state'' = JString ''CREATED'' \<and> js_get r ''reason_code'' = JString ''INTENT_CREATED'')) (\<lambda>_.
        Inr (None, CREATED, INTENT_CREATED, None, yo_effectiveAt (yc_operation command))))
      else
        res_bind (rethrow () (normalizeTransitionYieldOperationCommand (mk_object
          [(''actorAccountId'', js_get r ''actor_account_id''), (''correlationId'', js_get r ''correlation_id''),
           (''operationId'', JString operationId), (''expectedState'', js_get r ''previous_state''),
           (''nextState'', js_get r ''next_state''), (''reason'', js_get r ''reason_code''),
           (''effectiveAt'', JString effective_text), (''ledgerJournalId'', js_get r ''ledger_journal_id'')]))) (\<lambda>command.
        let t = yx_transition command
        in Inr (Some (yt_expectedState t), yt_nextState t, yt_reason t, yt_ledgerJournalId t, yt_effectiveAt t)))"

definition returnedResult :: "jsval list \<Rightarrow> unit + YieldOperationCommandResult" where
  "returnedResult rows =
     (case rows of
        [row] \<Rightarrow>
          res_bind (of_option () (exact_data_record yield_row_keys row)) (\<lambda>r.
          res_bind (rethrow () (parseYieldOperationId (js_get r ''operation_id''))) (\<lambda>operationId.
          res_bind (of_option () (parse_enum yield_type_text YIELD_OPERATION_TYPES (js_get r ''operation_type''))) (\<lambda>type.
          res_bind (of_option () (finiteTimestamp (js_get r ''effective_at''))) (\<lambda>effective_text.
          res_bind (of_option () (finiteTimestamp (js_get r ''operation_recorded_at''))) (\<lambda>operationRecordedAt.
          res_bind (of_option () (finiteTimestamp (js_get r ''transition_recorded_at''))) (\<lambda>transitionRecordedAt.
          res_bind (require () (yield_row_shape r)) (\<lambda>_.
          res_bind (returned_transition r operationId type effective_text) (\<lambda>(previousState, nextState, why, journal, effective).
          res_bind (rethrow () (parseLedgerActorAccountId (js_get r ''actor_account_id''))) (\<lambda>actor.
          res_bind (rethrow () (parseLedgerCorrelationId (js_get r ''correlation_id''))) (\<lambda>correlation.
          res_bind (rethrow () (parseLedgerTransactionId (js_get r ''ledger_transaction_id''))) (\<lambda>ledgerTransactionId.
          res_bind (rethrow () (parseYieldTransitionEventId (js_get r ''transition_event_id''))) (\<lambda>eventId.
          res_bind (rethrow () (parseYieldPlanReferenceId (js_get r ''plan_reference_id''))) (\<lambda>plan.
          res_bind (rethrow () (parseYieldQuoteReferenceId (js_get r ''quote_reference_id''))) (\<lambda>quote.
          res_bind (if js_get r ''submission_id'' = JNull then Inr None
                    else res_bind (rethrow () (parseYieldSubmissionId (js_get r ''submission_id''))) (\<lambda>s. Inr (Some s))) (\<lambda>submission.
          Inr \<lparr>ys_operation =
                 \<lparr>yr_operationId = operationId, yr_operationType = type, yr_state = nextState,
                  yr_ledgerTransactionId = ledgerTransactionId, yr_planReferenceId = plan, yr_quoteReferenceId = quote,
                  yr_recordedAt = operationRecordedAt\<rparr>,
               ys_transition =
                 \<lparr>ye_eventId = eventId, ye_operationId = operationId, ye_actorAccountId = actor,
                  ye_previousState = previousState, ye_nextState = nextState, ye_reason = why, ye_effectiveAt = effective,
                  ye_recordedAt = transitionRecordedAt, ye_correlationId = correlation,
                  ye_ledgerTransactionId = ledgerTransactionId, ye_ledgerJournalId = journal\<rparr>,
               ys_submissionId = submission, ys_replayed = (js_get r ''outcome'' = JString ''REPLAYED'')\<rparr>)))))))))))))))
      | _ \<Rightarrow> Inl ())"

subsection \<open>The repository\<close>

record YieldSubmissionJob =
  yj_id :: string
  yj_occurredAt :: string
  yj_submissionId :: string
  yj_operationId :: string
  yj_operationType :: YieldOperationType
  yj_ledgerTransactionId :: string
  yj_planReferenceId :: string
  yj_quoteReferenceId :: string

text \<open>The kind of a query stands for its statement; the publisher runs in the logging context it is entered with.\<close>

record ('w, 'err) YieldDatabase =
  yd_activeStore :: "'w \<Rightarrow> LogCorrelationContext option"
  yd_withTransaction :: "('w, 'err option, YieldOperationCommandResult) action \<Rightarrow> ('w, 'err option, YieldOperationCommandResult) action"
  yd_query :: "YieldOperationCommandKind \<Rightarrow> jsval list \<Rightarrow> ('w, 'err, jsval list) action"
  yd_enqueue :: "LogCorrelationContext \<Rightarrow> YieldSubmissionJob \<Rightarrow> ('w, 'err, string) action"
  yd_code :: "'err \<Rightarrow> string option"

definition create_command_object :: "CreateYieldOperationCommand \<Rightarrow> jsval" where
  "create_command_object command = mk_object
     ((''actorAccountId'', JString (yc_actorAccountId command)) # (''correlationId'', JString (yc_correlationId command)) #
      create_yield_fields JString (yc_operation command))"

definition transition_command_object :: "TransitionYieldOperationCommand \<Rightarrow> jsval" where
  "transition_command_object command = mk_object
     ((''actorAccountId'', JString (yx_actorAccountId command)) # (''correlationId'', JString (yx_correlationId command)) #
      transition_yield_fields JString (yx_transition command))"

definition context_value :: "YieldOperationIdempotencyContext \<Rightarrow> jsval" where
  "context_value c = mk_object
     [(''actorAccountId'', JString (yi_actorAccountId c)), (''commandKind'', JString (command_kind_text (yi_commandKind c))),
      (''contractVersion'', js_int (int (yi_contractVersion c))), (''keyDigest'', JString (yi_keyDigest c)),
      (''fingerprintVersion'', js_int (int (yi_fingerprintVersion c))), (''requestFingerprint'', JString (yi_requestFingerprint c))]"

definition idempotencyValues :: "YieldOperationIdempotencyContext \<Rightarrow> jsval list" where
  "idempotencyValues c =
     [js_int (int (yi_contractVersion c)), JString (yi_keyDigest c), js_int (int (yi_fingerprintVersion c)),
      JString (yi_requestFingerprint c)]"

definition submission_job :: "YieldOperationCommandResult \<Rightarrow> string \<Rightarrow> YieldSubmissionJob" where
  "submission_job res submissionId =
     (let oper = ys_operation res
      in \<lparr>yj_id = submissionId, yj_occurredAt = ye_recordedAt (ys_transition res), yj_submissionId = submissionId,
          yj_operationId = yr_operationId oper, yj_operationType = yr_operationType oper,
          yj_ledgerTransactionId = yr_ledgerTransactionId oper, yj_planReferenceId = yr_planReferenceId oper,
          yj_quoteReferenceId = yr_quoteReferenceId oper\<rparr>)"

definition enqueueSubmission :: "('w, 'err) YieldDatabase \<Rightarrow> YieldOperationCommandResult \<Rightarrow> ('w, 'err option, unit) action" where
  "enqueueSubmission D res w =
     (let t = ys_transition res;
          extension = [(''initiatorActorId'', JString (ye_actorAccountId t)),
                       (''quoteId'', JString (yr_quoteReferenceId (ys_operation res))),
                       (''transactionId'', JString (yr_ledgerTransactionId (ys_operation res)))]
      in case ys_submissionId res of
           None \<Rightarrow> (Inl None, w)
         | Some submissionId \<Rightarrow>
             if ye_nextState t \<noteq> SUBMITTED then (Inl None, w)
             else
               act_bind (act_pure (rethrow None (current_context (yd_activeStore D w)))) (\<lambda>activeContext.
               act_bind (act_pure (require None (\<not> (case activeContext of
                    None \<Rightarrow> False
                  | Some c \<Rightarrow> c CorrelationId \<noteq> Some (ye_correlationId t) \<or>
                      (c InitiatorActorId \<noteq> None \<and> c InitiatorActorId \<noteq> Some (ye_actorAccountId t)))))) (\<lambda>_.
               act_bind (act_pure (rethrow None (case activeContext of
                    Some c \<Rightarrow> runWithStore (mk_object extension) (yd_activeStore D w)
                  | None \<Rightarrow> validateContext (mk_object ((''correlationId'', JString (ye_correlationId t)) # extension))))) (\<lambda>store.
               act_bind (act_lift Some (yd_enqueue D store (submission_job res submissionId))) (\<lambda>envelopeId.
               act_pure (require None (envelopeId = submissionId)))))) w)"

text \<open>\<^verbatim>\<open>catch (error) { persistenceError(error) }\<close>\<close>

definition persisted :: "('w, 'err) YieldDatabase \<Rightarrow> ('w, 'err option, 'a) action \<Rightarrow> ('w, yield_persistence_error, 'a) action" where
  "persisted D m = act_lift (persistenceError (yd_code D)) m"

text \<open>What a command does inside its transaction.\<close>

definition create_body :: "('w, 'err) YieldDatabase \<Rightarrow> CreateYieldOperationCommand \<Rightarrow> YieldOperationIdempotencyContext \<Rightarrow>
    ('w, 'err option, YieldOperationCommandResult) action" where
  "create_body D normalized context =
     (let oper = yc_operation normalized
      in act_bind (act_lift Some (yd_query D Kind_CREATE
          ([JString (yc_actorAccountId normalized), JString (yo_operationId oper), JString (yield_type_text (yo_operationType oper)),
            JString (yo_ledgerTransactionId oper), JString (yo_planReferenceId oper), JString (yo_quoteReferenceId oper),
            JString (yo_effectiveAt oper), JString (yc_correlationId normalized)] @ idempotencyValues context))) (\<lambda>rows.
      act_pure (rethrow None (returnedResult rows))))"

definition repository_create :: "('w, 'err) YieldDatabase \<Rightarrow> CreateYieldOperationCommand \<Rightarrow> YieldOperationIdempotencyContext \<Rightarrow>
    ('w, yield_persistence_error, YieldOperationCommandResult) action" where
  "repository_create D command idempotency =
     persisted D
      (act_bind (act_pure (rethrow None (normalizeCreateYieldOperationCommand (create_command_object command)))) (\<lambda>normalized.
       act_bind (act_pure (rethrow None (normalizeYieldOperationIdempotencyContext (context_value idempotency)))) (\<lambda>context.
       act_bind (act_pure (require None (\<not> (yi_commandKind context \<noteq> Kind_CREATE \<or>
         yi_actorAccountId context \<noteq> yc_actorAccountId normalized)))) (\<lambda>_.
       yd_withTransaction D (create_body D normalized context)))))"

definition transition_body :: "('w, 'err) YieldDatabase \<Rightarrow> TransitionYieldOperationCommand \<Rightarrow> YieldOperationIdempotencyContext \<Rightarrow>
    ('w, 'err option, YieldOperationCommandResult) action" where
  "transition_body D normalized context =
     (let t = yx_transition normalized
      in act_bind (act_lift Some (yd_query D Kind_TRANSITION
          ([JString (yx_actorAccountId normalized), JString (yt_operationId t), JString (lifecycle_state_text (yt_expectedState t)),
            JString (lifecycle_state_text (yt_nextState t)), JString (lifecycle_reason_text (yt_reason t)),
            JString (yt_effectiveAt t), nullable_text (yt_ledgerJournalId t), JString (yx_correlationId normalized)] @
           idempotencyValues context))) (\<lambda>rows.
      act_bind (act_pure (rethrow None (returnedResult rows))) (\<lambda>res.
      if ys_submissionId res \<noteq> None \<and> \<not> ys_replayed res
      then act_bind (enqueueSubmission D res) (\<lambda>_. act_return res)
      else act_return res)))"

definition repository_transition :: "('w, 'err) YieldDatabase \<Rightarrow> TransitionYieldOperationCommand \<Rightarrow>
    YieldOperationIdempotencyContext \<Rightarrow> ('w, yield_persistence_error, YieldOperationCommandResult) action" where
  "repository_transition D command idempotency =
     persisted D
      (act_bind (act_pure (rethrow None (normalizeTransitionYieldOperationCommand (transition_command_object command)))) (\<lambda>normalized.
       act_bind (act_pure (rethrow None (normalizeYieldOperationIdempotencyContext (context_value idempotency)))) (\<lambda>context.
       act_bind (act_pure (require None (\<not> (yi_commandKind context \<noteq> Kind_TRANSITION \<or>
         yi_actorAccountId context \<noteq> yx_actorAccountId normalized)))) (\<lambda>_.
       yd_withTransaction D (transition_body D normalized context)))))"

subsection \<open>On the service of the database\<close>

text \<open>
  The repository as the application composes it: transactions and statements are those of the database service,
  the kind of a query standing for its text, and the publisher is called with the client in the context.
\<close>

definition postgres_database :: "('w, 'c, YieldOperationCommandKind, 'err) PostgresPool \<Rightarrow> ('w \<Rightarrow> LogCorrelationContext option) \<Rightarrow>
    ('c option \<Rightarrow> LogCorrelationContext \<Rightarrow> YieldSubmissionJob \<Rightarrow> ('w, 'err, string) action) \<Rightarrow> ('err \<Rightarrow> string option) \<Rightarrow>
    (('c, 'w) postgres_state, 'err) YieldDatabase" where
  "postgres_database P store publish code_of =
     \<lparr>yd_activeStore = (\<lambda>s. store (snd s)), yd_withTransaction = (\<lambda>m. withTransaction P (\<lambda>_. m) no_options),
      yd_query = postgres_query P,
      yd_enqueue = (\<lambda>context job s. case publish (fst s) context job (snd s) of (r, w) \<Rightarrow> (r, (fst s, w))),
      yd_code = code_of\<rparr>"

end
