(* ===== verification/Yield_Theorems.thy ===== *)
theory Yield_Theorems
  imports Yield_Correct
begin

text \<open>
  The properties of yield operations: they run through the lifecycle of the ledger, a fingerprint stands for
  one command, and the repository only receives commands that were validated for the caller.
\<close>

subsection \<open>The run of an operation\<close>

text \<open>The transitions accepted for one operation since its creation, and the state they lead to.\<close>

inductive yield_run :: "ValidatedTransitionYieldOperation list \<Rightarrow> LedgerLifecycleState \<Rightarrow> bool" where
  created: "normalizeCreateYieldOperationInput v = Inr oper \<Longrightarrow> yield_run [] CREATED"
| moved: "yield_run ts s \<Longrightarrow> normalizeTransitionYieldOperationInput v = Inr t \<Longrightarrow> yt_expectedState t = s \<Longrightarrow>
    yield_run (ts @ [t]) (yt_nextState t)"

lemma yield_run_path: "yield_run ts s \<Longrightarrow> lifecycle_path (CREATED # map yt_nextState ts) s"
proof (induction rule: yield_run.induct)
  case (created v oper)
  have "isAllowedLedgerLifecycleTransition None CREATED INTENT_CREATED" by code_simp
  then have "lifecycle_step None CREATED" unfolding lifecycle_step_iff by blast
  then show ?case by (simp add: lifecycle_path.first)
next
  case (moved ts s v t)
  then have "lifecycle_step (Some s) (yt_nextState t)"
    using transition_sound [OF moved.hyps(2)] by (auto simp: lifecycle_step_iff valid_transition_def)
  from lifecycle_path.later [OF moved.IH this] show ?case by simp
qed

lemma yield_run_journals:
  "yield_run ts s \<Longrightarrow> t \<in> set ts \<Longrightarrow> (yt_ledgerJournalId t \<noteq> None) = carries_journal (yt_nextState t)"
  by (induction rule: yield_run.induct) (auto dest: transition_sound simp: valid_transition_def)

definition sample_yield_id :: string where
  "sample_yield_id = ''10000000-0000-4000-8000-00000000000a''"

definition sample_create :: ValidatedCreateYieldOperation where
  "sample_create =
     \<lparr>yo_operationId = sample_yield_id, yo_operationType = ALLOCATE, yo_ledgerTransactionId = sample_yield_id,
      yo_planReferenceId = sample_yield_id, yo_quoteReferenceId = sample_yield_id,
      yo_effectiveAt = ''2026-08-25T00:00:00.000Z''\<rparr>"

definition sample_move :: "LedgerLifecycleState \<Rightarrow> LedgerLifecycleState \<Rightarrow> LedgerLifecycleReasonCode \<Rightarrow> ValidatedTransitionYieldOperation" where
  "sample_move s s' r =
     \<lparr>yt_operationId = sample_yield_id, yt_expectedState = s, yt_nextState = s', yt_reason = r,
      yt_effectiveAt = ''2026-08-25T00:00:00.000Z'',
      yt_ledgerJournalId = (if s' = SETTLED \<or> s' = REVERSED then Some sample_yield_id else None)\<rparr>"

lemma sample_instant: "valid_instant ''2026-08-25T00:00:00.000Z''"
  unfolding valid_instant_def
proof
  show "valid_time 1787616000000 \<and> ''2026-08-25T00:00:00.000Z'' = to_iso 1787616000000" by code_simp
qed

lemma sample_yield_uuid: "uuid_v4 sample_yield_id"
  by code_simp

lemma sample_create_accepted: "normalizeCreateYieldOperationInput (create_yield_object sample_create) = Inr sample_create"
  by (rule create_complete) (simp add: valid_create_def sample_create_def sample_yield_uuid sample_instant)

lemma sample_move_accepted:
  "isAllowedLedgerLifecycleTransition (Some s) s' r \<Longrightarrow>
   normalizeTransitionYieldOperationInput (transition_yield_object (sample_move s s' r)) = Inr (sample_move s s' r)"
  by (rule transition_complete)
    (simp add: valid_transition_def sample_move_def sample_yield_uuid sample_instant valid_leg_def carries_journal_def)

lemma sample_run_moved:
  "yield_run ts s \<Longrightarrow> isAllowedLedgerLifecycleTransition (Some s) s' r \<Longrightarrow> yield_run (ts @ [sample_move s s' r]) s'"
  using yield_run.moved [OF _ sample_move_accepted, of ts s s s' r] by (simp add: sample_move_def)

lemma sample_run:
  "yield_run [sample_move CREATED QUOTED QUOTE_CREATED, sample_move QUOTED USER_APPROVED USER_APPROVAL_RECORDED,
     sample_move USER_APPROVED SUBMITTED SUBMISSION_RECORDED, sample_move SUBMITTED SETTLED SETTLEMENT_RECORDED] SETTLED"
proof -
  have 1: "yield_run [] CREATED" by (rule yield_run.created [OF sample_create_accepted])
  note 2 = sample_run_moved [OF 1, of QUOTED QUOTE_CREATED]
  note 3 = sample_run_moved [OF 2, of USER_APPROVED USER_APPROVAL_RECORDED]
  note 4 = sample_run_moved [OF 3, of SUBMITTED SUBMISSION_RECORDED]
  note 5 = sample_run_moved [OF 4, of SETTLED SETTLEMENT_RECORDED]
  show ?thesis
    by (rule 5 [simplified]) code_simp+
qed

text \<open>C10. A yield operation runs as its ledger transaction does: the states it passes are a path of the ledger's
  lifecycle, and it carries a ledger journal exactly at a settlement or a reversal, hence one journal when it is
  settled, two when it is reversed and none otherwise.
\<close>

theorem yield_operations_follow_the_ledger:
  assumes "yield_run ts s"
  shows "lifecycle_path (CREATED # map yt_nextState ts) s \<and>
    (\<forall>t \<in> set ts. (yt_ledgerJournalId t \<noteq> None) = (yt_nextState t \<in> {SETTLED, REVERSED})) \<and>
    length (filter (\<lambda>t. yt_ledgerJournalId t \<noteq> None) ts) = (if s = SETTLED then 1 else if s = REVERSED then 2 else 0)"
proof -
  note path = yield_run_path [OF assms]
  have journals: "(yt_ledgerJournalId t \<noteq> None) = (yt_nextState t \<in> {SETTLED, REVERSED})" if "t \<in> set ts" for t
    using yield_run_journals [OF assms that] by (simp add: carries_journal_def)
  then have "filter (\<lambda>t. yt_ledgerJournalId t \<noteq> None) ts = filter (\<lambda>t. yt_nextState t \<in> {SETTLED, REVERSED}) ts"
    by (intro filter_cong) simp_all
  moreover have "length (filter (\<lambda>t. yt_nextState t \<in> {SETTLED, REVERSED}) ts) =
      length (filter (\<lambda>x. x \<in> {SETTLED, REVERSED}) (CREATED # map yt_nextState ts))"
    by (simp add: filter_map o_def)
  moreover have "length (filter (\<lambda>x. x \<in> {SETTLED, REVERSED}) (CREATED # map yt_nextState ts)) =
      (if s = SETTLED then 1 else if s = REVERSED then 2 else 0)"
    using lifecycle_path_shape [OF path] by (cases s) (auto simp del: filter.simps(2), simp_all)
  ultimately show ?thesis using path journals by simp
qed

lemma yield_operations_follow_the_ledger_witness:
  "lifecycle_path [CREATED, QUOTED, USER_APPROVED, SUBMITTED, SETTLED] SETTLED"
  using yield_operations_follow_the_ledger [OF sample_run] by (simp add: sample_move_def)

subsection \<open>Fingerprints\<close>

text \<open>What is hashed for a command.\<close>

abbreviation create_bytes :: "CreateYieldOperationCommand \<Rightarrow> string" where
  "create_bytes c \<equiv> yield_digest_bytes YIELD_REQUEST_FINGERPRINT_DOMAIN
     (yield_request_fields (yc_actorAccountId c) Kind_CREATE (create_fingerprint_fields (yc_operation c)))"

abbreviation transition_bytes :: "TransitionYieldOperationCommand \<Rightarrow> string" where
  "transition_bytes t \<equiv> yield_digest_bytes YIELD_REQUEST_FINGERPRINT_DOMAIN
     (yield_request_fields (yx_actorAccountId t) Kind_TRANSITION (transition_fingerprint_fields (yx_transition t)))"

text \<open>The request fingerprint of a yield command identifies it. When SHA-256 does not collide on the inputs
  at hand, two creations, or two transitions, have the same fingerprint exactly when the same actor
  asks for the same operation, and a creation never has the fingerprint of a transition. A transition without
  a journal is told from one with a journal although the missing journal is hashed as an empty text.
\<close>

theorem yield_fingerprint_identifies_command:
  assumes "createYieldOperationIdempotencyContext sha256 k c = Inr x" "createYieldOperationIdempotencyContext sha256 k' c' = Inr x'"
    and "createYieldTransitionIdempotencyContext sha256 l t = Inr y" "createYieldTransitionIdempotencyContext sha256 l' t' = Inr y'"
    and "normalizeTransitionYieldOperationInput v = Inr (yx_transition t)"
      "normalizeTransitionYieldOperationInput v' = Inr (yx_transition t')"
    and "inj_on sha256 {create_bytes c, create_bytes c', transition_bytes t, transition_bytes t'}"
  shows "(yi_requestFingerprint x = yi_requestFingerprint x') =
       (yc_actorAccountId c = yc_actorAccountId c' \<and> yc_operation c = yc_operation c') \<and>
    (yi_requestFingerprint y = yi_requestFingerprint y') =
       (yx_actorAccountId t = yx_actorAccountId t' \<and> yx_transition t = yx_transition t') \<and>
    yi_requestFingerprint x \<noteq> yi_requestFingerprint y"
proof -
  note prints = assms(1-4) [unfolded createYieldOperationIdempotencyContext_def createYieldTransitionIdempotencyContext_def,
      THEN context_fingerprint]
  have "transition_fingerprint_fields (yx_transition t) = transition_fingerprint_fields (yx_transition t') \<longleftrightarrow>
      yx_transition t = yx_transition t'"
    by (rule iffI, rule transition_fields_inject [OF _ transition_sound [OF assms(5)] transition_sound [OF assms(6)]]) simp_all
  moreover have "create_fingerprint_fields (yc_operation c) = create_fingerprint_fields (yc_operation c') \<longleftrightarrow>
      yc_operation c = yc_operation c'"
    by (rule iffI, rule create_fields_inject) simp_all
  ultimately show ?thesis
    unfolding prints [THEN conjunct2, THEN conjunct2, THEN conjunct2]
    by (simp add: inj_on_eq_iff [OF assms(7)] yield_bytes_inject request_fields_inject)
qed

lemma sample_yield_contexts:
  obtains x y y' where
    "createYieldOperationIdempotencyContext (\<lambda>b. b) (JString ''key-1'')
       \<lparr>yc_actorAccountId = sample_yield_id, yc_correlationId = sample_yield_id, yc_operation = sample_create\<rparr> = Inr x"
    "createYieldTransitionIdempotencyContext (\<lambda>b. b) (JString ''key-1'')
       \<lparr>yx_actorAccountId = sample_yield_id, yx_correlationId = sample_yield_id,
        yx_transition = sample_move CREATED QUOTED QUOTE_CREATED\<rparr> = Inr y"
    "createYieldTransitionIdempotencyContext (\<lambda>b. b) (JString ''key-1'')
       \<lparr>yx_actorAccountId = sample_yield_id, yx_correlationId = sample_yield_id,
        yx_transition = sample_move SUBMITTED SETTLED SETTLEMENT_RECORDED\<rparr> = Inr y'"
proof -
  have "\<exists>d. digestYieldOperationIdempotencyKey (\<lambda>b. b) (JString ''key-1'') = Inr d"
    by (rule exI) code_simp
  then have "\<exists>z. createContext (\<lambda>b. b) (JString ''key-1'') (JString sample_yield_id) kind xs = Inr z" for kind xs
    by (auto simp: createContext_def parse_id_defs sample_yield_uuid)
  then show ?thesis
    using that unfolding createYieldOperationIdempotencyContext_def createYieldTransitionIdempotencyContext_def
    by (simp only: CreateYieldOperationCommand.select_convs TransitionYieldOperationCommand.select_convs) blast
qed

lemma yield_fingerprint_identifies_command_witness:
  "\<exists>x y y'. createYieldOperationIdempotencyContext (\<lambda>b. b) (JString ''key-1'')
       \<lparr>yc_actorAccountId = sample_yield_id, yc_correlationId = sample_yield_id, yc_operation = sample_create\<rparr> = Inr x \<and>
     createYieldTransitionIdempotencyContext (\<lambda>b. b) (JString ''key-1'')
       \<lparr>yx_actorAccountId = sample_yield_id, yx_correlationId = sample_yield_id,
        yx_transition = sample_move CREATED QUOTED QUOTE_CREATED\<rparr> = Inr y \<and>
     createYieldTransitionIdempotencyContext (\<lambda>b. b) (JString ''key-1'')
       \<lparr>yx_actorAccountId = sample_yield_id, yx_correlationId = sample_yield_id,
        yx_transition = sample_move SUBMITTED SETTLED SETTLEMENT_RECORDED\<rparr> = Inr y' \<and>
     yi_requestFingerprint y \<noteq> yi_requestFingerprint y' \<and> yi_requestFingerprint x \<noteq> yi_requestFingerprint y"
proof -
  have moves: "isAllowedLedgerLifecycleTransition (Some CREATED) QUOTED QUOTE_CREATED"
    "isAllowedLedgerLifecycleTransition (Some SUBMITTED) SETTLED SETTLEMENT_RECORDED" by code_simp+
  have different: "sample_move CREATED QUOTED QUOTE_CREATED \<noteq> sample_move SUBMITTED SETTLED SETTLEMENT_RECORDED"
    by (simp add: sample_move_def)
  obtain x y y' where c:
    "createYieldOperationIdempotencyContext (\<lambda>b. b) (JString ''key-1'')
       \<lparr>yc_actorAccountId = sample_yield_id, yc_correlationId = sample_yield_id, yc_operation = sample_create\<rparr> = Inr x"
    "createYieldTransitionIdempotencyContext (\<lambda>b. b) (JString ''key-1'')
       \<lparr>yx_actorAccountId = sample_yield_id, yx_correlationId = sample_yield_id,
        yx_transition = sample_move CREATED QUOTED QUOTE_CREATED\<rparr> = Inr y"
    "createYieldTransitionIdempotencyContext (\<lambda>b. b) (JString ''key-1'')
       \<lparr>yx_actorAccountId = sample_yield_id, yx_correlationId = sample_yield_id,
        yx_transition = sample_move SUBMITTED SETTLED SETTLEMENT_RECORDED\<rparr> = Inr y'"
    by (rule sample_yield_contexts)
  have "yi_requestFingerprint y \<noteq> yi_requestFingerprint y' \<and> yi_requestFingerprint x \<noteq> yi_requestFingerprint y"
    using yield_fingerprint_identifies_command [OF c(1) c(1) c(2) c(3), of
        "transition_yield_object (sample_move CREATED QUOTED QUOTE_CREATED)"
        "transition_yield_object (sample_move SUBMITTED SETTLED SETTLEMENT_RECORDED)"]
      sample_move_accepted [OF moves(1)] sample_move_accepted [OF moves(2)] different
    by simp
  then show ?thesis using c by blast
qed

subsection \<open>The service\<close>

text \<open>The service is its repository on validated commands. A call returns an answer exactly when the input is
  a valid operation, the caller is authenticated under an active correlation, the key is acceptable and the
  repository, called with exactly that operation for that caller and with the context of that command,
  returns that answer; every command the repository sees is well formed.
\<close>

theorem yield_service_submits_validated_commands:
  "(yield_create P sha256 input key w = (Inr r, w')) =
    (\<exists>oper actor corr w1 ctx store. normalizeCreateYieldOperationInput input = Inr oper \<and> valid_create oper \<and>
       resolveCommandContext P w = (Inr (actor, corr), w1) \<and> uuid_v4 actor \<and> uuid_v4 corr \<and>
       createYieldOperationIdempotencyContext sha256 key \<lparr>yc_actorAccountId = actor, yc_correlationId = corr, yc_operation = oper\<rparr> = Inr ctx \<and>
       runWithStore (mk_object [(''transactionId'', JString (yo_ledgerTransactionId oper))]) (yp_activeStore P w1) = Inr store \<and>
       yp_create P store \<lparr>yc_actorAccountId = actor, yc_correlationId = corr, yc_operation = oper\<rparr> ctx w1 = (Inr r, w')) \<and>
   (yield_transition P sha256 input key w = (Inr r, w')) =
    (\<exists>t actor corr w1 ctx. normalizeTransitionYieldOperationInput input = Inr t \<and> valid_transition t \<and>
       resolveCommandContext P w = (Inr (actor, corr), w1) \<and> uuid_v4 actor \<and> uuid_v4 corr \<and>
       createYieldTransitionIdempotencyContext sha256 key \<lparr>yx_actorAccountId = actor, yx_correlationId = corr, yx_transition = t\<rparr> = Inr ctx \<and>
       yp_transition P \<lparr>yx_actorAccountId = actor, yx_correlationId = corr, yx_transition = t\<rparr> ctx w1 = (Inr r, w'))"
  by (rule conjI [OF yield_create_iff yield_transition_iff])

end
