(* ===== verification/Yield_Repository_Correct.thy ===== *)
theory Yield_Repository_Correct
  imports Yield_Repository Yield_Theorems
begin

text \<open>
  What the repository of yield operations guarantees: it passes every command of the service on to the database,
  only answers with rows that are transitions of the ledger, and enqueues one job for a fresh submission.
\<close>

subsection \<open>The row\<close>

text \<open>What a checked row says.\<close>

definition ledger_result :: "YieldOperationCommandResult \<Rightarrow> bool" where
  "ledger_result res =
     (let oper = ys_operation res; t = ys_transition res
      in isAllowedLedgerLifecycleTransition (ye_previousState t) (ye_nextState t) (ye_reason t) \<and>
         yr_state oper = ye_nextState t \<and> yr_operationId oper = ye_operationId t \<and>
         yr_ledgerTransactionId oper = ye_ledgerTransactionId t \<and>
         (ye_ledgerJournalId t \<noteq> None) = carries_journal (ye_nextState t) \<and>
         (ys_submissionId res \<noteq> None) = (ye_nextState t = SUBMITTED) \<and>
         uuid_v4 (ye_operationId t) \<and> uuid_v4 (ye_eventId t) \<and> uuid_v4 (ye_actorAccountId t) \<and>
         uuid_v4 (ye_correlationId t) \<and> uuid_v4 (ye_ledgerTransactionId t))"

lemma create_command_sound:
  "normalizeCreateYieldOperationCommand v = Inr c \<Longrightarrow> valid_create (yc_operation c)"
  by (auto simp: normalizeCreateYieldOperationCommand_def res_simps dest: create_sound)

lemma transition_command_sound:
  assumes "normalizeTransitionYieldOperationCommand (mk_object
    [(''actorAccountId'', a), (''correlationId'', k), (''operationId'', i), (''expectedState'', s), (''nextState'', n),
     (''reason'', r), (''effectiveAt'', e), (''ledgerJournalId'', j)]) = Inr c"
  shows "valid_transition (yx_transition c) \<and> n = JString (lifecycle_state_text (yt_nextState (yx_transition c)))"
proof -
  let ?fields = "[(''actorAccountId'', a), (''correlationId'', k), (''operationId'', i), (''expectedState'', s), (''nextState'', n),
     (''reason'', r), (''effectiveAt'', e), (''ledgerJournalId'', j)]"
  have rec: "yieldOwnDataRecord (mk_object ?fields) (''actorAccountId'' # ''correlationId'' # transition_yield_keys) = Inr ?fields"
    unfolding yield_record_iff by (rule exact_data_record_literal) simp_all
  obtain d where d: "normalizeTransitionYieldOperationInput (mk_object [(''operationId'', i), (''expectedState'', s),
      (''nextState'', n), (''reason'', r), (''effectiveAt'', d), (''ledgerJournalId'', j)]) = Inr (yx_transition c)"
    using assms unfolding normalizeTransitionYieldOperationCommand_def rec
    by (auto simp: js_get_Cons res_simps)
  let ?inner = "[(''operationId'', i), (''expectedState'', s), (''nextState'', n), (''reason'', r), (''effectiveAt'', d),
      (''ledgerJournalId'', j)]"
  have rec2: "yieldOwnDataRecord (mk_object ?inner) transition_yield_keys = Inr ?inner"
    unfolding yield_record_iff by (rule exact_data_record_literal) simp_all
  obtain d' l where l: "normalizeLedgerLifecycleTransitionInput (mk_object
       [(''transactionId'', JString ''00000000-0000-4000-8000-000000000000''), (''legId'', JNull), (''expectedState'', s),
        (''nextState'', n), (''reason'', r), (''effectiveAt'', d')]) = Inr l" "yt_nextState (yx_transition c) = lt_nextState l"
    using d unfolding normalizeTransitionYieldOperationInput_def rec2
    by (auto simp: js_get_Cons res_simps split: option.splits) (metis ValidatedTransitionYieldOperation.select_convs(3))
  let ?life = "[(''transactionId'', JString ''00000000-0000-4000-8000-000000000000''), (''legId'', JNull), (''expectedState'', s),
        (''nextState'', n), (''reason'', r), (''effectiveAt'', d')]"
  have rec3: "ownDataRecord (mk_object ?life) lifecycle_keys = Inr ?life"
    unfolding lifecycle_record_iff by (rule exact_data_record_literal) simp_all
  have "n = JString (lifecycle_state_text (lt_nextState l))"
    using l(1) unfolding normalizeLedgerLifecycleTransitionInput_def rec3 by (auto simp: js_get_Cons res_simps)
  then show ?thesis using l(2) transition_sound [OF d] by simp
qed

lemma returned_transition_sound:
  assumes "returned_transition r i ty e = Inr (p, n, why, j, eff)"
  shows "isAllowedLedgerLifecycleTransition p n why" "(j \<noteq> None) = carries_journal n"
    "js_get r ''next_state'' = JString (lifecycle_state_text n)"
proof -
  have "isAllowedLedgerLifecycleTransition p n why \<and> (j \<noteq> None) = carries_journal n \<and>
    js_get r ''next_state'' = JString (lifecycle_state_text n)"
  proof (cases "js_get r ''previous_state'' = JNull")
    case True
    have "isAllowedLedgerLifecycleTransition None CREATED INTENT_CREATED" by code_simp
    then show ?thesis using assms True by (auto simp: returned_transition_def res_simps carries_journal_def)
  next
    case False
    then obtain c where c: "normalizeTransitionYieldOperationCommand (mk_object
          [(''actorAccountId'', js_get r ''actor_account_id''), (''correlationId'', js_get r ''correlation_id''),
           (''operationId'', JString i), (''expectedState'', js_get r ''previous_state''),
           (''nextState'', js_get r ''next_state''), (''reason'', js_get r ''reason_code''),
           (''effectiveAt'', JString e), (''ledgerJournalId'', js_get r ''ledger_journal_id'')]) = Inr c"
        "p = Some (yt_expectedState (yx_transition c))" "n = yt_nextState (yx_transition c)" "why = yt_reason (yx_transition c)"
        "j = yt_ledgerJournalId (yx_transition c)"
      using assms by (auto simp: returned_transition_def res_simps Let_def)
    show ?thesis using transition_command_sound [OF c(1)] c(2-5) by (simp add: valid_transition_def)
  qed
  then show "isAllowedLedgerLifecycleTransition p n why" "(j \<noteq> None) = carries_journal n"
    "js_get r ''next_state'' = JString (lifecycle_state_text n)" by blast+
qed

lemma submitted_text: "(lifecycle_state_text n = ''SUBMITTED'') = (n = SUBMITTED)"
  by (cases n) simp_all

lemma parseYieldSubmissionId_iff: "(parseYieldSubmissionId v = Inr s) = (v = JString s \<and> uuid_v4 s)"
  by (simp add: parseYieldSubmissionId_def res_simps)

lemma returnedResult_sound:
  assumes "returnedResult rows = Inr res"
  shows "ledger_result res"
proof -
  obtain row where row: "rows = [row]" using assms by (auto simp: returnedResult_def split: list.splits)
  obtain r i ty e e1 e2 p n why j eff actor k l ev plan quote sub where c:
      "res = \<lparr>ys_operation =
                 \<lparr>yr_operationId = i, yr_operationType = ty, yr_state = n,
                  yr_ledgerTransactionId = l, yr_planReferenceId = plan, yr_quoteReferenceId = quote,
                  yr_recordedAt = e1\<rparr>,
               ys_transition =
                 \<lparr>ye_eventId = ev, ye_operationId = i, ye_actorAccountId = actor,
                  ye_previousState = p, ye_nextState = n, ye_reason = why, ye_effectiveAt = eff,
                  ye_recordedAt = e2, ye_correlationId = k,
                  ye_ledgerTransactionId = l, ye_ledgerJournalId = j\<rparr>,
               ys_submissionId = sub, ys_replayed = (js_get r ''outcome'' = JString ''REPLAYED'')\<rparr>"
      "parseYieldOperationId (js_get r ''operation_id'') = Inr i" "yield_row_shape r"
      "returned_transition r i ty e = Inr (p, n, why, j, eff)"
      "parseLedgerActorAccountId (js_get r ''actor_account_id'') = Inr actor"
      "parseLedgerCorrelationId (js_get r ''correlation_id'') = Inr k"
      "parseLedgerTransactionId (js_get r ''ledger_transaction_id'') = Inr l"
      "parseYieldTransitionEventId (js_get r ''transition_event_id'') = Inr ev"
      "(if js_get r ''submission_id'' = JNull then Inr None
         else res_bind (rethrow () (parseYieldSubmissionId (js_get r ''submission_id''))) (\<lambda>s. Inr (Some s))) = (Inr sub :: unit + string option)"
    using assms unfolding returnedResult_def row list.case res_bind_eq_Inr rethrow_eq_Inr of_option_eq_Inr require_eq_Inr
      split_paired_Ex prod.case sum.inject
    by (elim exE conjE) (rule that; (assumption | erule sym))
  note t = returned_transition_sound [OF c(4)]
  have "(sub \<noteq> None) = (n = SUBMITTED)"
    using c(3,9) t(3) submitted_text [of n] by (auto simp: yield_row_shape_def res_simps split: if_splits)
  moreover have "uuid_v4 i" "uuid_v4 ev" "uuid_v4 actor" "uuid_v4 k" "uuid_v4 l"
    using c(2,5-8) by (simp_all add: parseYieldOperationId_def parseYieldTransitionEventId_def res_simps parse_id_defs)
  ultimately show ?thesis using t(1,2) unfolding c(1) ledger_result_def by simp
qed

subsection \<open>The transaction\<close>

lemma enqueue_success:
  assumes "enqueueSubmission D res w = (Inr u, w')"
  obtains i store where "ys_submissionId res = Some i" "ye_nextState (ys_transition res) = SUBMITTED"
    "yd_enqueue D store (submission_job res i) w = (Inr i, w')"
  using assms unfolding enqueueSubmission_def Let_def
  by (auto simp: act_Inr_iffs require_eq_Inr split: option.splits if_splits)

definition transition_values :: "TransitionYieldOperationCommand \<Rightarrow> YieldOperationIdempotencyContext \<Rightarrow> jsval list" where
  "transition_values n c =
     [JString (yx_actorAccountId n), JString (yt_operationId (yx_transition n)),
      JString (lifecycle_state_text (yt_expectedState (yx_transition n))), JString (lifecycle_state_text (yt_nextState (yx_transition n))),
      JString (lifecycle_reason_text (yt_reason (yx_transition n))), JString (yt_effectiveAt (yx_transition n)),
      nullable_text (yt_ledgerJournalId (yx_transition n)), JString (yx_correlationId n)] @ idempotencyValues c"

lemma transition_body_success:
  assumes "transition_body D n c w = (Inr res, w')"
  obtains rows w1 where
    "yd_query D Kind_TRANSITION (transition_values n c) w = (Inr rows, w1)"
    "returnedResult rows = Inr res"
    "(if ys_submissionId res \<noteq> None \<and> \<not> ys_replayed res
      then \<exists>i store. ys_submissionId res = Some i \<and> yd_enqueue D store (submission_job res i) w1 = (Inr i, w')
      else w' = w1)"
proof -
  obtain rows w1 where b: "yd_query D Kind_TRANSITION (transition_values n c) w = (Inr rows, w1)"
      "returnedResult rows = Inr res"
      "(if ys_submissionId res \<noteq> None \<and> \<not> ys_replayed res
        then act_bind (enqueueSubmission D res) (\<lambda>_. act_return res) else act_return res) w1 = (Inr res, w')"
    using assms unfolding transition_body_def Let_def act_Inr_iffs rethrow_eq_Inr transition_values_def
    by (auto simp: act_Inr_iffs act_return_def split: if_splits)
  show ?thesis
  proof (rule that [OF b(1,2)])
    show "if ys_submissionId res \<noteq> None \<and> \<not> ys_replayed res
      then \<exists>i store. ys_submissionId res = Some i \<and> yd_enqueue D store (submission_job res i) w1 = (Inr i, w')
      else w' = w1"
      using b(3) by (auto simp: act_Inr_iffs act_return_def elim!: enqueue_success split: if_splits)
  qed
qed

text \<open>
  The publisher enqueues with the client it is given: inside an open transaction it neither commits anything nor
  ends the transaction.
\<close>

definition publishes_inside :: "('c \<Rightarrow> 'w \<Rightarrow> bool) \<Rightarrow> ('w \<Rightarrow> 'd) \<Rightarrow>
    ('c option \<Rightarrow> LogCorrelationContext \<Rightarrow> YieldSubmissionJob \<Rightarrow> ('w, 'err, string) action) \<Rightarrow> bool" where
  "publishes_inside begun durable publish =
     (\<forall>client ctx job w. begun client w \<longrightarrow>
        durable (snd (publish (Some client) ctx job w)) = durable w \<and>
        begun client (snd (publish (Some client) ctx job w)))"

text \<open>Work of the repository on the database service stays inside its transaction.\<close>

definition inside :: "('c \<Rightarrow> 'w \<Rightarrow> bool) \<Rightarrow> ('w \<Rightarrow> 'd) \<Rightarrow> 'c \<Rightarrow> 'd \<Rightarrow> ('c, 'w) postgres_state \<Rightarrow> bool" where
  "inside begun durable client d s = (fst s = Some client \<and> begun client (snd s) \<and> durable (snd s) = d)"

definition stays :: "('s \<Rightarrow> bool) \<Rightarrow> ('s, 'e, 'a) action \<Rightarrow> bool" where
  "stays I m = (\<forall>s. I s \<longrightarrow> I (snd (m s)))"

named_theorems stays_rules

lemma staysD: "stays I m \<Longrightarrow> I s \<Longrightarrow> m s = (r, s') \<Longrightarrow> I s'"
  unfolding stays_def by (metis snd_conv)

lemma stays_bind [stays_rules]: "stays I m \<Longrightarrow> (\<And>x. stays I (k x)) \<Longrightarrow> stays I (act_bind m k)"
  unfolding stays_def act_bind_def by (force split: prod.splits sum.splits)

lemma stays_simple [stays_rules]: "stays I (act_pure r)" "stays I (act_return x)"
  by (simp_all add: stays_def act_pure_def act_return_def)

lemma stays_lift [stays_rules]: "stays I m \<Longrightarrow> stays I (act_lift f m)"
  unfolding stays_def act_lift_def by (force split: prod.splits)

lemma stays_query [stays_rules]:
  assumes "transactional P begun durable"
  shows "stays (inside begun durable client d) (postgres_query P kind vals)"
  unfolding stays_def
proof (intro allI impI)
  fix s assume s: "inside begun durable client d s"
  obtain r w where q: "pp_clientQuery P client (Statement kind vals) (snd s) = (r, w)" by fastforce
  show "inside begun durable client d (snd (postgres_query P kind vals s))"
    using s q transactionalD(8) [OF assms q] by (simp add: inside_def postgres_query_def)
qed

lemma stays_enqueue:
  fixes publish :: "'c option \<Rightarrow> LogCorrelationContext \<Rightarrow> YieldSubmissionJob \<Rightarrow> ('w, 'err, string) action"
  assumes "publishes_inside begun durable publish"
  shows "stays (inside begun durable client d) (enqueueSubmission (postgres_database P store publish code_of) res)"
proof -
  have publish: "stays (inside begun durable client d) (act_lift Some (yd_enqueue (postgres_database P store publish code_of) ctx job))"
    for ctx job
  proof (rule stays_lift, unfold stays_def, intro allI impI)
    fix s assume s: "inside begun durable client d s"
    obtain r w where p: "publish (Some client) ctx job (snd s) = (r, w)" by fastforce
    have "durable w = d \<and> begun client w"
      using s assms [unfolded publishes_inside_def, rule_format, of client "snd s" ctx job] by (simp add: inside_def p)
    then show "inside begun durable client d (snd (yd_enqueue (postgres_database P store publish code_of) ctx job s))"
      using s by (simp add: inside_def postgres_database_def p)
  qed
  have steps: "stays (inside begun durable client d) (act_bind (act_pure a) (\<lambda>x. act_bind (act_pure (g x)) (\<lambda>_.
      act_bind (act_pure (h x)) (\<lambda>ctx. act_bind (act_lift Some (yd_enqueue (postgres_database P store publish code_of) ctx job))
        (\<lambda>i. act_pure (k i))))))" for a :: "'err option + 'f" and g :: "'f \<Rightarrow> 'err option + unit" and h job and k :: "string \<Rightarrow> 'err option + unit"
    by (intro stays_bind stays_simple publish)
  show ?thesis
    unfolding stays_def
  proof (intro allI impI)
    fix s assume s: "inside begun durable client d s"
    show "inside begun durable client d (snd (enqueueSubmission (postgres_database P store publish code_of) res s))"
    proof (cases "ys_submissionId res")
      case None
      then show ?thesis using s by (simp add: enqueueSubmission_def Let_def)
    next
      case (Some i)
      show ?thesis
      proof (cases "ye_nextState (ys_transition res) = SUBMITTED")
        case True
        show ?thesis
          unfolding enqueueSubmission_def Let_def Some option.case if_not_P [OF iffD2 [OF not_not True]]
          by (rule steps [unfolded stays_def, rule_format, OF s])
      next
        case False
        then show ?thesis using s Some by (simp add: enqueueSubmission_def Let_def)
      qed
    qed
  qed
qed

lemma body_contained:
  assumes "transactional P begun durable" "publishes_inside begun durable publish"
  shows "contained begun durable (\<lambda>_. transition_body (postgres_database P store publish code_of) n c)"
proof -
  have "stays (inside begun durable client d) (transition_body (postgres_database P store publish code_of) n c)" for client d
    unfolding transition_body_def Let_def
  proof (intro stays_bind stays_lift stays_simple)
    show "stays (inside begun durable client d) (yd_query (postgres_database P store publish code_of) kind vals)" for kind vals
      using stays_query [OF assms(1)] by (simp add: postgres_database_def)
    show "stays (inside begun durable client d)
        (if ys_submissionId res \<noteq> None \<and> \<not> ys_replayed res
         then act_bind (enqueueSubmission (postgres_database P store publish code_of) res) (\<lambda>_. act_return res)
         else act_return res)" for res
      using stays_enqueue [OF assms(2)] by (auto intro!: stays_rules)
  qed
  then show ?thesis
    unfolding contained_def stays_def inside_def by (metis fst_conv snd_conv)
qed

text \<open>The repository's transition up to its transaction.\<close>

lemma transition_refused:
  assumes "repository_transition D command idempotency s = (outcome, s')"
    and "\<not> (\<exists>n c. normalizeTransitionYieldOperationCommand (transition_command_object command) = Inr n \<and>
      normalizeYieldOperationIdempotencyContext (context_value idempotency) = Inr c \<and>
      \<not> (yi_commandKind c \<noteq> Kind_TRANSITION \<or> yi_actorAccountId c \<noteq> yx_actorAccountId n))"
  shows "(\<exists>e. outcome = Inl e) \<and> s' = s"
  using assms
  by (cases "normalizeTransitionYieldOperationCommand (transition_command_object command)";
      cases "normalizeYieldOperationIdempotencyContext (context_value idempotency)")
    (auto simp: repository_transition_def persisted_def act_lift_def act_bind_def act_pure_def split: if_splits)

lemma transition_runs:
  assumes "normalizeTransitionYieldOperationCommand (transition_command_object command) = Inr n"
    "normalizeYieldOperationIdempotencyContext (context_value idempotency) = Inr c"
    "\<not> (yi_commandKind c \<noteq> Kind_TRANSITION \<or> yi_actorAccountId c \<noteq> yx_actorAccountId n)"
    and "D = postgres_database P store publish code_of" "repository_transition D command idempotency s = (outcome, s')"
  shows "\<exists>r. withTransaction P (\<lambda>_. transition_body D n c) no_options s = (r, s') \<and> outcome = lift_error (persistenceError code_of) r"
proof -
  have parts: "yd_withTransaction D m = withTransaction P (\<lambda>_. m) no_options" "yd_code D = code_of" for m
    by (simp_all add: assms(4) postgres_database_def)
  have "repository_transition D command idempotency s =
      act_lift (persistenceError code_of) (withTransaction P (\<lambda>_. transition_body D n c) no_options) s"
    using assms(3) by (simp add: repository_transition_def persisted_def assms(1,2) parts act_lift_def act_bind_def act_pure_def)
  then show ?thesis using assms(5) by (auto simp: act_lift_def split: prod.splits)
qed

lemma committed_transition:
  assumes "D = postgres_database P store publish code_of" "committed_by P client (\<lambda>_. transition_body D n c) w1 res w3 w4"
  obtains rows w2 answer where
    "pp_clientQuery P client (Statement Kind_TRANSITION (transition_values n c)) w1 = (Inr rows, w2)"
    "returnedResult rows = Inr res"
    "if ys_submissionId res \<noteq> None \<and> \<not> ys_replayed res
     then \<exists>i ctx. ys_submissionId res = Some i \<and> publish (Some client) ctx (submission_job res i) w2 = (Inr i, w3)
     else w3 = w2"
    "pp_clientQuery P client (Control ''COMMIT'') w3 = (Inr answer, w4)"
proof -
  obtain outer answer where t: "transition_body D n c (Some client, w1) = (Inr res, (outer, w3))"
      "pp_clientQuery P client (Control ''COMMIT'') w3 = (Inr answer, w4)"
    using assms(2) by (auto simp: committed_by_def)
  from t(1) show ?thesis
  proof (rule transition_body_success)
    fix rows s2
    assume q: "yd_query D Kind_TRANSITION (transition_values n c) (Some client, w1) = (Inr rows, s2)"
      and r: "returnedResult rows = Inr res"
      and e: "if ys_submissionId res \<noteq> None \<and> \<not> ys_replayed res
         then \<exists>i ctx. ys_submissionId res = Some i \<and> yd_enqueue D ctx (submission_job res i) s2 = (Inr i, (outer, w3))
         else (outer, w3) = s2"
    obtain w2 where w2: "pp_clientQuery P client (Statement Kind_TRANSITION (transition_values n c)) w1 = (Inr rows, w2)"
        "s2 = (Some client, w2)"
      using q by (auto simp: assms(1) postgres_database_def postgres_query_def split: prod.splits)
    have enqueued: "publish (Some client) ctx job w2 = (Inr i, w3)" if "yd_enqueue D ctx job s2 = (Inr i, (outer, w3))" for ctx job i
      using that by (cases "publish (Some client) ctx job w2") (simp add: w2(2) assms(1) postgres_database_def)
    have "if ys_submissionId res \<noteq> None \<and> \<not> ys_replayed res
      then \<exists>i ctx. ys_submissionId res = Some i \<and> publish (Some client) ctx (submission_job res i) w2 = (Inr i, w3) else w3 = w2"
    proof (cases "ys_submissionId res \<noteq> None \<and> \<not> ys_replayed res")
      case True
      show ?thesis using e [unfolded if_P [OF True]] enqueued unfolding if_P [OF True] by blast
    next
      case False
      show ?thesis using e [unfolded if_not_P [OF False]] w2(2) unfolding if_not_P [OF False] by simp
    qed
    then show ?thesis by (rule that [OF w2(1) r _ t(2)])
  qed
qed

lemma kept_inside:
  assumes "transactional P begun durable" "publishes_inside begun durable publish" "begun client w1" "durable w1 = d"
    and "pp_clientQuery P client (Statement kind vals) w1 = (r, w2)"
    and "if b then \<exists>i ctx. x = Some i \<and> publish (Some client) ctx (job i) w2 = (Inr i, w3) else w3 = w2"
  shows "begun client w3 \<and> durable w3 = d"
proof -
  have w2: "durable w2 = d" "begun client w2" using transactionalD(8) [OF assms(1,5,3)] assms(4) by simp_all
  show ?thesis
  proof (cases b)
    case True
    then obtain i ctx where "publish (Some client) ctx (job i) w2 = (Inr i, w3)" using assms(6) by auto
    then show ?thesis using assms(2) [unfolded publishes_inside_def, rule_format, OF w2(2), of ctx "job i"] w2(1) by simp
  next
    case False
    then show ?thesis using assms(6) w2 by simp
  qed
qed

subsection \<open>Revalidation\<close>

lemma create_object_accepted:
  assumes "valid_create oper" "uuid_v4 actor" "uuid_v4 corr"
  shows "normalizeCreateYieldOperationCommand
      (create_command_object \<lparr>yc_actorAccountId = actor, yc_correlationId = corr, yc_operation = oper\<rparr>) =
    Inr \<lparr>yc_actorAccountId = actor, yc_correlationId = corr, yc_operation = oper\<rparr>"
  using create_command [OF assms] by (simp add: createYieldOperationCommand_def create_command_object_def)

lemma transition_object_accepted:
  assumes "valid_transition t" "uuid_v4 actor" "uuid_v4 corr"
  shows "normalizeTransitionYieldOperationCommand
      (transition_command_object \<lparr>yx_actorAccountId = actor, yx_correlationId = corr, yx_transition = t\<rparr>) =
    Inr \<lparr>yx_actorAccountId = actor, yx_correlationId = corr, yx_transition = t\<rparr>"
  using transition_command [OF assms] by (simp add: createTransitionYieldOperationCommand_def transition_command_object_def)

interpretation command_kind: text_enum command_kind_text YIELD_OPERATION_COMMAND_KINDS
proof
  show "x \<in> set YIELD_OPERATION_COMMAND_KINDS" for x by (cases x) (simp_all add: YIELD_OPERATION_COMMAND_KINDS_def)
  show "command_kind_text x = command_kind_text y \<Longrightarrow> x = y" for x y by (cases x; cases y) simp_all
qed

lemma context_accepted:
  assumes "createContext sha256 key (JString actor) kind xs = Inr c" "\<forall>b. sha256_hex (sha256 b)"
  shows "normalizeYieldOperationIdempotencyContext (context_value c) = Inr c \<and> yi_commandKind c = kind \<and> yi_actorAccountId c = actor"
proof -
  obtain d f where c: "c = \<lparr>yi_actorAccountId = actor, yi_commandKind = kind,
      yi_contractVersion = YIELD_OPERATION_IDEMPOTENCY_CONTRACT_VERSION, yi_keyDigest = d,
      yi_fingerprintVersion = YIELD_OPERATION_FINGERPRINT_VERSION, yi_requestFingerprint = f\<rparr>"
      "sha256_hex d" "sha256_hex f" "uuid_v4 actor"
    using assms by (auto simp: createContext_def res_simps parse_id_defs yield_digest_def digestYieldOperationIdempotencyKey_def
        Let_def split: jsval.splits if_splits)
  have "exact_data_record [''actorAccountId'', ''commandKind'', ''contractVersion'', ''keyDigest'', ''fingerprintVersion'',
      ''requestFingerprint''] (context_value c) =
    Some [(''actorAccountId'', JString actor), (''commandKind'', JString (command_kind_text kind)),
      (''contractVersion'', js_int (int YIELD_OPERATION_IDEMPOTENCY_CONTRACT_VERSION)), (''keyDigest'', JString d),
      (''fingerprintVersion'', js_int (int YIELD_OPERATION_FINGERPRINT_VERSION)), (''requestFingerprint'', JString f)]"
    unfolding context_value_def c(1) YieldOperationIdempotencyContext.select_convs
    by (rule exact_data_record_literal) simp_all
  then show ?thesis
    using c by (simp add: normalizeYieldOperationIdempotencyContext_def js_get_Cons command_kind.parse_spell parse_id_defs)
qed

end
