(* ===== verification/Yield_Repository_Theorems.thy ===== *)
theory Yield_Repository_Theorems
  imports Yield_Repository_Correct
begin

text \<open>
  The properties of the repository of yield operations, on a sample database that answers with one submitted
  transition and keeps the jobs it is given.
\<close>

definition sample_row :: "string \<Rightarrow> jsval" where
  "sample_row outcome =
     mk_object
       [(''command_id'', JString sample_yield_id), (''operation_id'', JString sample_yield_id),
        (''operation_type'', JString ''ALLOCATE''), (''current_state'', JString ''SUBMITTED''),
        (''ledger_transaction_id'', JString sample_yield_id), (''plan_reference_id'', JString sample_yield_id),
        (''quote_reference_id'', JString sample_yield_id), (''operation_recorded_at'', mk_date 1787616000000),
        (''transition_event_id'', JString sample_yield_id), (''actor_account_id'', JString sample_yield_id),
        (''previous_state'', JString ''USER_APPROVED''), (''next_state'', JString ''SUBMITTED''),
        (''reason_code'', JString ''SUBMISSION_RECORDED''), (''effective_at'', mk_date 1787616000000),
        (''transition_recorded_at'', mk_date 1787616000000), (''correlation_id'', JString sample_yield_id),
        (''ledger_journal_id'', JNull), (''submission_id'', JString sample_yield_id), (''outcome'', JString outcome)]"

definition sample_database :: "(YieldSubmissionJob list, unit) YieldDatabase" where
  "sample_database =
     \<lparr>yd_activeStore = (\<lambda>_. None), yd_withTransaction = (\<lambda>m. m),
      yd_query = (\<lambda>_ _ w. (Inr [sample_row ''COMMITTED''], w)),
      yd_enqueue = (\<lambda>_ job w. (Inr (yj_id job), job # w)), yd_code = (\<lambda>_. None)\<rparr>"

definition sample_hash :: string where
  "sample_hash = replicate 64 CHR ''a''"

definition sample_submit :: TransitionYieldOperationCommand where
  "sample_submit =
     \<lparr>yx_actorAccountId = sample_yield_id, yx_correlationId = sample_yield_id,
      yx_transition = sample_move USER_APPROVED SUBMITTED SUBMISSION_RECORDED\<rparr>"

definition sample_yield_context :: YieldOperationIdempotencyContext where
  "sample_yield_context =
     \<lparr>yi_actorAccountId = sample_yield_id, yi_commandKind = Kind_TRANSITION, yi_contractVersion = 1,
      yi_keyDigest = sample_hash, yi_fingerprintVersion = 1, yi_requestFingerprint = sample_hash\<rparr>"

text \<open>A pool with one client: the jobs of the open transaction, the committed ones, and whether one is open.\<close>

type_synonym sample_world = "YieldSubmissionJob list \<times> YieldSubmissionJob list \<times> bool"

fun sample_client :: "YieldOperationCommandKind PostgresStatement \<Rightarrow> (sample_world, unit, jsval list) action" where
  "sample_client (Statement _ _) w = (Inr [sample_row ''COMMITTED''], w)"
| "sample_client (Control text) (pending, committed, opened) =
     (Inr [], if text = ''COMMIT'' then (pending, pending, False) else (committed, committed, text \<noteq> ''ROLLBACK''))"

definition sample_pool :: "(sample_world, unit, YieldOperationCommandKind, unit) PostgresPool" where
  "sample_pool =
     \<lparr>pp_connect = act_return (), pp_release = (\<lambda>_. act_return ()), pp_clientQuery = (\<lambda>_. sample_client),
      pp_query = sample_client, pp_sleep = (\<lambda>_ w. w), pp_code = (\<lambda>_. None)\<rparr>"

fun sample_publish :: "unit option \<Rightarrow> LogCorrelationContext \<Rightarrow> YieldSubmissionJob \<Rightarrow> (sample_world, unit, string) action" where
  "sample_publish client _ job (pending, committed, opened) =
     (Inr (yj_id job), (job # pending, if client = None then job # committed else committed, opened))"

definition sample_begun :: "unit \<Rightarrow> sample_world \<Rightarrow> bool" where
  "sample_begun _ w = snd (snd w)"

definition sample_durable :: "sample_world \<Rightarrow> YieldSubmissionJob list" where
  "sample_durable w = fst (snd w)"

definition sample_service :: "((unit, sample_world) postgres_state, unit) YieldDatabase" where
  "sample_service = postgres_database sample_pool (\<lambda>_. None) sample_publish (\<lambda>_. None)"

lemma sample_transactional: "transactional sample_pool sample_begun sample_durable"
  by (auto simp: transactional_def sample_pool_def act_return_def sample_begun_def sample_durable_def beginStatement_def)

lemma sample_publishes: "publishes_inside sample_begun sample_durable sample_publish"
  by (auto simp: publishes_inside_def sample_begun_def sample_durable_def)

lemma sample_submission:
  "case repository_transition sample_service sample_submit sample_yield_context (None, [], [], False) of
     (Inr res, s) \<Rightarrow> ye_nextState (ys_transition res) = SUBMITTED \<and> \<not> ys_replayed res \<and> length (sample_durable (snd s)) = 1
   | _ \<Rightarrow> False"
  by code_simp

lemma sample_submission_result:
  obtains res s where "repository_transition sample_service sample_submit sample_yield_context (None, [], [], False) = (Inr res, s)"
    "ye_nextState (ys_transition res) = SUBMITTED" "\<not> ys_replayed res" "length (sample_durable (snd s)) = 1"
  using sample_submission by (auto split: prod.splits sum.splits)

text \<open>C11. A submission is enqueued in the transaction that records it, and only there. A transition runs in a
  transaction of its own: when it fails, whatever fails, nothing has been committed. When it returns, the result
  is an allowed transition of the ledger with the journal and the submission its state asks for, read from the
  answer of the statement that one client ran with exactly the command's values in an open transaction, before
  anything was committed; a fresh submission has enqueued the job of exactly that submission on the same client
  before the COMMIT that ends the transaction, anything else has enqueued nothing, and what is durable in the end
  is what that COMMIT made durable. The database and the publisher are assumed to keep a transaction together.
\<close>

theorem submissions_are_enqueued_with_their_transition:
  assumes "transactional P begun durable" "publishes_inside begun durable publish"
    and "D = postgres_database P store publish code_of"
    and "repository_transition D command idempotency (None, w) = (outcome, s)"
  shows "case outcome of
      Inl e \<Rightarrow> durable (snd s) = durable w
    | Inr res \<Rightarrow> ledger_result res \<and>
        (\<exists>client n c rows w1 w2 w3 w4 answer.
           normalizeTransitionYieldOperationCommand (transition_command_object command) = Inr n \<and>
           normalizeYieldOperationIdempotencyContext (context_value idempotency) = Inr c \<and>
           begun client w1 \<and> durable w1 = durable w \<and>
           pp_clientQuery P client (Statement Kind_TRANSITION (transition_values n c)) w1 = (Inr rows, w2) \<and>
           returnedResult rows = Inr res \<and>
           (if ye_nextState (ys_transition res) = SUBMITTED \<and> \<not> ys_replayed res
            then \<exists>i ctx. ys_submissionId res = Some i \<and> publish (Some client) ctx (submission_job res i) w2 = (Inr i, w3)
            else w3 = w2) \<and>
           begun client w3 \<and> durable w3 = durable w \<and>
           pp_clientQuery P client (Control ''COMMIT'') w3 = (Inr answer, w4) \<and> durable (snd s) = durable w4)"
proof (cases "\<exists>n c. normalizeTransitionYieldOperationCommand (transition_command_object command) = Inr n \<and>
      normalizeYieldOperationIdempotencyContext (context_value idempotency) = Inr c \<and>
      \<not> (yi_commandKind c \<noteq> Kind_TRANSITION \<or> yi_actorAccountId c \<noteq> yx_actorAccountId n)")
  case False
  then have "\<exists>e. outcome = Inl e" "s = (None, w)" using assms(4) by (auto dest: transition_refused)
  then show ?thesis by auto
next
  case True
  then obtain n c where n: "normalizeTransitionYieldOperationCommand (transition_command_object command) = Inr n"
      "normalizeYieldOperationIdempotencyContext (context_value idempotency) = Inr c"
      "\<not> (yi_commandKind c \<noteq> Kind_TRANSITION \<or> yi_actorAccountId c \<noteq> yx_actorAccountId n)" by blast
  obtain r where run: "withTransaction P (\<lambda>_. transition_body D n c) no_options (None, w) = (r, s)"
      and outcome: "outcome = lift_error (persistenceError code_of) r"
    using transition_runs [OF n assms(3,4)] by blast
  note contained = body_contained [OF assms(1,2), of store code_of n c, folded assms(3)]
  note ended = transaction_outcome [OF assms(1) contained run]
  show ?thesis
  proof (cases r)
    case (Inl e)
    then show ?thesis using ended outcome by simp
  next
    case (Inr res)
    obtain client w1 w3 w4 where t: "durable w1 = durable w" "begun client w1" "durable (snd s) = durable w4"
        "committed_by P client (\<lambda>_. transition_body D n c) w1 res w3 w4"
      using ended Inr by auto
    obtain rows w2 answer where b:
        "pp_clientQuery P client (Statement Kind_TRANSITION (transition_values n c)) w1 = (Inr rows, w2)"
        "returnedResult rows = Inr res"
        "if ys_submissionId res \<noteq> None \<and> \<not> ys_replayed res
         then \<exists>i ctx. ys_submissionId res = Some i \<and> publish (Some client) ctx (submission_job res i) w2 = (Inr i, w3)
         else w3 = w2"
        "pp_clientQuery P client (Control ''COMMIT'') w3 = (Inr answer, w4)"
      using committed_transition [OF assms(3) t(4)] by blast
    have "begun client w3 \<and> durable w3 = durable w" by (rule kept_inside [OF assms(1,2) t(2,1) b(1,3)])
    moreover have submitted: "(ys_submissionId res \<noteq> None) = (ye_nextState (ys_transition res) = SUBMITTED)" and "ledger_result res"
      using returnedResult_sound [OF b(2)] by (simp_all add: ledger_result_def Let_def)
    moreover have "outcome = Inr res" using outcome Inr by simp
    ultimately show ?thesis
      using n(1,2) t(1-3) b(1,2,4) b(3) [unfolded submitted] by (simp only: sum.case) blast
  qed
qed

lemma submissions_are_enqueued_with_their_transition_witness:
  "\<exists>res s i. repository_transition sample_service sample_submit sample_yield_context (None, [], [], False) = (Inr res, s) \<and>
     ledger_result res \<and> ys_submissionId res = Some i \<and> sample_durable (snd s) = [submission_job res i]"
proof -
  obtain res s where r: "repository_transition sample_service sample_submit sample_yield_context (None, [], [], False) = (Inr res, s)"
      "ye_nextState (ys_transition res) = SUBMITTED" "\<not> ys_replayed res" "length (sample_durable (snd s)) = 1"
    by (rule sample_submission_result)
  obtain job where job: "fst (snd (snd s)) = [job]" using r(4) by (auto simp: sample_durable_def length_Suc_conv)
  show ?thesis
    using submissions_are_enqueued_with_their_transition [OF sample_transactional sample_publishes sample_service_def r(1)] r
    by (auto simp: sample_pool_def sample_begun_def sample_durable_def job split: prod.splits)
qed

text \<open>C30. No command of the service is refused before the database. When the hash returns digests, the repository
  accepts every valid command with the idempotency context the service made for it, and its outcome is that of
  the transaction on exactly this command and context.
\<close>

theorem service_commands_reach_the_database:
  assumes "\<forall>b. sha256_hex (sha256 b)" "uuid_v4 actor" "uuid_v4 corr"
    and "valid_create oper" "c = \<lparr>yc_actorAccountId = actor, yc_correlationId = corr, yc_operation = oper\<rparr>"
      "createYieldOperationIdempotencyContext sha256 key c = Inr x"
    and "valid_transition t" "n = \<lparr>yx_actorAccountId = actor, yx_correlationId = corr, yx_transition = t\<rparr>"
      "createYieldTransitionIdempotencyContext sha256 key' n = Inr y"
  shows "repository_create D c x w = persisted D (yd_withTransaction D (create_body D c x)) w \<and>
    repository_transition D n y w = persisted D (yd_withTransaction D (transition_body D n y)) w"
proof -
  have x: "normalizeYieldOperationIdempotencyContext (context_value x) = Inr x \<and> yi_commandKind x = Kind_CREATE \<and> yi_actorAccountId x = actor"
    using assms(5,6) by (intro context_accepted [OF _ assms(1)]) (simp add: createYieldOperationIdempotencyContext_def)
  have y: "normalizeYieldOperationIdempotencyContext (context_value y) = Inr y \<and> yi_commandKind y = Kind_TRANSITION \<and> yi_actorAccountId y = actor"
    using assms(8,9) by (intro context_accepted [OF _ assms(1)]) (simp add: createYieldTransitionIdempotencyContext_def)
  show ?thesis
    using x y create_object_accepted [OF assms(4,2,3)] transition_object_accepted [OF assms(7,2,3)] assms(5,8)
    by (simp add: repository_create_def repository_transition_def persisted_def act_lift_def act_bind_def act_pure_def)
qed

lemma service_commands_reach_the_database_witness:
  "\<exists>y. createYieldTransitionIdempotencyContext (\<lambda>_. sample_hash) (JString ''key-1'') sample_submit = Inr y \<and>
     repository_transition sample_database sample_submit y [] = persisted sample_database (transition_body sample_database sample_submit y) []"
proof -
  have hash: "sha256_hex sample_hash" by code_simp
  have key: "\<exists>d. digestYieldOperationIdempotencyKey (\<lambda>_. sample_hash) (JString ''key-1'') = Inr d" by (rule exI) code_simp
  have move: "isAllowedLedgerLifecycleTransition (Some USER_APPROVED) SUBMITTED SUBMISSION_RECORDED" by code_simp
  let ?c = "\<lparr>yc_actorAccountId = sample_yield_id, yc_correlationId = sample_yield_id, yc_operation = sample_create\<rparr>"
  obtain x y where xy: "createYieldOperationIdempotencyContext (\<lambda>_. sample_hash) (JString ''key-1'') ?c = Inr x"
      "createYieldTransitionIdempotencyContext (\<lambda>_. sample_hash) (JString ''key-1'') sample_submit = Inr y"
    using key by (auto simp: createYieldOperationIdempotencyContext_def createYieldTransitionIdempotencyContext_def
        createContext_def parse_id_defs sample_yield_uuid sample_submit_def)
  have "repository_transition sample_database sample_submit y [] =
      persisted sample_database (yd_withTransaction sample_database (transition_body sample_database sample_submit y)) []"
    using service_commands_reach_the_database [OF _ sample_yield_uuid sample_yield_uuid create_sound [OF sample_create_accepted] refl xy(1)
        transition_sound [OF sample_move_accepted [OF move]] sample_submit_def xy(2), of sample_database "[]"] hash by simp
  then show ?thesis using xy(2) by (auto simp: sample_database_def)
qed

end
