(* ===== verification/Spec2Isabelle.thy ===== *)
theory Spec2Isabelle
  imports Ledger_Service Routing_Fee_Correct Action_Lifecycle_Protocol Allocation_Correct Valuation_Theorems Depeg_Latch_Theorems Buying_Power_Theorems Yield_Repository_Theorems
begin

text \<open>
  A model and verification of the core logic of the Crypto Lending platform, the TypeScript service
  under \<^verbatim>\<open>src/apps/api/src\<close>. This theory imports all others. Each theory opens with a
  text that says which source file it models; definitions carry the names of the source.

  The program and how its parts interact. Requests reach services through controllers; every
  domain module first copies an untrusted value by reflection (exact keys, data properties only) and
  parses it into a frozen record, then computes on that record only. The ledger service posts balanced
  journals under idempotency keys and drives the lifecycle of a transaction; the routing-fee module
  prices a route; the asset registry says which tokens on which networks exist, and is consulted by the
  mainnet-action intents, by the stablecoin valuation and by the recovery from a depeg; the
  mainnet-action protocol records what is known of one action at most once; the allocation policy ranks
  opportunities by their return after costs and stays within exposure limits; the logging context
  follows asynchronous work.

  Values and effects.
  \<^item> \<open>Js_Prelude\<close>: a throw is \<open>Inl code\<close> of a sum, \<open>res_bind\<close> sequences, \<open>require\<close> is a guard; the
    collection \<open>res_simps\<close> inverts them. \<open>Js_Action\<close>: asynchronous steps on a world.
  \<^item> \<open>Js_Value\<close>: JavaScript values as reflection sees them (prototypes, descriptors, symbols, proxies),
    the record and array copies; the locales \<open>text_enum\<close> (closed sets of spellings) and \<open>validator\<close> (what
    is accepted is valid, and a valid value written out is accepted and comes back), interpreted for
    every enumeration and for the command parsers.
  \<^item> \<open>Decimal_Text\<close>, \<open>Iso_Time\<close>, \<open>Canonical_Values\<close>, \<open>Base58\<close>, \<open>Js_Sort\<close>: decimal texts and \<^verbatim>\<open>BigInt\<close>,
    ECMAScript dates, 256-bit amounts, Base58, stable sorting; the lemmas say what the regular
    expressions and text comparisons of the sources mean for the values.
  \<^item> \<open>Json_Text\<close>: a JSON text determines its value, the fact every fingerprint relies on.

  Ledger (\<^verbatim>\<open>ledger/domain\<close>, \<^verbatim>\<open>ledger/application\<close>).
  \<^item> \<open>Ledger\<close> models \<^verbatim>\<open>ledger.ts\<close>: accepted journals are exactly the well-formed ones and balance in every
    asset; one accepted journal is out of order because times are compared as texts.
  \<^item> \<open>Ledger_Lifecycle\<close> models \<^verbatim>\<open>transaction-lifecycle.ts\<close>: the two rule tables as step relations, with
    invariants over their paths and a bound on the length of a path.
  \<^item> \<open>Ledger_Idempotency\<close> models \<^verbatim>\<open>idempotency.ts\<close>: the framing of the hashed fields is injective.
  \<^item> \<open>Ledger_Service\<close> models \<^verbatim>\<open>ledger.service.ts\<close> and its ports; the repository is a parameter with the
    documented behaviour of a transactional store, and posting refines an abstract once-only command.

  Routes, returns, allocation (\<^verbatim>\<open>routing-fees/domain\<close>, \<^verbatim>\<open>smart-lending/domain\<close>).
  \<^item> \<open>Routing_Fee\<close>, \<open>Routing_Fee_Correct\<close> model \<^verbatim>\<open>routing-fee.ts\<close>: exact rounding, disjoint rules, totals.
  \<^item> \<open>Fee_Return\<close> models \<^verbatim>\<open>fee-aware-return.ts\<close>: the sign of a return is exact, the order is total.
  \<^item> \<open>Allocation\<close>, \<open>Allocation_Policy\<close>, \<open>Allocation_Select\<close>, \<open>Allocation_Correct\<close> model
    \<^verbatim>\<open>fee-aware-allocation.ts\<close>: parser, assessment, selection within the limits, and the promises of a
    recommendation, stated against the return of the candidate computed from the request itself; the return arithmetic is that of \<open>Fee_Return\<close>.

  Wallets and assets (\<^verbatim>\<open>wallets/domain\<close>, \<^verbatim>\<open>blockchain/domain\<close>).
  \<^item> \<open>Wallet_Identity\<close> models \<^verbatim>\<open>wallet-identity.ts\<close>; \<open>Asset_Registry\<close>, \<open>Asset_Registry_Correct\<close> model
    \<^verbatim>\<open>supported-asset-registry.ts\<close> with the registries the program ships.

  Mainnet actions (\<^verbatim>\<open>mainnet-actions/domain\<close>).
  \<^item> \<open>Action_Values\<close>, \<open>Action_Intent\<close> model \<^verbatim>\<open>dormant-mainnet-financial-action.ts\<close>.
  \<^item> \<open>Action_Lifecycle\<close>, \<open>Action_Lifecycle_Correct\<close>, \<open>Action_Lifecycle_Protocol\<close> model
    \<^verbatim>\<open>dormant-mainnet-financial-action-lifecycle.ts\<close>: the operations are the events of a transition
    system; its invariant holds in every reachable state, and it refines a machine of stages. An accepted
    call may be delivered again at any later time; each accepted evidence digest stands for one report.

  Valuation (\<^verbatim>\<open>valuation/domain\<close>).
  \<^item> \<open>Valuation\<close>, \<open>Valuation_Policy\<close>, \<open>Valuation_Recovery\<close> model \<^verbatim>\<open>stablecoin-valuation-policy.ts\<close>;
    \<open>Valuation_Correct\<close>, \<open>Valuation_Recovery_Correct\<close>, \<open>Valuation_Properties\<close>, \<open>Valuation_Samples\<close> and
    \<open>Valuation_Theorems\<close> show which evidence is current, what a value is, when a depeg is reported, that
    accepted evidence is refused a second time, and exactly when a latch is cleared.
  \<^item> \<open>Depeg_Latch\<close> models \<^verbatim>\<open>stablecoin-depeg-latch.ts\<close>, the commands that record and clear a latch, with its JSON
    encoder. \<open>Depeg_Canonical\<close> and \<open>Depeg_Inject\<close> show what the encoder prints and that it determines the
    request; \<open>Depeg_Latch_Correct\<close>, \<open>Depeg_Samples\<close> and \<open>Depeg_Latch_Theorems\<close> show that a latch records a
    detected depeg, that a clear needs an accepted recovery and a second person, that an authorization covers
    one recovery, and that every latch can be cleared.
  \<^item> \<open>Buying_Power\<close> models the estimate of \<^verbatim>\<open>buying-power.ts\<close> and
    \<^verbatim>\<open>buying-power-calculator.ts\<close>, its adjustment port and clock as arguments; \<open>Buying_Power_Correct\<close> and
    \<open>Buying_Power_Theorems\<close> show that an estimate is exact and conservative, counts only eligible quoted
    contributions, never fails for what the port answers, and where it throws instead of refusing its input.
    \<open>Js_Array\<close> reads arrays as their \<^verbatim>\<open>map\<close> does.
  \<^item> \<open>Yield_Operation\<close>, \<open>Yield_Service\<close> and \<open>Yield_Repository\<close> model the domain, the idempotency contexts, the
    service and the repository of \<^verbatim>\<open>apps/api/src/yield-operations\<close>. The repository is written over a record of
    its database calls and its job publisher; \<open>postgres_database\<close> instantiates it with the database service.
    \<open>Yield_Correct\<close>, \<open>Yield_Theorems\<close>, \<open>Yield_Repository_Correct\<close> and
    \<open>Yield_Repository_Theorems\<close> show that an operation runs through the lifecycle of its ledger transaction, that
    its fingerprint identifies the command, that no command of the service is refused before the database, and
    that a fresh submission is enqueued on the client of its transition, before the COMMIT of that transaction,
    so that neither lasts without the other.
  \<^item> \<open>Postgres_Service\<close> models the transactions of \<^verbatim>\<open>infrastructure/database/postgres.service.ts\<close>: attempts and
    their retries, BEGIN, COMMIT and ROLLBACK, the client in the asynchronous context and the choice of the
    client or the pool by a query. The pool and its clients are an argument; what the properties need of them is
    the hypothesis \<open>transactional\<close>: only an answered COMMIT makes work lasting. A COMMIT that took effect and whose
    answer was lost is outside it. Cancellable queries, the health check and the shutdown are not modelled.

  Logging (\<^verbatim>\<open>infrastructure/logging\<close>): \<open>Logging_Context\<close> models \<^verbatim>\<open>logging-context.ts\<close>.

  Parameters of the model: SHA-256 (a function from bytes to a digest text; statements about
  fingerprints assume that it does not collide on the inputs at hand), the check of an EVM address by a
  library, the registry a module is started with, and the ports of the services. No function needs fuel:
  all loops are structural recursions or have a measure. Strings are lists of 8-bit characters; the
  patterns of the sources accept ASCII only.

  Not modelled: SQL (migrations, repositories, the latch's database function), RPC and signature
  libraries and the modules that only move data between them (mainnet-platforms, blockchain-sync,
  persistence and finality adapters), the web application, the infrastructure, audit and go-live scripts
  and the Solidity contracts. They are third-party behaviour, I/O or other languages; read models that
  are pure but were not reached are listed as such in the manifest. Freezing of objects is not
  represented: records are immutable.
\<close>

end
